(* ===== verification/FusePrelude.thy ===== *)
theory FusePrelude
  imports Main "HOL-Library.AList"
begin

text \<open>
  Shared vocabulary of the development: the JavaScript values the program uses (strings,
  timestamps, safe integers), thrown errors as the left summand of a sum, database tables as
  lists of rows with a primary key, and the two contracts every stateful component meets: a
  keyed table and a transactional state machine.
\<close>

named_theorems step_simps \<open>definitions unfolded by one-step case analyses\<close>
named_theorems wf_defs \<open>well-formedness predicates\<close>

section \<open>Results\<close>

text \<open>
  A TypeScript function that may throw returns \<open>'e + 'a\<close>: \<open>Inl e\<close> is the thrown error, \<open>Inr x\<close>
  the returned value. Sequencing stops at the first error, as an exception does.
\<close>

definition throw_if :: "bool \<Rightarrow> 'e \<Rightarrow> 'e + unit" where
  "throw_if b e = (if b then Inl e else Inr ())"

fun and_then :: "'e + 'a \<Rightarrow> ('a \<Rightarrow> 'e + 'b) \<Rightarrow> 'e + 'b" where
  "and_then (Inl e) f = Inl e"
| "and_then (Inr x) f = f x"

fun is_ok :: "'e + 'a \<Rightarrow> bool" where
  "is_ok (Inl e) = False"
| "is_ok (Inr x) = True"

lemma and_then_Inr_iff: "and_then r f = Inr y \<longleftrightarrow> (\<exists>x. r = Inr x \<and> f x = Inr y)"
  by (cases r) auto

lemma and_then_Inl_iff:
  "and_then r f = Inl e \<longleftrightarrow> r = Inl e \<or> (\<exists>x. r = Inr x \<and> f x = Inl e)"
  by (cases r) auto

lemma throw_if_Inr_iff [simp]: "throw_if b e = Inr u \<longleftrightarrow> \<not> b"
  by (simp add: throw_if_def)

lemma throw_if_Inl_iff [simp]: "throw_if b e = Inl e' \<longleftrightarrow> b \<and> e = e'"
  by (simp add: throw_if_def)

lemma is_ok_iff: "is_ok r \<longleftrightarrow> (\<exists>x. r = Inr x)"
  by (cases r) auto

text \<open>The first check that fails decides the error; no failing check means the value is accepted.\<close>

fun first_error :: "(bool \<times> 'e) list \<Rightarrow> 'e option" where
  "first_error [] = None"
| "first_error ((b, e) # cs) = (if b then Some e else first_error cs)"

lemma first_error_None_iff: "first_error cs = None \<longleftrightarrow> (\<forall>(b, e) \<in> set cs. \<not> b)"
  by (induction cs rule: first_error.induct) auto

lemma first_error_None_simps:
  "first_error ((b, e) # cs) = None \<longleftrightarrow> \<not> b \<and> first_error cs = None"
  "first_error (cs @ ds) = None \<longleftrightarrow> first_error cs = None \<and> first_error ds = None"
  by (auto simp: first_error_None_iff)

lemma first_error_Some_in: "first_error cs = Some e \<Longrightarrow> (True, e) \<in> set cs"
  by (induction cs rule: first_error.induct) (auto split: if_splits)

text \<open>Two validations in a row.\<close>

definition orElse :: "'e option \<Rightarrow> 'e option \<Rightarrow> 'e option" where
  "orElse a b = (case a of Some e \<Rightarrow> Some e | None \<Rightarrow> b)"

lemma orElse_None [simp]: "orElse a b = None \<longleftrightarrow> a = None \<and> b = None"
  by (cases a) (auto simp: orElse_def)

section \<open>JavaScript values\<close>

text \<open>
  \<open>String.prototype.trim\<close> removes the ECMAScript white space and line terminators; in the 8-bit
  characters of the model these are TAB, LF, VT, FF, CR, SPACE and NBSP. The code uses it as
  \<open>!x.trim()\<close>, "the string is blank".
\<close>

definition js_space :: "char \<Rightarrow> bool" where
  "js_space c \<longleftrightarrow> (of_char c :: nat) \<in> {9, 10, 11, 12, 13, 32, 160}"

definition js_trim :: "string \<Rightarrow> string" where
  "js_trim s = rev (dropWhile js_space (rev (dropWhile js_space s)))"

definition blank :: "string \<Rightarrow> bool" where
  "blank s \<longleftrightarrow> js_trim s = []"

lemma blank_iff: "blank s \<longleftrightarrow> list_all js_space s"
proof
  assume "blank s"
  then have "dropWhile js_space (rev (dropWhile js_space s)) = []"
    by (simp add: blank_def js_trim_def)
  then have "\<forall>c \<in> set (dropWhile js_space s). js_space c" by simp
  then have "dropWhile js_space s = []"
    by (metis dropWhile_eq_Nil_conv hd_dropWhile hd_in_set)
  then show "list_all js_space s" by (simp add: list_all_iff)
next
  assume "list_all js_space s"
  then have "dropWhile js_space s = []" by (simp add: list_all_iff)
  then show "blank s" by (simp only: blank_def js_trim_def rev.simps dropWhile.simps)
qed

text \<open>\<open>toLowerCase\<close> and \<open>LOWER\<close> on ASCII text.\<close>

definition lower_char :: "char \<Rightarrow> char" where
  "lower_char c =
     (if 65 \<le> (of_char c :: nat) \<and> (of_char c :: nat) \<le> 90 then char_of (of_char c + 32 :: nat) else c)"

definition toLowerCase :: "string \<Rightarrow> string" where
  "toLowerCase t = map lower_char t"

text \<open>
  A timestamp string, classified by what \<open>Date.parse\<close> makes of it: an instant in milliseconds, or
  a text it reads as NaN. The program reads timestamps only through \<open>Date.parse\<close> and the database
  column that stores the instant; \<open>toISOString\<close> gives back a text that denotes the same instant.
\<close>

datatype timestamp = Instant int | NotATime string

fun date_parse :: "timestamp \<Rightarrow> int option" where
  "date_parse (Instant ms) = Some ms"
| "date_parse (NotATime s) = None"

definition bad_time :: "timestamp \<Rightarrow> bool" where
  "bad_time t \<longleftrightarrow> date_parse t = None"

text \<open>
  The instant of a timestamp that has passed the validation \<open>Number.isNaN(Date.parse t)\<close>. On a
  text that does not parse the code would hold NaN, which no comparison with satisfies.
\<close>

definition time_le :: "timestamp \<Rightarrow> timestamp \<Rightarrow> bool" where
  "time_le a b = (case (date_parse a, date_parse b) of (Some x, Some y) \<Rightarrow> x \<le> y | _ \<Rightarrow> False)"

lemma time_le_Instant [simp]: "time_le (Instant x) (Instant y) \<longleftrightarrow> x \<le> y"
  by (simp add: time_le_def)

text \<open>\<open>Number.isSafeInteger\<close> on a number with an integer value.\<close>

definition max_safe_integer :: int where
  "max_safe_integer = 9007199254740991"

definition safe_integer :: "int \<Rightarrow> bool" where
  "safe_integer n \<longleftrightarrow> - max_safe_integer \<le> n \<and> n \<le> max_safe_integer"

definition safe_nonneg :: "int \<Rightarrow> bool" where
  "safe_nonneg n \<longleftrightarrow> safe_integer n \<and> 0 \<le> n"

section \<open>Lists\<close>

lemma sum_list_nonneg_int: "(\<And>x. x \<in> set xs \<Longrightarrow> 0 \<le> f x) \<Longrightarrow> 0 \<le> (\<Sum>x\<leftarrow>xs. f x :: int)"
  by (induction xs) auto

lemma sum_list_mono_int:
  "(\<And>x. x \<in> set xs \<Longrightarrow> f x \<le> g x) \<Longrightarrow> (\<Sum>x\<leftarrow>xs. f x :: int) \<le> (\<Sum>x\<leftarrow>xs. g x)"
  by (induction xs) (auto intro: add_mono)

lemma sum_list_member_le:
  "x \<in> set xs \<Longrightarrow> (\<And>y. y \<in> set xs \<Longrightarrow> 0 \<le> f y) \<Longrightarrow> f x \<le> (\<Sum>y\<leftarrow>xs. f y :: int)"
  by (induction xs) (auto intro: add_increasing add_increasing2 sum_list_nonneg_int)

text \<open>A map over the pairs of an association list, with the one entry at a key singled out.\<close>

lemma sum_list_AList_update:
  assumes "distinct (map fst al)" and "map_of al k = Some v"
  shows "(\<Sum>(i, a)\<leftarrow>AList.update k w al. f a :: int) = (\<Sum>(i, a)\<leftarrow>al. f a) - f v + f w"
  using assms
proof (induction al)
  case Nil
  then show ?case by simp
next
  case (Cons p al)
  obtain i a where p: "p = (i, a)" by (cases p)
  show ?case
  proof (cases "i = k")
    case True
    with Cons p show ?thesis by simp
  next
    case False
    with Cons p show ?thesis by simp
  qed
qed


section \<open>Tables with a primary key\<close>

text \<open>
  A database table is the list of its rows in insertion order. \<open>tbl_find\<close> is a SELECT by primary
  key, \<open>tbl_insert\<close> an INSERT (\<open>None\<close> is the unique violation the database raises), \<open>tbl_update\<close> an
  UPDATE and \<open>tbl_delete\<close> a DELETE by primary key.
\<close>

definition tbl_find :: "('r \<Rightarrow> 'k) \<Rightarrow> 'k \<Rightarrow> 'r list \<Rightarrow> 'r option" where
  "tbl_find key k rows = find (\<lambda>r. key r = k) rows"

definition tbl_insert :: "('r \<Rightarrow> 'k) \<Rightarrow> 'r \<Rightarrow> 'r list \<Rightarrow> 'r list option" where
  "tbl_insert key r rows = (if tbl_find key (key r) rows = None then Some (rows @ [r]) else None)"

definition tbl_update :: "('r \<Rightarrow> 'k) \<Rightarrow> 'k \<Rightarrow> ('r \<Rightarrow> 'r) \<Rightarrow> 'r list \<Rightarrow> 'r list" where
  "tbl_update key k f rows = map (\<lambda>r. if key r = k then f r else r) rows"

definition tbl_delete :: "('r \<Rightarrow> 'k) \<Rightarrow> 'k \<Rightarrow> 'r list \<Rightarrow> 'r list" where
  "tbl_delete key k rows = filter (\<lambda>r. key r \<noteq> k) rows"

definition tbl_wf :: "('r \<Rightarrow> 'k) \<Rightarrow> 'r list \<Rightarrow> bool" where
  "tbl_wf key rows \<longleftrightarrow> distinct (map key rows)"

lemma tbl_find_None_iff: "tbl_find key k rows = None \<longleftrightarrow> k \<notin> key ` set rows"
  by (auto simp: tbl_find_def find_None_iff)

lemma tbl_find_SomeD: "tbl_find key k rows = Some r \<Longrightarrow> r \<in> set rows \<and> key r = k"
  by (auto simp: tbl_find_def find_Some_iff)

lemma tbl_find_in: "tbl_wf key rows \<Longrightarrow> r \<in> set rows \<Longrightarrow> tbl_find key (key r) rows = Some r"
  by (induction rows) (auto simp: tbl_find_def tbl_wf_def)

lemma tbl_find_append:
  "tbl_find key k (rows @ rows') =
     (case tbl_find key k rows of Some r \<Rightarrow> Some r | None \<Rightarrow> tbl_find key k rows')"
  by (induction rows) (auto simp: tbl_find_def)

lemma tbl_find_insert:
  "tbl_insert key r rows = Some rows' \<Longrightarrow>
     tbl_find key k rows' = (if k = key r then Some r else tbl_find key k rows)"
  by (auto simp: tbl_insert_def tbl_find_append split: if_splits option.splits)
    (auto simp: tbl_find_def)

lemma tbl_find_update:
  assumes "\<And>r. key (f r) = key r"
  shows "tbl_find key k (tbl_update key k' f rows) =
     (if k = k' then map_option f (tbl_find key k rows) else tbl_find key k rows)"
  using assms by (induction rows) (auto simp: tbl_find_def tbl_update_def)

lemma tbl_find_delete:
  "tbl_find key k (tbl_delete key k' rows) = (if k = k' then None else tbl_find key k rows)"
  by (induction rows) (auto simp: tbl_find_def tbl_delete_def)

lemma tbl_wf_insert: "tbl_wf key rows \<Longrightarrow> tbl_insert key r rows = Some rows' \<Longrightarrow> tbl_wf key rows'"
  by (auto simp: tbl_wf_def tbl_insert_def tbl_find_None_iff split: if_splits)

lemma map_key_update: "(\<And>r. key (f r) = key r) \<Longrightarrow> map key (tbl_update key k f rows) = map key rows"
  by (simp add: tbl_update_def)

lemma tbl_wf_update:
  "(\<And>r. key (f r) = key r) \<Longrightarrow> tbl_wf key rows \<Longrightarrow> tbl_wf key (tbl_update key k f rows)"
  by (simp add: tbl_wf_def map_key_update)

lemma tbl_wf_delete: "tbl_wf key rows \<Longrightarrow> tbl_wf key (tbl_delete key k rows)"
  by (simp add: tbl_wf_def tbl_delete_def distinct_map_filter)

lemma tbl_update_absent: "tbl_find key k rows = None \<Longrightarrow> tbl_update key k f rows = rows"
  by (induction rows) (auto simp: tbl_find_def tbl_update_def split: if_splits)

lemma sum_tbl_insert:
  "tbl_insert key r rows = Some rows' \<Longrightarrow> (\<Sum>x\<leftarrow>rows'. g x :: int) = (\<Sum>x\<leftarrow>rows. g x) + g r"
  by (auto simp: tbl_insert_def split: if_splits)

lemma sum_tbl_update:
  assumes "tbl_wf key rows" and "tbl_find key k rows = Some r"
  shows "(\<Sum>x\<leftarrow>tbl_update key k f rows. g x :: int) = (\<Sum>x\<leftarrow>rows. g x) - g r + g (f r)"
  using assms
proof (induction rows)
  case Nil
  then show ?case by (simp add: tbl_find_def)
next
  case (Cons x rows)
  show ?case
  proof (cases "key x = k")
    case True
    with Cons.prems have "x = r" and "tbl_find key k rows = None"
      by (auto simp: tbl_find_def tbl_wf_def find_None_iff intro: rev_image_eqI)
    with True show ?thesis
      using tbl_update_absent [of key k rows f] by (simp add: tbl_update_def)
  next
    case False
    with Cons show ?thesis by (simp add: tbl_find_def tbl_wf_def tbl_update_def)
  qed
qed

text \<open>\<open>Map.prototype.set\<close> keeps the position of a key that is present and appends a new one.\<close>

definition map_set :: "('r \<Rightarrow> 'k) \<Rightarrow> 'r \<Rightarrow> 'r list \<Rightarrow> 'r list" where
  "map_set key r rows =
     (case tbl_insert key r rows of Some rows' \<Rightarrow> rows'
      | None \<Rightarrow> tbl_update key (key r) (\<lambda>_. r) rows)"

lemma tbl_find_map_set: "tbl_find key k (map_set key r rows) = (if k = key r then Some r else tbl_find key k rows)"
proof (cases "tbl_insert key r rows")
  case None
  then have "tbl_find key (key r) rows \<noteq> None" by (auto simp: tbl_insert_def split: if_splits)
  moreover have "tbl_find key k (tbl_update key (key r) (\<lambda>_. r) rows) =
      (if k = key r then map_option (\<lambda>_. r) (tbl_find key k rows) else tbl_find key k rows)"
    by (induction rows) (auto simp: tbl_find_def tbl_update_def)
  ultimately show ?thesis using None by (auto simp: map_set_def)
next
  case (Some rows')
  then show ?thesis by (simp add: map_set_def tbl_find_insert [OF Some])
qed

lemma map_key_update_const: "map key (tbl_update key (key r) (\<lambda>_. r) rows) = map key rows"
  by (simp add: tbl_update_def)

lemma tbl_wf_map_set: "tbl_wf key rows \<Longrightarrow> tbl_wf key (map_set key r rows)"
  by (auto simp: map_set_def tbl_wf_insert split: option.splits)
    (simp add: tbl_wf_def map_key_update_const)

lemma map_set_new: "key r \<notin> key ` set rows \<Longrightarrow> map_set key r rows = rows @ [r]"
  by (simp add: map_set_def tbl_insert_def tbl_find_None_iff)

text \<open>Setting the entries of a map one by one in a fresh map copies it.\<close>

lemma fold_map_set: "tbl_wf key (rows0 @ rows) \<Longrightarrow> fold (map_set key) rows rows0 = rows0 @ rows"
proof (induction rows arbitrary: rows0)
  case Nil
  then show ?case by simp
next
  case (Cons r rows)
  then have "key r \<notin> key ` set rows0" by (auto simp: tbl_wf_def)
  with Cons show ?case by (simp add: map_set_new)
qed

text \<open>
  The contract a component's table gives its users: what a lookup returns after each statement,
  that the primary key stays unique, and how a column total changes.
\<close>

locale keyed_table =
  fixes key :: "'r \<Rightarrow> 'k"
    and lookup :: "'k \<Rightarrow> 'r list \<Rightarrow> 'r option"
    and insert_row :: "'r \<Rightarrow> 'r list \<Rightarrow> 'r list option"
    and update_row :: "'k \<Rightarrow> ('r \<Rightarrow> 'r) \<Rightarrow> 'r list \<Rightarrow> 'r list"
    and wf :: "'r list \<Rightarrow> bool"
  assumes lookup_key: "lookup k rows = Some r \<Longrightarrow> r \<in> set rows \<and> key r = k"
    and lookup_member: "wf rows \<Longrightarrow> r \<in> set rows \<Longrightarrow> lookup (key r) rows = Some r"
    and lookup_insert: "insert_row r rows = Some rows' \<Longrightarrow>
      lookup k rows' = (if k = key r then Some r else lookup k rows)"
    and insert_fails: "insert_row r rows = None \<longleftrightarrow> lookup (key r) rows \<noteq> None"
    and lookup_update: "(\<And>r. key (f r) = key r) \<Longrightarrow> lookup k (update_row k' f rows) =
      (if k = k' then map_option f (lookup k rows) else lookup k rows)"
    and wf_insert: "wf rows \<Longrightarrow> insert_row r rows = Some rows' \<Longrightarrow> wf rows'"
    and wf_update: "(\<And>r. key (f r) = key r) \<Longrightarrow> wf rows \<Longrightarrow> wf (update_row k f rows)"
    and sum_insert: "insert_row r rows = Some rows' \<Longrightarrow>
      (\<Sum>x\<leftarrow>rows'. g x :: int) = (\<Sum>x\<leftarrow>rows. g x) + g r"
    and sum_update: "wf rows \<Longrightarrow> lookup k rows = Some r \<Longrightarrow>
      (\<Sum>x\<leftarrow>update_row k f rows. g x :: int) = (\<Sum>x\<leftarrow>rows. g x) - g r + g (f r)"
begin

lemma lookup_inserted: "insert_row r rows = Some rows' \<Longrightarrow> lookup (key r) rows' = Some r"
  by (simp add: lookup_insert)

lemma insert_no_overwrite:
  "insert_row r rows = Some rows' \<Longrightarrow> lookup k rows = Some x \<Longrightarrow> lookup k rows' = Some x"
  by (metis insert_fails lookup_insert option.distinct(1))

lemma sum_update_le:
  assumes "wf rows" and "lookup k rows = Some r" and "g (f r) \<le> (g r :: int)"
  shows "(\<Sum>x\<leftarrow>update_row k f rows. g x) \<le> (\<Sum>x\<leftarrow>rows. g x)"
  using sum_update [OF assms(1,2), of g f] assms(3) by simp

lemma member_unique:
  "wf rows \<Longrightarrow> r \<in> set rows \<Longrightarrow> r' \<in> set rows \<Longrightarrow> key r = key r' \<Longrightarrow> r = r'"
  by (metis lookup_member option.inject)

end

lemma keyed_table_tbl:
  "keyed_table key (tbl_find key) (tbl_insert key) (tbl_update key) (tbl_wf key)"
proof (unfold_locales, goal_cases)
  case 1 then show ?case by (rule tbl_find_SomeD)
next
  case 2 then show ?case by (rule tbl_find_in)
next
  case 3 then show ?case by (rule tbl_find_insert)
next
  case 4 show ?case by (simp add: tbl_insert_def)
next
  case 5 then show ?case by (rule tbl_find_update)
next
  case 6 then show ?case by (rule tbl_wf_insert)
next
  case 7 then show ?case by (rule tbl_wf_update)
next
  case 8 then show ?case by (rule sum_tbl_insert)
next
  case 9 then show ?case by (rule sum_tbl_update)
qed

section \<open>Transactions\<close>

text \<open>
  A component with state is a step \<open>'op \<Rightarrow> 's \<Rightarrow> 'e + 's \<times> 'a\<close>. A step that throws leaves the state as
  it was: the database rolls the transaction back, and the in-memory classes check before they
  write. \<open>tx_run\<close> runs a sequence of operations.
\<close>

definition tx :: "('op \<Rightarrow> 's \<Rightarrow> 'e + ('s \<times> 'a)) \<Rightarrow> 'op \<Rightarrow> 's \<Rightarrow> 's" where
  "tx step op s = (case step op s of Inl _ \<Rightarrow> s | Inr (s', _) \<Rightarrow> s')"

fun tx_run :: "('op \<Rightarrow> 's \<Rightarrow> 'e + ('s \<times> 'a)) \<Rightarrow> 'op list \<Rightarrow> 's \<Rightarrow> 's" where
  "tx_run step [] s = s"
| "tx_run step (op # ops) s = tx_run step ops (tx step op s)"

text \<open>The operations of a run satisfy a side condition, each in the state it is applied to.\<close>

fun run_allowed ::
    "('op \<Rightarrow> 's \<Rightarrow> bool) \<Rightarrow> ('op \<Rightarrow> 's \<Rightarrow> 'e + ('s \<times> 'a)) \<Rightarrow> 'op list \<Rightarrow> 's \<Rightarrow> bool" where
  "run_allowed allowed step [] s = True"
| "run_allowed allowed step (op # ops) s =
     (allowed op s \<and> run_allowed allowed step ops (tx step op s))"

lemma tx_run_append: "tx_run step (xs @ ys) s = tx_run step ys (tx_run step xs s)"
  by (induction xs arbitrary: s) auto

lemma run_allowed_True [simp]: "run_allowed (\<lambda>_ _. True) step ops s"
  by (induction ops arbitrary: s) auto

locale transactional =
  fixes step :: "'op \<Rightarrow> 's \<Rightarrow> 'e + ('s \<times> 'a)"
    and allowed :: "'op \<Rightarrow> 's \<Rightarrow> bool"
    and inv :: "'s \<Rightarrow> bool"
  assumes step_inv: "inv s \<Longrightarrow> allowed op s \<Longrightarrow> step op s = Inr (s', a) \<Longrightarrow> inv s'"
begin

lemma tx_inv: "inv s \<Longrightarrow> allowed op s \<Longrightarrow> inv (tx step op s)"
  by (auto simp: tx_def split: sum.splits prod.splits intro: step_inv)

lemma run_inv: "inv s \<Longrightarrow> run_allowed allowed step ops s \<Longrightarrow> inv (tx_run step ops s)"
  by (induction ops arbitrary: s) (auto simp: tx_inv)

end

text \<open>A transactional component whose invariant bounds what is committed against each account.\<close>

locale guarded_budget = transactional +
  fixes committed :: "'s \<Rightarrow> 'k \<Rightarrow> int"
    and limit :: "'s \<Rightarrow> 'k \<Rightarrow> int"
  assumes inv_bound: "inv s \<Longrightarrow> committed s k \<le> limit s k"
begin

lemma run_within_limit:
  "inv s \<Longrightarrow> run_allowed allowed step ops s \<Longrightarrow>
     committed (tx_run step ops s) k \<le> limit (tx_run step ops s) k"
  by (rule inv_bound) (rule run_inv)

end

text \<open>Facts that, once established, no operation takes back.\<close>

locale irrevocable =
  fixes step :: "'op \<Rightarrow> 's \<Rightarrow> 'e + ('s \<times> 'a)"
    and final :: "'s \<Rightarrow> 'k \<Rightarrow> bool"
  assumes step_final: "final s k \<Longrightarrow> step op s = Inr (s', a) \<Longrightarrow> final s' k"
begin

lemma tx_final: "final s k \<Longrightarrow> final (tx step op s) k"
  by (auto simp: tx_def split: sum.splits prod.splits intro: step_final)

lemma run_final: "final s k \<Longrightarrow> final (tx_run step ops s) k"
  by (induction ops arbitrary: s) (auto simp: tx_final)

end

end
