(* ===== verification/Decimal.thy ===== *)
theory Decimal
  imports FusePrelude
begin

text \<open>
  Decimal numerals as the program reads and prints them: \<open>BigInt(text)\<close> on a digit string,
  \<open>bigint.toString()\<close>, \<open>padStart\<close>/\<open>padEnd\<close> with zeros, and the truncating division of bigint.
\<close>

section \<open>Digits\<close>

definition is_digit :: "char \<Rightarrow> bool" where
  "is_digit c \<longleftrightarrow> 48 \<le> (of_char c :: nat) \<and> (of_char c :: nat) \<le> 57"

definition digit_val :: "char \<Rightarrow> int" where
  "digit_val c = int (of_char c) - 48"

definition digit_char :: "nat \<Rightarrow> char" where
  "digit_char d = char_of (48 + d)"

lemma of_char_digit_char: "d < 10 \<Longrightarrow> (of_char (digit_char d) :: nat) = 48 + d"
  by (simp add: digit_char_def)

lemma is_digit_digit_char: "d < 10 \<Longrightarrow> is_digit (digit_char d)"
  by (simp add: is_digit_def of_char_digit_char)

lemma digit_val_digit_char: "d < 10 \<Longrightarrow> digit_val (digit_char d) = int d"
  by (simp add: digit_val_def of_char_digit_char)

lemma digit_val_nonneg: "is_digit c \<Longrightarrow> 0 \<le> digit_val c"
  by (simp add: is_digit_def digit_val_def)

lemma digit_val_less: "is_digit c \<Longrightarrow> digit_val c < 10"
  by (simp add: is_digit_def digit_val_def)

text \<open>\<open>BigInt(s)\<close> for a string of digits; the empty string reads as \<open>0n\<close>.\<close>

definition digits_val :: "string \<Rightarrow> int" where
  "digits_val s = foldl (\<lambda>acc c. acc * 10 + digit_val c) 0 s"

lemma foldl_digits:
  "foldl (\<lambda>acc c. acc * 10 + digit_val c) a s =
     a * 10 ^ length s + foldl (\<lambda>acc c. acc * 10 + digit_val c) 0 s"
  by (induction s rule: rev_induct) (simp_all add: algebra_simps)

lemma digits_val_Nil [simp]: "digits_val [] = 0"
  by (simp add: digits_val_def)

lemma digits_val_append: "digits_val (s @ t) = digits_val s * 10 ^ length t + digits_val t"
  unfolding digits_val_def foldl_append by (rule foldl_digits)

lemma digits_val_snoc: "digits_val (s @ [c]) = digits_val s * 10 + digit_val c"
  by (simp add: digits_val_def)

lemma digits_val_nonneg: "list_all is_digit s \<Longrightarrow> 0 \<le> digits_val s"
  by (induction s rule: rev_induct) (auto simp: digits_val_snoc digit_val_nonneg)

lemma digits_val_less: "list_all is_digit s \<Longrightarrow> digits_val s < 10 ^ length s"
proof (induction s rule: rev_induct)
  case Nil
  then show ?case by simp
next
  case (snoc c s)
  define p :: int where "p = 10 ^ length s"
  from snoc have "digits_val s < p" and "digit_val c < 10"
    by (simp_all add: digit_val_less p_def)
  then have "digits_val s * 10 + digit_val c < 10 * p" by linarith
  then show ?case by (simp add: digits_val_snoc p_def)
qed

definition zeros :: "nat \<Rightarrow> string" where
  "zeros n = replicate n (CHR ''0'')"

lemma length_zeros [simp]: "length (zeros n) = n"
  by (simp add: zeros_def)

lemma zeros_Suc: "zeros (Suc n) = zeros n @ [CHR ''0'']"
  by (simp add: zeros_def replicate_append_same)

lemma digit_zero [simp]: "is_digit (CHR ''0'')" "digit_val (CHR ''0'') = 0"
  by (simp_all add: is_digit_def digit_val_def)

lemma digits_val_zeros [simp]: "digits_val (zeros n) = 0"
  by (induction n) (simp_all add: zeros_Suc digits_val_snoc, simp add: zeros_def)

lemma list_all_zeros [simp]: "list_all is_digit (zeros n)"
  by (simp add: zeros_def list_all_iff)

section \<open>Printing\<close>

text \<open>\<open>bigint.toString()\<close> for a nonnegative value: no leading zeros, \<open>''0''\<close> for zero.\<close>

fun show_nat :: "nat \<Rightarrow> string" where
  "show_nat n = (if n < 10 then [digit_char n] else show_nat (n div 10) @ [digit_char (n mod 10)])"

declare show_nat.simps [simp del]

definition show_int :: "int \<Rightarrow> string" where
  "show_int i = (if i < 0 then CHR ''-'' # show_nat (nat (- i)) else show_nat (nat i))"

lemma show_nat_digits: "list_all is_digit (show_nat n)"
proof (induction n rule: show_nat.induct)
  case (1 n)
  then show ?case
    by (subst show_nat.simps) (auto simp: is_digit_digit_char)
qed

lemma show_nat_nonempty [simp]: "show_nat n \<noteq> []"
  by (subst show_nat.simps) simp

lemma digits_val_show_nat: "digits_val (show_nat n) = int n"
proof (induction n rule: show_nat.induct)
  case (1 n)
  show ?case
  proof (cases "n < 10")
    case True
    then show ?thesis
      by (subst show_nat.simps) (simp add: digits_val_def digit_val_digit_char)
  next
    case False
    with 1 have "digits_val (show_nat (n div 10)) = int (n div 10)" by simp
    with False show ?thesis
      by (subst show_nat.simps) (simp add: digits_val_snoc digit_val_digit_char zdiv_int zmod_int)
  qed
qed

lemma show_nat_length: "n < 10 ^ k \<Longrightarrow> 0 < k \<Longrightarrow> length (show_nat n) \<le> k"
proof (induction n arbitrary: k rule: show_nat.induct)
  case (1 n)
  show ?case
  proof (cases "n < 10")
    case True
    with 1 show ?thesis by (subst show_nat.simps) simp
  next
    case False
    with 1 obtain k' where k: "k = Suc k'" and "0 < k'"
      by (cases k; cases "k - 1") auto
    with 1 have "n div 10 < 10 ^ k'" by (simp add: less_mult_imp_div_less mult.commute)
    with 1 False \<open>0 < k'\<close> have "length (show_nat (n div 10)) \<le> k'" by blast
    with False k show ?thesis by (subst show_nat.simps) simp
  qed
qed

text \<open>\<open>s.padStart(w, "0")\<close> and \<open>s.padEnd(w, "0")\<close>.\<close>

definition pad_start :: "nat \<Rightarrow> string \<Rightarrow> string" where
  "pad_start w s = zeros (w - length s) @ s"

definition pad_end :: "nat \<Rightarrow> string \<Rightarrow> string" where
  "pad_end w s = s @ zeros (w - length s)"

lemma digits_val_pad_start [simp]: "digits_val (pad_start w s) = digits_val s"
  by (simp add: pad_start_def digits_val_append)

lemma digits_val_pad_end: "length s \<le> w \<Longrightarrow> digits_val (pad_end w s) = digits_val s * 10 ^ (w - length s)"
  by (simp add: pad_end_def digits_val_append)

lemma length_pad_start: "length s \<le> w \<Longrightarrow> length (pad_start w s) = w"
  by (simp add: pad_start_def)

section \<open>Division\<close>

text \<open>The bigint operators \<open>/\<close> and \<open>%\<close> truncate towards zero.\<close>

definition big_div :: "int \<Rightarrow> int \<Rightarrow> int" where
  "big_div a b = sgn a * sgn b * (\<bar>a\<bar> div \<bar>b\<bar>)"

definition big_mod :: "int \<Rightarrow> int \<Rightarrow> int" where
  "big_mod a b = a - big_div a b * b"

lemma big_div_nonneg: "0 \<le> a \<Longrightarrow> 0 < b \<Longrightarrow> big_div a b = a div b"
  by (cases "a = 0") (simp_all add: big_div_def)

lemma big_mod_nonneg: "0 \<le> a \<Longrightarrow> 0 < b \<Longrightarrow> big_mod a b = a mod b"
  by (simp add: big_mod_def big_div_nonneg minus_div_mult_eq_mod)

text \<open>Scanning: the maximal digit prefix of a string and what follows it.\<close>

definition span_digits :: "string \<Rightarrow> string \<times> string" where
  "span_digits s = (takeWhile is_digit s, dropWhile is_digit s)"

lemma span_digits_append:
  assumes "list_all is_digit s" and "t = [] \<or> \<not> is_digit (hd t)"
  shows "span_digits (s @ t) = (s, t)"
  using assms
  by (cases t) (auto simp: span_digits_def list_all_iff takeWhile_append2 dropWhile_append2
      takeWhile_append dropWhile_append)

lemma span_digits_digits: "span_digits s = (w, r) \<Longrightarrow> list_all is_digit w"
  by (auto simp: span_digits_def list_all_iff dest: set_takeWhileD)


text \<open>
  The regular expression \<open>/^\d+(\.\d+)?$/\<close> with its two digit groups, shared by every reader of
  decimal amounts; the readers differ in what they accept of the fraction.
\<close>

definition match_decimal :: "string \<Rightarrow> (string \<times> string) option" where
  "match_decimal s =
     (let (w, r) = span_digits s in
      if w = [] then None
      else case r of
        [] \<Rightarrow> Some (w, [])
      | c # f \<Rightarrow> if c = CHR ''.'' \<and> f \<noteq> [] \<and> list_all is_digit f then Some (w, f) else None)"

lemma match_decimal_digits:
  "match_decimal s = Some (w, f) \<Longrightarrow> list_all is_digit w \<and> list_all is_digit f \<and> w \<noteq> []"
  by (auto simp: match_decimal_def split: prod.splits if_splits list.splits dest: span_digits_digits)

lemma match_decimal_text:
  assumes "match_decimal s = Some (w, f)"
  shows "s = w @ (if f = [] then [] else CHR ''.'' # f)"
proof -
  have s: "s = fst (span_digits s) @ snd (span_digits s)"
    by (simp add: span_digits_def)
  from assms have "w = fst (span_digits s)" and "snd (span_digits s) = (if f = [] then [] else CHR ''.'' # f)"
    by (auto simp: match_decimal_def split: prod.splits if_splits list.splits)
  with s show ?thesis by simp
qed

lemma is_digit_dot [simp]: "\<not> is_digit (CHR ''.'')"
  by (simp add: is_digit_def)

lemma match_decimal_whole:
  "list_all is_digit w \<Longrightarrow> w \<noteq> [] \<Longrightarrow> match_decimal w = Some (w, [])"
  using span_digits_append [of w "[]"] by (simp add: match_decimal_def)

lemma match_decimal_fraction:
  "list_all is_digit w \<Longrightarrow> w \<noteq> [] \<Longrightarrow> list_all is_digit f \<Longrightarrow> f \<noteq> [] \<Longrightarrow>
     match_decimal (w @ CHR ''.'' # f) = Some (w, f)"
  using span_digits_append [of w "CHR ''.'' # f"] by (simp add: match_decimal_def)

end
