(* ===== verification/Json.thy ===== *)
theory Json
  imports Decimal
begin

text \<open>
  JSON values as the program builds and reads them, and \<open>JSON.stringify\<close> on them. Property order is
  the order of insertion, so an object is the list of its properties; numbers are integers. The
  main lemma says that the text determines the value, which the commitments rest on.
\<close>

datatype json =
    JNull | JBool bool | JNum int | JStr string | JArr "json list" | JObj "(string \<times> json) list"

definition hex_digit :: "nat \<Rightarrow> char" where
  "hex_digit n = (if n < 10 then char_of (48 + n) else char_of (87 + n))"

text \<open>\<open>QuoteJSONString\<close>: the short escapes, and \<open>\uXXXX\<close> for the other control characters.\<close>

definition escape_char :: "char \<Rightarrow> string" where
  "escape_char c =
     (let n = of_char c :: nat in
      if n = 34 then [CHR 0x5C, c]
      else if n = 92 then [c, c]
      else if n = 8 then [CHR 0x5C, CHR ''b'']
      else if n = 9 then [CHR 0x5C, CHR ''t'']
      else if n = 10 then [CHR 0x5C, CHR ''n'']
      else if n = 12 then [CHR 0x5C, CHR ''f'']
      else if n = 13 then [CHR 0x5C, CHR ''r'']
      else if n < 32 then [CHR 0x5C, CHR ''u'', CHR ''0'', CHR ''0'',
                           hex_digit (n div 16), hex_digit (n mod 16)]
      else [c])"

definition quote_string :: "string \<Rightarrow> string" where
  "quote_string s = [CHR 0x22] @ concat (map escape_char s) @ [CHR 0x22]"

fun comma_sep :: "string list \<Rightarrow> string" where
  "comma_sep [] = []"
| "comma_sep [x] = x"
| "comma_sep (x # y # xs) = x @ '','' @ comma_sep (y # xs)"

fun stringify :: "json \<Rightarrow> string" where
  "stringify JNull = ''null''"
| "stringify (JBool b) = (if b then ''true'' else ''false'')"
| "stringify (JNum n) = show_int n"
| "stringify (JStr s) = quote_string s"
| "stringify (JArr js) = ''['' @ comma_sep (map stringify js) @ '']''"
| "stringify (JObj ps) =
     ''{'' @ comma_sep (map (\<lambda>(k, j). quote_string k @ '':'' @ stringify j) ps) @ ''}''"

text \<open>Reading a property; a missing one is \<open>undefined\<close>.\<close>

fun obj_get :: "string \<Rightarrow> json \<Rightarrow> json option" where
  "obj_get k (JObj ps) = map_of ps k"
| "obj_get k _ = None"

section \<open>The text determines the value\<close>

lemma of_char_eq: "of_char c = (of_char d :: nat) \<longleftrightarrow> c = d"
  by (metis char_of_char)

lemma hex_digit_inj: "m < 16 \<Longrightarrow> n < 16 \<Longrightarrow> hex_digit m = hex_digit n \<Longrightarrow> m = n"
  by (auto simp: hex_digit_def dest!: arg_cong [of _ _ "of_char :: char \<Rightarrow> nat"] split: if_splits)

lemma hex_pair_inj:
  fixes c d :: char
  defines "m \<equiv> of_char c :: nat" and "n \<equiv> of_char d :: nat"
  assumes "m < 32" "n < 32" and "hex_digit (m div 16) = hex_digit (n div 16)"
    and "hex_digit (m mod 16) = hex_digit (n mod 16)"
  shows "c = d"
proof -
  have "m div 16 = n div 16" and "m mod 16 = n mod 16"
    using assms(3-) by (auto intro!: hex_digit_inj)
  then have "m = n" by (metis div_mult_mod_eq)
  then show ?thesis unfolding m_def n_def by (simp only: of_char_eq)
qed

lemma escape_char_cases:
  obtains (plain) "escape_char c = [c]" "c \<noteq> CHR 0x22" "c \<noteq> CHR 0x5C"
  | (short) x where "escape_char c = [CHR 0x5C, x]"
      "(of_char c :: nat, x) \<in> {(34, CHR 0x22), (92, CHR 0x5C), (8, CHR ''b''),
        (9, CHR ''t''), (10, CHR ''n''), (12, CHR ''f''), (13, CHR ''r'')}"
  | (hex) "escape_char c = [CHR 0x5C, CHR ''u'', CHR ''0'', CHR ''0'',
      hex_digit (of_char c div 16), hex_digit (of_char c mod 16)]" "(of_char c :: nat) < 32"
proof -
  let ?n = "of_char c :: nat"
  have c: "c = char_of ?n" by simp
  consider "?n = 34" | "?n = 92" | "?n = 8" | "?n = 9" | "?n = 10" | "?n = 12" | "?n = 13"
    | "?n < 32" "?n \<notin> {8, 9, 10, 12, 13}" | "32 \<le> ?n" "?n \<noteq> 34" "?n \<noteq> 92" by fastforce
  then show thesis
  proof cases
    case 1
    then have "(of_char c :: nat) = of_char CHR 0x22" by simp
    then have "c = CHR 0x22" by (simp only: of_char_eq)
    then show thesis by (intro short [of "CHR 0x22"]) (simp_all add: escape_char_def)
  next
    case 2
    then have "(of_char c :: nat) = of_char CHR 0x5C" by simp
    then have "c = CHR 0x5C" by (simp only: of_char_eq)
    then show thesis by (intro short [of "CHR 0x5C"]) (simp_all add: escape_char_def)
  next
    case 8 then show thesis by (intro hex) (simp_all add: escape_char_def Let_def)
  next
    case 9 then show thesis by (intro plain) (auto simp: escape_char_def Let_def)
  qed (auto simp: escape_char_def Let_def intro: short)
qed

lemma short_code:
  "(n, x) \<in> {(34, CHR 0x22), (92, CHR 0x5C), (8, CHR ''b''), (9, CHR ''t''), (10, CHR ''n''),
      (12, CHR ''f''), (13, CHR ''r'')} \<Longrightarrow>
    n = (if x = CHR 0x22 then 34 else if x = CHR 0x5C then 92 else if x = CHR ''b'' then 8
         else if x = CHR ''t'' then 9 else if x = CHR ''n'' then 10 else if x = CHR ''f'' then 12
         else (13 :: nat))"
  by auto

lemma escape_char_inj:
  assumes "escape_char c @ x = escape_char d @ y"
  shows "c = d \<and> x = y"
proof (cases rule: escape_char_cases [of c])
  case plain
  then show ?thesis using assms by (cases rule: escape_char_cases [of d]) auto
next
  case (short u)
  then show ?thesis using assms
  proof (cases rule: escape_char_cases [of d])
    case (short v)
    with \<open>escape_char c = [CHR 0x5C, u]\<close> assms have "u = v" "x = y" by simp_all
    moreover have "(of_char c :: nat) = of_char d"
      unfolding short_code [OF short(2)] short_code [OF \<open>(of_char c :: nat, u) \<in> _\<close>] \<open>u = v\<close> ..
    ultimately show ?thesis by (simp only: of_char_eq)
  qed auto
next
  case hex
  then show ?thesis using assms
  proof (cases rule: escape_char_cases [of d])
    case hex
    with \<open>escape_char c = _\<close> \<open>(of_char c :: nat) < 32\<close> assms show ?thesis
      by (auto intro: hex_pair_inj)
  qed auto
qed

lemma escape_char_no_quote: "escape_char c @ x \<noteq> CHR 0x22 # y"
  by (cases rule: escape_char_cases [of c]) auto

lemma escaped_inj:
  "concat (map escape_char s) @ CHR 0x22 # r = concat (map escape_char s') @ CHR 0x22 # r'
     \<Longrightarrow> s = s' \<and> r = r'"
proof (induction s arbitrary: s')
  case Nil
  then show ?case by (cases s') (auto dest: sym [THEN escape_char_no_quote [THEN notE]])
next
  case (Cons c s)
  then obtain d t where s': "s' = d # t"
    by (cases s') (auto dest: escape_char_no_quote [THEN notE])
  from Cons.prems have "escape_char c @ concat (map escape_char s) @ CHR 0x22 # r =
      escape_char d @ concat (map escape_char t) @ CHR 0x22 # r'" by (simp add: s')
  from escape_char_inj [OF this] Cons.IH [of t] show ?case by (simp add: s')
qed

lemma quote_string_inj: "quote_string s @ r = quote_string s' @ r' \<Longrightarrow> s = s' \<and> r = r'"
  using escaped_inj [of s r s' r'] by (simp add: quote_string_def)


text \<open>What may follow a value inside a text: the end, a comma or a closing bracket.\<close>

definition value_end :: "string \<Rightarrow> bool" where
  "value_end r \<longleftrightarrow> (case r of [] \<Rightarrow> True | c # _ \<Rightarrow> c \<in> {CHR '','', CHR '']'', CHR ''}''})"

lemma value_end_simps [simp]: "value_end []" "value_end (c # r) \<longleftrightarrow> c \<in> {CHR '','', CHR '']'', CHR ''}''}"
  by (simp_all add: value_end_def)

lemma value_end_no_digit: "value_end r \<Longrightarrow> takeWhile is_digit r = []"
  by (cases r) (auto simp: is_digit_def)

lemma show_nat_inj:
  assumes "show_nat m @ r = show_nat n @ r'" and "value_end r" and "value_end r'"
  shows "m = n \<and> r = r'"
proof -
  have digits: "takeWhile is_digit (show_nat k @ t) = show_nat k" if "value_end t" for k t
    using show_nat_digits [of k] value_end_no_digit [OF that]
    by (simp add: takeWhile_append list_all_iff)
  have "show_nat m = show_nat n"
    using arg_cong [OF assms(1), of "takeWhile is_digit"] by (simp add: digits assms(2,3))
  moreover from this have "int m = int n" by (metis digits_val_show_nat)
  ultimately show ?thesis using assms(1) by simp
qed

lemma show_nat_Cons: "\<exists>c t. show_nat n = c # t \<and> is_digit c"
  using show_nat_digits [of n] show_nat_nonempty [of n] by (cases "show_nat n") auto

lemma show_int_inj:
  assumes "show_int m @ r = show_int n @ r'" and "value_end r" and "value_end r'"
  shows "m = n \<and> r = r'"
proof -
  have minus: "show_nat k @ t \<noteq> CHR ''-'' # t'" for k t t'
    using show_nat_Cons [of k] by (auto simp: is_digit_def)
  show ?thesis
  proof (cases "m < 0"; cases "n < 0")
    assume "m < 0" "n < 0"
    with assms have "show_nat (nat (- m)) @ r = show_nat (nat (- n)) @ r'" by (simp add: show_int_def)
    from show_nat_inj [OF this assms(2,3)] \<open>m < 0\<close> \<open>n < 0\<close> show ?thesis by (simp add: nat_eq_iff)
  next
    assume "m < 0" "\<not> n < 0"
    with assms(1) have "show_nat (nat n) @ r' = CHR ''-'' # show_nat (nat (- m)) @ r"
      by (simp add: show_int_def)
    with minus show ?thesis by blast
  next
    assume "\<not> m < 0" "n < 0"
    with assms(1) show ?thesis using minus [of "nat m" r] by (simp add: show_int_def)
  next
    assume "\<not> m < 0" "\<not> n < 0"
    with assms have "show_nat (nat m) @ r = show_nat (nat n) @ r'" by (simp add: show_int_def)
    from show_nat_inj [OF this assms(2,3)] \<open>\<not> m < 0\<close> \<open>\<not> n < 0\<close> show ?thesis by (simp add: nat_eq_iff)
  qed
qed

text \<open>The first character of a value tells its constructor.\<close>

fun value_kind :: "json \<Rightarrow> nat" where
  "value_kind JNull = 0"
| "value_kind (JBool b) = 1"
| "value_kind (JNum n) = 2"
| "value_kind (JStr s) = 3"
| "value_kind (JArr js) = 4"
| "value_kind (JObj ps) = 5"

definition char_kind :: "char \<Rightarrow> nat" where
  "char_kind c = (if c = CHR ''n'' then 0 else if c = CHR ''t'' \<or> c = CHR ''f'' then 1
     else if c = CHR 0x22 then 3 else if c = CHR ''['' then 4 else if c = CHR ''{'' then 5
     else if is_digit c \<or> c = CHR ''-'' then 2 else 6)"

lemma char_kind_digit: "is_digit c \<Longrightarrow> char_kind c = 2"
  by (auto simp: char_kind_def is_digit_def)

lemma stringify_hd: "\<exists>c t. stringify j = c # t \<and> char_kind c = value_kind j"
proof (cases j)
  case (JNum n)
  then show ?thesis using show_nat_Cons [of "nat n"]
    by (cases "n < 0") (auto simp: show_int_def char_kind_digit, simp add: char_kind_def)
next
  case (JBool b)
  then show ?thesis by (cases b) (auto simp: char_kind_def)
qed (auto simp: quote_string_def char_kind_def)

lemma stringify_kind: "stringify j @ r = stringify j' @ r' \<Longrightarrow> value_kind j = value_kind j'"
  using stringify_hd [of j] stringify_hd [of j'] by auto

lemma stringify_not_close: "z \<in> {CHR '']'', CHR ''}''} \<Longrightarrow> stringify j @ r \<noteq> z # r'"
proof
  assume z: "z \<in> {CHR '']'', CHR ''}''}" and "stringify j @ r = z # r'"
  with stringify_hd [of j] have "char_kind z = value_kind j" by auto
  moreover have "char_kind z = 6" using z by (elim insertE emptyE) (simp_all add: char_kind_def is_digit_def)
  ultimately show False by (cases j) simp_all
qed

lemma comma_sep_Cons:
  "comma_sep (map f (x # xs)) = f x @ concat (map (\<lambda>y. CHR '','' # f y) xs)"
  by (induction xs arbitrary: x) auto

definition decodable :: "('a \<Rightarrow> string) \<Rightarrow> 'a set \<Rightarrow> bool" where
  "decodable f X \<longleftrightarrow> (\<forall>x\<in>X. \<forall>y r r'. f x @ r = f y @ r' \<longrightarrow> value_end r \<longrightarrow> value_end r' \<longrightarrow>
     x = y \<and> r = r')"

lemma decodableD:
  "decodable f X \<Longrightarrow> x \<in> X \<Longrightarrow> f x @ r = f y @ r' \<Longrightarrow> value_end r \<Longrightarrow> value_end r' \<Longrightarrow>
     x = y \<and> r = r'"
  unfolding decodable_def by blast

lemma decodable_subset: "decodable f X \<Longrightarrow> Y \<subseteq> X \<Longrightarrow> decodable f Y"
  unfolding decodable_def by blast

lemma comma_tail_inj:
  assumes item: "decodable f (set xs)"
    and z: "z \<in> {CHR '']'', CHR ''}''}"
    and eq: "concat (map (\<lambda>y. CHR '','' # f y) xs) @ z # r = concat (map (\<lambda>y. CHR '','' # f y) ys) @ z # r'"
  shows "xs = ys \<and> r = r'"
  using item eq
proof (induction xs arbitrary: ys)
  case Nil
  then show ?case using z by (cases ys) auto
next
  case (Cons x xs)
  then obtain y ys' where ys: "ys = y # ys'" using z by (cases ys) auto
  have after: "value_end (concat (map (\<lambda>y. CHR '','' # f y) us) @ z # t)" for us t
    using z by (cases us) auto
  have "f x @ (concat (map (\<lambda>y. CHR '','' # f y) xs) @ z # r) =
      f y @ (concat (map (\<lambda>y. CHR '','' # f y) ys') @ z # r')"
    using Cons.prems(2) by (simp add: ys)
  from decodableD [OF Cons.prems(1) _ this after after]
  have "x = y \<and> concat (map (\<lambda>y. CHR '','' # f y) xs) @ z # r =
      concat (map (\<lambda>y. CHR '','' # f y) ys') @ z # r'" by simp
  moreover have "decodable f (set xs)" by (rule decodable_subset [OF Cons.prems(1)]) auto
  ultimately show ?case using Cons.IH [of ys'] by (simp add: ys)
qed

lemma comma_sep_inj:
  assumes item: "decodable f (set xs)"
    and start: "\<And>x r r'. f x @ r \<noteq> z # r'" and z: "z \<in> {CHR '']'', CHR ''}''}"
    and eq: "comma_sep (map f xs) @ z # r = comma_sep (map f ys) @ z # r'"
  shows "xs = ys \<and> r = r'"
proof (cases xs)
  case Nil
  show ?thesis
  proof (cases ys)
    case Nil
    with eq \<open>xs = []\<close> show ?thesis by simp
  next
    case (Cons y ys')
    with eq \<open>xs = []\<close> have "f y @ concat (map (\<lambda>y. CHR '','' # f y) ys') @ z # r' = z # r"
      by (simp add: comma_sep_Cons del: list.map) simp
    with start show ?thesis by blast
  qed
next
  case (Cons x xs')
  have "ys \<noteq> []"
  proof
    assume "ys = []"
    with eq Cons have "f x @ concat (map (\<lambda>y. CHR '','' # f y) xs') @ z # r = z # r'"
      by (simp add: comma_sep_Cons del: list.map) simp
    with start show False by blast
  qed
  then obtain y ys' where ys: "ys = y # ys'" by (cases ys) auto
  have after: "value_end (concat (map (\<lambda>y. CHR '','' # f y) us) @ z # t)" for us t
    using z by (cases us) auto
  have "f x @ (concat (map (\<lambda>y. CHR '','' # f y) xs') @ z # r) =
      f y @ (concat (map (\<lambda>y. CHR '','' # f y) ys') @ z # r')"
    using eq by (simp only: Cons ys comma_sep_Cons append_assoc)
  from decodableD [OF item _ this after after]
  have "x = y \<and> concat (map (\<lambda>y. CHR '','' # f y) xs') @ z # r =
      concat (map (\<lambda>y. CHR '','' # f y) ys') @ z # r'" by (simp add: Cons)
  moreover have "decodable f (set xs')" by (rule decodable_subset [OF item]) (auto simp: Cons)
  ultimately show ?thesis using comma_tail_inj [of f xs' z r ys' r'] z by (simp add: Cons ys)
qed

lemma stringify_inj_app:
  "stringify j @ r = stringify j' @ r' \<Longrightarrow> value_end r \<Longrightarrow> value_end r' \<Longrightarrow> j = j' \<and> r = r'"
proof (induction j arbitrary: j' r r')
  case JNull
  then show ?case using stringify_kind [OF JNull.prems(1)] by (cases j') simp_all
next
  case (JBool b)
  then show ?case using stringify_kind [OF JBool.prems(1)] by (cases j') (simp_all split: if_splits)
next
  case (JNum n)
  then show ?case using stringify_kind [OF JNum.prems(1)] show_int_inj [of n r _ r'] by (cases j') simp_all
next
  case (JStr s)
  then show ?case using stringify_kind [OF JStr.prems(1)] quote_string_inj [of s r _ r'] by (cases j') simp_all
next
  case (JArr js)
  obtain ks where j': "j' = JArr ks" using stringify_kind [OF JArr.prems(1)] by (cases j') simp_all
  have "decodable stringify (set js)" unfolding decodable_def using JArr.IH by blast
  moreover have "comma_sep (map stringify js) @ CHR '']'' # r = comma_sep (map stringify ks) @ CHR '']'' # r'"
    using JArr.prems(1) by (simp add: j')
  ultimately have "js = ks \<and> r = r'"
    using comma_sep_inj [of stringify js "CHR '']''" r ks r'] stringify_not_close by simp
  then show ?case by (simp add: j')
next
  case (JObj ps)
  let ?f = "\<lambda>(k, j). quote_string k @ '':'' @ stringify j"
  obtain qs where j': "j' = JObj qs" using stringify_kind [OF JObj.prems(1)] by (cases j') simp_all
  have start: "?f p @ u \<noteq> CHR ''}'' # v" for p u v
    by (cases p) (simp add: quote_string_def)
  have "p = q \<and> u = v" if "p \<in> set ps" "?f p @ u = ?f q @ v" "value_end u" "value_end v" for p q u v
  proof -
    obtain k j l i where pq: "p = (k, j)" "q = (l, i)" by (cases p; cases q)
    with that(2) have "k = l" "stringify j @ u = stringify i @ v"
      using quote_string_inj [of k "'':'' @ stringify j @ u" l "'':'' @ stringify i @ v"] by simp_all
    with JObj.IH [of p j u i v] that pq show ?thesis by simp
  qed
  then have "decodable ?f (set ps)" unfolding decodable_def by blast
  moreover have "comma_sep (map ?f ps) @ CHR ''}'' # r = comma_sep (map ?f qs) @ CHR ''}'' # r'"
    using JObj.prems(1) by (simp add: j')
  ultimately have "ps = qs \<and> r = r'" using comma_sep_inj [of ?f ps "CHR ''}''" r qs r'] start by simp
  then show ?case by (simp add: j')
qed

lemma stringify_inj: "stringify j = stringify j' \<longleftrightarrow> j = j'"
  using stringify_inj_app [of j "[]" j' "[]"] by auto

end
