(* ===== verification/ReceiptCommitment.thy ===== *)
theory ReceiptCommitment
  imports Json "HOL-Library.Multiset"
begin

text \<open>
  \<open>src/src/core/receiptCommitment.ts\<close>: the receipts of a mandate are validated, put in sequence
  order, rendered as JSON and hashed. The hash (\<open>keccak256\<close> of the hex text, from the package viem)
  is the parameter \<open>keccak\<close>. The lemmas show that the order in which receipts are handed in does
  not matter, and that the JSON text commits to the mandate and to every field of every receipt.
\<close>

section \<open>Model\<close>

datatype commitment_error =
    INVALID_MANDATE_ID | INVALID_RECEIPT_FIELDS | INVALID_RECEIPT_SEQUENCE | INVALID_COST_ATOMIC
  | INVALID_INPUT_TOKENS | INVALID_OUTPUT_TOKENS | DUPLICATE_RECEIPT_SEQUENCE | DUPLICATE_REQUEST_ID

record committed_receipt =
  cr_sequence :: int
  cr_requestId :: string
  cr_childId :: string
  cr_inputTokens :: int
  cr_outputTokens :: int
  cr_costAtomic :: string
  cr_authorizationHash :: string
  cr_circuitState :: string

record receipt_bundle =
  rb_mandateId :: string
  rb_receipts :: "committed_receipt list"

record receipt_commitment =
  rc_bundle :: receipt_bundle
  rc_canonicalJson :: string
  rc_totalPaidAtomic :: int
  rc_hash :: string

text \<open>The pattern \<open>/^(0|[1-9]\d*)$/\<close>.\<close>

definition atomic_text :: "string \<Rightarrow> bool" where
  "atomic_text s \<longleftrightarrow> s = ''0'' \<or>
     (case s of [] \<Rightarrow> False | c # ds \<Rightarrow> is_digit c \<and> c \<noteq> CHR ''0'' \<and> list_all is_digit ds)"

definition validateReceipt :: "committed_receipt \<Rightarrow> commitment_error option" where
  "validateReceipt r = first_error
     [(cr_requestId r = [] \<or> cr_childId r = [] \<or> cr_authorizationHash r = [] \<or> cr_circuitState r = [],
       INVALID_RECEIPT_FIELDS),
      (\<not> safe_integer (cr_sequence r) \<or> cr_sequence r < 1, INVALID_RECEIPT_SEQUENCE),
      (\<not> atomic_text (cr_costAtomic r), INVALID_COST_ATOMIC),
      (\<not> safe_integer (cr_inputTokens r) \<or> cr_inputTokens r < 0, INVALID_INPUT_TOKENS),
      (\<not> safe_integer (cr_outputTokens r) \<or> cr_outputTokens r < 0, INVALID_OUTPUT_TOKENS)]"

text \<open>The loop over the sorted receipts, with its two sets of values seen so far.\<close>

fun check_receipts ::
    "int set \<Rightarrow> string set \<Rightarrow> committed_receipt list \<Rightarrow> commitment_error option" where
  "check_receipts seenSequences seenRequests [] = None"
| "check_receipts seenSequences seenRequests (r # rs) =
     (case validateReceipt r of
        Some e \<Rightarrow> Some e
      | None \<Rightarrow>
          if cr_sequence r \<in> seenSequences then Some DUPLICATE_RECEIPT_SEQUENCE
          else if cr_requestId r \<in> seenRequests then Some DUPLICATE_REQUEST_ID
          else check_receipts (insert (cr_sequence r) seenSequences)
                 (insert (cr_requestId r) seenRequests) rs)"

definition receipt_json :: "committed_receipt \<Rightarrow> json" where
  "receipt_json r = JObj
     [(''sequence'', JNum (cr_sequence r)), (''requestId'', JStr (cr_requestId r)),
      (''childId'', JStr (cr_childId r)), (''inputTokens'', JNum (cr_inputTokens r)),
      (''outputTokens'', JNum (cr_outputTokens r)), (''costAtomic'', JStr (cr_costAtomic r)),
      (''authorizationHash'', JStr (cr_authorizationHash r)),
      (''circuitState'', JStr (cr_circuitState r))]"

definition bundle_json :: "receipt_bundle \<Rightarrow> json" where
  "bundle_json b = JObj
     [(''version'', JNum 1), (''mandateId'', JStr (rb_mandateId b)),
      (''receipts'', JArr (map receipt_json (rb_receipts b)))]"

definition buildReceiptCommitment ::
    "(string \<Rightarrow> string) \<Rightarrow> string \<Rightarrow> committed_receipt list \<Rightarrow> commitment_error + receipt_commitment" where
  "buildReceiptCommitment keccak mandate input =
     (if mandate = [] then Inl INVALID_MANDATE_ID
      else (let receipts = sort_key cr_sequence input in
        case check_receipts {} {} receipts of
          Some e \<Rightarrow> Inl e
        | None \<Rightarrow>
            (let b = \<lparr>rb_mandateId = mandate, rb_receipts = receipts\<rparr>;
                 text = stringify (bundle_json b)
             in Inr \<lparr>rc_bundle = b, rc_canonicalJson = text,
                     rc_totalPaidAtomic = (\<Sum>r\<leftarrow>receipts. digits_val (cr_costAtomic r)),
                     rc_hash = keccak text\<rparr>)))"

section \<open>Accepted receipts\<close>

lemma check_receipts_None_iff:
  "check_receipts S Q rs = None \<longleftrightarrow>
     (\<forall>r\<in>set rs. validateReceipt r = None) \<and> distinct (map cr_sequence rs) \<and> distinct (map cr_requestId rs)
     \<and> cr_sequence ` set rs \<inter> S = {} \<and> cr_requestId ` set rs \<inter> Q = {}"
  by (induction rs arbitrary: S Q) (auto split: option.splits)

lemma sum_list_perm: "mset xs = mset ys \<Longrightarrow> (\<Sum>x\<leftarrow>xs. f x :: int) = (\<Sum>y\<leftarrow>ys. f y)"
proof -
  assume "mset xs = mset ys"
  then have "mset (map f xs) = mset (map f ys)" by simp
  then have "sum_mset (mset (map f xs)) = sum_mset (mset (map f ys))" by (rule arg_cong)
  then show ?thesis by (simp only: sum_mset_sum_list)
qed

lemma distinct_map_perm: "mset xs = mset ys \<Longrightarrow> distinct (map f xs) \<longleftrightarrow> distinct (map f ys)"
  by (rule mset_eq_imp_distinct_iff) simp

lemma buildReceiptCommitment_Inr:
  "buildReceiptCommitment keccak m rs = Inr c \<longleftrightarrow>
     m \<noteq> [] \<and> (\<forall>r\<in>set rs. validateReceipt r = None)
     \<and> distinct (map cr_sequence rs) \<and> distinct (map cr_requestId rs)
     \<and> rc_bundle c = \<lparr>rb_mandateId = m, rb_receipts = sort_key cr_sequence rs\<rparr>
     \<and> rc_canonicalJson c = stringify (bundle_json (rc_bundle c))
     \<and> rc_totalPaidAtomic c = (\<Sum>r\<leftarrow>rs. digits_val (cr_costAtomic r))
     \<and> rc_hash c = keccak (rc_canonicalJson c)"
proof -
  have dist: "distinct (map f (sort_key cr_sequence rs)) \<longleftrightarrow> distinct (map f rs)" for f :: "_ \<Rightarrow> 'z"
    by (rule distinct_map_perm) simp
  have total: "(\<Sum>r\<leftarrow>sort_key cr_sequence rs. digits_val (cr_costAtomic r)) =
      (\<Sum>r\<leftarrow>rs. digits_val (cr_costAtomic r))"
    by (rule sum_list_perm) simp
  have checked: "check_receipts {} {} (sort_key cr_sequence rs) = None \<longleftrightarrow>
      (\<forall>r\<in>set rs. validateReceipt r = None) \<and> distinct (map cr_sequence rs) \<and> distinct (map cr_requestId rs)"
    by (simp add: check_receipts_None_iff dist)
  show ?thesis
  proof (cases "check_receipts {} {} (sort_key cr_sequence rs)")
    case None
    with checked show ?thesis
      by (cases c) (auto simp: buildReceiptCommitment_def Let_def total)
  next
    case (Some e)
    with checked show ?thesis by (auto simp: buildReceiptCommitment_def)
  qed
qed

lemma commitment_fields:
  assumes "buildReceiptCommitment keccak m rs = Inr c"
  shows "rc_bundle c = \<lparr>rb_mandateId = m, rb_receipts = sort_key cr_sequence rs\<rparr>"
    and "rc_canonicalJson c = stringify (bundle_json (rc_bundle c))"
    and "rc_totalPaidAtomic c = (\<Sum>r\<leftarrow>rs. digits_val (cr_costAtomic r))"
    and "rc_hash c = keccak (rc_canonicalJson c)"
  using assms [unfolded buildReceiptCommitment_Inr] by blast+

lemma atomic_text_nonneg: "atomic_text s \<Longrightarrow> 0 \<le> digits_val s"
  by (rule digits_val_nonneg) (auto simp: atomic_text_def is_digit_def split: list.splits)

text \<open>
  The order in which the receipts are handed in does not matter: a permutation of an accepted
  list is accepted with the same bundle, text, total and hash.
\<close>

theorem commitment_order_irrelevant:
  assumes "buildReceiptCommitment keccak m rs = Inr c" and "mset rs' = mset rs"
  shows "buildReceiptCommitment keccak m rs' = Inr c"
proof -
  have "sort_key cr_sequence rs' = sort_key cr_sequence rs"
  proof (rule map_sorted_distinct_set_unique [where f = cr_sequence])
    have inj: "inj_on cr_sequence (set rs)"
      using assms(1) by (simp add: buildReceiptCommitment_Inr distinct_map)
    show "inj_on cr_sequence (set (sort_key cr_sequence rs') \<union> set (sort_key cr_sequence rs))"
      using inj mset_eq_setD [OF assms(2)] by simp
    show "distinct (map cr_sequence (sort_key cr_sequence rs))"
      "distinct (map cr_sequence (sort_key cr_sequence rs'))"
      using assms by (simp_all add: buildReceiptCommitment_Inr distinct_map_perm [OF mset_sort]
          distinct_map_perm [OF assms(2)])
  qed (simp_all add: mset_eq_setD [OF assms(2)])
  then show ?thesis
    using assms(1) mset_eq_setD [OF assms(2)]
    by (simp add: buildReceiptCommitment_Inr sum_list_perm [OF assms(2)] distinct_map_perm [OF assms(2)])
qed

definition sample_receipt :: "int \<Rightarrow> string \<Rightarrow> committed_receipt" where
  "sample_receipt n q = \<lparr>cr_sequence = n, cr_requestId = q, cr_childId = ''scout'', cr_inputTokens = 100,
     cr_outputTokens = 20, cr_costAtomic = ''600'', cr_authorizationHash = ''0xab'',
     cr_circuitState = ''HEALTHY''\<rparr>"

lemma sample_commitment:
  "is_ok (buildReceiptCommitment id ''m'' [sample_receipt 1 ''a'', sample_receipt 2 ''b''])"
  by code_simp

lemma commitment_order_irrelevant_witness:
  "\<exists>c. buildReceiptCommitment id ''m'' [sample_receipt 1 ''a'', sample_receipt 2 ''b''] = Inr c
     \<and> buildReceiptCommitment id ''m'' [sample_receipt 2 ''b'', sample_receipt 1 ''a''] = Inr c"
proof -
  obtain c where c: "buildReceiptCommitment id ''m'' [sample_receipt 1 ''a'', sample_receipt 2 ''b''] = Inr c"
    using sample_commitment by (auto simp: is_ok_iff)
  have "buildReceiptCommitment id ''m'' [sample_receipt 2 ''b'', sample_receipt 1 ''a''] = Inr c"
    by (rule commitment_order_irrelevant [OF c]) simp
  with c show ?thesis by blast
qed

section \<open>What the text commits to\<close>

lemma receipt_json_inj: "receipt_json r = receipt_json r' \<longleftrightarrow> r = r'"
  by (cases r; cases r') (auto simp: receipt_json_def)

lemma map_receipt_json_inj: "map receipt_json rs = map receipt_json rs' \<longleftrightarrow> rs = rs'"
  by (rule inj_map_eq_map) (simp add: inj_def receipt_json_inj)

lemma bundle_json_inj: "bundle_json b = bundle_json b' \<longleftrightarrow> b = b'"
  by (cases b; cases b') (auto simp: bundle_json_def map_receipt_json_inj)

text \<open>
  The commitment binds. Two accepted inputs with the same hash, where the hash does not collide
  on their two texts, are for the same mandate and hold the same receipts, hence the same total.
\<close>

theorem commitment_binds:
  assumes "buildReceiptCommitment keccak m rs = Inr c" and "buildReceiptCommitment keccak m' rs' = Inr c'"
    and "rc_hash c = rc_hash c'"
    and no_collision: "keccak (rc_canonicalJson c) = keccak (rc_canonicalJson c')
      \<longrightarrow> rc_canonicalJson c = rc_canonicalJson c'"
  shows "m = m' \<and> mset rs = mset rs' \<and> rc_totalPaidAtomic c = rc_totalPaidAtomic c'"
proof -
  note c = commitment_fields [OF assms(1)] and c' = commitment_fields [OF assms(2)]
  have "keccak (rc_canonicalJson c) = keccak (rc_canonicalJson c')"
    using assms(3) unfolding c(4) c'(4) .
  then have "rc_canonicalJson c = rc_canonicalJson c'" using no_collision by blast
  then have "rc_bundle c = rc_bundle c'" unfolding c(2) c'(2) by (simp only: stringify_inj bundle_json_inj)
  then have "m = m'" and sorted: "sort_key cr_sequence rs = sort_key cr_sequence rs'"
    unfolding c(1) c'(1) by simp_all
  from sorted have "mset (sort_key cr_sequence rs) = mset (sort_key cr_sequence rs')" by (rule arg_cong)
  then have perm: "mset rs = mset rs'" by simp
  show ?thesis unfolding c(3) c'(3) using \<open>m = m'\<close> perm sum_list_perm [OF perm] by blast
qed

lemma commitment_binds_witness:
  "\<exists>c c'. buildReceiptCommitment id ''m'' [sample_receipt 1 ''a'', sample_receipt 2 ''b''] = Inr c
     \<and> buildReceiptCommitment id ''m'' [sample_receipt 2 ''b'', sample_receipt 1 ''a''] = Inr c'
     \<and> mset [sample_receipt 1 ''a'', sample_receipt 2 ''b''] = mset [sample_receipt 2 ''b'', sample_receipt 1 ''a'']
     \<and> rc_totalPaidAtomic c = rc_totalPaidAtomic c'"
proof -
  let ?rs = "[sample_receipt 1 ''a'', sample_receipt 2 ''b'']"
    and ?rs' = "[sample_receipt 2 ''b'', sample_receipt 1 ''a'']"
  have "map_sum id rc_hash (buildReceiptCommitment id ''m'' ?rs) =
      map_sum id rc_hash (buildReceiptCommitment id ''m'' ?rs')"
    and "is_ok (buildReceiptCommitment id ''m'' ?rs)" "is_ok (buildReceiptCommitment id ''m'' ?rs')"
    by code_simp+
  then obtain c c' where c: "buildReceiptCommitment id ''m'' ?rs = Inr c"
    and c': "buildReceiptCommitment id ''m'' ?rs' = Inr c'" and hash: "rc_hash c = rc_hash c'"
    unfolding is_ok_iff by (metis map_sum.simps(2) sum.inject(2))
  have "''m'' = ''m'' \<and> mset ?rs = mset ?rs' \<and> rc_totalPaidAtomic c = rc_totalPaidAtomic c'"
    by (rule commitment_binds [OF c c' hash]) (simp only: id_apply simp_thms)
  with c c' show ?thesis by blast
qed

end
