(* ===== verification/Pricing.thy ===== *)
theory Pricing
  imports Complex_Main Decimal
begin

text \<open>
  \<open>src/src/core/pricing.ts\<close>: prices are decimal strings in USD per million tokens, costs are whole
  micro-USDC. The theory translates the parser, the ceiling division and the two cost functions,
  and proves that costs round up by less than one micro, that a provider cost string is read
  exactly and rounded up once, and that actual usage within the requested tokens never costs more
  than the reservation.
\<close>

section \<open>Model\<close>

datatype pricing_error = INVALID_PRICE | INVALID_PROVIDER_COST | INVALID_TOKEN_COUNT

record token_price =
  inputUsdPerMillion :: string
  outputUsdPerMillion :: string

record actual_usage =
  inputTokens :: int
  outputTokens :: int

record maximum_usage =
  mu_inputTokens :: int
  mu_maxOutputTokens :: int

definition SCALE :: int where
  "SCALE = 1000000"

definition decimalToScaled :: "string \<Rightarrow> pricing_error + int" where
  "decimalToScaled value =
     (case match_decimal value of
        Some (whole, fraction) \<Rightarrow>
          if length fraction \<le> 6
          then Inr (digits_val whole * SCALE + digits_val (pad_end 6 fraction))
          else Inl INVALID_PRICE
      | None \<Rightarrow> Inl INVALID_PRICE)"

definition ceilDiv :: "int \<Rightarrow> int \<Rightarrow> int" where
  "ceilDiv numerator denominator = big_div (numerator + denominator - 1) denominator"

text \<open>The groups of \<open>/^(\d+)(?:\.(\d+))?(?:[eE]([+-]?\d+))?$/\<close>: whole, fraction, exponent.\<close>

definition match_exponent :: "string \<Rightarrow> int option" where
  "match_exponent t =
     (case t of
        [] \<Rightarrow> None
      | c # ds \<Rightarrow>
          let (neg, body) = (if c = CHR ''-'' then (True, ds)
                             else if c = CHR ''+'' then (False, ds) else (False, t)) in
          if body \<noteq> [] \<and> list_all is_digit body
          then Some (if neg then - digits_val body else digits_val body) else None)"

definition split_fraction :: "string \<Rightarrow> string \<times> string" where
  "split_fraction rest =
     (case rest of
        c # t \<Rightarrow> if c = CHR ''.'' \<and> fst (span_digits t) \<noteq> [] then span_digits t else ([], rest)
      | [] \<Rightarrow> ([], rest))"

definition match_usd :: "string \<Rightarrow> (string \<times> string \<times> int) option" where
  "match_usd value =
     (let (whole, rest) = span_digits value;
          (fraction, rest') = split_fraction rest
      in if whole = [] then None
         else case rest' of
           [] \<Rightarrow> Some (whole, fraction, 0)
         | c # t \<Rightarrow>
             if c = CHR ''e'' \<or> c = CHR ''E''
             then map_option (\<lambda>e. (whole, fraction, e)) (match_exponent t) else None)"

definition usdToMicros :: "string \<Rightarrow> pricing_error + int" where
  "usdToMicros value =
     (case match_usd value of
        None \<Rightarrow> Inl INVALID_PROVIDER_COST
      | Some (whole, fraction, exponent) \<Rightarrow>
          if \<not> safe_integer exponent \<or> 100 < \<bar>exponent\<bar> then Inl INVALID_PROVIDER_COST
          else let digits = digits_val (whole @ fraction);
                   power = 6 + exponent - int (length fraction)
               in Inr (if 0 \<le> power then digits * 10 ^ nat power
                       else ceilDiv digits (10 ^ nat (- power))))"

definition tokenCostMicros :: "int \<Rightarrow> string \<Rightarrow> pricing_error + int" where
  "tokenCostMicros tokens usdPerMillion =
     (if \<not> safe_integer tokens \<or> tokens < 0 then Inl INVALID_TOKEN_COUNT
      else and_then (decimalToScaled usdPerMillion) (\<lambda>p. Inr (ceilDiv (tokens * p) SCALE)))"

definition calculateCostMicros :: "actual_usage \<Rightarrow> token_price \<Rightarrow> pricing_error + int" where
  "calculateCostMicros usage price =
     and_then (tokenCostMicros (inputTokens usage) (inputUsdPerMillion price)) (\<lambda>i.
     and_then (tokenCostMicros (outputTokens usage) (outputUsdPerMillion price)) (\<lambda>out.
       Inr (i + out)))"

definition calculateMaximumCostMicros :: "maximum_usage \<Rightarrow> token_price \<Rightarrow> pricing_error + int" where
  "calculateMaximumCostMicros usage price =
     calculateCostMicros
       \<lparr>inputTokens = mu_inputTokens usage, outputTokens = mu_maxOutputTokens usage\<rparr> price"

section \<open>Ceiling division\<close>

lemma ceilDiv_div: "0 \<le> a \<Longrightarrow> 0 < b \<Longrightarrow> ceilDiv a b = (a + b - 1) div b"
  by (simp add: ceilDiv_def big_div_nonneg)

lemma ceilDiv_bounds:
  assumes "0 \<le> a" and "0 < b"
  shows "a \<le> ceilDiv a b * b" and "ceilDiv a b * b < a + b"
proof -
  define q r where "q = (a + b - 1) div b" and "r = (a + b - 1) mod b"
  have "q * b + r = a + b - 1" unfolding q_def r_def by (rule div_mult_mod_eq)
  moreover have "0 \<le> r" and "r < b" using assms by (simp_all add: r_def)
  moreover have "ceilDiv a b = q" using assms by (simp add: ceilDiv_div q_def)
  ultimately show "a \<le> ceilDiv a b * b" and "ceilDiv a b * b < a + b" by auto
qed

lemma ceilDiv_nonneg: "0 \<le> a \<Longrightarrow> 0 < b \<Longrightarrow> 0 \<le> ceilDiv a b"
  by (simp add: ceilDiv_div pos_imp_zdiv_nonneg_iff)

lemma ceilDiv_mono: "0 \<le> a \<Longrightarrow> a \<le> a' \<Longrightarrow> 0 < b \<Longrightarrow> ceilDiv a b \<le> ceilDiv a' b"
  by (simp add: ceilDiv_div zdiv_mono1)

lemma ceilDiv_ceiling:
  assumes "0 \<le> a" and "0 < b"
  shows "ceilDiv a b = \<lceil>(of_int a :: rat) / of_int b\<rceil>"
proof -
  from ceilDiv_bounds [OF assms]
  have "of_int a \<le> (of_int (ceilDiv a b * b) :: rat)"
    and "(of_int (ceilDiv a b * b) :: rat) < of_int (a + b)"
    by (simp_all only: of_int_le_iff of_int_less_iff)
  then have "of_int (ceilDiv a b) - 1 < (of_int a :: rat) / of_int b"
    and "(of_int a :: rat) / of_int b \<le> of_int (ceilDiv a b)"
    using assms(2) by (simp_all add: field_simps)
  then show ?thesis by (simp add: ceiling_unique)
qed

section \<open>Reading decimal amounts\<close>

text \<open>The rational number a price string denotes.\<close>

definition decimal_value :: "string \<Rightarrow> rat option" where
  "decimal_value s = map_option
     (\<lambda>(w, f). of_int (digits_val (w @ f)) / 10 ^ length f) (match_decimal s)"

lemma decimalToScaled_nonneg: "decimalToScaled s = Inr p \<Longrightarrow> 0 \<le> p"
  by (auto simp: decimalToScaled_def SCALE_def pad_end_def split: option.splits if_splits
      dest!: match_decimal_digits intro!: add_nonneg_nonneg digits_val_nonneg)

lemma scaled_fraction:
  assumes "length f \<le> 6"
  shows "(of_int (digits_val w * SCALE + digits_val (pad_end 6 f)) :: rat) =
    of_int (digits_val (w @ f)) / 10 ^ length f * 1000000"
proof -
  have "(10::rat) ^ length f * 10 ^ (6 - length f) = 10 ^ 6"
    using assms by (simp flip: power_add)
  then have scale: "(1000000::rat) = 10 ^ length f * 10 ^ (6 - length f)" by simp
  show ?thesis
    by (simp add: digits_val_append digits_val_pad_end assms SCALE_def scale field_simps)
qed

lemma decimalToScaled_value:
  assumes "decimalToScaled s = Inr p"
  shows "\<exists>q. decimal_value s = Some q \<and> of_int p = q * 1000000"
  using assms
  by (auto simp: decimalToScaled_def decimal_value_def scaled_fraction
      simp del: of_int_add of_int_mult split: option.splits if_splits)

text \<open>The rational number a provider's USD string denotes, exponent included.\<close>

definition usd_value :: "string \<Rightarrow> rat option" where
  "usd_value s = map_option
     (\<lambda>(w, f, e). of_int (digits_val (w @ f)) * 10 powi (e - int (length f))) (match_usd s)"

lemma split_fraction_digits: "split_fraction r = (f, r') \<Longrightarrow> list_all is_digit f"
  by (cases r) (auto simp: split_fraction_def split: if_splits dest: span_digits_digits)

lemma match_usd_parts:
  assumes "match_usd s = Some (w, f, e)"
    and span: "span_digits s = (w', r)" and frac: "split_fraction r = (f', r')"
  shows "w = w' \<and> f = f'"
proof -
  have m: "(if w' = [] then None
            else case r' of [] \<Rightarrow> Some (w', f', 0)
              | c # t \<Rightarrow> if c = CHR ''e'' \<or> c = CHR ''E''
                         then map_option (\<lambda>e. (w', f', e)) (match_exponent t) else None) =
    Some (w, f, e)"
    using assms(1) unfolding match_usd_def span frac Let_def prod.case .
  show ?thesis
  proof (cases r')
    case Nil
    with m show ?thesis by (simp split: if_split_asm)
  next
    case (Cons c t)
    from m [unfolded Cons] show ?thesis by (simp split: if_split_asm) 
  qed
qed

lemma match_usd_digits: "match_usd s = Some (w, f, e) \<Longrightarrow> list_all is_digit (w @ f)"
  using match_usd_parts [of s w f e "fst (span_digits s)" "snd (span_digits s)"
      "fst (split_fraction (snd (span_digits s)))" "snd (split_fraction (snd (span_digits s)))"]
  by (auto simp: span_digits_digits [of s "fst (span_digits s)" "snd (span_digits s)"]
      intro: split_fraction_digits [of "snd (span_digits s)" _ "snd (split_fraction (snd (span_digits s)))"])

lemma usdToMicros_power:
  assumes "0 \<le> d"
  shows "(if 0 \<le> p then d * 10 ^ nat p else ceilDiv d (10 ^ nat (- p))) =
    \<lceil>(of_int d :: rat) * 10 powi p\<rceil>"
proof (cases "0 \<le> p")
  case True
  then have "(of_int d :: rat) * 10 powi p = of_int (d * 10 ^ nat p)"
    by (simp add: power_int_def)
  with True show ?thesis by (simp only: ceiling_of_int if_True)
next
  case False
  then have "(of_int d :: rat) * 10 powi p = of_int d / of_int (10 ^ nat (- p))"
    by (simp add: power_int_def field_simps)
  moreover have "ceilDiv d (10 ^ nat (- p)) = \<lceil>(of_int d :: rat) / of_int (10 ^ nat (- p))\<rceil>"
    using assms by (intro ceilDiv_ceiling) simp_all
  ultimately show ?thesis using False by (simp only: if_False)
qed


lemma usdToMicros_nonneg: "usdToMicros s = Inr m \<Longrightarrow> 0 \<le> m"
proof -
  assume m: "usdToMicros s = Inr m"
  then obtain w f e where parts: "match_usd s = Some (w, f, e)"
    by (auto simp: usdToMicros_def split: option.splits)
  then have "0 \<le> digits_val (w @ f)" by (intro digits_val_nonneg match_usd_digits)
  with m parts show "0 \<le> m"
    by (auto simp: usdToMicros_def Let_def ceilDiv_nonneg split: if_splits)
qed

text \<open>
  A provider cost string that is accepted denotes a rational amount of USD, and the micro-USDC
  charged are that amount times one million, rounded up once.
\<close>

theorem usdToMicros_exact:
  assumes "usdToMicros s = Inr m"
  shows "\<exists>q. usd_value s = Some q \<and> 0 \<le> q \<and> m = \<lceil>q * 1000000\<rceil>"
proof -
  from assms obtain w f e where parts: "match_usd s = Some (w, f, e)"
    by (auto simp: usdToMicros_def split: option.splits)
  define d p where "d = digits_val (w @ f)" and "p = 6 + e - int (length f)"
  have d: "0 \<le> d" using parts by (simp only: d_def) (intro digits_val_nonneg match_usd_digits)
  from assms parts have "m = (if 0 \<le> p then d * 10 ^ nat p else ceilDiv d (10 ^ nat (- p)))"
    by (auto simp: usdToMicros_def Let_def d_def p_def split: if_splits)
  then have "m = \<lceil>(of_int d :: rat) * 10 powi p\<rceil>" using usdToMicros_power [OF d] by simp
  moreover have "(10::rat) powi p = 10 powi (e - int (length f)) * 1000000"
    using power_int_add [of "10::rat" "e - int (length f)" 6] by (simp add: p_def algebra_simps)
  ultimately have "m = \<lceil>(of_int d * 10 powi (e - int (length f))) * 1000000 :: rat\<rceil>"
    by (simp add: mult.assoc)
  with parts d show ?thesis by (auto simp: usd_value_def d_def)
qed

lemma usdToMicros_exact_witness:
  "\<exists>q. usd_value ''1.25e-5'' = Some q \<and> 0 \<le> q \<and> 13 = \<lceil>q * 1000000\<rceil>"
proof -
  have "usdToMicros ''1.25e-5'' = Inr 13" by code_simp
  then show ?thesis by (rule usdToMicros_exact)
qed

section \<open>Token costs\<close>

lemma tokenCostMicros_Inr:
  "tokenCostMicros t s = Inr c \<longleftrightarrow>
     safe_integer t \<and> 0 \<le> t \<and> (\<exists>p. decimalToScaled s = Inr p \<and> c = ceilDiv (t * p) SCALE)"
  by (auto simp: tokenCostMicros_def and_then_Inr_iff)

lemma calculateCostMicros_Inr:
  "calculateCostMicros u price = Inr c \<longleftrightarrow>
     (\<exists>i out. tokenCostMicros (inputTokens u) (inputUsdPerMillion price) = Inr i
        \<and> tokenCostMicros (outputTokens u) (outputUsdPerMillion price) = Inr out \<and> c = i + out)"
  by (auto simp: calculateCostMicros_def and_then_Inr_iff)

lemma tokenCostMicros_nonneg: "tokenCostMicros t s = Inr c \<Longrightarrow> 0 \<le> c"
  by (auto simp: tokenCostMicros_Inr SCALE_def intro!: ceilDiv_nonneg dest: decimalToScaled_nonneg)

lemma calculateCostMicros_nonneg: "calculateCostMicros u p = Inr c \<Longrightarrow> 0 \<le> c"
  by (auto simp: calculateCostMicros_Inr dest!: tokenCostMicros_nonneg)

lemma tokenCostMicros_mono:
  assumes "tokenCostMicros t s = Inr c" and "tokenCostMicros t' s = Inr c'" and "t \<le> t'"
  shows "c \<le> c'"
proof -
  from assms obtain p where p: "decimalToScaled s = Inr p"
    and c: "c = ceilDiv (t * p) SCALE" and c': "c' = ceilDiv (t' * p) SCALE" and t: "0 \<le> t"
    by (auto simp: tokenCostMicros_Inr)
  have "0 \<le> p" using p by (rule decimalToScaled_nonneg)
  with assms(3) t show ?thesis
    unfolding c c' by (intro ceilDiv_mono) (auto simp: SCALE_def intro: mult_right_mono)
qed

lemma tokenCostMicros_bounds:
  assumes "tokenCostMicros t s = Inr c"
  shows "\<exists>q. decimal_value s = Some q \<and> of_int t * q \<le> of_int c \<and> of_int c < of_int t * q + 1"
proof -
  from assms obtain p where p: "decimalToScaled s = Inr p"
    and c: "c = ceilDiv (t * p) SCALE" and t: "0 \<le> t" by (auto simp: tokenCostMicros_Inr)
  from decimalToScaled_value [OF p] obtain q
    where q: "decimal_value s = Some q" and pq: "of_int p = q * 1000000" by blast
  have "0 \<le> t * p" using t decimalToScaled_nonneg [OF p] by simp
  then have "t * p \<le> c * SCALE" and "c * SCALE < t * p + SCALE"
    unfolding c by (intro ceilDiv_bounds; simp add: SCALE_def)+
  then have "of_int (t * p) \<le> (of_int (c * SCALE) :: rat)"
    and "(of_int (c * SCALE) :: rat) < of_int (t * p + SCALE)"
    by (simp_all only: of_int_le_iff of_int_less_iff)
  with q show ?thesis by (simp add: SCALE_def pq)
qed

text \<open>
  A charge covers the exact metered price of the tokens, and exceeds it by less than two
  micro-USDC (one rounding for each direction).
\<close>

theorem calculateCostMicros_tight:
  assumes "calculateCostMicros u price = Inr c"
  shows "\<exists>qi qo. decimal_value (inputUsdPerMillion price) = Some qi
    \<and> decimal_value (outputUsdPerMillion price) = Some qo
    \<and> of_int (inputTokens u) * qi + of_int (outputTokens u) * qo \<le> of_int c
    \<and> of_int c < of_int (inputTokens u) * qi + of_int (outputTokens u) * qo + 2"
proof -
  from assms obtain i out where i: "tokenCostMicros (inputTokens u) (inputUsdPerMillion price) = Inr i"
    and out: "tokenCostMicros (outputTokens u) (outputUsdPerMillion price) = Inr out" and c: "c = i + out"
    by (auto simp: calculateCostMicros_Inr)
  from tokenCostMicros_bounds [OF i] tokenCostMicros_bounds [OF out] show ?thesis
    unfolding c by fastforce
qed

lemma calculateCostMicros_tight_witness:
  "\<exists>qi qo. decimal_value ''0.15'' = Some qi \<and> decimal_value ''0.6'' = Some qo
    \<and> of_int 1001 * qi + of_int 7 * qo \<le> of_int 156
    \<and> of_int 156 < of_int 1001 * qi + of_int 7 * qo + 2"
proof -
  have "calculateCostMicros \<lparr>inputTokens = 1001, outputTokens = 7\<rparr>
      \<lparr>inputUsdPerMillion = ''0.15'', outputUsdPerMillion = ''0.6''\<rparr> = Inr 156" by code_simp
  from calculateCostMicros_tight [OF this] show ?thesis by simp
qed

text \<open>The exact cost of usage within the requested tokens never exceeds the reserved maximum.\<close>

lemma cost_within_maximum:
  assumes "calculateMaximumCostMicros m price = Inr r" and "calculateCostMicros u price = Inr c"
    and "inputTokens u \<le> mu_inputTokens m" and "outputTokens u \<le> mu_maxOutputTokens m"
  shows "c \<le> r"
  using assms
  by (auto simp: calculateMaximumCostMicros_def calculateCostMicros_Inr
      intro!: add_mono elim: tokenCostMicros_mono)

text \<open>Whether a cost is computed at all depends on the price strings and the token ranges only.\<close>

lemma cost_defined:
  assumes "calculateMaximumCostMicros m price = Inr r"
    and "0 \<le> inputTokens u" "inputTokens u \<le> mu_inputTokens m"
    and "0 \<le> outputTokens u" "outputTokens u \<le> mu_maxOutputTokens m"
  shows "\<exists>c. calculateCostMicros u price = Inr c"
  using assms
  by (auto simp: calculateMaximumCostMicros_def calculateCostMicros_Inr tokenCostMicros_Inr
      safe_integer_def)

end
