(* ===== verification/Circuit.thy ===== *)
theory Circuit
  imports FusePrelude
begin

text \<open>
  \<open>src/src/core/circuit.ts\<close>: the circuit breaker of one branch. The theory translates the class
  \<open>BranchCircuit\<close> and proves that over any sequence of calls it trips exactly when a call costs
  more than the ceiling or two calls in a row are cost spikes, and that a tripped circuit stays so.
\<close>

section \<open>Model\<close>

datatype circuit_state = HEALTHY | ELEVATED | TRIPPED

datatype circuit_reason = CIRCUIT_ALLOW | ABSOLUTE_CALL_LIMIT | REPEATED_COST_ACCELERATION

datatype circuit_decision = Allow | Trip

datatype circuit_error = BRANCH_TRIPPED

record circuit_config =
  perCallCeilingMicros :: int
  minimumSpikeDeltaMicros :: int

text \<open>
  The ratio of a result is the JavaScript quotient of two numbers; the model keeps its numerator
  and denominator, since the code only reports it.
\<close>

record circuit_result =
  r_state :: circuit_state
  r_decision :: circuit_decision
  r_reason :: circuit_reason
  r_currentCostMicros :: int
  r_baselineCostMicros :: "int option"
  r_ratio :: "(int \<times> int) option"
  r_consecutiveViolations :: nat

record circuit_snapshot =
  cs_state :: circuit_state
  cs_consecutiveViolations :: nat
  cs_previousCostMicros :: "int option"

record branch_circuit =
  config :: circuit_config
  cstate :: circuit_state
  previousCostMicros :: "int option"
  consecutiveViolations :: nat

definition new_circuit :: "circuit_config \<Rightarrow> branch_circuit" where
  "new_circuit cfg =
     \<lparr>config = cfg, cstate = HEALTHY, previousCostMicros = None, consecutiveViolations = 0\<rparr>"

definition circuit_fromState :: "circuit_config \<Rightarrow> circuit_snapshot \<Rightarrow> branch_circuit" where
  "circuit_fromState cfg s =
     (new_circuit cfg)\<lparr>cstate := cs_state s, consecutiveViolations := cs_consecutiveViolations s,
       previousCostMicros := cs_previousCostMicros s\<rparr>"

definition circuit_snapshot_of :: "branch_circuit \<Rightarrow> circuit_snapshot" where
  "circuit_snapshot_of c =
     \<lparr>cs_state = cstate c, cs_consecutiveViolations = consecutiveViolations c,
      cs_previousCostMicros = previousCostMicros c\<rparr>"

text \<open>
  The private method \<open>result\<close>. Its last parameter has the default \<open>this.previousCostMicros\<close>, which
  JavaScript also applies when the caller passes \<open>undefined\<close>.
\<close>

definition circuit_result_of ::
    "branch_circuit \<Rightarrow> int \<Rightarrow> circuit_decision \<Rightarrow> circuit_reason \<Rightarrow> int option \<Rightarrow> circuit_result" where
  "circuit_result_of c cost decision reason baselineArg =
     (let baseline = (case baselineArg of None \<Rightarrow> previousCostMicros c | Some b \<Rightarrow> Some b) in
      \<lparr>r_state = cstate c, r_decision = decision, r_reason = reason, r_currentCostMicros = cost,
       r_baselineCostMicros = baseline,
       r_ratio = (case baseline of None \<Rightarrow> None
                  | Some b \<Rightarrow> if 0 < b then Some (cost, b) else None),
       r_consecutiveViolations = consecutiveViolations c\<rparr>)"

definition is_spike :: "circuit_config \<Rightarrow> int option \<Rightarrow> int \<Rightarrow> bool" where
  "is_spike cfg baseline cost =
     (case baseline of None \<Rightarrow> False
      | Some b \<Rightarrow> b * 4 \<le> cost \<and> minimumSpikeDeltaMicros cfg \<le> cost - b)"

definition evaluate ::
    "int \<Rightarrow> branch_circuit \<Rightarrow> circuit_error + (branch_circuit \<times> circuit_result)" where
  "evaluate cost c =
     (if cstate c = TRIPPED then Inl BRANCH_TRIPPED
      else if perCallCeilingMicros (config c) < cost then
        (let c' = c\<lparr>cstate := TRIPPED\<rparr> in
         Inr (c', circuit_result_of c' cost Trip ABSOLUTE_CALL_LIMIT None))
      else
        (let baseline = previousCostMicros c;
             violations = (if is_spike (config c) baseline cost
                           then consecutiveViolations c + 1 else 0);
             st = (if is_spike (config c) baseline cost
                   then (if 2 \<le> violations then TRIPPED else ELEVATED) else HEALTHY);
             c' = c\<lparr>cstate := st, consecutiveViolations := violations,
                    previousCostMicros := Some cost\<rparr>
         in Inr (c', circuit_result_of c' cost
                   (if st = TRIPPED then Trip else Allow)
                   (if st = TRIPPED then REPEATED_COST_ACCELERATION else CIRCUIT_ALLOW)
                   baseline)))"

definition assertOpen :: "branch_circuit \<Rightarrow> circuit_error + unit" where
  "assertOpen c = throw_if (cstate c = TRIPPED) BRANCH_TRIPPED"

section \<open>Invariant\<close>

text \<open>The state and the violation counter agree; an elevated circuit has seen a previous call.\<close>

definition circuit_wf :: "branch_circuit \<Rightarrow> bool" where
  "circuit_wf c \<longleftrightarrow>
     (case cstate c of
        HEALTHY \<Rightarrow> consecutiveViolations c = 0
      | ELEVATED \<Rightarrow> consecutiveViolations c = 1 \<and> previousCostMicros c \<noteq> None
      | TRIPPED \<Rightarrow> consecutiveViolations c \<le> 2)"

lemma new_circuit_wf [simp]: "circuit_wf (new_circuit cfg)"
  by (simp add: circuit_wf_def new_circuit_def)

lemma evaluate_wf: "circuit_wf c \<Longrightarrow> evaluate cost c = Inr (c', r) \<Longrightarrow> circuit_wf c'"
  by (cases "cstate c") (auto simp: evaluate_def circuit_wf_def Let_def split: if_splits)

lemma evaluate_tripped: "cstate c = TRIPPED \<Longrightarrow> evaluate cost c = Inl BRANCH_TRIPPED"
  by (simp add: evaluate_def)

lemma evaluate_config: "evaluate cost c = Inr (c', r) \<Longrightarrow> config c' = config c"
  by (auto simp: evaluate_def Let_def split: if_splits)

lemma evaluate_result_state:
  "evaluate cost c = Inr (c', r) \<Longrightarrow>
     r_state r = cstate c' \<and> (r_decision r = Trip \<longleftrightarrow> cstate c' = TRIPPED)"
  by (auto simp: evaluate_def Let_def circuit_result_of_def split: if_splits)

lemma circuit_snapshot_roundtrip: "circuit_fromState (config c) (circuit_snapshot_of c) = c"
  by (simp add: circuit_fromState_def circuit_snapshot_of_def new_circuit_def)

interpretation circuit_tx: transactional evaluate "\<lambda>_ _. True" circuit_wf
  by unfold_locales (rule evaluate_wf)

interpretation circuit_trip: irrevocable evaluate "\<lambda>c (u :: unit). cstate c = TRIPPED"
  by unfold_locales (simp add: evaluate_tripped)

section \<open>What trips a circuit\<close>

text \<open>The declarative reading of the class: positions of a cost history that are spikes.\<close>

definition spike_at :: "circuit_config \<Rightarrow> int list \<Rightarrow> nat \<Rightarrow> bool" where
  "spike_at cfg costs i \<longleftrightarrow>
     0 < i \<and> i < length costs \<and> is_spike cfg (Some (costs ! (i - 1))) (costs ! i)"

definition history_trips :: "circuit_config \<Rightarrow> int list \<Rightarrow> bool" where
  "history_trips cfg costs \<longleftrightarrow>
     (\<exists>i < length costs. perCallCeilingMicros cfg < costs ! i
        \<or> (spike_at cfg costs i \<and> spike_at cfg costs (i - 1)))"

lemma spike_at_append: "i < length xs \<Longrightarrow> spike_at cfg (xs @ ys) i = spike_at cfg xs i"
  by (auto simp: spike_at_def nth_append)

lemma spike_at_last:
  "spike_at cfg (xs @ [x]) (length xs) \<longleftrightarrow> xs \<noteq> [] \<and> is_spike cfg (Some (last xs)) x"
  by (auto simp: spike_at_def nth_append last_conv_nth)

lemma spike_at_0 [simp]: "\<not> spike_at cfg xs 0"
  by (simp add: spike_at_def)

lemma ex_less_snoc:
  "(\<exists>i < length (xs @ [x]). Q i) \<longleftrightarrow> (\<exists>i < length xs. Q i) \<or> Q (length xs)"
  by (auto simp: less_Suc_eq)

lemma history_trips_snoc:
  "history_trips cfg (xs @ [x]) \<longleftrightarrow>
     history_trips cfg xs \<or> perCallCeilingMicros cfg < x
     \<or> (xs \<noteq> [] \<and> is_spike cfg (Some (last xs)) x \<and> spike_at cfg xs (length xs - 1))"
proof -
  have old: "(\<exists>i < length xs. perCallCeilingMicros cfg < (xs @ [x]) ! i
      \<or> (spike_at cfg (xs @ [x]) i \<and> spike_at cfg (xs @ [x]) (i - 1))) \<longleftrightarrow> history_trips cfg xs"
    unfolding history_trips_def
    by (intro ex_cong) (simp add: nth_append spike_at_append less_imp_diff_less)
  have new: "spike_at cfg (xs @ [x]) (length xs - 1) \<longleftrightarrow> spike_at cfg xs (length xs - 1)" if "xs \<noteq> []"
    using that by (intro spike_at_append) (simp add: length_greater_0_conv [symmetric] del: length_greater_0_conv)
  show ?thesis
    unfolding history_trips_def [of cfg "xs @ [x]"] ex_less_snoc old
    using new by (auto simp: spike_at_last nth_append)
qed

lemma history_trips_Nil [simp]: "\<not> history_trips cfg []"
  by (simp add: history_trips_def)

text \<open>The exact state after a history that has not tripped.\<close>

definition untripped_state :: "circuit_config \<Rightarrow> int list \<Rightarrow> branch_circuit" where
  "untripped_state cfg costs =
     (let hot = spike_at cfg costs (length costs - 1) in
      \<lparr>config = cfg, cstate = (if hot then ELEVATED else HEALTHY),
       previousCostMicros = (if costs = [] then None else Some (last costs)),
       consecutiveViolations = (if hot then 1 else 0)\<rparr>)"

lemma untripped_step:
  assumes "\<not> history_trips cfg (xs @ [x])"
  shows "tx evaluate x (untripped_state cfg xs) = untripped_state cfg (xs @ [x])"
proof (cases "xs = []")
  case True
  with assms history_trips_snoc [of cfg "[]" x] show ?thesis
    by (simp add: tx_def evaluate_def untripped_state_def is_spike_def Let_def)
next
  case False
  with assms show ?thesis
    by (simp add: tx_def evaluate_def untripped_state_def history_trips_snoc spike_at_last Let_def)
qed

lemma trips_step:
  assumes "\<not> history_trips cfg xs" and "history_trips cfg (xs @ [x])"
  shows "cstate (tx evaluate x (untripped_state cfg xs)) = TRIPPED"
  using assms
  by (auto simp: tx_def evaluate_def untripped_state_def history_trips_snoc Let_def)

lemma circuit_run:
  "if history_trips cfg costs
   then cstate (tx_run evaluate costs (new_circuit cfg)) = TRIPPED
   else tx_run evaluate costs (new_circuit cfg) = untripped_state cfg costs"
proof (induction costs rule: rev_induct)
  case Nil
  show ?case by (simp add: new_circuit_def untripped_state_def)
next
  case (snoc x xs)
  show ?case
  proof (cases "history_trips cfg xs")
    case True
    with snoc show ?thesis
      by (simp add: tx_run_append history_trips_snoc circuit_trip.tx_final)
  next
    case False
    with snoc untripped_step [of cfg xs x] trips_step [of cfg xs x] show ?thesis
      by (simp add: tx_run_append)
  qed
qed

lemma untripped_not_tripped: "cstate (untripped_state cfg costs) \<noteq> TRIPPED"
  by (simp add: untripped_state_def Let_def)

text \<open>
  C35: a fresh circuit that evaluates a history of call costs (calls after a trip are refused) ends
  TRIPPED exactly when some call exceeded the per-call ceiling or two consecutive calls were
  spikes: at least four times the previous cost and at least the minimum delta above it.
\<close>

theorem circuit_trips_iff:
  "cstate (tx_run evaluate costs (new_circuit cfg)) = TRIPPED \<longleftrightarrow> history_trips cfg costs"
  using circuit_run [of cfg costs] untripped_not_tripped [of cfg costs] by (auto split: if_splits)

end
