(* ===== verification/BudgetLedger.thy ===== *)
theory BudgetLedger
  imports FusePrelude
begin

text \<open>
  \<open>src/src/core/ledger.ts\<close>: the in-memory ledger of one mandate. A root account holds the maximum
  spend, each child account an allocation; requests reserve a maximum and reconcile an actual
  cost. The class is a record, its methods are functions on it, and the invariant says that both
  levels of the accounts equal the totals of the reservations.
\<close>

section \<open>Model\<close>

datatype ledger_error =
    INVALID_ROOT_BUDGET | CHILD_ALLOCATIONS_EXCEED_ROOT | IDEMPOTENCY_CONFLICT
  | INVALID_RESERVATION | UNKNOWN_CHILD | CHILD_BUDGET_EXCEEDED | ROOT_BUDGET_EXCEEDED
  | RESERVATION_NOT_FOUND | RESERVATION_NOT_ACTIVE | ACTUAL_COST_EXCEEDS_RESERVATION

record account =
  authorizedMicros :: int
  reservedMicros :: int
  settledMicros :: int

datatype reservation_status = Reserved | Reconciled | Released

record reservation =
  requestId :: string
  childId :: string
  maximumMicros :: int
  actualMicros :: "int option"
  status :: reservation_status

record ledger_config =
  lc_mandateId :: string
  lc_maximumSpendMicros :: int
  lc_children :: "(string \<times> int) list"

text \<open>
  The fields of \<open>FuseLedger\<close>, and of the exported \<open>LedgerState\<close>: the children are an object read by
  its own property names, the reservations a \<open>Map\<close> in insertion order.
\<close>

record fuse_ledger =
  mandateId :: string
  root :: account
  children :: "(string \<times> account) list"
  reservations :: "reservation list"

definition available :: "account \<Rightarrow> int" where
  "available a = authorizedMicros a - reservedMicros a - settledMicros a"

definition new_account :: "int \<Rightarrow> account" where
  "new_account amount = \<lparr>authorizedMicros = amount, reservedMicros = 0, settledMicros = 0\<rparr>"

definition new_ledger :: "ledger_config \<Rightarrow> ledger_error + fuse_ledger" where
  "new_ledger cfg =
     (if lc_maximumSpendMicros cfg \<le> 0 then Inl INVALID_ROOT_BUDGET
      else if lc_maximumSpendMicros cfg < (\<Sum>(i, amount)\<leftarrow>lc_children cfg. amount)
      then Inl CHILD_ALLOCATIONS_EXCEED_ROOT
      else Inr \<lparr>mandateId = lc_mandateId cfg, root = new_account (lc_maximumSpendMicros cfg),
                children = map (\<lambda>(i, amount). (i, new_account amount)) (lc_children cfg),
                reservations = []\<rparr>)"

definition ledger_fromState :: "fuse_ledger \<Rightarrow> ledger_error + fuse_ledger" where
  "ledger_fromState s =
     and_then (new_ledger \<lparr>lc_mandateId = mandateId s,
                 lc_maximumSpendMicros = authorizedMicros (root s),
                 lc_children = map (\<lambda>(i, a). (i, authorizedMicros a)) (children s)\<rparr>)
       (\<lambda>l. Inr (l\<lparr>root := root s,
          children := fold (\<lambda>(i, a). AList.update i a) (children s) (children l),
          reservations := fold (map_set requestId) (reservations s) (reservations l)\<rparr>))"

definition ledger_exportState :: "fuse_ledger \<Rightarrow> fuse_ledger" where
  "ledger_exportState l =
     \<lparr>mandateId = mandateId l, root = root l, children = children l, reservations = reservations l\<rparr>"

definition ledger_reserve ::
    "string \<Rightarrow> int \<Rightarrow> string \<Rightarrow> fuse_ledger \<Rightarrow> ledger_error + (fuse_ledger \<times> reservation)" where
  "ledger_reserve child maximum request l =
     (case tbl_find requestId request (reservations l) of
        Some existing \<Rightarrow>
          if childId existing \<noteq> child \<or> maximumMicros existing \<noteq> maximum
          then Inl IDEMPOTENCY_CONFLICT else Inr (l, existing)
      | None \<Rightarrow>
          if maximum \<le> 0 then Inl INVALID_RESERVATION
          else (case map_of (children l) child of
              None \<Rightarrow> Inl UNKNOWN_CHILD
            | Some a \<Rightarrow>
                if available a < maximum then Inl CHILD_BUDGET_EXCEEDED
                else if available (root l) < maximum then Inl ROOT_BUDGET_EXCEEDED
                else (let r = \<lparr>requestId = request, childId = child, maximumMicros = maximum,
                               actualMicros = None, status = Reserved\<rparr>
                      in Inr (l\<lparr>children := AList.update child
                                  (a\<lparr>reservedMicros := reservedMicros a + maximum\<rparr>) (children l),
                                root := (root l)\<lparr>reservedMicros := reservedMicros (root l) + maximum\<rparr>,
                                reservations := map_set requestId r (reservations l)\<rparr>, r))))"

text \<open>A reservation whose child is gone would make the code fail on \<open>undefined\<close>: \<open>UNKNOWN_CHILD\<close>.\<close>

definition ledger_reconcile ::
    "string \<Rightarrow> int \<Rightarrow> fuse_ledger \<Rightarrow> ledger_error + (fuse_ledger \<times> reservation)" where
  "ledger_reconcile request actual l =
     (case tbl_find requestId request (reservations l) of
        None \<Rightarrow> Inl RESERVATION_NOT_FOUND
      | Some r \<Rightarrow>
          if status r = Reconciled then
            (if actualMicros r \<noteq> Some actual then Inl IDEMPOTENCY_CONFLICT else Inr (l, r))
          else if status r \<noteq> Reserved then Inl RESERVATION_NOT_ACTIVE
          else if actual < 0 \<or> maximumMicros r < actual then Inl ACTUAL_COST_EXCEEDS_RESERVATION
          else (case map_of (children l) (childId r) of
              None \<Rightarrow> Inl UNKNOWN_CHILD
            | Some a \<Rightarrow>
                (let settle = (\<lambda>b. b\<lparr>reservedMicros := reservedMicros b - maximumMicros r,
                                     settledMicros := settledMicros b + actual\<rparr>);
                     r' = r\<lparr>actualMicros := Some actual, status := Reconciled\<rparr>
                 in Inr (l\<lparr>children := AList.update (childId r) (settle a) (children l),
                           root := settle (root l),
                           reservations := tbl_update requestId request (\<lambda>_. r') (reservations l)\<rparr>,
                         r'))))"

definition ledger_reclaimAvailable :: "string \<Rightarrow> fuse_ledger \<Rightarrow> ledger_error + (fuse_ledger \<times> int)" where
  "ledger_reclaimAvailable child l =
     (case map_of (children l) child of
        None \<Rightarrow> Inl UNKNOWN_CHILD
      | Some a \<Rightarrow>
          Inr (l\<lparr>children := AList.update child
                  (a\<lparr>authorizedMicros := authorizedMicros a - available a\<rparr>) (children l)\<rparr>,
               available a))"

record ledger_view =
  lv_mandateId :: string
  lv_parentUnallocatedMicros :: int
  lv_root :: "account \<times> int"
  lv_children :: "(string \<times> account \<times> int) list"

definition ledger_snapshot :: "fuse_ledger \<Rightarrow> ledger_view" where
  "ledger_snapshot l =
     \<lparr>lv_mandateId = mandateId l,
      lv_parentUnallocatedMicros =
        authorizedMicros (root l) - (\<Sum>(i, a)\<leftarrow>children l. authorizedMicros a),
      lv_root = (root l, available (root l)),
      lv_children = map (\<lambda>(i, a). (i, a, available a)) (children l)\<rparr>"

text \<open>The public operations as one step function, to speak about sequences of calls.\<close>

datatype ledger_op = LReserve string int string | LReconcile string int | LReclaim string

fun ledger_step :: "ledger_op \<Rightarrow> fuse_ledger \<Rightarrow> ledger_error + (fuse_ledger \<times> (reservation + int))" where
  "ledger_step (LReserve child maximum request) l =
     and_then (ledger_reserve child maximum request l) (\<lambda>(l', r). Inr (l', Inl r))"
| "ledger_step (LReconcile request actual) l =
     and_then (ledger_reconcile request actual l) (\<lambda>(l', r). Inr (l', Inl r))"
| "ledger_step (LReclaim child) l =
     and_then (ledger_reclaimAvailable child l) (\<lambda>(l', n). Inr (l', Inr n))"

section \<open>Invariant\<close>

text \<open>What a list of reservations holds back, and what it has spent, for the child \<open>c\<close>.\<close>

definition held_for :: "string \<Rightarrow> reservation list \<Rightarrow> int" where
  "held_for c rs = (\<Sum>r\<leftarrow>rs. if childId r = c \<and> status r = Reserved then maximumMicros r else 0)"

definition spent_for :: "string \<Rightarrow> reservation list \<Rightarrow> int" where
  "spent_for c rs = (\<Sum>r\<leftarrow>rs. if childId r = c \<and> status r = Reconciled
                               then (case actualMicros r of Some a \<Rightarrow> a | None \<Rightarrow> 0) else 0)"

definition reservation_ok :: "string list \<Rightarrow> reservation \<Rightarrow> bool" where
  "reservation_ok ids r \<longleftrightarrow>
     0 < maximumMicros r \<and> childId r \<in> set ids
     \<and> (case status r of
          Reserved \<Rightarrow> actualMicros r = None
        | Reconciled \<Rightarrow> (case actualMicros r of Some a \<Rightarrow> 0 \<le> a \<and> a \<le> maximumMicros r | None \<Rightarrow> False)
        | Released \<Rightarrow> False)"

definition child_ok :: "reservation list \<Rightarrow> string \<times> account \<Rightarrow> bool" where
  "child_ok rs p \<longleftrightarrow>
     0 \<le> available (snd p) \<and> reservedMicros (snd p) = held_for (fst p) rs
     \<and> settledMicros (snd p) = spent_for (fst p) rs"

definition ledger_wf :: "fuse_ledger \<Rightarrow> bool" where
  "ledger_wf l \<longleftrightarrow>
     distinct (map fst (children l)) \<and> tbl_wf requestId (reservations l)
     \<and> list_all (reservation_ok (map fst (children l))) (reservations l)
     \<and> list_all (child_ok (reservations l)) (children l)
     \<and> reservedMicros (root l) = (\<Sum>(i, a)\<leftarrow>children l. reservedMicros a)
     \<and> settledMicros (root l) = (\<Sum>(i, a)\<leftarrow>children l. settledMicros a)
     \<and> (\<Sum>(i, a)\<leftarrow>children l. authorizedMicros a) \<le> authorizedMicros (root l)"

lemma set_AList_update_distinct:
  assumes "distinct (map fst al)"
  shows "p \<in> set (AList.update k v al) \<longleftrightarrow> p = (k, v) \<or> (p \<in> set al \<and> fst p \<noteq> k)"
  using assms by (induction al) auto

lemma update_append_not_in: "k \<notin> fst ` set xs \<Longrightarrow> AList.update k v (xs @ ys) = xs @ AList.update k v ys"
  by (induction xs) auto

lemma sum_AList_update:
  assumes "distinct (map fst al)" and "map_of al k = Some v"
  shows "(\<Sum>p\<leftarrow>AList.update k w al. f p :: int) = (\<Sum>p\<leftarrow>al. f p) - f (k, v) + f (k, w)"
  using assms by (induction al) (auto split: if_splits)

lemma keys_AList_update: "k \<in> set (map fst al) \<Longrightarrow> map fst (AList.update k v al) = map fst al"
  by (induction al) auto

lemma held_for_append [simp]: "held_for c (rs @ rs') = held_for c rs + held_for c rs'"
  by (simp add: held_for_def)

lemma spent_for_append [simp]: "spent_for c (rs @ rs') = spent_for c rs + spent_for c rs'"
  by (simp add: spent_for_def)

lemma held_for_nonneg: "list_all (reservation_ok ids) rs \<Longrightarrow> 0 \<le> held_for c rs"
  by (auto simp: held_for_def list_all_iff reservation_ok_def intro!: sum_list_nonneg_int)

lemma spent_for_nonneg: "list_all (reservation_ok ids) rs \<Longrightarrow> 0 \<le> spent_for c rs"
  unfolding spent_for_def list_all_iff
  by (intro sum_list_nonneg_int) (fastforce simp: reservation_ok_def split: option.splits reservation_status.splits)

lemma list_all_AList_update:
  assumes "distinct (map fst al)" and "P (k, v)" and "\<And>p. p \<in> set al \<Longrightarrow> fst p \<noteq> k \<Longrightarrow> P p"
  shows "list_all P (AList.update k v al)"
  using assms by (auto simp: list_all_iff set_AList_update_distinct)

lemma ledger_wf_child:
  "ledger_wf l \<Longrightarrow> map_of (children l) c = Some a \<Longrightarrow> child_ok (reservations l) (c, a)"
  by (auto simp: ledger_wf_def list_all_iff dest: map_of_SomeD)

lemma held_for_other: "c \<noteq> childId r \<Longrightarrow> held_for c [r] = 0 \<and> spent_for c [r] = 0"
  by (simp add: held_for_def spent_for_def)

lemma child_ok_snoc:
  "child_ok rs p \<Longrightarrow> fst p \<noteq> childId r \<Longrightarrow> child_ok (rs @ [r]) p"
  by (simp add: child_ok_def held_for_other)

lemma sum_new_accounts:
  fixes xs :: "(string \<times> int) list"
  defines "ys \<equiv> map (\<lambda>(i, amount). (i, new_account amount)) xs"
  shows "(\<Sum>(i, a)\<leftarrow>ys. reservedMicros a) = 0" and "(\<Sum>(i, a)\<leftarrow>ys. settledMicros a) = 0"
    and "(\<Sum>(i, a)\<leftarrow>ys. authorizedMicros a) = (\<Sum>(i, n)\<leftarrow>xs. n)"
  unfolding ys_def by (induction xs) (auto simp: new_account_def)

lemma new_ledger_wf:
  assumes "new_ledger cfg = Inr l" and "distinct (map fst (lc_children cfg))"
    and "\<forall>(c, n) \<in> set (lc_children cfg). 0 \<le> n"
  shows "ledger_wf l"
proof -
  from assms(1) have l: "l = \<lparr>mandateId = lc_mandateId cfg, root = new_account (lc_maximumSpendMicros cfg),
      children = map (\<lambda>(i, amount). (i, new_account amount)) (lc_children cfg), reservations = []\<rparr>"
    and room: "(\<Sum>(i, n)\<leftarrow>lc_children cfg. n) \<le> lc_maximumSpendMicros cfg"
    by (auto simp: new_ledger_def split: if_splits)
  have kids: "list_all (child_ok []) (children l)"
    using assms(3) by (auto simp: l list_all_iff child_ok_def available_def new_account_def
        held_for_def spent_for_def)
  have sums: "(\<Sum>(i, a)\<leftarrow>children l. reservedMicros a) = 0" "(\<Sum>(i, a)\<leftarrow>children l. settledMicros a) = 0"
    "(\<Sum>(i, a)\<leftarrow>children l. authorizedMicros a) = (\<Sum>(i, n)\<leftarrow>lc_children cfg. n)"
    by (simp_all add: l sum_new_accounts del: map_map)
  have "map fst (children l) = map fst (lc_children cfg)" by (simp add: l comp_def case_prod_beta)
  moreover have "root l = new_account (lc_maximumSpendMicros cfg)" "reservations l = []"
    by (simp_all add: l)
  ultimately show ?thesis
    using kids sums room assms(2) by (simp add: ledger_wf_def tbl_wf_def new_account_def)
qed

lemma reserve_new_wf:
  assumes wf: "ledger_wf l" and a: "map_of (children l) c = Some a" and pos: "0 < m"
    and room: "m \<le> available a" and fresh: "tbl_find requestId q (reservations l) = None"
    and r: "r = \<lparr>requestId = q, childId = c, maximumMicros = m, actualMicros = None, status = Reserved\<rparr>"
    and a': "a' = a\<lparr>reservedMicros := reservedMicros a + m\<rparr>"
  shows "ledger_wf (l\<lparr>children := AList.update c a' (children l),
    root := (root l)\<lparr>reservedMicros := reservedMicros (root l) + m\<rparr>,
    reservations := reservations l @ [r]\<rparr>)" (is "ledger_wf ?l'")
proof -
  from wf have dist: "distinct (map fst (children l))" by (simp add: ledger_wf_def)
  from a have mem: "c \<in> set (map fst (children l))" by (metis map_of_SomeD fst_conv image_eqI set_map)
  have "child_ok (reservations l) (c, a)" using wf a by (rule ledger_wf_child)
  then have new: "child_ok (reservations l @ [r]) (c, a')"
    using room pos by (simp add: child_ok_def r a' held_for_def spent_for_def available_def)
  have kids: "list_all (child_ok (reservations l @ [r])) (AList.update c a' (children l))"
    using wf by (intro list_all_AList_update [where P = "child_ok (reservations l @ [r])", OF dist new])
      (auto simp: ledger_wf_def list_all_iff r intro: child_ok_snoc)
  have rs: "list_all (reservation_ok (map fst (children l))) (reservations l @ [r])"
    using wf pos mem by (auto simp: ledger_wf_def list_all_iff reservation_ok_def r)
  have keys: "tbl_wf requestId (reservations l @ [r])"
    using wf fresh by (simp add: ledger_wf_def tbl_wf_def tbl_find_None_iff r)
  show ?thesis
    using wf kids rs keys
    by (simp add: ledger_wf_def keys_AList_update [OF mem] sum_AList_update [OF dist a] a')
qed

lemma sum_available:
  "(\<Sum>p\<leftarrow>ps. available (snd p)) = (\<Sum>(i, a)\<leftarrow>ps. authorizedMicros a)
     - (\<Sum>(i, a)\<leftarrow>ps. reservedMicros a) - (\<Sum>(i, a)\<leftarrow>ps. settledMicros a)"
  by (induction ps) (auto simp: available_def)

lemma wf_root_room:
  assumes "ledger_wf l" and "map_of (children l) c = Some a"
  shows "available a \<le> available (root l)"
proof -
  have "available a \<le> (\<Sum>p\<leftarrow>children l. available (snd p))"
    using sum_list_member_le [of "(c, a)" "children l" "\<lambda>p. available (snd p)"] assms
    by (auto simp: ledger_wf_def list_all_iff child_ok_def dest: map_of_SomeD)
  also have "\<dots> = (\<Sum>(i, a)\<leftarrow>children l. authorizedMicros a) - (\<Sum>(i, a)\<leftarrow>children l. reservedMicros a)
      - (\<Sum>(i, a)\<leftarrow>children l. settledMicros a)" by (rule sum_available)
  also have "\<dots> \<le> available (root l)"
    using assms(1) by (simp add: ledger_wf_def available_def)
  finally show ?thesis .
qed

lemma reserve_wf:
  assumes "ledger_wf l" and "ledger_reserve c m q l = Inr (l', r)"
  shows "ledger_wf l'"
proof (cases "tbl_find requestId q (reservations l)")
  case None
  then have "q \<notin> requestId ` set (reservations l)" by (simp add: tbl_find_None_iff)
  with None assms show ?thesis
    by (auto simp: ledger_reserve_def Let_def map_set_new split: option.splits if_splits
        intro!: reserve_new_wf)
next
  case (Some x)
  with assms show ?thesis by (auto simp: ledger_reserve_def split: if_splits)
qed

lemma list_all_tbl_update:
  "list_all P rows \<Longrightarrow> P r' \<Longrightarrow> list_all P (tbl_update key k (\<lambda>_. r') rows)"
  by (auto simp: list_all_iff tbl_update_def)

lemma settle_child_ok:
  assumes "ledger_wf l" and find: "tbl_find requestId q (reservations l) = Some r"
    and r: "status r = Reserved" and n: "0 \<le> n" "n \<le> maximumMicros r"
    and r': "r' = r\<lparr>actualMicros := Some n, status := Reconciled\<rparr>"
    and p: "p \<in> set (children l)"
  defines "rs' \<equiv> tbl_update requestId q (\<lambda>_. r') (reservations l)"
  shows "fst p \<noteq> childId r \<Longrightarrow> child_ok rs' p"
    and "fst p = childId r \<Longrightarrow> child_ok rs' (fst p, (snd p)
      \<lparr>reservedMicros := reservedMicros (snd p) - maximumMicros r,
       settledMicros := settledMicros (snd p) + n\<rparr>)"
proof -
  have t: "tbl_wf requestId (reservations l)" using assms(1) by (simp add: ledger_wf_def)
  have sums: "held_for c rs' = held_for c (reservations l) - held_for c [r] + held_for c [r']"
    "spent_for c rs' = spent_for c (reservations l) - spent_for c [r] + spent_for c [r']" for c
    unfolding held_for_def spent_for_def rs'_def sum_tbl_update [OF t find] by simp_all
  have ok: "child_ok (reservations l) p" using assms(1) p by (auto simp: ledger_wf_def list_all_iff)
  show "fst p \<noteq> childId r \<Longrightarrow> child_ok rs' p"
    using ok by (simp add: child_ok_def sums) (simp add: held_for_def spent_for_def r')
  show "fst p = childId r \<Longrightarrow> child_ok rs' (fst p, (snd p)
      \<lparr>reservedMicros := reservedMicros (snd p) - maximumMicros r,
       settledMicros := settledMicros (snd p) + n\<rparr>)"
    using ok r n by (simp add: child_ok_def sums available_def) (simp add: held_for_def spent_for_def r')
qed

lemma reconcile_wf:
  assumes wf: "ledger_wf l" and step: "ledger_reconcile q n l = Inr (l', r0)"
  shows "ledger_wf l'"
proof (cases "l' = l")
  case True
  with wf show ?thesis by simp
next
  case False
  with step obtain r a where find: "tbl_find requestId q (reservations l) = Some r"
    and r: "status r = Reserved" and n: "0 \<le> n" "n \<le> maximumMicros r"
    and a: "map_of (children l) (childId r) = Some a"
    and l': "l' = l\<lparr>children := AList.update (childId r)
        (a\<lparr>reservedMicros := reservedMicros a - maximumMicros r, settledMicros := settledMicros a + n\<rparr>)
        (children l),
      root := (root l)\<lparr>reservedMicros := reservedMicros (root l) - maximumMicros r,
        settledMicros := settledMicros (root l) + n\<rparr>,
      reservations := tbl_update requestId q
        (\<lambda>_. r\<lparr>actualMicros := Some n, status := Reconciled\<rparr>) (reservations l)\<rparr>"
    by (auto simp: ledger_reconcile_def Let_def split: option.splits if_splits)
  define r' where "r' = r\<lparr>actualMicros := Some n, status := Reconciled\<rparr>"
  define rs' where "rs' = tbl_update requestId q (\<lambda>_. r') (reservations l)"
  from wf have dist: "distinct (map fst (children l))" by (simp add: ledger_wf_def)
  from a have mem: "childId r \<in> set (map fst (children l))" and pa: "(childId r, a) \<in> set (children l)"
    by (auto dest: map_of_SomeD intro: image_eqI [of _ fst "(childId r, a)"])
  note ok = settle_child_ok [OF wf find r n r'_def, folded rs'_def]
  from ok(2) [OF pa] have kid: "child_ok rs' (childId r, a\<lparr>reservedMicros := reservedMicros a - maximumMicros r,
      settledMicros := settledMicros a + n\<rparr>)" by simp
  have kids: "list_all (child_ok rs') (children l')"
    unfolding l' by simp (rule list_all_AList_update [where P = "child_ok rs'", OF dist kid ok(1)])
  have "reservation_ok (map fst (children l)) r"
    using wf tbl_find_SomeD [OF find] by (auto simp: ledger_wf_def list_all_iff)
  then have "reservation_ok (map fst (children l)) r'"
    using n by (simp add: reservation_ok_def r'_def)
  then have rs: "list_all (reservation_ok (map fst (children l))) rs'"
    unfolding rs'_def using wf by (intro list_all_tbl_update) (auto simp: ledger_wf_def)
  have "map requestId rs' = map requestId (reservations l)"
    using tbl_find_SomeD [OF find] by (auto simp: rs'_def tbl_update_def r'_def)
  then have keys: "tbl_wf requestId rs'" using wf by (simp add: ledger_wf_def tbl_wf_def)
  show ?thesis
    using wf kids rs keys
    by (simp add: ledger_wf_def keys_AList_update [OF mem] sum_AList_update [OF dist a] l' rs'_def r'_def)
qed

lemma reclaim_wf:
  assumes wf: "ledger_wf l" and step: "ledger_reclaimAvailable c l = Inr (l', n)"
  shows "ledger_wf l'"
proof -
  from step obtain a where a: "map_of (children l) c = Some a"
    and l': "l' = l\<lparr>children := AList.update c (a\<lparr>authorizedMicros := authorizedMicros a - available a\<rparr>)
      (children l)\<rparr>"
    by (auto simp: ledger_reclaimAvailable_def split: option.splits)
  from wf have dist: "distinct (map fst (children l))" by (simp add: ledger_wf_def)
  from a have mem: "c \<in> set (map fst (children l))" by (metis map_of_SomeD fst_conv image_eqI set_map)
  have old: "child_ok (reservations l) (c, a)" using wf a by (rule ledger_wf_child)
  then have new: "child_ok (reservations l) (c, a\<lparr>authorizedMicros := authorizedMicros a - available a\<rparr>)"
    by (simp add: child_ok_def available_def)
  have kids: "list_all (child_ok (reservations l)) (children l')"
    unfolding l' using wf
    by simp (rule list_all_AList_update [where P = "child_ok (reservations l)", OF dist new],
        auto simp: ledger_wf_def list_all_iff)
  have "0 \<le> available a" using old by (simp add: child_ok_def)
  with wf kids show ?thesis
    by (simp add: ledger_wf_def keys_AList_update [OF mem] sum_AList_update [OF dist a] l')
qed

lemma ledger_step_wf: "ledger_wf l \<Longrightarrow> ledger_step op l = Inr (l', out) \<Longrightarrow> ledger_wf l'"
  by (cases op) (auto simp: and_then_Inr_iff intro: reserve_wf reconcile_wf reclaim_wf)

text \<open>What the mandate has committed: the root's held and spent amounts, against its maximum.\<close>

definition root_committed :: "fuse_ledger \<Rightarrow> unit \<Rightarrow> int" where
  "root_committed l u = reservedMicros (root l) + settledMicros (root l)"

lemma root_committed_le:
  assumes "ledger_wf l"
  shows "root_committed l u \<le> authorizedMicros (root l)"
proof -
  have "0 \<le> (\<Sum>p\<leftarrow>children l. available (snd p))"
    using assms by (intro sum_list_nonneg_int) (auto simp: ledger_wf_def list_all_iff child_ok_def)
  then show ?thesis
    using assms sum_available [of "children l"] by (simp add: ledger_wf_def root_committed_def)
qed

interpretation ledger_budget: guarded_budget ledger_step "\<lambda>_ _. True" ledger_wf root_committed
    "\<lambda>l (u :: unit). authorizedMicros (root l)"
  by unfold_locales (auto intro: ledger_step_wf root_committed_le)

lemma ledger_step_root_authorized:
  "ledger_step op l = Inr (l', out) \<Longrightarrow> authorizedMicros (root l') = authorizedMicros (root l)"
  by (cases op)
    (auto simp: and_then_Inr_iff ledger_reserve_def ledger_reconcile_def ledger_reclaimAvailable_def
      Let_def split: option.splits if_splits)

interpretation ledger_maximum: irrevocable ledger_step "\<lambda>l n. authorizedMicros (root l) = n"
  by unfold_locales (simp add: ledger_step_root_authorized)

section \<open>Conservation\<close>

lemma sum_indicator:
  "distinct ids \<Longrightarrow> (\<Sum>i\<leftarrow>ids. if k = i then x else 0) = (if k \<in> set ids then x else (0 :: int))"
  by (induction ids) auto

lemma sum_over_ids:
  fixes f :: "'a \<Rightarrow> int"
  assumes "distinct ids" and "\<And>r. r \<in> set rs \<Longrightarrow> g r \<in> set ids"
  shows "(\<Sum>i\<leftarrow>ids. \<Sum>r\<leftarrow>rs. if g r = i then f r else 0) = (\<Sum>r\<leftarrow>rs. f r)"
  using assms(2)
proof (induction rs)
  case Nil
  show ?case by simp
next
  case (Cons r rs)
  have "(\<Sum>i\<leftarrow>ids. if g r = i then f r else 0) = f r"
    using assms(1) Cons.prems [of r] by (simp add: sum_indicator)
  with Cons show ?case by (simp add: sum_list_addf)
qed

definition total_held :: "reservation list \<Rightarrow> int" where
  "total_held rs = (\<Sum>r\<leftarrow>rs. if status r = Reserved then maximumMicros r else 0)"

definition total_spent :: "reservation list \<Rightarrow> int" where
  "total_spent rs = (\<Sum>r\<leftarrow>rs. if status r = Reconciled
                             then (case actualMicros r of Some a \<Rightarrow> a | None \<Rightarrow> 0) else 0)"

lemma wf_totals:
  assumes wf: "ledger_wf l"
  shows "reservedMicros (root l) = total_held (reservations l)"
    and "settledMicros (root l) = total_spent (reservations l)"
proof -
  let ?ids = "map fst (children l)" and ?rs = "reservations l"
  have ids: "distinct ?ids" "\<And>r. r \<in> set ?rs \<Longrightarrow> childId r \<in> set ?ids"
    using wf by (auto simp: ledger_wf_def list_all_iff reservation_ok_def)
  have "(\<Sum>(i, a)\<leftarrow>children l. reservedMicros a) = (\<Sum>i\<leftarrow>?ids. held_for i ?rs)"
    and "(\<Sum>(i, a)\<leftarrow>children l. settledMicros a) = (\<Sum>i\<leftarrow>?ids. spent_for i ?rs)"
    using wf unfolding map_map comp_def
    by (auto simp: ledger_wf_def list_all_iff child_ok_def intro!: arg_cong [of _ _ sum_list] map_cong)
  moreover have "(\<Sum>i\<leftarrow>?ids. held_for i ?rs) = total_held ?rs"
    using sum_over_ids [where f = "\<lambda>r. if status r = Reserved then maximumMicros r else 0", OF ids]
    by (simp add: held_for_def total_held_def if_if_eq_conj)
  moreover have "(\<Sum>i\<leftarrow>?ids. spent_for i ?rs) = total_spent ?rs"
    using sum_over_ids [where f = "\<lambda>r. if status r = Reconciled
        then (case actualMicros r of Some a \<Rightarrow> a | None \<Rightarrow> 0) else 0", OF ids]
    by (simp add: spent_for_def total_spent_def if_if_eq_conj)
  ultimately show "reservedMicros (root l) = total_held (reservations l)"
    and "settledMicros (root l) = total_spent (reservations l)"
    using wf by (simp_all add: ledger_wf_def)
qed

text \<open>
  C8: whatever calls are made on a freshly built ledger with non-negative allocations, the root
  holds exactly the maxima of the open reservations, has settled exactly the actual costs of the
  reconciled ones, and the two together never exceed the mandate's maximum spend.
\<close>

theorem ledger_conservation:
  assumes "new_ledger cfg = Inr l0" and "distinct (map fst (lc_children cfg))"
    and "\<forall>(c, n) \<in> set (lc_children cfg). 0 \<le> n"
  shows "let l = tx_run ledger_step ops l0 in
    reservedMicros (root l) = total_held (reservations l)
    \<and> settledMicros (root l) = total_spent (reservations l)
    \<and> total_held (reservations l) + total_spent (reservations l) \<le> lc_maximumSpendMicros cfg"
proof -
  define l where "l = tx_run ledger_step ops l0"
  have wf0: "ledger_wf l0" by (rule new_ledger_wf [OF assms(1-3)])
  then have wf: "ledger_wf l" unfolding l_def by (rule ledger_budget.run_inv) simp
  have "authorizedMicros (root l0) = lc_maximumSpendMicros cfg"
    using assms(1) by (auto simp: new_ledger_def new_account_def split: if_splits)
  then have "authorizedMicros (root l) = lc_maximumSpendMicros cfg"
    unfolding l_def by (rule ledger_maximum.run_final)
  with wf_totals [OF wf] root_committed_le [OF wf] show ?thesis
    by (simp add: root_committed_def Let_def l_def [symmetric])
qed

lemma ledger_conservation_witness:
  "let l = tx_run ledger_step
       [LReserve ''a'' 30 ''q1'', LReserve ''b'' 50 ''q2'', LReconcile ''q1'' 12, LReclaim ''a'']
       \<lparr>mandateId = ''m'', root = new_account 100,
        children = [(''a'', new_account 40), (''b'', new_account 60)], reservations = []\<rparr>
   in reservedMicros (root l) = total_held (reservations l)
    \<and> settledMicros (root l) = total_spent (reservations l)
    \<and> total_held (reservations l) + total_spent (reservations l) \<le> 100"
proof -
  define cfg where "cfg = \<lparr>lc_mandateId = ''m'', lc_maximumSpendMicros = 100,
      lc_children = [(''a'', 40), (''b'', 60)]\<rparr>"
  have new: "new_ledger cfg = Inr \<lparr>mandateId = ''m'', root = new_account 100,
      children = [(''a'', new_account 40), (''b'', new_account 60)], reservations = []\<rparr>"
    by (simp add: cfg_def new_ledger_def)
  have max: "lc_maximumSpendMicros cfg = 100" by (simp add: cfg_def)
  show ?thesis
    by (rule ledger_conservation [OF new, unfolded max]) (simp_all add: cfg_def)
qed

section \<open>The guards\<close>

text \<open>
  On a consistent ledger the root check of \<open>reserve\<close> never fires: a request the child can pay
  for, the root can pay for, so the only refusal for lack of budget is the child's.
\<close>

theorem reserve_never_root_exceeded:
  assumes "ledger_wf l"
  shows "ledger_reserve c m q l \<noteq> Inl ROOT_BUDGET_EXCEEDED"
  using wf_root_room [OF assms, of c]
  by (auto simp: ledger_reserve_def Let_def split: option.splits if_splits)

lemma reserve_never_root_exceeded_witness:
  "ledger_reserve ''a'' 50 ''q9'' \<lparr>mandateId = ''m'', root = new_account 100,
     children = [(''a'', new_account 40), (''b'', new_account 60)], reservations = []\<rparr>
   \<noteq> Inl ROOT_BUDGET_EXCEEDED"
proof -
  have "ledger_wf \<lparr>mandateId = ''m'', root = new_account 100,
     children = [(''a'', new_account 40), (''b'', new_account 60)], reservations = []\<rparr>"
    by code_simp
  then show ?thesis by (rule reserve_never_root_exceeded)
qed

definition reserved_as :: "fuse_ledger \<Rightarrow> string \<times> string \<times> int \<Rightarrow> bool" where
  "reserved_as l k = (case tbl_find requestId (fst k) (reservations l) of
     Some r \<Rightarrow> childId r = fst (snd k) \<and> maximumMicros r = snd (snd k) | None \<Rightarrow> False)"

lemma tbl_find_update_const:
  "key r' = k' \<Longrightarrow> tbl_find key k (tbl_update key k' (\<lambda>_. r') rows) =
     (if k = k' then map_option (\<lambda>_. r') (tbl_find key k rows) else tbl_find key k rows)"
  by (induction rows) (auto simp: tbl_find_def tbl_update_def)

lemma reserved_as_step:
  assumes "reserved_as l k" and "ledger_step op l = Inr (l', out)"
  shows "reserved_as l' k"
proof (cases op)
  case (LReserve c m q)
  with assms show ?thesis
    by (auto simp: reserved_as_def and_then_Inr_iff ledger_reserve_def Let_def tbl_find_map_set
        split: option.splits if_splits)
next
  case (LReconcile q n)
  show ?thesis
  proof (cases "tbl_find requestId q (reservations l)")
    case None
    with assms LReconcile show ?thesis by (auto simp: and_then_Inr_iff ledger_reconcile_def)
  next
    case (Some r)
    then have "requestId r = q" by (auto dest: tbl_find_SomeD)
    with assms LReconcile Some show ?thesis
      by (auto simp: reserved_as_def and_then_Inr_iff ledger_reconcile_def Let_def
          tbl_find_update_const split: option.splits if_splits)
  qed
next
  case (LReclaim c)
  with assms show ?thesis
    by (auto simp: reserved_as_def and_then_Inr_iff ledger_reclaimAvailable_def split: option.splits)
qed

interpretation ledger_requests: irrevocable ledger_step reserved_as
  by unfold_locales (rule reserved_as_step)

text \<open>
  A request id reserves at most once. After a successful reservation and any further calls,
  repeating it changes nothing and returns the recorded reservation; reusing the id for another
  child or amount is refused as a conflict.
\<close>

theorem reserve_exactly_once:
  assumes "ledger_reserve c m q l = Inr (l1, r)"
  shows "let l2 = tx_run ledger_step ops l1 in
    \<exists>r'. requestId r' = q \<and> childId r' = c \<and> maximumMicros r' = m \<and>
      (\<forall>c' m'. ledger_reserve c' m' q l2 =
        (if c' = c \<and> m' = m then Inr (l2, r') else Inl IDEMPOTENCY_CONFLICT))"
proof -
  define l2 where "l2 = tx_run ledger_step ops l1"
  from assms have "reserved_as l1 (q, c, m)"
    by (auto simp: reserved_as_def ledger_reserve_def Let_def tbl_find_map_set
        split: option.splits if_splits)
  then have "reserved_as l2 (q, c, m)" unfolding l2_def by (rule ledger_requests.run_final)
  then obtain r' where r': "tbl_find requestId q (reservations l2) = Some r'"
    "childId r' = c" "maximumMicros r' = m"
    by (auto simp: reserved_as_def split: option.splits)
  then have "requestId r' = q" by (auto dest: tbl_find_SomeD)
  with r' show ?thesis unfolding Let_def l2_def [symmetric]
    by (intro exI [of _ r']) (auto simp: ledger_reserve_def)
qed

lemma reserve_exactly_once_witness:
  "\<exists>l1 r. ledger_reserve ''a'' 30 ''q1'' \<lparr>mandateId = ''m'', root = new_account 100,
      children = [(''a'', new_account 40)], reservations = []\<rparr> = Inr (l1, r)
    \<and> (let l2 = tx_run ledger_step [LReconcile ''q1'' 12, LReclaim ''a''] l1 in
      \<exists>r'. requestId r' = ''q1'' \<and> childId r' = ''a'' \<and> maximumMicros r' = 30 \<and>
      (\<forall>c' m'. ledger_reserve c' m' ''q1'' l2 =
        (if c' = ''a'' \<and> m' = 30 then Inr (l2, r') else Inl IDEMPOTENCY_CONFLICT)))"
proof -
  define l0 where "l0 = \<lparr>mandateId = ''m'', root = new_account 100,
      children = [(''a'', new_account 40)], reservations = []\<rparr>"
  have "\<exists>l1 r. ledger_reserve ''a'' 30 ''q1'' l0 = Inr (l1, r)"
    by (simp add: l0_def ledger_reserve_def new_account_def available_def tbl_find_def Let_def)
  then show ?thesis
    unfolding l0_def [symmetric] using reserve_exactly_once by blast
qed

section \<open>Export and import\<close>

lemma fold_AList_update_same:
  assumes "distinct (map fst (pre @ ps))" and "map fst qs = map fst ps"
  shows "fold (\<lambda>(i, a). AList.update i a) ps (pre @ qs) = pre @ ps"
  using assms
proof (induction ps arbitrary: pre qs)
  case Nil
  then show ?case by simp
next
  case (Cons p ps)
  then obtain i a b qs' where p: "p = (i, a)" and qs: "qs = (i, b) # qs'" and rest: "map fst qs' = map fst ps"
    by (cases p; cases qs) auto
  have "AList.update i a (pre @ qs) = (pre @ [p]) @ qs'"
    using Cons.prems by (auto simp: p qs update_append_not_in)
  with Cons.IH [of "pre @ [p]" qs'] Cons.prems rest show ?case by (simp add: p)
qed

text \<open>
  A consistent ledger with a positive budget survives being exported and rebuilt: \<open>fromState\<close>
  accepts what \<open>exportState\<close> wrote and gives back the same ledger, reservations included.
\<close>

theorem ledger_export_roundtrip:
  assumes "ledger_wf l" and "0 < authorizedMicros (root l)"
  shows "ledger_fromState (ledger_exportState l) = Inr l"
proof -
  let ?kids = "map (\<lambda>(i, a). (i, authorizedMicros a)) (children l)"
  have dist: "distinct (map fst (children l))" and room: "\<not> authorizedMicros (root l) < (\<Sum>(i, n)\<leftarrow>?kids. n)"
    using assms(1) by (simp_all add: ledger_wf_def comp_def case_prod_unfold not_less)
  have "fold (\<lambda>(i, a). AList.update i a) (children l)
      (map (\<lambda>(i, amount). (i, new_account amount)) ?kids) = children l"
    using fold_AList_update_same [of "[]" "children l"
        "map (\<lambda>(i, amount). (i, new_account amount)) ?kids"] dist
    by (simp add: comp_def case_prod_beta)
  moreover have "fold (map_set requestId) (reservations l) [] = reservations l"
    using fold_map_set [of requestId "[]" "reservations l"] assms(1) by (simp add: ledger_wf_def)
  ultimately show ?thesis
    using assms(2) room by (simp add: ledger_fromState_def ledger_exportState_def new_ledger_def)
qed

lemma ledger_export_roundtrip_witness:
  "ledger_fromState (ledger_exportState (tx_run ledger_step [LReserve ''a'' 30 ''q1''] \<lparr>mandateId = ''m'',
     root = new_account 100, children = [(''a'', new_account 40)], reservations = []\<rparr>))
   = Inr (tx_run ledger_step [LReserve ''a'' 30 ''q1''] \<lparr>mandateId = ''m'',
     root = new_account 100, children = [(''a'', new_account 40)], reservations = []\<rparr>)"
proof (rule ledger_export_roundtrip)
  show "ledger_wf (tx_run ledger_step [LReserve ''a'' 30 ''q1''] \<lparr>mandateId = ''m'',
     root = new_account 100, children = [(''a'', new_account 40)], reservations = []\<rparr>)" by code_simp
  show "0 < authorizedMicros (root (tx_run ledger_step [LReserve ''a'' 30 ''q1''] \<lparr>mandateId = ''m'',
     root = new_account 100, children = [(''a'', new_account 40)], reservations = []\<rparr>))" by code_simp
qed

text \<open>The constructor checks the total of the allocations, not each of them.\<close>

lemma new_ledger_negative_allocation:
  "is_ok (new_ledger \<lparr>lc_mandateId = ''m'', lc_maximumSpendMicros = 100,
     lc_children = [(''a'', 150), (''b'', -50)]\<rparr>)"
  by (simp add: new_ledger_def)

end
