(* ===== verification/FuseService.thy ===== *)
theory FuseService
  imports Pricing Circuit BudgetLedger
begin

text \<open>
  \<open>src/src/core/service.ts\<close>: the service of one mandate, composed of the ledger, the price and one
  circuit per child. \<open>prepareCompletion\<close> awaits the provider in the middle; between awaits a
  JavaScript function runs alone, so it is two atomic steps here, \<open>prepare_begin\<close> (up to the call) and
  \<open>prepare_finish\<close> (from its result), which other calls may come between. The provider is whatever
  result is passed to the second step; when it throws, no step follows.
\<close>

section \<open>Model\<close>

record completion_request =
  q_requestId :: string
  q_childId :: string
  q_model :: string
  q_inputTokens :: int
  q_maxOutputTokens :: int
  q_messages :: "(string \<times> string) list"
  q_suppressAttributionHeaders :: "bool option"

record provider_result =
  p_id :: string
  p_content :: string
  p_usage :: actual_usage
  p_providerCostUsd :: "string option"
  p_providerModel :: "string option"

record payment =
  authorizationHash :: string
  gatewayStatus :: string

record receipt =
  rr_requestId :: string
  rr_childId :: string
  rr_payerWallet :: string
  rr_inputTokens :: int
  rr_outputTokens :: int
  rr_costUsdc :: string
  rr_authorizationHash :: string
  rr_gatewayStatus :: string
  rr_settlementStatus :: string
  rr_circuitState :: circuit_state
  rr_circuitReason :: circuit_reason
  rr_reclaimedUsdc :: "string option"

record released_completion =
  rel_response :: provider_result
  rel_receipt :: receipt

record pending =
  pe_request :: completion_request
  pe_result :: provider_result
  pe_exactCostMicros :: int
  pe_circuit :: circuit_result
  pe_released :: "released_completion option"

record payment_requirements =
  pr_protocol :: string
  pr_asset :: string
  pr_amount :: string
  pr_payer :: string
  pr_requestId :: string

record payment_required =
  pq_exactCostMicros :: int
  pq_requirements :: payment_requirements

record fuse_service =
  ledger :: fuse_ledger
  price :: token_price
  payerWallet :: string
  circuits :: "(string \<times> branch_circuit) list"
  pendings :: "(string \<times> pending) list"

datatype service_error =
    SERVICE_UNKNOWN_CHILD | PENDING_COMPLETION_NOT_FOUND
  | LedgerError ledger_error | PricingError pricing_error | CircuitError circuit_error

definition lift_err :: "('e \<Rightarrow> 'f) \<Rightarrow> 'e + 'a \<Rightarrow> 'f + 'a" where
  "lift_err f r = map_sum f id r"

definition microsToUsdc :: "int \<Rightarrow> string" where
  "microsToUsdc micros =
     show_int (big_div micros 1000000) @ ''.'' @ pad_start 6 (show_int (big_mod micros 1000000))"

definition demo_circuitConfig :: circuit_config where
  "demo_circuitConfig = \<lparr>perCallCeilingMicros = 50000, minimumSpikeDeltaMicros = 1\<rparr>"

definition createDemo :: "string option \<Rightarrow> token_price option \<Rightarrow> ledger_error + fuse_service" where
  "createDemo wallet priceOpt =
     and_then (new_ledger \<lparr>lc_mandateId = ''demo-mandate'', lc_maximumSpendMicros = 250000,
        lc_children = [(''scout'', 60000), (''builder'', 120000), (''reviewer'', 50000)]\<rparr>)
       (\<lambda>l. Inr \<lparr>ledger = l,
          price = (case priceOpt of Some p \<Rightarrow> p
            | None \<Rightarrow> \<lparr>inputUsdPerMillion = ''3.00'', outputUsdPerMillion = ''15.00''\<rparr>),
          payerWallet = (case wallet of Some w \<Rightarrow> w | None \<Rightarrow> ''0xDemoParentWallet''),
          circuits = map (\<lambda>c. (c, new_circuit demo_circuitConfig)) [''scout'', ''builder'', ''reviewer''],
          pendings = []\<rparr>)"

record service_state =
  ss_ledger :: fuse_ledger
  ss_price :: token_price
  ss_payerWallet :: string
  ss_circuits :: "(string \<times> circuit_snapshot) list"
  ss_pending :: "(string \<times> pending) list"

definition service_fromState :: "service_state \<Rightarrow> ledger_error + fuse_service" where
  "service_fromState s =
     and_then (ledger_fromState (ss_ledger s)) (\<lambda>l.
       Inr \<lparr>ledger = l, price = ss_price s, payerWallet = ss_payerWallet s,
            circuits = map (\<lambda>(c, snap). (c, circuit_fromState demo_circuitConfig snap)) (ss_circuits s),
            pendings = fold (\<lambda>(i, p). AList.update i p) (ss_pending s) []\<rparr>)"

definition service_exportState :: "fuse_service \<Rightarrow> service_state" where
  "service_exportState s =
     \<lparr>ss_ledger = ledger_exportState (ledger s), ss_price = price s, ss_payerWallet = payerWallet s,
      ss_circuits = map (\<lambda>(c, k). (c, circuit_snapshot_of k)) (circuits s), ss_pending = pendings s\<rparr>"

definition paymentRequirements :: "fuse_service \<Rightarrow> string \<Rightarrow> int \<Rightarrow> payment_requirements" where
  "paymentRequirements s request amountMicros =
     \<lparr>pr_protocol = ''x402'', pr_asset = ''USDC'', pr_amount = microsToUsdc amountMicros,
      pr_payer = payerWallet s, pr_requestId = request\<rparr>"

text \<open>The part of \<open>prepareCompletion\<close> before the await: a cached answer, or the provider is called.\<close>

datatype begun = AlreadyPending payment_required | CallProvider

definition prepare_begin :: "completion_request \<Rightarrow> fuse_service \<Rightarrow> service_error + (fuse_service \<times> begun)" where
  "prepare_begin q s =
     (case map_of (pendings s) (q_requestId q) of
        Some cached \<Rightarrow>
          Inr (s, AlreadyPending \<lparr>pq_exactCostMicros = pe_exactCostMicros cached,
            pq_requirements = paymentRequirements s (q_requestId q) (pe_exactCostMicros cached)\<rparr>)
      | None \<Rightarrow>
          (case map_of (circuits s) (q_childId q) of
             None \<Rightarrow> Inl SERVICE_UNKNOWN_CHILD
           | Some circuit \<Rightarrow>
               and_then (lift_err CircuitError (assertOpen circuit)) (\<lambda>_.
               and_then (lift_err PricingError (calculateMaximumCostMicros
                 \<lparr>mu_inputTokens = q_inputTokens q, mu_maxOutputTokens = q_maxOutputTokens q\<rparr> (price s)))
                 (\<lambda>maximumMicros.
               and_then (lift_err LedgerError
                 (ledger_reserve (q_childId q) maximumMicros (q_requestId q) (ledger s)))
                 (\<lambda>(l', _). Inr (s\<lparr>ledger := l'\<rparr>, CallProvider))))))"

text \<open>
  The part after the await. The circuit is the object found before it; circuits are never replaced,
  so it is the one under the same child now.
\<close>

definition prepare_finish ::
    "completion_request \<Rightarrow> provider_result \<Rightarrow> fuse_service \<Rightarrow> service_error + (fuse_service \<times> payment_required)" where
  "prepare_finish q result s =
     (case map_of (circuits s) (q_childId q) of
        None \<Rightarrow> Inl SERVICE_UNKNOWN_CHILD
      | Some circuit \<Rightarrow>
          and_then (lift_err PricingError (calculateCostMicros (p_usage result) (price s))) (\<lambda>exactCostMicros.
          and_then (lift_err CircuitError (evaluate exactCostMicros circuit)) (\<lambda>(circuit', circuitResult).
            Inr (s\<lparr>circuits := AList.update (q_childId q) circuit' (circuits s),
                   pendings := AList.update (q_requestId q)
                     \<lparr>pe_request = q, pe_result = result, pe_exactCostMicros = exactCostMicros,
                      pe_circuit = circuitResult, pe_released = None\<rparr> (pendings s)\<rparr>,
                 \<lparr>pq_exactCostMicros = exactCostMicros,
                  pq_requirements = paymentRequirements s (q_requestId q) exactCostMicros\<rparr>))))"

definition releasePaidCompletion ::
    "string \<Rightarrow> payment \<Rightarrow> fuse_service \<Rightarrow> service_error + (fuse_service \<times> released_completion)" where
  "releasePaidCompletion request pay s =
     (case map_of (pendings s) request of
        None \<Rightarrow> Inl PENDING_COMPLETION_NOT_FOUND
      | Some pe \<Rightarrow>
          (case pe_released pe of
             Some released \<Rightarrow> Inr (s, released)
           | None \<Rightarrow>
               and_then (lift_err LedgerError (ledger_reconcile request (pe_exactCostMicros pe) (ledger s)))
                 (\<lambda>(l1, _).
               and_then (if r_state (pe_circuit pe) = TRIPPED
                         then lift_err LedgerError (ledger_reclaimAvailable (q_childId (pe_request pe)) l1)
                         else Inr (l1, 0))
                 (\<lambda>(l2, reclaimedMicros).
                   let released =
                     \<lparr>rel_response = pe_result pe,
                      rel_receipt =
                        \<lparr>rr_requestId = request, rr_childId = q_childId (pe_request pe),
                         rr_payerWallet = payerWallet s,
                         rr_inputTokens = inputTokens (p_usage (pe_result pe)),
                         rr_outputTokens = outputTokens (p_usage (pe_result pe)),
                         rr_costUsdc = microsToUsdc (pe_exactCostMicros pe),
                         rr_authorizationHash = authorizationHash pay,
                         rr_gatewayStatus = gatewayStatus pay,
                         rr_settlementStatus = ''pending_batch'',
                         rr_circuitState = r_state (pe_circuit pe),
                         rr_circuitReason = r_reason (pe_circuit pe),
                         rr_reclaimedUsdc = (if 0 < reclaimedMicros
                                             then Some (microsToUsdc reclaimedMicros) else None)\<rparr>\<rparr>
                   in Inr (s\<lparr>ledger := l2,
                             pendings := AList.update request (pe\<lparr>pe_released := Some released\<rparr>)
                               (pendings s)\<rparr>, released)))))"

datatype service_op =
    SBegin completion_request | SFinish completion_request provider_result | SRelease string payment

datatype service_out = OBegun begun | OPaymentRequired payment_required | OReleased released_completion

fun service_step :: "service_op \<Rightarrow> fuse_service \<Rightarrow> service_error + (fuse_service \<times> service_out)" where
  "service_step (SBegin q) s = and_then (prepare_begin q s) (\<lambda>(s', x). Inr (s', OBegun x))"
| "service_step (SFinish q r) s = and_then (prepare_finish q r s) (\<lambda>(s', x). Inr (s', OPaymentRequired x))"
| "service_step (SRelease i pay) s = and_then (releasePaidCompletion i pay s) (\<lambda>(s', x). Inr (s', OReleased x))"

lemma lift_err_Inr [simp]: "lift_err f r = Inr x \<longleftrightarrow> r = Inr x"
  by (cases r) (auto simp: lift_err_def)

lemma lift_err_simps [simp]: "lift_err f (Inr x) = Inr x" "lift_err f (Inl e) = Inl (f e)"
  by (simp_all add: lift_err_def)

lemma lift_err_Inl: "lift_err f r = Inl e \<longleftrightarrow> (\<exists>e'. r = Inl e' \<and> e = f e')"
  by (cases r) (auto simp: lift_err_def)

definition service_snapshot :: "fuse_service \<Rightarrow> ledger_view \<times> (string \<times> circuit_snapshot) list" where
  "service_snapshot s =
     (ledger_snapshot (ledger s), map (\<lambda>(c, k). (c, circuit_snapshot_of k)) (circuits s))"

section \<open>Amounts\<close>

lemma micros_parts:
  assumes "0 \<le> m"
  defines "w \<equiv> show_int (big_div m 1000000)" and "f \<equiv> pad_start 6 (show_int (big_mod m 1000000))"
  shows "list_all is_digit w" and "w \<noteq> []" and "list_all is_digit f" and "length f = 6"
    and "digits_val (w @ f) = m"
proof -
  have d: "big_div m 1000000 = m div 1000000" and r: "big_mod m 1000000 = m mod 1000000"
    using assms(1) by (simp_all add: big_div_nonneg big_mod_nonneg)
  have w: "w = show_nat (nat (m div 1000000))"
    using assms(1) by (simp add: w_def d show_int_def pos_imp_zdiv_neg_iff)
  have "0 \<le> m mod 1000000" by simp
  then have f: "f = pad_start 6 (show_nat (nat (m mod 1000000)))"
    by (simp only: f_def r show_int_def not_less [symmetric] if_False)
  show "list_all is_digit w" "w \<noteq> []" by (simp_all add: w show_nat_digits)
  show "list_all is_digit f" by (simp add: f pad_start_def show_nat_digits)
  have "nat (m mod 1000000) < 10 ^ 6" using assms(1) by (simp add: nat_less_iff)
  then have "length (show_nat (nat (m mod 1000000))) \<le> 6" by (rule show_nat_length) simp
  then show len: "length f = 6" by (simp add: f length_pad_start)
  have "digits_val w = m div 1000000" "digits_val f = m mod 1000000"
    using assms(1) by (simp_all add: w f digits_val_show_nat pos_imp_zdiv_nonneg_iff)
  then show "digits_val (w @ f) = m" by (simp add: digits_val_append len)
qed

lemma match_usd_fraction:
  assumes "list_all is_digit w" "w \<noteq> []" "list_all is_digit f" "f \<noteq> []"
  shows "match_usd (w @ CHR ''.'' # f) = Some (w, f, 0)"
proof -
  have "span_digits (w @ CHR ''.'' # f) = (w, CHR ''.'' # f)"
    using assms(1) by (intro span_digits_append) simp_all
  moreover have "span_digits f = (f, [])" using assms(3) span_digits_append [of f "[]"] by simp
  ultimately show ?thesis using assms(2,4) by (simp add: match_usd_def split_fraction_def)
qed

text \<open>
  The USDC amount written on a payment requirement or receipt reads back, with the parser for
  provider costs, as exactly the micros it was printed from.
\<close>

theorem microsToUsdc_roundtrip:
  assumes "0 \<le> m"
  shows "usdToMicros (microsToUsdc m) = Inr m"
proof -
  note parts = micros_parts [OF assms]
  have "match_usd (microsToUsdc m) = Some (show_int (big_div m 1000000),
      pad_start 6 (show_int (big_mod m 1000000)), 0)"
    using match_usd_fraction [OF parts(1-3)] parts(4) by (fastforce simp: microsToUsdc_def)
  then show ?thesis using parts(4,5) by (simp add: usdToMicros_def safe_integer_def max_safe_integer_def)
qed

lemma microsToUsdc_roundtrip_witness:
  "microsToUsdc 42 = ''0.000042'' \<and> usdToMicros (microsToUsdc 42) = Inr 42"
proof
  show "microsToUsdc 42 = ''0.000042''" by code_simp
  show "usdToMicros (microsToUsdc 42) = Inr 42" by (rule microsToUsdc_roundtrip) simp
qed

section \<open>Invariant\<close>

definition service_wf :: "fuse_service \<Rightarrow> bool" where
  "service_wf s \<longleftrightarrow> ledger_wf (ledger s) \<and> distinct (map fst (circuits s))
     \<and> list_all (\<lambda>(c, k). circuit_wf k) (circuits s)"

lemma prepare_begin_step:
  "prepare_begin q s = Inr (s', x) \<Longrightarrow> s' = s \<or> (\<exists>l' r m. s' = s\<lparr>ledger := l'\<rparr> \<and>
     ledger_reserve (q_childId q) m (q_requestId q) (ledger s) = Inr (l', r))"
  by (auto simp: prepare_begin_def and_then_Inr_iff split: option.splits)

lemma prepare_finish_step:
  "prepare_finish q r s = Inr (s', x) \<Longrightarrow> \<exists>k k' n cr p. map_of (circuits s) (q_childId q) = Some k \<and>
     evaluate n k = Inr (k', cr) \<and>
     s' = s\<lparr>circuits := AList.update (q_childId q) k' (circuits s), pendings := p\<rparr>"
  by (auto simp: prepare_finish_def and_then_Inr_iff split: option.splits)

lemma release_step:
  "releasePaidCompletion i pay s = Inr (s', x) \<Longrightarrow> s' = s \<or> (\<exists>n l1 r l2 p. s' = s\<lparr>ledger := l2, pendings := p\<rparr> \<and>
     ledger_reconcile i n (ledger s) = Inr (l1, r) \<and>
     (l2 = l1 \<or> (\<exists>c a. ledger_reclaimAvailable c l1 = Inr (l2, a))))"
  by (fastforce simp: releasePaidCompletion_def Let_def and_then_Inr_iff split: option.splits if_splits)

lemma service_step_wf:
  assumes "service_wf s" and "service_step op s = Inr (s', x)"
  shows "service_wf s'"
proof (cases op)
  case (SBegin q)
  with assms show ?thesis
    by (auto simp: and_then_Inr_iff service_wf_def dest!: prepare_begin_step intro: reserve_wf)
next
  case (SFinish q r)
  with assms(2) obtain k k' n cr p where k: "map_of (circuits s) (q_childId q) = Some k"
    and ev: "evaluate n k = Inr (k', cr)"
    and s': "s' = s\<lparr>circuits := AList.update (q_childId q) k' (circuits s), pendings := p\<rparr>"
    by (auto simp: and_then_Inr_iff dest!: prepare_finish_step)
  have "circuit_wf k'"
    using assms(1) map_of_SomeD [OF k] ev by (auto simp: service_wf_def list_all_iff intro: evaluate_wf)
  then show ?thesis
    using assms(1) by (auto simp: service_wf_def s' list_all_iff distinct_update set_AList_update_distinct)
next
  case (SRelease i pay)
  with assms show ?thesis
    by (auto simp: and_then_Inr_iff service_wf_def dest!: release_step intro: reconcile_wf reclaim_wf)
qed

lemma service_step_authorized:
  assumes "service_step op s = Inr (s', x)"
  shows "authorizedMicros (root (ledger s')) = authorizedMicros (root (ledger s))"
proof -
  have ops: "ledger_reserve c m q l = Inr (l', r) \<Longrightarrow> authorizedMicros (root l') = authorizedMicros (root l)"
    "ledger_reconcile q n l = Inr (l', r) \<Longrightarrow> authorizedMicros (root l') = authorizedMicros (root l)"
    "ledger_reclaimAvailable c l = Inr (l', n) \<Longrightarrow> authorizedMicros (root l') = authorizedMicros (root l)"
    for c m q l l' r n
    using ledger_step_root_authorized [of "LReserve c m q" l l' "Inl r"]
      ledger_step_root_authorized [of "LReconcile q n" l l' "Inl r"]
      ledger_step_root_authorized [of "LReclaim c" l l' "Inr n"] by auto
  show ?thesis
  proof (cases op)
    case (SBegin q)
    with assms show ?thesis by (auto simp: and_then_Inr_iff ops(1) dest!: prepare_begin_step)
  next
    case (SFinish q r)
    with assms show ?thesis by (auto simp: and_then_Inr_iff dest!: prepare_finish_step)
  next
    case (SRelease i pay)
    with assms show ?thesis by (auto simp: and_then_Inr_iff ops(2,3) dest!: release_step)
  qed
qed

interpretation service_budget: guarded_budget service_step "\<lambda>_ _. True" service_wf
    "\<lambda>s. root_committed (ledger s)" "\<lambda>s (u :: unit). authorizedMicros (root (ledger s))"
proof unfold_locales
  show "service_wf s \<Longrightarrow> service_step op s = Inr (s', a) \<Longrightarrow> service_wf s'" for s op s' a
    by (rule service_step_wf)
  show "service_wf s \<Longrightarrow> root_committed (ledger s) k \<le> authorizedMicros (root (ledger s))" for s k
    by (simp add: service_wf_def root_committed_le)
qed

interpretation service_maximum: irrevocable service_step "\<lambda>s n. authorizedMicros (root (ledger s)) = n"
  by unfold_locales (simp add: service_step_authorized)

section \<open>A completion, from request to payment\<close>

lemma reserve_fresh_effect:
  assumes "ledger_reserve c m q l = Inr (l', r)" and "tbl_find requestId q (reservations l) = None"
  shows "0 < m \<and> tbl_find requestId q (reservations l') =
      Some \<lparr>requestId = q, childId = c, maximumMicros = m, actualMicros = None, status = Reserved\<rparr>
    \<and> root l' = (root l)\<lparr>reservedMicros := reservedMicros (root l) + m\<rparr>
    \<and> map_of (children l') c \<noteq> None"
  using assms
  by (auto simp: ledger_reserve_def Let_def tbl_find_map_set update_conv' split: option.splits if_splits)

lemma reconcile_effect:
  assumes "tbl_find requestId q (reservations l) = Some r" and "status r = Reserved"
    and "0 \<le> n" "n \<le> maximumMicros r" and "map_of (children l) (childId r) \<noteq> None"
  shows "\<exists>l' r'. ledger_reconcile q n l = Inr (l', r')
    \<and> root l' = (root l)\<lparr>reservedMicros := reservedMicros (root l) - maximumMicros r,
        settledMicros := settledMicros (root l) + n\<rparr>
    \<and> map_of (children l') (childId r) \<noteq> None"
  using assms by (auto simp: ledger_reconcile_def Let_def update_conv')

lemma reclaim_effect:
  assumes "map_of (children l) c \<noteq> None"
  shows "\<exists>l' n a. ledger_reclaimAvailable c l = Inr (l', n) \<and> root l' = root l
    \<and> map_of (children l') c = Some a \<and> available a = 0"
  using assms by (auto simp: ledger_reclaimAvailable_def update_conv' available_def)

lemma prepare_begin_calls:
  "prepare_begin q s = Inr (s1, CallProvider) \<longleftrightarrow>
     map_of (pendings s) (q_requestId q) = None \<and>
     (\<exists>k m l' r. map_of (circuits s) (q_childId q) = Some k \<and> cstate k \<noteq> TRIPPED \<and>
       calculateMaximumCostMicros
         \<lparr>mu_inputTokens = q_inputTokens q, mu_maxOutputTokens = q_maxOutputTokens q\<rparr> (price s) = Inr m \<and>
       ledger_reserve (q_childId q) m (q_requestId q) (ledger s) = Inr (l', r) \<and> s1 = s\<lparr>ledger := l'\<rparr>)"
  by (auto simp: prepare_begin_def and_then_Inr_iff assertOpen_def split: option.splits)

lemma prepare_finish_pending:
  assumes "calculateCostMicros (p_usage r) (price s) = Inr c"
    and "map_of (circuits s) (q_childId q) = Some k" and "cstate k \<noteq> TRIPPED"
  shows "\<exists>s2 p cr. prepare_finish q r s = Inr (s2, p) \<and> ledger s2 = ledger s \<and> price s2 = price s
    \<and> map_of (pendings s2) (q_requestId q) = Some \<lparr>pe_request = q, pe_result = r,
        pe_exactCostMicros = c, pe_circuit = cr, pe_released = None\<rparr>"
proof -
  from assms(3) have "is_ok (evaluate c k)" by (simp add: evaluate_def Let_def)
  then obtain k' cr where "evaluate c k = Inr (k', cr)" by (auto simp: is_ok_iff)
  then show ?thesis using assms(1,2) by (simp add: prepare_finish_def update_conv')
qed

lemma release_pays:
  assumes pe: "map_of (pendings s) q = Some pe" "pe_released pe = None"
    and r: "tbl_find requestId q (reservations (ledger s)) = Some r" "status r = Reserved"
      "childId r = q_childId (pe_request pe)"
    and n: "0 \<le> pe_exactCostMicros pe" "pe_exactCostMicros pe \<le> maximumMicros r"
    and c: "map_of (children (ledger s)) (childId r) \<noteq> None"
  shows "\<exists>s' rel. releasePaidCompletion q pay s = Inr (s', rel)
    \<and> rr_costUsdc (rel_receipt rel) = microsToUsdc (pe_exactCostMicros pe)
    \<and> reservedMicros (root (ledger s')) = reservedMicros (root (ledger s)) - maximumMicros r
    \<and> settledMicros (root (ledger s')) = settledMicros (root (ledger s)) + pe_exactCostMicros pe
    \<and> (rr_circuitState (rel_receipt rel) = TRIPPED \<longrightarrow>
         (\<exists>a. map_of (children (ledger s')) (childId r) = Some a \<and> available a = 0))"
proof -
  obtain l1 r' where l1: "ledger_reconcile q (pe_exactCostMicros pe) (ledger s) = Inr (l1, r')"
    and root1: "root l1 = (root (ledger s))\<lparr>reservedMicros := reservedMicros (root (ledger s)) - maximumMicros r,
        settledMicros := settledMicros (root (ledger s)) + pe_exactCostMicros pe\<rparr>"
    and c1: "map_of (children l1) (childId r) \<noteq> None"
    using reconcile_effect [OF r(1,2) n c] by blast
  obtain l2 m a where l2: "ledger_reclaimAvailable (childId r) l1 = Inr (l2, m)" "root l2 = root l1"
    "map_of (children l2) (childId r) = Some a" "available a = 0"
    using reclaim_effect [OF c1] by blast
  show ?thesis
    using pe l1 l2 r(3) root1
    by (cases "r_state (pe_circuit pe) = TRIPPED")
      (simp_all add: releasePaidCompletion_def lift_err_def Let_def)
qed

text \<open>
  C9: a new request the service accepts, answered with usage within the tokens it asked for, can be
  prepared and paid: the release settles exactly the metered cost, gives back the whole reservation,
  and leaves the child nothing to spend when the call tripped its circuit.
\<close>

theorem completion_settles_exactly:
  assumes called: "prepare_begin q s = Inr (s1, CallProvider)"
    and fresh: "tbl_find requestId (q_requestId q) (reservations (ledger s)) = None"
    and usage: "0 \<le> inputTokens (p_usage r)" "inputTokens (p_usage r) \<le> q_inputTokens q"
      "0 \<le> outputTokens (p_usage r)" "outputTokens (p_usage r) \<le> q_maxOutputTokens q"
  shows "\<exists>c s2 p s3 rel. calculateCostMicros (p_usage r) (price s) = Inr c
    \<and> prepare_finish q r s1 = Inr (s2, p)
    \<and> releasePaidCompletion (q_requestId q) pay s2 = Inr (s3, rel)
    \<and> rr_costUsdc (rel_receipt rel) = microsToUsdc c
    \<and> reservedMicros (root (ledger s3)) = reservedMicros (root (ledger s))
    \<and> settledMicros (root (ledger s3)) = settledMicros (root (ledger s)) + c
    \<and> (rr_circuitState (rel_receipt rel) = TRIPPED \<longrightarrow>
         (\<exists>a. map_of (children (ledger s3)) (q_childId q) = Some a \<and> available a = 0))"
proof -
  define maxu where "maxu = \<lparr>mu_inputTokens = q_inputTokens q, mu_maxOutputTokens = q_maxOutputTokens q\<rparr>"
  from called obtain k m l' rv where k: "map_of (circuits s) (q_childId q) = Some k" "cstate k \<noteq> TRIPPED"
    and m: "calculateMaximumCostMicros maxu (price s) = Inr m"
    and l': "ledger_reserve (q_childId q) m (q_requestId q) (ledger s) = Inr (l', rv)"
    and s1: "s1 = s\<lparr>ledger := l'\<rparr>"
    unfolding prepare_begin_calls maxu_def by blast
  obtain c where c: "calculateCostMicros (p_usage r) (price s) = Inr c"
    using cost_defined [OF m] usage by (auto simp: maxu_def)
  have "0 \<le> c" using c by (rule calculateCostMicros_nonneg)
  have "c \<le> m" using cost_within_maximum [OF m c] usage by (simp add: maxu_def)
  obtain s2 p cr where s2: "prepare_finish q r s1 = Inr (s2, p)" and led2: "ledger s2 = l'"
    and pe: "map_of (pendings s2) (q_requestId q) = Some \<lparr>pe_request = q, pe_result = r,
        pe_exactCostMicros = c, pe_circuit = cr, pe_released = None\<rparr>"
    using prepare_finish_pending [of r s1 c q k] c k by (auto simp: s1)
  note res = reserve_fresh_effect [OF l' fresh]
  obtain s3 rel where s3: "releasePaidCompletion (q_requestId q) pay s2 = Inr (s3, rel)"
    and eff: "rr_costUsdc (rel_receipt rel) = microsToUsdc c"
      "reservedMicros (root (ledger s3)) = reservedMicros (root l') - m"
      "settledMicros (root (ledger s3)) = settledMicros (root l') + c"
      "rr_circuitState (rel_receipt rel) = TRIPPED \<longrightarrow>
         (\<exists>a. map_of (children (ledger s3)) (q_childId q) = Some a \<and> available a = 0)"
    using release_pays [OF pe, of "\<lparr>requestId = q_requestId q, childId = q_childId q,
        maximumMicros = m, actualMicros = None, status = Reserved\<rparr>" pay] res \<open>0 \<le> c\<close> \<open>c \<le> m\<close>
    by (auto simp: led2)
  have "reservedMicros (root (ledger s3)) = reservedMicros (root (ledger s))"
    "settledMicros (root (ledger s3)) = settledMicros (root (ledger s)) + c"
    using eff(2,3) res by simp_all
  with c s2 s3 eff(1,4) show ?thesis by blast
qed

lemma completion_settles_exactly_witness:
  "\<exists>s s1 r. prepare_begin \<lparr>q_requestId = ''q1'', q_childId = ''scout'', q_model = ''m'', q_inputTokens = 10,
       q_maxOutputTokens = 20, q_messages = [], q_suppressAttributionHeaders = None\<rparr> s = Inr (s1, CallProvider)
     \<and> (\<exists>c s2 p s3 rel. calculateCostMicros (p_usage r) (price s) = Inr c
        \<and> prepare_finish \<lparr>q_requestId = ''q1'', q_childId = ''scout'', q_model = ''m'', q_inputTokens = 10,
            q_maxOutputTokens = 20, q_messages = [], q_suppressAttributionHeaders = None\<rparr> r s1 = Inr (s2, p)
        \<and> releasePaidCompletion ''q1'' \<lparr>authorizationHash = ''0x1'', gatewayStatus = ''accepted''\<rparr> s2 = Inr (s3, rel)
        \<and> settledMicros (root (ledger s3)) = settledMicros (root (ledger s)) + c)"
proof -
  define q where "q = \<lparr>q_requestId = ''q1'', q_childId = ''scout'', q_model = ''m'', q_inputTokens = 10,
       q_maxOutputTokens = 20, q_messages = [], q_suppressAttributionHeaders = None\<rparr>"
  define r where "r = \<lparr>p_id = ''x'', p_content = ''hi'', p_usage = \<lparr>inputTokens = 10, outputTokens = 7\<rparr>,
       p_providerCostUsd = None, p_providerModel = None\<rparr>"
  have "is_ok (createDemo None None)" by code_simp
  then obtain s where s: "createDemo None None = Inr s" by (auto simp: is_ok_iff)
  have ledger: "reservations (ledger s) = []"
    using s by (auto simp: createDemo_def and_then_Inr_iff new_ledger_def split: if_splits)
  have "map_sum id snd (and_then (lift_err LedgerError (createDemo None None)) (prepare_begin q)) = Inr CallProvider"
    unfolding q_def by code_simp
  then obtain s1 where s1: "prepare_begin q s = Inr (s1, CallProvider)"
    by (cases "prepare_begin q s") (auto simp: s lift_err_def)
  have "tbl_find requestId (q_requestId q) (reservations (ledger s)) = None"
    by (simp add: ledger tbl_find_def)
  from completion_settles_exactly [OF s1 this, of r "\<lparr>authorizationHash = ''0x1'', gatewayStatus = ''accepted''\<rparr>"]
  obtain c s2 p s3 rel where "calculateCostMicros (p_usage r) (price s) = Inr c"
    "prepare_finish q r s1 = Inr (s2, p)"
    "releasePaidCompletion (q_requestId q) \<lparr>authorizationHash = ''0x1'', gatewayStatus = ''accepted''\<rparr> s2 = Inr (s3, rel)"
    "settledMicros (root (ledger s3)) = settledMicros (root (ledger s)) + c"
    by (auto simp: q_def r_def)
  then show ?thesis using s1 unfolding q_def by (auto intro!: exI)
qed

section \<open>Every interleaving\<close>

definition child_tripped :: "fuse_service \<Rightarrow> string \<Rightarrow> bool" where
  "child_tripped s c = (case map_of (circuits s) c of Some k \<Rightarrow> cstate k = TRIPPED | None \<Rightarrow> False)"

lemma service_step_tripped:
  assumes "child_tripped s c" and "service_step op s = Inr (s', x)"
  shows "child_tripped s' c"
proof (cases op)
  case (SBegin q)
  with assms show ?thesis by (auto simp: child_tripped_def and_then_Inr_iff dest!: prepare_begin_step)
next
  case (SFinish q r)
  with assms(2) obtain k k' n cr p where k: "map_of (circuits s) (q_childId q) = Some k"
    and ev: "evaluate n k = Inr (k', cr)"
    and s': "s' = s\<lparr>circuits := AList.update (q_childId q) k' (circuits s), pendings := p\<rparr>"
    by (auto simp: and_then_Inr_iff dest!: prepare_finish_step)
  have "cstate k \<noteq> TRIPPED" using ev by (auto simp: evaluate_tripped)
  with assms(1) k have "c \<noteq> q_childId q" by (auto simp: child_tripped_def)
  then show ?thesis using assms(1) by (simp add: child_tripped_def s' update_conv')
next
  case (SRelease i pay)
  with assms show ?thesis by (auto simp: child_tripped_def and_then_Inr_iff dest!: release_step)
qed

interpretation service_trip: irrevocable service_step child_tripped
  by unfold_locales (rule service_step_tripped)

text \<open>
  C36: once a child's circuit has tripped, the provider is never called for it again: after any
  interleaving of further steps, a request of that child is either answered from the cache or refused.
\<close>

theorem tripped_child_never_calls_provider:
  assumes "child_tripped s c" and "q_childId q = c"
  shows "\<not> (\<exists>s'. prepare_begin q (tx_run service_step ops s) = Inr (s', CallProvider))"
proof -
  have "child_tripped (tx_run service_step ops s) c" using assms(1) by (rule service_trip.run_final)
  then show ?thesis using assms(2) by (auto simp: prepare_begin_calls child_tripped_def)
qed

lemma tripped_child_never_calls_provider_witness:
  "\<not> (\<exists>s'. prepare_begin \<lparr>q_requestId = ''q1'', q_childId = ''scout'', q_model = ''m'', q_inputTokens = 10,
       q_maxOutputTokens = 20, q_messages = [], q_suppressAttributionHeaders = None\<rparr>
     (tx_run service_step [] \<lparr>ledger = \<lparr>mandateId = ''m'', root = new_account 100, children = [], reservations = []\<rparr>,
        price = \<lparr>inputUsdPerMillion = ''3'', outputUsdPerMillion = ''15''\<rparr>, payerWallet = ''w'',
        circuits = [(''scout'', (new_circuit demo_circuitConfig)\<lparr>cstate := TRIPPED\<rparr>)], pendings = []\<rparr>)
     = Inr (s', CallProvider))"
  by (rule tripped_child_never_calls_provider [where c = "''scout''"]) (simp_all add: child_tripped_def)

text \<open>
  For every interleaving of prepare, provider answers and releases on the demo service, what is
  reserved plus what is settled never exceeds the mandate's 250000 micro-USDC.
\<close>

theorem demo_service_within_mandate:
  assumes "createDemo w p = Inr s0"
  shows "root_committed (ledger (tx_run service_step ops s0)) () \<le> 250000"
proof -
  from assms obtain l where l: "new_ledger \<lparr>lc_mandateId = ''demo-mandate'', lc_maximumSpendMicros = 250000,
        lc_children = [(''scout'', 60000), (''builder'', 120000), (''reviewer'', 50000)]\<rparr> = Inr l"
    and s0: "ledger s0 = l" "circuits s0 =
      map (\<lambda>c. (c, new_circuit demo_circuitConfig)) [''scout'', ''builder'', ''reviewer'']"
    by (auto simp: createDemo_def and_then_Inr_iff)
  have "ledger_wf l" by (rule new_ledger_wf [OF l]) simp_all
  then have wf: "service_wf s0" by (simp add: service_wf_def s0)
  have "authorizedMicros (root (ledger s0)) = 250000"
    using l by (auto simp: s0 new_ledger_def new_account_def split: if_splits)
  then have "authorizedMicros (root (ledger (tx_run service_step ops s0))) = 250000"
    by (rule service_maximum.run_final)
  with service_budget.run_within_limit [OF wf, of ops "()"] show ?thesis by simp
qed

lemma demo_service_within_mandate_witness:
  "\<exists>s0. createDemo None None = Inr s0 \<and>
     root_committed (ledger (tx_run service_step [SRelease ''x'' \<lparr>authorizationHash = ''h'', gatewayStatus = ''accepted''\<rparr>] s0)) () \<le> 250000"
proof -
  have "is_ok (createDemo None None)" by code_simp
  then obtain s0 where "createDemo None None = Inr s0" by (auto simp: is_ok_iff)
  with demo_service_within_mandate show ?thesis by blast
qed

end
