(* ===== verification/Lifecycles.thy ===== *)
theory Lifecycles
  imports FusePrelude
begin

text \<open>
  \<open>src/src/domain/lifecycles.ts\<close>: the generic class \<open>Lifecycle\<close> with its event history, and the
  transition tables of requests, payments and mandates. The lemmas describe what a history can look
  like: an unbroken, numbered chain of permitted transitions; the only way to a completed request;
  the mandate states that cannot be left.
\<close>

section \<open>The generic lifecycle\<close>

record transition_context =
  tc_actorId :: string
  tc_causationId :: string
  tc_occurredAt :: timestamp

record 'st lifecycle_transition =
  lt_context :: transition_context
  lt_entityId :: string
  lt_kind :: string
  lt_from :: 'st
  lt_to :: 'st
  lt_sequence :: nat

record 'st lifecycle =
  lf_kind :: string
  lf_entityId :: string
  lf_current :: 'st
  lf_events :: "'st lifecycle_transition list"

text \<open>The code for a refused transition carries the lifecycle's kind and the two states.\<close>

datatype 'st lifecycle_error =
    LIFECYCLE_ENTITY_ID_REQUIRED | LIFECYCLE_ACTOR_REQUIRED | LIFECYCLE_CAUSATION_REQUIRED
  | LIFECYCLE_OCCURRED_AT_INVALID | LIFECYCLE_TRANSITION_INVALID string 'st 'st

definition new_lifecycle :: "string \<Rightarrow> string \<Rightarrow> 'st \<Rightarrow> 'st lifecycle_error + 'st lifecycle" where
  "new_lifecycle kind entity initial =
     (if blank entity then Inl LIFECYCLE_ENTITY_ID_REQUIRED
      else Inr \<lparr>lf_kind = kind, lf_entityId = entity, lf_current = initial, lf_events = []\<rparr>)"

definition lifecycle_transition ::
    "('st \<Rightarrow> 'st list) \<Rightarrow> 'st \<times> transition_context \<Rightarrow> 'st lifecycle
       \<Rightarrow> 'st lifecycle_error + ('st lifecycle \<times> unit)" where
  "lifecycle_transition transitions = (\<lambda>(to, ctx) l.
     if blank (tc_actorId ctx) then Inl LIFECYCLE_ACTOR_REQUIRED
     else if blank (tc_causationId ctx) then Inl LIFECYCLE_CAUSATION_REQUIRED
     else if bad_time (tc_occurredAt ctx) then Inl LIFECYCLE_OCCURRED_AT_INVALID
     else if to \<notin> set (transitions (lf_current l))
       then Inl (LIFECYCLE_TRANSITION_INVALID (lf_kind l) (lf_current l) to)
     else Inr (l\<lparr>lf_events := lf_events l @
                  [\<lparr>lt_context = ctx, lt_entityId = lf_entityId l, lt_kind = lf_kind l,
                    lt_from = lf_current l, lt_to = to, lt_sequence = length (lf_events l) + 1\<rparr>],
                lf_current := to\<rparr>, ()))"

section \<open>The three tables\<close>

datatype request_state =
    R_received | R_admitted | R_reserved | R_provider_pending | R_response_held | R_payment_pending
  | R_released | R_completed | R_provider_failed | R_reservation_expired | R_payment_rejected
  | R_response_expired | R_manual_review | R_compensation_required

fun requestTransitions :: "request_state \<Rightarrow> request_state list" where
  "requestTransitions R_received = [R_admitted, R_manual_review]"
| "requestTransitions R_admitted = [R_reserved, R_manual_review]"
| "requestTransitions R_reserved = [R_provider_pending, R_reservation_expired, R_manual_review]"
| "requestTransitions R_provider_pending = [R_response_held, R_provider_failed, R_compensation_required]"
| "requestTransitions R_response_held = [R_payment_pending, R_response_expired, R_manual_review]"
| "requestTransitions R_payment_pending =
     [R_released, R_payment_rejected, R_compensation_required, R_manual_review]"
| "requestTransitions R_released = [R_completed, R_compensation_required]"
| "requestTransitions R_completed = []"
| "requestTransitions R_provider_failed = []"
| "requestTransitions R_reservation_expired = []"
| "requestTransitions R_payment_rejected = []"
| "requestTransitions R_response_expired = []"
| "requestTransitions R_manual_review = []"
| "requestTransitions R_compensation_required = []"

datatype payment_state =
    Pay_created | Pay_signed | Pay_submitted | Pay_accepted | Pay_pending_batch | Pay_finalized
  | Pay_rejected | Pay_expired | Pay_failed | Pay_reversed | Pay_disputed | Pay_unknown

fun paymentTransitions :: "payment_state \<Rightarrow> payment_state list" where
  "paymentTransitions Pay_created = [Pay_signed, Pay_rejected, Pay_expired]"
| "paymentTransitions Pay_signed = [Pay_submitted, Pay_rejected, Pay_expired]"
| "paymentTransitions Pay_submitted = [Pay_accepted, Pay_rejected, Pay_failed, Pay_expired, Pay_unknown]"
| "paymentTransitions Pay_accepted =
     [Pay_pending_batch, Pay_finalized, Pay_failed, Pay_reversed, Pay_unknown]"
| "paymentTransitions Pay_pending_batch =
     [Pay_finalized, Pay_failed, Pay_reversed, Pay_disputed, Pay_unknown]"
| "paymentTransitions Pay_finalized = [Pay_reversed, Pay_disputed]"
| "paymentTransitions Pay_rejected = []"
| "paymentTransitions Pay_expired = []"
| "paymentTransitions Pay_failed = []"
| "paymentTransitions Pay_reversed = [Pay_disputed]"
| "paymentTransitions Pay_disputed = []"
| "paymentTransitions Pay_unknown =
     [Pay_accepted, Pay_pending_batch, Pay_finalized, Pay_failed, Pay_rejected, Pay_expired,
      Pay_reversed, Pay_disputed]"

datatype mandate_state =
    M_draft | M_active | M_paused | M_closing | M_closed | M_exhausted | M_tripped | M_expired
  | M_reconciliation_hold

fun mandateTransitions :: "mandate_state \<Rightarrow> mandate_state list" where
  "mandateTransitions M_draft = [M_active, M_expired]"
| "mandateTransitions M_active =
     [M_paused, M_closing, M_exhausted, M_tripped, M_expired, M_reconciliation_hold]"
| "mandateTransitions M_paused = [M_active, M_closing, M_expired, M_reconciliation_hold]"
| "mandateTransitions M_closing = [M_closed, M_reconciliation_hold]"
| "mandateTransitions M_closed = []"
| "mandateTransitions M_exhausted = [M_closing, M_reconciliation_hold]"
| "mandateTransitions M_tripped = [M_active, M_closing, M_reconciliation_hold]"
| "mandateTransitions M_expired = [M_closing]"
| "mandateTransitions M_reconciliation_hold = [M_closing]"

definition createRequestLifecycle :: "string \<Rightarrow> request_state lifecycle_error + request_state lifecycle" where
  "createRequestLifecycle i = new_lifecycle ''request'' i R_received"

definition createPaymentLifecycle :: "string \<Rightarrow> payment_state lifecycle_error + payment_state lifecycle" where
  "createPaymentLifecycle i = new_lifecycle ''payment'' i Pay_created"

definition createMandateLifecycle :: "string \<Rightarrow> mandate_state lifecycle_error + mandate_state lifecycle" where
  "createMandateLifecycle i = new_lifecycle ''mandate'' i M_draft"

section \<open>Histories\<close>

text \<open>
  A history is a chain: it starts at the initial state, each event leaves the state the previous one
  entered by a permitted transition, carries the entity and the kind, and is numbered in order.
\<close>

fun chain_from :: "('st \<Rightarrow> 'st list) \<Rightarrow> 'st \<Rightarrow> nat \<Rightarrow> 'st lifecycle_transition list \<Rightarrow> bool" where
  "chain_from T s n [] = True"
| "chain_from T s n (e # es) =
     (lt_from e = s \<and> lt_to e \<in> set (T s) \<and> lt_sequence e = n \<and> chain_from T (lt_to e) (n + 1) es)"

definition end_state :: "'st \<Rightarrow> 'st lifecycle_transition list \<Rightarrow> 'st" where
  "end_state s es = (if es = [] then s else lt_to (last es))"

definition lifecycle_wf :: "('st \<Rightarrow> 'st list) \<Rightarrow> 'st \<Rightarrow> 'st lifecycle \<Rightarrow> bool" where
  "lifecycle_wf T initial l \<longleftrightarrow>
     chain_from T initial 1 (lf_events l) \<and> lf_current l = end_state initial (lf_events l)
     \<and> list_all (\<lambda>e. lt_entityId e = lf_entityId l \<and> lt_kind e = lf_kind l
          \<and> \<not> blank (tc_actorId (lt_context e)) \<and> \<not> blank (tc_causationId (lt_context e))
          \<and> \<not> bad_time (tc_occurredAt (lt_context e))) (lf_events l)"

lemma end_state_simps [simp]:
  "end_state s [] = s" "end_state s (e # es) = end_state (lt_to e) es"
  "end_state s (es @ [e]) = lt_to e"
  by (auto simp: end_state_def)

lemma chain_from_snoc:
  "chain_from T s n (es @ [e]) \<longleftrightarrow>
     chain_from T s n es \<and> lt_from e = end_state s es \<and> lt_to e \<in> set (T (end_state s es))
     \<and> lt_sequence e = n + length es"
  by (induction es arbitrary: s n) auto

lemma lifecycle_transition_Inr:
  "lifecycle_transition T (to, ctx) l = Inr (l', u) \<longleftrightarrow>
     \<not> blank (tc_actorId ctx) \<and> \<not> blank (tc_causationId ctx) \<and> \<not> bad_time (tc_occurredAt ctx)
     \<and> to \<in> set (T (lf_current l))
     \<and> l' = l\<lparr>lf_events := lf_events l @
            [\<lparr>lt_context = ctx, lt_entityId = lf_entityId l, lt_kind = lf_kind l,
              lt_from = lf_current l, lt_to = to, lt_sequence = length (lf_events l) + 1\<rparr>],
          lf_current := to\<rparr>"
  by (auto simp: lifecycle_transition_def)

lemma new_lifecycle_wf: "new_lifecycle k i s = Inr l \<Longrightarrow> lifecycle_wf T s l"
  by (auto simp: new_lifecycle_def lifecycle_wf_def split: if_splits)

lemma lifecycle_transition_wf:
  "lifecycle_wf T s l \<Longrightarrow> lifecycle_transition T op l = Inr (l', u) \<Longrightarrow> lifecycle_wf T s l'"
  by (cases op) (auto simp: lifecycle_wf_def lifecycle_transition_Inr chain_from_snoc)

interpretation lifecycle_tx: transactional "lifecycle_transition T" "\<lambda>_ _. True" "lifecycle_wf T s"
  for T :: "'st \<Rightarrow> 'st list" and s :: 'st
  by unfold_locales (rule lifecycle_transition_wf)

text \<open>A set of states no permitted transition leaves is never left.\<close>

lemma closed_set_step:
  assumes "\<And>s. s \<in> S \<Longrightarrow> set (T s) \<subseteq> S" and "lf_current l \<in> S"
    and "lifecycle_transition T op l = Inr (l', u)"
  shows "lf_current l' \<in> S"
  using assms by (cases op) (auto simp: lifecycle_transition_Inr)

text \<open>
  Whatever transitions are attempted on a new request, payment or mandate lifecycle (the wrong
  ones are refused), its history is an unbroken chain of permitted transitions numbered from one,
  from the initial state to the current one, every event with an actor, a cause and a valid time.
\<close>

theorem lifecycle_history_chain:
  assumes "new_lifecycle kind i s = Inr l0"
  shows "lifecycle_wf T s (tx_run (lifecycle_transition T) ops l0)"
  using new_lifecycle_wf [OF assms] by (rule lifecycle_tx.run_inv) simp

lemma lifecycle_history_chain_witness:
  "\<exists>l0. new_lifecycle ''mandate'' ''m1'' M_draft = Inr l0 \<and>
     lifecycle_wf mandateTransitions M_draft (tx_run (lifecycle_transition mandateTransitions)
       [(M_active, \<lparr>tc_actorId = ''a'', tc_causationId = ''c'', tc_occurredAt = Instant 5\<rparr>)] l0)"
proof -
  have "is_ok (new_lifecycle ''mandate'' ''m1'' M_draft)" by code_simp
  then obtain l0 :: "mandate_state lifecycle" where l0: "new_lifecycle ''mandate'' ''m1'' M_draft = Inr l0"
    by (auto simp: is_ok_iff)
  from lifecycle_history_chain [OF l0] l0 show ?thesis by (intro exI conjI)
qed

section \<open>Requests\<close>

text \<open>How far a request has come; every transition moves it forward, so its history is short.\<close>

fun request_rank :: "request_state \<Rightarrow> nat" where
  "request_rank R_received = 0"
| "request_rank R_admitted = 1"
| "request_rank R_reserved = 2"
| "request_rank R_provider_pending = 3"
| "request_rank R_response_held = 4"
| "request_rank R_payment_pending = 5"
| "request_rank R_released = 6"
| "request_rank _ = 7"

lemma request_rank_increases: "t \<in> set (requestTransitions s) \<Longrightarrow> request_rank s < request_rank t"
  by (cases s) auto

lemma request_rank_le: "request_rank s \<le> 7"
  by (cases s) auto

lemma request_chain_length:
  "chain_from requestTransitions s n es \<Longrightarrow> request_rank s + length es \<le> request_rank (end_state s es)"
  by (induction es arbitrary: s n) (fastforce dest: request_rank_increases)+

text \<open>The states on the way to completion, and that completion is reached through all of them.\<close>

definition happy_path :: "request_state list" where
  "happy_path = [R_admitted, R_reserved, R_provider_pending, R_response_held, R_payment_pending,
     R_released, R_completed]"

lemma request_pred:
  "t \<in> set (requestTransitions s) \<Longrightarrow> t \<in> {R_completed, R_released, R_payment_pending, R_response_held,
     R_provider_pending, R_reserved, R_admitted} \<Longrightarrow> request_rank s = request_rank t - 1 \<and>
     s \<in> {R_received, R_admitted, R_reserved, R_provider_pending, R_response_held, R_payment_pending, R_released}"
  by (cases s) auto

lemma happy_prefix:
  assumes "chain_from requestTransitions R_received n es"
    and "end_state R_received es \<in> insert R_received (set happy_path)"
  shows "map lt_to es = take (request_rank (end_state R_received es)) happy_path"
  using assms
proof (induction es rule: rev_induct)
  case Nil
  then show ?case by simp
next
  case (snoc e es)
  let ?s = "end_state R_received es"
  have e: "lt_to e \<in> set (requestTransitions ?s)" and es: "chain_from requestTransitions R_received n es"
    using snoc.prems(1) by (simp_all add: chain_from_snoc)
  have t: "lt_to e \<in> insert R_received (set happy_path)" using snoc.prems(2) by simp
  then have s: "?s \<in> insert R_received (set happy_path)" using e
    by (cases ?s) (auto simp: happy_path_def)
  have "map lt_to es = take (request_rank ?s) happy_path" by (rule snoc.IH [OF es s])
  then show ?case using e t by (cases ?s) (auto simp: happy_path_def)
qed

text \<open>
  A request is completed only along one path: it was admitted, reserved, sent to the provider,
  its response held, its payment pending and then released, in this order, with no other event.
\<close>

theorem request_completed_path:
  assumes "createRequestLifecycle i = Inr l0"
    and "lf_current (tx_run (lifecycle_transition requestTransitions) ops l0) = R_completed"
  shows "map lt_to (lf_events (tx_run (lifecycle_transition requestTransitions) ops l0)) = happy_path"
proof -
  let ?l = "tx_run (lifecycle_transition requestTransitions) ops l0"
  have "lifecycle_wf requestTransitions R_received ?l"
    using new_lifecycle_wf [OF assms(1) [unfolded createRequestLifecycle_def]]
    by (rule lifecycle_tx.run_inv) simp
  then have chain: "chain_from requestTransitions R_received 1 (lf_events ?l)"
    and at_end: "end_state R_received (lf_events ?l) = R_completed"
    using assms(2) by (simp_all add: lifecycle_wf_def)
  show ?thesis using happy_prefix [OF chain] at_end by (simp add: happy_path_def)
qed

definition sample_context :: transition_context where
  "sample_context = \<lparr>tc_actorId = ''agent'', tc_causationId = ''cause'', tc_occurredAt = Instant 1000\<rparr>"

lemma request_completed_path_witness:
  "\<exists>l0. createRequestLifecycle ''r1'' = Inr l0 \<and>
     map lt_to (lf_events (tx_run (lifecycle_transition requestTransitions)
       (map (\<lambda>s. (s, sample_context)) happy_path) l0)) = happy_path"
proof -
  let ?l0 = "\<lparr>lf_kind = ''request'', lf_entityId = ''r1'', lf_current = R_received, lf_events = []\<rparr>"
  have new: "createRequestLifecycle ''r1'' = Inr ?l0"
    unfolding createRequestLifecycle_def new_lifecycle_def by (simp add: blank_iff js_space_def)
  have "lf_current (tx_run (lifecycle_transition requestTransitions)
      (map (\<lambda>s. (s, sample_context)) happy_path) ?l0) = R_completed" by code_simp
  with request_completed_path [OF new] new show ?thesis by blast
qed

text \<open>A request lifecycle records at most seven events.\<close>

lemma request_history_bound:
  "lifecycle_wf requestTransitions R_received l \<Longrightarrow> length (lf_events l) \<le> 7"
  using request_chain_length [of R_received 1 "lf_events l"] request_rank_le [of "lf_current l"]
  by (auto simp: lifecycle_wf_def)

section \<open>Mandates\<close>

definition winding_down :: "mandate_state set" where
  "winding_down = {M_closing, M_closed, M_expired, M_exhausted, M_reconciliation_hold}"

lemma winding_down_closed: "s \<in> winding_down \<Longrightarrow> set (mandateTransitions s) \<subseteq> winding_down"
  by (auto simp: winding_down_def)

interpretation mandate_winding: irrevocable "lifecycle_transition mandateTransitions"
    "\<lambda>l (u :: unit). lf_current l \<in> winding_down"
  by unfold_locales (rule closed_set_step [of winding_down, OF winding_down_closed])

interpretation request_final: irrevocable "lifecycle_transition requestTransitions"
    "\<lambda>l s. lf_current l = s \<and> requestTransitions s = []"
  by unfold_locales (auto simp: lifecycle_transition_Inr)

text \<open>
  By the transition table, a mandate that is closing, closed, expired, exhausted or in
  reconciliation hold never becomes active again.
\<close>

theorem mandate_winding_down_final:
  assumes "lf_current l \<in> winding_down"
  shows "lf_current (tx_run (lifecycle_transition mandateTransitions) ops l) \<noteq> M_active"
  using mandate_winding.run_final [OF assms, of ops] by (auto simp: winding_down_def)

lemma mandate_winding_down_final_witness:
  "lf_current (tx_run (lifecycle_transition mandateTransitions)
     [(M_closing, sample_context), (M_active, sample_context)]
     \<lparr>lf_kind = ''mandate'', lf_entityId = ''m1'', lf_current = M_reconciliation_hold, lf_events = []\<rparr>) \<noteq> M_active"
  by (rule mandate_winding_down_final) (simp add: winding_down_def)

end
