(* ===== verification/Journal.thy ===== *)
theory Journal
  imports FusePrelude
begin

text \<open>
  \<open>src/src/domain/financialLedger.ts\<close>: the append-only double-entry journal. Appending checks the
  entry completely before it writes; the running balances are kept beside the journal. The lemmas
  show that the balances are what the journal says, that each asset sums to zero over all accounts,
  and that entries are never lost or duplicated.
\<close>

section \<open>Model\<close>

datatype posting_side = Debit | Credit

record journal_posting =
  jp_accountId :: string
  jp_assetId :: string
  jp_side :: posting_side
  jp_amountAtomic :: int

record journal_entry =
  je_id :: string
  je_actorId :: string
  je_causationId :: string
  je_occurredAt :: timestamp
  je_description :: string
  je_postings :: "journal_posting list"

datatype journal_error =
    JOURNAL_ENTRY_ID_REQUIRED | JOURNAL_ENTRY_ACTOR_REQUIRED | JOURNAL_ENTRY_CAUSATION_REQUIRED
  | JOURNAL_ENTRY_DESCRIPTION_REQUIRED | JOURNAL_ENTRY_OCCURRED_AT_INVALID
  | JOURNAL_ENTRY_DUPLICATE string | JOURNAL_ENTRY_POSTINGS_REQUIRED
  | JOURNAL_POSTING_ACCOUNT_REQUIRED | JOURNAL_POSTING_ASSET_REQUIRED
  | JOURNAL_POSTING_AMOUNT_INVALID | JOURNAL_ENTRY_UNBALANCED string

record financial_ledger =
  journal :: "journal_entry list"
  entryIds :: "string set"
  balances :: "(string \<times> int) list"

definition empty_ledger :: financial_ledger where
  "empty_ledger = \<lparr>journal = [], entryIds = {}, balances = []\<rparr>"

definition balanceKey :: "string \<Rightarrow> string \<Rightarrow> string" where
  "balanceKey account asset = account @ CHR 0x00 # asset"

text \<open>The totals of debits and credits per asset, a \<open>Map\<close> in order of first appearance.\<close>

fun check_postings ::
    "(string \<times> int \<times> int) list \<Rightarrow> journal_posting list \<Rightarrow> journal_error + (string \<times> int \<times> int) list" where
  "check_postings totals [] = Inr totals"
| "check_postings totals (p # ps) =
     (if blank (jp_accountId p) then Inl JOURNAL_POSTING_ACCOUNT_REQUIRED
      else if blank (jp_assetId p) then Inl JOURNAL_POSTING_ASSET_REQUIRED
      else if jp_amountAtomic p \<le> 0 then Inl JOURNAL_POSTING_AMOUNT_INVALID
      else (let (d, c) = (case map_of totals (jp_assetId p) of Some t \<Rightarrow> t | None \<Rightarrow> (0, 0));
                t' = (case jp_side p of Debit \<Rightarrow> (d + jp_amountAtomic p, c)
                      | Credit \<Rightarrow> (d, c + jp_amountAtomic p))
            in check_postings (AList.update (jp_assetId p) t' totals) ps))"

fun first_unbalanced :: "(string \<times> int \<times> int) list \<Rightarrow> string option" where
  "first_unbalanced [] = None"
| "first_unbalanced ((asset, d, c) # ts) = (if d \<noteq> c then Some asset else first_unbalanced ts)"

definition posting_delta :: "journal_posting \<Rightarrow> int" where
  "posting_delta p = (case jp_side p of Debit \<Rightarrow> 1 | Credit \<Rightarrow> -1) * jp_amountAtomic p"

definition apply_posting :: "journal_posting \<Rightarrow> (string \<times> int) list \<Rightarrow> (string \<times> int) list" where
  "apply_posting p bs =
     (let key = balanceKey (jp_accountId p) (jp_assetId p);
          old = (case map_of bs key of Some b \<Rightarrow> b | None \<Rightarrow> 0)
      in AList.update key (old + posting_delta p) bs)"

definition journal_append :: "journal_entry \<Rightarrow> financial_ledger \<Rightarrow> journal_error + (financial_ledger \<times> unit)" where
  "journal_append e l =
     (if blank (je_id e) then Inl JOURNAL_ENTRY_ID_REQUIRED
      else if blank (je_actorId e) then Inl JOURNAL_ENTRY_ACTOR_REQUIRED
      else if blank (je_causationId e) then Inl JOURNAL_ENTRY_CAUSATION_REQUIRED
      else if blank (je_description e) then Inl JOURNAL_ENTRY_DESCRIPTION_REQUIRED
      else if bad_time (je_occurredAt e) then Inl JOURNAL_ENTRY_OCCURRED_AT_INVALID
      else if je_id e \<in> entryIds l then Inl (JOURNAL_ENTRY_DUPLICATE (je_id e))
      else if length (je_postings e) < 2 then Inl JOURNAL_ENTRY_POSTINGS_REQUIRED
      else and_then (check_postings [] (je_postings e)) (\<lambda>totals.
        case first_unbalanced totals of
          Some asset \<Rightarrow> Inl (JOURNAL_ENTRY_UNBALANCED asset)
        | None \<Rightarrow> Inr (\<lparr>journal = journal l @ [e], entryIds = insert (je_id e) (entryIds l),
                       balances = fold apply_posting (je_postings e) (balances l)\<rparr>, ())))"

definition balance :: "string \<Rightarrow> string \<Rightarrow> financial_ledger \<Rightarrow> int" where
  "balance account asset l =
     (case map_of (balances l) (balanceKey account asset) of Some b \<Rightarrow> b | None \<Rightarrow> 0)"

definition journal_entries :: "financial_ledger \<Rightarrow> journal_entry list" where
  "journal_entries l = journal l"

section \<open>The checks\<close>

definition asset_debits :: "string \<Rightarrow> journal_posting list \<Rightarrow> int" where
  "asset_debits a ps = (\<Sum>p\<leftarrow>ps. if jp_assetId p = a \<and> jp_side p = Debit then jp_amountAtomic p else 0)"

definition asset_credits :: "string \<Rightarrow> journal_posting list \<Rightarrow> int" where
  "asset_credits a ps = (\<Sum>p\<leftarrow>ps. if jp_assetId p = a \<and> jp_side p = Credit then jp_amountAtomic p else 0)"

definition posting_ok :: "journal_posting \<Rightarrow> bool" where
  "posting_ok p \<longleftrightarrow> \<not> blank (jp_accountId p) \<and> \<not> blank (jp_assetId p) \<and> 0 < jp_amountAtomic p"

definition total_of :: "(string \<times> int \<times> int) list \<Rightarrow> string \<Rightarrow> int \<times> int" where
  "total_of ts a = (case map_of ts a of Some t \<Rightarrow> t | None \<Rightarrow> (0, 0))"

lemma asset_debits_Cons:
  "asset_debits a (p # ps) =
     (if jp_assetId p = a \<and> jp_side p = Debit then jp_amountAtomic p else 0) + asset_debits a ps"
  by (simp add: asset_debits_def)

lemma asset_credits_Cons:
  "asset_credits a (p # ps) =
     (if jp_assetId p = a \<and> jp_side p = Credit then jp_amountAtomic p else 0) + asset_credits a ps"
  by (simp add: asset_credits_def)

lemma check_postings_Inr:
  "check_postings ts ps = Inr ts' \<Longrightarrow> list_all posting_ok ps \<and>
     (\<forall>a. total_of ts' a = (fst (total_of ts a) + asset_debits a ps, snd (total_of ts a) + asset_credits a ps))
     \<and> (distinct (map fst ts) \<longrightarrow> distinct (map fst ts'))
     \<and> fst ` set ts' = fst ` set ts \<union> jp_assetId ` set ps"
proof (induction ps arbitrary: ts)
  case Nil
  then show ?case by (simp add: asset_debits_def asset_credits_def)
next
  case (Cons p ps)
  obtain d c where dc: "(case map_of ts (jp_assetId p) of Some t \<Rightarrow> t | None \<Rightarrow> (0, 0)) = (d, c)"
    by fastforce
  define t' where "t' = (case jp_side p of Debit \<Rightarrow> (d + jp_amountAtomic p, c)
      | Credit \<Rightarrow> (d, c + jp_amountAtomic p))"
  define ts1 where "ts1 = AList.update (jp_assetId p) t' ts"
  have ok: "posting_ok p" and rest: "check_postings ts1 ps = Inr ts'"
    using Cons.prems by (auto simp: posting_ok_def dc ts1_def t'_def split: if_splits)
  have upd: "total_of ts1 a = (if a = jp_assetId p then t' else total_of ts a)" for a
    by (simp add: total_of_def ts1_def update_conv')
  have old: "total_of ts (jp_assetId p) = (d, c)" by (simp add: total_of_def dc)
  have keys: "fst ` set ts1 = insert (jp_assetId p) (fst ` set ts)"
    unfolding ts1_def by (simp add: dom_update)
  have dist: "distinct (map fst ts) \<Longrightarrow> distinct (map fst ts1)"
    unfolding ts1_def by (rule distinct_update)
  note IH = Cons.IH [OF rest]
  have "total_of ts' a = (fst (total_of ts a) + asset_debits a (p # ps), snd (total_of ts a) + asset_credits a (p # ps))"
    for a
    using IH old by (cases "jp_side p"; cases "jp_assetId p = a") (simp_all add: upd t'_def asset_debits_Cons asset_credits_Cons)
  then show ?case using IH ok keys dist by auto
qed

lemma first_unbalanced_None: "first_unbalanced ts = None \<longleftrightarrow> (\<forall>(a, d, c) \<in> set ts. d = c)"
  by (induction ts rule: first_unbalanced.induct) auto

text \<open>An accepted entry is well-formed, its postings positive, and each of its assets balances.\<close>

definition entry_ok :: "journal_entry \<Rightarrow> bool" where
  "entry_ok e \<longleftrightarrow> \<not> blank (je_id e) \<and> \<not> blank (je_actorId e) \<and> \<not> blank (je_causationId e)
     \<and> \<not> blank (je_description e) \<and> \<not> bad_time (je_occurredAt e) \<and> 2 \<le> length (je_postings e)
     \<and> list_all posting_ok (je_postings e)
     \<and> list_all (\<lambda>p. asset_debits (jp_assetId p) (je_postings e) = asset_credits (jp_assetId p) (je_postings e))
         (je_postings e)"

lemma journal_append_Inr:
  "journal_append e l = Inr (l', u) \<Longrightarrow> entry_ok e \<and> je_id e \<notin> entryIds l
     \<and> l' = \<lparr>journal = journal l @ [e], entryIds = insert (je_id e) (entryIds l),
            balances = fold apply_posting (je_postings e) (balances l)\<rparr>"
proof -
  assume step: "journal_append e l = Inr (l', u)"
  then obtain ts where ts: "check_postings [] (je_postings e) = Inr ts" and "first_unbalanced ts = None"
    by (auto simp: journal_append_def and_then_Inr_iff split: if_splits option.splits)
  then have bal: "\<forall>(a, d, c) \<in> set ts. d = c" by (simp add: first_unbalanced_None)
  note facts = check_postings_Inr [OF ts]
  have "asset_debits a (je_postings e) = asset_credits a (je_postings e)"
    if "a \<in> jp_assetId ` set (je_postings e)" for a
  proof -
    have "a \<in> fst ` set ts" using facts that by auto
    then obtain d c where "map_of ts a = Some (d, c)" by (metis map_of_eq_None_iff option.exhaust prod.exhaust)
    then have "(a, d, c) \<in> set ts" and "total_of ts a = (d, c)"
      by (auto simp: total_of_def dest: map_of_SomeD)
    moreover have "total_of ts a = (asset_debits a (je_postings e), asset_credits a (je_postings e))"
      using facts by (simp add: total_of_def)
    ultimately show ?thesis using bal by auto
  qed
  with step facts ts show ?thesis
    by (auto simp: journal_append_def entry_ok_def list_all_iff split: if_splits option.splits)
qed

lemma check_postings_ok: "list_all posting_ok ps \<Longrightarrow> \<exists>ts'. check_postings ts ps = Inr ts'"
  by (induction ps arbitrary: ts) (auto simp: posting_ok_def Let_def split: prod.split)

lemma journal_append_ok:
  assumes ok: "entry_ok e" and new: "je_id e \<notin> entryIds l"
  shows "\<exists>l'. journal_append e l = Inr (l', ())"
proof -
  have "list_all posting_ok (je_postings e)" using ok by (simp add: entry_ok_def)
  then obtain ts where ts: "check_postings [] (je_postings e) = Inr ts" using check_postings_ok by blast
  note facts = check_postings_Inr [OF ts]
  have "first_unbalanced ts = None" unfolding first_unbalanced_None
  proof clarify
    fix a d c assume t: "(a, d, c) \<in> set ts"
    from facts have keys: "distinct (map fst ts)" "fst ` set ts = jp_assetId ` set (je_postings e)"
      and totals: "total_of ts a = (fst (total_of [] a) + asset_debits a (je_postings e),
        snd (total_of [] a) + asset_credits a (je_postings e))" by simp_all
    from keys(1) t have "total_of ts a = (d, c)" by (simp add: total_of_def)
    then have "d = asset_debits a (je_postings e)" "c = asset_credits a (je_postings e)"
      using totals by (simp_all add: total_of_def)
    moreover have "a \<in> jp_assetId ` set (je_postings e)" unfolding keys(2) [symmetric] using t by force
    ultimately show "d = c" using ok by (auto simp: entry_ok_def list_all_iff)
  qed
  with ts ok new show ?thesis by (simp add: journal_append_def entry_ok_def)
qed

section \<open>Balances\<close>

text \<open>What the journal says about an account, and about an asset over all accounts.\<close>

definition journal_postings :: "financial_ledger \<Rightarrow> journal_posting list" where
  "journal_postings l = concat (map je_postings (journal l))"

definition key_total :: "string \<Rightarrow> journal_posting list \<Rightarrow> int" where
  "key_total k ps = (\<Sum>p\<leftarrow>ps. if balanceKey (jp_accountId p) (jp_assetId p) = k then posting_delta p else 0)"

definition account_total :: "string \<Rightarrow> string \<Rightarrow> journal_posting list \<Rightarrow> int" where
  "account_total account asset ps =
     (\<Sum>p\<leftarrow>ps. if jp_accountId p = account \<and> jp_assetId p = asset then posting_delta p else 0)"

definition asset_total :: "string \<Rightarrow> journal_posting list \<Rightarrow> int" where
  "asset_total asset ps = (\<Sum>p\<leftarrow>ps. if jp_assetId p = asset then posting_delta p else 0)"

definition stored :: "(string \<times> int) list \<Rightarrow> string \<Rightarrow> int" where
  "stored bs k = (case map_of bs k of Some b \<Rightarrow> b | None \<Rightarrow> 0)"

lemma stored_apply_posting:
  "stored (apply_posting p bs) k =
     stored bs k + (if balanceKey (jp_accountId p) (jp_assetId p) = k then posting_delta p else 0)"
  by (simp add: stored_def apply_posting_def Let_def update_conv')

lemma stored_fold: "stored (fold apply_posting ps bs) k = stored bs k + key_total k ps"
  by (induction ps arbitrary: bs) (simp_all add: key_total_def stored_apply_posting)

lemma asset_total_balanced: "asset_total a ps = asset_debits a ps - asset_credits a ps"
  unfolding asset_total_def asset_debits_def asset_credits_def
  by (induction ps) (auto simp: posting_delta_def split: posting_side.splits)

lemma asset_total_entry: "entry_ok e \<Longrightarrow> asset_total a (je_postings e) = 0"
proof (cases "a \<in> jp_assetId ` set (je_postings e)")
  case True
  assume "entry_ok e"
  with True show ?thesis by (auto simp: asset_total_balanced entry_ok_def list_all_iff)
next
  case False
  then have "(\<Sum>p\<leftarrow>je_postings e. if jp_assetId p = a then posting_delta p else 0) = (\<Sum>p\<leftarrow>je_postings e. 0)"
    by (intro arg_cong [of _ _ sum_list] map_cong) auto
  then show ?thesis by (simp add: asset_total_def)
qed

lemma asset_total_concat: "list_all entry_ok es \<Longrightarrow> asset_total a (concat (map je_postings es)) = 0"
proof (induction es)
  case Nil
  then show ?case by (simp add: asset_total_def)
next
  case (Cons e es)
  have "asset_total a (je_postings e @ ps) = asset_total a (je_postings e) + asset_total a ps" for ps
    by (simp add: asset_total_def)
  with Cons show ?case by (simp add: asset_total_entry)
qed

definition journal_wf :: "financial_ledger \<Rightarrow> bool" where
  "journal_wf l \<longleftrightarrow> list_all entry_ok (journal l) \<and> distinct (map je_id (journal l))
     \<and> entryIds l = je_id ` set (journal l)
     \<and> (\<forall>k. stored (balances l) k = key_total k (journal_postings l))"

lemma journal_append_wf: "journal_wf l \<Longrightarrow> journal_append e l = Inr (l', u) \<Longrightarrow> journal_wf l'"
  using journal_append_Inr [of e l l' u]
  by (auto simp: journal_wf_def stored_fold journal_postings_def key_total_def)

lemma empty_ledger_wf: "journal_wf empty_ledger"
  by (simp add: journal_wf_def empty_ledger_def journal_postings_def key_total_def stored_def)

interpretation journal_tx: transactional journal_append "\<lambda>_ _. True" journal_wf
  by unfold_locales (rule journal_append_wf)

text \<open>What is in the journal stays in it, at its place.\<close>

lemma journal_append_prefix:
  "\<exists>ys. journal l = es @ ys \<Longrightarrow> journal_append e l = Inr (l', u) \<Longrightarrow> \<exists>ys. journal l' = es @ ys"
  by (auto dest!: journal_append_Inr)

interpretation journal_history: irrevocable journal_append "\<lambda>l es. \<exists>ys. journal l = es @ ys"
  by unfold_locales (rule journal_append_prefix)

lemma balanceKey_inj:
  assumes "balanceKey a x = balanceKey b y" and "CHR 0x00 \<notin> set a" and "CHR 0x00 \<notin> set b"
  shows "a = b \<and> x = y"
  using assms unfolding balanceKey_def
proof (induction a arbitrary: b)
  case Nil
  then show ?case by (cases b) auto
next
  case (Cons c a)
  then show ?case by (cases b) auto
qed

text \<open>
  After any sequence of appends (the rejected ones change nothing), an account's balance in an
  asset is the sum of that account's signed postings in the journal, as long as no account name
  contains the NUL character that separates the two parts of a balance key.
\<close>

theorem balance_matches_journal:
  fixes l :: financial_ledger
  assumes "l = tx_run journal_append ops empty_ledger"
    and "CHR 0x00 \<notin> set account" and "\<forall>p \<in> set (journal_postings l). CHR 0x00 \<notin> set (jp_accountId p)"
  shows "balance account asset l = account_total account asset (journal_postings l)"
proof -
  have "journal_wf l" unfolding assms(1) by (rule journal_tx.run_inv [OF empty_ledger_wf]) simp
  then have "balance account asset l = key_total (balanceKey account asset) (journal_postings l)"
    by (simp add: balance_def journal_wf_def stored_def)
  also have "\<dots> = account_total account asset (journal_postings l)"
    unfolding key_total_def account_total_def
    using balanceKey_inj [of _ _ account asset] assms(2,3)
    by (intro arg_cong [of _ _ sum_list] map_cong) auto
  finally show ?thesis .
qed

text \<open>
  C37: after any sequence of appends every asset nets to zero over the whole journal, every entry is
  complete and balanced, and no entry id occurs twice.
\<close>

theorem journal_nets_to_zero:
  "let l = tx_run journal_append ops empty_ledger in
     asset_total asset (journal_postings l) = 0 \<and> list_all entry_ok (journal l)
     \<and> distinct (map je_id (journal l))"
proof -
  define l where "l = tx_run journal_append ops empty_ledger"
  have wf: "journal_wf l" unfolding l_def by (rule journal_tx.run_inv [OF empty_ledger_wf]) simp
  then have "list_all entry_ok (journal l)" by (simp add: journal_wf_def)
  then have "asset_total asset (concat (map je_postings (journal l))) = 0" by (rule asset_total_concat)
  with wf show ?thesis by (simp add: l_def [symmetric] Let_def journal_wf_def journal_postings_def)
qed

definition sample_entry :: journal_entry where
  "sample_entry = \<lparr>je_id = ''e1'', je_actorId = ''a'', je_causationId = ''c'', je_occurredAt = Instant 1,
     je_description = ''fund'', je_postings =
       [\<lparr>jp_accountId = ''cash'', jp_assetId = ''USDC'', jp_side = Debit, jp_amountAtomic = 70\<rparr>,
        \<lparr>jp_accountId = ''owner'', jp_assetId = ''USDC'', jp_side = Credit, jp_amountAtomic = 70\<rparr>]\<rparr>"

lemma balance_matches_journal_witness:
  "balance ''cash'' ''USDC'' (tx_run journal_append [sample_entry, sample_entry] empty_ledger) =
     account_total ''cash'' ''USDC'' (journal_postings (tx_run journal_append [sample_entry, sample_entry] empty_ledger))"
proof (rule balance_matches_journal [OF refl])
  show "CHR 0x00 \<notin> set ''cash''" by simp
  show "\<forall>p \<in> set (journal_postings (tx_run journal_append [sample_entry, sample_entry] empty_ledger)).
      CHR 0x00 \<notin> set (jp_accountId p)" by code_simp
qed

end
