(* ===== verification/Credentials.thy ===== *)
theory Credentials
  imports FusePrelude
begin

text \<open>
  \<open>src/src/identity/apiCredentials.ts\<close>: the capabilities, which roles may hold them, and the making
  of API and service-account credentials. SHA-256 (node:crypto) is the parameter \<open>sha256_hex\<close>, the
  random bytes are the argument \<open>secret\<close>.
\<close>

section \<open>Capabilities\<close>

datatype api_capability =
    Inference_invoke | Mandates_read | Mandates_write | Receipts_read | Credentials_issue
  | Credentials_revoke | Agents_write | Policies_read | Policies_write | Mandates_admin
  | Providers_read | Providers_write | Sandbox_run

text \<open>A capability as the code receives it: one of the thirteen, or another text.\<close>

datatype capability_text = Known api_capability | UnknownCapability string

definition API_CAPABILITIES :: "api_capability list" where
  "API_CAPABILITIES =
     [Inference_invoke, Mandates_read, Mandates_write, Receipts_read, Credentials_issue,
      Credentials_revoke, Agents_write, Policies_read, Policies_write, Mandates_admin,
      Providers_read, Providers_write, Sandbox_run]"

fun known_capability :: "capability_text \<Rightarrow> bool" where
  "known_capability (Known c) = (c \<in> set API_CAPABILITIES)"
| "known_capability (UnknownCapability s) = False"

datatype service_account_role = Role_admin | Role_operator | Role_viewer

fun role_capabilities :: "service_account_role \<Rightarrow> api_capability list" where
  "role_capabilities Role_admin = API_CAPABILITIES"
| "role_capabilities Role_operator =
     [Inference_invoke, Mandates_read, Mandates_write, Receipts_read, Policies_read, Providers_read,
      Sandbox_run]"
| "role_capabilities Role_viewer = [Mandates_read, Receipts_read, Policies_read, Providers_read]"

definition serviceAccountRoleAllowsCapabilities ::
    "service_account_role \<Rightarrow> capability_text list \<Rightarrow> bool" where
  "serviceAccountRoleAllowsCapabilities role caps =
     list_all (\<lambda>c. case c of Known k \<Rightarrow> k \<in> set (role_capabilities role) | UnknownCapability _ \<Rightarrow> False) caps"

section \<open>Tokens\<close>

text \<open>\<open>Buffer.toString("base64url")\<close> on bytes: groups of three bytes, no padding.\<close>

definition b64_char :: "nat \<Rightarrow> char" where
  "b64_char n = (if n < 26 then char_of (65 + n) else if n < 52 then char_of (71 + n)
     else if n < 62 then char_of (n - 4) else if n = 62 then CHR ''-'' else CHR ''_'')"

fun base64url :: "nat list \<Rightarrow> string" where
  "base64url (a # b # c # rest) =
     [b64_char (a div 4), b64_char (a mod 4 * 16 + b div 16), b64_char (b mod 16 * 4 + c div 64),
      b64_char (c mod 64)] @ base64url rest"
| "base64url [a, b] = [b64_char (a div 4), b64_char (a mod 4 * 16 + b div 16), b64_char (b mod 16 * 4)]"
| "base64url [a] = [b64_char (a div 4), b64_char (a mod 4 * 16)]"
| "base64url [] = []"

text \<open>\<open>Buffer.from(s, "hex")\<close>: pairs of hex digits, up to the first pair that is not.\<close>

definition hex_value :: "char \<Rightarrow> nat option" where
  "hex_value c =
     (let n = of_char c :: nat in
      if 48 \<le> n \<and> n \<le> 57 then Some (n - 48) else if 97 \<le> n \<and> n \<le> 102 then Some (n - 87)
      else if 65 \<le> n \<and> n \<le> 70 then Some (n - 55) else None)"

fun hex_bytes :: "string \<Rightarrow> nat list" where
  "hex_bytes (c # d # rest) =
     (case (hex_value c, hex_value d) of
        (Some x, Some y) \<Rightarrow> (16 * x + y) # hex_bytes rest | _ \<Rightarrow> [])"
| "hex_bytes _ = []"

definition hashApiToken :: "(string \<Rightarrow> string) \<Rightarrow> string \<Rightarrow> string" where
  "hashApiToken sha256_hex token = sha256_hex token"

definition tokenMatchesHash :: "(string \<Rightarrow> string) \<Rightarrow> string \<Rightarrow> string \<Rightarrow> bool" where
  "tokenMatchesHash sha256_hex token expectedHash =
     (hex_bytes (hashApiToken sha256_hex token) = hex_bytes expectedHash)"

text \<open>\<open>[...new Set(xs)]\<close>: the first occurrences, in order.\<close>

fun uniq_first :: "'a list \<Rightarrow> 'a list" where
  "uniq_first [] = []"
| "uniq_first (x # xs) = x # filter (\<lambda>y. y \<noteq> x) (uniq_first xs)"

lemma set_uniq_first [simp]: "set (uniq_first xs) = set xs"
  by (induction xs) auto

lemma distinct_uniq_first [simp]: "distinct (uniq_first xs)"
  by (induction xs) auto

lemma uniq_first_distinct: "distinct xs \<Longrightarrow> uniq_first xs = xs"
  by (induction xs) (auto simp: filter_id_conv)

section \<open>Credentials\<close>

record credential_input =
  ci_id :: string
  ci_organizationId :: string
  ci_ownerId :: string
  ci_name :: string
  ci_capabilities :: "capability_text list"
  ci_createdAt :: timestamp
  ci_expiresAt :: "timestamp option"

record credential_record =
  cred_id :: string
  cred_organizationId :: string
  cred_ownerId :: string
  cred_name :: string
  cred_capabilities :: "capability_text list"
  cred_tokenPrefix :: string
  cred_tokenHash :: string
  cred_createdAt :: timestamp
  cred_expiresAt :: "timestamp option"
  cred_revokedAt :: "timestamp option"

datatype credential_error =
    CREDENTIAL_ID_REQUIRED | CREDENTIAL_ORGANIZATION_REQUIRED | CREDENTIAL_OWNER_REQUIRED
  | CREDENTIAL_NAME_REQUIRED | CREDENTIAL_CREATED_AT_INVALID | CREDENTIAL_CAPABILITY_INVALID
  | CREDENTIAL_EXPIRY_INVALID | CREDENTIAL_ENTROPY_INSUFFICIENT

text \<open>
  \<open>createApiCredential\<close> (the owner is the agent, codes \<open>API_CREDENTIAL_...\<close>) and
  \<open>createServiceAccountCredential\<close> (the owner is the service account, codes
  \<open>SERVICE_CREDENTIAL_...\<close>) make the same checks in the same order and the same record.
\<close>

definition check_credential_input :: "credential_input \<Rightarrow> credential_error option" where
  "check_credential_input inp = first_error
     [(blank (ci_id inp), CREDENTIAL_ID_REQUIRED),
      (blank (ci_organizationId inp), CREDENTIAL_ORGANIZATION_REQUIRED),
      (blank (ci_ownerId inp), CREDENTIAL_OWNER_REQUIRED),
      (blank (ci_name inp), CREDENTIAL_NAME_REQUIRED),
      (bad_time (ci_createdAt inp), CREDENTIAL_CREATED_AT_INVALID),
      (ci_capabilities inp = [] \<or> list_ex (\<lambda>c. \<not> known_capability c) (ci_capabilities inp),
       CREDENTIAL_CAPABILITY_INVALID),
      ((case ci_expiresAt inp of None \<Rightarrow> False
        | Some t \<Rightarrow> bad_time t \<or> time_le t (ci_createdAt inp)), CREDENTIAL_EXPIRY_INVALID)]"

definition createApiCredential ::
    "(string \<Rightarrow> string) \<Rightarrow> nat list \<Rightarrow> credential_input \<Rightarrow> credential_error + (string \<times> credential_record)" where
  "createApiCredential sha256_hex secret inp =
     (case check_credential_input inp of
        Some e \<Rightarrow> Inl e
      | None \<Rightarrow>
          if length secret < 32 then Inl CREDENTIAL_ENTROPY_INSUFFICIENT
          else (let token = ''fuse_sk_'' @ base64url secret in
            Inr (token,
              \<lparr>cred_id = ci_id inp, cred_organizationId = ci_organizationId inp,
               cred_ownerId = ci_ownerId inp, cred_name = ci_name inp,
               cred_capabilities = uniq_first (ci_capabilities inp),
               cred_tokenPrefix = take 20 token, cred_tokenHash = hashApiToken sha256_hex token,
               cred_createdAt = ci_createdAt inp, cred_expiresAt = ci_expiresAt inp,
               cred_revokedAt = None\<rparr>)))"

definition createServiceAccountCredential ::
    "(string \<Rightarrow> string) \<Rightarrow> nat list \<Rightarrow> credential_input \<Rightarrow> credential_error + (string \<times> credential_record)" where
  "createServiceAccountCredential sha256_hex secret inp = createApiCredential sha256_hex secret inp"

section \<open>Properties\<close>

lemma base64url_length: "length (base64url bs) = (4 * length bs + 2) div 3"
  by (induction bs rule: base64url.induct) auto

text \<open>
  A credential that is made authenticates its own token, keeps each requested capability once,
  none of them unknown, expires after it was created if at all, and shows only 20 characters of a
  token of at least 51.
\<close>

theorem credential_sound:
  assumes "createApiCredential sha secret inp = Inr (token, c)"
  shows "tokenMatchesHash sha token (cred_tokenHash c)
    \<and> set (cred_capabilities c) = set (ci_capabilities inp) \<and> distinct (cred_capabilities c)
    \<and> list_all known_capability (cred_capabilities c) \<and> cred_capabilities c \<noteq> []
    \<and> (case cred_expiresAt c of None \<Rightarrow> True | Some t \<Rightarrow> \<not> time_le t (cred_createdAt c))
    \<and> cred_tokenPrefix c = take 20 token \<and> length (cred_tokenPrefix c) = 20 \<and> 51 \<le> length token
    \<and> cred_revokedAt c = None"
proof -
  from assms have ok: "check_credential_input inp = None" and long: "\<not> length secret < 32"
    and token: "token = ''fuse_sk_'' @ base64url secret"
    and c: "c = \<lparr>cred_id = ci_id inp, cred_organizationId = ci_organizationId inp,
       cred_ownerId = ci_ownerId inp, cred_name = ci_name inp,
       cred_capabilities = uniq_first (ci_capabilities inp),
       cred_tokenPrefix = take 20 token, cred_tokenHash = hashApiToken sha token,
       cred_createdAt = ci_createdAt inp, cred_expiresAt = ci_expiresAt inp, cred_revokedAt = None\<rparr>"
    by (auto simp: createApiCredential_def Let_def split: option.splits if_splits)
  have len: "length token = 8 + (4 * length secret + 2) div 3"
    by (simp add: token base64url_length)
  have "list_all known_capability (ci_capabilities inp)" "ci_capabilities inp \<noteq> []"
    "(case ci_expiresAt inp of None \<Rightarrow> True | Some t \<Rightarrow> \<not> time_le t (ci_createdAt inp))"
    using ok by (auto simp: check_credential_input_def list_ex_iff list_all_iff split: option.splits if_splits)
  moreover have "uniq_first (ci_capabilities inp) \<noteq> []"
    using calculation(2) by (cases "ci_capabilities inp") auto
  moreover have "51 \<le> length token"
    using div_le_mono [of "4 * 32 + 2" "4 * length secret + 2" 3] long len by simp
  moreover have "cred_expiresAt c = ci_expiresAt inp" "cred_createdAt c = ci_createdAt inp"
    "cred_capabilities c = uniq_first (ci_capabilities inp)" "cred_tokenPrefix c = take 20 token"
    "cred_tokenHash c = hashApiToken sha token" "cred_revokedAt c = None"
    by (simp_all add: c)
  ultimately show ?thesis by (simp add: tokenMatchesHash_def list_all_iff cong: option.case_cong)
qed

lemma credential_sound_witness:
  "\<exists>token c. createApiCredential id (replicate 32 7) \<lparr>ci_id = ''k'', ci_organizationId = ''o'', ci_ownerId = ''a'',
     ci_name = ''n'', ci_capabilities = [Known Sandbox_run, Known Sandbox_run], ci_createdAt = Instant 5,
     ci_expiresAt = Some (Instant 9)\<rparr> = Inr (token, c) \<and> tokenMatchesHash id token (cred_tokenHash c)"
proof -
  have "is_ok (createApiCredential id (replicate 32 7) \<lparr>ci_id = ''k'', ci_organizationId = ''o'', ci_ownerId = ''a'',
     ci_name = ''n'', ci_capabilities = [Known Sandbox_run, Known Sandbox_run], ci_createdAt = Instant 5,
     ci_expiresAt = Some (Instant 9)\<rparr>)" by code_simp
  then obtain token c where tc: "createApiCredential id (replicate 32 7) \<lparr>ci_id = ''k'', ci_organizationId = ''o'',
     ci_ownerId = ''a'', ci_name = ''n'', ci_capabilities = [Known Sandbox_run, Known Sandbox_run],
     ci_createdAt = Instant 5, ci_expiresAt = Some (Instant 9)\<rparr> = Inr (token, c)" by (auto simp: is_ok_iff)
  from credential_sound [OF tc] tc show ?thesis by blast
qed

text \<open>Roles are ordered: what a viewer may hold an operator may, what an operator may an admin may.\<close>

lemma role_order:
  "set (role_capabilities Role_viewer) \<subseteq> set (role_capabilities Role_operator)"
  "set (role_capabilities Role_operator) \<subseteq> set (role_capabilities Role_admin)"
  by (auto simp: API_CAPABILITIES_def)

end
