(* ===== verification/Policy.thy ===== *)
theory Policy
  imports Credentials
begin

text \<open>
  \<open>src/src/domain/policy.ts\<close>: policy versions, their validation, and \<open>evaluatePolicy\<close>, which decides
  every inference request. The model keeps the order of the checks and of the reasons. The lemmas
  say what an allowed decision guarantees in each mode and that a decision is a function of the
  reasons.
\<close>

section \<open>Data\<close>

datatype policy_mode = Dry_run | Enforce | Paused | OtherMode string

datatype policy_outcome = ALLOW | DENY | REVIEW

record policy_limits =
  maxPerCallAtomic :: int
  maxHourlyAtomic :: int
  maxDailyAtomic :: int
  maxRequestsPerMinute :: int
  maxInputTokens :: int
  maxOutputTokens :: int

record shadow_policy =
  classPriorWindowSpendAtomic :: int
  windowSeconds :: int
  targetMinimumObservations :: int
  siblingMinimumForScoring :: int
  siblingMinimumForIntervention :: int
  confidenceConstant :: int
  divergenceThresholdBps :: int

record workload_class =
  wc_id :: string
  maxCostPerCallAtomic :: int
  maxInvocationsPerBranch :: int
  aggregateBudgetAtomic :: int
  minimumInputTokens :: int
  wc_shadow :: "shadow_policy option"

text \<open>\<open>workloadClasses\<close> is optional; every use reads an absent list as the empty one.\<close>

record policy_version =
  pol_id :: string
  pol_organizationId :: string
  pol_version :: int
  pol_mode :: policy_mode
  allowedProviders :: "string list"
  allowedModels :: "string list"
  requiredCapability :: capability_text
  limits :: policy_limits
  workloadClasses :: "workload_class list"
  pol_createdAt :: timestamp

datatype policy_reason =
    POLICY_PAUSED | MANDATE_INACTIVE | MANDATE_EXPIRED | AGENT_NOT_AUTHORIZED | CAPABILITY_MISSING
  | PROVIDER_NOT_ALLOWED | MODEL_NOT_ALLOWED | PER_CALL_LIMIT_EXCEEDED | HOURLY_LIMIT_EXCEEDED
  | DAILY_LIMIT_EXCEEDED | MANDATE_BUDGET_EXCEEDED | RATE_LIMIT_EXCEEDED
  | INPUT_TOKEN_LIMIT_EXCEEDED | OUTPUT_TOKEN_LIMIT_EXCEEDED | WORKLOAD_CLASS_REQUIRED
  | BRANCH_NOT_AUTHORIZED | BRANCH_EXPIRED | BRANCH_BUDGET_EXCEEDED | WORKLOAD_CLASS_NOT_ALLOWED
  | WORKLOAD_CLASS_PER_CALL_LIMIT_EXCEEDED | WORKLOAD_CLASS_INVOCATION_LIMIT_EXCEEDED
  | WORKLOAD_CLASS_BUDGET_EXCEEDED | WORKLOAD_CLASS_SHAPE_MISMATCH

record workload_input =
  wi_branchId :: string
  wi_workloadClass :: string
  branchAuthorized :: bool
  branchMaximumAtomic :: int
  branchSpentAtomic :: int
  branchExpiresAt :: "timestamp option"
  classAuthorized :: bool
  classInvocationCount :: int
  classSpentAtomic :: int

record evaluation_input =
  ev_now :: timestamp
  ev_mandateState :: string
  ev_mandateExpiresAt :: "timestamp option"
  agentAuthorized :: bool
  agentCapabilities :: "capability_text list"
  ev_provider :: string
  ev_model :: string
  estimatedCostAtomic :: int
  ev_inputTokens :: int
  ev_maxOutputTokens :: int
  spentHourAtomic :: int
  spentDayAtomic :: int
  mandateSpentAtomic :: int
  mandateMaximumAtomic :: int
  requestCountLastMinute :: int
  ev_workload :: "workload_input option"

record policy_decision =
  pd_outcome :: policy_outcome
  pd_wouldOutcome :: policy_outcome
  pd_enforced :: bool
  pd_reasonCodes :: "policy_reason list"

datatype policy_error =
    POLICY_ID_REQUIRED | POLICY_ORGANIZATION_REQUIRED | POLICY_VERSION_INVALID | POLICY_MODE_INVALID
  | POLICY_CREATED_AT_INVALID | POLICY_CAPABILITY_INVALID
  | POLICY_PROVIDER_REQUIRED | POLICY_PROVIDER_DUPLICATE | POLICY_MODEL_REQUIRED
  | POLICY_MODEL_DUPLICATE | WORKLOAD_CLASS_ID_INVALID | WORKLOAD_CLASS_DUPLICATE
  | WORKLOAD_CLASS_LIMIT_INVALID | WORKLOAD_CLASS_SHADOW_INVALID | POLICY_LIMIT_INVALID string
  | POLICY_EVALUATION_TIME_INVALID | MANDATE_EXPIRY_INVALID | POLICY_EVALUATION_PROVIDER_REQUIRED
  | POLICY_EVALUATION_MODEL_REQUIRED | POLICY_EVALUATION_CAPABILITY_INVALID
  | POLICY_EVALUATION_AMOUNT_INVALID | POLICY_EVALUATION_COUNT_INVALID

section \<open>Validation\<close>

definition validateUniqueList :: "string list \<Rightarrow> 'e \<Rightarrow> 'e \<Rightarrow> 'e option" where
  "validateUniqueList values required duplicate =
     (if values = [] \<or> list_ex blank values then Some required
      else if \<not> distinct values then Some duplicate else None)"

text \<open>The pattern \<open>/^[a-z][a-z0-9_.-]{0,63}$/\<close>.\<close>

definition lower_letter :: "char \<Rightarrow> bool" where
  "lower_letter c \<longleftrightarrow> 97 \<le> (of_char c :: nat) \<and> (of_char c :: nat) \<le> 122"

definition class_id_char :: "char \<Rightarrow> bool" where
  "class_id_char c \<longleftrightarrow> lower_letter c \<or> (48 \<le> (of_char c :: nat) \<and> (of_char c :: nat) \<le> 57)
     \<or> c = CHR ''_'' \<or> c = CHR ''.'' \<or> c = CHR ''-''"

definition class_id_ok :: "string \<Rightarrow> bool" where
  "class_id_ok s = (case s of [] \<Rightarrow> False
     | c # cs \<Rightarrow> lower_letter c \<and> list_all class_id_char cs \<and> length cs \<le> 63)"

definition shadow_invalid :: "shadow_policy \<Rightarrow> bool" where
  "shadow_invalid s \<longleftrightarrow>
     classPriorWindowSpendAtomic s \<le> 0
     \<or> list_ex (\<lambda>v. \<not> safe_integer v \<or> v < 1)
         [windowSeconds s, targetMinimumObservations s, siblingMinimumForScoring s,
          siblingMinimumForIntervention s, confidenceConstant s, divergenceThresholdBps s]
     \<or> siblingMinimumForIntervention s < siblingMinimumForScoring s"

fun check_class_limits :: "workload_class list \<Rightarrow> policy_error option" where
  "check_class_limits [] = None"
| "check_class_limits (w # ws) =
     (if maxCostPerCallAtomic w \<le> 0 \<or> aggregateBudgetAtomic w \<le> 0
        \<or> aggregateBudgetAtomic w < maxCostPerCallAtomic w
        \<or> \<not> safe_integer (maxInvocationsPerBranch w) \<or> maxInvocationsPerBranch w < 1
        \<or> \<not> safe_integer (minimumInputTokens w) \<or> minimumInputTokens w < 0
      then Some WORKLOAD_CLASS_LIMIT_INVALID
      else (case wc_shadow w of
          None \<Rightarrow> check_class_limits ws
        | Some s \<Rightarrow> if shadow_invalid s then Some WORKLOAD_CLASS_SHADOW_INVALID
                    else check_class_limits ws))"

definition validateWorkloadClasses :: "workload_class list \<Rightarrow> policy_error option" where
  "validateWorkloadClasses ws =
     (if list_ex (\<lambda>w. \<not> class_id_ok (wc_id w)) ws then Some WORKLOAD_CLASS_ID_INVALID
      else if \<not> distinct (map wc_id ws) then Some WORKLOAD_CLASS_DUPLICATE
      else check_class_limits ws)"

definition validatePolicy :: "policy_version \<Rightarrow> policy_error option" where
  "validatePolicy p =
     orElse (first_error
       [(blank (pol_id p), POLICY_ID_REQUIRED),
        (blank (pol_organizationId p), POLICY_ORGANIZATION_REQUIRED),
        (pol_version p < 1, POLICY_VERSION_INVALID),
        (pol_mode p \<notin> {Dry_run, Enforce, Paused}, POLICY_MODE_INVALID),
        (bad_time (pol_createdAt p), POLICY_CREATED_AT_INVALID),
        (\<not> known_capability (requiredCapability p), POLICY_CAPABILITY_INVALID)])
     (orElse (validateUniqueList (allowedProviders p) POLICY_PROVIDER_REQUIRED POLICY_PROVIDER_DUPLICATE)
     (orElse (validateUniqueList (allowedModels p) POLICY_MODEL_REQUIRED POLICY_MODEL_DUPLICATE)
     (orElse (validateWorkloadClasses (workloadClasses p))
     (first_error
       [(maxPerCallAtomic (limits p) < 0, POLICY_LIMIT_INVALID ''maxPerCallAtomic''),
        (maxHourlyAtomic (limits p) < 0, POLICY_LIMIT_INVALID ''maxHourlyAtomic''),
        (maxDailyAtomic (limits p) < 0, POLICY_LIMIT_INVALID ''maxDailyAtomic''),
        (\<not> safe_nonneg (maxRequestsPerMinute (limits p)), POLICY_LIMIT_INVALID ''maxRequestsPerMinute''),
        (\<not> safe_nonneg (maxInputTokens (limits p)), POLICY_LIMIT_INVALID ''maxInputTokens''),
        (\<not> safe_nonneg (maxOutputTokens (limits p)), POLICY_LIMIT_INVALID ''maxOutputTokens'')]))))"

definition validateEvaluation :: "evaluation_input \<Rightarrow> policy_error option" where
  "validateEvaluation i = first_error
     [(bad_time (ev_now i), POLICY_EVALUATION_TIME_INVALID),
      ((case ev_mandateExpiresAt i of None \<Rightarrow> False | Some t \<Rightarrow> bad_time t), MANDATE_EXPIRY_INVALID),
      (blank (ev_provider i), POLICY_EVALUATION_PROVIDER_REQUIRED),
      (blank (ev_model i), POLICY_EVALUATION_MODEL_REQUIRED),
      (list_ex (\<lambda>c. \<not> known_capability c) (agentCapabilities i) \<or> \<not> distinct (agentCapabilities i),
       POLICY_EVALUATION_CAPABILITY_INVALID),
      (estimatedCostAtomic i < 0 \<or> spentHourAtomic i < 0 \<or> spentDayAtomic i < 0
         \<or> mandateSpentAtomic i < 0 \<or> mandateMaximumAtomic i < 0, POLICY_EVALUATION_AMOUNT_INVALID),
      (list_ex (\<lambda>v. \<not> safe_nonneg v) [ev_inputTokens i, ev_maxOutputTokens i, requestCountLastMinute i],
       POLICY_EVALUATION_COUNT_INVALID)]"

section \<open>Evaluation\<close>

definition reason_if :: "bool \<Rightarrow> policy_reason \<Rightarrow> policy_reason list" where
  "reason_if b r = (if b then [r] else [])"

lemma set_reason_if [simp]: "r \<in> set (reason_if b r') \<longleftrightarrow> b \<and> r = r'"
  by (auto simp: reason_if_def)

lemma ball_reason_if: "(\<forall>r \<in> set (reason_if b r'). P r) \<longleftrightarrow> (b \<longrightarrow> P r')"
  by auto

lemma reason_if_Nil [simp]: "reason_if b r = [] \<longleftrightarrow> \<not> b"
  by (simp add: reason_if_def)

definition class_reasons :: "workload_class \<Rightarrow> workload_input \<Rightarrow> evaluation_input \<Rightarrow> policy_reason list" where
  "class_reasons wc w i =
     reason_if (maxCostPerCallAtomic wc < estimatedCostAtomic i) WORKLOAD_CLASS_PER_CALL_LIMIT_EXCEEDED
     @ reason_if (maxInvocationsPerBranch wc \<le> classInvocationCount w) WORKLOAD_CLASS_INVOCATION_LIMIT_EXCEEDED
     @ reason_if (aggregateBudgetAtomic wc < classSpentAtomic w + estimatedCostAtomic i)
         WORKLOAD_CLASS_BUDGET_EXCEEDED
     @ reason_if (ev_inputTokens i < minimumInputTokens wc) WORKLOAD_CLASS_SHAPE_MISMATCH"

definition workload_reasons :: "policy_version \<Rightarrow> evaluation_input \<Rightarrow> policy_reason list" where
  "workload_reasons p i =
     (if workloadClasses p = [] then []
      else (case ev_workload i of
          None \<Rightarrow> [WORKLOAD_CLASS_REQUIRED]
        | Some w \<Rightarrow>
            if \<not> branchAuthorized w then [BRANCH_NOT_AUTHORIZED]
            else
              reason_if (case branchExpiresAt w of None \<Rightarrow> False | Some t \<Rightarrow> time_le t (ev_now i)) BRANCH_EXPIRED
              @ reason_if (branchMaximumAtomic w < branchSpentAtomic w + estimatedCostAtomic i)
                  BRANCH_BUDGET_EXCEEDED
              @ (case find (\<lambda>wc. wc_id wc = wi_workloadClass w) (workloadClasses p) of
                   None \<Rightarrow> [WORKLOAD_CLASS_NOT_ALLOWED]
                 | Some wc \<Rightarrow> if \<not> classAuthorized w then [WORKLOAD_CLASS_NOT_ALLOWED]
                             else class_reasons wc w i)))"

definition evaluation_reasons :: "policy_version \<Rightarrow> evaluation_input \<Rightarrow> policy_reason list" where
  "evaluation_reasons p i =
     reason_if (ev_mandateState i \<noteq> ''active'') MANDATE_INACTIVE
     @ reason_if (case ev_mandateExpiresAt i of None \<Rightarrow> False | Some t \<Rightarrow> time_le t (ev_now i)) MANDATE_EXPIRED
     @ reason_if (\<not> agentAuthorized i) AGENT_NOT_AUTHORIZED
     @ reason_if (requiredCapability p \<notin> set (agentCapabilities i)) CAPABILITY_MISSING
     @ reason_if (ev_provider i \<notin> set (allowedProviders p)) PROVIDER_NOT_ALLOWED
     @ reason_if (ev_model i \<notin> set (allowedModels p)) MODEL_NOT_ALLOWED
     @ reason_if (maxPerCallAtomic (limits p) < estimatedCostAtomic i) PER_CALL_LIMIT_EXCEEDED
     @ reason_if (maxHourlyAtomic (limits p) < spentHourAtomic i + estimatedCostAtomic i) HOURLY_LIMIT_EXCEEDED
     @ reason_if (maxDailyAtomic (limits p) < spentDayAtomic i + estimatedCostAtomic i) DAILY_LIMIT_EXCEEDED
     @ reason_if (mandateMaximumAtomic i < mandateSpentAtomic i + estimatedCostAtomic i) MANDATE_BUDGET_EXCEEDED
     @ reason_if (maxRequestsPerMinute (limits p) \<le> requestCountLastMinute i) RATE_LIMIT_EXCEEDED
     @ reason_if (maxInputTokens (limits p) < ev_inputTokens i) INPUT_TOKEN_LIMIT_EXCEEDED
     @ reason_if (maxOutputTokens (limits p) < ev_maxOutputTokens i) OUTPUT_TOKEN_LIMIT_EXCEEDED
     @ workload_reasons p i"

definition hard_reasons :: "policy_reason list" where
  "hard_reasons =
     [MANDATE_INACTIVE, MANDATE_EXPIRED, AGENT_NOT_AUTHORIZED, CAPABILITY_MISSING,
      MANDATE_BUDGET_EXCEEDED, WORKLOAD_CLASS_REQUIRED, BRANCH_NOT_AUTHORIZED, BRANCH_EXPIRED,
      BRANCH_BUDGET_EXCEEDED, WORKLOAD_CLASS_NOT_ALLOWED, WORKLOAD_CLASS_PER_CALL_LIMIT_EXCEEDED,
      WORKLOAD_CLASS_INVOCATION_LIMIT_EXCEEDED, WORKLOAD_CLASS_BUDGET_EXCEEDED,
      WORKLOAD_CLASS_SHAPE_MISMATCH]"

definition evaluatePolicy :: "policy_version \<Rightarrow> evaluation_input \<Rightarrow> policy_error + policy_decision" where
  "evaluatePolicy p i =
     (case orElse (validatePolicy p) (validateEvaluation i) of
        Some e \<Rightarrow> Inl e
      | None \<Rightarrow>
          if pol_mode p = Paused
          then Inr \<lparr>pd_outcome = DENY, pd_wouldOutcome = DENY, pd_enforced = True,
                    pd_reasonCodes = [POLICY_PAUSED]\<rparr>
          else (let reasons = evaluation_reasons p i;
                    wouldOutcome = (if reasons = [] then ALLOW else DENY)
                in if list_ex (\<lambda>r. r \<in> set hard_reasons) reasons
                   then Inr \<lparr>pd_outcome = DENY, pd_wouldOutcome = wouldOutcome, pd_enforced = True,
                             pd_reasonCodes = reasons\<rparr>
                   else if pol_mode p = Dry_run
                   then Inr \<lparr>pd_outcome = ALLOW, pd_wouldOutcome = wouldOutcome, pd_enforced = False,
                             pd_reasonCodes = reasons\<rparr>
                   else Inr \<lparr>pd_outcome = wouldOutcome, pd_wouldOutcome = wouldOutcome,
                             pd_enforced = True, pd_reasonCodes = reasons\<rparr>))"

section \<open>What a decision means\<close>

lemma evaluatePolicy_Inr:
  "evaluatePolicy p i = Inr d \<Longrightarrow> validatePolicy p = None \<and> validateEvaluation i = None"
  by (auto simp: evaluatePolicy_def split: option.splits)

lemma validatePolicy_mode: "validatePolicy p = None \<Longrightarrow> pol_mode p \<in> {Dry_run, Enforce, Paused}"
  by (auto simp: validatePolicy_def split: if_splits)

text \<open>The limits no mode waives: the mandate, its budget, the agent, and the branch and class caps.\<close>

definition not_after :: "timestamp option \<Rightarrow> timestamp \<Rightarrow> bool" where
  "not_after expiry now = (case expiry of None \<Rightarrow> True | Some t \<Rightarrow> \<not> time_le t now)"

definition branch_limits_hold :: "policy_version \<Rightarrow> evaluation_input \<Rightarrow> bool" where
  "branch_limits_hold p i \<longleftrightarrow>
     (case ev_workload i of None \<Rightarrow> False | Some w \<Rightarrow>
        branchAuthorized w \<and> not_after (branchExpiresAt w) (ev_now i)
        \<and> branchSpentAtomic w + estimatedCostAtomic i \<le> branchMaximumAtomic w
        \<and> classAuthorized w
        \<and> (case find (\<lambda>wc. wc_id wc = wi_workloadClass w) (workloadClasses p) of None \<Rightarrow> False | Some wc \<Rightarrow>
             estimatedCostAtomic i \<le> maxCostPerCallAtomic wc
             \<and> classInvocationCount w < maxInvocationsPerBranch wc
             \<and> classSpentAtomic w + estimatedCostAtomic i \<le> aggregateBudgetAtomic wc
             \<and> minimumInputTokens wc \<le> ev_inputTokens i))"

definition hard_limits_hold :: "policy_version \<Rightarrow> evaluation_input \<Rightarrow> bool" where
  "hard_limits_hold p i \<longleftrightarrow>
     ev_mandateState i = ''active'' \<and> not_after (ev_mandateExpiresAt i) (ev_now i)
     \<and> agentAuthorized i \<and> requiredCapability p \<in> set (agentCapabilities i)
     \<and> mandateSpentAtomic i + estimatedCostAtomic i \<le> mandateMaximumAtomic i
     \<and> (workloadClasses p = [] \<or> branch_limits_hold p i)"

definition soft_limits_hold :: "policy_version \<Rightarrow> evaluation_input \<Rightarrow> bool" where
  "soft_limits_hold p i \<longleftrightarrow>
     ev_provider i \<in> set (allowedProviders p) \<and> ev_model i \<in> set (allowedModels p)
     \<and> estimatedCostAtomic i \<le> maxPerCallAtomic (limits p)
     \<and> spentHourAtomic i + estimatedCostAtomic i \<le> maxHourlyAtomic (limits p)
     \<and> spentDayAtomic i + estimatedCostAtomic i \<le> maxDailyAtomic (limits p)
     \<and> requestCountLastMinute i < maxRequestsPerMinute (limits p)
     \<and> ev_inputTokens i \<le> maxInputTokens (limits p) \<and> ev_maxOutputTokens i \<le> maxOutputTokens (limits p)"

lemma class_reasons_Nil:
  "class_reasons wc w i = [] \<longleftrightarrow>
     estimatedCostAtomic i \<le> maxCostPerCallAtomic wc \<and> classInvocationCount w < maxInvocationsPerBranch wc
     \<and> classSpentAtomic w + estimatedCostAtomic i \<le> aggregateBudgetAtomic wc
     \<and> minimumInputTokens wc \<le> ev_inputTokens i"
  by (auto simp: class_reasons_def)

lemma workload_reasons_Nil:
  "workload_reasons p i = [] \<longleftrightarrow> workloadClasses p = [] \<or> branch_limits_hold p i"
  by (auto simp: workload_reasons_def branch_limits_hold_def not_after_def class_reasons_Nil
      split: option.splits if_splits)

lemma workload_reasons_hard: "set (workload_reasons p i) \<subseteq> set hard_reasons"
  by (auto simp: workload_reasons_def class_reasons_def hard_reasons_def split: option.splits if_splits)

lemma no_hard_reason_iff:
  "(\<forall>r \<in> set (evaluation_reasons p i). r \<notin> set hard_reasons) \<longleftrightarrow> hard_limits_hold p i"
proof -
  have workload: "(\<forall>r \<in> set (workload_reasons p i). r \<notin> set hard_reasons) \<longleftrightarrow> workload_reasons p i = []"
    using workload_reasons_hard [of p i] by (cases "workload_reasons p i") auto
  have "(\<forall>r \<in> set (evaluation_reasons p i). r \<notin> set hard_reasons) \<longleftrightarrow>
      ev_mandateState i = ''active'' \<and> not_after (ev_mandateExpiresAt i) (ev_now i)
      \<and> agentAuthorized i \<and> requiredCapability p \<in> set (agentCapabilities i)
      \<and> mandateSpentAtomic i + estimatedCostAtomic i \<le> mandateMaximumAtomic i
      \<and> (\<forall>r \<in> set (workload_reasons p i). r \<notin> set hard_reasons)"
    unfolding evaluation_reasons_def set_append ball_Un ball_reason_if
    by (cases "ev_mandateExpiresAt i") (simp_all add: hard_reasons_def not_after_def not_less)
  then show ?thesis by (simp only: workload workload_reasons_Nil hard_limits_hold_def)
qed

lemma evaluation_reasons_Nil: "evaluation_reasons p i = [] \<longleftrightarrow> hard_limits_hold p i \<and> soft_limits_hold p i"
  by (auto simp: evaluation_reasons_def workload_reasons_Nil hard_limits_hold_def soft_limits_hold_def
      not_after_def split: option.splits)

lemma allow_reasons:
  assumes "evaluatePolicy p i = Inr d" and "pd_outcome d = ALLOW"
  shows "\<not> list_ex (\<lambda>r. r \<in> set hard_reasons) (evaluation_reasons p i)" and "pol_mode p \<noteq> Paused"
    and "0 \<le> estimatedCostAtomic i"
  using assms by (auto simp: evaluatePolicy_def Let_def validateEvaluation_def first_error_None_simps
      split: option.splits if_splits)

lemma allow_mandate:
  assumes "evaluatePolicy p i = Inr d" and "pd_outcome d = ALLOW"
  shows "ev_mandateState i = ''active''" and "agentAuthorized i"
    and "mandateSpentAtomic i + estimatedCostAtomic i \<le> mandateMaximumAtomic i"
    and "0 \<le> estimatedCostAtomic i"
  using allow_reasons [OF assms] no_hard_reason_iff [of p i] by (auto simp: list_ex_iff hard_limits_hold_def)

text \<open>
  C38: when a policy allows a request, in whatever mode, no hard limit is broken: the mandate is
  active and unexpired with room for the cost, the agent authorized and capable, and where the
  policy has workload classes the branch and the class permit the call.
\<close>

theorem allowed_within_hard_limits:
  assumes "evaluatePolicy p i = Inr d" and "pd_outcome d = ALLOW"
  shows "hard_limits_hold p i \<and> pol_mode p \<noteq> Paused"
  using allow_reasons [OF assms] by (simp add: list_ex_iff no_hard_reason_iff [symmetric])

text \<open>
  An enforced policy allows a valid request exactly when every limit holds; a dry run allows it
  exactly when the hard limits hold and reports what enforcement would say; a paused one never does.
\<close>

theorem evaluatePolicy_outcome:
  assumes "evaluatePolicy p i = Inr d"
  shows "pd_outcome d = (case pol_mode p of
       Paused \<Rightarrow> DENY
     | Dry_run \<Rightarrow> if hard_limits_hold p i then ALLOW else DENY
     | _ \<Rightarrow> if hard_limits_hold p i \<and> soft_limits_hold p i then ALLOW else DENY)
    \<and> (pol_mode p \<noteq> Paused \<longrightarrow>
        pd_wouldOutcome d = (if hard_limits_hold p i \<and> soft_limits_hold p i then ALLOW else DENY)
        \<and> pd_reasonCodes d = evaluation_reasons p i)"
proof -
  from assms have mode: "pol_mode p \<in> {Dry_run, Enforce, Paused}"
    by (intro validatePolicy_mode) (simp add: evaluatePolicy_Inr)
  have hard: "list_ex (\<lambda>r. r \<in> set hard_reasons) (evaluation_reasons p i) \<longleftrightarrow> \<not> hard_limits_hold p i"
    by (simp add: list_ex_iff no_hard_reason_iff [symmetric])
  show ?thesis
    using assms mode
    by (auto simp: evaluatePolicy_def Let_def hard evaluation_reasons_Nil split: option.splits if_splits)
qed

definition sample_policy :: policy_version where
  "sample_policy = \<lparr>pol_id = ''p'', pol_organizationId = ''o'', pol_version = 1, pol_mode = Enforce,
     allowedProviders = [''openrouter''], allowedModels = [''m''], requiredCapability = Known Inference_invoke,
     limits = \<lparr>maxPerCallAtomic = 100, maxHourlyAtomic = 1000, maxDailyAtomic = 5000,
       maxRequestsPerMinute = 10, maxInputTokens = 1000, maxOutputTokens = 1000\<rparr>,
     workloadClasses = [], pol_createdAt = Instant 0\<rparr>"

definition sample_evaluation :: evaluation_input where
  "sample_evaluation = \<lparr>ev_now = Instant 10, ev_mandateState = ''active'', ev_mandateExpiresAt = None,
     agentAuthorized = True, agentCapabilities = [Known Inference_invoke], ev_provider = ''openrouter'',
     ev_model = ''m'', estimatedCostAtomic = 50, ev_inputTokens = 10, ev_maxOutputTokens = 10,
     spentHourAtomic = 0, spentDayAtomic = 0, mandateSpentAtomic = 0, mandateMaximumAtomic = 100,
     requestCountLastMinute = 0, ev_workload = None\<rparr>"

lemma sample_allowed:
  "evaluatePolicy sample_policy sample_evaluation =
     Inr \<lparr>pd_outcome = ALLOW, pd_wouldOutcome = ALLOW, pd_enforced = True, pd_reasonCodes = []\<rparr>"
  by code_simp

lemma allowed_within_hard_limits_witness:
  "hard_limits_hold sample_policy sample_evaluation \<and> pol_mode sample_policy \<noteq> Paused"
  by (rule allowed_within_hard_limits [OF sample_allowed]) simp

lemma evaluatePolicy_outcome_witness:
  "pol_mode sample_policy = Enforce \<and> soft_limits_hold sample_policy sample_evaluation"
  using evaluatePolicy_outcome [OF sample_allowed] by (simp add: sample_policy_def split: if_splits)

text \<open>
  Validation ignores the amounts and the expiry of the workload part: a branch expiry that is not a
  time never expires the branch.
\<close>

lemma invalid_branch_expiry_never_expires:
  "branchExpiresAt w = Some (NotATime s) \<Longrightarrow> not_after (branchExpiresAt w) now"
  by (simp add: not_after_def time_le_def)

end
