(* ===== verification/SiblingDivergence.thy ===== *)
theory SiblingDivergence
  imports Complex_Main "HOL-Library.Multiset" Decimal
begin

text \<open>
  \<open>src/src/anomaly/siblingDivergence.ts\<close>: compares the spend of a branch in a window with its
  siblings of the same workload class and with the class prior, in exact integer arithmetic. The
  lemmas relate the integer tests to the rational baseline they stand for, show that the order of
  the candidates does not matter, and bound the baseline.
\<close>

section \<open>Model\<close>

record divergence_config =
  dc_classPriorWindowSpendAtomic :: int
  dc_confidenceConstant :: int
  dc_targetMinimumObservations :: int
  dc_siblingMinimumForScoring :: int
  dc_siblingMinimumForIntervention :: int
  dc_divergenceThresholdBps :: int

record branch_observation =
  bo_branchId :: string
  bo_parentBranchId :: string
  bo_workloadClass :: string
  bo_spendAtomic :: int
  bo_observationCount :: int

datatype divergence_signal = SIBLING_DIVERGENCE | CLASS_PRIOR_EXCEEDED | CORRELATED_COHORT_SHIFT

datatype divergence_status = Scored | Insufficient_target_observations | Insufficient_siblings

datatype sibling_aggregate = No_aggregate | Mean | Trimmed_mean

datatype divergence_error =
    SIBLING_DIVERGENCE_PRIOR_INVALID | SIBLING_DIVERGENCE_CONFIG_INVALID
  | SIBLING_DIVERGENCE_BRANCH_REQUIRED | SIBLING_DIVERGENCE_PARENT_REQUIRED
  | SIBLING_DIVERGENCE_CLASS_REQUIRED | SIBLING_DIVERGENCE_SPEND_INVALID
  | SIBLING_DIVERGENCE_OBSERVATION_COUNT_INVALID

record divergence_result =
  dr_status :: divergence_status
  dr_targetObservationCount :: int
  dr_comparableSiblingCount :: int
  dr_siblingAggregate :: sibling_aggregate
  dr_siblingAggregateAtomic :: int
  dr_siblingWeightBps :: int
  dr_effectiveBaselineAtomic :: int
  dr_divergenceRatioBps :: int
  dr_targetPriorRatioBps :: int
  dr_cohortPriorRatioBps :: int
  dr_eligibleForIntervention :: bool
  dr_signals :: "divergence_signal list"
  dr_wouldEmitAnySignal :: bool
  dr_wouldSignalTarget :: bool
  dr_cohortShift :: bool
  dr_wouldSignal :: bool

definition BPS :: int where
  "BPS = 10000"

definition ratioFractionBps :: "int \<Rightarrow> int \<Rightarrow> divergence_error + int" where
  "ratioFractionBps numerator denominator =
     (if denominator \<le> 0 then Inl SIBLING_DIVERGENCE_PRIOR_INVALID
      else (let ratio = big_div (numerator * BPS) denominator
            in Inr (if max_safe_integer < ratio then max_safe_integer else ratio)))"

definition ratioBps :: "int \<Rightarrow> int \<Rightarrow> divergence_error + int" where
  "ratioBps numerator denominator = ratioFractionBps numerator denominator"

definition atOrAboveThreshold :: "int \<Rightarrow> int \<Rightarrow> int \<Rightarrow> divergence_error + bool" where
  "atOrAboveThreshold numerator denominator thresholdBps =
     (if denominator \<le> 0 then Inl SIBLING_DIVERGENCE_PRIOR_INVALID
      else Inr (thresholdBps * denominator \<le> numerator * BPS))"

definition validateObservation :: "branch_observation \<Rightarrow> divergence_error option" where
  "validateObservation b = first_error
     [(blank (bo_branchId b), SIBLING_DIVERGENCE_BRANCH_REQUIRED),
      (blank (bo_parentBranchId b), SIBLING_DIVERGENCE_PARENT_REQUIRED),
      (blank (bo_workloadClass b), SIBLING_DIVERGENCE_CLASS_REQUIRED),
      (bo_spendAtomic b < 0, SIBLING_DIVERGENCE_SPEND_INVALID),
      (\<not> safe_nonneg (bo_observationCount b), SIBLING_DIVERGENCE_OBSERVATION_COUNT_INVALID)]"

definition validateConfig :: "divergence_config \<Rightarrow> divergence_error option" where
  "validateConfig c = first_error
     [(dc_classPriorWindowSpendAtomic c \<le> 0, SIBLING_DIVERGENCE_PRIOR_INVALID),
      (list_ex (\<lambda>v. \<not> safe_integer v \<or> v < 1)
         [dc_confidenceConstant c, dc_targetMinimumObservations c, dc_siblingMinimumForScoring c,
          dc_siblingMinimumForIntervention c, dc_divergenceThresholdBps c],
       SIBLING_DIVERGENCE_CONFIG_INVALID),
      (dc_siblingMinimumForIntervention c < dc_siblingMinimumForScoring c,
       SIBLING_DIVERGENCE_CONFIG_INVALID)]"

definition is_comparable :: "divergence_config \<Rightarrow> branch_observation \<Rightarrow> branch_observation \<Rightarrow> bool" where
  "is_comparable c target b \<longleftrightarrow>
     bo_branchId b \<noteq> bo_branchId target \<and> bo_parentBranchId b = bo_parentBranchId target
     \<and> bo_workloadClass b = bo_workloadClass target
     \<and> dc_targetMinimumObservations c \<le> bo_observationCount b"

text \<open>The filter validates every candidate as it visits it.\<close>

fun comparable_of ::
    "divergence_config \<Rightarrow> branch_observation \<Rightarrow> branch_observation list
       \<Rightarrow> divergence_error + branch_observation list" where
  "comparable_of c target [] = Inr []"
| "comparable_of c target (b # bs) =
     (case validateObservation b of
        Some e \<Rightarrow> Inl e
      | None \<Rightarrow> and_then (comparable_of c target bs) (\<lambda>rest.
          Inr (if is_comparable c target b then b # rest else rest)))"

definition slice_inner :: "'a list \<Rightarrow> 'a list" where
  "slice_inner xs = butlast (tl xs)"

definition trimmed_spends :: "branch_observation list \<Rightarrow> int list" where
  "trimmed_spends comparable =
     (let sorted = sort (map bo_spendAtomic comparable)
      in if 5 \<le> length sorted then slice_inner sorted else sorted)"

definition signal_if :: "bool \<Rightarrow> divergence_signal \<Rightarrow> divergence_signal list" where
  "signal_if b s = (if b then [s] else [])"

definition base_result ::
    "divergence_config \<Rightarrow> branch_observation \<Rightarrow> int \<Rightarrow> int \<Rightarrow> divergence_result" where
  "base_result c target n ratio =
     \<lparr>dr_status = Insufficient_target_observations,
      dr_targetObservationCount = bo_observationCount target, dr_comparableSiblingCount = n,
      dr_siblingAggregate = No_aggregate, dr_siblingAggregateAtomic = 0, dr_siblingWeightBps = 0,
      dr_effectiveBaselineAtomic = dc_classPriorWindowSpendAtomic c,
      dr_divergenceRatioBps = ratio, dr_targetPriorRatioBps = ratio, dr_cohortPriorRatioBps = 0,
      dr_eligibleForIntervention = False, dr_signals = [], dr_wouldEmitAnySignal = False,
      dr_wouldSignalTarget = False, dr_cohortShift = False, dr_wouldSignal = False\<rparr>"

definition baselineNumerator :: "divergence_config \<Rightarrow> branch_observation list \<Rightarrow> int" where
  "baselineNumerator c comparable =
     int (length comparable) * sum_list (trimmed_spends comparable)
     + dc_confidenceConstant c * dc_classPriorWindowSpendAtomic c * int (length (trimmed_spends comparable))"

definition baselineDenominator :: "divergence_config \<Rightarrow> branch_observation list \<Rightarrow> int" where
  "baselineDenominator c comparable =
     (int (length comparable) + dc_confidenceConstant c) * int (length (trimmed_spends comparable))"

definition score ::
    "divergence_config \<Rightarrow> branch_observation \<Rightarrow> branch_observation list \<Rightarrow> bool
       \<Rightarrow> divergence_error + divergence_result" where
  "score c target comparable classPriorExceeded =
     (let prior = dc_classPriorWindowSpendAtomic c;
          siblingSum = sum_list (trimmed_spends comparable);
          siblingCount = int (length (trimmed_spends comparable));
          n = int (length comparable);
          num = baselineNumerator c comparable; den = baselineDenominator c comparable;
          eligible = dc_siblingMinimumForIntervention c \<le> n
      in and_then (ratioFractionBps (bo_spendAtomic target * den) num) (\<lambda>divergenceRatio.
         and_then (ratioBps (bo_spendAtomic target) prior) (\<lambda>targetPriorRatio.
         and_then (ratioFractionBps siblingSum (prior * siblingCount)) (\<lambda>cohortPriorRatio.
         and_then (atOrAboveThreshold (bo_spendAtomic target * den) num (dc_divergenceThresholdBps c)) (\<lambda>diverges.
         and_then (atOrAboveThreshold siblingSum (prior * siblingCount) (dc_divergenceThresholdBps c)) (\<lambda>shift.
           let signals = signal_if diverges SIBLING_DIVERGENCE @ signal_if classPriorExceeded CLASS_PRIOR_EXCEEDED
                 @ signal_if shift CORRELATED_COHORT_SHIFT;
               wouldSignalTarget = SIBLING_DIVERGENCE \<in> set signals \<or> CLASS_PRIOR_EXCEEDED \<in> set signals
           in Inr \<lparr>dr_status = Scored, dr_targetObservationCount = bo_observationCount target,
                dr_comparableSiblingCount = n,
                dr_siblingAggregate = (if 5 \<le> length comparable then Trimmed_mean else Mean),
                dr_siblingAggregateAtomic = big_div siblingSum siblingCount,
                dr_siblingWeightBps = big_div (n * BPS) (n + dc_confidenceConstant c),
                dr_effectiveBaselineAtomic = big_div num den,
                dr_divergenceRatioBps = divergenceRatio, dr_targetPriorRatioBps = targetPriorRatio,
                dr_cohortPriorRatioBps = cohortPriorRatio, dr_eligibleForIntervention = eligible,
                dr_signals = signals, dr_wouldEmitAnySignal = (signals \<noteq> []),
                dr_wouldSignalTarget = wouldSignalTarget,
                dr_cohortShift = (CORRELATED_COHORT_SHIFT \<in> set signals),
                dr_wouldSignal = (eligible \<and> wouldSignalTarget)\<rparr>))))))"

text \<open>The part of \<open>evaluateSiblingDivergence\<close> after validation and filtering.\<close>

definition window_result ::
    "divergence_config \<Rightarrow> branch_observation \<Rightarrow> branch_observation list
       \<Rightarrow> divergence_error + divergence_result" where
  "window_result c target comparable =
     and_then (ratioBps (bo_spendAtomic target) (dc_classPriorWindowSpendAtomic c)) (\<lambda>ratio.
       let n = int (length comparable); base = base_result c target n ratio in
       if bo_observationCount target < dc_targetMinimumObservations c then Inr base
       else and_then (atOrAboveThreshold (bo_spendAtomic target) (dc_classPriorWindowSpendAtomic c)
              (dc_divergenceThresholdBps c)) (\<lambda>classPriorExceeded.
         if n < dc_siblingMinimumForScoring c
         then Inr (base\<lparr>dr_status := Insufficient_siblings,
                dr_signals := signal_if classPriorExceeded CLASS_PRIOR_EXCEEDED,
                dr_wouldEmitAnySignal := (signal_if classPriorExceeded CLASS_PRIOR_EXCEEDED \<noteq> []),
                dr_wouldSignalTarget := classPriorExceeded\<rparr>)
         else score c target comparable classPriorExceeded))"

definition evaluateSiblingDivergence ::
    "divergence_config \<Rightarrow> branch_observation \<Rightarrow> branch_observation list
       \<Rightarrow> divergence_error + divergence_result" where
  "evaluateSiblingDivergence c target candidates =
     (case orElse (validateConfig c) (validateObservation target) of
        Some e \<Rightarrow> Inl e
      | None \<Rightarrow> and_then (comparable_of c target candidates) (window_result c target))"

lemma evaluate_Inr:
  "evaluateSiblingDivergence c t bs = Inr r \<longleftrightarrow> validateConfig c = None \<and> validateObservation t = None
     \<and> (\<exists>cs. comparable_of c t bs = Inr cs \<and> window_result c t cs = Inr r)"
proof (cases "orElse (validateConfig c) (validateObservation t)")
  case None
  then have "validateConfig c = None" "validateObservation t = None" by simp_all
  with None show ?thesis by (auto simp: evaluateSiblingDivergence_def and_then_Inr_iff orElse_def)
next
  case (Some e)
  then have "\<not> (validateConfig c = None \<and> validateObservation t = None)" by (metis orElse_None option.distinct(1))
  with Some show ?thesis by (auto simp: evaluateSiblingDivergence_def)
qed

section \<open>Validated inputs never fail the divisions\<close>

lemma validateConfig_None:
  "validateConfig c = None \<Longrightarrow> 0 < dc_classPriorWindowSpendAtomic c \<and> 1 \<le> dc_confidenceConstant c
     \<and> 1 \<le> dc_targetMinimumObservations c \<and> 1 \<le> dc_siblingMinimumForScoring c
     \<and> dc_siblingMinimumForScoring c \<le> dc_siblingMinimumForIntervention c \<and> 1 \<le> dc_divergenceThresholdBps c"
  by (auto simp: validateConfig_def split: if_splits)

lemma validateObservation_spend: "validateObservation b = None \<Longrightarrow> 0 \<le> bo_spendAtomic b"
  by (auto simp: validateObservation_def split: if_splits)

lemma comparable_of_Inr:
  "comparable_of c t bs = Inr cs \<longleftrightarrow>
     list_all (\<lambda>b. validateObservation b = None) bs \<and> cs = filter (is_comparable c t) bs"
  by (induction bs arbitrary: cs) (auto simp: and_then_Inr_iff split: option.splits)

lemma trimmed_subset: "set (trimmed_spends cs) \<subseteq> bo_spendAtomic ` set cs"
proof -
  have "set (slice_inner xs) \<subseteq> set xs" for xs :: "int list"
    by (cases xs) (auto simp: slice_inner_def dest: in_set_butlastD)
  from this [of "sort (map bo_spendAtomic cs)"] show ?thesis by (auto simp: trimmed_spends_def Let_def)
qed

lemma trimmed_length:
  "length (trimmed_spends cs) = (if 5 \<le> length cs then length cs - 2 else length cs)"
  by (auto simp: trimmed_spends_def Let_def slice_inner_def)

lemma sum_list_between:
  "(\<And>x. x \<in> set xs \<Longrightarrow> lo \<le> x \<and> x \<le> hi) \<Longrightarrow>
     lo * int (length xs) \<le> sum_list xs \<and> sum_list xs \<le> hi * int (length xs)"
  by (induction xs) (force simp: algebra_simps)+

lemma trimmed_sum_nonneg: "(\<And>b. b \<in> set cs \<Longrightarrow> 0 \<le> bo_spendAtomic b) \<Longrightarrow> 0 \<le> sum_list (trimmed_spends cs)"
  using trimmed_subset [of cs] by (intro sum_list_nonneg) auto

text \<open>The rational quantities behind the integers.\<close>

definition sibling_mean :: "branch_observation list \<Rightarrow> rat" where
  "sibling_mean cs = of_int (sum_list (trimmed_spends cs)) / of_nat (length (trimmed_spends cs))"

definition blended_baseline :: "divergence_config \<Rightarrow> branch_observation list \<Rightarrow> rat" where
  "blended_baseline c cs =
     (of_nat (length cs) * sibling_mean cs
      + of_int (dc_confidenceConstant c) * of_int (dc_classPriorWindowSpendAtomic c))
     / (of_nat (length cs) + of_int (dc_confidenceConstant c))"

definition scored_window :: "divergence_config \<Rightarrow> branch_observation list \<Rightarrow> bool" where
  "scored_window c cs \<longleftrightarrow> validateConfig c = None \<and> list_all (\<lambda>b. 0 \<le> bo_spendAtomic b) cs
     \<and> dc_siblingMinimumForScoring c \<le> int (length cs)"

lemma scored_config:
  "scored_window c cs \<Longrightarrow> 0 < dc_classPriorWindowSpendAtomic c \<and> 1 \<le> dc_confidenceConstant c
     \<and> 1 \<le> dc_siblingMinimumForScoring c"
  using validateConfig_None [of c] by (simp add: scored_window_def)

lemma scored_count: "scored_window c cs \<Longrightarrow> 0 < length cs \<and> 0 < length (trimmed_spends cs)"
  using scored_config [of c cs] by (auto simp: trimmed_length scored_window_def)

lemma scored_sum: "scored_window c cs \<Longrightarrow> 0 \<le> sum_list (trimmed_spends cs)"
  by (rule trimmed_sum_nonneg) (simp add: scored_window_def list_all_iff)

lemma den_pos: "scored_window c cs \<Longrightarrow> 0 < baselineDenominator c cs"
  using scored_count [of c cs] scored_config [of c cs]
  unfolding baselineDenominator_def by (intro mult_pos_pos) simp_all

lemma num_pos:
  assumes "scored_window c cs"
  shows "0 < baselineNumerator c cs"
proof -
  have "0 < dc_confidenceConstant c * dc_classPriorWindowSpendAtomic c * int (length (trimmed_spends cs))"
    using scored_count [OF assms] scored_config [OF assms] by (intro mult_pos_pos) simp_all
  moreover have "0 \<le> int (length cs) * sum_list (trimmed_spends cs)" using scored_sum [OF assms] by simp
  ultimately show ?thesis by (simp add: baselineNumerator_def)
qed

lemma baseline_fraction:
  assumes "scored_window c cs"
  shows "of_int (baselineNumerator c cs) / of_int (baselineDenominator c cs) = blended_baseline c cs"
proof -
  define m n k p s where "m = (of_nat (length (trimmed_spends cs)) :: rat)" and "n = (of_nat (length cs) :: rat)"
    and "k = (of_int (dc_confidenceConstant c) :: rat)" and "p = (of_int (dc_classPriorWindowSpendAtomic c) :: rat)"
    and "s = (of_int (sum_list (trimmed_spends cs)) :: rat)"
  have pos: "m \<noteq> 0" "n + k \<noteq> 0" using scored_count [OF assms] scored_config [OF assms]
    by (auto simp: m_def n_def k_def add_pos_pos intro!: less_imp_neq [THEN not_sym] add_pos_pos)
  have "(n * s + k * p * m) / ((n + k) * m) = (n * (s / m) + k * p) / (n + k)"
    using pos by (simp add: field_simps)
  then show ?thesis
    by (simp add: baselineNumerator_def baselineDenominator_def blended_baseline_def sibling_mean_def
        m_def n_def k_def p_def s_def)
qed

lemma threshold_iff:
  assumes "scored_window c cs"
  shows "t * baselineNumerator c cs \<le> x * baselineDenominator c cs * BPS \<longleftrightarrow>
     of_int t / 10000 * blended_baseline c cs \<le> of_int x"
proof -
  have d: "(0 :: rat) < of_int (baselineDenominator c cs)" using den_pos [OF assms] by simp
  have "of_int t / 10000 * blended_baseline c cs \<le> of_int x \<longleftrightarrow>
      (of_int t * of_int (baselineNumerator c cs) :: rat) \<le> of_int x * of_int (baselineDenominator c cs) * 10000"
    using d by (simp add: baseline_fraction [OF assms, symmetric] field_simps)
  also have "\<dots> \<longleftrightarrow> (of_int (t * baselineNumerator c cs) :: rat) \<le> of_int (x * baselineDenominator c cs * BPS)"
    by (simp add: BPS_def)
  finally show ?thesis by (simp only: of_int_le_iff)
qed

lemma baseline_between:
  assumes w: "scored_window c cs" and b: "\<And>b. b \<in> set cs \<Longrightarrow> lo \<le> bo_spendAtomic b \<and> bo_spendAtomic b \<le> hi"
    and p: "lo \<le> dc_classPriorWindowSpendAtomic c" "dc_classPriorWindowSpendAtomic c \<le> hi"
  shows "lo \<le> big_div (baselineNumerator c cs) (baselineDenominator c cs)
    \<and> big_div (baselineNumerator c cs) (baselineDenominator c cs) \<le> hi"
proof -
  let ?m = "int (length (trimmed_spends cs))" and ?s = "sum_list (trimmed_spends cs)" and ?n = "int (length cs)"
    and ?k = "dc_confidenceConstant c" and ?p = "dc_classPriorWindowSpendAtomic c"
    and ?d = "baselineDenominator c cs"
  have s: "lo * ?m \<le> ?s \<and> ?s \<le> hi * ?m"
    using trimmed_subset [of cs] b by (intro sum_list_between) blast
  have "?n * (lo * ?m) \<le> ?n * ?s" "?n * ?s \<le> ?n * (hi * ?m)"
    using s by (auto intro: mult_left_mono)
  moreover have "?k * lo * ?m \<le> ?k * ?p * ?m" "?k * ?p * ?m \<le> ?k * hi * ?m"
    using scored_config [OF w] p by (auto intro!: mult_right_mono mult_left_mono)
  ultimately have le: "lo * ?d \<le> baselineNumerator c cs" "baselineNumerator c cs \<le> hi * ?d"
    by (simp_all add: baselineNumerator_def baselineDenominator_def algebra_simps)
  have d: "0 < ?d" using w by (rule den_pos)
  have "big_div (baselineNumerator c cs) ?d = baselineNumerator c cs div ?d"
    using num_pos [OF w] d by (intro big_div_nonneg) simp_all
  moreover have "lo * ?d div ?d \<le> baselineNumerator c cs div ?d" "baselineNumerator c cs div ?d \<le> hi * ?d div ?d"
    by (rule zdiv_mono1 [OF le(1) d], rule zdiv_mono1 [OF le(2) d])
  ultimately show ?thesis using d by simp
qed

section \<open>The result\<close>

lemma ratioFractionBps_pos: "0 < d \<Longrightarrow> \<exists>r. ratioFractionBps n d = Inr r"
  by (simp add: ratioFractionBps_def Let_def)

lemma score_Inr:
  assumes w: "scored_window c cs"
  shows "\<exists>r. score c t cs prior_exceeded = Inr r \<and> dr_status r = Scored
    \<and> dr_effectiveBaselineAtomic r = big_div (baselineNumerator c cs) (baselineDenominator c cs)
    \<and> (SIBLING_DIVERGENCE \<in> set (dr_signals r) \<longleftrightarrow>
         of_int (dc_divergenceThresholdBps c) / 10000 * blended_baseline c cs \<le> of_int (bo_spendAtomic t))
    \<and> (CLASS_PRIOR_EXCEEDED \<in> set (dr_signals r) \<longleftrightarrow> prior_exceeded)
    \<and> (dr_wouldSignal r \<longleftrightarrow> dc_siblingMinimumForIntervention c \<le> int (length cs)
         \<and> (SIBLING_DIVERGENCE \<in> set (dr_signals r) \<or> CLASS_PRIOR_EXCEEDED \<in> set (dr_signals r)))"
proof -
  have "0 < dc_classPriorWindowSpendAtomic c" using scored_config [OF w] by simp
  moreover have "0 < dc_classPriorWindowSpendAtomic c * int (length (trimmed_spends cs))"
    using scored_count [OF w] scored_config [OF w] by (intro mult_pos_pos) simp_all
  ultimately obtain r1 r2 r3 where
    "ratioFractionBps (bo_spendAtomic t * baselineDenominator c cs) (baselineNumerator c cs) = Inr r1"
    "ratioBps (bo_spendAtomic t) (dc_classPriorWindowSpendAtomic c) = Inr r2"
    "ratioFractionBps (sum_list (trimmed_spends cs))
       (dc_classPriorWindowSpendAtomic c * int (length (trimmed_spends cs))) = Inr r3"
    "\<not> dc_classPriorWindowSpendAtomic c * int (length (trimmed_spends cs)) \<le> 0"
    using ratioFractionBps_pos [OF num_pos [OF w]] ratioFractionBps_pos by (force simp: ratioBps_def not_le)
  with num_pos [OF w] show ?thesis
    by (simp add: score_def Let_def atOrAboveThreshold_def signal_if_def not_le threshold_iff [OF w])
qed

text \<open>What the result is computed from: the comparable candidates of a successful evaluation.\<close>

lemma evaluate_scored:
  assumes "evaluateSiblingDivergence c t bs = Inr r" and "dr_status r = Scored"
  defines "cs \<equiv> filter (is_comparable c t) bs"
  shows "scored_window c cs \<and> (\<exists>pe. score c t cs pe = Inr r
    \<and> (pe \<longleftrightarrow> dc_divergenceThresholdBps c * dc_classPriorWindowSpendAtomic c \<le> bo_spendAtomic t * BPS))"
proof -
  from assms(1) have valid: "validateConfig c = None"
    and all: "list_all (\<lambda>b. validateObservation b = None) bs" and rest: "window_result c t cs = Inr r"
    unfolding cs_def by (auto simp: evaluate_Inr comparable_of_Inr)
  from rest have "dc_siblingMinimumForScoring c \<le> int (length cs)" and
    "\<exists>pe. score c t cs pe = Inr r \<and> (pe \<longleftrightarrow> dc_divergenceThresholdBps c * dc_classPriorWindowSpendAtomic c
        \<le> bo_spendAtomic t * BPS)"
    using assms(2) by (auto simp: window_result_def Let_def and_then_Inr_iff base_result_def atOrAboveThreshold_def split: if_splits)
  moreover have "list_all (\<lambda>b. 0 \<le> bo_spendAtomic b) cs"
    using all by (auto simp: cs_def list_all_iff dest: validateObservation_spend)
  ultimately show ?thesis using valid by (simp add: scored_window_def)
qed

text \<open>
  C39: a scored evaluation raises SIBLING_DIVERGENCE exactly when the target's spend reaches the
  threshold (in hundredths of a percent) of the rational baseline that blends the siblings' (trimmed)
  mean with the class prior, weighted by the number of siblings against the confidence constant.
\<close>

theorem sibling_divergence_exact:
  assumes "evaluateSiblingDivergence c t bs = Inr r" and "dr_status r = Scored"
  shows "SIBLING_DIVERGENCE \<in> set (dr_signals r) \<longleftrightarrow>
    of_int (dc_divergenceThresholdBps c) / 10000 * blended_baseline c (filter (is_comparable c t) bs)
      \<le> of_int (bo_spendAtomic t)"
proof -
  from evaluate_scored [OF assms] obtain pe where w: "scored_window c (filter (is_comparable c t) bs)"
    and s: "score c t (filter (is_comparable c t) bs) pe = Inr r" by blast
  from score_Inr [OF w, of t pe] s show ?thesis by auto
qed

text \<open>
  The effective baseline of a scored evaluation lies between the smallest and the largest of
  the siblings' spends and the class prior.
\<close>

theorem effective_baseline_bounds:
  assumes "evaluateSiblingDivergence c t bs = Inr r" and "dr_status r = Scored"
    and "\<forall>b \<in> set bs. is_comparable c t b \<longrightarrow> lo \<le> bo_spendAtomic b \<and> bo_spendAtomic b \<le> hi"
    and "lo \<le> dc_classPriorWindowSpendAtomic c" "dc_classPriorWindowSpendAtomic c \<le> hi"
  shows "lo \<le> dr_effectiveBaselineAtomic r \<and> dr_effectiveBaselineAtomic r \<le> hi"
proof -
  from evaluate_scored [OF assms(1,2)] obtain pe where w: "scored_window c (filter (is_comparable c t) bs)"
    and s: "score c t (filter (is_comparable c t) bs) pe = Inr r" by blast
  have "dr_effectiveBaselineAtomic r = big_div (baselineNumerator c (filter (is_comparable c t) bs))
      (baselineDenominator c (filter (is_comparable c t) bs))"
    using score_Inr [OF w, of t pe] s by auto
  with baseline_between [OF w, of lo hi] assms(3-5) show ?thesis by auto
qed

lemma trimmed_perm: "mset cs = mset cs' \<Longrightarrow> trimmed_spends cs = trimmed_spends cs'"
proof -
  assume eq: "mset cs = mset cs'"
  then have "mset (map bo_spendAtomic cs) = mset (map bo_spendAtomic cs')" by simp
  then have "sort (map bo_spendAtomic cs) = sort (map bo_spendAtomic cs')"
    by (metis mset_sort sorted_sort properties_for_sort)
  then show ?thesis by (simp add: trimmed_spends_def)
qed

text \<open>
  The order of the candidates does not matter: an accepted evaluation gives the same result on
  every permutation of them.
\<close>

theorem divergence_order_irrelevant:
  assumes "evaluateSiblingDivergence c t bs = Inr r" and "mset bs' = mset bs"
  shows "evaluateSiblingDivergence c t bs' = Inr r"
proof -
  from assms(1) have valid: "validateConfig c = None" "validateObservation t = None"
    and all: "list_all (\<lambda>b. validateObservation b = None) bs"
    and r: "window_result c t (filter (is_comparable c t) bs) = Inr r"
    by (auto simp: evaluate_Inr comparable_of_Inr)
  have all': "list_all (\<lambda>b. validateObservation b = None) bs'"
    using all mset_eq_setD [OF assms(2)] by (simp add: list_all_iff)
  have perm: "mset (filter (is_comparable c t) bs') = mset (filter (is_comparable c t) bs)"
    by (simp add: assms(2))
  have len: "length (filter (is_comparable c t) bs') = length (filter (is_comparable c t) bs)"
    by (rule mset_eq_length [OF perm])
  note trim = trimmed_perm [OF perm]
  have "score c t (filter (is_comparable c t) bs') pe = score c t (filter (is_comparable c t) bs) pe" for pe
    by (simp only: score_def baselineNumerator_def baselineDenominator_def len trim)
  then have "window_result c t (filter (is_comparable c t) bs') = Inr r"
    using r by (simp only: window_result_def len)
  with valid all' show ?thesis by (simp add: evaluate_Inr comparable_of_Inr)
qed

definition sample_config :: divergence_config where
  "sample_config = \<lparr>dc_classPriorWindowSpendAtomic = 100, dc_confidenceConstant = 2,
     dc_targetMinimumObservations = 1, dc_siblingMinimumForScoring = 2,
     dc_siblingMinimumForIntervention = 2, dc_divergenceThresholdBps = 20000\<rparr>"

definition sample_branch :: "string \<Rightarrow> int \<Rightarrow> branch_observation" where
  "sample_branch i n = \<lparr>bo_branchId = i, bo_parentBranchId = ''p'', bo_workloadClass = ''w'',
     bo_spendAtomic = n, bo_observationCount = 3\<rparr>"

lemma sample_scored:
  "map_sum id (\<lambda>r. (dr_status r, dr_signals r, dr_effectiveBaselineAtomic r))
     (evaluateSiblingDivergence sample_config (sample_branch ''t'' 500)
       [sample_branch ''a'' 80, sample_branch ''b'' 120]) =
   Inr (Scored, [SIBLING_DIVERGENCE, CLASS_PRIOR_EXCEEDED], 100)"
  by code_simp

lemma sample_result:
  "\<exists>r. evaluateSiblingDivergence sample_config (sample_branch ''t'' 500)
     [sample_branch ''a'' 80, sample_branch ''b'' 120] = Inr r \<and> dr_status r = Scored"
  using sample_scored by (cases "evaluateSiblingDivergence sample_config (sample_branch ''t'' 500)
     [sample_branch ''a'' 80, sample_branch ''b'' 120]") auto

lemma sibling_divergence_exact_witness:
  "\<exists>r :: divergence_result. dr_status r = Scored \<and> (SIBLING_DIVERGENCE \<in> set (dr_signals r) \<longleftrightarrow>
    of_int (dc_divergenceThresholdBps sample_config) / 10000
      * blended_baseline sample_config (filter (is_comparable sample_config (sample_branch ''t'' 500))
          [sample_branch ''a'' 80, sample_branch ''b'' 120]) \<le> of_int 500)"
proof -
  obtain r where r: "evaluateSiblingDivergence sample_config (sample_branch ''t'' 500)
     [sample_branch ''a'' 80, sample_branch ''b'' 120] = Inr r" "dr_status r = Scored"
    using sample_result by blast
  have "bo_spendAtomic (sample_branch ''t'' 500) = 500" by (simp add: sample_branch_def)
  with sibling_divergence_exact [OF r] r(2) show ?thesis by (intro exI [of _ r]) simp
qed

lemma effective_baseline_bounds_witness:
  "\<exists>r :: divergence_result. dr_status r = Scored \<and> 80 \<le> dr_effectiveBaselineAtomic r \<and> dr_effectiveBaselineAtomic r \<le> 120"
proof -
  obtain r where r: "evaluateSiblingDivergence sample_config (sample_branch ''t'' 500)
     [sample_branch ''a'' 80, sample_branch ''b'' 120] = Inr r" "dr_status r = Scored"
    using sample_result by blast
  have "80 \<le> dr_effectiveBaselineAtomic r \<and> dr_effectiveBaselineAtomic r \<le> 120"
    by (rule effective_baseline_bounds [OF r]) (auto simp: sample_config_def sample_branch_def)
  with r(2) show ?thesis by blast
qed

lemma divergence_order_irrelevant_witness:
  "\<exists>r. evaluateSiblingDivergence sample_config (sample_branch ''t'' 500)
     [sample_branch ''b'' 120, sample_branch ''a'' 80] = Inr r"
proof -
  obtain r where r: "evaluateSiblingDivergence sample_config (sample_branch ''t'' 500)
     [sample_branch ''a'' 80, sample_branch ''b'' 120] = Inr r"
    using sample_result by blast
  have "evaluateSiblingDivergence sample_config (sample_branch ''t'' 500)
     [sample_branch ''b'' 120, sample_branch ''a'' 80] = Inr r"
    by (rule divergence_order_irrelevant [OF r]) simp
  then show ?thesis ..
qed

end
