(* ===== verification/JsValue.thy ===== *)
theory JsValue
  imports Json "HOL-Library.Char_ord" "HOL-Library.List_Lexorder"
begin

text \<open>
  Parsed JSON of type \<open>unknown\<close>, as provider answers reach the program. A number is an integer or
  the text JavaScript prints for it. \<open>canonical\<close> is the serializer with sorted keys that the
  reconciliation kernel uses to compare values.
\<close>

datatype jsvalue =
    VNull | VBool bool | VInt int | VFloat string | VStr string | VArr "jsvalue list"
  | VObj "(string \<times> jsvalue) list"

fun is_string :: "jsvalue \<Rightarrow> bool" where
  "is_string (VStr s) = True"
| "is_string _ = False"

fun is_array :: "jsvalue \<Rightarrow> bool" where
  "is_array (VArr vs) = True"
| "is_array _ = False"

fun isObject :: "jsvalue \<Rightarrow> bool" where
  "isObject (VObj ps) = True"
| "isObject _ = False"

text \<open>A non-empty string: the code's \<open>typeof x === "string" && x\<close>.\<close>

fun nonempty_string :: "jsvalue \<Rightarrow> bool" where
  "nonempty_string (VStr s) = (s \<noteq> [])"
| "nonempty_string _ = False"

fun string_of :: "jsvalue \<Rightarrow> string" where
  "string_of (VStr s) = s"
| "string_of _ = []"

text \<open>The property of an object, \<open>None\<close> when it has none of that name.\<close>

fun own_prop :: "string \<Rightarrow> jsvalue \<Rightarrow> jsvalue option" where
  "own_prop k (VObj ps) = map_of ps k"
| "own_prop k _ = None"

fun nullableString :: "jsvalue \<Rightarrow> bool" where
  "nullableString VNull = True"
| "nullableString (VStr s) = True"
| "nullableString _ = False"

fun nullableCount :: "jsvalue \<Rightarrow> bool" where
  "nullableCount VNull = True"
| "nullableCount (VInt n) = safe_nonneg n"
| "nullableCount _ = False"

fun is_count :: "jsvalue \<Rightarrow> bool" where
  "is_count (VInt n) = safe_nonneg n"
| "is_count _ = False"

fun canonical :: "jsvalue \<Rightarrow> string" where
  "canonical VNull = ''null''"
| "canonical (VBool b) = (if b then ''true'' else ''false'')"
| "canonical (VInt n) = show_int n"
| "canonical (VFloat t) = t"
| "canonical (VStr s) = quote_string s"
| "canonical (VArr vs) = ''['' @ comma_sep (map canonical vs) @ '']''"
| "canonical (VObj ps) =
     ''{'' @ comma_sep (map (\<lambda>(k, t). quote_string k @ '':'' @ t)
        (sort_key fst (map (\<lambda>(k, v). (k, canonical v)) ps))) @ ''}''"

text \<open>
  \<open>decimalMicros\<close>: a cost as a string or number, in micros, when it is a plain decimal with nothing
  but zeros beyond six places and not above the largest safe integer.
\<close>

fun number_text :: "jsvalue \<Rightarrow> string option" where
  "number_text (VStr s) = Some s"
| "number_text (VInt n) = Some (show_int n)"
| "number_text (VFloat t) = Some t"
| "number_text _ = None"

definition decimalMicros :: "jsvalue \<Rightarrow> int option" where
  "decimalMicros v =
     (case number_text v of None \<Rightarrow> None | Some text \<Rightarrow>
      case match_decimal text of None \<Rightarrow> None | Some (whole, fraction) \<Rightarrow>
        if 6 < length fraction \<and> list_ex (\<lambda>c. is_digit c \<and> c \<noteq> CHR ''0'') (drop 6 fraction) then None
        else (let result = digits_val whole * 1000000 + digits_val (take 6 (take 6 fraction @ zeros 6))
              in if result \<le> max_safe_integer then Some result else None))"

lemma decimalMicros_nonneg:
  assumes "decimalMicros v = Some n"
  shows "0 \<le> n \<and> n \<le> max_safe_integer"
proof -
  from assms obtain t w f where m: "match_decimal t = Some (w, f)"
    and n: "n = digits_val w * 1000000 + digits_val (take 6 (take 6 f @ zeros 6))" "n \<le> max_safe_integer"
    by (auto simp: decimalMicros_def Let_def split: option.splits prod.splits if_splits)
  have w: "0 \<le> digits_val w" using match_decimal_digits [OF m] by (intro digits_val_nonneg) simp
  have "list_all is_digit (take 6 (take 6 f @ zeros 6))"
    using match_decimal_digits [OF m] by (auto simp: list_all_iff zeros_def dest!: in_set_takeD)
  then have "0 \<le> digits_val (take 6 (take 6 f @ zeros 6))" by (rule digits_val_nonneg)
  with w n show ?thesis by simp
qed

end
