(* ===== verification/Reconciliation.thy ===== *)
theory Reconciliation
  imports JsValue
begin

text \<open>
  \<open>src/src/reliability/reconciliationStateMachine.ts\<close>: the pure kernel that plans how one ambiguous
  inference request is reconciled: whether the operation kept its schedule, what the provider's
  evidence proves, and the plan (terminal state, cost, allowance, hold, lane, events). \<open>Date.parse\<close>
  on the provider's \<open>created_at\<close> is the parameter \<open>parse_date\<close>; the lengths of regular expressions,
  deadlines and offsets are the code's.
\<close>

section \<open>Inputs\<close>

definition RECONCILIATION_OFFSETS_SECONDS :: "int list" where
  "RECONCILIATION_OFFSETS_SECONDS =
     [0, 60, 300, 900, 1800, 3600, 7200, 14400, 28800, 43200, 64800, 86300]"

datatype attempt_state = Ordinary_inflight | Reconciliation_pending

datatype terminal_state =
    Terminal_rejected_not_billed | Reconciled_not_billed | Reconciled_billed_with_response
  | Reconciled_billed_no_response | Unresolved_provider_outcome

fun terminal_number :: "terminal_state \<Rightarrow> int" where
  "terminal_number Terminal_rejected_not_billed = 3"
| "terminal_number Reconciled_not_billed = 4"
| "terminal_number Reconciled_billed_with_response = 5"
| "terminal_number Reconciled_billed_no_response = 6"
| "terminal_number Unresolved_provider_outcome = 7"

fun terminalName :: "terminal_state \<Rightarrow> string" where
  "terminalName Terminal_rejected_not_billed = ''terminal_rejected_not_billed''"
| "terminalName Reconciled_not_billed = ''reconciled_not_billed''"
| "terminalName Reconciled_billed_with_response = ''reconciled_billed_with_response''"
| "terminalName Reconciled_billed_no_response = ''reconciled_billed_no_response''"
| "terminalName Unresolved_provider_outcome = ''unresolved_provider_outcome''"

record capture =
  cap_status :: int
  cap_bodySha256 :: string
  cap_bodyBase64 :: string
  cap_retrievedAtMs :: int

record rec_evidence =
  e_credentialId :: string
  e_generationId :: string
  e_retrievalStartedAtMs :: int
  e_metadata :: capture
  e_metadataData :: "(string \<times> jsvalue) list option"
  e_content :: capture
  e_contentBody :: jsvalue

record evidence_binding =
  eb_requestId :: string
  eb_providerName :: string
  eb_upstreamId :: string
  eb_router :: "string option"
  eb_providerResponsesCanonical :: string

record op_times =
  t_scheduledAtMs :: int
  t_startedAtMs :: int
  t_getsCompletedAtMs :: int
  t_evidenceValidatedAtMs :: int
  t_evidenceCommittedAtMs :: int
  t_transitionCommittedAtMs :: int

datatype rec_operation =
    Scheduled int op_times
  | PreAmbiguity int int string op_times
  | Cutoff int int int

text \<open>
  \<open>Scheduled offset times\<close>, \<open>PreAmbiguity errorReceivedAt httpStatus envelopeGenerationId times\<close>,
  \<open>Cutoff scheduledAt startedAt transitionCommittedAt\<close>.
\<close>

fun op_scheduledAtMs :: "rec_operation \<Rightarrow> int" where
  "op_scheduledAtMs (Scheduled _ t) = t_scheduledAtMs t"
| "op_scheduledAtMs (PreAmbiguity _ _ _ t) = t_scheduledAtMs t"
| "op_scheduledAtMs (Cutoff a _ _) = a"

fun op_startedAtMs :: "rec_operation \<Rightarrow> int" where
  "op_startedAtMs (Scheduled _ t) = t_startedAtMs t"
| "op_startedAtMs (PreAmbiguity _ _ _ t) = t_startedAtMs t"
| "op_startedAtMs (Cutoff _ b _) = b"

fun op_transitionCommittedAtMs :: "rec_operation \<Rightarrow> int" where
  "op_transitionCommittedAtMs (Scheduled _ t) = t_transitionCommittedAtMs t"
| "op_transitionCommittedAtMs (PreAmbiguity _ _ _ t) = t_transitionCommittedAtMs t"
| "op_transitionCommittedAtMs (Cutoff _ _ c) = c"

record reconciliation_input =
  ri_runId :: string
  ri_requestId :: string
  ri_laneId :: string
  ri_currentState :: attempt_state
  ri_generationId :: string
  ri_expectedReconcilerCredentialId :: string
  ri_openRouterRequestId :: "string option"
  ri_model :: string
  ri_dispatchTokenAtMs :: int
  ri_ambiguityEnteredAtMs :: "int option"
  ri_admissionStartedAtMs :: int
  ri_originalMessages :: "jsvalue list"
  ri_sealedRequestCommitmentMatches :: bool
  ri_existingResponseCommitment :: "string option"
  ri_recoveredResponseCommitment :: "string option"
  ri_acceptedBinding :: "evidence_binding option"
  ri_operation :: rec_operation
  ri_evidence :: "rec_evidence option"
  ri_heldMemberState :: attempt_state
  ri_heldMembersBefore :: "string list"
  ri_nonusableAllowanceOwner :: "string option"

section \<open>The schedule\<close>

definition integerTime :: "int \<Rightarrow> bool" where
  "integerTime v = safe_nonneg v"

text \<open>\<open>None\<close> is a valid schedule, \<open>Some reason\<close> the first rule it broke.\<close>

definition schedule_phases :: "op_times \<Rightarrow> (bool \<times> string) list" where
  "schedule_phases t =
     [(\<not> (integerTime (t_getsCompletedAtMs t) \<and> integerTime (t_evidenceValidatedAtMs t)
          \<and> integerTime (t_evidenceCommittedAtMs t)), ''DATABASE_TIME_INVALID''),
      (55000 < t_transitionCommittedAtMs t - t_startedAtMs t, ''WHOLE_OPERATION_DEADLINE_MISSED''),
      (t_getsCompletedAtMs t < t_startedAtMs t \<or> 30000 < t_getsCompletedAtMs t - t_startedAtMs t,
       ''HTTP_PHASE_DEADLINE_MISSED''),
      (t_evidenceValidatedAtMs t < t_getsCompletedAtMs t
         \<or> 5000 < t_evidenceValidatedAtMs t - t_getsCompletedAtMs t, ''VALIDATION_PHASE_DEADLINE_MISSED''),
      (t_evidenceCommittedAtMs t < t_evidenceValidatedAtMs t
         \<or> 15000 < t_evidenceCommittedAtMs t - t_evidenceValidatedAtMs t, ''PERSISTENCE_PHASE_DEADLINE_MISSED''),
      (t_transitionCommittedAtMs t < t_evidenceCommittedAtMs t
         \<or> 5000 < t_transitionCommittedAtMs t - t_evidenceCommittedAtMs t, ''TRANSITION_PHASE_DEADLINE_MISSED'')]"

definition ambiguity_time :: "reconciliation_input \<Rightarrow> int" where
  "ambiguity_time inp = (case ri_ambiguityEnteredAtMs inp of Some a \<Rightarrow> a | None \<Rightarrow> 0)"

definition schedule :: "reconciliation_input \<Rightarrow> string option" where
  "schedule inp =
     (let op = ri_operation inp in
      first_error
        ([(\<not> (integerTime (op_scheduledAtMs op) \<and> integerTime (op_startedAtMs op)
             \<and> integerTime (op_transitionCommittedAtMs op)), ''DATABASE_TIME_INVALID''),
          (op_startedAtMs op < op_scheduledAtMs op \<or> op_scheduledAtMs op + 1000 \<le> op_startedAtMs op,
           ''OPERATION_START_WINDOW_MISSED'')] @
         (case op of
            Cutoff scheduled started committed \<Rightarrow>
              [(scheduled \<noteq> ambiguity_time inp + 86400000, ''CUTOFF_SCHEDULE_MISMATCH''),
               (committed < started \<or> 30000 < committed - started
                  \<or> ambiguity_time inp + 86431000 \<le> committed, ''CUTOFF_CLASSIFICATION_DEADLINE_MISSED'')]
          | Scheduled offset t \<Rightarrow> schedule_phases t @
              [(offset \<notin> set RECONCILIATION_OFFSETS_SECONDS, ''LOOKUP_OFFSET_NOT_SEALED''),
               (t_scheduledAtMs t \<noteq> ambiguity_time inp + offset * 1000, ''LOOKUP_SCHEDULE_MISMATCH'')]
          | PreAmbiguity errorReceivedAt httpStatus envelope t \<Rightarrow> schedule_phases t @
              [(t_scheduledAtMs t \<noteq> errorReceivedAt, ''PRE_AMBIGUITY_SCHEDULE_MISMATCH'')])))"

section \<open>The evidence\<close>

datatype evidence_kind = Canceled | Positive_response | Positive_no_response | Pending_evidence | Credential_drift

record evidence_result =
  er_accepted :: bool
  er_conflict :: bool
  er_reason :: "string option"
  er_binding :: "evidence_binding option"
  er_kind :: evidence_kind
  er_cost :: "int option"

definition pending_evidence :: "string \<Rightarrow> bool \<Rightarrow> evidence_result" where
  "pending_evidence reason conflict =
     \<lparr>er_accepted = False, er_conflict = conflict, er_reason = Some reason, er_binding = None,
      er_kind = Pending_evidence, er_cost = None\<rparr>"

definition accepted_evidence :: "evidence_binding \<Rightarrow> evidence_kind \<Rightarrow> int \<Rightarrow> evidence_result" where
  "accepted_evidence b k cost =
     \<lparr>er_accepted = True, er_conflict = False, er_reason = None, er_binding = Some b, er_kind = k,
      er_cost = Some cost\<rparr>"

definition REQUIRED_METADATA :: "string list" where
  "REQUIRED_METADATA =
     [''id'', ''request_id'', ''model'', ''provider_name'', ''created_at'', ''cancelled'',
      ''finish_reason'', ''native_finish_reason'', ''native_tokens_prompt'', ''native_tokens_completion'',
      ''tokens_prompt'', ''tokens_completion'', ''total_cost'', ''usage'', ''upstream_id'', ''router'',
      ''provider_responses'']"

definition PINNED_MODEL :: string where
  "PINNED_MODEL = ''nousresearch/hermes-4-405b''"

definition is_sha256 :: "string \<Rightarrow> bool" where
  "is_sha256 s \<longleftrightarrow> length s = 64 \<and> list_all (\<lambda>c. is_digit c
     \<or> (97 \<le> (of_char c :: nat) \<and> (of_char c :: nat) \<le> 102)) s"

definition field_of :: "(string \<times> jsvalue) list \<Rightarrow> string \<Rightarrow> jsvalue" where
  "field_of m k = (case map_of m k of Some v \<Rightarrow> v | None \<Rightarrow> VNull)"

fun router_ok :: "jsvalue \<Rightarrow> bool" where
  "router_ok VNull = True"
| "router_ok v = nonempty_string v"

fun router_of :: "jsvalue \<Rightarrow> string option" where
  "router_of (VStr s) = Some s"
| "router_of _ = None"

definition metadata_binding :: "(string \<times> jsvalue) list \<Rightarrow> evidence_binding" where
  "metadata_binding m =
     \<lparr>eb_requestId = string_of (field_of m ''request_id''),
      eb_providerName = string_of (field_of m ''provider_name''),
      eb_upstreamId = string_of (field_of m ''upstream_id''),
      eb_router = router_of (field_of m ''router''),
      eb_providerResponsesCanonical = canonical (field_of m ''provider_responses'')\<rparr>"

definition binding_value :: "evidence_binding \<Rightarrow> jsvalue" where
  "binding_value b = VObj
     [(''requestId'', VStr (eb_requestId b)), (''providerName'', VStr (eb_providerName b)),
      (''upstreamId'', VStr (eb_upstreamId b)),
      (''router'', case eb_router b of None \<Rightarrow> VNull | Some r \<Rightarrow> VStr r),
      (''providerResponsesCanonical'', VStr (eb_providerResponsesCanonical b))]"

text \<open>The two token counts of one direction disagree.\<close>

definition count_conflict :: "jsvalue \<Rightarrow> jsvalue \<Rightarrow> bool" where
  "count_conflict a b \<longleftrightarrow> a \<noteq> VNull \<and> b \<noteq> VNull \<and> a \<noteq> b"

text \<open>Checks before the metadata is read; the first that holds decides the pending reason.\<close>

definition capture_checks :: "reconciliation_input \<Rightarrow> rec_evidence \<Rightarrow> (bool \<times> string) list" where
  "capture_checks inp e =
     [(\<not> integerTime (e_retrievalStartedAtMs e) \<or> \<not> integerTime (cap_retrievedAtMs (e_metadata e))
         \<or> \<not> integerTime (cap_retrievedAtMs (e_content e)) \<or> e_credentialId e = []
         \<or> \<not> is_sha256 (cap_bodySha256 (e_metadata e)) \<or> \<not> is_sha256 (cap_bodySha256 (e_content e)),
       ''EVIDENCE_CAPTURE_INVALID''),
      (e_credentialId e \<noteq> ri_expectedReconcilerCredentialId inp, ''RECONCILER_CREDENTIAL_CONFLICT''),
      (e_generationId e \<noteq> ri_generationId inp, ''GENERATION_ID_CONFLICT''),
      ((case ri_ambiguityEnteredAtMs inp of None \<Rightarrow> False
        | Some a \<Rightarrow> a + 86400000 \<le> e_retrievalStartedAtMs e), ''EVIDENCE_RETRIEVAL_AT_OR_AFTER_CUTOFF'')]"

definition metadata_checks ::
    "(string \<Rightarrow> int option) \<Rightarrow> reconciliation_input \<Rightarrow> (string \<times> jsvalue) list \<Rightarrow> (bool \<times> string) list" where
  "metadata_checks parse_date inp m =
     (let f = field_of m; total = decimalMicros (f ''total_cost''); usage = decimalMicros (f ''usage'');
          createdAt = (case f ''created_at'' of VStr s \<Rightarrow> parse_date s | _ \<Rightarrow> None);
          upper = (case ri_ambiguityEnteredAtMs inp of
                     None \<Rightarrow> op_transitionCommittedAtMs (ri_operation inp) | Some a \<Rightarrow> a + 300000)
      in [(f ''id'' \<noteq> VStr (ri_generationId inp), ''METADATA_GENERATION_CONFLICT''),
          (\<not> nonempty_string (f ''request_id'')
             \<or> (case ri_openRouterRequestId inp of None \<Rightarrow> False | Some r \<Rightarrow> f ''request_id'' \<noteq> VStr r),
           ''PROVIDER_REQUEST_ID_CONFLICT''),
          (f ''model'' \<noteq> VStr PINNED_MODEL \<or> ri_model inp \<noteq> PINNED_MODEL, ''MODEL_CONFLICT''),
          (\<not> nonempty_string (f ''provider_name'') \<or> \<not> nonempty_string (f ''upstream_id'')
             \<or> \<not> router_ok (f ''router'')
             \<or> \<not> (f ''provider_responses'' = VNull \<or> is_array (f ''provider_responses'')),
           ''PROVIDER_BINDING_CONFLICT''),
          ((case ri_acceptedBinding inp of None \<Rightarrow> False
            | Some b \<Rightarrow> canonical (binding_value b) \<noteq> canonical (binding_value (metadata_binding m))),
           ''IMMUTABLE_EVIDENCE_CONFLICT''),
          (f ''cancelled'' \<notin> {VBool True, VBool False} \<or> \<not> nullableString (f ''finish_reason'')
             \<or> \<not> nullableString (f ''native_finish_reason'') \<or> \<not> nullableCount (f ''native_tokens_prompt'')
             \<or> \<not> nullableCount (f ''native_tokens_completion'') \<or> \<not> nullableCount (f ''tokens_prompt'')
             \<or> \<not> nullableCount (f ''tokens_completion''), ''METADATA_TYPE_CONFLICT''),
          (count_conflict (f ''native_tokens_prompt'') (f ''tokens_prompt''), ''TOKEN_COUNT_CONFLICT''),
          (count_conflict (f ''native_tokens_completion'') (f ''tokens_completion''), ''TOKEN_COUNT_CONFLICT''),
          (total = None \<or> usage = None \<or> total \<noteq> usage, ''COST_CONFLICT''),
          ((case createdAt of None \<Rightarrow> True
            | Some c \<Rightarrow> c < ri_dispatchTokenAtMs inp - 300000 \<or> upper < c), ''CREATED_AT_CONFLICT'')])"

definition is_exact404 :: "int \<Rightarrow> jsvalue \<Rightarrow> bool" where
  "is_exact404 httpStatus root \<longleftrightarrow>
     httpStatus = 404 \<and> own_prop ''data'' root = None
     \<and> (case own_prop ''error'' root of None \<Rightarrow> False | Some err \<Rightarrow>
          (case own_prop ''message'' err of None \<Rightarrow> False | Some msg \<Rightarrow> nonempty_string msg))"

text \<open>The completion of a well-formed content answer for the original messages.\<close>

definition content_completion :: "int \<Rightarrow> jsvalue \<Rightarrow> jsvalue list \<Rightarrow> jsvalue option" where
  "content_completion httpStatus root originalMessages =
     (if httpStatus \<noteq> 200 then None
      else (case own_prop ''data'' root of None \<Rightarrow> None | Some d \<Rightarrow>
        (case (own_prop ''input'' d, own_prop ''output'' d) of
           (Some i, Some out) \<Rightarrow>
             (case (own_prop ''messages'' i, own_prop ''completion'' out, own_prop ''reasoning'' out) of
                (Some messages, Some completion, Some reasoning) \<Rightarrow>
                  if is_array messages \<and> canonical messages = canonical (VArr originalMessages)
                     \<and> reasoning = VNull \<and> (is_string completion \<or> completion = VNull)
                  then Some completion else None
              | _ \<Rightarrow> None)
         | _ \<Rightarrow> None)))"

definition positive_metadata :: "(string \<times> jsvalue) list \<Rightarrow> int \<Rightarrow> bool" where
  "positive_metadata m cost \<longleftrightarrow>
     0 < cost \<and> field_of m ''finish_reason'' = VStr ''stop''
     \<and> is_count (field_of m ''native_tokens_prompt'') \<and> is_count (field_of m ''native_tokens_completion'')
     \<and> is_count (field_of m ''tokens_prompt'') \<and> is_count (field_of m ''tokens_completion'')"

text \<open>What the content answer adds once the metadata is positive.\<close>

definition content_result ::
    "reconciliation_input \<Rightarrow> rec_evidence \<Rightarrow> evidence_binding \<Rightarrow> int \<Rightarrow> evidence_result" where
  "content_result inp e binding cost =
     (let root = (if isObject (e_contentBody e) then e_contentBody e else VObj []);
          httpStatus = cap_status (e_content e) in
      if is_exact404 httpStatus root then accepted_evidence binding Positive_no_response cost
      else (case content_completion httpStatus root (ri_originalMessages inp) of
          None \<Rightarrow> pending_evidence ''CONTENT_CONFLICT'' True
        | Some completion \<Rightarrow>
            if is_string completion then
              (case ri_recoveredResponseCommitment inp of
                 None \<Rightarrow> pending_evidence ''RECOVERED_RESPONSE_COMMITMENT_MISSING'' True
               | Some recovered \<Rightarrow>
                   if recovered = [] then pending_evidence ''RECOVERED_RESPONSE_COMMITMENT_MISSING'' True
                   else if ri_existingResponseCommitment inp \<notin> {None, Some recovered}
                   then pending_evidence ''RESPONSE_COMMITMENT_CONFLICT'' True
                   else accepted_evidence binding Positive_response cost)
            else accepted_evidence binding Positive_no_response cost))"

definition metadata_result ::
    "(string \<Rightarrow> int option) \<Rightarrow> reconciliation_input \<Rightarrow> rec_evidence \<Rightarrow> (string \<times> jsvalue) list \<Rightarrow> evidence_result" where
  "metadata_result parse_date inp e m =
     (case first_error (metadata_checks parse_date inp m) of
        Some reason \<Rightarrow> pending_evidence reason True
      | None \<Rightarrow>
        (case decimalMicros (field_of m ''total_cost'') of
           None \<Rightarrow> pending_evidence ''COST_CONFLICT'' True
         | Some cost \<Rightarrow>
             if field_of m ''cancelled'' = VBool True then
               (if cost \<noteq> 0 then pending_evidence ''CANCELLATION_COST_CONFLICT'' True
                else accepted_evidence (metadata_binding m) Canceled 0)
             else if \<not> positive_metadata m cost then pending_evidence ''POSITIVE_METADATA_CONFLICT'' True
             else if \<not> ri_sealedRequestCommitmentMatches inp
             then pending_evidence ''REQUEST_COMMITMENT_CONFLICT'' True
             else content_result inp e (metadata_binding m) cost))"

definition evidenceResult ::
    "(string \<Rightarrow> int option) \<Rightarrow> reconciliation_input \<Rightarrow> evidence_result" where
  "evidenceResult parse_date inp =
     (case ri_evidence inp of
        None \<Rightarrow> pending_evidence ''NO_EVIDENCE'' False
      | Some e \<Rightarrow>
          if cap_status (e_metadata e) \<in> {401, 403} \<or> cap_status (e_content e) \<in> {401, 403}
          then \<lparr>er_accepted = False, er_conflict = False, er_reason = Some ''RECONCILIATION_CREDENTIAL_DRIFT'',
                er_binding = None, er_kind = Credential_drift, er_cost = None\<rparr>
          else (case first_error (capture_checks inp e) of
              Some reason \<Rightarrow> pending_evidence reason True
            | None \<Rightarrow>
          (case e_metadataData e of
              None \<Rightarrow> pending_evidence ''METADATA_SCHEMA_CONFLICT'' True
            | Some m \<Rightarrow>
          if cap_status (e_metadata e) \<noteq> 200 \<or> \<not> list_all (\<lambda>k. k \<in> fst ` set m) REQUIRED_METADATA
          then pending_evidence ''METADATA_SCHEMA_CONFLICT'' True
          else metadata_result parse_date inp e m)))"

section \<open>The plan\<close>

datatype attempt_plan = Unchanged_pending | Enter_ambiguity | Terminal_attempt

datatype execution_status = Exec_failed | Exec_completed | Exec_reconciliation_hold

record execution_plan =
  xp_status :: execution_status
  xp_actualCostMicros :: "int option"
  xp_responseCommitment :: "string option"
  xp_enqueueShadow :: bool
  xp_retainReservationExposure :: bool

datatype allowance_plan = No_allowance | Claim_allowance string | Already_claimed string

datatype hold_plan = Keep_member | Remove_member | Change_to_pending

datatype lane_plan = Remain_held | No_lane_action | Schedule_resume int

datatype plan_event =
    Attempt_persisted "string option"
  | Schedule_failed string
  | Ambiguity_entered string
  | Provider_evidence_attached terminal_state "evidence_binding option"
  | Gate_classified terminal_state
  | Offset_canceled int
  | Global_failure_requested string

record mutation_plan =
  mp_runId :: string
  mp_requestId :: string
  mp_laneId :: string
  mp_schedule :: "string option"
  mp_accepted :: bool
  mp_conflict :: bool
  mp_reason :: "string option"
  mp_binding :: "evidence_binding option"
  mp_persistAttempt :: bool
  mp_terminal :: "terminal_state option"
  mp_attemptState :: attempt_plan
  mp_execution :: "execution_plan option"
  mp_gateClassifications :: int
  mp_usable :: int
  mp_allowance :: allowance_plan
  mp_holdMember :: hold_plan
  mp_cancelOffsets :: "int list"
  mp_lane :: lane_plan
  mp_globalFailure :: "string option"
  mp_events :: "plan_event list"

datatype plan_error =
    RECONCILIATION_INPUT_INVALID | RECONCILIATION_HOLD_INVARIANT | RECONCILIATION_STATE_INVARIANT
  | PRE_AMBIGUITY_ERROR_ENVELOPE_INVALID | RECONCILIATION_COST_INVARIANT

definition nextBoundary :: "int \<Rightarrow> int" where
  "nextBoundary epochMs = 300 * (epochMs div 1000 div 300 + 1)"

definition input_errors :: "reconciliation_input \<Rightarrow> plan_error option" where
  "input_errors inp = first_error
     ([(ri_runId inp = [] \<or> ri_requestId inp = [] \<or> ri_laneId inp = [] \<or> ri_generationId inp = []
          \<or> ri_expectedReconcilerCredentialId inp = [], RECONCILIATION_INPUT_INVALID),
       (\<not> (integerTime (ri_dispatchTokenAtMs inp) \<and> integerTime (ri_admissionStartedAtMs inp)),
        RECONCILIATION_INPUT_INVALID),
       (ri_requestId inp \<notin> set (ri_heldMembersBefore inp), RECONCILIATION_HOLD_INVARIANT),
       (ri_heldMemberState inp \<noteq> ri_currentState inp, RECONCILIATION_HOLD_INVARIANT)] @
      (case ri_operation inp of
         PreAmbiguity errorReceivedAt httpStatus envelope t \<Rightarrow>
           [(\<not> (ri_currentState inp = Ordinary_inflight \<and> ri_ambiguityEnteredAtMs inp = None),
             RECONCILIATION_STATE_INVARIANT),
            (\<not> ((httpStatus < 200 \<or> 300 \<le> httpStatus) \<and> envelope = ri_generationId inp),
             PRE_AMBIGUITY_ERROR_ENVELOPE_INVALID)]
       | _ \<Rightarrow>
           [(\<not> (ri_currentState inp = Reconciliation_pending
               \<and> (case ri_ambiguityEnteredAtMs inp of None \<Rightarrow> False | Some a \<Rightarrow> integerTime a)),
             RECONCILIATION_STATE_INVARIANT)]))"

text \<open>A plan that leaves the attempt open; \<open>None\<close> for no global failure.\<close>

definition pending_plan ::
    "reconciliation_input \<Rightarrow> evidence_result \<Rightarrow> string option \<Rightarrow> attempt_plan \<Rightarrow> hold_plan \<Rightarrow> bool \<Rightarrow> mutation_plan" where
  "pending_plan inp ev failure attempt hold persist =
     \<lparr>mp_runId = ri_runId inp, mp_requestId = ri_requestId inp, mp_laneId = ri_laneId inp,
      mp_schedule = schedule inp, mp_accepted = er_accepted ev, mp_conflict = er_conflict ev,
      mp_reason = er_reason ev, mp_binding = er_binding ev, mp_persistAttempt = persist,
      mp_terminal = None, mp_attemptState = attempt, mp_execution = None, mp_gateClassifications = 0,
      mp_usable = 0, mp_allowance = No_allowance, mp_holdMember = hold, mp_cancelOffsets = [],
      mp_lane = Remain_held, mp_globalFailure = failure,
      mp_events = [case schedule inp of None \<Rightarrow> Attempt_persisted (er_reason ev) | Some r \<Rightarrow> Schedule_failed r]\<rparr>"

definition terminal_plan ::
    "reconciliation_input \<Rightarrow> evidence_result \<Rightarrow> terminal_state \<Rightarrow> plan_error + mutation_plan" where
  "terminal_plan inp ev state =
     (let cost = (case state of Terminal_rejected_not_billed \<Rightarrow> Some 0 | Reconciled_not_billed \<Rightarrow> Some 0
                  | Unresolved_provider_outcome \<Rightarrow> None | _ \<Rightarrow> er_cost ev) in
      if \<not> ((state = Unresolved_provider_outcome \<and> cost = None) \<or> cost \<noteq> None)
      then Inl RECONCILIATION_COST_INVARIANT
      else
        (let allowanceState = (state \<in> {Terminal_rejected_not_billed, Reconciled_not_billed,
                                        Reconciled_billed_no_response});
             allowance = (if \<not> allowanceState then No_allowance
                          else (case ri_nonusableAllowanceOwner inp of
                              None \<Rightarrow> Claim_allowance (ri_requestId inp) | Some owner \<Rightarrow> Already_claimed owner));
             failedForAllowance = (allowanceState
               \<and> ri_nonusableAllowanceOwner inp \<notin> {None, Some (ri_requestId inp)});
             failure = (if state = Unresolved_provider_outcome then Some ''UNRESOLVED_PROVIDER_OUTCOME''
                        else if failedForAllowance then Some ''NONUSABLE_ALLOWANCE_EXCEEDED'' else None);
             currentOffset = (case ri_operation inp of Scheduled offset _ \<Rightarrow> offset | _ \<Rightarrow> -1);
             cancelOffsets = filter (\<lambda>offset. currentOffset < offset) RECONCILIATION_OFFSETS_SECONDS;
             remaining = filter (\<lambda>i. i \<noteq> ri_requestId inp) (ri_heldMembersBefore inp);
             lane = (if remaining \<noteq> [] then Remain_held
                     else if failure \<noteq> None then No_lane_action
                     else Schedule_resume (nextBoundary (op_transitionCommittedAtMs (ri_operation inp))));
             execution =
               (if state = Reconciled_billed_with_response then
                  \<lparr>xp_status = Exec_completed, xp_actualCostMicros = cost,
                   xp_responseCommitment = ri_recoveredResponseCommitment inp, xp_enqueueShadow = True,
                   xp_retainReservationExposure = False\<rparr>
                else if state = Unresolved_provider_outcome then
                  \<lparr>xp_status = Exec_reconciliation_hold, xp_actualCostMicros = None,
                   xp_responseCommitment = None, xp_enqueueShadow = False,
                   xp_retainReservationExposure = True\<rparr>
                else \<lparr>xp_status = Exec_failed, xp_actualCostMicros = cost, xp_responseCommitment = None,
                      xp_enqueueShadow = False, xp_retainReservationExposure = False\<rparr>)
         in Inr
           \<lparr>mp_runId = ri_runId inp, mp_requestId = ri_requestId inp, mp_laneId = ri_laneId inp,
            mp_schedule = schedule inp, mp_accepted = er_accepted ev, mp_conflict = er_conflict ev,
            mp_reason = er_reason ev, mp_binding = er_binding ev, mp_persistAttempt = True,
            mp_terminal = Some state, mp_attemptState = Terminal_attempt, mp_execution = Some execution,
            mp_gateClassifications = 1,
            mp_usable = (if state = Reconciled_billed_with_response then 1 else 0),
            mp_allowance = allowance, mp_holdMember = Remove_member, mp_cancelOffsets = cancelOffsets,
            mp_lane = lane, mp_globalFailure = failure,
            mp_events =
              (if er_accepted ev then [Provider_evidence_attached state (er_binding ev)] else [])
              @ [Gate_classified state] @ map Offset_canceled cancelOffsets
              @ (case failure of Some r \<Rightarrow> [Global_failure_requested r] | None \<Rightarrow> [])\<rparr>))"

definition planReconciliationMutation ::
    "(string \<Rightarrow> int option) \<Rightarrow> reconciliation_input \<Rightarrow> plan_error + mutation_plan" where
  "planReconciliationMutation parse_date inp =
     (case input_errors inp of Some err \<Rightarrow> Inl err | None \<Rightarrow>
       (let ev = evidenceResult parse_date inp in
        if schedule inp \<noteq> None
        then Inr (pending_plan inp ev (Some ''RECONCILIATION_SCHEDULE_FAILURE'') Unchanged_pending Keep_member True)
        else if er_kind ev = Credential_drift
        then Inr (pending_plan inp ev (Some ''RECONCILIATION_CREDENTIAL_DRIFT'') Unchanged_pending Keep_member True)
        else (case ri_operation inp of
            PreAmbiguity errorReceivedAt httpStatus envelope t \<Rightarrow>
              if \<not> errorReceivedAt \<le> ri_admissionStartedAtMs inp + 19000
              then Inr ((pending_plan inp ev None Enter_ambiguity Change_to_pending False)
                \<lparr>mp_accepted := False, mp_conflict := False,
                 mp_reason := Some ''PRE_AMBIGUITY_LOOKUP_SKIPPED'', mp_binding := None,
                 mp_events := [Ambiguity_entered ''SYNCHRONOUS_ERROR_AFTER_19_SECONDS'']\<rparr>)
              else if er_kind ev = Canceled then terminal_plan inp ev Terminal_rejected_not_billed
              else Inr (pending_plan inp ev None Enter_ambiguity Change_to_pending True)
          | Cutoff a b c \<Rightarrow> terminal_plan inp ev Unresolved_provider_outcome
          | Scheduled offset t \<Rightarrow>
              if er_kind ev = Canceled then terminal_plan inp ev Reconciled_not_billed
              else if er_kind ev = Positive_response then terminal_plan inp ev Reconciled_billed_with_response
              else if er_kind ev = Positive_no_response \<and> offset = 86300
              then terminal_plan inp ev Reconciled_billed_no_response
              else Inr (pending_plan inp ev None Unchanged_pending Keep_member True))))"

section \<open>What accepted evidence proves\<close>

lemma pending_evidence_simps [simp]:
  "er_accepted (pending_evidence r c) = False" "er_kind (pending_evidence r c) = Pending_evidence"
  "er_cost (pending_evidence r c) = None"
  by (simp_all add: pending_evidence_def)

lemma accepted_evidence_simps [simp]:
  "er_accepted (accepted_evidence b k n)" "er_kind (accepted_evidence b k n) = k"
  "er_cost (accepted_evidence b k n) = Some n" "er_binding (accepted_evidence b k n) = Some b"
  by (simp_all add: accepted_evidence_def)

lemma first_error_append:
  "first_error (xs @ ys) = orElse (first_error xs) (first_error ys)"
  by (induction xs rule: first_error.induct) (auto simp: orElse_def)

text \<open>
  What the protocol asks of the evidence, written field by field and without the tables of the code: the
  metadata is complete and describes this request; cost, tokens and stop are those of a billed call;
  the content is an answer for the original messages, or says that there is none.
\<close>

definition metadata_supports ::
    "(string \<Rightarrow> int option) \<Rightarrow> reconciliation_input \<Rightarrow> (string \<times> jsvalue) list \<Rightarrow> int \<Rightarrow> bool" where
  "metadata_supports parse_date inp m n \<longleftrightarrow>
     {''id'', ''request_id'', ''model'', ''provider_name'', ''created_at'', ''cancelled'', ''finish_reason'',
      ''native_finish_reason'', ''native_tokens_prompt'', ''native_tokens_completion'', ''tokens_prompt'',
      ''tokens_completion'', ''total_cost'', ''usage'', ''upstream_id'', ''router'', ''provider_responses''}
        \<subseteq> dom (map_of m)
     \<and> field_of m ''id'' = VStr (ri_generationId inp)
     \<and> field_of m ''model'' = VStr ''nousresearch/hermes-4-405b'' \<and> ri_model inp = ''nousresearch/hermes-4-405b''
     \<and> (\<exists>q. field_of m ''request_id'' = VStr q \<and> q \<noteq> [] \<and> ri_openRouterRequestId inp \<in> {None, Some q})
     \<and> (\<exists>p. field_of m ''provider_name'' = VStr p \<and> p \<noteq> [])
     \<and> (\<exists>u. field_of m ''upstream_id'' = VStr u \<and> u \<noteq> [])
     \<and> (field_of m ''router'' = VNull \<or> (\<exists>r. field_of m ''router'' = VStr r \<and> r \<noteq> []))
     \<and> (field_of m ''provider_responses'' = VNull \<or> (\<exists>vs. field_of m ''provider_responses'' = VArr vs))
     \<and> (\<forall>b. ri_acceptedBinding inp = Some b \<longrightarrow>
          canonical (binding_value b) = canonical (binding_value (metadata_binding m)))
     \<and> (\<exists>d c. field_of m ''created_at'' = VStr d \<and> parse_date d = Some c \<and> ri_dispatchTokenAtMs inp - 300000 \<le> c
          \<and> c \<le> (case ri_ambiguityEnteredAtMs inp of Some a \<Rightarrow> a + 300000
                  | None \<Rightarrow> op_transitionCommittedAtMs (ri_operation inp)))
     \<and> decimalMicros (field_of m ''total_cost'') = Some n \<and> decimalMicros (field_of m ''usage'') = Some n"

definition metadata_billed :: "(string \<times> jsvalue) list \<Rightarrow> int \<Rightarrow> bool" where
  "metadata_billed m n \<longleftrightarrow> field_of m ''cancelled'' = VBool False \<and> 0 < n \<and> field_of m ''finish_reason'' = VStr ''stop''
     \<and> (\<exists>i. field_of m ''tokens_prompt'' = VInt i \<and> field_of m ''native_tokens_prompt'' = VInt i \<and> 0 \<le> i)
     \<and> (\<exists>i. field_of m ''tokens_completion'' = VInt i \<and> field_of m ''native_tokens_completion'' = VInt i \<and> 0 \<le> i)"

definition content_answers :: "jsvalue \<Rightarrow> jsvalue list \<Rightarrow> jsvalue \<Rightarrow> bool" where
  "content_answers body messages completion \<longleftrightarrow>
     (\<exists>d i out sent. own_prop ''data'' body = Some d \<and> own_prop ''input'' d = Some i \<and> own_prop ''output'' d = Some out
        \<and> own_prop ''messages'' i = Some sent \<and> canonical sent = canonical (VArr messages)
        \<and> own_prop ''reasoning'' out = Some VNull \<and> own_prop ''completion'' out = Some completion)"

definition content_gone :: "jsvalue \<Rightarrow> bool" where
  "content_gone body \<longleftrightarrow> own_prop ''data'' body = None
     \<and> (\<exists>err msg. own_prop ''error'' body = Some err \<and> own_prop ''message'' err = Some (VStr msg) \<and> msg \<noteq> [])"

definition evidence_proves ::
    "(string \<Rightarrow> int option) \<Rightarrow> reconciliation_input \<Rightarrow> evidence_kind \<Rightarrow> int \<Rightarrow> bool" where
  "evidence_proves parse_date inp k n \<longleftrightarrow>
     (\<exists>e m. ri_evidence inp = Some e \<and> e_metadataData e = Some m \<and> cap_status (e_metadata e) = 200
        \<and> e_credentialId e = ri_expectedReconcilerCredentialId inp \<and> e_generationId e = ri_generationId inp
        \<and> is_sha256 (cap_bodySha256 (e_metadata e)) \<and> is_sha256 (cap_bodySha256 (e_content e))
        \<and> (\<forall>a. ri_ambiguityEnteredAtMs inp = Some a \<longrightarrow> e_retrievalStartedAtMs e < a + 86400000)
        \<and> metadata_supports parse_date inp m n
        \<and> (case k of
             Canceled \<Rightarrow> field_of m ''cancelled'' = VBool True \<and> n = 0
           | Positive_response \<Rightarrow> metadata_billed m n \<and> ri_sealedRequestCommitmentMatches inp
               \<and> cap_status (e_content e) = 200
               \<and> (\<exists>t. content_answers (e_contentBody e) (ri_originalMessages inp) (VStr t))
               \<and> (\<exists>rc. ri_recoveredResponseCommitment inp = Some rc \<and> rc \<noteq> []
                    \<and> ri_existingResponseCommitment inp \<in> {None, Some rc})
           | Positive_no_response \<Rightarrow> metadata_billed m n \<and> ri_sealedRequestCommitmentMatches inp
               \<and> (cap_status (e_content e) = 200 \<and> content_answers (e_contentBody e) (ri_originalMessages inp) VNull
                  \<or> cap_status (e_content e) = 404 \<and> content_gone (e_contentBody e))
           | _ \<Rightarrow> False))"

lemma nonempty_stringD: "nonempty_string v \<Longrightarrow> \<exists>s. v = VStr s \<and> s \<noteq> []"
  by (cases v) simp_all

lemma is_countD: "is_count v \<Longrightarrow> \<exists>i. v = VInt i \<and> 0 \<le> i"
  by (cases v) (simp_all add: safe_nonneg_def)

lemma is_arrayD: "is_array v \<Longrightarrow> \<exists>vs. v = VArr vs"
  by (cases v) simp_all

lemma router_okD: "router_ok v \<Longrightarrow> v = VNull \<or> (\<exists>r. v = VStr r \<and> r \<noteq> [])"
  by (cases v) simp_all

lemma metadata_checks_pass:
  assumes "first_error (metadata_checks parse_date inp m) = None"
    and "list_all (\<lambda>k. k \<in> fst ` set m) REQUIRED_METADATA"
    and "decimalMicros (field_of m ''total_cost'') = Some n"
  shows "metadata_supports parse_date inp m n"
proof -
  have dom: "{''id'', ''request_id'', ''model'', ''provider_name'', ''created_at'', ''cancelled'', ''finish_reason'',
      ''native_finish_reason'', ''native_tokens_prompt'', ''native_tokens_completion'', ''tokens_prompt'',
      ''tokens_completion'', ''total_cost'', ''usage'', ''upstream_id'', ''router'', ''provider_responses''}
        \<subseteq> dom (map_of m)"
    using assms(2) by (simp add: REQUIRED_METADATA_def dom_map_of_conv_image_fst)
  note checks = assms(1) [unfolded metadata_checks_def Let_def first_error_None_simps not_not de_Morgan_disj]
  have created: "\<exists>d c. field_of m ''created_at'' = VStr d \<and> parse_date d = Some c \<and> ri_dispatchTokenAtMs inp - 300000 \<le> c
      \<and> c \<le> (case ri_ambiguityEnteredAtMs inp of Some a \<Rightarrow> a + 300000
               | None \<Rightarrow> op_transitionCommittedAtMs (ri_operation inp))"
    using checks by (cases "field_of m ''created_at''") (simp_all split: option.splits)
  have request: "\<exists>q. field_of m ''request_id'' = VStr q \<and> q \<noteq> [] \<and> ri_openRouterRequestId inp \<in> {None, Some q}"
    using checks nonempty_stringD [of "field_of m ''request_id''"] by (cases "ri_openRouterRequestId inp") auto
  have binding: "\<forall>b. ri_acceptedBinding inp = Some b \<longrightarrow>
      canonical (binding_value b) = canonical (binding_value (metadata_binding m))"
    using checks by (cases "ri_acceptedBinding inp") simp_all
  have usage: "decimalMicros (field_of m ''usage'') = Some n" using checks assms(3) by (simp only:)
  have model: "PINNED_MODEL = ''nousresearch/hermes-4-405b''" by (simp only: PINNED_MODEL_def)
  show ?thesis
    unfolding metadata_supports_def
    by (intro conjI dom created request binding usage assms(3))
      (use checks model nonempty_stringD router_okD is_arrayD in \<open>(simp; fail) | blast\<close>)+
qed

lemma metadata_checks_counts:
  assumes "first_error (metadata_checks parse_date inp m) = None"
    and "field_of m ''cancelled'' \<noteq> VBool True" and "positive_metadata m n"
  shows "metadata_billed m n"
proof -
  note checks = assms(1) [unfolded metadata_checks_def Let_def first_error_None_simps not_not de_Morgan_disj]
  from assms(3) obtain i j k l where c: "field_of m ''tokens_prompt'' = VInt i" "field_of m ''native_tokens_prompt'' = VInt j"
    "field_of m ''tokens_completion'' = VInt k" "field_of m ''native_tokens_completion'' = VInt l" "0 \<le> i" "0 \<le> k"
    using is_countD unfolding positive_metadata_def by metis
  then have "j = i" "l = k" using checks by (simp_all add: count_conflict_def)
  moreover have "field_of m ''cancelled'' = VBool False" using checks assms(2) by simp
  ultimately show ?thesis using c assms(3) by (simp add: metadata_billed_def positive_metadata_def)
qed

lemma capture_checks_pass:
  assumes "first_error (capture_checks inp e) = None"
  shows "e_credentialId e = ri_expectedReconcilerCredentialId inp" "e_generationId e = ri_generationId inp"
    "is_sha256 (cap_bodySha256 (e_metadata e))" "is_sha256 (cap_bodySha256 (e_content e))"
    "\<forall>a. ri_ambiguityEnteredAtMs inp = Some a \<longrightarrow> e_retrievalStartedAtMs e < a + 86400000"
  using assms by (auto simp: capture_checks_def split: if_splits option.splits)

text \<open>The content part accepts with the metered cost, and only an answer of one of the two forms.\<close>

lemma object_props: "own_prop k (if isObject v then v else VObj []) = own_prop k v"
  by (cases v) simp_all

lemma content_completion_answers:
  assumes "content_completion st (if isObject body then body else VObj []) messages = Some c"
  shows "st = 200 \<and> content_answers body messages c \<and> (is_string c \<or> c = VNull)"
  using assms unfolding content_completion_def object_props content_answers_def
  by (simp split: if_split_asm option.splits)

lemma is_exact404_gone:
  "is_exact404 st (if isObject body then body else VObj []) \<Longrightarrow> st = 404 \<and> content_gone body"
  unfolding is_exact404_def object_props content_gone_def
  by (auto split: option.splits dest!: nonempty_stringD)

lemma content_result_cases:
  fixes inp e b n
  defines "r \<equiv> content_result inp e b n"
  shows "(\<exists>x. r = pending_evidence x True)
   \<or> (r = accepted_evidence b Positive_no_response n
      \<and> (cap_status (e_content e) = 200 \<and> content_answers (e_contentBody e) (ri_originalMessages inp) VNull
         \<or> cap_status (e_content e) = 404 \<and> content_gone (e_contentBody e)))
   \<or> (r = accepted_evidence b Positive_response n \<and> cap_status (e_content e) = 200
      \<and> (\<exists>t. content_answers (e_contentBody e) (ri_originalMessages inp) (VStr t))
      \<and> (\<exists>rc. ri_recoveredResponseCommitment inp = Some rc \<and> rc \<noteq> []
           \<and> ri_existingResponseCommitment inp \<in> {None, Some rc}))"
proof -
  let ?root = "if isObject (e_contentBody e) then e_contentBody e else VObj []"
  let ?st = "cap_status (e_content e)"
  show ?thesis
  proof (cases "is_exact404 ?st ?root")
    case True
    with is_exact404_gone [OF True] show ?thesis by (simp add: r_def content_result_def Let_def)
  next
    case no404: False
    show ?thesis
    proof (cases "content_completion ?st ?root (ri_originalMessages inp)")
      case None
      with no404 show ?thesis by (intro disjI1) (simp add: r_def content_result_def Let_def, blast)
    next
      case (Some c)
      note answer = content_completion_answers [OF Some]
      show ?thesis
      proof (cases "is_string c")
        case True
        then obtain t where "c = VStr t" by (cases c) simp_all
        with no404 Some answer show ?thesis
          by (simp add: r_def content_result_def Let_def split: option.split) blast
      next
        case False
        with answer have "c = VNull" by simp
        moreover from this have "r = accepted_evidence b Positive_no_response n"
          using no404 Some by (simp add: r_def content_result_def Let_def)
        ultimately show ?thesis using answer by blast
      qed
    qed
  qed
qed

text \<open>A result is consistent: not accepted and open, or accepted and proved.\<close>

definition consistent_result ::
    "(string \<Rightarrow> int option) \<Rightarrow> reconciliation_input \<Rightarrow> evidence_result \<Rightarrow> bool" where
  "consistent_result parse_date inp ev \<longleftrightarrow>
     (\<not> er_accepted ev \<and> er_kind ev \<in> {Pending_evidence, Credential_drift})
     \<or> (er_accepted ev \<and> (\<exists>n. er_cost ev = Some n \<and> evidence_proves parse_date inp (er_kind ev) n)
        \<and> er_kind ev \<in> {Canceled, Positive_response, Positive_no_response})"

lemma consistent_pending: "consistent_result parse_date inp (pending_evidence r c)"
  by (simp add: consistent_result_def)

lemma consistent_accepted:
  assumes "evidence_proves parse_date inp k n"
  shows "consistent_result parse_date inp (accepted_evidence b k n)"
  using assms by (cases k) (auto simp: consistent_result_def evidence_proves_def)

lemma metadata_result_consistent:
  assumes e: "ri_evidence inp = Some e" "e_metadataData e = Some m"
    and cap: "first_error (capture_checks inp e) = None" and st: "cap_status (e_metadata e) = 200"
    and req: "list_all (\<lambda>k. k \<in> fst ` set m) REQUIRED_METADATA"
  shows "consistent_result parse_date inp (metadata_result parse_date inp e m)"
proof (cases "first_error (metadata_checks parse_date inp m) = None \<and> decimalMicros (field_of m ''total_cost'') \<noteq> None")
  case False
  then show ?thesis by (auto simp: metadata_result_def consistent_pending split: option.split)
next
  case True
  then obtain n where checks: "first_error (metadata_checks parse_date inp m) = None"
    and n: "decimalMicros (field_of m ''total_cost'') = Some n" by blast
  note facts = e st capture_checks_pass [OF cap] metadata_checks_pass [OF checks req n]
  have proves: "evidence_proves parse_date inp k n" if "case k of
             Canceled \<Rightarrow> field_of m ''cancelled'' = VBool True \<and> n = 0
           | Positive_response \<Rightarrow> metadata_billed m n \<and> ri_sealedRequestCommitmentMatches inp
               \<and> cap_status (e_content e) = 200
               \<and> (\<exists>t. content_answers (e_contentBody e) (ri_originalMessages inp) (VStr t))
               \<and> (\<exists>rc. ri_recoveredResponseCommitment inp = Some rc \<and> rc \<noteq> []
                    \<and> ri_existingResponseCommitment inp \<in> {None, Some rc})
           | Positive_no_response \<Rightarrow> metadata_billed m n \<and> ri_sealedRequestCommitmentMatches inp
               \<and> (cap_status (e_content e) = 200 \<and> content_answers (e_contentBody e) (ri_originalMessages inp) VNull
                  \<or> cap_status (e_content e) = 404 \<and> content_gone (e_contentBody e))
           | _ \<Rightarrow> False" for k
    unfolding evidence_proves_def by (intro exI [of _ e] exI [of _ m] conjI facts that)
  have "consistent_result parse_date inp (content_result inp e b n)"
    if c: "field_of m ''cancelled'' \<noteq> VBool True" "positive_metadata m n" "ri_sealedRequestCommitmentMatches inp" for b
    using content_result_cases [of inp e b n] metadata_checks_counts [OF checks c(1,2)] c(3)
    by (elim disjE exE) (auto simp: consistent_pending intro!: consistent_accepted proves)
  moreover have "consistent_result parse_date inp (accepted_evidence b Canceled 0)"
    if "field_of m ''cancelled'' = VBool True" "n = 0" for b
    using proves [of Canceled] that by (intro consistent_accepted) simp
  moreover have "\<not> positive_metadata m 0" by (simp add: positive_metadata_def)
  ultimately show ?thesis
    using checks n by (simp add: metadata_result_def consistent_pending)
qed

lemma evidence_result_consistent: "consistent_result parse_date inp (evidenceResult parse_date inp)"
proof (cases "ri_evidence inp")
  case None
  then show ?thesis by (simp add: evidenceResult_def consistent_pending)
next
  case (Some e)
  show ?thesis
  proof (cases "e_metadataData e")
    case None
    with Some show ?thesis
      by (simp add: evidenceResult_def consistent_pending split: option.split) (simp add: consistent_result_def)
  next
    case m: (Some m)
    show ?thesis
      using Some m metadata_result_consistent [OF Some m]
      by (simp add: evidenceResult_def consistent_pending split: option.split) (simp add: consistent_result_def)
  qed
qed

lemma evidence_result_cases:
  "ev = evidenceResult parse_date inp \<Longrightarrow>
     (\<not> er_accepted ev \<and> er_kind ev \<in> {Pending_evidence, Credential_drift})
     \<or> (er_accepted ev \<and> (\<exists>n. er_cost ev = Some n \<and> evidence_proves parse_date inp (er_kind ev) n)
        \<and> er_kind ev \<in> {Canceled, Positive_response, Positive_no_response})"
  using evidence_result_consistent [of parse_date inp] by (simp add: consistent_result_def)

section \<open>Properties of the plan\<close>

lemma terminal_plan_Inr:
  "terminal_plan inp ev st = Inr mp \<Longrightarrow> mp_terminal mp = Some st \<and> mp_holdMember mp = Remove_member
     \<and> mp_attemptState mp = Terminal_attempt"
  by (auto simp: terminal_plan_def Let_def split: if_split_asm)

lemma terminal_plan_execution:
  "terminal_plan inp ev st = Inr mp \<Longrightarrow> \<exists>x. mp_execution mp = Some x
     \<and> (case st of
          Reconciled_billed_with_response \<Rightarrow> xp_status x = Exec_completed \<and> xp_actualCostMicros x = er_cost ev
            \<and> xp_responseCommitment x = ri_recoveredResponseCommitment inp \<and> \<not> xp_retainReservationExposure x
        | Reconciled_billed_no_response \<Rightarrow> xp_status x = Exec_failed \<and> xp_actualCostMicros x = er_cost ev
            \<and> xp_responseCommitment x = None \<and> \<not> xp_retainReservationExposure x
        | Unresolved_provider_outcome \<Rightarrow> xp_status x = Exec_reconciliation_hold
            \<and> xp_actualCostMicros x = None \<and> xp_retainReservationExposure x
        | _ \<Rightarrow> xp_status x = Exec_failed \<and> xp_actualCostMicros x = Some 0 \<and> \<not> xp_retainReservationExposure x)
     \<and> (mp_globalFailure mp = Some ''UNRESOLVED_PROVIDER_OUTCOME'' \<longleftrightarrow> st = Unresolved_provider_outcome)"
  by (cases st) (auto simp: terminal_plan_def Let_def split: if_split_asm)

lemma pending_plan_simps [simp]:
  "mp_terminal (pending_plan inp ev f a h p) = None" "mp_holdMember (pending_plan inp ev f a h p) = h"
  "mp_execution (pending_plan inp ev f a h p) = None" "mp_lane (pending_plan inp ev f a h p) = Remain_held"
  by (simp_all add: pending_plan_def)

text \<open>The decision table of the kernel: when and in which state an attempt becomes terminal.\<close>

definition terminal_of :: "rec_operation \<Rightarrow> int \<Rightarrow> evidence_kind \<Rightarrow> terminal_state option" where
  "terminal_of op admitted k =
     (if k = Credential_drift then None
      else (case op of
        PreAmbiguity received httpStatus envelope t \<Rightarrow>
          if received \<le> admitted + 19000 \<and> k = Canceled then Some Terminal_rejected_not_billed else None
      | Cutoff a b c \<Rightarrow> Some Unresolved_provider_outcome
      | Scheduled offset t \<Rightarrow>
          (case k of Canceled \<Rightarrow> Some Reconciled_not_billed
           | Positive_response \<Rightarrow> Some Reconciled_billed_with_response
           | Positive_no_response \<Rightarrow> if offset = 86300 then Some Reconciled_billed_no_response else None
           | _ \<Rightarrow> None)))"

lemma plan_terminal:
  assumes "planReconciliationMutation parse_date inp = Inr mp"
  defines "ev \<equiv> evidenceResult parse_date inp"
  shows "mp_terminal mp = (if schedule inp \<noteq> None then None
      else terminal_of (ri_operation inp) (ri_admissionStartedAtMs inp) (er_kind ev))
    \<and> (\<forall>st. mp_terminal mp = Some st \<longrightarrow> terminal_plan inp ev st = Inr mp)
    \<and> (mp_terminal mp = None \<longrightarrow> mp_lane mp = Remain_held \<and> mp_holdMember mp \<noteq> Remove_member)"
proof -
  define T where "T = (if schedule inp \<noteq> None then None
      else terminal_of (ri_operation inp) (ri_admissionStartedAtMs inp) (er_kind ev))"
  have "case T of Some st \<Rightarrow> terminal_plan inp ev st = Inr mp
      | None \<Rightarrow> mp_terminal mp = None \<and> mp_lane mp = Remain_held \<and> mp_holdMember mp \<noteq> Remove_member"
    using assms(1) unfolding T_def planReconciliationMutation_def Let_def ev_def [symmetric]
    by (cases "ri_operation inp"; cases "er_kind ev") (auto simp: terminal_of_def split: option.splits if_split_asm)
  then have "mp_terminal mp = T \<and> (\<forall>st. T = Some st \<longrightarrow> terminal_plan inp ev st = Inr mp)
      \<and> (T = None \<longrightarrow> mp_lane mp = Remain_held \<and> mp_holdMember mp \<noteq> Remove_member)"
    by (cases T) (auto dest: terminal_plan_Inr)
  then show ?thesis unfolding T_def by metis
qed

lemma plan_held:
  assumes "planReconciliationMutation parse_date inp = Inr mp"
  shows "ri_requestId inp \<in> set (ri_heldMembersBefore inp)"
proof -
  have "input_errors inp = None" using assms by (simp add: planReconciliationMutation_def split: option.splits)
  then show ?thesis unfolding input_errors_def first_error_None_simps by blast
qed

text \<open>
  The plan is total on inputs that pass the guards: the invariant check on the cost of a terminal
  state never fires.
\<close>

theorem plan_cost_defined:
  "planReconciliationMutation parse_date inp \<noteq> Inl RECONCILIATION_COST_INVARIANT"
proof
  assume "planReconciliationMutation parse_date inp = Inl RECONCILIATION_COST_INVARIANT"
  moreover have "input_errors inp \<noteq> Some RECONCILIATION_COST_INVARIANT"
    by (auto simp: input_errors_def split: rec_operation.splits)
  moreover have "terminal_plan inp ev st \<noteq> Inl RECONCILIATION_COST_INVARIANT"
    if "st \<in> {Reconciled_billed_with_response, Reconciled_billed_no_response} \<longrightarrow> er_cost ev \<noteq> None" for ev st
    using that by (cases st) (auto simp: terminal_plan_def Let_def)
  ultimately show False
    using evidence_result_cases [OF refl, of parse_date inp]
    by (auto simp: planReconciliationMutation_def Let_def split: option.splits if_split_asm rec_operation.splits)
qed

text \<open>
  C40: an attempt is settled as billed only on proof: complete metadata of the provider for this
  generation and request, from the expected credential and fetched before the cutoff, with the pinned
  model, the provider binding of earlier evidence, a creation time in the window, agreeing token counts,
  a clean stop, one positive cost and the sealed request; and a content answer for the original
  messages, with a completion when a response is delivered, with none (or a 404) when not. The plan
  charges exactly that cost, and delivers the recovered commitment only if it agrees with any earlier one.
\<close>

theorem billed_terminal_proved:
  assumes "planReconciliationMutation parse_date inp = Inr mp"
    and "mp_terminal mp \<in> {Some Reconciled_billed_with_response, Some Reconciled_billed_no_response}"
  shows "\<exists>n k x. evidence_proves parse_date inp k n \<and> 0 < n
    \<and> mp_execution mp = Some x \<and> xp_actualCostMicros x = Some n
    \<and> (mp_terminal mp = Some Reconciled_billed_with_response \<longrightarrow>
         k = Positive_response \<and> xp_responseCommitment x = ri_recoveredResponseCommitment inp)
    \<and> (mp_terminal mp = Some Reconciled_billed_no_response \<longrightarrow>
         k = Positive_no_response \<and> xp_responseCommitment x = None)"
proof -
  let ?ev = "evidenceResult parse_date inp"
  from assms(2) obtain st where st: "mp_terminal mp = Some st"
    "st \<in> {Reconciled_billed_with_response, Reconciled_billed_no_response}" by auto
  note plan = plan_terminal [OF assms(1)]
  from plan st have tp: "terminal_plan inp ?ev st = Inr mp" by blast
  from plan st have kind: "st = Reconciled_billed_with_response \<longrightarrow> er_kind ?ev = Positive_response"
    "st = Reconciled_billed_no_response \<longrightarrow> er_kind ?ev = Positive_no_response"
    by (auto simp: terminal_of_def split: if_split_asm rec_operation.splits evidence_kind.splits)
  with st obtain n where n: "er_cost ?ev = Some n" "evidence_proves parse_date inp (er_kind ?ev) n"
    using evidence_result_cases [OF refl, of parse_date inp] by auto
  then have "0 < n" using kind st by (auto simp: evidence_proves_def metadata_billed_def)
  from terminal_plan_execution [OF tp] st n obtain x where x: "mp_execution mp = Some x"
    "xp_actualCostMicros x = Some n"
    "st = Reconciled_billed_with_response \<longrightarrow> xp_responseCommitment x = ri_recoveredResponseCommitment inp"
    "st = Reconciled_billed_no_response \<longrightarrow> xp_responseCommitment x = None"
    by auto
  show ?thesis using n(2) \<open>0 < n\<close> kind x st
    by (intro exI [of _ n] exI [of _ "er_kind ?ev"] exI [of _ x]) auto
qed

text \<open>
  A terminal plan always removes the request from the hold and a non-terminal one never does;
  the provider's outcome is given up only by a cutoff operation that kept its schedule, and then the
  plan keeps the reserved exposure and requests the global failure.
\<close>

theorem unresolved_only_at_cutoff:
  assumes "planReconciliationMutation parse_date inp = Inr mp"
  shows "(mp_holdMember mp = Remove_member \<longleftrightarrow> mp_terminal mp \<noteq> None)
    \<and> (mp_terminal mp = Some Unresolved_provider_outcome \<longrightarrow>
        (\<exists>a b c. ri_operation inp = Cutoff a b c) \<and> schedule inp = None
        \<and> mp_globalFailure mp = Some ''UNRESOLVED_PROVIDER_OUTCOME''
        \<and> (\<exists>x. mp_execution mp = Some x \<and> xp_actualCostMicros x = None \<and> xp_retainReservationExposure x))"
proof (intro conjI impI)
  note plan = plan_terminal [OF assms]
  show "mp_holdMember mp = Remove_member \<longleftrightarrow> mp_terminal mp \<noteq> None"
    using plan terminal_plan_Inr by (cases "mp_terminal mp") blast+
  assume st: "mp_terminal mp = Some Unresolved_provider_outcome"
  then have tp: "terminal_plan inp (evidenceResult parse_date inp) Unresolved_provider_outcome = Inr mp"
    using plan by blast
  show "mp_globalFailure mp = Some ''UNRESOLVED_PROVIDER_OUTCOME''"
    "\<exists>x. mp_execution mp = Some x \<and> xp_actualCostMicros x = None \<and> xp_retainReservationExposure x"
    using terminal_plan_execution [OF tp] by auto
  show "\<exists>a b c. ri_operation inp = Cutoff a b c" "schedule inp = None"
    using plan st by (auto simp: terminal_of_def split: if_split_asm rec_operation.splits evidence_kind.splits)
qed

definition op_phases :: "rec_operation \<Rightarrow> op_times option" where
  "op_phases op = (case op of Scheduled offset t \<Rightarrow> Some t | PreAmbiguity a b c t \<Rightarrow> Some t | Cutoff a b c \<Rightarrow> None)"

lemma schedule_phases_None:
  "first_error (schedule_phases t) = None \<Longrightarrow>
      t_startedAtMs t \<le> t_getsCompletedAtMs t \<and> t_getsCompletedAtMs t \<le> t_evidenceValidatedAtMs t
      \<and> t_evidenceValidatedAtMs t \<le> t_evidenceCommittedAtMs t
      \<and> t_evidenceCommittedAtMs t \<le> t_transitionCommittedAtMs t
      \<and> t_transitionCommittedAtMs t \<le> t_startedAtMs t + 55000"
  by (simp add: schedule_phases_def first_error_None_simps del: first_error.simps)

lemma schedule_None:
  "schedule inp = None \<Longrightarrow> 0 \<le> op_transitionCommittedAtMs (ri_operation inp)
     \<and> op_scheduledAtMs (ri_operation inp) \<le> op_startedAtMs (ri_operation inp)
     \<and> op_startedAtMs (ri_operation inp) < op_scheduledAtMs (ri_operation inp) + 1000
     \<and> first_error (case ri_operation inp of
            Cutoff scheduled started committed \<Rightarrow>
              [(scheduled \<noteq> ambiguity_time inp + 86400000, ''CUTOFF_SCHEDULE_MISMATCH''),
               (committed < started \<or> 30000 < committed - started
                  \<or> ambiguity_time inp + 86431000 \<le> committed, ''CUTOFF_CLASSIFICATION_DEADLINE_MISSED'')]
          | Scheduled offset t \<Rightarrow> schedule_phases t @
              [(offset \<notin> set RECONCILIATION_OFFSETS_SECONDS, ''LOOKUP_OFFSET_NOT_SEALED''),
               (t_scheduledAtMs t \<noteq> ambiguity_time inp + offset * 1000, ''LOOKUP_SCHEDULE_MISMATCH'')]
          | PreAmbiguity errorReceivedAt httpStatus envelope t \<Rightarrow> schedule_phases t @
              [(t_scheduledAtMs t \<noteq> errorReceivedAt, ''PRE_AMBIGUITY_SCHEDULE_MISMATCH'')]) = None"
  unfolding schedule_def Let_def first_error_None_simps integerTime_def safe_nonneg_def
  by (elim conjE, intro conjI) simp_all

text \<open>
  A lookup or pre-ambiguity operation that passes the schedule ran in order (started, answered,
  validated, evidence committed, transition committed), within one second of its scheduled time and
  55 seconds in all; a lookup ran at one of the sealed offsets.
\<close>

theorem schedule_orders_phases:
  assumes "schedule inp = None" and "op_phases (ri_operation inp) = Some t"
  shows "t_scheduledAtMs t \<le> t_startedAtMs t \<and> t_startedAtMs t < t_scheduledAtMs t + 1000
    \<and> t_startedAtMs t \<le> t_getsCompletedAtMs t \<and> t_getsCompletedAtMs t \<le> t_evidenceValidatedAtMs t
    \<and> t_evidenceValidatedAtMs t \<le> t_evidenceCommittedAtMs t
    \<and> t_evidenceCommittedAtMs t \<le> t_transitionCommittedAtMs t
    \<and> t_transitionCommittedAtMs t \<le> t_startedAtMs t + 55000
    \<and> (\<forall>offset. ri_operation inp = Scheduled offset t \<longrightarrow> offset \<in> set RECONCILIATION_OFFSETS_SECONDS
         \<and> t_scheduledAtMs t = ambiguity_time inp + offset * 1000)"
proof (cases "ri_operation inp")
  case (Scheduled offset t')
  with assms schedule_None [of inp] schedule_phases_None [of t] show ?thesis
    by (simp add: op_phases_def first_error_None_simps del: first_error.simps)
next
  case (PreAmbiguity a b c t')
  with assms schedule_None [of inp] schedule_phases_None [of t] show ?thesis
    by (simp add: op_phases_def first_error_None_simps del: first_error.simps)
next
  case (Cutoff a b c)
  with assms show ?thesis by (simp add: op_phases_def)
qed

lemma nextBoundary_bounds:
  assumes "0 \<le> t"
  shows "t < 1000 * nextBoundary t \<and> 1000 * nextBoundary t \<le> t + 300000 \<and> 300 dvd nextBoundary t"
proof -
  define a where "a = t div 1000"
  have t: "a * 1000 + t mod 1000 = t" unfolding a_def by (rule div_mult_mod_eq)
  have a: "a div 300 * 300 + a mod 300 = a" by (rule div_mult_mod_eq)
  have "0 \<le> t mod 1000" "t mod 1000 < 1000" "0 \<le> a mod 300" "a mod 300 < 300" by simp_all
  with t a show ?thesis unfolding nextBoundary_def a_def [symmetric] by auto
qed

text \<open>
  A lane resumes only when the last held request of it has ended without a global failure, and
  then at the next five-minute boundary, after the transition and at most 300 seconds later.
\<close>

theorem lane_resumes_safely:
  assumes "planReconciliationMutation parse_date inp = Inr mp" and "mp_lane mp = Schedule_resume b"
  shows "mp_terminal mp \<noteq> None \<and> mp_globalFailure mp = None
    \<and> set (ri_heldMembersBefore inp) = {ri_requestId inp}
    \<and> op_transitionCommittedAtMs (ri_operation inp) < 1000 * b
    \<and> 1000 * b \<le> op_transitionCommittedAtMs (ri_operation inp) + 300000 \<and> 300 dvd b"
proof -
  note plan = plan_terminal [OF assms(1)]
  have "mp_terminal mp \<noteq> None"
  proof
    assume "mp_terminal mp = None"
    with plan have "mp_lane mp = Remain_held" by blast
    with assms(2) show False by simp
  qed
  obtain st where st: "mp_terminal mp = Some st" using \<open>mp_terminal mp \<noteq> None\<close> by blast
  with plan have tp: "terminal_plan inp (evidenceResult parse_date inp) st = Inr mp" by blast
  have sched: "schedule inp = None" using plan st by (metis option.distinct(1))
  from tp assms(2) have lane: "mp_globalFailure mp = None"
    "filter (\<lambda>i. i \<noteq> ri_requestId inp) (ri_heldMembersBefore inp) = []"
    "b = nextBoundary (op_transitionCommittedAtMs (ri_operation inp))"
    by (auto simp: terminal_plan_def Let_def split: if_split_asm)
  note held = plan_held [OF assms(1)]
  have "0 \<le> op_transitionCommittedAtMs (ri_operation inp)"
    using schedule_None [OF sched] by simp
  note bounds = nextBoundary_bounds [OF this, folded lane(3)]
  have "set (ri_heldMembersBefore inp) = {ri_requestId inp}"
    using held lane(2) [unfolded filter_empty_conv] by blast
  with bounds lane(1) \<open>mp_terminal mp \<noteq> None\<close> show ?thesis by blast
qed

section \<open>A reconciled request\<close>

definition sample_capture :: "int \<Rightarrow> capture" where
  "sample_capture st = \<lparr>cap_status = st, cap_bodySha256 = replicate 64 CHR ''a'', cap_bodyBase64 = ''e30='',
     cap_retrievedAtMs = 1100\<rparr>"

definition sample_times :: op_times where
  "sample_times = \<lparr>t_scheduledAtMs = 1000, t_startedAtMs = 1000, t_getsCompletedAtMs = 1100,
     t_evidenceValidatedAtMs = 1200, t_evidenceCommittedAtMs = 1300, t_transitionCommittedAtMs = 1400\<rparr>"

definition sample_metadata :: "(string \<times> jsvalue) list" where
  "sample_metadata =
     [(''id'', VStr ''g''), (''request_id'', VStr ''r''), (''model'', VStr PINNED_MODEL),
      (''provider_name'', VStr ''p''), (''created_at'', VStr ''t''), (''cancelled'', VBool False),
      (''finish_reason'', VStr ''stop''), (''native_finish_reason'', VNull),
      (''native_tokens_prompt'', VInt 5), (''native_tokens_completion'', VInt 6),
      (''tokens_prompt'', VInt 5), (''tokens_completion'', VInt 6), (''total_cost'', VStr ''0.000042''),
      (''usage'', VStr ''0.000042''), (''upstream_id'', VStr ''u''), (''router'', VNull),
      (''provider_responses'', VNull)]"

definition sample_input :: "rec_operation \<Rightarrow> reconciliation_input" where
  "sample_input op = \<lparr>ri_runId = ''run'', ri_requestId = ''q'', ri_laneId = ''lane'',
     ri_currentState = Reconciliation_pending, ri_generationId = ''g'',
     ri_expectedReconcilerCredentialId = ''k'', ri_openRouterRequestId = None, ri_model = PINNED_MODEL,
     ri_dispatchTokenAtMs = 0, ri_ambiguityEnteredAtMs = Some 1000, ri_admissionStartedAtMs = 0,
     ri_originalMessages = [], ri_sealedRequestCommitmentMatches = True,
     ri_existingResponseCommitment = None, ri_recoveredResponseCommitment = Some ''c'',
     ri_acceptedBinding = None, ri_operation = op,
     ri_evidence = Some \<lparr>e_credentialId = ''k'', e_generationId = ''g'', e_retrievalStartedAtMs = 1000,
       e_metadata = sample_capture 200, e_metadataData = Some sample_metadata, e_content = sample_capture 200,
       e_contentBody = VObj [(''data'', VObj [(''input'', VObj [(''messages'', VArr [])]),
         (''output'', VObj [(''completion'', VStr ''hi''), (''reasoning'', VNull)])])]\<rparr>,
     ri_heldMemberState = Reconciliation_pending, ri_heldMembersBefore = [''q''],
     ri_nonusableAllowanceOwner = None\<rparr>"

lemma sample_schedule: "schedule (sample_input (Scheduled 0 sample_times)) = None"
  by (simp add: schedule_def schedule_phases_def sample_input_def sample_times_def Let_def integerTime_def
      safe_nonneg_def safe_integer_def max_safe_integer_def ambiguity_time_def RECONCILIATION_OFFSETS_SECONDS_def)

lemma sample_capture_checks:
  "ri_evidence (sample_input op) = Some e \<Longrightarrow> first_error (capture_checks (sample_input op) e) = None"
  by (auto simp: first_error_None_simps capture_checks_def sample_input_def sample_capture_def integerTime_def
      safe_nonneg_def safe_integer_def max_safe_integer_def is_sha256_def list_all_iff simp del: first_error.simps)
    (simp_all add: first_error_None_iff)

lemma sample_cost: "decimalMicros (VStr ''0.000042'') = Some 42"
  by (simp add: decimalMicros_def match_decimal_def span_digits_def is_digit_def digits_val_def digit_val_def
      zeros_def max_safe_integer_def)

lemma sample_fields:
  "field_of sample_metadata ''id'' = VStr ''g''" "field_of sample_metadata ''request_id'' = VStr ''r''"
  "field_of sample_metadata ''model'' = VStr PINNED_MODEL" "field_of sample_metadata ''provider_name'' = VStr ''p''"
  "field_of sample_metadata ''created_at'' = VStr ''t''" "field_of sample_metadata ''cancelled'' = VBool False"
  "field_of sample_metadata ''finish_reason'' = VStr ''stop''"
  "field_of sample_metadata ''native_finish_reason'' = VNull"
  "field_of sample_metadata ''native_tokens_prompt'' = VInt 5"
  "field_of sample_metadata ''native_tokens_completion'' = VInt 6"
  "field_of sample_metadata ''tokens_prompt'' = VInt 5" "field_of sample_metadata ''tokens_completion'' = VInt 6"
  "field_of sample_metadata ''total_cost'' = VStr ''0.000042''"
  "field_of sample_metadata ''usage'' = VStr ''0.000042''"
  "field_of sample_metadata ''upstream_id'' = VStr ''u''" "field_of sample_metadata ''router'' = VNull"
  "field_of sample_metadata ''provider_responses'' = VNull"
  by (simp_all add: field_of_def sample_metadata_def)

lemma sample_metadata_checks:
  "first_error (metadata_checks (\<lambda>_. Some 900) (sample_input op) sample_metadata) = None"
  unfolding metadata_checks_def Let_def sample_fields sample_cost first_error_None_simps
  by (simp add: sample_input_def count_conflict_def safe_nonneg_def safe_integer_def max_safe_integer_def)

lemma sample_required: "list_all (\<lambda>k. k \<in> fst ` set sample_metadata) REQUIRED_METADATA"
  by (simp add: sample_metadata_def REQUIRED_METADATA_def)

lemma sample_evidence:
  "er_kind (evidenceResult (\<lambda>_. Some 900) (sample_input op)) = Positive_response"
proof -
  obtain e where e: "ri_evidence (sample_input op) = Some e" "e_metadataData e = Some sample_metadata"
    "cap_status (e_metadata e) = 200" "cap_status (e_content e) = 200" "e_contentBody e =
       VObj [(''data'', VObj [(''input'', VObj [(''messages'', VArr [])]),
         (''output'', VObj [(''completion'', VStr ''hi''), (''reasoning'', VNull)])])]"
    by (simp add: sample_input_def sample_capture_def)
  have "positive_metadata sample_metadata 42"
    by (simp add: positive_metadata_def sample_fields safe_nonneg_def safe_integer_def max_safe_integer_def)
  moreover have "content_result (sample_input op) e b 42 = accepted_evidence b Positive_response 42" for b
    by (simp add: content_result_def Let_def e is_exact404_def content_completion_def) (simp add: sample_input_def)
  moreover have "ri_sealedRequestCommitmentMatches (sample_input op)" by (simp add: sample_input_def)
  ultimately show ?thesis
    using sample_capture_checks [OF e(1)] sample_required
    by (simp add: evidenceResult_def e metadata_result_def sample_metadata_checks sample_fields sample_cost)
qed

lemma sample_plan_ok:
  "is_ok (planReconciliationMutation (\<lambda>_. Some 900) (sample_input (Scheduled 0 sample_times)))"
proof -
  have "input_errors (sample_input (Scheduled 0 sample_times)) = None"
    unfolding input_errors_def first_error_None_simps
    by (simp add: sample_input_def integerTime_def safe_nonneg_def safe_integer_def max_safe_integer_def)
  moreover have "ri_operation (sample_input (Scheduled 0 sample_times)) = Scheduled 0 sample_times"
    by (simp add: sample_input_def)
  moreover have "er_cost (evidenceResult (\<lambda>_. Some 900) (sample_input (Scheduled 0 sample_times))) \<noteq> None"
    using evidence_result_cases [OF refl, of "\<lambda>_. Some 900" "sample_input (Scheduled 0 sample_times)"]
    by (auto simp: sample_evidence)
  ultimately show ?thesis
    by (simp add: planReconciliationMutation_def sample_schedule sample_evidence terminal_plan_def Let_def)
qed

lemma sample_terminal:
  "planReconciliationMutation (\<lambda>_. Some 900) (sample_input (Scheduled 0 sample_times)) = Inr mp \<Longrightarrow>
     mp_terminal mp = Some Reconciled_billed_with_response"
  using plan_terminal [of "\<lambda>_. Some 900" "sample_input (Scheduled 0 sample_times)" mp]
  by (simp add: sample_schedule sample_evidence terminal_of_def) (simp add: sample_input_def)

lemma billed_terminal_proved_witness:
  "\<exists>mp n k x. planReconciliationMutation (\<lambda>_. Some 900) (sample_input (Scheduled 0 sample_times)) = Inr mp
     \<and> evidence_proves (\<lambda>_. Some 900) (sample_input (Scheduled 0 sample_times)) k n \<and> 0 < n
     \<and> mp_execution mp = Some x \<and> xp_actualCostMicros x = Some n"
proof -
  obtain mp where mp: "planReconciliationMutation (\<lambda>_. Some 900) (sample_input (Scheduled 0 sample_times)) = Inr mp"
    using sample_plan_ok by (auto simp: is_ok_iff)
  have "mp_terminal mp \<in> {Some Reconciled_billed_with_response, Some Reconciled_billed_no_response}"
    using sample_terminal [OF mp] by simp
  from billed_terminal_proved [OF mp this] mp show ?thesis by blast
qed

lemma unresolved_only_at_cutoff_witness:
  "\<exists>mp. planReconciliationMutation (\<lambda>_. Some 900) (sample_input (Scheduled 0 sample_times)) = Inr mp
     \<and> (mp_holdMember mp = Remove_member \<longleftrightarrow> mp_terminal mp \<noteq> None)"
proof -
  obtain mp where mp: "planReconciliationMutation (\<lambda>_. Some 900) (sample_input (Scheduled 0 sample_times)) = Inr mp"
    using sample_plan_ok by (auto simp: is_ok_iff)
  from unresolved_only_at_cutoff [OF mp] mp show ?thesis by blast
qed

lemma schedule_orders_phases_witness:
  "t_transitionCommittedAtMs sample_times \<le> t_startedAtMs sample_times + 55000"
proof -
  have "op_phases (ri_operation (sample_input (Scheduled 0 sample_times))) = Some sample_times"
    by (simp add: op_phases_def sample_input_def)
  from schedule_orders_phases [OF sample_schedule this] show ?thesis by blast
qed

lemma sample_lane:
  assumes "planReconciliationMutation (\<lambda>_. Some 900) (sample_input (Scheduled 0 sample_times)) = Inr mp"
  shows "mp_lane mp = Schedule_resume (nextBoundary 1400)"
proof -
  have "terminal_plan (sample_input (Scheduled 0 sample_times))
      (evidenceResult (\<lambda>_. Some 900) (sample_input (Scheduled 0 sample_times))) Reconciled_billed_with_response = Inr mp"
    using plan_terminal [OF assms] sample_terminal [OF assms] by blast
  then show ?thesis
    by (auto simp: terminal_plan_def Let_def sample_input_def sample_times_def split: if_split_asm)
qed

lemma lane_resumes_safely_witness:
  "\<exists>mp b. planReconciliationMutation (\<lambda>_. Some 900) (sample_input (Scheduled 0 sample_times)) = Inr mp
     \<and> mp_lane mp = Schedule_resume b \<and> 1400 < 1000 * b"
proof -
  obtain mp where mp: "planReconciliationMutation (\<lambda>_. Some 900) (sample_input (Scheduled 0 sample_times)) = Inr mp"
    using sample_plan_ok by (auto simp: is_ok_iff)
  have "op_transitionCommittedAtMs (ri_operation (sample_input (Scheduled 0 sample_times))) = 1400"
    by (simp add: sample_input_def sample_times_def)
  with lane_resumes_safely [OF mp sample_lane [OF mp]] sample_lane [OF mp] mp show ?thesis by metis
qed

end
