(* ===== verification/PolicyTables.thy ===== *)
theory PolicyTables
  imports SiblingDivergence Lifecycles Policy Json FuseService
begin

text \<open>
  The tables of \<open>src/src/persistence/policyStore.ts\<close> and what all its operations share: the rows as
  records, the store as one record of tables, the row checks of the database (unique keys, foreign
  keys), the audit trail, the validation of a mutation context and the integrity check of a branch
  row. A NUMERIC or INTEGER column is an integer (the widths of the columns are not modelled), a
  TIMESTAMPTZ column the instant in milliseconds, a JSONB column the value written to it. SHA-256
  (node:crypto) is the parameter \<open>sha\<close>; random identifiers and the database clock are arguments.
\<close>

section \<open>Times\<close>

text \<open>
  \<open>Date.prototype.toISOString\<close>, by the proleptic Gregorian calendar: the day number is split into eras
  of 400 years counted from 1 March of the year 0.
\<close>

definition civil_date :: "int \<Rightarrow> int \<times> int \<times> int" where
  "civil_date days =
     (let z = days + 719468; era = z div 146097; doe = z mod 146097;
          yoe = (doe - doe div 1460 + doe div 36524 - doe div 146096) div 365;
          doy = doe - (365 * yoe + yoe div 4 - yoe div 100);
          mp = (5 * doy + 2) div 153;
          m = (if mp < 10 then mp + 3 else mp - 9)
      in (yoe + era * 400 + (if m \<le> 2 then 1 else 0), m, doy - (153 * mp + 2) div 5 + 1))"

definition padded :: "nat \<Rightarrow> int \<Rightarrow> string" where
  "padded w n = pad_start w (show_nat (nat n))"

definition year_text :: "int \<Rightarrow> string" where
  "year_text y =
     (if 0 \<le> y \<and> y \<le> 9999 then padded 4 y
      else if y < 0 then ''-'' @ padded 6 (- y) else ''+'' @ padded 6 y)"

definition toISOString :: "int \<Rightarrow> string" where
  "toISOString ms =
     (let (y, m, d) = civil_date (ms div 86400000); t = ms mod 86400000
      in year_text y @ ''-'' @ padded 2 m @ ''-'' @ padded 2 d @ ''T''
         @ padded 2 (t div 3600000) @ '':'' @ padded 2 (t div 60000 mod 60) @ '':''
         @ padded 2 (t div 1000 mod 60) @ ''.'' @ padded 3 (t mod 1000) @ ''Z'')"

section \<open>Rows\<close>

datatype store_error =
    Thrown string | InvalidTransition mandate_state mandate_state
  | StateConflict mandate_state
  | PolicyFailure policy_error
  | UniqueViolation string | ForeignKeyViolation string | InvalidTimestamp

record mutation_context =
  ctx_actorId :: string
  ctx_causationId :: string
  ctx_occurredAt :: timestamp

record policy_row =
  pr_policy :: policy_version
  pr_createdBy :: string

record mandate_row =
  cm_organizationId :: string
  cm_id :: string
  cm_name :: string
  cm_assetId :: string
  cm_maximumSpendAtomic :: int
  cm_state :: mandate_state
  cm_policyId :: string
  cm_policyVersion :: int
  cm_expiresAt :: "int option"
  cm_createdAt :: int

record assignment_row =
  as_organizationId :: string
  as_mandateId :: string
  as_agentId :: string
  as_assignedAt :: int

record branch_row =
  br_organizationId :: string
  br_mandateId :: string
  br_branchId :: string
  br_parentBranchId :: "string option"
  br_agentId :: string
  br_policyId :: string
  br_policyVersion :: int
  br_allowedWorkloadClasses :: "string list"
  br_maximumSpendAtomic :: int
  br_expiresAt :: "int option"
  br_delegationHash :: string
  br_authoritySource :: string
  br_createdAt :: int
  br_createdBy :: string

record exposure_snapshot =
  branchLimitAtomic :: int
  branchCommittedBeforeAtomic :: int
  requestReservationAtomic :: int
  maximumExposureAtomic :: int
  remainingAuthorityAtomic :: int

record decision_input =
  di_id :: string
  di_requestId :: string
  di_organizationId :: string
  di_mandateId :: string
  di_agentId :: string
  di_agentCapabilities :: "capability_text list"
  di_provider :: string
  di_model :: string
  di_branchId :: "string option"
  di_workloadClass :: "string option"
  di_estimatedCostAtomic :: int
  di_inputTokens :: int
  di_maxOutputTokens :: int
  di_spentHourAtomic :: int
  di_spentDayAtomic :: int
  di_mandateSpentAtomic :: int
  di_mandateMaximumAtomic :: int
  di_requestCountLastMinute :: int
  di_workload :: "workload_input option"
  di_exposure :: "exposure_snapshot option"
  di_decidedAt :: timestamp

record stored_decision =
  sd_id :: string
  sd_requestId :: string
  sd_organizationId :: string
  sd_mandateId :: string
  sd_agentId :: string
  sd_policyId :: string
  sd_policyVersion :: int
  sd_result :: policy_decision
  sd_input :: decision_input

datatype exec_status = Denied | Executing | Completed | Failed | Held

record execution_row =
  ex_organizationId :: string
  ex_requestId :: string
  ex_mandateId :: string
  ex_agentId :: string
  ex_decisionId :: string
  ex_provider :: string
  ex_model :: string
  ex_branchId :: "string option"
  ex_workloadClass :: "string option"
  ex_shadowCohortKey :: "string option"
  ex_shadowCohortOrdinal :: "int option"
  ex_shadowCompletedAt :: "int option"
  ex_shadowOrderState :: "string option"
  ex_requestFingerprint :: string
  ex_status :: exec_status
  ex_reservedCostAtomic :: int
  ex_actualCostAtomic :: "int option"
  ex_inputTokens :: int
  ex_maxOutputTokens :: int
  ex_response :: "provider_result option"
  ex_failureCode :: "string option"
  ex_createdAt :: int
  ex_updatedAt :: int

datatype resolution_kind = Settle | ConfirmNotBilled

record resolution_row =
  rs_organizationId :: string
  rs_requestId :: string
  rs_resolution :: resolution_kind
  rs_actualCostAtomic :: int
  rs_note :: string
  rs_externalReference :: string
  rs_resolvedBy :: string
  rs_resolvedAt :: int

record hold_row =
  hd_organizationId :: string
  hd_mandateId :: string
  hd_priorState :: mandate_state
  hd_heldAt :: int

record audit_row =
  au_organizationId :: string
  au_entityType :: string
  au_entityId :: string
  au_action :: string
  au_actorId :: string
  au_causationId :: string
  au_occurredAt :: int
  au_payload :: json

record counter_row =
  cc_organizationId :: string
  cc_cohortKey :: string
  cc_lastOrdinal :: int

datatype queue_state = Q_pending | Q_failed | Q_completed

record queue_row =
  qu_organizationId :: string
  qu_requestId :: string
  qu_state :: queue_state
  qu_attempts :: int
  qu_claimToken :: "string option"
  qu_leaseExpiresAt :: "int option"
  qu_lastError :: "string option"
  qu_queuedAt :: int
  qu_updatedAt :: int

text \<open>The fields the record shares with the result of the evaluation are kept together.\<close>

record shadow_evaluation =
  se_requestId :: string
  se_organizationId :: string
  se_mandateId :: string
  se_branchId :: string
  se_workloadClass :: string
  se_provider :: string
  se_model :: string
  se_cohortKey :: string
  se_cohortOrdinal :: int
  se_result :: divergence_result
  se_evaluatedAt :: int

section \<open>The store\<close>

text \<open>
  The tables of the store; \<open>organizations\<close> and \<open>agents\<close> are written by the identity store and only
  referenced here.
\<close>

record policy_store =
  st_organizations :: "string list"
  st_agents :: "(string \<times> string) list"
  st_policies :: "policy_row list"
  st_mandates :: "mandate_row list"
  st_assignments :: "assignment_row list"
  st_branches :: "branch_row list"
  st_decisions :: "stored_decision list"
  st_executions :: "execution_row list"
  st_resolutions :: "resolution_row list"
  st_holds :: "hold_row list"
  st_counters :: "counter_row list"
  st_queue :: "queue_row list"
  st_shadows :: "shadow_evaluation list"
  st_audit :: "audit_row list"

text \<open>The primary keys.\<close>

definition policy_key :: "policy_row \<Rightarrow> string \<times> string \<times> int" where
  "policy_key r = (pol_organizationId (pr_policy r), pol_id (pr_policy r), pol_version (pr_policy r))"

definition mandate_key :: "mandate_row \<Rightarrow> string \<times> string" where
  "mandate_key r = (cm_organizationId r, cm_id r)"

definition assignment_key :: "assignment_row \<Rightarrow> string \<times> string \<times> string" where
  "assignment_key r = (as_organizationId r, as_mandateId r, as_agentId r)"

definition branch_key :: "branch_row \<Rightarrow> string \<times> string \<times> string" where
  "branch_key r = (br_organizationId r, br_mandateId r, br_branchId r)"

definition decision_key :: "stored_decision \<Rightarrow> string \<times> string" where
  "decision_key r = (sd_organizationId r, sd_id r)"

definition execution_key :: "execution_row \<Rightarrow> string \<times> string" where
  "execution_key r = (ex_organizationId r, ex_requestId r)"

definition resolution_key :: "resolution_row \<Rightarrow> string \<times> string" where
  "resolution_key r = (rs_organizationId r, rs_requestId r)"

definition hold_key :: "hold_row \<Rightarrow> string \<times> string" where
  "hold_key r = (hd_organizationId r, hd_mandateId r)"

definition counter_key :: "counter_row \<Rightarrow> string \<times> string" where
  "counter_key r = (cc_organizationId r, cc_cohortKey r)"

definition queue_key :: "queue_row \<Rightarrow> string \<times> string" where
  "queue_key r = (qu_organizationId r, qu_requestId r)"

definition shadow_key :: "shadow_evaluation \<Rightarrow> string \<times> string" where
  "shadow_key r = (se_organizationId r, se_requestId r)"

text \<open>Each table meets the contract of a keyed table; the components use it under these names.\<close>

interpretation mandate_table:
    keyed_table mandate_key "tbl_find mandate_key" "tbl_insert mandate_key" "tbl_update mandate_key"
      "tbl_wf mandate_key"
  by (rule keyed_table_tbl)

interpretation branch_table:
    keyed_table branch_key "tbl_find branch_key" "tbl_insert branch_key" "tbl_update branch_key"
      "tbl_wf branch_key"
  by (rule keyed_table_tbl)

interpretation execution_table:
    keyed_table execution_key "tbl_find execution_key" "tbl_insert execution_key"
      "tbl_update execution_key" "tbl_wf execution_key"
  by (rule keyed_table_tbl)

interpretation decision_table:
    keyed_table decision_key "tbl_find decision_key" "tbl_insert decision_key"
      "tbl_update decision_key" "tbl_wf decision_key"
  by (rule keyed_table_tbl)

interpretation resolution_table:
    keyed_table resolution_key "tbl_find resolution_key" "tbl_insert resolution_key"
      "tbl_update resolution_key" "tbl_wf resolution_key"
  by (rule keyed_table_tbl)

interpretation hold_table:
    keyed_table hold_key "tbl_find hold_key" "tbl_insert hold_key" "tbl_update hold_key"
      "tbl_wf hold_key"
  by (rule keyed_table_tbl)

text \<open>An INSERT either appends the row or fails on a unique key.\<close>

definition insert_row :: "string \<Rightarrow> ('r \<Rightarrow> 'k) \<Rightarrow> 'r \<Rightarrow> 'r list \<Rightarrow> store_error + 'r list" where
  "insert_row table key r rows =
     (case tbl_insert key r rows of None \<Rightarrow> Inl (UniqueViolation table) | Some rows' \<Rightarrow> Inr rows')"

lemma insert_row_Inr: "insert_row t key r rows = Inr rows' \<longleftrightarrow> tbl_insert key r rows = Some rows'"
  by (simp add: insert_row_def split: option.splits)

lemma tbl_insert_Some: "tbl_insert key r rows = Some rows' \<longleftrightarrow> key r \<notin> key ` set rows \<and> rows' = rows @ [r]"
  by (auto simp: tbl_insert_def tbl_find_None_iff)

definition sql_time :: "timestamp \<Rightarrow> store_error + int" where
  "sql_time t = (case date_parse t of None \<Rightarrow> Inl InvalidTimestamp | Some ms \<Rightarrow> Inr ms)"

section \<open>Shared steps\<close>

definition validateContext :: "mutation_context \<Rightarrow> store_error option" where
  "validateContext c = first_error
     [(blank (ctx_actorId c), Thrown ''POLICY_ACTOR_REQUIRED''),
      (blank (ctx_causationId c), Thrown ''POLICY_CAUSATION_REQUIRED''),
      (bad_time (ctx_occurredAt c), Thrown ''POLICY_OCCURRED_AT_INVALID'')]"

definition appendAudit ::
    "string \<Rightarrow> string \<Rightarrow> string \<Rightarrow> string \<Rightarrow> json \<Rightarrow> mutation_context \<Rightarrow> policy_store
       \<Rightarrow> store_error + policy_store" where
  "appendAudit org entityType entityId action payload c s =
     and_then (sql_time (ctx_occurredAt c)) (\<lambda>now.
     Inr (s\<lparr>st_audit := st_audit s @
       [\<lparr>au_organizationId = org, au_entityType = entityType, au_entityId = entityId,
         au_action = action, au_actorId = ctx_actorId c, au_causationId = ctx_causationId c,
         au_occurredAt = now, au_payload = payload\<rparr>]\<rparr>))"

fun mandate_state_text :: "mandate_state \<Rightarrow> string" where
  "mandate_state_text M_draft = ''draft''"
| "mandate_state_text M_active = ''active''"
| "mandate_state_text M_paused = ''paused''"
| "mandate_state_text M_closing = ''closing''"
| "mandate_state_text M_closed = ''closed''"
| "mandate_state_text M_exhausted = ''exhausted''"
| "mandate_state_text M_tripped = ''tripped''"
| "mandate_state_text M_expired = ''expired''"
| "mandate_state_text M_reconciliation_hold = ''reconciliation_hold''"

lemma mandate_state_text_active [simp]: "mandate_state_text m = ''active'' \<longleftrightarrow> m = M_active"
  by (cases m) simp_all

fun null_or :: "('a \<Rightarrow> json) \<Rightarrow> 'a option \<Rightarrow> json" where
  "null_or f None = JNull"
| "null_or f (Some x) = f x"

definition delegation_json :: "branch_row \<Rightarrow> json" where
  "delegation_json r = JObj
     [(''authoritySource'', JStr (br_authoritySource r)),
      (''organizationId'', JStr (br_organizationId r)),
      (''mandateId'', JStr (br_mandateId r)),
      (''branchId'', JStr (br_branchId r)),
      (''parentBranchId'', null_or JStr (br_parentBranchId r)),
      (''agentId'', JStr (br_agentId r)),
      (''policyId'', JStr (br_policyId r)),
      (''policyVersion'', JNum (br_policyVersion r)),
      (''allowedWorkloadClasses'', JArr (map JStr (br_allowedWorkloadClasses r))),
      (''maximumSpendAtomic'', JStr (show_int (br_maximumSpendAtomic r))),
      (''expiresAt'', null_or (\<lambda>t. JStr (toISOString t)) (br_expiresAt r)),
      (''createdAt'', JStr (toISOString (br_createdAt r))),
      (''createdBy'', JStr (br_createdBy r))]"

definition verifyBranchIntegrity :: "(string \<Rightarrow> string) \<Rightarrow> branch_row \<Rightarrow> store_error option" where
  "verifyBranchIntegrity sha r =
     (if br_authoritySource r \<noteq> ''fuse_control_plane''
      then Some (Thrown ''MANDATE_BRANCH_AUTHORITY_SOURCE_INVALID'')
      else if br_delegationHash r \<noteq> sha (stringify (delegation_json r))
      then Some (Thrown ''MANDATE_BRANCH_DELEGATION_HASH_INVALID'')
      else None)"

text \<open>A check that throws.\<close>

definition check :: "store_error option \<Rightarrow> store_error + unit" where
  "check e = (case e of None \<Rightarrow> Inr () | Some x \<Rightarrow> Inl x)"

lemma check_Inr [simp]: "check e = Inr u \<longleftrightarrow> e = None"
  by (simp add: check_def split: option.splits)

lemma validateContext_None:
  "validateContext c = None \<longleftrightarrow>
     \<not> blank (ctx_actorId c) \<and> \<not> blank (ctx_causationId c) \<and> \<not> bad_time (ctx_occurredAt c)"
  by (simp add: validateContext_def first_error_None_simps)

lemma appendAudit_Inr:
  "appendAudit org ty i act p c s = Inr s' \<Longrightarrow> \<exists>a. s' = s\<lparr>st_audit := a\<rparr>"
  by (auto simp: appendAudit_def and_then_Inr_iff)

end
