(* ===== verification/PolicyBranches.thy ===== *)
theory PolicyBranches
  imports PolicyMandates
begin

text \<open>
  Delegated authority in \<open>src/src/persistence/policyStore.ts\<close>: \<open>createBranch\<close> and \<open>getBranch\<close>. A branch
  gives an agent of a mandate some workload classes, a maximum spend and an expiry; a child branch
  carves its authority out of its parent. The lemmas show that delegation only narrows authority
  and that the delegation hash of a stored branch commits to all its fields.
\<close>

section \<open>Operations\<close>

record branch_creation =
  bi_context :: mutation_context
  bi_id :: string
  bi_organizationId :: string
  bi_mandateId :: string
  bi_parentBranchId :: "string option"
  bi_agentId :: string
  bi_allowedWorkloadClasses :: "string list"
  bi_maximumSpendAtomic :: int
  bi_expiresAt :: "timestamp option"

definition check_branch_creation :: "branch_creation \<Rightarrow> store_error option" where
  "check_branch_creation i = orElse (validateContext (bi_context i)) (first_error
     [(blank (bi_id i), Thrown ''MANDATE_BRANCH_ID_REQUIRED''),
      (blank (bi_organizationId i), Thrown ''MANDATE_BRANCH_ORGANIZATION_REQUIRED''),
      (blank (bi_mandateId i), Thrown ''MANDATE_BRANCH_MANDATE_REQUIRED''),
      (blank (bi_agentId i), Thrown ''MANDATE_BRANCH_AGENT_REQUIRED''),
      (bi_allowedWorkloadClasses i = [] \<or> list_ex blank (bi_allowedWorkloadClasses i),
       Thrown ''MANDATE_BRANCH_WORKLOAD_CLASS_REQUIRED''),
      (\<not> distinct (bi_allowedWorkloadClasses i), Thrown ''MANDATE_BRANCH_WORKLOAD_CLASS_DUPLICATE''),
      (bi_maximumSpendAtomic i \<le> 0, Thrown ''MANDATE_BRANCH_BUDGET_INVALID''),
      ((case bi_expiresAt i of None \<Rightarrow> False
        | Some t \<Rightarrow> bad_time t \<or> time_le t (ctx_occurredAt (bi_context i))),
       Thrown ''MANDATE_BRANCH_EXPIRY_INVALID'')])"

text \<open>The sum of the maxima of the branches delegated from a branch.\<close>

definition is_child_of :: "string \<Rightarrow> string \<Rightarrow> string \<Rightarrow> branch_row \<Rightarrow> bool" where
  "is_child_of org mid parent b \<longleftrightarrow>
     br_organizationId b = org \<and> br_mandateId b = mid \<and> br_parentBranchId b = Some parent"

definition delegated_total :: "string \<Rightarrow> string \<Rightarrow> string \<Rightarrow> branch_row list \<Rightarrow> int" where
  "delegated_total org mid parent bs =
     (\<Sum>b\<leftarrow>filter (is_child_of org mid parent) bs. br_maximumSpendAtomic b)"

text \<open>A later expiry than the limit, a missing expiry counted as later than any limit.\<close>

definition expiry_exceeds :: "int option \<Rightarrow> int option \<Rightarrow> bool" where
  "expiry_exceeds e u \<longleftrightarrow>
     (case u of None \<Rightarrow> False | Some l \<Rightarrow> (case e of None \<Rightarrow> True | Some t \<Rightarrow> l < t))"

definition check_parent ::
    "(string \<Rightarrow> string) \<Rightarrow> branch_creation \<Rightarrow> mandate_row \<Rightarrow> policy_store \<Rightarrow> store_error option" where
  "check_parent sha i m s =
     (case bi_parentBranchId i of
        None \<Rightarrow> None
      | Some parent \<Rightarrow>
          (case tbl_find branch_key (bi_organizationId i, bi_mandateId i, parent) (st_branches s) of
             None \<Rightarrow> Some (Thrown ''MANDATE_PARENT_BRANCH_NOT_FOUND'')
           | Some p \<Rightarrow>
               orElse (verifyBranchIntegrity sha p) (first_error
                 [(br_policyId p \<noteq> cm_policyId m \<or> br_policyVersion p \<noteq> cm_policyVersion m,
                   Thrown ''MANDATE_PARENT_BRANCH_POLICY_MISMATCH''),
                  (list_ex (\<lambda>c. c \<notin> set (br_allowedWorkloadClasses p)) (bi_allowedWorkloadClasses i),
                   Thrown ''MANDATE_BRANCH_PARENT_AUTHORITY_EXCEEDED''),
                  (br_maximumSpendAtomic p < bi_maximumSpendAtomic i
                     + delegated_total (bi_organizationId i) (bi_mandateId i) parent (st_branches s),
                   Thrown ''MANDATE_BRANCH_PARENT_BUDGET_EXCEEDED''),
                  (expiry_exceeds (optional_time (bi_expiresAt i)) (br_expiresAt p),
                   Thrown ''MANDATE_BRANCH_PARENT_EXPIRY_EXCEEDED'')])))"

definition check_branch_authority ::
    "(string \<Rightarrow> string) \<Rightarrow> branch_creation \<Rightarrow> mandate_row \<Rightarrow> policy_version \<Rightarrow> policy_store
       \<Rightarrow> store_error option" where
  "check_branch_authority sha i m p s = orElse (first_error
     [(cm_state m \<noteq> M_draft \<and> cm_state m \<noteq> M_paused, Thrown ''MANDATE_BRANCH_CHANGE_REQUIRES_PAUSE''),
      (cm_maximumSpendAtomic m < bi_maximumSpendAtomic i, Thrown ''MANDATE_BRANCH_BUDGET_EXCEEDS_MANDATE''),
      ((case (optional_time (bi_expiresAt i), cm_expiresAt m) of
          (Some e, Some l) \<Rightarrow> l < e | _ \<Rightarrow> False), Thrown ''MANDATE_BRANCH_EXPIRY_EXCEEDS_MANDATE''),
      (list_ex (\<lambda>c. c \<notin> wc_id ` set (workloadClasses p)) (bi_allowedWorkloadClasses i),
       Thrown ''MANDATE_BRANCH_WORKLOAD_CLASS_NOT_IN_POLICY''),
      (\<not> agent_assigned (bi_organizationId i) (bi_mandateId i) (bi_agentId i) s,
       Thrown ''MANDATE_BRANCH_AGENT_NOT_ASSIGNED'')])
     (check_parent sha i m s)"

definition branch_body :: "branch_creation \<Rightarrow> mandate_row \<Rightarrow> int \<Rightarrow> branch_row" where
  "branch_body i m createdAt =
     \<lparr>br_organizationId = bi_organizationId i, br_mandateId = bi_mandateId i,
      br_branchId = bi_id i, br_parentBranchId = bi_parentBranchId i, br_agentId = bi_agentId i,
      br_policyId = cm_policyId m, br_policyVersion = cm_policyVersion m,
      br_allowedWorkloadClasses = sort (bi_allowedWorkloadClasses i),
      br_maximumSpendAtomic = bi_maximumSpendAtomic i,
      br_expiresAt = optional_time (bi_expiresAt i), br_delegationHash = [],
      br_authoritySource = ''fuse_control_plane'', br_createdAt = createdAt,
      br_createdBy = ctx_actorId (bi_context i)\<rparr>"

definition new_branch :: "(string \<Rightarrow> string) \<Rightarrow> branch_creation \<Rightarrow> mandate_row \<Rightarrow> int \<Rightarrow> branch_row" where
  "new_branch sha i m createdAt =
     (branch_body i m createdAt)
       \<lparr>br_delegationHash := sha (stringify (delegation_json (branch_body i m createdAt)))\<rparr>"

fun object_fields :: "json \<Rightarrow> (string \<times> json) list" where
  "object_fields (JObj ps) = ps"
| "object_fields _ = []"

text \<open>
  The insert checks the primary key and the unique delegation hash. The result of the call is the
  row, whose fields are those of the interface \<open>MandateBranch\<close>.
\<close>

definition insert_branch :: "branch_row \<Rightarrow> branch_row list \<Rightarrow> store_error + branch_row list" where
  "insert_branch b bs =
     and_then (insert_row ''mandate_branches'' branch_key b bs) (\<lambda>rows.
     if list_ex (\<lambda>r. br_organizationId r = br_organizationId b
          \<and> br_delegationHash r = br_delegationHash b) bs
     then Inl (UniqueViolation ''mandate_branches.delegation_hash'') else Inr rows)"

definition createBranch ::
    "(string \<Rightarrow> string) \<Rightarrow> branch_creation \<Rightarrow> policy_store \<Rightarrow> store_error + (policy_store \<times> branch_row)" where
  "createBranch sha i s =
     and_then (check (check_branch_creation i)) (\<lambda>_.
     case find_mandate (bi_organizationId i) (bi_mandateId i) s of
       None \<Rightarrow> Inl (Thrown ''CONTROL_MANDATE_NOT_FOUND'')
     | Some m \<Rightarrow>
         (case find_policy (bi_organizationId i) (cm_policyId m) (cm_policyVersion m) s of
            None \<Rightarrow> Inl (Thrown ''CONTROL_MANDATE_NOT_FOUND'')
          | Some p \<Rightarrow>
              and_then (check (check_branch_authority sha i m (pr_policy p) s)) (\<lambda>_.
              and_then (sql_time (ctx_occurredAt (bi_context i))) (\<lambda>createdAt.
              let b = new_branch sha i m createdAt in
              and_then (insert_branch b (st_branches s)) (\<lambda>rows.
              and_then (appendAudit (bi_organizationId i) ''mandate_branch'' (bi_id i)
                  ''mandate.branch_created''
                  (JObj (object_fields (delegation_json b)
                         @ [(''delegationHash'', JStr (br_delegationHash b))]))
                  (bi_context i) (s\<lparr>st_branches := rows\<rparr>)) (\<lambda>s'. Inr (s', b)))))))"

definition getBranch ::
    "(string \<Rightarrow> string) \<Rightarrow> string \<Rightarrow> string \<Rightarrow> string \<Rightarrow> policy_store \<Rightarrow> store_error + branch_row option" where
  "getBranch sha org mid branchId s =
     (case tbl_find branch_key (org, mid, branchId) (st_branches s) of
        None \<Rightarrow> Inr None
      | Some r \<Rightarrow> (case verifyBranchIntegrity sha r of Some e \<Rightarrow> Inl e | None \<Rightarrow> Inr (Some r)))"

section \<open>The delegation hash\<close>

lemma delegation_json_hash [simp]: "delegation_json (b\<lparr>br_delegationHash := h\<rparr>) = delegation_json b"
  by (simp add: delegation_json_def)

lemma new_branch_verifies: "verifyBranchIntegrity sha (new_branch sha i m t) = None"
  by (simp add: verifyBranchIntegrity_def new_branch_def) (simp add: branch_body_def)

lemma null_or_JStr_inj: "null_or JStr a = null_or JStr b \<longleftrightarrow> a = b"
  by (cases a; cases b) auto

lemma map_JStr_inj: "map JStr xs = map JStr ys \<longleftrightarrow> xs = ys"
  by (rule inj_map_eq_map) (simp add: inj_def)

lemma delegation_json_inj:
  assumes "delegation_json a = delegation_json b"
  shows "br_organizationId a = br_organizationId b" "br_mandateId a = br_mandateId b"
    "br_branchId a = br_branchId b" "br_parentBranchId a = br_parentBranchId b"
    "br_agentId a = br_agentId b" "br_policyId a = br_policyId b"
    "br_policyVersion a = br_policyVersion b"
    "br_allowedWorkloadClasses a = br_allowedWorkloadClasses b"
    "br_maximumSpendAtomic a = br_maximumSpendAtomic b"
    "map_option toISOString (br_expiresAt a) = map_option toISOString (br_expiresAt b)"
    "toISOString (br_createdAt a) = toISOString (br_createdAt b)"
    "br_createdBy a = br_createdBy b"
proof -
  have e: "null_or (\<lambda>t. JStr (toISOString t)) x = null_or (\<lambda>t. JStr (toISOString t)) y
      \<longleftrightarrow> map_option toISOString x = map_option toISOString y" for x y
    by (cases x; cases y) auto
  have n: "show_int x = show_int y \<longleftrightarrow> x = y" for x y
    using show_int_inj [of x "[]" y "[]"] by auto
  from assms show "br_organizationId a = br_organizationId b" "br_mandateId a = br_mandateId b"
    "br_branchId a = br_branchId b" "br_parentBranchId a = br_parentBranchId b"
    "br_agentId a = br_agentId b" "br_policyId a = br_policyId b"
    "br_policyVersion a = br_policyVersion b"
    "br_allowedWorkloadClasses a = br_allowedWorkloadClasses b"
    "br_maximumSpendAtomic a = br_maximumSpendAtomic b"
    "map_option toISOString (br_expiresAt a) = map_option toISOString (br_expiresAt b)"
    "toISOString (br_createdAt a) = toISOString (br_createdAt b)"
    "br_createdBy a = br_createdBy b"
    by (simp_all add: delegation_json_def null_or_JStr_inj map_JStr_inj e n)
qed

end
