(* ===== verification/PolicyAdmission.thy ===== *)
theory PolicyAdmission
  imports PolicyBranches
begin

text \<open>
  \<open>PolicyStore.admitInference\<close> of \<open>src/src/persistence/policyStore.ts\<close>: the spending counters the
  database computes, the evaluation of the mandate's policy on them, the exposure snapshot, and the
  rows that are written. A request seen before is answered from its execution
  (\<open>admissionFromExecution\<close>), which also turns an expired lease into a reconciliation hold.
  The atomic hook, a callback of the caller inside the transaction, is left out.
\<close>

section \<open>Counters\<close>

text \<open>
  \<open>failure_code = 'RECONCILED_BILLED_NO_RESPONSE'\<close>: billed without a response. The two SUMs of the
  code differ on a held row with this code; a NULL actual cost adds nothing to a SUM.
\<close>

definition billed_no_response :: "execution_row \<Rightarrow> bool" where
  "billed_no_response r \<longleftrightarrow> ex_failureCode r = Some ''RECONCILED_BILLED_NO_RESPONSE''"

definition actual_or_0 :: "execution_row \<Rightarrow> int" where
  "actual_or_0 r = (case ex_actualCostAtomic r of None \<Rightarrow> 0 | Some n \<Rightarrow> n)"

definition mandate_counted :: "execution_row \<Rightarrow> int" where
  "mandate_counted r =
     (if ex_status r \<in> {Executing, Completed, Held} \<or> billed_no_response r
      then if ex_status r = Completed \<or> billed_no_response r then actual_or_0 r
           else ex_reservedCostAtomic r
      else 0)"

definition class_counted :: "execution_row \<Rightarrow> int" where
  "class_counted r =
     (if ex_status r \<in> {Executing, Held} then ex_reservedCostAtomic r
      else if ex_status r = Completed \<or> billed_no_response r then actual_or_0 r
      else 0)"

definition in_mandate :: "string \<Rightarrow> string \<Rightarrow> execution_row \<Rightarrow> bool" where
  "in_mandate org mid r \<longleftrightarrow> ex_organizationId r = org \<and> ex_mandateId r = mid"

definition mandate_executions :: "string \<Rightarrow> string \<Rightarrow> policy_store \<Rightarrow> execution_row list" where
  "mandate_executions org mid s = filter (in_mandate org mid) (st_executions s)"

definition spent_since :: "int \<Rightarrow> execution_row list \<Rightarrow> int" where
  "spent_since start rows =
     (\<Sum>r\<leftarrow>rows. if start \<le> ex_createdAt r then mandate_counted r else 0)"

definition spent_ever :: "execution_row list \<Rightarrow> int" where
  "spent_ever rows = (\<Sum>r\<leftarrow>rows. mandate_counted r)"

definition requests_since :: "int \<Rightarrow> execution_row list \<Rightarrow> int" where
  "requests_since start rows =
     (\<Sum>r\<leftarrow>rows. if start \<le> ex_createdAt r \<and> ex_status r \<noteq> Denied then 1 else 0)"

text \<open>The GROUP BY over the classes of a branch: class, number of calls, amount.\<close>

definition class_usage :: "execution_row list \<Rightarrow> (string \<times> int \<times> int) list" where
  "class_usage rows =
     map (\<lambda>c. let rs = filter (\<lambda>r. ex_workloadClass r = Some c) rows
              in (c, (\<Sum>r\<leftarrow>rs. if ex_status r \<noteq> Denied then 1 else 0), \<Sum>r\<leftarrow>rs. class_counted r))
       (remdups (concat (map (\<lambda>r. case ex_workloadClass r of None \<Rightarrow> [] | Some c \<Rightarrow> [c]) rows)))"

definition class_spent :: "(string \<times> int \<times> int) list \<Rightarrow> string \<Rightarrow> int" where
  "class_spent usage c = (case map_of usage c of None \<Rightarrow> 0 | Some (n, spent) \<Rightarrow> spent)"

definition class_count :: "(string \<times> int \<times> int) list \<Rightarrow> string \<Rightarrow> int" where
  "class_count usage c = (case map_of usage c of None \<Rightarrow> 0 | Some (n, spent) \<Rightarrow> n)"

section \<open>Inputs and results\<close>

record admission_input =
  ai_requestId :: string
  ai_organizationId :: string
  ai_mandateId :: string
  ai_agentId :: string
  ai_agentCapabilities :: "capability_text list"
  ai_provider :: string
  ai_model :: string
  ai_branchId :: "string option"
  ai_workloadClass :: "string option"
  ai_estimatedCostAtomic :: int
  ai_inputTokens :: int
  ai_maxOutputTokens :: int
  ai_requestFingerprint :: string
  ai_decidedAt :: timestamp

datatype admission_result =
    AdmitExecute stored_decision int
  | AdmitDenied stored_decision
  | AdmitInProgress
  | AdmitFailed
  | AdmitCompleted stored_decision int int provider_result "shadow_evaluation option"

text \<open>The pattern \<open>/^[a-f0-9]{64}$/\<close>.\<close>

definition fingerprint_ok :: "string \<Rightarrow> bool" where
  "fingerprint_ok f \<longleftrightarrow> length f = 64 \<and> list_all (\<lambda>c. is_digit c
     \<or> (97 \<le> (of_char c :: nat) \<and> (of_char c :: nat) \<le> 102)) f"

definition check_admission_input :: "admission_input \<Rightarrow> store_error option" where
  "check_admission_input i = first_error
     [(blank (ai_requestId i), Thrown ''POLICY_DECISION_REQUEST_REQUIRED''),
      (blank (ai_organizationId i), Thrown ''POLICY_DECISION_ORGANIZATION_REQUIRED''),
      (blank (ai_mandateId i), Thrown ''POLICY_DECISION_MANDATE_REQUIRED''),
      (blank (ai_agentId i), Thrown ''POLICY_DECISION_AGENT_REQUIRED''),
      (\<not> fingerprint_ok (ai_requestFingerprint i), Thrown ''REQUEST_FINGERPRINT_INVALID''),
      (bad_time (ai_decidedAt i), Thrown ''POLICY_DECISION_TIME_INVALID'')]"

text \<open>An optional string counts as present when it is not empty.\<close>

fun truthy :: "string option \<Rightarrow> string option" where
  "truthy None = None"
| "truthy (Some []) = None"
| "truthy (Some (c # cs)) = Some (c # cs)"

section \<open>Evaluation\<close>

definition branch_executions :: "string \<Rightarrow> string \<Rightarrow> string \<Rightarrow> policy_store \<Rightarrow> execution_row list" where
  "branch_executions org mid b s =
     filter (\<lambda>r. ex_branchId r = Some b \<and> ex_workloadClass r \<noteq> None) (mandate_executions org mid s)"

definition branch_spent :: "string \<Rightarrow> string \<Rightarrow> string \<Rightarrow> policy_store \<Rightarrow> int" where
  "branch_spent org mid b s =
     (\<Sum>(c, n, spent)\<leftarrow>class_usage (branch_executions org mid b s). spent)
     + delegated_total org mid b (st_branches s)"

definition workload_of ::
    "admission_input \<Rightarrow> mandate_row \<Rightarrow> string \<Rightarrow> string \<Rightarrow> branch_row option \<Rightarrow> policy_store \<Rightarrow> workload_input" where
  "workload_of i m b c branch s =
     (let usage = class_usage (branch_executions (ai_organizationId i) (ai_mandateId i) b s) in
      \<lparr>wi_branchId = b, wi_workloadClass = c,
       branchAuthorized = (case branch of None \<Rightarrow> False
         | Some r \<Rightarrow> br_agentId r = ai_agentId i \<and> br_policyId r = cm_policyId m
             \<and> br_policyVersion r = cm_policyVersion m),
       branchMaximumAtomic = (case branch of None \<Rightarrow> 0 | Some r \<Rightarrow> br_maximumSpendAtomic r),
       branchSpentAtomic = branch_spent (ai_organizationId i) (ai_mandateId i) b s,
       branchExpiresAt = (case branch of None \<Rightarrow> None | Some r \<Rightarrow> map_option Instant (br_expiresAt r)),
       classAuthorized = (case branch of None \<Rightarrow> False | Some r \<Rightarrow> c \<in> set (br_allowedWorkloadClasses r)),
       classInvocationCount = class_count usage c,
       classSpentAtomic = class_spent usage c\<rparr>)"

text \<open>The branch named by the request, with the integrity check, and its workload input.\<close>

definition admission_workload ::
    "(string \<Rightarrow> string) \<Rightarrow> admission_input \<Rightarrow> mandate_row \<Rightarrow> policy_store
       \<Rightarrow> store_error + (workload_input \<times> branch_row option) option" where
  "admission_workload sha i m s =
     (case (truthy (ai_branchId i), truthy (ai_workloadClass i)) of
        (Some b, Some c) \<Rightarrow>
          (let branch = tbl_find branch_key (ai_organizationId i, ai_mandateId i, b) (st_branches s) in
           case (case branch of None \<Rightarrow> None | Some r \<Rightarrow> verifyBranchIntegrity sha r) of
             Some e \<Rightarrow> Inl e
           | None \<Rightarrow> Inr (Some (workload_of i m b c branch s, branch)))
      | _ \<Rightarrow> Inr None)"

definition admission_decision_input ::
    "string \<Rightarrow> admission_input \<Rightarrow> mandate_row \<Rightarrow> int \<Rightarrow> workload_input option \<Rightarrow> policy_store
       \<Rightarrow> decision_input" where
  "admission_decision_input uuid i m decidedAtMs w s =
     (let rows = mandate_executions (ai_organizationId i) (ai_mandateId i) s in
      \<lparr>di_id = uuid, di_requestId = ai_requestId i, di_organizationId = ai_organizationId i,
       di_mandateId = ai_mandateId i, di_agentId = ai_agentId i,
       di_agentCapabilities = ai_agentCapabilities i, di_provider = ai_provider i,
       di_model = ai_model i, di_branchId = ai_branchId i, di_workloadClass = ai_workloadClass i,
       di_estimatedCostAtomic = ai_estimatedCostAtomic i, di_inputTokens = ai_inputTokens i,
       di_maxOutputTokens = ai_maxOutputTokens i,
       di_spentHourAtomic = spent_since (decidedAtMs - 60 * 60 * 1000) rows,
       di_spentDayAtomic = spent_since (decidedAtMs - 24 * 60 * 60 * 1000) rows,
       di_mandateSpentAtomic = spent_ever rows,
       di_mandateMaximumAtomic = cm_maximumSpendAtomic m,
       di_requestCountLastMinute = requests_since (decidedAtMs - 60 * 1000) rows,
       di_workload = w, di_exposure = None, di_decidedAt = ai_decidedAt i\<rparr>)"

definition evaluation_of :: "decision_input \<Rightarrow> mandate_row \<Rightarrow> bool \<Rightarrow> evaluation_input" where
  "evaluation_of d m assigned =
     \<lparr>ev_now = di_decidedAt d, ev_mandateState = mandate_state_text (cm_state m),
      ev_mandateExpiresAt = map_option Instant (cm_expiresAt m), agentAuthorized = assigned,
      agentCapabilities = di_agentCapabilities d, ev_provider = di_provider d, ev_model = di_model d,
      estimatedCostAtomic = di_estimatedCostAtomic d, ev_inputTokens = di_inputTokens d,
      ev_maxOutputTokens = di_maxOutputTokens d, spentHourAtomic = di_spentHourAtomic d,
      spentDayAtomic = di_spentDayAtomic d, mandateSpentAtomic = di_mandateSpentAtomic d,
      mandateMaximumAtomic = di_mandateMaximumAtomic d,
      requestCountLastMinute = di_requestCountLastMinute d, ev_workload = di_workload d\<rparr>"

text \<open>Subtraction that stops at zero: \<open>a > b ? a - b : 0n\<close>.\<close>

definition remaining :: "int \<Rightarrow> int \<Rightarrow> int" where
  "remaining a b = (if b < a then a - b else 0)"

definition exposure_of ::
    "policy_version \<Rightarrow> branch_row \<Rightarrow> (string \<times> int \<times> int) list \<Rightarrow> decision_input \<Rightarrow> policy_decision
       \<Rightarrow> exposure_snapshot" where
  "exposure_of p b usage d pd =
     (let allowed = filter (\<lambda>wc. wc_id wc \<in> set (br_allowedWorkloadClasses b)) (workloadClasses p);
          committed = (\<Sum>wc\<leftarrow>allowed. class_spent usage (wc_id wc));
          classRemaining = (\<Sum>wc\<leftarrow>allowed. remaining (aggregateBudgetAtomic wc) (class_spent usage (wc_id wc)));
          branchRemaining = min classRemaining (remaining (br_maximumSpendAtomic b) committed);
          maxExposure = min branchRemaining (remaining (di_mandateMaximumAtomic d) (di_mandateSpentAtomic d));
          reservation = (if pd_outcome pd = ALLOW then di_estimatedCostAtomic d else 0)
      in \<lparr>branchLimitAtomic = br_maximumSpendAtomic b, branchCommittedBeforeAtomic = committed,
          requestReservationAtomic = reservation, maximumExposureAtomic = maxExposure,
          remainingAuthorityAtomic = remaining maxExposure reservation\<rparr>)"

text \<open>The decision on a new request, before anything is written.\<close>

definition decide ::
    "(string \<Rightarrow> string) \<Rightarrow> string \<Rightarrow> admission_input \<Rightarrow> mandate_row \<Rightarrow> policy_version \<Rightarrow> int \<Rightarrow> policy_store
       \<Rightarrow> store_error + stored_decision" where
  "decide sha uuid i m p decidedAtMs s =
     and_then (admission_workload sha i m s) (\<lambda>wb.
     let d = admission_decision_input uuid i m decidedAtMs (map_option fst wb) s;
         assigned = agent_assigned (ai_organizationId i) (ai_mandateId i) (ai_agentId i) s
     in case evaluatePolicy p (evaluation_of d m assigned) of
          Inl e \<Rightarrow> Inl (PolicyFailure e)
        | Inr pd \<Rightarrow>
            let exposure = (case wb of
                Some (w, Some b) \<Rightarrow>
                  if branchAuthorized w
                  then Some (exposure_of p b
                    (class_usage (branch_executions (ai_organizationId i) (ai_mandateId i) (wi_branchId w) s))
                    d pd)
                  else None
              | _ \<Rightarrow> None)
            in Inr \<lparr>sd_id = uuid, sd_requestId = ai_requestId i, sd_organizationId = ai_organizationId i,
                    sd_mandateId = ai_mandateId i, sd_agentId = ai_agentId i, sd_policyId = pol_id p,
                    sd_policyVersion = pol_version p, sd_result = pd,
                    sd_input = d\<lparr>di_exposure := exposure\<rparr>\<rparr>)"

end
