(* ===== verification/PolicyExecution.thy ===== *)
theory PolicyExecution
  imports PolicyAdmission
begin

text \<open>
  The life of an execution in \<open>src/src/persistence/policyStore.ts\<close>: admission or replay, completion,
  hold, failure and the operator's resolution of a hold, each one transaction. \<open>clock\<close> is the time of
  the database. The bookkeeping for the shadow evaluation runs inside a savepoint.
\<close>

section \<open>Holding a mandate\<close>

definition find_execution :: "string \<Rightarrow> string \<Rightarrow> policy_store \<Rightarrow> execution_row option" where
  "find_execution org rid s = tbl_find execution_key (org, rid) (st_executions s)"

definition update_execution ::
    "string \<Rightarrow> string \<Rightarrow> (execution_row \<Rightarrow> execution_row) \<Rightarrow> policy_store \<Rightarrow> policy_store" where
  "update_execution org rid f s =
     s\<lparr>st_executions := tbl_update execution_key (org, rid) f (st_executions s)\<rparr>"

definition set_mandate_state :: "string \<Rightarrow> string \<Rightarrow> mandate_state \<Rightarrow> policy_store \<Rightarrow> policy_store" where
  "set_mandate_state org mid st s =
     s\<lparr>st_mandates := tbl_update mandate_key (org, mid) (\<lambda>r. r\<lparr>cm_state := st\<rparr>) (st_mandates s)\<rparr>"

definition holdable :: "mandate_state list" where
  "holdable = [M_active, M_paused, M_closing, M_exhausted, M_tripped]"

definition holdMandateForReconciliation ::
    "int \<Rightarrow> string \<Rightarrow> string \<Rightarrow> policy_store \<Rightarrow> store_error + policy_store" where
  "holdMandateForReconciliation clock org mid s =
     (case find_mandate org mid s of
        None \<Rightarrow> Inl (Thrown ''CONTROL_MANDATE_NOT_FOUND'')
      | Some m \<Rightarrow>
          if cm_state m \<notin> set holdable then Inr s
          else
            let h = \<lparr>hd_organizationId = org, hd_mandateId = mid, hd_priorState = cm_state m,
                     hd_heldAt = clock\<rparr>;
                holds = (case tbl_insert hold_key h (st_holds s) of None \<Rightarrow> st_holds s | Some rows \<Rightarrow> rows)
            in Inr (set_mandate_state org mid M_reconciliation_hold (s\<lparr>st_holds := holds\<rparr>)))"

section \<open>Admission\<close>

definition lease_ms :: int where
  "lease_ms = 5 * 60 * 1000"

definition admissionFromExecution ::
    "int \<Rightarrow> execution_row \<Rightarrow> int \<Rightarrow> policy_store \<Rightarrow> store_error + (policy_store \<times> admission_result)" where
  "admissionFromExecution clock r retriedAt s =
     (case tbl_find decision_key (ex_organizationId r, ex_decisionId r) (st_decisions s) of
        None \<Rightarrow> Inl (Thrown ''POLICY_DECISION_NOT_FOUND'')
      | Some d \<Rightarrow>
         (case ex_status r of
            Denied \<Rightarrow> Inr (s, AdmitDenied d)
          | Executing \<Rightarrow>
              if retriedAt - ex_updatedAt r < lease_ms then Inr (s, AdmitInProgress)
              else
                and_then (holdMandateForReconciliation clock (ex_organizationId r) (ex_mandateId r)
                    (update_execution (ex_organizationId r) (ex_requestId r)
                      (\<lambda>x. if ex_status x = Executing
                           then x\<lparr>ex_status := Held, ex_failureCode := Some ''EXECUTION_LEASE_EXPIRED'',
                                  ex_updatedAt := retriedAt\<rparr>
                           else x) s)) (\<lambda>s'. Inr (s', AdmitFailed))
          | Failed \<Rightarrow> Inr (s, AdmitFailed)
          | Held \<Rightarrow> Inr (s, AdmitFailed)
          | Completed \<Rightarrow>
              (case (ex_response r, ex_actualCostAtomic r) of
                 (Some response, Some actual) \<Rightarrow>
                   Inr (s, AdmitCompleted d (ex_reservedCostAtomic r) actual response
                     (tbl_find shadow_key (ex_organizationId r, ex_requestId r) (st_shadows s)))
               | _ \<Rightarrow> Inl (Thrown ''INFERENCE_EXECUTION_RESPONSE_MISSING''))))"

text \<open>INSERT INTO policy_decisions: the primary key, the unique request and the agent's foreign key.\<close>

definition insert_decision :: "stored_decision \<Rightarrow> policy_store \<Rightarrow> store_error + policy_store" where
  "insert_decision d s =
     and_then (insert_row ''policy_decisions'' decision_key d (st_decisions s)) (\<lambda>rows.
     if list_ex (\<lambda>r. sd_organizationId r = sd_organizationId d \<and> sd_requestId r = sd_requestId d)
          (st_decisions s)
     then Inl (UniqueViolation ''policy_decisions.request_id'')
     else if (sd_organizationId d, sd_agentId d) \<notin> set (st_agents s)
     then Inl (ForeignKeyViolation ''agent_identities'')
     else Inr (s\<lparr>st_decisions := rows\<rparr>))"

definition new_execution :: "admission_input \<Rightarrow> string \<Rightarrow> exec_status \<Rightarrow> int \<Rightarrow> int \<Rightarrow> execution_row" where
  "new_execution i decisionId st reserved decidedAtMs =
     \<lparr>ex_organizationId = ai_organizationId i, ex_requestId = ai_requestId i,
      ex_mandateId = ai_mandateId i, ex_agentId = ai_agentId i, ex_decisionId = decisionId,
      ex_provider = ai_provider i, ex_model = ai_model i, ex_branchId = ai_branchId i,
      ex_workloadClass = ai_workloadClass i, ex_shadowCohortKey = None, ex_shadowCohortOrdinal = None,
      ex_shadowCompletedAt = None, ex_shadowOrderState = None,
      ex_requestFingerprint = ai_requestFingerprint i, ex_status = st,
      ex_reservedCostAtomic = reserved, ex_actualCostAtomic = None,
      ex_inputTokens = ai_inputTokens i, ex_maxOutputTokens = ai_maxOutputTokens i,
      ex_response = None, ex_failureCode = None, ex_createdAt = decidedAtMs, ex_updatedAt = decidedAtMs\<rparr>"

definition admit_new ::
    "(string \<Rightarrow> string) \<Rightarrow> string \<Rightarrow> bool \<Rightarrow> admission_input \<Rightarrow> mandate_row \<Rightarrow> policy_version \<Rightarrow> int
       \<Rightarrow> policy_store \<Rightarrow> store_error + (policy_store \<times> admission_result)" where
  "admit_new sha uuid previewOnly i m p decidedAtMs s =
     and_then (decide sha uuid i m p decidedAtMs s) (\<lambda>d.
     let allowed = (pd_outcome (sd_result d) = ALLOW);
         reservation = (if allowed then ai_estimatedCostAtomic i else 0);
         result = (if allowed then AdmitExecute d reservation else AdmitDenied d)
     in if previewOnly then Inr (s, result)
        else
          and_then (insert_decision d s) (\<lambda>s1.
          and_then (insert_row ''inference_executions'' execution_key
              (new_execution i uuid (if allowed then Executing else Denied) reservation decidedAtMs)
              (st_executions s1)) (\<lambda>rows.
          Inr (s1\<lparr>st_executions := rows\<rparr>, result))))"

definition admitInference ::
    "(string \<Rightarrow> string) \<Rightarrow> string \<Rightarrow> int \<Rightarrow> bool \<Rightarrow> admission_input \<Rightarrow> policy_store
       \<Rightarrow> store_error + (policy_store \<times> admission_result)" where
  "admitInference sha uuid clock previewOnly i s =
     and_then (check (check_admission_input i)) (\<lambda>_.
     and_then (sql_time (ai_decidedAt i)) (\<lambda>decidedAtMs.
     case find_mandate (ai_organizationId i) (ai_mandateId i) s of
       None \<Rightarrow> Inl (Thrown ''CONTROL_MANDATE_NOT_FOUND'')
     | Some m \<Rightarrow>
         (case find_policy (ai_organizationId i) (cm_policyId m) (cm_policyVersion m) s of
            None \<Rightarrow> Inl (Thrown ''CONTROL_MANDATE_NOT_FOUND'')
          | Some p \<Rightarrow>
              (case find_execution (ai_organizationId i) (ai_requestId i) s of
                 Some r \<Rightarrow>
                   if ex_requestFingerprint r \<noteq> ai_requestFingerprint i
                   then Inl (Thrown ''IDEMPOTENCY_CONFLICT'')
                   else admissionFromExecution clock r decidedAtMs s
               | None \<Rightarrow> admit_new sha uuid previewOnly i m (pr_policy p) decidedAtMs s))))"

text \<open>\<open>evaluateAndRecord\<close> evaluates counters given by the caller and writes only the decision.\<close>

definition check_decision_input :: "decision_input \<Rightarrow> store_error option" where
  "check_decision_input i = first_error
     [(blank (di_id i), Thrown ''POLICY_DECISION_ID_REQUIRED''),
      (blank (di_requestId i), Thrown ''POLICY_DECISION_REQUEST_REQUIRED''),
      (blank (di_organizationId i), Thrown ''POLICY_DECISION_ORGANIZATION_REQUIRED''),
      (blank (di_mandateId i), Thrown ''POLICY_DECISION_MANDATE_REQUIRED''),
      (blank (di_agentId i), Thrown ''POLICY_DECISION_AGENT_REQUIRED''),
      (bad_time (di_decidedAt i), Thrown ''POLICY_DECISION_TIME_INVALID'')]"

definition evaluateAndRecord ::
    "decision_input \<Rightarrow> policy_store \<Rightarrow> store_error + (policy_store \<times> stored_decision)" where
  "evaluateAndRecord i s =
     and_then (check (check_decision_input i)) (\<lambda>_.
     case find_mandate (di_organizationId i) (di_mandateId i) s of
       None \<Rightarrow> Inl (Thrown ''CONTROL_MANDATE_NOT_FOUND'')
     | Some m \<Rightarrow>
         (case find_policy (di_organizationId i) (cm_policyId m) (cm_policyVersion m) s of
            None \<Rightarrow> Inl (Thrown ''CONTROL_MANDATE_NOT_FOUND'')
          | Some p \<Rightarrow>
              (case evaluatePolicy (pr_policy p)
                  (evaluation_of (i\<lparr>di_workload := None\<rparr>) m
                    (agent_assigned (di_organizationId i) (di_mandateId i) (di_agentId i) s)) of
                 Inl e \<Rightarrow> Inl (PolicyFailure e)
               | Inr pd \<Rightarrow>
                   let d = \<lparr>sd_id = di_id i, sd_requestId = di_requestId i,
                        sd_organizationId = di_organizationId i, sd_mandateId = di_mandateId i,
                        sd_agentId = di_agentId i, sd_policyId = pol_id (pr_policy p),
                        sd_policyVersion = pol_version (pr_policy p), sd_result = pd, sd_input = i\<rparr>
                   in and_then (insert_decision d s) (\<lambda>s'. Inr (s', d)))))"

section \<open>Shadow bookkeeping\<close>

definition cohort_json :: "execution_row \<Rightarrow> branch_row \<Rightarrow> string \<Rightarrow> string \<Rightarrow> json" where
  "cohort_json r b parent c = JObj
     [(''organizationId'', JStr (ex_organizationId r)), (''mandateId'', JStr (ex_mandateId r)),
      (''parentBranchId'', JStr parent), (''workloadClass'', JStr c),
      (''provider'', JStr (ex_provider r)), (''model'', JStr (ex_model r)),
      (''policyId'', JStr (br_policyId b)), (''policyVersion'', JNum (br_policyVersion b))]"

text \<open>The upsert that hands out the next ordinal of a cohort.\<close>

definition next_ordinal :: "string \<Rightarrow> string \<Rightarrow> counter_row list \<Rightarrow> counter_row list \<times> int" where
  "next_ordinal org k rows =
     (case tbl_find counter_key (org, k) rows of
        None \<Rightarrow> (rows @ [\<lparr>cc_organizationId = org, cc_cohortKey = k, cc_lastOrdinal = 1\<rparr>], 1)
      | Some c \<Rightarrow>
          (tbl_update counter_key (org, k) (\<lambda>x. x\<lparr>cc_lastOrdinal := cc_lastOrdinal x + 1\<rparr>) rows,
           cc_lastOrdinal c + 1))"

text \<open>The shadow policy of a class in the policy version the branch was made under.\<close>

definition shadow_class :: "branch_row \<Rightarrow> string \<Rightarrow> policy_store \<Rightarrow> shadow_policy option" where
  "shadow_class b c s =
     (case find_policy (br_organizationId b) (br_policyId b) (br_policyVersion b) s of
        None \<Rightarrow> None
      | Some p \<Rightarrow>
          (case find (\<lambda>wc. wc_id wc = c) (workloadClasses (pr_policy p)) of
             None \<Rightarrow> None | Some wc \<Rightarrow> wc_shadow wc))"

definition assignShadowCohortOrdinal ::
    "(string \<Rightarrow> string) \<Rightarrow> int \<Rightarrow> execution_row \<Rightarrow> policy_store
       \<Rightarrow> store_error + (policy_store \<times> (string \<times> int) option)" where
  "assignShadowCohortOrdinal sha clock r s =
     (case (truthy (ex_branchId r), truthy (ex_workloadClass r)) of
        (Some branchId, Some c) \<Rightarrow>
          (case tbl_find branch_key (ex_organizationId r, ex_mandateId r, branchId) (st_branches s) of
             None \<Rightarrow> Inl (Thrown ''MANDATE_BRANCH_NOT_FOUND'')
           | Some b \<Rightarrow>
               and_then (check (verifyBranchIntegrity sha b)) (\<lambda>_.
               case (truthy (br_parentBranchId b), shadow_class b c s) of
                 (Some parent, Some shadow) \<Rightarrow>
                   (let k = sha (stringify (cohort_json r b parent c));
                        (rows, ordinal) = next_ordinal (ex_organizationId r) k (st_counters s)
                    in Inr (update_execution (ex_organizationId r) (ex_requestId r)
                          (\<lambda>x. x\<lparr>ex_shadowCohortKey := Some k, ex_shadowCohortOrdinal := Some ordinal,
                                 ex_shadowCompletedAt := Some clock\<rparr>) (s\<lparr>st_counters := rows\<rparr>),
                        Some (k, ordinal)))
               | _ \<Rightarrow> Inr (s, None)))
      | _ \<Rightarrow> Inr (s, None))"

definition enqueueShadowEvaluation :: "string \<Rightarrow> string \<Rightarrow> int \<Rightarrow> policy_store \<Rightarrow> policy_store" where
  "enqueueShadowEvaluation org rid queuedAt s =
     (case tbl_insert queue_key
         \<lparr>qu_organizationId = org, qu_requestId = rid, qu_state = Q_pending, qu_attempts = 0,
          qu_claimToken = None, qu_leaseExpiresAt = None, qu_lastError = None,
          qu_queuedAt = queuedAt, qu_updatedAt = queuedAt\<rparr> (st_queue s) of
        None \<Rightarrow> s
      | Some rows \<Rightarrow> s\<lparr>st_queue := rows\<rparr>)"

definition set_shadow_order_state :: "string \<Rightarrow> execution_row \<Rightarrow> policy_store \<Rightarrow> policy_store" where
  "set_shadow_order_state state r s =
     update_execution (ex_organizationId r) (ex_requestId r)
       (\<lambda>x. x\<lparr>ex_shadowOrderState := Some state\<rparr>) s"

text \<open>
  An error in the savepoint rolls back to it and is recorded on the row; the result says whether an
  evaluation was queued. Databases without savepoints (an option of the tests) are not modelled.
\<close>

definition queueShadowBookkeepingBestEffort ::
    "(string \<Rightarrow> string) \<Rightarrow> int \<Rightarrow> execution_row \<Rightarrow> int \<Rightarrow> policy_store \<Rightarrow> policy_store \<times> bool" where
  "queueShadowBookkeepingBestEffort sha clock r queuedAt s =
     (case (truthy (ex_branchId r), truthy (ex_workloadClass r)) of
        (Some _, Some _) \<Rightarrow>
          (case assignShadowCohortOrdinal sha clock r s of
             Inl e \<Rightarrow> (set_shadow_order_state ''failed'' r s, False)
           | Inr (s1, None) \<Rightarrow> (set_shadow_order_state ''not_applicable'' r s1, False)
           | Inr (s1, Some scope) \<Rightarrow>
               (set_shadow_order_state ''queued'' r
                  (enqueueShadowEvaluation (ex_organizationId r) (ex_requestId r) queuedAt s1), True))
      | _ \<Rightarrow> (s, False))"

end
