(* ===== verification/PolicySettlement.thy ===== *)
theory PolicySettlement
  imports PolicyExecution
begin

text \<open>
  How an execution ends in \<open>src/src/persistence/policyStore.ts\<close>: completion within the reservation or a
  hold on an overrun, an explicit hold, a failure, and the operator's resolution of a held case, which
  gives the mandate its state back when it was the last open one.
\<close>

section \<open>Completion, hold, failure\<close>

datatype completion_result =
    CompletionHeld int int provider_result
  | CompletionDone int int provider_result "shadow_evaluation option"

record completion_input =
  ci_requestId :: string
  ci_organizationId :: string
  ci_actualCostAtomic :: int
  ci_response :: provider_result
  ci_completedAt :: timestamp

definition with_response :: "exec_status \<Rightarrow> completion_input \<Rightarrow> int \<Rightarrow> execution_row \<Rightarrow> execution_row" where
  "with_response st i t r =
     r\<lparr>ex_status := st, ex_actualCostAtomic := Some (ci_actualCostAtomic i),
       ex_response := Some (ci_response i), ex_updatedAt := t\<rparr>"

text \<open>The transaction of \<open>completeInference\<close>; the flag says that a shadow evaluation was queued.\<close>

definition complete_transaction ::
    "(string \<Rightarrow> string) \<Rightarrow> int \<Rightarrow> completion_input \<Rightarrow> policy_store
       \<Rightarrow> store_error + (policy_store \<times> completion_result \<times> bool)" where
  "complete_transaction sha clock i s =
     and_then (check (if ci_actualCostAtomic i < 0 then Some (Thrown ''ACTUAL_COST_INVALID'') else None)) (\<lambda>_.
     case find_execution (ci_organizationId i) (ci_requestId i) s of
       None \<Rightarrow> Inl (Thrown ''INFERENCE_EXECUTION_NOT_FOUND'')
     | Some r \<Rightarrow>
         if ex_status r \<noteq> Executing then Inl (Thrown ''INFERENCE_EXECUTION_NOT_EXECUTING'')
         else
           and_then (sql_time (ci_completedAt i)) (\<lambda>t.
           if ex_reservedCostAtomic r < ci_actualCostAtomic i
           then
             and_then (holdMandateForReconciliation clock (ci_organizationId i) (ex_mandateId r)
                 (update_execution (ci_organizationId i) (ci_requestId i) (with_response Held i t) s)) (\<lambda>s1.
             Inr (s1, CompletionHeld (ex_reservedCostAtomic r) (ci_actualCostAtomic i) (ci_response i), False))
           else
             (let (s1, queued) = queueShadowBookkeepingBestEffort sha clock (with_response Completed i t r) t
                    (update_execution (ci_organizationId i) (ci_requestId i) (with_response Completed i t) s)
              in Inr (s1, CompletionDone (ex_reservedCostAtomic r) (ci_actualCostAtomic i) (ci_response i) None,
                      queued))))"

text \<open>The pattern \<open>/^[A-Z0-9_]{3,64}$/\<close>.\<close>

definition reason_code_ok :: "string \<Rightarrow> bool" where
  "reason_code_ok c \<longleftrightarrow> 3 \<le> length c \<and> length c \<le> 64
     \<and> list_all (\<lambda>x. (65 \<le> (of_char x :: nat) \<and> (of_char x :: nat) \<le> 90) \<or> is_digit x \<or> x = CHR ''_'') c"

definition holdInference ::
    "int \<Rightarrow> string \<Rightarrow> string \<Rightarrow> string \<Rightarrow> provider_result option \<Rightarrow> timestamp \<Rightarrow> policy_store
       \<Rightarrow> store_error + policy_store" where
  "holdInference clock org rid reasonCode response heldAt s =
     and_then (check (if reason_code_ok reasonCode then None else Some (Thrown ''HOLD_REASON_INVALID''))) (\<lambda>_.
     case find_execution org rid s of
       None \<Rightarrow> Inl (Thrown ''EXECUTION_NOT_ACTIVE'')
     | Some r \<Rightarrow>
         if ex_status r \<noteq> Executing then Inl (Thrown ''EXECUTION_NOT_ACTIVE'')
         else
           and_then (sql_time heldAt) (\<lambda>t.
           holdMandateForReconciliation clock org (ex_mandateId r)
             (update_execution org rid
               (\<lambda>x. x\<lparr>ex_status := Held, ex_response := response, ex_failureCode := Some reasonCode,
                      ex_updatedAt := t\<rparr>) s)))"

definition failInference ::
    "string \<Rightarrow> string \<Rightarrow> string \<Rightarrow> timestamp \<Rightarrow> policy_store \<Rightarrow> store_error + policy_store" where
  "failInference org rid failureCode failedAt s =
     and_then (sql_time failedAt) (\<lambda>t.
     Inr (update_execution org rid
       (\<lambda>x. if ex_status x = Executing
            then x\<lparr>ex_status := Failed, ex_failureCode := Some failureCode, ex_updatedAt := t\<rparr>
            else x) s))"

section \<open>Reconciliation cases\<close>

definition resolved :: "policy_store \<Rightarrow> execution_row \<Rightarrow> bool" where
  "resolved s r \<longleftrightarrow>
     tbl_find resolution_key (ex_organizationId r, ex_requestId r) (st_resolutions s) \<noteq> None"

definition open_case :: "policy_store \<Rightarrow> execution_row \<Rightarrow> bool" where
  "open_case s r \<longleftrightarrow> ex_status r = Held \<and> \<not> resolved s r"

record reconciliation_case =
  rc_requestId :: string
  rc_mandateId :: string
  rc_agentId :: string
  rc_provider :: string
  rc_model :: string
  rc_reasonCode :: string
  rc_reservedCostAtomic :: int
  rc_reportedCostAtomic :: "int option"
  rc_hasProviderResponse :: bool
  rc_heldAt :: int

definition case_of_execution :: "execution_row \<Rightarrow> reconciliation_case" where
  "case_of_execution r =
     \<lparr>rc_requestId = ex_requestId r, rc_mandateId = ex_mandateId r, rc_agentId = ex_agentId r,
      rc_provider = ex_provider r, rc_model = ex_model r,
      rc_reasonCode = (case ex_failureCode r of None \<Rightarrow> ''COST_OVERRUN'' | Some c \<Rightarrow> c),
      rc_reservedCostAtomic = ex_reservedCostAtomic r,
      rc_reportedCostAtomic = ex_actualCostAtomic r,
      rc_hasProviderResponse = (ex_response r \<noteq> None), rc_heldAt = ex_updatedAt r\<rparr>"

text \<open>
  ORDER BY \<open>updated_at\<close>, then \<open>request_id\<close>: two stable sorts. The collation of the database is taken
  to be the order of the characters.
\<close>

definition listReconciliationCases :: "string \<Rightarrow> policy_store \<Rightarrow> store_error + reconciliation_case list" where
  "listReconciliationCases org s =
     (if blank org then Inl (Thrown ''RECONCILIATION_ORGANIZATION_REQUIRED'')
      else Inr (map case_of_execution
        (sort_key ex_updatedAt (sort_key ex_requestId
          (filter (\<lambda>r. ex_organizationId r = org \<and> open_case s r) (st_executions s))))))"

record resolution_input =
  ri_context :: mutation_context
  ri_organizationId :: string
  ri_requestId :: string
  ri_resolution :: resolution_kind
  ri_actualCostAtomic :: "int option"
  ri_note :: string
  ri_externalReference :: string

definition check_resolution_input :: "resolution_input \<Rightarrow> store_error option" where
  "check_resolution_input i = orElse (validateContext (ri_context i)) (first_error
     [(blank (ri_organizationId i), Thrown ''RECONCILIATION_ORGANIZATION_REQUIRED''),
      (blank (ri_requestId i), Thrown ''RECONCILIATION_REQUEST_REQUIRED''),
      (blank (ri_note i) \<or> 2000 < length (ri_note i), Thrown ''RECONCILIATION_NOTE_INVALID''),
      (blank (ri_externalReference i) \<or> 512 < length (ri_externalReference i),
       Thrown ''RECONCILIATION_REFERENCE_INVALID''),
      (ri_resolution i = Settle
         \<and> (case ri_actualCostAtomic i of None \<Rightarrow> True | Some n \<Rightarrow> n < 0),
       Thrown ''RECONCILIATION_ACTUAL_COST_REQUIRED''),
      (ri_resolution i = ConfirmNotBilled \<and> ri_actualCostAtomic i \<noteq> None,
       Thrown ''RECONCILIATION_ACTUAL_COST_FORBIDDEN'')])"

definition resolution_cost :: "resolution_input \<Rightarrow> int" where
  "resolution_cost i =
     (case ri_resolution i of
        Settle \<Rightarrow> (case ri_actualCostAtomic i of None \<Rightarrow> 0 | Some n \<Rightarrow> n)
      | ConfirmNotBilled \<Rightarrow> 0)"

definition exact_replay :: "resolution_input \<Rightarrow> resolution_row \<Rightarrow> bool" where
  "exact_replay i x \<longleftrightarrow>
     rs_resolution x = ri_resolution i \<and> rs_actualCostAtomic x = resolution_cost i
     \<and> rs_note x = ri_note i \<and> rs_externalReference x = ri_externalReference i
     \<and> rs_resolvedBy x = ctx_actorId (ri_context i)"

definition resolution_of :: "resolution_input \<Rightarrow> int \<Rightarrow> resolution_row" where
  "resolution_of i t =
     \<lparr>rs_organizationId = ri_organizationId i, rs_requestId = ri_requestId i,
      rs_resolution = ri_resolution i, rs_actualCostAtomic = resolution_cost i,
      rs_note = ri_note i, rs_externalReference = ri_externalReference i,
      rs_resolvedBy = ctx_actorId (ri_context i), rs_resolvedAt = t\<rparr>"

text \<open>The three UPDATE statements: billed with a response, billed without one, not billed.\<close>

definition settle_execution :: "resolution_input \<Rightarrow> int \<Rightarrow> execution_row \<Rightarrow> execution_row" where
  "settle_execution i t r =
     (if ri_resolution i = Settle \<and> ex_response r \<noteq> None
      then r\<lparr>ex_status := Completed, ex_actualCostAtomic := Some (resolution_cost i),
             ex_failureCode := None, ex_updatedAt := t\<rparr>
      else r\<lparr>ex_status := Failed, ex_actualCostAtomic := Some (resolution_cost i),
             ex_failureCode := Some (if ri_resolution i = Settle then ''RECONCILED_BILLED_NO_RESPONSE''
                                     else ''RECONCILED_NOT_BILLED''), ex_updatedAt := t\<rparr>)"

text \<open>What happens to the mandate when no open case of it is left.\<close>

definition release_mandate :: "string \<Rightarrow> string \<Rightarrow> policy_store \<Rightarrow> store_error + policy_store" where
  "release_mandate org mid s =
     (case find_mandate org mid s of
        None \<Rightarrow> Inl (Thrown ''CONTROL_MANDATE_NOT_FOUND'')
      | Some m \<Rightarrow>
          if list_ex (\<lambda>r. in_mandate org mid r \<and> open_case s r) (st_executions s) then Inr s
          else
            (case tbl_find hold_key (org, mid) (st_holds s) of
               None \<Rightarrow>
                 if cm_state m \<noteq> M_closed \<and> cm_state m \<noteq> M_expired
                 then Inl (Thrown ''RECONCILIATION_MANDATE_STATE_MISSING'') else Inr s
             | Some h \<Rightarrow>
                 if cm_state m \<noteq> M_reconciliation_hold \<and> cm_state m \<noteq> M_closing
                 then Inl (StateConflict (cm_state m))
                 else
                   let s1 = (if cm_state m = M_reconciliation_hold
                             then set_mandate_state org mid
                               (if hd_priorState h = M_active then M_paused else hd_priorState h) s
                             else s)
                   in Inr (s1\<lparr>st_holds := tbl_delete hold_key (org, mid) (st_holds s1)\<rparr>)))"

definition scope_of :: "execution_row \<Rightarrow> bool" where
  "scope_of r \<longleftrightarrow> truthy (ex_branchId r) \<noteq> None \<and> truthy (ex_workloadClass r) \<noteq> None"

text \<open>The transaction of \<open>resolveReconciliation\<close>; the flag asks for the queued shadow evaluation.\<close>

definition resolve_transaction ::
    "(string \<Rightarrow> string) \<Rightarrow> int \<Rightarrow> resolution_input \<Rightarrow> policy_store \<Rightarrow> store_error + (policy_store \<times> bool)" where
  "resolve_transaction sha clock i s =
     and_then (check (check_resolution_input i)) (\<lambda>_.
     and_then (sql_time (ctx_occurredAt (ri_context i))) (\<lambda>t.
     case find_execution (ri_organizationId i) (ri_requestId i) s of
       None \<Rightarrow> Inl (Thrown ''INFERENCE_EXECUTION_NOT_FOUND'')
     | Some r \<Rightarrow>
         (case tbl_find resolution_key (ri_organizationId i, ri_requestId i) (st_resolutions s) of
            Some x \<Rightarrow>
              if \<not> exact_replay i x then Inl (Thrown ''RECONCILIATION_RESOLUTION_CONFLICT'')
              else Inr (s, ex_status r = Completed \<and> scope_of r)
          | None \<Rightarrow>
              if ex_status r \<noteq> Held then Inl (Thrown ''RECONCILIATION_CASE_NOT_OPEN'')
              else
                let s1 = update_execution (ri_organizationId i) (ri_requestId i) (settle_execution i t)
                      (s\<lparr>st_resolutions := st_resolutions s @ [resolution_of i t]\<rparr>);
                    (s2, queued) =
                      (if ri_resolution i = Settle \<and> ex_response r \<noteq> None \<and> scope_of r
                       then queueShadowBookkeepingBestEffort sha clock (settle_execution i t r) t s1
                       else (s1, False))
                in and_then (appendAudit (ri_organizationId i) ''inference_execution'' (ri_requestId i)
                     (if ri_resolution i = Settle then ''reconciliation.settle''
                      else ''reconciliation.confirm_not_billed'')
                     (JObj [(''resolution'', JStr (if ri_resolution i = Settle then ''settle''
                                                   else ''confirm_not_billed'')),
                            (''actualCostAtomic'', JStr (show_int (resolution_cost i))),
                            (''externalReference'', JStr (ri_externalReference i))])
                     (ri_context i) s2) (\<lambda>s3.
                   and_then (release_mandate (ri_organizationId i) (ex_mandateId r) s3) (\<lambda>s4.
                   Inr (s4, queued))))))"

end
