(* ===== verification/PolicyShadow.thy ===== *)
theory PolicyShadow
  imports PolicySettlement
begin

text \<open>
  The shadow evaluation queue of \<open>src/src/persistence/policyStore.ts\<close>: a worker claims a job with a
  token and a lease (one transaction), evaluates the sibling divergence of the execution's cohort and
  stores the evidence (a second one), or marks the job failed (a third one). \<open>token\<close> is the worker's
  random claim token, \<open>now\<close> its clock. Between the transactions other workers may run.
\<close>

section \<open>Claiming a job\<close>

datatype claim_result = Acquired | NotAcquired "shadow_evaluation option"

definition claim_lease_ms :: int where
  "claim_lease_ms = 5 * 60000"

definition leased :: "queue_row \<Rightarrow> int \<Rightarrow> bool" where
  "leased q now \<longleftrightarrow> truthy (qu_claimToken q) \<noteq> None
     \<and> (case qu_leaseExpiresAt q of None \<Rightarrow> False | Some t \<Rightarrow> now < t)"

definition claim_shadow ::
    "string \<Rightarrow> int \<Rightarrow> string \<Rightarrow> string \<Rightarrow> int \<Rightarrow> policy_store \<Rightarrow> policy_store \<times> claim_result" where
  "claim_shadow token now org rid evaluatedAt s =
     (let existing = tbl_find shadow_key (org, rid) (st_shadows s) in
      case tbl_find queue_key (org, rid) (st_queue s) of
        None \<Rightarrow> (s, NotAcquired existing)
      | Some q \<Rightarrow>
          if qu_state q = Q_completed \<or> 3 \<le> qu_attempts q then (s, NotAcquired existing)
          else if leased q now then (s, NotAcquired None)
          else (s\<lparr>st_queue := tbl_update queue_key (org, rid)
                  (\<lambda>x. x\<lparr>qu_attempts := qu_attempts x + 1, qu_claimToken := Some token,
                         qu_leaseExpiresAt := Some (now + claim_lease_ms), qu_lastError := None,
                         qu_updatedAt := evaluatedAt\<rparr>) (st_queue s)\<rparr>, Acquired))"

section \<open>Evaluating the cohort\<close>

definition same_cohort :: "execution_row \<Rightarrow> string \<Rightarrow> string \<Rightarrow> int \<Rightarrow> int \<Rightarrow> execution_row \<Rightarrow> bool" where
  "same_cohort e c k ordinal start r \<longleftrightarrow>
     ex_organizationId r = ex_organizationId e \<and> ex_mandateId r = ex_mandateId e
     \<and> ex_workloadClass r = Some c \<and> ex_provider r = ex_provider e \<and> ex_model r = ex_model e
     \<and> ex_status r = Completed \<and> ex_shadowCohortKey r = Some k
     \<and> (case ex_shadowCohortOrdinal r of None \<Rightarrow> False | Some n \<Rightarrow> n \<le> ordinal)
     \<and> (case ex_shadowCompletedAt r of None \<Rightarrow> False | Some t \<Rightarrow> start \<le> t)"

text \<open>The JOIN with the branches of the same parent and policy version.\<close>

definition sibling_branch :: "branch_row \<Rightarrow> policy_store \<Rightarrow> execution_row \<Rightarrow> bool" where
  "sibling_branch b s r \<longleftrightarrow>
     (case ex_branchId r of
        None \<Rightarrow> False
      | Some x \<Rightarrow>
          (case tbl_find branch_key (ex_organizationId r, ex_mandateId r, x) (st_branches s) of
             None \<Rightarrow> False
           | Some rb \<Rightarrow> br_parentBranchId rb = br_parentBranchId b \<and> br_policyId rb = br_policyId b
               \<and> br_policyVersion rb = br_policyVersion b))"

text \<open>GROUP BY branch, ORDER BY branch.\<close>

definition cohort_observations ::
    "string \<Rightarrow> string \<Rightarrow> execution_row list \<Rightarrow> branch_observation list" where
  "cohort_observations parent c rows =
     map (\<lambda>x. let rs = filter (\<lambda>r. ex_branchId r = Some x) rows in
            \<lparr>bo_branchId = x, bo_parentBranchId = parent, bo_workloadClass = c,
             bo_spendAtomic = (\<Sum>r\<leftarrow>rs. actual_or_0 r), bo_observationCount = int (length rs)\<rparr>)
       (sort (remdups (concat (map (\<lambda>r. case ex_branchId r of None \<Rightarrow> [] | Some x \<Rightarrow> [x]) rows))))"

definition shadow_config :: "shadow_policy \<Rightarrow> divergence_config" where
  "shadow_config p =
     \<lparr>dc_classPriorWindowSpendAtomic = classPriorWindowSpendAtomic p,
      dc_confidenceConstant = confidenceConstant p,
      dc_targetMinimumObservations = targetMinimumObservations p,
      dc_siblingMinimumForScoring = siblingMinimumForScoring p,
      dc_siblingMinimumForIntervention = siblingMinimumForIntervention p,
      dc_divergenceThresholdBps = divergenceThresholdBps p\<rparr>"

text \<open>The evidence and its insert, which keeps an earlier evidence of the same request.\<close>

definition score_cohort ::
    "execution_row \<Rightarrow> branch_row \<Rightarrow> string \<Rightarrow> string \<Rightarrow> string \<Rightarrow> string \<Rightarrow> int \<Rightarrow> int \<Rightarrow> shadow_policy
       \<Rightarrow> policy_store \<Rightarrow> store_error + (policy_store \<times> shadow_evaluation option)" where
  "score_cohort e b branchId parent c k ordinal completedAt p s =
     (let rows = filter (\<lambda>r. same_cohort e c k ordinal (completedAt - windowSeconds p * 1000) r
                             \<and> sibling_branch b s r) (st_executions s);
          observations = cohort_observations parent c rows
      in case find (\<lambda>o'. bo_branchId o' = branchId) observations of
           None \<Rightarrow> Inl (Thrown ''SHADOW_TARGET_OBSERVATION_MISSING'')
         | Some target \<Rightarrow>
             (case evaluateSiblingDivergence (shadow_config p) target observations of
                Inl err \<Rightarrow> Inl (Thrown ''SIBLING_DIVERGENCE'')
              | Inr result \<Rightarrow>
                  let evidence = \<lparr>se_requestId = ex_requestId e, se_organizationId = ex_organizationId e,
                       se_mandateId = ex_mandateId e, se_branchId = branchId, se_workloadClass = c,
                       se_provider = ex_provider e, se_model = ex_model e, se_cohortKey = k,
                       se_cohortOrdinal = ordinal, se_result = result, se_evaluatedAt = completedAt\<rparr>
                  in Inr (s\<lparr>st_shadows := (case tbl_insert shadow_key evidence (st_shadows s) of
                             None \<Rightarrow> st_shadows s | Some xs \<Rightarrow> xs)\<rparr>, Some evidence)))"

definition evaluateAndPersistShadow ::
    "(string \<Rightarrow> string) \<Rightarrow> execution_row \<Rightarrow> policy_store
       \<Rightarrow> store_error + (policy_store \<times> shadow_evaluation option)" where
  "evaluateAndPersistShadow sha e s =
     (case (truthy (ex_branchId e), truthy (ex_workloadClass e)) of
        (Some branchId, Some c) \<Rightarrow>
          (case (truthy (ex_shadowCohortKey e), ex_shadowCohortOrdinal e, ex_shadowCompletedAt e) of
             (Some k, Some ordinal, Some completedAt) \<Rightarrow>
               (case tbl_find branch_key (ex_organizationId e, ex_mandateId e, branchId) (st_branches s) of
                  None \<Rightarrow> Inr (s, None)
                | Some b \<Rightarrow>
                    and_then (check (verifyBranchIntegrity sha b)) (\<lambda>_.
                    case (truthy (br_parentBranchId b), shadow_class b c s) of
                      (Some parent, Some p) \<Rightarrow> score_cohort e b branchId parent c k ordinal completedAt p s
                    | _ \<Rightarrow> Inr (s, None)))
           | _ \<Rightarrow> Inl (Thrown ''SHADOW_COHORT_ORDER_MISSING''))
      | _ \<Rightarrow> Inr (s, None))"

section \<open>Processing a job\<close>

definition owns_claim :: "string \<Rightarrow> string \<Rightarrow> string \<Rightarrow> policy_store \<Rightarrow> bool" where
  "owns_claim token org rid s \<longleftrightarrow>
     (case tbl_find queue_key (org, rid) (st_queue s) of
        None \<Rightarrow> False | Some q \<Rightarrow> qu_claimToken q = Some token)"

definition finish_shadow ::
    "(string \<Rightarrow> string) \<Rightarrow> string \<Rightarrow> string \<Rightarrow> string \<Rightarrow> int \<Rightarrow> policy_store
       \<Rightarrow> store_error + (policy_store \<times> shadow_evaluation option)" where
  "finish_shadow sha token org rid evaluatedAt s =
     (if \<not> owns_claim token org rid s then Inr (s, None)
      else
        (case find_execution org rid s of
           None \<Rightarrow> Inr (s, None)
         | Some e \<Rightarrow>
             if ex_status e \<noteq> Completed then Inr (s, None)
             else
               and_then (evaluateAndPersistShadow sha e s) (\<lambda>(s1, evidence).
               Inr (s1\<lparr>st_queue := tbl_update queue_key (org, rid)
                       (\<lambda>x. if qu_claimToken x = Some token
                            then x\<lparr>qu_state := Q_completed, qu_claimToken := None,
                                   qu_leaseExpiresAt := None, qu_lastError := None,
                                   qu_updatedAt := evaluatedAt\<rparr>
                            else x) (st_queue s1)\<rparr>, evidence))))"

definition fail_shadow :: "string \<Rightarrow> string \<Rightarrow> string \<Rightarrow> int \<Rightarrow> policy_store \<Rightarrow> policy_store" where
  "fail_shadow token org rid evaluatedAt s =
     s\<lparr>st_queue := tbl_update queue_key (org, rid)
        (\<lambda>x. if qu_claimToken x = Some token \<and> qu_state x \<in> {Q_pending, Q_failed}
               \<and> qu_attempts x \<le> 3 \<and> tbl_find shadow_key (org, rid) (st_shadows s) = None
             then x\<lparr>qu_state := Q_failed, qu_claimToken := None, qu_leaseExpiresAt := None,
                    qu_lastError := Some ''SHADOW_EVALUATION_FAILED'', qu_updatedAt := evaluatedAt\<rparr>
             else x) (st_queue s)\<rparr>"

text \<open>The three transactions of one worker when no other worker runs between them.\<close>

definition processShadowEvaluationBestEffort ::
    "(string \<Rightarrow> string) \<Rightarrow> string \<Rightarrow> int \<Rightarrow> string \<Rightarrow> string \<Rightarrow> int \<Rightarrow> policy_store
       \<Rightarrow> policy_store \<times> shadow_evaluation option" where
  "processShadowEvaluationBestEffort sha token now org rid evaluatedAt s =
     (case claim_shadow token now org rid evaluatedAt s of
        (s1, NotAcquired evidence) \<Rightarrow> (s1, evidence)
      | (s1, Acquired) \<Rightarrow>
          (case finish_shadow sha token org rid evaluatedAt s1 of
             Inl e \<Rightarrow> (fail_shadow token org rid evaluatedAt s1, None)
           | Inr (s2, evidence) \<Rightarrow> (s2, evidence)))"

definition completeInference ::
    "(string \<Rightarrow> string) \<Rightarrow> string \<Rightarrow> int \<Rightarrow> completion_input \<Rightarrow> policy_store
       \<Rightarrow> store_error + (policy_store \<times> completion_result)" where
  "completeInference sha token clock i s =
     and_then (complete_transaction sha clock i s) (\<lambda>(s1, result, queued).
     case result of
       CompletionHeld reserved actual response \<Rightarrow> Inr (s1, result)
     | CompletionDone reserved actual response _ \<Rightarrow>
         if \<not> queued then Inr (s1, result)
         else and_then (sql_time (ci_completedAt i)) (\<lambda>t.
           let (s2, evidence) = processShadowEvaluationBestEffort sha token clock (ci_organizationId i)
                 (ci_requestId i) t s1
           in Inr (s2, CompletionDone reserved actual response evidence)))"

definition resolveReconciliation ::
    "(string \<Rightarrow> string) \<Rightarrow> string \<Rightarrow> int \<Rightarrow> resolution_input \<Rightarrow> policy_store \<Rightarrow> store_error + policy_store" where
  "resolveReconciliation sha token clock i s =
     and_then (resolve_transaction sha clock i s) (\<lambda>(s1, queued).
     if \<not> queued then Inr s1
     else and_then (sql_time (ctx_occurredAt (ri_context i))) (\<lambda>t.
       Inr (fst (processShadowEvaluationBestEffort sha token clock (ri_organizationId i)
         (ri_requestId i) t s1))))"

section \<open>Retries\<close>

definition retryable :: "int \<Rightarrow> queue_row \<Rightarrow> bool" where
  "retryable clock q \<longleftrightarrow> qu_state q \<in> {Q_pending, Q_failed} \<and> qu_attempts q < 3
     \<and> (qu_claimToken q = None
        \<or> (case qu_leaseExpiresAt q of None \<Rightarrow> False | Some t \<Rightarrow> t \<le> clock))"

text \<open>One claim token for every job.\<close>

fun retry_jobs ::
    "(string \<Rightarrow> string) \<Rightarrow> int \<Rightarrow> (string \<times> queue_row) list \<Rightarrow> policy_store \<times> int \<Rightarrow> policy_store \<times> int" where
  "retry_jobs sha now [] st = st"
| "retry_jobs sha now ((token, q) # js) (s, completed) =
     (case processShadowEvaluationBestEffort sha token now (qu_organizationId q) (qu_requestId q)
          (qu_queuedAt q) s of
        (s', evidence) \<Rightarrow>
          retry_jobs sha now js (s', if evidence = None then completed else completed + 1))"

definition retryPendingShadowEvaluations ::
    "(string \<Rightarrow> string) \<Rightarrow> (nat \<Rightarrow> string) \<Rightarrow> int \<Rightarrow> int \<Rightarrow> policy_store \<Rightarrow> store_error + (policy_store \<times> int)" where
  "retryPendingShadowEvaluations sha tokens now u s =
     (if u < 1 \<or> 100 < u then Inl (Thrown ''SHADOW_RETRY_LIMIT_INVALID'')
      else Inr (retry_jobs sha now
        (zip (map tokens [0..<100]) (take (nat u) (sort_key qu_queuedAt (sort_key qu_requestId
          (filter (retryable now) (st_queue s)))))) (s, 0)))"

definition shadowQueueStatus :: "policy_store \<Rightarrow> int \<times> int \<times> int \<times> int" where
  "shadowQueueStatus s =
     ((\<Sum>q\<leftarrow>st_queue s. if qu_state q = Q_pending then 1 else 0),
      (\<Sum>q\<leftarrow>st_queue s. if qu_state q = Q_failed \<and> qu_attempts q < 3 then 1 else 0),
      (\<Sum>q\<leftarrow>st_queue s. if qu_state q = Q_failed \<and> 3 \<le> qu_attempts q then 1 else 0),
      (\<Sum>q\<leftarrow>st_queue s. if qu_state q = Q_completed then 1 else 0))"

end
