(* ===== verification/PolicyStoreRun.thy ===== *)
theory PolicyStoreRun
  imports PolicyShadow
begin

text \<open>
  The class \<open>PolicyStore\<close> as one transactional state machine: every operation that writes is a step,
  and a history of the store is a sequence of steps in any order. The invariants: what executions may
  look like, that a mandate's commitments stay within its maximum, that a mandate with an open
  reconciliation case is out of service, and what is never taken back.
\<close>

section \<open>Steps\<close>

datatype store_op =
    OpPublish policy_version mutation_context
  | OpCreateMandate mandate_creation
  | OpAssign string string string mutation_context
  | OpBranch branch_creation
  | OpTransition string string mandate_state mutation_context
  | OpSetPolicy string string string int mutation_context
  | OpEvaluate decision_input
  | OpAdmit string int bool admission_input
  | OpComplete int completion_input
  | OpHold int string string string "provider_result option" timestamp
  | OpFail string string string timestamp
  | OpResolve int resolution_input
  | OpClaimShadow string int string string int
  | OpFinishShadow string string string int
  | OpFailShadow string string string int

datatype store_answer =
    Done | AnsBranch branch_row | AnsDecision stored_decision | AnsAdmission admission_result
  | AnsCompletion completion_result bool | AnsResolved bool | AnsClaim claim_result
  | AnsEvidence "shadow_evaluation option"

definition answer :: "('a \<Rightarrow> store_answer) \<Rightarrow> store_error + (policy_store \<times> 'a) \<Rightarrow> store_error + (policy_store \<times> store_answer)" where
  "answer f r = and_then r (\<lambda>(s, a). Inr (s, f a))"

definition no_answer :: "store_error + policy_store \<Rightarrow> store_error + (policy_store \<times> store_answer)" where
  "no_answer r = and_then r (\<lambda>s. Inr (s, Done))"

fun store_step :: "(string \<Rightarrow> string) \<Rightarrow> store_op \<Rightarrow> policy_store \<Rightarrow> store_error + (policy_store \<times> store_answer)" where
  "store_step sha (OpPublish p c) s = no_answer (publishPolicy p c s)"
| "store_step sha (OpCreateMandate i) s = no_answer (createMandate i s)"
| "store_step sha (OpAssign org mid agent c) s = no_answer (assignAgent org mid agent c s)"
| "store_step sha (OpBranch i) s = answer AnsBranch (createBranch sha i s)"
| "store_step sha (OpTransition org mid to c) s = no_answer (transitionMandateState org mid to c s)"
| "store_step sha (OpSetPolicy org mid p v c) s = no_answer (setMandatePolicy org mid p v c s)"
| "store_step sha (OpEvaluate i) s = answer AnsDecision (evaluateAndRecord i s)"
| "store_step sha (OpAdmit uuid clock pre i) s = answer AnsAdmission (admitInference sha uuid clock pre i s)"
| "store_step sha (OpComplete clock i) s =
     answer (\<lambda>(r, q). AnsCompletion r q) (complete_transaction sha clock i s)"
| "store_step sha (OpHold clock org rid code response t) s =
     no_answer (holdInference clock org rid code response t s)"
| "store_step sha (OpFail org rid code t) s = no_answer (failInference org rid code t s)"
| "store_step sha (OpResolve clock i) s = answer AnsResolved (resolve_transaction sha clock i s)"
| "store_step sha (OpClaimShadow token now org rid t) s =
     answer AnsClaim (Inr (claim_shadow token now org rid t s))"
| "store_step sha (OpFinishShadow token org rid t) s =
     answer AnsEvidence (finish_shadow sha token org rid t s)"
| "store_step sha (OpFailShadow token org rid t) s = Inr (fail_shadow token org rid t s, Done)"

definition empty_store :: "string list \<Rightarrow> (string \<times> string) list \<Rightarrow> policy_store" where
  "empty_store orgs agents =
     \<lparr>st_organizations = orgs, st_agents = agents, st_policies = [], st_mandates = [],
      st_assignments = [], st_branches = [], st_decisions = [], st_executions = [],
      st_resolutions = [], st_holds = [], st_counters = [], st_queue = [], st_shadows = [],
      st_audit = []\<rparr>"

lemma answer_Inr: "answer f r = Inr (s', x) \<longleftrightarrow> (\<exists>a. r = Inr (s', a) \<and> x = f a)"
  by (auto simp: answer_def and_then_Inr_iff)

lemma no_answer_Inr: "no_answer r = Inr (s', x) \<longleftrightarrow> r = Inr s' \<and> x = Done"
  by (auto simp: no_answer_def and_then_Inr_iff)

lemmas result_simps = answer_Inr no_answer_Inr and_then_Inr_iff insert_row_Inr

section \<open>What each step changes\<close>

text \<open>The administrative steps leave executions, resolutions and holds alone.\<close>

lemma publishPolicy_effect:
  "publishPolicy p c s = Inr s' \<Longrightarrow> \<exists>ps a. s' = s\<lparr>st_policies := ps, st_audit := a\<rparr>"
  by (auto simp: publishPolicy_def result_simps dest!: appendAudit_Inr split: option.splits if_splits)

lemma createMandate_effect:
  "createMandate i s = Inr s' \<Longrightarrow>
     \<exists>m a. s' = s\<lparr>st_mandates := st_mandates s @ [m], st_audit := a\<rparr>
       \<and> mandate_key m \<notin> mandate_key ` set (st_mandates s) \<and> cm_state m = M_draft
       \<and> 0 < cm_maximumSpendAtomic m"
  by (auto simp: createMandate_def check_mandate_creation_def first_error_None_simps result_simps
      tbl_insert_Some dest!: appendAudit_Inr split: if_splits)

lemma assignAgent_effect:
  "assignAgent org mid agent c s = Inr s' \<Longrightarrow> \<exists>xs a. s' = s\<lparr>st_assignments := xs, st_audit := a\<rparr>"
  by (auto simp: assignAgent_def result_simps dest!: appendAudit_Inr split: if_splits)

lemma transition_effect:
  "transitionMandateState org mid to c s = Inr s' \<Longrightarrow>
     \<exists>m a. find_mandate org mid s = Some m \<and> to \<in> set (mandateTransitions (cm_state m))
       \<and> s' = (set_mandate_state org mid to s)\<lparr>st_audit := a\<rparr>"
  by (auto simp: transitionMandateState_def set_mandate_state_def result_simps
      dest!: appendAudit_Inr split: option.splits if_splits)

lemma setMandatePolicy_effect:
  "setMandatePolicy org mid p v c s = Inr s' \<Longrightarrow>
     \<exists>a. s' = s\<lparr>st_mandates := tbl_update mandate_key (org, mid)
          (\<lambda>r. r\<lparr>cm_policyId := p, cm_policyVersion := v\<rparr>) (st_mandates s), st_audit := a\<rparr>"
  by (auto simp: setMandatePolicy_def result_simps dest!: appendAudit_Inr split: option.splits if_splits)

lemma createBranch_effect:
  "createBranch sha i s = Inr (s', b) \<Longrightarrow>
     \<exists>m p t a. find_mandate (bi_organizationId i) (bi_mandateId i) s = Some m
       \<and> check_branch_creation i = None \<and> check_branch_authority sha i m p s = None
       \<and> b = new_branch sha i m t \<and> branch_key b \<notin> branch_key ` set (st_branches s)
       \<and> s' = s\<lparr>st_branches := st_branches s @ [b], st_audit := a\<rparr>"
  by (auto simp: createBranch_def insert_branch_def Let_def result_simps tbl_insert_Some
      dest!: appendAudit_Inr split: option.splits if_splits)

lemma evaluateAndRecord_effect:
  "evaluateAndRecord i s = Inr (s', d) \<Longrightarrow> \<exists>ds. s' = s\<lparr>st_decisions := st_decisions s @ ds\<rparr>"
  by (auto simp: evaluateAndRecord_def insert_decision_def Let_def result_simps tbl_insert_Some
      split: option.splits if_splits sum.splits)

lemma same_queue: "\<exists>q. s = s\<lparr>st_queue := q\<rparr>"
  by (rule exI [of _ "st_queue s"]) simp

lemma same_shadows: "\<exists>xs. s = s\<lparr>st_shadows := xs\<rparr>"
  by (rule exI [of _ "st_shadows s"]) simp

lemma claim_effect: "claim_shadow token now org rid t s = (s', x) \<Longrightarrow> \<exists>q. s' = s\<lparr>st_queue := q\<rparr>"
  by (auto simp: claim_shadow_def Let_def same_queue split: option.splits if_splits)

lemma persist_effect:
  "evaluateAndPersistShadow sha e s = Inr (s', x) \<Longrightarrow> \<exists>xs. s' = s\<lparr>st_shadows := xs\<rparr>"
  by (auto simp: evaluateAndPersistShadow_def score_cohort_def Let_def result_simps same_shadows
      split: option.splits sum.splits)

lemma finish_effect:
  assumes "finish_shadow sha token org rid t s = Inr (s', x)"
  shows "\<exists>q xs. s' = s\<lparr>st_shadows := xs, st_queue := q\<rparr>"
proof -
  have e: "s = s\<lparr>st_shadows := st_shadows s, st_queue := st_queue s\<rparr>" by simp
  show ?thesis
  proof (cases "s' = s")
    case True
    with e show ?thesis by metis
  next
    case False
    with assms show ?thesis
      by (auto simp: finish_shadow_def result_simps dest!: persist_effect
          split: option.splits if_splits)
  qed
qed


section \<open>The invariant\<close>

text \<open>
  What an execution has taken from its mandate (\<open>class_counted\<close>) is at most its reservation, except
  where an operator settled a case above it: the excess is the overrun.
\<close>

definition covered :: "execution_row \<Rightarrow> int" where
  "covered r = min (class_counted r) (ex_reservedCostAtomic r)"

definition overrun :: "execution_row \<Rightarrow> int" where
  "overrun r = max 0 (class_counted r - ex_reservedCostAtomic r)"

lemma counted_split: "class_counted r = covered r + overrun r"
  by (simp add: covered_def overrun_def)

definition row_ok :: "execution_row \<Rightarrow> bool" where
  "row_ok r \<longleftrightarrow>
     0 \<le> ex_reservedCostAtomic r \<and> 0 \<le> actual_or_0 r
     \<and> (ex_status r \<in> {Denied, Executing} \<longrightarrow> ex_failureCode r = None)
     \<and> (ex_status r = Held \<longrightarrow> \<not> billed_no_response r)"

definition out_of_service :: "mandate_state list" where
  "out_of_service = [M_reconciliation_hold, M_closing, M_closed, M_expired]"

definition mand_ok :: "mandate_row list \<Rightarrow> resolution_row list \<Rightarrow> execution_row \<Rightarrow> bool" where
  "mand_ok ms rs r \<longleftrightarrow>
     (case tbl_find mandate_key (ex_organizationId r, ex_mandateId r) ms of
        None \<Rightarrow> False
      | Some m \<Rightarrow>
          (ex_status r \<noteq> Denied \<longrightarrow> cm_state m \<noteq> M_draft)
          \<and> (ex_status r = Held
               \<and> tbl_find resolution_key (ex_organizationId r, ex_requestId r) rs = None
             \<longrightarrow> cm_state m \<in> set out_of_service))"

definition mandate_covered :: "execution_row list \<Rightarrow> mandate_row \<Rightarrow> int" where
  "mandate_covered es m =
     (\<Sum>x\<leftarrow>es. if in_mandate (cm_organizationId m) (cm_id m) x then covered x else 0)"

definition inv_parts ::
    "mandate_row list \<Rightarrow> execution_row list \<Rightarrow> resolution_row list \<Rightarrow> hold_row list \<Rightarrow> bool" where
  "inv_parts ms es rs hs \<longleftrightarrow>
     tbl_wf mandate_key ms \<and> tbl_wf execution_key es
     \<and> (\<forall>r \<in> set es. row_ok r \<and> mand_ok ms rs r)
     \<and> (\<forall>h \<in> set hs. hd_priorState h \<in> set holdable)
     \<and> (\<forall>m \<in> set ms. mandate_covered es m \<le> cm_maximumSpendAtomic m)"

definition store_inv :: "policy_store \<Rightarrow> bool" where
  "store_inv s \<longleftrightarrow> inv_parts (st_mandates s) (st_executions s) (st_resolutions s) (st_holds s)"

declare store_inv_def [wf_defs]

text \<open>An update keeps the identity of a row: its keys, its mandate and its reservation.\<close>

definition same_row :: "execution_row \<Rightarrow> execution_row \<Rightarrow> bool" where
  "same_row r r' \<longleftrightarrow>
     ex_organizationId r' = ex_organizationId r \<and> ex_requestId r' = ex_requestId r
     \<and> ex_mandateId r' = ex_mandateId r \<and> ex_agentId r' = ex_agentId r
     \<and> ex_decisionId r' = ex_decisionId r
     \<and> ex_requestFingerprint r' = ex_requestFingerprint r
     \<and> ex_reservedCostAtomic r' = ex_reservedCostAtomic r"

lemma same_row_key: "same_row r r' \<Longrightarrow> execution_key r' = execution_key r"
  by (simp add: same_row_def execution_key_def)

lemma set_tbl_update: "x \<in> set (tbl_update key k f rows) \<longleftrightarrow>
    (\<exists>r \<in> set rows. x = (if key r = k then f r else r))"
  by (simp only: tbl_update_def set_map image_iff)

lemma tbl_find_new: "key r \<notin> key ` set rows \<Longrightarrow> tbl_find key (key r) (rows @ [r]) = Some r"
  by (rule tbl_find_insert [of key r rows "rows @ [r]" "key r", simplified]) (simp add: tbl_insert_Some)

lemma covered_nonneg: "row_ok r \<Longrightarrow> 0 \<le> covered r"
  by (auto simp: covered_def class_counted_def row_ok_def)

lemma mand_ok_SomeD: "mand_ok ms rs r \<Longrightarrow> (ex_organizationId r, ex_mandateId r) \<in> mandate_key ` set ms"
  by (cases "tbl_find mandate_key (ex_organizationId r, ex_mandateId r) ms")
    (force simp: mand_ok_def dest: tbl_find_SomeD)+

section \<open>Changes of the parts\<close>

lemma parts_new_mandate:
  assumes "inv_parts ms es rs hs" and "mandate_key m \<notin> mandate_key ` set ms"
    and "0 < cm_maximumSpendAtomic m"
  shows "inv_parts (ms @ [m]) es rs hs"
proof -
  have ok: "mand_ok (ms @ [m]) rs r" if "r \<in> set es" for r
    using assms(1) that by (auto simp: inv_parts_def mand_ok_def tbl_find_append split: option.splits)
  have "\<not> in_mandate (cm_organizationId m) (cm_id m) r" if "r \<in> set es" for r
    using assms(1,2) that mand_ok_SomeD [of ms rs r]
    by (auto simp: inv_parts_def in_mandate_def mandate_key_def)
  then have "mandate_covered es m = 0" unfolding mandate_covered_def by (induction es) auto
  with assms ok show ?thesis by (auto simp: inv_parts_def tbl_wf_def)
qed

lemma mandate_update_covered:
  assumes "\<And>m. mandate_key (g m) = mandate_key m"
  shows "mandate_covered es (g m) = mandate_covered es m"
  using assms [of m] by (simp add: mandate_covered_def mandate_key_def)

lemma parts_mandate_update:
  assumes inv: "inv_parts ms es rs hs"
    and key: "\<And>m. mandate_key (g m) = mandate_key m"
    and lim: "\<And>m. cm_maximumSpendAtomic (g m) = cm_maximumSpendAtomic m"
    and ok: "\<And>r. r \<in> set es \<Longrightarrow> mand_ok (tbl_update mandate_key k g ms) rs r"
  shows "inv_parts (tbl_update mandate_key k g ms) es rs hs"
proof -
  have "tbl_wf mandate_key (tbl_update mandate_key k g ms)"
    using inv by (intro tbl_wf_update) (auto simp: key inv_parts_def)
  moreover have "mandate_covered es (g m) = mandate_covered es m" for m
    using key by (rule mandate_update_covered)
  ultimately show ?thesis using inv ok by (auto simp: inv_parts_def set_tbl_update lim)
qed

lemma parts_state_change:
  assumes inv: "inv_parts ms es rs hs"
    and m: "tbl_find mandate_key k ms = Some m"
    and nd: "cm_state m \<noteq> M_draft \<Longrightarrow> st \<noteq> M_draft"
    and out: "cm_state m \<in> set out_of_service \<Longrightarrow> st \<in> set out_of_service
      \<or> (\<forall>r \<in> set es. (ex_organizationId r, ex_mandateId r) = k \<and> ex_status r = Held
           \<longrightarrow> tbl_find resolution_key (ex_organizationId r, ex_requestId r) rs \<noteq> None)"
  shows "inv_parts (tbl_update mandate_key k (\<lambda>r. r\<lparr>cm_state := st\<rparr>) ms) es rs hs"
proof (rule parts_mandate_update [OF inv])
  fix r assume r: "r \<in> set es"
  with inv have ok: "mand_ok ms rs r" by (simp add: inv_parts_def)
  have find: "tbl_find mandate_key k' (tbl_update mandate_key k (\<lambda>r. r\<lparr>cm_state := st\<rparr>) ms) =
      (if k' = k then Some (m\<lparr>cm_state := st\<rparr>) else tbl_find mandate_key k' ms)" for k'
    by (subst tbl_find_update) (auto simp: mandate_key_def m)
  show "mand_ok (tbl_update mandate_key k (\<lambda>r. r\<lparr>cm_state := st\<rparr>) ms) rs r"
  proof (cases "(ex_organizationId r, ex_mandateId r) = k")
    case True
    with ok m have "ex_status r \<noteq> Denied \<longrightarrow> cm_state m \<noteq> M_draft"
      and "ex_status r = Held \<and> tbl_find resolution_key (ex_organizationId r, ex_requestId r) rs = None
        \<longrightarrow> cm_state m \<in> set out_of_service"
      by (auto simp: mand_ok_def)
    with True nd out r show ?thesis by (auto simp: mand_ok_def find dest!: bspec [of _ _ r])
  next
    case False
    with ok show ?thesis by (simp add: mand_ok_def find)
  qed
qed (simp_all add: mandate_key_def)

lemma parts_row_update:
  assumes inv: "inv_parts ms es rs hs" and r: "tbl_find execution_key k es = Some r"
    and same: "\<And>x. same_row x (f x)" and ok: "row_ok (f r)" and cov: "covered (f r) \<le> covered r"
    and mok: "mand_ok ms rs (f r)"
  shows "inv_parts ms (tbl_update execution_key k f es) rs hs"
proof -
  have wf: "tbl_wf execution_key es" using inv by (simp add: inv_parts_def)
  have key: "execution_key (f x) = execution_key x" for x using same_row_key [OF same] .
  have "x = f r" if "y \<in> set es" "execution_key y = k" "x = f y" for x y
    using tbl_find_in [OF wf that(1)] that r by simp
  then have rows: "row_ok x \<and> mand_ok ms rs x" if "x \<in> set (tbl_update execution_key k f es)" for x
    using that inv ok mok by (auto simp: set_tbl_update inv_parts_def split: if_splits)
  have "mandate_covered (tbl_update execution_key k f es) m \<le> mandate_covered es m" for m
    unfolding mandate_covered_def
    by (rule execution_table.sum_update_le [OF wf r]) (use same [of r] cov in \<open>auto simp: same_row_def in_mandate_def\<close>)
  moreover have "tbl_wf execution_key (tbl_update execution_key k f es)"
    by (rule tbl_wf_update [OF key wf])
  moreover have "mandate_covered (tbl_update execution_key k f es) m \<le> cm_maximumSpendAtomic m"
    if "m \<in> set ms" for m
    using calculation(1) [of m] inv that by (auto simp: inv_parts_def intro: order_trans)
  ultimately show ?thesis using inv rows by (simp add: inv_parts_def)
qed

lemma parts_new_row:
  assumes inv: "inv_parts ms es rs hs" and key: "execution_key r \<notin> execution_key ` set es"
    and ok: "row_ok r" and mok: "mand_ok ms rs r"
    and room: "\<And>m. m \<in> set ms \<Longrightarrow> in_mandate (cm_organizationId m) (cm_id m) r
      \<Longrightarrow> mandate_covered es m + covered r \<le> cm_maximumSpendAtomic m"
  shows "inv_parts ms (es @ [r]) rs hs"
  using assms by (auto simp: inv_parts_def tbl_wf_def mandate_covered_def)

lemma parts_new_resolution: "inv_parts ms es rs hs \<Longrightarrow> inv_parts ms es (rs @ [x]) hs"
  by (auto simp: inv_parts_def mand_ok_def tbl_find_append split: option.splits)

lemma parts_holds:
  "inv_parts ms es rs hs \<Longrightarrow> (\<And>h. h \<in> set hs' \<Longrightarrow> hd_priorState h \<in> set holdable) \<Longrightarrow> inv_parts ms es rs hs'"
  by (auto simp: inv_parts_def)

section \<open>Executions and holds\<close>

lemma held_state_cases: "st \<noteq> M_draft \<Longrightarrow> st \<notin> set holdable \<Longrightarrow> st \<in> set out_of_service"
  by (cases st) (simp_all add: holdable_def out_of_service_def)

text \<open>The effect of a hold on the mandate, given as a new state.\<close>

lemma hold_effect:
  "holdMandateForReconciliation clock org mid s = Inr s' \<Longrightarrow>
     \<exists>m. find_mandate org mid s = Some m \<and>
       ((cm_state m \<notin> set holdable \<and> s' = s)
        \<or> (cm_state m \<in> set holdable
           \<and> (\<forall>h \<in> set (st_holds s'). h \<in> set (st_holds s) \<or> hd_priorState h \<in> set holdable)
           \<and> s' = set_mandate_state org mid M_reconciliation_hold (s\<lparr>st_holds := st_holds s'\<rparr>)))"
  by (auto simp: holdMandateForReconciliation_def Let_def tbl_insert_def set_mandate_state_def
      split: option.splits if_splits)

lemma find_update_rows:
  "(\<And>x. execution_key (f x) = execution_key x) \<Longrightarrow>
     tbl_find execution_key k (tbl_update execution_key k f es) = map_option f (tbl_find execution_key k es)"
  by (simp add: tbl_find_update)

text \<open>A row of a mandate that moves to \<open>Held\<close> takes the mandate out of service.\<close>

lemma parts_hold:
  assumes inv: "inv_parts ms es rs hs" and r: "tbl_find execution_key k es = Some r"
    and st: "ex_status r \<noteq> Denied"
    and m: "tbl_find mandate_key (ex_organizationId r, ex_mandateId r) ms = Some m"
    and same: "\<And>x. same_row x (f x)" and ok: "row_ok (f r)" and cov: "covered (f r) \<le> covered r"
  shows "cm_state m \<notin> set holdable \<Longrightarrow> inv_parts ms (tbl_update execution_key k f es) rs hs"
    and "cm_state m \<in> set holdable \<Longrightarrow>
      inv_parts (tbl_update mandate_key (ex_organizationId r, ex_mandateId r)
          (\<lambda>x. x\<lparr>cm_state := M_reconciliation_hold\<rparr>) ms)
        (tbl_update execution_key k f es) rs hs"
proof -
  have mok: "mand_ok ms rs r"
    using inv tbl_find_SomeD [OF r] by (simp add: inv_parts_def)
  have id: "ex_organizationId (f r) = ex_organizationId r" "ex_mandateId (f r) = ex_mandateId r"
    using same [of r] by (simp_all add: same_row_def)
  have nd: "cm_state m \<noteq> M_draft" using mok m st by (simp add: mand_ok_def)
  show "inv_parts ms (tbl_update execution_key k f es) rs hs" if "cm_state m \<notin> set holdable"
    by (rule parts_row_update [OF inv r same ok cov])
      (use held_state_cases [OF nd that] m nd in \<open>simp add: mand_ok_def id\<close>)
  show "inv_parts (tbl_update mandate_key (ex_organizationId r, ex_mandateId r)
          (\<lambda>x. x\<lparr>cm_state := M_reconciliation_hold\<rparr>) ms)
        (tbl_update execution_key k f es) rs hs" if "cm_state m \<in> set holdable"
  proof (rule parts_row_update [OF _ r same ok cov])
    show "inv_parts (tbl_update mandate_key (ex_organizationId r, ex_mandateId r)
          (\<lambda>x. x\<lparr>cm_state := M_reconciliation_hold\<rparr>) ms) es rs hs"
      by (rule parts_state_change [OF inv m]) (simp_all add: out_of_service_def)
    show "mand_ok (tbl_update mandate_key (ex_organizationId r, ex_mandateId r)
          (\<lambda>x. x\<lparr>cm_state := M_reconciliation_hold\<rparr>) ms) rs (f r)"
      by (simp add: mand_ok_def id tbl_find_update mandate_key_def m out_of_service_def)
  qed
qed

lemma hold_inv:
  assumes inv: "store_inv s" and r: "find_execution org rid s = Some r"
    and st: "ex_status r \<noteq> Denied" and mid: "ex_mandateId r = mid"
    and same: "\<And>x. same_row x (f x)" and ok: "row_ok (f r)" and cov: "covered (f r) \<le> covered r"
    and h: "holdMandateForReconciliation clock org mid (update_execution org rid f s) = Inr s'"
  shows "store_inv s'"
proof -
  have org: "ex_organizationId r = org"
    using tbl_find_SomeD [OF r [unfolded find_execution_def]] by (simp add: execution_key_def)
  have i: "inv_parts (st_mandates s) (st_executions s) (st_resolutions s) (st_holds s)"
    using inv by (simp add: store_inv_def)
  from hold_effect [OF h] obtain m where
    m: "find_mandate org mid (update_execution org rid f s) = Some m" and
    c: "(cm_state m \<notin> set holdable \<and> s' = update_execution org rid f s)
      \<or> (cm_state m \<in> set holdable \<and> (\<exists>hs. (\<forall>h \<in> set hs. h \<in> set (st_holds s) \<or> hd_priorState h \<in> set holdable)
           \<and> s' = set_mandate_state org mid M_reconciliation_hold ((update_execution org rid f s)\<lparr>st_holds := hs\<rparr>)))"
    by (auto simp: update_execution_def intro: exI [of _ "st_holds s'"])
  have m': "tbl_find mandate_key (ex_organizationId r, ex_mandateId r) (st_mandates s) = Some m"
    using m org mid by (simp add: find_mandate_def update_execution_def)
  note parts = parts_hold [OF i r [unfolded find_execution_def] st m' same ok cov]
  from c show ?thesis
  proof (elim disjE conjE exE)
    assume "cm_state m \<notin> set holdable" "s' = update_execution org rid f s"
    then show ?thesis using parts(1) by (simp add: store_inv_def update_execution_def)
  next
    fix hs assume hold: "cm_state m \<in> set holdable"
      and hs: "\<forall>h \<in> set hs. h \<in> set (st_holds s) \<or> hd_priorState h \<in> set holdable"
      and s': "s' = set_mandate_state org mid M_reconciliation_hold ((update_execution org rid f s)\<lparr>st_holds := hs\<rparr>)"
    have "\<forall>h \<in> set hs. hd_priorState h \<in> set holdable" using hs i by (auto simp: inv_parts_def)
    then show ?thesis
      using parts_holds [OF parts(2) [OF hold], of hs] org mid
      by (simp add: s' store_inv_def update_execution_def set_mandate_state_def)
  qed
qed

end
