(* ===== verification/PolicyStoreSafety.thy ===== *)
theory PolicyStoreSafety
  imports PolicyStoreRun
begin

text \<open>
  Every step of the policy store (\<open>src/src/persistence/policyStore.ts\<close>) keeps the invariant, and what
  follows for histories: commitments stay within the mandate's maximum up to what operators settle
  above a reservation, a mandate with an open case admits nothing, a request executes at most once
  and a case is resolved at most once.
\<close>

section \<open>Shadow bookkeeping touches only shadow columns\<close>

definition authoritative :: "execution_row \<Rightarrow> execution_row" where
  "authoritative r = r\<lparr>ex_shadowCohortKey := None, ex_shadowCohortOrdinal := None,
     ex_shadowCompletedAt := None, ex_shadowOrderState := None\<rparr>"

definition shadow_only :: "(execution_row \<Rightarrow> execution_row) \<Rightarrow> bool" where
  "shadow_only f \<longleftrightarrow> (\<forall>x. authoritative (f x) = authoritative x)"

lemma shadow_only_fields:
  assumes "shadow_only f"
  shows "ex_status (f x) = ex_status x" "ex_reservedCostAtomic (f x) = ex_reservedCostAtomic x"
    "ex_actualCostAtomic (f x) = ex_actualCostAtomic x" "ex_failureCode (f x) = ex_failureCode x"
    "ex_response (f x) = ex_response x" "same_row x (f x)"
    "ex_organizationId (f x) = ex_organizationId x" "ex_requestId (f x) = ex_requestId x"
    "ex_mandateId (f x) = ex_mandateId x"
proof -
  have e: "authoritative (f x) = authoritative x" using assms by (simp add: shadow_only_def)
  have sel: "ex_status (authoritative y) = ex_status y"
    "ex_reservedCostAtomic (authoritative y) = ex_reservedCostAtomic y"
    "ex_actualCostAtomic (authoritative y) = ex_actualCostAtomic y"
    "ex_failureCode (authoritative y) = ex_failureCode y"
    "ex_response (authoritative y) = ex_response y"
    "ex_organizationId (authoritative y) = ex_organizationId y"
    "ex_requestId (authoritative y) = ex_requestId y" "ex_mandateId (authoritative y) = ex_mandateId y"
    "ex_agentId (authoritative y) = ex_agentId y"
    "ex_decisionId (authoritative y) = ex_decisionId y"
    "ex_requestFingerprint (authoritative y) = ex_requestFingerprint y" for y
    by (simp_all add: authoritative_def)
  show "ex_status (f x) = ex_status x" "ex_reservedCostAtomic (f x) = ex_reservedCostAtomic x"
    "ex_actualCostAtomic (f x) = ex_actualCostAtomic x" "ex_failureCode (f x) = ex_failureCode x"
    "ex_response (f x) = ex_response x" "same_row x (f x)"
    "ex_organizationId (f x) = ex_organizationId x" "ex_requestId (f x) = ex_requestId x"
    "ex_mandateId (f x) = ex_mandateId x"
    using arg_cong [OF e, of ex_status] arg_cong [OF e, of ex_reservedCostAtomic]
      arg_cong [OF e, of ex_actualCostAtomic] arg_cong [OF e, of ex_failureCode]
      arg_cong [OF e, of ex_response] arg_cong [OF e, of ex_organizationId]
      arg_cong [OF e, of ex_requestId] arg_cong [OF e, of ex_mandateId]
      arg_cong [OF e, of ex_agentId] arg_cong [OF e, of ex_decisionId]
      arg_cong [OF e, of ex_requestFingerprint]
    by (simp_all add: sel same_row_def)
qed

lemma shadow_only_row:
  assumes "shadow_only f"
  shows "class_counted (f x) = class_counted x" "covered (f x) = covered x"
    "row_ok (f x) = row_ok x" "mand_ok ms rs (f x) = mand_ok ms rs x"
    "in_mandate org mid (f x) = in_mandate org mid x" "execution_key (f x) = execution_key x"
  using shadow_only_fields [OF assms, of x]
  by (simp_all add: class_counted_def covered_def row_ok_def mand_ok_def in_mandate_def
      billed_no_response_def actual_or_0_def execution_key_def split: option.split)

lemma update_execution_id: "update_execution org rid (\<lambda>x. x) s = s"
  by (simp add: update_execution_def tbl_update_def)

lemma update_execution_comp:
  assumes "shadow_only f"
  shows "update_execution org rid g (update_execution org rid f s)
    = update_execution org rid (\<lambda>x. g (f x)) s"
  by (simp add: update_execution_def tbl_update_def shadow_only_row(6) [OF assms])

lemma shadow_only_state: "shadow_only f \<Longrightarrow> shadow_only (\<lambda>x. (f x)\<lparr>ex_shadowOrderState := Some st\<rparr>)"
proof -
  have "authoritative (y\<lparr>ex_shadowOrderState := Some st\<rparr>) = authoritative y" for y
    by (simp add: authoritative_def)
  then show "shadow_only f \<Longrightarrow> ?thesis" by (simp add: shadow_only_def)
qed

text \<open>What the bookkeeping may do to the store for the execution \<open>r\<close>.\<close>

definition shadow_change :: "execution_row \<Rightarrow> policy_store \<Rightarrow> policy_store \<Rightarrow> bool" where
  "shadow_change r s s' \<longleftrightarrow> (\<exists>f cs q. shadow_only f
     \<and> s' = (update_execution (ex_organizationId r) (ex_requestId r) f s)\<lparr>st_counters := cs, st_queue := q\<rparr>)"

lemma shadow_changeI:
  "shadow_only f \<Longrightarrow>
     s' = (update_execution (ex_organizationId r) (ex_requestId r) f s)\<lparr>st_counters := cs, st_queue := q\<rparr>
     \<Longrightarrow> shadow_change r s s'"
  by (auto simp: shadow_change_def)

lemma shadow_change_refl: "shadow_change r s s"
  by (rule shadow_changeI [where f = "\<lambda>x. x" and cs = "st_counters s" and q = "st_queue s"])
    (simp_all add: shadow_only_def update_execution_id)

lemma shadow_change_cohort:
  "shadow_change r s (update_execution (ex_organizationId r) (ex_requestId r)
     (\<lambda>x. x\<lparr>ex_shadowCohortKey := Some k, ex_shadowCohortOrdinal := Some n,
            ex_shadowCompletedAt := Some clock\<rparr>) (s\<lparr>st_counters := rows\<rparr>))"
  by (rule shadow_changeI [where f = "\<lambda>x. x\<lparr>ex_shadowCohortKey := Some k, ex_shadowCohortOrdinal := Some n,
            ex_shadowCompletedAt := Some clock\<rparr>" and cs = rows and q = "st_queue s"])
    (simp_all add: shadow_only_def authoritative_def update_execution_def)

lemma shadow_change_state:
  assumes "shadow_change r s s1"
  shows "shadow_change r s (set_shadow_order_state st r s1)"
proof -
  from assms obtain f cs q where f: "shadow_only f"
    and s1: "s1 = (update_execution (ex_organizationId r) (ex_requestId r) f s)\<lparr>st_counters := cs, st_queue := q\<rparr>"
    by (auto simp: shadow_change_def)
  have "set_shadow_order_state st r s1 =
      (update_execution (ex_organizationId r) (ex_requestId r)
        (\<lambda>x. (f x)\<lparr>ex_shadowOrderState := Some st\<rparr>) s)\<lparr>st_counters := cs, st_queue := q\<rparr>"
    unfolding update_execution_comp [OF f, symmetric]
    by (simp add: s1 set_shadow_order_state_def update_execution_def)
  with shadow_only_state [OF f] show ?thesis by (rule shadow_changeI)
qed

lemma shadow_change_enqueue:
  assumes "shadow_change r s s1"
  shows "shadow_change r s (enqueueShadowEvaluation org rid t s1)"
proof -
  have "\<exists>q. enqueueShadowEvaluation org rid t s1 = s1\<lparr>st_queue := q\<rparr>"
    by (auto simp: enqueueShadowEvaluation_def same_queue split: option.splits)
  with assms show ?thesis by (force simp: shadow_change_def)
qed

lemma assign_effect:
  "assignShadowCohortOrdinal sha clock r s = Inr (s1, scope) \<Longrightarrow> shadow_change r s s1"
  unfolding assignShadowCohortOrdinal_def
  by (auto simp: shadow_change_refl shadow_change_cohort result_simps Let_def
      split: option.splits prod.splits)

lemma queue_bookkeeping_effect:
  "queueShadowBookkeepingBestEffort sha clock r t s = (s', b) \<Longrightarrow> shadow_change r s s'"
  unfolding queueShadowBookkeepingBestEffort_def
  by (auto simp: shadow_change_refl dest!: assign_effect
      intro: shadow_change_state shadow_change_enqueue
      split: option.splits sum.splits prod.splits)

lemma shadow_update_inv:
  assumes inv: "store_inv s" and f: "shadow_only f"
  shows "store_inv (update_execution org rid f s)"
proof (cases "find_execution org rid s")
  case None
  then have "update_execution org rid f s = s"
    by (simp add: update_execution_def find_execution_def tbl_update_absent)
  with inv show ?thesis by simp
next
  case (Some r)
  have i: "inv_parts (st_mandates s) (st_executions s) (st_resolutions s) (st_holds s)"
    using inv by (simp add: store_inv_def)
  have "row_ok r \<and> mand_ok (st_mandates s) (st_resolutions s) r"
    using i tbl_find_SomeD [OF Some [unfolded find_execution_def]] by (simp add: inv_parts_def)
  then have "inv_parts (st_mandates s) (tbl_update execution_key (org, rid) f (st_executions s))
      (st_resolutions s) (st_holds s)"
    by (intro parts_row_update [OF i Some [unfolded find_execution_def]])
      (simp_all add: shadow_only_row [OF f] shadow_only_fields(6) [OF f])
  then show ?thesis by (simp add: store_inv_def update_execution_def)
qed

lemma queue_bookkeeping_inv:
  assumes "store_inv s" and "queueShadowBookkeepingBestEffort sha clock r t s = (s', b)"
  shows "store_inv s'"
proof -
  from queue_bookkeeping_effect [OF assms(2)] obtain f cs q where "shadow_only f"
    and s': "s' = (update_execution (ex_organizationId r) (ex_requestId r) f s)\<lparr>st_counters := cs, st_queue := q\<rparr>"
    by (auto simp: shadow_change_def)
  with shadow_update_inv [OF assms(1)] show ?thesis by (simp add: s' store_inv_def)
qed

section \<open>Admission keeps the invariant\<close>

lemma class_counted_le_mandate: "row_ok r \<Longrightarrow> covered r \<le> mandate_counted r"
  by (auto simp: covered_def class_counted_def mandate_counted_def row_ok_def billed_no_response_def)

lemma spent_ever_covers:
  assumes "\<forall>r \<in> set es. row_ok r"
  shows "mandate_covered es m \<le> spent_ever (filter (in_mandate (cm_organizationId m) (cm_id m)) es)"
  using assms by (induction es) (auto simp: mandate_covered_def spent_ever_def intro: add_mono class_counted_le_mandate)

lemma decide_evaluates:
  assumes "decide sha uuid i m p t s = Inr d"
  shows "(\<exists>w assigned. evaluatePolicy p
      (evaluation_of (admission_decision_input uuid i m t w s) m assigned) = Inr (sd_result d))
    \<and> sd_id d = uuid \<and> sd_requestId d = ai_requestId i \<and> sd_organizationId d = ai_organizationId i"
proof (cases "admission_workload sha i m s")
  case (Inl e)
  with assms show ?thesis by (simp add: decide_def)
next
  case (Inr wb)
  let ?e = "evaluation_of (admission_decision_input uuid i m t (map_option fst wb) s) m
    (agent_assigned (ai_organizationId i) (ai_mandateId i) (ai_agentId i) s)"
  have "evaluatePolicy p ?e = Inr (sd_result d) \<and> sd_id d = uuid \<and> sd_requestId d = ai_requestId i
      \<and> sd_organizationId d = ai_organizationId i"
    using assms Inr by (cases "evaluatePolicy p ?e") (auto simp: decide_def Let_def)
  then show ?thesis by blast
qed

lemma decide_allow:
  assumes "decide sha uuid i m p t s = Inr d" and "pd_outcome (sd_result d) = ALLOW"
  shows "cm_state m = M_active" and "0 \<le> ai_estimatedCostAtomic i"
    and "spent_ever (mandate_executions (ai_organizationId i) (ai_mandateId i) s) + ai_estimatedCostAtomic i
      \<le> cm_maximumSpendAtomic m"
proof -
  from decide_evaluates [OF assms(1)] obtain w assigned where
    e: "evaluatePolicy p (evaluation_of (admission_decision_input uuid i m t w s) m assigned)
      = Inr (sd_result d)" by blast
  note allow = allow_mandate [OF e assms(2)]
  from allow(1) show "cm_state m = M_active" by (simp add: evaluation_of_def)
  from allow(4) show "0 \<le> ai_estimatedCostAtomic i"
    by (simp add: evaluation_of_def admission_decision_input_def Let_def)
  from allow(3) show "spent_ever (mandate_executions (ai_organizationId i) (ai_mandateId i) s)
      + ai_estimatedCostAtomic i \<le> cm_maximumSpendAtomic m"
    by (simp add: evaluation_of_def admission_decision_input_def Let_def)
qed

text \<open>A new admission that is not a preview appends one execution, executing or denied.\<close>

lemma admit_new_effect:
  assumes "admit_new sha uuid pre i m p t s = Inr (s', a)"
  shows "\<exists>d. decide sha uuid i m p t s = Inr d
    \<and> a = (if pd_outcome (sd_result d) = ALLOW then AdmitExecute d (ai_estimatedCostAtomic i) else AdmitDenied d)
    \<and> (if pre then s' = s
       else s' = s\<lparr>st_decisions := st_decisions s @ [d],
              st_executions := st_executions s @
                [new_execution i uuid (if pd_outcome (sd_result d) = ALLOW then Executing else Denied)
                  (if pd_outcome (sd_result d) = ALLOW then ai_estimatedCostAtomic i else 0) t]\<rparr>
         \<and> (ai_organizationId i, ai_requestId i) \<notin> execution_key ` set (st_executions s)
         \<and> decision_key d \<notin> decision_key ` set (st_decisions s))"
  using assms
  by (auto simp: admit_new_def Let_def result_simps tbl_insert_Some insert_decision_def
      new_execution_def execution_key_def split: if_splits)

lemma admit_new_inv:
  assumes inv: "store_inv s" and m: "find_mandate (ai_organizationId i) (ai_mandateId i) s = Some m"
    and a: "admit_new sha uuid pre i m p t s = Inr (s', a)"
  shows "store_inv s'"
proof (cases pre)
  case True
  with admit_new_effect [OF a] inv show ?thesis by auto
next
  case False
  from admit_new_effect [OF a] False obtain d where d: "decide sha uuid i m p t s = Inr d"
    and s': "s' = s\<lparr>st_decisions := st_decisions s @ [d],
              st_executions := st_executions s @
                [new_execution i uuid (if pd_outcome (sd_result d) = ALLOW then Executing else Denied)
                  (if pd_outcome (sd_result d) = ALLOW then ai_estimatedCostAtomic i else 0) t]\<rparr>"
    and key: "(ai_organizationId i, ai_requestId i) \<notin> execution_key ` set (st_executions s)" by auto
  let ?ok = "pd_outcome (sd_result d) = ALLOW"
  let ?r = "new_execution i uuid (if ?ok then Executing else Denied) (if ?ok then ai_estimatedCostAtomic i else 0) t"
  have parts: "inv_parts (st_mandates s) (st_executions s) (st_resolutions s) (st_holds s)"
    using inv by (simp add: store_inv_def)
  have r: "ex_organizationId ?r = ai_organizationId i" "ex_mandateId ?r = ai_mandateId i"
    "ex_requestId ?r = ai_requestId i" by (simp_all add: new_execution_def)
  have keym: "cm_organizationId m = ai_organizationId i" "cm_id m = ai_mandateId i"
    using tbl_find_SomeD [OF m [unfolded find_mandate_def]] by (simp_all add: mandate_key_def)
  have "inv_parts (st_mandates s) (st_executions s @ [?r]) (st_resolutions s) (st_holds s)"
  proof (rule parts_new_row [OF parts])
    show "execution_key ?r \<notin> execution_key ` set (st_executions s)"
      using key by (simp add: execution_key_def r)
    show "row_ok ?r" using decide_allow(2) [OF d]
      by (simp add: row_ok_def new_execution_def actual_or_0_def)
    show "mand_ok (st_mandates s) (st_resolutions s) ?r"
      using m decide_allow(1) [OF d] by (simp add: mand_ok_def r find_mandate_def) (simp add: new_execution_def)
    fix m' assume m': "m' \<in> set (st_mandates s)" "in_mandate (cm_organizationId m') (cm_id m') ?r"
    then have "mandate_key m' = (ai_organizationId i, ai_mandateId i)" by (simp add: in_mandate_def r mandate_key_def)
    with m' parts m have "m' = m" using tbl_find_in [of mandate_key "st_mandates s" m']
      by (auto simp: inv_parts_def find_mandate_def)
    have "covered ?r \<le> (if ?ok then ai_estimatedCostAtomic i else 0)"
      by (simp add: covered_def new_execution_def class_counted_def billed_no_response_def)
    moreover have "mandate_covered (st_executions s) m \<le> cm_maximumSpendAtomic m"
      using parts m'(1) \<open>m' = m\<close> by (simp add: inv_parts_def)
    moreover have "mandate_covered (st_executions s) m + ai_estimatedCostAtomic i \<le> cm_maximumSpendAtomic m" if ?ok
      using decide_allow(3) [OF d that] spent_ever_covers [of "st_executions s" m] parts
      by (simp add: mandate_executions_def keym inv_parts_def)
    ultimately show "mandate_covered (st_executions s) m' + covered ?r \<le> cm_maximumSpendAtomic m'"
      by (auto simp: \<open>m' = m\<close> split: if_splits)
  qed
  then show ?thesis by (simp add: store_inv_def s')
qed

lemma found_row:
  assumes "store_inv s" and "find_execution org rid s = Some r"
  shows "row_ok r" "ex_organizationId r = org" "ex_requestId r = rid"
    "mand_ok (st_mandates s) (st_resolutions s) r" "r \<in> set (st_executions s)"
  using assms tbl_find_SomeD [of execution_key "(org, rid)" "st_executions s" r]
  by (auto simp: find_execution_def execution_key_def store_inv_def inv_parts_def)

text \<open>The columns a hold or an end of an execution changes; the reservation stays.\<close>

lemma held_row_ok:
  assumes "row_ok r" and "ex_status r = Executing" and "code \<noteq> Some ''RECONCILED_BILLED_NO_RESPONSE''"
    and "0 \<le> n"
  shows "row_ok (r\<lparr>ex_status := Held, ex_actualCostAtomic := Some n, ex_response := resp,
      ex_failureCode := code, ex_updatedAt := t\<rparr>)"
    and "row_ok (r\<lparr>ex_status := Held, ex_response := resp, ex_failureCode := code, ex_updatedAt := t\<rparr>)"
    and "row_ok (r\<lparr>ex_status := Held, ex_failureCode := code, ex_updatedAt := t\<rparr>)"
  using assms by (auto simp: row_ok_def billed_no_response_def actual_or_0_def)

lemma executing_covered: "row_ok r \<Longrightarrow> ex_status r = Executing \<Longrightarrow> covered r = ex_reservedCostAtomic r"
  by (simp add: covered_def class_counted_def)

lemma covered_le_reserved: "covered r \<le> ex_reservedCostAtomic r"
  by (simp add: covered_def)

lemma replay_inv:
  assumes inv: "store_inv s" and r: "find_execution org rid s = Some r"
    and a: "admissionFromExecution clock r t s = Inr (s', a)"
  shows "store_inv s'"
proof (cases "s' = s")
  case True
  with inv show ?thesis by simp
next
  case False
  note row = found_row [OF inv r]
  from a False have ex: "ex_status r = Executing"
    by (auto simp: admissionFromExecution_def result_simps split: option.splits exec_status.splits if_splits)
  with a False have h: "holdMandateForReconciliation clock org (ex_mandateId r)
      (update_execution org rid
        (\<lambda>x. if ex_status x = Executing
             then x\<lparr>ex_status := Held, ex_failureCode := Some ''EXECUTION_LEASE_EXPIRED'', ex_updatedAt := t\<rparr>
             else x) s) = Inr s'"
    by (auto simp: admissionFromExecution_def result_simps row(2,3) split: option.splits if_splits)
  show ?thesis
    by (rule hold_inv [OF inv r _ refl _ _ _ h])
      (use ex row(1) held_row_ok(3) [OF row(1) ex, of "Some ''EXECUTION_LEASE_EXPIRED''" 0 t]
        executing_covered [OF row(1) ex] covered_le_reserved in \<open>auto simp: same_row_def covered_def\<close>)
qed

lemma admitInference_Inr:
  assumes "admitInference sha uuid clock pre i s = Inr (s', a)"
  obtains t m p where "find_mandate (ai_organizationId i) (ai_mandateId i) s = Some m"
    "find_policy (ai_organizationId i) (cm_policyId m) (cm_policyVersion m) s = Some p"
    "find_execution (ai_organizationId i) (ai_requestId i) s = None"
    "admit_new sha uuid pre i m (pr_policy p) t s = Inr (s', a)"
  | t r where "find_execution (ai_organizationId i) (ai_requestId i) s = Some r"
    "ex_requestFingerprint r = ai_requestFingerprint i" "admissionFromExecution clock r t s = Inr (s', a)"
proof -
  from assms obtain t where t: "sql_time (ai_decidedAt i) = Inr t"
    by (auto simp: admitInference_def and_then_Inr_iff)
  from assms obtain m where m: "find_mandate (ai_organizationId i) (ai_mandateId i) s = Some m"
    by (cases "find_mandate (ai_organizationId i) (ai_mandateId i) s")
      (auto simp: admitInference_def and_then_Inr_iff)
  from assms m obtain p where p:
    "find_policy (ai_organizationId i) (cm_policyId m) (cm_policyVersion m) s = Some p"
    by (cases "find_policy (ai_organizationId i) (cm_policyId m) (cm_policyVersion m) s")
      (auto simp: admitInference_def and_then_Inr_iff)
  show thesis
  proof (cases "find_execution (ai_organizationId i) (ai_requestId i) s")
    case None
    with assms t m p show thesis by (intro that(1) [OF m p None]) (auto simp: admitInference_def and_then_Inr_iff)
  next
    case (Some r)
    with assms t m p show thesis
      by (intro that(2) [OF Some]) (auto simp: admitInference_def and_then_Inr_iff split: if_splits)
  qed
qed

lemma admit_inv:
  assumes "store_inv s" and "admitInference sha uuid clock pre i s = Inr (s', a)"
  shows "store_inv s'"
  using assms(2) by (rule admitInference_Inr) (blast intro: replay_inv [OF assms(1)] admit_new_inv [OF assms(1)])+

section \<open>The end of an execution keeps the invariant\<close>

lemma mand_ok_not_held:
  assumes "mand_ok ms rs r" and "ex_status r \<noteq> Denied" and "same_row r r'" and "ex_status r' \<noteq> Held"
  shows "mand_ok ms rs r'"
  using assms by (auto simp: mand_ok_def same_row_def split: option.splits)

lemma row_update_inv:
  assumes inv: "store_inv s" and r: "find_execution org rid s = Some r"
    and same: "\<And>x. same_row x (f x)" and ok: "row_ok (f r)" and cov: "covered (f r) \<le> covered r"
    and m: "mand_ok (st_mandates s) (st_resolutions s) (f r)"
  shows "store_inv (update_execution org rid f s)"
  using parts_row_update [of "st_mandates s" "st_executions s" "st_resolutions s" "st_holds s" "(org, rid)" r f]
    assms by (simp add: store_inv_def update_execution_def find_execution_def)

lemma complete_inv:
  assumes inv: "store_inv s" and c: "complete_transaction sha clock i s = Inr (s', x)"
  shows "store_inv s'"
proof -
  from c have cost: "0 \<le> ci_actualCostAtomic i"
    by (auto simp: complete_transaction_def and_then_Inr_iff split: if_splits)
  from c obtain r where r: "find_execution (ci_organizationId i) (ci_requestId i) s = Some r"
    by (cases "find_execution (ci_organizationId i) (ci_requestId i) s")
      (auto simp: complete_transaction_def and_then_Inr_iff)
  with c have ex: "ex_status r = Executing"
    by (auto simp: complete_transaction_def and_then_Inr_iff split: if_splits)
  note row = found_row [OF inv r]
  have fc: "ex_failureCode r = None" using row(1) ex by (simp add: row_ok_def)
  have same: "same_row y (with_response st i t y)" for y st t
    by (simp add: with_response_def same_row_def)
  have ok: "row_ok (with_response st i t r)" for st t
    using row(1) cost fc by (auto simp: row_ok_def with_response_def actual_or_0_def billed_no_response_def)
  have cov: "covered (with_response st i t r) \<le> covered r" for st t
    using executing_covered [OF row(1) ex] covered_le_reserved [of "with_response st i t r"]
    by (simp add: with_response_def)
  from c r ex obtain t where "(\<exists>s1. holdMandateForReconciliation clock (ci_organizationId i) (ex_mandateId r)
        (update_execution (ci_organizationId i) (ci_requestId i) (with_response Held i t) s) = Inr s1 \<and> s' = s1)
    \<or> (\<exists>b. queueShadowBookkeepingBestEffort sha clock (with_response Completed i t r) t
        (update_execution (ci_organizationId i) (ci_requestId i) (with_response Completed i t) s) = (s', b))"
    by (auto simp: complete_transaction_def and_then_Inr_iff split: if_splits prod.splits)
  then show ?thesis
  proof (elim disjE exE conjE)
    fix s1 assume "holdMandateForReconciliation clock (ci_organizationId i) (ex_mandateId r)
        (update_execution (ci_organizationId i) (ci_requestId i) (with_response Held i t) s) = Inr s1" "s' = s1"
    then show ?thesis
      using hold_inv [OF inv r _ refl same ok cov] ex by simp
  next
    fix b assume q: "queueShadowBookkeepingBestEffort sha clock (with_response Completed i t r) t
        (update_execution (ci_organizationId i) (ci_requestId i) (with_response Completed i t) s) = (s', b)"
    have "store_inv (update_execution (ci_organizationId i) (ci_requestId i) (with_response Completed i t) s)"
      by (rule row_update_inv [OF inv r same ok cov])
        (rule mand_ok_not_held [OF row(4) _ same], simp_all add: ex with_response_def)
    then show ?thesis by (rule queue_bookkeeping_inv [OF _ q])
  qed
qed

lemma holdInference_inv:
  assumes inv: "store_inv s" and code: "code \<noteq> ''RECONCILED_BILLED_NO_RESPONSE''"
    and h: "holdInference clock org rid code response t s = Inr s'"
  shows "store_inv s'"
proof -
  from h obtain r where r: "find_execution org rid s = Some r"
    by (cases "find_execution org rid s") (auto simp: holdInference_def and_then_Inr_iff)
  with h have ex: "ex_status r = Executing"
    by (auto simp: holdInference_def and_then_Inr_iff split: if_splits)
  note row = found_row [OF inv r]
  from h r ex obtain u where u: "holdMandateForReconciliation clock org (ex_mandateId r)
     (update_execution org rid (\<lambda>x. x\<lparr>ex_status := Held, ex_response := response,
        ex_failureCode := Some code, ex_updatedAt := u\<rparr>) s) = Inr s'"
    by (auto simp: holdInference_def and_then_Inr_iff split: if_splits)
  show ?thesis
    by (rule hold_inv [OF inv r _ refl _ _ _ u])
      (use ex code held_row_ok(2) [OF row(1) ex, of "Some code" 0]
        executing_covered [OF row(1) ex] in \<open>auto simp: same_row_def covered_def\<close>)
qed

lemma failInference_inv:
  assumes inv: "store_inv s" and f: "failInference org rid code t s = Inr s'"
  shows "store_inv s'"
proof -
  from f obtain u where s': "s' = update_execution org rid
      (\<lambda>x. if ex_status x = Executing
           then x\<lparr>ex_status := Failed, ex_failureCode := Some code, ex_updatedAt := u\<rparr> else x) s"
    by (auto simp: failInference_def and_then_Inr_iff)
  show ?thesis
  proof (cases "find_execution org rid s")
    case None
    then have "s' = s" by (simp add: s' update_execution_def find_execution_def tbl_update_absent)
    with inv show ?thesis by simp
  next
    case (Some r)
    note row = found_row [OF inv Some]
    show ?thesis unfolding s'
    proof (rule row_update_inv [OF inv Some])
      let ?f = "\<lambda>x. if ex_status x = Executing
        then x\<lparr>ex_status := Failed, ex_failureCode := Some code, ex_updatedAt := u\<rparr> else x"
      show same: "same_row x (?f x)" for x by (simp add: same_row_def)
      show "row_ok (?f r)" using row(1) by (auto simp: row_ok_def actual_or_0_def)
      show "covered (?f r) \<le> covered r"
        using executing_covered [OF row(1)] covered_le_reserved [of "?f r"] by (auto split: if_splits)
      show "mand_ok (st_mandates s) (st_resolutions s) (?f r)"
        using row(4) mand_ok_not_held [OF row(4) _ same] by auto
    qed
  qed
qed

text \<open>Releasing the mandate: it gets its state back only when no case is open.\<close>

lemma release_inv:
  assumes inv: "store_inv s" and rel: "release_mandate org mid s = Inr s'"
  shows "store_inv s'"
proof (cases "s' = s")
  case True
  with inv show ?thesis by simp
next
  case False
  from rel False obtain m h where m: "find_mandate org mid s = Some m"
    and none: "\<not> list_ex (\<lambda>r. in_mandate org mid r \<and> open_case s r) (st_executions s)"
    and h: "tbl_find hold_key (org, mid) (st_holds s) = Some h"
    and s': "s' = (let s1 = (if cm_state m = M_reconciliation_hold
                then set_mandate_state org mid
                  (if hd_priorState h = M_active then M_paused else hd_priorState h) s
                else s)
        in s1\<lparr>st_holds := tbl_delete hold_key (org, mid) (st_holds s1)\<rparr>)"
    by (auto simp: release_mandate_def Let_def split: option.splits if_splits)
  have parts: "inv_parts (st_mandates s) (st_executions s) (st_resolutions s) (st_holds s)"
    using inv by (simp add: store_inv_def)
  have prior: "hd_priorState h \<in> set holdable"
    using parts tbl_find_SomeD [OF h] by (simp add: inv_parts_def)
  have "inv_parts (tbl_update mandate_key (org, mid) (\<lambda>r. r\<lparr>cm_state := (if hd_priorState h = M_active
      then M_paused else hd_priorState h)\<rparr>) (st_mandates s)) (st_executions s) (st_resolutions s) (st_holds s)"
    by (rule parts_state_change [OF parts m [unfolded find_mandate_def]])
      (use prior none in \<open>auto simp: holdable_def list_ex_iff in_mandate_def open_case_def resolved_def\<close>)
  note released = parts_holds [OF this] parts_holds [OF parts]
  have "\<forall>x \<in> set (tbl_delete hold_key (org, mid) (st_holds s)). hd_priorState x \<in> set holdable"
    using parts by (auto simp: tbl_delete_def inv_parts_def)
  then show ?thesis using released
    by (simp add: s' Let_def store_inv_def set_mandate_state_def)
qed

lemma settle_same: "same_row x (settle_execution i t x)"
  by (simp add: settle_execution_def same_row_def)

lemma settle_not_held: "ex_status (settle_execution i t x) \<in> {Completed, Failed}"
  by (simp add: settle_execution_def)

lemma resolution_cost_nonneg: "check_resolution_input i = None \<Longrightarrow> 0 \<le> resolution_cost i"
  by (auto simp: check_resolution_input_def resolution_cost_def first_error_None_simps not_less
      simp del: first_error.simps split: option.splits resolution_kind.splits)

text \<open>A resolution that succeeds is either an exact replay or resolves the open case.\<close>

lemma resolve_Inr:
  assumes "resolve_transaction sha clock i s = Inr (s', q)"
  obtains r x where "find_execution (ri_organizationId i) (ri_requestId i) s = Some r"
      "tbl_find resolution_key (ri_organizationId i, ri_requestId i) (st_resolutions s) = Some x"
      "exact_replay i x" "s' = s"
  | r t s2 a where "find_execution (ri_organizationId i) (ri_requestId i) s = Some r"
      "tbl_find resolution_key (ri_organizationId i, ri_requestId i) (st_resolutions s) = None"
      "ex_status r = Held" "check_resolution_input i = None"
      "(\<exists>b. queueShadowBookkeepingBestEffort sha clock (settle_execution i t r) t
          (update_execution (ri_organizationId i) (ri_requestId i) (settle_execution i t)
            (s\<lparr>st_resolutions := st_resolutions s @ [resolution_of i t]\<rparr>)) = (s2, b))
       \<or> s2 = update_execution (ri_organizationId i) (ri_requestId i) (settle_execution i t)
            (s\<lparr>st_resolutions := st_resolutions s @ [resolution_of i t]\<rparr>)"
      "release_mandate (ri_organizationId i) (ex_mandateId r) (s2\<lparr>st_audit := a\<rparr>) = Inr s'"
proof -
  from assms have c: "check_resolution_input i = None"
    by (auto simp: resolve_transaction_def and_then_Inr_iff)
  from assms obtain t where t: "sql_time (ctx_occurredAt (ri_context i)) = Inr t"
    by (auto simp: resolve_transaction_def and_then_Inr_iff)
  from assms obtain r where r: "find_execution (ri_organizationId i) (ri_requestId i) s = Some r"
    by (cases "find_execution (ri_organizationId i) (ri_requestId i) s")
      (auto simp: resolve_transaction_def and_then_Inr_iff)
  show thesis
  proof (cases "tbl_find resolution_key (ri_organizationId i, ri_requestId i) (st_resolutions s)")
    case (Some x)
    with assms c t r show thesis
      by (intro that(1) [OF r Some]) (auto simp: resolve_transaction_def and_then_Inr_iff split: if_splits)
  next
    case None
    with assms c t r have held: "ex_status r = Held"
      by (auto simp: resolve_transaction_def and_then_Inr_iff split: if_splits)
    from assms c t r None held show thesis
      by (auto simp: resolve_transaction_def and_then_Inr_iff Let_def split: prod.splits if_splits
          dest!: appendAudit_Inr intro: that(2) [OF r None held c])
  qed
qed

lemma resolve_inv:
  assumes inv: "store_inv s" and res: "resolve_transaction sha clock i s = Inr (s', q)"
  shows "store_inv s'"
  using res
proof (rule resolve_Inr)
  show "store_inv s'" if "s' = s" using inv that by simp
next
  fix r t s2 a
  let ?s0 = "s\<lparr>st_resolutions := st_resolutions s @ [resolution_of i t]\<rparr>"
  let ?s1 = "update_execution (ri_organizationId i) (ri_requestId i) (settle_execution i t) ?s0"
  assume r: "find_execution (ri_organizationId i) (ri_requestId i) s = Some r" and held: "ex_status r = Held"
    and c: "check_resolution_input i = None"
    and s2: "(\<exists>b. queueShadowBookkeepingBestEffort sha clock (settle_execution i t r) t ?s1 = (s2, b)) \<or> s2 = ?s1"
    and rel: "release_mandate (ri_organizationId i) (ex_mandateId r) (s2\<lparr>st_audit := a\<rparr>) = Inr s'"
  have inv0: "store_inv ?s0" using inv parts_new_resolution by (simp add: store_inv_def)
  have r0: "find_execution (ri_organizationId i) (ri_requestId i) ?s0 = Some r"
    using r by (simp add: find_execution_def)
  note row = found_row [OF inv0 r0]
  have "store_inv ?s1"
  proof (rule row_update_inv [OF inv0 r0 settle_same])
    show "row_ok (settle_execution i t r)"
      using row(1) resolution_cost_nonneg [OF c] by (auto simp: row_ok_def settle_execution_def actual_or_0_def)
    have "covered r = ex_reservedCostAtomic r" using held row(1)
      by (simp add: covered_def class_counted_def row_ok_def)
    then show "covered (settle_execution i t r) \<le> covered r"
      using covered_le_reserved [of "settle_execution i t r"] settle_same [of r i t] by (simp add: same_row_def)
    show "mand_ok (st_mandates ?s0) (st_resolutions ?s0) (settle_execution i t r)"
      by (rule mand_ok_not_held [OF row(4) _ settle_same]) (use held settle_not_held [of i t r] in auto)
  qed
  then have "store_inv s2" using s2 queue_bookkeeping_inv by blast
  then have "store_inv (s2\<lparr>st_audit := a\<rparr>)" by (simp add: store_inv_def)
  then show "store_inv s'" by (rule release_inv [OF _ rel])
qed

section \<open>Administrative steps keep the invariant\<close>

lemma transition_out_of_service:
  "st \<in> set (mandateTransitions m) \<Longrightarrow> m \<in> set out_of_service \<Longrightarrow> st \<in> set out_of_service"
  by (cases m) (auto simp: out_of_service_def)

lemma transition_not_draft: "st \<in> set (mandateTransitions m) \<Longrightarrow> st \<noteq> M_draft"
  by (cases m) auto

lemma transition_inv:
  assumes inv: "store_inv s" and t: "transitionMandateState org mid to c s = Inr s'"
  shows "store_inv s'"
proof -
  from transition_effect [OF t] obtain m a where m: "find_mandate org mid s = Some m"
    and to: "to \<in> set (mandateTransitions (cm_state m))"
    and s': "s' = (set_mandate_state org mid to s)\<lparr>st_audit := a\<rparr>" by blast
  have "inv_parts (tbl_update mandate_key (org, mid) (\<lambda>r. r\<lparr>cm_state := to\<rparr>) (st_mandates s))
      (st_executions s) (st_resolutions s) (st_holds s)"
    by (rule parts_state_change [OF inv [unfolded store_inv_def] m [unfolded find_mandate_def]])
      (use transition_out_of_service [OF to] transition_not_draft [OF to] in auto)
  then show ?thesis by (simp add: s' store_inv_def set_mandate_state_def)
qed

lemma setMandatePolicy_inv:
  assumes inv: "store_inv s" and t: "setMandatePolicy org mid p v c s = Inr s'"
  shows "store_inv s'"
proof -
  let ?g = "\<lambda>r. r\<lparr>cm_policyId := p, cm_policyVersion := v\<rparr>"
  have find: "tbl_find mandate_key k (tbl_update mandate_key (org, mid) ?g ms)
      = (if k = (org, mid) then map_option ?g (tbl_find mandate_key k ms) else tbl_find mandate_key k ms)" for k ms
    by (rule tbl_find_update) (simp add: mandate_key_def)
  have "mand_ok (tbl_update mandate_key (org, mid) ?g ms) rs r = mand_ok ms rs r" for ms rs r
    by (simp add: mand_ok_def find split: option.split)
  then have "inv_parts (tbl_update mandate_key (org, mid) ?g (st_mandates s)) (st_executions s)
      (st_resolutions s) (st_holds s)"
    using inv by (intro parts_mandate_update) (auto simp: store_inv_def inv_parts_def mandate_key_def)
  then show ?thesis using setMandatePolicy_effect [OF t] by (auto simp: store_inv_def)
qed

lemma createMandate_inv:
  "store_inv s \<Longrightarrow> createMandate i s = Inr s' \<Longrightarrow> store_inv s'"
  by (auto simp: store_inv_def dest!: createMandate_effect intro: parts_new_mandate)

section \<open>The store as a transactional component\<close>

text \<open>
  Side condition of a history: the transport never holds an execution with the reason code that the
  counters read as "billed without a response".
\<close>

definition hold_code_allowed :: "store_op \<Rightarrow> policy_store \<Rightarrow> bool" where
  "hold_code_allowed op s \<longleftrightarrow>
     (case op of OpHold _ _ _ code _ _ \<Rightarrow> code \<noteq> ''RECONCILED_BILLED_NO_RESPONSE'' | _ \<Rightarrow> True)"

lemma same_core: "store_inv s \<Longrightarrow> st_mandates s' = st_mandates s \<Longrightarrow> st_executions s' = st_executions s \<Longrightarrow>
    st_resolutions s' = st_resolutions s \<Longrightarrow> st_holds s' = st_holds s \<Longrightarrow> store_inv s'"
  by (simp add: store_inv_def)

lemma store_step_inv:
  assumes inv: "store_inv s" and al: "hold_code_allowed op s" and step: "store_step sha op s = Inr (s', a)"
  shows "store_inv s'"
proof (cases op)
  case OpPublish
  with step inv show ?thesis by (auto simp: no_answer_Inr dest!: publishPolicy_effect elim: same_core)
next
  case OpCreateMandate
  with step inv show ?thesis by (auto simp: no_answer_Inr intro: createMandate_inv)
next
  case OpAssign
  with step inv show ?thesis by (auto simp: no_answer_Inr dest!: assignAgent_effect elim: same_core)
next
  case OpBranch
  with step inv show ?thesis by (auto simp: answer_Inr dest!: createBranch_effect elim: same_core)
next
  case OpTransition
  with step inv show ?thesis by (auto simp: no_answer_Inr intro: transition_inv)
next
  case OpSetPolicy
  with step inv show ?thesis by (auto simp: no_answer_Inr intro: setMandatePolicy_inv)
next
  case OpEvaluate
  with step inv show ?thesis by (auto simp: answer_Inr dest!: evaluateAndRecord_effect elim: same_core)
next
  case OpAdmit
  with step inv show ?thesis by (auto simp: answer_Inr intro: admit_inv)
next
  case OpComplete
  with step inv show ?thesis by (auto simp: answer_Inr intro: complete_inv)
next
  case OpHold
  with step inv al show ?thesis by (auto simp: no_answer_Inr hold_code_allowed_def intro: holdInference_inv)
next
  case OpFail
  with step inv show ?thesis by (auto simp: no_answer_Inr intro: failInference_inv)
next
  case OpResolve
  with step inv show ?thesis by (auto simp: answer_Inr intro: resolve_inv)
next
  case (OpClaimShadow token now org rid t)
  with step obtain x where "claim_shadow token now org rid t s = (s', x)" by (auto simp: answer_Inr)
  from claim_effect [OF this] inv show ?thesis by (auto elim: same_core)
next
  case OpFinishShadow
  with step inv show ?thesis by (auto simp: answer_Inr dest!: finish_effect elim: same_core)
next
  case OpFailShadow
  with step inv show ?thesis by (auto simp: fail_shadow_def elim: same_core)
qed

lemma empty_store_inv: "store_inv (empty_store orgs agents)"
  by (simp add: store_inv_def inv_parts_def empty_store_def tbl_wf_def)

interpretation store_tx: transactional "store_step sha" hold_code_allowed store_inv for sha
  by unfold_locales (rule store_step_inv)

end
