(* ===== verification/PolicyStoreFinality.thy ===== *)
theory PolicyStoreFinality
  imports PolicyStoreSafety
begin

text \<open>
  What no step of the policy store (\<open>src/src/persistence/policyStore.ts\<close>) takes back: the identity and the
  reservation of an execution, the outcome of a finished one, a resolution, a decision, the maximum of
  a mandate, a delegated branch.
\<close>

section \<open>How executions evolve\<close>

definition finished :: "execution_row \<Rightarrow> bool" where
  "finished r \<longleftrightarrow> ex_status r \<in> {Denied, Completed, Failed}"

definition row_evolves :: "execution_row \<Rightarrow> execution_row \<Rightarrow> bool" where
  "row_evolves r r' \<longleftrightarrow> same_row r r' \<and> (finished r \<longrightarrow> authoritative r' = authoritative r)
     \<and> (ex_status r' = Denied \<longrightarrow> ex_status r = Denied)
     \<and> (ex_status r' = Executing \<longrightarrow> ex_status r = Executing)"

definition evolves :: "policy_store \<Rightarrow> policy_store \<Rightarrow> bool" where
  "evolves s s' \<longleftrightarrow>
     (\<forall>k r. tbl_find execution_key k (st_executions s) = Some r \<longrightarrow>
        (\<exists>r'. tbl_find execution_key k (st_executions s') = Some r' \<and> row_evolves r r'))"

lemma same_row_refl [simp]: "same_row r r"
  by (simp add: same_row_def)

lemma same_row_trans: "same_row r r' \<Longrightarrow> same_row r' r'' \<Longrightarrow> same_row r r''"
  by (simp add: same_row_def)

lemma authoritative_finished: "authoritative r' = authoritative r \<Longrightarrow> finished r \<Longrightarrow> finished r'"
proof -
  have "ex_status (authoritative x) = ex_status x" for x by (simp add: authoritative_def)
  then show "authoritative r' = authoritative r \<Longrightarrow> finished r \<Longrightarrow> finished r'"
    by (metis finished_def)
qed

lemma row_evolves_refl [simp]: "row_evolves r r"
  by (simp add: row_evolves_def)

lemma row_evolves_trans: "row_evolves r r' \<Longrightarrow> row_evolves r' r'' \<Longrightarrow> row_evolves r r''"
  using same_row_trans [of r r' r''] authoritative_finished [of r' r] by (auto simp: row_evolves_def)

lemma evolvesE:
  assumes "evolves s s'" and "tbl_find execution_key k (st_executions s) = Some r"
  obtains r' where "tbl_find execution_key k (st_executions s') = Some r'" and "row_evolves r r'"
  using assms unfolding evolves_def by blast

lemma evolves_same: "st_executions s' = st_executions s \<Longrightarrow> evolves s s'"
  by (simp add: evolves_def)

lemma evolves_trans: "evolves s s' \<Longrightarrow> evolves s' s'' \<Longrightarrow> evolves s s''"
  unfolding evolves_def by (meson row_evolves_trans)

lemma evolves_update:
  assumes same: "\<And>x. same_row x (f x)"
    and nd: "\<And>x. ex_status (f x) = Denied \<Longrightarrow> ex_status x = Denied"
    and ne: "\<And>x. ex_status (f x) = Executing \<Longrightarrow> ex_status x = Executing"
    and fin: "\<And>r. find_execution org rid s = Some r \<Longrightarrow> finished r \<Longrightarrow> authoritative (f r) = authoritative r"
  shows "evolves s (update_execution org rid f s)"
proof -
  have "tbl_find execution_key k (st_executions (update_execution org rid f s)) =
      (if k = (org, rid) then map_option f (find_execution org rid s)
       else tbl_find execution_key k (st_executions s))" for k
    using same_row_key [OF same] by (simp add: update_execution_def find_execution_def tbl_find_update)
  moreover have "row_evolves r (f r)" if "find_execution org rid s = Some r" for r
    unfolding row_evolves_def using same [of r] nd [of r] ne [of r] fin [OF that] by blast
  ultimately show ?thesis by (auto simp: evolves_def find_execution_def)
qed

lemma evolves_insert:
  "execution_key r \<notin> execution_key ` set (st_executions s) \<Longrightarrow>
     evolves s (s\<lparr>st_decisions := ds, st_executions := st_executions s @ [r]\<rparr>)"
  by (auto simp: evolves_def tbl_find_append)

lemma evolves_shadow: "shadow_change r s s' \<Longrightarrow> evolves s s'"
proof -
  assume "shadow_change r s s'"
  then obtain f cs q where f: "shadow_only f"
    and s': "s' = (update_execution (ex_organizationId r) (ex_requestId r) f s)\<lparr>st_counters := cs, st_queue := q\<rparr>"
    by (auto simp: shadow_change_def)
  have "evolves s (update_execution (ex_organizationId r) (ex_requestId r) f s)"
    by (rule evolves_update) (use f in \<open>auto simp: shadow_only_fields(1,6) [OF f] shadow_only_def\<close>)
  then show ?thesis by (simp add: s' evolves_def)
qed

lemma hold_executions:
  "holdMandateForReconciliation clock org mid s = Inr s' \<Longrightarrow>
     st_executions s' = st_executions s \<and> st_resolutions s' = st_resolutions s
     \<and> st_decisions s' = st_decisions s \<and> st_branches s' = st_branches s"
  by (auto simp: holdMandateForReconciliation_def Let_def set_mandate_state_def split: option.splits if_splits)

lemma release_executions:
  "release_mandate org mid s = Inr s' \<Longrightarrow>
     st_executions s' = st_executions s \<and> st_resolutions s' = st_resolutions s
     \<and> st_decisions s' = st_decisions s \<and> st_branches s' = st_branches s"
  by (auto simp: release_mandate_def Let_def set_mandate_state_def split: option.splits if_splits)

lemma evolves_hold:
  assumes "evolves s s1" and "holdMandateForReconciliation clock org mid s1 = Inr s'"
  shows "evolves s s'"
  using assms(1) hold_executions [OF assms(2)] by (simp add: evolves_def)

text \<open>The replay of a request returns the store unchanged or puts the executing row on hold.\<close>

lemma replay_effect:
  assumes "admissionFromExecution clock r t s = Inr (s', a)"
  shows "s' = s \<or> (ex_status r = Executing \<and> a = AdmitFailed
    \<and> holdMandateForReconciliation clock (ex_organizationId r) (ex_mandateId r)
      (update_execution (ex_organizationId r) (ex_requestId r)
        (\<lambda>x. if ex_status x = Executing
             then x\<lparr>ex_status := Held, ex_failureCode := Some ''EXECUTION_LEASE_EXPIRED'', ex_updatedAt := t\<rparr>
             else x) s) = Inr s')"
  using assms
  by (cases "tbl_find decision_key (ex_organizationId r, ex_decisionId r) (st_decisions s)"; cases "ex_status r")
    (auto simp: admissionFromExecution_def and_then_Inr_iff split: option.splits if_splits)

lemma new_execution_key: "execution_key (new_execution i uuid st n t) = (ai_organizationId i, ai_requestId i)"
  by (simp add: execution_key_def new_execution_def)

lemma evolves_admit:
  assumes "admitInference sha uuid clock pre i s = Inr (s', a)"
  shows "evolves s s'"
  using assms
proof (rule admitInference_Inr)
  fix t m p assume "admit_new sha uuid pre i m (pr_policy p) t s = Inr (s', a)"
  from admit_new_effect [OF this] show ?thesis
    by (cases pre) (auto simp: evolves_same new_execution_key evolves_insert)
next
  fix t r assume "admissionFromExecution clock r t s = Inr (s', a)"
  from replay_effect [OF this] show ?thesis
  proof (elim disjE conjE)
    assume "s' = s" then show ?thesis by (simp add: evolves_same)
  next
    assume "holdMandateForReconciliation clock (ex_organizationId r) (ex_mandateId r)
      (update_execution (ex_organizationId r) (ex_requestId r)
        (\<lambda>x. if ex_status x = Executing
             then x\<lparr>ex_status := Held, ex_failureCode := Some ''EXECUTION_LEASE_EXPIRED'', ex_updatedAt := t\<rparr>
             else x) s) = Inr s'"
    then show ?thesis
      by (rule evolves_hold [rotated]) (rule evolves_update, auto simp: same_row_def finished_def split: if_splits)
  qed
qed

lemma evolves_complete:
  assumes c: "complete_transaction sha clock i s = Inr (s', x)"
  shows "evolves s s'"
proof -
  from c obtain r where r: "find_execution (ci_organizationId i) (ci_requestId i) s = Some r"
    by (cases "find_execution (ci_organizationId i) (ci_requestId i) s")
      (auto simp: complete_transaction_def and_then_Inr_iff)
  with c have ex: "ex_status r = Executing"
    by (auto simp: complete_transaction_def and_then_Inr_iff split: if_splits)
  have up: "evolves s (update_execution (ci_organizationId i) (ci_requestId i) (with_response st i t) s)"
    if "st \<notin> {Denied, Executing}" for st t
    by (rule evolves_update) (use that r ex in \<open>auto simp: with_response_def same_row_def finished_def\<close>)
  from c r ex show ?thesis
    by (auto simp: complete_transaction_def and_then_Inr_iff split: if_splits prod.splits
        intro: evolves_hold [OF up] evolves_trans [OF up evolves_shadow [OF queue_bookkeeping_effect]])
qed

lemma evolves_holdInference:
  assumes h: "holdInference clock org rid code response t s = Inr s'"
  shows "evolves s s'"
proof -
  from h obtain r where r: "find_execution org rid s = Some r"
    by (cases "find_execution org rid s") (auto simp: holdInference_def and_then_Inr_iff)
  with h have ex: "ex_status r = Executing"
    by (auto simp: holdInference_def and_then_Inr_iff split: if_splits)
  have up: "evolves s (update_execution org rid (\<lambda>x. x\<lparr>ex_status := Held, ex_response := response,
      ex_failureCode := Some code, ex_updatedAt := u\<rparr>) s)" for u
    by (rule evolves_update) (use r ex in \<open>auto simp: same_row_def finished_def\<close>)
  from h r ex show ?thesis
    by (auto simp: holdInference_def and_then_Inr_iff split: if_splits intro: evolves_hold [OF up])
qed

lemma evolves_fail:
  assumes "failInference org rid code t s = Inr s'"
  shows "evolves s s'"
proof -
  from assms obtain u where s': "s' = update_execution org rid
      (\<lambda>x. if ex_status x = Executing
           then x\<lparr>ex_status := Failed, ex_failureCode := Some code, ex_updatedAt := u\<rparr> else x) s"
    by (auto simp: failInference_def and_then_Inr_iff)
  show ?thesis unfolding s' by (rule evolves_update) (auto simp: same_row_def finished_def split: if_splits)
qed

lemma evolves_resolve:
  assumes res: "resolve_transaction sha clock i s = Inr (s', q)"
  shows "evolves s s'"
  using res
proof (rule resolve_Inr)
  show "evolves s s'" if "s' = s" using that by (simp add: evolves_same)
next
  fix r t s2 a
  let ?s0 = "s\<lparr>st_resolutions := st_resolutions s @ [resolution_of i t]\<rparr>"
  let ?s1 = "update_execution (ri_organizationId i) (ri_requestId i) (settle_execution i t) ?s0"
  assume r: "find_execution (ri_organizationId i) (ri_requestId i) s = Some r" and held: "ex_status r = Held"
    and s2: "(\<exists>b. queueShadowBookkeepingBestEffort sha clock (settle_execution i t r) t ?s1 = (s2, b)) \<or> s2 = ?s1"
    and rel: "release_mandate (ri_organizationId i) (ex_mandateId r) (s2\<lparr>st_audit := a\<rparr>) = Inr s'"
  have "evolves s ?s0" by (simp add: evolves_same)
  moreover have "evolves ?s0 ?s1"
    by (rule evolves_update [OF settle_same])
      (use r held in \<open>auto simp: finished_def find_execution_def settle_execution_def split: if_splits\<close>)
  moreover have "evolves ?s1 s2"
    using s2 evolves_shadow [OF queue_bookkeeping_effect] by (auto simp: evolves_same)
  moreover have "evolves s2 s'" using release_executions [OF rel] by (simp add: evolves_same)
  ultimately show "evolves s s'" by (meson evolves_trans)
qed

lemma store_step_evolves:
  assumes "store_step sha op s = Inr (s', a)"
  shows "evolves s s'"
proof (cases op)
  case (OpClaimShadow token now org rid t)
  with assms obtain x where "claim_shadow token now org rid t s = (s', x)" by (auto simp: answer_Inr)
  from claim_effect [OF this] show ?thesis by (auto intro: evolves_same)
qed (use assms in \<open>auto simp: answer_Inr no_answer_Inr fail_shadow_def set_mandate_state_def
    dest!: publishPolicy_effect createMandate_effect assignAgent_effect createBranch_effect
      transition_effect setMandatePolicy_effect evaluateAndRecord_effect finish_effect
    intro: evolves_same evolves_admit evolves_complete evolves_holdInference evolves_fail evolves_resolve\<close>)

section \<open>Tables that only grow\<close>

definition grows :: "policy_store \<Rightarrow> policy_store \<Rightarrow> bool" where
  "grows s s' \<longleftrightarrow>
     (\<exists>ds rs. st_decisions s' = st_decisions s @ ds \<and> st_resolutions s' = st_resolutions s @ rs)
     \<and> st_branches s' = st_branches s"

lemma grows_refl [simp]: "grows s s"
  by (simp add: grows_def)

lemma grows_trans: "grows s s' \<Longrightarrow> grows s' s'' \<Longrightarrow> grows s s''"
  by (auto simp: grows_def)

lemma grows_same:
  "st_decisions s' = st_decisions s \<Longrightarrow> st_resolutions s' = st_resolutions s \<Longrightarrow>
     st_branches s' = st_branches s \<Longrightarrow> grows s s'"
  by (simp add: grows_def)

lemma grows_update: "grows s (update_execution org rid f s)"
  by (simp add: grows_def update_execution_def)

lemma grows_hold: "grows s s1 \<Longrightarrow> holdMandateForReconciliation clock org mid s1 = Inr s' \<Longrightarrow> grows s s'"
  using hold_executions [of clock org mid s1 s'] by (auto simp: grows_def)

lemma grows_shadow: "grows s s1 \<Longrightarrow> shadow_change r s1 s' \<Longrightarrow> grows s s'"
  by (auto simp: grows_def shadow_change_def update_execution_def)

lemma grows_admit:
  assumes "admitInference sha uuid clock pre i s = Inr (s', a)"
  shows "grows s s'"
  using assms
proof (rule admitInference_Inr)
  fix t m p assume "admit_new sha uuid pre i m (pr_policy p) t s = Inr (s', a)"
  from admit_new_effect [OF this] show ?thesis by (cases pre) (auto simp: grows_def)
next
  fix t r assume "admissionFromExecution clock r t s = Inr (s', a)"
  from replay_effect [OF this] show ?thesis using grows_hold [OF grows_update] by auto
qed

lemma grows_complete:
  "complete_transaction sha clock i s = Inr (s', x) \<Longrightarrow> grows s s'"
  by (auto simp: complete_transaction_def and_then_Inr_iff split: option.splits if_splits prod.splits
      intro: grows_hold [OF grows_update] grows_shadow [OF grows_update queue_bookkeeping_effect])

lemma grows_holdInference: "holdInference clock org rid code response t s = Inr s' \<Longrightarrow> grows s s'"
  by (auto simp: holdInference_def and_then_Inr_iff split: option.splits if_splits
      intro: grows_hold [OF grows_update])

lemma grows_resolve:
  assumes res: "resolve_transaction sha clock i s = Inr (s', q)"
  shows "grows s s'"
  using res
proof (rule resolve_Inr)
  show "grows s s'" if "s' = s" using that by simp
next
  fix r t s2 a
  let ?s0 = "s\<lparr>st_resolutions := st_resolutions s @ [resolution_of i t]\<rparr>"
  let ?s1 = "update_execution (ri_organizationId i) (ri_requestId i) (settle_execution i t) ?s0"
  assume s2: "(\<exists>b. queueShadowBookkeepingBestEffort sha clock (settle_execution i t r) t ?s1 = (s2, b)) \<or> s2 = ?s1"
    and rel: "release_mandate (ri_organizationId i) (ex_mandateId r) (s2\<lparr>st_audit := a\<rparr>) = Inr s'"
  have "grows s ?s1" by (simp add: grows_def update_execution_def)
  then have "grows s s2" using s2 grows_shadow [OF _ queue_bookkeeping_effect] by blast
  moreover have "grows s2 s'" using release_executions [OF rel] by (simp add: grows_def)
  ultimately show "grows s s'" by (rule grows_trans)
qed

lemma store_step_grows:
  assumes "store_step sha op s = Inr (s', a)" and "\<And>i. op \<noteq> OpBranch i"
  shows "grows s s'"
proof (cases op)
  case (OpClaimShadow token now org rid t)
  with assms obtain x where "claim_shadow token now org rid t s = (s', x)" by (auto simp: answer_Inr)
  from claim_effect [OF this] show ?thesis by (auto intro: grows_same)
next
  case (OpFail org rid code t)
  with assms show ?thesis by (auto simp: no_answer_Inr failInference_def and_then_Inr_iff intro: grows_update)
next
  case (OpEvaluate i)
  with assms show ?thesis by (auto simp: answer_Inr grows_def dest!: evaluateAndRecord_effect)
next
  case (OpBranch i)
  with assms(2) [of i] show ?thesis by simp
qed (use assms in \<open>auto simp: answer_Inr no_answer_Inr fail_shadow_def set_mandate_state_def
    dest!: publishPolicy_effect createMandate_effect assignAgent_effect
      transition_effect setMandatePolicy_effect finish_effect
    intro: grows_same grows_admit grows_complete grows_holdInference grows_resolve\<close>)

lemma store_step_lookup:
  assumes "store_step sha op s = Inr (s', a)"
  shows "tbl_find decision_key k (st_decisions s) = Some d \<Longrightarrow> tbl_find decision_key k (st_decisions s') = Some d"
    and "tbl_find resolution_key k (st_resolutions s) = Some x \<Longrightarrow>
      tbl_find resolution_key k (st_resolutions s') = Some x"
proof -
  have "\<exists>ds rs. st_decisions s' = st_decisions s @ ds \<and> st_resolutions s' = st_resolutions s @ rs"
  proof (cases "\<exists>i. op = OpBranch i")
    case True
    with assms show ?thesis by (auto simp: answer_Inr dest!: createBranch_effect)
  next
    case False
    with store_step_grows [OF assms] show ?thesis by (auto simp: grows_def)
  qed
  then show "tbl_find decision_key k (st_decisions s) = Some d \<Longrightarrow> tbl_find decision_key k (st_decisions s') = Some d"
    and "tbl_find resolution_key k (st_resolutions s) = Some x \<Longrightarrow>
      tbl_find resolution_key k (st_resolutions s') = Some x"
    by (auto simp: tbl_find_append)
qed

section \<open>Facts that stay\<close>

text \<open>An execution with its decision, its reservation and its fingerprint.\<close>

definition accepted_request :: "policy_store \<Rightarrow> (string \<times> string) \<times> stored_decision \<times> int \<times> string \<Rightarrow> bool" where
  "accepted_request s = (\<lambda>(k, d, n, fp). \<exists>r. tbl_find execution_key k (st_executions s) = Some r
     \<and> ex_status r \<noteq> Denied \<and> ex_reservedCostAtomic r = n \<and> ex_requestFingerprint r = fp
     \<and> tbl_find decision_key (ex_organizationId r, ex_decisionId r) (st_decisions s) = Some d)"

definition finished_as :: "policy_store \<Rightarrow> (string \<times> string) \<times> execution_row \<Rightarrow> bool" where
  "finished_as s = (\<lambda>(k, x). \<exists>r. tbl_find execution_key k (st_executions s) = Some r \<and> finished r
     \<and> authoritative r = x)"

interpretation store_requests: irrevocable "store_step sha" accepted_request for sha
proof unfold_locales
  fix s s' :: policy_store and k op a
  assume acc: "accepted_request s k" and step: "store_step sha op s = Inr (s', a)"
  obtain key d n fp where k: "k = (key, d, n, fp)" by (cases k)
  from acc obtain r where r: "tbl_find execution_key key (st_executions s) = Some r"
    "ex_status r \<noteq> Denied" "ex_reservedCostAtomic r = n" "ex_requestFingerprint r = fp"
    "tbl_find decision_key (ex_organizationId r, ex_decisionId r) (st_decisions s) = Some d"
    by (auto simp: accepted_request_def k)
  from evolvesE [OF store_step_evolves [OF step] r(1)] obtain r' where
    r': "tbl_find execution_key key (st_executions s') = Some r'" "row_evolves r r'" .
  with r store_step_lookup(1) [OF step r(5)] show "accepted_request s' k"
    by (auto simp: accepted_request_def k row_evolves_def same_row_def)
qed

interpretation store_outcomes: irrevocable "store_step sha" finished_as for sha
proof unfold_locales
  fix s s' :: policy_store and k op a
  assume f: "finished_as s k" and step: "store_step sha op s = Inr (s', a)"
  obtain key x where k: "k = (key, x)" by (cases k)
  from f obtain r where r: "tbl_find execution_key key (st_executions s) = Some r" "finished r"
    "authoritative r = x" by (auto simp: finished_as_def k)
  from evolvesE [OF store_step_evolves [OF step] r(1)] obtain r' where
    r': "tbl_find execution_key key (st_executions s') = Some r'" "row_evolves r r'" .
  with r have "authoritative r' = x" by (auto simp: row_evolves_def)
  with r r' authoritative_finished [of r' r] show "finished_as s' k" by (auto simp: finished_as_def k)
qed

interpretation store_resolutions: irrevocable "store_step sha"
    "\<lambda>s (k, x). tbl_find resolution_key k (st_resolutions s) = Some x" for sha
  by unfold_locales (auto intro: store_step_lookup(2))

text \<open>A request admitted for execution is recorded with its decision, reservation and fingerprint.\<close>

lemma admit_execute_accepted:
  assumes "admitInference sha uuid clock False i s = Inr (s1, AdmitExecute d n)"
  shows "accepted_request s1 ((ai_organizationId i, ai_requestId i), d, n, ai_requestFingerprint i)"
    and "find_execution (ai_organizationId i) (ai_requestId i) s = None"
    and "pd_outcome (sd_result d) = ALLOW" and "sd_requestId d = ai_requestId i"
proof -
  let ?k = "(ai_organizationId i, ai_requestId i)"
  have "accepted_request s1 (?k, d, n, ai_requestFingerprint i)
      \<and> find_execution (ai_organizationId i) (ai_requestId i) s = None
      \<and> pd_outcome (sd_result d) = ALLOW \<and> sd_requestId d = ai_requestId i"
    using assms
  proof (rule admitInference_Inr)
    fix t m p assume none: "find_execution (ai_organizationId i) (ai_requestId i) s = None"
      and an: "admit_new sha uuid False i m (pr_policy p) t s = Inr (s1, AdmitExecute d n)"
    let ?r = "new_execution i uuid Executing (ai_estimatedCostAtomic i) t"
    from admit_new_effect [OF an] have d: "decide sha uuid i m (pr_policy p) t s = Inr d"
      and n: "n = ai_estimatedCostAtomic i" and allow: "pd_outcome (sd_result d) = ALLOW"
      and s1: "st_decisions s1 = st_decisions s @ [d]" "st_executions s1 = st_executions s @ [?r]"
      and new: "?k \<notin> execution_key ` set (st_executions s)" "decision_key d \<notin> decision_key ` set (st_decisions s)"
      by (auto split: if_splits)
    have "tbl_find execution_key ?k (st_executions s1) = Some ?r"
      using tbl_find_new [of execution_key ?r "st_executions s"] new(1) by (simp add: s1 new_execution_key)
    moreover have "decision_key d = (ai_organizationId i, uuid)" "sd_requestId d = ai_requestId i"
      using decide_evaluates [OF d] by (simp_all add: decision_key_def)
    moreover from this have "tbl_find decision_key (ex_organizationId ?r, ex_decisionId ?r) (st_decisions s1) = Some d"
      using tbl_find_new [OF new(2)] by (simp add: s1 new_execution_def)
    ultimately show ?thesis using none allow by (auto simp: accepted_request_def n new_execution_def)
  next
    fix t r assume "admissionFromExecution clock r t s = Inr (s1, AdmitExecute d n)"
    then show ?thesis
      by (auto simp: admissionFromExecution_def and_then_Inr_iff split: option.splits exec_status.splits if_splits)
  qed
  then show "accepted_request s1 (?k, d, n, ai_requestFingerprint i)"
    and "find_execution (ai_organizationId i) (ai_requestId i) s = None"
    and "pd_outcome (sd_result d) = ALLOW" and "sd_requestId d = ai_requestId i" by auto
qed

section \<open>A resolution leaves its record\<close>

lemma sql_time_context: "validateContext c = None \<Longrightarrow> \<exists>t. sql_time (ctx_occurredAt c) = Inr t"
  by (auto simp: validateContext_None sql_time_def bad_time_def split: option.splits)

lemma shadow_change_resolutions: "shadow_change r s s' \<Longrightarrow> st_resolutions s' = st_resolutions s"
  by (auto simp: shadow_change_def update_execution_def)

lemma exact_replay_resolution_of: "exact_replay i (resolution_of i t)"
  by (simp add: exact_replay_def resolution_of_def)

lemma resolution_of_key: "resolution_key (resolution_of i t) = (ri_organizationId i, ri_requestId i)"
  by (simp add: resolution_key_def resolution_of_def)

lemma find_new_resolution:
  "tbl_find resolution_key (ri_organizationId i, ri_requestId i) rs = None \<Longrightarrow>
     tbl_find resolution_key (ri_organizationId i, ri_requestId i) (rs @ [resolution_of i t])
       = Some (resolution_of i t)"
  by (simp add: tbl_find_append) (simp add: tbl_find_def resolution_of_key)

lemma resolve_records:
  assumes res: "resolve_transaction sha clock i s = Inr (s', q)"
  shows "\<exists>x. tbl_find resolution_key (ri_organizationId i, ri_requestId i) (st_resolutions s') = Some x
    \<and> exact_replay i x"
  using res
proof (rule resolve_Inr)
  show ?thesis if "tbl_find resolution_key (ri_organizationId i, ri_requestId i) (st_resolutions s) = Some x"
    "exact_replay i x" "s' = s" for x
    using that by simp
next
  fix r t s2 a
  let ?s0 = "s\<lparr>st_resolutions := st_resolutions s @ [resolution_of i t]\<rparr>"
  let ?s1 = "update_execution (ri_organizationId i) (ri_requestId i) (settle_execution i t) ?s0"
  assume none: "tbl_find resolution_key (ri_organizationId i, ri_requestId i) (st_resolutions s) = None"
    and s2: "(\<exists>b. queueShadowBookkeepingBestEffort sha clock (settle_execution i t r) t ?s1 = (s2, b)) \<or> s2 = ?s1"
    and rel: "release_mandate (ri_organizationId i) (ex_mandateId r) (s2\<lparr>st_audit := a\<rparr>) = Inr s'"
  have "st_resolutions s2 = st_resolutions ?s1"
    using s2 shadow_change_resolutions [OF queue_bookkeeping_effect] by blast
  then have "st_resolutions s' = st_resolutions s @ [resolution_of i t]"
    using release_executions [OF rel] by (simp add: update_execution_def)
  with find_new_resolution [OF none] exact_replay_resolution_of show ?thesis by auto
qed

end
