(* ===== verification/PolicyDelegation.thy ===== *)
theory PolicyDelegation
  imports PolicyStoreFinality
begin

text \<open>
  Delegated authority over the histories of the policy store (\<open>src/src/persistence/policyStore.ts\<close>,
  \<open>createBranch\<close>): however branches are created, a branch never has more workload classes, a later
  expiry or a larger budget than a branch it descends from, and the children of a branch together stay
  within its maximum. A stored branch is protected by its delegation hash.
\<close>

section \<open>The delegation invariant\<close>

definition narrows :: "branch_row \<Rightarrow> branch_row \<Rightarrow> bool" where
  "narrows p b \<longleftrightarrow>
     set (br_allowedWorkloadClasses b) \<subseteq> set (br_allowedWorkloadClasses p)
     \<and> br_policyId b = br_policyId p \<and> br_policyVersion b = br_policyVersion p
     \<and> \<not> expiry_exceeds (br_expiresAt b) (br_expiresAt p)
     \<and> br_maximumSpendAtomic b \<le> br_maximumSpendAtomic p"

definition parent_of :: "branch_row list \<Rightarrow> branch_row \<Rightarrow> branch_row option" where
  "parent_of bs b =
     (case br_parentBranchId b of None \<Rightarrow> None
      | Some p \<Rightarrow> tbl_find branch_key (br_organizationId b, br_mandateId b, p) bs)"

definition children_total :: "branch_row list \<Rightarrow> branch_row \<Rightarrow> int" where
  "children_total bs b = delegated_total (br_organizationId b) (br_mandateId b) (br_branchId b) bs"

definition branch_ok :: "(string \<Rightarrow> string) \<Rightarrow> branch_row list \<Rightarrow> branch_row \<Rightarrow> bool" where
  "branch_ok sha bs b \<longleftrightarrow>
     verifyBranchIntegrity sha b = None \<and> 0 < br_maximumSpendAtomic b
     \<and> (br_parentBranchId b \<noteq> None \<longrightarrow> (\<exists>p. parent_of bs b = Some p \<and> narrows p b))
     \<and> children_total bs b \<le> br_maximumSpendAtomic b"

definition branches_ok :: "(string \<Rightarrow> string) \<Rightarrow> policy_store \<Rightarrow> bool" where
  "branches_ok sha s \<longleftrightarrow>
     tbl_wf branch_key (st_branches s) \<and> (\<forall>b \<in> set (st_branches s). branch_ok sha (st_branches s) b)"

declare branches_ok_def [wf_defs]

lemma parent_of_append: "parent_of bs b = Some p \<Longrightarrow> parent_of (bs @ xs) b = Some p"
  by (auto simp: parent_of_def tbl_find_append split: option.splits)

lemma delegated_total_append:
  "delegated_total org mid p (bs @ [b]) =
     delegated_total org mid p bs + (if is_child_of org mid p b then br_maximumSpendAtomic b else 0)"
  by (simp add: delegated_total_def)

lemma delegated_total_nonneg:
  "(\<And>b. b \<in> set bs \<Longrightarrow> 0 < br_maximumSpendAtomic b) \<Longrightarrow> 0 \<le> delegated_total org mid p bs"
  unfolding delegated_total_def by (rule sum_list_nonneg_int) force

text \<open>What the checks of \<open>createBranch\<close> establish for the new row.\<close>

lemma new_branch_fields:
  "br_organizationId (new_branch sha i m t) = bi_organizationId i"
  "br_mandateId (new_branch sha i m t) = bi_mandateId i"
  "br_branchId (new_branch sha i m t) = bi_id i"
  "br_parentBranchId (new_branch sha i m t) = bi_parentBranchId i"
  "set (br_allowedWorkloadClasses (new_branch sha i m t)) = set (bi_allowedWorkloadClasses i)"
  "br_maximumSpendAtomic (new_branch sha i m t) = bi_maximumSpendAtomic i"
  "br_expiresAt (new_branch sha i m t) = optional_time (bi_expiresAt i)"
  "br_policyId (new_branch sha i m t) = cm_policyId m"
  "br_policyVersion (new_branch sha i m t) = cm_policyVersion m"
  by (simp_all add: new_branch_def branch_body_def)

lemma creation_positive: "check_branch_creation i = None \<Longrightarrow> 0 < bi_maximumSpendAtomic i"
  by (simp add: check_branch_creation_def first_error_None_simps del: first_error.simps)

lemma check_parent_None:
  assumes "check_parent sha i m s = None" and "bi_parentBranchId i = Some parent"
  obtains p where "tbl_find branch_key (bi_organizationId i, bi_mandateId i, parent) (st_branches s) = Some p"
    "set (bi_allowedWorkloadClasses i) \<subseteq> set (br_allowedWorkloadClasses p)"
    "br_policyId p = cm_policyId m" "br_policyVersion p = cm_policyVersion m"
    "\<not> expiry_exceeds (optional_time (bi_expiresAt i)) (br_expiresAt p)"
    "bi_maximumSpendAtomic i + delegated_total (bi_organizationId i) (bi_mandateId i) parent (st_branches s)
      \<le> br_maximumSpendAtomic p"
proof (cases "tbl_find branch_key (bi_organizationId i, bi_mandateId i, parent) (st_branches s)")
  case None
  with assms show thesis by (simp add: check_parent_def)
next
  case (Some p)
  have "first_error
      [(br_policyId p \<noteq> cm_policyId m \<or> br_policyVersion p \<noteq> cm_policyVersion m,
        Thrown ''MANDATE_PARENT_BRANCH_POLICY_MISMATCH''),
       (list_ex (\<lambda>c. c \<notin> set (br_allowedWorkloadClasses p)) (bi_allowedWorkloadClasses i),
        Thrown ''MANDATE_BRANCH_PARENT_AUTHORITY_EXCEEDED''),
       (br_maximumSpendAtomic p < bi_maximumSpendAtomic i
          + delegated_total (bi_organizationId i) (bi_mandateId i) parent (st_branches s),
        Thrown ''MANDATE_BRANCH_PARENT_BUDGET_EXCEEDED''),
       (expiry_exceeds (optional_time (bi_expiresAt i)) (br_expiresAt p),
        Thrown ''MANDATE_BRANCH_PARENT_EXPIRY_EXCEEDED'')] = None"
    using assms Some by (simp add: check_parent_def del: first_error.simps)
  then show thesis
    by (intro that [OF Some]) (auto simp: first_error_None_simps list_ex_iff not_less simp del: first_error.simps)
qed

lemma new_branch_narrows:
  assumes ok: "\<forall>b \<in> set (st_branches s). 0 < br_maximumSpendAtomic b"
    and c: "check_branch_authority sha i m pol s = None" and "bi_parentBranchId i \<noteq> None"
  shows "\<exists>p. parent_of (st_branches s) (new_branch sha i m t) = Some p \<and> narrows p (new_branch sha i m t)
    \<and> bi_maximumSpendAtomic i + children_total (st_branches s) p \<le> br_maximumSpendAtomic p"
proof -
  from assms(3) obtain parent where parent: "bi_parentBranchId i = Some parent" by blast
  from c have "check_parent sha i m s = None" by (simp add: check_branch_authority_def)
  then show ?thesis
  proof (rule check_parent_None [OF _ parent])
    fix p assume p: "tbl_find branch_key (bi_organizationId i, bi_mandateId i, parent) (st_branches s) = Some p"
      "set (bi_allowedWorkloadClasses i) \<subseteq> set (br_allowedWorkloadClasses p)"
      "br_policyId p = cm_policyId m" "br_policyVersion p = cm_policyVersion m"
      "\<not> expiry_exceeds (optional_time (bi_expiresAt i)) (br_expiresAt p)"
      "bi_maximumSpendAtomic i + delegated_total (bi_organizationId i) (bi_mandateId i) parent (st_branches s)
        \<le> br_maximumSpendAtomic p"
    have key: "br_organizationId p = bi_organizationId i" "br_mandateId p = bi_mandateId i" "br_branchId p = parent"
      using tbl_find_SomeD [OF p(1)] by (simp_all add: branch_key_def)
    have "0 \<le> delegated_total (bi_organizationId i) (bi_mandateId i) parent (st_branches s)"
      using ok by (intro delegated_total_nonneg) auto
    with p key show ?thesis
      by (auto simp: parent_of_def new_branch_fields parent narrows_def children_total_def)
  qed
qed

lemma createBranch_ok:
  assumes inv: "branches_ok sha s" and c: "createBranch sha i s = Inr (s', b)"
  shows "branches_ok sha s'"
proof -
  from createBranch_effect [OF c] obtain m pol t a where creation: "check_branch_creation i = None"
    and auth: "check_branch_authority sha i m pol s = None" and b: "b = new_branch sha i m t"
    and key: "branch_key b \<notin> branch_key ` set (st_branches s)"
    and s': "s' = s\<lparr>st_branches := st_branches s @ [b], st_audit := a\<rparr>" by blast
  let ?bs = "st_branches s"
  have ok: "branch_ok sha ?bs x" if "x \<in> set ?bs" for x using inv that by (simp add: branches_ok_def)
  have pos: "\<forall>x \<in> set ?bs. 0 < br_maximumSpendAtomic x" using ok by (simp add: branch_ok_def)
  have bpos: "0 < br_maximumSpendAtomic b" using creation_positive [OF creation] by (simp add: b new_branch_fields)
  note narrow = new_branch_narrows [OF pos auth, of t]
  have orphan: "\<not> is_child_of (br_organizationId b) (br_mandateId b) (br_branchId b) x" if "x \<in> set ?bs" for x
  proof
    assume child: "is_child_of (br_organizationId b) (br_mandateId b) (br_branchId b) x"
    with ok [OF that] obtain p where "parent_of ?bs x = Some p" by (auto simp: branch_ok_def is_child_of_def)
    with child have "tbl_find branch_key (branch_key b) ?bs = Some p"
      by (simp add: parent_of_def is_child_of_def branch_key_def)
    with key tbl_find_SomeD [OF this] show False by (metis imageI)
  qed
  have own: "br_parentBranchId b \<noteq> Some (br_branchId b)"
  proof
    assume own: "br_parentBranchId b = Some (br_branchId b)"
    with narrow obtain p where "parent_of ?bs b = Some p" by (auto simp: b new_branch_fields)
    with own have "tbl_find branch_key (branch_key b) ?bs = Some p" by (simp add: parent_of_def branch_key_def)
    with key tbl_find_SomeD [OF this] show False by (metis imageI)
  qed
  have none: "children_total ?bs b = 0"
    using orphan by (simp add: children_total_def delegated_total_def filter_False)
  have "branch_ok sha (?bs @ [b]) b"
  proof -
    have "children_total (?bs @ [b]) b = 0"
      using none own by (simp add: children_total_def delegated_total_append is_child_of_def)
    then show ?thesis
      using bpos narrow parent_of_append [of ?bs b _ "[b]"]
      by (auto simp: branch_ok_def b new_branch_verifies new_branch_fields(4))
  qed
  moreover have "branch_ok sha (?bs @ [b]) x" if x: "x \<in> set ?bs" for x
  proof -
    have "children_total (?bs @ [b]) x \<le> br_maximumSpendAtomic x"
    proof (cases "is_child_of (br_organizationId x) (br_mandateId x) (br_branchId x) b")
      case True
      then obtain p where p: "parent_of ?bs b = Some p"
        "bi_maximumSpendAtomic i + children_total ?bs p \<le> br_maximumSpendAtomic p"
        using narrow by (auto simp: is_child_of_def b new_branch_fields)
      with True have "tbl_find branch_key (branch_key x) ?bs = Some p"
        by (simp add: parent_of_def is_child_of_def branch_key_def)
      with tbl_find_in [of branch_key ?bs x] inv x have "p = x" by (simp add: branches_ok_def)
      with p(2) True show ?thesis
        by (simp add: children_total_def delegated_total_append b new_branch_fields)
    next
      case False
      with ok [OF x] show ?thesis by (simp add: children_total_def delegated_total_append branch_ok_def)
    qed
    with ok [OF x] parent_of_append [of ?bs x _ "[b]"] show ?thesis by (auto simp: branch_ok_def)
  qed
  ultimately show ?thesis using inv key by (auto simp: branches_ok_def s' tbl_wf_def)
qed

interpretation delegation_tx: transactional "store_step sha" "\<lambda>_ _. True" "branches_ok sha" for sha
proof unfold_locales
  fix s s' :: policy_store and op a
  assume inv: "branches_ok sha s" and step: "store_step sha op s = Inr (s', a)"
  show "branches_ok sha s'"
  proof (cases "\<exists>i. op = OpBranch i")
    case True
    with step inv show ?thesis by (auto simp: answer_Inr intro: createBranch_ok)
  next
    case False
    then have "st_branches s' = st_branches s" using store_step_grows [OF step] by (auto simp: grows_def)
    with inv show ?thesis by (simp add: branches_ok_def)
  qed
qed

lemma empty_branches_ok: "branches_ok sha (empty_store orgs agents)"
  by (simp add: branches_ok_def empty_store_def tbl_wf_def)

section \<open>Properties\<close>

definition descends :: "branch_row list \<Rightarrow> (branch_row \<times> branch_row) set" where
  "descends bs = {(b, p). b \<in> set bs \<and> parent_of bs b = Some p}"

lemma expiry_exceeds_trans:
  "\<not> expiry_exceeds c b \<Longrightarrow> \<not> expiry_exceeds b a \<Longrightarrow> \<not> expiry_exceeds c a"
  by (auto simp: expiry_exceeds_def split: option.splits)

lemma narrows_trans: "narrows a b \<Longrightarrow> narrows b c \<Longrightarrow> narrows a c"
  using expiry_exceeds_trans [of "br_expiresAt c" "br_expiresAt b" "br_expiresAt a"]
  by (auto simp: narrows_def)

text \<open>
  C32: after any history, a branch that descends from another one, over any number of delegations, has
  only workload classes of it, the same policy version, no later expiry and no larger budget.
\<close>

theorem delegation_narrows:
  assumes "(b, a) \<in> (descends (st_branches (tx_run (store_step sha) ops (empty_store orgs agents))))\<^sup>+"
  shows "narrows a b"
proof -
  let ?bs = "st_branches (tx_run (store_step sha) ops (empty_store orgs agents))"
  have "branches_ok sha (tx_run (store_step sha) ops (empty_store orgs agents))"
    by (rule delegation_tx.run_inv [OF empty_branches_ok]) simp
  then have one: "narrows p x" if "(x, p) \<in> descends ?bs" for x p
    using that by (auto simp: branches_ok_def branch_ok_def descends_def parent_of_def split: option.splits)
  from assms show ?thesis
    by (induction rule: trancl_induct) (auto intro: one narrows_trans)
qed

text \<open>
  C31: after any history the branches delegated from a branch share out at most its maximum spend.
\<close>

theorem children_within_parent:
  assumes "b \<in> set (st_branches (tx_run (store_step sha) ops (empty_store orgs agents)))"
  shows "delegated_total (br_organizationId b) (br_mandateId b) (br_branchId b)
      (st_branches (tx_run (store_step sha) ops (empty_store orgs agents))) \<le> br_maximumSpendAtomic b"
proof -
  have "branches_ok sha (tx_run (store_step sha) ops (empty_store orgs agents))"
    by (rule delegation_tx.run_inv [OF empty_branches_ok]) simp
  with assms show ?thesis by (auto simp: branches_ok_def branch_ok_def children_total_def)
qed

text \<open>
  Two rows that pass the integrity check with the same delegation hash, SHA-256 not colliding on
  their two texts, grant the same authority: all fields agree, times up to their ISO text.
\<close>

theorem delegation_hash_binds:
  assumes "verifyBranchIntegrity sha a = None" and "verifyBranchIntegrity sha b = None"
    and "br_delegationHash a = br_delegationHash b"
    and "sha (stringify (delegation_json a)) = sha (stringify (delegation_json b)) \<Longrightarrow>
      stringify (delegation_json a) = stringify (delegation_json b)"
  shows "branch_key a = branch_key b \<and> br_parentBranchId a = br_parentBranchId b
    \<and> br_agentId a = br_agentId b \<and> br_policyId a = br_policyId b \<and> br_policyVersion a = br_policyVersion b
    \<and> br_allowedWorkloadClasses a = br_allowedWorkloadClasses b
    \<and> br_maximumSpendAtomic a = br_maximumSpendAtomic b
    \<and> map_option toISOString (br_expiresAt a) = map_option toISOString (br_expiresAt b)
    \<and> br_createdBy a = br_createdBy b"
proof -
  from assms(1-3) have "sha (stringify (delegation_json a)) = sha (stringify (delegation_json b))"
    by (simp add: verifyBranchIntegrity_def split: if_splits)
  with assms(4) have "delegation_json a = delegation_json b" by (simp add: stringify_inj)
  note inj = delegation_json_inj [OF this]
  show ?thesis by (simp add: branch_key_def inj)
qed

section \<open>An example\<close>

definition classed_policy :: policy_version where
  "classed_policy = sample_policy\<lparr>workloadClasses :=
     [\<lparr>wc_id = ''chat'', maxCostPerCallAtomic = 50, maxInvocationsPerBranch = 5,
       aggregateBudgetAtomic = 80, minimumInputTokens = 0, wc_shadow = None\<rparr>]\<rparr>"

definition sample_branch :: "string \<Rightarrow> string option \<Rightarrow> int \<Rightarrow> branch_creation" where
  "sample_branch b parent n =
     \<lparr>bi_context = \<lparr>ctx_actorId = ''op'', ctx_causationId = ''c'', ctx_occurredAt = Instant 0\<rparr>,
      bi_id = b, bi_organizationId = ''o'', bi_mandateId = ''m'', bi_parentBranchId = parent,
      bi_agentId = ''a'', bi_allowedWorkloadClasses = [''chat''], bi_maximumSpendAtomic = n,
      bi_expiresAt = None\<rparr>"

definition delegation_setup :: "store_op list" where
  "delegation_setup =
     (let c = \<lparr>ctx_actorId = ''op'', ctx_causationId = ''c'', ctx_occurredAt = Instant 0\<rparr> in
      [OpPublish classed_policy c,
       OpCreateMandate \<lparr>mi_context = c, mi_id = ''m'', mi_organizationId = ''o'', mi_name = ''mandate'',
         mi_assetId = ''usdc'', mi_maximumSpendAtomic = 100, mi_state = M_draft, mi_policyId = ''p'',
         mi_policyVersion = 1, mi_expiresAt = None\<rparr>,
       OpAssign ''o'' ''m'' ''a'' c])"

definition delegation_ops :: "store_op list" where
  "delegation_ops = delegation_setup
     @ [OpBranch (sample_branch ''root'' None 80), OpBranch (sample_branch ''leaf'' (Some ''root'') 30)]"

abbreviation delegation_run :: policy_store where
  "delegation_run \<equiv> tx_run (store_step (\<lambda>x. x)) delegation_ops (empty_store [''o''] [(''o'', ''a'')])"

definition setup_store :: policy_store where
  "setup_store = tx_run (store_step (\<lambda>x. x)) delegation_setup (empty_store [''o''] [(''o'', ''a'')])"

definition drafted :: mandate_row where
  "drafted = \<lparr>cm_organizationId = ''o'', cm_id = ''m'', cm_name = ''mandate'', cm_assetId = ''usdc'',
     cm_maximumSpendAtomic = 100, cm_state = M_draft, cm_policyId = ''p'', cm_policyVersion = 1,
     cm_expiresAt = None, cm_createdAt = 0\<rparr>"

lemma setup_facts:
  "st_mandates setup_store = [drafted] \<and> map pr_policy (st_policies setup_store) = [classed_policy]
   \<and> agent_assigned ''o'' ''m'' ''a'' setup_store \<and> st_branches setup_store = []"
  by code_simp

lemma createBranch_succeeds:
  assumes "check_branch_creation i = None"
    and "find_mandate (bi_organizationId i) (bi_mandateId i) s = Some m"
    and "find_policy (bi_organizationId i) (cm_policyId m) (cm_policyVersion m) s = Some p"
    and "check_branch_authority sha i m (pr_policy p) s = None"
    and "ctx_occurredAt (bi_context i) = Instant t"
    and "branch_key (new_branch sha i m t) \<notin> branch_key ` set (st_branches s)"
    and "\<forall>r \<in> set (st_branches s). br_delegationHash r \<noteq> br_delegationHash (new_branch sha i m t)"
  shows "\<exists>a. tx (store_step sha) (OpBranch i) s
    = s\<lparr>st_branches := st_branches s @ [new_branch sha i m t], st_audit := a\<rparr>"
  using assms
  by (auto simp: tx_def answer_def createBranch_def check_def sql_time_def insert_branch_def insert_row_def
      tbl_insert_def tbl_find_None_iff list_ex_iff appendAudit_def Let_def)

lemma first_branch:
  "\<exists>a. tx (store_step (\<lambda>x. x)) (OpBranch (sample_branch ''root'' None 80)) setup_store
    = setup_store\<lparr>st_branches := [new_branch (\<lambda>x. x) (sample_branch ''root'' None 80) drafted 0], st_audit := a\<rparr>"
proof -
  have find: "find_mandate ''o'' ''m'' setup_store = Some drafted"
    using setup_facts by (simp add: find_mandate_def tbl_find_def mandate_key_def drafted_def)
  obtain p where p: "st_policies setup_store = [p]" "pr_policy p = classed_policy" using setup_facts by auto
  then have pol: "find_policy ''o'' (cm_policyId drafted) (cm_policyVersion drafted) setup_store = Some p"
    by (simp add: find_policy_def tbl_find_def policy_key_def drafted_def classed_policy_def sample_policy_def)
  have creation: "check_branch_creation (sample_branch ''root'' None 80) = None" by code_simp
  have auth: "check_branch_authority (\<lambda>x. x) (sample_branch ''root'' None 80) drafted classed_policy setup_store = None"
    using setup_facts
    by (simp add: check_branch_authority_def check_parent_def sample_branch_def drafted_def classed_policy_def
        optional_time_def)
  show ?thesis
    using createBranch_succeeds [OF creation _ _ auth [folded p(2)], of 0] find pol setup_facts
    by (simp add: sample_branch_def)
qed

lemma tx_run_two: "tx_run f (xs @ [x, y]) s = tx f y (tx f x (tx_run f xs s))"
  by (simp add: tx_run_append)

lemma delegation_run_branches:
  "st_branches delegation_run =
     [new_branch (\<lambda>x. x) (sample_branch ''root'' None 80) drafted 0,
      new_branch (\<lambda>x. x) (sample_branch ''leaf'' (Some ''root'') 30) drafted 0]"
proof -
  let ?sha = "\<lambda>x :: string. x"
  let ?i = "sample_branch ''leaf'' (Some ''root'') 30"
  let ?r = "new_branch ?sha (sample_branch ''root'' None 80) drafted 0" and ?l = "new_branch ?sha ?i drafted 0"
  from first_branch obtain a where
    s1: "tx (store_step ?sha) (OpBranch (sample_branch ''root'' None 80)) setup_store
      = setup_store\<lparr>st_branches := [?r], st_audit := a\<rparr>" (is "_ = ?s") by blast
  have find: "find_mandate ''o'' ''m'' ?s = Some drafted"
    using setup_facts by (simp add: find_mandate_def tbl_find_def mandate_key_def drafted_def)
  obtain p where p: "st_policies setup_store = [p]" "pr_policy p = classed_policy" using setup_facts by auto
  then have pol: "find_policy ''o'' (cm_policyId drafted) (cm_policyVersion drafted) ?s = Some p"
    by (simp add: find_policy_def tbl_find_def policy_key_def drafted_def classed_policy_def sample_policy_def)
  have creation: "check_branch_creation ?i = None" by code_simp
  have root: "tbl_find branch_key (''o'', ''m'', ''root'') (st_branches ?s) = Some ?r"
    by (simp add: tbl_find_def branch_key_def new_branch_fields sample_branch_def)
  have "agent_assigned ''o'' ''m'' ''a'' ?s" using setup_facts by (simp add: agent_assigned_def)
  then have auth: "check_branch_authority ?sha ?i drafted classed_policy ?s = None"
    using root new_branch_verifies [of ?sha "sample_branch ''root'' None 80" drafted 0]
    by (simp add: check_branch_authority_def check_parent_def sample_branch_def classed_policy_def
        optional_time_def delegated_total_def is_child_of_def new_branch_fields orElse_def
        expiry_exceeds_def) (simp add: drafted_def)
  have "delegation_json (branch_body (sample_branch ''root'' None 80) drafted 0)
      \<noteq> delegation_json (branch_body ?i drafted 0)"
    by (simp add: delegation_json_def branch_body_def sample_branch_def)
  then have hash: "br_delegationHash ?r \<noteq> br_delegationHash ?l"
    by (simp add: new_branch_def stringify_inj)
  have "branch_key ?l \<noteq> branch_key ?r"
    by (simp add: branch_key_def new_branch_fields sample_branch_def)
  then obtain a' where "tx (store_step ?sha) (OpBranch ?i) ?s = ?s\<lparr>st_branches := [?r, ?l], st_audit := a'\<rparr>"
    using createBranch_succeeds [OF creation _ _ auth [folded p(2)], of 0] find pol hash
    by (auto simp: sample_branch_def)
  then show ?thesis by (simp add: delegation_ops_def tx_run_two setup_store_def [symmetric] s1)
qed

lemma delegation_rows:
  obtains r l where "st_branches delegation_run = [r, l]" "(l, r) \<in> descends (st_branches delegation_run)"
    "branch_key r = (''o'', ''m'', ''root'')"
  by (rule that [OF delegation_run_branches])
    (simp_all add: delegation_run_branches descends_def parent_of_def tbl_find_def branch_key_def
      new_branch_fields sample_branch_def)

lemma delegation_narrows_witness:
  "\<exists>r l. st_branches delegation_run = [r, l] \<and> narrows r l"
  by (rule delegation_rows) (blast intro: delegation_narrows [OF r_into_trancl])

lemma children_within_parent_witness:
  "\<exists>r l. st_branches delegation_run = [r, l]
     \<and> delegated_total (br_organizationId r) (br_mandateId r) (br_branchId r) (st_branches delegation_run)
       \<le> br_maximumSpendAtomic r"
proof (rule delegation_rows)
  fix r l assume rl: "st_branches delegation_run = [r, l]"
  have "r \<in> set (st_branches delegation_run)" by (simp add: rl)
  with rl children_within_parent [OF this] show ?thesis by blast
qed

lemma delegation_hash_binds_witness:
  "{b. verifyBranchIntegrity (\<lambda>x. x) b = None
       \<and> br_delegationHash b = br_delegationHash (hd (st_branches delegation_run))}
     \<subseteq> {b. branch_key b = (''o'', ''m'', ''root'')}"
proof (rule delegation_rows)
  fix r l assume rl: "st_branches delegation_run = [r, l]" and key: "branch_key r = (''o'', ''m'', ''root'')"
  have "branches_ok (\<lambda>x. x) delegation_run"
    by (rule delegation_tx.run_inv [OF empty_branches_ok]) simp
  then have r: "verifyBranchIntegrity (\<lambda>x. x) r = None" by (simp add: branches_ok_def branch_ok_def rl)
  show ?thesis using delegation_hash_binds [of "\<lambda>x. x" _ r] r key by (auto simp: rl)
qed

end
