(* ===== verification/Inference.thy ===== *)
theory Inference
  imports PolicyShadow
begin

text \<open>
  \<open>src/src/inference/inferenceExecution.ts\<close>: one call of \<open>InferenceExecutionService.execute\<close>. The
  function awaits the store several times and the provider once, and other calls run in between, so a
  call is a machine: a phase names the await it has reached, and \<open>execute_step\<close> runs it up to the next.
  The store is the interface \<open>InferenceExecutionStore\<close>, a record of functions whose optional ones are
  options; \<open>'e\<close> is what the store takes from its surroundings (clock, random identifiers). The
  provider is whatever reply the step from \<open>AtProvider\<close> is given; the code relies on nothing else of it.
\<close>

section \<open>Inputs\<close>

record reliability_context =
  rc_runId :: string
  rc_laneId :: string
  rc_block :: int
  rc_callOrdinal :: int
  rc_requestCommitment :: "string option"
  rc_issued :: bool

text \<open>\<open>rc_issued\<close>: the object is in the set of issued contexts. Blocks and ordinals that are not integers are refused.\<close>

definition commitment_ok :: "string \<Rightarrow> bool" where
  "commitment_ok c \<longleftrightarrow> take 7 c = ''sha256:'' \<and> fingerprint_ok (drop 7 c)"

definition issueReliabilityProtocolContext ::
    "string \<Rightarrow> string \<Rightarrow> int \<Rightarrow> int \<Rightarrow> string option \<Rightarrow> store_error + reliability_context" where
  "issueReliabilityProtocolContext runId laneId block callOrdinal commitment =
     (if runId = [] \<or> laneId = [] \<or> block < 1 \<or> 5 < block \<or> callOrdinal < 1 \<or> 5 < callOrdinal
         \<or> (case commitment of None \<Rightarrow> False | Some c \<Rightarrow> \<not> commitment_ok c)
      then Inl (Thrown ''RELIABILITY_PROTOCOL_CONTEXT_INVALID'')
      else Inr \<lparr>rc_runId = runId, rc_laneId = laneId, rc_block = block, rc_callOrdinal = callOrdinal,
                rc_requestCommitment = commitment, rc_issued = True\<rparr>)"

record controlled_input =
  ki_requestId :: string
  ki_organizationId :: string
  ki_credentialId :: "string option"
  ki_mandateId :: string
  ki_agentId :: string
  ki_agentCapabilities :: "capability_text list"
  ki_branchId :: "string option"
  ki_workloadClass :: "string option"
  ki_requestedModel :: "string option"
  ki_inputTokens :: int
  ki_maxOutputTokens :: int
  ki_messages :: "(string \<times> string) list"
  ki_reliabilityContext :: "reliability_context option"

record provider_binding =
  pb_providerName :: string
  pb_model :: string
  pb_price :: token_price
  pb_requireProviderCost :: bool
  pb_requireProviderModelMatch :: bool

record transport_error =
  te_primitiveEntered :: "bool option"
  te_generationId :: "string option"
  te_code :: "string option"

datatype exec_error =
    ExecThrown string | ExecStore store_error | ExecPricing pricing_error | ExecProvider transport_error

section \<open>The store interface\<close>

record reliability_attempt =
  ra_context :: reliability_context
  ra_requestId :: string
  ra_request :: json

record protocol_completion =
  pc_runId :: string
  pc_laneId :: string
  pc_requestId :: string
  pc_response :: provider_result
  pc_projection :: json
  pc_actualCostMicros :: int

record attempt_hold =
  ah_runId :: string
  ah_laneId :: string
  ah_requestId :: string
  ah_reasonCode :: string
  ah_generationId :: "string option"
  ah_response :: "provider_result option"

record inference_failure =
  fi_requestId :: string
  fi_organizationId :: string
  fi_failureCode :: string
  fi_failedAt :: timestamp

record inference_hold =
  hi_requestId :: string
  hi_organizationId :: string
  hi_reasonCode :: string
  hi_response :: "provider_result option"
  hi_heldAt :: timestamp

text \<open>The flag of an admission is \<open>protocolAdmissionCommitted\<close>.\<close>

record ('s, 'e) inference_store =
  do_admit :: "'e \<Rightarrow> admission_input \<Rightarrow> reliability_attempt option \<Rightarrow> 's
    \<Rightarrow> store_error + ('s \<times> admission_result \<times> bool)"
  do_preview :: "('e \<Rightarrow> admission_input \<Rightarrow> 's \<Rightarrow> store_error + ('s \<times> admission_result)) option"
  do_complete :: "'e \<Rightarrow> completion_input \<Rightarrow> 's \<Rightarrow> store_error + ('s \<times> completion_result)"
  do_hold :: "'e \<Rightarrow> inference_hold \<Rightarrow> 's \<Rightarrow> store_error + 's"
  do_fail :: "'e \<Rightarrow> inference_failure \<Rightarrow> 's \<Rightarrow> store_error + 's"
  do_record :: "('e \<Rightarrow> reliability_attempt \<Rightarrow> int \<Rightarrow> 's \<Rightarrow> store_error + 's) option"
  do_authorize :: "('e \<Rightarrow> reliability_context \<Rightarrow> string \<Rightarrow> string \<Rightarrow> 's \<Rightarrow> store_error + ('s \<times> string)) option"
  do_entered :: "('e \<Rightarrow> string \<Rightarrow> string \<Rightarrow> string \<Rightarrow> 's \<Rightarrow> store_error + 's) option"
  do_release :: "('e \<Rightarrow> reliability_context \<Rightarrow> string \<Rightarrow> string \<Rightarrow> 's \<Rightarrow> store_error + 's) option"
  do_completeReliability ::
    "('e \<Rightarrow> completion_input \<Rightarrow> protocol_completion \<Rightarrow> 's \<Rightarrow> store_error + ('s \<times> completion_result)) option"
  do_completeAttempt :: "('e \<Rightarrow> protocol_completion \<Rightarrow> 's \<Rightarrow> store_error + 's) option"
  do_notDispatched :: "('e \<Rightarrow> inference_failure \<Rightarrow> attempt_hold \<Rightarrow> 's \<Rightarrow> store_error + 's) option"
  do_holdAttempt :: "('e \<Rightarrow> attempt_hold \<Rightarrow> 's \<Rightarrow> store_error + 's) option"

section \<open>Requests to the store\<close>

fun message_json :: "string \<times> string \<Rightarrow> json" where
  "message_json (role, content) = JObj [(''role'', JStr role), (''content'', JStr content)]"

definition fingerprint_json :: "controlled_input \<Rightarrow> provider_binding \<Rightarrow> json" where
  "fingerprint_json i b = JObj
     [(''organizationId'', JStr (ki_organizationId i)), (''mandateId'', JStr (ki_mandateId i)),
      (''agentId'', JStr (ki_agentId i)), (''branchId'', null_or JStr (ki_branchId i)),
      (''workloadClass'', null_or JStr (ki_workloadClass i)),
      (''provider'', JStr (pb_providerName b)), (''model'', JStr (pb_model b)),
      (''requestedModel'', JStr (case ki_requestedModel i of None \<Rightarrow> pb_model b | Some m \<Rightarrow> m)),
      (''inputTokens'', JNum (ki_inputTokens i)), (''maxOutputTokens'', JNum (ki_maxOutputTokens i)),
      (''messages'', JArr (map message_json (ki_messages i)))]"

definition requestFingerprint :: "(string \<Rightarrow> string) \<Rightarrow> controlled_input \<Rightarrow> provider_binding \<Rightarrow> string" where
  "requestFingerprint sha i b = sha (stringify (fingerprint_json i b))"

definition admission_request ::
    "(string \<Rightarrow> string) \<Rightarrow> controlled_input \<Rightarrow> provider_binding \<Rightarrow> int \<Rightarrow> timestamp \<Rightarrow> admission_input" where
  "admission_request sha i b estimated now =
     \<lparr>ai_requestId = ki_requestId i, ai_organizationId = ki_organizationId i,
      ai_mandateId = ki_mandateId i, ai_agentId = ki_agentId i,
      ai_agentCapabilities = ki_agentCapabilities i, ai_provider = pb_providerName b,
      ai_model = pb_model b, ai_branchId = ki_branchId i, ai_workloadClass = ki_workloadClass i,
      ai_estimatedCostAtomic = estimated, ai_inputTokens = ki_inputTokens i,
      ai_maxOutputTokens = ki_maxOutputTokens i, ai_requestFingerprint = requestFingerprint sha i b,
      ai_decidedAt = now\<rparr>"

definition protocol_request :: "controlled_input \<Rightarrow> provider_binding \<Rightarrow> string \<Rightarrow> json" where
  "protocol_request i b credential = JObj
     [(''method'', JStr ''POST''), (''route'', JStr ''/v1/chat/completions''),
      (''organizationId'', JStr (ki_organizationId i)), (''credentialId'', JStr credential),
      (''mandateId'', JStr (ki_mandateId i)), (''branchId'', null_or JStr (ki_branchId i)),
      (''workloadClass'', null_or JStr (ki_workloadClass i)),
      (''idempotencyKey'', JStr (ki_requestId i)),
      (''body'', JObj ([(''model'', JStr (pb_model b)), (''max_tokens'', JNum (ki_maxOutputTokens i))]
        @ (case truthy (ki_workloadClass i) of None \<Rightarrow> [] | Some c \<Rightarrow> [(''workload_class'', JStr c)])
        @ [(''messages'', JArr (map message_json (ki_messages i)))]))]"

definition attempt_of :: "controlled_input \<Rightarrow> provider_binding \<Rightarrow> reliability_attempt option" where
  "attempt_of i b =
     (case (ki_reliabilityContext i, truthy (ki_credentialId i)) of
        (Some c, Some credential) \<Rightarrow>
          Some \<lparr>ra_context = c, ra_requestId = ki_requestId i, ra_request = protocol_request i b credential\<rparr>
      | _ \<Rightarrow> None)"

definition stableResponseProjection ::
    "stored_decision \<Rightarrow> int \<Rightarrow> int \<Rightarrow> provider_result \<Rightarrow> store_error + json" where
  "stableResponseProjection d reserved actual response =
     (if pd_outcome (sd_result d) \<noteq> ALLOW \<or> pd_wouldOutcome (sd_result d) \<noteq> ALLOW
         \<or> \<not> pd_enforced (sd_result d) \<or> pd_reasonCodes (sd_result d) \<noteq> []
      then Inl (Thrown ''RELIABILITY_RESPONSE_DECISION_INVALID'')
      else Inr (JObj
        [(''id'', JStr (p_id response)), (''object'', JStr ''chat.completion''),
         (''model'', JStr (di_model (sd_input d))),
         (''choices'', JArr [JObj [(''index'', JNum 0), (''finish_reason'', JStr ''stop''),
            (''message'', JObj [(''role'', JStr ''assistant''), (''content'', JStr (p_content response))])]]),
         (''usage'', JObj [(''prompt_tokens'', JNum (inputTokens (p_usage response))),
            (''completion_tokens'', JNum (outputTokens (p_usage response))),
            (''total_tokens'', JNum (inputTokens (p_usage response) + outputTokens (p_usage response)))]),
         (''fuse'', JObj ([(''decision'', JObj [(''id'', JStr (sd_id d)), (''outcome'', JStr ''ALLOW''),
             (''wouldOutcome'', JStr ''ALLOW''), (''enforced'', JBool True), (''reasonCodes'', JArr [])])]
           @ (case (truthy (di_branchId (sd_input d)), truthy (di_workloadClass (sd_input d))) of
                (Some branch, Some c) \<Rightarrow>
                  [(''workloadScope'', JObj [(''branchId'', JStr branch), (''workloadClass'', JStr c)])]
              | _ \<Rightarrow> [])
           @ [(''reservationAtomic'', JStr (show_int reserved)),
              (''actualCostAtomic'', JStr (show_int actual))]))]))"

end
