(* ===== verification/InferenceCall.thy ===== *)
theory InferenceCall
  imports Inference
begin

text \<open>
  The body of \<open>InferenceExecutionService.execute\<close> in \<open>src/src/inference/inferenceExecution.ts\<close> as a
  machine: one step runs a call from one await to the next, on the store it finds then. \<open>preview\<close> is
  a single await. An exception of the store inside a catch block replaces the one that is handled.
\<close>

section \<open>Phases\<close>

record running =
  ru_binding :: provider_binding
  ru_decision :: stored_decision
  ru_reserved :: int
  ru_token :: "string option"

datatype exec_phase =
    AtStart
  | AtRecord running
  | AtAuthorize running
  | AtRelease running string
  | AtProvider running
  | AtHoldAttempt running transport_error
  | AtNotDispatched running transport_error
  | AtAmbiguous running transport_error
  | AtSettle running provider_result
  | AtCompleteAttempt running provider_result protocol_completion completion_result
  | AtHold running provider_result exec_error
  | AtHoldCommitted running provider_result exec_error
  | Returned admission_result
  | Threw exec_error

fun ended :: "exec_phase \<Rightarrow> bool" where
  "ended (Returned a) = True"
| "ended (Threw e) = True"
| "ended p = False"

text \<open>
  What the provider does with one request: whether its transport calls the hook that marks the entry
  into the HTTP primitive, and how it ends.
\<close>

record provider_reply =
  re_entered :: bool
  re_outcome :: "transport_error + provider_result"

section \<open>Up to the provider\<close>

definition bind_model ::
    "(string \<Rightarrow> exec_error + provider_binding) \<Rightarrow> controlled_input \<Rightarrow> exec_error + (provider_binding \<times> int)" where
  "bind_model resolve i =
     and_then (resolve (ki_organizationId i)) (\<lambda>b.
     if ki_requestedModel i \<noteq> None \<and> ki_requestedModel i \<noteq> Some (pb_model b)
     then Inl (ExecThrown ''REQUESTED_MODEL_MISMATCH'')
     else
       and_then (lift_err ExecPricing (calculateMaximumCostMicros
           \<lparr>mu_inputTokens = ki_inputTokens i, mu_maxOutputTokens = ki_maxOutputTokens i\<rparr> (pb_price b)))
         (\<lambda>n. Inr (b, n)))"

definition context_missing :: "controlled_input \<Rightarrow> bool" where
  "context_missing i \<longleftrightarrow> (case ki_reliabilityContext i of None \<Rightarrow> False | Some c \<Rightarrow> \<not> rc_issued c)"

definition after_admission ::
    "('s, 'e) inference_store \<Rightarrow> controlled_input \<Rightarrow> running \<Rightarrow> bool \<Rightarrow> exec_phase" where
  "after_admission st i r committed =
     (if ki_reliabilityContext i = None then AtProvider r
      else if truthy (ki_credentialId i) = None then Threw (ExecThrown ''RELIABILITY_CREDENTIAL_ID_REQUIRED'')
      else if do_record st = None \<or> do_authorize st = None \<or> do_entered st = None \<or> do_release st = None
      then Threw (ExecThrown ''RELIABILITY_DISPATCH_STORE_REQUIRED'')
      else if committed then AtAuthorize r else AtRecord r)"

definition start_call ::
    "('s, 'e) inference_store \<Rightarrow> (string \<Rightarrow> string) \<Rightarrow> (string \<Rightarrow> exec_error + provider_binding) \<Rightarrow> controlled_input
       \<Rightarrow> 'e \<Rightarrow> timestamp \<Rightarrow> 's \<Rightarrow> 's \<times> exec_phase" where
  "start_call st sha resolve i e now s =
     (if context_missing i then (s, Threw (ExecThrown ''RELIABILITY_PROTOCOL_CONTEXT_INVALID''))
      else case bind_model resolve i of
        Inl x \<Rightarrow> (s, Threw x)
      | Inr (b, estimated) \<Rightarrow>
          (case do_admit st e (admission_request sha i b estimated now) (attempt_of i b) s of
             Inl x \<Rightarrow> (s, Threw (ExecStore x))
           | Inr (s', AdmitExecute d n, committed) \<Rightarrow>
               (s', after_admission st i \<lparr>ru_binding = b, ru_decision = d, ru_reserved = n, ru_token = None\<rparr>
                      committed)
           | Inr (s', a, _) \<Rightarrow> (s', Returned a)))"

definition preview ::
    "('s, 'e) inference_store \<Rightarrow> (string \<Rightarrow> string) \<Rightarrow> (string \<Rightarrow> exec_error + provider_binding) \<Rightarrow> controlled_input
       \<Rightarrow> 'e \<Rightarrow> timestamp \<Rightarrow> 's \<Rightarrow> exec_error + ('s \<times> admission_result)" where
  "preview st sha resolve i e now s =
     (case do_preview st of
        None \<Rightarrow> Inl (ExecThrown ''POLICY_PREVIEW_REQUIRED'')
      | Some f \<Rightarrow>
          and_then (bind_model resolve i) (\<lambda>(b, estimated).
          lift_err ExecStore (f e (admission_request sha i b estimated now) s)))"

text \<open>An awaited store function: its exception ends the call or goes where \<open>k\<close> says.\<close>

definition await_store :: "store_error + 's \<Rightarrow> 's \<Rightarrow> (store_error \<Rightarrow> exec_phase) \<Rightarrow> exec_phase \<Rightarrow> 's \<times> exec_phase" where
  "await_store r s k p = (case r of Inl x \<Rightarrow> (s, k x) | Inr s' \<Rightarrow> (s', p))"

abbreviation throw_store :: "store_error \<Rightarrow> exec_phase" where
  "throw_store x \<equiv> Threw (ExecStore x)"

definition record_attempt ::
    "('s, 'e) inference_store \<Rightarrow> controlled_input \<Rightarrow> 'e \<Rightarrow> running \<Rightarrow> 's \<Rightarrow> 's \<times> exec_phase" where
  "record_attempt st i e r s =
     (case (do_record st, attempt_of i (ru_binding r)) of
        (Some f, Some a) \<Rightarrow> await_store (f e a (ru_reserved r) s) s throw_store (AtAuthorize r)
      | _ \<Rightarrow> (s, Threw (ExecThrown ''RELIABILITY_DISPATCH_STORE_REQUIRED'')))"

definition authorize_dispatch ::
    "('s, 'e) inference_store \<Rightarrow> controlled_input \<Rightarrow> 'e \<Rightarrow> running \<Rightarrow> 's \<Rightarrow> 's \<times> exec_phase" where
  "authorize_dispatch st i e r s =
     (case (do_authorize st, ki_reliabilityContext i) of
        (Some f, Some c) \<Rightarrow>
          (case f e c (ki_requestId i) (ki_agentId i) s of
             Inl x \<Rightarrow> (s, throw_store x)
           | Inr (s', token) \<Rightarrow> (s', AtRelease r token))
      | _ \<Rightarrow> (s, Threw (ExecThrown ''RELIABILITY_DISPATCH_STORE_REQUIRED'')))"

definition await_release ::
    "('s, 'e) inference_store \<Rightarrow> controlled_input \<Rightarrow> 'e \<Rightarrow> running \<Rightarrow> string \<Rightarrow> 's \<Rightarrow> 's \<times> exec_phase" where
  "await_release st i e r token s =
     (case (do_release st, ki_reliabilityContext i) of
        (Some f, Some c) \<Rightarrow>
          await_store (f e c (ki_requestId i) token s) s throw_store (AtProvider (r\<lparr>ru_token := Some token\<rparr>))
      | _ \<Rightarrow> (s, Threw (ExecThrown ''RELIABILITY_DISPATCH_STORE_REQUIRED'')))"

section \<open>The provider's reply\<close>

definition provably_not_dispatched :: "transport_error \<Rightarrow> bool" where
  "provably_not_dispatched x \<longleftrightarrow> te_primitiveEntered x = Some False"

text \<open>The hook of the transport; the transport decides what a failing hook does to its outcome.\<close>

definition enter_primitive ::
    "('s, 'e) inference_store \<Rightarrow> controlled_input \<Rightarrow> 'e \<Rightarrow> running \<Rightarrow> bool \<Rightarrow> 's \<Rightarrow> 's" where
  "enter_primitive st i e r entered s =
     (case (entered, ki_reliabilityContext i, ru_token r, do_entered st) of
        (True, Some c, Some token, Some f) \<Rightarrow>
          (case f e (rc_runId c) (ki_requestId i) token s of Inl x \<Rightarrow> s | Inr s' \<Rightarrow> s')
      | _ \<Rightarrow> s)"

definition provider_answer ::
    "('s, 'e) inference_store \<Rightarrow> controlled_input \<Rightarrow> 'e \<Rightarrow> running \<Rightarrow> provider_reply \<Rightarrow> 's \<Rightarrow> 's \<times> exec_phase" where
  "provider_answer st i e r reply s =
     (enter_primitive st i e r (re_entered reply) s,
      case re_outcome reply of
        Inr response \<Rightarrow> AtSettle r response
      | Inl x \<Rightarrow>
          if ki_reliabilityContext i \<noteq> None \<and> \<not> provably_not_dispatched x \<and> do_holdAttempt st \<noteq> None
          then AtHoldAttempt r x
          else if provably_not_dispatched x then AtNotDispatched r x
          else AtAmbiguous r x)"

definition code_or :: "string \<Rightarrow> transport_error \<Rightarrow> string" where
  "code_or d x = (case te_code x of None \<Rightarrow> d | Some c \<Rightarrow> c)"

definition hold_attempt ::
    "('s, 'e) inference_store \<Rightarrow> controlled_input \<Rightarrow> 'e \<Rightarrow> running \<Rightarrow> transport_error \<Rightarrow> 's \<Rightarrow> 's \<times> exec_phase" where
  "hold_attempt st i e r x s =
     (case (do_holdAttempt st, ki_reliabilityContext i) of
        (Some f, Some c) \<Rightarrow>
          await_store (f e \<lparr>ah_runId = rc_runId c, ah_laneId = rc_laneId c, ah_requestId = ki_requestId i,
              ah_reasonCode = code_or ''PROVIDER_OUTCOME_AMBIGUOUS'' x, ah_generationId = te_generationId x,
              ah_response = None\<rparr> s) s throw_store (AtAmbiguous r x)
      | _ \<Rightarrow> (s, AtAmbiguous r x))"

definition not_dispatched ::
    "('s, 'e) inference_store \<Rightarrow> controlled_input \<Rightarrow> 'e \<Rightarrow> timestamp \<Rightarrow> transport_error \<Rightarrow> 's \<Rightarrow> 's \<times> exec_phase" where
  "not_dispatched st i e now x s =
     (let failure = \<lparr>fi_requestId = ki_requestId i, fi_organizationId = ki_organizationId i,
            fi_failureCode = ''PROVIDER_NOT_DISPATCHED'', fi_failedAt = now\<rparr>
      in case ki_reliabilityContext i of
           None \<Rightarrow> await_store (do_fail st e failure s) s throw_store (Threw (ExecProvider x))
         | Some c \<Rightarrow>
             (case do_notDispatched st of
                None \<Rightarrow> (s, Threw (ExecThrown ''ATOMIC_RELIABILITY_NOT_DISPATCHED_REQUIRED''))
              | Some f \<Rightarrow>
                  await_store (f e failure \<lparr>ah_runId = rc_runId c, ah_laneId = rc_laneId c,
                      ah_requestId = ki_requestId i, ah_reasonCode = code_or ''PRE_ENTRY_FAILURE'' x,
                      ah_generationId = None, ah_response = None\<rparr> s) s throw_store (Threw (ExecProvider x))))"

definition hold_ambiguous ::
    "('s, 'e) inference_store \<Rightarrow> controlled_input \<Rightarrow> 'e \<Rightarrow> timestamp \<Rightarrow> transport_error \<Rightarrow> 's \<Rightarrow> 's \<times> exec_phase" where
  "hold_ambiguous st i e now x s =
     await_store (do_hold st e \<lparr>hi_requestId = ki_requestId i, hi_organizationId = ki_organizationId i,
         hi_reasonCode = ''PROVIDER_OUTCOME_AMBIGUOUS'', hi_response = None, hi_heldAt = now\<rparr> s)
       s throw_store (Threw (ExecProvider x))"

section \<open>Settlement\<close>

definition metered_cost :: "provider_binding \<Rightarrow> provider_result \<Rightarrow> exec_error + int" where
  "metered_cost b response =
     (if pb_requireProviderModelMatch b \<and> p_providerModel response \<noteq> Some (pb_model b)
      then Inl (ExecThrown ''PROVIDER_MODEL_MISMATCH'')
      else if pb_requireProviderCost b \<and> p_providerCostUsd response = None
      then Inl (ExecThrown ''PROVIDER_COST_MISSING'')
      else lift_err ExecPricing
        (case p_providerCostUsd response of
           None \<Rightarrow> calculateCostMicros (p_usage response) (pb_price b)
         | Some usd \<Rightarrow> usdToMicros usd))"

definition finish_call :: "running \<Rightarrow> completion_result \<Rightarrow> exec_phase" where
  "finish_call r c =
     (case c of
        CompletionHeld reserved actual response \<Rightarrow> Threw (ExecThrown ''ACTUAL_COST_EXCEEDS_RESERVATION'')
      | CompletionDone reserved actual response evidence \<Rightarrow>
          Returned (AdmitCompleted (ru_decision r) reserved actual response evidence))"

definition settle ::
    "('s, 'e) inference_store \<Rightarrow> controlled_input \<Rightarrow> 'e \<Rightarrow> timestamp \<Rightarrow> running \<Rightarrow> provider_result \<Rightarrow> 's
       \<Rightarrow> 's \<times> exec_phase" where
  "settle st i e now r response s =
     (case metered_cost (ru_binding r) response of
        Inl x \<Rightarrow> (s, AtHold r response x)
      | Inr actual \<Rightarrow>
          let ordinary = \<lparr>ci_requestId = ki_requestId i, ci_organizationId = ki_organizationId i,
                ci_actualCostAtomic = actual, ci_response = response, ci_completedAt = now\<rparr>
          in case ki_reliabilityContext i of
               None \<Rightarrow>
                 (case do_complete st e ordinary s of
                    Inl x \<Rightarrow> (s, AtHold r response (ExecStore x))
                  | Inr (s', c) \<Rightarrow> (s', finish_call r c))
             | Some k \<Rightarrow>
                 (case stableResponseProjection (ru_decision r) (ru_reserved r) actual response of
                    Inl x \<Rightarrow> (s, AtHold r response (ExecStore x))
                  | Inr projection \<Rightarrow>
                      let protocol = \<lparr>pc_runId = rc_runId k, pc_laneId = rc_laneId k,
                            pc_requestId = ki_requestId i, pc_response = response,
                            pc_projection = projection, pc_actualCostMicros = actual\<rparr>
                      in case do_completeReliability st of
                           Some f \<Rightarrow>
                             (case f e ordinary protocol s of
                                Inl x \<Rightarrow> (s, AtHold r response (ExecStore x))
                              | Inr (s', c) \<Rightarrow> (s', finish_call r c))
                         | None \<Rightarrow>
                             (case do_complete st e ordinary s of
                                Inl x \<Rightarrow> (s, AtHold r response (ExecStore x))
                              | Inr (s', c) \<Rightarrow>
                                  (s', if do_completeAttempt st = None then finish_call r c
                                       else AtCompleteAttempt r response protocol c))))"

definition complete_attempt ::
    "('s, 'e) inference_store \<Rightarrow> 'e \<Rightarrow> running \<Rightarrow> provider_result \<Rightarrow> protocol_completion \<Rightarrow> completion_result \<Rightarrow> 's
       \<Rightarrow> 's \<times> exec_phase" where
  "complete_attempt st e r response protocol c s =
     (case do_completeAttempt st of
        None \<Rightarrow> (s, finish_call r c)
      | Some f \<Rightarrow> await_store (f e protocol s) s (\<lambda>x. AtHold r response (ExecStore x)) (finish_call r c))"

text \<open>The code compares the message of the exception with the two reasons it passes on.\<close>

definition hold_reason :: "exec_error \<Rightarrow> string" where
  "hold_reason x =
     (let m = (case x of ExecThrown t \<Rightarrow> t | ExecStore (Thrown t) \<Rightarrow> t | _ \<Rightarrow> [])
      in if m \<in> {''PROVIDER_MODEL_MISMATCH'', ''PROVIDER_COST_MISSING''} then m
         else ''POST_PROVIDER_RECONCILIATION_FAILED'')"

definition hold_response ::
    "('s, 'e) inference_store \<Rightarrow> controlled_input \<Rightarrow> 'e \<Rightarrow> timestamp \<Rightarrow> running \<Rightarrow> provider_result \<Rightarrow> exec_error \<Rightarrow> 's
       \<Rightarrow> 's \<times> exec_phase" where
  "hold_response st i e now r response x s =
     await_store (do_hold st e \<lparr>hi_requestId = ki_requestId i, hi_organizationId = ki_organizationId i,
         hi_reasonCode = hold_reason x, hi_response = Some response, hi_heldAt = now\<rparr> s) s throw_store
       (if ki_reliabilityContext i \<noteq> None \<and> do_holdAttempt st \<noteq> None then AtHoldCommitted r response x
        else Threw x)"

definition hold_committed ::
    "('s, 'e) inference_store \<Rightarrow> controlled_input \<Rightarrow> 'e \<Rightarrow> provider_result \<Rightarrow> exec_error \<Rightarrow> 's \<Rightarrow> 's \<times> exec_phase" where
  "hold_committed st i e response x s =
     (case (do_holdAttempt st, ki_reliabilityContext i) of
        (Some f, Some c) \<Rightarrow>
          await_store (f e \<lparr>ah_runId = rc_runId c, ah_laneId = rc_laneId c, ah_requestId = ki_requestId i,
              ah_reasonCode = hold_reason x, ah_generationId = Some (p_id response),
              ah_response = Some response\<rparr> s) s throw_store (Threw x)
      | _ \<Rightarrow> (s, Threw x))"

section \<open>One step of a call\<close>

fun execute_step ::
    "('s, 'e) inference_store \<Rightarrow> (string \<Rightarrow> string) \<Rightarrow> (string \<Rightarrow> exec_error + provider_binding) \<Rightarrow> controlled_input
       \<Rightarrow> 'e \<Rightarrow> timestamp \<Rightarrow> provider_reply \<Rightarrow> exec_phase \<Rightarrow> 's \<Rightarrow> 's \<times> exec_phase" where
  "execute_step st sha resolve i e now reply AtStart s = start_call st sha resolve i e now s"
| "execute_step st sha resolve i e now reply (AtRecord r) s = record_attempt st i e r s"
| "execute_step st sha resolve i e now reply (AtAuthorize r) s = authorize_dispatch st i e r s"
| "execute_step st sha resolve i e now reply (AtRelease r token) s = await_release st i e r token s"
| "execute_step st sha resolve i e now reply (AtProvider r) s = provider_answer st i e r reply s"
| "execute_step st sha resolve i e now reply (AtHoldAttempt r x) s = hold_attempt st i e r x s"
| "execute_step st sha resolve i e now reply (AtNotDispatched r x) s = not_dispatched st i e now x s"
| "execute_step st sha resolve i e now reply (AtAmbiguous r x) s = hold_ambiguous st i e now x s"
| "execute_step st sha resolve i e now reply (AtSettle r response) s = settle st i e now r response s"
| "execute_step st sha resolve i e now reply (AtCompleteAttempt r response protocol c) s =
     complete_attempt st e r response protocol c s"
| "execute_step st sha resolve i e now reply (AtHold r response x) s = hold_response st i e now r response x s"
| "execute_step st sha resolve i e now reply (AtHoldCommitted r response x) s = hold_committed st i e response x s"
| "execute_step st sha resolve i e now reply (Returned a) s = (s, Returned a)"
| "execute_step st sha resolve i e now reply (Threw x) s = (s, Threw x)"

end
