(* ===== verification/InferenceWorld.thy ===== *)
theory InferenceWorld
  imports InferenceCall
begin

text \<open>
  Any number of calls of \<open>InferenceExecutionService.execute\<close> over one store. A world holds the store,
  the calls with their phases and the log of provider calls; a call advances by one await at a time, in
  any order, and other users of the store act in between. The locale states what a store promises: once
  a request was admitted for execution it is taken, and what a store function does other steps could
  have done. It is interpreted on the policy store in \<open>InferencePolicyStore\<close>.
\<close>

section \<open>Worlds\<close>

datatype ('op, 'e) exec_op =
    BeginCall controlled_input
  | Advance nat 'e timestamp provider_reply
  | Background 'op

record 's exec_world =
  w_store :: 's
  w_calls :: "(controlled_input \<times> exec_phase) list"
  w_dispatched :: "(nat \<times> string \<times> string) list"

definition call_key :: "controlled_input \<Rightarrow> string \<times> string" where
  "call_key i = (ki_organizationId i, ki_requestId i)"

fun at_provider :: "exec_phase \<Rightarrow> bool" where
  "at_provider (AtProvider r) = True"
| "at_provider p = False"

definition advance_call ::
    "('s, 'e) inference_store \<Rightarrow> (string \<Rightarrow> string) \<Rightarrow> (string \<Rightarrow> exec_error + provider_binding) \<Rightarrow> nat \<Rightarrow> 'e
       \<Rightarrow> timestamp \<Rightarrow> provider_reply \<Rightarrow> 's exec_world \<Rightarrow> 's exec_world" where
  "advance_call st sha resolve k e now reply w =
     (if length (w_calls w) \<le> k then w
      else
        (let (i, p) = w_calls w ! k; (s', p') = execute_step st sha resolve i e now reply p (w_store w)
         in \<lparr>w_store = s', w_calls = (w_calls w)[k := (i, p')],
             w_dispatched = (if at_provider p' then w_dispatched w @ [(k, call_key i)] else w_dispatched w)\<rparr>))"

fun world_step ::
    "('s, 'e) inference_store \<Rightarrow> (string \<Rightarrow> string) \<Rightarrow> (string \<Rightarrow> exec_error + provider_binding)
       \<Rightarrow> ('op \<Rightarrow> 's \<Rightarrow> store_error + ('s \<times> 'a)) \<Rightarrow> ('op, 'e) exec_op \<Rightarrow> 's exec_world \<Rightarrow> 's exec_world" where
  "world_step st sha resolve step (BeginCall i) w = w\<lparr>w_calls := w_calls w @ [(i, AtStart)]\<rparr>"
| "world_step st sha resolve step (Advance k e now reply) w = advance_call st sha resolve k e now reply w"
| "world_step st sha resolve step (Background op) w = w\<lparr>w_store := tx step op (w_store w)\<rparr>"

definition world_run ::
    "('s, 'e) inference_store \<Rightarrow> (string \<Rightarrow> string) \<Rightarrow> (string \<Rightarrow> exec_error + provider_binding)
       \<Rightarrow> ('op \<Rightarrow> 's \<Rightarrow> store_error + ('s \<times> 'a)) \<Rightarrow> ('op, 'e) exec_op list \<Rightarrow> 's exec_world \<Rightarrow> 's exec_world" where
  "world_run st sha resolve step ops w = fold (world_step st sha resolve step) ops w"

definition idle_world :: "'s \<Rightarrow> 's exec_world" where
  "idle_world s = \<lparr>w_store = s, w_calls = [], w_dispatched = []\<rparr>"

lemma world_run_simps [simp]:
  "world_run st sha resolve step [] w = w"
  "world_run st sha resolve step (op # ops) w =
     world_run st sha resolve step ops (world_step st sha resolve step op w)"
  by (simp_all add: world_run_def)

lemma world_run_invariant:
  assumes "P w" and "\<And>w op. op \<in> set ops \<Longrightarrow> P w \<Longrightarrow> P (world_step st sha resolve step op w)"
  shows "P (world_run st sha resolve step ops w)"
  using assms by (induction ops arbitrary: w) auto

lemma idle_world_simps [simp]:
  "w_store (idle_world s) = s" "w_calls (idle_world s) = []" "w_dispatched (idle_world s) = []"
  by (simp_all add: idle_world_def)

section \<open>How many steps a call takes\<close>

fun steps_left :: "exec_phase \<Rightarrow> nat" where
  "steps_left AtStart = 9"
| "steps_left (AtRecord r) = 8"
| "steps_left (AtAuthorize r) = 7"
| "steps_left (AtRelease r token) = 6"
| "steps_left (AtProvider r) = 5"
| "steps_left (AtSettle r response) = 4"
| "steps_left (AtCompleteAttempt r response protocol c) = 3"
| "steps_left (AtHold r response x) = 2"
| "steps_left (AtHoldAttempt r x) = 2"
| "steps_left (AtHoldCommitted r response x) = 1"
| "steps_left (AtNotDispatched r x) = 1"
| "steps_left (AtAmbiguous r x) = 1"
| "steps_left (Returned a) = 0"
| "steps_left (Threw x) = 0"

lemma steps_left_ended [simp]: "steps_left p = 0 \<longleftrightarrow> ended p"
  by (cases p) simp_all

lemmas execute_defs = start_call_def after_admission_def record_attempt_def authorize_dispatch_def
  await_release_def await_store_def provider_answer_def hold_attempt_def not_dispatched_def
  hold_ambiguous_def settle_def finish_call_def complete_attempt_def hold_response_def hold_committed_def

lemma execute_step_decreases:
  "\<not> ended p \<Longrightarrow> execute_step st sha resolve i e now reply p s = (s', p') \<Longrightarrow> steps_left p' < steps_left p"
  by (cases p) (auto simp: execute_defs Let_def
      split: if_splits sum.splits option.splits admission_result.splits completion_result.splits)

lemma execute_step_ended: "ended p \<Longrightarrow> execute_step st sha resolve i e now reply p s = (s, p)"
  by (cases p) simp_all

section \<open>From admission to the provider\<close>

text \<open>A call that waits before its provider call, and one that just reached it.\<close>

fun admitted_phase :: "exec_phase \<Rightarrow> bool" where
  "admitted_phase (AtRecord r) = True"
| "admitted_phase (AtAuthorize r) = True"
| "admitted_phase (AtRelease r token) = True"
| "admitted_phase p = False"

lemma execute_step_after_start:
  assumes "execute_step st sha resolve i e now reply p s = (s', p')" and "p \<noteq> AtStart"
    and "admitted_phase p' \<or> at_provider p'"
  shows "admitted_phase p \<and> \<not> (admitted_phase p' \<and> at_provider p')"
  using assms by (cases p) (auto simp: execute_defs Let_def
      split: if_splits sum.splits option.splits admission_result.splits completion_result.splits)

lemma execute_step_not_start:
  "execute_step st sha resolve i e now reply p s = (s', p') \<Longrightarrow> p' \<noteq> AtStart"
  by (cases p) (auto simp: execute_defs Let_def
      split: if_splits sum.splits option.splits admission_result.splits completion_result.splits)

lemma start_call_admits:
  assumes "start_call st sha resolve i e now s = (s', p')" and "admitted_phase p' \<or> at_provider p'"
  obtains b n d m committed where "bind_model resolve i = Inr (b, n)"
    and "do_admit st e (admission_request sha i b n now) (attempt_of i b) s = Inr (s', AdmitExecute d m, committed)"
  using assms by (auto simp: start_call_def
      split: if_splits sum.splits prod.splits admission_result.splits)

section \<open>Claims on a request\<close>

text \<open>The provider calls made for a request and the calls that are on their way to one.\<close>

definition on_its_way :: "string \<times> string \<Rightarrow> controlled_input \<times> exec_phase \<Rightarrow> nat" where
  "on_its_way k c = (if admitted_phase (snd c) \<and> call_key (fst c) = k then 1 else 0)"

definition claims :: "'s exec_world \<Rightarrow> string \<times> string \<Rightarrow> nat" where
  "claims w k = count_list (map snd (w_dispatched w)) k + (\<Sum>c\<leftarrow>w_calls w. on_its_way k c)"

definition world_ok :: "('s \<Rightarrow> string \<times> string \<Rightarrow> bool) \<Rightarrow> 's exec_world \<Rightarrow> bool" where
  "world_ok taken w \<longleftrightarrow>
     (\<forall>k. claims w k \<le> 1 \<and> (0 < claims w k \<longrightarrow> taken (w_store w) k))
     \<and> (\<forall>(n, k) \<in> set (w_dispatched w). n < length (w_calls w) \<and> k = call_key (fst (w_calls w ! n))
          \<and> snd (w_calls w ! n) \<noteq> AtStart \<and> \<not> admitted_phase (snd (w_calls w ! n)))"

lemma sum_update_nat:
  "k < length xs \<Longrightarrow> (\<Sum>x\<leftarrow>xs[k := y]. f x :: nat) + f (xs ! k) = (\<Sum>x\<leftarrow>xs. f x) + f y"
proof (induction xs arbitrary: k)
  case (Cons x xs)
  then show ?case by (cases k) auto
qed simp

lemma count_le_1_distinct: "(\<And>x. count_list xs x \<le> 1) \<Longrightarrow> distinct xs"
proof (induction xs)
  case (Cons a xs)
  have "count_list xs x \<le> 1" for x using Cons.prems [of x] by (simp split: if_splits)
  moreover have "count_list xs a = 0" using Cons.prems [of a] by simp
  ultimately show ?case using Cons.IH by (simp add: count_list_0_iff)
qed simp

lemma claims_advance:
  assumes "k < length (w_calls w)" and "w_calls w ! k = (i, p)"
  shows "claims \<lparr>w_store = s', w_calls = (w_calls w)[k := (i, p')],
      w_dispatched = (if at_provider p' then w_dispatched w @ [(k, call_key i)] else w_dispatched w)\<rparr> kk
      + on_its_way kk (i, p) =
    claims w kk + on_its_way kk (i, p') + (if at_provider p' \<and> call_key i = kk then 1 else 0)"
  using sum_update_nat [OF assms(1), of "on_its_way kk" "(i, p')"] assms(2)
  by (auto simp: claims_def)

lemma dispatched_grows:
  "set (w_dispatched w) \<subseteq> set (w_dispatched (world_run st sha resolve step ops w))"
proof (induction ops arbitrary: w)
  case (Cons op ops)
  have "set (w_dispatched w) \<subseteq> set (w_dispatched (world_step st sha resolve step op w))"
    by (cases op) (auto simp: advance_call_def Let_def split: prod.splits)
  with Cons show ?case by force
qed simp

section \<open>What a store promises\<close>

definition execution_hold_codes :: "string list" where
  "execution_hold_codes = [''PROVIDER_OUTCOME_AMBIGUOUS'', ''PROVIDER_MODEL_MISMATCH'',
     ''PROVIDER_COST_MISSING'', ''POST_PROVIDER_RECONCILIATION_FAILED'']"

lemma hold_reason_code: "hold_reason x \<in> set execution_hold_codes"
  by (auto simp: hold_reason_def execution_hold_codes_def Let_def)

text \<open>The optional functions of the reliability protocol are steps of the store too.\<close>

definition protocol_reaches :: "('s, 'e) inference_store \<Rightarrow> ('s \<Rightarrow> 's \<Rightarrow> bool) \<Rightarrow> bool" where
  "protocol_reaches st reaches \<longleftrightarrow>
     (\<forall>f. do_record st = Some f \<longrightarrow> (\<forall>e a n s s'. f e a n s = Inr s' \<longrightarrow> reaches s s'))
     \<and> (\<forall>f. do_authorize st = Some f \<longrightarrow> (\<forall>e c rid u s s' t. f e c rid u s = Inr (s', t) \<longrightarrow> reaches s s'))
     \<and> (\<forall>f. do_entered st = Some f \<longrightarrow> (\<forall>e run rid t s s'. f e run rid t s = Inr s' \<longrightarrow> reaches s s'))
     \<and> (\<forall>f. do_release st = Some f \<longrightarrow> (\<forall>e c rid t s s'. f e c rid t s = Inr s' \<longrightarrow> reaches s s'))
     \<and> (\<forall>f. do_completeReliability st = Some f \<longrightarrow>
          (\<forall>e i p s s' c. f e i p s = Inr (s', c) \<longrightarrow> reaches s s'))
     \<and> (\<forall>f. do_completeAttempt st = Some f \<longrightarrow> (\<forall>e p s s'. f e p s = Inr s' \<longrightarrow> reaches s s'))
     \<and> (\<forall>f. do_notDispatched st = Some f \<longrightarrow> (\<forall>e x h s s'. f e x h s = Inr s' \<longrightarrow> reaches s s'))
     \<and> (\<forall>f. do_holdAttempt st = Some f \<longrightarrow> (\<forall>e h s s'. f e h s = Inr s' \<longrightarrow> reaches s s'))"

lemma protocol_reachesD:
  assumes "protocol_reaches st reaches"
  shows "do_record st = Some f1 \<Longrightarrow> f1 e a n s = Inr s' \<Longrightarrow> reaches s s'"
    and "do_authorize st = Some f2 \<Longrightarrow> f2 e c rid u s = Inr (s', t) \<Longrightarrow> reaches s s'"
    and "do_entered st = Some f3 \<Longrightarrow> f3 e run rid t s = Inr s' \<Longrightarrow> reaches s s'"
    and "do_release st = Some f4 \<Longrightarrow> f4 e c rid t s = Inr s' \<Longrightarrow> reaches s s'"
    and "do_completeReliability st = Some f5 \<Longrightarrow> f5 e i p s = Inr (s', d) \<Longrightarrow> reaches s s'"
    and "do_completeAttempt st = Some f6 \<Longrightarrow> f6 e p s = Inr s' \<Longrightarrow> reaches s s'"
    and "do_notDispatched st = Some f7 \<Longrightarrow> f7 e x h s = Inr s' \<Longrightarrow> reaches s s'"
    and "do_holdAttempt st = Some f8 \<Longrightarrow> f8 e h s = Inr s' \<Longrightarrow> reaches s s'"
  using assms unfolding protocol_reaches_def by metis+

locale inference_contract =
  fixes st :: "('s, 'e) inference_store"
    and step :: "'op \<Rightarrow> 's \<Rightarrow> store_error + ('s \<times> 'a)"
    and background :: "'op \<Rightarrow> bool"
    and reaches :: "'s \<Rightarrow> 's \<Rightarrow> bool"
    and taken :: "'s \<Rightarrow> string \<times> string \<Rightarrow> bool"
  assumes reaches_refl: "reaches s s"
    and reaches_trans: "reaches s s' \<Longrightarrow> reaches s' s'' \<Longrightarrow> reaches s s''"
    and step_reaches: "background op \<Longrightarrow> step op s = Inr (s', a) \<Longrightarrow> reaches s s'"
    and admit_reaches: "do_admit st e i x s = Inr (s', r, c) \<Longrightarrow> reaches s s'"
    and complete_reaches: "do_complete st e q s = Inr (s', w) \<Longrightarrow> reaches s s'"
    and hold_reaches: "hi_reasonCode h \<in> set execution_hold_codes \<Longrightarrow> do_hold st e h s = Inr s' \<Longrightarrow> reaches s s'"
    and fail_reaches: "do_fail st e u s = Inr s' \<Longrightarrow> reaches s s'"
    and protocol: "protocol_reaches st reaches"
    and admit_takes: "do_admit st e i x s = Inr (s', AdmitExecute d n, c) \<Longrightarrow>
      \<not> taken s (ai_organizationId i, ai_requestId i) \<and> taken s' (ai_organizationId i, ai_requestId i)"
    and taken_stays: "reaches s s' \<Longrightarrow> taken s k \<Longrightarrow> taken s' k"
begin

lemma execute_step_reaches:
  assumes "execute_step st sha resolve i e now reply p s = (s', p')"
  shows "reaches s s'"
proof -
  have hold: "reaches s s'" if "do_hold st e \<lparr>hi_requestId = rid, hi_organizationId = org,
      hi_reasonCode = c, hi_response = r, hi_heldAt = t\<rparr> s = Inr s'"
    "c = ''PROVIDER_OUTCOME_AMBIGUOUS'' \<or> (\<exists>x. c = hold_reason x)" for rid org c r t s'
    using hold_reaches [OF _ that(1)] that(2) hold_reason_code by (auto simp: execution_hold_codes_def)
  show ?thesis
    using assms reaches_refl [of s]
    by (cases p) (auto simp: execute_defs enter_primitive_def Let_def
      split: if_splits sum.splits option.splits prod.splits admission_result.splits completion_result.splits bool.splits
      intro: admit_reaches complete_reaches fail_reaches hold protocol_reachesD [OF protocol])
qed


lemma advance_ok:
  assumes ok: "world_ok taken w"
  shows "world_ok taken (advance_call st sha resolve n e now reply w)"
proof (cases "n < length (w_calls w)")
  case False
  with ok show ?thesis by (simp add: advance_call_def)
next
  case n: True
  obtain i p where ip: "w_calls w ! n = (i, p)" by force
  obtain s' p' where step': "execute_step st sha resolve i e now reply p (w_store w) = (s', p')" by force
  let ?w = "advance_call st sha resolve n e now reply w"
  have w': "?w = \<lparr>w_store = s', w_calls = (w_calls w)[n := (i, p')],
      w_dispatched = (if at_provider p' then w_dispatched w @ [(n, call_key i)] else w_dispatched w)\<rparr>"
    using n ip step' by (simp add: advance_call_def Let_def)
  have reach: "reaches (w_store w) (w_store ?w)" using execute_step_reaches [OF step'] by (simp add: w')
  have count: "claims ?w k + on_its_way k (i, p) =
      claims w k + on_its_way k (i, p') + (if at_provider p' \<and> call_key i = k then 1 else 0)" for k
    using claims_advance [OF n ip, of s' p' k] unfolding w' .
  have old: "claims w k \<le> 1" "0 < claims w k \<Longrightarrow> taken (w_store w) k" for k
    using ok unfolding world_ok_def by blast+
  have "claims ?w k \<le> 1 \<and> (0 < claims ?w k \<longrightarrow> taken (w_store ?w) k)" for k
  proof (cases "(admitted_phase p' \<or> at_provider p') \<and> call_key i = k \<and> p = AtStart")
    case True
    then have "start_call st sha resolve i e now (w_store w) = (s', p')" using step' by simp
    then obtain b a d m c where adm: "do_admit st e (admission_request sha i b a now) (attempt_of i b) (w_store w)
        = Inr (s', AdmitExecute d m, c)"
      using True by (auto elim: start_call_admits)
    have "\<not> taken (w_store w) k" "taken s' k"
      using admit_takes [OF adm] True by (auto simp: admission_request_def call_key_def)
    moreover have "claims w k = 0" using old(2) [of k] calculation(1) by auto
    moreover have "\<not> (admitted_phase p' \<and> at_provider p')" by (cases p') simp_all
    ultimately show ?thesis using count [of k] True by (auto simp: w' on_its_way_def split: if_splits)
  next
    case False
    have "\<not> (admitted_phase p' \<and> at_provider p')" by (cases p') simp_all
    moreover have "admitted_phase p" if "admitted_phase p' \<or> at_provider p'" "call_key i = k"
      using execute_step_after_start [OF step'] that False by blast
    ultimately have "claims ?w k \<le> claims w k"
      using count [of k] by (auto simp: on_its_way_def split: if_splits)
    with old [of k] taken_stays [OF reach] show ?thesis by (meson le_trans less_le_trans)
  qed
  moreover have "\<forall>(m, k) \<in> set (w_dispatched ?w). m < length (w_calls ?w) \<and> k = call_key (fst (w_calls ?w ! m))
      \<and> snd (w_calls ?w ! m) \<noteq> AtStart \<and> \<not> admitted_phase (snd (w_calls ?w ! m))"
  proof (clarify)
    fix m o' r'
    assume "(m, o', r') \<in> set (w_dispatched ?w)"
    then consider "(m, o', r') \<in> set (w_dispatched w)" | "m = n" "(o', r') = call_key i" "at_provider p'"
      by (auto simp: w' split: if_splits)
    then show "m < length (w_calls ?w) \<and> (o', r') = call_key (fst (w_calls ?w ! m))
        \<and> snd (w_calls ?w ! m) \<noteq> AtStart \<and> \<not> admitted_phase (snd (w_calls ?w ! m))"
    proof cases
      case 1
      then have *: "m < length (w_calls w)" "(o', r') = call_key (fst (w_calls w ! m))"
        "snd (w_calls w ! m) \<noteq> AtStart" "\<not> admitted_phase (snd (w_calls w ! m))"
        using ok by (auto simp: world_ok_def)
      show ?thesis
      proof (cases "m = n")
        case True
        with * ip have "p \<noteq> AtStart" "\<not> admitted_phase p" by auto
        with execute_step_after_start [OF step'] execute_step_not_start [OF step'] show ?thesis
          using * True n ip by (auto simp: w')
      next
        case False
        with * n show ?thesis by (simp add: w')
      qed
    next
      case 2
      then show ?thesis using n by (cases p') (auto simp: w')
    qed
  qed
  ultimately show ?thesis by (simp add: world_ok_def)
qed

lemma world_step_ok:
  assumes ok: "world_ok taken w" and bg: "\<And>x. op = Background x \<Longrightarrow> background x"
  shows "world_ok taken (world_step st sha resolve step op w)"
proof (cases op)
  case (BeginCall i)
  with ok show ?thesis
    by (fastforce simp: world_ok_def claims_def on_its_way_def nth_append)
next
  case (Advance n e now reply)
  with ok show ?thesis by (simp add: advance_ok)
next
  case (Background x)
  have "reaches (w_store w) (tx step x (w_store w))"
    using bg [OF Background] step_reaches reaches_refl by (auto simp: tx_def split: sum.splits)
  with ok show ?thesis
    by (auto simp: Background world_ok_def claims_def intro: taken_stays)
qed

lemma world_step_reaches:
  assumes "\<And>x. op = Background x \<Longrightarrow> background x"
  shows "reaches (w_store w) (w_store (world_step st sha resolve step op w))"
proof (cases op)
  case (Advance n e now reply)
  show ?thesis
    by (auto simp: Advance advance_call_def Let_def reaches_refl split: prod.splits intro: execute_step_reaches)
next
  case (Background x)
  with assms step_reaches reaches_refl show ?thesis by (auto simp: tx_def split: sum.splits)
qed (simp add: reaches_refl)

lemma world_run_ok:
  assumes "\<And>x. Background x \<in> set ops \<Longrightarrow> background x"
  shows "world_ok taken (world_run st sha resolve step ops (idle_world s))"
proof (rule world_run_invariant)
  show "world_ok taken (idle_world s)" by (simp add: world_ok_def claims_def)
  show "world_ok taken (world_step st sha resolve step op w)" if "op \<in> set ops" "world_ok taken w" for w op
    using that assms by (auto intro!: world_step_ok)
qed

lemma world_run_reaches:
  assumes "\<And>x. Background x \<in> set ops \<Longrightarrow> background x"
  shows "reaches (w_store w) (w_store (world_run st sha resolve step ops w))"
proof (rule world_run_invariant [where P = "\<lambda>v. reaches (w_store w) (w_store v)"])
  show "reaches (w_store w) (w_store w)" by (rule reaches_refl)
  show "reaches (w_store w) (w_store (world_step st sha resolve step op v))"
    if "op \<in> set ops" "reaches (w_store w) (w_store v)" for v op
    using that(2) by (rule reaches_trans) (use that(1) assms in \<open>auto intro!: world_step_reaches\<close>)
qed

lemma dispatched_once:
  assumes "\<And>x. Background x \<in> set ops \<Longrightarrow> background x"
  shows "distinct (map snd (w_dispatched (world_run st sha resolve step ops (idle_world s))))"
proof (rule count_le_1_distinct)
  fix k
  have "claims (world_run st sha resolve step ops (idle_world s)) k \<le> 1"
    using world_run_ok [OF assms] unfolding world_ok_def by blast
  then show "count_list (map snd (w_dispatched (world_run st sha resolve step ops (idle_world s)))) k \<le> 1"
    by (simp add: claims_def)
qed

lemma dispatched_taken:
  assumes "\<And>x. Background x \<in> set ops \<Longrightarrow> background x"
    and "(n, k) \<in> set (w_dispatched (world_run st sha resolve step ops (idle_world s)))"
  shows "taken (w_store (world_run st sha resolve step ops (idle_world s))) k"
proof -
  let ?w = "world_run st sha resolve step ops (idle_world s)"
  have "k \<in> set (map snd (w_dispatched ?w))" using assms(2) by force
  then have "0 < claims ?w k" by (metis add_gr_0 claims_def count_list_0_iff neq0_conv)
  with world_run_ok [OF assms(1)] show ?thesis unfolding world_ok_def by blast
qed

end

section \<open>Every call ends\<close>

lemma advance_steps_left:
  assumes "n < length (w_calls w)"
  shows "n < length (w_calls (world_step st sha resolve step op w))"
    and "steps_left (snd (w_calls (world_step st sha resolve step op w) ! n)) \<le> steps_left (snd (w_calls w ! n))"
    and "op = Advance n e now reply \<Longrightarrow> \<not> ended (snd (w_calls w ! n)) \<Longrightarrow>
      steps_left (snd (w_calls (world_step st sha resolve step op w) ! n)) < steps_left (snd (w_calls w ! n))"
proof -
  have dec: "steps_left p' < steps_left p \<or> ended p \<and> p' = p"
    if "execute_step st sha resolve i e now reply p s = (s', p')" for i e now reply p s s' p'
    using execute_step_decreases [OF _ that] execute_step_ended [of p st sha resolve i e now reply s] that by auto
  show "n < length (w_calls (world_step st sha resolve step op w))"
    using assms by (cases op) (auto simp: advance_call_def Let_def split: prod.splits)
  show "steps_left (snd (w_calls (world_step st sha resolve step op w) ! n)) \<le> steps_left (snd (w_calls w ! n))"
  proof (cases op)
    case (Advance m e now reply)
    show ?thesis
    proof (cases "m = n")
      case True
      with Advance assms show ?thesis
        by (auto simp: advance_call_def Let_def split: prod.splits dest!: dec)
    next
      case False
      with Advance assms show ?thesis by (auto simp: advance_call_def Let_def split: prod.splits)
    qed
  qed (use assms in \<open>auto simp: nth_append\<close>)
  show "op = Advance n e now reply \<Longrightarrow> \<not> ended (snd (w_calls w ! n)) \<Longrightarrow>
      steps_left (snd (w_calls (world_step st sha resolve step op w) ! n)) < steps_left (snd (w_calls w ! n))"
    using assms by (auto simp: advance_call_def Let_def split: prod.splits dest!: dec)
qed

text \<open>The own steps of a call in a run.\<close>

fun own_steps :: "nat \<Rightarrow> ('op, 'e) exec_op list \<Rightarrow> nat" where
  "own_steps n [] = 0"
| "own_steps n (Advance m e now reply # ops) = (if m = n then 1 else 0) + own_steps n ops"
| "own_steps n (BeginCall i # ops) = own_steps n ops"
| "own_steps n (Background x # ops) = own_steps n ops"

lemma run_steps_left:
  "n < length (w_calls w) \<Longrightarrow>
     n < length (w_calls (world_run st sha resolve step ops w))
     \<and> (ended (snd (w_calls (world_run st sha resolve step ops w) ! n))
        \<or> steps_left (snd (w_calls (world_run st sha resolve step ops w) ! n)) + own_steps n ops
            \<le> steps_left (snd (w_calls w ! n)))"
proof (induction ops arbitrary: w)
  case (Cons op ops)
  let ?w = "world_step st sha resolve step op w"
  note A = advance_steps_left [OF Cons.prems, where st = st and sha = sha and resolve = resolve
      and step = step and op = op]
  note IH = Cons.IH [OF A(1)]
  show ?case
  proof (cases "\<exists>e now reply. op = Advance n e now reply")
    case True
    then obtain e now reply where op: "op = Advance n e now reply" by blast
    show ?thesis
    proof (cases "ended (snd (w_calls w ! n))")
      case True
      then have "steps_left (snd (w_calls ?w ! n)) = 0" using A(2) by (metis le_zero_eq steps_left_ended)
      then show ?thesis using IH by (metis add_is_0 le_zero_eq steps_left_ended world_run_simps(2))
    next
      case False
      with IH A(3) [OF op] op show ?thesis by auto
    qed
  next
    case False
    then have "own_steps n (op # ops) = own_steps n ops" by (cases op) auto
    with IH A(2) show ?thesis by auto
  qed
qed simp

end
