(* ===== verification/PolicySample.thy ===== *)
theory PolicySample
  imports PolicyStoreSafety
begin

text \<open>
  A concrete history of the policy store, used where a property is applied to an example: one policy,
  one mandate with an agent, three requests, an overrun and its resolution.
\<close>

definition no_hash :: "string \<Rightarrow> string" where
  "no_hash s = []"

definition sample_context :: "int \<Rightarrow> mutation_context" where
  "sample_context t = \<lparr>ctx_actorId = ''op'', ctx_causationId = ''c'', ctx_occurredAt = Instant t\<rparr>"

definition sample_mandate :: mandate_creation where
  "sample_mandate =
     \<lparr>mi_context = sample_context 0, mi_id = ''m'', mi_organizationId = ''o'', mi_name = ''mandate'',
      mi_assetId = ''usdc'', mi_maximumSpendAtomic = 100, mi_state = M_draft, mi_policyId = ''p'',
      mi_policyVersion = 1, mi_expiresAt = None\<rparr>"

definition sample_fingerprint :: string where
  "sample_fingerprint = replicate 64 CHR ''a''"

definition sample_request :: "string \<Rightarrow> int \<Rightarrow> int \<Rightarrow> admission_input" where
  "sample_request rid cost t =
     \<lparr>ai_requestId = rid, ai_organizationId = ''o'', ai_mandateId = ''m'', ai_agentId = ''a'',
      ai_agentCapabilities = [Known Inference_invoke], ai_provider = ''openrouter'', ai_model = ''m'',
      ai_branchId = None, ai_workloadClass = None, ai_estimatedCostAtomic = cost, ai_inputTokens = 10,
      ai_maxOutputTokens = 10, ai_requestFingerprint = sample_fingerprint, ai_decidedAt = Instant t\<rparr>"

definition sample_response :: provider_result where
  "sample_response =
     \<lparr>p_id = ''g'', p_content = ''hello'', p_usage = \<lparr>inputTokens = 10, outputTokens = 10\<rparr>,
      p_providerCostUsd = None, p_providerModel = None\<rparr>"

definition sample_completion :: "string \<Rightarrow> int \<Rightarrow> int \<Rightarrow> completion_input" where
  "sample_completion rid cost t =
     \<lparr>ci_requestId = rid, ci_organizationId = ''o'', ci_actualCostAtomic = cost,
      ci_response = sample_response, ci_completedAt = Instant t\<rparr>"

definition sample_resolution :: "string \<Rightarrow> int \<Rightarrow> int \<Rightarrow> resolution_input" where
  "sample_resolution rid cost t =
     \<lparr>ri_context = sample_context t, ri_organizationId = ''o'', ri_requestId = rid,
      ri_resolution = Settle, ri_actualCostAtomic = Some cost, ri_note = ''checked'',
      ri_externalReference = ''ref''\<rparr>"

text \<open>An active mandate, then one completed request and one that overran its reservation.\<close>

definition setup_ops :: "store_op list" where
  "setup_ops =
     [OpPublish sample_policy (sample_context 0), OpCreateMandate sample_mandate,
      OpAssign ''o'' ''m'' ''a'' (sample_context 0),
      OpTransition ''o'' ''m'' M_active (sample_context 0)]"

definition overrun_ops :: "store_op list" where
  "overrun_ops = setup_ops @
     [OpAdmit ''d1'' 1 False (sample_request ''r1'' 50 1), OpComplete 2 (sample_completion ''r1'' 40 2),
      OpAdmit ''d2'' 3 False (sample_request ''r2'' 30 3), OpComplete 4 (sample_completion ''r2'' 35 4)]"

abbreviation sample_run :: "store_op list \<Rightarrow> policy_store" where
  "sample_run ops \<equiv> tx_run (store_step no_hash) ops (empty_store [''o''] [(''o'', ''a'')])"

text \<open>The later steps: a new request, a retry of the first, a failure report, the resolution and its replay.\<close>

definition answer_of :: "store_op \<Rightarrow> policy_store \<Rightarrow> store_answer option" where
  "answer_of op s = (case store_step no_hash op s of Inl e \<Rightarrow> None | Inr (s', x) \<Rightarrow> Some x)"

fun is_denied :: "store_answer option \<Rightarrow> bool" where
  "is_denied (Some (AnsAdmission (AdmitDenied d))) = True"
| "is_denied x = False"

fun is_execute :: "store_answer option \<Rightarrow> bool" where
  "is_execute (Some (AnsAdmission (AdmitExecute d n))) = True"
| "is_execute x = False"

fun is_completed :: "store_answer option \<Rightarrow> bool" where
  "is_completed (Some (AnsAdmission (AdmitCompleted d n actual response evidence))) = True"
| "is_completed x = False"

fun is_resolved :: "store_answer option \<Rightarrow> bool" where
  "is_resolved (Some (AnsResolved b)) = True"
| "is_resolved x = False"

lemma answer_ofE: "answer_of op s = Some x \<Longrightarrow> \<exists>s'. store_step no_hash op s = Inr (s', x)"
  by (auto simp: answer_of_def split: sum.splits)

definition resolve_op :: "int \<Rightarrow> store_op" where
  "resolve_op t = OpResolve t (sample_resolution ''r2'' 35 t)"

lemma overrun_run:
  "run_allowed hold_code_allowed (store_step no_hash) overrun_ops (empty_store [''o''] [(''o'', ''a'')])"
  by code_simp

lemma overrun_state:
  "map_option cm_maximumSpendAtomic (find_mandate ''o'' ''m'' (sample_run overrun_ops)) = Some 100
   \<and> map ex_status (st_executions (sample_run overrun_ops)) = [Completed, Held]
   \<and> map ex_organizationId (st_executions (sample_run overrun_ops)) = [''o'', ''o'']
   \<and> map ex_mandateId (st_executions (sample_run overrun_ops)) = [''m'', ''m'']
   \<and> st_resolutions (sample_run overrun_ops) = []
   \<and> map_option ex_status (find_execution ''o'' ''r1'' (sample_run overrun_ops)) = Some Completed
   \<and> is_denied (answer_of (OpAdmit ''d3'' 5 False (sample_request ''r3'' 5 5)) (sample_run overrun_ops))"
  by code_simp

lemma first_request:
  "is_execute (answer_of (OpAdmit ''d1'' 1 False (sample_request ''r1'' 50 1)) (sample_run setup_ops))
   \<and> is_completed (answer_of (OpAdmit ''d9'' 9 False (sample_request ''r1'' 50 9))
       (tx_run (store_step no_hash) [OpComplete 2 (sample_completion ''r1'' 40 2)]
         (tx (store_step no_hash) (OpAdmit ''d1'' 1 False (sample_request ''r1'' 50 1)) (sample_run setup_ops))))"
  by code_simp

lemma first_resolution:
  "is_resolved (answer_of (resolve_op 5) (sample_run overrun_ops))
   \<and> is_resolved (answer_of (resolve_op 7)
       (tx_run (store_step no_hash) [OpFail ''o'' ''r2'' ''LATE'' (Instant 6)]
         (tx (store_step no_hash) (resolve_op 5) (sample_run overrun_ops))))"
  by code_simp

end
