(* ===== verification/PolicyStoreProperties.thy ===== *)
theory PolicyStoreProperties
  imports PolicySample PolicyStoreFinality
begin

text \<open>
  The properties of the policy store's histories (\<open>src/src/persistence/policyStore.ts\<close>): the budget of
  a mandate, the discipline of reconciliation cases, at most one execution per request, and the
  finality of settled executions and resolutions. Each rests on the invariant of the steps.
\<close>

section \<open>Budget\<close>

lemma covered_filter:
  "mandate_covered es m = (\<Sum>r\<leftarrow>filter (in_mandate (cm_organizationId m) (cm_id m)) es. covered r)"
  unfolding mandate_covered_def by (induction es) auto

definition covered_spend :: "policy_store \<Rightarrow> string \<times> string \<Rightarrow> int" where
  "covered_spend s k = (\<Sum>r\<leftarrow>mandate_executions (fst k) (snd k) s. covered r)"

definition spend_limit :: "policy_store \<Rightarrow> string \<times> string \<Rightarrow> int" where
  "spend_limit s k =
     (case find_mandate (fst k) (snd k) s of None \<Rightarrow> 0 | Some m \<Rightarrow> cm_maximumSpendAtomic m)"

lemma covered_spend_le: 
  assumes "store_inv s"
  shows "covered_spend s k \<le> spend_limit s k"
proof (cases "find_mandate (fst k) (snd k) s")
  case None
  have "\<not> in_mandate (fst k) (snd k) r" if "r \<in> set (st_executions s)" for r
    using assms that None tbl_find_None_iff [of mandate_key "(fst k, snd k)" "st_mandates s"]
      mand_ok_SomeD [of "st_mandates s" "st_resolutions s" r]
    by (auto simp: store_inv_def inv_parts_def in_mandate_def find_mandate_def)
  then have "mandate_executions (fst k) (snd k) s = []"
    by (auto simp: mandate_executions_def filter_empty_conv)
  then show ?thesis by (simp add: covered_spend_def spend_limit_def None)
next
  case (Some m)
  with tbl_find_SomeD [OF Some [unfolded find_mandate_def]] assms
  have "mandate_covered (st_executions s) m \<le> cm_maximumSpendAtomic m"
    "cm_organizationId m = fst k" "cm_id m = snd k"
    by (auto simp: store_inv_def inv_parts_def mandate_key_def)
  then show ?thesis by (simp add: covered_spend_def spend_limit_def Some covered_filter mandate_executions_def)
qed

interpretation store_budget: guarded_budget "store_step sha" hold_code_allowed store_inv covered_spend spend_limit
  for sha by unfold_locales (rule covered_spend_le)


text \<open>
  On every state of such a history the two spending formulas of the code agree: the counter of
  the mandate and the counter of the branch and class take the same amount from every execution.
\<close>

theorem counters_agree:
  assumes "run_allowed hold_code_allowed (store_step sha) ops (empty_store orgs agents)"
    and "r \<in> set (st_executions (tx_run (store_step sha) ops (empty_store orgs agents)))"
  shows "mandate_counted r = class_counted r"
proof -
  have "row_ok r"
    using store_tx.run_inv [OF empty_store_inv assms(1)] assms(2) by (simp add: store_inv_def inv_parts_def)
  then show ?thesis
    by (cases "ex_status r") (auto simp: row_ok_def mandate_counted_def class_counted_def billed_no_response_def)
qed

section \<open>Open cases\<close>

text \<open>
  C3: while a held execution of a mandate is unresolved, no new request of this mandate is admitted
  for execution, whatever happened before.
\<close>

theorem open_case_blocks_admission:
  assumes "run_allowed hold_code_allowed (store_step sha) ops (empty_store orgs agents)"
    and "s = tx_run (store_step sha) ops (empty_store orgs agents)"
    and "r \<in> set (st_executions s)" and "open_case s r"
    and "admitInference sha uuid clock previewOnly i s = Inr (s', a)"
    and "ai_organizationId i = ex_organizationId r" and "ai_mandateId i = ex_mandateId r"
  shows "a \<noteq> AdmitExecute d n"
proof
  assume a: "a = AdmitExecute d n"
  have inv: "store_inv s" unfolding assms(2) by (rule store_tx.run_inv [OF empty_store_inv assms(1)])
  show False using assms(5)
  proof (rule admitInference_Inr)
    fix t m p assume m: "find_mandate (ai_organizationId i) (ai_mandateId i) s = Some m"
      and new: "admit_new sha uuid previewOnly i m (pr_policy p) t s = Inr (s', a)"
    from admit_new_effect [OF new] a obtain d' where "decide sha uuid i m (pr_policy p) t s = Inr d'"
      "pd_outcome (sd_result d') = ALLOW" by (auto split: if_splits)
    then have "cm_state m = M_active" by (rule decide_allow(1))
    moreover have "mand_ok (st_mandates s) (st_resolutions s) r"
      using inv assms(3) by (simp add: store_inv_def inv_parts_def)
    ultimately show False
      using m assms(4,6,7) by (simp add: mand_ok_def find_mandate_def open_case_def resolved_def out_of_service_def)
  next
    fix t x assume "admissionFromExecution clock x t s = Inr (s', a)"
    then show False
      by (auto simp: a admissionFromExecution_def and_then_Inr_iff split: option.splits exec_status.splits if_splits)
  qed
qed

section \<open>At most one execution per request\<close>

text \<open>
  C2: once a request has been admitted for execution, a later admission of the same request, after
  any steps, never executes it again: with another fingerprint it is refused, and otherwise it answers
  that the request is in progress, has failed, or has completed under the same decision and reservation.
\<close>

theorem executes_at_most_once:
  assumes "store_step sha (OpAdmit uuid clock False i) s = Inr (s1, AnsAdmission (AdmitExecute d n))"
    and "store_step sha (OpAdmit uuid' clock' pre i') (tx_run (store_step sha) ops s1) = Inr (s2, AnsAdmission a)"
    and "ai_organizationId i' = ai_organizationId i" and "ai_requestId i' = ai_requestId i"
  shows "ai_requestFingerprint i' = ai_requestFingerprint i
    \<and> (a = AdmitInProgress \<or> a = AdmitFailed
       \<or> (\<exists>actual response evidence. a = AdmitCompleted d n actual response evidence))"
proof -
  let ?k = "(ai_organizationId i, ai_requestId i)" and ?s = "tx_run (store_step sha) ops s1"
  from assms(1) have "accepted_request s1 (?k, d, n, ai_requestFingerprint i)"
    by (auto simp: answer_Inr intro: admit_execute_accepted(1))
  then have "accepted_request ?s (?k, d, n, ai_requestFingerprint i)" by (rule store_requests.run_final)
  then obtain r where r: "find_execution (ai_organizationId i') (ai_requestId i') ?s = Some r"
    "ex_status r \<noteq> Denied" "ex_reservedCostAtomic r = n" "ex_requestFingerprint r = ai_requestFingerprint i"
    "tbl_find decision_key (ex_organizationId r, ex_decisionId r) (st_decisions ?s) = Some d"
    by (auto simp: accepted_request_def find_execution_def assms(3,4))
  from assms(2) have "admitInference sha uuid' clock' pre i' ?s = Inr (s2, a)" by (auto simp: answer_Inr)
  then show ?thesis
  proof (rule admitInference_Inr)
    assume "find_execution (ai_organizationId i') (ai_requestId i') ?s = None"
    with r(1) show ?thesis by simp
  next
    fix t x assume x: "find_execution (ai_organizationId i') (ai_requestId i') ?s = Some x"
      "ex_requestFingerprint x = ai_requestFingerprint i'" "admissionFromExecution clock' x t ?s = Inr (s2, a)"
    with r show ?thesis
      by (auto simp: admissionFromExecution_def and_then_Inr_iff split: option.splits exec_status.splits if_splits)
  qed
qed

text \<open>
  C33: an execution that is completed, failed or denied keeps its outcome: whatever steps follow, its
  row stays the same in every column that is not bookkeeping of the shadow evaluation.
\<close>

theorem finished_execution_final:
  assumes "find_execution org rid s = Some r" and "ex_status r \<in> {Denied, Completed, Failed}"
  shows "\<exists>r'. find_execution org rid (tx_run (store_step sha) ops s) = Some r'
    \<and> authoritative r' = authoritative r"
proof -
  have "finished_as s ((org, rid), authoritative r)"
    using assms by (auto simp: finished_as_def find_execution_def finished_def)
  then have "finished_as (tx_run (store_step sha) ops s) ((org, rid), authoritative r)"
    by (rule store_outcomes.run_final)
  then show ?thesis by (auto simp: finished_as_def find_execution_def)
qed

text \<open>
  C34: a case is resolved once: after a resolution was accepted, a later one for the same request is
  accepted only if it repeats the first exactly, and then it changes nothing.
\<close>

theorem resolved_once:
  assumes "store_step sha (OpResolve clock i) s = Inr (s1, a)"
    and "store_step sha (OpResolve clock' i') (tx_run (store_step sha) ops s1) = Inr (s2, b)"
    and "ri_organizationId i' = ri_organizationId i" and "ri_requestId i' = ri_requestId i"
  shows "s2 = tx_run (store_step sha) ops s1 \<and> ri_resolution i' = ri_resolution i
    \<and> resolution_cost i' = resolution_cost i \<and> ri_note i' = ri_note i
    \<and> ri_externalReference i' = ri_externalReference i
    \<and> ctx_actorId (ri_context i') = ctx_actorId (ri_context i)"
proof -
  let ?k = "(ri_organizationId i, ri_requestId i)" and ?s = "tx_run (store_step sha) ops s1"
  from assms(1) obtain q where "resolve_transaction sha clock i s = Inr (s1, q)" by (auto simp: answer_Inr)
  from resolve_records [OF this] obtain x where x: "tbl_find resolution_key ?k (st_resolutions s1) = Some x"
    "exact_replay i x" by blast
  have later: "tbl_find resolution_key ?k (st_resolutions ?s) = Some x"
    using store_resolutions.run_final [of s1 "(?k, x)" sha ops] x(1) by simp
  from assms(2) obtain q' where "resolve_transaction sha clock' i' ?s = Inr (s2, q')" by (auto simp: answer_Inr)
  then show ?thesis
  proof (rule resolve_Inr)
    fix r y assume "tbl_find resolution_key (ri_organizationId i', ri_requestId i') (st_resolutions ?s) = Some y"
      "exact_replay i' y" "s2 = ?s"
    with later x(2) assms(3,4) show ?thesis by (auto simp: exact_replay_def)
  next
    assume "tbl_find resolution_key (ri_organizationId i', ri_requestId i') (st_resolutions ?s) = None"
    with later assms(3,4) show ?thesis by simp
  qed
qed

section \<open>The properties at work on a history\<close>

lemma is_deniedE: "is_denied x \<Longrightarrow> \<exists>d. x = Some (AnsAdmission (AdmitDenied d))"
  by (cases x rule: is_denied.cases) auto

lemma is_executeE: "is_execute x \<Longrightarrow> \<exists>d n. x = Some (AnsAdmission (AdmitExecute d n))"
  by (cases x rule: is_execute.cases) auto

lemma is_completedE:
  "is_completed x \<Longrightarrow> \<exists>d n actual response evidence. x = Some (AnsAdmission (AdmitCompleted d n actual response evidence))"
  by (cases x rule: is_completed.cases) auto

lemma is_resolvedE: "is_resolved x \<Longrightarrow> \<exists>b. x = Some (AnsResolved b)"
  by (cases x rule: is_resolved.cases) auto

lemma tx_step: "store_step no_hash op s = Inr (s', a) \<Longrightarrow> tx (store_step no_hash) op s = s'"
  by (simp add: tx_def)


lemma overrun_rows:
  obtains a b where "st_executions (sample_run overrun_ops) = [a, b]" "ex_status b = Held"
    "ex_organizationId b = ''o''" "ex_mandateId b = ''m''"
  using overrun_state by (auto simp: map_eq_Cons_conv)

lemma counters_agree_witness:
  "mandate_counted (hd (st_executions (sample_run overrun_ops)))
     = class_counted (hd (st_executions (sample_run overrun_ops)))"
  by (rule overrun_rows) (rule counters_agree [OF overrun_run], simp)

lemma open_case_blocks_admission_witness:
  "\<exists>s' a. admitInference no_hash ''d3'' 5 False (sample_request ''r3'' 5 5) (sample_run overrun_ops) = Inr (s', a)
     \<and> (\<forall>d n. a \<noteq> AdmitExecute d n)"
proof (rule overrun_rows)
  fix x b assume rows: "st_executions (sample_run overrun_ops) = [x, b]" "ex_status b = Held"
    "ex_organizationId b = ''o''" "ex_mandateId b = ''m''"
  have open_b: "open_case (sample_run overrun_ops) b"
    using rows overrun_state by (simp add: open_case_def resolved_def tbl_find_def)
  from overrun_state is_deniedE obtain d where
    "answer_of (OpAdmit ''d3'' 5 False (sample_request ''r3'' 5 5)) (sample_run overrun_ops)
      = Some (AnsAdmission (AdmitDenied d))" by blast
  from answer_ofE [OF this] obtain s' a where
    a: "admitInference no_hash ''d3'' 5 False (sample_request ''r3'' 5 5) (sample_run overrun_ops) = Inr (s', a)"
    by (auto simp: answer_Inr)
  have "a \<noteq> AdmitExecute d n" for d n
    by (rule open_case_blocks_admission [OF overrun_run refl _ open_b a])
      (simp_all add: rows sample_request_def)
  with a show ?thesis by blast
qed

lemma executes_at_most_once_witness:
  "\<exists>s1 s2 d n actual response evidence.
     store_step no_hash (OpAdmit ''d1'' 1 False (sample_request ''r1'' 50 1)) (sample_run setup_ops)
       = Inr (s1, AnsAdmission (AdmitExecute d n))
     \<and> store_step no_hash (OpAdmit ''d9'' 9 False (sample_request ''r1'' 50 9))
        (tx_run (store_step no_hash) [OpComplete 2 (sample_completion ''r1'' 40 2)] s1)
       = Inr (s2, AnsAdmission (AdmitCompleted d n actual response evidence))"
proof -
  from first_request is_executeE obtain d n where
    "answer_of (OpAdmit ''d1'' 1 False (sample_request ''r1'' 50 1)) (sample_run setup_ops)
      = Some (AnsAdmission (AdmitExecute d n))" by blast
  from answer_ofE [OF this] obtain s1 where
    s1: "store_step no_hash (OpAdmit ''d1'' 1 False (sample_request ''r1'' 50 1)) (sample_run setup_ops)
      = Inr (s1, AnsAdmission (AdmitExecute d n))" by blast
  from first_request [unfolded tx_step [OF s1]] is_completedE obtain d' n' actual response evidence where
    "answer_of (OpAdmit ''d9'' 9 False (sample_request ''r1'' 50 9))
        (tx_run (store_step no_hash) [OpComplete 2 (sample_completion ''r1'' 40 2)] s1)
      = Some (AnsAdmission (AdmitCompleted d' n' actual response evidence))" by blast
  from answer_ofE [OF this] obtain s2 where
    s2: "store_step no_hash (OpAdmit ''d9'' 9 False (sample_request ''r1'' 50 9))
        (tx_run (store_step no_hash) [OpComplete 2 (sample_completion ''r1'' 40 2)] s1)
      = Inr (s2, AnsAdmission (AdmitCompleted d' n' actual response evidence))" by blast
  from executes_at_most_once [OF s1 s2] have "d' = d \<and> n' = n"
    by (simp add: sample_request_def)
  with s1 s2 show ?thesis by blast
qed

lemma finished_execution_final_witness:
  "\<exists>r r'. find_execution ''o'' ''r1'' (sample_run overrun_ops) = Some r
     \<and> find_execution ''o'' ''r1'' (tx_run (store_step no_hash)
          [OpFail ''o'' ''r1'' ''LATE'' (Instant 9)] (sample_run overrun_ops)) = Some r'
     \<and> authoritative r' = authoritative r"
proof -
  from overrun_state obtain r where r: "find_execution ''o'' ''r1'' (sample_run overrun_ops) = Some r"
    "ex_status r = Completed" by (auto simp: map_option_case split: option.splits)
  with finished_execution_final [OF r(1), of no_hash "[OpFail ''o'' ''r1'' ''LATE'' (Instant 9)]"]
  show ?thesis by auto
qed

lemma resolved_once_witness:
  "\<exists>s1 a s2 b. store_step no_hash (resolve_op 5) (sample_run overrun_ops) = Inr (s1, a)
     \<and> store_step no_hash (resolve_op 7)
        (tx_run (store_step no_hash) [OpFail ''o'' ''r2'' ''LATE'' (Instant 6)] s1) = Inr (s2, b)
     \<and> s2 = tx_run (store_step no_hash) [OpFail ''o'' ''r2'' ''LATE'' (Instant 6)] s1"
proof -
  from first_resolution is_resolvedE obtain b where
    "answer_of (resolve_op 5) (sample_run overrun_ops) = Some (AnsResolved b)" by blast
  from answer_ofE [OF this] obtain s1 where
    s1: "store_step no_hash (resolve_op 5) (sample_run overrun_ops) = Inr (s1, AnsResolved b)" by blast
  from first_resolution [unfolded tx_step [OF s1]] is_resolvedE obtain b' where
    "answer_of (resolve_op 7) (tx_run (store_step no_hash) [OpFail ''o'' ''r2'' ''LATE'' (Instant 6)] s1)
      = Some (AnsResolved b')" by blast
  from answer_ofE [OF this] obtain s2 where
    s2: "store_step no_hash (resolve_op 7)
        (tx_run (store_step no_hash) [OpFail ''o'' ''r2'' ''LATE'' (Instant 6)] s1) = Inr (s2, AnsResolved b')"
    by blast
  from resolved_once [OF s1 [unfolded resolve_op_def] s2 [unfolded resolve_op_def]]
  have "s2 = tx_run (store_step no_hash) [OpFail ''o'' ''r2'' ''LATE'' (Instant 6)] s1"
    by (simp add: sample_resolution_def)
  with s1 s2 show ?thesis by blast
qed

end
