(* ===== verification/InferencePolicyStore.thy ===== *)
theory InferencePolicyStore
  imports InferenceWorld PolicyStoreProperties
begin

text \<open>
  The composition of the two main parts: \<open>InferenceExecutionService\<close> over \<open>PolicyStore\<close>. The store
  functions of the service are the operations of the policy store, which implements none of the
  optional functions of the reliability protocol; the other users of the store are its own steps.
\<close>

section \<open>The policy store as the store of the service\<close>

record store_env =
  en_uuid :: string
  en_clock :: int
  en_token :: string

definition policy_inference_store :: "(string \<Rightarrow> string) \<Rightarrow> (policy_store, store_env) inference_store" where
  "policy_inference_store sha =
     \<lparr>do_admit = (\<lambda>e i x s. and_then (admitInference sha (en_uuid e) (en_clock e) False i s)
        (\<lambda>(s', a). Inr (s', a, False))),
      do_preview = Some (\<lambda>e i s. admitInference sha (en_uuid e) (en_clock e) True i s),
      do_complete = (\<lambda>e i s. completeInference sha (en_token e) (en_clock e) i s),
      do_hold = (\<lambda>e h s. holdInference (en_clock e) (hi_organizationId h) (hi_requestId h)
        (hi_reasonCode h) (hi_response h) (hi_heldAt h) s),
      do_fail = (\<lambda>e x s. failInference (fi_organizationId x) (fi_requestId x) (fi_failureCode x)
        (fi_failedAt x) s),
      do_record = None, do_authorize = None, do_entered = None, do_release = None,
      do_completeReliability = None, do_completeAttempt = None, do_notDispatched = None,
      do_holdAttempt = None\<rparr>"

lemma policy_inference_store_simps [simp]:
  "do_admit (policy_inference_store sha) e i x s =
     and_then (admitInference sha (en_uuid e) (en_clock e) False i s) (\<lambda>(s', a). Inr (s', a, False))"
  "do_complete (policy_inference_store sha) e c s = completeInference sha (en_token e) (en_clock e) c s"
  "do_hold (policy_inference_store sha) e h s = holdInference (en_clock e) (hi_organizationId h)
     (hi_requestId h) (hi_reasonCode h) (hi_response h) (hi_heldAt h) s"
  "do_fail (policy_inference_store sha) e y s =
     failInference (fi_organizationId y) (fi_requestId y) (fi_failureCode y) (fi_failedAt y) s"
  "do_record (policy_inference_store sha) = None"
  "do_authorize (policy_inference_store sha) = None"
  "do_entered (policy_inference_store sha) = None"
  "do_release (policy_inference_store sha) = None"
  "do_completeReliability (policy_inference_store sha) = None"
  "do_completeAttempt (policy_inference_store sha) = None"
  "do_notDispatched (policy_inference_store sha) = None"
  "do_holdAttempt (policy_inference_store sha) = None"
  by (simp_all add: policy_inference_store_def)

section \<open>Its functions are runs of the store\<close>

definition store_reaches ::
    "(store_op \<Rightarrow> policy_store \<Rightarrow> bool) \<Rightarrow> (string \<Rightarrow> string) \<Rightarrow> policy_store \<Rightarrow> policy_store \<Rightarrow> bool" where
  "store_reaches al sha s s' \<longleftrightarrow>
     (\<exists>ops. run_allowed al (store_step sha) ops s \<and> s' = tx_run (store_step sha) ops s)"

lemma run_allowed_append:
  "run_allowed al f (xs @ ys) s \<longleftrightarrow> run_allowed al f xs s \<and> run_allowed al f ys (tx_run f xs s)"
  by (induction xs arbitrary: s) auto

lemma store_reaches_refl: "store_reaches al sha s s"
  unfolding store_reaches_def by (rule exI [of _ "[]"]) simp

lemma store_reaches_trans:
  assumes "store_reaches al sha s s'" and "store_reaches al sha s' s''"
  shows "store_reaches al sha s s''"
proof -
  from assms obtain xs ys where "run_allowed al (store_step sha) xs s" "s' = tx_run (store_step sha) xs s"
    "run_allowed al (store_step sha) ys s'" "s'' = tx_run (store_step sha) ys s'"
    by (auto simp: store_reaches_def)
  then have "run_allowed al (store_step sha) (xs @ ys) s" "s'' = tx_run (store_step sha) (xs @ ys) s"
    by (simp_all add: run_allowed_append tx_run_append)
  then show ?thesis unfolding store_reaches_def by blast
qed

lemma store_reaches_step: "al op s \<Longrightarrow> store_step sha op s = Inr (s', a) \<Longrightarrow> store_reaches al sha s s'"
  unfolding store_reaches_def by (rule exI [of _ "[op]"]) (simp add: tx_def)

definition hold_codes_only :: "store_op \<Rightarrow> bool" where
  "hold_codes_only op \<longleftrightarrow>
     (case op of OpHold _ _ _ code _ _ \<Rightarrow> code \<in> set execution_hold_codes | _ \<Rightarrow> True)"

lemma process_reaches:
  assumes al: "\<And>op s. hold_codes_only op \<Longrightarrow> al op s"
    and p: "processShadowEvaluationBestEffort sha token now org rid t s = (s', x)"
  shows "store_reaches al sha s s'"
proof -
  obtain s1 c where c: "claim_shadow token now org rid t s = (s1, c)" by force
  have one: "store_reaches al sha s s1"
    by (rule store_reaches_step [where op = "OpClaimShadow token now org rid t"])
      (auto simp: al hold_codes_only_def c answer_def)
  show ?thesis
  proof (cases c)
    case (NotAcquired y)
    with p c one show ?thesis by (auto simp: processShadowEvaluationBestEffort_def)
  next
    case Acquired
    have "store_reaches al sha s1 s'"
    proof (cases "finish_shadow sha token org rid t s1")
      case (Inl e)
      with p c Acquired have "s' = fail_shadow token org rid t s1"
        by (simp add: processShadowEvaluationBestEffort_def)
      then show ?thesis
        by (intro store_reaches_step [where op = "OpFailShadow token org rid t"])
          (auto simp: al hold_codes_only_def)
    next
      case (Inr y)
      with p c Acquired have "finish_shadow sha token org rid t s1 = Inr (s', x)"
        by (cases y) (simp add: processShadowEvaluationBestEffort_def)
      then show ?thesis
        by (intro store_reaches_step [where op = "OpFinishShadow token org rid t"])
          (auto simp: al hold_codes_only_def answer_def)
    qed
    with one show ?thesis by (rule store_reaches_trans)
  qed
qed

lemma completeInference_Inr:
  assumes "completeInference sha token clock i s = Inr (s', c)"
  obtains s1 r q where "complete_transaction sha clock i s = Inr (s1, r, q)"
    and "s' = s1 \<or> (\<exists>t x. processShadowEvaluationBestEffort sha token clock (ci_organizationId i)
          (ci_requestId i) t s1 = (s', x))"
proof -
  from assms obtain s1 r q where t: "complete_transaction sha clock i s = Inr (s1, r, q)"
    by (auto simp: completeInference_def and_then_Inr_iff)
  have "s' = s1 \<or> (\<exists>t x. processShadowEvaluationBestEffort sha token clock (ci_organizationId i)
          (ci_requestId i) t s1 = (s', x))"
  proof (cases r)
    case CompletionHeld
    with assms t show ?thesis by (simp add: completeInference_def)
  next
    case (CompletionDone n m y z)
    show ?thesis
    proof (cases q)
      case True
      with assms t CompletionDone obtain u where "sql_time (ci_completedAt i) = Inr u"
        by (cases "sql_time (ci_completedAt i)") (simp_all add: completeInference_def)
      with assms t CompletionDone True show ?thesis
        by (cases "processShadowEvaluationBestEffort sha token clock (ci_organizationId i) (ci_requestId i) u s1")
          (auto simp: completeInference_def)
    qed (use assms t CompletionDone in \<open>simp add: completeInference_def\<close>)
  qed
  with t show ?thesis by (rule that)
qed

lemma complete_reaches:
  assumes al: "\<And>op s. hold_codes_only op \<Longrightarrow> al op s"
    and c: "completeInference sha token clock i s = Inr (s', c)"
  shows "store_reaches al sha s s'"
  using c
proof (rule completeInference_Inr)
  fix s1 r q
  assume t: "complete_transaction sha clock i s = Inr (s1, r, q)"
    and s': "s' = s1 \<or> (\<exists>t x. processShadowEvaluationBestEffort sha token clock (ci_organizationId i)
          (ci_requestId i) t s1 = (s', x))"
  have "store_reaches al sha s s1"
    by (rule store_reaches_step [where op = "OpComplete clock i"]) (auto simp: al hold_codes_only_def answer_def t)
  moreover have "store_reaches al sha s1 s'"
    using s' process_reaches [where al = al, OF al] store_reaches_refl by blast
  ultimately show "store_reaches al sha s s'" by (rule store_reaches_trans)
qed

section \<open>The contract\<close>

definition permitted :: "policy_store \<Rightarrow> string \<times> string \<Rightarrow> bool" where
  "permitted s k \<longleftrightarrow> (\<exists>d n fp. accepted_request s (k, d, n, fp) \<and> pd_outcome (sd_result d) = ALLOW
     \<and> sd_requestId d = snd k)"

lemma permitted_stays: "store_reaches al sha s s' \<Longrightarrow> permitted s k \<Longrightarrow> permitted s' k"
  unfolding permitted_def store_reaches_def using store_requests.run_final by blast

lemma policy_contract:
  assumes al: "\<And>op s. hold_codes_only op \<Longrightarrow> al op s"
  shows "inference_contract (policy_inference_store sha) (store_step sha) (\<lambda>op. \<forall>s. al op s)
    (store_reaches al sha) permitted"
proof (unfold_locales, goal_cases)
  case 1 show ?case by (rule store_reaches_refl)
next
  case 2 then show ?case by (rule store_reaches_trans)
next
  case 3 then show ?case by (blast intro: store_reaches_step)
next
  case (4 e i x s s' r c)
  then have "admitInference sha (en_uuid e) (en_clock e) False i s = Inr (s', r)"
    by (auto simp: and_then_Inr_iff)
  then show ?case
    by (intro store_reaches_step [where op = "OpAdmit (en_uuid e) (en_clock e) False i"])
      (auto simp: al hold_codes_only_def answer_def)
next
  case 5 then show ?case using complete_reaches [where al = al, OF al] by auto
next
  case (6 h e s s')
  then show ?case
    by (intro store_reaches_step [where op = "OpHold (en_clock e) (hi_organizationId h) (hi_requestId h)
        (hi_reasonCode h) (hi_response h) (hi_heldAt h)"])
      (auto simp: al hold_codes_only_def no_answer_def)
next
  case (7 e u s s')
  then show ?case
    by (intro store_reaches_step [where op = "OpFail (fi_organizationId u) (fi_requestId u)
        (fi_failureCode u) (fi_failedAt u)"])
      (auto simp: al hold_codes_only_def no_answer_def)
next
  case 8 show ?case by (simp add: protocol_reaches_def)
next
  case (9 e i x s s' d n c)
  then have a: "admitInference sha (en_uuid e) (en_clock e) False i s = Inr (s', AdmitExecute d n)"
    by (auto simp: and_then_Inr_iff)
  note A = admit_execute_accepted [OF a]
  from A(2) show ?case
    using A(1,3,4) by (auto simp: permitted_def accepted_request_def find_execution_def)
next
  case 10 then show ?case by (rule permitted_stays)
qed

interpretation execution_any: inference_contract "policy_inference_store sha" "store_step sha"
    "\<lambda>_. True" "store_reaches (\<lambda>_ _. True) sha" permitted for sha
  using policy_contract [where al = "\<lambda>_ _. True"] by simp

interpretation execution_allowed: inference_contract "policy_inference_store sha" "store_step sha"
    "\<lambda>op. \<forall>s. hold_code_allowed op s" "store_reaches hold_code_allowed sha" permitted for sha
  by (rule policy_contract)
    (auto simp: hold_codes_only_def hold_code_allowed_def execution_hold_codes_def split: store_op.splits)

end
