(* ===== verification/InferenceProperties.thy ===== *)
theory InferenceProperties
  imports InferencePolicyStore
begin

text \<open>
  What \<open>InferenceExecutionService\<close> on top of \<open>PolicyStore\<close> guarantees, for any number of concurrent
  calls and any other use of the store between their steps.
\<close>

abbreviation service_run ::
    "(string \<Rightarrow> string) \<Rightarrow> (string \<Rightarrow> exec_error + provider_binding) \<Rightarrow> (store_op, store_env) exec_op list
       \<Rightarrow> policy_store \<Rightarrow> policy_store exec_world" where
  "service_run sha resolve ops s \<equiv>
     world_run (policy_inference_store sha) sha resolve (store_step sha) ops (idle_world s)"

section \<open>The end of a call releases its reservation\<close>

definition released :: "policy_store \<Rightarrow> string \<times> string \<Rightarrow> bool" where
  "released s k \<longleftrightarrow> (\<exists>r. tbl_find execution_key k (st_executions s) = Some r \<and> ex_status r \<noteq> Executing)"

lemma released_evolves: "evolves s s' \<Longrightarrow> released s k \<Longrightarrow> released s' k"
  unfolding released_def evolves_def row_evolves_def by metis

lemma run_evolves: "evolves s (tx_run (store_step sha) ops s)"
proof (induction ops arbitrary: s)
  case (Cons op ops)
  have "evolves s (tx (store_step sha) op s)"
    by (auto simp: tx_def evolves_same split: sum.splits intro: store_step_evolves)
  with Cons show ?case by (auto intro: evolves_trans)
qed (simp add: evolves_same)

lemma released_stays: "store_reaches al sha s s' \<Longrightarrow> released s k \<Longrightarrow> released s' k"
  unfolding store_reaches_def using run_evolves released_evolves by blast

lemma sql_time_valid: "\<not> bad_time t \<Longrightarrow> \<exists>u. sql_time t = Inr u"
  by (auto simp: sql_time_def bad_time_def split: option.splits)

lemma hold_mandate_found:
  "find_mandate org mid s = Some m \<Longrightarrow> \<exists>s'. holdMandateForReconciliation clock org mid s = Inr s'"
  by (auto simp: holdMandateForReconciliation_def Let_def)

lemma find_mandate_update [simp]: "find_mandate org mid (update_execution o' r' f s) = find_mandate org mid s"
  by (simp add: find_mandate_def update_execution_def)

lemma find_update_execution:
  assumes "\<And>x. execution_key (f x) = execution_key x"
  shows "tbl_find execution_key (org, rid) (st_executions (update_execution org rid f s)) =
    map_option f (tbl_find execution_key (org, rid) (st_executions s))"
  using assms by (simp add: update_execution_def tbl_find_update)

lemma execution_mandate:
  assumes "store_inv s" and "find_execution org rid s = Some r"
  shows "\<exists>m. find_mandate org (ex_mandateId r) s = Some m"
proof -
  have "r \<in> set (st_executions s)" "ex_organizationId r = org"
    using tbl_find_SomeD [OF assms(2) [unfolded find_execution_def]] by (simp_all add: execution_key_def)
  with assms(1) show ?thesis
    by (auto simp: store_inv_def inv_parts_def mand_ok_def find_mandate_def split: option.splits)
qed

lemma hold_releases:
  assumes inv: "store_inv s" and r: "find_execution org rid s = Some r"
    and code: "reason_code_ok code" and t: "\<not> bad_time t"
  shows "case holdInference clock org rid code response t s of
    Inl e \<Rightarrow> released s (org, rid) | Inr s' \<Rightarrow> released s' (org, rid)"
proof (cases "ex_status r = Executing")
  case False
  then have "released s (org, rid)" using r by (auto simp: released_def find_execution_def)
  moreover have "\<exists>e. holdInference clock org rid code response t s = Inl e"
    using r code False by (simp add: holdInference_def check_def)
  ultimately show ?thesis by auto
next
  case True
  let ?f = "\<lambda>u x. x\<lparr>ex_status := Held, ex_response := response, ex_failureCode := Some code, ex_updatedAt := u\<rparr>"
  obtain u where u: "sql_time t = Inr u" using sql_time_valid [OF t] by blast
  obtain m where "find_mandate org (ex_mandateId r) s = Some m" using execution_mandate [OF inv r] by blast
  then obtain s' where s': "holdMandateForReconciliation clock org (ex_mandateId r) (update_execution org rid (?f u) s) = Inr s'"
    using hold_mandate_found [of org "ex_mandateId r" "update_execution org rid (?f u) s" m clock] by auto
  then have "holdInference clock org rid code response t s = Inr s'"
    using r code True u by (simp add: holdInference_def check_def)
  moreover have "tbl_find execution_key (org, rid) (st_executions s') = Some (?f u r)"
    using hold_executions [OF s'] find_update_execution [of "?f u" org rid s] r
    by (simp add: find_execution_def execution_key_def)
  ultimately show ?thesis by (simp add: released_def)
qed

lemma fail_releases:
  assumes r: "find_execution org rid s = Some r" and t: "\<not> bad_time t"
  shows "\<exists>s'. failInference org rid code t s = Inr s' \<and> released s' (org, rid)"
proof -
  obtain u where u: "sql_time t = Inr u" using sql_time_valid [OF t] by blast
  let ?f = "\<lambda>x. if ex_status x = Executing
    then x\<lparr>ex_status := Failed, ex_failureCode := Some code, ex_updatedAt := u\<rparr> else x"
  have "tbl_find execution_key (org, rid) (st_executions (update_execution org rid ?f s)) = Some (?f r)"
    using find_update_execution [of ?f org rid s] r by (simp add: find_execution_def execution_key_def)
  then show ?thesis by (simp add: failInference_def u released_def)
qed

lemma complete_releases:
  assumes c: "completeInference sha token clock i s = Inr (s', x)"
  shows "released s' (ci_organizationId i, ci_requestId i)"
  using c
proof (rule completeInference_Inr)
  fix s1 z q
  let ?k = "(ci_organizationId i, ci_requestId i)"
  assume t: "complete_transaction sha clock i s = Inr (s1, z, q)"
    and s': "s' = s1 \<or> (\<exists>t x. processShadowEvaluationBestEffort sha token clock (ci_organizationId i)
          (ci_requestId i) t s1 = (s', x))"
  from t obtain r where r: "find_execution (ci_organizationId i) (ci_requestId i) s = Some r"
    by (cases "find_execution (ci_organizationId i) (ci_requestId i) s")
      (auto simp: complete_transaction_def and_then_Inr_iff)
  have up: "released (update_execution (ci_organizationId i) (ci_requestId i) (with_response st i u) s) ?k"
    if "st \<noteq> Executing" for st u
    using find_update_execution [of "with_response st i u" "ci_organizationId i" "ci_requestId i" s] r that
    by (simp add: released_def find_execution_def execution_key_def with_response_def)
  have "released s1 ?k"
    using t r by (auto simp: complete_transaction_def and_then_Inr_iff split: if_splits prod.splits
        intro: released_evolves [OF evolves_hold [OF evolves_same] up]
          released_evolves [OF evolves_shadow [OF queue_bookkeeping_effect] up])
  moreover have "store_reaches (\<lambda>_ _. True) sha s1 s'"
    using s' process_reaches [where al = "\<lambda>_ _. True"] store_reaches_refl by blast
  ultimately show "released s' ?k" by (rule released_stays [rotated])
qed

section \<open>Dispatched calls\<close>

text \<open>The phases of a dispatched call when the store implements no reliability protocol.\<close>

fun after_dispatch :: "exec_phase \<Rightarrow> bool" where
  "after_dispatch (AtProvider r) = True"
| "after_dispatch (AtSettle r response) = True"
| "after_dispatch (AtHold r response x) = True"
| "after_dispatch (AtNotDispatched r x) = True"
| "after_dispatch (AtAmbiguous r x) = True"
| "after_dispatch (Returned a) = True"
| "after_dispatch (Threw x) = True"
| "after_dispatch p = False"

lemma provider_without_context:
  assumes "execute_step (policy_inference_store sha) sha resolve i e now reply p s = (s', p')" and "at_provider p'"
  shows "ki_reliabilityContext i = None"
  using assms by (cases p) (auto simp: execute_defs Let_def and_then_Inr_iff
      split: if_splits sum.splits option.splits prod.splits admission_result.splits completion_result.splits)

lemma after_dispatch_step:
  assumes "execute_step (policy_inference_store sha) sha resolve i e now reply p s = (s', p')"
    and "ki_reliabilityContext i = None" and "after_dispatch p"
  shows "after_dispatch p'"
  using assms by (cases p) (auto simp: execute_defs Let_def
      split: if_splits sum.splits option.splits prod.splits completion_result.splits)

lemma hold_codes_valid: "c \<in> set execution_hold_codes \<Longrightarrow> reason_code_ok c"
  unfolding execution_hold_codes_def by (elim set_ConsD [elim_format] disjE; simp; code_simp)

lemma end_releases:
  assumes inv: "store_inv s" and r: "find_execution (ki_organizationId i) (ki_requestId i) s = Some r"
    and step: "execute_step (policy_inference_store sha) sha resolve i e now reply p s = (s', p')"
    and ctx: "ki_reliabilityContext i = None" and p: "after_dispatch p" "\<not> ended p"
    and p': "ended p'" and now: "\<not> bad_time now"
  shows "released s' (call_key i)"
proof (cases p)
  case (AtNotDispatched u x)
  from fail_releases [OF r now, of "''PROVIDER_NOT_DISPATCHED''"] step ctx show ?thesis
    by (auto simp: AtNotDispatched not_dispatched_def await_store_def Let_def call_key_def)
next
  case (AtAmbiguous u x)
  have "reason_code_ok ''PROVIDER_OUTCOME_AMBIGUOUS''"
    by (rule hold_codes_valid) (simp add: execution_hold_codes_def)
  from hold_releases [OF inv r this now, where clock = "en_clock e" and response = None] step show ?thesis
    by (auto simp: AtAmbiguous hold_ambiguous_def await_store_def call_key_def split: sum.splits)
next
  case (AtHold u response x)
  from hold_releases [OF inv r hold_codes_valid [OF hold_reason_code [of x]] now,
      where clock = "en_clock e" and response = "Some response"]
    step show ?thesis
    by (auto simp: AtHold hold_response_def await_store_def call_key_def split: sum.splits)
next
  case (AtSettle u response)
  with step p' ctx show ?thesis
    by (auto simp: settle_def Let_def call_key_def split: sum.splits dest: complete_releases)
qed (use step p p' in \<open>auto simp: provider_answer_def split: sum.splits if_splits\<close>)

definition calls_ok :: "policy_store exec_world \<Rightarrow> bool" where
  "calls_ok w \<longleftrightarrow> store_inv (w_store w) \<and> world_ok permitted w
     \<and> (\<forall>(n, k) \<in> set (w_dispatched w). ki_reliabilityContext (fst (w_calls w ! n)) = None
          \<and> after_dispatch (snd (w_calls w ! n))
          \<and> (ended (snd (w_calls w ! n)) \<longrightarrow> released (w_store w) k))"

text \<open>
  A run in which time stamps are times and no other user of the store holds an execution with the code
  that the counters read as "billed without a response".
\<close>

fun orderly_op :: "(store_op, store_env) exec_op \<Rightarrow> bool" where
  "orderly_op (Advance n e now reply) \<longleftrightarrow> \<not> bad_time now"
| "orderly_op (Background op) \<longleftrightarrow> hold_code_allowed op (empty_store [] [])"
| "orderly_op (BeginCall i) \<longleftrightarrow> True"

lemma hold_code_allowed_any: "hold_code_allowed op s \<Longrightarrow> hold_code_allowed op s'"
  by (simp add: hold_code_allowed_def)

lemma dispatched_row:
  assumes "world_ok permitted w" and "(n, k) \<in> set (w_dispatched w)"
  obtains r where "tbl_find execution_key k (st_executions (w_store w)) = Some r"
    and "k = call_key (fst (w_calls w ! n))" and "n < length (w_calls w)"
proof -
  have "k \<in> set (map snd (w_dispatched w))" using assms(2) by force
  then have "0 < claims w k" by (metis add_gr_0 claims_def count_list_0_iff neq0_conv)
  with assms(1) have "permitted (w_store w) k" unfolding world_ok_def by blast
  moreover have "k = call_key (fst (w_calls w ! n))" "n < length (w_calls w)"
    using assms unfolding world_ok_def by blast+
  ultimately show ?thesis using that by (auto simp: permitted_def accepted_request_def)
qed

lemma calls_ok_advance:
  assumes ok: "calls_ok w" and now: "\<not> bad_time now"
  shows "\<forall>(n, k) \<in> set (w_dispatched (advance_call (policy_inference_store sha) sha resolve m e now reply w)).
    ki_reliabilityContext (fst (w_calls (advance_call (policy_inference_store sha) sha resolve m e now reply w) ! n)) = None
    \<and> after_dispatch (snd (w_calls (advance_call (policy_inference_store sha) sha resolve m e now reply w) ! n))
    \<and> (ended (snd (w_calls (advance_call (policy_inference_store sha) sha resolve m e now reply w) ! n)) \<longrightarrow>
       released (w_store (advance_call (policy_inference_store sha) sha resolve m e now reply w)) k)"
    (is "\<forall>(n, k) \<in> set (w_dispatched ?w). ?Q n k")
proof (cases "m < length (w_calls w)")
  case False
  with ok show ?thesis by (simp add: advance_call_def calls_ok_def)
next
  case m: True
  obtain i p where ip: "w_calls w ! m = (i, p)" by force
  obtain s' p' where st: "execute_step (policy_inference_store sha) sha resolve i e now reply p (w_store w) = (s', p')"
    by force
  have w': "?w = \<lparr>w_store = s', w_calls = (w_calls w)[m := (i, p')],
      w_dispatched = (if at_provider p' then w_dispatched w @ [(m, call_key i)] else w_dispatched w)\<rparr>"
    using m ip st by (simp add: advance_call_def Let_def)
  have reach: "store_reaches hold_code_allowed sha (w_store w) s'"
    by (rule execution_allowed.execute_step_reaches [OF st])
  show ?thesis
  proof (clarify)
    fix n o' r'
    assume "(n, o', r') \<in> set (w_dispatched ?w)"
    then consider "(n, o', r') \<in> set (w_dispatched w)" | "n = m" "at_provider p'" "(o', r') = call_key i"
      by (auto simp: w' split: if_splits)
    then show "?Q n (o', r')"
    proof cases
      case 1
      then have old: "ki_reliabilityContext (fst (w_calls w ! n)) = None" "after_dispatch (snd (w_calls w ! n))"
        "ended (snd (w_calls w ! n)) \<longrightarrow> released (w_store w) (o', r')"
        using ok by (auto simp: calls_ok_def)
      show ?thesis
      proof (cases "n = m")
        case False
        with old reach m show ?thesis by (auto simp: w' intro: released_stays)
      next
        case True
        from ok 1 True ip obtain r where r: "tbl_find execution_key (call_key i) (st_executions (w_store w)) = Some r"
          and key: "(o', r') = call_key i"
          by (auto simp: calls_ok_def elim: dispatched_row)
        have "released s' (call_key i)" if "ended p'"
        proof (cases "ended p")
          case True
          with st have "s' = w_store w"
            using execute_step_ended [OF True, of "policy_inference_store sha" sha resolve i e now reply "w_store w"]
            by simp
          with True old(3) ip key \<open>n = m\<close> show ?thesis by auto
        next
          case False
          with that old ip \<open>n = m\<close> r ok show ?thesis
            by (intro end_releases [OF _ _ st _ _ False that now])
              (auto simp: find_execution_def call_key_def calls_ok_def)
        qed
        with old True ip m key after_dispatch_step [OF st] show ?thesis by (auto simp: w')
      qed
    next
      case 2
      with provider_without_context [OF st] m show ?thesis by (cases p') (auto simp: w')
    qed
  qed
qed

lemma calls_ok_step:
  assumes ok: "calls_ok w" and op: "orderly_op op"
  shows "calls_ok (world_step (policy_inference_store sha) sha resolve (store_step sha) op w)"
    (is "calls_ok ?w")
proof -
  have bg: "\<forall>s. hold_code_allowed x s" if "op = Background x" for x
    using op that hold_code_allowed_any by auto
  have reach: "store_reaches hold_code_allowed sha (w_store w) (w_store ?w)"
    by (rule execution_allowed.world_step_reaches) (rule bg)
  then have "store_inv (w_store ?w)"
    using ok store_tx.run_inv by (auto simp: store_reaches_def calls_ok_def)
  moreover have "world_ok permitted ?w"
    by (rule execution_allowed.world_step_ok) (use ok bg in \<open>auto simp: calls_ok_def\<close>)
  moreover have "\<forall>(n, k) \<in> set (w_dispatched ?w). ki_reliabilityContext (fst (w_calls ?w ! n)) = None
      \<and> after_dispatch (snd (w_calls ?w ! n)) \<and> (ended (snd (w_calls ?w ! n)) \<longrightarrow> released (w_store ?w) k)"
  proof (cases op)
    case (Advance m e now reply)
    with calls_ok_advance [OF ok, of now sha resolve m e reply] op show ?thesis by simp
  next
    case (BeginCall i)
    have len: "n < length (w_calls w)" if "(n, k) \<in> set (w_dispatched w)" for n k
      using ok that unfolding calls_ok_def world_ok_def by blast
    from BeginCall ok len show ?thesis by (auto simp: calls_ok_def nth_append)
  next
    case (Background x)
    with ok reach show ?thesis by (auto simp: calls_ok_def intro: released_stays)
  qed
  ultimately show ?thesis by (simp add: calls_ok_def)
qed

lemma calls_ok_run:
  assumes "store_inv s" and "list_all orderly_op ops"
  shows "calls_ok (service_run sha resolve ops s)"
proof (rule world_run_invariant)
  show "calls_ok (idle_world s)" using assms(1) by (simp add: calls_ok_def world_ok_def claims_def)
  show "calls_ok (world_step (policy_inference_store sha) sha resolve (store_step sha) op w)"
    if "op \<in> set ops" "calls_ok w" for w op
    using that assms(2) by (auto simp: list_all_iff intro: calls_ok_step)
qed

lemma provider_dispatch_row:
  assumes "(n, org, rid) \<in> set (w_dispatched (service_run sha resolve ops s))"
  shows "permitted (w_store (service_run sha resolve ops s)) (org, rid)"
  by (rule execution_any.dispatched_taken [OF _ assms]) simp

section \<open>An example\<close>

text \<open>One call on the sample mandate; the fingerprint is a fixed hash.\<close>

definition fixed_hash :: "string \<Rightarrow> string" where
  "fixed_hash s = sample_fingerprint"

definition sample_call :: controlled_input where
  "sample_call =
     \<lparr>ki_requestId = ''r1'', ki_organizationId = ''o'', ki_credentialId = None, ki_mandateId = ''m'',
      ki_agentId = ''a'', ki_agentCapabilities = [Known Inference_invoke], ki_branchId = None,
      ki_workloadClass = None, ki_requestedModel = None, ki_inputTokens = 10, ki_maxOutputTokens = 10,
      ki_messages = [(''user'', ''hi'')], ki_reliabilityContext = None\<rparr>"

definition sample_binding :: provider_binding where
  "sample_binding =
     \<lparr>pb_providerName = ''openrouter'', pb_model = ''m'',
      pb_price = \<lparr>inputUsdPerMillion = ''1'', outputUsdPerMillion = ''4''\<rparr>,
      pb_requireProviderCost = False, pb_requireProviderModelMatch = False\<rparr>"

definition sample_resolve :: "string \<Rightarrow> exec_error + provider_binding" where
  "sample_resolve org = Inr sample_binding"

definition sample_env :: store_env where
  "sample_env = \<lparr>en_uuid = ''d1'', en_clock = 1, en_token = ''t''\<rparr>"

definition sample_reply :: provider_reply where
  "sample_reply = \<lparr>re_entered = True, re_outcome = Inr sample_response\<rparr>"

definition sample_calls :: "(store_op, store_env) exec_op list" where
  "sample_calls = map Background setup_ops @ [BeginCall sample_call, Advance 0 sample_env (Instant 1) sample_reply]"

abbreviation sample_service :: "policy_store exec_world" where
  "sample_service \<equiv> service_run fixed_hash sample_resolve sample_calls (empty_store [''o''] [(''o'', ''a'')])"

lemma sample_admission:
  "admission_request fixed_hash sample_call sample_binding 50 (Instant 1) = sample_request ''r1'' 50 1"
  by (simp add: admission_request_def requestFingerprint_def fixed_hash_def sample_call_def
      sample_binding_def sample_request_def)

lemma sample_bound: "bind_model sample_resolve sample_call = Inr (sample_binding, 50)"
  by code_simp

lemma sample_executes:
  "case admitInference fixed_hash ''d1'' 1 False (sample_request ''r1'' 50 1)
       (tx_run (store_step fixed_hash) setup_ops (empty_store [''o''] [(''o'', ''a'')]))
   of Inr (s', AdmitExecute d n) \<Rightarrow> True | _ \<Rightarrow> False"
  by code_simp

lemma executed:
  assumes "case r of Inr (s', AdmitExecute d n) \<Rightarrow> True | _ \<Rightarrow> False"
  shows "\<exists>s' d n. r = Inr (s', AdmitExecute d n)"
proof (cases r)
  case (Inr p)
  with assms show ?thesis by (cases p; cases "snd p") auto
qed (use assms in simp)

lemma world_run_background:
  "world_run st sha resolve f (map Background ops @ rest) w =
     world_run st sha resolve f rest (w\<lparr>w_store := tx_run f ops (w_store w)\<rparr>)"
  by (induction ops arbitrary: w) simp_all

lemma sample_dispatched:
  "length (w_calls sample_service) = 1" "(0, ''o'', ''r1'') \<in> set (w_dispatched sample_service)"
proof -
  let ?s = "tx_run (store_step fixed_hash) setup_ops (empty_store [''o''] [(''o'', ''a'')])"
  obtain s' d n where "admitInference fixed_hash ''d1'' 1 False (sample_request ''r1'' 50 1) ?s
      = Inr (s', AdmitExecute d n)"
    using executed [OF sample_executes] by blast
  then have adm: "do_admit (policy_inference_store fixed_hash) sample_env
      (admission_request fixed_hash sample_call sample_binding 50 (Instant 1)) (attempt_of sample_call sample_binding) ?s
      = Inr (s', AdmitExecute d n, False)"
    by (simp add: sample_admission sample_env_def)
  have "context_missing sample_call = False" "ki_reliabilityContext sample_call = None"
    by (simp_all add: context_missing_def sample_call_def)
  then have "start_call (policy_inference_store fixed_hash) fixed_hash sample_resolve sample_call sample_env
      (Instant 1) ?s = (s', AtProvider \<lparr>ru_binding = sample_binding, ru_decision = d, ru_reserved = n, ru_token = None\<rparr>)"
    using adm by (simp add: start_call_def sample_bound after_admission_def del: policy_inference_store_simps(1))
  then have "sample_service = \<lparr>w_store = s',
      w_calls = [(sample_call, AtProvider \<lparr>ru_binding = sample_binding, ru_decision = d, ru_reserved = n, ru_token = None\<rparr>)],
      w_dispatched = [(0, call_key sample_call)]\<rparr>"
    by (simp add: sample_calls_def world_run_background advance_call_def idle_world_def)
  then show "length (w_calls sample_service) = 1" "(0, ''o'', ''r1'') \<in> set (w_dispatched sample_service)"
    by (simp_all add: call_key_def sample_call_def)
qed

lemma sample_orderly:
  "list_all orderly_op (sample_calls @ replicate 9 (Advance 0 sample_env (Instant 2) sample_reply))"
  "list_all orderly_op sample_calls"
  by (simp_all add: sample_calls_def setup_ops_def hold_code_allowed_def bad_time_def list_all_iff)

section \<open>Properties\<close>

text \<open>
  C4: the service calls the provider at most once for a request, whatever calls run at the same time,
  however their steps interleave and whatever else happens to the store in between.
\<close>

theorem provider_called_once:
  "distinct (map snd (w_dispatched (service_run sha resolve ops s)))"
  by (rule execution_any.dispatched_once) simp

text \<open>
  C7: the provider is called only for a request that a stored decision allows: the execution of the
  request is recorded, was not denied, and its decision has the outcome ALLOW.
\<close>

theorem provider_call_allowed:
  assumes "(n, org, rid) \<in> set (w_dispatched (service_run sha resolve ops s))"
  shows "\<exists>r d. find_execution org rid (w_store (service_run sha resolve ops s)) = Some r
    \<and> ex_status r \<noteq> Denied
    \<and> tbl_find decision_key (ex_organizationId r, ex_decisionId r)
        (st_decisions (w_store (service_run sha resolve ops s))) = Some d
    \<and> pd_outcome (sd_result d) = ALLOW \<and> sd_requestId d = rid"
  using provider_dispatch_row [OF assms]
  by (auto simp: permitted_def accepted_request_def find_execution_def)

theorem provider_call_allowed_witness:
  "\<exists>r d. find_execution ''o'' ''r1'' (w_store sample_service) = Some r \<and> ex_status r \<noteq> Denied
    \<and> tbl_find decision_key (ex_organizationId r, ex_decisionId r) (st_decisions (w_store sample_service)) = Some d
    \<and> pd_outcome (sd_result d) = ALLOW \<and> sd_requestId d = ''r1''"
  by (rule provider_call_allowed [OF sample_dispatched(2)])

text \<open>A call takes at most nine steps of its own.\<close>

lemma nine_steps_end:
  assumes "n < length (w_calls w)" and "9 \<le> own_steps n later"
  shows "ended (snd (w_calls (world_run st sha resolve step later w) ! n))"
proof -
  let ?p = "snd (w_calls w ! n)" and ?q = "snd (w_calls (world_run st sha resolve step later w) ! n)"
  have "ended ?q \<or> steps_left ?q + own_steps n later \<le> steps_left ?p"
    using run_steps_left [OF assms(1), of st sha resolve step later] by blast
  moreover have "steps_left ?p \<le> 9" by (cases ?p) simp_all
  ultimately have "ended ?q \<or> steps_left ?q = 0" using assms(2) by linarith
  then show ?thesis by (simp only: steps_left_ended disj_absorb)
qed

text \<open>
  C5: every call ends after at most nine of its own steps, whatever runs in between, and when a call
  that reached the provider has ended, its execution no longer holds a running reservation: it is
  completed, failed or on hold.
\<close>

theorem call_ends_released:
  assumes "list_all orderly_op (ops @ later)"
    and "n < length (w_calls (service_run sha resolve ops (empty_store orgs agents)))"
    and "9 \<le> own_steps n later"
    and "w = service_run sha resolve (ops @ later) (empty_store orgs agents)"
  shows "ended (snd (w_calls w ! n))
    \<and> (\<forall>org rid. (n, org, rid) \<in> set (w_dispatched w) \<longrightarrow>
        (\<exists>r. find_execution org rid (w_store w) = Some r \<and> ex_status r \<in> {Completed, Failed, Held}))"
proof
  have run: "w = world_run (policy_inference_store sha) sha resolve (store_step sha) later
      (service_run sha resolve ops (empty_store orgs agents))"
    by (simp add: assms(4) world_run_def)
  show e: "ended (snd (w_calls w ! n))" unfolding run by (rule nine_steps_end [OF assms(2,3)])
  have "calls_ok w"
    unfolding assms(4) using empty_store_inv assms(1) by (rule calls_ok_run)
  then have rel: "released (w_store w) (org, rid)" if "(n, org, rid) \<in> set (w_dispatched w)" for org rid
    using that e by (auto simp: calls_ok_def)
  show "\<forall>org rid. (n, org, rid) \<in> set (w_dispatched w) \<longrightarrow>
      (\<exists>r. find_execution org rid (w_store w) = Some r \<and> ex_status r \<in> {Completed, Failed, Held})"
  proof (intro allI impI)
    fix org rid assume d: "(n, org, rid) \<in> set (w_dispatched w)"
    from provider_dispatch_row [OF d [unfolded assms(4)]] rel [OF d]
    obtain r where "find_execution org rid (w_store w) = Some r" "ex_status r \<noteq> Denied" "ex_status r \<noteq> Executing"
      by (auto simp: released_def find_execution_def permitted_def accepted_request_def simp flip: assms(4))
    then show "\<exists>r. find_execution org rid (w_store w) = Some r \<and> ex_status r \<in> {Completed, Failed, Held}"
      by (cases "ex_status r") auto
  qed
qed

abbreviation sample_ended :: "policy_store exec_world" where
  "sample_ended \<equiv> service_run fixed_hash sample_resolve
     (sample_calls @ replicate 9 (Advance 0 sample_env (Instant 2) sample_reply)) (empty_store [''o''] [(''o'', ''a'')])"

lemma sample_end:
  "ended (snd (w_calls sample_ended ! 0))" "(0, ''o'', ''r1'') \<in> set (w_dispatched sample_ended)"
proof -
  let ?later = "replicate 9 (Advance 0 sample_env (Instant 2) sample_reply) :: (store_op, store_env) exec_op list"
  have run: "sample_ended = world_run (policy_inference_store fixed_hash) fixed_hash sample_resolve (store_step fixed_hash)
      ?later sample_service"
    by (simp add: world_run_def)
  show "ended (snd (w_calls sample_ended ! 0))" unfolding run
    by (rule nine_steps_end) (simp_all add: sample_dispatched(1) numeral_eq_Suc)
  show "(0, ''o'', ''r1'') \<in> set (w_dispatched sample_ended)"
    unfolding run using dispatched_grows sample_dispatched(2) by force
qed

theorem call_ends_released_witness:
  "ended (snd (w_calls sample_ended ! 0))
   \<and> (\<exists>r. find_execution ''o'' ''r1'' (w_store sample_ended) = Some r \<and> ex_status r \<in> {Completed, Failed, Held})"
proof -
  let ?later = "replicate 9 (Advance 0 sample_env (Instant 2) sample_reply) :: (store_op, store_env) exec_op list"
  have len: "0 < length (w_calls sample_service)" by (simp add: sample_dispatched(1))
  have nine: "9 \<le> own_steps 0 ?later" by (simp add: numeral_eq_Suc)
  from call_ends_released [OF sample_orderly(1) len nine refl] sample_end(2) show ?thesis by blast
qed

end
