(* ===== verification/InferenceOutcome.thy ===== *)
theory InferenceOutcome
  imports InferenceProperties
begin

text \<open>
  How a call of \<open>InferenceExecutionService.execute\<close> that reached the provider ends: what its execution row
  says and what the caller is told, as a function of the provider's reply. Other calls and other users of
  the store run between its steps; the only step of theirs that may end the execution is a retry that
  finds its lease expired.
\<close>

section \<open>What the other steps leave of an execution\<close>

record execution_view =
  ev_status :: exec_status
  ev_reserved :: int
  ev_actual :: "int option"
  ev_response :: "provider_result option"
  ev_failure :: "string option"
  ev_decision :: string

definition view_of :: "execution_row \<Rightarrow> execution_view" where
  "view_of r = \<lparr>ev_status = ex_status r, ev_reserved = ex_reservedCostAtomic r,
     ev_actual = ex_actualCostAtomic r, ev_response = ex_response r, ev_failure = ex_failureCode r,
     ev_decision = ex_decisionId r\<rparr>"

definition stored_view :: "policy_store \<Rightarrow> string \<times> string \<Rightarrow> execution_view option" where
  "stored_view s k = map_option view_of (tbl_find execution_key k (st_executions s))"

definition lease_lost :: "execution_view \<Rightarrow> execution_view" where
  "lease_lost v = v\<lparr>ev_status := Held, ev_failure := Some ''EXECUTION_LEASE_EXPIRED''\<rparr>"

definition keeps :: "string \<times> string \<Rightarrow> policy_store \<Rightarrow> policy_store \<Rightarrow> bool" where
  "keeps k s s' \<longleftrightarrow> (\<forall>v. stored_view s k = Some v \<longrightarrow> stored_view s' k = Some v
     \<or> (ev_status v = Executing \<and> stored_view s' k = Some (lease_lost v)))"

lemma keeps_refl [simp]: "keeps k s s"
  by (simp add: keeps_def)

lemma lease_lost_status [simp]: "ev_status (lease_lost v) = Held"
  by (simp add: lease_lost_def)

lemma keeps_trans:
  assumes "keeps k s s'" and "keeps k s' s''"
  shows "keeps k s s''"
  unfolding keeps_def
proof (intro allI impI)
  fix v assume v: "stored_view s k = Some v"
  from assms(1) v consider "stored_view s' k = Some v" | "ev_status v = Executing" "stored_view s' k = Some (lease_lost v)"
    unfolding keeps_def by blast
  then show "stored_view s'' k = Some v \<or> (ev_status v = Executing \<and> stored_view s'' k = Some (lease_lost v))"
    using assms(2) by cases (simp_all add: keeps_def)
qed

lemma keeps_same: "st_executions s' = st_executions s \<Longrightarrow> keeps k s s'"
  by (simp add: keeps_def stored_view_def)

lemma view_update:
  assumes "\<And>x. execution_key (f x) = execution_key x"
  shows "stored_view (update_execution org rid f s) k = (if k = (org, rid)
    then map_option (\<lambda>r. view_of (f r)) (find_execution org rid s) else stored_view s k)"
  using assms by (simp add: stored_view_def update_execution_def find_execution_def tbl_find_update option.map_comp comp_def)

lemma view_after_hold:
  "holdMandateForReconciliation clock org mid s = Inr s' \<Longrightarrow> stored_view s' k = stored_view s k"
  by (simp add: stored_view_def hold_executions)

lemma view_of_authoritative: "authoritative r = authoritative r' \<Longrightarrow> view_of r = view_of r'"
proof -
  have "view_of (authoritative r) = view_of r" for r by (simp add: view_of_def authoritative_def)
  then show "authoritative r = authoritative r' \<Longrightarrow> view_of r = view_of r'" by metis
qed

lemma view_after_shadow:
  assumes "shadow_change r s s'"
  shows "stored_view s' k = stored_view s k"
proof -
  from assms obtain f cs q where f: "shadow_only f"
    and s': "s' = (update_execution (ex_organizationId r) (ex_requestId r) f s)\<lparr>st_counters := cs, st_queue := q\<rparr>"
    by (auto simp: shadow_change_def)
  have "view_of (f x) = view_of x" for x using f by (intro view_of_authoritative) (simp add: shadow_only_def)
  moreover have "execution_key (f x) = execution_key x" for x
    using shadow_only_fields [OF f] by (metis same_row_key)
  ultimately show ?thesis
    using view_update [of f "ex_organizationId r" "ex_requestId r" s k]
    by (auto simp: s' stored_view_def find_execution_def)
qed

lemma keeps_admit:
  assumes "admitInference sha uuid clock pre i s = Inr (s', a)"
  shows "keeps k s s'"
  using assms
proof (rule admitInference_Inr)
  fix t m p assume "admit_new sha uuid pre i m (pr_policy p) t s = Inr (s', a)"
  from admit_new_effect [OF this] show ?thesis
    by (cases pre) (auto simp: keeps_def stored_view_def tbl_find_append split: option.split)
next
  fix t r assume r: "find_execution (ai_organizationId i) (ai_requestId i) s = Some r"
    and a: "admissionFromExecution clock r t s = Inr (s', a)"
  have key: "execution_key r = (ai_organizationId i, ai_requestId i)"
    using tbl_find_SomeD [OF r [unfolded find_execution_def]] by simp
  let ?f = "\<lambda>x. if ex_status x = Executing
    then x\<lparr>ex_status := Held, ex_failureCode := Some ''EXECUTION_LEASE_EXPIRED'', ex_updatedAt := t\<rparr> else x"
  from replay_effect [OF a] show ?thesis
  proof (elim disjE conjE)
    assume "holdMandateForReconciliation clock (ex_organizationId r) (ex_mandateId r)
      (update_execution (ex_organizationId r) (ex_requestId r) ?f s) = Inr s'"
    note held = view_after_hold [OF this]
    have "stored_view s' k = (if k = execution_key r
        then map_option (\<lambda>r. view_of (?f r)) (find_execution (fst k) (snd k) s) else stored_view s k)"
      unfolding held using view_update [of ?f "ex_organizationId r" "ex_requestId r" s k]
      by (auto simp: execution_key_def)
    then show ?thesis
      by (auto simp: keeps_def stored_view_def find_execution_def view_of_def lease_lost_def split: if_splits)
  qed simp
qed

text \<open>The steps that end or settle one execution leave every other one alone.\<close>

fun settles_key :: "string \<times> string \<Rightarrow> store_op \<Rightarrow> bool" where
  "settles_key k (OpComplete clock i) \<longleftrightarrow> k = (ci_organizationId i, ci_requestId i)"
| "settles_key k (OpHold clock org rid code response t) \<longleftrightarrow> k = (org, rid)"
| "settles_key k (OpFail org rid code t) \<longleftrightarrow> k = (org, rid)"
| "settles_key k (OpResolve clock i) \<longleftrightarrow> k = (ri_organizationId i, ri_requestId i)"
| "settles_key k op \<longleftrightarrow> False"

lemma view_other:
  "(\<And>x. execution_key (f x) = execution_key x) \<Longrightarrow> k \<noteq> (org, rid) \<Longrightarrow>
     stored_view (update_execution org rid f s) k = stored_view s k"
  by (simp add: view_update)

lemma view_complete_other:
  assumes c: "complete_transaction sha clock i s = Inr (s', x)" and k: "k \<noteq> (ci_organizationId i, ci_requestId i)"
  shows "stored_view s' k = stored_view s k"
proof -
  have up: "stored_view (update_execution (ci_organizationId i) (ci_requestId i) (with_response st i t) s) k
      = stored_view s k" for st t
    by (rule view_other [OF _ k]) (simp add: with_response_def execution_key_def)
  from c show ?thesis
    by (auto simp: complete_transaction_def and_then_Inr_iff up split: option.splits if_splits prod.splits
        dest!: view_after_hold [where k = k] queue_bookkeeping_effect view_after_shadow [where k = k])
qed

lemma view_hold_other:
  assumes h: "holdInference clock org rid code response t s = Inr s'" and k: "k \<noteq> (org, rid)"
  shows "stored_view s' k = stored_view s k"
proof -
  have up: "stored_view (update_execution org rid (\<lambda>x. x\<lparr>ex_status := Held, ex_response := response,
      ex_failureCode := Some code, ex_updatedAt := u\<rparr>) s) k = stored_view s k" for u
    by (rule view_other [OF _ k]) (simp add: execution_key_def)
  from h show ?thesis
    by (auto simp: holdInference_def and_then_Inr_iff up split: option.splits if_splits
        dest!: view_after_hold [where k = k])
qed

lemma view_fail_other:
  assumes "failInference org rid code t s = Inr s'" and k: "k \<noteq> (org, rid)"
  shows "stored_view s' k = stored_view s k"
  using assms by (auto simp: failInference_def and_then_Inr_iff intro!: view_other simp: execution_key_def)

lemma view_resolve_other:
  assumes res: "resolve_transaction sha clock i s = Inr (s', q)" and k: "k \<noteq> (ri_organizationId i, ri_requestId i)"
  shows "stored_view s' k = stored_view s k"
  using res
proof (rule resolve_Inr)
  fix r t s2 a
  let ?s1 = "update_execution (ri_organizationId i) (ri_requestId i) (settle_execution i t)
    (s\<lparr>st_resolutions := st_resolutions s @ [resolution_of i t]\<rparr>)"
  assume s2: "(\<exists>b. queueShadowBookkeepingBestEffort sha clock (settle_execution i t r) t ?s1 = (s2, b)) \<or> s2 = ?s1"
    and rel: "release_mandate (ri_organizationId i) (ex_mandateId r) (s2\<lparr>st_audit := a\<rparr>) = Inr s'"
  have "stored_view ?s1 k = stored_view (s\<lparr>st_resolutions := st_resolutions s @ [resolution_of i t]\<rparr>) k"
    by (rule view_other [OF same_row_key [OF settle_same] k])
  moreover have "stored_view s2 k = stored_view ?s1 k"
    using s2 view_after_shadow [OF queue_bookkeeping_effect] by blast
  ultimately show ?thesis using release_executions [OF rel] by (simp add: stored_view_def)
qed simp

lemma keeps_view: "stored_view s' k = stored_view s k \<Longrightarrow> keeps k s s'"
  by (simp add: keeps_def)

lemma store_step_keeps:
  assumes "store_step sha op s = Inr (s', a)" and "\<not> settles_key k op"
  shows "keeps k s s'"
proof (cases op)
  case (OpClaimShadow token now org rid t)
  with assms obtain x where "claim_shadow token now org rid t s = (s', x)" by (auto simp: answer_Inr)
  from claim_effect [OF this] show ?thesis by (auto intro: keeps_same)
qed (use assms in \<open>auto simp: answer_Inr no_answer_Inr fail_shadow_def set_mandate_state_def
    dest!: publishPolicy_effect createMandate_effect assignAgent_effect createBranch_effect
      transition_effect setMandatePolicy_effect evaluateAndRecord_effect finish_effect
    intro: keeps_same keeps_admit keeps_view view_complete_other view_hold_other view_fail_other view_resolve_other\<close>)

lemma process_executions:
  "processShadowEvaluationBestEffort sha token now org rid t s = (s', x) \<Longrightarrow> st_executions s' = st_executions s"
  by (auto simp: processShadowEvaluationBestEffort_def fail_shadow_def
      split: prod.splits claim_result.splits sum.splits dest!: claim_effect finish_effect)

section \<open>What a call should leave behind\<close>

text \<open>
  The specification: the execution and the answer of a call, from the price and the reservation that were
  fixed before the provider was called, the decision, and the provider's reply.
\<close>

definition fresh_view :: "int \<Rightarrow> string \<Rightarrow> execution_view" where
  "fresh_view n d = \<lparr>ev_status = Executing, ev_reserved = n, ev_actual = None, ev_response = None,
     ev_failure = None, ev_decision = d\<rparr>"

text \<open>
  What a response is charged, written out: a response from another model or without the cost the
  provider must state is not charged, nor one whose cost cannot be read; otherwise the stated cost counts,
  and without one the tokens at the workspace's price. A response that is not charged is held for a reason.
\<close>

definition charge :: "provider_binding \<Rightarrow> provider_result \<Rightarrow> (string \<times> exec_error) + int" where
  "charge b response =
     (if pb_requireProviderModelMatch b \<and> p_providerModel response \<noteq> Some (pb_model b)
      then Inl (''PROVIDER_MODEL_MISMATCH'', ExecThrown ''PROVIDER_MODEL_MISMATCH'')
      else case p_providerCostUsd response of
        None \<Rightarrow>
          if pb_requireProviderCost b then Inl (''PROVIDER_COST_MISSING'', ExecThrown ''PROVIDER_COST_MISSING'')
          else (case calculateCostMicros (p_usage response) (pb_price b) of
            Inl x \<Rightarrow> Inl (''POST_PROVIDER_RECONCILIATION_FAILED'', ExecPricing x) | Inr n \<Rightarrow> Inr n)
      | Some usd \<Rightarrow>
          (case usdToMicros usd of
            Inl x \<Rightarrow> Inl (''POST_PROVIDER_RECONCILIATION_FAILED'', ExecPricing x) | Inr n \<Rightarrow> Inr n))"

lemma charge_metered: "map_sum (\<lambda>x. (hold_reason x, x)) id (metered_cost b response) = charge b response"
  by (auto simp: metered_cost_def charge_def hold_reason_def lift_err_def split: option.split sum.split)

definition settled_view :: "provider_binding \<Rightarrow> int \<Rightarrow> string \<Rightarrow> provider_reply \<Rightarrow> execution_view" where
  "settled_view b n d reply =
     (case re_outcome reply of
        Inl x \<Rightarrow>
          if te_primitiveEntered x = Some False
          then (fresh_view n d)\<lparr>ev_status := Failed, ev_failure := Some ''PROVIDER_NOT_DISPATCHED''\<rparr>
          else (fresh_view n d)\<lparr>ev_status := Held, ev_failure := Some ''PROVIDER_OUTCOME_AMBIGUOUS''\<rparr>
      | Inr response \<Rightarrow>
          (case charge b response of
             Inl (reason, _) \<Rightarrow> (fresh_view n d)\<lparr>ev_status := Held, ev_response := Some response,
               ev_failure := Some reason\<rparr>
           | Inr actual \<Rightarrow> (fresh_view n d)\<lparr>ev_status := (if actual \<le> n then Completed else Held),
               ev_actual := Some actual, ev_response := Some response\<rparr>))"

definition told :: "provider_binding \<Rightarrow> int \<Rightarrow> string \<Rightarrow> provider_reply \<Rightarrow> exec_phase \<Rightarrow> bool" where
  "told b n d reply p \<longleftrightarrow>
     (case re_outcome reply of
        Inl x \<Rightarrow> p = Threw (ExecProvider x)
      | Inr response \<Rightarrow>
          (case charge b response of
             Inl (_, x) \<Rightarrow> p = Threw x
           | Inr actual \<Rightarrow>
               if actual \<le> n
               then \<exists>dec evidence. sd_id dec = d \<and> p = Returned (AdmitCompleted dec n actual response evidence)
               else p = Threw (ExecThrown ''ACTUAL_COST_EXCEEDS_RESERVATION'')))"

text \<open>Both in terms of what the code computes.\<close>

lemma settled_view_metered:
  "settled_view b n d reply =
     (case re_outcome reply of
        Inl x \<Rightarrow>
          if te_primitiveEntered x = Some False
          then (fresh_view n d)\<lparr>ev_status := Failed, ev_failure := Some ''PROVIDER_NOT_DISPATCHED''\<rparr>
          else (fresh_view n d)\<lparr>ev_status := Held, ev_failure := Some ''PROVIDER_OUTCOME_AMBIGUOUS''\<rparr>
      | Inr response \<Rightarrow>
          (case metered_cost b response of
             Inl x \<Rightarrow> (fresh_view n d)\<lparr>ev_status := Held, ev_response := Some response,
               ev_failure := Some (hold_reason x)\<rparr>
           | Inr actual \<Rightarrow> (fresh_view n d)\<lparr>ev_status := (if actual \<le> n then Completed else Held),
               ev_actual := Some actual, ev_response := Some response\<rparr>))"
  by (simp add: settled_view_def charge_metered [symmetric] split: sum.split)

lemma told_metered:
  "told b n d reply p \<longleftrightarrow>
     (case re_outcome reply of
        Inl x \<Rightarrow> p = Threw (ExecProvider x)
      | Inr response \<Rightarrow>
          (case metered_cost b response of
             Inl x \<Rightarrow> p = Threw x
           | Inr actual \<Rightarrow>
               if actual \<le> n
               then \<exists>dec evidence. sd_id dec = d \<and> p = Returned (AdmitCompleted dec n actual response evidence)
               else p = Threw (ExecThrown ''ACTUAL_COST_EXCEEDS_RESERVATION'')))"
  by (simp add: told_def charge_metered [symmetric] split: sum.split)

section \<open>The settling steps of the store\<close>

lemma stored_viewE:
  assumes "stored_view s (org, rid) = Some v"
  obtains r where "find_execution org rid s = Some r" and "view_of r = v"
  using assms by (auto simp: stored_view_def find_execution_def)

lemma hold_view:
  assumes inv: "store_inv s" and v: "stored_view s (org, rid) = Some v" and code: "reason_code_ok code"
    and t: "\<not> bad_time t"
  shows "if ev_status v = Executing
    then \<exists>s'. holdInference clock org rid code response t s = Inr s'
      \<and> stored_view s' (org, rid) = Some (v\<lparr>ev_status := Held, ev_response := response, ev_failure := Some code\<rparr>)
    else \<exists>e. holdInference clock org rid code response t s = Inl e"
proof -
  obtain r where r: "find_execution org rid s = Some r" "view_of r = v" using v by (rule stored_viewE)
  obtain u where u: "sql_time t = Inr u" using sql_time_valid [OF t] by blast
  let ?f = "\<lambda>x. x\<lparr>ex_status := Held, ex_response := response, ex_failureCode := Some code, ex_updatedAt := u\<rparr>"
  obtain m where "find_mandate org (ex_mandateId r) s = Some m" using execution_mandate [OF inv r(1)] by blast
  then obtain s' where s': "holdMandateForReconciliation clock org (ex_mandateId r) (update_execution org rid ?f s) = Inr s'"
    using hold_mandate_found [of org "ex_mandateId r" "update_execution org rid ?f s" m clock] by auto
  have "stored_view s' (org, rid) = Some (view_of (?f r))"
    unfolding view_after_hold [OF s'] using view_update [of ?f org rid s "(org, rid)"] r
    by (simp add: execution_key_def)
  moreover have "view_of (?f r) = v\<lparr>ev_status := Held, ev_response := response, ev_failure := Some code\<rparr>"
    unfolding r(2) [symmetric] by (simp add: view_of_def)
  moreover have "ev_status v = ex_status r" unfolding r(2) [symmetric] by (simp add: view_of_def)
  ultimately show ?thesis
    using r(1) code u s' by (simp add: holdInference_def check_def)
qed

lemma fail_view:
  assumes v: "stored_view s (org, rid) = Some v" and t: "\<not> bad_time t"
  shows "\<exists>s'. failInference org rid code t s = Inr s' \<and> stored_view s' (org, rid) =
    Some (if ev_status v = Executing then v\<lparr>ev_status := Failed, ev_failure := Some code\<rparr> else v)"
proof -
  obtain r where r: "find_execution org rid s = Some r" "view_of r = v" using v by (rule stored_viewE)
  obtain u where u: "sql_time t = Inr u" using sql_time_valid [OF t] by blast
  let ?f = "\<lambda>x. if ex_status x = Executing
    then x\<lparr>ex_status := Failed, ex_failureCode := Some code, ex_updatedAt := u\<rparr> else x"
  have "stored_view (update_execution org rid ?f s) (org, rid) = Some (view_of (?f r))"
    using view_update [of ?f org rid s "(org, rid)"] r by (simp add: execution_key_def)
  moreover have "view_of (?f r) = (if ev_status v = Executing then v\<lparr>ev_status := Failed, ev_failure := Some code\<rparr> else v)"
    unfolding r(2) [symmetric] by (simp add: view_of_def)
  ultimately show ?thesis by (simp add: failInference_def u)
qed

lemma complete_transaction_view:
  assumes inv: "store_inv s" and v: "stored_view s (ci_organizationId i, ci_requestId i) = Some v"
    and ex: "ev_status v = Executing" and cost: "0 \<le> ci_actualCostAtomic i" and t: "\<not> bad_time (ci_completedAt i)"
  shows "\<exists>s' q. complete_transaction sha clock i s = Inr (s',
      if ci_actualCostAtomic i \<le> ev_reserved v
      then CompletionDone (ev_reserved v) (ci_actualCostAtomic i) (ci_response i) None
      else CompletionHeld (ev_reserved v) (ci_actualCostAtomic i) (ci_response i), q)
    \<and> stored_view s' (ci_organizationId i, ci_requestId i) = Some (v\<lparr>
        ev_status := (if ci_actualCostAtomic i \<le> ev_reserved v then Completed else Held),
        ev_actual := Some (ci_actualCostAtomic i), ev_response := Some (ci_response i)\<rparr>)"
proof -
  let ?org = "ci_organizationId i" and ?rid = "ci_requestId i"
  obtain r where r: "find_execution ?org ?rid s = Some r" "view_of r = v" using v by (rule stored_viewE)
  obtain u where u: "sql_time (ci_completedAt i) = Inr u" using sql_time_valid [OF t] by blast
  have fields: "ex_status r = Executing" "ex_reservedCostAtomic r = ev_reserved v"
    using ex unfolding r(2) [symmetric] by (simp_all add: view_of_def)
  have up: "stored_view (update_execution ?org ?rid (with_response st i u) s) (?org, ?rid) =
      Some (v\<lparr>ev_status := st, ev_actual := Some (ci_actualCostAtomic i), ev_response := Some (ci_response i)\<rparr>)" for st
    using view_update [of "with_response st i u" ?org ?rid s "(?org, ?rid)"] r
    by (auto simp: with_response_def execution_key_def view_of_def)
  show ?thesis
  proof (cases "ci_actualCostAtomic i \<le> ev_reserved v")
    case False
    obtain m where "find_mandate ?org (ex_mandateId r) s = Some m" using execution_mandate [OF inv r(1)] by blast
    then obtain s' where s': "holdMandateForReconciliation clock ?org (ex_mandateId r)
        (update_execution ?org ?rid (with_response Held i u) s) = Inr s'"
      using hold_mandate_found [of ?org "ex_mandateId r" "update_execution ?org ?rid (with_response Held i u) s" m clock]
      by auto
    from False r(1) fields u cost s' up [of Held] view_after_hold [OF s'] show ?thesis
      by (intro exI [of _ s'] exI [of _ False]) (simp add: complete_transaction_def check_def)
  next
    case True
    obtain s' b where q: "queueShadowBookkeepingBestEffort sha clock (with_response Completed i u r) u
        (update_execution ?org ?rid (with_response Completed i u) s) = (s', b)" by force
    from True r(1) fields u cost q up [of Completed] view_after_shadow [OF queue_bookkeeping_effect [OF q]] show ?thesis
      by (simp add: complete_transaction_def check_def)
  qed
qed

lemma complete_view:
  assumes "store_inv s" and "stored_view s (ci_organizationId i, ci_requestId i) = Some v"
    and "ev_status v = Executing" and "0 \<le> ci_actualCostAtomic i" and t: "\<not> bad_time (ci_completedAt i)"
  shows "\<exists>s' evidence. completeInference sha token clock i s = Inr (s',
      if ci_actualCostAtomic i \<le> ev_reserved v
      then CompletionDone (ev_reserved v) (ci_actualCostAtomic i) (ci_response i) evidence
      else CompletionHeld (ev_reserved v) (ci_actualCostAtomic i) (ci_response i))
    \<and> stored_view s' (ci_organizationId i, ci_requestId i) = Some (v\<lparr>
        ev_status := (if ci_actualCostAtomic i \<le> ev_reserved v then Completed else Held),
        ev_actual := Some (ci_actualCostAtomic i), ev_response := Some (ci_response i)\<rparr>)"
proof -
  from complete_transaction_view [OF assms, of sha clock] obtain s1 q where
    c: "complete_transaction sha clock i s = Inr (s1,
        if ci_actualCostAtomic i \<le> ev_reserved v
        then CompletionDone (ev_reserved v) (ci_actualCostAtomic i) (ci_response i) None
        else CompletionHeld (ev_reserved v) (ci_actualCostAtomic i) (ci_response i), q)"
    and v1: "stored_view s1 (ci_organizationId i, ci_requestId i) = Some (v\<lparr>
        ev_status := (if ci_actualCostAtomic i \<le> ev_reserved v then Completed else Held),
        ev_actual := Some (ci_actualCostAtomic i), ev_response := Some (ci_response i)\<rparr>)" by blast
  obtain u where u: "sql_time (ci_completedAt i) = Inr u" using sql_time_valid [OF t] by blast
  obtain s2 x where p: "processShadowEvaluationBestEffort sha token clock (ci_organizationId i) (ci_requestId i) u s1
      = (s2, x)" by force
  have "stored_view s2 k = stored_view s1 k" for k
    using process_executions [OF p] by (simp add: stored_view_def)
  with c v1 u p show ?thesis by (cases q) (auto simp: completeInference_def)
qed

lemma complete_ended:
  assumes "stored_view s (ci_organizationId i, ci_requestId i) = Some v" and "ev_status v \<noteq> Executing"
  shows "\<exists>e. completeInference sha token clock i s = Inl e"
proof -
  obtain r where r: "find_execution (ci_organizationId i) (ci_requestId i) s = Some r" "view_of r = v"
    using assms(1) by (rule stored_viewE)
  then have "ex_status r \<noteq> Executing" using assms(2) by (auto simp: view_of_def)
  with r(1) show ?thesis by (simp add: completeInference_def complete_transaction_def check_def)
qed

lemma metered_cost_nonneg: "metered_cost b response = Inr n \<Longrightarrow> 0 \<le> n"
  by (auto simp: metered_cost_def lift_err_Inr usdToMicros_nonneg calculateCostMicros_nonneg
      split: if_splits option.splits sum.splits)

section \<open>The course of a call\<close>

definition runs :: "provider_binding \<Rightarrow> int \<Rightarrow> string \<Rightarrow> running \<Rightarrow> bool" where
  "runs b n d u \<longleftrightarrow> ru_binding u = b \<and> ru_reserved u = n \<and> sd_id (ru_decision u) = d"

definition open_view :: "int \<Rightarrow> string \<Rightarrow> execution_view \<Rightarrow> bool" where
  "open_view n d v \<longleftrightarrow> v = fresh_view n d \<or> v = lease_lost (fresh_view n d)"

text \<open>What holds in each phase, given the provider's reply when there was one.\<close>

fun phase_ok ::
    "provider_binding \<Rightarrow> int \<Rightarrow> string \<Rightarrow> execution_view \<Rightarrow> provider_reply option \<Rightarrow> exec_phase \<Rightarrow> bool" where
  "phase_ok b n d v None (AtProvider u) \<longleftrightarrow> runs b n d u \<and> open_view n d v"
| "phase_ok b n d v (Some reply) (AtSettle u response) \<longleftrightarrow>
     re_outcome reply = Inr response \<and> runs b n d u \<and> open_view n d v"
| "phase_ok b n d v (Some reply) (AtHold u response x) \<longleftrightarrow> re_outcome reply = Inr response \<and> runs b n d u
     \<and> open_view n d v \<and> (metered_cost b response = Inl x \<or> v = lease_lost (fresh_view n d))"
| "phase_ok b n d v (Some reply) (AtNotDispatched u x) \<longleftrightarrow>
     re_outcome reply = Inl x \<and> te_primitiveEntered x = Some False \<and> open_view n d v"
| "phase_ok b n d v (Some reply) (AtAmbiguous u x) \<longleftrightarrow>
     re_outcome reply = Inl x \<and> te_primitiveEntered x \<noteq> Some False \<and> open_view n d v"
| "phase_ok b n d v (Some reply) (Returned a) \<longleftrightarrow> v = settled_view b n d reply \<and> told b n d reply (Returned a)"
| "phase_ok b n d v (Some reply) (Threw x) \<longleftrightarrow>
     (v = settled_view b n d reply \<and> told b n d reply (Threw x)) \<or> v = lease_lost (fresh_view n d)"
| "phase_ok b n d v rp p \<longleftrightarrow> False"

lemma fresh_status [simp]: "ev_status (fresh_view n d) = Executing" "ev_reserved (fresh_view n d) = n"
  by (simp_all add: fresh_view_def)

lemma fresh_not_lost [simp]: "fresh_view n d \<noteq> lease_lost (fresh_view n d)"
proof
  assume "fresh_view n d = lease_lost (fresh_view n d)"
  then have "ev_status (fresh_view n d) = ev_status (lease_lost (fresh_view n d))" by simp
  then show False by simp
qed

lemma settled_status: "ev_status (settled_view b n d reply) \<noteq> Executing"
  by (simp add: settled_view_metered split: sum.split)

lemma phase_ok_kept:
  assumes "phase_ok b n d v rp p"
  shows "phase_ok b n d v rp p \<and> (ev_status v = Executing \<longrightarrow> phase_ok b n d (lease_lost v) rp p)"
  using assms settled_status
  by (cases rp; cases p) (auto simp: open_view_def)

definition call_inv ::
    "(string \<Rightarrow> exec_error + provider_binding) \<Rightarrow> provider_reply option \<Rightarrow> controlled_input \<times> exec_phase
       \<Rightarrow> policy_store \<Rightarrow> bool" where
  "call_inv resolve rp c s \<longleftrightarrow> ki_reliabilityContext (fst c) = None
     \<and> (\<exists>b n d v. bind_model resolve (fst c) = Inr (b, n) \<and> stored_view s (call_key (fst c)) = Some v
         \<and> phase_ok b n d v rp (snd c))"

lemma call_inv_keeps: "call_inv resolve rp c s \<Longrightarrow> keeps (call_key (fst c)) s s' \<Longrightarrow> call_inv resolve rp c s'"
  unfolding call_inv_def keeps_def using phase_ok_kept by metis

text \<open>An own step of a call after its dispatch.\<close>

lemma own_step_provider:
  assumes "phase_ok b n d v None p" and "ki_reliabilityContext i = None"
    and "execute_step (policy_inference_store sha) sha resolve i e now reply p s = (s', p')"
  shows "s' = s \<and> phase_ok b n d v (Some reply) p'"
  using assms
  by (cases p) (auto simp: provider_answer_def enter_primitive_def provably_not_dispatched_def
      split: sum.splits if_splits option.splits bool.splits)

lemma own_step_settle:
  assumes ok: "phase_ok b n d v (Some reply) (AtSettle u response)" and ctx: "ki_reliabilityContext i = None"
    and inv: "store_inv s" and v: "stored_view s (call_key i) = Some v" and now: "\<not> bad_time now"
    and step: "settle (policy_inference_store sha) i e now u response s = (s', p')"
  shows "\<exists>v'. stored_view s' (call_key i) = Some v' \<and> phase_ok b n d v' (Some reply) p'"
proof (cases "metered_cost b response")
  case (Inl x)
  with ok step v show ?thesis by (auto simp: settle_def runs_def)
next
  case (Inr actual)
  let ?i = "\<lparr>ci_requestId = ki_requestId i, ci_organizationId = ki_organizationId i,
    ci_actualCostAtomic = actual, ci_response = response, ci_completedAt = now\<rparr>"
  from ok have u: "ru_binding u = b" "ru_reserved u = n" "sd_id (ru_decision u) = d"
    and reply: "re_outcome reply = Inr response" and v': "open_view n d v" by (simp_all add: runs_def)
  have v0: "stored_view s (ci_organizationId ?i, ci_requestId ?i) = Some v" using v by (simp add: call_key_def)
  from v' consider "v = fresh_view n d" | "v = lease_lost (fresh_view n d)" by (auto simp: open_view_def)
  then show ?thesis
  proof cases
    case 1
    with complete_view [OF inv v0, of sha "en_token e" "en_clock e"] metered_cost_nonneg [OF Inr] now
    obtain s1 evidence where c: "completeInference sha (en_token e) (en_clock e) ?i s = Inr (s1,
        if actual \<le> n then CompletionDone n actual response evidence else CompletionHeld n actual response)"
      and v1: "stored_view s1 (call_key i) = Some ((fresh_view n d)\<lparr>
        ev_status := (if actual \<le> n then Completed else Held), ev_actual := Some actual, ev_response := Some response\<rparr>)"
      by (auto simp: call_key_def cong: if_cong)
    from step Inr c ctx u have "s' = s1" "p' = finish_call u
        (if actual \<le> n then CompletionDone n actual response evidence else CompletionHeld n actual response)"
      by (simp_all add: settle_def Let_def)
    with v1 u reply Inr show ?thesis
      by (auto simp: finish_call_def settled_view_metered told_metered)
  next
    case 2
    with complete_ended [OF v0] obtain x where "completeInference sha (en_token e) (en_clock e) ?i s = Inl x"
      by fastforce
    with step Inr ctx u v reply 2 show ?thesis by (auto simp: settle_def Let_def runs_def open_view_def)
  qed
qed

lemma own_step_hold:
  assumes inv: "store_inv s" and v: "stored_view s (call_key i) = Some v" and now: "\<not> bad_time now"
    and code: "reason_code_ok code" and open': "open_view n d v"
    and step: "await_store (do_hold (policy_inference_store sha) e \<lparr>hi_requestId = ki_requestId i,
        hi_organizationId = ki_organizationId i, hi_reasonCode = code, hi_response = response, hi_heldAt = now\<rparr> s) s
        throw_store (Threw x) = (s', p')"
  shows "(p' = Threw x \<and> v = fresh_view n d \<and> stored_view s' (call_key i) =
        Some ((fresh_view n d)\<lparr>ev_status := Held, ev_response := response, ev_failure := Some code\<rparr>))
    \<or> (\<exists>y. p' = Threw y \<and> v = lease_lost (fresh_view n d) \<and> stored_view s' (call_key i) = Some v)"
proof -
  have v0: "stored_view s (ki_organizationId i, ki_requestId i) = Some v" using v by (simp add: call_key_def)
  note hold = hold_view [OF inv v0 code now, of "en_clock e" response]
  from open' consider "v = fresh_view n d" | "v = lease_lost (fresh_view n d)" by (auto simp: open_view_def)
  then show ?thesis
  proof cases
    case 1
    with hold step show ?thesis by (auto simp: await_store_def call_key_def)
  next
    case 2
    with hold step v show ?thesis by (auto simp: await_store_def call_key_def)
  qed
qed

lemma own_step_later:
  assumes ok: "phase_ok b n d v (Some reply) p" and ctx: "ki_reliabilityContext i = None"
    and inv: "store_inv s" and v: "stored_view s (call_key i) = Some v" and now: "\<not> bad_time now"
    and step: "execute_step (policy_inference_store sha) sha resolve i e now reply' p s = (s', p')"
  shows "\<exists>v'. stored_view s' (call_key i) = Some v' \<and> phase_ok b n d v' (Some reply) p'"
proof (cases p)
  case (AtSettle u response)
  with step have "settle (policy_inference_store sha) i e now u response s = (s', p')" by simp
  from own_step_settle [OF ok [unfolded AtSettle] ctx inv v now this] show ?thesis .
next
  case (AtHold u response x)
  with ok have reply: "re_outcome reply = Inr response" and v': "open_view n d v"
    and x: "metered_cost b response = Inl x \<or> v = lease_lost (fresh_view n d)" by simp_all
  from step AtHold ctx have "await_store (do_hold (policy_inference_store sha) e \<lparr>hi_requestId = ki_requestId i,
      hi_organizationId = ki_organizationId i, hi_reasonCode = hold_reason x, hi_response = Some response,
      hi_heldAt = now\<rparr> s) s throw_store (Threw x) = (s', p')"
    by (simp add: hold_response_def)
  from own_step_hold [OF inv v now hold_codes_valid [OF hold_reason_code] v' this] show ?thesis
    using reply x by (auto simp: settled_view_metered told_metered)
next
  case (AtAmbiguous u x)
  with ok have reply: "re_outcome reply = Inl x" "te_primitiveEntered x \<noteq> Some False" and v': "open_view n d v"
    by simp_all
  from step AtAmbiguous have hold: "await_store (do_hold (policy_inference_store sha) e \<lparr>hi_requestId = ki_requestId i,
      hi_organizationId = ki_organizationId i, hi_reasonCode = ''PROVIDER_OUTCOME_AMBIGUOUS'', hi_response = None,
      hi_heldAt = now\<rparr> s) s throw_store (Threw (ExecProvider x)) = (s', p')"
    by (simp add: hold_ambiguous_def)
  have "reason_code_ok ''PROVIDER_OUTCOME_AMBIGUOUS''"
    by (rule hold_codes_valid) (simp add: execution_hold_codes_def)
  from own_step_hold [OF inv v now this v' hold] show ?thesis
    using reply by (auto simp: settled_view_metered told_metered) (simp add: fresh_view_def)
next
  case (AtNotDispatched u x)
  with ok have reply: "re_outcome reply = Inl x" "te_primitiveEntered x = Some False" and v': "open_view n d v"
    by simp_all
  have "stored_view s (ki_organizationId i, ki_requestId i) = Some v" using v by (simp add: call_key_def)
  from fail_view [OF this now, of "''PROVIDER_NOT_DISPATCHED''"] obtain s1 where
    "failInference (ki_organizationId i) (ki_requestId i) ''PROVIDER_NOT_DISPATCHED'' now s = Inr s1"
    and v1: "stored_view s1 (call_key i) = Some (if ev_status v = Executing
      then v\<lparr>ev_status := Failed, ev_failure := Some ''PROVIDER_NOT_DISPATCHED''\<rparr> else v)"
    by (auto simp: call_key_def)
  with step AtNotDispatched ctx have "s' = s1" "p' = Threw (ExecProvider x)"
    by (auto simp: not_dispatched_def await_store_def Let_def)
  with v1 reply v' show ?thesis by (auto simp: open_view_def settled_view_metered told_metered)
qed (use assms in auto)

section \<open>Calls, replies and the steps of others\<close>

text \<open>The reply that call \<open>n\<close> gets in a run: the one of its first own step at the provider.\<close>

definition consumes :: "nat \<Rightarrow> ('op, 'e) exec_op \<Rightarrow> 's exec_world \<Rightarrow> provider_reply option" where
  "consumes n op w = (case op of Advance m e now reply \<Rightarrow>
     if m = n \<and> n < length (w_calls w) \<and> at_provider (snd (w_calls w ! n)) then Some reply else None | _ \<Rightarrow> None)"

fun reply_given ::
    "('s, 'e) inference_store \<Rightarrow> (string \<Rightarrow> string) \<Rightarrow> (string \<Rightarrow> exec_error + provider_binding)
       \<Rightarrow> ('op \<Rightarrow> 's \<Rightarrow> store_error + ('s \<times> 'a)) \<Rightarrow> nat \<Rightarrow> ('op, 'e) exec_op list \<Rightarrow> 's exec_world
       \<Rightarrow> provider_reply option" where
  "reply_given st sha resolve step n [] w = None"
| "reply_given st sha resolve step n (op # ops) w =
     (case consumes n op w of
        Some reply \<Rightarrow> Some reply
      | None \<Rightarrow> reply_given st sha resolve step n ops (world_step st sha resolve step op w))"

lemma reply_given_snoc:
  "reply_given st sha resolve step n (ops @ [op]) w =
     (case reply_given st sha resolve step n ops w of
        Some reply \<Rightarrow> Some reply
      | None \<Rightarrow> consumes n op (world_run st sha resolve step ops w))"
  by (induction ops arbitrary: w) (auto split: option.split)

text \<open>A phase in which the call may still settle its execution.\<close>

fun settling :: "exec_phase \<Rightarrow> bool" where
  "settling AtStart = False"
| "settling (AtRecord r) = False"
| "settling (AtAuthorize r) = False"
| "settling (AtRelease r token) = False"
| "settling (Returned a) = False"
| "settling (Threw x) = False"
| "settling p = True"

lemma settling_entered:
  assumes "execute_step (policy_inference_store sha) sha resolve i e now reply p s = (s', p')" and "settling p'"
  shows "settling p \<or> at_provider p'"
  using assms by (cases p) (auto simp: execute_defs Let_def
      split: if_splits sum.splits option.splits prod.splits admission_result.splits completion_result.splits)

text \<open>A step of a call leaves every execution alone but its own, and that one too unless it may settle.\<close>

lemma keeps_completeInference:
  assumes "completeInference sha token clock i s = Inr (s', c)" and "k \<noteq> (ci_organizationId i, ci_requestId i)"
  shows "keeps k s s'"
  using assms(1)
proof (rule completeInference_Inr)
  fix s1 r q
  assume t: "complete_transaction sha clock i s = Inr (s1, r, q)"
    and s': "s' = s1 \<or> (\<exists>t x. processShadowEvaluationBestEffort sha token clock (ci_organizationId i)
          (ci_requestId i) t s1 = (s', x))"
  have "keeps k s s1" using view_complete_other [OF t assms(2)] by (rule keeps_view)
  moreover have "keeps k s1 s'" using s' process_executions keeps_same by blast
  ultimately show ?thesis by (rule keeps_trans)
qed

lemma execute_step_keeps:
  assumes step: "execute_step (policy_inference_store sha) sha resolve i e now reply p s = (s', p')"
    and other: "k \<noteq> call_key i \<or> \<not> settling p"
  shows "keeps k s s'"
proof (cases "settling p")
  case True
  with other have "k \<noteq> (ki_organizationId i, ki_requestId i)" by (auto simp: call_key_def)
  with step True show ?thesis
    by (cases p) (auto simp: execute_defs enter_primitive_def Let_def
        split: if_splits sum.splits option.splits prod.splits completion_result.splits bool.splits
        intro: keeps_completeInference keeps_view view_hold_other view_fail_other)
next
  case False
  with step show ?thesis
    by (cases p) (auto simp: execute_defs Let_def and_then_Inr_iff
        split: if_splits sum.splits option.splits prod.splits admission_result.splits intro: keeps_admit)
qed

text \<open>Dispatch: the admission wrote a fresh execution with the reservation computed from the price.\<close>

lemma admit_fresh:
  assumes "admitInference sha uuid clock False i s = Inr (s', AdmitExecute d n)"
  shows "n = ai_estimatedCostAtomic i
    \<and> stored_view s' (ai_organizationId i, ai_requestId i) = Some (fresh_view n (sd_id d))"
  using assms
proof (rule admitInference_Inr)
  fix t m p
  let ?k = "(ai_organizationId i, ai_requestId i)" and ?r = "new_execution i uuid Executing (ai_estimatedCostAtomic i) t"
  assume "admit_new sha uuid False i m (pr_policy p) t s = Inr (s', AdmitExecute d n)"
  from admit_new_effect [OF this] have d: "decide sha uuid i m (pr_policy p) t s = Inr d"
    and n: "n = ai_estimatedCostAtomic i" and s': "st_executions s' = st_executions s @ [?r]"
    and new: "?k \<notin> execution_key ` set (st_executions s)"
    by (auto split: if_splits)
  have "tbl_find execution_key ?k (st_executions s') = Some ?r"
    using tbl_find_new [of execution_key ?r "st_executions s"] new by (simp add: s' new_execution_key)
  moreover have "sd_id d = uuid" using decide_evaluates [OF d] by simp
  ultimately show ?thesis using n
    by (simp add: stored_view_def view_of_def new_execution_def fresh_view_def)
next
  fix t r assume "admissionFromExecution clock r t s = Inr (s', AdmitExecute d n)"
  then show ?thesis
    by (cases "ex_status r") (auto simp: admissionFromExecution_def and_then_Inr_iff split: option.splits if_splits)
qed

lemma own_step_dispatch:
  assumes step: "execute_step (policy_inference_store sha) sha resolve i e now reply p s = (s', p')"
    and "at_provider p'" and "\<not> settling p"
  shows "call_inv resolve None (i, p') s'"
proof -
  have ctx: "ki_reliabilityContext i = None" by (rule provider_without_context [OF step assms(2)])
  have "p = AtStart" using step assms(2,3) ctx
    by (cases p) (auto simp: execute_defs split: option.splits sum.splits)
  with step assms(2) obtain b n d u where b: "bind_model resolve i = Inr (b, n)"
    and a: "admitInference sha (en_uuid e) (en_clock e) False (admission_request sha i b n now) s = Inr (s', AdmitExecute d u)"
    and p': "p' = AtProvider \<lparr>ru_binding = b, ru_decision = d, ru_reserved = u, ru_token = None\<rparr>"
    using ctx by (auto simp: start_call_def after_admission_def and_then_Inr_iff
        split: if_splits sum.splits prod.splits admission_result.splits)
  from admit_fresh [OF a] have "u = n" "stored_view s' (call_key i) = Some (fresh_view n (sd_id d))"
    by (simp_all add: admission_request_def call_key_def)
  with b p' ctx show ?thesis
    by (auto simp: call_inv_def runs_def open_view_def intro!: exI [of _ b] exI [of _ n] exI [of _ "sd_id d"])
qed

section \<open>The course of all calls\<close>

text \<open>Nobody but the service completes, holds, fails or resolves the request.\<close>

fun leaves_alone :: "string \<times> string \<Rightarrow> (store_op, store_env) exec_op \<Rightarrow> bool" where
  "leaves_alone k (Background op) \<longleftrightarrow> \<not> settles_key k op"
| "leaves_alone k op \<longleftrightarrow> True"

definition course_ok ::
    "(string \<Rightarrow> exec_error + provider_binding) \<Rightarrow> (nat \<Rightarrow> provider_reply option) \<Rightarrow> string \<times> string
       \<Rightarrow> policy_store exec_world \<Rightarrow> bool" where
  "course_ok resolve rp k w \<longleftrightarrow> calls_ok w
     \<and> (\<forall>n < length (w_calls w). settling (snd (w_calls w ! n)) \<longrightarrow>
          (n, call_key (fst (w_calls w ! n))) \<in> set (w_dispatched w))
     \<and> (\<forall>n. rp n \<noteq> None \<longrightarrow> n \<in> fst ` set (w_dispatched w))
     \<and> (\<forall>n. (n, k) \<in> set (w_dispatched w) \<longrightarrow> call_inv resolve (rp n) (w_calls w ! n) (w_store w))"

lemma dispatched_unique:
  assumes ok: "world_ok taken w" and "(n, k) \<in> set (w_dispatched w)" and "(m, k) \<in> set (w_dispatched w)"
  shows "n = m"
proof -
  have "distinct (map snd (w_dispatched w))"
  proof (rule count_le_1_distinct)
    fix x show "count_list (map snd (w_dispatched w)) x \<le> 1"
      using ok unfolding world_ok_def claims_def by (metis add_leD1)
  qed
  then have "inj_on snd (set (w_dispatched w))" by (simp add: distinct_map)
  from inj_onD [OF this _ assms(2,3)] show ?thesis by simp
qed

lemma dispatched_key:
  "world_ok taken w \<Longrightarrow> (n, k) \<in> set (w_dispatched w) \<Longrightarrow> n < length (w_calls w) \<and> k = call_key (fst (w_calls w ! n))"
  unfolding world_ok_def by blast

lemma own_step_inv:
  assumes inv: "call_inv resolve rp (i, p) s" and "store_inv s" and "\<not> bad_time now"
    and step: "execute_step (policy_inference_store sha) sha resolve i e now reply p s = (s', p')"
  shows "call_inv resolve (if at_provider p then Some reply else rp) (i, p') s'"
proof -
  from inv obtain b n d v where ctx: "ki_reliabilityContext i = None" and b: "bind_model resolve i = Inr (b, n)"
    and v: "stored_view s (call_key i) = Some v" and ok: "phase_ok b n d v rp p"
    by (auto simp: call_inv_def)
  show ?thesis
  proof (cases "at_provider p")
    case True
    with ok have rp: "rp = None" by (cases p; cases rp) auto
    from own_step_provider [OF ok [unfolded rp] ctx step] True b v ctx show ?thesis
      unfolding call_inv_def by auto
  next
    case False
    with ok obtain r where rp: "rp = Some r" by (cases p; cases rp) auto
    from own_step_later [OF ok [unfolded rp] ctx assms(2) v assms(3) step] False b ctx rp show ?thesis
      unfolding call_inv_def by auto
  qed
qed

lemma course_advance:
  assumes ok: "course_ok resolve rp k w" and now: "\<not> bad_time now" and m: "m < length (w_calls w)"
    and ip: "w_calls w ! m = (i, p)"
    and st: "execute_step (policy_inference_store sha) sha resolve i e now reply p (w_store w) = (s', p')"
  defines "w' \<equiv> \<lparr>w_store = s', w_calls = (w_calls w)[m := (i, p')],
      w_dispatched = (if at_provider p' then w_dispatched w @ [(m, call_key i)] else w_dispatched w)\<rparr>"
  shows "(n, k) \<in> set (w_dispatched w') \<Longrightarrow>
      call_inv resolve (if m = n \<and> at_provider p then Some reply else rp n) (w_calls w' ! n) (w_store w')"
proof -
  assume d: "(n, k) \<in> set (w_dispatched w')"
  have calls: "calls_ok w" and logged: "settling p \<Longrightarrow> (m, call_key i) \<in> set (w_dispatched w)"
    and replied: "rp n \<noteq> None \<Longrightarrow> n \<in> fst ` set (w_dispatched w)"
    and inv: "(n, k) \<in> set (w_dispatched w) \<Longrightarrow> call_inv resolve (rp n) (w_calls w ! n) (w_store w)"
    using ok m ip unfolding course_ok_def by (blast, force, blast, blast)
  then have wok: "world_ok permitted w" and sinv: "store_inv (w_store w)" by (simp_all add: calls_ok_def)
  show ?thesis
  proof (cases "(n, k) \<in> set (w_dispatched w)")
    case True
    note n = dispatched_key [OF wok True]
    show ?thesis
    proof (cases "m = n")
      case eq: True
      with inv [OF True] ip own_step_inv [OF _ sinv now st] m show ?thesis by (simp add: w'_def)
    next
      case False
      have "k \<noteq> call_key i \<or> \<not> settling p"
        using logged dispatched_unique [OF wok True] False by blast
      from execute_step_keeps [OF st this] inv [OF True] n False show ?thesis
        by (auto simp: w'_def intro: call_inv_keeps)
    qed
  next
    case False
    with d have new: "n = m" "k = call_key i" "at_provider p'" by (auto simp: w'_def split: if_splits)
    have ns: "\<not> settling p" using logged False new by auto
    have "n \<notin> fst ` set (w_dispatched w)"
    proof
      assume "n \<in> fst ` set (w_dispatched w)"
      then obtain k' where k': "(n, k') \<in> set (w_dispatched w)" by force
      from dispatched_key [OF wok k'] ip new have "k' = k" by simp
      with k' False show False by simp
    qed
    then have "rp n = None" using replied by blast
    moreover have "\<not> at_provider p" using ns by (cases p) auto
    ultimately show ?thesis using own_step_dispatch [OF st new(3) ns] m new by (simp add: w'_def)
  qed
qed

lemma course_moved:
  assumes ok: "course_ok resolve rp k w" and now: "\<not> bad_time now" and m: "m < length (w_calls w)"
    and ip: "w_calls w ! m = (i, p)"
    and st: "execute_step (policy_inference_store sha) sha resolve i e now reply p (w_store w) = (s', p')"
    and rp': "\<And>n. rp' n = (case rp n of Some x \<Rightarrow> Some x | None \<Rightarrow> if m = n \<and> at_provider p then Some reply else None)"
  defines "w' \<equiv> \<lparr>w_store = s', w_calls = (w_calls w)[m := (i, p')],
      w_dispatched = (if at_provider p' then w_dispatched w @ [(m, call_key i)] else w_dispatched w)\<rparr>"
  assumes calls': "calls_ok w'"
  shows "course_ok resolve rp' k w'"
proof -
  have calls: "calls_ok w" and logged: "\<And>n. n < length (w_calls w) \<Longrightarrow> settling (snd (w_calls w ! n)) \<Longrightarrow>
      (n, call_key (fst (w_calls w ! n))) \<in> set (w_dispatched w)"
    and replied: "\<And>n. rp n \<noteq> None \<Longrightarrow> n \<in> fst ` set (w_dispatched w)"
    and inv: "\<And>n. (n, k) \<in> set (w_dispatched w) \<Longrightarrow> call_inv resolve (rp n) (w_calls w ! n) (w_store w)"
    using ok unfolding course_ok_def by blast+
  have wok: "world_ok permitted w" using calls by (simp add: calls_ok_def)
  have sp: "settling p \<Longrightarrow> (m, call_key i) \<in> set (w_dispatched w)" using logged [OF m] ip by simp
  have ap: "at_provider p \<Longrightarrow> settling p" by (cases p) auto
  have first: "rp' n = (if m = n \<and> at_provider p then Some reply else rp n)" if "(n, k) \<in> set (w_dispatched w')" for n
  proof (cases "m = n \<and> at_provider p")
    case True
    then have "(n, k) \<in> set (w_dispatched w)"
      using that sp ap dispatched_key [OF wok] by (auto simp: w'_def split: if_splits)
    from inv [OF this] True ip have "call_inv resolve (rp n) (i, p) (w_store w)" by simp
    with True have "rp n = None" by (cases p; cases "rp n") (auto simp: call_inv_def)
    with True rp' show ?thesis by simp
  qed (auto simp: rp' split: option.split)
  have "(n, call_key (fst (w_calls w' ! n))) \<in> set (w_dispatched w')"
    if "n < length (w_calls w')" "settling (snd (w_calls w' ! n))" for n
    using that logged sp settling_entered [OF st] m by (cases "n = m") (auto simp: w'_def)
  moreover have "n \<in> fst ` set (w_dispatched w')" if "rp' n \<noteq> None" for n
    using that replied [of n] sp ap by (force simp: rp' w'_def split: option.splits if_splits)
  moreover have "call_inv resolve (rp' n) (w_calls w' ! n) (w_store w')" if "(n, k) \<in> set (w_dispatched w')" for n
    using course_advance [OF ok now m ip st that [unfolded w'_def]] unfolding first [OF that] w'_def .
  ultimately show ?thesis using calls' unfolding course_ok_def by blast
qed

text \<open>Steps that move no call: only the executions may change, and only as other users may change them.\<close>

lemma course_unmoved:
  assumes ok: "course_ok resolve rp k w" and calls': "calls_ok w'" and log: "w_dispatched w' = w_dispatched w"
    and old: "\<And>n. n < length (w_calls w) \<Longrightarrow> w_calls w' ! n = w_calls w ! n"
    and new: "\<And>n. n < length (w_calls w') \<Longrightarrow> settling (snd (w_calls w' ! n)) \<Longrightarrow> n < length (w_calls w)"
    and keep: "keeps k (w_store w) (w_store w')"
  shows "course_ok resolve rp k w'"
  unfolding course_ok_def log
proof (intro conjI allI impI)
  have wok: "world_ok permitted w" using ok by (simp add: course_ok_def calls_ok_def)
  show "calls_ok w'" by (rule calls')
  show "(n, call_key (fst (w_calls w' ! n))) \<in> set (w_dispatched w)"
    if "n < length (w_calls w')" "settling (snd (w_calls w' ! n))" for n
    using ok old [of n] new [OF that] that(2) unfolding course_ok_def by simp
  show "n \<in> fst ` set (w_dispatched w)" if "rp n \<noteq> None" for n using ok that unfolding course_ok_def by blast
  show "call_inv resolve (rp n) (w_calls w' ! n) (w_store w')" if d: "(n, k) \<in> set (w_dispatched w)" for n
  proof -
    have "call_inv resolve (rp n) (w_calls w ! n) (w_store w)" using ok d unfolding course_ok_def by blast
    from call_inv_keeps [OF this] dispatched_key [OF wok d] keep old [of n] show ?thesis by simp
  qed
qed

lemma course_step:
  assumes ok: "course_ok resolve rp k w" and op: "orderly_op op" "leaves_alone k op"
  shows "course_ok resolve (\<lambda>n. case rp n of Some reply \<Rightarrow> Some reply | None \<Rightarrow> consumes n op w) k
    (world_step (policy_inference_store sha) sha resolve (store_step sha) op w)"
    (is "course_ok resolve ?rp k ?w")
proof -
  have "calls_ok w" using ok by (simp add: course_ok_def)
  note calls' = calls_ok_step [OF this op(1), of sha resolve]
  show ?thesis
  proof (cases op)
    case (BeginCall i)
    have rp: "?rp = rp" by (simp add: BeginCall consumes_def fun_eq_iff split: option.split)
    show ?thesis unfolding rp
    proof (rule course_unmoved [OF ok calls'])
      show "n < length (w_calls w)" if "n < length (w_calls ?w)" "settling (snd (w_calls ?w ! n))" for n
        using that by (auto simp: BeginCall nth_append less_Suc_eq split: if_splits)
    qed (simp_all add: BeginCall nth_append)
  next
    case (Background x)
    have rp: "?rp = rp" by (simp add: Background consumes_def fun_eq_iff split: option.split)
    show ?thesis unfolding rp
    proof (rule course_unmoved [OF ok calls'])
      show "keeps k (w_store w) (w_store ?w)"
        using op(2) by (auto simp: Background tx_def split: sum.split intro: store_step_keeps)
    qed (simp_all add: Background)
  next
    case (Advance m e now reply)
    show ?thesis
    proof (cases "m < length (w_calls w)")
      case False
      then have "?w = w" by (simp add: Advance advance_call_def)
      moreover have "?rp = rp" using False by (auto simp: Advance consumes_def fun_eq_iff split: option.split)
      ultimately show ?thesis using ok by simp
    next
      case m: True
      obtain i p where ip: "w_calls w ! m = (i, p)" by force
      obtain s' p' where st: "execute_step (policy_inference_store sha) sha resolve i e now reply p (w_store w) = (s', p')"
        by force
      have w': "?w = \<lparr>w_store = s', w_calls = (w_calls w)[m := (i, p')],
          w_dispatched = (if at_provider p' then w_dispatched w @ [(m, call_key i)] else w_dispatched w)\<rparr>"
        using m ip st by (simp add: Advance advance_call_def Let_def)
      have "\<not> bad_time now" using op(1) Advance by simp
      moreover have "consumes n op w = (if m = n \<and> at_provider p then Some reply else None)" for n
        using m ip by (auto simp: Advance consumes_def)
      ultimately show ?thesis unfolding w'
        by (intro course_moved [OF ok _ m ip st _ calls' [unfolded w']]) (simp_all split: option.split)
    qed
  qed
qed

lemma course_run:
  assumes "list_all orderly_op ops" and "list_all (leaves_alone k) ops" and "store_inv s"
  shows "course_ok resolve (\<lambda>n. reply_given (policy_inference_store sha) sha resolve (store_step sha) n ops (idle_world s)) k
    (service_run sha resolve ops s)"
  using assms(1,2)
proof (induction ops rule: rev_induct)
  case Nil
  show ?case using assms(3) by (simp add: course_ok_def calls_ok_def world_ok_def claims_def)
next
  case (snoc op ops)
  from snoc have "course_ok resolve (\<lambda>n. reply_given (policy_inference_store sha) sha resolve (store_step sha) n ops
      (idle_world s)) k (service_run sha resolve ops s)" by simp
  from course_step [OF this, of op sha] snoc.prems show ?case
    by (simp add: reply_given_snoc world_run_def)
qed

text \<open>The binding and the reservation of a request, written out.\<close>

definition bound_at :: "(string \<Rightarrow> exec_error + provider_binding) \<Rightarrow> controlled_input \<Rightarrow> provider_binding \<Rightarrow> int \<Rightarrow> bool" where
  "bound_at resolve i b n \<longleftrightarrow> resolve (ki_organizationId i) = Inr b
     \<and> (ki_requestedModel i = None \<or> ki_requestedModel i = Some (pb_model b))
     \<and> calculateMaximumCostMicros \<lparr>mu_inputTokens = ki_inputTokens i, mu_maxOutputTokens = ki_maxOutputTokens i\<rparr>
         (pb_price b) = Inr n"

lemma bind_model_bound: "bind_model resolve i = Inr (b, n) \<Longrightarrow> bound_at resolve i b n"
proof -
  have lift: "lift_err f r = Inr y \<Longrightarrow> r = Inr y" for f r and y :: int
    by (cases r) (simp_all add: lift_err_def)
  show "bind_model resolve i = Inr (b, n) \<Longrightarrow> bound_at resolve i b n"
    by (auto simp: bind_model_def bound_at_def and_then_Inr_iff dest: lift split: if_splits)
qed

text \<open>
  C6: when a call that reached the provider has ended, its execution and the answer of the caller are
  those that the provider's reply calls for: completed with the response and the metered cost, and
  returned, when the cost is within the reservation made at admission; held with the response, when it
  is not or cannot be metered; failed, when the request provably never left; held as ambiguous on any
  other error. The reservation is the maximum cost of the request at the price of the organization's
  provider. This holds in every interleaving with other calls and users of the store, as long as none of them settles the
  request itself; the one exception is a retry of the request that finds its lease expired, which
  leaves it held, and then the call throws.
\<close>

theorem call_settled_as_answered:
  assumes "list_all orderly_op ops" and "list_all (leaves_alone (org, rid)) ops"
    and "w = service_run sha resolve ops (empty_store orgs agents)"
    and "(n, org, rid) \<in> set (w_dispatched w)" and "ended (snd (w_calls w ! n))"
  shows "\<exists>b reserved d reply r. bound_at resolve (fst (w_calls w ! n)) b reserved
    \<and> reply_given (policy_inference_store sha) sha resolve (store_step sha) n ops (idle_world (empty_store orgs agents))
        = Some reply
    \<and> find_execution org rid (w_store w) = Some r
    \<and> ((view_of r = settled_view b reserved d reply \<and> told b reserved d reply (snd (w_calls w ! n)))
       \<or> (view_of r = lease_lost (fresh_view reserved d) \<and> (\<exists>x. snd (w_calls w ! n) = Threw x)))"
proof -
  let ?rp = "reply_given (policy_inference_store sha) sha resolve (store_step sha) n ops (idle_world (empty_store orgs agents))"
  have ok: "course_ok resolve (\<lambda>n. reply_given (policy_inference_store sha) sha resolve (store_step sha) n ops
      (idle_world (empty_store orgs agents))) (org, rid) w"
    unfolding assms(3) by (rule course_run [OF assms(1,2) empty_store_inv])
  then have wok: "world_ok permitted w" by (simp add: course_ok_def calls_ok_def)
  from ok assms(4) have "call_inv resolve ?rp (w_calls w ! n) (w_store w)" by (simp add: course_ok_def)
  then obtain b reserved d v where b: "bind_model resolve (fst (w_calls w ! n)) = Inr (b, reserved)"
    and v: "stored_view (w_store w) (call_key (fst (w_calls w ! n))) = Some v"
    and p: "phase_ok b reserved d v ?rp (snd (w_calls w ! n))"
    by (auto simp: call_inv_def)
  have "stored_view (w_store w) (org, rid) = Some v" using v dispatched_key [OF wok assms(4)] by simp
  then obtain r where r: "find_execution org rid (w_store w) = Some r" "view_of r = v" by (rule stored_viewE)
  from p assms(5) obtain reply where "?rp = Some reply"
    and "(v = settled_view b reserved d reply \<and> told b reserved d reply (snd (w_calls w ! n)))
       \<or> (v = lease_lost (fresh_view reserved d) \<and> (\<exists>x. snd (w_calls w ! n) = Threw x))"
    by (cases "snd (w_calls w ! n)"; cases ?rp) auto
  with bind_model_bound [OF b] r show ?thesis by blast
qed

lemma sample_alone: "list_all (leaves_alone (''o'', ''r1'')) (sample_calls @ replicate 9 (Advance 0 sample_env (Instant 2) sample_reply))"
  by (simp add: sample_calls_def setup_ops_def list_all_iff)

lemma call_settled_as_answered_witness:
  "\<exists>b reserved d reply r. bound_at sample_resolve (fst (w_calls sample_ended ! 0)) b reserved
    \<and> find_execution ''o'' ''r1'' (w_store sample_ended) = Some r
    \<and> ((view_of r = settled_view b reserved d reply \<and> told b reserved d reply (snd (w_calls sample_ended ! 0)))
       \<or> (view_of r = lease_lost (fresh_view reserved d) \<and> (\<exists>x. snd (w_calls sample_ended ! 0) = Threw x)))"
  using call_settled_as_answered [OF sample_orderly(1) sample_alone refl sample_end(2,1)] by blast

end
