(* ===== verification/SignerStore.thy ===== *)
theory SignerStore
  imports PolicyTables PolicyAdmission
begin

text \<open>
  \<open>src/src/signer/authorizationStore.ts\<close>: the durable authority of the payment signer. Every operation
  that writes is one transaction on two tables, the limit of an organization with what is reserved
  against it and the authorizations. Rows of the same organization are locked by the limit's row.
\<close>

section \<open>Tables\<close>

datatype auth_status = Auth_reserved | Auth_completed | Auth_review

record limit_row =
  li_organizationId :: string
  li_maximumTotalAtomic :: int
  li_reservedAtomic :: int
  li_createdAt :: int
  li_updatedAt :: int

record authorization_row =
  az_organizationId :: string
  az_callerId :: string
  az_requestId :: string
  az_fingerprint :: string
  az_nonce :: string
  az_amountAtomic :: int
  az_status :: auth_status
  az_signature :: "string option"
  az_reasonCode :: "string option"
  az_createdAt :: int
  az_updatedAt :: int

record signer_store =
  sg_limits :: "limit_row list"
  sg_records :: "authorization_row list"

definition authorization_key :: "authorization_row \<Rightarrow> string \<times> string" where
  "authorization_key r = (az_organizationId r, az_requestId r)"

interpretation limit_table:
    keyed_table li_organizationId "tbl_find li_organizationId" "tbl_insert li_organizationId"
      "tbl_update li_organizationId" "tbl_wf li_organizationId"
  by (rule keyed_table_tbl)

interpretation authorization_table:
    keyed_table authorization_key "tbl_find authorization_key" "tbl_insert authorization_key"
      "tbl_update authorization_key" "tbl_wf authorization_key"
  by (rule keyed_table_tbl)

section \<open>Inputs\<close>

record reservation_input =
  rv_organizationId :: string
  rv_callerId :: string
  rv_requestId :: string
  rv_fingerprint :: string
  rv_nonce :: string
  rv_amountAtomic :: int
  rv_maximumTotalAtomic :: int
  rv_now :: timestamp

datatype signer_reservation =
  SignerReserved | SignerCompleted string | SignerInProgress | SignerReview | SignerBudgetExceeded

record signer_status =
  ss_reservedCount :: int
  ss_reviewCount :: int
  ss_reservedAtomic :: int
  ss_maximumTotalAtomic :: int

definition hex_char :: "char \<Rightarrow> bool" where
  "hex_char c \<longleftrightarrow> is_digit c \<or> (97 \<le> (of_char c :: nat) \<and> (of_char c :: nat) \<le> 102)
     \<or> (65 \<le> (of_char c :: nat) \<and> (of_char c :: nat) \<le> 70)"

text \<open>The pattern \<open>/^0x[0-9a-fA-F]{n}$/\<close>.\<close>

definition hex_text :: "nat \<Rightarrow> string \<Rightarrow> bool" where
  "hex_text n t \<longleftrightarrow> take 2 t = ''0x'' \<and> length (drop 2 t) = n \<and> list_all hex_char (drop 2 t)"

definition validateIdentity :: "string \<Rightarrow> string \<Rightarrow> store_error option" where
  "validateIdentity org rid = first_error
     [(blank org, Thrown ''SIGNER_ORGANIZATION_REQUIRED''),
      (blank rid, Thrown ''SIGNER_REQUEST_ID_REQUIRED'')]"

definition validateReservation :: "reservation_input \<Rightarrow> store_error option" where
  "validateReservation i =
     orElse (validateIdentity (rv_organizationId i) (rv_requestId i)) (first_error
       [(blank (rv_callerId i) \<or> 128 < length (rv_callerId i), Thrown ''SIGNER_CALLER_INVALID''),
        (\<not> fingerprint_ok (rv_fingerprint i), Thrown ''SIGNER_FINGERPRINT_INVALID''),
        (\<not> hex_text 64 (rv_nonce i), Thrown ''SIGNER_NONCE_INVALID''),
        (rv_amountAtomic i \<le> 0 \<or> rv_maximumTotalAtomic i \<le> 0, Thrown ''SIGNER_AMOUNT_INVALID''),
        (bad_time (rv_now i), Thrown ''SIGNER_TIMESTAMP_INVALID'')])"

section \<open>Operations\<close>

definition getStatus :: "string \<Rightarrow> signer_store \<Rightarrow> store_error + signer_status" where
  "getStatus org s =
     and_then (check (if blank org then Some (Thrown ''SIGNER_ORGANIZATION_REQUIRED'') else None)) (\<lambda>_.
     case tbl_find li_organizationId org (sg_limits s) of
       None \<Rightarrow> Inr \<lparr>ss_reservedCount = 0, ss_reviewCount = 0, ss_reservedAtomic = 0, ss_maximumTotalAtomic = 0\<rparr>
     | Some l \<Rightarrow>
         let rs = filter (\<lambda>r. az_organizationId r = org) (sg_records s)
         in Inr \<lparr>ss_reservedCount = (\<Sum>r\<leftarrow>rs. if az_status r = Auth_reserved then 1 else 0),
                 ss_reviewCount = (\<Sum>r\<leftarrow>rs. if az_status r = Auth_review then 1 else 0),
                 ss_reservedAtomic = li_reservedAtomic l,
                 ss_maximumTotalAtomic = li_maximumTotalAtomic l\<rparr>)"

text \<open>The answer a stored authorization gives to a request for it.\<close>

definition stored_answer :: "authorization_row \<Rightarrow> store_error + signer_reservation" where
  "stored_answer r =
     (case az_status r of
        Auth_completed \<Rightarrow>
          (case truthy (az_signature r) of
             None \<Rightarrow> Inl (Thrown ''SIGNER_SIGNATURE_MISSING'')
           | Some signature \<Rightarrow> Inr (SignerCompleted signature))
      | Auth_review \<Rightarrow> Inr SignerReview
      | Auth_reserved \<Rightarrow> Inr SignerInProgress)"

definition ensure_limit :: "reservation_input \<Rightarrow> int \<Rightarrow> limit_row list \<Rightarrow> limit_row list" where
  "ensure_limit i now rows =
     (case tbl_insert li_organizationId
         \<lparr>li_organizationId = rv_organizationId i, li_maximumTotalAtomic = rv_maximumTotalAtomic i,
          li_reservedAtomic = 0, li_createdAt = now, li_updatedAt = now\<rparr> rows of
        None \<Rightarrow> rows | Some rows' \<Rightarrow> rows')"

definition new_authorization :: "reservation_input \<Rightarrow> int \<Rightarrow> authorization_row" where
  "new_authorization i now =
     \<lparr>az_organizationId = rv_organizationId i, az_callerId = rv_callerId i, az_requestId = rv_requestId i,
      az_fingerprint = rv_fingerprint i, az_nonce = toLowerCase (rv_nonce i),
      az_amountAtomic = rv_amountAtomic i, az_status = Auth_reserved, az_signature = None,
      az_reasonCode = None, az_createdAt = now, az_updatedAt = now\<rparr>"

text \<open>An authorization of the same payload: the same fingerprint or the same nonce.\<close>

definition equivalent :: "reservation_input \<Rightarrow> authorization_row \<Rightarrow> bool" where
  "equivalent i r \<longleftrightarrow> az_organizationId r = rv_organizationId i
     \<and> (az_fingerprint r = rv_fingerprint i \<or> toLowerCase (az_nonce r) = toLowerCase (rv_nonce i))"

definition reserve_new ::
    "reservation_input \<Rightarrow> int \<Rightarrow> limit_row \<Rightarrow> limit_row list \<Rightarrow> signer_store
       \<Rightarrow> store_error + (signer_store \<times> signer_reservation)" where
  "reserve_new i now l lims s =
     (if rv_maximumTotalAtomic i < li_reservedAtomic l + rv_amountAtomic i
      then Inr (s\<lparr>sg_limits := lims\<rparr>, SignerBudgetExceeded)
      else
        and_then (insert_row ''signer_authorizations'' authorization_key (new_authorization i now) (sg_records s))
          (\<lambda>rows.
          Inr (\<lparr>sg_limits = tbl_update li_organizationId (rv_organizationId i)
                  (\<lambda>x. x\<lparr>li_reservedAtomic := li_reservedAtomic x + rv_amountAtomic i, li_updatedAt := now\<rparr>) lims,
                sg_records = rows\<rparr>, SignerReserved)))"

definition reserve :: "reservation_input \<Rightarrow> signer_store \<Rightarrow> store_error + (signer_store \<times> signer_reservation)" where
  "reserve i s =
     and_then (check (validateReservation i)) (\<lambda>_.
     and_then (sql_time (rv_now i)) (\<lambda>now.
     let lims = ensure_limit i now (sg_limits s) in
     case tbl_find li_organizationId (rv_organizationId i) lims of
       None \<Rightarrow> Inl (Thrown ''SIGNER_AUTHORITY_LIMIT_MISSING'')
     | Some l \<Rightarrow>
         if li_maximumTotalAtomic l \<noteq> rv_maximumTotalAtomic i
         then Inl (Thrown ''SIGNER_AUTHORITY_LIMIT_IMMUTABLE'')
         else
           (case tbl_find authorization_key (rv_organizationId i, rv_requestId i) (sg_records s) of
              Some r \<Rightarrow>
                if az_callerId r \<noteq> rv_callerId i \<or> az_fingerprint r \<noteq> rv_fingerprint i
                   \<or> toLowerCase (az_nonce r) \<noteq> toLowerCase (rv_nonce i) \<or> az_amountAtomic r \<noteq> rv_amountAtomic i
                then Inl (Thrown ''SIGNER_IDEMPOTENCY_CONFLICT'')
                else and_then (stored_answer r) (\<lambda>a. Inr (s\<lparr>sg_limits := lims\<rparr>, a))
            | None \<Rightarrow>
                (case List.find (equivalent i) (sg_records s) of
                   Some r \<Rightarrow>
                     if az_callerId r \<noteq> rv_callerId i \<or> az_fingerprint r \<noteq> rv_fingerprint i
                        \<or> az_amountAtomic r \<noteq> rv_amountAtomic i
                     then Inl (Thrown ''SIGNER_NONCE_CONFLICT'')
                     else and_then (stored_answer r) (\<lambda>a. Inr (s\<lparr>sg_limits := lims\<rparr>, a))
                 | None \<Rightarrow> reserve_new i now l lims s))))"

definition update_reserved ::
    "string \<Rightarrow> string \<Rightarrow> (authorization_row \<Rightarrow> authorization_row) \<Rightarrow> signer_store \<Rightarrow> store_error + signer_store" where
  "update_reserved org rid f s =
     (case tbl_find authorization_key (org, rid) (sg_records s) of
        None \<Rightarrow> Inl (Thrown ''SIGNER_AUTHORIZATION_NOT_RESERVED'')
      | Some r \<Rightarrow>
          if az_status r \<noteq> Auth_reserved then Inl (Thrown ''SIGNER_AUTHORIZATION_NOT_RESERVED'')
          else Inr (s\<lparr>sg_records := tbl_update authorization_key (org, rid) f (sg_records s)\<rparr>))"

definition complete_authorization ::
    "string \<Rightarrow> string \<Rightarrow> string \<Rightarrow> timestamp \<Rightarrow> signer_store \<Rightarrow> store_error + signer_store" where
  "complete_authorization org rid signature completedAt s =
     and_then (check (orElse (validateIdentity org rid) (first_error
       [(\<not> hex_text 130 signature, Thrown ''SIGNER_SIGNATURE_INVALID''),
        (bad_time completedAt, Thrown ''SIGNER_TIMESTAMP_INVALID'')]))) (\<lambda>_.
     and_then (sql_time completedAt) (\<lambda>t.
     update_reserved org rid
       (\<lambda>r. r\<lparr>az_status := Auth_completed, az_signature := Some signature, az_reasonCode := None,
              az_updatedAt := t\<rparr>) s))"

definition holdForReview ::
    "string \<Rightarrow> string \<Rightarrow> string \<Rightarrow> timestamp \<Rightarrow> signer_store \<Rightarrow> store_error + signer_store" where
  "holdForReview org rid reasonCode heldAt s =
     and_then (check (orElse (validateIdentity org rid) (first_error
       [(blank reasonCode \<or> 128 < length reasonCode, Thrown ''SIGNER_REVIEW_REASON_INVALID''),
        (bad_time heldAt, Thrown ''SIGNER_TIMESTAMP_INVALID'')]))) (\<lambda>_.
     and_then (sql_time heldAt) (\<lambda>t.
     update_reserved org rid
       (\<lambda>r. r\<lparr>az_status := Auth_review, az_reasonCode := Some reasonCode, az_updatedAt := t\<rparr>) s))"

section \<open>Steps\<close>

datatype signer_op =
    OpReserve reservation_input
  | OpCompleteAuth string string string timestamp
  | OpReview string string string timestamp

fun signer_step :: "signer_op \<Rightarrow> signer_store \<Rightarrow> store_error + (signer_store \<times> signer_reservation option)" where
  "signer_step (OpReserve i) s = and_then (reserve i s) (\<lambda>(s', a). Inr (s', Some a))"
| "signer_step (OpCompleteAuth org rid signature t) s =
     and_then (complete_authorization org rid signature t s) (\<lambda>s'. Inr (s', None))"
| "signer_step (OpReview org rid code t) s = and_then (holdForReview org rid code t s) (\<lambda>s'. Inr (s', None))"

definition empty_signer :: signer_store where
  "empty_signer = \<lparr>sg_limits = [], sg_records = []\<rparr>"

lemma lower_char_idem: "lower_char (lower_char c) = lower_char c"
  by (auto simp: lower_char_def of_char_of)

lemma toLowerCase_idem: "toLowerCase (toLowerCase t) = toLowerCase t"
  by (simp add: toLowerCase_def lower_char_idem)

section \<open>The invariant\<close>

text \<open>
  What is reserved against an organization's limit is the sum of its authorizations, whatever became
  of them, and never more than the limit; no fingerprint and no nonce is used twice; a completed
  authorization has its signature.
\<close>

definition authorized_total :: "string \<Rightarrow> authorization_row list \<Rightarrow> int" where
  "authorized_total org rs = (\<Sum>r\<leftarrow>rs. if az_organizationId r = org then az_amountAtomic r else 0)"

definition same_payload :: "authorization_row \<Rightarrow> authorization_row \<Rightarrow> bool" where
  "same_payload r r' \<longleftrightarrow> az_organizationId r = az_organizationId r'
     \<and> (az_fingerprint r = az_fingerprint r' \<or> toLowerCase (az_nonce r) = toLowerCase (az_nonce r'))"

definition authorization_ok :: "authorization_row \<Rightarrow> bool" where
  "authorization_ok r \<longleftrightarrow> 0 < az_amountAtomic r
     \<and> (az_status r = Auth_completed \<longrightarrow> truthy (az_signature r) \<noteq> None)"

definition signer_inv :: "signer_store \<Rightarrow> bool" where
  "signer_inv s \<longleftrightarrow>
     tbl_wf li_organizationId (sg_limits s) \<and> tbl_wf authorization_key (sg_records s)
     \<and> (\<forall>l \<in> set (sg_limits s). li_reservedAtomic l = authorized_total (li_organizationId l) (sg_records s)
          \<and> li_reservedAtomic l \<le> li_maximumTotalAtomic l)
     \<and> (\<forall>r \<in> set (sg_records s). authorization_ok r \<and> az_organizationId r \<in> li_organizationId ` set (sg_limits s))
     \<and> pairwise (\<lambda>r r'. \<not> same_payload r r') (set (sg_records s))"

declare signer_inv_def [wf_defs]

lemma ensure_limit_cases:
  "ensure_limit i now rows = rows \<and> rv_organizationId i \<in> li_organizationId ` set rows
   \<or> rv_organizationId i \<notin> li_organizationId ` set rows \<and> ensure_limit i now rows = rows @
      [\<lparr>li_organizationId = rv_organizationId i, li_maximumTotalAtomic = rv_maximumTotalAtomic i,
        li_reservedAtomic = 0, li_createdAt = now, li_updatedAt = now\<rparr>]"
  by (auto simp: ensure_limit_def tbl_insert_def tbl_find_None_iff image_iff dest: tbl_find_SomeD split: option.splits)

lemma authorized_total_absent:
  "org \<notin> az_organizationId ` set rs \<Longrightarrow> authorized_total org rs = 0"
  unfolding authorized_total_def by (induction rs) auto

lemma authorized_total_update:
  assumes "\<And>r. authorization_key (f r) = authorization_key r \<and> az_amountAtomic (f r) = az_amountAtomic r"
  shows "authorized_total org (tbl_update authorization_key k f rs) = authorized_total org rs"
proof -
  have "az_organizationId (f r) = az_organizationId r" "az_amountAtomic (f r) = az_amountAtomic r" for r
    using assms [of r] by (auto simp: authorization_key_def)
  then show ?thesis
    unfolding authorized_total_def tbl_update_def by (induction rs) auto
qed

text \<open>The limit row that a reservation finds or creates keeps the invariant.\<close>

lemma ensure_limit_inv:
  assumes inv: "signer_inv s" and pos: "0 < rv_maximumTotalAtomic i"
  shows "signer_inv (s\<lparr>sg_limits := ensure_limit i now (sg_limits s)\<rparr>)"
proof (cases "rv_organizationId i \<in> li_organizationId ` set (sg_limits s)")
  case True
  with ensure_limit_cases [of i now "sg_limits s"] inv show ?thesis by auto
next
  case False
  with inv have "rv_organizationId i \<notin> az_organizationId ` set (sg_records s)" by (auto simp: signer_inv_def)
  then have "authorized_total (rv_organizationId i) (sg_records s) = 0" by (rule authorized_total_absent)
  with False ensure_limit_cases [of i now "sg_limits s"] inv pos show ?thesis
    by (auto simp: signer_inv_def tbl_wf_def)
qed

section \<open>The steps keep it\<close>

lemma validateReservation_None:
  "validateReservation i = None \<Longrightarrow> 0 < rv_amountAtomic i \<and> 0 < rv_maximumTotalAtomic i"
  by (auto simp: validateReservation_def orElse_def first_error_None_simps simp del: first_error.simps
      split: option.splits)

lemma reserve_Inr:
  assumes "reserve i s = Inr (s', a)"
  obtains now where "0 < rv_amountAtomic i" "0 < rv_maximumTotalAtomic i" "a \<noteq> SignerReserved"
    "s' = s\<lparr>sg_limits := ensure_limit i now (sg_limits s)\<rparr>"
  | now l where "0 < rv_amountAtomic i" "0 < rv_maximumTotalAtomic i" "a = SignerReserved"
    "tbl_find li_organizationId (rv_organizationId i) (ensure_limit i now (sg_limits s)) = Some l"
    "li_maximumTotalAtomic l = rv_maximumTotalAtomic i"
    "li_reservedAtomic l + rv_amountAtomic i \<le> li_maximumTotalAtomic l"
    "(rv_organizationId i, rv_requestId i) \<notin> authorization_key ` set (sg_records s)"
    "\<forall>r \<in> set (sg_records s). \<not> equivalent i r"
    "s' = \<lparr>sg_limits = tbl_update li_organizationId (rv_organizationId i)
        (\<lambda>x. x\<lparr>li_reservedAtomic := li_reservedAtomic x + rv_amountAtomic i, li_updatedAt := now\<rparr>)
        (ensure_limit i now (sg_limits s)), sg_records = sg_records s @ [new_authorization i now]\<rparr>"
proof -
  from assms obtain now where v: "validateReservation i = None" and now: "sql_time (rv_now i) = Inr now"
    by (auto simp: reserve_def and_then_Inr_iff)
  from assms v now obtain l where l:
    "tbl_find li_organizationId (rv_organizationId i) (ensure_limit i now (sg_limits s)) = Some l"
    by (auto simp: reserve_def Let_def check_def split: option.splits)
  from assms v now l have m: "li_maximumTotalAtomic l = rv_maximumTotalAtomic i"
    by (auto simp: reserve_def Let_def check_def split: if_splits)
  have stored: "stored_answer r \<noteq> Inr SignerReserved" for r
    by (auto simp: stored_answer_def split: auth_status.splits option.splits)
  note pos = validateReservation_None [OF v]
  show ?thesis
  proof (cases "tbl_find authorization_key (rv_organizationId i, rv_requestId i) (sg_records s)")
    case (Some r)
    with assms v now l m stored [of r] pos show ?thesis
      by (intro that(1) [of now]) (auto simp: reserve_def Let_def check_def and_then_Inr_iff split: if_splits)
  next
    case None
    then have new: "(rv_organizationId i, rv_requestId i) \<notin> authorization_key ` set (sg_records s)"
      by (simp add: tbl_find_None_iff)
    show ?thesis
    proof (cases "List.find (equivalent i) (sg_records s)")
      case (Some r)
      with None assms v now l m stored [of r] pos show ?thesis
        by (intro that(1) [of now]) (auto simp: reserve_def Let_def check_def and_then_Inr_iff split: if_splits)
    next
      case none: None
      with None assms v now l m have r: "reserve_new i now l (ensure_limit i now (sg_limits s)) s = Inr (s', a)"
        by (simp add: reserve_def Let_def check_def)
      show ?thesis
      proof (cases "rv_maximumTotalAtomic i < li_reservedAtomic l + rv_amountAtomic i")
        case True
        with r pos show ?thesis by (intro that(1) [of now]) (auto simp: reserve_new_def)
      next
        case False
        with r pos l m new none show ?thesis
          by (intro that(2) [of now l])
            (auto simp: reserve_new_def and_then_Inr_iff insert_row_Inr tbl_insert_Some find_None_iff)
      qed
    qed
  qed
qed

lemma reserve_inv:
  assumes inv: "signer_inv s" and res: "reserve i s = Inr (s', a)"
  shows "signer_inv s'"
  using res
proof (cases rule: reserve_Inr)
  case 1
  with ensure_limit_inv [OF inv] show ?thesis by simp
next
  case (2 now l)
  let ?ls = "ensure_limit i now (sg_limits s)" and ?r = "new_authorization i now"
  let ?f = "\<lambda>x. x\<lparr>li_reservedAtomic := li_reservedAtomic x + rv_amountAtomic i, li_updatedAt := now\<rparr>"
  let ?o = "rv_organizationId i"
  from ensure_limit_inv [OF inv 2(2), of now] have inv': "signer_inv (s\<lparr>sg_limits := ?ls\<rparr>)" .
  then have wf: "tbl_wf li_organizationId ?ls" and ok: "\<forall>r \<in> set (sg_records s). authorization_ok r"
    and orgs: "\<forall>r \<in> set (sg_records s). az_organizationId r \<in> li_organizationId ` set ?ls"
    and sums: "\<forall>x \<in> set ?ls. li_reservedAtomic x = authorized_total (li_organizationId x) (sg_records s)
        \<and> li_reservedAtomic x \<le> li_maximumTotalAtomic x"
    and records: "tbl_wf authorization_key (sg_records s)"
    and pw: "pairwise (\<lambda>r r'. \<not> same_payload r r') (set (sg_records s))" by (auto simp: signer_inv_def)
  have keys: "li_organizationId ` set (tbl_update li_organizationId ?o ?f ?ls) = li_organizationId ` set ?ls"
    using arg_cong [OF map_key_update [of li_organizationId ?f ?o ?ls], of set] by simp
  have l: "l \<in> set ?ls" "li_organizationId l = ?o" using tbl_find_SomeD [OF 2(4)] by auto
  have total: "authorized_total org (sg_records s @ [?r]) =
      authorized_total org (sg_records s) + (if org = ?o then rv_amountAtomic i else 0)" for org
    by (simp add: authorized_total_def new_authorization_def)
  have "li_reservedAtomic y = authorized_total (li_organizationId y) (sg_records s @ [?r])
      \<and> li_reservedAtomic y \<le> li_maximumTotalAtomic y"
    if y: "y \<in> set (tbl_update li_organizationId ?o ?f ?ls)" for y
  proof -
    from y obtain x where x: "x \<in> set ?ls" "y = (if li_organizationId x = ?o then ?f x else x)"
      by (auto simp: tbl_update_def)
    show ?thesis
    proof (cases "li_organizationId x = ?o")
      case True
      then have "x = l" using limit_table.member_unique [OF wf x(1) l(1)] l(2) by simp
      with True x(2) sums l(1) 2(6) show ?thesis by (auto simp: total)
    qed (use x sums in \<open>auto simp: total\<close>)
  qed
  then have "\<forall>y \<in> set (tbl_update li_organizationId ?o ?f ?ls).
      li_reservedAtomic y = authorized_total (li_organizationId y) (sg_records s @ [?r])
      \<and> li_reservedAtomic y \<le> li_maximumTotalAtomic y" by blast
  moreover have "tbl_wf li_organizationId (tbl_update li_organizationId ?o ?f ?ls)"
    by (rule tbl_wf_update [OF _ wf]) simp
  moreover have "tbl_wf authorization_key (sg_records s @ [?r])"
    using records 2(7) by (simp add: tbl_wf_def new_authorization_def authorization_key_def image_iff)
  moreover have "authorization_ok ?r" using 2(1) by (simp add: authorization_ok_def new_authorization_def)
  moreover have "az_organizationId ?r \<in> li_organizationId ` set ?ls"
    using l by (force simp: new_authorization_def)
  moreover have "pairwise (\<lambda>r r'. \<not> same_payload r r') (set (sg_records s @ [?r]))"
    using pw 2(8) by (auto simp: pairwise_insert same_payload_def equivalent_def new_authorization_def
        toLowerCase_idem)
  ultimately show ?thesis using ok orgs unfolding signer_inv_def 2(9) by (auto simp: keys)
qed

lemma update_reserved_inv:
  assumes inv: "signer_inv s" and u: "update_reserved org rid f s = Inr s'"
    and same: "\<And>r. authorization_key (f r) = authorization_key r \<and> az_amountAtomic (f r) = az_amountAtomic r
      \<and> az_fingerprint (f r) = az_fingerprint r \<and> az_nonce (f r) = az_nonce r"
    and ok: "\<And>r. authorization_ok r \<Longrightarrow> authorization_ok (f r)"
  shows "signer_inv s'"
proof -
  from u have s': "s' = s\<lparr>sg_records := tbl_update authorization_key (org, rid) f (sg_records s)\<rparr>"
    by (auto simp: update_reserved_def split: option.splits if_splits)
  have org: "az_organizationId (f r) = az_organizationId r" for r
    using same [of r] by (simp add: authorization_key_def)
  have pay: "same_payload (f r) x = same_payload r x" "same_payload x (f r) = same_payload x r" for r x
    using same [of r] org by (simp_all add: same_payload_def)
  have total: "authorized_total o' (sg_records s') = authorized_total o' (sg_records s)" for o'
    unfolding s' using authorized_total_update [of f] same by simp
  have rows: "\<exists>x \<in> set (sg_records s). y = f x \<or> y = x" if "y \<in> set (sg_records s')" for y
    using that by (auto simp: s' tbl_update_def)
  have wf: "tbl_wf authorization_key (sg_records s')"
    unfolding s' using inv same by (auto simp: signer_inv_def intro: tbl_wf_update)
  have "pairwise (\<lambda>r r'. \<not> same_payload r r') (set (sg_records s'))"
    using inv unfolding signer_inv_def pairwise_def s'
    by (fastforce simp: tbl_update_def pay split: if_splits)
  then show ?thesis
    using inv wf rows total ok org by (fastforce simp: signer_inv_def s')
qed

lemma complete_authorization_Inr:
  assumes "complete_authorization org rid sig t s = Inr s'"
  obtains u where "hex_text 130 sig" "update_reserved org rid (\<lambda>r. r\<lparr>az_status := Auth_completed,
      az_signature := Some sig, az_reasonCode := None, az_updatedAt := u\<rparr>) s = Inr s'"
  using assms by (auto simp: complete_authorization_def and_then_Inr_iff orElse_def first_error_None_simps
      simp del: first_error.simps split: option.splits)

lemma holdForReview_Inr:
  assumes "holdForReview org rid code t s = Inr s'"
  obtains u where "update_reserved org rid (\<lambda>r. r\<lparr>az_status := Auth_review, az_reasonCode := Some code,
      az_updatedAt := u\<rparr>) s = Inr s'"
  using assms by (auto simp: holdForReview_def and_then_Inr_iff)

lemma signer_step_inv:
  assumes inv: "signer_inv s" and step: "signer_step op s = Inr (s', a)"
  shows "signer_inv s'"
proof (cases op)
  case (OpReserve i)
  with step inv show ?thesis by (auto simp: and_then_Inr_iff intro: reserve_inv)
next
  case (OpCompleteAuth org rid sig t)
  with step have "complete_authorization org rid sig t s = Inr s'" by (auto simp: and_then_Inr_iff)
  then show ?thesis
  proof (rule complete_authorization_Inr)
    fix u assume h: "hex_text 130 sig" and u: "update_reserved org rid (\<lambda>r. r\<lparr>az_status := Auth_completed,
      az_signature := Some sig, az_reasonCode := None, az_updatedAt := u\<rparr>) s = Inr s'"
    from h have "truthy (Some sig) \<noteq> None" by (cases sig) (auto simp: hex_text_def)
    with inv u show ?thesis
      by (rule_tac update_reserved_inv [OF inv u]) (auto simp: authorization_key_def authorization_ok_def)
  qed
next
  case (OpReview org rid code t)
  with step have "holdForReview org rid code t s = Inr s'" by (auto simp: and_then_Inr_iff)
  then show ?thesis
    by (rule holdForReview_Inr)
      (rule update_reserved_inv [OF inv], assumption, auto simp: authorization_key_def authorization_ok_def)
qed

lemma empty_signer_inv: "signer_inv empty_signer"
  by (simp add: signer_inv_def empty_signer_def tbl_wf_def)

definition authority_limit :: "signer_store \<Rightarrow> string \<Rightarrow> int" where
  "authority_limit s org =
     (case tbl_find li_organizationId org (sg_limits s) of None \<Rightarrow> 0 | Some l \<Rightarrow> li_maximumTotalAtomic l)"

interpretation signer_authority: guarded_budget signer_step "\<lambda>_ _. True" signer_inv
    "\<lambda>s org. authorized_total org (sg_records s)" authority_limit
proof unfold_locales
  show "signer_inv s \<Longrightarrow> True \<Longrightarrow> signer_step op s = Inr (s', a) \<Longrightarrow> signer_inv s'" for s op s' a
    by (rule signer_step_inv)
next
  fix s org assume inv: "signer_inv s"
  show "authorized_total org (sg_records s) \<le> authority_limit s org"
  proof (cases "tbl_find li_organizationId org (sg_limits s)")
    case None
    with inv have "org \<notin> az_organizationId ` set (sg_records s)"
      by (auto simp: signer_inv_def tbl_find_None_iff)
    with None show ?thesis by (simp add: authority_limit_def authorized_total_absent)
  next
    case (Some l)
    with tbl_find_SomeD [OF Some] inv show ?thesis by (auto simp: signer_inv_def authority_limit_def)
  qed
qed

section \<open>What is never taken back\<close>

text \<open>How a step changes one authorization: it stays as it was unless it was reserved.\<close>

definition payload_of :: "authorization_row \<Rightarrow> string \<times> string \<times> string \<times> int" where
  "payload_of r = (az_callerId r, az_fingerprint r, az_nonce r, az_amountAtomic r)"

lemma find_new_authorization:
  "tbl_find authorization_key k rs = Some r \<Longrightarrow> tbl_find authorization_key k (rs @ ys) = Some r"
  by (simp add: tbl_find_append)

lemma update_reserved_find:
  assumes u: "update_reserved org rid f s = Inr s'" and f: "\<And>r. authorization_key (f r) = authorization_key r"
    and r: "tbl_find authorization_key k (sg_records s) = Some r"
  shows "tbl_find authorization_key k (sg_records s') = Some (if k = (org, rid) then f r else r)"
    and "k = (org, rid) \<Longrightarrow> az_status r = Auth_reserved"
proof -
  from u have s': "s' = s\<lparr>sg_records := tbl_update authorization_key (org, rid) f (sg_records s)\<rparr>"
    by (auto simp: update_reserved_def split: option.splits if_splits)
  show "tbl_find authorization_key k (sg_records s') = Some (if k = (org, rid) then f r else r)"
    using r f by (auto simp: s' tbl_find_update)
  show "k = (org, rid) \<Longrightarrow> az_status r = Auth_reserved"
    using u r by (auto simp: update_reserved_def split: if_splits)
qed

lemma signer_step_find:
  assumes step: "signer_step op s = Inr (s', a)"
    and r: "tbl_find authorization_key k (sg_records s) = Some r"
  shows "\<exists>r'. tbl_find authorization_key k (sg_records s') = Some r' \<and> payload_of r' = payload_of r
    \<and> (az_status r \<noteq> Auth_reserved \<longrightarrow> r' = r)"
proof (cases op)
  case (OpReserve i)
  with step obtain b where res: "reserve i s = Inr (s', b)" by (auto simp: and_then_Inr_iff)
  show ?thesis using res r
    by (cases rule: reserve_Inr) (auto simp: find_new_authorization)
next
  case (OpCompleteAuth org rid sig t)
  with step have "complete_authorization org rid sig t s = Inr s'" by (auto simp: and_then_Inr_iff)
  then show ?thesis
  proof (rule complete_authorization_Inr)
    fix u assume u: "update_reserved org rid (\<lambda>r. r\<lparr>az_status := Auth_completed, az_signature := Some sig,
        az_reasonCode := None, az_updatedAt := u\<rparr>) s = Inr s'"
    from update_reserved_find [OF u _ r] show ?thesis
      by (auto simp: payload_of_def authorization_key_def split: if_splits)
  qed
next
  case (OpReview org rid code t)
  with step have "holdForReview org rid code t s = Inr s'" by (auto simp: and_then_Inr_iff)
  then show ?thesis
  proof (rule holdForReview_Inr)
    fix u assume u: "update_reserved org rid (\<lambda>r. r\<lparr>az_status := Auth_review, az_reasonCode := Some code,
        az_updatedAt := u\<rparr>) s = Inr s'"
    from update_reserved_find [OF u _ r] show ?thesis
      by (auto simp: payload_of_def authorization_key_def split: if_splits)
  qed
qed

interpretation signer_payloads: irrevocable signer_step
    "\<lambda>s (k, p). \<exists>r. tbl_find authorization_key k (sg_records s) = Some r \<and> payload_of r = p"
  by unfold_locales (auto dest: signer_step_find)

interpretation signer_outcomes: irrevocable signer_step
    "\<lambda>s (k, r). tbl_find authorization_key k (sg_records s) = Some r \<and> az_status r \<noteq> Auth_reserved"
  by unfold_locales (auto dest: signer_step_find)

lemma signer_step_limit:
  assumes step: "signer_step op s = Inr (s', a)"
    and l: "tbl_find li_organizationId org (sg_limits s) = Some l"
  shows "\<exists>l'. tbl_find li_organizationId org (sg_limits s') = Some l' \<and> li_maximumTotalAtomic l' = li_maximumTotalAtomic l"
proof (cases op)
  case (OpReserve i)
  with step obtain b where res: "reserve i s = Inr (s', b)" by (auto simp: and_then_Inr_iff)
  have keep: "tbl_find li_organizationId org (ensure_limit i now (sg_limits s)) = Some l" for now
    using ensure_limit_cases [of i now "sg_limits s"] l by (auto simp: tbl_find_append)
  show ?thesis using res
  proof (cases rule: reserve_Inr)
    case (2 now la)
    with keep [of now] show ?thesis
      by (cases "org = rv_organizationId i") (simp_all add: tbl_find_update)
  qed (simp add: keep)
qed (use step l in \<open>auto simp: and_then_Inr_iff update_reserved_def split: option.splits if_splits
    elim!: complete_authorization_Inr holdForReview_Inr\<close>)

text \<open>The limit of an organization is set by its first reservation.\<close>

interpretation signer_limits: irrevocable signer_step
    "\<lambda>s (org, n). \<exists>l. tbl_find li_organizationId org (sg_limits s) = Some l \<and> li_maximumTotalAtomic l = n"
  by unfold_locales (auto dest: signer_step_limit)

text \<open>A granted reservation: there was no authorization of the request, and now there is.\<close>

lemma reserved_effect:
  assumes "reserve i s = Inr (s', SignerReserved)"
  shows "tbl_find authorization_key (rv_organizationId i, rv_requestId i) (sg_records s) = None"
    and "\<exists>now. tbl_find authorization_key (rv_organizationId i, rv_requestId i) (sg_records s')
      = Some (new_authorization i now)"
    and "\<exists>l. tbl_find li_organizationId (rv_organizationId i) (sg_limits s') = Some l
      \<and> li_maximumTotalAtomic l = rv_maximumTotalAtomic i"
proof -
  from assms obtain now l where r: "(rv_organizationId i, rv_requestId i) \<notin> authorization_key ` set (sg_records s)"
    and l: "tbl_find li_organizationId (rv_organizationId i) (ensure_limit i now (sg_limits s)) = Some l"
      "li_maximumTotalAtomic l = rv_maximumTotalAtomic i"
    and s': "s' = \<lparr>sg_limits = tbl_update li_organizationId (rv_organizationId i)
        (\<lambda>x. x\<lparr>li_reservedAtomic := li_reservedAtomic x + rv_amountAtomic i, li_updatedAt := now\<rparr>)
        (ensure_limit i now (sg_limits s)), sg_records = sg_records s @ [new_authorization i now]\<rparr>"
    by (cases rule: reserve_Inr) auto
  show n: "tbl_find authorization_key (rv_organizationId i, rv_requestId i) (sg_records s) = None"
    using r by (simp add: tbl_find_None_iff)
  show "\<exists>l. tbl_find li_organizationId (rv_organizationId i) (sg_limits s') = Some l
      \<and> li_maximumTotalAtomic l = rv_maximumTotalAtomic i"
    using l by (simp add: s' tbl_find_update)
  have "tbl_find authorization_key (rv_organizationId i, rv_requestId i) [new_authorization i now]
      = Some (new_authorization i now)"
    by (simp add: tbl_find_def authorization_key_def new_authorization_def)
  with n have "tbl_find authorization_key (rv_organizationId i, rv_requestId i) (sg_records s')
      = Some (new_authorization i now)"
    by (simp add: s' tbl_find_append)
  then show "\<exists>now. tbl_find authorization_key (rv_organizationId i, rv_requestId i) (sg_records s')
      = Some (new_authorization i now)" ..
qed

end
