(* ===== verification/SignerApp.thy ===== *)
theory SignerApp
  imports SignerStore
begin

text \<open>
  \<open>src/src/signer/app.ts\<close>: the HTTP boundary in front of the wallet. Handling one \<open>POST /v1/sign\<close>
  awaits the store, the wallet and the store again, so a request is a machine of phases, and any number
  of requests interleave. Parameters: SHA-256, and of viem \<open>recoverTypedDataAddress\<close> and
  \<open>getAddress\<close> (None is a throw). The wallet is any reply.
\<close>

section \<open>Requests\<close>

record typed_domain =
  td_name :: string
  td_version :: string
  td_chainId :: int
  td_verifyingContract :: string

record typed_message =
  tm_from :: string
  tm_to :: string
  tm_value :: string
  tm_validAfter :: string
  tm_validBefore :: string
  tm_nonce :: string

record typed_data =
  ty_domain :: typed_domain
  ty_types :: "(string \<times> (string \<times> string) list) list"
  ty_primaryType :: string
  ty_message :: typed_message

record sign_request =
  sq_organizationId :: string
  sq_requestId :: string
  sq_amountAtomic :: string
  sq_typedData :: typed_data

record signer_config =
  sc_organizationId :: string
  sc_callerId :: string
  sc_authToken :: string
  sc_walletAddress :: string
  sc_gatewayWalletAddress :: string
  sc_allowedPayToAddress :: string
  sc_chainId :: int
  sc_blockchain :: string
  sc_custodyType :: string
  sc_walletState :: string
  sc_maximumAtomic :: int
  sc_maximumTotalAtomic :: int
  sc_signerAddress :: string

text \<open>The patterns and bounds of the request schema; a body of another shape is no request.\<close>

definition uint256_text :: "string \<Rightarrow> bool" where
  "uint256_text t \<longleftrightarrow> t \<noteq> [] \<and> list_all is_digit t \<and> (hd t = CHR ''0'' \<longrightarrow> t = ''0'') \<and> length t \<le> 78"

definition schema_ok :: "sign_request \<Rightarrow> bool" where
  "schema_ok q \<longleftrightarrow>
     (let t = sq_typedData q; d = ty_domain t; m = ty_message t in
      1 \<le> length (sq_organizationId q) \<and> length (sq_organizationId q) \<le> 128
      \<and> fingerprint_ok (sq_requestId q)
      \<and> uint256_text (sq_amountAtomic q) \<and> sq_amountAtomic q \<noteq> ''0''
      \<and> td_name d \<noteq> [] \<and> td_version d \<noteq> [] \<and> 0 < td_chainId d \<and> hex_text 40 (td_verifyingContract d)
      \<and> list_all (\<lambda>(_, fs). list_all (\<lambda>(n, ty). n \<noteq> [] \<and> ty \<noteq> []) fs) (ty_types t)
      \<and> ty_primaryType t \<noteq> []
      \<and> hex_text 40 (tm_from m) \<and> hex_text 40 (tm_to m) \<and> uint256_text (tm_value m)
      \<and> uint256_text (tm_validAfter m) \<and> uint256_text (tm_validBefore m) \<and> hex_text 64 (tm_nonce m))"

text \<open>The canonical text: object keys in the order of \<open>localeCompare\<close>, which ignores case first.\<close>

fun canonical_text :: "json \<Rightarrow> string" where
  "canonical_text (JArr xs) = ''['' @ comma_sep (map canonical_text xs) @ '']''"
| "canonical_text (JObj fs) = ''{'' @ comma_sep (map snd (sort_key fst
     (map (\<lambda>(k, v). (toLowerCase k, quote_string k @ '':'' @ canonical_text v)) fs))) @ ''}''"
| "canonical_text j = stringify j"

definition types_json :: "(string \<times> (string \<times> string) list) list \<Rightarrow> json" where
  "types_json ts = JObj (map (\<lambda>(n, fs). (n, JArr (map (\<lambda>(f, ty).
     JObj [(''name'', JStr f), (''type'', JStr ty)]) fs))) ts)"

definition typed_json :: "typed_data \<Rightarrow> json" where
  "typed_json t =
     (let d = ty_domain t; m = ty_message t in JObj
       [(''domain'', JObj [(''name'', JStr (td_name d)), (''version'', JStr (td_version d)),
          (''chainId'', JNum (td_chainId d)), (''verifyingContract'', JStr (td_verifyingContract d))]),
        (''types'', types_json (ty_types t)),
        (''primaryType'', JStr (ty_primaryType t)),
        (''message'', JObj [(''from'', JStr (tm_from m)), (''to'', JStr (tm_to m)),
          (''value'', JStr (tm_value m)), (''validAfter'', JStr (tm_validAfter m)),
          (''validBefore'', JStr (tm_validBefore m)), (''nonce'', JStr (tm_nonce m))])])"

definition payload_fingerprint :: "(string \<Rightarrow> string) \<Rightarrow> sign_request \<Rightarrow> string" where
  "payload_fingerprint sha q = sha (canonical_text (JObj
     [(''organizationId'', JStr (sq_organizationId q)), (''amountAtomic'', JStr (sq_amountAtomic q)),
      (''typedData'', typed_json (sq_typedData q))]))"

section \<open>Checks\<close>

definition authorized :: "string option \<Rightarrow> string \<Rightarrow> bool" where
  "authorized header expected \<longleftrightarrow>
     (case truthy header of
        None \<Rightarrow> False
      | Some h \<Rightarrow> take 7 h = ''Bearer '' \<and> drop 7 h = expected)"

definition check_signer_config :: "signer_config \<Rightarrow> store_error option" where
  "check_signer_config c = first_error
     [(blank (sc_organizationId c), Thrown ''SIGNER_ORGANIZATION_REQUIRED''),
      (blank (sc_callerId c) \<or> 128 < length (sc_callerId c), Thrown ''SIGNER_CALLER_INVALID''),
      (length (sc_authToken c) < 32, Thrown ''SIGNER_AUTH_TOKEN_INVALID''),
      (sc_chainId c \<noteq> 8453 \<or> sc_blockchain c \<noteq> ''BASE'' \<or> sc_custodyType c \<noteq> ''DEVELOPER''
         \<or> sc_walletState c \<noteq> ''LIVE'', Thrown ''SIGNER_WALLET_NOT_LIVE_BASE_DEVELOPER''),
      (sc_maximumAtomic c \<le> 0 \<or> sc_maximumTotalAtomic c < sc_maximumAtomic c, Thrown ''SIGNER_MAXIMUM_INVALID''),
      (toLowerCase (sc_signerAddress c) \<noteq> toLowerCase (sc_walletAddress c), Thrown ''SIGNER_WALLET_MISMATCH'')]"

definition transfer_types :: "(string \<times> string) list" where
  "transfer_types = [(''from'', ''address''), (''to'', ''address''), (''value'', ''uint256''),
     (''validAfter'', ''uint256''), (''validBefore'', ''uint256''), (''nonce'', ''bytes32'')]"

definition validTypedData :: "signer_config \<Rightarrow> int \<Rightarrow> sign_request \<Rightarrow> bool" where
  "validTypedData c now q \<longleftrightarrow>
     (let t = sq_typedData q; d = ty_domain t; m = ty_message t;
          validAfter = digits_val (tm_validAfter m); validBefore = digits_val (tm_validBefore m) in
      td_name d = ''GatewayWalletBatched'' \<and> td_version d = ''1'' \<and> td_chainId d = sc_chainId c
      \<and> toLowerCase (td_verifyingContract d) = toLowerCase (sc_gatewayWalletAddress c)
      \<and> ty_primaryType t = ''TransferWithAuthorization''
      \<and> ty_types t = [(''TransferWithAuthorization'', transfer_types)]
      \<and> toLowerCase (tm_from m) = toLowerCase (sc_walletAddress c)
      \<and> toLowerCase (tm_to m) = toLowerCase (sc_allowedPayToAddress c)
      \<and> tm_value m = sq_amountAtomic q
      \<and> now - 3600 \<le> validAfter \<and> validAfter \<le> now
      \<and> now < validBefore \<and> validBefore \<le> now + 8 * 24 * 60 * 60
      \<and> hex_text 64 (tm_nonce m))"

section \<open>One request\<close>

datatype http_answer =
  Refused nat string | Signed string string string string

datatype sign_phase =
    S_start "string option" "sign_request option"
  | S_signing sign_request
  | S_completing sign_request string
  | S_holding sign_request bool
  | S_answer http_answer

definition amount_of :: "sign_request \<Rightarrow> int" where
  "amount_of q = digits_val (sq_amountAtomic q)"

definition reservation_of ::
    "(string \<Rightarrow> string) \<Rightarrow> signer_config \<Rightarrow> timestamp \<Rightarrow> sign_request \<Rightarrow> reservation_input" where
  "reservation_of sha c now q =
     \<lparr>rv_organizationId = sc_organizationId c, rv_callerId = sc_callerId c, rv_requestId = sq_requestId q,
      rv_fingerprint = payload_fingerprint sha q, rv_nonce = tm_nonce (ty_message (sq_typedData q)),
      rv_amountAtomic = amount_of q, rv_maximumTotalAtomic = sc_maximumTotalAtomic c, rv_now = now\<rparr>"

definition recovered_wallet ::
    "(typed_data \<Rightarrow> string \<Rightarrow> string option) \<Rightarrow> (string \<Rightarrow> string option) \<Rightarrow> signer_config \<Rightarrow> sign_request \<Rightarrow> string
       \<Rightarrow> bool option" where
  "recovered_wallet recover getAddress c q signature =
     (case recover (sq_typedData q) signature of
        None \<Rightarrow> None
      | Some a \<Rightarrow>
          (case (getAddress a, getAddress (sc_walletAddress c)) of
             (Some x, Some y) \<Rightarrow> Some (x = y)
           | _ \<Rightarrow> None))"

definition signed_answer :: "signer_config \<Rightarrow> sign_request \<Rightarrow> string \<Rightarrow> http_answer" where
  "signed_answer c q signature = Signed (sc_organizationId c) (sq_requestId q) (sc_walletAddress c) signature"

definition refusal :: "signer_config \<Rightarrow> string option \<Rightarrow> sign_request option \<Rightarrow> int \<Rightarrow> http_answer + sign_request" where
  "refusal c header body nowSeconds =
     (if \<not> authorized header (sc_authToken c) then Inl (Refused 401 ''SIGNER_UNAUTHORIZED'')
      else case body of
        None \<Rightarrow> Inl (Refused 400 ''SIGNER_REQUEST_INVALID'')
      | Some q \<Rightarrow>
          if \<not> schema_ok q then Inl (Refused 400 ''SIGNER_REQUEST_INVALID'')
          else if sq_organizationId q \<noteq> sc_organizationId c then Inl (Refused 403 ''SIGNER_TENANT_FORBIDDEN'')
          else if sc_maximumAtomic c < amount_of q then Inl (Refused 403 ''SIGNER_AMOUNT_EXCEEDS_CAP'')
          else if \<not> validTypedData c nowSeconds q then Inl (Refused 400 ''SIGNER_TYPED_DATA_REJECTED'')
          else Inr q)"

definition sign_start ::
    "(string \<Rightarrow> string) \<Rightarrow> (typed_data \<Rightarrow> string \<Rightarrow> string option) \<Rightarrow> (string \<Rightarrow> string option) \<Rightarrow> signer_config
       \<Rightarrow> int \<Rightarrow> timestamp \<Rightarrow> string option \<Rightarrow> sign_request option \<Rightarrow> signer_store \<Rightarrow> signer_store \<times> sign_phase" where
  "sign_start sha recover getAddress c nowSeconds now header body s =
     (case refusal c header body nowSeconds of
        Inl a \<Rightarrow> (s, S_answer a)
      | Inr q \<Rightarrow>
          (case reserve (reservation_of sha c now q) s of
             Inl e \<Rightarrow>
               (s, S_answer
                 (if e = Thrown ''SIGNER_IDEMPOTENCY_CONFLICT'' then Refused 409 ''SIGNER_IDEMPOTENCY_CONFLICT''
                  else if e = Thrown ''SIGNER_NONCE_CONFLICT'' then Refused 409 ''SIGNER_NONCE_CONFLICT''
                  else Refused 500 ''SIGNER_AUTHORIZATION_FAILED''))
           | Inr (s', SignerCompleted signature) \<Rightarrow>
               (s', S_answer
                 (if recovered_wallet recover getAddress c q signature = Some True then signed_answer c q signature
                  else Refused 502 ''SIGNER_STORED_SIGNATURE_INVALID''))
           | Inr (s', SignerReserved) \<Rightarrow> (s', S_signing q)
           | Inr (s', SignerBudgetExceeded) \<Rightarrow> (s', S_answer (Refused 403 ''SIGNER_TOTAL_AUTHORITY_EXCEEDED''))
           | Inr (s', SignerReview) \<Rightarrow> (s', S_answer (Refused 409 ''SIGNER_AUTHORIZATION_REVIEW''))
           | Inr (s', SignerInProgress) \<Rightarrow> (s', S_answer (Refused 409 ''SIGNER_AUTHORIZATION_IN_PROGRESS''))))"

text \<open>The reply of the wallet: a signature, or the message of what the call throws.\<close>

definition wallet_reply ::
    "(typed_data \<Rightarrow> string \<Rightarrow> string option) \<Rightarrow> (string \<Rightarrow> string option) \<Rightarrow> signer_config \<Rightarrow> sign_request
       \<Rightarrow> string + string \<Rightarrow> sign_phase" where
  "wallet_reply recover getAddress c q reply =
     (case reply of
        Inl message \<Rightarrow> S_holding q (message = ''SIGNER_SIGNATURE_INVALID'')
      | Inr signature \<Rightarrow>
          (case recovered_wallet recover getAddress c q signature of
             None \<Rightarrow> S_holding q False
           | Some same \<Rightarrow> if same then S_completing q signature else S_holding q True))"

definition finish_signing ::
    "signer_config \<Rightarrow> timestamp \<Rightarrow> sign_request \<Rightarrow> string \<Rightarrow> signer_store \<Rightarrow> signer_store \<times> sign_phase" where
  "finish_signing c now q signature s =
     (case complete_authorization (sc_organizationId c) (sq_requestId q) signature now s of
        Inl e \<Rightarrow> (s, S_holding q (e = Thrown ''SIGNER_SIGNATURE_INVALID''))
      | Inr s' \<Rightarrow> (s', S_answer (signed_answer c q signature)))"

definition hold_signing ::
    "signer_config \<Rightarrow> timestamp \<Rightarrow> sign_request \<Rightarrow> bool \<Rightarrow> signer_store \<Rightarrow> signer_store \<times> sign_phase" where
  "hold_signing c now q invalid s =
     ((case holdForReview (sc_organizationId c) (sq_requestId q)
         (if invalid then ''SIGNER_SIGNATURE_INVALID'' else ''CIRCLE_SIGNING_OUTCOME_AMBIGUOUS'') now s of
         Inl e \<Rightarrow> s | Inr s' \<Rightarrow> s'),
      S_answer (if invalid then Refused 502 ''SIGNER_SIGNATURE_INVALID'' else Refused 503 ''SIGNER_UNAVAILABLE''))"

fun sign_step ::
    "(string \<Rightarrow> string) \<Rightarrow> (typed_data \<Rightarrow> string \<Rightarrow> string option) \<Rightarrow> (string \<Rightarrow> string option) \<Rightarrow> signer_config
       \<Rightarrow> int \<Rightarrow> timestamp \<Rightarrow> string + string \<Rightarrow> sign_phase \<Rightarrow> signer_store \<Rightarrow> signer_store \<times> sign_phase" where
  "sign_step sha recover getAddress c nowSeconds now reply (S_start header body) s =
     sign_start sha recover getAddress c nowSeconds now header body s"
| "sign_step sha recover getAddress c nowSeconds now reply (S_signing q) s =
     (s, wallet_reply recover getAddress c q reply)"
| "sign_step sha recover getAddress c nowSeconds now reply (S_completing q signature) s =
     finish_signing c now q signature s"
| "sign_step sha recover getAddress c nowSeconds now reply (S_holding q invalid) s = hold_signing c now q invalid s"
| "sign_step sha recover getAddress c nowSeconds now reply (S_answer a) s = (s, S_answer a)"

text \<open>\<open>GET /v1/status\<close> answers from the store.\<close>

definition status_answer :: "signer_config \<Rightarrow> string option \<Rightarrow> signer_store \<Rightarrow> http_answer + signer_status" where
  "status_answer c header s =
     (if \<not> authorized header (sc_authToken c) then Inl (Refused 401 ''SIGNER_UNAUTHORIZED'')
      else case getStatus (sc_organizationId c) s of
        Inl e \<Rightarrow> Inl (Refused 503 ''SIGNER_STATUS_UNAVAILABLE'')
      | Inr st \<Rightarrow> Inr (st\<lparr>ss_maximumTotalAtomic :=
          (if ss_maximumTotalAtomic st = 0 then sc_maximumTotalAtomic c else ss_maximumTotalAtomic st)\<rparr>))"

end
