(* ===== verification/SignerProperties.thy ===== *)
theory SignerProperties
  imports SignerApp
begin

text \<open>
  The signer boundary under any interleaving: requests arrive, advance by one await at a time, and other
  instances use the same tables between their steps. \<open>sw_signed\<close> logs what is handed to the wallet.
\<close>

section \<open>The boundary as a state machine\<close>

record signer_world =
  sw_store :: signer_store
  sw_requests :: "sign_phase list"
  sw_signed :: "sign_request list"

fun handed_over :: "sign_phase \<Rightarrow> sign_phase \<Rightarrow> sign_request list" where
  "handed_over (S_start header body) (S_signing q) = [q]"
| "handed_over p p' = []"

definition initial_signer_world :: signer_world where
  "initial_signer_world = \<lparr>sw_store = empty_signer, sw_requests = [], sw_signed = []\<rparr>"

inductive signer_reachable ::
    "(string \<Rightarrow> string) \<Rightarrow> (typed_data \<Rightarrow> string \<Rightarrow> string option) \<Rightarrow> (string \<Rightarrow> string option) \<Rightarrow> signer_config
       \<Rightarrow> signer_world \<Rightarrow> bool"
  for sha recover getAddress c where
  initial: "signer_reachable sha recover getAddress c initial_signer_world"
| arrive: "signer_reachable sha recover getAddress c w \<Longrightarrow>
    signer_reachable sha recover getAddress c (w\<lparr>sw_requests := sw_requests w @ [S_start header body]\<rparr>)"
| advance: "signer_reachable sha recover getAddress c w \<Longrightarrow> n < length (sw_requests w) \<Longrightarrow>
    sign_step sha recover getAddress c nowSeconds now reply (sw_requests w ! n) (sw_store w) = (s', p') \<Longrightarrow>
    signer_reachable sha recover getAddress c
      \<lparr>sw_store = s', sw_requests = (sw_requests w)[n := p'],
       sw_signed = sw_signed w @ handed_over (sw_requests w ! n) p'\<rparr>"
| other: "signer_reachable sha recover getAddress c w \<Longrightarrow>
    signer_reachable sha recover getAddress c (w\<lparr>sw_store := tx signer_step op (sw_store w)\<rparr>)"

section \<open>Store steps of a request\<close>

text \<open>A step of a request does to the store nothing, or one of its operations.\<close>

lemma sign_step_store:
  assumes "sign_step sha recover getAddress c nowSeconds now reply p s = (s', p')"
  shows "s' = s \<or> (\<exists>op. s' = tx signer_step op s)"
proof -
  have res: "\<exists>op. t = tx signer_step op s" if "reserve i s = Inr (t, a)" for i t a
    by (rule exI [of _ "OpReserve i"]) (simp add: tx_def that)
  have com: "\<exists>op. t = tx signer_step op s" if "complete_authorization org rid sig u s = Inr t" for org rid sig u t
    by (rule exI [of _ "OpCompleteAuth org rid sig u"]) (simp add: tx_def that)
  have hold: "\<exists>op. t = tx signer_step op s" if "holdForReview org rid code u s = Inr t" for org rid code u t
    by (rule exI [of _ "OpReview org rid code u"]) (simp add: tx_def that)
  show ?thesis
    using assms
    by (cases p) (auto simp: sign_start_def finish_signing_def hold_signing_def
        split: sum.splits signer_reservation.splits intro: res com hold)
qed

definition recorded :: "(string \<Rightarrow> string) \<Rightarrow> signer_config \<Rightarrow> sign_request \<Rightarrow> signer_store \<Rightarrow> bool" where
  "recorded sha c q s \<longleftrightarrow> (\<exists>r. tbl_find authorization_key (sc_organizationId c, sq_requestId q) (sg_records s) = Some r
     \<and> payload_of r = (sc_callerId c, payload_fingerprint sha q,
         toLowerCase (tm_nonce (ty_message (sq_typedData q))), amount_of q))"

definition limit_set :: "signer_config \<Rightarrow> signer_store \<Rightarrow> bool" where
  "limit_set c s \<longleftrightarrow> (\<exists>l. tbl_find li_organizationId (sc_organizationId c) (sg_limits s) = Some l
     \<and> li_maximumTotalAtomic l = sc_maximumTotalAtomic c)"

lemma recorded_tx: "recorded sha c q s \<Longrightarrow> recorded sha c q (tx signer_step op s)"
  using signer_payloads.tx_final [of s "((sc_organizationId c, sq_requestId q), (sc_callerId c,
    payload_fingerprint sha q, toLowerCase (tm_nonce (ty_message (sq_typedData q))), amount_of q))" op]
  by (simp add: recorded_def)

lemma limit_set_tx: "limit_set c s \<Longrightarrow> limit_set c (tx signer_step op s)"
  using signer_limits.tx_final [of s "(sc_organizationId c, sc_maximumTotalAtomic c)" op]
  by (simp add: limit_set_def)

lemma start_signing:
  assumes "sign_start sha recover getAddress c nowSeconds now header body s = (s', S_signing q)"
  shows "refusal c header body nowSeconds = Inr q" and "recorded sha c q s'" and "limit_set c s'"
    and "\<not> recorded sha c q' s \<or> sq_requestId q' \<noteq> sq_requestId q"
proof -
  from assms obtain q0 where q0: "refusal c header body nowSeconds = Inr q0"
    by (cases "refusal c header body nowSeconds") (simp_all add: sign_start_def)
  with assms obtain a where res: "reserve (reservation_of sha c now q0) s = Inr (s', a)"
    by (cases "reserve (reservation_of sha c now q0) s")
      (auto simp: sign_start_def split: signer_reservation.splits if_splits)
  with assms q0 have q: "q0 = q" and a: "a = SignerReserved"
    by (auto simp: sign_start_def split: signer_reservation.splits if_splits)
  from q0 q show "refusal c header body nowSeconds = Inr q" by simp
  note R = reserved_effect [OF res [unfolded a q]]
  from R(2) show "recorded sha c q s'"
    by (auto simp: recorded_def reservation_of_def new_authorization_def payload_of_def)
  from R(3) show "limit_set c s'" by (simp add: limit_set_def reservation_of_def)
  from R(1) show "\<not> recorded sha c q' s \<or> sq_requestId q' \<noteq> sq_requestId q"
    by (auto simp: recorded_def reservation_of_def)
qed

section \<open>The invariant of the boundary\<close>

definition boundary_ok :: "(string \<Rightarrow> string) \<Rightarrow> signer_config \<Rightarrow> signer_world \<Rightarrow> bool" where
  "boundary_ok sha c w \<longleftrightarrow> signer_inv (sw_store w)
     \<and> distinct (map sq_requestId (sw_signed w))
     \<and> (\<forall>q \<in> set (sw_signed w). recorded sha c q (sw_store w) \<and> limit_set c (sw_store w)
          \<and> (\<exists>header body now. refusal c header body now = Inr q))"

lemma handed_overD: "q \<in> set (handed_over p p') \<Longrightarrow> \<exists>header body. p = S_start header body \<and> p' = S_signing q"
  by (cases p; cases p') auto

lemma handed_over_cases: "handed_over p p' = [] \<or> (\<exists>q. handed_over p p' = [q])"
  by (cases p; cases p') auto

lemma reachable_ok: "signer_reachable sha recover getAddress c w \<Longrightarrow> boundary_ok sha c w"
proof (induction rule: signer_reachable.induct)
  case initial
  then show ?case by (simp add: boundary_ok_def initial_signer_world_def empty_signer_inv)
next
  case arrive
  then show ?case by (simp add: boundary_ok_def)
next
  case (other w op)
  then show ?case
    by (auto simp: boundary_ok_def recorded_tx limit_set_tx intro: signer_authority.tx_inv)
next
  case (advance w n nowSeconds now reply s' p')
  let ?p = "sw_requests w ! n"
  have keep: "signer_inv s'" "recorded sha c q (sw_store w) \<Longrightarrow> recorded sha c q s'"
    "limit_set c (sw_store w) \<Longrightarrow> limit_set c s'" for q
    using sign_step_store [OF advance.hyps(3)] advance.IH
    by (auto simp: boundary_ok_def recorded_tx limit_set_tx intro: signer_authority.tx_inv)
  show ?case
  proof (cases "handed_over ?p p'")
    case Nil
    with advance.IH keep show ?thesis by (auto simp: boundary_ok_def)
  next
    case (Cons q qs)
    then have h: "handed_over ?p p' = [q]" using handed_over_cases [of ?p p'] by auto
    then obtain header body where p: "?p = S_start header body" "p' = S_signing q"
      using handed_overD [of q ?p p'] by auto
    with advance.hyps(3) have st: "sign_start sha recover getAddress c nowSeconds now header body (sw_store w)
        = (s', S_signing q)" by simp
    note S = start_signing [OF st]
    from S(4) advance.IH have "sq_requestId q \<notin> sq_requestId ` set (sw_signed w)"
      by (force simp: boundary_ok_def)
    with advance.IH keep S(1-3) h show ?thesis by (auto simp: boundary_ok_def)
  qed
qed

section \<open>Properties\<close>

text \<open>The rows of distinct requests are distinct rows, so their amounts sum up to at most the total.\<close>

lemma recorded_sum:
  assumes wf: "tbl_wf authorization_key rs" and pos: "\<forall>r \<in> set rs. 0 < az_amountAtomic r"
    and d: "distinct (map kf xs)"
    and f: "\<And>x. x \<in> set xs \<Longrightarrow> \<exists>r. tbl_find authorization_key (org, kf x) rs = Some r \<and> az_amountAtomic r = g x"
  shows "(\<Sum>x\<leftarrow>xs. g x) \<le> authorized_total org rs"
proof -
  let ?R = "{r \<in> set rs. az_organizationId r = org}"
  define row where "row x = the (tbl_find authorization_key (org, kf x) rs)" for x
  have row: "row x \<in> ?R \<and> az_requestId (row x) = kf x \<and> az_amountAtomic (row x) = g x" if "x \<in> set xs" for x
  proof -
    from f [OF that] obtain r where "tbl_find authorization_key (org, kf x) rs = Some r" "az_amountAtomic r = g x"
      by blast
    then show ?thesis using tbl_find_SomeD [of authorization_key "(org, kf x)" rs r]
      by (simp add: row_def authorization_key_def)
  qed
  have inj: "inj_on row (set xs)"
    using d row unfolding inj_on_def distinct_map by metis
  have "(\<Sum>x\<leftarrow>xs. g x) = (\<Sum>x\<in>set xs. g x)" using d by (simp add: sum_list_distinct_conv_sum_set distinct_map)
  also have "\<dots> = (\<Sum>x\<in>set xs. az_amountAtomic (row x))" by (rule sum.cong) (use row in auto)
  also have "\<dots> = (\<Sum>r\<in>row ` set xs. az_amountAtomic r)" by (simp add: sum.reindex [OF inj])
  also have "\<dots> \<le> (\<Sum>r\<in>?R. az_amountAtomic r)"
    by (rule sum_mono2) (use pos row in \<open>auto intro: less_imp_le\<close>)
  also have "\<dots> = (\<Sum>r\<in>set rs. if az_organizationId r = org then az_amountAtomic r else 0)"
    by (simp add: sum.inter_filter)
  also have "\<dots> = authorized_total org rs"
    using wf by (simp add: authorized_total_def tbl_wf_def distinct_map sum_list_distinct_conv_sum_set)
  finally show ?thesis .
qed

text \<open>
  C17: however requests interleave, the amounts handed to the wallet for signing sum up to at most the
  configured total authority, and no request is handed over twice.
\<close>

theorem signed_within_authority:
  assumes "signer_reachable sha recover getAddress c w" and "0 \<le> sc_maximumTotalAtomic c"
  shows "(\<Sum>q\<leftarrow>sw_signed w. amount_of q) \<le> sc_maximumTotalAtomic c \<and> distinct (map sq_requestId (sw_signed w))"
proof
  have ok: "boundary_ok sha c w" by (rule reachable_ok [OF assms(1)])
  then show d: "distinct (map sq_requestId (sw_signed w))" by (simp add: boundary_ok_def)
  have inv: "signer_inv (sw_store w)" using ok by (simp add: boundary_ok_def)
  show "(\<Sum>q\<leftarrow>sw_signed w. amount_of q) \<le> sc_maximumTotalAtomic c"
  proof (cases "sw_signed w = []")
    case True
    with assms(2) show ?thesis by simp
  next
    case False
    then have "limit_set c (sw_store w)" using ok by (cases "sw_signed w") (auto simp: boundary_ok_def)
    then have "authority_limit (sw_store w) (sc_organizationId c) = sc_maximumTotalAtomic c"
      by (auto simp: limit_set_def authority_limit_def)
    moreover have "(\<Sum>q\<leftarrow>sw_signed w. amount_of q) \<le> authorized_total (sc_organizationId c) (sg_records (sw_store w))"
      by (rule recorded_sum [OF _ _ d])
        (use inv ok in \<open>auto simp: signer_inv_def authorization_ok_def boundary_ok_def recorded_def payload_of_def\<close>)
    ultimately show ?thesis using signer_authority.inv_bound [OF inv, of "sc_organizationId c"] by simp
  qed
qed

text \<open>
  C18: what reaches the wallet is a transfer from the configured wallet to the allowed payee of exactly
  the stated amount, within the cap of one call, on the configured chain and contract, and with a
  validity window around the time of the request; no nonce reaches it twice.
\<close>

theorem signed_only_allowed_transfers:
  assumes "signer_reachable sha recover getAddress c w" and "q \<in> set (sw_signed w)"
  shows "\<exists>now. sq_organizationId q = sc_organizationId c \<and> amount_of q \<le> sc_maximumAtomic c
    \<and> tm_value (ty_message (sq_typedData q)) = sq_amountAtomic q
    \<and> toLowerCase (tm_from (ty_message (sq_typedData q))) = toLowerCase (sc_walletAddress c)
    \<and> toLowerCase (tm_to (ty_message (sq_typedData q))) = toLowerCase (sc_allowedPayToAddress c)
    \<and> td_chainId (ty_domain (sq_typedData q)) = sc_chainId c
    \<and> digits_val (tm_validAfter (ty_message (sq_typedData q))) \<le> now
    \<and> now < digits_val (tm_validBefore (ty_message (sq_typedData q)))
    \<and> (\<forall>q' \<in> set (sw_signed w). toLowerCase (tm_nonce (ty_message (sq_typedData q')))
          = toLowerCase (tm_nonce (ty_message (sq_typedData q))) \<longrightarrow> q' = q)"
proof -
  have ok: "boundary_ok sha c w" by (rule reachable_ok [OF assms(1)])
  with assms(2) obtain header body now where r: "refusal c header body now = Inr q"
    and rec: "recorded sha c q (sw_store w)" by (auto simp: boundary_ok_def)
  have unique: "q' = q" if q': "q' \<in> set (sw_signed w)" and n: "toLowerCase (tm_nonce (ty_message (sq_typedData q')))
      = toLowerCase (tm_nonce (ty_message (sq_typedData q)))" for q'
  proof -
    from ok q' have "recorded sha c q' (sw_store w)" by (simp add: boundary_ok_def)
    with rec obtain r r' where "r \<in> set (sg_records (sw_store w))" "r' \<in> set (sg_records (sw_store w))"
      "authorization_key r = (sc_organizationId c, sq_requestId q)"
      "authorization_key r' = (sc_organizationId c, sq_requestId q')" "az_nonce r = az_nonce r'"
      using n by (auto simp: recorded_def payload_of_def dest!: tbl_find_SomeD)
    moreover from ok have "pairwise (\<lambda>r r'. \<not> same_payload r r') (set (sg_records (sw_store w)))"
      by (simp add: boundary_ok_def signer_inv_def)
    ultimately have "r = r'" by (force simp: pairwise_def same_payload_def authorization_key_def)
    then have "sq_requestId q' = sq_requestId q"
      using \<open>authorization_key r = _\<close> \<open>authorization_key r' = _\<close> by simp
    with ok q' assms(2) show ?thesis by (auto simp: boundary_ok_def distinct_map inj_on_def)
  qed
  from r show ?thesis
    using unique by (intro exI [of _ now])
      (auto simp: refusal_def validTypedData_def Let_def split: if_splits option.splits)
qed

section \<open>An example\<close>

definition signer_hash :: "string \<Rightarrow> string" where
  "signer_hash s = replicate 64 CHR ''a''"

definition sample_address :: "char \<Rightarrow> string" where
  "sample_address x = ''0x'' @ replicate 40 x"

definition sample_signer :: signer_config where
  "sample_signer =
     \<lparr>sc_organizationId = ''o'', sc_callerId = ''fuse'', sc_authToken = replicate 32 CHR ''t'',
      sc_walletAddress = sample_address CHR ''1'', sc_gatewayWalletAddress = sample_address CHR ''2'',
      sc_allowedPayToAddress = sample_address CHR ''3'', sc_chainId = 8453, sc_blockchain = ''BASE'',
      sc_custodyType = ''DEVELOPER'', sc_walletState = ''LIVE'', sc_maximumAtomic = 10,
      sc_maximumTotalAtomic = 100, sc_signerAddress = sample_address CHR ''1''\<rparr>"

definition sample_transfer :: sign_request where
  "sample_transfer =
     \<lparr>sq_organizationId = ''o'', sq_requestId = replicate 64 CHR ''b'', sq_amountAtomic = ''5'',
      sq_typedData =
        \<lparr>ty_domain = \<lparr>td_name = ''GatewayWalletBatched'', td_version = ''1'', td_chainId = 8453,
           td_verifyingContract = sample_address CHR ''2''\<rparr>,
         ty_types = [(''TransferWithAuthorization'', transfer_types)],
         ty_primaryType = ''TransferWithAuthorization'',
         ty_message = \<lparr>tm_from = sample_address CHR ''1'', tm_to = sample_address CHR ''3'', tm_value = ''5'',
           tm_validAfter = ''999000'', tm_validBefore = ''1000100'',
           tm_nonce = ''0x'' @ replicate 64 CHR ''c''\<rparr>\<rparr>\<rparr>"

definition sample_header :: "string option" where
  "sample_header = Some (''Bearer '' @ replicate 32 CHR ''t'')"

definition sample_reservation :: reservation_input where
  "sample_reservation =
     \<lparr>rv_organizationId = ''o'', rv_callerId = ''fuse'', rv_requestId = replicate 64 CHR ''b'',
      rv_fingerprint = replicate 64 CHR ''a'', rv_nonce = ''0x'' @ replicate 64 CHR ''c'',
      rv_amountAtomic = 5, rv_maximumTotalAtomic = 100, rv_now = Instant 1000000000\<rparr>"

lemma sample_config_ok: "check_signer_config sample_signer = None"
  by code_simp

lemma sample_passes: "refusal sample_signer sample_header (Some sample_transfer) 1000000 = Inr sample_transfer"
  by code_simp

lemma sample_amount: "amount_of sample_transfer = 5"
  by code_simp

lemma sample_reservation_of:
  "reservation_of signer_hash sample_signer (Instant 1000000000) sample_transfer = sample_reservation"
  by (simp add: reservation_of_def sample_amount)
    (simp add: sample_signer_def sample_transfer_def sample_reservation_def payload_fingerprint_def signer_hash_def)

lemma sample_reserves:
  "case reserve sample_reservation empty_signer of Inr (s', SignerReserved) \<Rightarrow> True | _ \<Rightarrow> False"
  by code_simp

lemma sample_boundary:
  "\<exists>w. signer_reachable signer_hash recover getAddress sample_signer w \<and> sw_signed w = [sample_transfer]"
proof -
  obtain s' where "reserve sample_reservation empty_signer = Inr (s', SignerReserved)"
    using sample_reserves by (cases "reserve sample_reservation empty_signer") (auto split: signer_reservation.splits)
  then have st: "sign_step signer_hash recover getAddress sample_signer 1000000 (Instant 1000000000) (Inl [])
      (S_start sample_header (Some sample_transfer)) empty_signer = (s', S_signing sample_transfer)"
    by (simp add: sign_start_def sample_passes sample_reservation_of)
  let ?w = "initial_signer_world\<lparr>sw_requests := [S_start sample_header (Some sample_transfer)]\<rparr>"
  have "signer_reachable signer_hash recover getAddress sample_signer ?w"
    using arrive [OF initial, of signer_hash recover getAddress sample_signer sample_header "Some sample_transfer"]
    by (simp add: initial_signer_world_def)
  from advance [OF this, of 0] st
  have "signer_reachable signer_hash recover getAddress sample_signer
      \<lparr>sw_store = s', sw_requests = [S_signing sample_transfer], sw_signed = [sample_transfer]\<rparr>"
    by (force simp: initial_signer_world_def)
  then show ?thesis by (intro exI conjI) auto
qed

theorem signed_within_authority_witness:
  "\<exists>w :: signer_world. sw_signed w = [sample_transfer] \<and> (\<Sum>q\<leftarrow>sw_signed w. amount_of q) \<le> 100
    \<and> distinct (map sq_requestId (sw_signed w))"
proof -
  obtain w where w: "signer_reachable signer_hash (\<lambda>_ _. None) (\<lambda>_. None) sample_signer w"
    "sw_signed w = [sample_transfer]" using sample_boundary by blast
  from signed_within_authority [OF w(1)] w(2) show ?thesis
    by (intro exI [of _ w]) (simp add: sample_signer_def)
qed

theorem signed_only_allowed_transfers_witness:
  "\<exists>(w :: signer_world) now. sw_signed w = [sample_transfer] \<and> amount_of sample_transfer \<le> 10
    \<and> now < digits_val (tm_validBefore (ty_message (sq_typedData sample_transfer)))"
proof -
  obtain w where w: "signer_reachable signer_hash (\<lambda>_ _. None) (\<lambda>_. None) sample_signer w"
    "sw_signed w = [sample_transfer]" using sample_boundary by blast
  from signed_only_allowed_transfers [OF w(1), of sample_transfer] w(2)
  obtain now where "amount_of sample_transfer \<le> 10"
    "now < digits_val (tm_validBefore (ty_message (sq_typedData sample_transfer)))"
    by (auto simp: sample_signer_def)
  with w(2) show ?thesis by blast
qed

end
