(* ===== verification/IdentityTables.thy ===== *)
theory IdentityTables
  imports PolicyAdmission
begin

text \<open>
  The tables of \<open>src/src/persistence/identityStore.ts\<close>, with the two tables its rows are joined with:
  the onboarding operations (\<open>src/src/product/workspaceOnboardingStore.ts\<close>), which hold the recovery
  code of a workspace, and the human sessions (\<open>src/src/http/humanSessions.ts\<close>). A TIMESTAMPTZ column
  is the instant in milliseconds, a JSONB column the value written to it. SHA-256 is the parameter
  \<open>sha\<close>; random identifiers and the clock are arguments.
\<close>

section \<open>Rows\<close>

datatype organization_role = Org_owner | Org_admin | Org_operator | Org_viewer

datatype invite_role = Invite_admin | Invite_operator | Invite_viewer

datatype credential_type = Agent_credential | Service_credential

record organization_row =
  og_id :: string
  og_name :: string
  og_createdAt :: int

record user_row =
  us_id :: string
  us_email :: string
  us_name :: string
  us_createdAt :: int
  us_disabledAt :: "int option"

record membership_row =
  mb_organizationId :: string
  mb_userId :: string
  mb_role :: organization_role
  mb_createdAt :: int
  mb_revokedAt :: "int option"

record invite_row =
  iv_id :: string
  iv_organizationId :: string
  iv_email :: string
  iv_name :: string
  iv_role :: invite_role
  iv_sourceCredentialId :: string
  iv_sourceCredentialType :: credential_type
  iv_tokenHash :: string
  iv_createdAt :: int
  iv_expiresAt :: int
  iv_userId :: "string option"
  iv_acceptedAt :: "int option"
  iv_revokedAt :: "int option"

record service_account_row =
  sa_id :: string
  sa_organizationId :: string
  sa_name :: string
  sa_role :: service_account_role
  sa_createdAt :: int
  sa_revokedAt :: "int option"

datatype agent_status = Agent_active | Agent_revoked

record agent_row =
  ag_id :: string
  ag_organizationId :: string
  ag_name :: string
  ag_status :: agent_status
  ag_createdAt :: int
  ag_revokedAt :: "int option"

text \<open>
  A row of \<open>api_credentials\<close>, whose owner is an agent, or of \<open>service_account_credentials\<close>, whose
  owner is a service account.
\<close>

record credential_row =
  cr_id :: string
  cr_organizationId :: string
  cr_ownerId :: string
  cr_name :: string
  cr_tokenPrefix :: string
  cr_tokenHash :: string
  cr_capabilities :: "capability_text list"
  cr_createdAt :: int
  cr_expiresAt :: "int option"
  cr_revokedAt :: "int option"

datatype onboarding_status = Onb_in_progress | Onb_completed | Onb_failed | Onb_rolled_back

text \<open>
  A row of \<open>fuse_workspace_onboarding_operations\<close>. \<open>op_identifiers\<close> is the JSONB object of string
  fields; \<open>op_result\<close> is \<open>result_json\<close>, \<open>op_resultExpiry\<close> the instant that its text
  \<open>credential.expiresAt\<close> denotes, and \<open>op_deliveryEnvelope\<close> the sealed result.
\<close>

record operation_row =
  op_idempotencyKey :: string
  op_fingerprint :: string
  op_recoveryCodeHash :: "string option"
  op_recoveryConsumedAt :: "int option"
  op_recoveryConsumedHash :: "string option"
  op_recoveryEnvelope :: "string option"
  op_recoveryDeliveryId :: "string option"
  op_identifiers :: "(string \<times> string) list"
  op_status :: onboarding_status
  op_result :: "json option"
  op_resultExpiry :: "timestamp option"
  op_deliveryEnvelope :: "string option"
  op_failureCode :: "string option"
  op_createdAt :: int
  op_updatedAt :: int
  op_completedAt :: "int option"

datatype human_role = Human_owner | Human_member | Human_viewer

record session_row =
  hs_id :: string
  hs_workspaceId :: string
  hs_userId :: string
  hs_sourceCredentialId :: string
  hs_sourceCredentialType :: credential_type
  hs_role :: human_role
  hs_tokenHash :: string
  hs_createdAt :: int
  hs_expiresAt :: int
  hs_revokedAt :: "int option"

record identity_db =
  db_organizations :: "organization_row list"
  db_users :: "user_row list"
  db_memberships :: "membership_row list"
  db_invites :: "invite_row list"
  db_serviceAccounts :: "service_account_row list"
  db_agents :: "agent_row list"
  db_serviceCredentials :: "credential_row list"
  db_agentCredentials :: "credential_row list"
  db_operations :: "operation_row list"
  db_sessions :: "session_row list"
  db_audit :: "audit_row list"

definition empty_db :: identity_db where
  "empty_db =
     \<lparr>db_organizations = [], db_users = [], db_memberships = [], db_invites = [],
      db_serviceAccounts = [], db_agents = [], db_serviceCredentials = [], db_agentCredentials = [],
      db_operations = [], db_sessions = [], db_audit = []\<rparr>"

section \<open>Keys\<close>

definition membership_key :: "membership_row \<Rightarrow> string \<times> string" where
  "membership_key r = (mb_organizationId r, mb_userId r)"

definition service_account_key :: "service_account_row \<Rightarrow> string \<times> string" where
  "service_account_key r = (sa_organizationId r, sa_id r)"

definition agent_key :: "agent_row \<Rightarrow> string \<times> string" where
  "agent_key r = (ag_organizationId r, ag_id r)"

definition credential_key :: "credential_row \<Rightarrow> string \<times> string" where
  "credential_key r = (cr_organizationId r, cr_id r)"

lemmas identity_keys = membership_key_def service_account_key_def agent_key_def credential_key_def

interpretation organization_table:
    keyed_table og_id "tbl_find og_id" "tbl_insert og_id" "tbl_update og_id" "tbl_wf og_id"
  by (rule keyed_table_tbl)

interpretation invite_table:
    keyed_table iv_id "tbl_find iv_id" "tbl_insert iv_id" "tbl_update iv_id" "tbl_wf iv_id"
  by (rule keyed_table_tbl)

interpretation credential_table:
    keyed_table credential_key "tbl_find credential_key" "tbl_insert credential_key"
      "tbl_update credential_key" "tbl_wf credential_key"
  by (rule keyed_table_tbl)

interpretation session_table:
    keyed_table hs_id "tbl_find hs_id" "tbl_insert hs_id" "tbl_update hs_id" "tbl_wf hs_id"
  by (rule keyed_table_tbl)

text \<open>A row with two unique constraints: the primary key and a second unique column.\<close>

definition insert_unique ::
    "string \<Rightarrow> ('r \<Rightarrow> 'k) \<Rightarrow> ('r \<Rightarrow> 'u) \<Rightarrow> 'r \<Rightarrow> 'r list \<Rightarrow> store_error + 'r list" where
  "insert_unique table key uniq r rows =
     (if uniq r \<in> uniq ` set rows then Inl (UniqueViolation table) else insert_row table key r rows)"

lemma insert_unique_Inr:
  "insert_unique t key uniq r rows = Inr rows' \<longleftrightarrow>
     uniq r \<notin> uniq ` set rows \<and> key r \<notin> key ` set rows \<and> rows' = rows @ [r]"
  by (auto simp: insert_unique_def insert_row_Inr tbl_insert_Some)

lemma insert_row_appends:
  "insert_row t key r rows = Inr rows' \<longleftrightarrow> key r \<notin> key ` set rows \<and> rows' = rows @ [r]"
  by (simp add: insert_row_Inr tbl_insert_Some)

lemma find_SomeD: "find P xs = Some x \<Longrightarrow> x \<in> set xs \<and> P x"
  by (auto simp: find_Some_iff)

section \<open>Texts\<close>

text \<open>The pattern \<open>/^[^\s@]+@[^\s@]+\.[^\s@]+$/\<close>.\<close>

definition email_char :: "char \<Rightarrow> bool" where
  "email_char c \<longleftrightarrow> \<not> js_space c \<and> c \<noteq> CHR ''@''"

definition email_ok :: "string \<Rightarrow> bool" where
  "email_ok e =
     (let l = takeWhile (\<lambda>c. c \<noteq> CHR ''@'') e; d = drop (Suc (length l)) e
      in l \<noteq> [] \<and> length l < length e \<and> list_all email_char l \<and> list_all email_char d
         \<and> list_ex (\<lambda>i. d ! i = CHR ''.'') [1..<length d - 1])"

definition url_char :: "char \<Rightarrow> bool" where
  "url_char c \<longleftrightarrow> is_digit c \<or> (97 \<le> (of_char c :: nat) \<and> (of_char c :: nat) \<le> 122)
     \<or> (65 \<le> (of_char c :: nat) \<and> (of_char c :: nat) \<le> 90) \<or> c = CHR ''_'' \<or> c = CHR ''-''"

text \<open>A fixed prefix followed by \<open>lo\<close> to \<open>hi\<close> characters of \<open>[A-Za-z0-9_-]\<close>.\<close>

definition prefixed_token :: "string \<Rightarrow> nat \<Rightarrow> nat \<Rightarrow> string \<Rightarrow> bool" where
  "prefixed_token p lo hi t \<longleftrightarrow> take (length p) t = p \<and> lo \<le> length (drop (length p) t)
     \<and> length (drop (length p) t) \<le> hi \<and> list_all url_char (drop (length p) t)"

definition organization_role_of :: "string \<Rightarrow> organization_role option" where
  "organization_role_of t =
     (if t = ''owner'' then Some Org_owner else if t = ''admin'' then Some Org_admin
      else if t = ''operator'' then Some Org_operator else if t = ''viewer'' then Some Org_viewer
      else None)"

definition invite_role_of :: "string \<Rightarrow> invite_role option" where
  "invite_role_of t =
     (if t = ''admin'' then Some Invite_admin else if t = ''operator'' then Some Invite_operator
      else if t = ''viewer'' then Some Invite_viewer else None)"

definition service_role_of :: "string \<Rightarrow> service_account_role option" where
  "service_role_of t =
     (if t = ''admin'' then Some Role_admin else if t = ''operator'' then Some Role_operator
      else if t = ''viewer'' then Some Role_viewer else None)"

fun invite_role_text :: "invite_role \<Rightarrow> string" where
  "invite_role_text Invite_admin = ''admin''"
| "invite_role_text Invite_operator = ''operator''"
| "invite_role_text Invite_viewer = ''viewer''"

fun membership_role :: "invite_role \<Rightarrow> organization_role" where
  "membership_role Invite_admin = Org_admin"
| "membership_role Invite_operator = Org_operator"
| "membership_role Invite_viewer = Org_viewer"

fun capability_string :: "capability_text \<Rightarrow> string" where
  "capability_string (UnknownCapability s) = s"
| "capability_string (Known c) = (case c of
      Inference_invoke \<Rightarrow> ''inference:invoke'' | Mandates_read \<Rightarrow> ''mandates:read''
    | Mandates_write \<Rightarrow> ''mandates:write'' | Receipts_read \<Rightarrow> ''receipts:read''
    | Credentials_issue \<Rightarrow> ''credentials:issue'' | Credentials_revoke \<Rightarrow> ''credentials:revoke''
    | Agents_write \<Rightarrow> ''agents:write'' | Policies_read \<Rightarrow> ''policies:read''
    | Policies_write \<Rightarrow> ''policies:write'' | Mandates_admin \<Rightarrow> ''mandates:admin''
    | Providers_read \<Rightarrow> ''providers:read'' | Providers_write \<Rightarrow> ''providers:write''
    | Sandbox_run \<Rightarrow> ''sandbox:run'')"

lemma invite_role_of_text [simp]: "invite_role_of (invite_role_text r) = Some r"
  by (cases r) (simp_all add: invite_role_of_def)

end
