(* ===== verification/IdentityStore.thy ===== *)
theory IdentityStore
  imports IdentityTables "HOL-Library.Product_Lexorder"
begin

text \<open>
  The class \<open>IdentityStore\<close> of \<open>src/src/persistence/identityStore.ts\<close>: organizations, users,
  workspace invites, service accounts, agents and their credentials. Every writing method is one
  transaction: checks, rows, audit event. Authentication reads the tables. The schema creation and its
  migrations are left out.
\<close>

section \<open>Checks\<close>

definition identityContext :: "mutation_context \<Rightarrow> store_error option" where
  "identityContext c = first_error
     [(blank (ctx_actorId c), Thrown ''IDENTITY_ACTOR_REQUIRED''),
      (blank (ctx_causationId c), Thrown ''IDENTITY_CAUSATION_REQUIRED''),
      (bad_time (ctx_occurredAt c), Thrown ''IDENTITY_OCCURRED_AT_INVALID'')]"

text \<open>\<open>validateCredentialMaterial\<close>; \<open>issueCredential\<close> makes the same checks in the same order.\<close>

definition credentialMaterial :: "string \<Rightarrow> credential_record \<Rightarrow> store_error option" where
  "credentialMaterial pre c = first_error
     [(\<not> prefixed_token ''fuse_sk_'' 12 12 (cred_tokenPrefix c), Thrown (pre @ ''_PREFIX_INVALID'')),
      (\<not> fingerprint_ok (cred_tokenHash c), Thrown (pre @ ''_HASH_INVALID'')),
      (bad_time (cred_createdAt c), Thrown (pre @ ''_CREATED_AT_INVALID'')),
      ((case cred_expiresAt c of None \<Rightarrow> False
        | Some t \<Rightarrow> bad_time t \<or> time_le t (cred_createdAt c)), Thrown (pre @ ''_EXPIRY_INVALID'')),
      (cred_revokedAt c \<noteq> None, Thrown (pre @ ''_ALREADY_REVOKED'')),
      (\<not> distinct (cred_capabilities c), Thrown (pre @ ''_CAPABILITY_DUPLICATE'')),
      (cred_capabilities c = [] \<or> list_ex (\<lambda>k. \<not> known_capability k) (cred_capabilities c),
       Thrown (pre @ ''_CAPABILITY_INVALID''))]"

definition appendIdentityAudit ::
    "string \<Rightarrow> string \<Rightarrow> string \<Rightarrow> string \<Rightarrow> json \<Rightarrow> mutation_context \<Rightarrow> identity_db
       \<Rightarrow> store_error + identity_db" where
  "appendIdentityAudit org entityType entityId action payload c d =
     and_then (sql_time (ctx_occurredAt c)) (\<lambda>now.
     Inr (d\<lparr>db_audit := db_audit d @
       [\<lparr>au_organizationId = org, au_entityType = entityType, au_entityId = entityId,
         au_action = action, au_actorId = ctx_actorId c, au_causationId = ctx_causationId c,
         au_occurredAt = now, au_payload = payload\<rparr>]\<rparr>))"

lemma appendIdentityAudit_Inr:
  "appendIdentityAudit org ty i act p c d = Inr d' \<Longrightarrow>
     \<exists>a. d' = d\<lparr>db_audit := db_audit d @ [a]\<rparr> \<and> au_organizationId a = org \<and> au_action a = act
       \<and> au_entityId a = i \<and> au_actorId a = ctx_actorId c"
  by (auto simp: appendIdentityAudit_def and_then_Inr_iff)

definition organization_known :: "string \<Rightarrow> identity_db \<Rightarrow> bool" where
  "organization_known org d = (tbl_find og_id org (db_organizations d) \<noteq> None)"

definition capabilities_json :: "capability_text list \<Rightarrow> json" where
  "capabilities_json cs = JArr (map (\<lambda>k. JStr (capability_string k)) cs)"

definition expiry_json :: "timestamp option \<Rightarrow> json" where
  "expiry_json t = null_or (\<lambda>ms. JStr (toISOString ms)) (optional_time t)"

text \<open>The row an INSERT of a credential writes.\<close>

definition credential_columns :: "credential_record \<Rightarrow> store_error + credential_row" where
  "credential_columns c =
     and_then (sql_time (cred_createdAt c)) (\<lambda>created.
     Inr \<lparr>cr_id = cred_id c, cr_organizationId = cred_organizationId c, cr_ownerId = cred_ownerId c,
          cr_name = cred_name c, cr_tokenPrefix = cred_tokenPrefix c, cr_tokenHash = cred_tokenHash c,
          cr_capabilities = cred_capabilities c, cr_createdAt = created,
          cr_expiresAt = optional_time (cred_expiresAt c),
          cr_revokedAt = optional_time (cred_revokedAt c)\<rparr>)"

section \<open>Organizations and users\<close>

record organization_input =
  oi_context :: mutation_context
  oi_id :: string
  oi_name :: string

definition insert_organization ::
    "string \<Rightarrow> string \<Rightarrow> mutation_context \<Rightarrow> identity_db \<Rightarrow> store_error + identity_db" where
  "insert_organization org name c d =
     and_then (sql_time (ctx_occurredAt c)) (\<lambda>now.
     and_then (insert_row ''organizations'' og_id \<lparr>og_id = org, og_name = name, og_createdAt = now\<rparr>
         (db_organizations d)) (\<lambda>rows.
     appendIdentityAudit org ''organization'' org ''organization.created'' (JObj [(''name'', JStr name)]) c
       (d\<lparr>db_organizations := rows\<rparr>)))"

definition createOrganization :: "organization_input \<Rightarrow> identity_db \<Rightarrow> store_error + identity_db" where
  "createOrganization i d =
     and_then (check (orElse (identityContext (oi_context i)) (first_error
       [(blank (oi_id i), Thrown ''ORGANIZATION_ID_REQUIRED''),
        (blank (oi_name i), Thrown ''ORGANIZATION_NAME_REQUIRED'')]))) (\<lambda>_.
     insert_organization (oi_id i) (oi_name i) (oi_context i) d)"

record user_input =
  ui_context :: mutation_context
  ui_id :: string
  ui_organizationId :: string
  ui_email :: string
  ui_name :: string
  ui_role :: string

definition normal_email :: "string \<Rightarrow> string" where
  "normal_email e = toLowerCase (js_trim e)"

definition addOrganizationUser :: "user_input \<Rightarrow> identity_db \<Rightarrow> store_error + identity_db" where
  "addOrganizationUser i d =
     (let email = normal_email (ui_email i) in
      and_then (check (orElse (identityContext (ui_context i)) (first_error
        [(blank (ui_id i), Thrown ''ORGANIZATION_USER_ID_REQUIRED''),
         (blank (ui_organizationId i), Thrown ''ORGANIZATION_USER_ORGANIZATION_REQUIRED''),
         (\<not> email_ok email, Thrown ''ORGANIZATION_USER_EMAIL_INVALID''),
         (blank (ui_name i), Thrown ''ORGANIZATION_USER_NAME_REQUIRED''),
         (organization_role_of (ui_role i) = None, Thrown ''ORGANIZATION_USER_ROLE_INVALID'')]))) (\<lambda>_.
      and_then (sql_time (ctx_occurredAt (ui_context i))) (\<lambda>now.
      and_then (insert_unique ''organization_users'' us_id us_email
          \<lparr>us_id = ui_id i, us_email = email, us_name = ui_name i, us_createdAt = now,
           us_disabledAt = None\<rparr> (db_users d)) (\<lambda>users.
      and_then (insert_row ''organization_memberships'' membership_key
          \<lparr>mb_organizationId = ui_organizationId i, mb_userId = ui_id i,
           mb_role = the (organization_role_of (ui_role i)), mb_createdAt = now, mb_revokedAt = None\<rparr>
          (db_memberships d)) (\<lambda>members.
      if \<not> organization_known (ui_organizationId i) d then Inl (ForeignKeyViolation ''organizations'')
      else appendIdentityAudit (ui_organizationId i) ''organization_user'' (ui_id i) ''organization_user.added''
             (JObj [(''email'', JStr email), (''name'', JStr (ui_name i)), (''role'', JStr (ui_role i))])
             (ui_context i) (d\<lparr>db_users := users, db_memberships := members\<rparr>))))))"

section \<open>Service accounts\<close>

record account_input =
  sai_context :: mutation_context
  sai_id :: string
  sai_organizationId :: string
  sai_name :: string
  sai_role :: string

definition insert_account ::
    "string \<Rightarrow> string \<Rightarrow> string \<Rightarrow> service_account_role \<Rightarrow> string \<Rightarrow> mutation_context \<Rightarrow> identity_db
       \<Rightarrow> store_error + identity_db" where
  "insert_account org i name role roleText c d =
     and_then (sql_time (ctx_occurredAt c)) (\<lambda>now.
     and_then (insert_row ''service_accounts'' service_account_key
         \<lparr>sa_id = i, sa_organizationId = org, sa_name = name, sa_role = role, sa_createdAt = now,
          sa_revokedAt = None\<rparr> (db_serviceAccounts d)) (\<lambda>rows.
     if \<not> organization_known org d then Inl (ForeignKeyViolation ''organizations'')
     else appendIdentityAudit org ''service_account'' i ''service_account.created''
            (JObj [(''name'', JStr name), (''role'', JStr roleText)]) c (d\<lparr>db_serviceAccounts := rows\<rparr>)))"

definition createServiceAccount :: "account_input \<Rightarrow> identity_db \<Rightarrow> store_error + identity_db" where
  "createServiceAccount i d =
     and_then (check (orElse (identityContext (sai_context i)) (first_error
       [(blank (sai_id i), Thrown ''SERVICE_ACCOUNT_ID_REQUIRED''),
        (blank (sai_organizationId i), Thrown ''SERVICE_ACCOUNT_ORGANIZATION_REQUIRED''),
        (blank (sai_name i), Thrown ''SERVICE_ACCOUNT_NAME_REQUIRED''),
        (service_role_of (sai_role i) = None, Thrown ''SERVICE_ACCOUNT_ROLE_INVALID'')]))) (\<lambda>_.
     insert_account (sai_organizationId i) (sai_id i) (sai_name i) (the (service_role_of (sai_role i)))
       (sai_role i) (sai_context i) d)"

text \<open>The INSERT of a service credential with its audit event, at the end of a transaction.\<close>

definition insert_service_credential ::
    "string \<Rightarrow> credential_record \<Rightarrow> mutation_context \<Rightarrow> identity_db \<Rightarrow> store_error + identity_db" where
  "insert_service_credential org c x d =
     and_then (credential_columns c) (\<lambda>row.
     and_then (insert_unique ''service_account_credentials'' credential_key cr_tokenHash row
         (db_serviceCredentials d)) (\<lambda>rows.
     if tbl_find service_account_key (cred_organizationId c, cred_ownerId c) (db_serviceAccounts d) = None
       then Inl (ForeignKeyViolation ''service_accounts'')
     else appendIdentityAudit org ''service_account_credential'' (cred_id c) ''service_account_credential.issued''
            (JObj [(''serviceAccountId'', JStr (cred_ownerId c)), (''tokenPrefix'', JStr (cred_tokenPrefix c)),
                   (''capabilities'', capabilities_json (cred_capabilities c)),
                   (''expiresAt'', expiry_json (cred_expiresAt c))])
            x (d\<lparr>db_serviceCredentials := rows\<rparr>)))"

definition issueServiceAccountCredential ::
    "credential_record \<Rightarrow> mutation_context \<Rightarrow> identity_db \<Rightarrow> store_error + identity_db" where
  "issueServiceAccountCredential c x d =
     and_then (check (orElse (identityContext x) (orElse (first_error
       [(blank (cred_id c), Thrown ''SERVICE_CREDENTIAL_ID_REQUIRED''),
        (blank (cred_organizationId c), Thrown ''SERVICE_CREDENTIAL_ORGANIZATION_REQUIRED''),
        (blank (cred_ownerId c), Thrown ''SERVICE_CREDENTIAL_ACCOUNT_REQUIRED''),
        (blank (cred_name c), Thrown ''SERVICE_CREDENTIAL_NAME_REQUIRED'')])
       (credentialMaterial ''SERVICE_CREDENTIAL'' c)))) (\<lambda>_.
     case tbl_find service_account_key (cred_organizationId c, cred_ownerId c) (db_serviceAccounts d) of
       None \<Rightarrow> Inl (Thrown ''SERVICE_ACCOUNT_NOT_ACTIVE'')
     | Some a \<Rightarrow>
         if sa_revokedAt a \<noteq> None then Inl (Thrown ''SERVICE_ACCOUNT_NOT_ACTIVE'')
         else if \<not> serviceAccountRoleAllowsCapabilities (sa_role a) (cred_capabilities c)
           then Inl (Thrown ''SERVICE_CREDENTIAL_CAPABILITY_FOR_ROLE'')
         else insert_service_credential (cred_organizationId c) c x d)"

record bootstrap_input =
  bi_context :: mutation_context
  bi_organizationId :: string
  bi_organizationName :: string
  bi_serviceAccountId :: string
  bi_serviceAccountName :: string
  bi_credential :: credential_record

definition bootstrapServiceAccount :: "bootstrap_input \<Rightarrow> identity_db \<Rightarrow> store_error + identity_db" where
  "bootstrapServiceAccount i d =
     and_then (check (orElse (identityContext (bi_context i)) (orElse (first_error
       [(blank (bi_organizationId i), Thrown ''ORGANIZATION_ID_REQUIRED''),
        (blank (bi_organizationName i), Thrown ''ORGANIZATION_NAME_REQUIRED''),
        (blank (bi_serviceAccountId i), Thrown ''SERVICE_ACCOUNT_ID_REQUIRED''),
        (blank (bi_serviceAccountName i), Thrown ''SERVICE_ACCOUNT_NAME_REQUIRED''),
        (cred_organizationId (bi_credential i) \<noteq> bi_organizationId i
           \<or> cred_ownerId (bi_credential i) \<noteq> bi_serviceAccountId i,
         Thrown ''BOOTSTRAP_CREDENTIAL_PRINCIPAL_MISMATCH'')])
       (credentialMaterial ''SERVICE_CREDENTIAL'' (bi_credential i))))) (\<lambda>_.
     and_then (insert_organization (bi_organizationId i) (bi_organizationName i) (bi_context i) d) (\<lambda>d1.
     and_then (insert_account (bi_organizationId i) (bi_serviceAccountId i) (bi_serviceAccountName i)
         Role_admin ''admin'' (bi_context i) d1) (\<lambda>d2.
     insert_service_credential (bi_organizationId i) (bi_credential i) (bi_context i) d2)))"

text \<open>\<open>UPDATE ... SET revoked_at\<close> on the rows of a key that are not revoked yet.\<close>

definition active_credential :: "string \<Rightarrow> string \<Rightarrow> credential_row list \<Rightarrow> bool" where
  "active_credential org cid rows =
     (case tbl_find credential_key (org, cid) rows of
        None \<Rightarrow> False | Some c \<Rightarrow> cr_revokedAt c = None)"

definition revoke_row :: "string \<Rightarrow> string \<Rightarrow> int \<Rightarrow> credential_row list \<Rightarrow> credential_row list" where
  "revoke_row org cid now rows =
     tbl_update credential_key (org, cid)
       (\<lambda>c. if cr_revokedAt c = None then c\<lparr>cr_revokedAt := Some now\<rparr> else c) rows"

definition revokeServiceAccountCredential ::
    "string \<Rightarrow> string \<Rightarrow> mutation_context \<Rightarrow> identity_db \<Rightarrow> store_error + identity_db" where
  "revokeServiceAccountCredential org cid x d =
     and_then (check (orElse (identityContext x) (first_error
       [(blank org, Thrown ''SERVICE_CREDENTIAL_ORGANIZATION_REQUIRED''),
        (blank cid, Thrown ''SERVICE_CREDENTIAL_ID_REQUIRED'')]))) (\<lambda>_.
     and_then (sql_time (ctx_occurredAt x)) (\<lambda>now.
     if \<not> active_credential org cid (db_serviceCredentials d)
       then Inl (Thrown ''SERVICE_CREDENTIAL_NOT_ACTIVE'')
     else appendIdentityAudit org ''service_account_credential'' cid ''service_account_credential.revoked''
            (JObj []) x (d\<lparr>db_serviceCredentials := revoke_row org cid now (db_serviceCredentials d)\<rparr>)))"

section \<open>Agents and their credentials\<close>

record agent_input =
  ri_context :: mutation_context
  ri_id :: string
  ri_organizationId :: string
  ri_name :: string

definition registerAgent :: "agent_input \<Rightarrow> identity_db \<Rightarrow> store_error + identity_db" where
  "registerAgent i d =
     and_then (check (orElse (identityContext (ri_context i)) (first_error
       [(blank (ri_id i), Thrown ''AGENT_ID_REQUIRED''),
        (blank (ri_organizationId i), Thrown ''AGENT_ORGANIZATION_REQUIRED''),
        (blank (ri_name i), Thrown ''AGENT_NAME_REQUIRED'')]))) (\<lambda>_.
     and_then (sql_time (ctx_occurredAt (ri_context i))) (\<lambda>now.
     and_then (insert_row ''agent_identities'' agent_key
         \<lparr>ag_id = ri_id i, ag_organizationId = ri_organizationId i, ag_name = ri_name i,
          ag_status = Agent_active, ag_createdAt = now, ag_revokedAt = None\<rparr> (db_agents d)) (\<lambda>rows.
     if \<not> organization_known (ri_organizationId i) d then Inl (ForeignKeyViolation ''organizations'')
     else appendIdentityAudit (ri_organizationId i) ''agent_identity'' (ri_id i) ''agent.registered''
            (JObj [(''name'', JStr (ri_name i))]) (ri_context i) (d\<lparr>db_agents := rows\<rparr>))))"

text \<open>The INSERT of an agent credential with its audit event; a recovery marks the event.\<close>

definition insert_agent_credential ::
    "bool \<Rightarrow> credential_record \<Rightarrow> mutation_context \<Rightarrow> identity_db \<Rightarrow> store_error + identity_db" where
  "insert_agent_credential recovery c x d =
     and_then (credential_columns c) (\<lambda>row.
     and_then (insert_unique ''api_credentials'' credential_key cr_tokenHash row (db_agentCredentials d)) (\<lambda>rows.
     if tbl_find agent_key (cred_organizationId c, cred_ownerId c) (db_agents d) = None
       then Inl (ForeignKeyViolation ''agent_identities'')
     else appendIdentityAudit (cred_organizationId c) ''api_credential'' (cred_id c) ''credential.issued''
            (JObj ([(''agentId'', JStr (cred_ownerId c)), (''tokenPrefix'', JStr (cred_tokenPrefix c)),
                   (''capabilities'', capabilities_json (cred_capabilities c)),
                   (''expiresAt'', expiry_json (cred_expiresAt c))]
               @ (if recovery then [(''recovery'', JBool True)] else [])))
            x (d\<lparr>db_agentCredentials := rows\<rparr>)))"

definition issueCredential ::
    "credential_record \<Rightarrow> mutation_context \<Rightarrow> identity_db \<Rightarrow> store_error + identity_db" where
  "issueCredential c x d =
     and_then (check (orElse (identityContext x) (orElse (first_error
       [(blank (cred_id c), Thrown ''API_CREDENTIAL_ID_REQUIRED''),
        (blank (cred_organizationId c), Thrown ''API_CREDENTIAL_ORGANIZATION_REQUIRED''),
        (blank (cred_ownerId c), Thrown ''API_CREDENTIAL_AGENT_REQUIRED''),
        (blank (cred_name c), Thrown ''API_CREDENTIAL_NAME_REQUIRED'')])
       (credentialMaterial ''API_CREDENTIAL'' c)))) (\<lambda>_.
     insert_agent_credential False c x d)"

definition revokeCredential ::
    "string \<Rightarrow> string \<Rightarrow> mutation_context \<Rightarrow> identity_db \<Rightarrow> store_error + identity_db" where
  "revokeCredential org cid x d =
     and_then (check (orElse (identityContext x) (first_error
       [(blank org, Thrown ''API_CREDENTIAL_ORGANIZATION_REQUIRED''),
        (blank cid, Thrown ''API_CREDENTIAL_ID_REQUIRED'')]))) (\<lambda>_.
     and_then (sql_time (ctx_occurredAt x)) (\<lambda>now.
     if \<not> active_credential org cid (db_agentCredentials d)
       then Inl (Thrown ''API_CREDENTIAL_NOT_ACTIVE'')
     else appendIdentityAudit org ''api_credential'' cid ''credential.revoked''
            (JObj []) x (d\<lparr>db_agentCredentials := revoke_row org cid now (db_agentCredentials d)\<rparr>)))"

text \<open>
  Replacing the agent credential of a workspace with a one-time recovery code. A missing or empty
  identifier is falsy in the code. The SELECT reads one row, the UPDATE that consumes the code must
  change exactly one.
\<close>

record rotation_input =
  ro_context :: mutation_context
  ro_workspaceId :: string
  ro_recoveryCodeHash :: string
  ro_recoveryDeliveryId :: string
  ro_recoveryDeliveryEnvelope :: string
  ro_replacement :: credential_record

definition op_identifier :: "string \<Rightarrow> operation_row \<Rightarrow> string option" where
  "op_identifier k w = map_of (op_identifiers w) k"

definition recoverable :: "string \<Rightarrow> string \<Rightarrow> operation_row \<Rightarrow> bool" where
  "recoverable ws h w \<longleftrightarrow> op_identifier ''workspaceId'' w = Some ws \<and> op_recoveryCodeHash w = Some h
     \<and> op_status w = Onb_completed \<and> op_recoveryConsumedAt w = None"

definition consume_recovery :: "rotation_input \<Rightarrow> int \<Rightarrow> operation_row \<Rightarrow> operation_row" where
  "consume_recovery i now w =
     (if recoverable (ro_workspaceId i) (ro_recoveryCodeHash i) w
      then w\<lparr>op_recoveryCodeHash := None, op_recoveryConsumedHash := Some (ro_recoveryCodeHash i),
             op_recoveryConsumedAt := Some now,
             op_recoveryEnvelope := Some (ro_recoveryDeliveryEnvelope i),
             op_recoveryDeliveryId := Some (ro_recoveryDeliveryId i)\<rparr>
      else w)"

definition rotation_error :: "rotation_input \<Rightarrow> store_error option" where
  "rotation_error i =
     (let c = ro_replacement i in
      orElse (identityContext (ro_context i)) (orElse (first_error
       [(blank (ro_workspaceId i), Thrown ''WORKSPACE_ID_REQUIRED''),
        (\<not> fingerprint_ok (ro_recoveryCodeHash i), Thrown ''RECOVERY_CODE_HASH_INVALID''),
        (cred_organizationId c \<noteq> ro_workspaceId i, Thrown ''RECOVERY_CREDENTIAL_WORKSPACE_MISMATCH''),
        (blank (cred_id c), Thrown ''API_CREDENTIAL_ID_REQUIRED''),
        (blank (cred_ownerId c), Thrown ''API_CREDENTIAL_AGENT_REQUIRED''),
        (blank (cred_name c), Thrown ''API_CREDENTIAL_NAME_REQUIRED'')])
       (credentialMaterial ''API_CREDENTIAL'' c)))"

text \<open>The last statements of the rotation: revoke the previous credential of that agent.\<close>

definition revoke_previous ::
    "rotation_input \<Rightarrow> string \<Rightarrow> string \<Rightarrow> int \<Rightarrow> identity_db \<Rightarrow> store_error + identity_db" where
  "revoke_previous i agentId previous now d =
     (case tbl_find credential_key (ro_workspaceId i, previous) (db_agentCredentials d) of
        None \<Rightarrow> Inl (Thrown ''API_CREDENTIAL_NOT_ACTIVE'')
      | Some p \<Rightarrow>
          if cr_ownerId p \<noteq> agentId \<or> cr_revokedAt p \<noteq> None then Inl (Thrown ''API_CREDENTIAL_NOT_ACTIVE'')
          else appendIdentityAudit (ro_workspaceId i) ''api_credential'' previous ''credential.revoked''
                 (JObj [(''recovery'', JBool True), (''replacementCredentialId'', JStr (cred_id (ro_replacement i)))])
                 (ro_context i)
                 (d\<lparr>db_agentCredentials := revoke_row (ro_workspaceId i) previous now (db_agentCredentials d)\<rparr>))"

definition rotateAgentCredentialWithRecovery ::
    "rotation_input \<Rightarrow> identity_db \<Rightarrow> store_error + (identity_db \<times> string \<times> string)" where
  "rotateAgentCredentialWithRecovery i d =
     and_then (check (rotation_error i)) (\<lambda>_.
     and_then (sql_time (ctx_occurredAt (ro_context i))) (\<lambda>now.
     case find (recoverable (ro_workspaceId i) (ro_recoveryCodeHash i)) (db_operations d) of
       None \<Rightarrow> Inl (Thrown ''CREDENTIAL_RECOVERY_INVALID'')
     | Some w \<Rightarrow>
       (case (truthy (op_identifier ''agentId'' w), truthy (op_identifier ''agentCredentialId'' w)) of
          (Some agentId, Some previous) \<Rightarrow>
            if cred_ownerId (ro_replacement i) \<noteq> agentId
              then Inl (Thrown ''RECOVERY_CREDENTIAL_AGENT_MISMATCH'')
            else if cred_id (ro_replacement i) = previous
              then Inl (Thrown ''RECOVERY_CREDENTIAL_ID_CONFLICT'')
            else if length (filter (recoverable (ro_workspaceId i) (ro_recoveryCodeHash i)) (db_operations d)) \<noteq> 1
              then Inl (Thrown ''CREDENTIAL_RECOVERY_INVALID'')
            else
              and_then (insert_agent_credential True (ro_replacement i) (ro_context i)
                  (d\<lparr>db_operations := map (consume_recovery i now) (db_operations d)\<rparr>)) (\<lambda>d1.
              and_then (revoke_previous i agentId previous now d1) (\<lambda>d2.
              Inr (d2, agentId, previous)))
        | _ \<Rightarrow> Inl (Thrown ''CREDENTIAL_RECOVERY_INVALID''))))"

section \<open>Workspace invites\<close>

record invite_input =
  ii_context :: mutation_context
  ii_id :: string
  ii_organizationId :: string
  ii_email :: string
  ii_name :: string
  ii_role :: string
  ii_sourceCredentialId :: string
  ii_tokenHash :: string
  ii_createdAt :: timestamp
  ii_expiresAt :: timestamp

definition invite_error :: "invite_input \<Rightarrow> store_error option" where
  "invite_error i = orElse (identityContext (ii_context i)) (first_error
     [(blank (ii_id i), Thrown ''WORKSPACE_INVITE_ID_REQUIRED''),
      (blank (ii_organizationId i), Thrown ''WORKSPACE_INVITE_ORGANIZATION_REQUIRED''),
      (\<not> email_ok (normal_email (ii_email i)), Thrown ''WORKSPACE_INVITE_EMAIL_INVALID''),
      (blank (ii_name i), Thrown ''WORKSPACE_INVITE_NAME_REQUIRED''),
      (invite_role_of (ii_role i) = None, Thrown ''WORKSPACE_INVITE_ROLE_INVALID''),
      (blank (ii_sourceCredentialId i), Thrown ''WORKSPACE_INVITE_SOURCE_REQUIRED''),
      (\<not> fingerprint_ok (ii_tokenHash i), Thrown ''WORKSPACE_INVITE_HASH_INVALID''),
      (bad_time (ii_createdAt i) \<or> bad_time (ii_expiresAt i) \<or> time_le (ii_expiresAt i) (ii_createdAt i),
       Thrown ''WORKSPACE_INVITE_TIME_INVALID'')])"

definition createWorkspaceInvite :: "invite_input \<Rightarrow> identity_db \<Rightarrow> store_error + identity_db" where
  "createWorkspaceInvite i d =
     and_then (check (invite_error i)) (\<lambda>_.
     and_then (sql_time (ii_createdAt i)) (\<lambda>created.
     and_then (sql_time (ii_expiresAt i)) (\<lambda>expires.
     and_then (insert_unique ''workspace_invites'' iv_id iv_tokenHash
         \<lparr>iv_id = ii_id i, iv_organizationId = ii_organizationId i, iv_email = normal_email (ii_email i),
          iv_name = js_trim (ii_name i), iv_role = the (invite_role_of (ii_role i)),
          iv_sourceCredentialId = ii_sourceCredentialId i, iv_sourceCredentialType = Service_credential,
          iv_tokenHash = ii_tokenHash i, iv_createdAt = created, iv_expiresAt = expires,
          iv_userId = None, iv_acceptedAt = None, iv_revokedAt = None\<rparr> (db_invites d)) (\<lambda>rows.
     if \<not> organization_known (ii_organizationId i) d then Inl (ForeignKeyViolation ''organizations'')
     else appendIdentityAudit (ii_organizationId i) ''workspace_invite'' (ii_id i) ''workspace_invite.created''
            (JObj [(''email'', JStr (normal_email (ii_email i))), (''name'', JStr (js_trim (ii_name i))),
                   (''role'', JStr (ii_role i)), (''expiresAt'', JStr (toISOString expires))])
            (ii_context i) (d\<lparr>db_invites := rows\<rparr>)))))"

definition invite_open :: "invite_row \<Rightarrow> bool" where
  "invite_open v \<longleftrightarrow> iv_acceptedAt v = None \<and> iv_revokedAt v = None"

definition revokeWorkspaceInvite ::
    "string \<Rightarrow> string \<Rightarrow> mutation_context \<Rightarrow> identity_db \<Rightarrow> store_error + (identity_db \<times> bool)" where
  "revokeWorkspaceInvite org iid x d =
     and_then (check (orElse (identityContext x) (first_error
       [(blank org, Thrown ''WORKSPACE_INVITE_ORGANIZATION_REQUIRED''),
        (blank iid, Thrown ''WORKSPACE_INVITE_ID_REQUIRED'')]))) (\<lambda>_.
     and_then (sql_time (ctx_occurredAt x)) (\<lambda>now.
     case tbl_find iv_id iid (db_invites d) of
       None \<Rightarrow> Inr (d, False)
     | Some v \<Rightarrow>
         if iv_organizationId v \<noteq> org \<or> \<not> invite_open v then Inr (d, False)
         else and_then (appendIdentityAudit org ''workspace_invite'' iid ''workspace_invite.revoked'' (JObj []) x
                (d\<lparr>db_invites := tbl_update iv_id iid (\<lambda>v. v\<lparr>iv_revokedAt := Some now\<rparr>) (db_invites d)\<rparr>))
              (\<lambda>d'. Inr (d', True))))"

record consumed_invite =
  cv_workspaceId :: string
  cv_userId :: string
  cv_role :: invite_role
  cv_sourceCredentialId :: string
  cv_sourceCredentialType :: credential_type
  cv_expiresAt :: int

text \<open>
  \<open>ON CONFLICT (organization_id, user_id) DO UPDATE\<close>: an existing membership takes the invite's role.
\<close>

definition upsert_membership :: "membership_row \<Rightarrow> membership_row list \<Rightarrow> membership_row list" where
  "upsert_membership m rows =
     (case tbl_insert membership_key m rows of
        Some rows' \<Rightarrow> rows'
      | None \<Rightarrow> tbl_update membership_key (membership_key m)
          (\<lambda>r. r\<lparr>mb_role := mb_role m, mb_revokedAt := None\<rparr>) rows)"

definition invite_user :: "string \<Rightarrow> int \<Rightarrow> invite_row \<Rightarrow> identity_db \<Rightarrow> store_error + (user_row list \<times> string)" where
  "invite_user fresh now v d =
     (case find (\<lambda>u. us_email u = iv_email v) (db_users d) of
        Some u \<Rightarrow> Inr (db_users d, us_id u)
      | None \<Rightarrow> and_then (insert_row ''organization_users'' us_id
            \<lparr>us_id = ''usr_'' @ fresh, us_email = iv_email v, us_name = iv_name v, us_createdAt = now,
             us_disabledAt = None\<rparr> (db_users d)) (\<lambda>rows. Inr (rows, ''usr_'' @ fresh)))"

definition accept_invite :: "invite_row \<Rightarrow> string \<Rightarrow> user_row list \<Rightarrow> int \<Rightarrow> identity_db \<Rightarrow> identity_db" where
  "accept_invite v userId users now d =
     d\<lparr>db_users := users,
       db_memberships := upsert_membership
         \<lparr>mb_organizationId = iv_organizationId v, mb_userId = userId, mb_role = membership_role (iv_role v),
          mb_createdAt = now, mb_revokedAt = None\<rparr> (db_memberships d),
       db_invites := tbl_update iv_id (iv_id v)
         (\<lambda>r. r\<lparr>iv_userId := Some userId, iv_acceptedAt := Some now\<rparr>) (db_invites d)\<rparr>"

definition consumeWorkspaceInvite ::
    "string \<Rightarrow> string \<Rightarrow> timestamp \<Rightarrow> identity_db \<Rightarrow> store_error + (identity_db \<times> consumed_invite option)" where
  "consumeWorkspaceInvite fresh tokenHash now d =
     and_then (check (first_error
       [(\<not> fingerprint_ok tokenHash, Thrown ''WORKSPACE_INVITE_HASH_INVALID''),
        (bad_time now, Thrown ''WORKSPACE_INVITE_TIME_INVALID'')])) (\<lambda>_.
     and_then (sql_time now) (\<lambda>nowMs.
     case find (\<lambda>v. iv_tokenHash v = tokenHash \<and> invite_open v \<and> nowMs < iv_expiresAt v) (db_invites d) of
       None \<Rightarrow> Inr (d, None)
     | Some v \<Rightarrow>
         and_then (invite_user fresh nowMs v d) (\<lambda>(users, userId).
         and_then (appendIdentityAudit (iv_organizationId v) ''workspace_invite'' (iv_id v)
             ''workspace_invite.accepted''
             (JObj [(''userId'', JStr userId), (''email'', JStr (iv_email v)),
                    (''role'', JStr (invite_role_text (iv_role v)))])
             \<lparr>ctx_actorId = ''organization_user:'' @ userId, ctx_causationId = iv_id v, ctx_occurredAt = now\<rparr>
             (accept_invite v userId users nowMs d)) (\<lambda>d'.
         Inr (d', Some \<lparr>cv_workspaceId = iv_organizationId v, cv_userId = userId, cv_role = iv_role v,
            cv_sourceCredentialId = iv_sourceCredentialId v,
            cv_sourceCredentialType = iv_sourceCredentialType v, cv_expiresAt = iv_expiresAt v\<rparr>)))))"

section \<open>Authentication\<close>

text \<open>\<open>AuthenticatedPrincipal\<close>; the last three fields are set by a human session only.\<close>

record principal =
  pc_type :: credential_type
  pc_id :: string
  pc_organizationId :: string
  pc_credentialId :: string
  pc_capabilities :: "capability_text list"
  pc_role :: "service_account_role option"
  pc_expiresAt :: "int option"
  pc_sourceCredentialId :: "string option"
  pc_sourceCredentialType :: "credential_type option"

definition unexpired :: "int \<Rightarrow> int option \<Rightarrow> bool" where
  "unexpired now e = (case e of None \<Rightarrow> True | Some t \<Rightarrow> now < t)"

text \<open>The JOIN of a credential with its owner, selected by the unique token hash.\<close>

definition agent_by_hash :: "string \<Rightarrow> identity_db \<Rightarrow> (credential_row \<times> agent_row) option" where
  "agent_by_hash h d =
     (case find (\<lambda>c. cr_tokenHash c = h) (db_agentCredentials d) of
        None \<Rightarrow> None
      | Some c \<Rightarrow> map_option (\<lambda>a. (c, a))
          (tbl_find agent_key (cr_organizationId c, cr_ownerId c) (db_agents d)))"

definition service_by_hash :: "string \<Rightarrow> identity_db \<Rightarrow> (credential_row \<times> service_account_row) option" where
  "service_by_hash h d =
     (case find (\<lambda>c. cr_tokenHash c = h) (db_serviceCredentials d) of
        None \<Rightarrow> None
      | Some c \<Rightarrow> map_option (\<lambda>a. (c, a))
          (tbl_find service_account_key (cr_organizationId c, cr_ownerId c) (db_serviceAccounts d)))"

definition authenticate_agent :: "(string \<Rightarrow> string) \<Rightarrow> string \<Rightarrow> int \<Rightarrow> identity_db \<Rightarrow> principal option" where
  "authenticate_agent sha token now d =
     (case agent_by_hash (hashApiToken sha token) d of
        None \<Rightarrow> None
      | Some (c, a) \<Rightarrow>
          if tokenMatchesHash sha token (cr_tokenHash c) \<and> cr_revokedAt c = None \<and> ag_revokedAt a = None
             \<and> ag_status a = Agent_active \<and> unexpired now (cr_expiresAt c)
          then Some \<lparr>pc_type = Agent_credential, pc_id = cr_ownerId c, pc_organizationId = cr_organizationId c,
                 pc_credentialId = cr_id c, pc_capabilities = cr_capabilities c, pc_role = None,
                 pc_expiresAt = None, pc_sourceCredentialId = None, pc_sourceCredentialType = None\<rparr>
          else None)"

definition authenticate_service :: "(string \<Rightarrow> string) \<Rightarrow> string \<Rightarrow> int \<Rightarrow> identity_db \<Rightarrow> principal option" where
  "authenticate_service sha token now d =
     (case service_by_hash (hashApiToken sha token) d of
        None \<Rightarrow> None
      | Some (c, a) \<Rightarrow>
          if \<not> tokenMatchesHash sha token (cr_tokenHash c) then None
          else if cr_revokedAt c \<noteq> None \<or> sa_revokedAt a \<noteq> None then None
          else if \<not> unexpired now (cr_expiresAt c) then None
          else if \<not> serviceAccountRoleAllowsCapabilities (sa_role a) (cr_capabilities c) then None
          else Some \<lparr>pc_type = Service_credential, pc_id = cr_ownerId c, pc_organizationId = cr_organizationId c,
                 pc_credentialId = cr_id c, pc_capabilities = cr_capabilities c, pc_role = Some (sa_role a),
                 pc_expiresAt = None, pc_sourceCredentialId = None, pc_sourceCredentialType = None\<rparr>)"

text \<open>The first query runs on \<open>d1\<close>, the second on \<open>d2\<close>, a later state of the database.\<close>

definition authenticateToken ::
    "(string \<Rightarrow> string) \<Rightarrow> string \<Rightarrow> timestamp \<Rightarrow> identity_db \<Rightarrow> identity_db \<Rightarrow> store_error + principal option" where
  "authenticateToken sha token now d1 d2 =
     (case date_parse now of
        None \<Rightarrow> Inl (Thrown ''AUTHENTICATION_TIME_INVALID'')
      | Some nowMs \<Rightarrow>
          (case authenticate_agent sha token nowMs d1 of
             Some p \<Rightarrow> Inr (Some p)
           | None \<Rightarrow> Inr (authenticate_service sha token nowMs d2)))"

definition agent_credential_live :: "string \<Rightarrow> string \<Rightarrow> int \<Rightarrow> identity_db \<Rightarrow> bool" where
  "agent_credential_live org cid now d =
     (case tbl_find credential_key (org, cid) (db_agentCredentials d) of
        None \<Rightarrow> False
      | Some c \<Rightarrow>
          (case tbl_find agent_key (cr_organizationId c, cr_ownerId c) (db_agents d) of
             None \<Rightarrow> False
           | Some a \<Rightarrow> cr_revokedAt c = None \<and> ag_revokedAt a = None \<and> ag_status a = Agent_active
               \<and> unexpired now (cr_expiresAt c)))"

definition service_credential_live :: "string \<Rightarrow> string \<Rightarrow> int \<Rightarrow> identity_db \<Rightarrow> bool" where
  "service_credential_live org cid now d =
     (case tbl_find credential_key (org, cid) (db_serviceCredentials d) of
        None \<Rightarrow> False
      | Some c \<Rightarrow>
          (case tbl_find service_account_key (cr_organizationId c, cr_ownerId c) (db_serviceAccounts d) of
             None \<Rightarrow> False
           | Some a \<Rightarrow> cr_revokedAt c = None \<and> sa_revokedAt a = None \<and> unexpired now (cr_expiresAt c)))"

definition isCredentialActive ::
    "string \<Rightarrow> string \<Rightarrow> credential_type \<Rightarrow> timestamp \<Rightarrow> identity_db \<Rightarrow> store_error + bool" where
  "isCredentialActive org cid ty now d =
     (case date_parse now of
        None \<Rightarrow> Inl (Thrown ''AUTHENTICATION_TIME_INVALID'')
      | Some nowMs \<Rightarrow> Inr (case ty of Agent_credential \<Rightarrow> agent_credential_live org cid nowMs d
          | Service_credential \<Rightarrow> service_credential_live org cid nowMs d))"

definition hasExecutableAgentCredential ::
    "string \<Rightarrow> timestamp \<Rightarrow> identity_db \<Rightarrow> store_error + bool" where
  "hasExecutableAgentCredential org now d =
     (if blank org then Inl (Thrown ''ORGANIZATION_ID_REQUIRED'')
      else case date_parse now of
        None \<Rightarrow> Inl (Thrown ''CREDENTIAL_CHECK_TIME_INVALID'')
      | Some nowMs \<Rightarrow> Inr (list_ex (\<lambda>c. cr_organizationId c = org
            \<and> agent_credential_live org (cr_id c) nowMs d \<and> Known Inference_invoke \<in> set (cr_capabilities c))
          (db_agentCredentials d)))"

section \<open>Reads\<close>

definition getAgent :: "string \<Rightarrow> string \<Rightarrow> identity_db \<Rightarrow> agent_row option" where
  "getAgent org i d = tbl_find agent_key (org, i) (db_agents d)"

text \<open>\<open>ORDER BY created_at DESC, id DESC\<close>.\<close>

definition newest_first :: "('r \<Rightarrow> int) \<Rightarrow> ('r \<Rightarrow> string) \<Rightarrow> 'r list \<Rightarrow> 'r list" where
  "newest_first created i rows = rev (sort_key (\<lambda>r. (created r, i r)) rows)"

text \<open>What the directory shows of a credential: everything but the hash of its token.\<close>

record credential_summary =
  cs_id :: string
  cs_organizationId :: string
  cs_agentId :: string
  cs_name :: string
  cs_tokenPrefix :: string
  cs_capabilities :: "capability_text list"
  cs_createdAt :: int
  cs_expiresAt :: "int option"
  cs_revokedAt :: "int option"

definition credential_summary_of :: "credential_row \<Rightarrow> credential_summary" where
  "credential_summary_of c =
     \<lparr>cs_id = cr_id c, cs_organizationId = cr_organizationId c, cs_agentId = cr_ownerId c,
      cs_name = cr_name c, cs_tokenPrefix = cr_tokenPrefix c, cs_capabilities = cr_capabilities c,
      cs_createdAt = cr_createdAt c, cs_expiresAt = cr_expiresAt c, cs_revokedAt = cr_revokedAt c\<rparr>"

definition listAgentDirectory ::
    "string \<Rightarrow> identity_db \<Rightarrow> store_error + (agent_row list \<times> credential_summary list)" where
  "listAgentDirectory org d =
     (if blank org then Inl (Thrown ''ORGANIZATION_ID_REQUIRED'')
      else Inr (newest_first ag_createdAt ag_id (filter (\<lambda>a. ag_organizationId a = org) (db_agents d)),
                map credential_summary_of (newest_first cr_createdAt cr_id
                  (filter (\<lambda>c. cr_organizationId c = org) (db_agentCredentials d)))))"

record invite_summary =
  vs_inviteId :: string
  vs_workspaceId :: string
  vs_email :: string
  vs_name :: string
  vs_role :: invite_role
  vs_createdAt :: int
  vs_expiresAt :: int
  vs_acceptedAt :: "int option"
  vs_revokedAt :: "int option"

definition invite_summary_of :: "invite_row \<Rightarrow> invite_summary" where
  "invite_summary_of v =
     \<lparr>vs_inviteId = iv_id v, vs_workspaceId = iv_organizationId v, vs_email = iv_email v,
      vs_name = iv_name v, vs_role = iv_role v, vs_createdAt = iv_createdAt v,
      vs_expiresAt = iv_expiresAt v, vs_acceptedAt = iv_acceptedAt v, vs_revokedAt = iv_revokedAt v\<rparr>"

definition listWorkspaceInvites :: "string \<Rightarrow> identity_db \<Rightarrow> store_error + invite_summary list" where
  "listWorkspaceInvites org d =
     (if blank org then Inl (Thrown ''WORKSPACE_INVITE_ORGANIZATION_REQUIRED'')
      else Inr (map invite_summary_of (newest_first iv_createdAt iv_id
        (filter (\<lambda>v. iv_organizationId v = org) (db_invites d)))))"

end
