(* ===== verification/HumanSessions.thy ===== *)
theory HumanSessions
  imports IdentityStore
begin

text \<open>
  \<open>src/src/http/humanSessions.ts\<close>: browser sessions of people. A session is derived from an API
  credential of its workspace and remembers which. Both stores are modelled: the table
  \<open>human_sessions\<close> of \<open>PostgresHumanSessionStore\<close> and the map of \<open>MemoryHumanSessionStore\<close>; they are
  related in the last section. SHA-256 is the parameter \<open>sha\<close>, the random bytes are \<open>secret\<close>.
\<close>

section \<open>Making a session\<close>

record session_input =
  hi_workspaceId :: string
  hi_userId :: string
  hi_sourceCredentialId :: string
  hi_sourceCredentialType :: "credential_type option"
  hi_role :: human_role
  hi_createdAt :: timestamp
  hi_expiresAt :: timestamp

definition session_input_error :: "session_input \<Rightarrow> store_error option" where
  "session_input_error i = first_error
     [(blank (hi_workspaceId i), Thrown ''HUMAN_SESSION_WORKSPACE_REQUIRED''),
      (blank (hi_userId i), Thrown ''HUMAN_SESSION_USER_REQUIRED''),
      (blank (hi_sourceCredentialId i), Thrown ''HUMAN_SESSION_SOURCE_CREDENTIAL_REQUIRED''),
      (bad_time (hi_createdAt i) \<or> bad_time (hi_expiresAt i), Thrown ''HUMAN_SESSION_TIME_INVALID''),
      (time_le (hi_expiresAt i) (hi_createdAt i), Thrown ''HUMAN_SESSION_EXPIRY_INVALID'')]"

definition createHumanSession ::
    "(string \<Rightarrow> string) \<Rightarrow> nat list \<Rightarrow> session_input \<Rightarrow> store_error + (string \<times> session_row)" where
  "createHumanSession sha secret i =
     and_then (check (session_input_error i)) (\<lambda>_.
     and_then (sql_time (hi_createdAt i)) (\<lambda>created.
     and_then (sql_time (hi_expiresAt i)) (\<lambda>expires.
     if length secret < 32 then Inl (Thrown ''HUMAN_SESSION_ENTROPY_INSUFFICIENT'')
     else (let token = ''fuse_hs_'' @ base64url secret in
       Inr (token, \<lparr>hs_id = ''hs_'' @ take 24 (sha token), hs_workspaceId = js_trim (hi_workspaceId i),
         hs_userId = js_trim (hi_userId i), hs_sourceCredentialId = js_trim (hi_sourceCredentialId i),
         hs_sourceCredentialType = (case hi_sourceCredentialType i of None \<Rightarrow> Service_credential | Some t \<Rightarrow> t),
         hs_role = hi_role i, hs_tokenHash = sha token, hs_createdAt = created, hs_expiresAt = expires,
         hs_revokedAt = None\<rparr>)))))"

text \<open>\<open>matchesToken\<close>: the hash of the token equals the stored one, as bytes.\<close>

definition matchesToken :: "(string \<Rightarrow> string) \<Rightarrow> string \<Rightarrow> string \<Rightarrow> bool" where
  "matchesToken sha token expected = tokenMatchesHash sha token expected"

record resolved_session =
  rh_workspaceId :: string
  rh_userId :: string
  rh_sourceCredentialId :: string
  rh_sourceCredentialType :: credential_type
  rh_role :: human_role
  rh_sessionId :: string
  rh_expiresAt :: int

definition resolved_of :: "session_row \<Rightarrow> resolved_session" where
  "resolved_of r =
     \<lparr>rh_workspaceId = hs_workspaceId r, rh_userId = hs_userId r,
      rh_sourceCredentialId = hs_sourceCredentialId r,
      rh_sourceCredentialType = hs_sourceCredentialType r, rh_role = hs_role r, rh_sessionId = hs_id r,
      rh_expiresAt = hs_expiresAt r\<rparr>"

section \<open>The table\<close>

definition session_audit :: "session_row \<Rightarrow> string \<Rightarrow> string \<Rightarrow> int \<Rightarrow> json \<Rightarrow> audit_row" where
  "session_audit r action actor now payload =
     \<lparr>au_organizationId = hs_workspaceId r, au_entityType = ''human_session'', au_entityId = hs_id r,
      au_action = action, au_actorId = actor, au_causationId = hs_id r, au_occurredAt = now,
      au_payload = payload\<rparr>"

fun human_role_text :: "human_role \<Rightarrow> string" where
  "human_role_text Human_owner = ''owner''"
| "human_role_text Human_member = ''member''"
| "human_role_text Human_viewer = ''viewer''"

text \<open>
  \<open>put\<close> replaces every column of a row with the same id; the token hash is unique in the table, so
  another row with it makes the statement fail.
\<close>

definition put_session :: "session_row \<Rightarrow> identity_db \<Rightarrow> store_error + identity_db" where
  "put_session r d =
     (if list_ex (\<lambda>x. hs_tokenHash x = hs_tokenHash r \<and> hs_id x \<noteq> hs_id r) (db_sessions d)
      then Inl (UniqueViolation ''human_sessions'')
      else Inr (d\<lparr>db_sessions := map_set hs_id r (db_sessions d),
        db_audit := db_audit d @ [session_audit r ''human_session.created''
          (''credential:'' @ hs_sourceCredentialId r) (hs_createdAt r)
          (JObj [(''userId'', JStr (hs_userId r)), (''role'', JStr (human_role_text (hs_role r))),
                 (''expiresAt'', JStr (toISOString (hs_expiresAt r)))])]\<rparr>))"

definition session_open :: "int \<Rightarrow> session_row \<Rightarrow> bool" where
  "session_open now r \<longleftrightarrow> hs_revokedAt r = None \<and> now < hs_expiresAt r"

text \<open>An empty source credential is falsy; a time the database cannot read fails the query.\<close>

definition resolve_session ::
    "(string \<Rightarrow> string) \<Rightarrow> string \<Rightarrow> timestamp \<Rightarrow> identity_db \<Rightarrow> store_error + resolved_session option" where
  "resolve_session sha token now d =
     and_then (sql_time now) (\<lambda>nowMs.
     case find (\<lambda>r. hs_tokenHash r = sha token \<and> session_open nowMs r) (db_sessions d) of
       None \<Rightarrow> Inr None
     | Some r \<Rightarrow>
         if hs_sourceCredentialId r = [] \<or> \<not> matchesToken sha token (hs_tokenHash r) then Inr None
         else Inr (Some (resolved_of r)))"

definition resolveForWorkspace ::
    "(string \<Rightarrow> string) \<Rightarrow> string \<Rightarrow> string \<Rightarrow> timestamp \<Rightarrow> identity_db \<Rightarrow> store_error + resolved_session option" where
  "resolveForWorkspace sha token ws now d =
     and_then (resolve_session sha token now d) (\<lambda>r.
     Inr (case r of Some x \<Rightarrow> if rh_workspaceId x = ws then Some x else None | None \<Rightarrow> None))"

record session_summary =
  hm_sessionId :: string
  hm_workspaceId :: string
  hm_userId :: string
  hm_sourceCredentialId :: string
  hm_role :: human_role
  hm_createdAt :: int
  hm_expiresAt :: int
  hm_revokedAt :: "int option"

definition session_summary_of :: "session_row \<Rightarrow> session_summary" where
  "session_summary_of r =
     \<lparr>hm_sessionId = hs_id r, hm_workspaceId = hs_workspaceId r, hm_userId = hs_userId r,
      hm_sourceCredentialId = hs_sourceCredentialId r, hm_role = hs_role r,
      hm_createdAt = hs_createdAt r, hm_expiresAt = hs_expiresAt r, hm_revokedAt = hs_revokedAt r\<rparr>"

definition list_sessions :: "string \<Rightarrow> identity_db \<Rightarrow> session_summary list" where
  "list_sessions ws d =
     map session_summary_of (newest_first hs_createdAt hs_id
       (filter (\<lambda>r. hs_workspaceId r = ws) (db_sessions d)))"

definition revoke_session ::
    "(string \<Rightarrow> string) \<Rightarrow> string \<Rightarrow> timestamp \<Rightarrow> identity_db \<Rightarrow> store_error + identity_db" where
  "revoke_session sha token revokedAt d =
     and_then (sql_time revokedAt) (\<lambda>now.
     case find (\<lambda>r. hs_tokenHash r = sha token \<and> hs_revokedAt r = None) (db_sessions d) of
       None \<Rightarrow> Inr d
     | Some r \<Rightarrow> Inr (d\<lparr>db_sessions := tbl_update hs_id (hs_id r) (\<lambda>x. x\<lparr>hs_revokedAt := Some now\<rparr>) (db_sessions d),
         db_audit := db_audit d @ [session_audit r ''human_session.revoked'' (''session:'' @ hs_id r) now (JObj [])]\<rparr>))"

definition revoke_session_by_id ::
    "string \<Rightarrow> string \<Rightarrow> timestamp \<Rightarrow> identity_db \<Rightarrow> store_error + (identity_db \<times> bool)" where
  "revoke_session_by_id sid ws revokedAt d =
     and_then (sql_time revokedAt) (\<lambda>now.
     case tbl_find hs_id sid (db_sessions d) of
       None \<Rightarrow> Inr (d, False)
     | Some r \<Rightarrow>
         if hs_workspaceId r \<noteq> ws \<or> hs_revokedAt r \<noteq> None then Inr (d, False)
         else Inr (d\<lparr>db_sessions := tbl_update hs_id sid (\<lambda>x. x\<lparr>hs_revokedAt := Some now\<rparr>) (db_sessions d),
           db_audit := db_audit d @ [session_audit r ''human_session.revoked'' (''admin:'' @ ws) now (JObj [])]\<rparr>, True))"

section \<open>The map\<close>

text \<open>
  The records of \<open>MemoryHumanSessionStore\<close> in insertion order. Times are compared after
  \<open>Date.parse\<close>; a \<open>now\<close> that does not parse is never past the expiry.
\<close>

definition mem_put :: "session_row \<Rightarrow> session_row list \<Rightarrow> session_row list" where
  "mem_put r rows = map_set hs_id r rows"

definition mem_resolve ::
    "(string \<Rightarrow> string) \<Rightarrow> string \<Rightarrow> timestamp \<Rightarrow> session_row list \<Rightarrow> resolved_session option" where
  "mem_resolve sha token now rows =
     (case find (\<lambda>r. matchesToken sha token (hs_tokenHash r)) rows of
        None \<Rightarrow> None
      | Some r \<Rightarrow>
          if hs_revokedAt r \<noteq> None \<or> (case date_parse now of None \<Rightarrow> False | Some t \<Rightarrow> hs_expiresAt r \<le> t)
          then None else Some (resolved_of r))"

definition mem_resolveForWorkspace ::
    "(string \<Rightarrow> string) \<Rightarrow> string \<Rightarrow> string \<Rightarrow> timestamp \<Rightarrow> session_row list \<Rightarrow> resolved_session option" where
  "mem_resolveForWorkspace sha token ws now rows =
     (case mem_resolve sha token now rows of
        None \<Rightarrow> None | Some x \<Rightarrow> if rh_workspaceId x = ws then Some x else None)"

definition mem_list :: "string \<Rightarrow> session_row list \<Rightarrow> session_summary list" where
  "mem_list ws rows =
     map session_summary_of (sort_key (\<lambda>r. - hs_createdAt r) (filter (\<lambda>r. hs_workspaceId r = ws) rows))"

definition mem_revoke :: "(string \<Rightarrow> string) \<Rightarrow> string \<Rightarrow> int \<Rightarrow> session_row list \<Rightarrow> session_row list" where
  "mem_revoke sha token now rows =
     (case find (\<lambda>r. matchesToken sha token (hs_tokenHash r)) rows of
        None \<Rightarrow> rows
      | Some r \<Rightarrow> tbl_update hs_id (hs_id r) (\<lambda>x. x\<lparr>hs_revokedAt := Some now\<rparr>) rows)"

definition mem_revokeById :: "string \<Rightarrow> string \<Rightarrow> int \<Rightarrow> session_row list \<Rightarrow> session_row list \<times> bool" where
  "mem_revokeById sid ws now rows =
     (case tbl_find hs_id sid rows of
        None \<Rightarrow> (rows, False)
      | Some r \<Rightarrow>
          if hs_workspaceId r \<noteq> ws \<or> hs_revokedAt r \<noteq> None then (rows, False)
          else (tbl_update hs_id sid (\<lambda>x. x\<lparr>hs_revokedAt := Some now\<rparr>) rows, True))"

end
