(* ===== verification/AccessControl.thy ===== *)
theory AccessControl
  imports HumanSessions
begin

text \<open>
  Who a request acts as. \<open>src/src/http/auth.ts\<close>: the authenticator that accepts API credentials and
  human sessions, and the guards of the routes. \<open>src/src/http/app.ts\<close>: the routes that exchange a
  service credential for a session and end sessions. An authentication makes two queries; other
  transactions may run between them, so each query has its own state of the database.
\<close>

section \<open>The authenticator\<close>

fun human_capabilities :: "service_account_role \<Rightarrow> capability_text list" where
  "human_capabilities Role_admin = map Known API_CAPABILITIES"
| "human_capabilities Role_operator =
     map Known [Mandates_read, Receipts_read, Policies_read, Providers_read, Sandbox_run]"
| "human_capabilities Role_viewer = map Known [Mandates_read, Receipts_read, Policies_read, Providers_read]"

fun role_of_human :: "human_role \<Rightarrow> service_account_role" where
  "role_of_human Human_owner = Role_admin"
| "role_of_human Human_member = Role_operator"
| "role_of_human Human_viewer = Role_viewer"

definition session_principal :: "resolved_session \<Rightarrow> principal" where
  "session_principal r =
     \<lparr>pc_type = Service_credential, pc_id = rh_userId r, pc_organizationId = rh_workspaceId r,
      pc_credentialId = rh_sessionId r, pc_capabilities = human_capabilities (role_of_human (rh_role r)),
      pc_role = Some (role_of_human (rh_role r)), pc_expiresAt = Some (rh_expiresAt r),
      pc_sourceCredentialId = Some (rh_sourceCredentialId r),
      pc_sourceCredentialType = Some (rh_sourceCredentialType r)\<rparr>"

definition session_token :: "string \<Rightarrow> bool" where
  "session_token t \<longleftrightarrow> take 8 t = ''fuse_hs_''"

definition authenticate_human ::
    "(string \<Rightarrow> string) \<Rightarrow> string \<Rightarrow> timestamp \<Rightarrow> identity_db \<Rightarrow> identity_db \<Rightarrow> store_error + principal option" where
  "authenticate_human sha token now d1 d2 =
     and_then (resolve_session sha token now d1) (\<lambda>r.
     case r of None \<Rightarrow> Inr None
     | Some x \<Rightarrow>
         and_then (isCredentialActive (rh_workspaceId x) (rh_sourceCredentialId x)
             (rh_sourceCredentialType x) now d2) (\<lambda>live.
         Inr (if live then Some (session_principal x) else None)))"

definition session_aware_authenticate ::
    "(string \<Rightarrow> string) \<Rightarrow> string \<Rightarrow> timestamp \<Rightarrow> identity_db \<Rightarrow> identity_db \<Rightarrow> store_error + principal option" where
  "session_aware_authenticate sha token now d1 d2 =
     (if session_token token then authenticate_human sha token now d1 d2
      else authenticateToken sha token now d1 d2)"

section \<open>The guards\<close>

text \<open>What a guard does with a request: go on with a principal, or answer a status and a code.\<close>

datatype guard_answer = Proceed principal | Refuse nat string

text \<open>\<open>existing\<close> is the principal an earlier guard of the same request stored.\<close>

definition authenticatePrincipal ::
    "(string \<Rightarrow> store_error + principal option) \<Rightarrow> principal option \<Rightarrow> string option \<Rightarrow> guard_answer" where
  "authenticatePrincipal authenticate existing header =
     (case existing of Some p \<Rightarrow> Proceed p
      | None \<Rightarrow>
          (case header of None \<Rightarrow> Refuse 401 ''AUTHENTICATION_REQUIRED''
           | Some h \<Rightarrow>
               if take 7 h \<noteq> ''Bearer '' \<or> blank (drop 7 h) then Refuse 401 ''AUTHENTICATION_REQUIRED''
               else (case authenticate (js_trim (drop 7 h)) of
                   Inl e \<Rightarrow> Refuse 503 ''AUTHENTICATION_UNAVAILABLE''
                 | Inr None \<Rightarrow> Refuse 401 ''INVALID_CREDENTIAL''
                 | Inr (Some p) \<Rightarrow> Proceed p)))"

definition capability_guard ::
    "(string \<Rightarrow> store_error + principal option) \<Rightarrow> api_capability \<Rightarrow> principal option \<Rightarrow> string option
       \<Rightarrow> guard_answer" where
  "capability_guard authenticate capability existing header =
     (case authenticatePrincipal authenticate existing header of
        Refuse n e \<Rightarrow> Refuse n e
      | Proceed p \<Rightarrow>
          if Known capability \<in> set (pc_capabilities p) then Proceed p
          else Refuse 403 ''INSUFFICIENT_CAPABILITY'')"

section \<open>Sessions over HTTP\<close>

definition max_human_session_ms :: int where
  "max_human_session_ms = 24 * 60 * 60 * 1000"

fun human_role_of :: "service_account_role option \<Rightarrow> human_role" where
  "human_role_of (Some Role_admin) = Human_owner"
| "human_role_of (Some Role_operator) = Human_member"
| "human_role_of _ = Human_viewer"

datatype session_answer = SessionCreated string string string int | SessionRefused nat string

text \<open>
  \<open>POST /api/v1/session\<close> after the guard and the rate limit. \<open>expiry\<close> is the instant of the request's
  \<open>expiresAt\<close>, \<open>None\<close> when the body does not have one; \<open>now\<close> is the clock.
\<close>

definition post_session ::
    "(string \<Rightarrow> string) \<Rightarrow> nat list \<Rightarrow> principal \<Rightarrow> int option \<Rightarrow> int \<Rightarrow> identity_db
       \<Rightarrow> identity_db \<times> session_answer" where
  "post_session sha secret p expiry now d =
     (if pc_type p \<noteq> Service_credential \<or> take 3 (pc_credentialId p) = ''hs_''
        then (d, SessionRefused 403 ''SERVICE_ACCOUNT_SESSION_ISSUER_REQUIRED'')
      else case expiry of
        None \<Rightarrow> (d, SessionRefused 400 ''INVALID_SESSION_REQUEST'')
      | Some e \<Rightarrow>
          if e - now > max_human_session_ms then (d, SessionRefused 400 ''SESSION_EXPIRY_TOO_LONG'')
          else (case and_then (createHumanSession sha secret
              \<lparr>hi_workspaceId = pc_organizationId p, hi_userId = pc_id p,
               hi_sourceCredentialId = pc_credentialId p, hi_sourceCredentialType = Some (pc_type p),
               hi_role = human_role_of (pc_role p), hi_createdAt = Instant now, hi_expiresAt = Instant e\<rparr>)
              (\<lambda>(token, r). and_then (put_session r d) (\<lambda>d'. Inr (d', token, r))) of
            Inl x \<Rightarrow> (d, SessionRefused 503 ''SESSION_UNAVAILABLE'')
          | Inr (d', token, r) \<Rightarrow>
              (d', SessionCreated token (hs_id r) (hs_workspaceId r) (hs_expiresAt r))))"

text \<open>\<open>DELETE /api/v1/session\<close>; \<open>None\<close> is 204. The resolution and the revocation are two transactions.\<close>

definition delete_session_check ::
    "(string \<Rightarrow> string) \<Rightarrow> string option \<Rightarrow> int \<Rightarrow> identity_db \<Rightarrow> (nat \<times> string) option" where
  "delete_session_check sha header now d =
     (let token = (case header of None \<Rightarrow> [] | Some h \<Rightarrow> if take 7 h = ''Bearer '' then js_trim (drop 7 h) else [])
      in if \<not> session_token token then Some (401, ''HUMAN_SESSION_REQUIRED'')
         else case resolve_session sha token (Instant now) d of
           Inl e \<Rightarrow> Some (503, ''SESSION_UNAVAILABLE'')
         | Inr None \<Rightarrow> Some (401, ''INVALID_CREDENTIAL'')
         | Inr (Some r) \<Rightarrow> None)"

text \<open>\<open>DELETE /api/v1/admin/sessions/:sessionId\<close> after the guard.\<close>

definition delete_admin_session ::
    "principal \<Rightarrow> string \<Rightarrow> int \<Rightarrow> identity_db \<Rightarrow> identity_db \<times> (nat \<times> string) option" where
  "delete_admin_session p sid now d =
     (if pc_role p \<noteq> Some Role_admin then (d, Some (403, ''ADMIN_CAPABILITY_REQUIRED''))
      else if blank sid then (d, Some (400, ''SESSION_ID_REQUIRED''))
      else case revoke_session_by_id (js_trim sid) (pc_organizationId p) (Instant now) d of
        Inl e \<Rightarrow> (d, Some (503, ''SESSION_UNAVAILABLE''))
      | Inr (d', False) \<Rightarrow> (d', Some (404, ''SESSION_NOT_FOUND''))
      | Inr (d', True) \<Rightarrow> (d', None))"

end
