(* ===== verification/Administration.thy ===== *)
theory Administration
  imports AccessControl
begin

text \<open>
  What a principal may do to the identities of its organization:
  \<open>src/src/identity/credentialAdministration.ts\<close> and \<open>src/src/identity/workspaceInvites.ts\<close>. Each
  method checks the principal, makes the secret and calls one operation of the identity store.
\<close>

section \<open>Credential administration\<close>

definition requireServiceAccount :: "principal \<Rightarrow> api_capability \<Rightarrow> store_error option" where
  "requireServiceAccount p capability = first_error
     [(pc_type p \<noteq> Service_credential, Thrown ''SERVICE_ACCOUNT_REQUIRED''),
      (pc_role p \<noteq> Some Role_admin, Thrown ''SERVICE_ACCOUNT_ADMIN_REQUIRED''),
      (Known capability \<notin> set (pc_capabilities p), Thrown ''ADMIN_CAPABILITY_REQUIRED'')]"

definition agentCapabilities :: "capability_text list" where
  "agentCapabilities = map Known [Inference_invoke, Mandates_read, Mandates_write, Receipts_read]"

definition service_actor :: "principal \<Rightarrow> string" where
  "service_actor p = ''service_account:'' @ pc_id p"

definition admin_context :: "principal \<Rightarrow> string \<Rightarrow> timestamp \<Rightarrow> mutation_context" where
  "admin_context p rid now =
     \<lparr>ctx_actorId = service_actor p, ctx_causationId = rid, ctx_occurredAt = now\<rparr>"

text \<open>The checks every method starts with.\<close>

definition admin_request :: "principal \<Rightarrow> api_capability \<Rightarrow> string \<Rightarrow> store_error option" where
  "admin_request p capability rid =
     orElse (requireServiceAccount p capability)
       (first_error [(blank rid, Thrown ''REQUEST_ID_REQUIRED'')])"

definition admin_registerAgent ::
    "principal \<Rightarrow> string \<Rightarrow> string \<Rightarrow> string \<Rightarrow> timestamp \<Rightarrow> identity_db \<Rightarrow> store_error + identity_db" where
  "admin_registerAgent p agentId name rid now d =
     and_then (check (admin_request p Agents_write rid)) (\<lambda>_.
     registerAgent \<lparr>ri_context = admin_context p rid now, ri_id = agentId,
       ri_organizationId = pc_organizationId p, ri_name = name\<rparr> d)"

record issue_input =
  is_credentialId :: string
  is_ownerId :: string
  is_name :: string
  is_capabilities :: "capability_text list"
  is_expiresAt :: "timestamp option"
  is_requestId :: string

record issued_credential =
  ic_credentialId :: string
  ic_token :: string
  ic_tokenPrefix :: string
  ic_capabilities :: "capability_text list"
  ic_expiresAt :: "timestamp option"

definition creation_input :: "principal \<Rightarrow> issue_input \<Rightarrow> timestamp \<Rightarrow> credential_input" where
  "creation_input p i now =
     \<lparr>ci_id = is_credentialId i, ci_organizationId = pc_organizationId p, ci_ownerId = is_ownerId i,
      ci_name = is_name i, ci_capabilities = is_capabilities i, ci_createdAt = now,
      ci_expiresAt = is_expiresAt i\<rparr>"

text \<open>The texts of the errors of \<open>createApiCredential\<close> and \<open>createServiceAccountCredential\<close>.\<close>

fun credential_error_text :: "string \<Rightarrow> string \<Rightarrow> credential_error \<Rightarrow> string" where
  "credential_error_text pre owner CREDENTIAL_ID_REQUIRED = pre @ ''_ID_REQUIRED''"
| "credential_error_text pre owner CREDENTIAL_ORGANIZATION_REQUIRED = pre @ ''_ORGANIZATION_REQUIRED''"
| "credential_error_text pre owner CREDENTIAL_OWNER_REQUIRED = pre @ owner"
| "credential_error_text pre owner CREDENTIAL_NAME_REQUIRED = pre @ ''_NAME_REQUIRED''"
| "credential_error_text pre owner CREDENTIAL_CREATED_AT_INVALID = pre @ ''_CREATED_AT_INVALID''"
| "credential_error_text pre owner CREDENTIAL_CAPABILITY_INVALID = pre @ ''_CAPABILITY_INVALID''"
| "credential_error_text pre owner CREDENTIAL_EXPIRY_INVALID = pre @ ''_EXPIRY_INVALID''"
| "credential_error_text pre owner CREDENTIAL_ENTROPY_INSUFFICIENT = pre @ ''_ENTROPY_INSUFFICIENT''"

definition thrown_creation ::
    "string \<Rightarrow> string \<Rightarrow> credential_error + 'a \<Rightarrow> store_error + 'a" where
  "thrown_creation pre owner r =
     (case r of Inl e \<Rightarrow> Inl (Thrown (credential_error_text pre owner e)) | Inr x \<Rightarrow> Inr x)"

definition issued_of :: "string \<Rightarrow> credential_record \<Rightarrow> issued_credential" where
  "issued_of token c =
     \<lparr>ic_credentialId = cred_id c, ic_token = token, ic_tokenPrefix = cred_tokenPrefix c,
      ic_capabilities = cred_capabilities c, ic_expiresAt = cred_expiresAt c\<rparr>"

definition issueAgentCredential ::
    "(string \<Rightarrow> string) \<Rightarrow> nat list \<Rightarrow> principal \<Rightarrow> issue_input \<Rightarrow> timestamp \<Rightarrow> identity_db
       \<Rightarrow> store_error + (identity_db \<times> issued_credential)" where
  "issueAgentCredential sha secret p i now d =
     and_then (check (orElse (admin_request p Credentials_issue (is_requestId i)) (first_error
       [(is_capabilities i = [] \<or> list_ex (\<lambda>k. k \<notin> set agentCapabilities) (is_capabilities i),
         Thrown ''AGENT_CREDENTIAL_CAPABILITY_INVALID'')]))) (\<lambda>_.
     and_then (thrown_creation ''API_CREDENTIAL'' ''_AGENT_REQUIRED''
         (createApiCredential sha secret (creation_input p i now))) (\<lambda>(token, c).
     and_then (issueCredential c (admin_context p (is_requestId i) now) d) (\<lambda>d'.
     Inr (d', issued_of token c))))"

definition revokeAgentCredential ::
    "principal \<Rightarrow> string \<Rightarrow> string \<Rightarrow> timestamp \<Rightarrow> identity_db \<Rightarrow> store_error + identity_db" where
  "revokeAgentCredential p cid rid now d =
     and_then (check (admin_request p Credentials_revoke rid)) (\<lambda>_.
     revokeCredential (pc_organizationId p) cid (admin_context p rid now) d)"

definition admin_issueServiceAccountCredential ::
    "(string \<Rightarrow> string) \<Rightarrow> nat list \<Rightarrow> principal \<Rightarrow> issue_input \<Rightarrow> timestamp \<Rightarrow> identity_db
       \<Rightarrow> store_error + (identity_db \<times> issued_credential)" where
  "admin_issueServiceAccountCredential sha secret p i now d =
     and_then (check (admin_request p Credentials_issue (is_requestId i))) (\<lambda>_.
     and_then (thrown_creation ''SERVICE_CREDENTIAL'' ''_ACCOUNT_REQUIRED''
         (createServiceAccountCredential sha secret (creation_input p i now))) (\<lambda>(token, c).
     and_then (issueServiceAccountCredential c (admin_context p (is_requestId i) now) d) (\<lambda>d'.
     Inr (d', issued_of token c))))"

definition admin_revokeServiceAccountCredential ::
    "principal \<Rightarrow> string \<Rightarrow> string \<Rightarrow> timestamp \<Rightarrow> identity_db \<Rightarrow> store_error + identity_db" where
  "admin_revokeServiceAccountCredential p cid rid now d =
     and_then (check (admin_request p Credentials_revoke rid)) (\<lambda>_.
     revokeServiceAccountCredential (pc_organizationId p) cid (admin_context p rid now) d)"

section \<open>Workspace invites\<close>

definition invite_lifetime_ms :: int where
  "invite_lifetime_ms = 7 * 24 * 60 * 60 * 1000"

fun session_role_for_invite :: "invite_role \<Rightarrow> human_role" where
  "session_role_for_invite Invite_admin = Human_owner"
| "session_role_for_invite Invite_operator = Human_member"
| "session_role_for_invite Invite_viewer = Human_viewer"

record invite_request =
  iq_email :: string
  iq_name :: string
  iq_role :: string
  iq_requestId :: string

record issued_invite =
  ix_inviteId :: string
  ix_workspaceId :: string
  ix_email :: string
  ix_name :: string
  ix_role :: string
  ix_inviteToken :: string
  ix_expiresAt :: int

definition invite_admin_error :: "principal \<Rightarrow> string \<Rightarrow> store_error option" where
  "invite_admin_error p rid = first_error
     [(pc_type p \<noteq> Service_credential \<or> pc_role p \<noteq> Some Role_admin, Thrown ''SERVICE_ACCOUNT_ADMIN_REQUIRED''),
      (blank rid, Thrown ''REQUEST_ID_REQUIRED'')]"

definition source_type :: "principal \<Rightarrow> credential_type" where
  "source_type p = (case pc_sourceCredentialType p of None \<Rightarrow> Service_credential | Some t \<Rightarrow> t)"

definition source_credential :: "principal \<Rightarrow> string" where
  "source_credential p = (case pc_sourceCredentialId p of None \<Rightarrow> pc_credentialId p | Some c \<Rightarrow> c)"

text \<open>\<open>now\<close> is the clock in milliseconds, \<open>fresh\<close> a random UUID without dashes.\<close>

definition issue_invite ::
    "(string \<Rightarrow> string) \<Rightarrow> nat list \<Rightarrow> string \<Rightarrow> principal \<Rightarrow> invite_request \<Rightarrow> int \<Rightarrow> identity_db
       \<Rightarrow> store_error + (identity_db \<times> issued_invite)" where
  "issue_invite sha secret fresh p q now d =
     and_then (check (orElse (invite_admin_error p (iq_requestId q)) (first_error
       [(source_type p \<noteq> Service_credential, Thrown ''SERVICE_ACCOUNT_SOURCE_REQUIRED''),
        (length secret < 32, Thrown ''WORKSPACE_INVITE_ENTROPY_INSUFFICIENT'')]))) (\<lambda>_.
     let token = ''fuse_wi_'' @ base64url secret; inviteId = ''wsi_'' @ fresh;
         expires = now + invite_lifetime_ms
     in and_then (createWorkspaceInvite
          \<lparr>ii_context = admin_context p (iq_requestId q) (Instant now), ii_id = inviteId,
           ii_organizationId = pc_organizationId p, ii_email = iq_email q, ii_name = iq_name q,
           ii_role = iq_role q, ii_sourceCredentialId = source_credential p,
           ii_tokenHash = hashApiToken sha token, ii_createdAt = Instant now,
           ii_expiresAt = Instant expires\<rparr> d) (\<lambda>d'.
        Inr (d', \<lparr>ix_inviteId = inviteId, ix_workspaceId = pc_organizationId p,
          ix_email = normal_email (iq_email q), ix_name = js_trim (iq_name q), ix_role = iq_role q,
          ix_inviteToken = token, ix_expiresAt = expires\<rparr>)))"

definition list_invites :: "string \<Rightarrow> identity_db \<Rightarrow> store_error + invite_summary list" where
  "list_invites ws d = listWorkspaceInvites ws d"

definition revoke_invite ::
    "principal \<Rightarrow> string \<Rightarrow> string \<Rightarrow> timestamp \<Rightarrow> identity_db \<Rightarrow> store_error + identity_db" where
  "revoke_invite p inviteId rid now d =
     and_then (check (invite_admin_error p rid)) (\<lambda>_.
     and_then (revokeWorkspaceInvite (pc_organizationId p) inviteId (admin_context p rid now) d)
       (\<lambda>(d', revoked). if revoked then Inr d' else Inl (Thrown ''WORKSPACE_INVITE_NOT_ACTIVE'')))"

record accepted_invite =
  ax_sessionToken :: string
  ax_sessionId :: string
  ax_workspaceId :: string
  ax_userId :: string
  ax_role :: invite_role
  ax_expiresAt :: int

text \<open>
  \<open>accept\<close> is two transactions: it consumes the invite, then stores a session that ends with the
  invite or after a day, whichever is first.
\<close>

definition accept_token_error :: "string \<Rightarrow> store_error option" where
  "accept_token_error token = first_error
     [(\<not> prefixed_token ''fuse_wi_'' 32 128 (js_trim token), Thrown ''WORKSPACE_INVITE_INVALID'')]"

definition session_for_invite ::
    "(string \<Rightarrow> string) \<Rightarrow> nat list \<Rightarrow> consumed_invite \<Rightarrow> int \<Rightarrow> store_error + (string \<times> session_row)" where
  "session_for_invite sha secret v now =
     createHumanSession sha secret
       \<lparr>hi_workspaceId = cv_workspaceId v, hi_userId = cv_userId v,
        hi_sourceCredentialId = cv_sourceCredentialId v,
        hi_sourceCredentialType = Some (cv_sourceCredentialType v),
        hi_role = session_role_for_invite (cv_role v), hi_createdAt = Instant now,
        hi_expiresAt = Instant (min (now + max_human_session_ms) (cv_expiresAt v))\<rparr>"

definition accept_invite_token ::
    "(string \<Rightarrow> string) \<Rightarrow> string \<Rightarrow> string \<Rightarrow> int \<Rightarrow> identity_db
       \<Rightarrow> store_error + (identity_db \<times> consumed_invite)" where
  "accept_invite_token sha fresh token now d =
     and_then (check (accept_token_error token)) (\<lambda>_.
     and_then (consumeWorkspaceInvite fresh (hashApiToken sha token) (Instant now) d) (\<lambda>(d', v).
     case v of None \<Rightarrow> Inl (Thrown ''WORKSPACE_INVITE_INVALID'') | Some x \<Rightarrow> Inr (d', x)))"

definition open_invite_session ::
    "(string \<Rightarrow> string) \<Rightarrow> nat list \<Rightarrow> consumed_invite \<Rightarrow> int \<Rightarrow> identity_db
       \<Rightarrow> store_error + (identity_db \<times> accepted_invite)" where
  "open_invite_session sha secret v now d =
     and_then (session_for_invite sha secret v now) (\<lambda>(token, r).
     and_then (put_session r d) (\<lambda>d'.
     Inr (d', \<lparr>ax_sessionToken = token, ax_sessionId = hs_id r, ax_workspaceId = cv_workspaceId v,
       ax_userId = cv_userId v, ax_role = cv_role v, ax_expiresAt = hs_expiresAt r\<rparr>)))"

end
