(* ===== verification/IdentityRun.thy ===== *)
theory IdentityRun
  imports Administration
begin

text \<open>
  The identity database as one transactional state machine: every writing operation of
  \<open>src/src/persistence/identityStore.ts\<close> and of the session table of \<open>src/src/http/humanSessions.ts\<close> is a
  step. The invariant is what the tables hold for whatever is stored in them: keys and token hashes
  are unique, every row belongs to an organization that exists, a credential has an owner, only known
  capabilities, and never more than the role of its service account allows.
\<close>

section \<open>Steps\<close>

datatype identity_op =
    IdCreateOrganization organization_input
  | IdBootstrap bootstrap_input
  | IdAddUser user_input
  | IdCreateInvite invite_input
  | IdRevokeInvite string string mutation_context
  | IdConsumeInvite string string timestamp
  | IdCreateAccount account_input
  | IdIssueService credential_record mutation_context
  | IdRevokeService string string mutation_context
  | IdRegisterAgent agent_input
  | IdIssueAgent credential_record mutation_context
  | IdRevokeAgent string string mutation_context
  | IdRotate rotation_input
  | IdPutSession session_row
  | IdRevokeSession string timestamp
  | IdRevokeSessionById string string timestamp

datatype identity_answer =
    Done | Flag bool | Consumed "consumed_invite option" | Rotated string string

definition plain_answer :: "store_error + identity_db \<Rightarrow> store_error + (identity_db \<times> identity_answer)" where
  "plain_answer r = and_then r (\<lambda>d. Inr (d, Done))"

fun identity_step ::
    "(string \<Rightarrow> string) \<Rightarrow> identity_op \<Rightarrow> identity_db \<Rightarrow> store_error + (identity_db \<times> identity_answer)" where
  "identity_step sha (IdCreateOrganization i) d = plain_answer (createOrganization i d)"
| "identity_step sha (IdBootstrap i) d = plain_answer (bootstrapServiceAccount i d)"
| "identity_step sha (IdAddUser i) d = plain_answer (addOrganizationUser i d)"
| "identity_step sha (IdCreateInvite i) d = plain_answer (createWorkspaceInvite i d)"
| "identity_step sha (IdRevokeInvite org iid x) d =
     and_then (revokeWorkspaceInvite org iid x d) (\<lambda>(d', b). Inr (d', Flag b))"
| "identity_step sha (IdConsumeInvite fresh h now) d =
     and_then (consumeWorkspaceInvite fresh h now d) (\<lambda>(d', v). Inr (d', Consumed v))"
| "identity_step sha (IdCreateAccount i) d = plain_answer (createServiceAccount i d)"
| "identity_step sha (IdIssueService c x) d = plain_answer (issueServiceAccountCredential c x d)"
| "identity_step sha (IdRevokeService org cid x) d = plain_answer (revokeServiceAccountCredential org cid x d)"
| "identity_step sha (IdRegisterAgent i) d = plain_answer (registerAgent i d)"
| "identity_step sha (IdIssueAgent c x) d = plain_answer (issueCredential c x d)"
| "identity_step sha (IdRevokeAgent org cid x) d = plain_answer (revokeCredential org cid x d)"
| "identity_step sha (IdRotate i) d =
     and_then (rotateAgentCredentialWithRecovery i d) (\<lambda>(d', a, p). Inr (d', Rotated a p))"
| "identity_step sha (IdPutSession r) d = plain_answer (put_session r d)"
| "identity_step sha (IdRevokeSession token t) d = plain_answer (revoke_session sha token t d)"
| "identity_step sha (IdRevokeSessionById sid ws t) d =
     and_then (revoke_session_by_id sid ws t d) (\<lambda>(d', b). Inr (d', Flag b))"

lemma plain_answer_Inr: "plain_answer r = Inr (d', a) \<longleftrightarrow> r = Inr d' \<and> a = Done"
  by (cases r) (auto simp: plain_answer_def)

section \<open>The invariant\<close>

definition credential_row_ok :: "credential_row \<Rightarrow> bool" where
  "credential_row_ok c \<longleftrightarrow> cr_capabilities c \<noteq> [] \<and> distinct (cr_capabilities c)
     \<and> list_all known_capability (cr_capabilities c) \<and> fingerprint_ok (cr_tokenHash c)
     \<and> (case cr_expiresAt c of None \<Rightarrow> True | Some t \<Rightarrow> cr_createdAt c < t)"

definition service_credential_ok :: "service_account_row list \<Rightarrow> credential_row \<Rightarrow> bool" where
  "service_credential_ok accounts c \<longleftrightarrow> credential_row_ok c
     \<and> (case tbl_find service_account_key (cr_organizationId c, cr_ownerId c) accounts of
          None \<Rightarrow> False
        | Some a \<Rightarrow> serviceAccountRoleAllowsCapabilities (sa_role a) (cr_capabilities c))"

definition agent_credential_ok :: "agent_row list \<Rightarrow> credential_row \<Rightarrow> bool" where
  "agent_credential_ok agents c \<longleftrightarrow> credential_row_ok c
     \<and> tbl_find agent_key (cr_organizationId c, cr_ownerId c) agents \<noteq> None"

definition invite_row_ok :: "user_row list \<Rightarrow> invite_row \<Rightarrow> bool" where
  "invite_row_ok users v \<longleftrightarrow> iv_createdAt v < iv_expiresAt v \<and> fingerprint_ok (iv_tokenHash v)
     \<and> (case iv_acceptedAt v of None \<Rightarrow> True
        | Some t \<Rightarrow> t < iv_expiresAt v \<and> iv_revokedAt v = None
            \<and> (case iv_userId v of None \<Rightarrow> False | Some u \<Rightarrow> tbl_find us_id u users \<noteq> None))"

definition in_organization :: "organization_row list \<Rightarrow> string \<Rightarrow> bool" where
  "in_organization orgs org \<longleftrightarrow> tbl_find og_id org orgs \<noteq> None"

definition unique_keys :: "identity_db \<Rightarrow> bool" where
  "unique_keys d \<longleftrightarrow> tbl_wf og_id (db_organizations d) \<and> tbl_wf us_id (db_users d)
     \<and> tbl_wf us_email (db_users d) \<and> tbl_wf membership_key (db_memberships d)
     \<and> tbl_wf iv_id (db_invites d) \<and> tbl_wf iv_tokenHash (db_invites d)
     \<and> tbl_wf service_account_key (db_serviceAccounts d) \<and> tbl_wf agent_key (db_agents d)
     \<and> tbl_wf credential_key (db_serviceCredentials d) \<and> tbl_wf cr_tokenHash (db_serviceCredentials d)
     \<and> tbl_wf credential_key (db_agentCredentials d) \<and> tbl_wf cr_tokenHash (db_agentCredentials d)
     \<and> tbl_wf hs_id (db_sessions d) \<and> tbl_wf hs_tokenHash (db_sessions d)"

definition rows_owned :: "identity_db \<Rightarrow> bool" where
  "rows_owned d \<longleftrightarrow>
     list_all (\<lambda>a. in_organization (db_organizations d) (sa_organizationId a)) (db_serviceAccounts d)
     \<and> list_all (\<lambda>a. in_organization (db_organizations d) (ag_organizationId a)) (db_agents d)
     \<and> list_all (\<lambda>v. in_organization (db_organizations d) (iv_organizationId v)) (db_invites d)
     \<and> list_all (\<lambda>m. in_organization (db_organizations d) (mb_organizationId m)
          \<and> tbl_find us_id (mb_userId m) (db_users d) \<noteq> None) (db_memberships d)"

definition rows_typed :: "identity_db \<Rightarrow> bool" where
  "rows_typed d \<longleftrightarrow>
     list_all (service_credential_ok (db_serviceAccounts d)) (db_serviceCredentials d)
     \<and> list_all (agent_credential_ok (db_agents d)) (db_agentCredentials d)
     \<and> list_all (invite_row_ok (db_users d)) (db_invites d)"

definition identity_inv :: "identity_db \<Rightarrow> bool" where
  "identity_inv d \<longleftrightarrow> unique_keys d \<and> rows_owned d \<and> rows_typed d"

lemmas identity_inv_defs = identity_inv_def unique_keys_def rows_owned_def rows_typed_def

lemma identity_inv_empty: "identity_inv empty_db"
  by (simp add: identity_inv_defs empty_db_def tbl_wf_def)

text \<open>The audit table and the sessions do not matter to the other tables.\<close>

lemma identity_inv_audit [simp]: "identity_inv (d\<lparr>db_audit := a\<rparr>) = identity_inv d"
  by (simp add: identity_inv_defs)

lemma identity_inv_operations [simp]: "identity_inv (d\<lparr>db_operations := w\<rparr>) = identity_inv d"
  by (simp add: identity_inv_defs)

lemma identity_inv_sessions:
  "identity_inv d \<Longrightarrow> tbl_wf hs_id ss \<Longrightarrow> tbl_wf hs_tokenHash ss \<Longrightarrow> identity_inv (d\<lparr>db_sessions := ss\<rparr>)"
  by (simp add: identity_inv_defs)

lemma audit_step:
  "appendIdentityAudit org ty i act p c d = Inr d' \<Longrightarrow> identity_inv d' = identity_inv d"
  by (auto dest: appendIdentityAudit_Inr)

section \<open>Tables that grow\<close>

lemma tbl_wf_snoc: "tbl_wf key (rows @ [r]) \<longleftrightarrow> tbl_wf key rows \<and> key r \<notin> key ` set rows"
  by (auto simp: tbl_wf_def)

lemma find_snoc_Some: "tbl_find key k rows = Some x \<Longrightarrow> tbl_find key k (rows @ [r]) = Some x"
  by (simp add: tbl_find_append)

lemma find_snoc_known: "tbl_find key k rows \<noteq> None \<Longrightarrow> tbl_find key k (rows @ [r]) \<noteq> None"
  by (auto simp: tbl_find_append)

lemma service_credential_ok_snoc:
  "service_credential_ok accounts c \<Longrightarrow> service_credential_ok (accounts @ [a]) c"
  by (auto simp: service_credential_ok_def find_snoc_Some split: option.splits)

lemma agent_credential_ok_snoc: "agent_credential_ok agents c \<Longrightarrow> agent_credential_ok (agents @ [a]) c"
  by (auto simp: agent_credential_ok_def find_snoc_Some)

lemma invite_row_ok_snoc: "invite_row_ok users v \<Longrightarrow> invite_row_ok (users @ [u]) v"
  by (auto simp: invite_row_ok_def find_snoc_Some split: option.splits)

lemma in_organization_snoc: "in_organization orgs org \<Longrightarrow> in_organization (orgs @ [x]) org"
  by (auto simp: in_organization_def find_snoc_Some)

lemma organization_known_iff: "organization_known org d \<longleftrightarrow> in_organization (db_organizations d) org"
  by (simp add: organization_known_def in_organization_def)

lemmas grow_rules = service_credential_ok_snoc agent_credential_ok_snoc invite_row_ok_snoc in_organization_snoc

lemma list_all_mono: "list_all P xs \<Longrightarrow> (\<And>x. P x \<Longrightarrow> Q x) \<Longrightarrow> list_all Q xs"
  by (auto simp: list_all_iff)

lemma inv_add_organization:
  assumes "identity_inv d" "og_id r \<notin> og_id ` set (db_organizations d)"
  shows "identity_inv (d\<lparr>db_organizations := db_organizations d @ [r]\<rparr>)"
  using assms by (auto simp: identity_inv_defs tbl_wf_snoc list_all_iff intro: in_organization_snoc)

lemma inv_add_user:
  assumes "identity_inv d" "us_id r \<notin> us_id ` set (db_users d)" "us_email r \<notin> us_email ` set (db_users d)"
  shows "identity_inv (d\<lparr>db_users := db_users d @ [r]\<rparr>)"
  using assms by (auto simp: identity_inv_defs tbl_wf_snoc list_all_iff find_snoc_known intro: invite_row_ok_snoc)

lemma inv_add_account:
  assumes "identity_inv d" "service_account_key r \<notin> service_account_key ` set (db_serviceAccounts d)"
    and "in_organization (db_organizations d) (sa_organizationId r)"
  shows "identity_inv (d\<lparr>db_serviceAccounts := db_serviceAccounts d @ [r]\<rparr>)"
  using assms by (auto simp: identity_inv_defs tbl_wf_snoc list_all_iff intro: service_credential_ok_snoc)

lemma inv_add_agent:
  assumes "identity_inv d" "agent_key r \<notin> agent_key ` set (db_agents d)"
    and "in_organization (db_organizations d) (ag_organizationId r)"
  shows "identity_inv (d\<lparr>db_agents := db_agents d @ [r]\<rparr>)"
  using assms by (auto simp: identity_inv_defs tbl_wf_snoc list_all_iff intro: agent_credential_ok_snoc)

lemma inv_add_service_credential:
  assumes "identity_inv d" "service_credential_ok (db_serviceAccounts d) r"
    and "credential_key r \<notin> credential_key ` set (db_serviceCredentials d)"
    and "cr_tokenHash r \<notin> cr_tokenHash ` set (db_serviceCredentials d)"
  shows "identity_inv (d\<lparr>db_serviceCredentials := db_serviceCredentials d @ [r]\<rparr>)"
  using assms by (auto simp: identity_inv_defs tbl_wf_snoc)

lemma inv_add_agent_credential:
  assumes "identity_inv d" "agent_credential_ok (db_agents d) r"
    and "credential_key r \<notin> credential_key ` set (db_agentCredentials d)"
    and "cr_tokenHash r \<notin> cr_tokenHash ` set (db_agentCredentials d)"
  shows "identity_inv (d\<lparr>db_agentCredentials := db_agentCredentials d @ [r]\<rparr>)"
  using assms by (auto simp: identity_inv_defs tbl_wf_snoc)

lemma inv_add_invite:
  assumes "identity_inv d" "invite_row_ok (db_users d) r"
    and "iv_id r \<notin> iv_id ` set (db_invites d)" "iv_tokenHash r \<notin> iv_tokenHash ` set (db_invites d)"
    and "in_organization (db_organizations d) (iv_organizationId r)"
  shows "identity_inv (d\<lparr>db_invites := db_invites d @ [r]\<rparr>)"
  using assms by (auto simp: identity_inv_defs tbl_wf_snoc)

end
