(* ===== verification/IdentityInvariant.thy ===== *)
theory IdentityInvariant
  imports IdentityRun
begin

text \<open>
  Every step of the identity database (\<open>src/src/persistence/identityStore.ts\<close>,
  \<open>src/src/http/humanSessions.ts\<close>) keeps its invariant, so it holds in every state a sequence of
  operations reaches from empty tables.
\<close>

section \<open>Inserts\<close>

lemma insert_organization_inv:
  "identity_inv d \<Longrightarrow> insert_organization org name c d = Inr d' \<Longrightarrow> identity_inv d'"
  by (auto simp: insert_organization_def and_then_Inr_iff insert_row_appends audit_step
      dest!: audit_step intro!: inv_add_organization)

lemma insert_account_inv:
  "identity_inv d \<Longrightarrow> insert_account org i n role t c d = Inr d' \<Longrightarrow> identity_inv d'"
  by (auto simp: insert_account_def and_then_Inr_iff insert_row_appends organization_known_iff
      split: if_splits dest!: audit_step intro!: inv_add_account)

lemma credentialMaterial_None:
  "credentialMaterial pre c = None \<longleftrightarrow> prefixed_token ''fuse_sk_'' 12 12 (cred_tokenPrefix c)
     \<and> fingerprint_ok (cred_tokenHash c) \<and> \<not> bad_time (cred_createdAt c)
     \<and> (case cred_expiresAt c of None \<Rightarrow> True
        | Some t \<Rightarrow> \<not> bad_time t \<and> \<not> time_le t (cred_createdAt c))
     \<and> cred_revokedAt c = None \<and> distinct (cred_capabilities c)
     \<and> cred_capabilities c \<noteq> [] \<and> list_all known_capability (cred_capabilities c)"
  by (auto simp: credentialMaterial_def first_error_None_simps first_error.simps(1) list_ex_iff list_all_iff
      split: option.splits simp del: first_error.simps(2))

lemma credential_columns_Inr:
  "credential_columns c = Inr r \<longleftrightarrow> (\<exists>t. cred_createdAt c = Instant t
     \<and> r = \<lparr>cr_id = cred_id c, cr_organizationId = cred_organizationId c, cr_ownerId = cred_ownerId c,
          cr_name = cred_name c, cr_tokenPrefix = cred_tokenPrefix c, cr_tokenHash = cred_tokenHash c,
          cr_capabilities = cred_capabilities c, cr_createdAt = t,
          cr_expiresAt = optional_time (cred_expiresAt c), cr_revokedAt = optional_time (cred_revokedAt c)\<rparr>)"
  by (cases "cred_createdAt c") (auto simp: credential_columns_def and_then_Inr_iff sql_time_def)

lemma material_row_ok:
  assumes "credentialMaterial pre c = None" "credential_columns c = Inr r"
  shows "credential_row_ok r"
proof -
  obtain t where t: "cred_createdAt c = Instant t" using assms(2) by (auto simp: credential_columns_Inr)
  have "case optional_time (cred_expiresAt c) of None \<Rightarrow> True | Some e \<Rightarrow> t < e"
  proof (cases "cred_expiresAt c")
    case (Some e)
    then show ?thesis
      using assms(1) t by (cases e) (auto simp: credentialMaterial_None optional_time_def)
  qed (simp add: optional_time_def)
  then show ?thesis
    using assms t by (auto simp: credentialMaterial_None credential_columns_Inr credential_row_ok_def
        cong: option.case_cong)
qed

lemma insert_service_credential_inv:
  assumes "identity_inv d" "credentialMaterial pre c = None"
    and "tbl_find service_account_key (cred_organizationId c, cred_ownerId c) (db_serviceAccounts d) = Some a"
    and "serviceAccountRoleAllowsCapabilities (sa_role a) (cred_capabilities c)"
    and "insert_service_credential org c x d = Inr d'"
  shows "identity_inv d'"
proof -
  obtain r where r: "credential_columns c = Inr r"
    and new: "cr_tokenHash r \<notin> cr_tokenHash ` set (db_serviceCredentials d)"
      "credential_key r \<notin> credential_key ` set (db_serviceCredentials d)"
    and d': "identity_inv d' = identity_inv (d\<lparr>db_serviceCredentials := db_serviceCredentials d @ [r]\<rparr>)"
    using assms(5)
    by (auto simp: insert_service_credential_def and_then_Inr_iff insert_unique_Inr split: if_splits
        dest!: audit_step)
  have "service_credential_ok (db_serviceAccounts d) r"
    using material_row_ok [OF assms(2) r] r assms(3,4)
    by (auto simp: service_credential_ok_def credential_columns_Inr)
  with inv_add_service_credential [OF assms(1) this new(2,1)] d' show ?thesis by simp
qed

lemma insert_agent_credential_inv:
  assumes "identity_inv d" "credentialMaterial pre c = None"
    and "insert_agent_credential rec c x d = Inr d'"
  shows "identity_inv d'"
proof -
  obtain r where r: "credential_columns c = Inr r"
    and new: "cr_tokenHash r \<notin> cr_tokenHash ` set (db_agentCredentials d)"
      "credential_key r \<notin> credential_key ` set (db_agentCredentials d)"
    and owner: "tbl_find agent_key (cred_organizationId c, cred_ownerId c) (db_agents d) \<noteq> None"
    and d': "identity_inv d' = identity_inv (d\<lparr>db_agentCredentials := db_agentCredentials d @ [r]\<rparr>)"
    using assms(3)
    by (auto simp: insert_agent_credential_def and_then_Inr_iff insert_unique_Inr split: if_splits
        dest!: audit_step)
  have "agent_credential_ok (db_agents d) r"
    using material_row_ok [OF assms(2) r] r owner by (auto simp: agent_credential_ok_def credential_columns_Inr)
  with inv_add_agent_credential [OF assms(1) this new(2,1)] d' show ?thesis by simp
qed

section \<open>Updates\<close>

lemma revoke_row_map:
  "map credential_key (revoke_row org cid now rows) = map credential_key rows"
  "map cr_tokenHash (revoke_row org cid now rows) = map cr_tokenHash rows"
  by (auto simp: revoke_row_def tbl_update_def credential_key_def)

lemma credential_ok_revoked [simp]:
  "service_credential_ok accounts (c\<lparr>cr_revokedAt := r\<rparr>) = service_credential_ok accounts c"
  "agent_credential_ok agents (c\<lparr>cr_revokedAt := r\<rparr>) = agent_credential_ok agents c"
  by (simp_all add: service_credential_ok_def agent_credential_ok_def credential_row_ok_def
      cong: option.case_cong)

lemma revoke_row_all:
  assumes "\<And>c r. P (c\<lparr>cr_revokedAt := r\<rparr>) = P c"
  shows "list_all P (revoke_row org cid now rows) = list_all P rows"
  using assms by (induction rows) (simp_all add: revoke_row_def tbl_update_def)

lemma inv_revoke_service:
  "identity_inv d \<Longrightarrow>
     identity_inv (d\<lparr>db_serviceCredentials := revoke_row org cid now (db_serviceCredentials d)\<rparr>)"
  by (simp add: identity_inv_defs tbl_wf_def revoke_row_map revoke_row_all)

lemma inv_revoke_agent:
  "identity_inv d \<Longrightarrow>
     identity_inv (d\<lparr>db_agentCredentials := revoke_row org cid now (db_agentCredentials d)\<rparr>)"
  by (simp add: identity_inv_defs tbl_wf_def revoke_row_map revoke_row_all)

lemma inv_update_invite:
  assumes inv: "identity_inv d" and v: "tbl_find iv_id i (db_invites d) = Some v"
    and keeps: "\<And>w. iv_id (f w) = iv_id w \<and> iv_tokenHash (f w) = iv_tokenHash w
      \<and> iv_organizationId (f w) = iv_organizationId w"
    and ok: "invite_row_ok (db_users d) (f v)"
  shows "identity_inv (d\<lparr>db_invites := tbl_update iv_id i f (db_invites d)\<rparr>)"
proof -
  have only: "w = v" if "w \<in> set (db_invites d)" "iv_id w = i" for w
    using that inv v tbl_find_in [of iv_id "db_invites d" w] by (auto simp: identity_inv_defs)
  have keys: "map iv_id (tbl_update iv_id i f (db_invites d)) = map iv_id (db_invites d)"
    "map iv_tokenHash (tbl_update iv_id i f (db_invites d)) = map iv_tokenHash (db_invites d)"
    by (simp_all add: tbl_update_def keeps)
  have "list_all (invite_row_ok (db_users d)) (tbl_update iv_id i f (db_invites d))"
    using inv ok only by (auto simp: list_all_iff tbl_update_def identity_inv_defs)
  moreover have "list_all (\<lambda>v. in_organization (db_organizations d) (iv_organizationId v))
      (tbl_update iv_id i f (db_invites d))"
    using inv keeps by (auto simp: list_all_iff tbl_update_def identity_inv_defs)
  ultimately show ?thesis using inv by (simp add: identity_inv_defs tbl_wf_def keys)
qed

lemma tbl_wf_keep: "map key rows' = map key rows \<Longrightarrow> tbl_wf key rows \<Longrightarrow> tbl_wf key rows'"
  by (simp add: tbl_wf_def)

lemma inv_update_session:
  assumes "identity_inv d" and "\<And>w. hs_id (f w) = hs_id w \<and> hs_tokenHash (f w) = hs_tokenHash w"
  shows "identity_inv (d\<lparr>db_sessions := tbl_update hs_id i f (db_sessions d)\<rparr>)"
proof -
  have "map hs_id (tbl_update hs_id i f (db_sessions d)) = map hs_id (db_sessions d)"
    "map hs_tokenHash (tbl_update hs_id i f (db_sessions d)) = map hs_tokenHash (db_sessions d)"
    using assms(2) by (simp_all add: tbl_update_def)
  with assms(1) show ?thesis
    by (simp add: identity_inv_defs tbl_wf_def)
qed

lemma inv_membership:
  assumes "identity_inv d" "in_organization (db_organizations d) (mb_organizationId m)"
    and "tbl_find us_id (mb_userId m) (db_users d) \<noteq> None"
  shows "identity_inv (d\<lparr>db_memberships := upsert_membership m (db_memberships d)\<rparr>)"
proof -
  let ?new = "upsert_membership m (db_memberships d)"
  have wf: "tbl_wf membership_key (db_memberships d)"
    and owned: "list_all (\<lambda>m. in_organization (db_organizations d) (mb_organizationId m)
      \<and> tbl_find us_id (mb_userId m) (db_users d) \<noteq> None) (db_memberships d)"
    using assms(1) by (simp_all add: identity_inv_defs)
  have "tbl_wf membership_key ?new"
  proof (cases "tbl_insert membership_key m (db_memberships d)")
    case None
    then show ?thesis
      using tbl_wf_update [of membership_key, OF _ wf]
      by (simp add: upsert_membership_def membership_key_def)
  next
    case (Some rows)
    with tbl_wf_insert [OF wf Some] show ?thesis by (simp add: upsert_membership_def)
  qed
  moreover have "list_all (\<lambda>m. in_organization (db_organizations d) (mb_organizationId m)
      \<and> tbl_find us_id (mb_userId m) (db_users d) \<noteq> None) ?new"
    using owned assms(2,3) by (auto simp: upsert_membership_def list_all_iff tbl_insert_Some
        tbl_update_def split: option.splits)
  ultimately show ?thesis using assms(1) by (simp add: identity_inv_defs)
qed

section \<open>Operations\<close>

lemma bootstrap_inv:
  assumes "identity_inv d" "bootstrapServiceAccount i d = Inr d'"
  shows "identity_inv d'"
proof -
  let ?c = "bi_credential i"
  obtain d1 d2 where material: "credentialMaterial ''SERVICE_CREDENTIAL'' ?c = None"
    and owner: "cred_organizationId ?c = bi_organizationId i" "cred_ownerId ?c = bi_serviceAccountId i"
    and d1: "insert_organization (bi_organizationId i) (bi_organizationName i) (bi_context i) d = Inr d1"
    and d2: "insert_account (bi_organizationId i) (bi_serviceAccountId i) (bi_serviceAccountName i)
        Role_admin ''admin'' (bi_context i) d1 = Inr d2"
    and d': "insert_service_credential (bi_organizationId i) ?c (bi_context i) d2 = Inr d'"
    using assms(2)
    by (auto simp: bootstrapServiceAccount_def and_then_Inr_iff first_error_None_simps
        simp del: first_error.simps)
  have inv2: "identity_inv d2"
    by (rule insert_account_inv [OF insert_organization_inv [OF assms(1) d1] d2])
  obtain a where a: "tbl_find service_account_key (cred_organizationId ?c, cred_ownerId ?c)
      (db_serviceAccounts d2) = Some a" "sa_role a = Role_admin"
  proof -
    obtain rows now where new: "insert_row ''service_accounts'' service_account_key
        \<lparr>sa_id = bi_serviceAccountId i, sa_organizationId = bi_organizationId i,
         sa_name = bi_serviceAccountName i, sa_role = Role_admin, sa_createdAt = now, sa_revokedAt = None\<rparr>
        (db_serviceAccounts d1) = Inr rows" and "db_serviceAccounts d2 = rows"
      using d2 by (auto simp: insert_account_def and_then_Inr_iff split: if_splits
          dest!: appendIdentityAudit_Inr)
    then show thesis
      using that tbl_find_insert [OF new [unfolded insert_row_Inr]] owner
      by (simp add: service_account_key_def)
  qed
  have "serviceAccountRoleAllowsCapabilities Role_admin (cred_capabilities ?c)"
    using material by (auto simp: credentialMaterial_None serviceAccountRoleAllowsCapabilities_def
        list_all_iff split: capability_text.splits)
  then show ?thesis
    using insert_service_credential_inv [OF inv2 material a(1) _ d'] a(2) by simp
qed

lemma issue_service_inv:
  assumes "identity_inv d" "issueServiceAccountCredential c x d = Inr d'"
  shows "identity_inv d'"
  using assms(2)
  by (auto simp: issueServiceAccountCredential_def and_then_Inr_iff split: option.splits if_splits
      intro: insert_service_credential_inv [OF assms(1)])

lemma issue_agent_inv:
  assumes "identity_inv d" "issueCredential c x d = Inr d'"
  shows "identity_inv d'"
  using assms(2)
  by (auto simp: issueCredential_def and_then_Inr_iff intro: insert_agent_credential_inv [OF assms(1)])

lemma add_user_inv:
  assumes "identity_inv d" "addOrganizationUser i d = Inr d'"
  shows "identity_inv d'"
proof -
  obtain now users members
    where u: "insert_unique ''organization_users'' us_id us_email
        \<lparr>us_id = ui_id i, us_email = normal_email (ui_email i), us_name = ui_name i, us_createdAt = now,
         us_disabledAt = None\<rparr> (db_users d) = Inr users" (is "insert_unique _ _ _ ?u _ = _")
      and m: "insert_row ''organization_memberships'' membership_key
        \<lparr>mb_organizationId = ui_organizationId i, mb_userId = ui_id i,
         mb_role = the (organization_role_of (ui_role i)), mb_createdAt = now, mb_revokedAt = None\<rparr>
        (db_memberships d) = Inr members" (is "insert_row _ _ ?m _ = _")
      and org: "in_organization (db_organizations d) (ui_organizationId i)"
      and d': "\<exists>a. d' = d\<lparr>db_users := users, db_memberships := members, db_audit := a\<rparr>"
    using assms(2)
    by (auto simp: addOrganizationUser_def Let_def and_then_Inr_iff organization_known_iff
        split: if_splits dest!: appendIdentityAudit_Inr)
  let ?d = "d\<lparr>db_users := db_users d @ [?u]\<rparr>"
  have "upsert_membership ?m (db_memberships ?d) = members"
    using m by (simp add: upsert_membership_def insert_row_Inr)
  moreover have "tbl_find us_id (mb_userId ?m) (db_users ?d) \<noteq> None"
    by (auto simp: tbl_find_None_iff)
  moreover have "identity_inv ?d" "users = db_users d @ [?u]"
    using u by (auto simp: insert_unique_Inr intro!: inv_add_user assms(1))
  ultimately show ?thesis using inv_membership [of ?d ?m] org d' by auto
qed

lemma register_agent_inv:
  "identity_inv d \<Longrightarrow> registerAgent i d = Inr d' \<Longrightarrow> identity_inv d'"
  by (auto simp: registerAgent_def and_then_Inr_iff insert_row_appends organization_known_iff
      split: if_splits dest!: audit_step intro!: inv_add_agent)

lemma create_invite_inv:
  assumes "identity_inv d" "createWorkspaceInvite i d = Inr d'"
  shows "identity_inv d'"
proof -
  obtain created expires where ok: "invite_error i = None"
    and times: "ii_createdAt i = Instant created" "ii_expiresAt i = Instant expires"
    and more: "and_then (insert_unique ''workspace_invites'' iv_id iv_tokenHash
          \<lparr>iv_id = ii_id i, iv_organizationId = ii_organizationId i, iv_email = normal_email (ii_email i),
           iv_name = js_trim (ii_name i), iv_role = the (invite_role_of (ii_role i)),
           iv_sourceCredentialId = ii_sourceCredentialId i, iv_sourceCredentialType = Service_credential,
           iv_tokenHash = ii_tokenHash i, iv_createdAt = created, iv_expiresAt = expires,
           iv_userId = None, iv_acceptedAt = None, iv_revokedAt = None\<rparr> (db_invites d)) (\<lambda>rows.
        if \<not> organization_known (ii_organizationId i) d then Inl (ForeignKeyViolation ''organizations'')
        else appendIdentityAudit (ii_organizationId i) ''workspace_invite'' (ii_id i) ''workspace_invite.created''
            (JObj [(''email'', JStr (normal_email (ii_email i))), (''name'', JStr (js_trim (ii_name i))),
                   (''role'', JStr (ii_role i)), (''expiresAt'', JStr (toISOString expires))])
            (ii_context i) (d\<lparr>db_invites := rows\<rparr>)) = Inr d'"
    using assms(2)
    by (cases "ii_createdAt i"; cases "ii_expiresAt i")
      (auto simp: createWorkspaceInvite_def and_then_Inr_iff sql_time_def)
  have "created < expires" "fingerprint_ok (ii_tokenHash i)"
    using ok times by (auto simp: invite_error_def first_error_None_simps simp del: first_error.simps)
  with more assms(1) show ?thesis
    by (auto simp: and_then_Inr_iff insert_unique_Inr organization_known_iff invite_row_ok_def
        split: if_splits dest!: audit_step intro!: inv_add_invite)
qed

lemma invite_member:
  "identity_inv d \<Longrightarrow> v \<in> set (db_invites d) \<Longrightarrow>
     invite_row_ok (db_users d) v \<and> in_organization (db_organizations d) (iv_organizationId v)
     \<and> tbl_find iv_id (iv_id v) (db_invites d) = Some v"
  by (auto simp: identity_inv_defs list_all_iff intro: tbl_find_in)

lemma revoke_invite_inv:
  assumes "identity_inv d" "revokeWorkspaceInvite org iid x d = Inr (d', b)"
  shows "identity_inv d'"
proof (cases "d' = d")
  case False
  with assms(2) obtain v now where v: "tbl_find iv_id iid (db_invites d) = Some v" "invite_open v"
    and d': "identity_inv d' = identity_inv (d\<lparr>db_invites :=
        tbl_update iv_id iid (\<lambda>v. v\<lparr>iv_revokedAt := Some now\<rparr>) (db_invites d)\<rparr>)"
    by (auto simp: revokeWorkspaceInvite_def and_then_Inr_iff split: option.splits if_splits
        dest!: audit_step)
  have "invite_row_ok (db_users d) v"
    using invite_member [OF assms(1)] tbl_find_SomeD [OF v(1)] by blast
  with v(2) have "invite_row_ok (db_users d) (v\<lparr>iv_revokedAt := Some now\<rparr>)"
    by (simp add: invite_row_ok_def invite_open_def)
  with inv_update_invite [OF assms(1) v(1), of "\<lambda>v. v\<lparr>iv_revokedAt := Some now\<rparr>"] d' show ?thesis by simp
qed (use assms in simp)

lemma invite_user_inv:
  assumes "identity_inv d" "invite_user fresh now v d = Inr (users, u)"
  shows "identity_inv (d\<lparr>db_users := users\<rparr>) \<and> tbl_find us_id u users \<noteq> None"
proof (cases "find (\<lambda>u. us_email u = iv_email v) (db_users d)")
  case None
  then have "iv_email v \<notin> us_email ` set (db_users d)" by (auto simp: find_None_iff)
  with None assms show ?thesis
    by (auto simp: invite_user_def and_then_Inr_iff insert_row_appends tbl_find_None_iff
        intro!: inv_add_user)
next
  case (Some w)
  then have "users = db_users d" "u = us_id w" "w \<in> set (db_users d)"
    using assms(2) find_SomeD [OF Some] by (simp_all add: invite_user_def)
  with assms(1) show ?thesis by (auto simp: tbl_find_None_iff)
qed

lemma accept_invite_inv:
  assumes "identity_inv d" "v \<in> set (db_invites d)" "invite_open v" "now < iv_expiresAt v"
    and "invite_user fresh now v d = Inr (users, u)"
  shows "identity_inv (accept_invite v u users now d)"
proof -
  let ?m = "\<lparr>mb_organizationId = iv_organizationId v, mb_userId = u, mb_role = membership_role (iv_role v),
      mb_createdAt = now, mb_revokedAt = None\<rparr>"
  let ?f = "\<lambda>r. r\<lparr>iv_userId := Some u, iv_acceptedAt := Some now\<rparr>"
  let ?d1 = "d\<lparr>db_users := users\<rparr>"
  let ?d2 = "?d1\<lparr>db_memberships := upsert_membership ?m (db_memberships ?d1)\<rparr>"
  have users: "identity_inv ?d1" "tbl_find us_id u users \<noteq> None"
    using invite_user_inv [OF assms(1,5)] by auto
  note v = invite_member [OF assms(1,2)]
  have inv2: "identity_inv ?d2"
    using inv_membership [OF users(1), of ?m] users(2) v by simp
  have "invite_row_ok users v" using invite_member [OF inv2, of v] assms(2) by simp
  then have "invite_row_ok (db_users ?d2) (?f v)"
    using assms(3,4) users(2) by (auto simp: invite_row_ok_def invite_open_def)
  moreover have "tbl_find iv_id (iv_id v) (db_invites ?d2) = Some v" using v by simp
  ultimately show ?thesis
    using inv_update_invite [OF inv2, of "iv_id v" v ?f] by (simp add: accept_invite_def)
qed

lemma consume_invite_cases:
  assumes "consumeWorkspaceInvite fresh h now d = Inr (d', r)"
  obtains "r = None" "d' = d"
  | v nowMs users u where "now = Instant nowMs" "v \<in> set (db_invites d)" "iv_tokenHash v = h"
      "invite_open v" "nowMs < iv_expiresAt v" "invite_user fresh nowMs v d = Inr (users, u)"
      "\<exists>a. d' = (accept_invite v u users nowMs d)\<lparr>db_audit := db_audit d @ [a]\<rparr>"
      "r = Some \<lparr>cv_workspaceId = iv_organizationId v, cv_userId = u, cv_role = iv_role v,
            cv_sourceCredentialId = iv_sourceCredentialId v,
            cv_sourceCredentialType = iv_sourceCredentialType v, cv_expiresAt = iv_expiresAt v\<rparr>"
proof (cases now)
  case (NotATime t)
  with assms show ?thesis by (auto simp: consumeWorkspaceInvite_def and_then_Inr_iff sql_time_def)
next
  case (Instant ms)
  show ?thesis
  proof (cases "find (\<lambda>v. iv_tokenHash v = h \<and> invite_open v \<and> ms < iv_expiresAt v) (db_invites d)")
    case None
    with assms Instant that(1) show ?thesis
      by (auto simp: consumeWorkspaceInvite_def and_then_Inr_iff sql_time_def)
  next
    case (Some v)
    then have v: "v \<in> set (db_invites d)" "iv_tokenHash v = h" "invite_open v" "ms < iv_expiresAt v"
      using find_SomeD [OF Some] by simp_all
    from assms Instant Some obtain users u where
      "invite_user fresh ms v d = Inr (users, u)"
      and audit: "appendIdentityAudit (iv_organizationId v) ''workspace_invite'' (iv_id v)
         ''workspace_invite.accepted''
         (JObj [(''userId'', JStr u), (''email'', JStr (iv_email v)),
                (''role'', JStr (invite_role_text (iv_role v)))])
         \<lparr>ctx_actorId = ''organization_user:'' @ u, ctx_causationId = iv_id v, ctx_occurredAt = Instant ms\<rparr>
         (accept_invite v u users ms d) = Inr d'"
      and "r = Some \<lparr>cv_workspaceId = iv_organizationId v, cv_userId = u, cv_role = iv_role v,
            cv_sourceCredentialId = iv_sourceCredentialId v,
            cv_sourceCredentialType = iv_sourceCredentialType v, cv_expiresAt = iv_expiresAt v\<rparr>"
      by (auto simp: consumeWorkspaceInvite_def and_then_Inr_iff sql_time_def)
    moreover have "\<exists>a. d' = (accept_invite v u users ms d)\<lparr>db_audit := db_audit d @ [a]\<rparr>"
      using appendIdentityAudit_Inr [OF audit] by (auto simp: accept_invite_def)
    ultimately show ?thesis using that(2) [OF Instant v] by blast
  qed
qed

lemma consume_invite_inv:
  assumes "identity_inv d" "consumeWorkspaceInvite fresh h now d = Inr (d', r)"
  shows "identity_inv d'"
  using assms(2)
proof (cases rule: consume_invite_cases)
  case (2 v nowMs users u)
  with accept_invite_inv [OF assms(1) 2(2,4,5,6)] show ?thesis by auto
qed (use assms(1) in simp)

lemma rotate_cases:
  assumes "rotateAgentCredentialWithRecovery i d = Inr (d', a, p)"
  obtains w now d1 where "rotation_error i = None" "ctx_occurredAt (ro_context i) = Instant now"
    "w \<in> set (db_operations d)" "recoverable (ro_workspaceId i) (ro_recoveryCodeHash i) w"
    "op_identifier ''agentId'' w = Some a" "op_identifier ''agentCredentialId'' w = Some p"
    "cred_ownerId (ro_replacement i) = a" "cred_id (ro_replacement i) \<noteq> p"
    "length (filter (recoverable (ro_workspaceId i) (ro_recoveryCodeHash i)) (db_operations d)) = 1"
    "insert_agent_credential True (ro_replacement i) (ro_context i)
       (d\<lparr>db_operations := map (consume_recovery i now) (db_operations d)\<rparr>) = Inr d1"
    "revoke_previous i a p now d1 = Inr d'"
proof -
  have truthy_Some: "truthy t = Some x \<Longrightarrow> t = Some x" for t x
    by (cases t rule: truthy.cases) auto
  obtain now where ok: "rotation_error i = None" and now: "sql_time (ctx_occurredAt (ro_context i)) = Inr now"
    using assms by (auto simp: rotateAgentCredentialWithRecovery_def and_then_Inr_iff)
  note rest = assms [unfolded rotateAgentCredentialWithRecovery_def, simplified ok now, simplified]
  obtain w where w: "find (recoverable (ro_workspaceId i) (ro_recoveryCodeHash i)) (db_operations d) = Some w"
    using rest by (cases "find (recoverable (ro_workspaceId i) (ro_recoveryCodeHash i)) (db_operations d)")
      (auto simp: check_def)
  obtain x y where x: "truthy (op_identifier ''agentId'' w) = Some x"
    and y: "truthy (op_identifier ''agentCredentialId'' w) = Some y"
    using rest w by (cases "truthy (op_identifier ''agentId'' w)";
        cases "truthy (op_identifier ''agentCredentialId'' w)") (auto simp: check_def)
  have time: "ctx_occurredAt (ro_context i) = Instant now"
    using now by (cases "ctx_occurredAt (ro_context i)") (auto simp: sql_time_def)
  show thesis
    using rest w x y ok find_SomeD [OF w] truthy_Some [OF x] truthy_Some [OF y]
    by (auto simp: check_def and_then_Inr_iff split: if_splits intro!: that [OF ok time])
qed

lemma rotate_inv:
  assumes "identity_inv d" "rotateAgentCredentialWithRecovery i d = Inr (d', a, p)"
  shows "identity_inv d'"
  using assms(2)
proof (cases rule: rotate_cases)
  case (1 w now d1)
  have material: "credentialMaterial ''API_CREDENTIAL'' (ro_replacement i) = None"
    using 1(1) by (auto simp: rotation_error_def Let_def)
  have "identity_inv d1"
    by (rule insert_agent_credential_inv [OF _ material 1(10)]) (simp add: assms(1))
  with 1(11) show ?thesis
    by (auto simp: revoke_previous_def split: option.splits if_splits dest!: audit_step
        intro!: inv_revoke_agent)
qed

lemma put_session_inv:
  assumes "identity_inv d" "put_session r d = Inr d'"
  shows "identity_inv d'"
proof -
  let ?ss = "map_set hs_id r (db_sessions d)"
  have free: "\<forall>x \<in> set (db_sessions d). hs_tokenHash x = hs_tokenHash r \<longrightarrow> hs_id x = hs_id r"
    and d': "identity_inv d' = identity_inv (d\<lparr>db_sessions := ?ss\<rparr>)"
    using assms(2) by (auto simp: put_session_def list_ex_iff split: if_splits)
  have wf: "tbl_wf hs_id (db_sessions d)" "tbl_wf hs_tokenHash (db_sessions d)"
    using assms(1) by (simp_all add: identity_inv_defs)
  have same: "x = y" if "x \<in> set (db_sessions d)" "y \<in> set (db_sessions d)" "hs_id x = hs_id y" for x y
    using wf(1) that by (metis session_table.member_unique)
  have "tbl_wf hs_tokenHash ?ss"
  proof (cases "hs_id r \<in> hs_id ` set (db_sessions d)")
    case True
    then obtain y where y: "y \<in> set (db_sessions d)" "hs_id y = hs_id r" by auto
    have "distinct (map (\<lambda>x. if hs_id x = hs_id r then hs_tokenHash r else hs_tokenHash x) (db_sessions d))"
      using wf free same y unfolding tbl_wf_def distinct_map
      by (auto intro!: inj_onI split: if_splits) (metis inj_on_def)+
    moreover have "map_set hs_id r (db_sessions d) = map (\<lambda>x. if hs_id x = hs_id r then r else x) (db_sessions d)"
      using True by (simp add: map_set_def tbl_insert_def tbl_find_None_iff tbl_update_def)
    ultimately show ?thesis by (simp add: tbl_wf_def o_def if_distrib cong: if_cong)
  next
    case False
    with free wf(2) show ?thesis by (auto simp: map_set_new tbl_wf_snoc intro: rev_image_eqI)
  qed
  with assms(1) d' wf(1) show ?thesis
    by (simp add: identity_inv_sessions tbl_wf_map_set)
qed

lemma revoke_session_inv:
  assumes "identity_inv d" "revoke_session sha token t d = Inr d'"
  shows "identity_inv d'"
  using assms inv_update_session [OF assms(1), of "\<lambda>x. x\<lparr>hs_revokedAt := r\<rparr>" for r]
  by (auto simp: revoke_session_def and_then_Inr_iff split: option.splits)

lemma revoke_session_by_id_inv:
  assumes "identity_inv d" "revoke_session_by_id sid ws t d = Inr (d', b)"
  shows "identity_inv d'"
  using assms inv_update_session [OF assms(1), of "\<lambda>x. x\<lparr>hs_revokedAt := r\<rparr>" for r]
  by (auto simp: revoke_session_by_id_def and_then_Inr_iff split: option.splits if_splits)

section \<open>Every step\<close>

lemma identity_step_inv:
  assumes "identity_inv d" "identity_step sha op d = Inr (d', a)"
  shows "identity_inv d'"
proof (cases op)
  case (IdCreateOrganization i)
  with assms show ?thesis
    by (auto simp: plain_answer_Inr createOrganization_def and_then_Inr_iff intro: insert_organization_inv)
next
  case (IdCreateAccount i)
  with assms show ?thesis
    by (auto simp: plain_answer_Inr createServiceAccount_def and_then_Inr_iff intro: insert_account_inv)
next
  case (IdRevokeService org cid x)
  with assms show ?thesis
    by (auto simp: plain_answer_Inr revokeServiceAccountCredential_def and_then_Inr_iff split: if_splits
        dest!: audit_step intro!: inv_revoke_service)
next
  case (IdRevokeAgent org cid x)
  with assms show ?thesis
    by (auto simp: plain_answer_Inr revokeCredential_def and_then_Inr_iff split: if_splits
        dest!: audit_step intro!: inv_revoke_agent)
qed (use assms in \<open>auto simp: plain_answer_Inr and_then_Inr_iff
    intro: bootstrap_inv add_user_inv create_invite_inv revoke_invite_inv consume_invite_inv
      issue_service_inv register_agent_inv issue_agent_inv rotate_inv put_session_inv
      revoke_session_inv revoke_session_by_id_inv\<close>)

interpretation identity: transactional "identity_step sha" "\<lambda>_ _. True" identity_inv for sha
  by unfold_locales (rule identity_step_inv)

lemma identity_run_inv: "identity_inv (tx_run (identity_step sha) ops empty_db)"
  by (rule identity.run_inv) (simp_all add: identity_inv_empty)

end
