(* ===== verification/IdentityHistory.thy ===== *)
theory IdentityHistory
  imports IdentityInvariant
begin

text \<open>
  What the history of the identity database (\<open>src/src/persistence/identityStore.ts\<close>) never takes back:
  a credential keeps its owner, its hash and its capabilities, a revocation stays, an invite that was
  accepted or revoked stays closed.
\<close>

section \<open>Which tables an operation writes\<close>

named_theorems identity_frames \<open>the tables each operation of the identity database changes\<close>

lemma organization_frame:
  "insert_organization org name c d = Inr d' \<Longrightarrow> \<exists>t a. d' = d\<lparr>db_organizations := t, db_audit := a\<rparr>"
  by (auto simp: insert_organization_def and_then_Inr_iff dest!: appendIdentityAudit_Inr)

lemma account_frame:
  "insert_account org i name r t c d = Inr d' \<Longrightarrow> \<exists>t a. d' = d\<lparr>db_serviceAccounts := t, db_audit := a\<rparr>"
  by (auto simp: insert_account_def and_then_Inr_iff split: if_splits dest!: appendIdentityAudit_Inr)

lemma service_credential_frame:
  "insert_service_credential org c x d = Inr d' \<Longrightarrow>
     \<exists>r a. d' = d\<lparr>db_serviceCredentials := db_serviceCredentials d @ [r], db_audit := a\<rparr>
       \<and> credential_columns c = Inr r"
  by (auto simp: insert_service_credential_def and_then_Inr_iff insert_unique_Inr split: if_splits
      dest!: appendIdentityAudit_Inr)

lemma agent_credential_frame:
  "insert_agent_credential b c x d = Inr d' \<Longrightarrow>
     \<exists>r a. d' = d\<lparr>db_agentCredentials := db_agentCredentials d @ [r], db_audit := a\<rparr>
       \<and> credential_columns c = Inr r"
  by (auto simp: insert_agent_credential_def and_then_Inr_iff insert_unique_Inr split: if_splits
      dest!: appendIdentityAudit_Inr)

lemma createOrganization_frame [identity_frames]:
  "createOrganization i d = Inr d' \<Longrightarrow> \<exists>t a. d' = d\<lparr>db_organizations := t, db_audit := a\<rparr>"
  by (auto simp: createOrganization_def and_then_Inr_iff dest!: organization_frame)

lemma bootstrap_frame [identity_frames]:
  "bootstrapServiceAccount i d = Inr d' \<Longrightarrow> \<exists>t u r a. d' = d\<lparr>db_organizations := t,
     db_serviceAccounts := u, db_serviceCredentials := db_serviceCredentials d @ [r], db_audit := a\<rparr>"
  by (auto simp: bootstrapServiceAccount_def and_then_Inr_iff
      dest!: organization_frame account_frame service_credential_frame) blast

lemma add_user_frame [identity_frames]:
  "addOrganizationUser i d = Inr d' \<Longrightarrow> \<exists>t u a. d' = d\<lparr>db_users := t, db_memberships := u, db_audit := a\<rparr>"
  by (auto simp: addOrganizationUser_def Let_def and_then_Inr_iff split: if_splits
      dest!: appendIdentityAudit_Inr)

lemma create_invite_frame [identity_frames]:
  "createWorkspaceInvite i d = Inr d' \<Longrightarrow>
     \<exists>r a. d' = d\<lparr>db_invites := db_invites d @ [r], db_audit := a\<rparr>
       \<and> iv_tokenHash r = ii_tokenHash i \<and> iv_tokenHash r \<notin> iv_tokenHash ` set (db_invites d)
       \<and> iv_organizationId r = ii_organizationId i"
  by (auto simp: createWorkspaceInvite_def and_then_Inr_iff insert_unique_Inr split: if_splits
      dest!: appendIdentityAudit_Inr)

lemma revoke_invite_frame [identity_frames]:
  assumes "revokeWorkspaceInvite org iid x d = Inr (d', b)"
  shows "(d' = d \<and> \<not> b) \<or> b \<and> (\<exists>now a. d' = d\<lparr>db_invites :=
     tbl_update iv_id iid (\<lambda>v. v\<lparr>iv_revokedAt := Some now\<rparr>) (db_invites d), db_audit := a\<rparr>)"
  using assms by (auto simp: revokeWorkspaceInvite_def and_then_Inr_iff split: option.splits if_splits
      dest!: appendIdentityAudit_Inr)

lemma create_account_frame [identity_frames]:
  "createServiceAccount i d = Inr d' \<Longrightarrow> \<exists>t a. d' = d\<lparr>db_serviceAccounts := t, db_audit := a\<rparr>"
  by (auto simp: createServiceAccount_def and_then_Inr_iff dest!: account_frame)

lemma issue_service_frame [identity_frames]:
  "issueServiceAccountCredential c x d = Inr d' \<Longrightarrow>
     \<exists>r a. d' = d\<lparr>db_serviceCredentials := db_serviceCredentials d @ [r], db_audit := a\<rparr>
       \<and> credential_columns c = Inr r"
  by (auto simp: issueServiceAccountCredential_def and_then_Inr_iff split: option.splits if_splits
      dest!: service_credential_frame)

lemma revoke_service_frame [identity_frames]:
  "revokeServiceAccountCredential org cid x d = Inr d' \<Longrightarrow>
     \<exists>now a. d' = d\<lparr>db_serviceCredentials := revoke_row org cid now (db_serviceCredentials d), db_audit := a\<rparr>"
  by (auto simp: revokeServiceAccountCredential_def and_then_Inr_iff split: if_splits
      dest!: appendIdentityAudit_Inr)

lemma register_agent_frame [identity_frames]:
  "registerAgent i d = Inr d' \<Longrightarrow> \<exists>r a. d' = d\<lparr>db_agents := db_agents d @ [r], db_audit := a\<rparr>
     \<and> ag_organizationId r = ri_organizationId i"
  by (auto simp: registerAgent_def and_then_Inr_iff insert_row_appends split: if_splits
      dest!: appendIdentityAudit_Inr)

lemma issue_agent_frame [identity_frames]:
  "issueCredential c x d = Inr d' \<Longrightarrow>
     \<exists>r a. d' = d\<lparr>db_agentCredentials := db_agentCredentials d @ [r], db_audit := a\<rparr>
       \<and> credential_columns c = Inr r"
  by (auto simp: issueCredential_def and_then_Inr_iff dest!: agent_credential_frame)

lemma revoke_agent_frame [identity_frames]:
  "revokeCredential org cid x d = Inr d' \<Longrightarrow>
     \<exists>now a. d' = d\<lparr>db_agentCredentials := revoke_row org cid now (db_agentCredentials d), db_audit := a\<rparr>"
  by (auto simp: revokeCredential_def and_then_Inr_iff split: if_splits dest!: appendIdentityAudit_Inr)

lemma rotate_frame [identity_frames]:
  assumes "rotateAgentCredentialWithRecovery i d = Inr (d', a, p)"
  shows "\<exists>now r au. d' = d\<lparr>db_operations := map (consume_recovery i now) (db_operations d),
     db_agentCredentials := revoke_row (ro_workspaceId i) p now (db_agentCredentials d @ [r]), db_audit := au\<rparr>"
  using assms
proof (cases rule: rotate_cases)
  case (1 w now d1)
  from agent_credential_frame [OF 1(10)] 1(11) show ?thesis
    by (auto simp: revoke_previous_def split: option.splits if_splits dest!: appendIdentityAudit_Inr) blast
qed

lemma put_session_frame [identity_frames]:
  "put_session r d = Inr d' \<Longrightarrow> \<exists>a. d' = d\<lparr>db_sessions := map_set hs_id r (db_sessions d), db_audit := a\<rparr>"
  by (auto simp: put_session_def split: if_splits)

lemma revoke_session_frame [identity_frames]:
  assumes "revoke_session sha token t d = Inr d'"
  shows "d' = d \<or> (\<exists>i now a. d' = d\<lparr>db_sessions :=
     tbl_update hs_id i (\<lambda>x. x\<lparr>hs_revokedAt := Some now\<rparr>) (db_sessions d), db_audit := a\<rparr>)"
  using assms by (auto simp: revoke_session_def and_then_Inr_iff split: option.splits)

lemma revoke_session_by_id_frame [identity_frames]:
  assumes "revoke_session_by_id sid ws t d = Inr (d', b)"
  shows "d' = d \<or> (\<exists>now a. d' = d\<lparr>db_sessions :=
     tbl_update hs_id sid (\<lambda>x. x\<lparr>hs_revokedAt := Some now\<rparr>) (db_sessions d), db_audit := a\<rparr>)"
proof (cases "tbl_find hs_id sid (db_sessions d)")
  case None
  with assms show ?thesis by (auto simp: revoke_session_by_id_def and_then_Inr_iff)
next
  case (Some r)
  with assms show ?thesis
    by (cases "hs_workspaceId r \<noteq> ws \<or> hs_revokedAt r \<noteq> None")
      (auto simp: revoke_session_by_id_def and_then_Inr_iff)
qed

section \<open>Credentials\<close>

definition credentials_kept :: "credential_row list \<Rightarrow> credential_row list \<Rightarrow> bool" where
  "credentials_kept rows rows' \<longleftrightarrow> (\<forall>k c. tbl_find credential_key k rows = Some c \<longrightarrow>
     (\<exists>r. tbl_find credential_key k rows' = Some (c\<lparr>cr_revokedAt := r\<rparr>)
        \<and> (cr_revokedAt c = None \<or> r = cr_revokedAt c)))"

lemma credentials_kept_refl [simp]: "credentials_kept rows rows"
proof -
  have "\<exists>r. c = c\<lparr>cr_revokedAt := r\<rparr> \<and> (cr_revokedAt c = None \<or> r = cr_revokedAt c)" for c :: credential_row
    by (rule exI [of _ "cr_revokedAt c"]) simp
  then show ?thesis by (auto simp: credentials_kept_def)
qed

lemma credentials_keptD:
  "credentials_kept rows rows' \<Longrightarrow> tbl_find credential_key k rows = Some c \<Longrightarrow>
     \<exists>r. tbl_find credential_key k rows' = Some (c\<lparr>cr_revokedAt := r\<rparr>)
       \<and> (cr_revokedAt c = None \<or> r = cr_revokedAt c)"
  unfolding credentials_kept_def by blast

lemma credentials_kept_trans:
  assumes "credentials_kept rows rows'" "credentials_kept rows' rows''"
  shows "credentials_kept rows rows''"
  unfolding credentials_kept_def
proof (intro allI impI)
  fix k c assume "tbl_find credential_key k rows = Some c"
  from credentials_keptD [OF assms(1) this] obtain r where
    r: "tbl_find credential_key k rows' = Some (c\<lparr>cr_revokedAt := r\<rparr>)"
    "cr_revokedAt c = None \<or> r = cr_revokedAt c" by blast
  from credentials_keptD [OF assms(2) r(1)] r(2)
  show "\<exists>r. tbl_find credential_key k rows'' = Some (c\<lparr>cr_revokedAt := r\<rparr>)
      \<and> (cr_revokedAt c = None \<or> r = cr_revokedAt c)" by auto
qed

lemma credentials_kept_snoc [simp]: "credentials_kept rows (rows @ [r])"
  using credentials_kept_refl [of rows] unfolding credentials_kept_def by (meson find_snoc_Some)

lemma tbl_find_revoke_row:
  "tbl_find credential_key k (revoke_row org cid now rows) =
     (if k = (org, cid)
      then map_option (\<lambda>c. if cr_revokedAt c = None then c\<lparr>cr_revokedAt := Some now\<rparr> else c)
        (tbl_find credential_key k rows)
      else tbl_find credential_key k rows)"
  unfolding revoke_row_def by (rule credential_table.lookup_update) (simp add: credential_key_def)

lemma credentials_kept_revoke [simp]: "credentials_kept rows (revoke_row org cid now rows)"
proof -
  have same: "\<exists>r. c = c\<lparr>cr_revokedAt := r\<rparr> \<and> (cr_revokedAt c = None \<or> r = cr_revokedAt c)"
    for c :: credential_row by (rule exI [of _ "cr_revokedAt c"]) simp
  then show ?thesis by (auto simp: credentials_kept_def tbl_find_revoke_row)
qed

lemma credentials_kept_snoc_revoke [simp]:
  "credentials_kept rows (revoke_row org cid now (rows @ [r]))"
  by (rule credentials_kept_trans [OF credentials_kept_snoc credentials_kept_revoke])

lemma consume_invite_frame [identity_frames]:
  assumes "consumeWorkspaceInvite fresh h now d = Inr (d', r)"
  shows "d' = d \<and> r = None \<or> (\<exists>v nowMs u users ms a. v \<in> set (db_invites d) \<and> iv_tokenHash v = h
     \<and> invite_open v \<and> nowMs < iv_expiresAt v \<and> now = Instant nowMs
     \<and> d' = d\<lparr>db_users := users, db_memberships := ms, db_invites := tbl_update iv_id (iv_id v)
         (\<lambda>r. r\<lparr>iv_userId := Some u, iv_acceptedAt := Some nowMs\<rparr>) (db_invites d), db_audit := a\<rparr>)"
  using assms
proof (cases rule: consume_invite_cases)
  case (2 v nowMs users u)
  then obtain a where "d' = d\<lparr>db_users := users, db_memberships := upsert_membership
         \<lparr>mb_organizationId = iv_organizationId v, mb_userId = u, mb_role = membership_role (iv_role v),
          mb_createdAt = nowMs, mb_revokedAt = None\<rparr> (db_memberships d),
       db_invites := tbl_update iv_id (iv_id v)
         (\<lambda>r. r\<lparr>iv_userId := Some u, iv_acceptedAt := Some nowMs\<rparr>) (db_invites d),
       db_audit := a\<rparr>" by (auto simp: accept_invite_def)
  with 2(1-5) show ?thesis by blast
qed simp

lemma step_keeps_credentials:
  assumes "identity_step sha op d = Inr (d', a)"
  shows "credentials_kept (db_serviceCredentials d) (db_serviceCredentials d')
     \<and> credentials_kept (db_agentCredentials d) (db_agentCredentials d')"
  using assms by (cases op) (auto simp: plain_answer_Inr and_then_Inr_iff dest!: identity_frames)

definition credential_revoked :: "credential_row list \<Rightarrow> string \<times> string \<Rightarrow> bool" where
  "credential_revoked rows k = (case tbl_find credential_key k rows of
     None \<Rightarrow> False | Some c \<Rightarrow> cr_revokedAt c \<noteq> None)"

lemma credential_revoked_kept:
  assumes "credentials_kept rows rows'" "credential_revoked rows k"
  shows "credential_revoked rows' k"
  using assms(2) credentials_keptD [OF assms(1), of k]
  by (auto simp: credential_revoked_def split: option.splits)

definition revoked_key :: "identity_db \<Rightarrow> credential_type \<times> string \<times> string \<Rightarrow> bool" where
  "revoked_key d = (\<lambda>(ty, k). case ty of
       Agent_credential \<Rightarrow> credential_revoked (db_agentCredentials d) k
     | Service_credential \<Rightarrow> credential_revoked (db_serviceCredentials d) k)"

interpretation revocation: irrevocable "identity_step sha" revoked_key for sha
  by unfold_locales
    (auto simp: revoked_key_def split: credential_type.splits dest: step_keeps_credentials
      intro: credential_revoked_kept)

section \<open>Invites\<close>

definition invite_closed :: "identity_db \<Rightarrow> string \<Rightarrow> bool" where
  "invite_closed d h \<longleftrightarrow> (\<exists>v \<in> set (db_invites d). iv_tokenHash v = h)
     \<and> (\<forall>v \<in> set (db_invites d). iv_tokenHash v = h \<longrightarrow> \<not> invite_open v)"

lemma invite_closed_update:
  assumes "invite_closed d h" "\<And>v. iv_tokenHash (f v) = iv_tokenHash v"
    and "\<And>v. \<not> invite_open v \<Longrightarrow> \<not> invite_open (f v)"
  shows "invite_closed (d\<lparr>db_invites := tbl_update iv_id i f (db_invites d)\<rparr>) h"
  using assms by (auto simp: invite_closed_def tbl_update_def split: if_splits)

lemma invite_closed_snoc:
  assumes "invite_closed d h" "iv_tokenHash r \<notin> iv_tokenHash ` set (db_invites d)"
  shows "invite_closed (d\<lparr>db_invites := db_invites d @ [r]\<rparr>) h"
  using assms by (auto simp: invite_closed_def)

lemma invite_closed_cong: "db_invites d' = db_invites d \<Longrightarrow> invite_closed d' h = invite_closed d h"
  by (simp add: invite_closed_def)

lemma step_invites:
  assumes "identity_step sha op d = Inr (d', a)"
  shows "db_invites d' = db_invites d
    \<or> (\<exists>r. db_invites d' = db_invites d @ [r] \<and> iv_tokenHash r \<notin> iv_tokenHash ` set (db_invites d))
    \<or> (\<exists>i now. db_invites d' = tbl_update iv_id i (\<lambda>v. v\<lparr>iv_revokedAt := Some now\<rparr>) (db_invites d))
    \<or> (\<exists>i u now. db_invites d' =
         tbl_update iv_id i (\<lambda>r. r\<lparr>iv_userId := Some u, iv_acceptedAt := Some now\<rparr>) (db_invites d))"
  using assms by (cases op) (auto simp: plain_answer_Inr and_then_Inr_iff dest!: identity_frames, blast+)

lemma step_keeps_closed:
  assumes "invite_closed d h" "identity_step sha op d = Inr (d', a)"
  shows "invite_closed d' h"
proof -
  have revoked: "invite_closed d' h"
    if "db_invites d' = tbl_update iv_id i (\<lambda>v. v\<lparr>iv_revokedAt := Some now\<rparr>) (db_invites d)" for i now
    using that invite_closed_update [OF assms(1), of "\<lambda>v. v\<lparr>iv_revokedAt := Some now\<rparr>" i]
    by (simp add: invite_open_def invite_closed_def)
  have accepted: "invite_closed d' h"
    if "db_invites d' = tbl_update iv_id i (\<lambda>r. r\<lparr>iv_userId := Some u, iv_acceptedAt := Some now\<rparr>) (db_invites d)"
    for i u now
    using that invite_closed_update [OF assms(1), of "\<lambda>r. r\<lparr>iv_userId := Some u, iv_acceptedAt := Some now\<rparr>" i]
    by (simp add: invite_open_def invite_closed_def)
  have added: "invite_closed d' h"
    if "db_invites d' = db_invites d @ [r]" "iv_tokenHash r \<notin> iv_tokenHash ` set (db_invites d)" for r
    using that invite_closed_snoc [OF assms(1) that(2)] by (simp add: invite_closed_def)
  from step_invites [OF assms(2)] show ?thesis
    using assms(1) invite_closed_cong revoked accepted added by blast
qed

interpretation invites: irrevocable "identity_step sha" invite_closed for sha
  by unfold_locales (rule step_keeps_closed)

lemma closed_never_consumed:
  assumes "invite_closed d h" "consumeWorkspaceInvite fresh h now d = Inr (d', r)"
  shows "r = None"
  using assms(2)
proof (cases rule: consume_invite_cases)
  case (2 v nowMs users u)
  with assms(1) show ?thesis by (auto simp: invite_closed_def)
qed

end
