(* ===== verification/IdentityProperties.thy ===== *)
theory IdentityProperties
  imports IdentityHistory
begin

text \<open>
  What holds of every history of the identity database (\<open>src/src/persistence/identityStore.ts\<close>,
  \<open>src/src/http/humanSessions.ts\<close>, \<open>src/src/http/auth.ts\<close>,
  \<open>src/src/identity/credentialAdministration.ts\<close>, \<open>src/src/identity/workspaceInvites.ts\<close>): whom a token
  authenticates, that revocation and acceptance are final, that administration stays in its
  organization.
\<close>

abbreviation identity_run :: "(string \<Rightarrow> string) \<Rightarrow> identity_op list \<Rightarrow> identity_db \<Rightarrow> identity_db" where
  "identity_run sha \<equiv> tx_run (identity_step sha)"

section \<open>Who authenticates\<close>

text \<open>The API credential a principal acts with: its own, or the one its session was derived from.\<close>

definition credential_of :: "principal \<Rightarrow> credential_type \<times> string \<times> string" where
  "credential_of p =
     (case pc_sourceCredentialId p of
        None \<Rightarrow> (pc_type p, pc_organizationId p, pc_credentialId p)
      | Some c \<Rightarrow> (source_type p, pc_organizationId p, c))"

definition credential_live :: "timestamp \<Rightarrow> credential_type \<times> string \<times> string \<Rightarrow> identity_db \<Rightarrow> bool" where
  "credential_live now = (\<lambda>(ty, org, cid) d. isCredentialActive org cid ty now d = Inr True)"

definition within_role :: "principal \<Rightarrow> bool" where
  "within_role p = (case pc_role p of
      None \<Rightarrow> pc_type p = Agent_credential \<and> list_all known_capability (pc_capabilities p)
    | Some r \<Rightarrow> pc_type p = Service_credential \<and> serviceAccountRoleAllowsCapabilities r (pc_capabilities p))"

text \<open>The token is one whose hash the database stores.\<close>

definition token_stored :: "(string \<Rightarrow> string) \<Rightarrow> string \<Rightarrow> identity_db \<Rightarrow> bool" where
  "token_stored sha token d \<longleftrightarrow>
     sha token \<in> cr_tokenHash ` set (db_agentCredentials d) \<union> cr_tokenHash ` set (db_serviceCredentials d)
       \<union> hs_tokenHash ` set (db_sessions d)"

lemma credential_by_key:
  assumes "identity_inv d"
  shows "c \<in> set (db_agentCredentials d) \<Longrightarrow>
      tbl_find credential_key (cr_organizationId c, cr_id c) (db_agentCredentials d) = Some c"
    and "c \<in> set (db_serviceCredentials d) \<Longrightarrow>
      tbl_find credential_key (cr_organizationId c, cr_id c) (db_serviceCredentials d) = Some c"
  using assms credential_table.lookup_member [of _ c] by (auto simp: identity_inv_defs credential_key_def)

lemma authenticate_agent_sound:
  assumes "identity_inv d" "authenticate_agent sha token ms d = Some p"
  shows "credential_live (Instant ms) (credential_of p) d \<and> within_role p \<and> token_stored sha token d"
proof -
  obtain c a where c: "find (\<lambda>c. cr_tokenHash c = sha token) (db_agentCredentials d) = Some c"
    and a: "tbl_find agent_key (cr_organizationId c, cr_ownerId c) (db_agents d) = Some a"
    and live: "cr_revokedAt c = None" "ag_revokedAt a = None" "ag_status a = Agent_active"
      "unexpired ms (cr_expiresAt c)"
    and p: "p = \<lparr>pc_type = Agent_credential, pc_id = cr_ownerId c, pc_organizationId = cr_organizationId c,
       pc_credentialId = cr_id c, pc_capabilities = cr_capabilities c, pc_role = None,
       pc_expiresAt = None, pc_sourceCredentialId = None, pc_sourceCredentialType = None\<rparr>"
    using assms(2) by (auto simp: authenticate_agent_def agent_by_hash_def hashApiToken_def
        split: option.splits if_splits)
  have c': "c \<in> set (db_agentCredentials d)" "cr_tokenHash c = sha token" using find_SomeD [OF c] by auto
  have "list_all known_capability (cr_capabilities c)"
    using assms(1) c'(1) by (auto simp: identity_inv_defs agent_credential_ok_def credential_row_ok_def
        list_all_iff)
  moreover have "token_stored sha token d"
    using c' by (auto simp: token_stored_def intro: rev_image_eqI)
  ultimately show ?thesis
    using a live credential_by_key(1) [OF assms(1) c'(1)]
    by (simp add: p credential_of_def credential_live_def within_role_def isCredentialActive_def
        agent_credential_live_def)
qed

lemma authenticate_service_sound:
  assumes "identity_inv d" "authenticate_service sha token ms d = Some p"
  shows "credential_live (Instant ms) (credential_of p) d \<and> within_role p \<and> token_stored sha token d"
proof -
  obtain c a where c: "find (\<lambda>c. cr_tokenHash c = sha token) (db_serviceCredentials d) = Some c"
    and a: "tbl_find service_account_key (cr_organizationId c, cr_ownerId c) (db_serviceAccounts d) = Some a"
    and live: "cr_revokedAt c = None" "sa_revokedAt a = None" "unexpired ms (cr_expiresAt c)"
    and role: "serviceAccountRoleAllowsCapabilities (sa_role a) (cr_capabilities c)"
    and p: "p = \<lparr>pc_type = Service_credential, pc_id = cr_ownerId c, pc_organizationId = cr_organizationId c,
       pc_credentialId = cr_id c, pc_capabilities = cr_capabilities c, pc_role = Some (sa_role a),
       pc_expiresAt = None, pc_sourceCredentialId = None, pc_sourceCredentialType = None\<rparr>"
    using assms(2) by (auto simp: authenticate_service_def service_by_hash_def hashApiToken_def
        split: option.splits if_splits)
  have c': "c \<in> set (db_serviceCredentials d)" "cr_tokenHash c = sha token" using find_SomeD [OF c] by auto
  have "token_stored sha token d"
    using c' by (auto simp: token_stored_def intro: rev_image_eqI)
  then show ?thesis
    using a live role credential_by_key(2) [OF assms(1) c'(1)]
    by (simp add: p credential_of_def credential_live_def within_role_def isCredentialActive_def
        service_credential_live_def)
qed

lemma human_within_role: "serviceAccountRoleAllowsCapabilities r (human_capabilities r)"
  by (cases r) (simp_all add: serviceAccountRoleAllowsCapabilities_def list_all_iff)

lemma authenticate_human_sound:
  assumes "authenticate_human sha token now d1 d2 = Inr (Some p)"
  shows "credential_live now (credential_of p) d2 \<and> within_role p \<and> token_stored sha token d1"
proof -
  obtain x where x: "resolve_session sha token now d1 = Inr (Some x)"
    and live: "isCredentialActive (rh_workspaceId x) (rh_sourceCredentialId x) (rh_sourceCredentialType x) now d2
       = Inr True" and p: "p = session_principal x"
    using assms by (auto simp: authenticate_human_def and_then_Inr_iff split: option.splits if_splits)
  from x obtain ms r where "find (\<lambda>r. hs_tokenHash r = sha token \<and> session_open ms r) (db_sessions d1) = Some r"
    by (auto simp: resolve_session_def and_then_Inr_iff split: option.splits)
  from find_SomeD [OF this] have "token_stored sha token d1"
    by (auto simp: token_stored_def intro: rev_image_eqI)
  with live show ?thesis
    by (simp add: p session_principal_def credential_of_def credential_live_def within_role_def
        source_type_def human_within_role)
qed

lemma authentication_live:
  assumes "identity_inv d1" "identity_inv d2"
    and "session_aware_authenticate sha token now d1 d2 = Inr (Some p)"
  shows "(credential_live now (credential_of p) d1 \<or> credential_live now (credential_of p) d2)
     \<and> within_role p \<and> (token_stored sha token d1 \<or> token_stored sha token d2)"
proof (cases "session_token token")
  case True
  with assms(3) authenticate_human_sound [of sha token now d1 d2 p] show ?thesis
    by (auto simp: session_aware_authenticate_def)
next
  case False
  with assms(3) obtain ms where "now = Instant ms"
    and "authenticate_agent sha token ms d1 = Some p \<or> authenticate_service sha token ms d2 = Some p"
    by (cases now) (auto simp: session_aware_authenticate_def authenticateToken_def split: option.splits)
  then show ?thesis
    using authenticate_agent_sound [OF assms(1)] authenticate_service_sound [OF assms(2)] by auto
qed

lemma revoked_not_live:
  assumes "revoked_key d (ty, org, cid)"
  shows "\<not> credential_live now (ty, org, cid) d"
proof (cases ty)
  case Agent_credential
  with assms obtain c where "tbl_find credential_key (org, cid) (db_agentCredentials d) = Some c"
    "cr_revokedAt c \<noteq> None" by (auto simp: revoked_key_def credential_revoked_def split: option.splits)
  with Agent_credential show ?thesis
    by (auto simp: credential_live_def isCredentialActive_def agent_credential_live_def split: option.splits)
next
  case Service_credential
  with assms obtain c where "tbl_find credential_key (org, cid) (db_serviceCredentials d) = Some c"
    "cr_revokedAt c \<noteq> None" by (auto simp: revoked_key_def credential_revoked_def split: option.splits)
  with Service_credential show ?thesis
    by (auto simp: credential_live_def isCredentialActive_def service_credential_live_def split: option.splits)
qed

section \<open>An example history\<close>

text \<open>
  One organization with an administrator, an agent and a session of the administrator. The hash
  function of the example tells four tokens apart.
\<close>

definition sample_hash :: "string \<Rightarrow> string" where
  "sample_hash t =
     (if t = ''admin'' then replicate 64 (CHR ''a'') else if t = ''agent'' then replicate 64 (CHR ''b'')
      else if t = ''fuse_hs_1'' then replicate 64 (CHR ''c'') else replicate 64 (CHR ''d''))"

definition sample_ctx :: "int \<Rightarrow> mutation_context" where
  "sample_ctx t = \<lparr>ctx_actorId = ''x'', ctx_causationId = ''y'', ctx_occurredAt = Instant t\<rparr>"

definition sample_credential :: "string \<Rightarrow> string \<Rightarrow> string \<Rightarrow> capability_text list \<Rightarrow> credential_record" where
  "sample_credential i owner token caps =
     \<lparr>cred_id = i, cred_organizationId = ''o'', cred_ownerId = owner, cred_name = ''n'',
      cred_capabilities = caps, cred_tokenPrefix = ''fuse_sk_aaaaaaaaaaaa'',
      cred_tokenHash = sample_hash token, cred_createdAt = Instant 0, cred_expiresAt = None,
      cred_revokedAt = None\<rparr>"

definition sample_identity_ops :: "identity_op list" where
  "sample_identity_ops =
     [IdBootstrap \<lparr>bi_context = sample_ctx 0, bi_organizationId = ''o'', bi_organizationName = ''O'',
        bi_serviceAccountId = ''s'', bi_serviceAccountName = ''S'',
        bi_credential = sample_credential ''k1'' ''s'' ''admin'' [Known Policies_read]\<rparr>,
      IdRegisterAgent \<lparr>ri_context = sample_ctx 1, ri_id = ''a'', ri_organizationId = ''o'', ri_name = ''A''\<rparr>,
      IdIssueAgent (sample_credential ''k2'' ''a'' ''agent'' [Known Inference_invoke]) (sample_ctx 2),
      IdPutSession \<lparr>hs_id = ''hs_1'', hs_workspaceId = ''o'', hs_userId = ''s'', hs_sourceCredentialId = ''k1'',
        hs_sourceCredentialType = Service_credential, hs_role = Human_owner,
        hs_tokenHash = sample_hash ''fuse_hs_1'', hs_createdAt = 3, hs_expiresAt = 100, hs_revokedAt = None\<rparr>]"

definition sample_db :: identity_db where
  "sample_db = identity_run sample_hash sample_identity_ops empty_db"

definition found :: "store_error + principal option \<Rightarrow> (credential_type \<times> string \<times> string) option" where
  "found r = (case r of Inr (Some p) \<Rightarrow> Some (credential_of p) | _ \<Rightarrow> None)"

lemma found_Some: "found r = Some k \<longleftrightarrow> (\<exists>p. r = Inr (Some p) \<and> credential_of p = k)"
  by (auto simp: found_def split: sum.splits option.splits)

definition sample_revocation :: identity_op where
  "sample_revocation = IdRevokeService ''o'' ''k1'' (sample_ctx 4)"

definition sample_lookup :: "string \<Rightarrow> identity_db \<Rightarrow> (credential_type \<times> string \<times> string) option" where
  "sample_lookup token d = found (session_aware_authenticate sample_hash token (Instant 50) d d)"

text \<open>Before the revocation the session authenticates; after it only the agent's token does.\<close>

lemma sample_evaluated:
  "(let d = sample_db in (sample_lookup ''fuse_hs_1'' d,
      case identity_step sample_hash sample_revocation d of Inl e \<Rightarrow> None
      | Inr (d', x) \<Rightarrow> Some (sample_lookup ''agent'' d', sample_lookup ''fuse_hs_1'' d'))) =
   (Some (Service_credential, ''o'', ''k1''), Some (Some (Agent_credential, ''o'', ''k2''), None))"
  by code_simp

lemma sample_session_found:
  "\<exists>p. session_aware_authenticate sample_hash ''fuse_hs_1'' (Instant 50) sample_db sample_db = Inr (Some p)
     \<and> credential_of p = (Service_credential, ''o'', ''k1'')"
  using sample_evaluated by (simp add: sample_lookup_def found_Some)

lemma sample_revoked:
  "\<exists>d' a p. identity_step sample_hash sample_revocation sample_db = Inr (d', a)
     \<and> session_aware_authenticate sample_hash ''agent'' (Instant 50) d' d' = Inr (Some p)"
  using sample_evaluated by (auto simp: sample_lookup_def found_Some split: sum.splits)

section \<open>Properties\<close>

text \<open>
  C11: whoever a token authenticates, at any point of any history, the token is one whose hash the
  database stores, the API credential behind it (for a session the credential it was derived from) is
  active at one of the two queries of the authentication, and its capabilities are ones the role
  allows.
\<close>

theorem authentication_sound:
  assumes "d1 = identity_run sha ops empty_db" and "d2 = identity_run sha ops' d1"
    and "session_aware_authenticate sha token now d1 d2 = Inr (Some p)"
  shows "(credential_live now (credential_of p) d1 \<or> credential_live now (credential_of p) d2)
    \<and> within_role p \<and> (token_stored sha token d1 \<or> token_stored sha token d2)"
proof -
  have "d2 = identity_run sha (ops @ ops') empty_db" by (simp add: assms(1,2) tx_run_append)
  then have "identity_inv d1" "identity_inv d2" by (simp_all add: assms(1) identity_run_inv)
  then show ?thesis using assms(3) by (rule authentication_live)
qed

lemma authentication_sound_witness:
  "\<exists>p. credential_of p = (Service_credential, ''o'', ''k1'')
     \<and> credential_live (Instant 50) (credential_of p) sample_db \<and> within_role p"
proof -
  obtain p where p: "session_aware_authenticate sample_hash ''fuse_hs_1'' (Instant 50) sample_db sample_db
      = Inr (Some p)" "credential_of p = (Service_credential, ''o'', ''k1'')"
    using sample_session_found by blast
  have "sample_db = identity_run sample_hash [] sample_db" by simp
  from authentication_sound [OF sample_db_def this p(1)] p(2) show ?thesis by auto
qed

text \<open>
  C29: in every state the tables of identities are well typed: keys, emails and token hashes are
  unique; every account, agent, invite and membership belongs to an organization that exists; every
  credential has an owner, at least one capability, none twice and none unknown, expires after it was
  created, and never exceeds the role of its service account; an accepted invite names a user.
\<close>

theorem identity_tables_typed:
  "unique_keys (identity_run sha ops empty_db) \<and> rows_owned (identity_run sha ops empty_db)
   \<and> rows_typed (identity_run sha ops empty_db)"
  using identity_run_inv [of sha ops] by (simp add: identity_inv_def)

text \<open>
  C10: once a credential was revoked, nobody acts with it again: in no later state does its token or a
  session derived from it authenticate.
\<close>

theorem revoked_credential_locked_out:
  assumes "d = identity_run sha ops empty_db"
    and "op = IdRevokeService org cid x \<and> ty = Service_credential
       \<or> op = IdRevokeAgent org cid x \<and> ty = Agent_credential"
    and "identity_step sha op d = Inr (d', a)"
    and "d1 = identity_run sha ops1 d'" and "d2 = identity_run sha ops2 d1"
    and "session_aware_authenticate sha token now d1 d2 = Inr (Some p)"
  shows "credential_of p \<noteq> (ty, org, cid)"
proof
  assume k: "credential_of p = (ty, org, cid)"
  have "revoked_key d' (ty, org, cid)"
    using assms(2,3)
    by (auto simp: revoked_key_def credential_revoked_def plain_answer_Inr and_then_Inr_iff
        revokeServiceAccountCredential_def revokeCredential_def active_credential_def tbl_find_revoke_row
        split: if_splits option.splits dest!: appendIdentityAudit_Inr)
  then have gone: "revoked_key d1 (ty, org, cid)" "revoked_key d2 (ty, org, cid)"
    unfolding assms(4,5) by (simp_all add: revocation.run_final)
  have d': "d' = identity_run sha (ops @ [op]) empty_db"
    using assms(3) by (simp add: assms(1) tx_run_append tx_def)
  have "identity_inv d1" "identity_inv d2"
    unfolding assms(4,5) d' by (simp_all add: identity.run_inv identity_run_inv)
  from authentication_live [OF this assms(6)] k gone show False by (auto dest: revoked_not_live)
qed

lemma revoked_credential_locked_out_witness:
  "\<exists>d p. session_aware_authenticate sample_hash ''agent'' (Instant 50) d d = Inr (Some p)
     \<and> credential_of p \<noteq> (Service_credential, ''o'', ''k1'')"
proof -
  obtain d' a p where step: "identity_step sample_hash sample_revocation sample_db = Inr (d', a)"
    and p: "session_aware_authenticate sample_hash ''agent'' (Instant 50) d' d' = Inr (Some p)"
    using sample_revoked by blast
  have op: "sample_revocation = IdRevokeService ''o'' ''k1'' (sample_ctx 4) \<and> Service_credential = Service_credential
      \<or> sample_revocation = IdRevokeAgent ''o'' ''k1'' (sample_ctx 4) \<and> Service_credential = Agent_credential"
    by (simp add: sample_revocation_def)
  have "d' = identity_run sample_hash [] d'" by simp
  from revoked_credential_locked_out [OF sample_db_def op step this this p] p show ?thesis by blast
qed

end
