(* ===== verification/AdministrationProperties.thy ===== *)
theory AdministrationProperties
  imports IdentityProperties
begin

text \<open>
  What a principal can change, and what it gets: \<open>src/src/identity/credentialAdministration.ts\<close>,
  \<open>src/src/identity/workspaceInvites.ts\<close>, \<open>src/src/http/humanSessions.ts\<close>.
\<close>

section \<open>Administrative requests\<close>

datatype admin_op =
    AdRegister string string string timestamp
  | AdIssueAgent "nat list" issue_input timestamp
  | AdRevokeAgent string string timestamp
  | AdIssueService "nat list" issue_input timestamp
  | AdRevokeService string string timestamp
  | AdInvite "nat list" string invite_request int
  | AdRevokeInvite string string timestamp

fun admin_step ::
    "(string \<Rightarrow> string) \<Rightarrow> principal \<Rightarrow> admin_op \<Rightarrow> identity_db \<Rightarrow> store_error + identity_db" where
  "admin_step sha p (AdRegister agentId name rid now) d = admin_registerAgent p agentId name rid now d"
| "admin_step sha p (AdIssueAgent secret i now) d =
     and_then (issueAgentCredential sha secret p i now d) (\<lambda>(d', c). Inr d')"
| "admin_step sha p (AdRevokeAgent cid rid now) d = revokeAgentCredential p cid rid now d"
| "admin_step sha p (AdIssueService secret i now) d =
     and_then (admin_issueServiceAccountCredential sha secret p i now d) (\<lambda>(d', c). Inr d')"
| "admin_step sha p (AdRevokeService cid rid now) d = admin_revokeServiceAccountCredential p cid rid now d"
| "admin_step sha p (AdInvite secret fresh q now) d =
     and_then (issue_invite sha secret fresh p q now d) (\<lambda>(d', v). Inr d')"
| "admin_step sha p (AdRevokeInvite iid rid now) d = revoke_invite p iid rid now d"

text \<open>The capability a request needs beyond the administrator role.\<close>

fun admin_capability :: "admin_op \<Rightarrow> api_capability option" where
  "admin_capability (AdRegister _ _ _ _) = Some Agents_write"
| "admin_capability (AdIssueAgent _ _ _) = Some Credentials_issue"
| "admin_capability (AdRevokeAgent _ _ _) = Some Credentials_revoke"
| "admin_capability (AdIssueService _ _ _) = Some Credentials_issue"
| "admin_capability (AdRevokeService _ _ _) = Some Credentials_revoke"
| "admin_capability (AdInvite _ _ _ _) = None"
| "admin_capability (AdRevokeInvite _ _ _) = None"

text \<open>The rows of every other organization, and the tables administration has no business with.\<close>

definition outside :: "string \<Rightarrow> identity_db \<Rightarrow> identity_db" where
  "outside org d = d\<lparr>
     db_agents := filter (\<lambda>r. ag_organizationId r \<noteq> org) (db_agents d),
     db_invites := filter (\<lambda>r. iv_organizationId r \<noteq> org) (db_invites d),
     db_serviceCredentials := filter (\<lambda>r. cr_organizationId r \<noteq> org) (db_serviceCredentials d),
     db_agentCredentials := filter (\<lambda>r. cr_organizationId r \<noteq> org) (db_agentCredentials d),
     db_audit := filter (\<lambda>r. au_organizationId r \<noteq> org) (db_audit d)\<rparr>"

definition administrator :: "principal \<Rightarrow> api_capability option \<Rightarrow> bool" where
  "administrator p capability \<longleftrightarrow> pc_type p = Service_credential \<and> pc_role p = Some Role_admin
     \<and> (case capability of None \<Rightarrow> True | Some k \<Rightarrow> Known k \<in> set (pc_capabilities p))"

lemma admin_request_None: "admin_request p k rid = None \<Longrightarrow> administrator p (Some k)"
  by (auto simp: admin_request_def requireServiceAccount_def administrator_def split: if_splits)

lemma invite_admin_None: "invite_admin_error p rid = None \<Longrightarrow> administrator p None"
  by (auto simp: invite_admin_error_def administrator_def split: if_splits)

lemma createApiCredential_organization:
  "createApiCredential sha secret i = Inr (token, c) \<Longrightarrow> cred_organizationId c = ci_organizationId i"
  by (auto simp: createApiCredential_def Let_def split: option.splits if_splits)

lemma thrown_creation_Inr: "thrown_creation pre owner r = Inr x \<longleftrightarrow> r = Inr x"
  by (cases r) (auto simp: thrown_creation_def)

lemma filter_revoke_row:
  "filter (\<lambda>r. cr_organizationId r \<noteq> org) (revoke_row org cid now rows) =
     filter (\<lambda>r. cr_organizationId r \<noteq> org) rows"
  by (induction rows) (auto simp: revoke_row_def tbl_update_def credential_key_def)

lemma filter_update_invite:
  assumes "\<And>v. v \<in> set rows \<Longrightarrow> iv_id v = i \<Longrightarrow> iv_organizationId v = org"
  shows "filter (\<lambda>r. iv_organizationId r \<noteq> org) (tbl_update iv_id i (\<lambda>v. v\<lparr>iv_revokedAt := t\<rparr>) rows) =
     filter (\<lambda>r. iv_organizationId r \<noteq> org) rows"
  using assms by (induction rows) (auto simp: tbl_update_def)

section \<open>What each request leaves alone\<close>

lemma audit_outside:
  "appendIdentityAudit org ty i act p c d = Inr d' \<Longrightarrow> outside org d' = outside org d"
  by (drule appendIdentityAudit_Inr) (auto simp: outside_def)

lemma register_outside:
  "registerAgent i d = Inr d' \<Longrightarrow> outside (ri_organizationId i) d' = outside (ri_organizationId i) d"
  by (auto simp: registerAgent_def and_then_Inr_iff insert_row_appends outside_def split: if_splits
      dest!: appendIdentityAudit_Inr)

lemma credential_columns_organization:
  "credential_columns c = Inr r \<Longrightarrow> cr_organizationId r = cred_organizationId c"
  by (auto simp: credential_columns_Inr)

lemma issue_agent_outside:
  "issueCredential c x d = Inr d' \<Longrightarrow> outside (cred_organizationId c) d' = outside (cred_organizationId c) d"
  by (auto simp: issueCredential_def insert_agent_credential_def and_then_Inr_iff insert_unique_Inr
      outside_def credential_columns_organization split: if_splits dest!: appendIdentityAudit_Inr)

lemma issue_service_outside:
  "issueServiceAccountCredential c x d = Inr d' \<Longrightarrow>
     outside (cred_organizationId c) d' = outside (cred_organizationId c) d"
  by (auto simp: issueServiceAccountCredential_def insert_service_credential_def and_then_Inr_iff
      insert_unique_Inr outside_def credential_columns_organization split: if_splits option.splits
      dest!: appendIdentityAudit_Inr)

lemma revoke_agent_outside:
  "revokeCredential org cid x d = Inr d' \<Longrightarrow> outside org d' = outside org d"
  by (auto simp: revokeCredential_def and_then_Inr_iff outside_def filter_revoke_row split: if_splits
      dest!: appendIdentityAudit_Inr)

lemma revoke_service_outside:
  "revokeServiceAccountCredential org cid x d = Inr d' \<Longrightarrow> outside org d' = outside org d"
  by (auto simp: revokeServiceAccountCredential_def and_then_Inr_iff outside_def filter_revoke_row
      split: if_splits dest!: appendIdentityAudit_Inr)

lemma create_invite_outside:
  "createWorkspaceInvite i d = Inr d' \<Longrightarrow> outside (ii_organizationId i) d' = outside (ii_organizationId i) d"
  by (auto simp: createWorkspaceInvite_def and_then_Inr_iff insert_unique_Inr outside_def
      split: if_splits dest!: appendIdentityAudit_Inr)

lemma revoke_invite_outside:
  assumes "identity_inv d" "revokeWorkspaceInvite org iid x d = Inr (d', b)"
  shows "outside org d' = outside org d"
proof (cases "tbl_find iv_id iid (db_invites d)")
  case None
  with assms(2) show ?thesis by (auto simp: revokeWorkspaceInvite_def and_then_Inr_iff)
next
  case (Some v)
  show ?thesis
  proof (cases "iv_organizationId v \<noteq> org \<or> \<not> invite_open v")
    case True
    with assms(2) Some show ?thesis by (auto simp: revokeWorkspaceInvite_def and_then_Inr_iff)
  next
    case False
    have "tbl_wf iv_id (db_invites d)" using assms(1) by (simp add: identity_inv_defs)
    from invite_table.lookup_member [OF this] have "w = v" if "w \<in> set (db_invites d)" "iv_id w = iid" for w
      using that Some by fastforce
    with False have owned: "iv_organizationId w = org" if "w \<in> set (db_invites d)" "iv_id w = iid" for w
      using that by auto
    from assms(2) Some False obtain now where
      "appendIdentityAudit org ''workspace_invite'' iid ''workspace_invite.revoked'' (JObj []) x
        (d\<lparr>db_invites := tbl_update iv_id iid (\<lambda>v. v\<lparr>iv_revokedAt := Some now\<rparr>) (db_invites d)\<rparr>) = Inr d'"
      by (auto simp: revokeWorkspaceInvite_def and_then_Inr_iff)
    from audit_outside [OF this] show ?thesis
      by (simp add: outside_def filter_update_invite owned)
  qed
qed

text \<open>
  C12: a request of credential administration or of workspace invites succeeds only for an
  administrator that holds the capability it needs, and it leaves every row of every other
  organization, the audit trail included, and the tables of users, accounts and sessions as they were.
\<close>

theorem administration_stays_in_organization:
  assumes "d = identity_run sha ops empty_db" and "admin_step sha p op d = Inr d'"
  shows "administrator p (admin_capability op)
    \<and> outside (pc_organizationId p) d' = outside (pc_organizationId p) d"
proof -
  have inv: "identity_inv d" by (simp add: assms(1) identity_run_inv)
  show ?thesis
  proof (cases op)
    case (AdRegister agentId name rid now)
    with assms(2) show ?thesis
      by (auto simp: admin_registerAgent_def and_then_Inr_iff dest: admin_request_None register_outside)
  next
    case (AdIssueAgent secret i now)
    with assms(2) obtain token c where "createApiCredential sha secret (creation_input p i now) = Inr (token, c)"
      "issueCredential c (admin_context p (is_requestId i) now) d = Inr d'"
      "admin_request p Credentials_issue (is_requestId i) = None"
      by (auto simp: issueAgentCredential_def and_then_Inr_iff thrown_creation_Inr)
    with AdIssueAgent show ?thesis
      using createApiCredential_organization issue_agent_outside
      by (fastforce simp: creation_input_def dest: admin_request_None)
  next
    case (AdIssueService secret i now)
    with assms(2) obtain token c where "createApiCredential sha secret (creation_input p i now) = Inr (token, c)"
      "issueServiceAccountCredential c (admin_context p (is_requestId i) now) d = Inr d'"
      "admin_request p Credentials_issue (is_requestId i) = None"
      by (auto simp: admin_issueServiceAccountCredential_def createServiceAccountCredential_def
          and_then_Inr_iff thrown_creation_Inr)
    with AdIssueService show ?thesis
      using createApiCredential_organization issue_service_outside
      by (fastforce simp: creation_input_def dest: admin_request_None)
  next
    case (AdInvite secret fresh q now)
    with assms(2) show ?thesis
      by (auto simp: issue_invite_def Let_def and_then_Inr_iff dest!: invite_admin_None create_invite_outside)
  next
    case (AdRevokeInvite iid rid now)
    with assms(2) inv show ?thesis
      by (auto simp: revoke_invite_def and_then_Inr_iff split: if_splits
          dest: invite_admin_None revoke_invite_outside)
  qed (use assms(2) in \<open>auto simp: revokeAgentCredential_def admin_revokeServiceAccountCredential_def
      and_then_Inr_iff dest: admin_request_None revoke_agent_outside revoke_service_outside\<close>)
qed

definition sample_admin :: principal where
  "sample_admin = \<lparr>pc_type = Service_credential, pc_id = ''s'', pc_organizationId = ''o'',
     pc_credentialId = ''k1'', pc_capabilities = [Known Agents_write], pc_role = Some Role_admin,
     pc_expiresAt = None, pc_sourceCredentialId = None, pc_sourceCredentialType = None\<rparr>"

definition sample_setup :: "identity_op list" where
  "sample_setup = [IdCreateOrganization \<lparr>oi_context = sample_ctx 0, oi_id = ''o'', oi_name = ''O''\<rparr>,
     IdCreateOrganization \<lparr>oi_context = sample_ctx 0, oi_id = ''p'', oi_name = ''P''\<rparr>,
     IdRegisterAgent \<lparr>ri_context = sample_ctx 1, ri_id = ''b'', ri_organizationId = ''p'', ri_name = ''B''\<rparr>]"

lemma administration_stays_in_organization_witness:
  "\<exists>d'. admin_step sample_hash sample_admin (AdRegister ''a'' ''A'' ''q'' (Instant 2))
       (identity_run sample_hash sample_setup empty_db) = Inr d'
     \<and> administrator sample_admin (Some Agents_write) \<and> length (db_agents d') = 2
     \<and> outside ''o'' d' = outside ''o'' (identity_run sample_hash sample_setup empty_db)"
proof -
  have "case admin_step sample_hash sample_admin (AdRegister ''a'' ''A'' ''q'' (Instant 2))
      (identity_run sample_hash sample_setup empty_db) of Inl e \<Rightarrow> False | Inr d' \<Rightarrow> length (db_agents d') = 2"
    by code_simp
  then obtain d' where d': "admin_step sample_hash sample_admin (AdRegister ''a'' ''A'' ''q'' (Instant 2))
      (identity_run sample_hash sample_setup empty_db) = Inr d'" "length (db_agents d') = 2"
    by (auto split: sum.splits)
  from administration_stays_in_organization [OF refl d'(1)] d' show ?thesis
    by (simp add: sample_admin_def)
qed

section \<open>Invites\<close>

lemma upsert_membership_finds:
  "\<exists>m'. tbl_find membership_key (membership_key m) (upsert_membership m rows) = Some m'
     \<and> mb_role m' = mb_role m \<and> (mb_revokedAt m = None \<longrightarrow> mb_revokedAt m' = None)"
proof (cases "tbl_insert membership_key m rows")
  case None
  then obtain x where "tbl_find membership_key (membership_key m) rows = Some x"
    by (auto simp: tbl_insert_def split: if_splits)
  with None show ?thesis
    by (simp add: upsert_membership_def tbl_find_update [of membership_key] membership_key_def)
next
  case (Some rows')
  from tbl_find_insert [OF Some] show ?thesis by (simp add: upsert_membership_def Some)
qed

lemma createHumanSession_fields:
  "createHumanSession sha secret i = Inr (t, r) \<Longrightarrow>
     hs_workspaceId r = js_trim (hi_workspaceId i) \<and> hs_userId r = js_trim (hi_userId i)
     \<and> hs_role r = hi_role i \<and> hs_sourceCredentialId r = js_trim (hi_sourceCredentialId i)
     \<and> date_parse (hi_createdAt i) = Some (hs_createdAt r)
     \<and> date_parse (hi_expiresAt i) = Some (hs_expiresAt r) \<and> hs_revokedAt r = None
     \<and> hs_tokenHash r = sha t"
  by (auto simp: createHumanSession_def Let_def and_then_Inr_iff sql_time_def split: if_splits option.splits)

definition session_of_invite_ok :: "invite_row \<Rightarrow> string \<Rightarrow> int \<Rightarrow> session_row \<Rightarrow> bool" where
  "session_of_invite_ok v userId now r \<longleftrightarrow> hs_workspaceId r = js_trim (iv_organizationId v)
     \<and> hs_userId r = js_trim userId \<and> hs_role r = session_role_for_invite (iv_role v)
     \<and> hs_sourceCredentialId r = js_trim (iv_sourceCredentialId v)
     \<and> hs_expiresAt r \<le> now + max_human_session_ms \<and> hs_expiresAt r \<le> iv_expiresAt v"

definition role_granted :: "invite_row \<Rightarrow> string \<Rightarrow> identity_db \<Rightarrow> bool" where
  "role_granted v userId d =
     (case tbl_find membership_key (iv_organizationId v, userId) (db_memberships d) of
        None \<Rightarrow> False | Some m \<Rightarrow> mb_role m = membership_role (iv_role v) \<and> mb_revokedAt m = None)"

text \<open>
  C13: accepting an invite takes one that is open and has not expired, makes its user a member with
  exactly the invited role, and no later state accepts the same token again. The session that follows
  has the invited role and ends within a day and no later than the invite.
\<close>

theorem invite_accepted_once:
  assumes "d = identity_run sha ops empty_db"
    and "accept_invite_token sha fresh token now d = Inr (d1, v)"
    and "d2 = identity_run sha ops' d1"
  shows "\<exists>i. i \<in> set (db_invites d) \<and> iv_tokenHash i = sha token \<and> invite_open i \<and> now < iv_expiresAt i
    \<and> role_granted i (cv_userId v) d1
    \<and> \<not> is_ok (accept_invite_token sha fresh' token now' d2)
    \<and> (case session_for_invite sha secret v now of Inl e \<Rightarrow> True
       | Inr (t, r) \<Rightarrow> session_of_invite_ok i (cv_userId v) now r)"
proof -
  have inv: "identity_inv d" by (simp add: assms(1) identity_run_inv)
  have used: "consumeWorkspaceInvite fresh (sha token) (Instant now) d = Inr (d1, Some v)"
    using assms(2) by (auto simp: accept_invite_token_def and_then_Inr_iff hashApiToken_def
        split: option.splits)
  then show ?thesis
  proof (cases rule: consume_invite_cases)
    case (2 i nowMs users u)
    let ?f = "\<lambda>r. r\<lparr>iv_userId := Some u, iv_acceptedAt := Some nowMs\<rparr>"
    have invites: "db_invites d1 = tbl_update iv_id (iv_id i) ?f (db_invites d)"
      using 2(7) by (auto simp: accept_invite_def)
    have only: "w = i" if "w \<in> set (db_invites d)" "iv_tokenHash w = sha token" for w
    proof -
      have "tbl_wf iv_tokenHash (db_invites d)" using inv by (simp add: identity_inv_defs)
      then have "inj_on iv_tokenHash (set (db_invites d))" by (simp add: tbl_wf_def distinct_map)
      from inj_onD [OF this] show ?thesis using that 2(2,3) by simp
    qed
    have "invite_closed d1 (sha token)"
      unfolding invite_closed_def
    proof (intro conjI ballI impI)
      show "\<exists>w \<in> set (db_invites d1). iv_tokenHash w = sha token"
        using 2(2,3) by (intro bexI [of _ "?f i"]) (auto simp: invites tbl_update_def)
    next
      fix w assume "w \<in> set (db_invites d1)" and h: "iv_tokenHash w = sha token"
      then obtain x where x: "x \<in> set (db_invites d)" "w = (if iv_id x = iv_id i then ?f x else x)"
        by (auto simp: invites tbl_update_def)
      have "iv_tokenHash x = sha token" using h x(2) by (cases "iv_id x = iv_id i") simp_all
      with only x show "\<not> invite_open w" by (auto simp: invite_open_def)
    qed
    then have closed: "invite_closed d2 (sha token)" by (simp add: assms(3) invites.run_final)
    have "\<not> is_ok (accept_invite_token sha fresh' token now' d2)"
      using closed_never_consumed [OF closed]
      by (auto simp: is_ok_iff accept_invite_token_def and_then_Inr_iff hashApiToken_def split: option.splits)
    moreover have "role_granted i u d1"
    proof -
      let ?m = "\<lparr>mb_organizationId = iv_organizationId i, mb_userId = u, mb_role = membership_role (iv_role i),
          mb_createdAt = nowMs, mb_revokedAt = None\<rparr>"
      have "db_memberships d1 = upsert_membership ?m (db_memberships d)"
        using 2(7) by (auto simp: accept_invite_def)
      with upsert_membership_finds [of ?m "db_memberships d"] show ?thesis
        by (auto simp: role_granted_def membership_key_def)
    qed
    moreover have v: "v = \<lparr>cv_workspaceId = iv_organizationId i, cv_userId = u, cv_role = iv_role i,
        cv_sourceCredentialId = iv_sourceCredentialId i,
        cv_sourceCredentialType = iv_sourceCredentialType i, cv_expiresAt = iv_expiresAt i\<rparr>"
      using 2(8) by simp
    moreover have "case session_for_invite sha secret v now of Inl e \<Rightarrow> True
       | Inr (t, r) \<Rightarrow> session_of_invite_ok i (cv_userId v) now r"
    proof (cases "session_for_invite sha secret v now")
      case (Inr tr)
      obtain t r where tr: "tr = (t, r)" by (cases tr)
      from createHumanSession_fields [OF Inr [unfolded tr session_for_invite_def]]
      have "session_of_invite_ok i (cv_userId v) now r"
        by (auto simp: v session_of_invite_ok_def)
      then show ?thesis by (simp add: Inr tr)
    qed simp
    ultimately show ?thesis using 2(1-5) by (intro exI [of _ i]) simp
  qed simp
qed

definition sample_invite_token :: string where
  "sample_invite_token = ''fuse_wi_'' @ replicate 32 (CHR ''x'')"

definition sample_invited :: "identity_op list" where
  "sample_invited = [IdCreateOrganization \<lparr>oi_context = sample_ctx 0, oi_id = ''o'', oi_name = ''O''\<rparr>,
     IdCreateInvite \<lparr>ii_context = sample_ctx 1, ii_id = ''i'', ii_organizationId = ''o'', ii_email = ''a@b.c'',
       ii_name = ''N'', ii_role = ''viewer'', ii_sourceCredentialId = ''k'',
       ii_tokenHash = sample_hash sample_invite_token, ii_createdAt = Instant 1, ii_expiresAt = Instant 9\<rparr>]"

lemma invite_accepted_once_witness:
  "\<exists>d1 v i. accept_invite_token sample_hash ''u'' sample_invite_token 5
       (identity_run sample_hash sample_invited empty_db) = Inr (d1, v)
     \<and> role_granted i (cv_userId v) d1
     \<and> \<not> is_ok (accept_invite_token sample_hash ''u'' sample_invite_token 6 d1)"
proof -
  have "is_ok (accept_invite_token sample_hash ''u'' sample_invite_token 5
      (identity_run sample_hash sample_invited empty_db))" by code_simp
  then obtain d1 v where run: "accept_invite_token sample_hash ''u'' sample_invite_token 5
      (identity_run sample_hash sample_invited empty_db) = Inr (d1, v)" by (auto simp: is_ok_iff)
  have "d1 = identity_run sample_hash [] d1" by simp
  from invite_accepted_once [OF refl run this, of "''u''" 6 "[]"] run show ?thesis by blast
qed

section \<open>Issued credentials\<close>

definition agents_active :: "identity_db \<Rightarrow> bool" where
  "agents_active d \<longleftrightarrow> list_all (\<lambda>a. ag_status a = Agent_active \<and> ag_revokedAt a = None) (db_agents d)"

lemma agents_active_step:
  assumes "agents_active d" "identity_step sha op d = Inr (d', a)"
  shows "agents_active d'"
proof (cases op)
  case (IdRegisterAgent i)
  with assms show ?thesis
    by (auto simp: plain_answer_Inr registerAgent_def and_then_Inr_iff insert_row_appends agents_active_def
        split: if_splits dest!: appendIdentityAudit_Inr)
qed (use assms in \<open>auto simp: plain_answer_Inr and_then_Inr_iff agents_active_def dest!: identity_frames\<close>)

interpretation active: transactional "identity_step sha" "\<lambda>_ _. True" agents_active for sha
  by unfold_locales (rule agents_active_step)

text \<open>No operation of the store revokes an agent.\<close>

lemma agents_always_active: "agents_active (identity_run sha ops empty_db)"
  by (rule active.run_inv) (simp_all add: agents_active_def empty_db_def)

text \<open>
  C30: the token returned for a new agent credential authenticates, until it expires, as the agent it was
  issued for, in the organization of the administrator, with exactly the requested capabilities.
\<close>

theorem issued_credential_authenticates:
  assumes "d = identity_run sha ops empty_db"
    and "issueAgentCredential sha secret p i now d = Inr (d', c)"
    and "unexpired t (optional_time (is_expiresAt i))"
  shows "\<exists>q. authenticateToken sha (ic_token c) (Instant t) d' d2 = Inr (Some q)
    \<and> pc_type q = Agent_credential \<and> pc_id q = is_ownerId i \<and> pc_organizationId q = pc_organizationId p
    \<and> pc_credentialId q = is_credentialId i \<and> set (pc_capabilities q) = set (is_capabilities i)"
proof -
  obtain token k where made: "createApiCredential sha secret (creation_input p i now) = Inr (token, k)"
    and put: "issueCredential k (admin_context p (is_requestId i) now) d = Inr d'"
    and c: "c = issued_of token k"
    using assms(2) by (auto simp: issueAgentCredential_def and_then_Inr_iff thrown_creation_Inr)
  have k: "cred_id k = is_credentialId i" "cred_organizationId k = pc_organizationId p"
    "cred_ownerId k = is_ownerId i" "set (cred_capabilities k) = set (is_capabilities i)"
    "cred_tokenHash k = sha token" "cred_expiresAt k = is_expiresAt i" "cred_revokedAt k = None"
    using made by (auto simp: createApiCredential_def creation_input_def Let_def hashApiToken_def
        split: option.splits if_splits)
  obtain r where r: "credential_columns k = Inr r"
    and new: "cr_tokenHash r \<notin> cr_tokenHash ` set (db_agentCredentials d)"
    and rows: "db_agentCredentials d' = db_agentCredentials d @ [r]" "db_agents d' = db_agents d"
    and owner: "tbl_find agent_key (cred_organizationId k, cred_ownerId k) (db_agents d) \<noteq> None"
    using put by (auto simp: issueCredential_def insert_agent_credential_def and_then_Inr_iff
        insert_unique_Inr split: if_splits dest!: appendIdentityAudit_Inr)
  obtain a where a: "tbl_find agent_key (cr_organizationId r, cr_ownerId r) (db_agents d') = Some a"
    using owner r rows(2) by (auto simp: credential_columns_Inr)
  have "ag_status a = Agent_active" "ag_revokedAt a = None"
    using tbl_find_SomeD [OF a] agents_always_active [of sha ops] rows(2)
    by (auto simp: agents_active_def list_all_iff assms(1))
  moreover have "find (\<lambda>c. cr_tokenHash c = sha token) (db_agentCredentials d') = Some r"
  proof -
    have "cr_tokenHash r = sha token" using r k by (auto simp: credential_columns_Inr)
    moreover have "find (\<lambda>c. cr_tokenHash c = sha token) (db_agentCredentials d) = None"
      using new calculation by (auto simp: find_None_iff image_iff)
    ultimately show ?thesis
      using tbl_find_append [of cr_tokenHash "sha token" "db_agentCredentials d" "[r]", unfolded tbl_find_def]
      by (simp add: rows)
  qed
  moreover have "cr_tokenHash r = sha token" "cr_revokedAt r = None"
    "cr_expiresAt r = optional_time (is_expiresAt i)"
    using r k by (auto simp: credential_columns_Inr optional_time_def)
  ultimately show ?thesis
    using a assms(3) r k
    by (auto simp: authenticateToken_def authenticate_agent_def agent_by_hash_def c issued_of_def
        hashApiToken_def tokenMatchesHash_def credential_columns_Inr)
qed

definition sample_issue :: issue_input where
  "sample_issue = \<lparr>is_credentialId = ''k3'', is_ownerId = ''b'', is_name = ''n'',
     is_capabilities = [Known Inference_invoke], is_expiresAt = Some (Instant 90), is_requestId = ''q''\<rparr>"

definition sample_issuer :: principal where
  "sample_issuer = sample_admin\<lparr>pc_organizationId := ''p'', pc_capabilities := [Known Credentials_issue]\<rparr>"

lemma issued_credential_authenticates_witness:
  "\<exists>d' c q. issueAgentCredential sample_hash (replicate 32 0) sample_issuer sample_issue (Instant 3)
       (identity_run sample_hash sample_setup empty_db) = Inr (d', c)
     \<and> authenticateToken sample_hash (ic_token c) (Instant 20) d' d' = Inr (Some q)
     \<and> pc_id q = ''b'' \<and> pc_organizationId q = ''p''"
proof -
  have "is_ok (issueAgentCredential sample_hash (replicate 32 0) sample_issuer sample_issue (Instant 3)
      (identity_run sample_hash sample_setup empty_db))" by code_simp
  then obtain d' c where run: "issueAgentCredential sample_hash (replicate 32 0) sample_issuer sample_issue
      (Instant 3) (identity_run sample_hash sample_setup empty_db) = Inr (d', c)" by (auto simp: is_ok_iff)
  have "unexpired 20 (optional_time (is_expiresAt sample_issue))"
    by (simp add: sample_issue_def optional_time_def unexpired_def)
  from issued_credential_authenticates [OF refl run this] run show ?thesis
    by (auto simp: sample_issue_def sample_issuer_def sample_admin_def)
qed

section \<open>Sessions of administrators\<close>

text \<open>
  \<open>POST /api/v1/session\<close> derives the session from the role of the service account alone. Whatever the
  credential of an administrator was restricted to, the session it is exchanged for holds every
  capability.
\<close>

lemma session_exceeds_credential:
  assumes "pc_role p = Some Role_admin"
    and "post_session sha secret p expiry now d = (d', SessionCreated token sid ws until)"
  shows "\<exists>r \<in> set (db_sessions d'). hs_tokenHash r = sha token
    \<and> pc_capabilities (session_principal (resolved_of r)) = map Known API_CAPABILITIES"
proof -
  obtain e r where made: "createHumanSession sha secret
        \<lparr>hi_workspaceId = pc_organizationId p, hi_userId = pc_id p, hi_sourceCredentialId = pc_credentialId p,
         hi_sourceCredentialType = Some (pc_type p), hi_role = human_role_of (pc_role p),
         hi_createdAt = Instant now, hi_expiresAt = Instant e\<rparr> = Inr (token, r)"
    and put: "put_session r d = Inr d'"
    using assms(2) by (auto simp: post_session_def and_then_Inr_iff split: if_splits option.splits sum.splits)
  have "tbl_find hs_id (hs_id r) (db_sessions d') = Some r"
    using put by (auto simp: put_session_def tbl_find_map_set split: if_splits)
  then have "r \<in> set (db_sessions d')" by (auto dest: tbl_find_SomeD)
  moreover have "hs_role r = Human_owner" "hs_tokenHash r = sha token"
    using createHumanSession_fields [OF made] assms(1) by simp_all
  ultimately show ?thesis
    by (intro bexI [of _ r]) (simp_all add: session_principal_def resolved_of_def)
qed

end
