(* ===== verification/BigIntText.thy ===== *)
theory BigIntText
  imports Decimal
begin

text \<open>
  \<open>BigInt(text)\<close>, the StringToBigInt of the language, which the product services and the policy store use
  to read amounts back: white space around the literal is ignored, the empty text is zero, a decimal
  literal may have a sign, a \<open>0x\<close>, \<open>0o\<close> or \<open>0b\<close> literal may not, anything else is a SyntaxError.
\<close>

definition hex_digit :: "char \<Rightarrow> nat option" where
  "hex_digit c =
     (let n = of_char c in
      if 48 \<le> n \<and> n \<le> 57 then Some (n - 48)
      else if 65 \<le> n \<and> n \<le> 70 then Some (n - 55)
      else if 97 \<le> n \<and> n \<le> 102 then Some (n - 87) else None)"

fun radix_val :: "nat \<Rightarrow> nat \<Rightarrow> string \<Rightarrow> nat option" where
  "radix_val b acc [] = Some acc"
| "radix_val b acc (c # cs) =
     (case hex_digit c of None \<Rightarrow> None
      | Some d \<Rightarrow> if d < b then radix_val b (acc * b + d) cs else None)"

definition radix_literal :: "nat \<Rightarrow> string \<Rightarrow> int option" where
  "radix_literal b s = (if s = [] then None else map_option int (radix_val b 0 s))"

definition decimal_literal :: "string \<Rightarrow> int option" where
  "decimal_literal s = (if s \<noteq> [] \<and> list_all is_digit s then Some (digits_val s) else None)"

definition bigint_literal :: "string \<Rightarrow> int option" where
  "bigint_literal s =
     (if s = [] then Some 0
      else if take 2 s \<in> {''0x'', ''0X''} then radix_literal 16 (drop 2 s)
      else if take 2 s \<in> {''0o'', ''0O''} then radix_literal 8 (drop 2 s)
      else if take 2 s \<in> {''0b'', ''0B''} then radix_literal 2 (drop 2 s)
      else if hd s = CHR ''-'' then map_option uminus (decimal_literal (tl s))
      else if hd s = CHR ''+'' then decimal_literal (tl s)
      else decimal_literal s)"

definition bigint_of_text :: "string \<Rightarrow> int option" where
  "bigint_of_text s = bigint_literal (js_trim s)"

section \<open>Reading back what \<open>toString\<close> wrote\<close>

lemma digit_not_space: "is_digit c \<Longrightarrow> \<not> js_space c"
  by (auto simp: is_digit_def js_space_def)

lemma trim_id: "s = [] \<or> (\<not> js_space (hd s) \<and> \<not> js_space (last s)) \<Longrightarrow> js_trim s = s"
proof -
  have e: "dropWhile js_space t = t" if "t = [] \<or> \<not> js_space (hd t)" for t
    using that by (cases t) auto
  assume "s = [] \<or> (\<not> js_space (hd s) \<and> \<not> js_space (last s))"
  then show ?thesis unfolding js_trim_def by (subst e; subst e) (auto simp: hd_rev)
qed

lemma trim_digits: "list_all is_digit s \<Longrightarrow> js_trim s = s"
  by (rule trim_id, cases "s = []") (auto simp: list_all_iff digit_not_space)

lemma digits_literal:
  assumes "list_all is_digit s" "s \<noteq> []"
  shows "bigint_literal s = Some (digits_val s)"
proof -
  from assms obtain c cs where s: "s = c # cs" "is_digit c" by (cases s) auto
  have two: "take 2 s = [c] \<or> (\<exists>d. take 2 s = [c, d] \<and> is_digit d)"
    using assms s by (cases cs) auto
  have letters: "\<not> is_digit (CHR ''x'')" "\<not> is_digit (CHR ''X'')" "\<not> is_digit (CHR ''o'')"
    "\<not> is_digit (CHR ''O'')" "\<not> is_digit (CHR ''b'')" "\<not> is_digit (CHR ''B'')"
    "\<not> is_digit (CHR ''-'')" "\<not> is_digit (CHR ''+'')"
    by (simp_all add: is_digit_def)
  with two have "take 2 s \<notin> {''0x'', ''0X'', ''0o'', ''0O'', ''0b'', ''0B''}" by auto
  then show ?thesis
    using assms s letters by (auto simp: bigint_literal_def decimal_literal_def)
qed

lemma bigint_of_digits: "list_all is_digit s \<Longrightarrow> s \<noteq> [] \<Longrightarrow> bigint_of_text s = Some (digits_val s)"
  by (simp add: bigint_of_text_def trim_digits digits_literal)

theorem bigint_of_show_int [simp]: "bigint_of_text (show_int n) = Some n"
proof (cases "n < 0")
  case False
  then show ?thesis
    using bigint_of_digits [OF show_nat_digits show_nat_nonempty, of "nat n"]
    by (simp add: show_int_def digits_val_show_nat)
next
  case True
  let ?w = "show_nat (nat (- n))"
  have w: "list_all is_digit ?w" "?w \<noteq> []" by (rule show_nat_digits) simp
  have "is_digit (last ?w)" using w by (simp add: list_all_iff)
  then have "\<not> js_space (last ?w)" by (rule digit_not_space)
  moreover have "\<not> js_space (CHR ''-'')" by (simp add: js_space_def)
  ultimately have trim: "js_trim (CHR ''-'' # ?w) = CHR ''-'' # ?w"
    using w(2) by (intro trim_id) simp
  have "bigint_literal (CHR ''-'' # ?w) = Some (- digits_val ?w)"
    using w by (cases ?w) (auto simp: bigint_literal_def decimal_literal_def)
  with True trim show ?thesis
    by (simp add: bigint_of_text_def show_int_def digits_val_show_nat)
qed

end
