(* ===== verification/PolicyReads.thy ===== *)
theory PolicyReads
  imports PolicyShadow BigIntText Administration
begin

text \<open>
  The queries of \<open>src/src/persistence/policyStore.ts\<close> that write nothing: the decisions of a mandate, whole
  or page by page, the settlements of its executions, the shadow evaluations, and the two readiness
  questions (is there a usable policy, is there a mandate an agent could spend from now). A decision
  is stored with its amounts as decimal texts and read back.
\<close>

section \<open>Decisions as they are stored\<close>

text \<open>The amounts of \<open>input_snapshot\<close>, written by \<open>toString\<close> and read by \<open>BigInt\<close>.\<close>

record workload_snapshot =
  ws_input :: workload_input
  ws_branchMaximumAtomic :: string
  ws_branchSpentAtomic :: string
  ws_classSpentAtomic :: string

record decision_snapshot =
  sn_input :: decision_input
  sn_estimatedCostAtomic :: string
  sn_spentHourAtomic :: string
  sn_spentDayAtomic :: string
  sn_mandateSpentAtomic :: string
  sn_mandateMaximumAtomic :: string
  sn_workload :: "workload_snapshot option"
  sn_exposure :: "(string \<times> string \<times> string \<times> string \<times> string) option"

text \<open>The spread \<open>...input\<close> keeps the other fields; the amounts it carries are overwritten.\<close>

definition blank_workload :: "workload_input \<Rightarrow> workload_input" where
  "blank_workload w = w\<lparr>branchMaximumAtomic := 0, branchSpentAtomic := 0, classSpentAtomic := 0\<rparr>"

definition blank_amounts :: "decision_input \<Rightarrow> decision_input" where
  "blank_amounts i = i\<lparr>di_estimatedCostAtomic := 0, di_spentHourAtomic := 0, di_spentDayAtomic := 0,
     di_mandateSpentAtomic := 0, di_mandateMaximumAtomic := 0, di_workload := None, di_exposure := None\<rparr>"

definition serializeDecisionInput :: "decision_input \<Rightarrow> decision_snapshot" where
  "serializeDecisionInput i =
     \<lparr>sn_input = blank_amounts i,
      sn_estimatedCostAtomic = show_int (di_estimatedCostAtomic i),
      sn_spentHourAtomic = show_int (di_spentHourAtomic i),
      sn_spentDayAtomic = show_int (di_spentDayAtomic i),
      sn_mandateSpentAtomic = show_int (di_mandateSpentAtomic i),
      sn_mandateMaximumAtomic = show_int (di_mandateMaximumAtomic i),
      sn_workload = map_option (\<lambda>w. \<lparr>ws_input = blank_workload w,
        ws_branchMaximumAtomic = show_int (branchMaximumAtomic w),
        ws_branchSpentAtomic = show_int (branchSpentAtomic w),
        ws_classSpentAtomic = show_int (classSpentAtomic w)\<rparr>) (di_workload i),
      sn_exposure = map_option (\<lambda>x. (show_int (branchLimitAtomic x),
        show_int (branchCommittedBeforeAtomic x), show_int (requestReservationAtomic x),
        show_int (maximumExposureAtomic x), show_int (remainingAuthorityAtomic x))) (di_exposure i)\<rparr>"

definition read_bigint :: "string \<Rightarrow> store_error + int" where
  "read_bigint s =
     (case bigint_of_text s of
        None \<Rightarrow> Inl (Thrown (''Cannot convert '' @ s @ '' to a BigInt'')) | Some n \<Rightarrow> Inr n)"

lemma read_show_int [simp]: "read_bigint (show_int n) = Inr n"
  by (simp add: read_bigint_def)

definition read_workload :: "workload_snapshot \<Rightarrow> store_error + workload_input" where
  "read_workload w =
     and_then (read_bigint (ws_branchMaximumAtomic w)) (\<lambda>a.
     and_then (read_bigint (ws_branchSpentAtomic w)) (\<lambda>b.
     and_then (read_bigint (ws_classSpentAtomic w)) (\<lambda>c.
     Inr ((ws_input w)\<lparr>branchMaximumAtomic := a, branchSpentAtomic := b, classSpentAtomic := c\<rparr>))))"

definition read_exposure ::
    "string \<times> string \<times> string \<times> string \<times> string \<Rightarrow> store_error + exposure_snapshot" where
  "read_exposure = (\<lambda>(a, b, c, d, e).
     and_then (read_bigint a) (\<lambda>a. and_then (read_bigint b) (\<lambda>b. and_then (read_bigint c) (\<lambda>c.
     and_then (read_bigint d) (\<lambda>d. and_then (read_bigint e) (\<lambda>e.
     Inr \<lparr>branchLimitAtomic = a, branchCommittedBeforeAtomic = b, requestReservationAtomic = c,
          maximumExposureAtomic = d, remainingAuthorityAtomic = e\<rparr>))))))"

fun read_optional :: "('a \<Rightarrow> store_error + 'b) \<Rightarrow> 'a option \<Rightarrow> store_error + 'b option" where
  "read_optional f None = Inr None"
| "read_optional f (Some x) = and_then (f x) (\<lambda>y. Inr (Some y))"

definition deserializeDecisionInput :: "decision_snapshot \<Rightarrow> store_error + decision_input" where
  "deserializeDecisionInput n =
     and_then (read_bigint (sn_estimatedCostAtomic n)) (\<lambda>a.
     and_then (read_bigint (sn_spentHourAtomic n)) (\<lambda>b.
     and_then (read_bigint (sn_spentDayAtomic n)) (\<lambda>c.
     and_then (read_bigint (sn_mandateSpentAtomic n)) (\<lambda>d.
     and_then (read_bigint (sn_mandateMaximumAtomic n)) (\<lambda>e.
     and_then (read_optional read_workload (sn_workload n)) (\<lambda>w.
     and_then (read_optional read_exposure (sn_exposure n)) (\<lambda>x.
     Inr ((sn_input n)\<lparr>di_estimatedCostAtomic := a, di_spentHourAtomic := b, di_spentDayAtomic := c,
       di_mandateSpentAtomic := d, di_mandateMaximumAtomic := e, di_workload := w,
       di_exposure := x\<rparr>))))))))"

lemma decision_snapshot_roundtrip: "deserializeDecisionInput (serializeDecisionInput i) = Inr i"
proof (cases "di_workload i"; cases "di_exposure i")
qed (simp_all add: deserializeDecisionInput_def serializeDecisionInput_def read_workload_def
    read_exposure_def blank_workload_def blank_amounts_def)

text \<open>The same for the workload classes of a policy version.\<close>

record class_snapshot =
  sc_class :: workload_class
  sc_maxCostPerCallAtomic :: string
  sc_aggregateBudgetAtomic :: string
  sc_shadow :: "(shadow_policy \<times> string) option"

definition serializeWorkloadClasses :: "workload_class list \<Rightarrow> class_snapshot list" where
  "serializeWorkloadClasses = map (\<lambda>c.
     \<lparr>sc_class = c\<lparr>maxCostPerCallAtomic := 0, aggregateBudgetAtomic := 0, wc_shadow := None\<rparr>,
      sc_maxCostPerCallAtomic = show_int (maxCostPerCallAtomic c),
      sc_aggregateBudgetAtomic = show_int (aggregateBudgetAtomic c),
      sc_shadow = map_option (\<lambda>p. (p\<lparr>classPriorWindowSpendAtomic := 0\<rparr>,
        show_int (classPriorWindowSpendAtomic p))) (wc_shadow c)\<rparr>)"

definition read_class_shadow :: "shadow_policy \<times> string \<Rightarrow> store_error + shadow_policy" where
  "read_class_shadow = (\<lambda>(p, t). and_then (read_bigint t) (\<lambda>n. Inr (p\<lparr>classPriorWindowSpendAtomic := n\<rparr>)))"

definition read_class :: "class_snapshot \<Rightarrow> store_error + workload_class" where
  "read_class c =
     and_then (read_bigint (sc_maxCostPerCallAtomic c)) (\<lambda>a.
     and_then (read_bigint (sc_aggregateBudgetAtomic c)) (\<lambda>b.
     and_then (read_optional read_class_shadow (sc_shadow c)) (\<lambda>s.
     Inr ((sc_class c)\<lparr>maxCostPerCallAtomic := a, aggregateBudgetAtomic := b, wc_shadow := s\<rparr>))))"

fun read_all :: "('a \<Rightarrow> store_error + 'b) \<Rightarrow> 'a list \<Rightarrow> store_error + 'b list" where
  "read_all f [] = Inr []"
| "read_all f (x # xs) = and_then (f x) (\<lambda>y. and_then (read_all f xs) (\<lambda>ys. Inr (y # ys)))"

definition deserializeWorkloadClasses :: "class_snapshot list \<Rightarrow> store_error + workload_class list" where
  "deserializeWorkloadClasses = read_all read_class"

lemma read_all_map: "(\<And>x. f (g x) = Inr x) \<Longrightarrow> read_all f (map g xs) = Inr xs"
  by (induction xs) simp_all

lemma read_class_roundtrip:
  "read_class \<lparr>sc_class = c\<lparr>maxCostPerCallAtomic := 0, aggregateBudgetAtomic := 0, wc_shadow := None\<rparr>,
      sc_maxCostPerCallAtomic = show_int (maxCostPerCallAtomic c),
      sc_aggregateBudgetAtomic = show_int (aggregateBudgetAtomic c),
      sc_shadow = map_option (\<lambda>p. (p\<lparr>classPriorWindowSpendAtomic := 0\<rparr>,
        show_int (classPriorWindowSpendAtomic p))) (wc_shadow c)\<rparr> = Inr c"
  by (cases "wc_shadow c") (simp_all add: read_class_def read_class_shadow_def)

lemma workload_classes_roundtrip:
  "deserializeWorkloadClasses (serializeWorkloadClasses cs) = Inr cs"
  unfolding deserializeWorkloadClasses_def serializeWorkloadClasses_def
  by (rule read_all_map) (rule read_class_roundtrip)

section \<open>Lists of decisions\<close>

text \<open>The column \<open>decided_at\<close>; a decision is only stored with a valid time.\<close>

definition decided_at :: "stored_decision \<Rightarrow> int" where
  "decided_at d = (case date_parse (di_decidedAt (sd_input d)) of None \<Rightarrow> 0 | Some t \<Rightarrow> t)"

definition of_mandate :: "string \<Rightarrow> string \<Rightarrow> stored_decision \<Rightarrow> bool" where
  "of_mandate org mid d \<longleftrightarrow> sd_organizationId d = org \<and> sd_mandateId d = mid"

definition by_time :: "stored_decision list \<Rightarrow> stored_decision list" where
  "by_time ds = sort_key decided_at (sort_key sd_id ds)"

definition listDecisions :: "string \<Rightarrow> string \<Rightarrow> policy_store \<Rightarrow> stored_decision list" where
  "listDecisions org mid s = by_time (filter (of_mandate org mid) (st_decisions s))"

record decision_page =
  dp_hasMore :: bool
  dp_nextCursor :: "(int \<times> string) option"
  dp_decisions :: "stored_decision list"

text \<open>What comes after the cursor, in the order of the list.\<close>

definition after_cursor :: "(int \<times> string) option \<Rightarrow> stored_decision \<Rightarrow> bool" where
  "after_cursor c d \<longleftrightarrow>
     (case c of None \<Rightarrow> True
      | Some (t, i) \<Rightarrow> t < decided_at d \<or> (decided_at d = t \<and> i < sd_id d))"

definition listDecisionsPage ::
    "string \<Rightarrow> string \<Rightarrow> nat \<Rightarrow> (int \<times> string) option \<Rightarrow> string option \<Rightarrow> policy_store \<Rightarrow> decision_page" where
  "listDecisionsPage org mid n c agentId s =
     (let result = take (n + 1) (by_time (filter (\<lambda>d. of_mandate org mid d \<and> after_cursor c d
            \<and> (case agentId of None \<Rightarrow> True | Some a \<Rightarrow> sd_agentId d = a)) (st_decisions s)));
          hasMore = n < length result; rows = take n result
      in \<lparr>dp_hasMore = hasMore,
          dp_nextCursor = (if hasMore \<and> rows \<noteq> [] then Some (decided_at (last rows), sd_id (last rows)) else None),
          dp_decisions = rows\<rparr>)"

definition getDecision :: "string \<Rightarrow> string \<Rightarrow> string \<Rightarrow> policy_store \<Rightarrow> stored_decision option" where
  "getDecision org mid rid s =
     find (\<lambda>d. of_mandate org mid d \<and> sd_requestId d = rid) (st_decisions s)"

section \<open>Settlements and shadow evaluations\<close>

record execution_settlement =
  xs_requestId :: string
  xs_status :: exec_status
  xs_reservedCostAtomic :: int
  xs_actualCostAtomic :: "int option"
  xs_failureCode :: "string option"
  xs_resolved :: bool

definition settlement_of :: "policy_store \<Rightarrow> execution_row \<Rightarrow> execution_settlement" where
  "settlement_of s r =
     \<lparr>xs_requestId = ex_requestId r, xs_status = ex_status r,
      xs_reservedCostAtomic = ex_reservedCostAtomic r, xs_actualCostAtomic = ex_actualCostAtomic r,
      xs_failureCode = ex_failureCode r, xs_resolved = resolved s r\<rparr>"

definition listExecutionSettlementsForRequests ::
    "string \<Rightarrow> string \<Rightarrow> string list \<Rightarrow> policy_store \<Rightarrow> execution_settlement list" where
  "listExecutionSettlementsForRequests org mid rids s =
     map (settlement_of s) (filter (\<lambda>r. in_mandate org mid r \<and> ex_requestId r \<in> set rids) (st_executions s))"

definition listExecutionSettlements :: "string \<Rightarrow> string \<Rightarrow> policy_store \<Rightarrow> execution_settlement list" where
  "listExecutionSettlements org mid s =
     map (settlement_of s) (sort_key ex_createdAt (sort_key ex_requestId
       (filter (in_mandate org mid) (st_executions s))))"

text \<open>The branches of the listed evaluations are verified first.\<close>

definition listShadowEvaluations ::
    "(string \<Rightarrow> string) \<Rightarrow> string \<Rightarrow> string \<Rightarrow> policy_store \<Rightarrow> store_error + shadow_evaluation list" where
  "listShadowEvaluations sha org mid s =
     (let shown = filter (\<lambda>e. se_organizationId e = org \<and> se_mandateId e = mid) (st_shadows s);
          branches = filter (\<lambda>b. br_organizationId b = org \<and> br_mandateId b = mid
            \<and> list_ex (\<lambda>e. se_branchId e = br_branchId b) shown) (st_branches s)
      in and_then (check (first_error (concat (map (\<lambda>b.
           case verifyBranchIntegrity sha b of None \<Rightarrow> [] | Some e \<Rightarrow> [(True, e)]) branches)))) (\<lambda>_.
         Inr (sort_key se_evaluatedAt (sort_key se_requestId shown))))"

section \<open>Readiness\<close>

definition positive_limits :: "policy_version \<Rightarrow> bool" where
  "positive_limits p \<longleftrightarrow>
     0 < maxPerCallAtomic (limits p) \<and> 0 < maxHourlyAtomic (limits p) \<and> 0 < maxDailyAtomic (limits p)
     \<and> 0 < maxRequestsPerMinute (limits p) \<and> 0 < maxInputTokens (limits p) \<and> 0 < maxOutputTokens (limits p)"

definition usable_policy :: "string option \<Rightarrow> string option \<Rightarrow> policy_version \<Rightarrow> bool" where
  "usable_policy provider model p \<longleftrightarrow>
     pol_mode p \<noteq> Paused \<and> requiredCapability p = Known Inference_invoke
     \<and> (case provider of None \<Rightarrow> True | Some x \<Rightarrow> x \<in> set (allowedProviders p))
     \<and> (case model of None \<Rightarrow> True | Some x \<Rightarrow> x \<in> set (allowedModels p))
     \<and> positive_limits p"

definition hasUsablePolicy :: "string \<Rightarrow> string \<Rightarrow> string \<Rightarrow> policy_store \<Rightarrow> store_error + bool" where
  "hasUsablePolicy org provider model s =
     and_then (check (first_error
       [(blank org, Thrown ''POLICY_ORGANIZATION_REQUIRED''),
        (blank provider \<or> blank model, Thrown ''POLICY_PROVIDER_MODEL_REQUIRED'')])) (\<lambda>_.
     Inr (list_ex (\<lambda>r. pol_organizationId (pr_policy r) = org
       \<and> usable_policy (Some provider) (Some model) (pr_policy r)) (st_policies s)))"

definition live_agent_credential :: "int \<Rightarrow> string \<Rightarrow> string \<Rightarrow> identity_db \<Rightarrow> bool" where
  "live_agent_credential now org agentId d \<longleftrightarrow>
     list_ex (\<lambda>a. ag_organizationId a = org \<and> ag_id a = agentId \<and> ag_status a = Agent_active
       \<and> ag_revokedAt a = None) (db_agents d)
     \<and> list_ex (\<lambda>c. cr_organizationId c = org \<and> cr_ownerId c = agentId \<and> cr_revokedAt c = None
       \<and> unexpired now (cr_expiresAt c) \<and> Known Inference_invoke \<in> set (cr_capabilities c))
       (db_agentCredentials d)"

text \<open>The SUM over the executions of a branch, whatever their workload class.\<close>

definition branch_usage :: "string \<Rightarrow> string \<Rightarrow> string \<Rightarrow> policy_store \<Rightarrow> int" where
  "branch_usage org mid b s =
     (\<Sum>r\<leftarrow>filter (\<lambda>r. ex_branchId r = Some b) (mandate_executions org mid s). class_counted r)"

definition class_open :: "string \<Rightarrow> string \<Rightarrow> string \<Rightarrow> policy_store \<Rightarrow> workload_class \<Rightarrow> bool" where
  "class_open org mid b s c \<longleftrightarrow>
     (let usage = class_usage (branch_executions org mid b s)
      in class_count usage (wc_id c) < maxInvocationsPerBranch c
         \<and> class_spent usage (wc_id c) < aggregateBudgetAtomic c)"

text \<open>A branch of the agent, under the mandate's policy, with authority left in it and in a class.\<close>

definition branch_open ::
    "int \<Rightarrow> mandate_row \<Rightarrow> string \<Rightarrow> policy_version \<Rightarrow> policy_store \<Rightarrow> branch_row \<Rightarrow> bool" where
  "branch_open now m agentId p s b \<longleftrightarrow>
     br_organizationId b = cm_organizationId m \<and> br_mandateId b = cm_id m \<and> br_agentId b = agentId
     \<and> br_policyId b = cm_policyId m \<and> br_policyVersion b = cm_policyVersion m
     \<and> unexpired now (br_expiresAt b) \<and> br_branchId b \<noteq> []
     \<and> branch_usage (cm_organizationId m) (cm_id m) (br_branchId b) s
         + delegated_total (cm_organizationId m) (cm_id m) (br_branchId b) (st_branches s)
       < br_maximumSpendAtomic b
     \<and> list_ex (\<lambda>c. wc_id c \<in> set (br_allowedWorkloadClasses b)
         \<and> class_open (cm_organizationId m) (cm_id m) (br_branchId b) s c) (workloadClasses p)"

definition executable_mandate ::
    "int \<Rightarrow> string option \<Rightarrow> string option \<Rightarrow> policy_store \<Rightarrow> identity_db \<Rightarrow> mandate_row \<Rightarrow> string \<Rightarrow> bool" where
  "executable_mandate now provider model s d m agentId \<longleftrightarrow>
     cm_state m = M_active \<and> unexpired now (cm_expiresAt m)
     \<and> live_agent_credential now (cm_organizationId m) agentId d
     \<and> (\<Sum>r\<leftarrow>mandate_executions (cm_organizationId m) (cm_id m) s. class_counted r)
         < cm_maximumSpendAtomic m
     \<and> (case find_policy (cm_organizationId m) (cm_policyId m) (cm_policyVersion m) s of
          None \<Rightarrow> False
        | Some r \<Rightarrow> usable_policy provider model (pr_policy r)
            \<and> (workloadClasses (pr_policy r) = []
               \<or> list_ex (branch_open now m agentId (pr_policy r) s) (st_branches s)))"

definition hasExecutableMandate ::
    "string \<Rightarrow> timestamp \<Rightarrow> string option \<Rightarrow> string option \<Rightarrow> identity_db \<Rightarrow> policy_store
       \<Rightarrow> store_error + bool" where
  "hasExecutableMandate org now provider model d s =
     and_then (check (first_error
       [(blank org, Thrown ''CONTROL_MANDATE_ORGANIZATION_REQUIRED''),
        (bad_time now, Thrown ''CONTROL_MANDATE_CHECK_TIME_INVALID'')])) (\<lambda>_.
     and_then (sql_time now) (\<lambda>t.
     Inr (list_ex (\<lambda>m. cm_organizationId m = org
       \<and> list_ex (\<lambda>a. as_organizationId a = org \<and> as_mandateId a = cm_id m
           \<and> executable_mandate t provider model s d m (as_agentId a)) (st_assignments s)) (st_mandates s))))"

section \<open>Pages\<close>

text \<open>A reader that follows the cursors until there is no next page.\<close>

partial_function (option) read_pages ::
    "string \<Rightarrow> string \<Rightarrow> nat \<Rightarrow> (int \<times> string) option \<Rightarrow> string option \<Rightarrow> policy_store
       \<Rightarrow> stored_decision list option" where
  "read_pages org mid n c agentId s =
     (case dp_nextCursor (listDecisionsPage org mid n c agentId s) of
        None \<Rightarrow> Some (dp_decisions (listDecisionsPage org mid n c agentId s))
      | Some c' \<Rightarrow>
          Option.bind (read_pages org mid n (Some c') agentId s)
            (\<lambda>ds. Some (dp_decisions (listDecisionsPage org mid n c agentId s) @ ds)))"

text \<open>The sorted list is determined by the order of the pairs (time, id).\<close>

definition page_key :: "stored_decision \<Rightarrow> int \<times> string" where
  "page_key d = (decided_at d, sd_id d)"

definition key_less :: "int \<times> string \<Rightarrow> int \<times> string \<Rightarrow> bool" where
  "key_less x y \<longleftrightarrow> fst x < fst y \<or> (fst x = fst y \<and> snd x < snd y)"

lemma after_cursor_key: "after_cursor (Some c) d \<longleftrightarrow> key_less c (page_key d)"
  by (cases c) (auto simp: after_cursor_def key_less_def page_key_def)

lemma sorted_pairs:
  "sorted_wrt (\<lambda>x y. decided_at x < decided_at y \<or> (decided_at x = decided_at y \<and> sd_id x \<le> sd_id y))
     (by_time ds)"
proof -
  have stable: "sorted_wrt (\<lambda>x y. f x < f y \<or> (f x = f y \<and> g x \<le> g y)) (sort_key f xs)"
    if "sorted (map g xs)" for f :: "stored_decision \<Rightarrow> int" and g :: "stored_decision \<Rightarrow> string" and xs
    using that
  proof (induction xs)
    case (Cons x xs)
    have ins: "sorted_wrt (\<lambda>x y. f x < f y \<or> (f x = f y \<and> g x \<le> g y)) (insort_key f x ys)"
      if "sorted_wrt (\<lambda>x y. f x < f y \<or> (f x = f y \<and> g x \<le> g y)) ys" "\<forall>y \<in> set ys. g x \<le> g y" for ys
      using that by (induction ys) (fastforce simp: set_insort_key)+
    from Cons show ?case by (auto intro!: ins)
  qed simp
  show ?thesis unfolding by_time_def by (rule stable) simp
qed

lemma set_by_time [simp]: "set (by_time ds) = set ds"
  by (simp add: by_time_def)

lemma length_by_time [simp]: "length (by_time ds) = length ds"
  by (simp add: by_time_def)

lemma filter_by_time: "filter P (by_time ds) = by_time (filter P ds)"
  by (simp add: by_time_def filter_sort)

end
