(* ===== verification/PolicyAdministration.thy ===== *)
theory PolicyAdministration
  imports PolicyReads PolicyDelegation
begin

text \<open>
  What a principal may do to the policies and mandates of its organization:
  \<open>src/src/policy/policyAdministration.ts\<close>, and the services of the product that read the amounts of a
  request as decimal texts and call it, \<open>src/src/product/mandateManagement.ts\<close> and
  \<open>src/src/product/policyPublishing.ts\<close>. Each method checks the principal and the request id, and calls one
  operation of the policy store with the principal as the actor.
\<close>

section \<open>Guards\<close>

definition service_capability :: "principal \<Rightarrow> api_capability \<Rightarrow> string \<Rightarrow> store_error option" where
  "service_capability p k code = first_error
     [(pc_type p \<noteq> Service_credential, Thrown ''SERVICE_ACCOUNT_REQUIRED''),
      (Known k \<notin> set (pc_capabilities p), Thrown code)]"

definition policy_admin :: "principal \<Rightarrow> api_capability \<Rightarrow> string \<Rightarrow> store_error option" where
  "policy_admin p k code = first_error
     [(pc_type p \<noteq> Service_credential, Thrown ''SERVICE_ACCOUNT_REQUIRED''),
      (pc_role p \<noteq> Some Role_admin, Thrown ''SERVICE_ACCOUNT_ADMIN_REQUIRED''),
      (Known k \<notin> set (pc_capabilities p), Thrown code)]"

text \<open>The checks of every writing method.\<close>

definition policy_request :: "principal \<Rightarrow> api_capability \<Rightarrow> string \<Rightarrow> string \<Rightarrow> store_error option" where
  "policy_request p k code rid =
     orElse (policy_admin p k code) (first_error [(blank rid, Thrown ''REQUEST_ID_REQUIRED'')])"

section \<open>Policies\<close>

record publish_input =
  pp_policyId :: string
  pp_version :: int
  pp_mode :: policy_mode
  pp_allowedProviders :: "string list"
  pp_allowedModels :: "string list"
  pp_requiredCapability :: capability_text
  pp_limits :: policy_limits
  pp_workloadClasses :: "workload_class list"
  pp_requestId :: string

definition published_version :: "principal \<Rightarrow> publish_input \<Rightarrow> timestamp \<Rightarrow> policy_version" where
  "published_version p i now =
     \<lparr>pol_id = pp_policyId i, pol_organizationId = pc_organizationId p, pol_version = pp_version i,
      pol_mode = pp_mode i, allowedProviders = pp_allowedProviders i, allowedModels = pp_allowedModels i,
      requiredCapability = pp_requiredCapability i, limits = pp_limits i,
      workloadClasses = pp_workloadClasses i, pol_createdAt = now\<rparr>"

definition admin_publishPolicy ::
    "principal \<Rightarrow> publish_input \<Rightarrow> timestamp \<Rightarrow> policy_store \<Rightarrow> store_error + policy_store" where
  "admin_publishPolicy p i now s =
     and_then (check (policy_request p Policies_write ''POLICY_CAPABILITY_REQUIRED'' (pp_requestId i))) (\<lambda>_.
     publishPolicy (published_version p i now) (admin_context p (pp_requestId i) now) s)"

definition admin_getPolicy ::
    "principal \<Rightarrow> string \<Rightarrow> int \<Rightarrow> policy_store \<Rightarrow> store_error + policy_version option" where
  "admin_getPolicy p policyId version s =
     and_then (check (orElse (service_capability p Policies_read ''POLICY_CAPABILITY_REQUIRED'') (first_error
       [(blank policyId, Thrown ''POLICY_ID_REQUIRED''),
        (version < 1, Thrown ''POLICY_VERSION_INVALID'')]))) (\<lambda>_.
     getPolicy (pc_organizationId p) policyId version s)"

section \<open>Mandates\<close>

record create_mandate_input =
  mq_mandateId :: string
  mq_name :: string
  mq_assetId :: string
  mq_maximumSpendAtomic :: int
  mq_policyId :: string
  mq_policyVersion :: int
  mq_expiresAt :: "timestamp option"
  mq_requestId :: string

definition mandate_request ::
    "principal \<Rightarrow> string \<Rightarrow> (policy_store \<Rightarrow> store_error + 'a) \<Rightarrow> policy_store \<Rightarrow> store_error + 'a" where
  "mandate_request p rid f s =
     and_then (check (policy_request p Mandates_admin ''MANDATE_CAPABILITY_REQUIRED'' rid)) (\<lambda>_. f s)"

text \<open>A mandate always starts as a draft.\<close>

definition admin_createMandate ::
    "principal \<Rightarrow> create_mandate_input \<Rightarrow> timestamp \<Rightarrow> policy_store \<Rightarrow> store_error + policy_store" where
  "admin_createMandate p i now = mandate_request p (mq_requestId i) (createMandate
     \<lparr>mi_context = admin_context p (mq_requestId i) now, mi_id = mq_mandateId i,
      mi_organizationId = pc_organizationId p, mi_name = mq_name i, mi_assetId = mq_assetId i,
      mi_maximumSpendAtomic = mq_maximumSpendAtomic i, mi_state = M_draft, mi_policyId = mq_policyId i,
      mi_policyVersion = mq_policyVersion i, mi_expiresAt = mq_expiresAt i\<rparr>)"

definition admin_assignAgent ::
    "principal \<Rightarrow> string \<Rightarrow> string \<Rightarrow> string \<Rightarrow> timestamp \<Rightarrow> policy_store \<Rightarrow> store_error + policy_store" where
  "admin_assignAgent p mid agentId rid now =
     mandate_request p rid (assignAgent (pc_organizationId p) mid agentId (admin_context p rid now))"

record create_branch_input =
  bq_branchId :: string
  bq_mandateId :: string
  bq_parentBranchId :: "string option"
  bq_agentId :: string
  bq_allowedWorkloadClasses :: "string list"
  bq_maximumSpendAtomic :: int
  bq_expiresAt :: "timestamp option"
  bq_requestId :: string

definition admin_createBranch ::
    "(string \<Rightarrow> string) \<Rightarrow> principal \<Rightarrow> create_branch_input \<Rightarrow> timestamp \<Rightarrow> policy_store
       \<Rightarrow> store_error + (policy_store \<times> branch_row)" where
  "admin_createBranch sha p i now = mandate_request p (bq_requestId i) (createBranch sha
     (branch_creation.make (admin_context p (bq_requestId i) now) (bq_branchId i) (pc_organizationId p)
        (bq_mandateId i) (bq_parentBranchId i) (bq_agentId i) (bq_allowedWorkloadClasses i)
        (bq_maximumSpendAtomic i) (bq_expiresAt i)))"

definition admin_transitionMandate ::
    "principal \<Rightarrow> string \<Rightarrow> mandate_state \<Rightarrow> string \<Rightarrow> timestamp \<Rightarrow> policy_store \<Rightarrow> store_error + policy_store" where
  "admin_transitionMandate p mid to rid now =
     mandate_request p rid (transitionMandateState (pc_organizationId p) mid to (admin_context p rid now))"

definition admin_setMandatePolicy ::
    "principal \<Rightarrow> string \<Rightarrow> string \<Rightarrow> int \<Rightarrow> string \<Rightarrow> timestamp \<Rightarrow> policy_store \<Rightarrow> store_error + policy_store" where
  "admin_setMandatePolicy p mid policyId version rid now =
     mandate_request p rid
       (setMandatePolicy (pc_organizationId p) mid policyId version (admin_context p rid now))"

section \<open>Reconciliation and reports\<close>

record resolve_command =
  rq_executionRequestId :: string
  rq_resolution :: resolution_kind
  rq_actualCostAtomic :: "int option"
  rq_note :: string
  rq_externalReference :: string
  rq_requestId :: string

definition resolution_command :: "principal \<Rightarrow> resolve_command \<Rightarrow> timestamp \<Rightarrow> resolution_input" where
  "resolution_command p i now =
     resolution_input.make (admin_context p (rq_requestId i) now) (pc_organizationId p)
       (rq_executionRequestId i) (rq_resolution i) (rq_actualCostAtomic i) (rq_note i)
       (rq_externalReference i)"

definition admin_resolveReconciliation ::
    "(string \<Rightarrow> string) \<Rightarrow> string \<Rightarrow> int \<Rightarrow> principal \<Rightarrow> resolve_command \<Rightarrow> timestamp \<Rightarrow> policy_store
       \<Rightarrow> store_error + policy_store" where
  "admin_resolveReconciliation sha token clock p i now = mandate_request p (rq_requestId i)
     (resolveReconciliation sha token clock (resolution_command p i now))"

definition admin_listReconciliationCases ::
    "principal \<Rightarrow> policy_store \<Rightarrow> store_error + reconciliation_case list" where
  "admin_listReconciliationCases p s =
     and_then (check (service_capability p Policies_read ''POLICY_CAPABILITY_REQUIRED'')) (\<lambda>_.
     listReconciliationCases (pc_organizationId p) s)"

definition report_request :: "principal \<Rightarrow> string \<Rightarrow> store_error option" where
  "report_request p mid =
     orElse (service_capability p Policies_read ''POLICY_CAPABILITY_REQUIRED'') (first_error
       [(blank mid, Thrown ''CONTROL_MANDATE_ID_REQUIRED'')])"

definition admin_listDecisions ::
    "principal \<Rightarrow> string \<Rightarrow> policy_store \<Rightarrow> store_error + stored_decision list" where
  "admin_listDecisions p mid s =
     and_then (check (report_request p mid)) (\<lambda>_. Inr (listDecisions (pc_organizationId p) mid s))"

definition admin_listShadowEvaluations ::
    "(string \<Rightarrow> string) \<Rightarrow> principal \<Rightarrow> string \<Rightarrow> policy_store \<Rightarrow> store_error + shadow_evaluation list" where
  "admin_listShadowEvaluations sha p mid s =
     and_then (check (report_request p mid)) (\<lambda>_. listShadowEvaluations sha (pc_organizationId p) mid s)"

section \<open>The services of the product\<close>

text \<open>\<open>/^[1-9]\d*$/\<close>, then \<open>BigInt\<close>.\<close>

definition atomicAmount :: "string \<Rightarrow> store_error + int" where
  "atomicAmount s =
     (if s \<noteq> [] \<and> list_all is_digit s \<and> hd s \<noteq> CHR ''0'' then Inr (digits_val s)
      else Inl (Thrown ''PRODUCT_ATOMIC_AMOUNT_INVALID''))"

definition product_createMandate ::
    "principal \<Rightarrow> create_mandate_input \<Rightarrow> string \<Rightarrow> timestamp \<Rightarrow> policy_store \<Rightarrow> store_error + policy_store" where
  "product_createMandate p i amount now s =
     and_then (atomicAmount amount) (\<lambda>n. admin_createMandate p (i\<lparr>mq_maximumSpendAtomic := n\<rparr>) now s)"

definition product_createBranch ::
    "(string \<Rightarrow> string) \<Rightarrow> principal \<Rightarrow> create_branch_input \<Rightarrow> string \<Rightarrow> timestamp \<Rightarrow> policy_store
       \<Rightarrow> store_error + (policy_store \<times> branch_row)" where
  "product_createBranch sha p i amount now s =
     and_then (atomicAmount amount) (\<lambda>n. admin_createBranch sha p (i\<lparr>bq_maximumSpendAtomic := n\<rparr>) now s)"

text \<open>The amounts of a policy: three limits, and two or three for each workload class.\<close>

record product_policy =
  pq_input :: publish_input
  pq_maxPerCallAtomic :: string
  pq_maxHourlyAtomic :: string
  pq_maxDailyAtomic :: string
  pq_workloadClasses :: "class_snapshot list"

definition product_publish ::
    "principal \<Rightarrow> product_policy \<Rightarrow> timestamp \<Rightarrow> policy_store \<Rightarrow> store_error + policy_store" where
  "product_publish p q now s =
     and_then (read_bigint (pq_maxPerCallAtomic q)) (\<lambda>a.
     and_then (read_bigint (pq_maxHourlyAtomic q)) (\<lambda>b.
     and_then (read_bigint (pq_maxDailyAtomic q)) (\<lambda>c.
     and_then (read_all read_class (pq_workloadClasses q)) (\<lambda>classes.
     admin_publishPolicy p ((pq_input q)
       \<lparr>pp_limits := (pp_limits (pq_input q))\<lparr>maxPerCallAtomic := a, maxHourlyAtomic := b, maxDailyAtomic := c\<rparr>,
        pp_workloadClasses := classes\<rparr>) now s))))"

end
