(* ===== verification/PolicyReadProperties.thy ===== *)
theory PolicyReadProperties
  imports PolicyReads PolicyStoreProperties AdministrationProperties
begin

text \<open>
  What the readers of \<open>src/src/persistence/policyStore.ts\<close> return: a reader of the decision pages sees every
  decision once and stops; the readiness question about mandates is answered with a mandate, an agent
  and a policy that could serve a request.
\<close>

section \<open>The primary key of the decisions\<close>

definition decisions_grow :: "policy_store \<Rightarrow> policy_store \<Rightarrow> bool" where
  "decisions_grow s s' \<longleftrightarrow>
     (\<exists>ds. st_decisions s' = st_decisions s @ ds
        \<and> (ds = [] \<or> (\<exists>d. ds = [d] \<and> decision_key d \<notin> decision_key ` set (st_decisions s))))"

lemma decisions_same: "st_decisions s' = st_decisions s \<Longrightarrow> decisions_grow s s'"
  by (simp add: decisions_grow_def)

lemma decisions_update [simp]: "st_decisions (update_execution org rid f s) = st_decisions s"
  by (simp add: update_execution_def)

lemma shadow_decisions: "shadow_change r s s' \<Longrightarrow> st_decisions s' = st_decisions s"
  by (auto simp: shadow_change_def)

lemma queue_decisions:
  "queueShadowBookkeepingBestEffort sha clock r t s = (s', b) \<Longrightarrow> st_decisions s' = st_decisions s"
  by (rule shadow_decisions [OF queue_bookkeeping_effect])

lemma admit_decisions:
  assumes "admitInference sha uuid clock pre i s = Inr (s', a)"
  shows "decisions_grow s s'"
  using assms
proof (rule admitInference_Inr)
  fix t m p assume "admit_new sha uuid pre i m (pr_policy p) t s = Inr (s', a)"
  from admit_new_effect [OF this] show ?thesis by (cases pre) (auto simp: decisions_grow_def)
next
  fix t r assume "admissionFromExecution clock r t s = Inr (s', a)"
  from replay_effect [OF this] show ?thesis
    by (auto intro!: decisions_same dest!: hold_executions)
qed

lemma evaluate_decisions: "evaluateAndRecord i s = Inr (s', d) \<Longrightarrow> decisions_grow s s'"
  by (auto simp: evaluateAndRecord_def insert_decision_def Let_def result_simps tbl_insert_Some
      decisions_grow_def split: option.splits if_splits sum.splits)

lemma complete_decisions:
  "complete_transaction sha clock i s = Inr (s', x) \<Longrightarrow> decisions_grow s s'"
  by (rule decisions_same)
    (auto simp: complete_transaction_def and_then_Inr_iff split: option.splits if_splits prod.splits
      dest!: hold_executions queue_decisions)

lemma hold_decisions: "holdInference clock org rid code response t s = Inr s' \<Longrightarrow> decisions_grow s s'"
  by (rule decisions_same)
    (auto simp: holdInference_def and_then_Inr_iff split: option.splits if_splits dest!: hold_executions)

lemma fail_decisions: "failInference org rid code t s = Inr s' \<Longrightarrow> decisions_grow s s'"
  by (rule decisions_same) (auto simp: failInference_def and_then_Inr_iff)

lemma resolve_decisions:
  assumes "resolve_transaction sha clock i s = Inr (s', q)"
  shows "decisions_grow s s'"
  using assms
  by (rule resolve_Inr) (auto intro!: decisions_same dest!: release_executions queue_decisions)

lemma store_step_decisions:
  assumes "store_step sha op s = Inr (s', a)"
  shows "decisions_grow s s'"
proof (cases op)
  case (OpClaimShadow token now org rid t)
  with assms obtain x where "claim_shadow token now org rid t s = (s', x)" by (auto simp: answer_Inr)
  from claim_effect [OF this] show ?thesis by (auto intro: decisions_same)
qed (use assms in \<open>auto simp: answer_Inr no_answer_Inr fail_shadow_def set_mandate_state_def
    dest!: publishPolicy_effect createMandate_effect assignAgent_effect createBranch_effect
      transition_effect setMandatePolicy_effect finish_effect
    intro: decisions_same evaluate_decisions admit_decisions complete_decisions hold_decisions
      fail_decisions resolve_decisions\<close>)

definition decisions_wf :: "policy_store \<Rightarrow> bool" where
  "decisions_wf s \<longleftrightarrow> tbl_wf decision_key (st_decisions s)"

interpretation decision_history: transactional "store_step sha" "\<lambda>_ _. True" decisions_wf for sha
proof
  fix s :: policy_store and op s' a
  assume "decisions_wf s" "store_step sha op s = Inr (s', a)"
  then show "decisions_wf s'"
    using store_step_decisions [of sha op s s' a]
    by (auto simp: decisions_wf_def decisions_grow_def tbl_wf_def)
qed

lemma run_decisions_wf: "decisions_wf (tx_run (store_step sha) ops (empty_store orgs agents))"
  by (rule decision_history.run_inv) (simp_all add: decisions_wf_def tbl_wf_def empty_store_def)

section \<open>Pages\<close>

definition shown :: "string \<Rightarrow> string \<Rightarrow> string option \<Rightarrow> policy_store \<Rightarrow> stored_decision list" where
  "shown org mid agentId s = filter (\<lambda>d. case agentId of None \<Rightarrow> True | Some a \<Rightarrow> sd_agentId d = a)
     (listDecisions org mid s)"

lemma key_less_trans: "key_less x y \<Longrightarrow> key_less y z \<Longrightarrow> key_less x z"
  by (auto simp: key_less_def)

lemma key_less_irrefl [simp]: "\<not> key_less x x"
  by (auto simp: key_less_def)

lemma key_less_asym: "key_less x y \<Longrightarrow> \<not> key_less y x"
  by (auto simp: key_less_def)

lemma shown_sorted:
  assumes "decisions_wf s"
  shows "sorted_wrt (\<lambda>x y. key_less (page_key x) (page_key y)) (shown org mid agentId s)"
proof -
  let ?ds = "filter (of_mandate org mid) (st_decisions s)"
  have "distinct (map decision_key ?ds)"
    using assms by (auto simp: decisions_wf_def tbl_wf_def distinct_map intro: inj_on_subset)
  then have inj: "inj_on decision_key (set ?ds)" "distinct ?ds" by (simp_all add: distinct_map)
  then have "inj_on sd_id (set ?ds)"
    by (auto simp: inj_on_def decision_key_def of_mandate_def)
  moreover have "distinct (by_time ?ds)" using inj(2) by (simp add: by_time_def)
  ultimately have ids: "distinct (map sd_id (by_time ?ds))" by (simp add: distinct_map)
  have "sorted_wrt (\<lambda>x y. key_less (page_key x) (page_key y)) (by_time ?ds)"
    unfolding sorted_wrt_iff_nth_less
  proof (intro allI impI)
    fix i j assume ij: "i < j" "j < length (by_time ?ds)"
    with ids have "sd_id (by_time ?ds ! i) \<noteq> sd_id (by_time ?ds ! j)"
      by (auto simp: distinct_conv_nth)
    with sorted_pairs [of ?ds] ij show "key_less (page_key (by_time ?ds ! i)) (page_key (by_time ?ds ! j))"
      by (fastforce simp: sorted_wrt_iff_nth_less key_less_def page_key_def)
  qed
  then show ?thesis by (simp add: shown_def listDecisions_def sorted_wrt_filter)
qed

lemma sorted_after:
  assumes "sorted_wrt (\<lambda>x y. key_less (page_key x) (page_key y)) (xs @ ys)" and "xs \<noteq> []"
  shows "filter (\<lambda>d. key_less (page_key (last xs)) (page_key d)) (xs @ ys) = ys"
proof -
  from assms(2) obtain zs z where xs: "xs = zs @ [z]" by (cases xs rule: rev_cases) auto
  with assms have "\<forall>d \<in> set zs. key_less (page_key d) (page_key z)"
    "\<forall>d \<in> set ys. key_less (page_key z) (page_key d)" by (auto simp: sorted_wrt_append)
  then have "filter (\<lambda>d. key_less (page_key z) (page_key d)) zs = []"
    "filter (\<lambda>d. key_less (page_key z) (page_key d)) ys = ys"
    by (auto simp: filter_empty_conv filter_id_conv dest: key_less_asym)
  then show ?thesis by (simp add: xs)
qed

lemma page_rows:
  "listDecisionsPage org mid n c agentId s =
     (let rest = filter (after_cursor c) (shown org mid agentId s)
      in \<lparr>dp_hasMore = n < length rest,
          dp_nextCursor = (if n < length rest \<and> take n rest \<noteq> []
            then Some (page_key (last (take n rest))) else None),
          dp_decisions = take n rest\<rparr>)"
proof -
  let ?rest = "filter (after_cursor c) (shown org mid agentId s)"
  have eq: "by_time (filter (\<lambda>d. of_mandate org mid d \<and> after_cursor c d
      \<and> (case agentId of None \<Rightarrow> True | Some a \<Rightarrow> sd_agentId d = a)) (st_decisions s)) = ?rest"
    unfolding shown_def listDecisions_def filter_by_time filter_filter
    by (intro arg_cong [where f = by_time] filter_cong refl) (simp only: conj_ac)
  have "n < length (take (n + 1) ?rest) \<longleftrightarrow> n < length ?rest" by auto
  moreover have "take n (take (n + 1) ?rest) = take n ?rest" by simp
  ultimately show ?thesis
    unfolding listDecisionsPage_def eq Let_def page_key_def by simp
qed

lemma read_pages_rest:
  assumes "decisions_wf s" "0 < n"
  shows "read_pages org mid n c agentId s = Some (filter (after_cursor c) (shown org mid agentId s))"
proof (induction "length (filter (after_cursor c) (shown org mid agentId s))" arbitrary: c rule: less_induct)
  case less
  let ?all = "shown org mid agentId s" let ?rest = "filter (after_cursor c) ?all"
  show ?case
  proof (cases "n < length ?rest")
    case False
    then show ?thesis by (subst read_pages.simps) (simp add: page_rows Let_def)
  next
    case True
    let ?p = "take n ?rest" let ?k = "page_key (last ?p)"
    have ne: "?p \<noteq> []" using True assms(2) by auto
    have sorted: "sorted_wrt (\<lambda>x y. key_less (page_key x) (page_key y)) (?p @ drop n ?rest)"
      using shown_sorted [OF assms(1)] by (simp add: sorted_wrt_filter)
    have "last ?p \<in> set ?rest" using ne by (meson in_set_takeD last_in_set)
    then have later: "after_cursor c d" if "after_cursor (Some ?k) d" for d
      using that by (cases c) (auto simp: after_cursor_def [of None] after_cursor_key intro: key_less_trans)
    have "filter (after_cursor (Some ?k)) ?all = filter (after_cursor (Some ?k)) ?rest"
      unfolding filter_filter by (rule filter_cong [OF refl]) (use later in blast)
    also have "\<dots> = drop n ?rest"
      using sorted_after [OF sorted ne] by (simp add: after_cursor_key)
    finally have next_rest: "filter (after_cursor (Some ?k)) ?all = drop n ?rest" .
    with True assms(2) have "read_pages org mid n (Some ?k) agentId s = Some (drop n ?rest)"
      using less [of "Some ?k"] by simp
    with True ne show ?thesis
      by (subst read_pages.simps) (simp add: page_rows Let_def)
  qed
qed

text \<open>
  A reader that asks for the decisions of a mandate page by page and follows each cursor stops,
  and what it has then read is exactly the list of the decisions, each once and in order, whatever
  the positive size of the pages; a filter on the agent selects from this list.
\<close>

theorem decision_pages_complete:
  assumes "s = tx_run (store_step sha) ops (empty_store orgs agents)" and "0 < n"
  shows "read_pages org mid n None agentId s
    = Some (filter (\<lambda>d. case agentId of None \<Rightarrow> True | Some a \<Rightarrow> sd_agentId d = a) (listDecisions org mid s))"
proof -
  have "decisions_wf s" by (simp add: assms(1) run_decisions_wf)
  from read_pages_rest [OF this assms(2)] show ?thesis by (simp add: after_cursor_def shown_def)
qed

lemma decision_pages_complete_witness:
  "map_option (map sd_id) (read_pages ''o'' ''m'' 1 None None (sample_run overrun_ops)) = Some [''d1'', ''d2'']"
proof -
  have "map sd_id (listDecisions ''o'' ''m'' (sample_run overrun_ops)) = [''d1'', ''d2'']" by code_simp
  then show ?thesis using decision_pages_complete [OF refl, of 1] by simp
qed

section \<open>Readiness\<close>

text \<open>
  C23: when \<open>hasExecutableMandate\<close> answers yes, the organization has an active, unexpired mandate whose
  executions have not taken its maximum, under a policy that is not paused, and an agent assigned to
  this mandate whose stored credential authenticates as that agent with the capability to invoke
  inference.
\<close>

theorem executable_mandate_sound:
  assumes "d = identity_run sha ops empty_db"
    and "hasExecutableMandate org (Instant t) provider model d s = Inr True"
  shows "\<exists>m \<in> set (st_mandates s). \<exists>a \<in> set (st_assignments s). \<exists>c \<in> set (db_agentCredentials d). \<exists>p.
    cm_organizationId m = org \<and> cm_state m = M_active \<and> unexpired t (cm_expiresAt m)
    \<and> (\<Sum>r\<leftarrow>mandate_executions org (cm_id m) s. class_counted r) < cm_maximumSpendAtomic m
    \<and> find_policy org (cm_policyId m) (cm_policyVersion m) s = Some p \<and> pol_mode (pr_policy p) \<noteq> Paused
    \<and> as_organizationId a = org \<and> as_mandateId a = cm_id m
    \<and> (\<forall>token. sha token = cr_tokenHash c \<longrightarrow>
         (\<exists>q. authenticateToken sha token (Instant t) d d = Inr (Some q) \<and> pc_type q = Agent_credential
            \<and> pc_id q = as_agentId a \<and> pc_organizationId q = org
            \<and> Known Inference_invoke \<in> set (pc_capabilities q)))"
proof -
  have inv: "identity_inv d" by (simp add: assms(1) identity_run_inv)
  obtain m a where m: "m \<in> set (st_mandates s)" "cm_organizationId m = org"
    and a: "a \<in> set (st_assignments s)" "as_organizationId a = org" "as_mandateId a = cm_id m"
    and exec: "executable_mandate t provider model s d m (as_agentId a)"
    using assms(2) by (auto simp: hasExecutableMandate_def and_then_Inr_iff sql_time_def list_ex_iff)
  have live: "live_agent_credential t org (as_agentId a) d"
    using exec m(2) by (simp add: executable_mandate_def)
  then obtain g c where g: "g \<in> set (db_agents d)" "ag_organizationId g = org" "ag_id g = as_agentId a"
      "ag_status g = Agent_active" "ag_revokedAt g = None"
    and c: "c \<in> set (db_agentCredentials d)" "cr_organizationId c = org" "cr_ownerId c = as_agentId a"
      "cr_revokedAt c = None" "unexpired t (cr_expiresAt c)" "Known Inference_invoke \<in> set (cr_capabilities c)"
    by (auto simp: live_agent_credential_def list_ex_iff)
  have "tbl_wf agent_key (db_agents d)" "tbl_wf cr_tokenHash (db_agentCredentials d)"
    using inv by (simp_all add: identity_inv_defs)
  then have "tbl_find agent_key (org, as_agentId a) (db_agents d) = Some g"
    and hash: "tbl_find cr_tokenHash (cr_tokenHash c) (db_agentCredentials d) = Some c"
    using tbl_find_in [of agent_key "db_agents d" g] tbl_find_in [of cr_tokenHash "db_agentCredentials d" c] g c
    by (auto simp: agent_key_def)
  with g c have "\<exists>q. authenticateToken sha token (Instant t) d d = Inr (Some q) \<and> pc_type q = Agent_credential
      \<and> pc_id q = as_agentId a \<and> pc_organizationId q = org \<and> Known Inference_invoke \<in> set (pc_capabilities q)"
    if "sha token = cr_tokenHash c" for token
    using that hash [unfolded tbl_find_def]
    by (auto simp: authenticateToken_def authenticate_agent_def agent_by_hash_def hashApiToken_def
        tokenMatchesHash_def)
  moreover obtain p where "find_policy org (cm_policyId m) (cm_policyVersion m) s = Some p"
    "pol_mode (pr_policy p) \<noteq> Paused"
    using exec m(2) by (auto simp: executable_mandate_def usable_policy_def split: option.splits)
  moreover have "cm_state m = M_active" "unexpired t (cm_expiresAt m)"
    "(\<Sum>r\<leftarrow>mandate_executions org (cm_id m) s. class_counted r) < cm_maximumSpendAtomic m"
    using exec m(2) by (simp_all add: executable_mandate_def)
  ultimately show ?thesis using m a c by blast
qed

lemma executable_mandate_sound_witness:
  "\<exists>m \<in> set (st_mandates (sample_run setup_ops)). cm_organizationId m = ''o'' \<and> cm_state m = M_active
     \<and> (\<Sum>r\<leftarrow>mandate_executions ''o'' (cm_id m) (sample_run setup_ops). class_counted r) < cm_maximumSpendAtomic m"
proof -
  have "(case hasExecutableMandate ''o'' (Instant 50) (Some ''openrouter'') (Some ''m'') sample_db (sample_run setup_ops)
      of Inl e \<Rightarrow> False | Inr b \<Rightarrow> b)" by code_simp
  then have "hasExecutableMandate ''o'' (Instant 50) (Some ''openrouter'') (Some ''m'') sample_db (sample_run setup_ops)
      = Inr True" by (cases "hasExecutableMandate ''o'' (Instant 50) (Some ''openrouter'') (Some ''m'') sample_db
        (sample_run setup_ops)") auto
  from executable_mandate_sound [OF sample_db_def this] show ?thesis by blast
qed

end
