(* ===== verification/PolicyAdministrationProperties.thy ===== *)
theory PolicyAdministrationProperties
  imports PolicyAdministration PolicyReadProperties
begin

text \<open>
  What an administrative request may change in the policy store
  (\<open>src/src/policy/policyAdministration.ts\<close> over \<open>src/src/persistence/policyStore.ts\<close>): the rows of the
  principal's organization, with exactly one entry on the audit trail, which names the principal, the
  request and what was done; only an exact repetition of a resolution is not entered again.
\<close>

section \<open>Changes of one organization\<close>

definition outside_store :: "string \<Rightarrow> policy_store \<Rightarrow> policy_store" where
  "outside_store org s = s\<lparr>
     st_policies := filter (\<lambda>r. pol_organizationId (pr_policy r) \<noteq> org) (st_policies s),
     st_mandates := filter (\<lambda>r. cm_organizationId r \<noteq> org) (st_mandates s),
     st_assignments := filter (\<lambda>r. as_organizationId r \<noteq> org) (st_assignments s),
     st_branches := filter (\<lambda>r. br_organizationId r \<noteq> org) (st_branches s),
     st_decisions := filter (\<lambda>r. sd_organizationId r \<noteq> org) (st_decisions s),
     st_executions := filter (\<lambda>r. ex_organizationId r \<noteq> org) (st_executions s),
     st_resolutions := filter (\<lambda>r. rs_organizationId r \<noteq> org) (st_resolutions s),
     st_holds := filter (\<lambda>r. hd_organizationId r \<noteq> org) (st_holds s),
     st_counters := filter (\<lambda>r. cc_organizationId r \<noteq> org) (st_counters s),
     st_queue := filter (\<lambda>r. qu_organizationId r \<noteq> org) (st_queue s),
     st_shadows := filter (\<lambda>r. se_organizationId r \<noteq> org) (st_shadows s),
     st_audit := filter (\<lambda>r. au_organizationId r \<noteq> org) (st_audit s)\<rparr>"

definition acted :: "string \<Rightarrow> mutation_context \<Rightarrow> policy_store \<Rightarrow> policy_store \<Rightarrow> bool" where
  "acted org c s s' \<longleftrightarrow> outside_store org s' = outside_store org s
     \<and> (\<exists>as. st_audit s' = st_audit s @ as \<and> (\<forall>a \<in> set as. au_organizationId a = org
          \<and> au_actorId a = ctx_actorId c \<and> au_causationId a = ctx_causationId c))"

lemma acted_refl [simp]: "acted org c s s"
  by (simp add: acted_def)

lemma acted_trans [trans]: "acted org c s s1 \<Longrightarrow> acted org c s1 s2 \<Longrightarrow> acted org c s s2"
  by (auto simp: acted_def)

lemma filter_update_outside:
  assumes "\<And>r. key r = k \<Longrightarrow> f r = org" and "\<And>r. f (g r) = f r"
  shows "filter (\<lambda>r. f r \<noteq> org) (tbl_update key k g rows) = filter (\<lambda>r. f r \<noteq> org) rows"
  using assms by (induction rows) (auto simp: tbl_update_def)

lemma filter_delete_outside:
  assumes "\<And>r. key r = k \<Longrightarrow> f r = org"
  shows "filter (\<lambda>r. f r \<noteq> org) (tbl_delete key k rows) = filter (\<lambda>r. f r \<noteq> org) rows"
  using assms by (induction rows) (auto simp: tbl_delete_def)

text \<open>The audit row of an operation, and the changes of single tables.\<close>

lemma acted_audit: "appendAudit org ty i act p c s = Inr s' \<Longrightarrow> acted org c s s'"
  by (auto simp: appendAudit_def and_then_Inr_iff acted_def outside_store_def)

lemma acted_tables [intro]:
  "pol_organizationId (pr_policy p) = org \<Longrightarrow> acted org c s (s\<lparr>st_policies := st_policies s @ [p]\<rparr>)"
  "cm_organizationId m = org \<Longrightarrow> acted org c s (s\<lparr>st_mandates := st_mandates s @ [m]\<rparr>)"
  "as_organizationId a = org \<Longrightarrow> acted org c s (s\<lparr>st_assignments := st_assignments s @ [a]\<rparr>)"
  "br_organizationId b = org \<Longrightarrow> acted org c s (s\<lparr>st_branches := st_branches s @ [b]\<rparr>)"
  "rs_organizationId r = org \<Longrightarrow> acted org c s (s\<lparr>st_resolutions := st_resolutions s @ [r]\<rparr>)"
  by (simp_all add: acted_def outside_store_def)

lemma acted_mandate:
  "(\<And>r. cm_organizationId (g r) = cm_organizationId r) \<Longrightarrow>
     acted org c s (s\<lparr>st_mandates := tbl_update mandate_key (org, mid) g (st_mandates s)\<rparr>)"
  using filter_update_outside [of mandate_key "(org, mid)" cm_organizationId org g]
  by (simp add: acted_def outside_store_def mandate_key_def)

lemma acted_execution:
  "(\<And>r. ex_organizationId (g r) = ex_organizationId r) \<Longrightarrow> acted org c s (update_execution org rid g s)"
  using filter_update_outside [of execution_key "(org, rid)" ex_organizationId org g]
  by (simp add: acted_def outside_store_def execution_key_def update_execution_def)

lemma acted_hold: "acted org c s (s\<lparr>st_holds := tbl_delete hold_key (org, mid) (st_holds s)\<rparr>)"
  using filter_delete_outside [of hold_key "(org, mid)" hd_organizationId org]
  by (simp add: acted_def outside_store_def hold_key_def)

lemma acted_release:
  assumes "\<And>r. cm_organizationId (g r) = cm_organizationId r"
  shows "acted org c s (s\<lparr>st_mandates := tbl_update mandate_key (org, mid) g (st_mandates s),
      st_holds := tbl_delete hold_key (org, mid) (st_holds s)\<rparr>)"
  using acted_trans [OF acted_mandate [of g org c s mid, OF assms] acted_hold [of org c _ mid]] by simp

lemma acted_queue:
  "(\<And>r. qu_organizationId (g r) = qu_organizationId r) \<Longrightarrow>
     acted org c s (s\<lparr>st_queue := tbl_update queue_key (org, rid) g (st_queue s)\<rparr>)"
  using filter_update_outside [of queue_key "(org, rid)" qu_organizationId org g]
  by (simp add: acted_def outside_store_def queue_key_def)

section \<open>The operations of the store\<close>

lemma publish_acted: "publishPolicy p c s = Inr s' \<Longrightarrow> acted (pol_organizationId p) c s s'"
  by (auto simp: publishPolicy_def result_simps tbl_insert_Some split: option.splits if_splits
      intro!: acted_trans [OF acted_tables(1) acted_audit])

lemma create_mandate_acted:
  "createMandate i s = Inr s' \<Longrightarrow> acted (mi_organizationId i) (mi_context i) s s'"
  by (auto simp: createMandate_def result_simps tbl_insert_Some split: if_splits
      intro!: acted_trans [OF acted_tables(2) acted_audit])

lemma assign_acted: "assignAgent org mid agent c s = Inr s' \<Longrightarrow> acted org c s s'"
  by (auto simp: assignAgent_def result_simps tbl_insert_Some split: if_splits
      intro!: acted_trans [OF acted_tables(3) acted_audit])

lemma branch_acted:
  "createBranch sha i s = Inr (s', b) \<Longrightarrow>
     acted (PolicyBranches.bi_organizationId i) (PolicyBranches.bi_context i) s s'"
  by (auto simp: createBranch_def insert_branch_def Let_def result_simps tbl_insert_Some
      new_branch_def branch_body_def split: option.splits if_splits
      intro!: acted_trans [OF acted_tables(4) acted_audit])

lemma transition_acted: "transitionMandateState org mid to c s = Inr s' \<Longrightarrow> acted org c s s'"
  by (auto simp: transitionMandateState_def result_simps split: option.splits if_splits
      dest!: acted_audit elim!: acted_trans [OF acted_mandate, rotated])

lemma set_policy_acted: "setMandatePolicy org mid p v c s = Inr s' \<Longrightarrow> acted org c s s'"
  by (auto simp: setMandatePolicy_def result_simps split: option.splits if_splits
      dest!: acted_audit elim!: acted_trans [OF acted_mandate, rotated])

text \<open>The shadow bookkeeping and evaluation of an execution of the organization.\<close>

lemma next_ordinal_outside:
  "next_ordinal org k rows = (rows', n) \<Longrightarrow>
     filter (\<lambda>r. cc_organizationId r \<noteq> org) rows' = filter (\<lambda>r. cc_organizationId r \<noteq> org) rows"
  using filter_update_outside [of counter_key "(org, k)" cc_organizationId org "\<lambda>x. x\<lparr>cc_lastOrdinal := cc_lastOrdinal x + 1\<rparr>"]
  by (auto simp: next_ordinal_def counter_key_def split: option.splits)

lemma assign_ordinal_acted:
  assumes "assignShadowCohortOrdinal sha clock r s = Inr (s', x)"
  shows "acted (ex_organizationId r) c s s'"
proof -
  have "acted (ex_organizationId r) c s (s\<lparr>st_counters := rows\<rparr>)"
    if "next_ordinal (ex_organizationId r) k (st_counters s) = (rows, n)" for k rows n
    using next_ordinal_outside [OF that] by (simp add: acted_def outside_store_def)
  then show ?thesis using assms
    unfolding assignShadowCohortOrdinal_def
    by (auto simp: result_simps Let_def split: option.splits prod.splits
        intro!: acted_trans [OF _ acted_execution])
qed

lemma enqueue_acted: "acted org c s (enqueueShadowEvaluation org rid t s)"
  by (auto simp: enqueueShadowEvaluation_def acted_def outside_store_def tbl_insert_Some split: option.splits)

lemma order_state_acted: "acted (ex_organizationId r) c s (set_shadow_order_state st r s)"
  unfolding set_shadow_order_state_def by (rule acted_execution) simp

lemma queue_acted:
  "queueShadowBookkeepingBestEffort sha clock r t s = (s', b) \<Longrightarrow> acted (ex_organizationId r) c s s'"
  unfolding queueShadowBookkeepingBestEffort_def
  by (auto split: option.splits sum.splits prod.splits intro: order_state_acted
      dest!: assign_ordinal_acted [of _ _ _ _ _ _ c]
      intro!: acted_trans [OF _ order_state_acted] acted_trans [OF _ enqueue_acted])

lemma release_acted: "release_mandate org mid s = Inr s' \<Longrightarrow> acted org c s s'"
  by (auto simp: release_mandate_def Let_def set_mandate_state_def split: option.splits if_splits
      intro!: acted_release acted_hold)

lemma claim_acted: "claim_shadow token now org rid t s = (s', x) \<Longrightarrow> acted org c s s'"
  by (auto simp: claim_shadow_def Let_def split: option.splits if_splits intro!: acted_queue)

lemma persist_acted: "evaluateAndPersistShadow sha e s = Inr (s', x) \<Longrightarrow> acted (ex_organizationId e) c s s'"
  by (auto simp: evaluateAndPersistShadow_def score_cohort_def Let_def result_simps acted_def
      outside_store_def tbl_insert_Some split: option.splits sum.splits)

lemma finish_acted:
  assumes "finish_shadow sha token org rid t s = Inr (s', x)"
  shows "acted org c s s'"
proof (cases "find_execution org rid s")
  case None
  with assms show ?thesis by (auto simp: finish_shadow_def split: if_splits)
next
  case (Some e)
  then have "ex_organizationId e = org"
    using tbl_find_SomeD [of execution_key "(org, rid)"] by (auto simp: find_execution_def execution_key_def)
  with assms Some show ?thesis
    by (auto simp: finish_shadow_def result_simps split: if_splits dest!: persist_acted [of _ _ _ _ _ c]
        intro!: acted_trans [OF _ acted_queue])
qed

lemma fail_shadow_acted: "acted org c s (fail_shadow token org rid t s)"
  unfolding fail_shadow_def by (rule acted_queue) simp

lemma process_acted:
  assumes "processShadowEvaluationBestEffort sha token now org rid t s = (s', x)"
  shows "acted org c s s'"
  using assms
  by (auto simp: processShadowEvaluationBestEffort_def split: prod.splits claim_result.splits sum.splits
      dest!: claim_acted [where c = c] finish_acted [where c = c]
      intro: acted_trans acted_trans [OF _ fail_shadow_acted])

lemma settle_organization [simp]: "ex_organizationId (settle_execution i t r) = ex_organizationId r"
  by (simp add: settle_execution_def)

lemma resolve_transaction_acted:
  assumes "resolve_transaction sha clock i s = Inr (s', q)"
  shows "acted (PolicySettlement.ri_organizationId i) (PolicySettlement.ri_context i) s s'"
proof -
  let ?org = "PolicySettlement.ri_organizationId i" and ?c = "PolicySettlement.ri_context i"
  obtain t r where t: "sql_time (ctx_occurredAt ?c) = Inr t"
    and r: "find_execution ?org (PolicySettlement.ri_requestId i) s = Some r"
    using assms by (auto simp: resolve_transaction_def and_then_Inr_iff split: option.splits)
  then have org: "ex_organizationId r = ?org"
    using tbl_find_SomeD [of execution_key] by (fastforce simp: find_execution_def execution_key_def)
  define s1 where "s1 = update_execution ?org (PolicySettlement.ri_requestId i) (settle_execution i t)
    (s\<lparr>st_resolutions := st_resolutions s @ [resolution_of i t]\<rparr>)"
  have s1: "acted ?org ?c s s1"
    unfolding s1_def by (rule acted_trans [OF acted_tables(5) acted_execution]) (simp_all add: resolution_of_def)
  have "acted ?org ?c s1 s2"
    if "queueShadowBookkeepingBestEffort sha clock (settle_execution i t r) t s1 = (s2, b)" for s2 b
    using queue_acted [OF that, of ?c] org by simp
  with assms t r show ?thesis
    by (auto simp: resolve_transaction_def and_then_Inr_iff Let_def s1_def [symmetric]
        split: option.splits if_splits prod.splits dest!: acted_audit release_acted [where c = ?c]
        intro: acted_trans [OF s1] acted_trans)
qed

lemma resolve_acted:
  assumes "resolveReconciliation sha token clock i s = Inr s'"
  shows "acted (PolicySettlement.ri_organizationId i) (PolicySettlement.ri_context i) s s'"
proof -
  let ?org = "PolicySettlement.ri_organizationId i" and ?c = "PolicySettlement.ri_context i"
  obtain s1 q where q: "resolve_transaction sha clock i s = Inr (s1, q)"
    and rest: "s' = s1 \<or> (\<exists>t. s' = fst (processShadowEvaluationBestEffort sha token clock ?org
      (PolicySettlement.ri_requestId i) t s1))"
    using assms by (fastforce simp: resolveReconciliation_def and_then_Inr_iff split: if_splits)
  have "acted ?org ?c s1 (fst (processShadowEvaluationBestEffort sha token clock ?org
      (PolicySettlement.ri_requestId i) t s1))" for t
    by (rule process_acted [OF prod.collapse [symmetric]])
  with resolve_transaction_acted [OF q] rest show ?thesis by (auto intro: acted_trans)
qed

section \<open>Administrative requests\<close>

datatype policy_admin_op =
    PaPublish publish_input timestamp
  | PaCreateMandate create_mandate_input timestamp
  | PaAssign string string string timestamp
  | PaCreateBranch create_branch_input timestamp
  | PaTransition string mandate_state string timestamp
  | PaSetPolicy string string int string timestamp
  | PaResolve string int resolve_command timestamp

fun policy_admin_step ::
    "(string \<Rightarrow> string) \<Rightarrow> principal \<Rightarrow> policy_admin_op \<Rightarrow> policy_store \<Rightarrow> store_error + policy_store" where
  "policy_admin_step sha p (PaPublish i now) s = admin_publishPolicy p i now s"
| "policy_admin_step sha p (PaCreateMandate i now) s = admin_createMandate p i now s"
| "policy_admin_step sha p (PaAssign mid agentId rid now) s = admin_assignAgent p mid agentId rid now s"
| "policy_admin_step sha p (PaCreateBranch i now) s =
     and_then (admin_createBranch sha p i now s) (\<lambda>(s', b). Inr s')"
| "policy_admin_step sha p (PaTransition mid to rid now) s = admin_transitionMandate p mid to rid now s"
| "policy_admin_step sha p (PaSetPolicy mid pid v rid now) s = admin_setMandatePolicy p mid pid v rid now s"
| "policy_admin_step sha p (PaResolve token clock i now) s =
     admin_resolveReconciliation sha token clock p i now s"

fun policy_op_capability :: "policy_admin_op \<Rightarrow> api_capability" where
  "policy_op_capability (PaPublish _ _) = Policies_write"
| "policy_op_capability _ = Mandates_admin"

fun policy_op_request :: "policy_admin_op \<Rightarrow> string" where
  "policy_op_request (PaPublish i _) = pp_requestId i"
| "policy_op_request (PaCreateMandate i _) = mq_requestId i"
| "policy_op_request (PaAssign _ _ rid _) = rid"
| "policy_op_request (PaCreateBranch i _) = bq_requestId i"
| "policy_op_request (PaTransition _ _ rid _) = rid"
| "policy_op_request (PaSetPolicy _ _ _ rid _) = rid"
| "policy_op_request (PaResolve _ _ i _) = rq_requestId i"

fun policy_op_time :: "policy_admin_op \<Rightarrow> timestamp" where
  "policy_op_time (PaPublish _ now) = now"
| "policy_op_time (PaCreateMandate _ now) = now"
| "policy_op_time (PaAssign _ _ _ now) = now"
| "policy_op_time (PaCreateBranch _ now) = now"
| "policy_op_time (PaTransition _ _ _ now) = now"
| "policy_op_time (PaSetPolicy _ _ _ _ now) = now"
| "policy_op_time (PaResolve _ _ _ now) = now"

text \<open>What the audit trail says of a request: the kind of entity, its id and the action.\<close>

fun policy_op_entry :: "policy_admin_op \<Rightarrow> string \<times> string \<times> string" where
  "policy_op_entry (PaPublish i _) =
     (''policy_version'', pp_policyId i @ '':'' @ show_int (pp_version i), ''policy.published'')"
| "policy_op_entry (PaCreateMandate i _) = (''control_mandate'', mq_mandateId i, ''mandate.created'')"
| "policy_op_entry (PaAssign mid _ _ _) = (''control_mandate'', mid, ''mandate.agent_assigned'')"
| "policy_op_entry (PaCreateBranch i _) = (''mandate_branch'', bq_branchId i, ''mandate.branch_created'')"
| "policy_op_entry (PaTransition mid _ _ _) = (''control_mandate'', mid, ''mandate.state_changed'')"
| "policy_op_entry (PaSetPolicy mid _ _ _ _) = (''control_mandate'', mid, ''mandate.policy_changed'')"
| "policy_op_entry (PaResolve _ _ i _) = (''inference_execution'', rq_executionRequestId i,
     case rq_resolution i of Settle \<Rightarrow> ''reconciliation.settle''
       | ConfirmNotBilled \<Rightarrow> ''reconciliation.confirm_not_billed'')"

text \<open>A resolution that is already stored, with the same content and by the same principal.\<close>

fun repeats_resolution :: "principal \<Rightarrow> policy_admin_op \<Rightarrow> policy_store \<Rightarrow> bool" where
  "repeats_resolution p (PaResolve token clock i now) s \<longleftrightarrow>
     (case tbl_find resolution_key (pc_organizationId p, rq_executionRequestId i) (st_resolutions s) of
        None \<Rightarrow> False
      | Some x \<Rightarrow> rs_resolution x = rq_resolution i \<and> rs_note x = rq_note i
          \<and> rs_externalReference x = rq_externalReference i \<and> rs_resolvedBy x = service_actor p
          \<and> (rq_resolution i = Settle \<longrightarrow> Some (rs_actualCostAtomic x) = rq_actualCostAtomic i)
          \<and> (rq_resolution i = ConfirmNotBilled \<longrightarrow> rs_actualCostAtomic x = 0))"
| "repeats_resolution p op s \<longleftrightarrow> False"

lemma policy_request_None:
  "policy_request p k code rid = None \<Longrightarrow> administrator p (Some k) \<and> \<not> blank rid"
  by (auto simp: policy_request_def policy_admin_def administrator_def split: if_splits)

lemma mandate_request_Inr:
  "mandate_request p rid f s = Inr x \<longleftrightarrow>
     policy_request p Mandates_admin ''MANDATE_CAPABILITY_REQUIRED'' rid = None \<and> f s = Inr x"
  by (auto simp: mandate_request_def and_then_Inr_iff)

lemmas admin_defs = admin_publishPolicy_def admin_createMandate_def admin_assignAgent_def
  admin_createBranch_def admin_transitionMandate_def admin_setMandatePolicy_def
  admin_resolveReconciliation_def mandate_request_Inr

lemma policy_admin_acted:
  assumes "policy_admin_step sha p op s = Inr s'"
  shows "acted (pc_organizationId p) (admin_context p (policy_op_request op) now) s s'"
proof -
  have ctx: "acted org (admin_context p rid t) s s' \<Longrightarrow> acted org (admin_context p rid now) s s'" for org rid t
    by (simp add: acted_def admin_context_def)
  show ?thesis
    using assms
    by (cases op)
      (auto simp: admin_defs and_then_Inr_iff published_version_def branch_creation.defs
          resolution_command_def resolution_input.defs intro!: ctx
        dest!: publish_acted create_mandate_acted assign_acted branch_acted transition_acted set_policy_acted
          resolve_acted)
qed

section \<open>One entry on the audit trail\<close>

definition entered :: "string \<Rightarrow> mutation_context \<Rightarrow> string \<times> string \<times> string \<Rightarrow> policy_store \<Rightarrow> policy_store \<Rightarrow> bool" where
  "entered org c what s s' \<longleftrightarrow> (\<exists>a. st_audit s' = st_audit s @ [a] \<and> au_organizationId a = org
     \<and> au_actorId a = ctx_actorId c \<and> au_causationId a = ctx_causationId c
     \<and> sql_time (ctx_occurredAt c) = Inr (au_occurredAt a)
     \<and> (au_entityType a, au_entityId a, au_action a) = what)"

lemma entered_append: "appendAudit org ty i act p c s = Inr s' \<Longrightarrow> entered org c (ty, i, act) s s'"
  by (auto simp: appendAudit_def and_then_Inr_iff entered_def)

lemma entered_tables [simp]:
  "entered org c w (s\<lparr>st_policies := p\<rparr>) s' = entered org c w s s'"
  "entered org c w (s\<lparr>st_mandates := m\<rparr>) s' = entered org c w s s'"
  "entered org c w (s\<lparr>st_assignments := a\<rparr>) s' = entered org c w s s'"
  "entered org c w (s\<lparr>st_branches := b\<rparr>) s' = entered org c w s s'"
  by (simp_all add: entered_def)

lemma entered_before: "st_audit s0 = st_audit s \<Longrightarrow> entered org c w s0 s' \<Longrightarrow> entered org c w s s'"
  by (simp add: entered_def)

lemma entered_after: "entered org c w s s0 \<Longrightarrow> st_audit s' = st_audit s0 \<Longrightarrow> entered org c w s s'"
  by (simp add: entered_def)

lemma publish_entered:
  "publishPolicy p c s = Inr s' \<Longrightarrow>
     entered (pol_organizationId p) c (''policy_version'', pol_id p @ '':'' @ show_int (pol_version p), ''policy.published'') s s'"
  by (auto simp: publishPolicy_def result_simps split: option.splits if_splits dest!: entered_append)

lemma create_mandate_entered:
  "createMandate i s = Inr s' \<Longrightarrow>
     entered (mi_organizationId i) (mi_context i) (''control_mandate'', mi_id i, ''mandate.created'') s s'"
  by (auto simp: createMandate_def result_simps split: if_splits dest!: entered_append)

lemma assign_entered:
  "assignAgent org mid agent c s = Inr s' \<Longrightarrow> entered org c (''control_mandate'', mid, ''mandate.agent_assigned'') s s'"
  by (auto simp: assignAgent_def result_simps split: if_splits dest!: entered_append)

lemma branch_entered:
  "createBranch sha i s = Inr (s', b) \<Longrightarrow>
     entered (PolicyBranches.bi_organizationId i) (PolicyBranches.bi_context i)
       (''mandate_branch'', PolicyBranches.bi_id i, ''mandate.branch_created'') s s'"
  by (auto simp: createBranch_def Let_def result_simps split: option.splits if_splits dest!: entered_append)

lemma transition_entered:
  "transitionMandateState org mid to c s = Inr s' \<Longrightarrow>
     entered org c (''control_mandate'', mid, ''mandate.state_changed'') s s'"
  by (auto simp: transitionMandateState_def result_simps split: option.splits if_splits dest!: entered_append)

lemma set_policy_entered:
  "setMandatePolicy org mid p v c s = Inr s' \<Longrightarrow>
     entered org c (''control_mandate'', mid, ''mandate.policy_changed'') s s'"
  by (auto simp: setMandatePolicy_def result_simps split: option.splits if_splits dest!: entered_append)

text \<open>The evaluation of a shadow job writes to its queue and its results only.\<close>

definition shadow_work :: "policy_store \<Rightarrow> policy_store \<Rightarrow> bool" where
  "shadow_work s s' \<longleftrightarrow> (\<exists>q h. s' = s\<lparr>st_queue := q, st_shadows := h\<rparr>)"

lemma shadow_workI: "s' = s\<lparr>st_queue := q, st_shadows := h\<rparr> \<Longrightarrow> shadow_work s s'"
  unfolding shadow_work_def by blast

lemma shadow_work_simps [simp]:
  "shadow_work s s" "shadow_work s (s\<lparr>st_queue := q\<rparr>)" "shadow_work s (s\<lparr>st_shadows := h\<rparr>)"
  by (rule shadow_workI [where q = "st_queue s" and h = "st_shadows s"], simp)
    (rule shadow_workI [where q = q and h = "st_shadows s"], simp,
     rule shadow_workI [where q = "st_queue s" and h = h], simp)

lemma shadow_work_trans:
  assumes "shadow_work s s1" and "shadow_work s1 s2"
  shows "shadow_work s s2"
proof -
  obtain q h q' h' where "s1 = s\<lparr>st_queue := q, st_shadows := h\<rparr>" "s2 = s1\<lparr>st_queue := q', st_shadows := h'\<rparr>"
    using assms unfolding shadow_work_def by blast
  then show ?thesis by (intro shadow_workI [where q = q' and h = h']) simp
qed

lemma shadow_work_audit: "shadow_work s s' \<Longrightarrow> st_audit s' = st_audit s"
  by (auto simp: shadow_work_def)

lemma process_shadow_work:
  assumes "processShadowEvaluationBestEffort sha token now org rid t s = (s', x)"
  shows "shadow_work s s'"
proof -
  have claim: "shadow_work s s1" if "claim_shadow token now org rid t s = (s1, y)" for s1 y
    using that by (auto simp: claim_shadow_def Let_def split: option.splits if_splits)
  have persist: "shadow_work s1 s2" if "evaluateAndPersistShadow sha e s1 = Inr (s2, y)" for e s1 s2 y
    using that by (auto simp: evaluateAndPersistShadow_def score_cohort_def Let_def result_simps
        split: option.splits sum.splits)
  have finish: "shadow_work s1 s2" if "finish_shadow sha token org rid t s1 = Inr (s2, y)" for s1 s2 y
    using that by (auto simp: finish_shadow_def result_simps split: option.splits if_splits
        dest!: persist intro: shadow_work_trans)
  show ?thesis
    using assms by (auto simp: processShadowEvaluationBestEffort_def fail_shadow_def
        split: prod.splits claim_result.splits sum.splits dest!: claim finish intro: shadow_work_trans)
qed

lemma queue_audit:
  "queueShadowBookkeepingBestEffort sha clock r t s = (s', b) \<Longrightarrow> st_audit s' = st_audit s"
  by (auto simp: queueShadowBookkeepingBestEffort_def set_shadow_order_state_def update_execution_def
      enqueueShadowEvaluation_def assignShadowCohortOrdinal_def result_simps Let_def
      split: option.splits sum.splits prod.splits)

lemma release_audit: "release_mandate org mid s = Inr s' \<Longrightarrow> st_audit s' = st_audit s"
  by (auto simp: release_mandate_def Let_def set_mandate_state_def split: option.splits if_splits)

definition entry_of_resolution :: "resolution_input \<Rightarrow> string \<times> string \<times> string" where
  "entry_of_resolution i = (''inference_execution'', PolicySettlement.ri_requestId i,
     case ri_resolution i of Settle \<Rightarrow> ''reconciliation.settle''
       | ConfirmNotBilled \<Rightarrow> ''reconciliation.confirm_not_billed'')"

lemma resolve_transaction_entered:
  assumes "resolve_transaction sha clock i s = Inr (s', q)"
  defines "key \<equiv> (PolicySettlement.ri_organizationId i, PolicySettlement.ri_requestId i)"
  shows "case tbl_find resolution_key key (st_resolutions s) of
      Some x \<Rightarrow> exact_replay i x \<and> s' = s
    | None \<Rightarrow> entered (fst key) (PolicySettlement.ri_context i) (entry_of_resolution i) s s'"
proof (cases "tbl_find resolution_key key (st_resolutions s)")
  case (Some x)
  with assms show ?thesis by (auto simp: resolve_transaction_def and_then_Inr_iff split: option.splits if_splits)
next
  case None
  let ?act = "if ri_resolution i = Settle then ''reconciliation.settle'' else ''reconciliation.confirm_not_billed''"
  obtain t r where t: "sql_time (ctx_occurredAt (PolicySettlement.ri_context i)) = Inr t"
    and r: "find_execution (fst key) (snd key) s = Some r"
    using assms(1) by (auto simp: resolve_transaction_def and_then_Inr_iff key_def split: option.splits)
  define s1 where "s1 = update_execution (fst key) (snd key) (settle_execution i t)
    (s\<lparr>st_resolutions := st_resolutions s @ [resolution_of i t]\<rparr>)"
  define sb where "sb = (if ri_resolution i = Settle \<and> ex_response r \<noteq> None \<and> scope_of r
    then queueShadowBookkeepingBestEffort sha clock (settle_execution i t r) t s1 else (s1, False))"
  have "st_audit s1 = st_audit s" by (simp add: s1_def update_execution_def)
  then have audit: "st_audit (fst sb) = st_audit s"
    using queue_audit [OF prod.collapse [symmetric], of sha clock "settle_execution i t r" t s1]
    by (simp add: sb_def)
  from assms(1) None t r obtain payload s3 where
    a: "appendAudit (fst key) ''inference_execution'' (snd key) ?act payload (PolicySettlement.ri_context i) (fst sb) = Inr s3"
    and rel: "release_mandate (fst key) (ex_mandateId r) s3 = Inr s'"
    by (auto simp: resolve_transaction_def and_then_Inr_iff Let_def key_def sb_def s1_def
        split: option.splits if_splits prod.splits)
  have "entered (fst key) (PolicySettlement.ri_context i) (entry_of_resolution i) (fst sb) s3"
    using entered_append [OF a] by (cases "ri_resolution i") (simp_all add: entry_of_resolution_def key_def)
  from entered_after [OF entered_before [OF audit this] release_audit [OF rel]] None show ?thesis by simp
qed

lemma resolve_entered:
  assumes "resolveReconciliation sha token clock i s = Inr s'"
  defines "key \<equiv> (PolicySettlement.ri_organizationId i, PolicySettlement.ri_requestId i)"
  shows "case tbl_find resolution_key key (st_resolutions s) of
      Some x \<Rightarrow> exact_replay i x \<and> shadow_work s s'
    | None \<Rightarrow> entered (fst key) (PolicySettlement.ri_context i) (entry_of_resolution i) s s'"
proof -
  obtain s1 q where q: "resolve_transaction sha clock i s = Inr (s1, q)"
    and rest: "s' = s1 \<or> (\<exists>t. s' = fst (processShadowEvaluationBestEffort sha token clock (fst key) (snd key) t s1))"
    using assms by (fastforce simp: resolveReconciliation_def and_then_Inr_iff split: if_splits)
  have work: "shadow_work s1 s'"
    using rest process_shadow_work [OF prod.collapse [symmetric]] by auto
  then have "st_audit s' = st_audit s1" by (rule shadow_work_audit)
  with resolve_transaction_entered [OF q] work show ?thesis
    unfolding key_def by (auto split: option.splits intro: entered_after)
qed

lemma checked_cost:
  "check_resolution_input i = None \<Longrightarrow> ri_resolution i = Settle \<Longrightarrow> ri_actualCostAtomic i \<noteq> None"
  by (auto simp: check_resolution_input_def orElse_def split: option.splits if_splits)

lemma exact_replay_command:
  assumes "check_resolution_input (resolution_command p i now) = None"
  shows "exact_replay (resolution_command p i now) x \<longleftrightarrow>
     rs_resolution x = rq_resolution i \<and> rs_note x = rq_note i
     \<and> rs_externalReference x = rq_externalReference i \<and> rs_resolvedBy x = service_actor p
     \<and> (rq_resolution i = Settle \<longrightarrow> Some (rs_actualCostAtomic x) = rq_actualCostAtomic i)
     \<and> (rq_resolution i = ConfirmNotBilled \<longrightarrow> rs_actualCostAtomic x = 0)"
  using checked_cost [OF assms]
  by (cases "rq_resolution i")
    (auto simp: exact_replay_def resolution_command_def resolution_input.defs resolution_cost_def admin_context_def)

lemma resolve_checked: "resolveReconciliation sha token clock i s = Inr s' \<Longrightarrow> check_resolution_input i = None"
  by (auto simp: resolveReconciliation_def resolve_transaction_def and_then_Inr_iff check_def split: option.splits)

lemma admin_entered:
  assumes "policy_admin_step sha p op s = Inr s'"
  shows "if repeats_resolution p op s then shadow_work s s'
    else entered (pc_organizationId p) (admin_context p (policy_op_request op) (policy_op_time op)) (policy_op_entry op) s s'"
proof (cases op)
  case (PaResolve token clock i now)
  let ?i = "resolution_command p i now"
  from assms PaResolve have run: "resolveReconciliation sha token clock ?i s = Inr s'"
    by (simp add: admin_defs)
  have fields: "PolicySettlement.ri_organizationId ?i = pc_organizationId p"
    "PolicySettlement.ri_requestId ?i = rq_executionRequestId i" "ri_resolution ?i = rq_resolution i"
    "PolicySettlement.ri_context ?i = admin_context p (rq_requestId i) now"
    by (simp_all add: resolution_command_def resolution_input.defs)
  have "entry_of_resolution ?i = policy_op_entry op" by (simp add: entry_of_resolution_def fields PaResolve)
  with resolve_entered [OF run] exact_replay_command [OF resolve_checked [OF run]]
  show ?thesis unfolding fields by (auto simp: PaResolve split: option.splits)
qed (use assms in \<open>auto simp: admin_defs and_then_Inr_iff published_version_def branch_creation.defs
    dest!: publish_entered create_mandate_entered assign_entered branch_entered transition_entered set_policy_entered\<close>)

text \<open>
  C22: an administrative request on policies and mandates succeeds only for an administrator that holds
  the capability it needs, and leaves every row of every other organization as it was. It adds exactly
  one row to the audit trail, of the principal's organization, naming the principal as the actor, the
  request as the cause, its time, and the entity and the action; unless it repeats a stored resolution
  exactly, which changes nothing but a shadow evaluation that was still to be done.
\<close>

theorem policy_administration_confined:
  assumes "policy_admin_step sha p op s = Inr s'"
  shows "administrator p (Some (policy_op_capability op))
    \<and> outside_store (pc_organizationId p) s' = outside_store (pc_organizationId p) s
    \<and> (if repeats_resolution p op s then \<exists>q h. s' = s\<lparr>st_queue := q, st_shadows := h\<rparr>
       else \<exists>a. st_audit s' = st_audit s @ [a] \<and> au_organizationId a = pc_organizationId p
          \<and> au_actorId a = service_actor p \<and> au_causationId a = policy_op_request op
          \<and> sql_time (policy_op_time op) = Inr (au_occurredAt a)
          \<and> (au_entityType a, au_entityId a, au_action a) = policy_op_entry op)"
proof -
  have "administrator p (Some (policy_op_capability op))"
    using assms
    by (cases op) (auto simp: admin_defs and_then_Inr_iff dest: policy_request_None)
  moreover have "outside_store (pc_organizationId p) s' = outside_store (pc_organizationId p) s"
    using policy_admin_acted [OF assms] by (simp add: acted_def)
  moreover have "if repeats_resolution p op s then shadow_work s s'
      else entered (pc_organizationId p) (admin_context p (policy_op_request op) (policy_op_time op)) (policy_op_entry op) s s'"
    by (rule admin_entered [OF assms])
  ultimately show ?thesis by (simp add: entered_def admin_context_def shadow_work_def split: if_split_asm)
qed

definition sample_mandate_admin :: principal where
  "sample_mandate_admin = sample_admin\<lparr>pc_organizationId := ''o'', pc_capabilities := [Known Mandates_admin]\<rparr>"

lemma policy_administration_confined_witness:
  "\<exists>s' a. policy_admin_step no_hash sample_mandate_admin (PaTransition ''m'' M_paused ''q'' (Instant 9))
       (sample_run setup_ops) = Inr s'
     \<and> outside_store ''o'' s' = outside_store ''o'' (sample_run setup_ops)
     \<and> st_audit s' = st_audit (sample_run setup_ops) @ [a] \<and> au_causationId a = ''q''
     \<and> au_action a = ''mandate.state_changed''"
proof -
  have "is_ok (policy_admin_step no_hash sample_mandate_admin (PaTransition ''m'' M_paused ''q'' (Instant 9))
      (sample_run setup_ops))" by code_simp
  then obtain s' where run: "policy_admin_step no_hash sample_mandate_admin
      (PaTransition ''m'' M_paused ''q'' (Instant 9)) (sample_run setup_ops) = Inr s'" by (auto simp: is_ok_iff)
  have org: "pc_organizationId sample_mandate_admin = ''o''" by (simp add: sample_mandate_admin_def)
  from policy_administration_confined [OF run] run show ?thesis unfolding org by auto
qed

end
