(* ===== verification/ProviderSecrets.thy ===== *)
theory ProviderSecrets
  imports Administration
begin

text \<open>
  \<open>src/src/providers/providerCredentials.ts\<close>: the key ring read from the environment and the encrypted
  envelope of a provider's API key. AES-256-GCM (node:crypto) is the parameter \<open>g\<close>, a record of its two
  directions on bytes; the associated data, the envelope text and the key handling are the code's.
\<close>

section \<open>Text formats\<close>

text \<open>\<open>Buffer.from(s, "base64")\<close>: both alphabets, other characters skipped, the end at a padding sign.\<close>

definition b64_value :: "char \<Rightarrow> nat option" where
  "b64_value c =
     (let n = of_char c :: nat in
      if 65 \<le> n \<and> n \<le> 90 then Some (n - 65) else if 97 \<le> n \<and> n \<le> 122 then Some (n - 71)
      else if 48 \<le> n \<and> n \<le> 57 then Some (n + 4) else if n = 43 \<or> n = 45 then Some 62
      else if n = 47 \<or> n = 95 then Some 63 else None)"

fun b64_values :: "string \<Rightarrow> nat list" where
  "b64_values [] = []"
| "b64_values (c # cs) =
     (if c = CHR ''='' then []
      else case b64_value c of None \<Rightarrow> b64_values cs | Some v \<Rightarrow> v # b64_values cs)"

fun b64_bytes :: "nat list \<Rightarrow> nat list" where
  "b64_bytes (a # b # c # d # rest) =
     [a * 4 + b div 16, b mod 16 * 16 + c div 4, c mod 4 * 64 + d] @ b64_bytes rest"
| "b64_bytes [a, b, c] = [a * 4 + b div 16, b mod 16 * 16 + c div 4]"
| "b64_bytes [a, b] = [a * 4 + b div 16]"
| "b64_bytes _ = []"

definition base64_decode :: "string \<Rightarrow> nat list" where
  "base64_decode s = b64_bytes (b64_values s)"

text \<open>\<open>split(".")\<close> and \<open>join(".")\<close>.\<close>

fun split_dots :: "string \<Rightarrow> string list" where
  "split_dots [] = [[]]"
| "split_dots (c # cs) =
     (if c = CHR ''.'' then [] # split_dots cs
      else case split_dots cs of [] \<Rightarrow> [[c]] | w # ws \<Rightarrow> (c # w) # ws)"

fun join_with :: "char \<Rightarrow> string list \<Rightarrow> string" where
  "join_with c [] = []"
| "join_with c [s] = s"
| "join_with c (s # t # ss) = s @ c # join_with c (t # ss)"

section \<open>The key ring\<close>

datatype provider_name = Anthropic | OpenRouter | OtherProvider string

fun provider_text :: "provider_name \<Rightarrow> string" where
  "provider_text Anthropic = ''anthropic''"
| "provider_text OpenRouter = ''openrouter''"
| "provider_text (OtherProvider s) = s"

fun known_provider :: "provider_name \<Rightarrow> bool" where
  "known_provider (OtherProvider s) = False"
| "known_provider _ = True"

record credential_context =
  kc_organizationId :: string
  kc_provider :: provider_name
  kc_credentialVersion :: int

record key_ring =
  kr_activeKeyId :: string
  kr_keys :: "(string \<times> nat list) list"

text \<open>\<open>/^[a-z0-9_-]{1,32}$/\<close>.\<close>

definition key_id_char :: "char \<Rightarrow> bool" where
  "key_id_char c \<longleftrightarrow> lower_letter c \<or> is_digit c \<or> c = CHR ''_'' \<or> c = CHR ''-''"

definition key_id_ok :: "string \<Rightarrow> bool" where
  "key_id_ok s \<longleftrightarrow> s \<noteq> [] \<and> length s \<le> 32 \<and> list_all key_id_char s"

definition parseKey :: "string \<Rightarrow> store_error + nat list" where
  "parseKey value =
     (if \<not> blank value \<and> list_all (\<lambda>c. b64_value c \<noteq> None \<or> c = CHR ''='') value
         \<and> length (base64_decode value) = 32
      then Inr (base64_decode value) else Inl (Thrown ''PROVIDER_CREDENTIAL_KEY_INVALID''))"

definition key_prefix :: string where
  "key_prefix = ''FUSE_PROVIDER_CREDENTIAL_KEY_''"

fun collect_keys :: "(string \<times> string) list \<Rightarrow> (string \<times> nat list) list \<Rightarrow> store_error + (string \<times> nat list) list" where
  "collect_keys [] keys = Inr keys"
| "collect_keys ((name, value) # env) keys =
     (if take (length key_prefix) name \<noteq> key_prefix \<or> blank value then collect_keys env keys
      else let keyId = toLowerCase (drop (length key_prefix) name) in
        if \<not> key_id_ok keyId then Inl (Thrown ''PROVIDER_CREDENTIAL_KEY_ID_INVALID'')
        else and_then (parseKey value) (\<lambda>key. collect_keys env (AList.update keyId key keys)))"

definition providerCredentialKeyRingFromEnv :: "(string \<times> string) list \<Rightarrow> store_error + key_ring" where
  "providerCredentialKeyRingFromEnv env =
     (let active = (case map_of env ''FUSE_PROVIDER_CREDENTIAL_ACTIVE_KEY_ID'' of
          None \<Rightarrow> [] | Some v \<Rightarrow> toLowerCase (js_trim v))
      in if \<not> key_id_ok active then Inl (Thrown ''PROVIDER_CREDENTIAL_ACTIVE_KEY_ID_INVALID'')
         else and_then (collect_keys env []) (\<lambda>keys.
           if map_of keys active = None then Inl (Thrown ''PROVIDER_CREDENTIAL_ACTIVE_KEY_MISSING'')
           else Inr \<lparr>kr_activeKeyId = active, kr_keys = keys\<rparr>))"

section \<open>Encryption\<close>

record aead =
  aead_seal :: "nat list \<Rightarrow> nat list \<Rightarrow> string \<Rightarrow> string \<Rightarrow> nat list \<times> nat list"
  aead_open :: "nat list \<Rightarrow> nat list \<Rightarrow> string \<Rightarrow> nat list \<Rightarrow> nat list \<Rightarrow> string option"

definition aad :: "credential_context \<Rightarrow> string \<Rightarrow> store_error + string" where
  "aad c keyId =
     (if blank (kc_organizationId c) \<or> \<not> known_provider (kc_provider c)
         \<or> \<not> safe_integer (kc_credentialVersion c) \<or> kc_credentialVersion c < 1 \<or> \<not> key_id_ok keyId
      then Inl (Thrown ''PROVIDER_CREDENTIAL_CONTEXT_INVALID'')
      else Inr (join_with CHR '':'' [''fuse-provider-credential'', ''v1'', kc_organizationId c,
        provider_text (kc_provider c), show_int (kc_credentialVersion c), keyId]))"

text \<open>\<open>iv\<close> is the random nonce.\<close>

definition encryptProviderSecret ::
    "aead \<Rightarrow> nat list \<Rightarrow> string \<Rightarrow> key_ring \<Rightarrow> credential_context \<Rightarrow> store_error + string" where
  "encryptProviderSecret g iv secret ring c =
     (if blank secret then Inl (Thrown ''PROVIDER_CREDENTIAL_SECRET_REQUIRED'')
      else case map_of (kr_keys ring) (kr_activeKeyId ring) of
        None \<Rightarrow> Inl (Thrown ''PROVIDER_CREDENTIAL_ACTIVE_KEY_MISSING'')
      | Some key \<Rightarrow>
          if length key \<noteq> 32 then Inl (Thrown ''PROVIDER_CREDENTIAL_ACTIVE_KEY_MISSING'')
          else if length iv \<noteq> 12 then Inl (Thrown ''PROVIDER_CREDENTIAL_NONCE_INVALID'')
          else and_then (aad c (kr_activeKeyId ring)) (\<lambda>data.
            let (ciphertext, tag) = aead_seal g key iv data secret
            in Inr (join_with CHR ''.'' [''v1'', kr_activeKeyId ring, base64url iv, base64url tag,
                 base64url ciphertext])))"

definition open_envelope ::
    "aead \<Rightarrow> key_ring \<Rightarrow> credential_context \<Rightarrow> string list \<Rightarrow> string option" where
  "open_envelope g ring c parts =
     (case parts of
        [version, keyId, ivText, tagText, cipherText] \<Rightarrow>
          if version \<noteq> ''v1'' \<or> keyId = [] \<or> ivText = [] \<or> tagText = [] \<or> cipherText = [] then None
          else (case map_of (kr_keys ring) keyId of
             None \<Rightarrow> None
           | Some key \<Rightarrow>
               let iv = base64_decode ivText; tag = base64_decode tagText; ct = base64_decode cipherText
               in if length key \<noteq> 32 \<or> length iv \<noteq> 12 \<or> length tag \<noteq> 16 \<or> ct = [] then None
                  else (case aad c keyId of Inl e \<Rightarrow> None | Inr data \<Rightarrow> aead_open g key iv data ct tag))
      | _ \<Rightarrow> None)"

definition decryptProviderSecret :: "aead \<Rightarrow> string \<Rightarrow> key_ring \<Rightarrow> credential_context \<Rightarrow> store_error + string" where
  "decryptProviderSecret g envelope ring c =
     (case open_envelope g ring c (split_dots envelope) of
        None \<Rightarrow> Inl (Thrown ''PROVIDER_CREDENTIAL_DECRYPT_FAILED'') | Some s \<Rightarrow> Inr s)"

section \<open>What is read back\<close>

definition bytes :: "nat list \<Rightarrow> bool" where
  "bytes bs \<longleftrightarrow> list_all (\<lambda>b. b < 256) bs"

lemma b64_value_char: "n < 64 \<Longrightarrow> b64_value (b64_char n) = Some n"
  by (auto simp: b64_value_def b64_char_def Let_def)

lemma b64_char_no: "n < 64 \<Longrightarrow> b64_char n \<noteq> CHR ''=''" "n < 64 \<Longrightarrow> b64_char n \<noteq> CHR ''.''"
proof -
  show "n < 64 \<Longrightarrow> b64_char n \<noteq> CHR ''=''"
    by (auto simp: b64_char_def dest!: arg_cong [where f = "of_char :: char \<Rightarrow> nat"])
  show "n < 64 \<Longrightarrow> b64_char n \<noteq> CHR ''.''"
    by (auto simp: b64_char_def dest!: arg_cong [where f = "of_char :: char \<Rightarrow> nat"])
qed

lemma b64_values_Cons: "n < 64 \<Longrightarrow> b64_values (b64_char n # cs) = n # b64_values cs"
  by (simp add: b64_value_char b64_char_no)

lemma base64_roundtrip: "bytes bs \<Longrightarrow> base64_decode (base64url bs) = bs"
  unfolding base64_decode_def
  by (induction bs rule: base64url.induct)
    (auto simp: bytes_def b64_values_Cons simp del: b64_values.simps(2))

lemma base64url_nonempty: "bs \<noteq> [] \<Longrightarrow> base64url bs \<noteq> []"
  by (cases bs rule: base64url.cases) auto

lemma base64url_dotfree: "bytes bs \<Longrightarrow> CHR ''.'' \<notin> set (base64url bs)"
  using b64_char_no(2)
  by (induction bs rule: base64url.induct) (auto simp: bytes_def eq_commute [of "CHR ''.''"])

lemma split_dots_one: "CHR ''.'' \<notin> set s \<Longrightarrow> split_dots s = [s]"
  by (induction s) auto

lemma split_dots_join:
  "CHR ''.'' \<notin> set s \<Longrightarrow> split_dots (s @ CHR ''.'' # rest) = s # split_dots rest"
  by (induction s) auto

end
