(* ===== verification/ProviderStore.thy ===== *)
theory ProviderStore
  imports ProviderSecrets
begin

text \<open>
  \<open>src/src/persistence/providerConfigStore.ts\<close>: one provider configuration per organization with its
  encrypted API key, and the retries of its verification. Each operation is one transaction on the
  tables. Schema creation is left out. The cipher \<open>g\<close>, the key ring and random values are parameters.
\<close>

section \<open>Tables\<close>

datatype verification_status = V_pending | V_verified | V_invalid

datatype config_status = Config_active | Config_revoked

text \<open>A NUMERIC(30, 12) column is kept in units of \<open>10 ^ -12\<close>.\<close>

record provider_row =
  pf_organizationId :: string
  pf_id :: string
  pf_provider :: provider_name
  pf_model :: string
  pf_inputUsdPerMillion :: int
  pf_outputUsdPerMillion :: int
  pf_credentialVersion :: int
  pf_encryptionKeyId :: string
  pf_encryptedSecret :: string
  pf_status :: config_status
  pf_verificationStatus :: verification_status
  pf_updatedAt :: int

record provider_summary =
  sm_id :: string
  sm_organizationId :: string
  sm_provider :: provider_name
  sm_model :: string
  sm_inputUsdPerMillion :: string
  sm_outputUsdPerMillion :: string
  sm_credentialVersion :: int
  sm_status :: config_status
  sm_updatedAt :: string

record retry_row =
  vr_organizationId :: string
  vr_configId :: string
  vr_requestId :: string
  vr_claimToken :: string
  vr_status :: verification_status
  vr_summary :: "provider_summary option"
  vr_errorCode :: "string option"
  vr_createdAt :: int
  vr_updatedAt :: int

record provider_db =
  px_organizations :: "string list"
  px_configurations :: "provider_row list"
  px_retries :: "retry_row list"
  px_audit :: "audit_row list"

definition retry_key :: "retry_row \<Rightarrow> string \<times> string \<times> string" where
  "retry_key r = (vr_organizationId r, vr_configId r, vr_requestId r)"

definition find_config :: "string \<Rightarrow> provider_db \<Rightarrow> provider_row option" where
  "find_config org d = tbl_find pf_organizationId org (px_configurations d)"

section \<open>Prices\<close>

text \<open>\<open>/^\d+(?:\.\d{1,12})?$/\<close> and a positive number, then the value of the column.\<close>

definition numeric_unit :: int where
  "numeric_unit = 1000000000000"

definition numeric_column :: "string \<Rightarrow> store_error + int" where
  "numeric_column s =
     (case match_decimal s of
        None \<Rightarrow> Inl (Thrown ''invalid input syntax for type numeric'')
      | Some (whole, fraction) \<Rightarrow>
          let n = digits_val whole * numeric_unit + digits_val (pad_end 12 fraction) in
          if 1000000000000000000 * numeric_unit \<le> n then Inl (Thrown ''numeric field overflow'') else Inr n)"

definition price_ok :: "string \<Rightarrow> bool" where
  "price_ok s \<longleftrightarrow>
     (case match_decimal s of
        None \<Rightarrow> False
      | Some (whole, fraction) \<Rightarrow> length fraction \<le> 12 \<and> (digits_val whole \<noteq> 0 \<or> digits_val fraction \<noteq> 0))"

definition numeric_text :: "int \<Rightarrow> string" where
  "numeric_text n = show_int (n div numeric_unit) @ CHR ''.'' # pad_start 12 (show_int (n mod numeric_unit))"

text \<open>\<open>fraction.replace(/0+$/, "")\<close> after the split at the point.\<close>

definition normalizeDecimal :: "string \<Rightarrow> string" where
  "normalizeDecimal s =
     (case split_dots s of
        [] \<Rightarrow> []
      | [whole] \<Rightarrow> whole
      | whole # fraction # _ \<Rightarrow>
          let trimmed = rev (dropWhile (\<lambda>c. c = CHR ''0'') (rev fraction)) in
          if trimmed = [] then whole else whole @ CHR ''.'' # trimmed)"

definition summaryFromRow :: "provider_row \<Rightarrow> provider_summary" where
  "summaryFromRow r =
     \<lparr>sm_id = pf_id r, sm_organizationId = pf_organizationId r, sm_provider = pf_provider r,
      sm_model = pf_model r,
      sm_inputUsdPerMillion = normalizeDecimal (numeric_text (pf_inputUsdPerMillion r)),
      sm_outputUsdPerMillion = normalizeDecimal (numeric_text (pf_outputUsdPerMillion r)),
      sm_credentialVersion = pf_credentialVersion r, sm_status = pf_status r,
      sm_updatedAt = toISOString (pf_updatedAt r)\<rparr>"

section \<open>Configuration\<close>

record configure_input =
  cfg_id :: string
  cfg_organizationId :: string
  cfg_provider :: provider_name
  cfg_model :: string
  cfg_apiKey :: string
  cfg_inputUsdPerMillion :: string
  cfg_outputUsdPerMillion :: string
  cfg_context :: mutation_context
  cfg_verificationStatus :: "verification_status option"

definition validateInput :: "configure_input \<Rightarrow> store_error option" where
  "validateInput i = first_error
     [(blank (cfg_id i), Thrown ''PROVIDER_CONFIGURATION_ID_REQUIRED''),
      (blank (cfg_organizationId i), Thrown ''PROVIDER_CONFIGURATION_ORGANIZATION_REQUIRED''),
      (\<not> known_provider (cfg_provider i), Thrown ''PROVIDER_CONFIGURATION_PROVIDER_INVALID''),
      (blank (cfg_model i) \<or> 256 < length (cfg_model i), Thrown ''PROVIDER_CONFIGURATION_MODEL_INVALID''),
      (blank (cfg_apiKey i) \<or> 4096 < length (cfg_apiKey i), Thrown ''PROVIDER_CREDENTIAL_SECRET_INVALID''),
      (\<not> price_ok (cfg_inputUsdPerMillion i) \<or> \<not> price_ok (cfg_outputUsdPerMillion i),
       Thrown ''PROVIDER_CONFIGURATION_PRICE_INVALID''),
      (blank (ctx_actorId (cfg_context i)) \<or> blank (ctx_causationId (cfg_context i))
         \<or> bad_time (ctx_occurredAt (cfg_context i)), Thrown ''PROVIDER_CONFIGURATION_CONTEXT_INVALID'')]"

definition row_context :: "provider_row \<Rightarrow> credential_context" where
  "row_context r = \<lparr>kc_organizationId = pf_organizationId r, kc_provider = pf_provider r,
     kc_credentialVersion = pf_credentialVersion r\<rparr>"

definition configured_row ::
    "configure_input \<Rightarrow> int \<Rightarrow> int \<Rightarrow> int \<Rightarrow> string \<Rightarrow> string \<Rightarrow> int \<Rightarrow> provider_row" where
  "configured_row i version inputPrice outputPrice keyId secret now =
     \<lparr>pf_organizationId = cfg_organizationId i, pf_id = cfg_id i, pf_provider = cfg_provider i,
      pf_model = cfg_model i, pf_inputUsdPerMillion = inputPrice, pf_outputUsdPerMillion = outputPrice,
      pf_credentialVersion = version, pf_encryptionKeyId = keyId, pf_encryptedSecret = secret,
      pf_status = Config_active,
      pf_verificationStatus = (case cfg_verificationStatus i of None \<Rightarrow> V_verified | Some v \<Rightarrow> v),
      pf_updatedAt = now\<rparr>"

definition provider_audit :: "configure_input \<Rightarrow> int \<Rightarrow> int \<Rightarrow> audit_row" where
  "provider_audit i version now =
     \<lparr>au_organizationId = cfg_organizationId i, au_entityType = ''provider_configuration'',
      au_entityId = cfg_id i,
      au_action = (if version = 1 then ''provider_configuration.created'' else ''provider_credential.rotated''),
      au_actorId = ctx_actorId (cfg_context i), au_causationId = ctx_causationId (cfg_context i),
      au_occurredAt = now,
      au_payload = JObj [(''provider'', JStr (provider_text (cfg_provider i))),
        (''model'', JStr (cfg_model i)), (''credentialVersion'', JNum version)]\<rparr>"

definition next_version :: "provider_row option \<Rightarrow> int" where
  "next_version current = (case current of None \<Rightarrow> 1 | Some r \<Rightarrow> pf_credentialVersion r + 1)"

definition configure ::
    "aead \<Rightarrow> key_ring \<Rightarrow> nat list \<Rightarrow> configure_input \<Rightarrow> provider_db
       \<Rightarrow> store_error + (provider_db \<times> provider_summary)" where
  "configure g ring iv i d =
     and_then (check (validateInput i)) (\<lambda>_.
     let current = find_config (cfg_organizationId i) d; version = next_version current in
     and_then (check (first_error
       [(cfg_organizationId i \<notin> set (px_organizations d),
         Thrown ''PROVIDER_CONFIGURATION_ORGANIZATION_NOT_FOUND''),
        ((case current of None \<Rightarrow> False | Some r \<Rightarrow> pf_id r \<noteq> cfg_id i),
         Thrown ''PROVIDER_CONFIGURATION_ID_CONFLICT'')])) (\<lambda>_.
     and_then (encryptProviderSecret g iv (cfg_apiKey i) ring
         \<lparr>kc_organizationId = cfg_organizationId i, kc_provider = cfg_provider i,
          kc_credentialVersion = version\<rparr>) (\<lambda>secret.
     and_then (numeric_column (cfg_inputUsdPerMillion i)) (\<lambda>inputPrice.
     and_then (numeric_column (cfg_outputUsdPerMillion i)) (\<lambda>outputPrice.
     and_then (sql_time (ctx_occurredAt (cfg_context i))) (\<lambda>now.
     let r = configured_row i version inputPrice outputPrice (kr_activeKeyId ring) secret now
     in Inr (d\<lparr>px_configurations := map_set pf_organizationId r (px_configurations d),
               px_audit := px_audit d @ [provider_audit i version now]\<rparr>, summaryFromRow r)))))))"

definition list_configurations :: "string \<Rightarrow> provider_db \<Rightarrow> store_error + provider_summary list" where
  "list_configurations org d =
     (if blank org then Inl (Thrown ''PROVIDER_CONFIGURATION_ORGANIZATION_REQUIRED'')
      else Inr (map summaryFromRow (filter (\<lambda>r. pf_organizationId r = org) (px_configurations d))))"

definition config_matches :: "string \<Rightarrow> string \<Rightarrow> provider_row \<Rightarrow> bool" where
  "config_matches org cid r \<longleftrightarrow> pf_organizationId r = org \<and> pf_id r = cid"

definition find_by_id :: "string \<Rightarrow> string \<Rightarrow> provider_db \<Rightarrow> provider_row option" where
  "find_by_id org cid d = find (config_matches org cid) (px_configurations d)"

text \<open>The UPDATE that ends a verification; it touches no row when the credential was rotated.\<close>

definition set_verification ::
    "string \<Rightarrow> string \<Rightarrow> int \<Rightarrow> verification_status \<Rightarrow> int \<Rightarrow> provider_db \<Rightarrow> store_error + provider_db" where
  "set_verification org cid version v now d =
     (let hit = (\<lambda>r. config_matches org cid r \<and> pf_credentialVersion r = version) in
      if \<not> list_ex hit (px_configurations d) then Inl (Thrown ''PROVIDER_VERIFICATION_STALE'')
      else Inr (d\<lparr>px_configurations :=
        map (\<lambda>r. if hit r then r\<lparr>pf_verificationStatus := v, pf_updatedAt := now\<rparr> else r)
          (px_configurations d)\<rparr>))"

definition markVerificationStatus ::
    "string \<Rightarrow> string \<Rightarrow> verification_status \<Rightarrow> int \<Rightarrow> timestamp \<Rightarrow> provider_db \<Rightarrow> store_error + provider_db" where
  "markVerificationStatus org cid v version now d =
     and_then (sql_time now) (\<lambda>t. set_verification org cid version v t d)"

section \<open>Reading the credential\<close>

record resolved_provider =
  rp_summary :: provider_summary
  rp_verificationStatus :: verification_status
  rp_apiKey :: string
  rp_requireProviderCost :: bool
  rp_requireProviderModelMatch :: bool

definition key_of_envelope :: "string \<Rightarrow> string option" where
  "key_of_envelope s = (case split_dots s of v # k # _ \<Rightarrow> Some k | _ \<Rightarrow> None)"

definition decrypt_row :: "aead \<Rightarrow> key_ring \<Rightarrow> provider_row \<Rightarrow> store_error + string" where
  "decrypt_row g ring r =
     (if key_of_envelope (pf_encryptedSecret r) \<noteq> Some (pf_encryptionKeyId r)
      then Inl (Thrown ''PROVIDER_CREDENTIAL_DECRYPT_FAILED'')
      else decryptProviderSecret g (pf_encryptedSecret r) ring (row_context r))"

definition with_secret :: "aead \<Rightarrow> key_ring \<Rightarrow> provider_row \<Rightarrow> store_error + resolved_provider" where
  "with_secret g ring r =
     and_then (decrypt_row g ring r) (\<lambda>k.
     Inr \<lparr>rp_summary = summaryFromRow r, rp_verificationStatus = pf_verificationStatus r, rp_apiKey = k,
          rp_requireProviderCost = (pf_provider r = OpenRouter),
          rp_requireProviderModelMatch = (pf_provider r = OpenRouter)\<rparr>)"

definition getForVerification ::
    "aead \<Rightarrow> key_ring \<Rightarrow> string \<Rightarrow> string \<Rightarrow> provider_db \<Rightarrow> store_error + resolved_provider" where
  "getForVerification g ring org cid d =
     (if blank org \<or> blank cid then Inl (Thrown ''PROVIDER_CONFIGURATION_NOT_FOUND'')
      else case find_by_id org cid d of
        None \<Rightarrow> Inl (Thrown ''PROVIDER_CONFIGURATION_NOT_FOUND'')
      | Some r \<Rightarrow> with_secret g ring r)"

definition resolve_provider ::
    "aead \<Rightarrow> key_ring \<Rightarrow> string \<Rightarrow> provider_db \<Rightarrow> store_error + resolved_provider" where
  "resolve_provider g ring org d =
     (if blank org then Inl (Thrown ''PROVIDER_CONFIGURATION_ORGANIZATION_REQUIRED'')
      else case find (\<lambda>r. pf_organizationId r = org \<and> pf_status r = Config_active
          \<and> pf_verificationStatus r = V_verified) (px_configurations d) of
        None \<Rightarrow> Inl (Thrown ''PROVIDER_CONFIGURATION_NOT_FOUND'')
      | Some r \<Rightarrow> with_secret g ring r)"

definition getVerifiedConfigurationSummary ::
    "aead \<Rightarrow> key_ring \<Rightarrow> string \<Rightarrow> provider_db \<Rightarrow> store_error + provider_summary option" where
  "getVerifiedConfigurationSummary g ring org d =
     (case resolve_provider g ring org d of
        Inr r \<Rightarrow> Inr (Some (rp_summary r))
      | Inl e \<Rightarrow> if e \<in> {Thrown ''PROVIDER_CONFIGURATION_NOT_FOUND'', Thrown ''PROVIDER_CREDENTIAL_DECRYPT_FAILED''}
                 then Inr None else Inl e)"

definition hasVerifiedConfiguration ::
    "aead \<Rightarrow> key_ring \<Rightarrow> string \<Rightarrow> provider_db \<Rightarrow> store_error + bool" where
  "hasVerifiedConfiguration g ring org d =
     and_then (getVerifiedConfigurationSummary g ring org d) (\<lambda>s. Inr (s \<noteq> None))"

text \<open>The readiness check: every key an envelope names is in the ring.\<close>

definition keys_available :: "key_ring \<Rightarrow> provider_db \<Rightarrow> bool" where
  "keys_available ring d \<longleftrightarrow>
     list_all (\<lambda>r. map_of (kr_keys ring) (pf_encryptionKeyId r) \<noteq> None) (px_configurations d)"

section \<open>Verification retries\<close>

definition retry_lease_ms :: int where
  "retry_lease_ms = 15 * 60000"

record retry_replay =
  ry_status :: verification_status
  ry_summary :: provider_summary
  ry_errorCode :: "string option"

datatype retry_claim = RetryReplay retry_replay | RetryClaimed

definition config_retry :: "string \<Rightarrow> string \<Rightarrow> retry_row \<Rightarrow> bool" where
  "config_retry org cid v \<longleftrightarrow>
     vr_organizationId v = org \<and> vr_configId v = cid \<and> vr_status v = V_pending"

text \<open>Some verification of the configuration is running: its row or a retry was touched in the lease.\<close>

definition lease_held :: "provider_row \<Rightarrow> int \<Rightarrow> provider_db \<Rightarrow> bool" where
  "lease_held r now d \<longleftrightarrow>
     (pf_verificationStatus r = V_pending \<and> now - retry_lease_ms < pf_updatedAt r)
     \<or> list_ex (\<lambda>v. config_retry (pf_organizationId r) (pf_id r) v \<and> now - retry_lease_ms < vr_updatedAt v)
         (px_retries d)"

definition expire_retries :: "provider_row \<Rightarrow> int \<Rightarrow> retry_row list \<Rightarrow> retry_row list" where
  "expire_retries r now = map (\<lambda>v.
     if config_retry (pf_organizationId r) (pf_id r) v
     then v\<lparr>vr_status := V_invalid, vr_summary := Some (summaryFromRow r),
            vr_errorCode := Some ''PROVIDER_VERIFICATION_RETRY_LEASE_EXPIRED'', vr_updatedAt := now\<rparr>
     else v)"

text \<open>INSERT ... ON CONFLICT DO UPDATE ... WHERE the existing row is invalid.\<close>

definition claim_retry :: "retry_row \<Rightarrow> retry_row list \<Rightarrow> retry_row list" where
  "claim_retry v vs =
     (case tbl_find retry_key (retry_key v) vs of
        None \<Rightarrow> vs @ [v]
      | Some x \<Rightarrow> tbl_update retry_key (retry_key v) (\<lambda>y. if vr_status y = V_invalid then v else y) vs)"

definition beginVerificationRetry ::
    "string \<Rightarrow> string \<Rightarrow> string \<Rightarrow> string \<Rightarrow> timestamp \<Rightarrow> provider_db
       \<Rightarrow> store_error + (provider_db \<times> retry_claim)" where
  "beginVerificationRetry claimToken org cid rid occurredAt d =
     (case date_parse occurredAt of
        None \<Rightarrow> Inl (Thrown ''PROVIDER_VERIFICATION_OCCURRED_AT_INVALID'')
      | Some now \<Rightarrow>
       (case find_by_id org cid d of
          None \<Rightarrow> Inl (Thrown ''PROVIDER_CONFIGURATION_NOT_FOUND'')
        | Some r \<Rightarrow>
            if pf_status r \<noteq> Config_active then Inl (Thrown ''PROVIDER_CONFIGURATION_NOT_ACTIVE'')
            else
              let claimed = (if pf_verificationStatus r = V_verified then Inl (Thrown ''PROVIDER_ALREADY_VERIFIED'')
                else if lease_held r now d then Inl (Thrown ''PROVIDER_VERIFICATION_IN_PROGRESS'')
                else Inr (d\<lparr>px_retries := claim_retry
                      \<lparr>vr_organizationId = org, vr_configId = cid, vr_requestId = rid,
                       vr_claimToken = claimToken, vr_status = V_pending, vr_summary = None,
                       vr_errorCode = None, vr_createdAt = now, vr_updatedAt = now\<rparr>
                      (expire_retries r now (px_retries d)),
                    px_configurations := map (\<lambda>x. if config_matches org cid x
                      then x\<lparr>pf_verificationStatus := V_pending, pf_updatedAt := now\<rparr> else x)
                      (px_configurations d)\<rparr>, RetryClaimed))
              in (case tbl_find retry_key (org, cid, rid) (px_retries d) of
                    None \<Rightarrow> claimed
                  | Some x \<Rightarrow>
                      if vr_status x = V_pending then claimed
                      else (case vr_summary x of
                         None \<Rightarrow> Inl (Thrown ''TypeError'')
                       | Some s \<Rightarrow>
                           if sm_credentialVersion s \<noteq> pf_credentialVersion r
                           then Inl (Thrown ''PROVIDER_VERIFICATION_STALE'')
                           else Inr (d, RetryReplay \<lparr>ry_status = vr_status x, ry_summary = s,
                             ry_errorCode = truthy (vr_errorCode x)\<rparr>)))))"

definition finishVerificationRetry ::
    "string \<Rightarrow> string \<Rightarrow> string \<Rightarrow> string \<Rightarrow> int \<Rightarrow> verification_status \<Rightarrow> provider_summary \<Rightarrow> string option
       \<Rightarrow> timestamp \<Rightarrow> provider_db \<Rightarrow> store_error + provider_db" where
  "finishVerificationRetry org cid rid claimToken version v summary code occurredAt d =
     and_then (sql_time occurredAt) (\<lambda>now.
     and_then (set_verification org cid version v now d) (\<lambda>d1.
     let hit = (\<lambda>x. retry_key x = (org, cid, rid) \<and> vr_claimToken x = claimToken \<and> vr_status x = V_pending) in
     if \<not> list_ex hit (px_retries d1) then Inl (Thrown ''PROVIDER_VERIFICATION_RETRY_NOT_FOUND'')
     else Inr (d1\<lparr>px_retries := map (\<lambda>x. if hit x
            then x\<lparr>vr_status := v, vr_summary := Some summary, vr_errorCode := code, vr_updatedAt := now\<rparr>
            else x) (px_retries d1)\<rparr>)))"

end
