(* ===== verification/ProviderAdministration.thy ===== *)
theory ProviderAdministration
  imports ProviderStore Inference
begin

text \<open>
  \<open>src/src/providers/providerAdministration.ts\<close> and \<open>src/src/providers/tenantProviderResolver.ts\<close>. Configuring a
  provider and retrying its verification call the provider between two transactions of the store, so
  both are split there; the machine at the end runs any number of them interleaved. What the verifier
  answers (\<open>src/src/providers/openRouterCredentialVerifier.ts\<close>, an HTTP request) is an input.
\<close>

section \<open>Guards\<close>

definition provider_capability :: "principal \<Rightarrow> api_capability \<Rightarrow> store_error option" where
  "provider_capability p k = first_error
     [(pc_type p \<noteq> Service_credential, Thrown ''SERVICE_ACCOUNT_REQUIRED''),
      (Known k \<notin> set (pc_capabilities p), Thrown ''PROVIDER_CAPABILITY_REQUIRED'')]"

definition provider_admin :: "principal \<Rightarrow> store_error option" where
  "provider_admin p = orElse (provider_capability p Providers_write) (first_error
     [(pc_role p \<noteq> Some Role_admin, Thrown ''SERVICE_ACCOUNT_ADMIN_REQUIRED'')])"

section \<open>Configuring\<close>

record configure_command =
  pm_configId :: string
  pm_provider :: provider_name
  pm_model :: string
  pm_apiKey :: string
  pm_inputUsdPerMillion :: string
  pm_outputUsdPerMillion :: string
  pm_requestId :: string

definition command_input :: "principal \<Rightarrow> configure_command \<Rightarrow> timestamp \<Rightarrow> configure_input" where
  "command_input p i now =
     \<lparr>cfg_id = pm_configId i, cfg_organizationId = pc_organizationId p, cfg_provider = pm_provider i,
      cfg_model = pm_model i, cfg_apiKey = pm_apiKey i, cfg_inputUsdPerMillion = pm_inputUsdPerMillion i,
      cfg_outputUsdPerMillion = pm_outputUsdPerMillion i,
      cfg_context = admin_context p (pm_requestId i) now, cfg_verificationStatus = Some V_pending\<rparr>"

definition configure_begin ::
    "aead \<Rightarrow> key_ring \<Rightarrow> nat list \<Rightarrow> principal \<Rightarrow> configure_command \<Rightarrow> timestamp \<Rightarrow> provider_db
       \<Rightarrow> store_error + (provider_db \<times> provider_summary)" where
  "configure_begin g ring iv p i now d =
     and_then (check (orElse (provider_admin p) (first_error
       [(blank (pm_requestId i), Thrown ''REQUEST_ID_REQUIRED''),
        (pm_provider i \<noteq> OpenRouter, Thrown ''PROVIDER_VERIFICATION_UNSUPPORTED'')]))) (\<lambda>_.
     configure g ring iv (command_input p i now) d)"

text \<open>
  The verifier's answer: \<open>None\<close> it accepted the credential, \<open>Some e\<close> it threw. The first mark is inside the
  \<open>try\<close>, so an error in it leads to the second.
\<close>

definition configure_end ::
    "string \<Rightarrow> string \<Rightarrow> timestamp \<Rightarrow> provider_summary \<Rightarrow> store_error option \<Rightarrow> provider_db
       \<Rightarrow> provider_db \<times> (store_error + provider_summary)" where
  "configure_end org cid now s answer d =
     (let mark = (\<lambda>v. markVerificationStatus org cid v (sm_credentialVersion s) now d);
          refuse = (\<lambda>e. case mark V_invalid of Inl e' \<Rightarrow> (d, Inl e') | Inr d' \<Rightarrow> (d', Inl e))
      in case answer of
           Some e \<Rightarrow> refuse e
         | None \<Rightarrow> (case mark V_verified of Inl e \<Rightarrow> refuse e | Inr d' \<Rightarrow> (d', Inr s)))"

section \<open>Retrying\<close>

definition retry_begin ::
    "string \<Rightarrow> principal \<Rightarrow> string \<Rightarrow> string \<Rightarrow> timestamp \<Rightarrow> provider_db
       \<Rightarrow> store_error + (provider_db \<times> retry_claim)" where
  "retry_begin claimToken p cid rid now d =
     and_then (check (orElse (provider_admin p) (first_error
       [(blank cid, Thrown ''PROVIDER_CONFIGURATION_ID_REQUIRED''),
        (blank rid, Thrown ''REQUEST_ID_REQUIRED'')]))) (\<lambda>_.
     beginVerificationRetry claimToken (pc_organizationId p) cid rid now d)"

definition replayed :: "retry_replay \<Rightarrow> store_error + provider_summary" where
  "replayed y =
     (if ry_status y = V_invalid
      then Inl (Thrown (case ry_errorCode y of None \<Rightarrow> ''OPENROUTER_CREDENTIAL_INVALID'' | Some c \<Rightarrow> c))
      else Inr (ry_summary y))"

text \<open>What the claim reads in its own query, before the verifier is called.\<close>

definition retry_record ::
    "aead \<Rightarrow> key_ring \<Rightarrow> string \<Rightarrow> string \<Rightarrow> provider_db \<Rightarrow> store_error + resolved_provider" where
  "retry_record g ring org cid d =
     and_then (getForVerification g ring org cid d) (\<lambda>r.
     if sm_provider (rp_summary r) \<noteq> OpenRouter
     then Inl (Thrown ''PROVIDER_VERIFICATION_RETRY_UNSUPPORTED'') else Inr r)"

definition error_text :: "store_error \<Rightarrow> string" where
  "error_text e = (case e of Thrown s \<Rightarrow> s | _ \<Rightarrow> ''OPENROUTER_CREDENTIAL_INVALID'')"

definition retry_end ::
    "string \<Rightarrow> string \<Rightarrow> string \<Rightarrow> string \<Rightarrow> timestamp \<Rightarrow> resolved_provider \<Rightarrow> store_error option \<Rightarrow> provider_db
       \<Rightarrow> store_error + (provider_db \<times> (store_error + provider_summary))" where
  "retry_end org cid rid claimToken now r answer d =
     and_then (list_configurations org d) (\<lambda>summaries.
     case find (\<lambda>s. sm_id s = cid) summaries of
       None \<Rightarrow> Inl (Thrown ''PROVIDER_CONFIGURATION_NOT_FOUND'')
     | Some s \<Rightarrow>
         and_then (finishVerificationRetry org cid rid claimToken (sm_credentialVersion (rp_summary r))
             (case answer of None \<Rightarrow> V_verified | Some e \<Rightarrow> V_invalid) s (map_option error_text answer) now d) (\<lambda>d'.
         Inr (d', case answer of None \<Rightarrow> Inr s | Some e \<Rightarrow> Inl e)))"

definition provider_list :: "principal \<Rightarrow> provider_db \<Rightarrow> store_error + provider_summary list" where
  "provider_list p d =
     and_then (check (provider_capability p Providers_read)) (\<lambda>_.
     list_configurations (pc_organizationId p) d)"

section \<open>The resolver\<close>

definition tenant_binding :: "string \<Rightarrow> resolved_provider \<Rightarrow> store_error + provider_binding" where
  "tenant_binding org r =
     (if sm_organizationId (rp_summary r) \<noteq> org then Inl (Thrown ''PROVIDER_CONFIGURATION_TENANT_MISMATCH'')
      else Inr \<lparr>pb_providerName = provider_text (sm_provider (rp_summary r)),
        pb_model = sm_model (rp_summary r),
        pb_price = \<lparr>inputUsdPerMillion = sm_inputUsdPerMillion (rp_summary r),
                    outputUsdPerMillion = sm_outputUsdPerMillion (rp_summary r)\<rparr>,
        pb_requireProviderCost = rp_requireProviderCost r,
        pb_requireProviderModelMatch = rp_requireProviderModelMatch r\<rparr>)"

end
