(* ===== verification/ProviderRun.thy ===== *)
theory ProviderRun
  imports ProviderProperties
begin

text \<open>
  Any number of requests of \<open>src/src/providers/providerAdministration.ts\<close> at once, over the store of
  \<open>src/src/persistence/providerConfigStore.ts\<close>: each configuration and each retry is two transactions with a
  call of the provider between them. The invariant ties what is marked as verified to what the verifier
  accepted.
\<close>

section \<open>Interleaved configurations and retries\<close>

text \<open>
  What a running request holds between its transactions: the credential it sent to the verifier, or the
  claim of a retry that has not read the credential yet.
\<close>

datatype provider_check =
    ChkConfigure string string timestamp provider_summary configure_command
  | ChkClaim string string string string timestamp
  | ChkRetry string string string string timestamp resolved_provider

record provider_world =
  pw_db :: provider_db
  pw_running :: "provider_check list"
  pw_accepted :: "(provider_name \<times> string \<times> string) list"

text \<open>\<open>EvLost\<close> is a request whose process dies.\<close>

datatype provider_event =
    EvConfigure "nat list" principal configure_command timestamp
  | EvRetry string principal string string timestamp
  | EvRead nat
  | EvVerified nat "store_error option"
  | EvLost nat

definition drop_at :: "nat \<Rightarrow> 'a list \<Rightarrow> 'a list" where
  "drop_at i xs = take i xs @ drop (Suc i) xs"

definition note_accepted ::
    "store_error option \<Rightarrow> provider_name \<times> string \<times> string \<Rightarrow> provider_world \<Rightarrow> provider_world" where
  "note_accepted answer c w =
     (if answer = None then w\<lparr>pw_accepted := c # pw_accepted w\<rparr> else w)"

definition verified_step ::
    "nat \<Rightarrow> store_error option \<Rightarrow> provider_check \<Rightarrow> provider_world \<Rightarrow> provider_world" where
  "verified_step i answer c w =
     (case c of
        ChkConfigure org cid now s m \<Rightarrow>
          note_accepted answer (pm_provider m, pm_model m, pm_apiKey m)
            (w\<lparr>pw_db := fst (configure_end org cid now s answer (pw_db w)),
               pw_running := drop_at i (pw_running w)\<rparr>)
      | ChkRetry org cid rid token now r \<Rightarrow>
          note_accepted answer (sm_provider (rp_summary r), sm_model (rp_summary r), rp_apiKey r)
            (w\<lparr>pw_db := (case retry_end org cid rid token now r answer (pw_db w) of
                 Inl e \<Rightarrow> pw_db w | Inr (d', x) \<Rightarrow> d'),
               pw_running := drop_at i (pw_running w)\<rparr>)
      | ChkClaim org cid rid token now \<Rightarrow> w)"

fun provider_step :: "aead \<Rightarrow> key_ring \<Rightarrow> provider_event \<Rightarrow> provider_world \<Rightarrow> provider_world" where
  "provider_step g ring (EvConfigure iv p m now) w =
     (case configure_begin g ring iv p m now (pw_db w) of
        Inl e \<Rightarrow> w
      | Inr (d', s) \<Rightarrow> w\<lparr>pw_db := d', pw_running := pw_running w @
          [ChkConfigure (pc_organizationId p) (pm_configId m) now s m]\<rparr>)"
| "provider_step g ring (EvRetry token p cid rid now) w =
     (case retry_begin token p cid rid now (pw_db w) of
        Inl e \<Rightarrow> w
      | Inr (d', RetryReplay y) \<Rightarrow> w
      | Inr (d', RetryClaimed) \<Rightarrow> w\<lparr>pw_db := d', pw_running := pw_running w @
          [ChkClaim (pc_organizationId p) cid rid token now]\<rparr>)"
| "provider_step g ring (EvRead i) w =
     (if length (pw_running w) \<le> i then w
      else case pw_running w ! i of
        ChkClaim org cid rid token now \<Rightarrow>
          (case retry_record g ring org cid (pw_db w) of
             Inl e \<Rightarrow> w\<lparr>pw_running := drop_at i (pw_running w)\<rparr>
           | Inr r \<Rightarrow> w\<lparr>pw_running := (pw_running w)[i := ChkRetry org cid rid token now r]\<rparr>)
      | _ \<Rightarrow> w)"
| "provider_step g ring (EvVerified i answer) w =
     (if length (pw_running w) \<le> i then w else verified_step i answer (pw_running w ! i) w)"
| "provider_step g ring (EvLost i) w = w\<lparr>pw_running := drop_at i (pw_running w)\<rparr>"

definition provider_start :: "string list \<Rightarrow> provider_world" where
  "provider_start orgs =
     \<lparr>pw_db = \<lparr>px_organizations = orgs, px_configurations = [], px_retries = [], px_audit = []\<rparr>,
      pw_running = [], pw_accepted = []\<rparr>"

definition provider_run :: "aead \<Rightarrow> key_ring \<Rightarrow> provider_event list \<Rightarrow> provider_world \<Rightarrow> provider_world" where
  "provider_run g ring es w = fold (provider_step g ring) es w"

text \<open>Nonces are bytes.\<close>

fun event_ok :: "provider_event \<Rightarrow> bool" where
  "event_ok (EvConfigure iv p m now) = bytes iv"
| "event_ok _ = True"

section \<open>The invariant\<close>

definition same_credential :: "provider_row \<Rightarrow> provider_row \<Rightarrow> bool" where
  "same_credential r r' \<longleftrightarrow> (\<exists>v t. r' = r\<lparr>pf_verificationStatus := v, pf_updatedAt := t\<rparr>)"

text \<open>The row of the organization is at this version or a later one; at this one it holds this credential.\<close>

definition version_holds ::
    "aead \<Rightarrow> key_ring \<Rightarrow> provider_row list \<Rightarrow> string \<Rightarrow> int \<Rightarrow> provider_name \<times> string \<times> string \<Rightarrow> bool" where
  "version_holds g ring rows org version c \<longleftrightarrow>
     (\<exists>r \<in> set rows. pf_organizationId r = org \<and> version \<le> pf_credentialVersion r
        \<and> (pf_credentialVersion r = version \<longrightarrow>
             pf_provider r = fst c \<and> pf_model r = fst (snd c) \<and> decrypt_row g ring r = Inr (snd (snd c))))"

fun check_ok :: "aead \<Rightarrow> key_ring \<Rightarrow> provider_row list \<Rightarrow> provider_check \<Rightarrow> bool" where
  "check_ok g ring rows (ChkConfigure org cid now s m) =
     version_holds g ring rows org (sm_credentialVersion s) (pm_provider m, pm_model m, pm_apiKey m)"
| "check_ok g ring rows (ChkRetry org cid rid token now r) =
     version_holds g ring rows org (sm_credentialVersion (rp_summary r))
       (sm_provider (rp_summary r), sm_model (rp_summary r), rp_apiKey r)"
| "check_ok g ring rows (ChkClaim org cid rid token now) = True"

definition row_verified ::
    "aead \<Rightarrow> key_ring \<Rightarrow> (provider_name \<times> string \<times> string) list \<Rightarrow> provider_row \<Rightarrow> bool" where
  "row_verified g ring accepted r \<longleftrightarrow> (pf_verificationStatus r = V_verified \<longrightarrow>
     (\<forall>k. decrypt_row g ring r = Inr k \<longrightarrow> (pf_provider r, pf_model r, k) \<in> set accepted))"

definition provider_inv :: "aead \<Rightarrow> key_ring \<Rightarrow> provider_world \<Rightarrow> bool" where
  "provider_inv g ring w \<longleftrightarrow>
     tbl_wf pf_organizationId (px_configurations (pw_db w))
     \<and> (\<forall>r \<in> set (px_configurations (pw_db w)). row_verified g ring (pw_accepted w) r)
     \<and> (\<forall>c \<in> set (pw_running w). check_ok g ring (px_configurations (pw_db w)) c)"

lemma decrypt_same: "same_credential r r' \<Longrightarrow> decrypt_row g ring r' = decrypt_row g ring r"
  by (auto simp: same_credential_def decrypt_row_def row_context_def)

lemma same_fields:
  "same_credential r r' \<Longrightarrow> pf_organizationId r' = pf_organizationId r \<and> pf_id r' = pf_id r
     \<and> pf_provider r' = pf_provider r \<and> pf_model r' = pf_model r
     \<and> pf_credentialVersion r' = pf_credentialVersion r"
  by (auto simp: same_credential_def)

lemma same_refl: "same_credential r r"
  unfolding same_credential_def
  by (rule exI [of _ "pf_verificationStatus r"], rule exI [of _ "pf_updatedAt r"]) simp

lemma version_holds_map:
  assumes "\<And>r. r \<in> set rows \<Longrightarrow> same_credential r (f r)" and "version_holds g ring rows org v c"
  shows "version_holds g ring (map f rows) org v c"
proof -
  from assms(2) obtain r where r: "r \<in> set rows" "pf_organizationId r = org" "v \<le> pf_credentialVersion r"
    "pf_credentialVersion r = v \<longrightarrow>
       pf_provider r = fst c \<and> pf_model r = fst (snd c) \<and> decrypt_row g ring r = Inr (snd (snd c))"
    by (auto simp: version_holds_def)
  with same_fields [OF assms(1) [OF r(1)]] decrypt_same [OF assms(1) [OF r(1)]] show ?thesis
    by (auto simp: version_holds_def)
qed

lemma check_ok_map:
  "(\<And>r. r \<in> set rows \<Longrightarrow> same_credential r (f r)) \<Longrightarrow> check_ok g ring rows c \<Longrightarrow> check_ok g ring (map f rows) c"
  by (cases c) (auto intro: version_holds_map)

text \<open>A change of the status columns keeps the invariant when what it verifies was accepted.\<close>

lemma status_change_inv:
  assumes inv: "provider_inv g ring w"
    and f: "\<And>r. r \<in> set (px_configurations (pw_db w)) \<Longrightarrow> same_credential r (f r)"
    and ok: "\<And>r. r \<in> set (px_configurations (pw_db w)) \<Longrightarrow> row_verified g ring (as @ pw_accepted w) (f r)"
    and rows: "px_configurations d' = map f (px_configurations (pw_db w))"
    and running: "set cs \<subseteq> set (pw_running w)"
  shows "provider_inv g ring (w\<lparr>pw_db := d', pw_running := cs, pw_accepted := as @ pw_accepted w\<rparr>)"
proof -
  have "map pf_organizationId (map f (px_configurations (pw_db w))) = map pf_organizationId (px_configurations (pw_db w))"
    using same_fields [OF f] by simp
  with inv f ok running show ?thesis
    unfolding provider_inv_def
    by (auto simp: rows tbl_wf_def simp del: map_map intro: check_ok_map [OF f])
qed

lemma row_verified_more: "row_verified g ring as r \<Longrightarrow> set as \<subseteq> set bs \<Longrightarrow> row_verified g ring bs r"
  by (auto simp: row_verified_def)

lemma row_verified_not: "pf_verificationStatus r \<noteq> V_verified \<Longrightarrow> row_verified g ring as r"
  by (simp add: row_verified_def)

lemma set_drop_at: "set (drop_at i xs) \<subseteq> set xs"
  by (auto simp: drop_at_def dest: in_set_takeD in_set_dropD)

text \<open>The UPDATE of a verification that sets \<open>V_invalid\<close>, or \<open>V_verified\<close> for an accepted credential.\<close>

lemma set_verification_inv:
  assumes inv: "provider_inv g ring w" and step: "set_verification org cid version v now (pw_db w) = Inr d'"
    and holds: "version_holds g ring (px_configurations (pw_db w)) org version c"
    and rows: "px_configurations d'' = px_configurations d'"
    and running: "set cs \<subseteq> set (pw_running w)"
    and acc: "v = V_verified \<Longrightarrow> c \<in> set as"
  shows "provider_inv g ring (w\<lparr>pw_db := d'', pw_running := cs, pw_accepted := as @ pw_accepted w\<rparr>)"
proof -
  let ?rows = "px_configurations (pw_db w)"
  let ?hit = "\<lambda>r. config_matches org cid r \<and> pf_credentialVersion r = version"
  let ?f = "\<lambda>r. if ?hit r then r\<lparr>pf_verificationStatus := v, pf_updatedAt := now\<rparr> else r"
  have d': "px_configurations d'' = map ?f ?rows"
    using step rows by (auto simp: set_verification_def Let_def split: if_splits)
  show ?thesis
  proof (rule status_change_inv [OF inv _ _ d' running])
    fix r assume r: "r \<in> set ?rows"
    show "same_credential r (?f r)" using same_refl by (auto simp: same_credential_def)
    show "row_verified g ring (as @ pw_accepted w) (?f r)"
    proof (cases "?hit r")
      case False
      with inv r show ?thesis by (auto simp: provider_inv_def intro: row_verified_more)
    next
      case True
      from holds obtain r0 where r0: "r0 \<in> set ?rows" "pf_organizationId r0 = org"
        "pf_credentialVersion r0 = version \<longrightarrow>
           pf_provider r0 = fst c \<and> pf_model r0 = fst (snd c) \<and> decrypt_row g ring r0 = Inr (snd (snd c))"
        by (auto simp: version_holds_def)
      have "tbl_wf pf_organizationId ?rows" using inv by (simp add: provider_inv_def)
      from tbl_find_in [OF this r0(1)] tbl_find_in [OF this r] r0(2) True
      have "r0 = r" by (simp add: config_matches_def)
      moreover have "same_credential r (?f r)" using True by (auto simp: same_credential_def)
      ultimately show ?thesis
        using True r0(3) acc decrypt_same by (auto simp: row_verified_def)
    qed
  qed
qed

section \<open>Every step keeps the invariant\<close>

lemma configure_Inr:
  assumes "configure g ring iv i d = Inr (d', s)"
  obtains version r a where "version = next_version (find_config (cfg_organizationId i) d)"
    "pf_organizationId r = cfg_organizationId i" "pf_id r = cfg_id i" "pf_provider r = cfg_provider i"
    "pf_model r = cfg_model i" "pf_credentialVersion r = version" "pf_encryptionKeyId r = kr_activeKeyId ring"
    "encryptProviderSecret g iv (cfg_apiKey i) ring (row_context r) = Inr (pf_encryptedSecret r)"
    "pf_verificationStatus r = (case cfg_verificationStatus i of None \<Rightarrow> V_verified | Some v \<Rightarrow> v)"
    "d' = d\<lparr>px_configurations := map_set pf_organizationId r (px_configurations d), px_audit := a\<rparr>"
    "s = summaryFromRow r"
proof -
  from assms obtain secret x y now where parts:
    "encryptProviderSecret g iv (cfg_apiKey i) ring \<lparr>kc_organizationId = cfg_organizationId i,
       kc_provider = cfg_provider i,
       kc_credentialVersion = next_version (find_config (cfg_organizationId i) d)\<rparr> = Inr secret"
    "(d', s) = (let r = configured_row i (next_version (find_config (cfg_organizationId i) d)) x y
        (kr_activeKeyId ring) secret now
      in (d\<lparr>px_configurations := map_set pf_organizationId r (px_configurations d),
            px_audit := px_audit d @ [provider_audit i (next_version (find_config (cfg_organizationId i) d)) now]\<rparr>,
          summaryFromRow r))"
    by (auto simp: configure_def and_then_Inr_iff Let_def)
  show thesis
    by (rule that [where version = "next_version (find_config (cfg_organizationId i) d)"
          and r = "configured_row i (next_version (find_config (cfg_organizationId i) d)) x y
            (kr_activeKeyId ring) secret now"])
      (use parts in \<open>auto simp: configured_row_def row_context_def Let_def\<close>)
qed

lemma key_of_made:
  "encryptProviderSecret g iv s ring c = Inr e \<Longrightarrow> aead_inverts g \<Longrightarrow> bytes iv \<Longrightarrow>
     key_of_envelope e = Some (kr_activeKeyId ring)"
  by (erule encrypt_parts) (auto simp: key_of_envelope_def)

lemma summary_fields [simp]:
  "sm_credentialVersion (summaryFromRow r) = pf_credentialVersion r"
  "sm_provider (summaryFromRow r) = pf_provider r" "sm_model (summaryFromRow r) = pf_model r"
  "sm_organizationId (summaryFromRow r) = pf_organizationId r" "sm_id (summaryFromRow r) = pf_id r"
  by (simp_all add: summaryFromRow_def)

lemma configure_event_inv:
  assumes inv: "provider_inv g ring w" and g: "aead_inverts g" "bytes iv"
    and step: "configure_begin g ring iv p m now (pw_db w) = Inr (d', s)"
  shows "provider_inv g ring (w\<lparr>pw_db := d', pw_running := pw_running w @
      [ChkConfigure (pc_organizationId p) (pm_configId m) now s m]\<rparr>)"
proof -
  let ?rows = "px_configurations (pw_db w)" and ?org = "pc_organizationId p"
  from step have "configure g ring iv (command_input p m now) (pw_db w) = Inr (d', s)"
    by (auto simp: configure_begin_def and_then_Inr_iff)
  then obtain r a where r: "pf_organizationId r = ?org" "pf_provider r = pm_provider m"
      "pf_model r = pm_model m" "pf_verificationStatus r = V_pending"
      "pf_credentialVersion r = next_version (find_config ?org (pw_db w))"
      "pf_encryptionKeyId r = kr_activeKeyId ring"
      "encryptProviderSecret g iv (pm_apiKey m) ring (row_context r) = Inr (pf_encryptedSecret r)"
    and d': "d' = (pw_db w)\<lparr>px_configurations := map_set pf_organizationId r ?rows, px_audit := a\<rparr>"
    and s: "s = summaryFromRow r"
    by (rule configure_Inr) (auto simp: command_input_def)
  have dec: "decrypt_row g ring r = Inr (pm_apiKey m)"
    using decrypt_made [OF r(7) g] key_of_made [OF r(7) g] by (simp add: decrypt_row_def r(6))
  have wf: "tbl_wf pf_organizationId ?rows" using inv by (simp add: provider_inv_def)
  have wf': "tbl_wf pf_organizationId (map_set pf_organizationId r ?rows)" by (rule tbl_wf_map_set [OF wf])
  have found: "tbl_find pf_organizationId k (map_set pf_organizationId r ?rows) =
      (if k = ?org then Some r else tbl_find pf_organizationId k ?rows)" for k
    using tbl_find_map_set [of pf_organizationId k r ?rows] r(1) by simp
  have member: "x \<in> set (map_set pf_organizationId r ?rows) \<longleftrightarrow>
      x = r \<or> (x \<in> set ?rows \<and> pf_organizationId x \<noteq> ?org)" for x
  proof -
    have "x \<in> set (map_set pf_organizationId r ?rows) \<longleftrightarrow>
        tbl_find pf_organizationId (pf_organizationId x) (map_set pf_organizationId r ?rows) = Some x"
      using tbl_find_in [OF wf'] tbl_find_SomeD by metis
    also have "\<dots> \<longleftrightarrow> x = r \<or> (x \<in> set ?rows \<and> pf_organizationId x \<noteq> ?org)"
      using found tbl_find_in [OF wf, of x] tbl_find_SomeD [of pf_organizationId _ ?rows x] r(1) by auto
    finally show ?thesis .
  qed
  have kept: "version_holds g ring (map_set pf_organizationId r ?rows) org v c"
    if holds: "version_holds g ring ?rows org v c" for org v c
  proof (cases "org = ?org")
    case False
    with holds show ?thesis by (auto simp: version_holds_def member)
  next
    case True
    with holds obtain x where x: "x \<in> set ?rows" "pf_organizationId x = ?org" "v \<le> pf_credentialVersion x"
      by (auto simp: version_holds_def)
    then have "find_config ?org (pw_db w) = Some x"
      using tbl_find_in [OF wf x(1)] by (simp add: find_config_def)
    with x(3) r(5) have "v < pf_credentialVersion r" by (simp add: next_version_def)
    with True r(1) show ?thesis by (auto simp: version_holds_def member)
  qed
  have "check_ok g ring (map_set pf_organizationId r ?rows) c" if "c \<in> set (pw_running w)" for c
  proof -
    have "check_ok g ring ?rows c" using inv that by (simp add: provider_inv_def)
    then show ?thesis using kept by (cases c) auto
  qed
  moreover have "check_ok g ring (map_set pf_organizationId r ?rows) (ChkConfigure ?org (pm_configId m) now s m)"
    using r dec by (auto simp: version_holds_def member s)
  moreover have "row_verified g ring (pw_accepted w) x" if "x \<in> set (map_set pf_organizationId r ?rows)" for x
    using that inv r(4) by (auto simp: member provider_inv_def row_verified_not)
  ultimately show ?thesis using wf' by (auto simp: provider_inv_def d')
qed

lemma retry_event_inv:
  assumes inv: "provider_inv g ring w" and step: "retry_begin token p cid rid now (pw_db w) = Inr (d', RetryClaimed)"
  shows "provider_inv g ring (w\<lparr>pw_db := d', pw_running := pw_running w @
      [ChkClaim (pc_organizationId p) cid rid token now]\<rparr>)"
proof -
  let ?f = "\<lambda>t x. if config_matches (pc_organizationId p) cid x
    then x\<lparr>pf_verificationStatus := V_pending, pf_updatedAt := t\<rparr> else x"
  have begun: "beginVerificationRetry token (pc_organizationId p) cid rid now (pw_db w) = Inr (d', RetryClaimed)"
    using step by (auto simp: retry_begin_def and_then_Inr_iff)
  then obtain t where "date_parse now = Some t"
    by (auto simp: beginVerificationRetry_def split: option.splits)
  with begun have rows: "px_configurations d' = map (?f t) (px_configurations (pw_db w))"
    by (auto simp: beginVerificationRetry_def Let_def split: option.splits if_splits)
  have "provider_inv g ring (w\<lparr>pw_db := d', pw_running := pw_running w, pw_accepted := [] @ pw_accepted w\<rparr>)"
  proof (rule status_change_inv [OF inv _ _ rows])
    fix r assume r: "r \<in> set (px_configurations (pw_db w))"
    show "same_credential r (?f t r)" using same_refl by (auto simp: same_credential_def)
    show "row_verified g ring ([] @ pw_accepted w) (?f t r)"
      using inv r by (auto simp: provider_inv_def row_verified_not)
  qed simp
  then show ?thesis by (auto simp: provider_inv_def)
qed

lemma read_event_inv:
  assumes inv: "provider_inv g ring w" and i: "i < length (pw_running w)"
    and step: "retry_record g ring org cid (pw_db w) = Inr r"
  shows "provider_inv g ring (w\<lparr>pw_running := (pw_running w)[i := ChkRetry org cid rid token now r]\<rparr>)"
proof -
  from step obtain x k where x: "find_by_id org cid (pw_db w) = Some x" "decrypt_row g ring x = Inr k"
    and r: "rp_summary r = summaryFromRow x" "rp_apiKey r = k"
    by (auto simp: retry_record_def getForVerification_def with_secret_def and_then_Inr_iff
        split: option.splits if_splits)
  from find_SomeD [OF x(1) [unfolded find_by_id_def]] x(2) r
  have "check_ok g ring (px_configurations (pw_db w)) (ChkRetry org cid rid token now r)"
    by (auto simp: version_holds_def config_matches_def)
  with inv show ?thesis
    using set_update_subset_insert [of "pw_running w" i] by (fastforce simp: provider_inv_def)
qed

lemma drop_event_inv:
  assumes "provider_inv g ring w"
  shows "provider_inv g ring (w\<lparr>pw_running := drop_at i (pw_running w)\<rparr>)"
  using assms set_drop_at [of i "pw_running w"] by (auto simp: provider_inv_def)

lemma note_db [simp]: "pw_db (note_accepted answer c w) = pw_db w"
  by (simp add: note_accepted_def)

lemma note_inv:
  assumes "provider_inv g ring (w\<lparr>pw_accepted := (if answer = None then [c] else []) @ pw_accepted w\<rparr>)"
  shows "provider_inv g ring (note_accepted answer c w)"
  using assms by (cases answer) (auto simp: note_accepted_def)

lemma more_accepted:
  "provider_inv g ring w \<Longrightarrow> provider_inv g ring (w\<lparr>pw_accepted := as @ pw_accepted w\<rparr>)"
  by (auto simp: provider_inv_def intro: row_verified_more)

lemma verified_event_inv:
  assumes inv: "provider_inv g ring w" and i: "i < length (pw_running w)"
  shows "provider_inv g ring (verified_step i answer (pw_running w ! i) w)"
proof (cases "pw_running w ! i")
  case (ChkClaim org cid rid token now)
  with inv show ?thesis by (simp add: verified_step_def)
next
  case (ChkConfigure org cid now s m)
  let ?c = "(pm_provider m, pm_model m, pm_apiKey m)" and ?cs = "drop_at i (pw_running w)"
  let ?as = "if answer = None then [?c] else []"
  have "check_ok g ring (px_configurations (pw_db w)) (pw_running w ! i)"
    using inv i by (simp add: provider_inv_def)
  then have holds: "version_holds g ring (px_configurations (pw_db w)) org (sm_credentialVersion s) ?c"
    by (simp add: ChkConfigure)
  let ?d = "fst (configure_end org cid now s answer (pw_db w))"
  have "provider_inv g ring (w\<lparr>pw_db := ?d, pw_running := ?cs, pw_accepted := ?as @ pw_accepted w\<rparr>)"
  proof -
    have mark: "provider_inv g ring (w\<lparr>pw_db := d', pw_running := ?cs, pw_accepted := ?as @ pw_accepted w\<rparr>)"
      if marked: "markVerificationStatus org cid v (sm_credentialVersion s) now (pw_db w) = Inr d'"
        and accepted: "v = V_verified \<Longrightarrow> answer = None" for v d'
    proof -
      obtain t where set: "set_verification org cid (sm_credentialVersion s) v t (pw_db w) = Inr d'"
        using marked by (auto simp: markVerificationStatus_def and_then_Inr_iff)
      show ?thesis
        by (rule set_verification_inv [OF inv set holds refl set_drop_at]) (simp add: accepted)
    qed
    have "?d = pw_db w \<or> (\<exists>v. markVerificationStatus org cid v (sm_credentialVersion s) now (pw_db w) = Inr ?d
        \<and> (v = V_verified \<longrightarrow> answer = None))"
      by (auto simp: configure_end_def Let_def split: option.splits sum.splits)
    then show ?thesis
    proof (elim disjE exE conjE)
      assume "?d = pw_db w"
      then show ?thesis using more_accepted [OF drop_event_inv [OF inv], of ?as i] by simp
    next
      fix v assume "markVerificationStatus org cid v (sm_credentialVersion s) now (pw_db w) = Inr ?d"
        "v = V_verified \<longrightarrow> answer = None"
      then show ?thesis by (intro mark) auto
    qed
  qed
  then show ?thesis
    by (simp add: verified_step_def ChkConfigure) (intro note_inv, simp)
next
  case (ChkRetry org cid rid token now r)
  let ?c = "(sm_provider (rp_summary r), sm_model (rp_summary r), rp_apiKey r)"
  let ?cs = "drop_at i (pw_running w)" and ?as = "if answer = None then [?c] else []"
  have "check_ok g ring (px_configurations (pw_db w)) (pw_running w ! i)"
    using inv i by (simp add: provider_inv_def)
  then have holds: "version_holds g ring (px_configurations (pw_db w)) org
      (sm_credentialVersion (rp_summary r)) ?c" by (simp add: ChkRetry)
  define d where "d = (case retry_end org cid rid token now r answer (pw_db w) of
      Inl e \<Rightarrow> pw_db w | Inr (d', x) \<Rightarrow> d')"
  have "provider_inv g ring (w\<lparr>pw_db := d, pw_running := ?cs, pw_accepted := ?as @ pw_accepted w\<rparr>)"
  proof (cases "retry_end org cid rid token now r answer (pw_db w)")
    case (Inl e)
    then show ?thesis
      using more_accepted [OF drop_event_inv [OF inv], of ?as i] by (simp add: d_def)
  next
    case (Inr y)
    then obtain d1 t where set: "set_verification org cid (sm_credentialVersion (rp_summary r))
          (case answer of None \<Rightarrow> V_verified | Some e \<Rightarrow> V_invalid) t (pw_db w) = Inr d1"
      and rows: "px_configurations d = px_configurations d1"
      by (auto simp: retry_end_def finishVerificationRetry_def and_then_Inr_iff d_def Let_def
          split: option.splits if_splits)
    show ?thesis
      by (rule set_verification_inv [OF inv set holds rows set_drop_at]) (simp split: option.splits)
  qed
  then show ?thesis
    by (simp add: verified_step_def ChkRetry d_def) (intro note_inv, simp)
qed

lemma provider_step_inv:
  assumes "provider_inv g ring w" and "event_ok e" and "aead_inverts g"
  shows "provider_inv g ring (provider_step g ring e w)"
proof (cases e)
  case (EvConfigure iv p m now)
  with assms show ?thesis
    by (auto split: sum.splits intro: configure_event_inv)
next
  case (EvRetry token p cid rid now)
  with assms(1) show ?thesis
    by (auto split: sum.splits retry_claim.splits intro: retry_event_inv)
next
  case (EvRead i)
  with assms(1) show ?thesis
    by (auto split: provider_check.splits sum.splits intro: drop_event_inv read_event_inv)
next
  case (EvVerified i answer)
  with assms(1) show ?thesis by (auto intro: verified_event_inv)
next
  case (EvLost i)
  with assms(1) show ?thesis by (simp add: drop_event_inv)
qed

lemma provider_run_inv:
  assumes "aead_inverts g" and "list_all event_ok es" and "provider_inv g ring w"
  shows "provider_inv g ring (provider_run g ring es w)"
  using assms(2,3) provider_step_inv [OF _ _ assms(1)]
  by (induction es arbitrary: w) (auto simp: provider_run_def)

lemma provider_start_inv: "provider_inv g ring (provider_start orgs)"
  by (simp add: provider_inv_def provider_start_def tbl_wf_def)

text \<open>
  C14: however configurations and verification retries interleave, fail or are lost, and whatever the
  verifier answers, a provider credential that resolves for an organization is one the verifier accepted:
  this API key, for this provider and model.
\<close>

theorem resolved_credential_accepted:
  assumes "aead_inverts g" and "list_all event_ok es"
    and "resolve_provider g ring org (pw_db (provider_run g ring es (provider_start orgs))) = Inr r"
  shows "(sm_provider (rp_summary r), sm_model (rp_summary r), rp_apiKey r)
    \<in> set (pw_accepted (provider_run g ring es (provider_start orgs)))"
proof -
  let ?w = "provider_run g ring es (provider_start orgs)"
  have inv: "provider_inv g ring ?w" by (rule provider_run_inv [OF assms(1,2) provider_start_inv])
  from assms(3) obtain x where x: "find (\<lambda>r. pf_organizationId r = org \<and> pf_status r = Config_active
      \<and> pf_verificationStatus r = V_verified) (px_configurations (pw_db ?w)) = Some x"
    and r: "with_secret g ring x = Inr r"
    by (auto simp: resolve_provider_def split: option.splits if_splits)
  from find_SomeD [OF x] have "x \<in> set (px_configurations (pw_db ?w))" "pf_verificationStatus x = V_verified"
    by auto
  with inv r show ?thesis by (auto simp: provider_inv_def row_verified_def with_secret_def and_then_Inr_iff)
qed

text \<open>One configuration and the answer of the verifier, at the start of the year 1.\<close>

definition sample_provider_admin :: principal where
  "sample_provider_admin =
     \<lparr>pc_type = Service_credential, pc_id = ''s'', pc_organizationId = ''o'', pc_credentialId = ''k1'',
      pc_capabilities = [Known Providers_write], pc_role = Some Role_admin, pc_expiresAt = None,
      pc_sourceCredentialId = None, pc_sourceCredentialType = None\<rparr>"

definition sample_command :: "string \<Rightarrow> configure_command" where
  "sample_command key =
     \<lparr>pm_configId = ''c'', pm_provider = OpenRouter, pm_model = ''m'', pm_apiKey = key,
      pm_inputUsdPerMillion = ''3'', pm_outputUsdPerMillion = ''15'', pm_requestId = ''q''\<rparr>"

definition sample_events :: "provider_event list" where
  "sample_events =
     [EvConfigure (replicate 12 1) sample_provider_admin (sample_command ''first'') (Instant (-62135596800000)),
      EvVerified 0 None]"

lemma resolved_credential_accepted_witness:
  "\<exists>r. resolve_provider plain_aead sample_ring ''o''
       (pw_db (provider_run plain_aead sample_ring sample_events (provider_start [''o'']))) = Inr r
     \<and> (OpenRouter, ''m'', ''first'') \<in> set (pw_accepted
         (provider_run plain_aead sample_ring sample_events (provider_start [''o''])))"
proof -
  have "(case resolve_provider plain_aead sample_ring ''o''
      (pw_db (provider_run plain_aead sample_ring sample_events (provider_start [''o'']))) of
        Inl e \<Rightarrow> None | Inr r \<Rightarrow> Some (sm_provider (rp_summary r), sm_model (rp_summary r), rp_apiKey r))
    = Some (OpenRouter, ''m'', ''first'')" by code_simp
  then obtain r where r: "resolve_provider plain_aead sample_ring ''o''
      (pw_db (provider_run plain_aead sample_ring sample_events (provider_start [''o'']))) = Inr r"
    "(sm_provider (rp_summary r), sm_model (rp_summary r), rp_apiKey r) = (OpenRouter, ''m'', ''first'')"
    by (auto split: sum.splits)
  have "list_all event_ok sample_events" by code_simp
  from resolved_credential_accepted [OF plain_inverts this r(1)] r show ?thesis by auto
qed

section \<open>Prices that are stored but cannot be charged\<close>

text \<open>
  The store accepts up to twelve decimal places, the pricing of a call reads at most six
  (\<open>decimalToScaled\<close> in \<open>src/src/core/pricing.ts\<close>): a configuration may be verified and yet fail every call.
\<close>

lemma stored_price_not_chargeable:
  "price_ok ''0.0000001''
   \<and> numeric_column ''0.0000001'' = Inr 100000 \<and> normalizeDecimal (numeric_text 100000) = ''0.0000001''
   \<and> decimalToScaled ''0.0000001'' = Inl INVALID_PRICE"
proof -
  have "price_ok ''0.0000001''" "numeric_column ''0.0000001'' = Inr 100000"
    "decimalToScaled ''0.0000001'' = Inl INVALID_PRICE" by code_simp+
  moreover have shown_text: "numeric_text 100000 = ''0.000000100000''"
    by (simp add: numeric_text_def numeric_unit_def show_int_def show_nat.simps pad_start_def zeros_def
        digit_char_def) code_simp
  moreover have "normalizeDecimal ''0.000000100000'' = ''0.0000001''" by code_simp
  ultimately show ?thesis by (simp only: shown_text)
qed

end
