(* ===== verification/JsonParse.thy ===== *)
theory JsonParse
  imports Json "HOL-Library.AList"
begin

text \<open>
  \<open>JSON.parse\<close>, as far as the program reads back what it wrote itself: the sealed results of
  \<open>src/src/product/secretDelivery.ts\<close>. Strings hold the characters of the model, codes below 256, and numbers
  are integers; a text with another code unit, a fraction or an exponent is outside the model and is
  read as an error, and so is a text that is not JSON. The main lemma reads back every value that
  \<open>JSON.stringify\<close> wrote.
\<close>

section \<open>The parser\<close>

definition json_space :: "char \<Rightarrow> bool" where
  "json_space c \<longleftrightarrow> c \<in> {CHR 0x09, CHR 0x0A, CHR 0x0D, CHR 0x20}"

definition skip_space :: "string \<Rightarrow> string" where
  "skip_space s = dropWhile json_space s"

definition hex_value :: "char \<Rightarrow> nat option" where
  "hex_value c =
     (let n = of_char c :: nat in
      if 48 \<le> n \<and> n \<le> 57 then Some (n - 48) else if 97 \<le> n \<and> n \<le> 102 then Some (n - 87)
      else if 65 \<le> n \<and> n \<le> 70 then Some (n - 55) else None)"

fun hex_code :: "char \<Rightarrow> char \<Rightarrow> char \<Rightarrow> char \<Rightarrow> char option" where
  "hex_code a b c d =
     (case (hex_value a, hex_value b, hex_value c, hex_value d) of
        (Some 0, Some 0, Some m, Some n) \<Rightarrow> Some (char_of (16 * m + n))
      | _ \<Rightarrow> None)"

definition short_escape :: "char \<Rightarrow> char option" where
  "short_escape e =
     (if e \<in> {CHR 0x22, CHR 0x5C, CHR ''/''} then Some e
      else if e = CHR ''b'' then Some (char_of (8 :: nat)) else if e = CHR ''t'' then Some (char_of (9 :: nat))
      else if e = CHR ''n'' then Some (char_of (10 :: nat)) else if e = CHR ''f'' then Some (char_of (12 :: nat))
      else if e = CHR ''r'' then Some (char_of (13 :: nat)) else None)"

text \<open>One escape sequence after its backslash: the character it stands for and the rest.\<close>

fun read_escape :: "string \<Rightarrow> (char \<times> string) option" where
  "read_escape [] = None"
| "read_escape (e # r) =
     (if e = CHR ''u''
      then (case r of a # b # c # d # r' \<Rightarrow> map_option (\<lambda>x. (x, r')) (hex_code a b c d) | _ \<Rightarrow> None)
      else map_option (\<lambda>x. (x, r)) (short_escape e))"

lemma read_escape_shorter: "read_escape s = Some (x, r) \<Longrightarrow> length r < length s"
  by (cases s) (auto split: if_splits list.splits)

text \<open>The characters of a string up to its closing quotation mark, and the rest.\<close>

function read_string :: "string \<Rightarrow> (string \<times> string) option" where
  "read_string [] = None"
| "read_string (c # s) =
     (if c = CHR 0x22 then Some ([], s)
      else if c = CHR 0x5C
      then (case read_escape s of
              None \<Rightarrow> None
            | Some (x, r) \<Rightarrow> map_option (\<lambda>(t, r'). (x # t, r')) (read_string r))
      else if (of_char c :: nat) < 32 then None
      else map_option (\<lambda>(t, r'). (c # t, r')) (read_string s))"
  by pat_completeness auto
termination
  by (relation "measure length") (auto dest: read_escape_shorter)

text \<open>A number: no leading zero, and no fraction or exponent after it.\<close>

definition read_digits :: "string \<Rightarrow> (int \<times> string) option" where
  "read_digits s =
     (let ds = takeWhile is_digit s; r = dropWhile is_digit s in
      if ds = [] \<or> hd ds = CHR ''0'' \<and> length ds > 1
         \<or> (r \<noteq> [] \<and> hd r \<in> {CHR ''.'', CHR ''e'', CHR ''E''}) then None
      else Some (digits_val ds, r))"

definition read_number :: "string \<Rightarrow> (int \<times> string) option" where
  "read_number s =
     (case s of
        [] \<Rightarrow> None
      | c # r \<Rightarrow> if c = CHR ''-'' then map_option (\<lambda>(n, t). (- n, t)) (read_digits r) else read_digits s)"

definition read_word :: "string \<Rightarrow> json \<Rightarrow> string \<Rightarrow> (json \<times> string) option" where
  "read_word w j s = (if take (length w) s = w then Some (j, drop (length w) s) else None)"

text \<open>
  The recursion is on a bound for the number of calls; \<open>json_parse\<close> starts it with twice the length of
  the text, and every second call reads a character. A repeated key takes the place of the first and
  the value of the last.
\<close>

fun read_value :: "nat \<Rightarrow> string \<Rightarrow> (json \<times> string) option"
  and read_items :: "nat \<Rightarrow> string \<Rightarrow> (json list \<times> string) option"
  and read_members :: "nat \<Rightarrow> (string \<times> json) list \<Rightarrow> string \<Rightarrow> (json \<times> string) option" where
  "read_value 0 s = None"
| "read_value (Suc n) s =
     (case s of
        [] \<Rightarrow> None
      | c # r \<Rightarrow>
          if c = CHR 0x22 then map_option (\<lambda>(t, r'). (JStr t, r')) (read_string r)
          else if c = CHR ''[''
          then (let r = skip_space r in
                if r \<noteq> [] \<and> hd r = CHR '']'' then Some (JArr [], tl r)
                else map_option (\<lambda>(js, r'). (JArr js, r')) (read_items n r))
          else if c = CHR ''{''
          then (let r = skip_space r in
                if r \<noteq> [] \<and> hd r = CHR ''}'' then Some (JObj [], tl r) else read_members n [] r)
          else if c = CHR ''n'' then read_word ''null'' JNull s
          else if c = CHR ''t'' then read_word ''true'' (JBool True) s
          else if c = CHR ''f'' then read_word ''false'' (JBool False) s
          else map_option (\<lambda>(i, r'). (JNum i, r')) (read_number s))"
| "read_items 0 s = None"
| "read_items (Suc n) s =
     (case read_value n s of
        None \<Rightarrow> None
      | Some (j, r) \<Rightarrow>
          (case skip_space r of
             [] \<Rightarrow> None
           | c # r' \<Rightarrow>
               if c = CHR '','' then map_option (\<lambda>(js, t). (j # js, t)) (read_items n (skip_space r'))
               else if c = CHR '']'' then Some ([j], r') else None))"
| "read_members 0 ps s = None"
| "read_members (Suc n) ps s =
     (if s = [] \<or> hd s \<noteq> CHR 0x22 then None
      else case read_string (tl s) of
        None \<Rightarrow> None
      | Some (k, r) \<Rightarrow>
          (case skip_space r of
             [] \<Rightarrow> None
           | c # r' \<Rightarrow>
               if c \<noteq> CHR '':'' then None
               else (case read_value n (skip_space r') of
                       None \<Rightarrow> None
                     | Some (j, t) \<Rightarrow>
                         (case skip_space t of
                            [] \<Rightarrow> None
                          | d # t' \<Rightarrow>
                              if d = CHR '','' then read_members n (AList.update k j ps) (skip_space t')
                              else if d = CHR ''}'' then Some (JObj (AList.update k j ps), t')
                              else None))))"

definition json_parse :: "string \<Rightarrow> json option" where
  "json_parse s =
     (case read_value (2 * length s) (skip_space s) of
        None \<Rightarrow> None
      | Some (j, r) \<Rightarrow> if skip_space r = [] then Some j else None)"

section \<open>Reading back what was written\<close>

text \<open>The values a program can build: the keys of an object differ.\<close>

fun json_wf :: "json \<Rightarrow> bool" where
  "json_wf (JArr js) = list_all json_wf js"
| "json_wf (JObj ps) = (distinct (map fst ps) \<and> list_all (\<lambda>(k, j). json_wf j) ps)"
| "json_wf _ = True"

text \<open>How many nested calls a value needs.\<close>

fun json_depth :: "json \<Rightarrow> nat" where
  "json_depth (JArr js) = Suc (sum_list (map (\<lambda>j. Suc (json_depth j)) js))"
| "json_depth (JObj ps) = Suc (sum_list (map (\<lambda>(k, j). Suc (json_depth j)) ps))"
| "json_depth _ = 1"

lemma skip_space_head: "\<not> json_space c \<Longrightarrow> skip_space (c # s) = c # s"
  by (simp add: skip_space_def)

lemma skip_space_Nil [simp]: "skip_space [] = []"
  by (simp add: skip_space_def)

lemma space_kind: "json_space c \<Longrightarrow> char_kind c = 6"
  unfolding json_space_def by (elim insertE emptyE) (simp_all add: char_kind_def is_digit_def)

lemma stringify_head:
  obtains c t where "stringify j = c # t" "char_kind c = value_kind j" "\<not> json_space c"
proof -
  obtain c t where c: "stringify j = c # t" "char_kind c = value_kind j" using stringify_hd [of j] by blast
  moreover have "value_kind j < 6" by (cases j) auto
  ultimately have "\<not> json_space c" using space_kind [of c] by auto
  with c show thesis by (rule that)
qed

lemma skip_space_stringify: "skip_space (stringify j @ r) = stringify j @ r"
  by (rule stringify_head [of j]) (simp add: skip_space_head)

lemma skip_space_punct: "c \<in> {CHR 0x22, CHR '','', CHR '':'', CHR '']'', CHR ''}''} \<Longrightarrow> skip_space (c # s) = c # s"
  by (rule skip_space_head) (auto simp: json_space_def)

lemma hex_value_digit: "m < 16 \<Longrightarrow> hex_value (hex_digit m) = Some m"
  by (auto simp: hex_value_def hex_digit_def)

lemma read_string_escaped:
  "read_string (escape_char c @ t) = map_option (\<lambda>(u, r). (c # u, r)) (read_string t)"
proof (cases rule: escape_char_cases [of c])
  case plain
  moreover from plain have "\<not> (of_char c :: nat) < 32" by (auto simp: escape_char_def Let_def split: if_splits)
  ultimately show ?thesis by simp
next
  case (short x)
  have code: "(of_char c :: nat) = k \<Longrightarrow> c = char_of k" for k by (metis char_of_char)
  have "char_of (34 :: nat) = CHR 0x22" "char_of (92 :: nat) = CHR 0x5C"
    by (simp_all only: of_char_eq [symmetric]) simp_all
  then have "short_escape x = Some c \<and> x \<noteq> CHR ''u''"
    using short(2) by (elim insertE emptyE) (auto simp: short_escape_def dest!: code)
  then show ?thesis by (simp add: short(1) case_prod_unfold)
next
  case hex
  let ?n = "of_char c :: nat"
  have "hex_code CHR ''0'' CHR ''0'' (hex_digit (?n div 16)) (hex_digit (?n mod 16)) = Some c"
    using hex(2) by (simp add: hex_value_digit) (simp add: hex_value_def)
  then show ?thesis by (simp add: hex(1))
qed

lemma read_string_quoted: "read_string (concat (map escape_char s) @ CHR 0x22 # r) = Some (s, r)"
  by (induction s) (simp_all add: read_string_escaped)

lemma show_nat_zero: "hd (show_nat n) = CHR ''0'' \<Longrightarrow> n = 0"
proof (induction n rule: show_nat.induct)
  case (1 n)
  show ?case
  proof (cases "n < 10")
    case True
    with 1(2) have "digit_char n = CHR ''0''" by (subst (asm) show_nat.simps) simp
    from arg_cong [OF this, of "of_char :: char \<Rightarrow> nat"] True show ?thesis
      by (simp add: digit_char_def)
  next
    case False
    with 1(2) have "hd (show_nat (n div 10)) = CHR ''0''"
      by (subst (asm) show_nat.simps) simp
    with 1(1) False have "n div 10 = 0" by blast
    with False show ?thesis by simp
  qed
qed

lemma read_digits_show:
  assumes "value_end r"
  shows "read_digits (show_nat n @ r) = Some (int n, r)"
proof -
  have digits: "takeWhile is_digit (show_nat n @ r) = show_nat n" "dropWhile is_digit (show_nat n @ r) = r"
    using show_nat_digits [of n] value_end_no_digit [OF assms]
    by (simp_all add: takeWhile_append dropWhile_append list_all_iff) (cases r; auto split: if_splits)
  have "\<not> (hd (show_nat n) = CHR ''0'' \<and> length (show_nat n) > 1)"
    using show_nat_zero [of n] by (auto simp: show_nat.simps [of 0])
  then show ?thesis using assms unfolding read_digits_def digits
    by (cases r) (auto simp: digits_val_show_nat)
qed

lemma read_number_show:
  assumes "value_end r"
  shows "read_number (show_int i @ r) = Some (i, r)"
proof -
  obtain c t where c: "show_nat (nat i) = c # t" "is_digit c" using show_nat_Cons [of "nat i"] by blast
  then have "c \<noteq> CHR ''-''" by (auto simp: is_digit_def)
  with c read_digits_show [OF assms, of "nat i"] read_digits_show [OF assms, of "nat (- i)"]
  show ?thesis by (auto simp: show_int_def read_number_def)
qed

lemma AList_update_new: "k \<notin> fst ` set ps \<Longrightarrow> AList.update k v ps = ps @ [(k, v)]"
  by (induction ps) auto

lemma read_items_written:
  assumes "\<And>j n r. j \<in> set js \<Longrightarrow> json_depth j \<le> n \<Longrightarrow> value_end r \<Longrightarrow>
      read_value n (stringify j @ r) = Some (j, r)"
    and "js \<noteq> []" and "sum_list (map (\<lambda>j. Suc (json_depth j)) js) \<le> n"
  shows "read_items n (comma_sep (map stringify js) @ CHR '']'' # r) = Some (js, r)"
  using assms
proof (induction js arbitrary: n)
  case Nil
  then show ?case by simp
next
  case (Cons j js)
  then obtain m where n: "n = Suc m" by (cases n) auto
  have item: "read_value m (stringify j @ t) = Some (j, t)" if "value_end t" for t
    using Cons.prems(1,3) that by (simp add: n)
  show ?case
  proof (cases js)
    case Nil
    then show ?thesis by (simp add: n item skip_space_punct)
  next
    case (Cons i rest)
    have "read_items m (comma_sep (map stringify js) @ CHR '']'' # r) = Some (js, r)"
      using Cons.prems(1,3) by (intro Cons.IH) (auto simp: n \<open>js = i # rest\<close>)
    moreover have "skip_space (comma_sep (map stringify js) @ CHR '']'' # r) = comma_sep (map stringify js) @ CHR '']'' # r"
      using skip_space_stringify [of i "concat (map (\<lambda>y. CHR '','' # stringify y) rest) @ CHR '']'' # r"]
      by (simp add: \<open>js = i # rest\<close> comma_sep_Cons del: list.map comma_sep.simps)
    ultimately show ?thesis by (simp add: n item skip_space_punct \<open>js = i # rest\<close>)
  qed
qed

abbreviation write_member :: "string \<times> json \<Rightarrow> string" where
  "write_member \<equiv> \<lambda>(k, j). quote_string k @ '':'' @ stringify j"

lemma read_members_written:
  assumes "\<And>k j n r. (k, j) \<in> set ps \<Longrightarrow> json_depth j \<le> n \<Longrightarrow> value_end r \<Longrightarrow>
      read_value n (stringify j @ r) = Some (j, r)"
    and "ps \<noteq> []" and "sum_list (map (\<lambda>(k, j). Suc (json_depth j)) ps) \<le> n"
    and "distinct (map fst qs @ map fst ps)"
  shows "read_members n qs (comma_sep (map write_member ps) @ CHR ''}'' # r) = Some (JObj (qs @ ps), r)"
  using assms
proof (induction ps arbitrary: n qs)
  case Nil
  then show ?case by simp
next
  case (Cons p ps)
  obtain k j where p: "p = (k, j)" by (cases p)
  from Cons.prems(3) obtain m where n: "n = Suc m" by (cases n) (auto simp: p)
  have item: "read_value m (stringify j @ t) = Some (j, t)" if "value_end t" for t
    using Cons.prems(3) that by (intro Cons.prems(1) [of k]) (simp_all add: n p)
  have new: "AList.update k j qs = qs @ [(k, j)]"
    using Cons.prems(4) by (intro AList_update_new) (auto simp: p)
  show ?case
  proof (cases ps)
    case Nil
    then show ?thesis
      by (simp add: n p quote_string_def read_string_quoted skip_space_punct skip_space_stringify item new)
  next
    case (Cons q ps')
    have "read_members m (qs @ [(k, j)]) (comma_sep (map write_member ps) @ CHR ''}'' # r) = Some (JObj ((qs @ [(k, j)]) @ ps), r)"
      using Cons.prems(1,3,4) by (intro Cons.IH) (auto simp: n p \<open>ps = q # ps'\<close>)
    moreover have "skip_space (comma_sep (map write_member ps) @ CHR ''}'' # r) = comma_sep (map write_member ps) @ CHR ''}'' # r"
      by (cases q; cases ps') (simp_all add: \<open>ps = q # ps'\<close> quote_string_def skip_space_punct)
    ultimately show ?thesis
      by (simp add: n p quote_string_def read_string_quoted skip_space_punct skip_space_stringify item new
          \<open>ps = q # ps'\<close>)
  qed
qed

lemma read_value_written:
  "json_wf j \<Longrightarrow> json_depth j \<le> n \<Longrightarrow> value_end r \<Longrightarrow> read_value n (stringify j @ r) = Some (j, r)"
proof (induction j arbitrary: n r)
  case JNull
  then obtain m where "n = Suc m" by (cases n) auto
  then show ?case by (simp add: read_word_def)
next
  case (JBool b)
  then obtain m where "n = Suc m" by (cases n) auto
  then show ?case by (simp add: read_word_def)
next
  case (JNum i)
  then obtain m where n: "n = Suc m" by (cases n) auto
  obtain c t where c: "stringify (JNum i) = c # t" "char_kind c = 2"
    using stringify_hd [of "JNum i"] by auto
  then have "c \<notin> {CHR 0x22, CHR ''['', CHR ''{'', CHR ''n'', CHR ''t'', CHR ''f''}"
    by (auto simp: char_kind_def)
  moreover have "read_number (c # t @ r) = Some (i, r)"
    using read_number_show [OF JNum.prems(3), of i] c(1) by simp
  ultimately show ?case using c(1) by (simp add: n)
next
  case (JStr s)
  then obtain m where "n = Suc m" by (cases n) auto
  then show ?case by (simp add: quote_string_def read_string_quoted)
next
  case (JArr js)
  then obtain m where n: "n = Suc m" by (cases n) auto
  show ?case
  proof (cases js)
    case Nil
    then show ?thesis by (simp add: n skip_space_punct)
  next
    case (Cons i rest)
    have items: "read_items m (comma_sep (map stringify js) @ CHR '']'' # r) = Some (js, r)"
      using JArr.prems by (intro read_items_written JArr.IH) (auto simp: n list_all_iff Cons)
    obtain c t where c: "comma_sep (map stringify js) = c # t" "\<not> json_space c" "c \<noteq> CHR '']''"
    proof -
      obtain c t where c: "stringify i = c # t" "char_kind c = value_kind i" "\<not> json_space c"
        by (rule stringify_head [of i])
      have "c \<noteq> CHR '']''" using stringify_not_close [of "CHR '']''" i "[]" t] c(1) by auto
      with c show thesis using that [of c] by (simp add: Cons comma_sep_Cons del: list.map comma_sep.simps)
    qed
    then show ?thesis using items by (simp add: n skip_space_head)
  qed
next
  case (JObj ps)
  then obtain m where n: "n = Suc m" by (cases n) auto
  show ?case
  proof (cases ps)
    case Nil
    then show ?thesis by (simp add: n skip_space_punct)
  next
    case (Cons p ps')
    have "read_members m [] (comma_sep (map write_member ps) @ CHR ''}'' # r) = Some (JObj ([] @ ps), r)"
    proof (rule read_members_written)
      fix k j l u assume kj: "(k, j) \<in> set ps" and "json_depth j \<le> l" "value_end u"
      then show "read_value l (stringify j @ u) = Some (j, u)"
        using JObj.prems(1) by (intro JObj.IH [OF kj]) (auto simp: list_all_iff)
    qed (use JObj.prems in \<open>auto simp: n Cons\<close>)
    moreover obtain t where "comma_sep (map write_member ps) = CHR 0x22 # t"
      by (cases p; cases ps') (simp_all add: Cons quote_string_def)
    ultimately show ?thesis by (simp add: n skip_space_punct)
  qed
qed

lemma comma_sep_longer:
  "(\<And>x. x \<in> set xs \<Longrightarrow> Suc (g x) \<le> 2 * length (f x)) \<Longrightarrow>
     sum_list (map (\<lambda>x. Suc (g x)) xs) \<le> 2 * length (comma_sep (map f xs))"
proof (induction xs rule: induct_list012)
  case (3 x y zs)
  have "Suc (g x) \<le> 2 * length (f x)" using 3(3) by simp
  moreover have "sum_list (map (\<lambda>x. Suc (g x)) (y # zs)) \<le> 2 * length (comma_sep (map f (y # zs)))"
    using 3(3) by (intro 3(2)) simp
  ultimately show ?case by simp
qed auto

lemma json_depth_length: "Suc (json_depth j) \<le> 2 * length (stringify j)"
proof (induction j)
  case (JArr js)
  have "sum_list (map (\<lambda>j. Suc (json_depth j)) js) \<le> 2 * length (comma_sep (map stringify js))"
    by (rule comma_sep_longer) (rule JArr.IH)
  then show ?case by simp
next
  case (JObj ps)
  have "sum_list (map (\<lambda>p. Suc (json_depth (snd p))) ps) \<le> 2 * length (comma_sep (map write_member ps))"
  proof (rule comma_sep_longer)
    fix p assume p: "p \<in> set ps"
    obtain k j where kj: "p = (k, j)" by (cases p)
    have "Suc (json_depth j) \<le> 2 * length (stringify j)"
      by (rule JObj.IH [OF p]) (simp add: kj)
    then show "Suc (json_depth (snd p)) \<le> 2 * length (write_member p)" by (simp add: kj)
  qed
  then show ?case by (simp add: case_prod_unfold)
next
  case (JNum i)
  obtain c t where "stringify (JNum i) = c # t" using stringify_hd [of "JNum i"] by blast
  then show ?case by simp
qed (auto simp: quote_string_def)

text \<open>Every value that was written is read back.\<close>

theorem json_parse_stringify: "json_wf j \<Longrightarrow> json_parse (stringify j) = Some j"
  using read_value_written [of j "2 * length (stringify j)" "[]"] json_depth_length [of j]
    skip_space_stringify [of j "[]"]
  by (simp add: json_parse_def)

end
