(* ===== verification/SecretDelivery.thy ===== *)
theory SecretDelivery
  imports ProviderProperties JsonParse
begin

text \<open>
  \<open>src/src/product/secretDelivery.ts\<close>: the one-time secrets of a workspace, a JSON value sealed with the
  active key of the ring for a context. The cipher is the parameter \<open>g\<close> of \<open>ProviderSecrets\<close>, \<open>nonce\<close> twelve
  random bytes.
\<close>

definition sealSecretDelivery ::
    "aead \<Rightarrow> nat list \<Rightarrow> json \<Rightarrow> key_ring \<Rightarrow> string \<Rightarrow> store_error + string" where
  "sealSecretDelivery g nonce j ring ctx =
     (case map_of (kr_keys ring) (kr_activeKeyId ring) of
        None \<Rightarrow> Inl (Thrown ''SECRET_DELIVERY_KEY_INVALID'')
      | Some key \<Rightarrow>
          if length key \<noteq> 32 then Inl (Thrown ''SECRET_DELIVERY_KEY_INVALID'')
          else let (ct, tag) = aead_seal g key nonce ctx (stringify j)
            in Inr (join_with CHR ''.'' [''v1'', kr_activeKeyId ring, base64url nonce, base64url tag, base64url ct]))"

text \<open>The five parts of an envelope: key, nonce, tag and ciphertext as texts.\<close>

definition envelope_parts :: "string \<Rightarrow> (string \<times> string \<times> string \<times> string) option" where
  "envelope_parts envelope =
     (case split_dots envelope of
        [version, keyId, nonce, tag, ct] \<Rightarrow>
          if version \<noteq> ''v1'' \<or> keyId = [] \<or> nonce = [] \<or> tag = [] \<or> ct = [] then None
          else Some (keyId, nonce, tag, ct)
      | _ \<Rightarrow> None)"

definition open_delivery ::
    "aead \<Rightarrow> key_ring \<Rightarrow> string \<Rightarrow> string \<times> string \<times> string \<times> string \<Rightarrow> json option" where
  "open_delivery g ring ctx = (\<lambda>(keyId, nonce, tag, ct).
     case map_of (kr_keys ring) keyId of
       None \<Rightarrow> None
     | Some key \<Rightarrow>
         if length key \<noteq> 32 then None
         else Option.bind (aead_open g key (base64_decode nonce) ctx (base64_decode ct) (base64_decode tag)) json_parse)"

definition openSecretDelivery :: "aead \<Rightarrow> string \<Rightarrow> key_ring \<Rightarrow> string \<Rightarrow> store_error + json" where
  "openSecretDelivery g envelope ring ctx =
     (case envelope_parts envelope of
        None \<Rightarrow> Inl (Thrown ''SECRET_DELIVERY_ENVELOPE_INVALID'')
      | Some parts \<Rightarrow>
          (case open_delivery g ring ctx parts of
             None \<Rightarrow> Inl (Thrown ''SECRET_DELIVERY_DECRYPT_FAILED'') | Some j \<Rightarrow> Inr j))"

section \<open>What is read back\<close>

lemma stringify_nonempty: "stringify j \<noteq> []"
  using stringify_hd [of j] by auto

lemma sealed_parts:
  assumes "sealSecretDelivery g nonce j ring ctx = Inr e" and "aead_inverts g" and "bytes nonce"
    and "nonce \<noteq> []" and "key_id_ok (kr_activeKeyId ring)"
  obtains key ct tag where "map_of (kr_keys ring) (kr_activeKeyId ring) = Some key" "length key = 32"
    "aead_seal g key nonce ctx (stringify j) = (ct, tag)" "bytes ct" "bytes tag"
    "envelope_parts e = Some (kr_activeKeyId ring, base64url nonce, base64url tag, base64url ct)"
proof -
  from assms(1) obtain key where key: "map_of (kr_keys ring) (kr_activeKeyId ring) = Some key" "length key = 32"
    by (auto simp: sealSecretDelivery_def split: option.splits if_splits)
  obtain ct tag where sealed: "aead_seal g key nonce ctx (stringify j) = (ct, tag)" by fastforce
  have e: "e = join_with CHR ''.'' [''v1'', kr_activeKeyId ring, base64url nonce, base64url tag, base64url ct]"
    using assms(1) by (simp add: sealSecretDelivery_def key sealed)
  have b: "bytes ct" "bytes tag" "length tag = 16" "ct \<noteq> []"
    using assms(2) sealed stringify_nonempty unfolding aead_inverts_def by blast+
  then have ne: "base64url nonce \<noteq> []" "base64url tag \<noteq> []" "base64url ct \<noteq> []"
    using assms(4) by (auto intro!: base64url_nonempty)
  have "split_dots e = [''v1'', kr_activeKeyId ring, base64url nonce, base64url tag, base64url ct]"
    using key_id_dotfree(1) [OF assms(5)] b assms(3)
    by (simp add: e split_dots_join split_dots_one base64url_dotfree)
  then have "envelope_parts e = Some (kr_activeKeyId ring, base64url nonce, base64url tag, base64url ct)"
    using ne assms(5) by (simp add: envelope_parts_def key_id_ok_def)
  with key sealed b(1,2) show thesis by (rule that)
qed

text \<open>A sealed value is read back with the same ring for the same context.\<close>

theorem delivery_roundtrip:
  assumes "sealSecretDelivery g nonce j ring ctx = Inr e" and "aead_inverts g" and "bytes nonce"
    and "nonce \<noteq> []" and "key_id_ok (kr_activeKeyId ring)" and "json_wf j"
  shows "openSecretDelivery g e ring ctx = Inr j"
proof -
  from assms(1-5) obtain key ct tag where key: "map_of (kr_keys ring) (kr_activeKeyId ring) = Some key"
      "length key = 32" "aead_seal g key nonce ctx (stringify j) = (ct, tag)" "bytes ct" "bytes tag"
    and parts: "envelope_parts e = Some (kr_activeKeyId ring, base64url nonce, base64url tag, base64url ct)"
    by (rule sealed_parts)
  have "aead_open g key nonce ctx ct tag = Some (stringify j)"
    using assms(2) key(3) unfolding aead_inverts_def by blast
  with key assms(3,6) show ?thesis
    by (simp add: openSecretDelivery_def parts open_delivery_def base64_roundtrip json_parse_stringify)
qed

text \<open>And for no other context.\<close>

theorem delivery_bound:
  assumes "sealSecretDelivery g nonce j ring ctx = Inr e" and "aead_inverts g" and "aead_binds g"
    and "bytes nonce" and "nonce \<noteq> []" and "key_id_ok (kr_activeKeyId ring)" and "ctx' \<noteq> ctx"
  shows "openSecretDelivery g e ring ctx' = Inl (Thrown ''SECRET_DELIVERY_DECRYPT_FAILED'')"
proof -
  from assms(1,2,4-6) obtain key ct tag where key: "map_of (kr_keys ring) (kr_activeKeyId ring) = Some key"
      "length key = 32" "aead_seal g key nonce ctx (stringify j) = (ct, tag)" "bytes ct" "bytes tag"
    and parts: "envelope_parts e = Some (kr_activeKeyId ring, base64url nonce, base64url tag, base64url ct)"
    by (rule sealed_parts)
  have "aead_open g key nonce ctx' ct tag = None"
    using assms(3,7) key(3) unfolding aead_binds_def by (cases "aead_open g key nonce ctx' ct tag") blast+
  with key assms(4) show ?thesis
    by (simp add: openSecretDelivery_def parts open_delivery_def base64_roundtrip)
qed

end
