(* ===== verification/OnboardingStore.thy ===== *)
theory OnboardingStore
  imports SecretDelivery PolicyAdministration
begin

text \<open>
  \<open>src/src/product/workspaceOnboardingStore.ts\<close>: the operations that create a workspace once per idempotency
  key, with their lease and their rollback, the capacity reservations, the redeemed invites and the rate
  limits. The rollback deletes rows of the tables of all stores, so the state here is the whole database:
  the identity database (whose \<open>db_operations\<close> is the table of operations), the policy store and the
  provider configurations. The second half is the in-memory store. Schema creation and its migrations
  are left out; \<open>clock\<close> is CURRENT_TIMESTAMP in milliseconds.
\<close>

section \<open>The database\<close>

record redemption_row =
  rd_inviteHash :: string
  rd_idempotencyKey :: string
  rd_consumedAt :: int

record capacity_row =
  cp_idempotencyKey :: string
  cp_reservedAt :: int

record rate_row =
  rw_key :: string
  rw_windowStartedAt :: int
  rw_requestCount :: int

record fuse_db =
  fd_identity :: identity_db
  fd_policy :: policy_store
  fd_provider :: provider_db
  fd_redemptions :: "redemption_row list"
  fd_capacity :: "capacity_row list"
  fd_rates :: "rate_row list"

definition operations :: "fuse_db \<Rightarrow> operation_row list" where
  "operations d = db_operations (fd_identity d)"

definition set_operations :: "operation_row list \<Rightarrow> fuse_db \<Rightarrow> fuse_db" where
  "set_operations ws d = d\<lparr>fd_identity := (fd_identity d)\<lparr>db_operations := ws\<rparr>\<rparr>"

definition operation_of :: "string \<Rightarrow> fuse_db \<Rightarrow> operation_row option" where
  "operation_of key d = tbl_find op_idempotencyKey key (operations d)"

text \<open>
  The tables \<open>organizations\<close> and \<open>agent_identities\<close> are the identity database's; the other two stores see
  their keys.
\<close>

definition policy_view :: "fuse_db \<Rightarrow> policy_store" where
  "policy_view d = (fd_policy d)
     \<lparr>st_organizations := map og_id (db_organizations (fd_identity d)),
      st_agents := map (\<lambda>a. (ag_organizationId a, ag_id a)) (db_agents (fd_identity d))\<rparr>"

definition provider_view :: "fuse_db \<Rightarrow> provider_db" where
  "provider_view d = (fd_provider d)\<lparr>px_organizations := map og_id (db_organizations (fd_identity d))\<rparr>"

section \<open>Results\<close>

text \<open>A time stamp as it was given: its text and what \<open>Date.parse\<close> makes of it.\<close>

type_synonym dated = "string \<times> timestamp"

record delivered_credential =
  dc_credentialId :: string
  dc_token :: "string option"
  dc_tokenPrefix :: string
  dc_capabilities :: "capability_text list"
  dc_expiresAt :: "dated option"

record workspace_result =
  wr_workspaceId :: string
  wr_agentId :: string
  wr_mandateId :: string
  wr_policyId :: string
  wr_providerConfigId :: string
  wr_adminCredential :: delivered_credential
  wr_credential :: delivered_credential
  wr_recoveryCode :: "string option"

definition credential_json :: "delivered_credential \<Rightarrow> json" where
  "credential_json c = JObj
     [(''credentialId'', JStr (dc_credentialId c)), (''token'', null_or JStr (dc_token c)),
      (''tokenPrefix'', JStr (dc_tokenPrefix c)), (''capabilities'', capabilities_json (dc_capabilities c)),
      (''expiresAt'', null_or (\<lambda>t. JStr (fst t)) (dc_expiresAt c))]"

definition result_json :: "workspace_result \<Rightarrow> json" where
  "result_json r = JObj
     [(''workspaceId'', JStr (wr_workspaceId r)), (''agentId'', JStr (wr_agentId r)),
      (''mandateId'', JStr (wr_mandateId r)), (''policyId'', JStr (wr_policyId r)),
      (''providerConfigId'', JStr (wr_providerConfigId r)),
      (''adminCredential'', credential_json (wr_adminCredential r)),
      (''credential'', credential_json (wr_credential r)),
      (''recoveryCode'', null_or JStr (wr_recoveryCode r))]"

text \<open>What \<open>result_json\<close> keeps: no token and no recovery code.\<close>

definition redacted :: "workspace_result \<Rightarrow> workspace_result" where
  "redacted r = r\<lparr>wr_recoveryCode := None,
     wr_adminCredential := (wr_adminCredential r)\<lparr>dc_token := None\<rparr>,
     wr_credential := (wr_credential r)\<lparr>dc_token := None\<rparr>\<rparr>"

definition workspace_context :: "string \<Rightarrow> string" where
  "workspace_context key = ''workspace:'' @ key"

definition recovery_context :: "string \<Rightarrow> string \<Rightarrow> string \<Rightarrow> string" where
  "recovery_context ws hash delivery = ''recovery:'' @ ws @ '':'' @ hash @ '':'' @ delivery"

section \<open>Readiness\<close>

definition authenticate_envelope :: "aead \<Rightarrow> key_ring \<Rightarrow> string \<Rightarrow> string \<Rightarrow> store_error option" where
  "authenticate_envelope g ring envelope ctx =
     (case envelope_parts envelope of
        None \<Rightarrow> Some (Thrown ''WORKSPACE_DELIVERY_ENVELOPE_UNREADABLE'')
      | Some (keyId, rest) \<Rightarrow>
          if map_of (kr_keys ring) keyId = None then Some (Thrown ''WORKSPACE_DELIVERY_DECRYPTION_KEY_MISSING'')
          else (case openSecretDelivery g envelope ring ctx of
                  Inl e \<Rightarrow> Some (Thrown ''WORKSPACE_DELIVERY_ENVELOPE_UNREADABLE'') | Inr j \<Rightarrow> None))"

definition operation_readiness :: "aead \<Rightarrow> key_ring \<Rightarrow> operation_row \<Rightarrow> store_error option" where
  "operation_readiness g ring w =
     orElse (case truthy (op_deliveryEnvelope w) of
               None \<Rightarrow> None
             | Some e \<Rightarrow> authenticate_envelope g ring e (workspace_context (op_idempotencyKey w)))
       (case truthy (op_recoveryEnvelope w) of
          None \<Rightarrow> None
        | Some e \<Rightarrow>
            (case (truthy (op_identifier ''workspaceId'' w), truthy (op_recoveryConsumedHash w),
                truthy (op_recoveryDeliveryId w)) of
               (Some ws, Some hash, Some delivery) \<Rightarrow>
                 authenticate_envelope g ring e (recovery_context ws hash delivery)
             | _ \<Rightarrow> Some (Thrown ''WORKSPACE_DELIVERY_ENVELOPE_UNREADABLE'')))"

fun first_Some :: "('a \<Rightarrow> 'b option) \<Rightarrow> 'a list \<Rightarrow> 'b option" where
  "first_Some f [] = None"
| "first_Some f (x # xs) = orElse (f x) (first_Some f xs)"

definition onboarding_readiness :: "aead \<Rightarrow> key_ring option \<Rightarrow> fuse_db \<Rightarrow> store_error option" where
  "onboarding_readiness g ring d =
     (case ring of
        None \<Rightarrow> Some (Thrown ''WORKSPACE_DELIVERY_KEY_UNAVAILABLE'')
      | Some r \<Rightarrow> first_Some (operation_readiness g r)
          (filter (\<lambda>w. op_deliveryEnvelope w \<noteq> None \<or> op_recoveryEnvelope w \<noteq> None) (operations d)))"

record onboarding_health =
  oh_staleOperations :: nat
  oh_rollbackFailed :: nat
  oh_oldestInProgressAt :: "string option"
  oh_orphanReservations :: nat
  oh_oldestOrphanAt :: "string option"

definition earliest :: "int list \<Rightarrow> int option" where
  "earliest ts = (if ts = [] then None else Some (Min (set ts)))"

definition readOperationalReadiness :: "int \<Rightarrow> int \<Rightarrow> fuse_db \<Rightarrow> onboarding_health" where
  "readOperationalReadiness now staleAfterMs d =
     (let running = filter (\<lambda>w. op_status w = Onb_in_progress) (operations d);
          orphans = filter (\<lambda>r. operation_of (cp_idempotencyKey r) d = None) (fd_capacity d)
      in \<lparr>oh_staleOperations = length (filter (\<lambda>w. op_updatedAt w \<le> now - staleAfterMs) running),
          oh_rollbackFailed = length (filter (\<lambda>w. op_status w = Onb_failed) (operations d)),
          oh_oldestInProgressAt = map_option toISOString (earliest (map op_updatedAt running)),
          oh_orphanReservations = length orphans,
          oh_oldestOrphanAt = map_option toISOString (earliest (map cp_reservedAt orphans))\<rparr>)"

section \<open>Admission to the beta\<close>

definition reservation_ms :: int where
  "reservation_ms = 15 * 60 * 1000"

definition keeps_reservation :: "int \<Rightarrow> fuse_db \<Rightarrow> capacity_row \<Rightarrow> bool" where
  "keeps_reservation now d r \<longleftrightarrow>
     \<not> (cp_reservedAt r \<le> now - reservation_ms \<and> operation_of (cp_idempotencyKey r) d = None)"

definition unresolved_reservation :: "fuse_db \<Rightarrow> capacity_row \<Rightarrow> bool" where
  "unresolved_reservation d r \<longleftrightarrow>
     (case operation_of (cp_idempotencyKey r) d of None \<Rightarrow> True | Some w \<Rightarrow> op_status w = Onb_in_progress)"

text \<open>The rows of the UNION, in which NULL is one row.\<close>

definition active_workspaces :: "string list \<Rightarrow> fuse_db \<Rightarrow> string option list" where
  "active_workspaces baseline d = remdups
     (map (op_identifier ''workspaceId'') (filter (\<lambda>w. op_status w = Onb_completed) (operations d))
      @ map Some baseline
      @ map (\<lambda>r. Some (''reservation:'' @ cp_idempotencyKey r)) (filter (unresolved_reservation d) (fd_capacity d)))"

definition tryReserveCapacity ::
    "string \<Rightarrow> int \<Rightarrow> string list \<Rightarrow> int option \<Rightarrow> int \<Rightarrow> fuse_db \<Rightarrow> fuse_db \<times> bool" where
  "tryReserveCapacity key maxActive baseline now clock d =
     (let t = (case now of None \<Rightarrow> clock | Some n \<Rightarrow> n);
          d1 = d\<lparr>fd_capacity := filter (keeps_reservation t d) (fd_capacity d)\<rparr>
      in if tbl_find cp_idempotencyKey key (fd_capacity d1) \<noteq> None then (d1, True)
         else if int (length (active_workspaces baseline d1)) \<ge> maxActive then (d1, False)
         else (d1\<lparr>fd_capacity := fd_capacity d1 @ [\<lparr>cp_idempotencyKey = key, cp_reservedAt = clock\<rparr>]\<rparr>, True))"

text \<open>Both columns of a redemption are unique; ON CONFLICT DO NOTHING covers both.\<close>

definition consumeInvite ::
    "(string \<Rightarrow> string) \<Rightarrow> string \<Rightarrow> string \<Rightarrow> string list \<Rightarrow> int \<Rightarrow> fuse_db \<Rightarrow> fuse_db \<times> bool" where
  "consumeInvite sha token key allowed clock d =
     (let hash = sha token in
      if hash \<notin> set allowed then (d, False)
      else if tbl_find rd_inviteHash hash (fd_redemptions d) = None
          \<and> tbl_find rd_idempotencyKey key (fd_redemptions d) = None
        then (d\<lparr>fd_redemptions := fd_redemptions d
               @ [\<lparr>rd_inviteHash = hash, rd_idempotencyKey = key, rd_consumedAt = clock\<rparr>]\<rparr>, True)
      else (d, map_option rd_idempotencyKey (tbl_find rd_inviteHash hash (fd_redemptions d)) = Some key))"

definition rate_window_ms :: int where
  "rate_window_ms = 60000"

definition count_request :: "string \<Rightarrow> int \<Rightarrow> rate_row list \<Rightarrow> rate_row list \<times> rate_row" where
  "count_request key t rows =
     (case tbl_find rw_key key rows of
        None \<Rightarrow> (let r = \<lparr>rw_key = key, rw_windowStartedAt = t, rw_requestCount = 1\<rparr> in (rows @ [r], r))
      | Some r \<Rightarrow>
          (let r' = (if rw_windowStartedAt r \<le> t - rate_window_ms
                     then r\<lparr>rw_requestCount := 1, rw_windowStartedAt := t\<rparr>
                     else r\<lparr>rw_requestCount := rw_requestCount r + 1\<rparr>)
           in (tbl_update rw_key key (\<lambda>_. r') rows, r')))"

text \<open>\<open>wall\<close> is \<open>Date.now()\<close> of the process.\<close>

definition consumeRateLimit ::
    "string \<Rightarrow> int \<Rightarrow> int option \<Rightarrow> int \<Rightarrow> int \<Rightarrow> fuse_db \<Rightarrow> fuse_db \<times> bool \<times> int" where
  "consumeRateLimit key maxPerMinute now clock wall d =
     (let (rows, r) = count_request key (case now of None \<Rightarrow> clock | Some n \<Rightarrow> n) (fd_rates d)
      in (d\<lparr>fd_rates := rows\<rparr>, rw_requestCount r \<le> maxPerMinute,
          max 1 (- ((wall - rw_windowStartedAt r - 60000) div 1000))))"

section \<open>The lease\<close>

text \<open>
  The DELETE statements, table after table. A row that still refers to a deleted one makes the statement
  fail: delegated branches, decisions, executions and holds refer to the mandates, policies and agents,
  workspace invites to the organization.
\<close>

definition references_policy_rows :: "string \<Rightarrow> policy_store \<Rightarrow> bool" where
  "references_policy_rows ws s \<longleftrightarrow>
     list_ex (\<lambda>r. br_organizationId r = ws) (st_branches s) \<or> list_ex (\<lambda>r. sd_organizationId r = ws) (st_decisions s)
     \<or> list_ex (\<lambda>r. ex_organizationId r = ws) (st_executions s) \<or> list_ex (\<lambda>r. hd_organizationId r = ws) (st_holds s)"

definition erase_provider :: "string \<Rightarrow> provider_db \<Rightarrow> provider_db" where
  "erase_provider ws s = s
     \<lparr>px_retries := filter (\<lambda>r. vr_organizationId r \<noteq> ws) (px_retries s),
      px_configurations := filter (\<lambda>r. pf_organizationId r \<noteq> ws) (px_configurations s),
      px_audit := filter (\<lambda>r. au_organizationId r \<noteq> ws) (px_audit s)\<rparr>"

definition erase_policy :: "string \<Rightarrow> policy_store \<Rightarrow> policy_store" where
  "erase_policy ws s = s
     \<lparr>st_assignments := filter (\<lambda>r. as_organizationId r \<noteq> ws) (st_assignments s),
      st_mandates := filter (\<lambda>r. cm_organizationId r \<noteq> ws) (st_mandates s),
      st_policies := filter (\<lambda>r. pol_organizationId (pr_policy r) \<noteq> ws) (st_policies s),
      st_audit := filter (\<lambda>r. au_organizationId r \<noteq> ws) (st_audit s)\<rparr>"

definition erase_identity :: "string \<Rightarrow> identity_db \<Rightarrow> identity_db" where
  "erase_identity ws s = s
     \<lparr>db_agentCredentials := filter (\<lambda>r. cr_organizationId r \<noteq> ws) (db_agentCredentials s),
      db_agents := filter (\<lambda>r. ag_organizationId r \<noteq> ws) (db_agents s),
      db_serviceCredentials := filter (\<lambda>r. cr_organizationId r \<noteq> ws) (db_serviceCredentials s),
      db_serviceAccounts := filter (\<lambda>r. sa_organizationId r \<noteq> ws) (db_serviceAccounts s),
      db_memberships := filter (\<lambda>r. mb_organizationId r \<noteq> ws) (db_memberships s),
      db_audit := filter (\<lambda>r. au_organizationId r \<noteq> ws) (db_audit s),
      db_organizations := filter (\<lambda>r. og_id r \<noteq> ws) (db_organizations s)\<rparr>"

definition erase_workspace :: "string \<Rightarrow> fuse_db \<Rightarrow> store_error + fuse_db" where
  "erase_workspace ws d =
     (if references_policy_rows ws (fd_policy d) then Inl (ForeignKeyViolation ''control_mandates'')
      else if list_ex (\<lambda>r. iv_organizationId r = ws) (db_invites (fd_identity d))
        then Inl (ForeignKeyViolation ''organizations'')
      else Inr (d\<lparr>fd_provider := erase_provider ws (fd_provider d), fd_policy := erase_policy ws (fd_policy d),
                 fd_identity := erase_identity ws (fd_identity d)\<rparr>))"

record claim_input =
  cl_idempotencyKey :: string
  cl_fingerprint :: string
  cl_recoveryCodeHash :: string
  cl_identifiers :: "(string \<times> string) list"
  cl_now :: "int option"
  cl_staleAfterMs :: "int option"

datatype claim_answer = Claim_new | Claim_replay "json option" | Claim_in_progress | Claim_conflict

definition new_operation :: "claim_input \<Rightarrow> int \<Rightarrow> operation_row" where
  "new_operation i t =
     \<lparr>op_idempotencyKey = cl_idempotencyKey i, op_fingerprint = cl_fingerprint i,
      op_recoveryCodeHash = Some (cl_recoveryCodeHash i), op_recoveryConsumedAt = None,
      op_recoveryConsumedHash = None, op_recoveryEnvelope = None, op_recoveryDeliveryId = None,
      op_identifiers = cl_identifiers i, op_status = Onb_in_progress, op_result = None,
      op_resultExpiry = None, op_deliveryEnvelope = None, op_failureCode = None, op_createdAt = t,
      op_updatedAt = t, op_completedAt = None\<rparr>"

definition update_operation :: "string \<Rightarrow> (operation_row \<Rightarrow> operation_row) \<Rightarrow> fuse_db \<Rightarrow> fuse_db" where
  "update_operation key f d = set_operations (tbl_update op_idempotencyKey key f (operations d)) d"

text \<open>The two UPDATEs that hand an operation to a new worker; only the second sets its times.\<close>

definition reclaimed :: "claim_input \<Rightarrow> operation_row \<Rightarrow> operation_row" where
  "reclaimed i w = w\<lparr>op_recoveryCodeHash := Some (cl_recoveryCodeHash i), op_identifiers := cl_identifiers i,
     op_status := Onb_in_progress, op_failureCode := None, op_completedAt := None\<rparr>"

definition lease_stale :: "claim_input \<Rightarrow> operation_row \<Rightarrow> bool" where
  "lease_stale i w \<longleftrightarrow>
     (case (cl_now i, cl_staleAfterMs i) of
        (Some now, Some stale) \<Rightarrow> op_updatedAt w \<le> now - stale | _ \<Rightarrow> False)"

definition take_over :: "claim_input \<Rightarrow> operation_row \<Rightarrow> fuse_db \<Rightarrow> store_error + (fuse_db \<times> claim_answer)" where
  "take_over i w d =
     (case truthy (op_identifier ''workspaceId'' w) of
        None \<Rightarrow> Inl (Thrown ''WORKSPACE_ROLLBACK_SCOPE_MISMATCH'')
      | Some ws \<Rightarrow>
          and_then (erase_workspace ws d) (\<lambda>d1.
          Inr (update_operation (cl_idempotencyKey i)
            (\<lambda>w. (reclaimed i w)\<lparr>op_createdAt := the (cl_now i), op_updatedAt := the (cl_now i)\<rparr>) d1, Claim_new)))"

definition replayed_result :: "aead \<Rightarrow> key_ring option \<Rightarrow> string \<Rightarrow> operation_row \<Rightarrow> store_error + json option" where
  "replayed_result g ring key w =
     (case (truthy (op_deliveryEnvelope w), ring) of
        (Some e, Some r) \<Rightarrow> and_then (openSecretDelivery g e r (workspace_context key)) (\<lambda>j. Inr (Some j))
      | _ \<Rightarrow> Inr (op_result w))"

definition claim_operation ::
    "aead \<Rightarrow> key_ring option \<Rightarrow> int \<Rightarrow> claim_input \<Rightarrow> fuse_db \<Rightarrow> store_error + (fuse_db \<times> claim_answer)" where
  "claim_operation g ring clock i d =
     (case operation_of (cl_idempotencyKey i) d of
        None \<Rightarrow> Inr (set_operations (operations d
            @ [new_operation i (case cl_now i of None \<Rightarrow> clock | Some n \<Rightarrow> n)]) d, Claim_new)
      | Some w \<Rightarrow>
          if op_fingerprint w \<noteq> cl_fingerprint i then Inr (d, Claim_conflict)
          else if op_status w = Onb_rolled_back
            then Inr (update_operation (cl_idempotencyKey i) (reclaimed i) d, Claim_new)
          else if op_status w = Onb_in_progress \<and> lease_stale i w then take_over i w d
          else if op_status w = Onb_completed
            then and_then (replayed_result g ring (cl_idempotencyKey i) w) (\<lambda>j. Inr (d, Claim_replay j))
          else Inr (d, Claim_in_progress))"

text \<open>The WHERE clause that the worker of an operation satisfies.\<close>

definition holds_lease :: "string \<Rightarrow> operation_row \<Rightarrow> bool" where
  "holds_lease ws w \<longleftrightarrow> op_identifier ''workspaceId'' w = Some ws \<and> op_status w = Onb_in_progress"

definition leased :: "string \<Rightarrow> string \<Rightarrow> fuse_db \<Rightarrow> bool" where
  "leased key ws d \<longleftrightarrow> (case operation_of key d of None \<Rightarrow> False | Some w \<Rightarrow> holds_lease ws w)"

definition with_lease ::
    "string \<Rightarrow> string \<Rightarrow> string \<Rightarrow> (operation_row \<Rightarrow> operation_row) \<Rightarrow> fuse_db \<Rightarrow> store_error + fuse_db" where
  "with_lease key ws code f d =
     (if leased key ws d then Inr (update_operation key f d) else Inl (Thrown code))"

definition heartbeat :: "string \<Rightarrow> string \<Rightarrow> int \<Rightarrow> fuse_db \<Rightarrow> store_error + fuse_db" where
  "heartbeat key ws now =
     with_lease key ws ''WORKSPACE_ONBOARDING_LEASE_LOST'' (\<lambda>w. w\<lparr>op_updatedAt := now\<rparr>)"

definition completed_row :: "workspace_result \<Rightarrow> string \<Rightarrow> int \<Rightarrow> operation_row \<Rightarrow> operation_row" where
  "completed_row r envelope clock w =
     w\<lparr>op_status := Onb_completed, op_result := Some (result_json (redacted r)),
       op_resultExpiry := map_option snd (dc_expiresAt (wr_credential r)),
       op_deliveryEnvelope := Some envelope, op_completedAt := Some clock\<rparr>"

definition complete_operation ::
    "aead \<Rightarrow> key_ring option \<Rightarrow> nat list \<Rightarrow> int \<Rightarrow> string \<Rightarrow> workspace_result \<Rightarrow> fuse_db \<Rightarrow> store_error + fuse_db" where
  "complete_operation g ring nonce clock key r d =
     (case ring of
        None \<Rightarrow> Inl (Thrown ''WORKSPACE_DELIVERY_KEY_UNAVAILABLE'')
      | Some k \<Rightarrow>
          and_then (sealSecretDelivery g nonce (result_json r) k (workspace_context key)) (\<lambda>envelope.
          with_lease key (wr_workspaceId r) ''WORKSPACE_ONBOARDING_LEASE_LOST''
            (completed_row r envelope clock) d))"

definition rollback_operation ::
    "string \<Rightarrow> string \<Rightarrow> string \<Rightarrow> int \<Rightarrow> fuse_db \<Rightarrow> store_error + fuse_db" where
  "rollback_operation key ws code clock d =
     (if \<not> leased key ws d then Inl (Thrown ''WORKSPACE_ROLLBACK_SCOPE_MISMATCH'')
      else and_then (erase_workspace ws d) (\<lambda>d1.
        Inr (update_operation key (\<lambda>w. w\<lparr>op_status := Onb_rolled_back, op_failureCode := Some (take 96 code),
               op_completedAt := Some clock\<rparr>) d1)))"

definition recordRollbackFailure :: "string \<Rightarrow> string \<Rightarrow> string \<Rightarrow> int \<Rightarrow> fuse_db \<Rightarrow> fuse_db" where
  "recordRollbackFailure key ws code clock d =
     update_operation key (\<lambda>w. if holds_lease ws w
       then w\<lparr>op_status := Onb_failed, op_failureCode := Some (take 96 code), op_completedAt := Some clock\<rparr>
       else w) d"

section \<open>Recovery\<close>

record recovery_record =
  rr_workspaceId :: string
  rr_serviceAccountId :: "string option"
  rr_serviceCredentialId :: "string option"
  rr_agentId :: "string option"
  rr_agentCredentialId :: "string option"
  rr_expiresAt :: "dated option"

record setup_metadata = recovery_record +
  su_policyId :: "string option"
  su_mandateId :: "string option"
  su_providerConfigId :: "string option"

datatype recovery_answer = Recovery_delivered json | Recovery_record recovery_record

text \<open>\<open>row.result_json?.credential?.expiresAt ?? null\<close>.\<close>

definition result_expiry :: "operation_row \<Rightarrow> dated option" where
  "result_expiry w =
     (case Option.bind (Option.bind (op_result w) (obj_get ''credential'')) (obj_get ''expiresAt'') of
        Some (JStr s) \<Rightarrow> Some (s, case op_resultExpiry w of None \<Rightarrow> NotATime s | Some t \<Rightarrow> t)
      | _ \<Rightarrow> None)"

definition credential_metadata :: "string \<Rightarrow> operation_row \<Rightarrow> recovery_record" where
  "credential_metadata ws w =
     \<lparr>rr_workspaceId = ws, rr_serviceAccountId = op_identifier ''serviceAccountId'' w,
      rr_serviceCredentialId = op_identifier ''serviceCredentialId'' w, rr_agentId = op_identifier ''agentId'' w,
      rr_agentCredentialId = op_identifier ''agentCredentialId'' w, rr_expiresAt = result_expiry w\<rparr>"

definition completed_for :: "string \<Rightarrow> operation_row \<Rightarrow> bool" where
  "completed_for ws w \<longleftrightarrow> op_identifier ''workspaceId'' w = Some ws \<and> op_status w = Onb_completed"

definition recovery_row :: "string \<Rightarrow> string \<Rightarrow> string \<Rightarrow> operation_row \<Rightarrow> bool" where
  "recovery_row ws hash delivery w \<longleftrightarrow> completed_for ws w
     \<and> (op_recoveryCodeHash w = Some hash
        \<or> op_recoveryConsumedHash w = Some hash \<and> op_recoveryDeliveryId w = Some delivery)"

definition getRecovery ::
    "aead \<Rightarrow> key_ring option \<Rightarrow> string \<Rightarrow> string \<Rightarrow> string \<Rightarrow> fuse_db \<Rightarrow> store_error + recovery_answer option" where
  "getRecovery g ring ws hash delivery d =
     (case find (recovery_row ws hash delivery) (operations d) of
        None \<Rightarrow> Inr None
      | Some w \<Rightarrow>
          (case truthy (op_recoveryEnvelope w) of
             Some e \<Rightarrow>
               (case ring of
                  None \<Rightarrow> Inl (Thrown ''WORKSPACE_DELIVERY_KEY_UNAVAILABLE'')
                | Some r \<Rightarrow> and_then (openSecretDelivery g e r (recovery_context ws hash delivery))
                    (\<lambda>j. Inr (Some (Recovery_delivered j))))
           | None \<Rightarrow>
               if truthy (op_recoveryCodeHash w) = None then Inr None
               else Inr (Some (Recovery_record (credential_metadata ws w)))))"

definition getWorkspaceCredentialMetadata :: "string \<Rightarrow> fuse_db \<Rightarrow> recovery_record option" where
  "getWorkspaceCredentialMetadata ws d =
     map_option (credential_metadata ws) (find (completed_for ws) (operations d))"

definition getWorkspaceSetupMetadata :: "string \<Rightarrow> fuse_db \<Rightarrow> setup_metadata option" where
  "getWorkspaceSetupMetadata ws d =
     map_option (\<lambda>w. recovery_record.extend (credential_metadata ws w)
         (setup_metadata.fields (op_identifier ''policyId'' w) (op_identifier ''mandateId'' w)
            (op_identifier ''providerConfigId'' w)))
       (find (completed_for ws) (operations d))"

definition rotateRecoveryCode :: "string \<Rightarrow> string \<Rightarrow> int option \<Rightarrow> int \<Rightarrow> fuse_db \<Rightarrow> fuse_db \<times> bool" where
  "rotateRecoveryCode ws hash now clock d =
     (set_operations (map (\<lambda>w. if completed_for ws w
          then w\<lparr>op_recoveryCodeHash := Some hash, op_recoveryConsumedAt := None,
                 op_recoveryConsumedHash := None, op_recoveryEnvelope := None,
                 op_recoveryDeliveryId := None,
                 op_updatedAt := (case now of None \<Rightarrow> clock | Some n \<Rightarrow> n)\<rparr>
          else w) (operations d)) d,
      length (filter (completed_for ws) (operations d)) = 1)"

text \<open>What is sealed after a recovery.\<close>

record recovery_result =
  rv_workspaceId :: string
  rv_agentId :: string
  rv_credential :: delivered_credential

definition recovery_json :: "recovery_result \<Rightarrow> json" where
  "recovery_json r = JObj [(''workspaceId'', JStr (rv_workspaceId r)), (''agentId'', JStr (rv_agentId r)),
     (''credential'', credential_json (rv_credential r))]"

definition sealRecoveryResult ::
    "aead \<Rightarrow> key_ring option \<Rightarrow> nat list \<Rightarrow> recovery_result \<Rightarrow> string \<Rightarrow> string \<Rightarrow> store_error + string" where
  "sealRecoveryResult g ring nonce r hash delivery =
     (case ring of
        None \<Rightarrow> Inl (Thrown ''WORKSPACE_DELIVERY_KEY_UNAVAILABLE'')
      | Some k \<Rightarrow> sealSecretDelivery g nonce (recovery_json r) k (recovery_context (rv_workspaceId r) hash delivery))"

definition listCompletedWorkspaceIds :: "fuse_db \<Rightarrow> string list" where
  "listCompletedWorkspaceIds d = concat (map (\<lambda>w. if op_status w = Onb_completed
       then (case op_identifier ''workspaceId'' w of None \<Rightarrow> [] | Some ws \<Rightarrow> [ws]) else []) (operations d))"

section \<open>The in-memory store\<close>

record memory_entry =
  me_fingerprint :: string
  me_recoveryCodeHash :: string
  me_identifiers :: "(string \<times> string) list"
  me_status :: onboarding_status
  me_updatedAt :: int
  me_result :: "workspace_result option"

record memory_onboarding =
  mo_entries :: "(string \<times> memory_entry) list"
  mo_redemptions :: "(string \<times> string) list"
  mo_capacity :: "(string \<times> int) list"

definition entry_workspace :: "memory_entry \<Rightarrow> string option" where
  "entry_workspace e = map_of (me_identifiers e) ''workspaceId''"

definition mem_tryReserveCapacity ::
    "string \<Rightarrow> int \<Rightarrow> string list \<Rightarrow> int \<Rightarrow> memory_onboarding \<Rightarrow> memory_onboarding \<times> bool" where
  "mem_tryReserveCapacity key maxActive baseline now m =
     (let kept = filter (\<lambda>(k, t). \<not> (t \<le> now - reservation_ms \<and> map_of (mo_entries m) k = None)) (mo_capacity m);
          m1 = m\<lparr>mo_capacity := kept\<rparr>
      in if map_of kept key \<noteq> None then (m1, True)
         else let ids = concat (map (\<lambda>(k, e). if me_status e = Onb_completed
                  then (case truthy (entry_workspace e) of None \<Rightarrow> [] | Some ws \<Rightarrow> [ws]) else []) (mo_entries m));
                waiting = filter (\<lambda>(k, t). case map_of (mo_entries m) k of
                  None \<Rightarrow> True | Some e \<Rightarrow> me_status e = Onb_in_progress) kept
              in if int (length (remdups (baseline @ ids)) + length waiting) \<ge> maxActive then (m1, False)
                 else (m1\<lparr>mo_capacity := AList.update key now kept\<rparr>, True))"

definition mem_consumeInvite ::
    "(string \<Rightarrow> string) \<Rightarrow> string \<Rightarrow> string \<Rightarrow> string list \<Rightarrow> memory_onboarding \<Rightarrow> memory_onboarding \<times> bool" where
  "mem_consumeInvite sha token key allowed m =
     (let hash = sha token in
      if hash \<notin> set allowed then (m, False)
      else case truthy (map_of (mo_redemptions m) hash) of
        Some k \<Rightarrow> (m, k = key)
      | None \<Rightarrow> if key \<in> snd ` set (mo_redemptions m) then (m, False)
          else (m\<lparr>mo_redemptions := AList.update hash key (mo_redemptions m)\<rparr>, True))"

definition claimed_entry :: "claim_input \<Rightarrow> int \<Rightarrow> memory_entry" where
  "claimed_entry i t =
     \<lparr>me_fingerprint = cl_fingerprint i, me_recoveryCodeHash = cl_recoveryCodeHash i,
      me_identifiers = cl_identifiers i, me_status = Onb_in_progress, me_updatedAt = t, me_result = None\<rparr>"

definition set_entry :: "string \<Rightarrow> memory_entry \<Rightarrow> memory_onboarding \<Rightarrow> memory_onboarding" where
  "set_entry key e m = m\<lparr>mo_entries := AList.update key e (mo_entries m)\<rparr>"

datatype memory_claim = M_new | M_replay "workspace_result option" | M_in_progress | M_conflict

definition mem_claim :: "int \<Rightarrow> claim_input \<Rightarrow> memory_onboarding \<Rightarrow> memory_onboarding \<times> memory_claim" where
  "mem_claim wall i m =
     (let t = (case cl_now i of None \<Rightarrow> wall | Some n \<Rightarrow> n); key = cl_idempotencyKey i in
      case map_of (mo_entries m) key of
        None \<Rightarrow> (set_entry key (claimed_entry i t) m, M_new)
      | Some e \<Rightarrow>
          if me_fingerprint e \<noteq> cl_fingerprint i then (m, M_conflict)
          else if me_status e = Onb_completed then (m, M_replay (me_result e))
          else if me_status e = Onb_rolled_back then (set_entry key (claimed_entry i t) m, M_new)
          else if me_status e = Onb_in_progress
              \<and> (case (cl_now i, cl_staleAfterMs i) of
                   (Some now, Some stale) \<Rightarrow> me_updatedAt e \<le> now - stale | _ \<Rightarrow> False)
            then (set_entry key (claimed_entry i (the (cl_now i))) m, M_new)
          else (m, M_in_progress))"

definition mem_leased :: "string \<Rightarrow> string \<Rightarrow> memory_onboarding \<Rightarrow> memory_entry option" where
  "mem_leased key ws m =
     (case map_of (mo_entries m) key of
        None \<Rightarrow> None
      | Some e \<Rightarrow> if entry_workspace e = Some ws \<and> me_status e = Onb_in_progress then Some e else None)"

definition mem_update ::
    "string \<Rightarrow> string \<Rightarrow> string \<Rightarrow> (memory_entry \<Rightarrow> memory_entry) \<Rightarrow> memory_onboarding
       \<Rightarrow> store_error + memory_onboarding" where
  "mem_update key ws code f m =
     (case mem_leased key ws m of None \<Rightarrow> Inl (Thrown code) | Some e \<Rightarrow> Inr (set_entry key (f e) m))"

definition mem_heartbeat :: "string \<Rightarrow> string \<Rightarrow> int \<Rightarrow> memory_onboarding \<Rightarrow> store_error + memory_onboarding" where
  "mem_heartbeat key ws now =
     mem_update key ws ''WORKSPACE_ONBOARDING_LEASE_LOST'' (\<lambda>e. e\<lparr>me_updatedAt := now\<rparr>)"

definition mem_complete :: "string \<Rightarrow> workspace_result \<Rightarrow> memory_onboarding \<Rightarrow> store_error + memory_onboarding" where
  "mem_complete key r =
     mem_update key (wr_workspaceId r) ''WORKSPACE_ONBOARDING_LEASE_LOST''
       (\<lambda>e. e\<lparr>me_status := Onb_completed, me_result := Some r\<rparr>)"

definition mem_rollback :: "string \<Rightarrow> string \<Rightarrow> memory_onboarding \<Rightarrow> store_error + memory_onboarding" where
  "mem_rollback key ws =
     mem_update key ws ''WORKSPACE_ROLLBACK_SCOPE_MISMATCH'' (\<lambda>e. e\<lparr>me_status := Onb_rolled_back\<rparr>)"

definition mem_recordRollbackFailure :: "string \<Rightarrow> string \<Rightarrow> memory_onboarding \<Rightarrow> memory_onboarding" where
  "mem_recordRollbackFailure key ws m =
     (case mem_leased key ws m of None \<Rightarrow> m | Some e \<Rightarrow> set_entry key (e\<lparr>me_status := Onb_failed\<rparr>) m)"

definition entry_metadata :: "string \<Rightarrow> memory_entry \<Rightarrow> recovery_record" where
  "entry_metadata ws e =
     (let k = map_of (me_identifiers e) in
      \<lparr>rr_workspaceId = ws, rr_serviceAccountId = k ''serviceAccountId'',
       rr_serviceCredentialId = k ''serviceCredentialId'', rr_agentId = k ''agentId'',
       rr_agentCredentialId = k ''agentCredentialId'',
       rr_expiresAt = Option.bind (me_result e) (\<lambda>r. dc_expiresAt (wr_credential r))\<rparr>)"

definition entry_completed :: "string \<Rightarrow> string \<times> memory_entry \<Rightarrow> bool" where
  "entry_completed ws = (\<lambda>(k, e). me_status e = Onb_completed \<and> entry_workspace e = Some ws)"

definition mem_getRecovery :: "string \<Rightarrow> string \<Rightarrow> memory_onboarding \<Rightarrow> recovery_record option" where
  "mem_getRecovery ws hash m =
     map_option (\<lambda>(k, e). entry_metadata ws e)
       (find (\<lambda>p. entry_completed ws p \<and> me_recoveryCodeHash (snd p) = hash) (mo_entries m))"

definition mem_getWorkspaceCredentialMetadata :: "string \<Rightarrow> memory_onboarding \<Rightarrow> recovery_record option" where
  "mem_getWorkspaceCredentialMetadata ws m =
     map_option (\<lambda>(k, e). entry_metadata ws e) (find (entry_completed ws) (mo_entries m))"

definition mem_getWorkspaceSetupMetadata :: "string \<Rightarrow> memory_onboarding \<Rightarrow> setup_metadata option" where
  "mem_getWorkspaceSetupMetadata ws m =
     map_option (\<lambda>(k, e). recovery_record.extend (entry_metadata ws e)
         (setup_metadata.fields (map_of (me_identifiers e) ''policyId'')
            (map_of (me_identifiers e) ''mandateId'') (map_of (me_identifiers e) ''providerConfigId'')))
       (find (entry_completed ws) (mo_entries m))"

definition mem_rotateRecoveryCode :: "string \<Rightarrow> string \<Rightarrow> memory_onboarding \<Rightarrow> memory_onboarding \<times> bool" where
  "mem_rotateRecoveryCode ws hash m =
     (case find (entry_completed ws) (mo_entries m) of
        None \<Rightarrow> (m, False)
      | Some (k, e) \<Rightarrow> (set_entry k (e\<lparr>me_recoveryCodeHash := hash\<rparr>) m, True))"

definition mem_listCompletedWorkspaceIds :: "memory_onboarding \<Rightarrow> string list" where
  "mem_listCompletedWorkspaceIds m = concat (map (\<lambda>(k, e). if me_status e = Onb_completed
       then (case truthy (entry_workspace e) of None \<Rightarrow> [] | Some ws \<Rightarrow> [ws]) else []) (mo_entries m))"

end
