(* ===== verification/CustomerOnboarding.thy ===== *)
theory CustomerOnboarding
  imports OnboardingStore
begin

text \<open>
  \<open>src/src/product/customerOnboarding.ts\<close>: creating a workspace, which calls the identity store, the credential
  administration, the provider configuration (\<open>src/src/product/providerConnections.ts\<close> forwards to it), the policy
  publishing and the mandate management in turn, with a heartbeat of its lease between them; the recovery
  of the agent's credential with a one-time code; and replacement credentials. \<open>createWorkspace\<close> is
  a machine of one step per await; the store of operations is the one of the database.
\<close>

section \<open>The environment\<close>

text \<open>
  The hash, the cipher, the key rings of the delivery and of the provider secrets, and the message of
  a database error. A tick is what one step reads from outside: the clock, random bytes, and the
  answer of the provider's verifier.
\<close>

record onboarding_env =
  oe_sha :: "string \<Rightarrow> string"
  oe_aead :: aead
  oe_delivery :: "key_ring option"
  oe_providerRing :: key_ring
  oe_message :: "store_error \<Rightarrow> string"

record onboarding_tick =
  tk_now :: int
  tk_secret :: "nat list"
  tk_nonce :: "nat list"
  tk_verdict :: "store_error option"

definition message_of :: "onboarding_env \<Rightarrow> store_error \<Rightarrow> string" where
  "message_of v e = (case e of Thrown s \<Rightarrow> s | _ \<Rightarrow> oe_message v e)"

section \<open>Requests\<close>

record workspace_input =
  cw_name :: string
  cw_agentName :: string
  cw_provider :: provider_name
  cw_model :: string
  cw_apiKey :: string
  cw_inputUsdPerMillion :: string
  cw_outputUsdPerMillion :: string
  cw_maximumSpendAtomic :: string
  cw_idempotencyKey :: string
  cw_expiresAt :: "dated option"

text \<open>\<open>/^[A-Za-z0-9._:-]{8,128}$/\<close>, \<open>/^\d+(?:\.\d{1,12})?$/\<close>, \<open>/^[1-9]\d*$/\<close>.\<close>

definition key_text_ok :: "string \<Rightarrow> bool" where
  "key_text_ok s \<longleftrightarrow> 8 \<le> length s \<and> length s \<le> 128
     \<and> list_all (\<lambda>c. url_char c \<or> c = CHR ''.'' \<or> c = CHR '':'') s"

definition workspace_id_ok :: "string \<Rightarrow> bool" where
  "workspace_id_ok s \<longleftrightarrow> 8 \<le> length s \<and> length s \<le> 128 \<and> list_all url_char s"

definition price_text_ok :: "string \<Rightarrow> bool" where
  "price_text_ok s \<longleftrightarrow>
     (case match_decimal s of None \<Rightarrow> False | Some (whole, fraction) \<Rightarrow> length fraction \<le> 12)"

definition amount_text_ok :: "string \<Rightarrow> bool" where
  "amount_text_ok s \<longleftrightarrow> s \<noteq> [] \<and> list_all is_digit s \<and> hd s \<noteq> CHR ''0''"

definition validate_workspace :: "workspace_input \<Rightarrow> store_error option" where
  "validate_workspace i = first_error
     [(blank (cw_name i), Thrown ''WORKSPACE_NAME_REQUIRED''),
      (\<not> key_text_ok (cw_idempotencyKey i), Thrown ''IDEMPOTENCY_KEY_INVALID''),
      (blank (cw_agentName i), Thrown ''AGENT_NAME_REQUIRED''),
      (blank (cw_model i), Thrown ''MODEL_REQUIRED''),
      (blank (cw_apiKey i), Thrown ''PROVIDER_API_KEY_REQUIRED''),
      (\<not> price_text_ok (cw_inputUsdPerMillion i), Thrown ''INPUT_PRICE_INVALID''),
      (\<not> price_text_ok (cw_outputUsdPerMillion i), Thrown ''OUTPUT_PRICE_INVALID''),
      (\<not> amount_text_ok (cw_maximumSpendAtomic i), Thrown ''MAXIMUM_SPEND_INVALID'')]"

definition workspace_fingerprint :: "(string \<Rightarrow> string) \<Rightarrow> workspace_input \<Rightarrow> string" where
  "workspace_fingerprint sha i = sha (stringify (JObj
     [(''name'', JStr (js_trim (cw_name i))), (''agentName'', JStr (js_trim (cw_agentName i))),
      (''provider'', JStr (provider_text (cw_provider i))), (''model'', JStr (js_trim (cw_model i))),
      (''apiKey'', JStr (sha (cw_apiKey i))), (''inputUsdPerMillion'', JStr (cw_inputUsdPerMillion i)),
      (''outputUsdPerMillion'', JStr (cw_outputUsdPerMillion i)),
      (''maximumSpendAtomic'', JStr (cw_maximumSpendAtomic i)),
      (''expiresAt'', null_or (\<lambda>t. JStr (fst t)) (cw_expiresAt i))]))"

section \<open>A worker\<close>

record workspace_ids =
  wi_workspace :: string
  wi_serviceAccount :: string
  wi_serviceCredential :: string
  wi_agent :: string
  wi_agentCredential :: string
  wi_policy :: string
  wi_mandate :: string
  wi_providerConfig :: string

datatype onboarding_task =
    T_bootstrap | T_heartbeat | T_register | T_credential | T_connect | T_verify | T_publish
  | T_mandate | T_assign | T_activate | T_complete

datatype onboarding_phase =
    Claiming | Working "onboarding_task list" | Unwinding store_error | Recording store_error
  | Ended "store_error + json"

record onboarding_worker =
  ow_input :: workspace_input
  ow_ids :: workspace_ids
  ow_occurredAt :: int
  ow_recoveryCode :: string
  ow_phase :: onboarding_phase
  ow_adminCredential :: "delivered_credential option"
  ow_agentCredential :: "delivered_credential option"
  ow_summary :: "provider_summary option"

abbreviation worker_key :: "onboarding_worker \<Rightarrow> string" where
  "worker_key w \<equiv> cw_idempotencyKey (ow_input w)"

abbreviation worker_workspace :: "onboarding_worker \<Rightarrow> string" where
  "worker_workspace w \<equiv> wi_workspace (ow_ids w)"

text \<open>\<open>body\<close>: the awaits of the \<open>try\<close> block in their order.\<close>

definition onboarding_body :: "onboarding_task list" where
  "onboarding_body =
     [T_bootstrap, T_heartbeat, T_register, T_heartbeat, T_credential, T_heartbeat, T_connect, T_verify,
      T_heartbeat, T_publish, T_heartbeat, T_mandate, T_heartbeat, T_assign, T_heartbeat, T_activate,
      T_heartbeat, T_complete]"

definition recovery_code :: "nat list \<Rightarrow> string" where
  "recovery_code secret = ''fuse_rc_'' @ base64url secret"

text \<open>The part of \<open>createWorkspace\<close> before its first await; \<open>secret\<close> is 18 random bytes.\<close>

definition start_workspace ::
    "workspace_ids \<Rightarrow> nat list \<Rightarrow> int \<Rightarrow> workspace_input \<Rightarrow> store_error + onboarding_worker" where
  "start_workspace ids secret now i =
     and_then (check (validate_workspace i)) (\<lambda>_.
     Inr \<lparr>ow_input = i, ow_ids = ids, ow_occurredAt = now, ow_recoveryCode = recovery_code secret,
          ow_phase = Claiming, ow_adminCredential = None, ow_agentCredential = None, ow_summary = None\<rparr>)"

definition identifiers_of :: "workspace_ids \<Rightarrow> (string \<times> string) list" where
  "identifiers_of k =
     [(''workspaceId'', wi_workspace k), (''serviceAccountId'', wi_serviceAccount k),
      (''serviceCredentialId'', wi_serviceCredential k), (''agentId'', wi_agent k),
      (''agentCredentialId'', wi_agentCredential k), (''policyId'', wi_policy k),
      (''mandateId'', wi_mandate k), (''providerConfigId'', wi_providerConfig k)]"

definition claim_of :: "(string \<Rightarrow> string) \<Rightarrow> onboarding_worker \<Rightarrow> claim_input" where
  "claim_of sha w =
     \<lparr>cl_idempotencyKey = worker_key w, cl_fingerprint = workspace_fingerprint sha (ow_input w),
      cl_recoveryCodeHash = sha (ow_recoveryCode w), cl_identifiers = identifiers_of (ow_ids w),
      cl_now = Some (ow_occurredAt w), cl_staleAfterMs = Some (15 * 60000)\<rparr>"

text \<open>A replayed result is returned when it has a token; property access on a missing object throws.\<close>

definition answer_replay :: "json option \<Rightarrow> store_error + json" where
  "answer_replay r =
     (let unavailable = Inl (Thrown ''WORKSPACE_CREATED_CREDENTIAL_UNAVAILABLE'') in
      case r of
        None \<Rightarrow> unavailable
      | Some j \<Rightarrow>
          if j = JNull then unavailable
          else (case obj_get ''credential'' j of
             None \<Rightarrow> Inl (Thrown ''TypeError'')
           | Some c \<Rightarrow> (case obj_get ''token'' c of Some (JStr (x # xs)) \<Rightarrow> Inr j | _ \<Rightarrow> unavailable)))"

section \<open>The tasks\<close>

definition workspaceAdminCapabilities :: "capability_text list" where
  "workspaceAdminCapabilities = map Known
     [Agents_write, Credentials_issue, Credentials_revoke, Providers_write, Policies_write, Mandates_admin]"

definition administrationCapabilities :: "capability_text list" where
  "administrationCapabilities = workspaceAdminCapabilities
     @ map Known [Providers_read, Policies_read, Mandates_read, Receipts_read, Sandbox_run]"

definition workspaceAgentCapabilities :: "capability_text list" where
  "workspaceAgentCapabilities = map Known [Inference_invoke, Receipts_read]"

definition expiry_of :: "workspace_input \<Rightarrow> timestamp option" where
  "expiry_of i = map_option snd (cw_expiresAt i)"

definition delivered :: "string \<Rightarrow> dated option \<Rightarrow> credential_record \<Rightarrow> delivered_credential" where
  "delivered token expires c =
     \<lparr>dc_credentialId = cred_id c, dc_token = Some token, dc_tokenPrefix = cred_tokenPrefix c,
      dc_capabilities = cred_capabilities c, dc_expiresAt = expires\<rparr>"

definition delivered_issue :: "dated option \<Rightarrow> issued_credential \<Rightarrow> delivered_credential" where
  "delivered_issue expires c =
     \<lparr>dc_credentialId = ic_credentialId c, dc_token = Some (ic_token c), dc_tokenPrefix = ic_tokenPrefix c,
      dc_capabilities = ic_capabilities c, dc_expiresAt = expires\<rparr>"

definition workspace_principal :: "onboarding_worker \<Rightarrow> principal" where
  "workspace_principal w =
     \<lparr>pc_type = Service_credential, pc_id = wi_serviceAccount (ow_ids w),
      pc_organizationId = worker_workspace w, pc_credentialId = wi_serviceCredential (ow_ids w),
      pc_capabilities = administrationCapabilities, pc_role = Some Role_admin, pc_expiresAt = None,
      pc_sourceCredentialId = None, pc_sourceCredentialType = None\<rparr>"

definition request_of :: "onboarding_worker \<Rightarrow> string \<Rightarrow> string" where
  "request_of w s = worker_workspace w @ '':'' @ s"

definition admin_credential_input :: "onboarding_worker \<Rightarrow> credential_input" where
  "admin_credential_input w =
     \<lparr>ci_id = wi_serviceCredential (ow_ids w), ci_organizationId = worker_workspace w,
      ci_ownerId = wi_serviceAccount (ow_ids w), ci_name = ''Fuse customer administration'',
      ci_capabilities = administrationCapabilities, ci_createdAt = Instant (ow_occurredAt w),
      ci_expiresAt = expiry_of (ow_input w)\<rparr>"

definition bootstrap_task ::
    "onboarding_env \<Rightarrow> onboarding_tick \<Rightarrow> onboarding_worker \<Rightarrow> fuse_db
       \<Rightarrow> store_error + (fuse_db \<times> onboarding_worker)" where
  "bootstrap_task v t w d =
     and_then (thrown_creation ''SERVICE_CREDENTIAL'' ''_ACCOUNT_REQUIRED''
         (createServiceAccountCredential (oe_sha v) (tk_secret t) (admin_credential_input w))) (\<lambda>(token, c).
     and_then (bootstrapServiceAccount
         (bootstrap_input.make
            \<lparr>ctx_actorId = ''workspace:'' @ worker_workspace w, ctx_causationId = request_of w ''bootstrap'',
             ctx_occurredAt = Instant (ow_occurredAt w)\<rparr>
            (worker_workspace w) (cw_name (ow_input w)) (wi_serviceAccount (ow_ids w))
            ''Fuse customer administration'' c) (fd_identity d)) (\<lambda>s.
     Inr (d\<lparr>fd_identity := s\<rparr>,
       w\<lparr>ow_adminCredential := Some (delivered token (cw_expiresAt (ow_input w)) c)\<rparr>)))"

definition register_task ::
    "onboarding_tick \<Rightarrow> onboarding_worker \<Rightarrow> fuse_db \<Rightarrow> store_error + (fuse_db \<times> onboarding_worker)" where
  "register_task t w d =
     and_then (admin_registerAgent (workspace_principal w) (wi_agent (ow_ids w)) (cw_agentName (ow_input w))
         (request_of w ''agent'') (Instant (tk_now t)) (fd_identity d)) (\<lambda>s.
     Inr (d\<lparr>fd_identity := s\<rparr>, w))"

definition credential_task ::
    "onboarding_env \<Rightarrow> onboarding_tick \<Rightarrow> onboarding_worker \<Rightarrow> fuse_db
       \<Rightarrow> store_error + (fuse_db \<times> onboarding_worker)" where
  "credential_task v t w d =
     and_then (issueAgentCredential (oe_sha v) (tk_secret t) (workspace_principal w)
         \<lparr>is_credentialId = wi_agentCredential (ow_ids w), is_ownerId = wi_agent (ow_ids w),
          is_name = ''Default inference credential'', is_capabilities = workspaceAgentCapabilities,
          is_expiresAt = expiry_of (ow_input w), is_requestId = request_of w ''agent-credential''\<rparr>
         (Instant (tk_now t)) (fd_identity d)) (\<lambda>(s, c).
     Inr (d\<lparr>fd_identity := s\<rparr>,
       w\<lparr>ow_agentCredential := Some (delivered_issue (cw_expiresAt (ow_input w)) c)\<rparr>))"

definition provider_command :: "onboarding_worker \<Rightarrow> configure_command" where
  "provider_command w =
     (let i = ow_input w in
      \<lparr>pm_configId = wi_providerConfig (ow_ids w), pm_provider = cw_provider i, pm_model = cw_model i,
       pm_apiKey = cw_apiKey i, pm_inputUsdPerMillion = cw_inputUsdPerMillion i,
       pm_outputUsdPerMillion = cw_outputUsdPerMillion i, pm_requestId = request_of w ''provider''\<rparr>)"

definition connect_task ::
    "onboarding_env \<Rightarrow> onboarding_tick \<Rightarrow> onboarding_worker \<Rightarrow> fuse_db
       \<Rightarrow> store_error + (fuse_db \<times> onboarding_worker)" where
  "connect_task v t w d =
     and_then (configure_begin (oe_aead v) (oe_providerRing v) (tk_nonce t) (workspace_principal w)
         (provider_command w) (Instant (tk_now t)) (provider_view d)) (\<lambda>(s, summary).
     Inr (d\<lparr>fd_provider := s\<rparr>, w\<lparr>ow_summary := Some summary\<rparr>))"

text \<open>The second half of \<open>configure\<close>; a refused credential is marked before the error is thrown.\<close>

definition verify_task ::
    "onboarding_tick \<Rightarrow> onboarding_worker \<Rightarrow> fuse_db \<Rightarrow> fuse_db \<times> (store_error + onboarding_worker)" where
  "verify_task t w d =
     (case ow_summary w of
        None \<Rightarrow> (d, Inl (Thrown ''TypeError''))
      | Some summary \<Rightarrow>
          (let (s, r) = configure_end (worker_workspace w) (wi_providerConfig (ow_ids w)) (Instant (tk_now t))
             summary (tk_verdict t) (provider_view d)
           in (d\<lparr>fd_provider := s\<rparr>, and_then r (\<lambda>_. Inr w))))"

definition workspace_policy :: "onboarding_worker \<Rightarrow> product_policy" where
  "workspace_policy w =
     (let i = ow_input w in
      \<lparr>pq_input =
         \<lparr>pp_policyId = wi_policy (ow_ids w), pp_version = 1, pp_mode = Enforce,
          pp_allowedProviders = [provider_text (cw_provider i)], pp_allowedModels = [cw_model i],
          pp_requiredCapability = Known Inference_invoke,
          pp_limits = \<lparr>maxPerCallAtomic = 0, maxHourlyAtomic = 0, maxDailyAtomic = 0,
            maxRequestsPerMinute = 10, maxInputTokens = 32000, maxOutputTokens = 4096\<rparr>,
          pp_workloadClasses = [], pp_requestId = request_of w ''policy''\<rparr>,
       pq_maxPerCallAtomic = cw_maximumSpendAtomic i, pq_maxHourlyAtomic = cw_maximumSpendAtomic i,
       pq_maxDailyAtomic = cw_maximumSpendAtomic i, pq_workloadClasses = []\<rparr>)"

definition workspace_mandate :: "onboarding_worker \<Rightarrow> create_mandate_input" where
  "workspace_mandate w =
     \<lparr>mq_mandateId = wi_mandate (ow_ids w), mq_name = ''Default bounded inference mandate'',
      mq_assetId = ''USDC'', mq_maximumSpendAtomic = 0, mq_policyId = wi_policy (ow_ids w),
      mq_policyVersion = 1, mq_expiresAt = expiry_of (ow_input w), mq_requestId = request_of w ''mandate''\<rparr>"

definition on_policy ::
    "(policy_store \<Rightarrow> store_error + policy_store) \<Rightarrow> onboarding_worker \<Rightarrow> fuse_db
       \<Rightarrow> store_error + (fuse_db \<times> onboarding_worker)" where
  "on_policy f w d = and_then (f (policy_view d)) (\<lambda>s. Inr (d\<lparr>fd_policy := s\<rparr>, w))"

definition publish_task ::
    "onboarding_tick \<Rightarrow> onboarding_worker \<Rightarrow> fuse_db \<Rightarrow> store_error + (fuse_db \<times> onboarding_worker)" where
  "publish_task t w =
     on_policy (product_publish (workspace_principal w) (workspace_policy w) (Instant (tk_now t))) w"

definition mandate_task ::
    "onboarding_tick \<Rightarrow> onboarding_worker \<Rightarrow> fuse_db \<Rightarrow> store_error + (fuse_db \<times> onboarding_worker)" where
  "mandate_task t w =
     on_policy (product_createMandate (workspace_principal w) (workspace_mandate w)
       (cw_maximumSpendAtomic (ow_input w)) (Instant (tk_now t))) w"

definition assign_task ::
    "onboarding_tick \<Rightarrow> onboarding_worker \<Rightarrow> fuse_db \<Rightarrow> store_error + (fuse_db \<times> onboarding_worker)" where
  "assign_task t w =
     on_policy (admin_assignAgent (workspace_principal w) (wi_mandate (ow_ids w)) (wi_agent (ow_ids w))
       (request_of w ''assignment'') (Instant (tk_now t))) w"

definition activate_task ::
    "onboarding_tick \<Rightarrow> onboarding_worker \<Rightarrow> fuse_db \<Rightarrow> store_error + (fuse_db \<times> onboarding_worker)" where
  "activate_task t w =
     on_policy (admin_transitionMandate (workspace_principal w) (wi_mandate (ow_ids w)) M_active
       (request_of w ''activation'') (Instant (tk_now t))) w"

definition heartbeat_task ::
    "onboarding_tick \<Rightarrow> onboarding_worker \<Rightarrow> fuse_db \<Rightarrow> store_error + (fuse_db \<times> onboarding_worker)" where
  "heartbeat_task t w d =
     and_then (heartbeat (worker_key w) (worker_workspace w) (tk_now t) d) (\<lambda>d'. Inr (d', w))"

definition result_of :: "onboarding_worker \<Rightarrow> workspace_result" where
  "result_of w =
     \<lparr>wr_workspaceId = worker_workspace w, wr_agentId = wi_agent (ow_ids w),
      wr_mandateId = wi_mandate (ow_ids w), wr_policyId = wi_policy (ow_ids w),
      wr_providerConfigId = wi_providerConfig (ow_ids w),
      wr_adminCredential = the (ow_adminCredential w), wr_credential = the (ow_agentCredential w),
      wr_recoveryCode = Some (ow_recoveryCode w)\<rparr>"

definition complete_task ::
    "onboarding_env \<Rightarrow> onboarding_tick \<Rightarrow> onboarding_worker \<Rightarrow> fuse_db
       \<Rightarrow> store_error + (fuse_db \<times> onboarding_worker)" where
  "complete_task v t w d =
     and_then (complete_operation (oe_aead v) (oe_delivery v) (tk_nonce t) (tk_now t) (worker_key w)
         (result_of w) d) (\<lambda>d'. Inr (d', w))"

text \<open>A task that throws has changed nothing, but for the mark of a refused credential.\<close>

definition unchanged_on_error ::
    "fuse_db \<Rightarrow> store_error + (fuse_db \<times> onboarding_worker) \<Rightarrow> fuse_db \<times> (store_error + onboarding_worker)" where
  "unchanged_on_error d r = (case r of Inl e \<Rightarrow> (d, Inl e) | Inr (d', w') \<Rightarrow> (d', Inr w'))"

fun run_task ::
    "onboarding_env \<Rightarrow> onboarding_tick \<Rightarrow> onboarding_task \<Rightarrow> onboarding_worker \<Rightarrow> fuse_db
       \<Rightarrow> fuse_db \<times> (store_error + onboarding_worker)" where
  "run_task v t T_bootstrap w d = unchanged_on_error d (bootstrap_task v t w d)"
| "run_task v t T_heartbeat w d = unchanged_on_error d (heartbeat_task t w d)"
| "run_task v t T_register w d = unchanged_on_error d (register_task t w d)"
| "run_task v t T_credential w d = unchanged_on_error d (credential_task v t w d)"
| "run_task v t T_connect w d = unchanged_on_error d (connect_task v t w d)"
| "run_task v t T_verify w d = verify_task t w d"
| "run_task v t T_publish w d = unchanged_on_error d (publish_task t w d)"
| "run_task v t T_mandate w d = unchanged_on_error d (mandate_task t w d)"
| "run_task v t T_assign w d = unchanged_on_error d (assign_task t w d)"
| "run_task v t T_activate w d = unchanged_on_error d (activate_task t w d)"
| "run_task v t T_complete w d = unchanged_on_error d (complete_task v t w d)"

section \<open>One step of a worker\<close>

definition claim_step ::
    "onboarding_env \<Rightarrow> onboarding_tick \<Rightarrow> onboarding_worker \<Rightarrow> fuse_db \<Rightarrow> fuse_db \<times> onboarding_worker" where
  "claim_step v t w d =
     (case claim_operation (oe_aead v) (oe_delivery v) (tk_now t) (claim_of (oe_sha v) w) d of
        Inl e \<Rightarrow> (d, w\<lparr>ow_phase := Ended (Inl e)\<rparr>)
      | Inr (d', Claim_new) \<Rightarrow> (d', w\<lparr>ow_phase := Working onboarding_body\<rparr>)
      | Inr (d', Claim_conflict) \<Rightarrow> (d', w\<lparr>ow_phase := Ended (Inl (Thrown ''WORKSPACE_IDEMPOTENCY_CONFLICT''))\<rparr>)
      | Inr (d', Claim_in_progress) \<Rightarrow> (d', w\<lparr>ow_phase := Ended (Inl (Thrown ''WORKSPACE_ONBOARDING_IN_PROGRESS''))\<rparr>)
      | Inr (d', Claim_replay r) \<Rightarrow> (d', w\<lparr>ow_phase := Ended (answer_replay r)\<rparr>))"

definition work_step ::
    "onboarding_env \<Rightarrow> onboarding_tick \<Rightarrow> onboarding_task \<Rightarrow> onboarding_task list \<Rightarrow> onboarding_worker \<Rightarrow> fuse_db
       \<Rightarrow> fuse_db \<times> onboarding_worker" where
  "work_step v t k ks w d =
     (case run_task v t k w d of
        (d', Inl e) \<Rightarrow> (d', w\<lparr>ow_phase := Unwinding e\<rparr>)
      | (d', Inr w') \<Rightarrow>
          (d', w'\<lparr>ow_phase := (if ks = [] then Ended (Inr (result_json (result_of w'))) else Working ks)\<rparr>))"

definition onboarding_step ::
    "onboarding_env \<Rightarrow> onboarding_tick \<Rightarrow> onboarding_worker \<Rightarrow> fuse_db \<Rightarrow> fuse_db \<times> onboarding_worker" where
  "onboarding_step v t w d =
     (case ow_phase w of
        Claiming \<Rightarrow> claim_step v t w d
      | Working [] \<Rightarrow> (d, w)
      | Working (k # ks) \<Rightarrow> work_step v t k ks w d
      | Unwinding e \<Rightarrow>
          (case rollback_operation (worker_key w) (worker_workspace w) (message_of v e) (tk_now t) d of
             Inl e' \<Rightarrow> (d, w\<lparr>ow_phase := Recording e'\<rparr>)
           | Inr d' \<Rightarrow> (d', w\<lparr>ow_phase := Ended (Inl e)\<rparr>))
      | Recording e \<Rightarrow>
          (recordRollbackFailure (worker_key w) (worker_workspace w) (message_of v e) (tk_now t) d,
           w\<lparr>ow_phase := Ended (Inl (Thrown ''WORKSPACE_ONBOARDING_ROLLBACK_FAILED''))\<rparr>)
      | Ended r \<Rightarrow> (d, w))"

section \<open>Recovery and replacement\<close>

text \<open>
  \<open>recoverWorkspaceCredential\<close>: the first transaction reads the record, the second rotates the credential.
  \<open>deps\<close> are the two fresh identifiers.
\<close>

definition recovery_code_ok :: "string \<Rightarrow> bool" where
  "recovery_code_ok s \<longleftrightarrow> prefixed_token ''fuse_rc_'' 16 128 s"

definition recover_request_error :: "string \<Rightarrow> string \<Rightarrow> string \<Rightarrow> store_error option" where
  "recover_request_error ws code key = first_error
     [(\<not> workspace_id_ok ws, Thrown ''WORKSPACE_ID_INVALID''),
      (\<not> recovery_code_ok code, Thrown ''RECOVERY_CODE_INVALID''),
      (\<not> key_text_ok key, Thrown ''IDEMPOTENCY_KEY_INVALID'')]"

definition recover_begin ::
    "onboarding_env \<Rightarrow> string \<Rightarrow> string \<Rightarrow> string \<Rightarrow> fuse_db \<Rightarrow> store_error + recovery_answer" where
  "recover_begin v ws code key d =
     and_then (check (recover_request_error ws code key)) (\<lambda>_.
     and_then (getRecovery (oe_aead v) (oe_delivery v) ws (oe_sha v code) key d) (\<lambda>r.
     case r of None \<Rightarrow> Inl (Thrown ''CREDENTIAL_RECOVERY_INVALID'') | Some x \<Rightarrow> Inr x))"

definition recovered_input :: "string \<Rightarrow> int \<Rightarrow> string \<Rightarrow> recovery_record \<Rightarrow> credential_input" where
  "recovered_input fresh now agentId r =
     \<lparr>ci_id = fresh, ci_organizationId = rr_workspaceId r, ci_ownerId = agentId,
      ci_name = ''Recovered inference credential'', ci_capabilities = workspaceAgentCapabilities,
      ci_createdAt = Instant now, ci_expiresAt = map_option snd (rr_expiresAt r)\<rparr>"

definition identifier_text :: "string option \<Rightarrow> string" where
  "identifier_text s = (case s of None \<Rightarrow> ''undefined'' | Some x \<Rightarrow> x)"

definition recover_end ::
    "onboarding_env \<Rightarrow> onboarding_tick \<Rightarrow> string \<Rightarrow> string \<Rightarrow> string \<Rightarrow> string \<Rightarrow> recovery_record \<Rightarrow> fuse_db
       \<Rightarrow> store_error + (fuse_db \<times> recovery_result)" where
  "recover_end v t fresh fresh' code key r d =
     (case rr_agentId r of
        None \<Rightarrow> Inl (Thrown ''TypeError'')
      | Some agentId \<Rightarrow>
          and_then (thrown_creation ''API_CREDENTIAL'' ''_AGENT_REQUIRED''
              (createApiCredential (oe_sha v) (tk_secret t) (recovered_input fresh (tk_now t) agentId r))) (\<lambda>(token, c).
          let result = \<lparr>rv_workspaceId = rr_workspaceId r, rv_agentId = agentId,
                rv_credential = delivered token (rr_expiresAt r) c\<rparr> in
          and_then (sealRecoveryResult (oe_aead v) (oe_delivery v) (tk_nonce t) result (oe_sha v code) key) (\<lambda>envelope.
          and_then (rotateAgentCredentialWithRecovery
              \<lparr>ro_context = \<lparr>ctx_actorId = ''service_account:'' @ identifier_text (rr_serviceAccountId r),
                 ctx_causationId = rr_workspaceId r @ '':credential-recovery:'' @ fresh',
                 ctx_occurredAt = Instant (tk_now t)\<rparr>,
               ro_workspaceId = rr_workspaceId r, ro_recoveryCodeHash = oe_sha v code,
               ro_recoveryDeliveryId = key, ro_recoveryDeliveryEnvelope = envelope, ro_replacement = c\<rparr>
              (fd_identity d)) (\<lambda>(s, _).
          Inr (d\<lparr>fd_identity := s\<rparr>, result)))))"

definition product_setup_metadata :: "string \<Rightarrow> fuse_db \<Rightarrow> store_error + setup_metadata option" where
  "product_setup_metadata ws d =
     (if \<not> key_text_ok ws then Inl (Thrown ''WORKSPACE_ID_INVALID'') else Inr (getWorkspaceSetupMetadata ws d))"

text \<open>
  \<open>issueReplacementCredentials\<close> is three transactions after the query of the metadata; an error keeps what
  the earlier ones wrote.
\<close>

record credential_package =
  ck_workspaceId :: string
  ck_serviceCredential :: delivered_credential
  ck_agentCredential :: delivered_credential
  ck_recoveryCode :: string

definition replacement_begin :: "principal \<Rightarrow> string \<Rightarrow> fuse_db \<Rightarrow> store_error + recovery_record" where
  "replacement_begin p ws d =
     and_then (check (first_error
       [(\<not> key_text_ok ws, Thrown ''WORKSPACE_ID_INVALID''),
        (pc_organizationId p \<noteq> ws, Thrown ''WORKSPACE_SCOPE_MISMATCH'')])) (\<lambda>_.
     case getWorkspaceCredentialMetadata ws d of
       None \<Rightarrow> Inl (Thrown ''WORKSPACE_NOT_FOUND'') | Some m \<Rightarrow> Inr m)"

definition replacement_service ::
    "onboarding_env \<Rightarrow> onboarding_tick \<Rightarrow> string \<Rightarrow> string \<Rightarrow> principal \<Rightarrow> recovery_record \<Rightarrow> fuse_db
       \<Rightarrow> store_error + (fuse_db \<times> delivered_credential)" where
  "replacement_service v t fresh fresh' p m d =
     (case rr_serviceAccountId m of
        None \<Rightarrow> Inl (Thrown ''TypeError'')
      | Some account \<Rightarrow>
          and_then (admin_issueServiceAccountCredential (oe_sha v) (tk_secret t) p
              \<lparr>is_credentialId = fresh, is_ownerId = account,
               is_name = ''Fuse customer administration replacement'',
               is_capabilities = administrationCapabilities,
               is_expiresAt = map_option snd (rr_expiresAt m),
               is_requestId = rr_workspaceId m @ '':service-credential-replacement:'' @ fresh'\<rparr>
              (Instant (tk_now t)) (fd_identity d)) (\<lambda>(s, c).
          Inr (d\<lparr>fd_identity := s\<rparr>, delivered_issue (rr_expiresAt m) c)))"

definition replacement_agent ::
    "onboarding_env \<Rightarrow> onboarding_tick \<Rightarrow> string \<Rightarrow> string \<Rightarrow> principal \<Rightarrow> recovery_record \<Rightarrow> fuse_db
       \<Rightarrow> store_error + (fuse_db \<times> delivered_credential)" where
  "replacement_agent v t fresh fresh' p m d =
     (case rr_agentId m of
        None \<Rightarrow> Inl (Thrown ''TypeError'')
      | Some agentId \<Rightarrow>
          and_then (issueAgentCredential (oe_sha v) (tk_secret t) p
              \<lparr>is_credentialId = fresh, is_ownerId = agentId, is_name = ''Replacement inference credential'',
               is_capabilities = workspaceAgentCapabilities,
               is_expiresAt = map_option snd (rr_expiresAt m),
               is_requestId = rr_workspaceId m @ '':agent-credential-replacement:'' @ fresh'\<rparr>
              (Instant (tk_now t)) (fd_identity d)) (\<lambda>(s, c).
          Inr (d\<lparr>fd_identity := s\<rparr>, delivered_issue (rr_expiresAt m) c)))"

definition replacement_end ::
    "onboarding_env \<Rightarrow> onboarding_tick \<Rightarrow> int \<Rightarrow> recovery_record \<Rightarrow> delivered_credential \<Rightarrow> delivered_credential
       \<Rightarrow> fuse_db \<Rightarrow> fuse_db \<times> (store_error + credential_package)" where
  "replacement_end v t occurredAt m service agent d =
     (let code = recovery_code (tk_secret t);
          (d', rotated) = rotateRecoveryCode (rr_workspaceId m) (oe_sha v code) (Some occurredAt) (tk_now t) d
      in (d', if rotated then Inr \<lparr>ck_workspaceId = rr_workspaceId m, ck_serviceCredential = service,
                 ck_agentCredential = agent, ck_recoveryCode = code\<rparr>
              else Inl (Thrown ''WORKSPACE_NOT_FOUND'')))"

text \<open>The principal of the beta recovery, when exactly one workspace is completed.\<close>

definition beta_recovery_principal :: "fuse_db \<Rightarrow> store_error + principal" where
  "beta_recovery_principal d =
     (case listCompletedWorkspaceIds d of
        [] \<Rightarrow> Inl (Thrown ''WORKSPACE_NOT_FOUND'')
      | [ws] \<Rightarrow>
          (case getWorkspaceCredentialMetadata ws d of
             None \<Rightarrow> Inl (Thrown ''WORKSPACE_NOT_FOUND'')
           | Some m \<Rightarrow> Inr
               \<lparr>pc_type = Service_credential, pc_id = identifier_text (rr_serviceAccountId m),
                pc_organizationId = rr_workspaceId m,
                pc_credentialId = identifier_text (rr_serviceCredentialId m),
                pc_capabilities = administrationCapabilities, pc_role = Some Role_admin, pc_expiresAt = None,
                pc_sourceCredentialId = None, pc_sourceCredentialType = None\<rparr>)
      | _ \<Rightarrow> Inl (Thrown ''WORKSPACE_RECOVERY_AMBIGUOUS''))"

end
