(* ===== verification/OnboardingRun.thy ===== *)
theory OnboardingRun
  imports CustomerOnboarding AdministrationProperties PolicyAdministrationProperties
begin

text \<open>
  Any number of calls of \<open>CustomerOnboardingService.createWorkspace\<close> (\<open>src/src/product/customerOnboarding.ts\<close>) at once,
  over one database: each advances by one await at a time, and other requests change what they may between.
  The invariants say which rows a call can have written, and that a completed operation
  (\<open>src/src/product/workspaceOnboardingStore.ts\<close>) stays as it is.
\<close>

section \<open>The rows of a workspace\<close>

definition identity_rows :: "string \<Rightarrow> identity_db \<Rightarrow> identity_db" where
  "identity_rows ws s = empty_db
     \<lparr>db_organizations := filter (\<lambda>r. og_id r = ws) (db_organizations s),
      db_memberships := filter (\<lambda>r. mb_organizationId r = ws) (db_memberships s),
      db_serviceAccounts := filter (\<lambda>r. sa_organizationId r = ws) (db_serviceAccounts s),
      db_agents := filter (\<lambda>r. ag_organizationId r = ws) (db_agents s),
      db_serviceCredentials := filter (\<lambda>r. cr_organizationId r = ws) (db_serviceCredentials s),
      db_agentCredentials := filter (\<lambda>r. cr_organizationId r = ws) (db_agentCredentials s),
      db_audit := filter (\<lambda>r. au_organizationId r = ws) (db_audit s)\<rparr>"

definition policy_rows ::
    "string \<Rightarrow> policy_store \<Rightarrow> policy_row list \<times> mandate_row list \<times> assignment_row list \<times> audit_row list" where
  "policy_rows ws s =
     (filter (\<lambda>r. pol_organizationId (pr_policy r) = ws) (st_policies s),
      filter (\<lambda>r. cm_organizationId r = ws) (st_mandates s),
      filter (\<lambda>r. as_organizationId r = ws) (st_assignments s),
      filter (\<lambda>r. au_organizationId r = ws) (st_audit s))"

definition provider_rows :: "string \<Rightarrow> provider_db \<Rightarrow> provider_row list \<times> retry_row list \<times> audit_row list" where
  "provider_rows ws s =
     (filter (\<lambda>r. pf_organizationId r = ws) (px_configurations s),
      filter (\<lambda>r. vr_organizationId r = ws) (px_retries s),
      filter (\<lambda>r. au_organizationId r = ws) (px_audit s))"

text \<open>The rows that name the workspace, in the tables that a rollback clears.\<close>

definition workspace_rows where
  "workspace_rows ws d =
     (identity_rows ws (fd_identity d), policy_rows ws (fd_policy d), provider_rows ws (fd_provider d))"

definition no_rows where
  "no_rows = (empty_db, ([] :: policy_row list, [] :: mandate_row list, [] :: assignment_row list, [] :: audit_row list),
     ([] :: provider_row list, [] :: retry_row list, [] :: audit_row list))"

lemma rows_defs: "workspace_rows ws d = workspace_rows ws d' \<longleftrightarrow>
    identity_rows ws (fd_identity d) = identity_rows ws (fd_identity d')
    \<and> policy_rows ws (fd_policy d) = policy_rows ws (fd_policy d')
    \<and> provider_rows ws (fd_provider d) = provider_rows ws (fd_provider d')"
  by (simp add: workspace_rows_def)

lemma filter_inside: "org \<noteq> ws \<Longrightarrow> filter (\<lambda>r. f r = ws) xs = filter (\<lambda>r. f r = ws) (filter (\<lambda>r. f r \<noteq> org) xs)"
  by (induction xs) auto

lemma filter_inside_eq:
  "filter (\<lambda>r. f r \<noteq> org) xs = filter (\<lambda>r. f r \<noteq> org) ys \<Longrightarrow> org \<noteq> ws \<Longrightarrow>
     filter (\<lambda>r. f r = ws) xs = filter (\<lambda>r. f r = ws) ys"
  by (metis filter_inside)

lemma outside_rows:
  assumes "outside org s' = outside org s" and "org \<noteq> ws"
  shows "identity_rows ws s' = identity_rows ws s"
proof -
  have f: "db_organizations s' = db_organizations s" "db_memberships s' = db_memberships s"
    "db_serviceAccounts s' = db_serviceAccounts s"
    "filter (\<lambda>r. ag_organizationId r \<noteq> org) (db_agents s') = filter (\<lambda>r. ag_organizationId r \<noteq> org) (db_agents s)"
    "filter (\<lambda>r. cr_organizationId r \<noteq> org) (db_serviceCredentials s') =
       filter (\<lambda>r. cr_organizationId r \<noteq> org) (db_serviceCredentials s)"
    "filter (\<lambda>r. cr_organizationId r \<noteq> org) (db_agentCredentials s') =
       filter (\<lambda>r. cr_organizationId r \<noteq> org) (db_agentCredentials s)"
    "filter (\<lambda>r. au_organizationId r \<noteq> org) (db_audit s') = filter (\<lambda>r. au_organizationId r \<noteq> org) (db_audit s)"
    using arg_cong [OF assms(1), of db_organizations] arg_cong [OF assms(1), of db_memberships]
      arg_cong [OF assms(1), of db_serviceAccounts] arg_cong [OF assms(1), of db_agents]
      arg_cong [OF assms(1), of db_serviceCredentials] arg_cong [OF assms(1), of db_agentCredentials]
      arg_cong [OF assms(1), of db_audit]
    by (simp_all add: outside_def)
  show ?thesis
    unfolding identity_rows_def f(1-3)
    by (simp only: filter_inside_eq [OF f(4) assms(2)] filter_inside_eq [OF f(5) assms(2)]
        filter_inside_eq [OF f(6) assms(2)] filter_inside_eq [OF f(7) assms(2)])
qed

lemma outside_operations: "outside org s' = outside org s \<Longrightarrow> db_operations s' = db_operations s"
  by (drule arg_cong [of _ _ db_operations]) (simp add: outside_def)

lemma acted_rows:
  assumes "acted org c s s'" and "org \<noteq> ws"
  shows "policy_rows ws s' = policy_rows ws s"
proof -
  have eq: "outside_store org s' = outside_store org s" using assms(1) by (simp add: acted_def)
  have f: "filter (\<lambda>r. pol_organizationId (pr_policy r) \<noteq> org) (st_policies s') =
      filter (\<lambda>r. pol_organizationId (pr_policy r) \<noteq> org) (st_policies s)"
    "filter (\<lambda>r. cm_organizationId r \<noteq> org) (st_mandates s') = filter (\<lambda>r. cm_organizationId r \<noteq> org) (st_mandates s)"
    "filter (\<lambda>r. as_organizationId r \<noteq> org) (st_assignments s') = filter (\<lambda>r. as_organizationId r \<noteq> org) (st_assignments s)"
    "filter (\<lambda>r. au_organizationId r \<noteq> org) (st_audit s') = filter (\<lambda>r. au_organizationId r \<noteq> org) (st_audit s)"
    using arg_cong [OF eq, of st_policies] arg_cong [OF eq, of st_mandates]
      arg_cong [OF eq, of st_assignments] arg_cong [OF eq, of st_audit]
    by (simp_all add: outside_store_def)
  show ?thesis
    unfolding policy_rows_def
    by (simp only: filter_inside_eq [OF f(1) assms(2)] filter_inside_eq [OF f(2) assms(2)]
        filter_inside_eq [OF f(3) assms(2)] filter_inside_eq [OF f(4) assms(2)])
qed

text \<open>What the views of a store add to it is not a row of the workspace.\<close>

lemma policy_view_rows [simp]: "policy_rows ws (policy_view d) = policy_rows ws (fd_policy d)"
  by (simp add: policy_rows_def policy_view_def)

lemma provider_view_rows [simp]: "provider_rows ws (provider_view d) = provider_rows ws (fd_provider d)"
  by (simp add: provider_rows_def provider_view_def)

lemmas bootstrap_defs = bootstrapServiceAccount_def insert_organization_def insert_account_def
  insert_service_credential_def and_then_Inr_iff insert_row_appends insert_unique_Inr

lemma bootstrap_operations: "bootstrapServiceAccount i s = Inr s' \<Longrightarrow> db_operations s' = db_operations s"
  by (auto simp: bootstrap_defs split: if_splits dest!: appendIdentityAudit_Inr)

lemma bootstrap_rows:
  "bootstrapServiceAccount i s = Inr s' \<Longrightarrow> bi_organizationId i \<noteq> ws \<Longrightarrow> identity_rows ws s' = identity_rows ws s"
  by (auto simp: bootstrap_defs identity_rows_def credential_columns_organization split: if_splits
      dest!: appendIdentityAudit_Inr)

lemma map_set_rows:
  assumes "key r \<noteq> k"
  shows "filter (\<lambda>x. key x = k) (map_set key r rows) = filter (\<lambda>x. key x = k) rows"
proof (cases "tbl_insert key r rows")
  case None
  have "filter (\<lambda>x. key x = k) (tbl_update key (key r) (\<lambda>_. r) rows) = filter (\<lambda>x. key x = k) rows"
    using assms by (induction rows) (auto simp: tbl_update_def)
  with None show ?thesis by (simp add: map_set_def)
next
  case (Some rows')
  then have "rows' = rows @ [r]" by (simp add: tbl_insert_Some)
  with Some assms show ?thesis by (simp add: map_set_def)
qed

lemma configure_begin_rows:
  assumes "configure_begin g ring iv p m now s = Inr (s', x)" and "pc_organizationId p \<noteq> ws"
  shows "provider_rows ws s' = provider_rows ws s"
proof -
  obtain r a where "s' = s\<lparr>px_configurations := map_set pf_organizationId r (px_configurations s), px_audit := px_audit s @ [a]\<rparr>"
    "pf_organizationId r = pc_organizationId p" "au_organizationId a = pc_organizationId p"
    using assms(1)
    by (auto simp: configure_begin_def configure_def Let_def and_then_Inr_iff command_input_def
        provider_audit_def configured_row_def)
  with assms(2) show ?thesis by (simp add: provider_rows_def map_set_rows)
qed

lemma set_verification_rows:
  assumes "set_verification org cid version v now s = Inr s'" and "org \<noteq> ws"
  shows "provider_rows ws s' = provider_rows ws s"
proof -
  have "filter (\<lambda>r. pf_organizationId r = ws) (map (\<lambda>r. if config_matches org cid r \<and> pf_credentialVersion r = version
      then r\<lparr>pf_verificationStatus := v, pf_updatedAt := now\<rparr> else r) rows) = filter (\<lambda>r. pf_organizationId r = ws) rows" for rows
    using assms(2) by (induction rows) (auto simp: config_matches_def)
  with assms(1) show ?thesis
    by (auto simp: set_verification_def Let_def provider_rows_def split: if_splits)
qed

lemma configure_end_rows:
  assumes "configure_end org cid now x verdict s = (s', r)" and "org \<noteq> ws"
  shows "provider_rows ws s' = provider_rows ws s"
  using assms set_verification_rows [OF _ assms(2)]
  by (auto simp: configure_end_def Let_def markVerificationStatus_def and_then_Inr_iff
      split: option.splits sum.splits)

lemma erase_rows:
  assumes "erase_workspace ws d = Inr d'"
  shows "workspace_rows ws d' = no_rows" and "ws' \<noteq> ws \<Longrightarrow> workspace_rows ws' d' = workspace_rows ws' d"
    and "operations d' = operations d" and "workspace_rows ws' d = no_rows \<Longrightarrow> workspace_rows ws' d' = no_rows"
proof -
  have d': "d' = d\<lparr>fd_provider := erase_provider ws (fd_provider d), fd_policy := erase_policy ws (fd_policy d),
      fd_identity := erase_identity ws (fd_identity d)\<rparr>"
    using assms by (auto simp: erase_workspace_def split: if_splits)
  show erased: "workspace_rows ws d' = no_rows"
    by (simp add: d' workspace_rows_def no_rows_def identity_rows_def policy_rows_def provider_rows_def
        erase_provider_def erase_policy_def erase_identity_def empty_db_def)
  have only_other: "(y \<noteq> ws \<and> y = ws') = (y = ws')" if "ws' \<noteq> ws" for y using that by auto
  show kept: "workspace_rows ws' d' = workspace_rows ws' d" if "ws' \<noteq> ws"
    using that
    by (simp add: only_other [OF that] d' workspace_rows_def identity_rows_def policy_rows_def provider_rows_def
        erase_provider_def erase_policy_def erase_identity_def)
  show "operations d' = operations d" by (simp add: d' operations_def erase_identity_def)
  show "workspace_rows ws' d' = no_rows" if "workspace_rows ws' d = no_rows"
    using that erased kept by (cases "ws' = ws") auto
qed

lemma set_operations_simps [simp]:
  "workspace_rows ws (set_operations os d) = workspace_rows ws d"
  "operations (set_operations os d) = os"
  by (simp_all add: set_operations_def workspace_rows_def identity_rows_def operations_def)

lemma update_operation_rows [simp]: "workspace_rows ws (update_operation key f d) = workspace_rows ws d"
  by (simp add: update_operation_def)

lemma operation_of_update [simp]:
  "(\<And>w. op_idempotencyKey (f w) = op_idempotencyKey w) \<Longrightarrow>
     operation_of k (update_operation key f d) = (if k = key then map_option f (operation_of k d) else operation_of k d)"
  by (simp add: operation_of_def update_operation_def tbl_find_update)

section \<open>What a task writes\<close>

text \<open>A task writes rows of its own workspace only, and touches no operation but its own.\<close>

lemma identity_task_rows:
  "identity_rows ws s = identity_rows ws (fd_identity d) \<Longrightarrow> workspace_rows ws (d\<lparr>fd_identity := s\<rparr>) = workspace_rows ws d"
  "db_operations s = db_operations (fd_identity d) \<Longrightarrow> operations (d\<lparr>fd_identity := s\<rparr>) = operations d"
  by (simp_all add: workspace_rows_def operations_def)

lemma bootstrap_task_rows:
  assumes "bootstrap_task v t w d = Inr (d', w')"
  shows "operations d' = operations d" and "ws \<noteq> worker_workspace w \<Longrightarrow> workspace_rows ws d' = workspace_rows ws d"
  using assms
  by (auto simp: bootstrap_task_def and_then_Inr_iff bootstrap_input.make_def intro!: identity_task_rows
      bootstrap_operations bootstrap_rows)

lemma register_task_rows:
  assumes "register_task t w d = Inr (d', w')"
  shows "operations d' = operations d" and "ws \<noteq> worker_workspace w \<Longrightarrow> workspace_rows ws d' = workspace_rows ws d"
proof -
  from assms obtain s where s: "d' = d\<lparr>fd_identity := s\<rparr>"
    "outside (worker_workspace w) s = outside (worker_workspace w) (fd_identity d)"
    by (auto simp: register_task_def admin_registerAgent_def and_then_Inr_iff workspace_principal_def
        dest: register_outside)
  then show "operations d' = operations d" "ws \<noteq> worker_workspace w \<Longrightarrow> workspace_rows ws d' = workspace_rows ws d"
    by (auto intro!: identity_task_rows outside_operations outside_rows)
qed

lemma credential_task_rows:
  assumes "credential_task v t w d = Inr (d', w')"
  shows "operations d' = operations d" and "ws \<noteq> worker_workspace w \<Longrightarrow> workspace_rows ws d' = workspace_rows ws d"
proof -
  from assms obtain s c x where s: "d' = d\<lparr>fd_identity := s\<rparr>" "issueCredential c x (fd_identity d) = Inr s"
    "cred_organizationId c = worker_workspace w"
    by (auto simp: credential_task_def issueAgentCredential_def and_then_Inr_iff workspace_principal_def
        thrown_creation_Inr creation_input_def dest!: createApiCredential_organization)
  from issue_agent_outside [OF s(2)] s
  show "operations d' = operations d" "ws \<noteq> worker_workspace w \<Longrightarrow> workspace_rows ws d' = workspace_rows ws d"
    by (auto intro!: identity_task_rows outside_operations outside_rows)
qed

lemma connect_task_rows:
  assumes "connect_task v t w d = Inr (d', w')"
  shows "operations d' = operations d" and "ws \<noteq> worker_workspace w \<Longrightarrow> workspace_rows ws d' = workspace_rows ws d"
  using assms
  by (auto simp: connect_task_def and_then_Inr_iff workspace_rows_def operations_def workspace_principal_def
      dest!: configure_begin_rows [where ws = ws])

lemma verify_task_rows:
  assumes "verify_task t w d = (d', r)"
  shows "operations d' = operations d" and "ws \<noteq> worker_workspace w \<Longrightarrow> workspace_rows ws d' = workspace_rows ws d"
  using assms
  by (auto simp: verify_task_def workspace_rows_def operations_def split: option.splits prod.splits
      dest!: configure_end_rows [where ws = ws])

lemma on_policy_rows:
  assumes "on_policy f w d = Inr (d', w')" and "\<And>s s'. f s = Inr s' \<Longrightarrow> \<exists>c. acted org c s s'"
  shows "operations d' = operations d" and "ws \<noteq> org \<Longrightarrow> workspace_rows ws d' = workspace_rows ws d"
  using assms(1)
  by (auto simp: on_policy_def and_then_Inr_iff workspace_rows_def operations_def
      dest!: assms(2) dest: acted_rows [where ws = ws])

section \<open>The store as one machine\<close>

text \<open>The writing operations of \<open>WorkspaceOnboardingStore\<close> and of the admission to the beta.\<close>

datatype onboarding_op =
    OpReserve string int "string list" "int option" int
  | OpInvite string string "string list" int
  | OpRate string int "int option" int int
  | OpClaim int claim_input
  | OpHeartbeat string string int
  | OpComplete "nat list" int string workspace_result
  | OpRollback string string string int
  | OpRecordFailure string string string int
  | OpRotateCode string string "int option" int

datatype onboarding_out = ObDone | ObFlag bool | ObRate bool int | ObClaim claim_answer

definition ob_done :: "store_error + fuse_db \<Rightarrow> store_error + (fuse_db \<times> onboarding_out)" where
  "ob_done r = and_then r (\<lambda>d. Inr (d, ObDone))"

definition ob_flag :: "fuse_db \<times> bool \<Rightarrow> store_error + (fuse_db \<times> onboarding_out)" where
  "ob_flag r = Inr (fst r, ObFlag (snd r))"

fun onboarding_tx :: "onboarding_env \<Rightarrow> onboarding_op \<Rightarrow> fuse_db \<Rightarrow> store_error + (fuse_db \<times> onboarding_out)" where
  "onboarding_tx v (OpReserve key n baseline now clock) d = ob_flag (tryReserveCapacity key n baseline now clock d)"
| "onboarding_tx v (OpInvite token key allowed clock) d = ob_flag (consumeInvite (oe_sha v) token key allowed clock d)"
| "onboarding_tx v (OpRate key n now clock wall) d =
     (let (d', allowed, retry) = consumeRateLimit key n now clock wall d in Inr (d', ObRate allowed retry))"
| "onboarding_tx v (OpClaim clock i) d =
     and_then (claim_operation (oe_aead v) (oe_delivery v) clock i d) (\<lambda>(d', a). Inr (d', ObClaim a))"
| "onboarding_tx v (OpHeartbeat key ws now) d = ob_done (heartbeat key ws now d)"
| "onboarding_tx v (OpComplete nonce clock key r) d =
     ob_done (complete_operation (oe_aead v) (oe_delivery v) nonce clock key r d)"
| "onboarding_tx v (OpRollback key ws code clock) d = ob_done (rollback_operation key ws code clock d)"
| "onboarding_tx v (OpRecordFailure key ws code clock) d = Inr (recordRollbackFailure key ws code clock d, ObDone)"
| "onboarding_tx v (OpRotateCode ws hash now clock) d = ob_flag (rotateRecoveryCode ws hash now clock d)"

text \<open>A completed operation with its sealed and its redacted result.\<close>

definition completed_as :: "fuse_db \<Rightarrow> string \<times> string option \<times> json option \<Rightarrow> bool" where
  "completed_as d = (\<lambda>(key, envelope, result). \<exists>w. operation_of key d = Some w
     \<and> op_status w = Onb_completed \<and> op_deliveryEnvelope w = envelope \<and> op_result w = result)"

lemma completed_as_cong: "operations d' = operations d \<Longrightarrow> completed_as d' k = completed_as d k"
  by (simp add: completed_as_def operation_of_def)

lemma with_lease_completed:
  assumes "completed_as d k" and "with_lease key ws c f d = Inr d'"
    and "\<And>w. op_idempotencyKey (f w) = op_idempotencyKey w"
  shows "completed_as d' k"
proof -
  have "leased key ws d" "d' = update_operation key f d" using assms(2) by (auto simp: with_lease_def split: if_splits)
  moreover from this(1) have "fst k \<noteq> key"
    using assms(1) by (auto simp: completed_as_def leased_def holds_lease_def)
  ultimately show ?thesis using assms(1,3) by (auto simp: completed_as_def)
qed

lemma claim_completed:
  assumes "completed_as d k" and "claim_operation g ring clock i d = Inr (d', a)"
  shows "completed_as d' k"
proof -
  obtain key e j where k: "k = (key, e, j)" by (cases k)
  from assms(1) obtain w where w: "operation_of key d = Some w" "op_status w = Onb_completed"
      "op_deliveryEnvelope w = e" "op_result w = j" by (auto simp: completed_as_def k)
  show ?thesis
  proof (cases "operation_of (cl_idempotencyKey i) d")
    case None
    then have "operation_of key (set_operations (operations d @ [o1]) d) = Some w" for o1
      using w(1) by (simp add: operation_of_def tbl_find_append)
    with assms(2) None w show ?thesis by (auto simp: claim_operation_def completed_as_def k)
  next
    case (Some o1)
    have kept: "operation_of key (update_operation (cl_idempotencyKey i) f d1) = Some w"
      if "op_status o1 \<noteq> Onb_completed" "operations d1 = operations d"
        and f: "\<And>w. op_idempotencyKey (f w) = op_idempotencyKey w" for f d1
      using that Some w by (auto simp: operation_of_def [of _ d1] operation_of_def [of _ d, symmetric])
    have taken: "operation_of key d' = Some w" if t: "take_over i o1 d = Inr (d', a)" "op_status o1 \<noteq> Onb_completed"
    proof -
      from t(1) obtain ws d1 where d1: "erase_workspace ws d = Inr d1"
        and d': "d' = update_operation (cl_idempotencyKey i)
          (\<lambda>w. (reclaimed i w)\<lparr>op_createdAt := the (cl_now i), op_updatedAt := the (cl_now i)\<rparr>) d1"
        by (auto simp: take_over_def and_then_Inr_iff split: option.splits)
      show ?thesis unfolding d' by (rule kept [OF t(2) erase_rows(3) [OF d1]]) (simp add: reclaimed_def)
    qed
    have again: "operation_of key (update_operation (cl_idempotencyKey i) (reclaimed i) d) = Some w"
      if "op_status o1 \<noteq> Onb_completed"
      by (rule kept [OF that refl]) (simp add: reclaimed_def)
    have "operation_of key d' = Some w"
      using assms(2) Some again taken w(1)
      by (auto simp: claim_operation_def and_then_Inr_iff split: if_splits)
    with w show ?thesis by (simp add: completed_as_def k)
  qed
qed

lemma rollback_completed:
  assumes "completed_as d k" and "rollback_operation key ws c clock d = Inr d'"
  shows "completed_as d' k"
proof -
  from assms(2) obtain d1 where d1: "leased key ws d" "erase_workspace ws d = Inr d1"
    and d': "d' = update_operation key (\<lambda>w. w\<lparr>op_status := Onb_rolled_back, op_failureCode := Some (take 96 c),
               op_completedAt := Some clock\<rparr>) d1"
    by (auto simp: rollback_operation_def and_then_Inr_iff split: if_splits)
  have ops: "operations d1 = operations d" by (rule erase_rows(3) [OF d1(2)])
  have "fst k \<noteq> key" using assms(1) d1(1) by (auto simp: completed_as_def leased_def holds_lease_def)
  moreover have "completed_as d1 k" using assms(1) completed_as_cong [OF ops] by simp
  ultimately show ?thesis by (auto simp: d' completed_as_def)
qed

lemma record_failure_completed:
  assumes "completed_as d k"
  shows "completed_as (recordRollbackFailure key ws c clock d) k"
proof -
  let ?f = "\<lambda>w. if holds_lease ws w
      then w\<lparr>op_status := Onb_failed, op_failureCode := Some (take 96 c), op_completedAt := Some clock\<rparr> else w"
  obtain key' e j where k: "k = (key', e, j)" by (cases k)
  from assms obtain w where w: "operation_of key' d = Some w" "op_status w = Onb_completed"
      "op_deliveryEnvelope w = e" "op_result w = j" by (auto simp: completed_as_def k)
  then have same: "?f w = w" by (simp add: holds_lease_def)
  have "operation_of key' (recordRollbackFailure key ws c clock d) =
      (if key' = key then map_option ?f (operation_of key' d) else operation_of key' d)"
    unfolding recordRollbackFailure_def by (rule operation_of_update) simp
  then have "operation_of key' (recordRollbackFailure key ws c clock d) = Some w"
    using same w(1) by (simp only: option.map if_cancel)
  then show ?thesis using w by (simp add: completed_as_def k)
qed

text \<open>A row-wise change of the operations that keeps the result of completed ones.\<close>

lemma map_operations_completed:
  assumes "completed_as d k" and "\<And>w. op_idempotencyKey (f w) = op_idempotencyKey w"
    and "\<And>w. op_status w = Onb_completed \<Longrightarrow> op_status (f w) = Onb_completed
      \<and> op_deliveryEnvelope (f w) = op_deliveryEnvelope w \<and> op_result (f w) = op_result w"
  shows "completed_as (set_operations (map f (operations d)) d) k"
proof -
  have "tbl_find op_idempotencyKey key (map f ws) = map_option f (tbl_find op_idempotencyKey key ws)" for key ws
    using assms(2) by (induction ws) (auto simp: tbl_find_def)
  with assms(1,3) show ?thesis by (fastforce simp: completed_as_def operation_of_def)
qed

lemma rotate_completed: "completed_as d k \<Longrightarrow> completed_as (fst (rotateRecoveryCode ws hash now clock d)) k"
  by (auto simp: rotateRecoveryCode_def intro!: map_operations_completed)

lemma admission_operations:
  "operations (fst (tryReserveCapacity key n baseline now clock d)) = operations d"
  "operations (fst (consumeInvite sha token key allowed clock d)) = operations d"
  "operations (fst (consumeRateLimit key n now clock wall d)) = operations d"
  by (auto simp: tryReserveCapacity_def consumeInvite_def consumeRateLimit_def Let_def operations_def
      split: prod.splits)

lemma onboarding_tx_completed:
  assumes "completed_as d k" and "onboarding_tx v op d = Inr (d', a)"
  shows "completed_as d' k"
proof (cases op)
  case (OpClaim clock i)
  with assms show ?thesis by (auto simp: and_then_Inr_iff intro: claim_completed)
next
  case (OpHeartbeat key ws now)
  with assms show ?thesis
    by (auto simp: ob_done_def and_then_Inr_iff heartbeat_def intro: with_lease_completed)
next
  case (OpComplete nonce clock key r)
  with assms show ?thesis
    by (auto simp: ob_done_def and_then_Inr_iff complete_operation_def completed_row_def split: option.splits
        intro: with_lease_completed)
next
  case (OpRollback key ws code clock)
  with assms show ?thesis by (auto simp: ob_done_def and_then_Inr_iff intro: rollback_completed)
next
  case (OpReserve key n baseline now clock)
  then have "operations d' = operations d" using assms(2) by (auto simp: ob_flag_def admission_operations)
  from completed_as_cong [OF this] assms(1) show ?thesis by simp
next
  case (OpInvite token key allowed clock)
  then have "operations d' = operations d" using assms(2) by (auto simp: ob_flag_def admission_operations)
  from completed_as_cong [OF this] assms(1) show ?thesis by simp
next
  case (OpRate key n now clock wall)
  then have "operations d' = operations d"
    using assms(2) admission_operations(3) [of key n now clock wall d] by (auto split: prod.splits)
  from completed_as_cong [OF this] assms(1) show ?thesis by simp
next
  case (OpRecordFailure key ws code clock)
  with assms show ?thesis by (auto intro: record_failure_completed)
next
  case (OpRotateCode ws hash now clock)
  with assms show ?thesis by (auto simp: ob_flag_def intro: rotate_completed)
qed

interpretation onboarding_results: irrevocable "onboarding_tx v" completed_as for v
  by unfold_locales (rule onboarding_tx_completed)

text \<open>An invite admits one idempotency key, and a key is admitted by one invite.\<close>

definition redemptions_ok :: "fuse_db \<Rightarrow> bool" where
  "redemptions_ok d \<longleftrightarrow> tbl_wf rd_inviteHash (fd_redemptions d) \<and> tbl_wf rd_idempotencyKey (fd_redemptions d)"

lemma redemptions_frames:
  "erase_workspace ws d = Inr d' \<Longrightarrow> fd_redemptions d' = fd_redemptions d"
  "fd_redemptions (update_operation key f d) = fd_redemptions d"
  "fd_redemptions (set_operations os d) = fd_redemptions d"
  by (auto simp: erase_workspace_def update_operation_def set_operations_def split: if_splits)

lemma admission_redemptions:
  "fd_redemptions (fst (tryReserveCapacity key n baseline now clock d)) = fd_redemptions d"
  "fd_redemptions (fst (consumeRateLimit key n now clock wall d)) = fd_redemptions d"
  "fd_redemptions (fst (rotateRecoveryCode ws hash now clock d)) = fd_redemptions d"
  "fd_redemptions (recordRollbackFailure key ws code clock d) = fd_redemptions d"
  subgoal by (auto simp: tryReserveCapacity_def Let_def)
  subgoal by (simp add: consumeRateLimit_def case_prod_unfold Let_def)
  subgoal by (simp add: rotateRecoveryCode_def redemptions_frames(3))
  subgoal by (simp add: recordRollbackFailure_def redemptions_frames(2))
  done

lemma lease_redemptions:
  "with_lease key ws c f d = Inr d' \<Longrightarrow> fd_redemptions d' = fd_redemptions d"
  "rollback_operation key ws c clock d = Inr d' \<Longrightarrow> fd_redemptions d' = fd_redemptions d"
  "take_over i w d = Inr (d', a) \<Longrightarrow> fd_redemptions d' = fd_redemptions d"
  by (auto simp: with_lease_def rollback_operation_def take_over_def and_then_Inr_iff redemptions_frames
      split: if_splits option.splits)

lemma claim_redemptions:
  "claim_operation g ring clock i d = Inr (d', a) \<Longrightarrow> fd_redemptions d' = fd_redemptions d"
  by (auto simp: claim_operation_def and_then_Inr_iff redemptions_frames split: if_splits option.splits
      dest: lease_redemptions)

lemma onboarding_tx_redemptions:
  assumes "onboarding_tx v op d = Inr (d', a)"
  shows "fd_redemptions d' = fd_redemptions d
    \<or> (\<exists>r. fd_redemptions d' = fd_redemptions d @ [r] \<and> rd_inviteHash r \<notin> rd_inviteHash ` set (fd_redemptions d)
         \<and> rd_idempotencyKey r \<notin> rd_idempotencyKey ` set (fd_redemptions d))"
proof (cases op)
  case (OpReserve key n baseline now clock)
  with assms show ?thesis by (auto simp: ob_flag_def admission_redemptions)
next
  case (OpInvite token key allowed clock)
  with assms show ?thesis
    by (auto simp: ob_flag_def consumeInvite_def Let_def tbl_find_None_iff split: if_splits)
next
  case (OpRate key n now clock wall)
  with assms admission_redemptions(2) [of key n now clock wall d] show ?thesis by (auto split: prod.splits)
next
  case (OpClaim clock i)
  with assms show ?thesis by (auto simp: and_then_Inr_iff dest: claim_redemptions)
next
  case (OpHeartbeat key ws now)
  with assms show ?thesis by (auto simp: ob_done_def and_then_Inr_iff heartbeat_def dest: lease_redemptions)
next
  case (OpComplete nonce clock key r)
  with assms show ?thesis
    by (auto simp: ob_done_def and_then_Inr_iff complete_operation_def split: option.splits dest: lease_redemptions)
next
  case (OpRollback key ws code clock)
  with assms show ?thesis by (auto simp: ob_done_def and_then_Inr_iff dest: lease_redemptions)
next
  case (OpRecordFailure key ws code clock)
  with assms show ?thesis by (auto simp: admission_redemptions)
next
  case (OpRotateCode ws hash now clock)
  with assms show ?thesis by (auto simp: ob_flag_def admission_redemptions)
qed

interpretation beta_invites: transactional "onboarding_tx v" "\<lambda>_ _. True" redemptions_ok for v
  by unfold_locales (auto simp: redemptions_ok_def tbl_wf_def dest!: onboarding_tx_redemptions)

definition redeemed_by :: "fuse_db \<Rightarrow> string \<times> string \<Rightarrow> bool" where
  "redeemed_by d = (\<lambda>(hash, key). \<exists>r \<in> set (fd_redemptions d). rd_inviteHash r = hash \<and> rd_idempotencyKey r = key)"

interpretation redeemed: irrevocable "onboarding_tx v" redeemed_by for v
  by unfold_locales (auto simp: redeemed_by_def dest!: onboarding_tx_redemptions)

end
