(* ===== verification/OnboardingProperties.thy ===== *)
theory OnboardingProperties
  imports OnboardingRun
begin

text \<open>
  What any number of concurrent \<open>createWorkspace\<close> calls (\<open>src/src/product/customerOnboarding.ts\<close>) over one
  database guarantee: a workspace is created once per idempotency key, and a call that fails leaves
  nothing behind.
\<close>

section \<open>The world\<close>

record onboarding_world =
  on_db :: fuse_db
  on_workers :: "onboarding_worker list"

text \<open>The environment the statements assume: a cipher that inverts, a usable delivery key, random nonces.\<close>

definition env_ok :: "onboarding_env \<Rightarrow> bool" where
  "env_ok v \<longleftrightarrow> aead_inverts (oe_aead v)
     \<and> (case oe_delivery v of None \<Rightarrow> True | Some r \<Rightarrow> key_id_ok (kr_activeKeyId r))"

definition tick_ok :: "onboarding_tick \<Rightarrow> bool" where
  "tick_ok t \<longleftrightarrow> bytes (tk_nonce t) \<and> tk_nonce t \<noteq> []"

text \<open>A random identifier that no row and no other call uses.\<close>

definition fresh_workspace :: "string \<Rightarrow> onboarding_world \<Rightarrow> bool" where
  "fresh_workspace ws s \<longleftrightarrow> workspace_rows ws (on_db s) = no_rows
     \<and> (\<forall>o1 \<in> set (operations (on_db s)). op_identifier ''workspaceId'' o1 \<noteq> Some ws)
     \<and> (\<forall>w \<in> set (on_workers s). worker_workspace w \<noteq> ws)"

text \<open>
  What other requests may do between: nothing to the rows of a workspace whose credentials nobody has
  received, and to an operation only what the recovery of a completed workspace does.
\<close>

definition credentials_out :: "onboarding_worker \<Rightarrow> bool" where
  "credentials_out w \<longleftrightarrow> (\<exists>r. ow_phase w = Ended (Inr r))"

definition recovery_columns :: "operation_row \<Rightarrow> operation_row \<Rightarrow> bool" where
  "recovery_columns a b \<longleftrightarrow> b = a \<or> op_status a = Onb_completed
     \<and> (\<exists>h c k e i t. b = a\<lparr>op_recoveryCodeHash := h, op_recoveryConsumedAt := c, op_recoveryConsumedHash := k,
          op_recoveryEnvelope := e, op_recoveryDeliveryId := i, op_updatedAt := t\<rparr>)"

definition elsewhere :: "onboarding_world \<Rightarrow> fuse_db \<Rightarrow> bool" where
  "elsewhere s d' \<longleftrightarrow> list_all2 recovery_columns (operations (on_db s)) (operations d')
     \<and> (\<forall>w \<in> set (on_workers s). \<not> credentials_out w \<longrightarrow>
          workspace_rows (worker_workspace w) d' = workspace_rows (worker_workspace w) (on_db s))"

inductive onboarding_move :: "onboarding_env \<Rightarrow> onboarding_world \<Rightarrow> onboarding_world \<Rightarrow> bool" for v where
  begun: "start_workspace ids secret now i = Inr w \<Longrightarrow> fresh_workspace (wi_workspace ids) s \<Longrightarrow>
    onboarding_move v s (s\<lparr>on_workers := on_workers s @ [w]\<rparr>)"
| advanced: "n < length (on_workers s) \<Longrightarrow> tick_ok t \<Longrightarrow>
    onboarding_step v t (on_workers s ! n) (on_db s) = (d', w') \<Longrightarrow>
    onboarding_move v s (s\<lparr>on_db := d', on_workers := (on_workers s)[n := w']\<rparr>)"
| others: "elsewhere s d' \<Longrightarrow> onboarding_move v s (s\<lparr>on_db := d'\<rparr>)"

inductive onboarding_reachable :: "onboarding_env \<Rightarrow> onboarding_world \<Rightarrow> bool" for v where
  start: "onboarding_reachable v \<lparr>on_db = d, on_workers = []\<rparr>"
| move: "onboarding_reachable v s \<Longrightarrow> onboarding_move v s s' \<Longrightarrow> onboarding_reachable v s'"

text \<open>Runs of the workers alone, for examples.\<close>

definition advance :: "onboarding_env \<Rightarrow> nat \<Rightarrow> onboarding_tick \<Rightarrow> onboarding_world \<Rightarrow> onboarding_world" where
  "advance v n t s =
     (if n < length (on_workers s)
      then let (d', w') = onboarding_step v t (on_workers s ! n) (on_db s)
        in s\<lparr>on_db := d', on_workers := (on_workers s)[n := w']\<rparr>
      else s)"

lemma reachable_advance: "onboarding_reachable v s \<Longrightarrow> tick_ok t \<Longrightarrow> onboarding_reachable v (advance v n t s)"
  by (auto simp: advance_def split: prod.splits intro: onboarding_reachable.move onboarding_move.advanced)

section \<open>What one step does\<close>

lemma start_fields:
  assumes "start_workspace ids secret now i = Inr w"
  shows "ow_phase w = Claiming" "worker_workspace w = wi_workspace ids"
  using assms by (auto simp: start_workspace_def and_then_Inr_iff)

lemma unchanged_Inl: "unchanged_on_error d r = (d', Inl e) \<longleftrightarrow> d' = d \<and> r = Inl e"
  by (auto simp: unchanged_on_error_def split: sum.splits)

lemma unchanged_Inr: "unchanged_on_error d r = (d', Inr w) \<longleftrightarrow> r = Inr (d', w)"
  by (auto simp: unchanged_on_error_def split: sum.splits)

text \<open>The tasks keep the identity of the worker.\<close>

definition same_worker :: "onboarding_worker \<Rightarrow> onboarding_worker \<Rightarrow> bool" where
  "same_worker w w' \<longleftrightarrow> ow_input w' = ow_input w \<and> ow_ids w' = ow_ids w \<and> ow_occurredAt w' = ow_occurredAt w
     \<and> ow_recoveryCode w' = ow_recoveryCode w"

lemma same_worker_refl [simp]: "same_worker w w"
  by (simp add: same_worker_def)

lemma run_task_same: "run_task v t k w d = (d', Inr w') \<Longrightarrow> same_worker w w'"
  by (cases k) (auto simp: unchanged_Inr bootstrap_task_def register_task_def credential_task_def
      connect_task_def verify_task_def publish_task_def mandate_task_def assign_task_def activate_task_def
      heartbeat_task_def complete_task_def on_policy_def and_then_Inr_iff same_worker_def
      split: prod.splits option.splits sum.splits)

lemma onboarding_step_same: "onboarding_step v t w d = (d', w') \<Longrightarrow> same_worker w w'"
  by (auto simp: onboarding_step_def claim_step_def work_step_def same_worker_def
      split: onboarding_phase.splits list.splits sum.splits prod.splits claim_answer.splits
      dest!: run_task_same)

text \<open>The rows that a task writes belong to the worker's workspace.\<close>

lemma publish_acts: "product_publish p q now s = Inr s' \<Longrightarrow> \<exists>c. acted (pc_organizationId p) c s s'"
  by (auto simp: product_publish_def admin_publishPolicy_def and_then_Inr_iff published_version_def
      dest!: publish_acted)

lemma create_acts: "product_createMandate p i n now s = Inr s' \<Longrightarrow> \<exists>c. acted (pc_organizationId p) c s s'"
  by (auto simp: product_createMandate_def admin_createMandate_def mandate_request_def and_then_Inr_iff
      dest!: create_mandate_acted)

lemma assign_acts: "admin_assignAgent p m a r now s = Inr s' \<Longrightarrow> \<exists>c. acted (pc_organizationId p) c s s'"
  by (auto simp: admin_assignAgent_def mandate_request_def and_then_Inr_iff dest!: assign_acted)

lemma transition_acts: "admin_transitionMandate p m to r now s = Inr s' \<Longrightarrow> \<exists>c. acted (pc_organizationId p) c s s'"
  by (auto simp: admin_transitionMandate_def mandate_request_def and_then_Inr_iff dest!: transition_acted)

lemma workspace_principal_organization [simp]: "pc_organizationId (workspace_principal w) = worker_workspace w"
  by (simp add: workspace_principal_def)

lemma with_lease_Inr: "with_lease key ws c f d = Inr d' \<longleftrightarrow> leased key ws d \<and> d' = update_operation key f d"
  by (auto simp: with_lease_def)

lemma run_task_rows:
  assumes "run_task v t k w d = (d', r)" and "ws \<noteq> worker_workspace w"
  shows "workspace_rows ws d' = workspace_rows ws d"
proof (cases r)
  case (Inl e)
  with assms show ?thesis
    by (cases k) (auto simp: unchanged_Inl dest: verify_task_rows(2))
next
  case (Inr w')
  show ?thesis
  proof (cases k)
    case T_publish
    with assms Inr show ?thesis
      by (auto simp: unchanged_Inr publish_task_def dest!: on_policy_rows(2) [where org = "worker_workspace w"]
          dest: publish_acts [of "workspace_principal w", simplified])
  next
    case T_mandate
    with assms Inr show ?thesis
      by (auto simp: unchanged_Inr mandate_task_def dest!: on_policy_rows(2) [where org = "worker_workspace w"]
          dest: create_acts [of "workspace_principal w", simplified])
  next
    case T_assign
    with assms Inr show ?thesis
      by (auto simp: unchanged_Inr assign_task_def dest!: on_policy_rows(2) [where org = "worker_workspace w"]
          dest: assign_acts [of "workspace_principal w", simplified])
  next
    case T_activate
    with assms Inr show ?thesis
      by (auto simp: unchanged_Inr activate_task_def dest!: on_policy_rows(2) [where org = "worker_workspace w"]
          dest: transition_acts [of "workspace_principal w", simplified])
  next
    case T_heartbeat
    with assms Inr show ?thesis
      by (auto simp: unchanged_Inr heartbeat_task_def heartbeat_def and_then_Inr_iff with_lease_Inr)
  next
    case T_complete
    with assms Inr show ?thesis
      by (auto simp: unchanged_Inr complete_task_def complete_operation_def and_then_Inr_iff with_lease_Inr
          split: option.splits)
  qed (use assms Inr in \<open>auto simp: unchanged_Inr dest: bootstrap_task_rows(2) register_task_rows(2)
      credential_task_rows(2) connect_task_rows(2) verify_task_rows(2)\<close>)
qed

text \<open>Rows of a workspace that has none appear only when its own worker acts.\<close>

lemma claim_rows_none:
  assumes "claim_operation g ring clock i d = Inr (d', a)" and "workspace_rows ws d = no_rows"
  shows "workspace_rows ws d' = no_rows"
  using assms
  by (auto simp: claim_operation_def take_over_def and_then_Inr_iff split: option.splits if_splits
      dest: erase_rows(4))

lemma claim_step_rows_none:
  assumes "claim_step v t w d = (d', w')" and "workspace_rows ws d = no_rows"
  shows "workspace_rows ws d' = no_rows"
  using assms
  by (auto simp: claim_step_def split: sum.splits prod.splits claim_answer.splits dest: claim_rows_none)

lemma rollback_Inr:
  assumes "rollback_operation key ws c clock d = Inr d'"
  obtains d1 f where "leased key ws d" "erase_workspace ws d = Inr d1" "d' = update_operation key f d1"
    "\<And>w. op_idempotencyKey (f w) = op_idempotencyKey w"
  using assms that [of _ "\<lambda>w. w\<lparr>op_status := Onb_rolled_back, op_failureCode := Some (take 96 c),
    op_completedAt := Some clock\<rparr>"]
  by (auto simp: rollback_operation_def and_then_Inr_iff split: if_splits)

lemma step_rows_none:
  assumes "onboarding_step v t w d = (d', w')" and "ws \<noteq> worker_workspace w" and "workspace_rows ws d = no_rows"
  shows "workspace_rows ws d' = no_rows"
proof (cases "ow_phase w")
  case Claiming
  with assms show ?thesis by (auto simp: onboarding_step_def dest: claim_step_rows_none)
next
  case (Working ks)
  with assms show ?thesis
    by (auto simp: onboarding_step_def work_step_def split: list.splits prod.splits sum.splits dest: run_task_rows)
next
  case (Unwinding e)
  with assms show ?thesis
    by (auto simp: onboarding_step_def split: sum.splits elim!: rollback_Inr dest: erase_rows(4))
next
  case (Recording e)
  with assms show ?thesis by (auto simp: onboarding_step_def recordRollbackFailure_def)
next
  case (Ended r)
  with assms show ?thesis by (simp add: onboarding_step_def)
qed

text \<open>A completed operation stays completed with its result.\<close>

lemma run_task_operations:
  assumes "run_task v t k w d = (d', r)"
  shows "operations d' = operations d \<or> (\<exists>key ws c f. with_lease key ws c f d = Inr d'
    \<and> (\<forall>o1. op_idempotencyKey (f o1) = op_idempotencyKey o1))"
proof (cases r)
  case (Inl e)
  with assms show ?thesis by (cases k) (auto simp: unchanged_Inl dest: verify_task_rows(1))
next
  case (Inr w')
  have policy: "operations d' = operations d" if "on_policy f w d = Inr (d', w')" for f
    using that by (auto simp: on_policy_def and_then_Inr_iff operations_def)
  show ?thesis
  proof (cases k)
    case T_heartbeat
    with assms Inr show ?thesis
      by (fastforce simp: unchanged_Inr heartbeat_task_def heartbeat_def and_then_Inr_iff)
  next
    case T_complete
    with assms Inr obtain key ws c r e clock where "with_lease key ws c (completed_row r e clock) d = Inr d'"
      by (auto simp: unchanged_Inr complete_task_def complete_operation_def and_then_Inr_iff split: option.splits)
    moreover have "op_idempotencyKey (completed_row r e clock o1) = op_idempotencyKey o1" for o1
      by (simp add: completed_row_def)
    ultimately show ?thesis by blast
  qed (use assms Inr policy in \<open>auto simp: unchanged_Inr publish_task_def mandate_task_def assign_task_def
      activate_task_def dest: bootstrap_task_rows(1) register_task_rows(1)
      credential_task_rows(1) connect_task_rows(1) verify_task_rows(1)\<close>)
qed

lemma run_task_completed:
  assumes "run_task v t k w d = (d', r)" and "completed_as d x"
  shows "completed_as d' x"
  using run_task_operations [OF assms(1)]
proof (elim disjE exE conjE)
  assume "operations d' = operations d"
  from completed_as_cong [OF this] assms(2) show ?thesis by simp
qed (use assms(2) with_lease_completed in blast)

lemma step_completed:
  assumes "onboarding_step v t w d = (d', w')" and "completed_as d x"
  shows "completed_as d' x"
proof (cases "ow_phase w")
  case Claiming
  with assms show ?thesis
    by (auto simp: onboarding_step_def claim_step_def split: sum.splits prod.splits claim_answer.splits
        dest: claim_completed)
next
  case (Working ks)
  with assms show ?thesis
    by (auto simp: onboarding_step_def work_step_def split: list.splits prod.splits sum.splits
        dest: run_task_completed)
next
  case (Unwinding e)
  with assms show ?thesis
    by (auto simp: onboarding_step_def split: sum.splits dest: rollback_completed)
next
  case (Recording e)
  with assms show ?thesis by (auto simp: onboarding_step_def intro: record_failure_completed)
next
  case (Ended r)
  with assms show ?thesis by (simp add: onboarding_step_def)
qed

section \<open>What a completed operation replays\<close>

definition replay_value :: "onboarding_env \<Rightarrow> string \<Rightarrow> string option \<Rightarrow> json option \<Rightarrow> store_error + json option" where
  "replay_value v key e j =
     (case (truthy e, oe_delivery v) of
        (Some x, Some r) \<Rightarrow> and_then (openSecretDelivery (oe_aead v) x r (workspace_context key)) (\<lambda>j. Inr (Some j))
      | _ \<Rightarrow> Inr j)"

lemma replayed_result_value:
  "replayed_result (oe_aead v) (oe_delivery v) key w = replay_value v key (op_deliveryEnvelope w) (op_result w)"
  by (simp add: replayed_result_def replay_value_def)

definition created :: "onboarding_env \<Rightarrow> string \<Rightarrow> json \<Rightarrow> fuse_db \<Rightarrow> bool" where
  "created v key r d \<longleftrightarrow> (\<exists>e j. completed_as d (key, e, j) \<and> replay_value v key e j = Inr (Some r))"

lemma created_unique: "created v key r d \<Longrightarrow> created v key r' d \<Longrightarrow> r' = r"
  by (auto simp: created_def completed_as_def)

lemma created_mono: "(\<And>x. completed_as d x \<Longrightarrow> completed_as d' x) \<Longrightarrow> created v key r d \<Longrightarrow> created v key r d'"
  unfolding created_def by blast

lemma result_json_wf: "json_wf (result_json r)"
proof -
  have "json_wf (credential_json c)" for c
    by (cases "dc_token c"; cases "dc_expiresAt c") (auto simp: credential_json_def capabilities_json_def list_all_iff)
  then show ?thesis by (cases "wr_recoveryCode r") (auto simp: result_json_def)
qed

lemma complete_created:
  assumes "complete_task v t w d = Inr (d', w')" and "env_ok v" and "tick_ok t"
  shows "created v (worker_key w) (result_json (result_of w)) d'"
proof -
  from assms(1) obtain ring e where ring: "oe_delivery v = Some ring"
    and sealed: "sealSecretDelivery (oe_aead v) (tk_nonce t) (result_json (result_of w)) ring
      (workspace_context (worker_key w)) = Inr e"
    and lease: "leased (worker_key w) (wr_workspaceId (result_of w)) d"
    and d': "d' = update_operation (worker_key w) (completed_row (result_of w) e (tk_now t)) d"
    by (auto simp: complete_task_def complete_operation_def and_then_Inr_iff with_lease_Inr split: option.splits)
  from assms(2) ring have g: "aead_inverts (oe_aead v)" "key_id_ok (kr_activeKeyId ring)" by (simp_all add: env_ok_def)
  from assms(3) have nonce: "bytes (tk_nonce t)" "tk_nonce t \<noteq> []" by (simp_all add: tick_ok_def)
  have opened: "openSecretDelivery (oe_aead v) e ring (workspace_context (worker_key w)) = Inr (result_json (result_of w))"
    by (rule delivery_roundtrip [OF sealed g(1) nonce g(2) result_json_wf])
  then have "e \<noteq> []" by (auto simp: openSecretDelivery_def envelope_parts_def)
  then have "truthy (Some e) = Some e" by (cases e) auto
  then have replay: "replay_value v (worker_key w) (Some e) j = Inr (Some (result_json (result_of w)))" for j
    by (simp add: replay_value_def ring opened)
  from lease obtain row where "operation_of (worker_key w) d = Some row"
    by (auto simp: leased_def split: option.splits)
  then have "completed_as d' (worker_key w, Some e, Some (result_json (redacted (result_of w))))"
    by (simp add: d' completed_as_def completed_row_def)
  with replay show ?thesis by (auto simp: created_def)
qed

section \<open>The invariant\<close>

text \<open>The remaining awaits of a running call end with the completion.\<close>

definition phase_ok :: "onboarding_worker \<Rightarrow> bool" where
  "phase_ok w \<longleftrightarrow> (case ow_phase w of Working ks \<Rightarrow> ks \<noteq> [] \<and> last ks = T_complete | _ \<Rightarrow> True)"

definition worker_inv :: "onboarding_env \<Rightarrow> fuse_db \<Rightarrow> onboarding_worker \<Rightarrow> bool" where
  "worker_inv v d w \<longleftrightarrow>
     (case ow_phase w of
        Claiming \<Rightarrow> workspace_rows (worker_workspace w) d = no_rows
      | Ended (Inl e) \<Rightarrow> e \<noteq> Thrown ''WORKSPACE_ONBOARDING_ROLLBACK_FAILED'' \<longrightarrow>
          workspace_rows (worker_workspace w) d = no_rows
      | Ended (Inr r) \<Rightarrow> created v (worker_key w) r d
      | _ \<Rightarrow> True)"

definition onboarding_inv :: "onboarding_env \<Rightarrow> onboarding_world \<Rightarrow> bool" where
  "onboarding_inv v s \<longleftrightarrow> distinct (map worker_workspace (on_workers s))
     \<and> (\<forall>w \<in> set (on_workers s). phase_ok w \<and> worker_inv v (on_db s) w)"

lemma claim_ended:
  assumes "claim_step v t w d = (d', w')" and "workspace_rows (worker_workspace w) d = no_rows"
  shows "phase_ok w' \<and> worker_inv v d' w'"
proof -
  have none: "workspace_rows (worker_workspace w) d' = no_rows" by (rule claim_step_rows_none [OF assms])
  have same: "worker_workspace w' = worker_workspace w" "worker_key w' = worker_key w"
    using assms(1) by (auto simp: claim_step_def split: sum.splits prod.splits claim_answer.splits)
  have replay: "created v (worker_key w) r d'"
    if "claim_operation (oe_aead v) (oe_delivery v) (tk_now t) (claim_of (oe_sha v) w) d = Inr (d', Claim_replay x)"
      "answer_replay x = Inr r" for x r
  proof -
    from that(2) have x: "x = Some r"
      by (auto simp: answer_replay_def Let_def split: option.splits if_splits json.splits list.splits)
    from that(1) obtain o1 where o1: "operation_of (worker_key w) d = Some o1" "op_status o1 = Onb_completed"
        "replayed_result (oe_aead v) (oe_delivery v) (worker_key w) o1 = Inr x" "d' = d"
      by (auto simp: claim_operation_def take_over_def claim_of_def and_then_Inr_iff split: option.splits if_splits)
    then show ?thesis by (auto simp: created_def completed_as_def replayed_result_value x)
  qed
  from assms(1) none same replay show ?thesis
    by (auto simp: claim_step_def phase_ok_def worker_inv_def onboarding_body_def
        split: sum.splits prod.splits claim_answer.splits)
qed

lemma work_ended:
  assumes "work_step v t k ks w d = (d', w')" and "last (k # ks) = T_complete" and "env_ok v" and "tick_ok t"
  shows "phase_ok w' \<and> worker_inv v d' w'"
proof (cases "run_task v t k w d")
  case (Pair d1 r)
  show ?thesis
  proof (cases r)
    case (Inl e)
    with assms(1) Pair show ?thesis by (auto simp: work_step_def phase_ok_def worker_inv_def)
  next
    case (Inr w1)
    show ?thesis
    proof (cases "ks = []")
      case True
      with assms(2) Pair Inr have done1: "complete_task v t w d = Inr (d1, w1)" by (simp add: unchanged_Inr)
      then have "w1 = w" by (auto simp: complete_task_def and_then_Inr_iff)
      with complete_created [OF done1 assms(3,4)] assms(1) Pair Inr True show ?thesis
        by (auto simp: work_step_def phase_ok_def worker_inv_def result_of_def)
    next
      case False
      with assms(1,2) Pair Inr show ?thesis by (auto simp: work_step_def phase_ok_def worker_inv_def)
    qed
  qed
qed

lemma step_own:
  assumes "onboarding_step v t w d = (d', w')" and "phase_ok w" and "worker_inv v d w" and "env_ok v" and "tick_ok t"
  shows "phase_ok w' \<and> worker_inv v d' w'"
proof (cases "ow_phase w")
  case Claiming
  with assms(1,3) show ?thesis by (auto simp: onboarding_step_def worker_inv_def dest: claim_ended)
next
  case (Working ks)
  with assms(2) obtain k ks' where "ks = k # ks'" "last ks = T_complete"
    by (cases ks) (auto simp: phase_ok_def)
  with Working assms(1,4,5) show ?thesis by (auto simp: onboarding_step_def dest: work_ended)
next
  case (Unwinding e)
  with assms(1) show ?thesis
    by (auto simp: onboarding_step_def phase_ok_def worker_inv_def split: sum.splits elim!: rollback_Inr
        dest: erase_rows(1))
next
  case (Recording e)
  with assms(1) show ?thesis by (auto simp: onboarding_step_def phase_ok_def worker_inv_def)
next
  case (Ended r)
  with assms show ?thesis by (simp add: onboarding_step_def)
qed

lemma step_other:
  assumes "onboarding_step v t w d = (d', w')" and "worker_workspace u \<noteq> worker_workspace w" and "worker_inv v d u"
  shows "worker_inv v d' u"
  using assms(3) step_rows_none [OF assms(1,2)] created_mono [OF step_completed [OF assms(1)]]
  by (auto simp: worker_inv_def split: onboarding_phase.splits sum.splits)

lemma elsewhere_completed:
  assumes "list_all2 recovery_columns (operations d) (operations d')" and "completed_as d x"
  shows "completed_as d' x"
proof -
  obtain key e j where x: "x = (key, e, j)" by (cases x)
  have "\<exists>b. tbl_find op_idempotencyKey key bs = Some b \<and> recovery_columns a b"
    if "list_all2 recovery_columns as bs" "tbl_find op_idempotencyKey key as = Some a" for as bs a
    using that by (induction rule: list_all2_induct) (auto simp: tbl_find_def recovery_columns_def split: if_splits)
  with assms show ?thesis
    by (fastforce simp: completed_as_def operation_of_def x recovery_columns_def)
qed

lemma move_inv:
  assumes "onboarding_move v s s'" and "onboarding_inv v s" and "env_ok v"
  shows "onboarding_inv v s'"
  using assms(1)
proof cases
  case (begun ids secret now i w)
  then have "phase_ok w" "worker_inv v (on_db s) w" "worker_workspace w = wi_workspace ids"
    using start_fields [OF begun(2)] by (auto simp: phase_ok_def worker_inv_def fresh_workspace_def)
  with begun assms(2) show ?thesis by (auto simp: onboarding_inv_def fresh_workspace_def)
next
  case (advanced n t d' w')
  let ?w = "on_workers s ! n"
  have inv: "phase_ok ?w" "worker_inv v (on_db s) ?w" using assms(2) advanced(2) by (auto simp: onboarding_inv_def)
  note own = step_own [OF advanced(4) inv assms(3) advanced(3)]
  have same: "worker_workspace w' = worker_workspace ?w"
    using onboarding_step_same [OF advanced(4)] by (simp add: same_worker_def)
  have dist: "distinct (map worker_workspace (on_workers s))" using assms(2) by (simp add: onboarding_inv_def)
  have ids: "map worker_workspace ((on_workers s)[n := w']) = map worker_workspace (on_workers s)"
    using same advanced(2) by (simp add: map_update list_update_same_conv)
  have others: "phase_ok u \<and> worker_inv v d' u" if u: "u \<in> set ((on_workers s)[n := w'])" for u
  proof -
    from u obtain m where m: "m < length (on_workers s)" "u = (on_workers s)[n := w'] ! m"
      by (auto simp: in_set_conv_nth)
    show ?thesis
    proof (cases "m = n")
      case True
      with m own show ?thesis by simp
    next
      case False
      with dist m(1) advanced(2) have "worker_workspace (on_workers s ! m) \<noteq> worker_workspace ?w"
        by (auto simp: distinct_conv_nth)
      moreover have "phase_ok (on_workers s ! m)" "worker_inv v (on_db s) (on_workers s ! m)"
        using assms(2) m(1) by (auto simp: onboarding_inv_def)
      ultimately show ?thesis using step_other [OF advanced(4)] m False by simp
    qed
  qed
  with dist ids advanced(1) show ?thesis by (simp add: onboarding_inv_def)
next
  case (others d')
  have "worker_inv v d' w" if w: "w \<in> set (on_workers s)" for w
  proof -
    have inv: "worker_inv v (on_db s) w" using w assms(2) by (simp add: onboarding_inv_def)
    show ?thesis
    proof (cases "credentials_out w")
      case True
      have "completed_as d' x" if "completed_as (on_db s) x" for x
        using others(2) that by (auto simp: elsewhere_def intro: elsewhere_completed)
      from created_mono [OF this] True inv show ?thesis by (auto simp: credentials_out_def worker_inv_def)
    next
      case False
      with others(2) w have rows: "workspace_rows (worker_workspace w) d' = workspace_rows (worker_workspace w) (on_db s)"
        by (auto simp: elsewhere_def)
      from False inv show ?thesis
        by (auto simp: worker_inv_def rows credentials_out_def split: onboarding_phase.splits sum.splits)
    qed
  qed
  with assms(2) others(1) show ?thesis by (simp add: onboarding_inv_def)
qed

lemma reachable_inv: "onboarding_reachable v s \<Longrightarrow> env_ok v \<Longrightarrow> onboarding_inv v s"
  by (induction rule: onboarding_reachable.induct) (auto simp: onboarding_inv_def [of v "\<lparr>on_db = _, on_workers = []\<rparr>"] intro: move_inv)

section \<open>Created once, or not at all\<close>

text \<open>
  C15: however many calls with one idempotency key run at once, every call that returns a workspace
  returns the same one, with the same credentials, and its operation is completed.
\<close>

theorem workspace_created_once:
  assumes "onboarding_reachable v s" and "env_ok v"
    and "w \<in> set (on_workers s)" and "w' \<in> set (on_workers s)" and "worker_key w' = worker_key w"
    and "ow_phase w = Ended (Inr r)" and "ow_phase w' = Ended (Inr r')"
  shows "r' = r \<and> (\<exists>o1. operation_of (worker_key w) (on_db s) = Some o1 \<and> op_status o1 = Onb_completed)"
proof -
  have "onboarding_inv v s" using assms(1,2) by (rule reachable_inv)
  with assms have c: "created v (worker_key w) r (on_db s)" "created v (worker_key w) r' (on_db s)"
    by (fastforce simp: onboarding_inv_def worker_inv_def)+
  with created_unique [OF c] show ?thesis by (auto simp: created_def completed_as_def)
qed

text \<open>
  C16: a call that ends with an error has left no row of its workspace in any table, unless the error says
  that its rollback failed.
\<close>

theorem failed_onboarding_leaves_nothing:
  assumes "onboarding_reachable v s" and "env_ok v" and "w \<in> set (on_workers s)"
    and "ow_phase w = Ended (Inl e)" and "e \<noteq> Thrown ''WORKSPACE_ONBOARDING_ROLLBACK_FAILED''"
  shows "workspace_rows (worker_workspace w) (on_db s) = no_rows"
  using reachable_inv [OF assms(1,2)] assms(3-5) by (fastforce simp: onboarding_inv_def worker_inv_def)

section \<open>Examples\<close>

definition sample_onboarding_env :: onboarding_env where
  "sample_onboarding_env =
     \<lparr>oe_sha = sample_hash, oe_aead = plain_aead, oe_delivery = Some sample_ring, oe_providerRing = sample_ring,
      oe_message = (\<lambda>_. ''database'')\<rparr>"

definition sample_workspace_input :: workspace_input where
  "sample_workspace_input =
     \<lparr>cw_name = ''W'', cw_agentName = ''A'', cw_provider = OpenRouter, cw_model = ''m'', cw_apiKey = ''key'',
      cw_inputUsdPerMillion = ''1'', cw_outputUsdPerMillion = ''1'', cw_maximumSpendAtomic = ''5'',
      cw_idempotencyKey = ''12345678'', cw_expiresAt = None\<rparr>"

definition sample_ids :: "string \<Rightarrow> workspace_ids" where
  "sample_ids ws =
     \<lparr>wi_workspace = ws, wi_serviceAccount = ''s'', wi_serviceCredential = ''k'', wi_agent = ''a'',
      wi_agentCredential = ''c'', wi_policy = ''p'', wi_mandate = ''m'', wi_providerConfig = ''f''\<rparr>"

definition sample_moment :: int where
  "sample_moment = -62135596800000"

definition empty_fuse_db :: fuse_db where
  "empty_fuse_db =
     \<lparr>fd_identity = empty_db, fd_policy = empty_store [] [],
      fd_provider = \<lparr>px_organizations = [], px_configurations = [], px_retries = [], px_audit = []\<rparr>,
      fd_redemptions = [], fd_capacity = [], fd_rates = []\<rparr>"

definition sample_worker :: "string \<Rightarrow> onboarding_worker" where
  "sample_worker ws =
     \<lparr>ow_input = sample_workspace_input, ow_ids = sample_ids ws, ow_occurredAt = sample_moment,
      ow_recoveryCode = ''fuse_rc_'', ow_phase = Claiming, ow_adminCredential = None,
      ow_agentCredential = None, ow_summary = None\<rparr>"

lemma sample_worker_starts:
  "start_workspace (sample_ids ws) [] sample_moment sample_workspace_input = Inr (sample_worker ws)"
proof -
  have "validate_workspace sample_workspace_input = None" by code_simp
  then show ?thesis by (simp add: start_workspace_def check_def sample_worker_def recovery_code_def)
qed

text \<open>An agent credential cannot be made of eight random bytes, so the call fails after the claim.\<close>

definition sample_tick :: onboarding_tick where
  "sample_tick =
     \<lparr>tk_now = sample_moment, tk_secret = replicate 8 0, tk_nonce = replicate 12 0, tk_verdict = None\<rparr>"

text \<open>A completed operation whose result was stored in the clear, before results were sealed.\<close>

definition legacy_result :: json where
  "legacy_result = JObj [(''workspaceId'', JStr ''w0''), (''credential'', JObj [(''token'', JStr ''t'')])]"

definition legacy_operation :: operation_row where
  "legacy_operation =
     (new_operation (claim_of sample_hash (sample_worker ''w0'')) sample_moment)
       \<lparr>op_status := Onb_completed, op_result := Some legacy_result\<rparr>"

definition sample_world :: "fuse_db \<Rightarrow> onboarding_world" where
  "sample_world d = \<lparr>on_db = d, on_workers = [sample_worker ''w1'', sample_worker ''w2'']\<rparr>"

lemma sample_env_ok: "env_ok sample_onboarding_env"
  using plain_inverts
  by (simp add: env_ok_def sample_onboarding_env_def sample_ring_def key_id_ok_def key_id_char_def lower_letter_def)

lemma sample_tick_ok: "tick_ok sample_tick"
  by (simp add: tick_ok_def sample_tick_def bytes_def list_all_iff)

lemma sample_world_reachable:
  assumes "workspace_rows ''w1'' d = no_rows" "workspace_rows ''w2'' d = no_rows"
    and "\<forall>o1 \<in> set (operations d). op_identifier ''workspaceId'' o1 \<notin> {Some ''w1'', Some ''w2''}"
  shows "onboarding_reachable sample_onboarding_env (sample_world d)"
proof -
  let ?s = "\<lparr>on_db = d, on_workers = []\<rparr>" and ?s1 = "\<lparr>on_db = d, on_workers = [sample_worker ''w1'']\<rparr>"
  have fresh: "fresh_workspace (wi_workspace (sample_ids ''w1'')) ?s"
    "fresh_workspace (wi_workspace (sample_ids ''w2'')) ?s1"
    using assms by (auto simp: fresh_workspace_def sample_ids_def sample_worker_def)
  have "onboarding_move sample_onboarding_env ?s ?s1"
    using onboarding_move.begun [OF sample_worker_starts fresh(1)] by simp
  moreover have "onboarding_move sample_onboarding_env ?s1 (sample_world d)"
    using onboarding_move.begun [OF sample_worker_starts fresh(2)] by (simp add: sample_world_def)
  ultimately show ?thesis
    using onboarding_reachable.start onboarding_reachable.move by blast
qed

definition sample_legacy_db :: fuse_db where
  "sample_legacy_db = set_operations [legacy_operation] empty_fuse_db"

lemma empty_fuse_db_rows: "workspace_rows ws empty_fuse_db = no_rows"
  by (simp add: workspace_rows_def no_rows_def identity_rows_def policy_rows_def provider_rows_def
      empty_fuse_db_def empty_db_def empty_store_def)

lemma sample_databases_fresh:
  "workspace_rows ws empty_fuse_db = no_rows" "workspace_rows ws sample_legacy_db = no_rows"
  "op_identifier ''workspaceId'' legacy_operation = Some ''w0''"
  unfolding sample_legacy_db_def set_operations_simps empty_fuse_db_rows
  by (simp_all add: legacy_operation_def new_operation_def claim_of_def identifiers_of_def sample_worker_def
      sample_ids_def op_identifier_def)

definition sample_replayed :: onboarding_world where
  "sample_replayed = advance sample_onboarding_env 1 sample_tick
     (advance sample_onboarding_env 0 sample_tick (sample_world sample_legacy_db))"

lemma workspace_created_once_witness:
  "map ow_phase (on_workers sample_replayed) = [Ended (Inr legacy_result), Ended (Inr legacy_result)]
   \<and> (\<exists>o1. operation_of ''12345678'' (on_db sample_replayed) = Some o1 \<and> op_status o1 = Onb_completed)"
proof -
  have phases: "map ow_phase (on_workers sample_replayed) = [Ended (Inr legacy_result), Ended (Inr legacy_result)]"
    "map worker_key (on_workers sample_replayed) = [''12345678'', ''12345678'']" by code_simp+
  then obtain w w' where w: "on_workers sample_replayed = [w, w']" "worker_key w = ''12345678''"
      "worker_key w' = ''12345678''" "ow_phase w = Ended (Inr legacy_result)" "ow_phase w' = Ended (Inr legacy_result)"
    by auto
  have "onboarding_reachable sample_onboarding_env (sample_world sample_legacy_db)"
    by (rule sample_world_reachable) (simp_all add: sample_databases_fresh sample_legacy_db_def)
  then have "onboarding_reachable sample_onboarding_env sample_replayed"
    unfolding sample_replayed_def by (intro reachable_advance sample_tick_ok)
  from workspace_created_once [OF this sample_env_ok, of w w'] w phases(1) show ?thesis by simp
qed

definition sample_failed :: onboarding_world where
  "sample_failed = advance sample_onboarding_env 0 sample_tick (advance sample_onboarding_env 0 sample_tick
     (advance sample_onboarding_env 0 sample_tick (sample_world empty_fuse_db)))"

lemma failed_onboarding_leaves_nothing_witness:
  "ow_phase (hd (on_workers sample_failed)) = Ended (Inl (Thrown ''SERVICE_CREDENTIAL_ENTROPY_INSUFFICIENT''))
   \<and> workspace_rows (worker_workspace (hd (on_workers sample_failed))) (on_db sample_failed) = no_rows"
proof -
  have phases: "map ow_phase (on_workers sample_failed) =
      [Ended (Inl (Thrown ''SERVICE_CREDENTIAL_ENTROPY_INSUFFICIENT'')), Claiming]" by code_simp
  then obtain w us where w: "on_workers sample_failed = w # us"
      "ow_phase w = Ended (Inl (Thrown ''SERVICE_CREDENTIAL_ENTROPY_INSUFFICIENT''))" by auto
  have "onboarding_reachable sample_onboarding_env (sample_world empty_fuse_db)"
    by (rule sample_world_reachable) (simp_all add: sample_databases_fresh, simp add: empty_fuse_db_def operations_def empty_db_def)
  then have "onboarding_reachable sample_onboarding_env sample_failed"
    unfolding sample_failed_def by (intro reachable_advance sample_tick_ok)
  from failed_onboarding_leaves_nothing [OF this sample_env_ok, of w] w show ?thesis by simp
qed

end
