(* ===== verification/Receipts.thy ===== *)
theory Receipts
  imports PolicyReadProperties SecretDelivery
begin

text \<open>
  \<open>src/src/product/paymentEvidence.ts\<close> and \<open>src/src/product/receipts.ts\<close>. Payment evidence is kept once per
  request, in memory or in the table \<open>fuse_payment_evidence\<close>; the receipt service joins the decisions of a
  mandate with their settlements and their evidence, whole, by pages with an opaque cursor, or one by
  one. \<open>ck\<close> stands for the collation key of \<open>localeCompare\<close>, \<open>dp\<close> for \<open>Date.parse\<close>.
\<close>

section \<open>Payment evidence\<close>

record payment_evidence =
  pe_requestId :: string
  pe_organizationId :: string
  pe_actualCostAtomic :: string
  pe_payment :: json
  pe_recordedAt :: timestamp

fun canonicalJson :: "(string \<Rightarrow> string) \<Rightarrow> json \<Rightarrow> string" where
  "canonicalJson ck (JArr js) = ''['' @ comma_sep (map (canonicalJson ck) js) @ '']''"
| "canonicalJson ck (JObj ps) = ''{'' @ comma_sep (map snd (sort_key fst
     (map (\<lambda>(k, j). (ck k, quote_string k @ '':'' @ canonicalJson ck j)) ps))) @ ''}''"
| "canonicalJson ck j = stringify j"

definition sameEvidence :: "(string \<Rightarrow> string) \<Rightarrow> payment_evidence \<Rightarrow> payment_evidence \<Rightarrow> bool" where
  "sameEvidence ck a b \<longleftrightarrow>
     pe_organizationId a = pe_organizationId b \<and> pe_requestId a = pe_requestId b
     \<and> pe_actualCostAtomic a = pe_actualCostAtomic b
     \<and> canonicalJson ck (pe_payment a) = canonicalJson ck (pe_payment b)"

text \<open>The in-memory store: a map whose key joins organization and request by a colon.\<close>

type_synonym evidence_map = "(string \<times> payment_evidence) list"

definition evidence_text :: "string \<Rightarrow> string \<Rightarrow> string" where
  "evidence_text org rid = org @ '':'' @ rid"

definition mem_record ::
    "(string \<Rightarrow> string) \<Rightarrow> payment_evidence \<Rightarrow> evidence_map \<Rightarrow> store_error + (evidence_map \<times> unit)" where
  "mem_record ck e m =
     (let key = evidence_text (pe_organizationId e) (pe_requestId e) in
      case map_of m key of
        Some x \<Rightarrow> if sameEvidence ck x e then Inr (m, ()) else Inl (Thrown ''PAYMENT_EVIDENCE_CONFLICT'')
      | None \<Rightarrow> Inr (m @ [(key, e)], ()))"

definition mem_get :: "string \<Rightarrow> string \<Rightarrow> evidence_map \<Rightarrow> payment_evidence option" where
  "mem_get org rid m = map_of m (evidence_text org rid)"

definition mem_listForRequests :: "string \<Rightarrow> string list \<Rightarrow> evidence_map \<Rightarrow> payment_evidence list" where
  "mem_listForRequests org rids m = List.map_filter (\<lambda>rid. map_of m (evidence_text org rid)) rids"

text \<open>
  The table, with its NUMERIC(78, 0) amount. The driver returns the amount as PostgreSQL prints it,
  so the row of the model holds the printed text.
\<close>

definition evidence_key :: "payment_evidence \<Rightarrow> string \<times> string" where
  "evidence_key e = (pe_organizationId e, pe_requestId e)"

definition amount_column :: "string \<Rightarrow> store_error + string" where
  "amount_column s =
     (case decimal_literal s of
        None \<Rightarrow> Inl (Thrown ''invalid input syntax for type numeric'')
      | Some n \<Rightarrow>
          if 10 ^ 78 \<le> n then Inl (Thrown ''numeric field overflow'') else Inr (show_int n))"

definition pg_record ::
    "(string \<Rightarrow> string) \<Rightarrow> payment_evidence \<Rightarrow> payment_evidence list
       \<Rightarrow> store_error + (payment_evidence list \<times> unit)" where
  "pg_record ck e rows =
     and_then (amount_column (pe_actualCostAtomic e)) (\<lambda>amount.
     and_then (sql_time (pe_recordedAt e)) (\<lambda>t.
     case tbl_find evidence_key (evidence_key e) rows of
       None \<Rightarrow> Inr (rows @ [e\<lparr>pe_actualCostAtomic := amount, pe_recordedAt := Instant t\<rparr>], ())
     | Some x \<Rightarrow>
         if sameEvidence ck x e then Inr (rows, ()) else Inl (Thrown ''PAYMENT_EVIDENCE_CONFLICT'')))"

definition pg_getEvidence :: "string \<Rightarrow> string \<Rightarrow> payment_evidence list \<Rightarrow> payment_evidence option" where
  "pg_getEvidence org rid rows = tbl_find evidence_key (org, rid) rows"

definition pg_listForRequests :: "string \<Rightarrow> string list \<Rightarrow> payment_evidence list \<Rightarrow> payment_evidence list" where
  "pg_listForRequests org rids rows =
     (if rids = [] then []
      else filter (\<lambda>e. pe_organizationId e = org \<and> pe_requestId e \<in> set rids) rows)"


lemma pg_record_Inr:
  assumes "pg_record ck e rows = Inr (rows', u)"
  obtains (new) e' where "tbl_find evidence_key (evidence_key e) rows = None" "rows' = rows @ [e']"
      "evidence_key e' = evidence_key e"
  | (again) x where "tbl_find evidence_key (evidence_key e) rows = Some x" "sameEvidence ck x e" "rows' = rows"
proof (cases "tbl_find evidence_key (evidence_key e) rows")
  case None
  with assms show thesis by (auto simp: pg_record_def and_then_Inr_iff evidence_key_def intro!: new)
next
  case (Some x)
  with assms show thesis by (auto simp: pg_record_def and_then_Inr_iff split: if_splits intro!: again)
qed

text \<open>Evidence that was recorded is never replaced.\<close>

definition evidence_is :: "payment_evidence list \<Rightarrow> (string \<times> string) \<times> payment_evidence \<Rightarrow> bool" where
  "evidence_is rows k \<longleftrightarrow> tbl_find evidence_key (fst k) rows = Some (snd k)"

interpretation evidence: irrevocable "pg_record ck" evidence_is for ck
proof unfold_locales
  fix s k op s' a
  assume "evidence_is s k" "pg_record ck op s = Inr (s', a)"
  from this(2) show "evidence_is s' k"
  proof (cases rule: pg_record_Inr)
    case (new e') with \<open>evidence_is s k\<close> show ?thesis by (simp add: evidence_is_def tbl_find_append)
  next
    case again with \<open>evidence_is s k\<close> show ?thesis by simp
  qed
qed

section \<open>Receipts\<close>

record receipt_payment =
  ry_verified :: bool
  ry_transactionId :: "string option"
  ry_network :: "string option"
  ry_payer :: "string option"

record product_receipt =
  rp_decisionId :: string
  rp_requestId :: string
  rp_workspaceId :: string
  rp_mandateId :: string
  rp_agentId :: string
  rp_policyId :: string
  rp_policyVersion :: int
  rp_result :: policy_decision
  rp_estimatedCostAtomic :: string
  rp_reservedCostAtomic :: "string option"
  rp_actualCostAtomic :: "string option"
  rp_executionStatus :: "exec_status option"
  rp_failureCode :: "string option"
  rp_reconciliationResolved :: bool
  rp_payment :: "receipt_payment option"

fun text_of :: "json option \<Rightarrow> string option" where
  "text_of (Some (JStr s)) = Some s"
| "text_of _ = None"

definition payment_of :: "json \<Rightarrow> receipt_payment" where
  "payment_of j =
     \<lparr>ry_verified = (obj_get ''verified'' j = Some (JBool True)),
      ry_transactionId = (case text_of (obj_get ''transaction'' j) of
         Some t \<Rightarrow> Some t | None \<Rightarrow> text_of (obj_get ''txHash'' j)),
      ry_network = text_of (obj_get ''network'' j), ry_payer = text_of (obj_get ''payer'' j)\<rparr>"

definition project_receipt ::
    "string \<Rightarrow> execution_settlement option \<Rightarrow> payment_evidence option \<Rightarrow> stored_decision \<Rightarrow> product_receipt" where
  "project_receipt org x e d =
     \<lparr>rp_decisionId = sd_id d, rp_requestId = sd_requestId d, rp_workspaceId = org,
      rp_mandateId = sd_mandateId d, rp_agentId = sd_agentId d, rp_policyId = sd_policyId d,
      rp_policyVersion = sd_policyVersion d, rp_result = sd_result d,
      rp_estimatedCostAtomic = show_int (di_estimatedCostAtomic (sd_input d)),
      rp_reservedCostAtomic = map_option (\<lambda>x. show_int (xs_reservedCostAtomic x)) x,
      rp_actualCostAtomic = Option.bind x (\<lambda>x. map_option show_int (xs_actualCostAtomic x)),
      rp_executionStatus = map_option xs_status x, rp_failureCode = Option.bind x xs_failureCode,
      rp_reconciliationResolved = (case x of None \<Rightarrow> False | Some x \<Rightarrow> xs_resolved x),
      rp_payment = map_option (\<lambda>e. payment_of (pe_payment e)) e\<rparr>"

text \<open>
  The port of the service; all but the first are optional. A cursor is a pair of texts, the time and
  the identifier of the last decision of a page.
\<close>

record receipt_page =
  pg_decisions :: "stored_decision list"
  pg_nextCursor :: "(string \<times> string) option"

record receipt_port =
  rq_listDecisions :: "string \<Rightarrow> string \<Rightarrow> stored_decision list"
  rq_getDecision :: "(string \<Rightarrow> string \<Rightarrow> string \<Rightarrow> stored_decision option) option"
  rq_listSettlements :: "(string \<Rightarrow> string \<Rightarrow> execution_settlement list) option"
  rq_listDecisionsPage :: "(string \<Rightarrow> string \<Rightarrow> nat \<Rightarrow> (string \<times> string) option \<Rightarrow> string option
      \<Rightarrow> store_error + receipt_page) option"
  rq_listSettlementsFor :: "(string \<Rightarrow> string \<Rightarrow> string list \<Rightarrow> execution_settlement list) option"
  rq_getEvidence :: "(string \<Rightarrow> string \<Rightarrow> payment_evidence option) option"
  rq_listEvidence :: "(string \<Rightarrow> string list \<Rightarrow> payment_evidence list) option"

text \<open>A \<open>Map\<close> built from a list: the last entry of a request counts.\<close>

definition by_request :: "('a \<Rightarrow> string) \<Rightarrow> 'a list \<Rightarrow> string \<Rightarrow> 'a option" where
  "by_request f xs = map_of (rev (map (\<lambda>x. (f x, x)) xs))"

definition project_all ::
    "string \<Rightarrow> execution_settlement list \<Rightarrow> payment_evidence list \<Rightarrow> stored_decision list \<Rightarrow> product_receipt list" where
  "project_all org xs es ds = map (\<lambda>d. project_receipt org (by_request xs_requestId xs (sd_requestId d))
     (by_request pe_requestId es (sd_requestId d)) d) ds"

definition own_receipts :: "principal \<Rightarrow> product_receipt list \<Rightarrow> product_receipt list" where
  "own_receipts p rs =
     (if pc_type p = Agent_credential then filter (\<lambda>r. rp_agentId r = pc_id p) rs else rs)"

definition list_receipts :: "receipt_port \<Rightarrow> principal \<Rightarrow> string \<Rightarrow> store_error + product_receipt list" where
  "list_receipts q p mid =
     (if blank mid then Inl (Thrown ''MANDATE_REQUIRED'')
      else let org = pc_organizationId p; ds = rq_listDecisions q org mid;
             xs = (case rq_listSettlements q of None \<Rightarrow> [] | Some f \<Rightarrow> f org mid);
             es = (case rq_listEvidence q of None \<Rightarrow> [] | Some f \<Rightarrow> f org (map sd_requestId ds))
        in Inr (own_receipts p (project_all org xs es ds)))"

text \<open>The cursor a client sends back: \<open>{v: 2, decidedAt, id}\<close> as JSON in base64url.\<close>

definition encode_cursor :: "string \<times> string \<Rightarrow> string" where
  "encode_cursor c = base64url (map of_char (stringify
     (JObj [(''v'', JNum 2), (''decidedAt'', JStr (fst c)), (''id'', JStr (snd c))])))"

definition decode_cursor :: "(string \<Rightarrow> int option) \<Rightarrow> string \<Rightarrow> (string \<times> string) option" where
  "decode_cursor dp text =
     (case json_parse (map char_of (base64_decode text)) of
        None \<Rightarrow> None
      | Some j \<Rightarrow>
          (case (obj_get ''decidedAt'' j, obj_get ''id'' j) of
             (Some (JStr t), Some (JStr i)) \<Rightarrow>
               if obj_get ''v'' j \<noteq> Some (JNum 2) \<or> i = [] \<or> dp t = None then None else Some (t, i)
           | _ \<Rightarrow> None))"

record product_page =
  rg_receipts :: "product_receipt list"
  rg_nextCursor :: "string option"

definition read_cursor ::
    "(string \<Rightarrow> int option) \<Rightarrow> string option \<Rightarrow> store_error + (string \<times> string) option" where
  "read_cursor dp c =
     (case c of
        None \<Rightarrow> Inr None
      | Some text \<Rightarrow>
          if text = [] then Inr None
          else (case decode_cursor dp text of
                  None \<Rightarrow> Inl (Thrown ''INVALID_RECEIPT_CURSOR'') | Some x \<Rightarrow> Inr (Some x)))"

definition listPage ::
    "(string \<Rightarrow> int option) \<Rightarrow> receipt_port \<Rightarrow> principal \<Rightarrow> string \<Rightarrow> string option \<Rightarrow> int option
       \<Rightarrow> store_error + product_page" where
  "listPage dp q p mid c asked =
     (let n = (case asked of None \<Rightarrow> 50 | Some n \<Rightarrow> n); org = pc_organizationId p in
      if n < 1 \<or> 100 < n then Inl (Thrown ''INVALID_RECEIPT_PAGE_SIZE'')
      else and_then (read_cursor dp c) (\<lambda>cursor.
        case rq_listDecisionsPage q of
          Some f \<Rightarrow>
            and_then (f org mid (nat n) cursor
                (if pc_type p = Agent_credential then Some (pc_id p) else None)) (\<lambda>page.
            let rids = map sd_requestId (pg_decisions page);
                xs = (case rq_listSettlementsFor q of None \<Rightarrow> [] | Some g \<Rightarrow> g org mid rids);
                es = (case rq_listEvidence q of None \<Rightarrow> [] | Some g \<Rightarrow> g org rids)
            in Inr \<lparr>rg_receipts = project_all org xs es (pg_decisions page),
                    rg_nextCursor = map_option encode_cursor (pg_nextCursor page)\<rparr>)
        | None \<Rightarrow>
            if cursor \<noteq> None then Inl (Thrown ''RECEIPT_CURSOR_UNSUPPORTED'')
            else and_then (list_receipts q p mid) (\<lambda>rs.
              Inr \<lparr>rg_receipts = take (nat n) rs, rg_nextCursor = None\<rparr>)))"

definition get_receipt ::
    "receipt_port \<Rightarrow> principal \<Rightarrow> string \<Rightarrow> string \<Rightarrow> store_error + product_receipt" where
  "get_receipt q p mid rid =
     and_then (check (first_error
       [(blank mid, Thrown ''MANDATE_REQUIRED''), (blank rid, Thrown ''REQUEST_ID_REQUIRED'')])) (\<lambda>_.
     let org = pc_organizationId p in
     case rq_getDecision q of
       Some f \<Rightarrow>
         (case f org mid rid of
            None \<Rightarrow> Inl (Thrown ''RECEIPT_NOT_FOUND'')
          | Some d \<Rightarrow>
              if pc_type p = Agent_credential \<and> sd_agentId d \<noteq> pc_id p then Inl (Thrown ''RECEIPT_NOT_FOUND'')
              else let xs = (case rq_listSettlementsFor q of None \<Rightarrow> [] | Some g \<Rightarrow> g org mid [rid]);
                       e = (case rq_getEvidence q of None \<Rightarrow> None | Some g \<Rightarrow> g org rid)
                in Inr (project_receipt org (case xs of [] \<Rightarrow> None | x # _ \<Rightarrow> Some x) e d))
     | None \<Rightarrow>
         and_then (list_receipts q p mid) (\<lambda>rs.
         case find (\<lambda>r. rp_requestId r = rid) rs of
           None \<Rightarrow> Inl (Thrown ''RECEIPT_NOT_FOUND'') | Some r \<Rightarrow> Inr r))"

text \<open>
  The port that \<open>src/src/runtime.ts\<close> builds over the policy store; payment evidence is not asked for. The
  cursor's time goes through the \<open>timestamptz\<close> parameter of the query.
\<close>

definition store_port :: "(string \<Rightarrow> int option) \<Rightarrow> policy_store \<Rightarrow> receipt_port" where
  "store_port dp s =
     \<lparr>rq_listDecisions = (\<lambda>org mid. listDecisions org mid s),
      rq_getDecision = Some (\<lambda>org mid rid. getDecision org mid rid s),
      rq_listSettlements = Some (\<lambda>org mid. listExecutionSettlements org mid s),
      rq_listDecisionsPage = Some (\<lambda>org mid n c agentId.
        and_then (case c of
            None \<Rightarrow> Inr None
          | Some (t, i) \<Rightarrow> (case dp t of None \<Rightarrow> Inl InvalidTimestamp | Some ms \<Rightarrow> Inr (Some (ms, i)))) (\<lambda>c'.
        let page = listDecisionsPage org mid n c' agentId s
        in Inr \<lparr>pg_decisions = dp_decisions page,
                pg_nextCursor = map_option (\<lambda>(ms, i). (toISOString ms, i)) (dp_nextCursor page)\<rparr>)),
      rq_listSettlementsFor = Some (\<lambda>org mid rids. listExecutionSettlementsForRequests org mid rids s),
      rq_getEvidence = Some (\<lambda>_ _. None), rq_listEvidence = Some (\<lambda>_ _. [])\<rparr>"

end
