(* ===== verification/ReceiptProperties.thy ===== *)
theory ReceiptProperties
  imports Receipts
begin

text \<open>
  What a reader of receipts sees: the list, the pages and the single receipt agree on one receipt per
  decision, an agent sees its own decisions only, and following the cursors yields the whole list.
\<close>

section \<open>One receipt per decision\<close>

definition settlement_for :: "policy_store \<Rightarrow> string \<Rightarrow> string \<Rightarrow> string \<Rightarrow> execution_settlement option" where
  "settlement_for s org mid rid =
     map_option (settlement_of s) (find (\<lambda>r. in_mandate org mid r \<and> ex_requestId r = rid) (st_executions s))"

definition receipt_of :: "policy_store \<Rightarrow> stored_decision \<Rightarrow> product_receipt" where
  "receipt_of s d = project_receipt (sd_organizationId d)
     (settlement_for s (sd_organizationId d) (sd_mandateId d) (sd_requestId d)) None d"

lemma by_request_unique:
  assumes "distinct (map f xs)"
  shows "by_request f xs k = Some x \<longleftrightarrow> x \<in> set xs \<and> f x = k"
proof -
  have "distinct (map fst (rev (map (\<lambda>x. (f x, x)) xs)))"
    using assms by (simp add: rev_map [symmetric] comp_def)
  then show ?thesis by (auto simp: by_request_def)
qed

lemma mandate_rows_unique:
  assumes "tbl_wf execution_key rows" and "r \<in> set rows" and "r' \<in> set rows"
    and "in_mandate org mid r" and "in_mandate org mid r'" and "ex_requestId r = ex_requestId r'"
  shows "r = r'"
proof -
  have "execution_key r = execution_key r'" using assms(4-6) by (simp add: execution_key_def in_mandate_def)
  with assms(1-3) show ?thesis by (auto simp: tbl_wf_def distinct_map inj_on_def)
qed

lemma settlement_for_iff:
  assumes "tbl_wf execution_key (st_executions s)"
  shows "settlement_for s org mid rid = Some x \<longleftrightarrow>
    (\<exists>r \<in> set (st_executions s). in_mandate org mid r \<and> ex_requestId r = rid \<and> x = settlement_of s r)"
proof
  assume "settlement_for s org mid rid = Some x"
  then show "\<exists>r \<in> set (st_executions s). in_mandate org mid r \<and> ex_requestId r = rid \<and> x = settlement_of s r"
    by (auto simp: settlement_for_def find_Some_iff)
next
  assume "\<exists>r \<in> set (st_executions s). in_mandate org mid r \<and> ex_requestId r = rid \<and> x = settlement_of s r"
  then obtain r where r: "r \<in> set (st_executions s)" "in_mandate org mid r" "ex_requestId r = rid" "x = settlement_of s r"
    by blast
  then obtain r' where f: "find (\<lambda>r. in_mandate org mid r \<and> ex_requestId r = rid) (st_executions s) = Some r'"
    by (cases "find (\<lambda>r. in_mandate org mid r \<and> ex_requestId r = rid) (st_executions s)") (auto simp: find_None_iff)
  then have "r' \<in> set (st_executions s)" "in_mandate org mid r'" "ex_requestId r' = rid"
    by (auto simp: find_Some_iff)
  with mandate_rows_unique [OF assms r(1) _ r(2)] r have "r' = r" by metis
  with f r(4) show "settlement_for s org mid rid = Some x" by (simp add: settlement_for_def)
qed

text \<open>The three queries for settlements give the same answer for a request.\<close>

lemma listed_settlement:
  assumes wf: "tbl_wf execution_key (st_executions s)"
    and xs: "mset xs = mset (map (settlement_of s) (filter (\<lambda>r. in_mandate org mid r \<and> Q (ex_requestId r)) (st_executions s)))"
    and "Q rid"
  shows "by_request xs_requestId xs rid = settlement_for s org mid rid"
proof -
  let ?rows = "filter (\<lambda>r. in_mandate org mid r \<and> Q (ex_requestId r)) (st_executions s)"
  have "distinct (map ex_requestId ?rows)"
  proof (subst distinct_map, intro conjI)
    show "distinct ?rows" using wf by (simp add: tbl_wf_def distinct_map)
    show "inj_on ex_requestId (set ?rows)" using mandate_rows_unique [OF wf] by (auto intro!: inj_onI)
  qed
  then have "distinct (map xs_requestId (map (settlement_of s) ?rows))"
    by (simp add: comp_def settlement_of_def)
  moreover have "mset (map xs_requestId xs) = mset (map xs_requestId (map (settlement_of s) ?rows))"
    using xs by (simp only: mset_map)
  ultimately have d: "distinct (map xs_requestId xs)" by (metis mset_eq_imp_distinct_iff)
  have "by_request xs_requestId xs rid = Some x \<longleftrightarrow> settlement_for s org mid rid = Some x" for x
    unfolding by_request_unique [OF d] settlement_for_iff [OF wf] mset_eq_setD [OF xs]
    using assms(3) by (auto simp: settlement_of_def)
  then show ?thesis by (metis option.exhaust)
qed

lemma listed_for_requests:
  assumes "tbl_wf execution_key (st_executions s)" and "rid \<in> set rids"
  shows "by_request xs_requestId (listExecutionSettlementsForRequests org mid rids s) rid
    = settlement_for s org mid rid"
  by (rule listed_settlement [OF assms(1), where Q = "\<lambda>r. r \<in> set rids"])
    (simp_all add: listExecutionSettlementsForRequests_def assms(2))

lemma listed_for_mandate:
  assumes "tbl_wf execution_key (st_executions s)"
  shows "by_request xs_requestId (listExecutionSettlements org mid s) rid = settlement_for s org mid rid"
  by (rule listed_settlement [OF assms, where Q = "\<lambda>_. True"]) (simp_all add: listExecutionSettlements_def)

lemma project_all_receipts:
  assumes "\<And>d. d \<in> set ds \<Longrightarrow> of_mandate org mid d
      \<and> by_request xs_requestId xs (sd_requestId d) = settlement_for s org mid (sd_requestId d)"
  shows "project_all org xs [] ds = map (receipt_of s) ds"
  unfolding project_all_def
  by (rule map_cong [OF refl]) (use assms in \<open>auto simp: receipt_of_def of_mandate_def by_request_def\<close>)

section \<open>The list\<close>

definition reader :: "principal \<Rightarrow> string option" where
  "reader p = (if pc_type p = Agent_credential then Some (pc_id p) else None)"

lemma listDecisions_mandate: "d \<in> set (listDecisions org mid s) \<Longrightarrow> of_mandate org mid d \<and> d \<in> set (st_decisions s)"
  by (simp add: listDecisions_def)

lemma list_receipts_shown:
  assumes "tbl_wf execution_key (st_executions s)" and "\<not> blank mid"
  shows "list_receipts (store_port dp s) p mid
    = Inr (map (receipt_of s) (shown (pc_organizationId p) mid (reader p) s))"
proof -
  let ?ds = "listDecisions (pc_organizationId p) mid s"
  have "project_all (pc_organizationId p) (listExecutionSettlements (pc_organizationId p) mid s) [] ?ds
      = map (receipt_of s) ?ds"
    by (rule project_all_receipts) (use listDecisions_mandate listed_for_mandate [OF assms(1)] in blast)
  moreover have "rp_agentId (receipt_of s d) = sd_agentId d" for d
    by (simp add: receipt_of_def project_receipt_def)
  ultimately show ?thesis
    using assms(2)
    by (simp add: list_receipts_def store_port_def Let_def own_receipts_def shown_def reader_def
        filter_map comp_def)
qed

section \<open>The pages\<close>

lemma cursor_json_wf: "json_wf (JObj [(''v'', JNum 2), (''decidedAt'', JStr t), (''id'', JStr i)])"
  by simp

lemma bytes_of_text: "bytes (map of_char s)"
  by (induction s) (simp_all add: bytes_def)

lemma cursor_roundtrip:
  assumes "i \<noteq> []" and "dp t \<noteq> None"
  shows "decode_cursor dp (encode_cursor (t, i)) = Some (t, i)"
proof -
  let ?j = "JObj [(''v'', JNum 2), (''decidedAt'', JStr t), (''id'', JStr i)]"
  have "bytes (map of_char (stringify ?j))" by (rule bytes_of_text)
  then have "base64_decode (encode_cursor (t, i)) = map of_char (stringify ?j)"
    by (simp only: encode_cursor_def base64_roundtrip fst_conv snd_conv)
  then have "json_parse (map char_of (base64_decode (encode_cursor (t, i)))) = Some ?j"
    by (simp add: json_parse_stringify [OF cursor_json_wf] comp_def del: stringify.simps)
  with assms show ?thesis by (simp add: decode_cursor_def)
qed

lemma encode_nonempty: "encode_cursor c \<noteq> []"
  unfolding encode_cursor_def by (rule base64url_nonempty) simp

partial_function (option) read_receipts ::
    "(string \<Rightarrow> int option) \<Rightarrow> receipt_port \<Rightarrow> principal \<Rightarrow> string \<Rightarrow> int \<Rightarrow> string option
       \<Rightarrow> (store_error + product_receipt list) option" where
  "read_receipts dp q p mid n c =
     (case listPage dp q p mid c (Some n) of
        Inl e \<Rightarrow> Some (Inl e)
      | Inr page \<Rightarrow>
          (case rg_nextCursor page of
             None \<Rightarrow> Some (Inr (rg_receipts page))
           | Some c' \<Rightarrow>
               Option.bind (read_receipts dp q p mid n (Some c'))
                 (\<lambda>r. Some (and_then r (\<lambda>rs. Inr (rg_receipts page @ rs))))))"

text \<open>One page of receipts is one page of decisions.\<close>

lemma page_decisions: "d \<in> set (dp_decisions (listDecisionsPage org mid n c a s))
    \<Longrightarrow> of_mandate org mid d \<and> d \<in> set (st_decisions s) \<and> (\<forall>x. a = Some x \<longrightarrow> sd_agentId d = x)"
  by (auto simp: listDecisionsPage_def Let_def dest!: in_set_takeD)

definition cursor_reads :: "(string \<Rightarrow> int option) \<Rightarrow> string option \<Rightarrow> (int \<times> string) option \<Rightarrow> bool" where
  "cursor_reads dp c k \<longleftrightarrow>
     (case k of
        None \<Rightarrow> read_cursor dp c = Inr None
      | Some (ms, i) \<Rightarrow> (\<exists>t. read_cursor dp c = Inr (Some (t, i)) \<and> dp t = Some ms))"

lemma listPage_page:
  assumes "tbl_wf execution_key (st_executions s)" and "1 \<le> n" and "n \<le> 100" and "cursor_reads dp c k"
  shows "listPage dp (store_port dp s) p mid c (Some n) =
    (let page = listDecisionsPage (pc_organizationId p) mid (nat n) k (reader p) s
     in Inr \<lparr>rg_receipts = map (receipt_of s) (dp_decisions page),
            rg_nextCursor = map_option (\<lambda>x. encode_cursor (toISOString (fst x), snd x)) (dp_nextCursor page)\<rparr>)"
proof -
  let ?org = "pc_organizationId p"
  let ?page = "listDecisionsPage ?org mid (nat n) k (reader p) s"
  have proj: "project_all ?org (listExecutionSettlementsForRequests ?org mid
      (map sd_requestId (dp_decisions ?page)) s) [] (dp_decisions ?page) = map (receipt_of s) (dp_decisions ?page)"
    by (rule project_all_receipts) (use page_decisions listed_for_requests [OF assms(1)] in fastforce)
  show ?thesis
  proof (cases k)
    case None
    with assms proj show ?thesis
      by (simp add: listPage_def store_port_def Let_def cursor_reads_def reader_def option.map_comp
          comp_def case_prod_beta)
  next
    case (Some x)
    then obtain ms i where k: "k = Some (ms, i)" by (cases x) simp
    with assms(4) obtain t where "read_cursor dp c = Inr (Some (t, i))" "dp t = Some ms"
      by (auto simp: cursor_reads_def)
    with assms(2,3) proj k show ?thesis
      by (simp add: listPage_def store_port_def Let_def reader_def option.map_comp comp_def case_prod_beta)
  qed
qed

definition readable_ids :: "(string \<Rightarrow> int option) \<Rightarrow> string \<Rightarrow> string \<Rightarrow> policy_store \<Rightarrow> bool" where
  "readable_ids dp org mid s \<longleftrightarrow> list_all (\<lambda>d. sd_id d \<noteq> []
     \<and> dp (toISOString (decided_at d)) = Some (decided_at d)) (listDecisions org mid s)"

lemma next_cursor_reads:
  assumes "readable_ids dp (pc_organizationId p) mid s"
    and "dp_nextCursor (listDecisionsPage (pc_organizationId p) mid n k a s) = Some x"
  shows "cursor_reads dp (Some (encode_cursor (toISOString (fst x), snd x))) (Some x)"
proof -
  let ?page = "listDecisionsPage (pc_organizationId p) mid n k a s"
  from assms(2) have ne: "dp_decisions ?page \<noteq> []"
    and x: "x = (decided_at (last (dp_decisions ?page)), sd_id (last (dp_decisions ?page)))"
    by (auto simp: listDecisionsPage_def Let_def split: if_splits)
  from page_decisions [OF last_in_set [OF ne]]
  have "last (dp_decisions ?page) \<in> set (listDecisions (pc_organizationId p) mid s)"
    by (simp add: listDecisions_def)
  with assms(1) x have "snd x \<noteq> []" "dp (toISOString (fst x)) = Some (fst x)"
    by (auto simp: readable_ids_def list_all_iff)
  with cursor_roundtrip [of "snd x" dp "toISOString (fst x)"] show ?thesis
    by (cases x) (simp add: cursor_reads_def read_cursor_def encode_nonempty)
qed

lemma read_receipts_pages:
  assumes "tbl_wf execution_key (st_executions s)" and "1 \<le> n" and "n \<le> 100"
    and "readable_ids dp (pc_organizationId p) mid s"
    and "read_pages (pc_organizationId p) mid (nat n) k (reader p) s = Some ds" and "cursor_reads dp c k"
  shows "read_receipts dp (store_port dp s) p mid n c = Some (Inr (map (receipt_of s) ds))"
  using assms(5,6)
proof (induction ds arbitrary: c k rule: measure_induct_rule [of length])
  case (less ds)
  let ?page = "listDecisionsPage (pc_organizationId p) mid (nat n) k (reader p) s"
  note step = listPage_page [OF assms(1-3) less.prems(2), unfolded Let_def]
  show ?case
  proof (cases "dp_nextCursor ?page")
    case None
    with less.prems(1) show ?thesis
      by (subst read_receipts.simps, subst (asm) read_pages.simps) (simp add: step)
  next
    case (Some x)
    with less.prems(1) obtain ds' where ds: "ds = dp_decisions ?page @ ds'"
      and rest: "read_pages (pc_organizationId p) mid (nat n) (Some x) (reader p) s = Some ds'"
      by (subst (asm) (2) read_pages.simps) (auto simp: bind_eq_Some_conv)
    from Some have "dp_decisions ?page \<noteq> []" by (auto simp: listDecisionsPage_def Let_def split: if_splits)
    with ds have "length ds' < length ds" by simp
    from less.IH [OF this rest next_cursor_reads [OF assms(4) Some]] Some show ?thesis
      by (subst read_receipts.simps) (simp add: step ds)
  qed
qed

text \<open>
  C24: a reader of receipts who follows the cursors, with pages of any allowed size, stops and gets the
  list of receipts, every receipt once and in order. \<open>dp\<close> reads the times the program wrote.
\<close>

theorem receipt_pages_complete:
  assumes "run_allowed hold_code_allowed (store_step sha) ops (empty_store orgs agents)"
    and "s = tx_run (store_step sha) ops (empty_store orgs agents)"
    and "1 \<le> n" and "n \<le> 100" and "\<not> blank mid" and "readable_ids dp (pc_organizationId p) mid s"
  shows "read_receipts dp (store_port dp s) p mid n None = Some (list_receipts (store_port dp s) p mid)"
proof -
  have wf: "tbl_wf execution_key (st_executions s)"
    using store_tx.run_inv [OF empty_store_inv assms(1)] by (simp add: assms(2) store_inv_def inv_parts_def)
  have "read_pages (pc_organizationId p) mid (nat n) None (reader p) s
      = Some (shown (pc_organizationId p) mid (reader p) s)"
    using read_pages_rest [of s "nat n"] assms(3) by (simp add: assms(2) run_decisions_wf after_cursor_def)
  from read_receipts_pages [OF wf assms(3,4,6) this, of None] list_receipts_shown [OF wf assms(5)]
  show ?thesis by (simp add: cursor_reads_def read_cursor_def)
qed

lemma page_reads:
  assumes "listPage dp (store_port dp s) p mid c asked = Inr page"
  obtains n k where "1 \<le> n" "n \<le> 100" "cursor_reads dp c k"
    "listPage dp (store_port dp s) p mid c (Some n) = Inr page"
proof -
  from assms have "listPage dp (store_port dp s) p mid c (Some (case asked of None \<Rightarrow> 50 | Some n \<Rightarrow> n)) = Inr page"
    by (simp add: listPage_def)
  then obtain n where eq: "listPage dp (store_port dp s) p mid c (Some n) = Inr page" by blast
  then have n: "1 \<le> n" "n \<le> 100" by (auto simp: listPage_def Let_def split: if_splits)
  with eq obtain x where x: "read_cursor dp c = Inr x"
    by (auto simp: listPage_def Let_def and_then_Inr_iff split: if_splits)
  then have "\<exists>k. cursor_reads dp c k"
  proof (cases x)
    case None
    with x show ?thesis by (intro exI [of _ None]) (simp add: cursor_reads_def)
  next
    case (Some ti)
    with x have "dp (fst ti) \<noteq> None"
      by (auto simp: read_cursor_def decode_cursor_def split: option.splits if_splits json.splits)
    with x Some obtain ms where "dp (fst ti) = Some ms" by blast
    with x Some show ?thesis
      by (intro exI [of _ "Some (ms, snd ti)"], cases ti) (simp add: cursor_reads_def)
  qed
  with n eq that show thesis by blast
qed

lemma head_settlement:
  "(case map f (filter P xs) of [] \<Rightarrow> None | x # _ \<Rightarrow> Some x) = map_option f (find P xs)"
  by (induction xs) simp_all

lemma get_receipt_shown:
  assumes "tbl_wf execution_key (st_executions s)"
    and "get_receipt (store_port dp s) p mid rid = Inr r"
  shows "\<exists>d \<in> set (st_decisions s). r = receipt_of s d \<and> of_mandate (pc_organizationId p) mid d
    \<and> (\<forall>a. reader p = Some a \<longrightarrow> sd_agentId d = a)"
proof -
  let ?org = "pc_organizationId p"
  from assms(2) obtain d where d: "getDecision ?org mid rid s = Some d"
    and own: "pc_type p = Agent_credential \<longrightarrow> sd_agentId d = pc_id p"
    and r: "r = project_receipt ?org (case listExecutionSettlementsForRequests ?org mid [rid] s of
      [] \<Rightarrow> None | x # _ \<Rightarrow> Some x) None d"
    by (auto simp: get_receipt_def store_port_def and_then_Inr_iff Let_def split: option.splits if_splits)
  from d have row: "d \<in> set (st_decisions s)" "of_mandate ?org mid d" "sd_requestId d = rid"
    by (auto simp: getDecision_def find_Some_iff)
  have "r = receipt_of s d"
    unfolding r listExecutionSettlementsForRequests_def head_settlement
    using row by (simp add: receipt_of_def settlement_for_def of_mandate_def)
  with row own show ?thesis by (auto simp: reader_def)
qed

text \<open>
  C21: whatever the list, a page or the query for one receipt returns is the receipt of a stored decision
  of the reader's organization and the mandate asked for, with the settlement of that execution; an
  agent gets receipts of its own decisions only.
\<close>

theorem receipts_confined:
  assumes "run_allowed hold_code_allowed (store_step sha) ops (empty_store orgs agents)"
    and "s = tx_run (store_step sha) ops (empty_store orgs agents)"
    and "list_receipts (store_port dp s) p mid = Inr rs
      \<or> (\<exists>page. listPage dp (store_port dp s) p mid c asked = Inr page \<and> rs = rg_receipts page)
      \<or> (\<exists>rid x. get_receipt (store_port dp s) p mid rid = Inr x \<and> rs = [x])"
    and "r \<in> set rs"
  shows "\<exists>d \<in> set (st_decisions s). r = receipt_of s d \<and> sd_organizationId d = pc_organizationId p
    \<and> sd_mandateId d = mid \<and> (pc_type p = Agent_credential \<longrightarrow> sd_agentId d = pc_id p)"
proof -
  have wf: "tbl_wf execution_key (st_executions s)"
    using store_tx.run_inv [OF empty_store_inv assms(1)] by (simp add: assms(2) store_inv_def inv_parts_def)
  let ?good = "\<lambda>d. d \<in> set (st_decisions s) \<and> of_mandate (pc_organizationId p) mid d
    \<and> (pc_type p = Agent_credential \<longrightarrow> sd_agentId d = pc_id p)"
  from assms(3) have "\<exists>d. ?good d \<and> r = receipt_of s d"
  proof (elim disjE exE conjE)
    assume "list_receipts (store_port dp s) p mid = Inr rs"
    moreover from this have "\<not> blank mid" by (auto simp: list_receipts_def)
    ultimately show ?thesis using list_receipts_shown [OF wf, of mid dp p] assms(4)
      by (auto simp: shown_def reader_def listDecisions_def split: if_splits)
  next
    fix page assume page: "listPage dp (store_port dp s) p mid c asked = Inr page" "rs = rg_receipts page"
    from page_reads [OF page(1)] obtain n k where n: "1 \<le> n" "n \<le> 100" "cursor_reads dp c k"
      and eq: "listPage dp (store_port dp s) p mid c (Some n) = Inr page" by blast
    have "rs = map (receipt_of s) (dp_decisions (listDecisionsPage (pc_organizationId p) mid (nat n) k (reader p) s))"
      using listPage_page [OF wf n, of p mid] eq page(2) by (auto simp: Let_def)
    with assms(4) obtain d where "r = receipt_of s d"
      "d \<in> set (dp_decisions (listDecisionsPage (pc_organizationId p) mid (nat n) k (reader p) s))" by auto
    with page_decisions [OF this(2)] show ?thesis by (auto simp: reader_def)
  next
    fix rid x assume "get_receipt (store_port dp s) p mid rid = Inr x" "rs = [x]"
    with assms(4) get_receipt_shown [OF wf, of dp p mid rid r] show ?thesis
      by (auto simp: reader_def split: if_splits)
  qed
  then show ?thesis by (auto simp: of_mandate_def)
qed


definition sample_reader :: principal where
  "sample_reader = \<lparr>pc_type = Service_credential, pc_id = ''sa'', pc_organizationId = ''o'', pc_credentialId = ''k'',
     pc_capabilities = [], pc_role = None, pc_expiresAt = None, pc_sourceCredentialId = None,
     pc_sourceCredentialType = None\<rparr>"

lemma sample_decisions:
  "map (\<lambda>d. (sd_id d, decided_at d)) (listDecisions ''o'' ''m'' (sample_run overrun_ops)) = [(''d1'', 1), (''d2'', 3)]"
  by code_simp

lemma sample_dates: "toISOString 3 \<noteq> toISOString 1"
  by code_simp

definition sample_parse :: "string \<Rightarrow> int option" where
  "sample_parse t = (if t = toISOString 1 then Some 1 else Some 3)"

lemma sample_readable: "readable_ids sample_parse ''o'' ''m'' (sample_run overrun_ops)"
  using sample_decisions
  by (auto simp: readable_ids_def list_all_iff sample_parse_def sample_dates map_eq_Cons_conv)

lemma sample_keyed: "tbl_wf execution_key (st_executions (sample_run overrun_ops))"
  using store_tx.run_inv [OF empty_store_inv overrun_run] by (simp add: store_inv_def inv_parts_def)

lemma sample_list:
  "\<exists>rs. list_receipts (store_port dp (sample_run overrun_ops)) sample_reader ''m'' = Inr rs
    \<and> map rp_decisionId rs = [''d1'', ''d2'']"
proof -
  have "\<not> blank ''m''" "reader sample_reader = None" "pc_organizationId sample_reader = ''o''"
    by (code_simp, simp_all add: reader_def sample_reader_def)
  moreover have "map sd_id (listDecisions ''o'' ''m'' (sample_run overrun_ops)) = [''d1'', ''d2'']"
    using arg_cong [OF sample_decisions, of "map fst"] by (simp add: comp_def)
  ultimately show ?thesis
    by (simp add: list_receipts_shown [OF sample_keyed] shown_def receipt_of_def project_receipt_def comp_def)
qed

lemma receipt_pages_complete_witness:
  "\<exists>rs. read_receipts sample_parse (store_port sample_parse (sample_run overrun_ops)) sample_reader ''m'' 1 None
      = Some (Inr rs) \<and> map rp_decisionId rs = [''d1'', ''d2'']"
proof -
  have "\<not> blank ''m''" by code_simp
  moreover have "pc_organizationId sample_reader = ''o''" by (simp add: sample_reader_def)
  ultimately have "read_receipts sample_parse (store_port sample_parse (sample_run overrun_ops)) sample_reader ''m'' 1 None
      = Some (list_receipts (store_port sample_parse (sample_run overrun_ops)) sample_reader ''m'')"
    using receipt_pages_complete [OF overrun_run refl, of 1 "''m''" sample_parse sample_reader] sample_readable by simp
  with sample_list [of sample_parse] show ?thesis by auto
qed

lemma receipts_confined_witness:
  "\<exists>r d. get_receipt (store_port sample_parse (sample_run overrun_ops)) sample_reader ''m'' ''r1'' = Inr r
    \<and> d \<in> set (st_decisions (sample_run overrun_ops)) \<and> r = receipt_of (sample_run overrun_ops) d
    \<and> sd_organizationId d = ''o'' \<and> rp_actualCostAtomic r = Some ''40''"
proof -
  have "map_option rp_actualCostAtomic (case get_receipt (store_port sample_parse (sample_run overrun_ops))
      sample_reader ''m'' ''r1'' of Inl e \<Rightarrow> None | Inr r \<Rightarrow> Some r) = Some (Some ''40'')"
    by code_simp
  then obtain r where r: "get_receipt (store_port sample_parse (sample_run overrun_ops)) sample_reader ''m'' ''r1'' = Inr r"
      "rp_actualCostAtomic r = Some ''40''"
    by (auto split: sum.splits)
  from receipts_confined [OF overrun_run refl, where dp = sample_parse and p = sample_reader and mid = "''m''"
      and rs = "[r]" and r = r and c = None and asked = None] r(1)
  obtain d where "d \<in> set (st_decisions (sample_run overrun_ops))" "r = receipt_of (sample_run overrun_ops) d"
      "sd_organizationId d = pc_organizationId sample_reader" by auto
  with r show ?thesis by (auto simp: sample_reader_def)
qed

end
