(* ===== verification/ProductModels.thy ===== *)
theory ProductModels
  imports Receipts "HOL-Library.Sublist"
begin

text \<open>
  The read models of \<open>src/src/product/\<close>: the onboarding state of a workspace (\<open>onboardingState.ts\<close>), the two
  readiness reports (\<open>setupReadiness.ts\<close>, \<open>productReadiness.ts\<close>), the execution and receipt projections
  (\<open>executionReadModel.ts\<close>, \<open>receiptReadModel.ts\<close>) and the operational audit (\<open>operationalAudit.ts\<close>).
\<close>

section \<open>The onboarding state\<close>

datatype setup_state =
    S_created | S_identity_ready | S_provider_pending | S_provider_verified | S_payment_pending
  | S_payment_ready | S_agent_pending | S_mandate_pending | S_ready_to_run | S_first_run_completed
  | S_blocked

datatype setup_event_type =
    E_identity_ready | E_provider_pending | E_provider_verified | E_payment_pending | E_payment_ready
  | E_agent_pending | E_agent_ready | E_mandate_pending | E_mandate_ready | E_first_run_completed
  | E_suspended | E_unblocked

record setup_event =
  sv_type :: setup_event_type
  sv_actorId :: string
  sv_requestId :: string
  sv_reason :: string

record setup_transition =
  sx_from :: setup_state
  sx_to :: setup_state
  sx_event :: setup_event_type
  sx_actorId :: string
  sx_requestId :: string
  sx_occurredAt :: string
  sx_reason :: "string option"

record setup_snapshot =
  so_workspaceId :: string
  so_state :: setup_state
  so_blockReason :: "string option"
  so_transitions :: "setup_transition list"

fun nextStates :: "setup_state \<Rightarrow> (setup_event_type \<times> setup_state) list" where
  "nextStates S_created = [(E_identity_ready, S_identity_ready), (E_suspended, S_blocked)]"
| "nextStates S_identity_ready = [(E_provider_pending, S_provider_pending),
     (E_provider_verified, S_provider_verified), (E_suspended, S_blocked)]"
| "nextStates S_provider_pending = [(E_provider_verified, S_provider_verified), (E_suspended, S_blocked)]"
| "nextStates S_provider_verified = [(E_payment_pending, S_payment_pending),
     (E_payment_ready, S_payment_ready), (E_suspended, S_blocked)]"
| "nextStates S_payment_pending = [(E_payment_ready, S_payment_ready), (E_suspended, S_blocked)]"
| "nextStates S_payment_ready = [(E_agent_pending, S_agent_pending), (E_agent_ready, S_agent_pending),
     (E_suspended, S_blocked)]"
| "nextStates S_agent_pending = [(E_agent_ready, S_mandate_pending), (E_mandate_pending, S_mandate_pending),
     (E_mandate_ready, S_ready_to_run), (E_suspended, S_blocked)]"
| "nextStates S_mandate_pending = [(E_mandate_ready, S_ready_to_run), (E_suspended, S_blocked)]"
| "nextStates S_ready_to_run = [(E_first_run_completed, S_first_run_completed), (E_suspended, S_blocked)]"
| "nextStates S_first_run_completed = [(E_suspended, S_blocked)]"
| "nextStates S_blocked = [(E_unblocked, S_created)]"

definition nextState :: "setup_state \<Rightarrow> setup_event_type \<Rightarrow> setup_state option" where
  "nextState q e = map_of (nextStates q) e"

definition initialOnboardingState :: "string \<Rightarrow> store_error + setup_snapshot" where
  "initialOnboardingState ws =
     (if js_trim ws = [] then Inl (Thrown ''ONBOARDING_WORKSPACE_REQUIRED'')
      else Inr \<lparr>so_workspaceId = js_trim ws, so_state = S_created, so_blockReason = None, so_transitions = []\<rparr>)"

definition advanceOnboarding ::
    "setup_event \<Rightarrow> string \<Rightarrow> setup_snapshot \<Rightarrow> store_error + setup_snapshot" where
  "advanceOnboarding e now n =
     (let reason = (if sv_type e = E_suspended then Some (sv_reason e) else None) in
      case nextState (so_state n) (sv_type e) of
        None \<Rightarrow> Inl (Thrown (if so_state n = S_blocked \<and> sv_type e \<noteq> E_unblocked
          then ''ONBOARDING_WORKSPACE_BLOCKED'' else ''ONBOARDING_INVALID_TRANSITION''))
      | Some target \<Rightarrow> Inr
          \<lparr>so_workspaceId = so_workspaceId n, so_state = target, so_blockReason = reason,
           so_transitions = so_transitions n
             @ [\<lparr>sx_from = so_state n, sx_to = target, sx_event = sv_type e, sx_actorId = sv_actorId e,
                 sx_requestId = sv_requestId e, sx_occurredAt = now, sx_reason = reason\<rparr>]\<rparr>)"

text \<open>A snapshot that the two functions can build.\<close>

inductive setup_reachable :: "setup_snapshot \<Rightarrow> bool" where
  setup_start: "initialOnboardingState ws = Inr n \<Longrightarrow> setup_reachable n"
| setup_step: "setup_reachable n \<Longrightarrow> advanceOnboarding e now n = Inr n' \<Longrightarrow> setup_reachable n'"

text \<open>
  The milestones a state stands for, and the events since the workspace was last unblocked. Agent and
  mandate are separate milestones, but the table lets an agent that is still pending go on.
\<close>

fun milestones :: "setup_state \<Rightarrow> setup_event_type list" where
  "milestones S_identity_ready = [E_identity_ready]"
| "milestones S_provider_pending = [E_identity_ready]"
| "milestones S_provider_verified = [E_identity_ready, E_provider_verified]"
| "milestones S_payment_pending = [E_identity_ready, E_provider_verified]"
| "milestones S_payment_ready = [E_identity_ready, E_provider_verified, E_payment_ready]"
| "milestones S_agent_pending = [E_identity_ready, E_provider_verified, E_payment_ready]"
| "milestones S_mandate_pending = [E_identity_ready, E_provider_verified, E_payment_ready]"
| "milestones S_ready_to_run = [E_identity_ready, E_provider_verified, E_payment_ready, E_mandate_ready]"
| "milestones S_first_run_completed =
     [E_identity_ready, E_provider_verified, E_payment_ready, E_mandate_ready, E_first_run_completed]"
| "milestones _ = []"

definition since_unblocked :: "setup_transition list \<Rightarrow> setup_event_type list" where
  "since_unblocked ts = rev (takeWhile (\<lambda>e. e \<noteq> E_unblocked) (rev (map sx_event ts)))"

lemma since_unblocked_snoc:
  "since_unblocked (ts @ [t]) = (if sx_event t = E_unblocked then [] else since_unblocked ts @ [sx_event t])"
  by (simp add: since_unblocked_def)

lemma milestones_step:
  assumes "nextState q e = Some q'" and "subseq (milestones q) es" and "e \<noteq> E_unblocked"
  shows "subseq (milestones q') (es @ [e])"
proof -
  have "subseq (milestones q') (milestones q @ [e])"
    using assms(1,3) by (cases q) (auto simp: nextState_def split: if_splits)
  also have "subseq (milestones q @ [e]) (es @ [e])" using assms(2) by simp
  finally show ?thesis .
qed

lemma unblocked_step: "nextState q E_unblocked = Some q' \<Longrightarrow> q' = S_created"
  by (cases q) (simp_all add: nextState_def)

text \<open>The transitions of a snapshot follow each other and end in its state.\<close>

fun setup_path :: "setup_state \<Rightarrow> setup_transition list \<Rightarrow> setup_state \<Rightarrow> bool" where
  "setup_path q [] q' \<longleftrightarrow> q = q'"
| "setup_path q (t # ts) q' \<longleftrightarrow> sx_from t = q \<and> nextState q (sx_event t) = Some (sx_to t) \<and> setup_path (sx_to t) ts q'"

lemma setup_path_snoc:
  "setup_path q (ts @ [t]) q' \<longleftrightarrow>
     setup_path q ts (sx_from t) \<and> nextState (sx_from t) (sx_event t) = Some (sx_to t) \<and> sx_to t = q'"
  by (induction ts arbitrary: q) auto

lemma advance_Inr:
  assumes "advanceOnboarding e now n = Inr n'"
  obtains t where "so_transitions n' = so_transitions n @ [t]" "sx_from t = so_state n" "sx_to t = so_state n'"
    "sx_event t = sv_type e" "nextState (so_state n) (sv_type e) = Some (so_state n')"
    "so_workspaceId n' = so_workspaceId n" "so_blockReason n' \<noteq> None \<longleftrightarrow> sv_type e = E_suspended"
  using assms by (auto simp: advanceOnboarding_def Let_def split: option.splits if_splits)

text \<open>
  C25: a workspace is ready to run only when, since it was last unblocked, its identity was ready, its
  provider verified, its payment set up and its mandate ready, in this order, and the history it carries
  is a run of the transition table that ends in its state.
\<close>

theorem ready_workspace_went_through:
  assumes "setup_reachable n"
  shows "setup_path S_created (so_transitions n) (so_state n)
    \<and> subseq (milestones (so_state n)) (since_unblocked (so_transitions n))
    \<and> (so_blockReason n \<noteq> None \<longleftrightarrow> so_state n = S_blocked)"
  using assms
proof (induction rule: setup_reachable.induct)
  case (setup_start ws n)
  then show ?case by (auto simp: initialOnboardingState_def split: if_splits)
next
  case (setup_step n e now n')
  from setup_step.hyps(2) show ?case
  proof (rule advance_Inr)
    fix t assume t: "so_transitions n' = so_transitions n @ [t]" "sx_from t = so_state n" "sx_to t = so_state n'"
      "sx_event t = sv_type e" "nextState (so_state n) (sv_type e) = Some (so_state n')"
      "so_blockReason n' \<noteq> None \<longleftrightarrow> sv_type e = E_suspended"
    have "sv_type e = E_suspended \<longleftrightarrow> so_state n' = S_blocked"
      using t(5) by (cases "so_state n") (auto simp: nextState_def split: if_splits)
    moreover have "subseq (milestones (so_state n')) (since_unblocked (so_transitions n'))"
      using milestones_step [OF t(5)] unblocked_step [of "so_state n"] t(5) setup_step.IH
      by (auto simp: t(1,4) since_unblocked_snoc)
    ultimately show ?thesis using setup_step.IH t by (simp add: setup_path_snoc)
  qed
qed

fun advance_all :: "setup_event list \<Rightarrow> setup_snapshot \<Rightarrow> store_error + setup_snapshot" where
  "advance_all [] n = Inr n"
| "advance_all (e # es) n = and_then (advanceOnboarding e ''t'' n) (advance_all es)"

lemma advance_all_reachable: "setup_reachable n \<Longrightarrow> advance_all es n = Inr n' \<Longrightarrow> setup_reachable n'"
  by (induction es arbitrary: n) (auto simp: and_then_Inr_iff intro: setup_step)

definition ready_setup :: "store_error + setup_snapshot" where
  "ready_setup = and_then (initialOnboardingState '' w '')
     (advance_all (map (\<lambda>e. \<lparr>sv_type = e, sv_actorId = ''a'', sv_requestId = ''r'', sv_reason = ''review''\<rparr>)
       [E_identity_ready, E_suspended, E_unblocked, E_identity_ready, E_provider_verified, E_payment_ready,
        E_agent_ready, E_agent_ready, E_mandate_ready]))"

lemma ready_workspace_went_through_witness:
  "\<exists>n. ready_setup = Inr n \<and> so_state n = S_ready_to_run
     \<and> subseq (milestones S_ready_to_run) (since_unblocked (so_transitions n))"
proof -
  have "(case ready_setup of Inl e \<Rightarrow> False | Inr n \<Rightarrow> so_state n = S_ready_to_run)" by code_simp
  then obtain n where n: "ready_setup = Inr n" "so_state n = S_ready_to_run"
    by (auto split: sum.splits)
  then have "setup_reachable n"
    unfolding ready_setup_def and_then_Inr_iff using advance_all_reachable setup_start by blast
  from ready_workspace_went_through [OF this] n show ?thesis by auto
qed

section \<open>Readiness\<close>

datatype setup_status = St_verified | St_configured | St_unavailable | St_not_applicable

definition readiness_status :: "bool \<Rightarrow> bool \<Rightarrow> setup_status" where
  "readiness_status b verified = (if verified \<and> b then St_verified else if b then St_configured else St_unavailable)"

record setup_input =
  sr_database :: bool
  sr_provider :: bool
  sr_signer :: bool
  sr_wallet :: bool
  sr_gateway :: bool
  sr_sandbox :: bool

record setup_checks =
  sk_database :: setup_status
  sk_provider :: setup_status
  sk_signer :: setup_status
  sk_wallet :: setup_status
  sk_gateway :: setup_status
  sk_sandbox :: setup_status

record setup_report =
  st_workspaceId :: string
  st_ready :: bool
  st_checks :: setup_checks
  st_missingSteps :: "string list"

definition steps_for :: "(setup_status \<times> string) list \<Rightarrow> string list" where
  "steps_for cs = map snd (filter (\<lambda>(c, t). c = St_unavailable) cs)"

definition buildSetupReadiness :: "principal \<Rightarrow> setup_input \<Rightarrow> setup_report" where
  "buildSetupReadiness p i =
     (let c = \<lparr>sk_database = readiness_status (sr_database i) True,
            sk_provider = readiness_status (sr_provider i) False,
            sk_signer = readiness_status (sr_signer i) False,
            sk_wallet = readiness_status (sr_wallet i) False,
            sk_gateway = readiness_status (sr_gateway i) False,
            sk_sandbox = readiness_status (sr_sandbox i) True\<rparr>;
          missing = steps_for [(sk_database c, ''Restore the durable database connection''),
            (sk_provider c, ''Connect a provider''), (sk_signer c, ''Configure the signer boundary''),
            (sk_wallet c, ''Verify the wallet chain''), (sk_gateway c, ''Align the Gateway environment''),
            (sk_sandbox c, ''Restore the durable sandbox run store'')]
      in \<lparr>st_workspaceId = pc_organizationId p, st_ready = (missing = []), st_checks = c,
          st_missingSteps = missing\<rparr>)"

record product_input = setup_input +
  pi_settlementMode :: bool
  pi_policy :: bool
  pi_agentCredential :: bool
  pi_mandate :: bool

record product_checks = setup_checks +
  pk_policy :: setup_status
  pk_agentCredential :: setup_status
  pk_mandate :: setup_status

record product_report =
  pt_workspaceId :: string
  pt_ready :: bool
  pt_checks :: product_checks
  pt_missingSteps :: "string list"

text \<open>In the payment mode \<open>control\<close> nothing is paid, so the payment checks do not apply.\<close>

definition payment_status :: "product_input \<Rightarrow> bool \<Rightarrow> setup_status" where
  "payment_status i b = (if pi_settlementMode i then readiness_status b False else St_not_applicable)"

definition buildProductReadiness :: "principal \<Rightarrow> product_input \<Rightarrow> product_report" where
  "buildProductReadiness p i =
     (let c = \<lparr>sk_database = readiness_status (sr_database i) True,
            sk_provider = readiness_status (sr_provider i) False,
            sk_signer = payment_status i (sr_signer i), sk_wallet = payment_status i (sr_wallet i),
            sk_gateway = payment_status i (sr_gateway i), sk_sandbox = readiness_status (sr_sandbox i) True,
            pk_policy = readiness_status (pi_policy i) False,
            pk_agentCredential = readiness_status (pi_agentCredential i) False,
            pk_mandate = readiness_status (pi_mandate i) False\<rparr>;
          missing = steps_for [(sk_database c, ''Restore the durable database connection''),
            (sk_provider c, ''Connect a provider''), (pk_policy c, ''Publish a policy''),
            (pk_agentCredential c, ''Issue an agent credential''), (pk_mandate c, ''Create a mandate''),
            (sk_signer c, ''Configure the signer boundary''), (sk_wallet c, ''Verify the wallet chain''),
            (sk_gateway c, ''Align the Gateway environment''),
            (sk_sandbox c, ''Restore the durable sandbox run store'')]
      in \<lparr>pt_workspaceId = pc_organizationId p, pt_ready = (missing = []), pt_checks = c,
          pt_missingSteps = missing\<rparr>)"

lemma status_unavailable [simp]: "readiness_status b v = St_unavailable \<longleftrightarrow> \<not> b"
  by (simp add: readiness_status_def)

lemma steps_for_Nil [simp]: "steps_for [] = []"
  by (simp add: steps_for_def)

lemma steps_for_Cons [simp]: "steps_for ((c, t) # cs) = (if c = St_unavailable then t # steps_for cs else steps_for cs)"
  by (simp add: steps_for_def)

text \<open>The report says ready exactly when everything the payment mode needs is there.\<close>

theorem product_ready_iff:
  "pt_ready (buildProductReadiness p i) \<longleftrightarrow>
     sr_database i \<and> sr_provider i \<and> pi_policy i \<and> pi_agentCredential i \<and> pi_mandate i \<and> sr_sandbox i
     \<and> (pi_settlementMode i \<longrightarrow> sr_signer i \<and> sr_wallet i \<and> sr_gateway i)"
  by (simp add: buildProductReadiness_def payment_status_def Let_def)

section \<open>Projections\<close>

datatype execution_mode = Mode_sandbox | Mode_live

datatype shown_status = Shown_admitted | Shown_denied | Shown_executing | Shown_completed | Shown_held | Shown_failed

datatype payment_state =
    Pay_not_applicable | Pay_pending_batch | Pay_settled | Pay_failed | Pay_unknown

datatype arc_state = Arc_not_applicable | Arc_pending | Arc_verified | Arc_unavailable

record execution_evidence =
  xe_provider :: "string option"
  xe_model :: "string option"
  xe_branchId :: "string option"
  xe_workloadClass :: "string option"
  xe_circuitState :: "string option"
  xe_circuitReason :: "string option"
  xe_payment :: "(payment_state \<times> string option) option"
  xe_arc :: "(arc_state \<times> string option) option"

definition no_evidence :: execution_evidence where
  "no_evidence = \<lparr>xe_provider = None, xe_model = None, xe_branchId = None, xe_workloadClass = None,
     xe_circuitState = None, xe_circuitReason = None, xe_payment = None, xe_arc = None\<rparr>"

record projection_input =
  px_organizationId :: string
  px_decision :: stored_decision
  px_mode :: "execution_mode option"
  px_status :: "shown_status option"
  px_settlement :: "execution_settlement option"
  px_evidence :: "execution_evidence option"

record product_execution =
  pe_executionId :: string
  pe_workspaceId :: string
  pe_mandateId :: string
  pe_agentId :: string
  pe_mode :: execution_mode
  pe_status :: shown_status
  pe_evidence :: execution_evidence
  pe_requestedAtomic :: string
  pe_reservedAtomic :: "string option"
  pe_reportedAtomic :: "string option"
  pe_settledAtomic :: "string option"
  pe_paymentState :: "payment_state \<times> string option"
  pe_arcState :: "arc_state \<times> string option"

definition projectProductExecution :: "projection_input \<Rightarrow> product_execution" where
  "projectProductExecution i =
     (let mode = (case px_mode i of None \<Rightarrow> Mode_live | Some m \<Rightarrow> m); d = px_decision i; x = px_settlement i;
          e = (case px_evidence i of None \<Rightarrow> no_evidence | Some e \<Rightarrow> e)
      in \<lparr>pe_executionId = sd_requestId d, pe_workspaceId = px_organizationId i, pe_mandateId = sd_mandateId d,
          pe_agentId = sd_agentId d, pe_mode = mode,
          pe_status = (case px_status i of
             Some s \<Rightarrow> s
           | None \<Rightarrow> if map_option xs_status x = Some Completed then Shown_completed
               else if pd_enforced (sd_result d) then Shown_admitted else Shown_denied),
          pe_evidence = e\<lparr>xe_payment := None, xe_arc := None\<rparr>,
          pe_requestedAtomic = show_int (di_estimatedCostAtomic (sd_input d)),
          pe_reservedAtomic = map_option (\<lambda>x. show_int (xs_reservedCostAtomic x)) x,
          pe_reportedAtomic = Option.bind x (\<lambda>x. map_option show_int (xs_actualCostAtomic x)),
          pe_settledAtomic = (case x of
             None \<Rightarrow> None
           | Some x \<Rightarrow> if xs_status x = Completed then map_option show_int (xs_actualCostAtomic x) else None),
          pe_paymentState = (if mode = Mode_sandbox then (Pay_not_applicable, None)
             else case xe_payment e of None \<Rightarrow> (Pay_unknown, None) | Some p \<Rightarrow> p),
          pe_arcState = (if mode = Mode_sandbox then (Arc_not_applicable, None)
             else case xe_arc e of None \<Rightarrow> (Arc_unavailable, None) | Some a \<Rightarrow> a)\<rparr>)"

record receipt_model =
  rm_decisionId :: string
  rm_requestId :: string
  rm_workspaceId :: string
  rm_mandateId :: string
  rm_agentId :: string
  rm_policyId :: string
  rm_policyVersion :: int
  rm_result :: policy_decision
  rm_execution :: product_execution

definition projectProductReceipt :: "projection_input \<Rightarrow> receipt_model" where
  "projectProductReceipt i =
     (let d = px_decision i in
      \<lparr>rm_decisionId = sd_id d, rm_requestId = sd_requestId d, rm_workspaceId = px_organizationId i,
       rm_mandateId = sd_mandateId d, rm_agentId = sd_agentId d, rm_policyId = sd_policyId d,
       rm_policyVersion = sd_policyVersion d, rm_result = sd_result d,
       rm_execution = projectProductExecution i\<rparr>)"

text \<open>
  Without an explicit status the projection follows \<open>enforced\<close> and not the outcome: a denial that was
  enforced is shown as admitted, whatever its settlement, unless that is completed.
\<close>

lemma enforced_denial_shown_admitted:
  assumes "pd_outcome (sd_result d) = DENY" and "pd_enforced (sd_result d)"
    and "map_option xs_status x \<noteq> Some Completed"
  shows "pe_status (projectProductExecution \<lparr>px_organizationId = org, px_decision = d, px_mode = None,
    px_status = None, px_settlement = x, px_evidence = None\<rparr>) = Shown_admitted"
  using assms by (simp add: projectProductExecution_def Let_def)

section \<open>Operational audit\<close>

record operational_event =
  oa_eventType :: string
  oa_scopeId :: string
  oa_outcome :: string
  oa_occurredAt :: timestamp
  oa_metadata :: json

text \<open>\<open>[a-z][a-z0-9_.-]{low,high}\<close>.\<close>

definition audit_char :: "char \<Rightarrow> bool" where
  "audit_char c \<longleftrightarrow> (let n = of_char c :: nat in (97 \<le> n \<and> n \<le> 122) \<or> (48 \<le> n \<and> n \<le> 57)
     \<or> c = CHR ''_'' \<or> c = CHR ''.'' \<or> c = CHR ''-'')"

definition audit_name :: "nat \<Rightarrow> nat \<Rightarrow> string \<Rightarrow> bool" where
  "audit_name low high s \<longleftrightarrow>
     (case s of [] \<Rightarrow> False
      | c # cs \<Rightarrow> 97 \<le> (of_char c :: nat) \<and> (of_char c :: nat) \<le> 122 \<and> list_all audit_char cs
          \<and> low \<le> length cs \<and> length cs \<le> high)"

definition validate_operational :: "operational_event \<Rightarrow> store_error option" where
  "validate_operational e = first_error
     [(\<not> audit_name 2 95 (oa_eventType e), Thrown ''AUDIT_EVENT_TYPE_INVALID''),
      (blank (oa_scopeId e) \<or> 256 < length (oa_scopeId e), Thrown ''AUDIT_SCOPE_INVALID''),
      (\<not> audit_name 1 63 (oa_outcome e), Thrown ''AUDIT_OUTCOME_INVALID''),
      (bad_time (oa_occurredAt e), Thrown ''AUDIT_TIME_INVALID'')]"

definition record_operational ::
    "string \<Rightarrow> operational_event \<Rightarrow> (string \<times> operational_event) list
       \<Rightarrow> store_error + (string \<times> operational_event) list" where
  "record_operational uuid e rows =
     and_then (check (validate_operational e)) (\<lambda>_.
     if uuid \<in> fst ` set rows then Inl (UniqueViolation ''fuse_operational_audit_events'')
     else Inr (rows @ [(uuid, e)]))"

definition mem_record_operational ::
    "operational_event \<Rightarrow> operational_event list \<Rightarrow> store_error + operational_event list" where
  "mem_record_operational e es = and_then (check (validate_operational e)) (\<lambda>_. Inr (es @ [e]))"

end
