(* ===== verification/SandboxRuns.thy ===== *)
theory SandboxRuns
  imports FuseService BigIntText "HOL-Library.AList"
begin

text \<open>
  \<open>src/src/product/sandboxRuns.ts\<close> and \<open>src/src/product/sandboxRunStore.ts\<close>: the demonstration run of a workspace, which
  drives the ledger and two circuits of \<open>src/src/core\<close> with fixed costs, and the stores that keep runs.
  SHA-256 in hex is the parameter \<open>sha\<close>.
\<close>

section \<open>The run\<close>

datatype sandbox_error = Sb_ledger ledger_error | Sb_circuit circuit_error | Sb_thrown string

datatype sandbox_branch = Scout | Reviewer

datatype sandbox_event_type =
    Ev_reserved | Ev_usage_reconciled | Ev_acceleration_detected | Ev_branch_tripped
  | Ev_allowance_reclaimed | Ev_sibling_completed

record sandbox_event =
  sb_sequence :: nat
  sb_branchId :: sandbox_branch
  sb_type :: sandbox_event_type
  sb_requestId :: string
  sb_amountAtomic :: "string option"
  sb_circuitState :: "circuit_state option"
  sb_reason :: "circuit_reason option"

record sandbox_run =
  sn_runId :: string
  sn_workspaceId :: string
  sn_seed :: string
  sn_reclaimedAtomic :: string
  sn_actualCostAtomic :: string
  sn_events :: "sandbox_event list"
  sn_rootSettledAtomic :: string
  sn_scoutSettledAtomic :: string
  sn_reviewerSettledAtomic :: string

definition sandboxRunId :: "(string \<Rightarrow> string) \<Rightarrow> string \<Rightarrow> string \<Rightarrow> string" where
  "sandboxRunId sha ws seed = ''sandbox_'' @ take 24 (sha (ws @ '':'' @ seed))"

definition sandbox_circuit :: branch_circuit where
  "sandbox_circuit = new_circuit \<lparr>perCallCeilingMicros = 50000, minimumSpikeDeltaMicros = 1\<rparr>"

definition sandbox_ledger :: "string \<Rightarrow> ledger_error + fuse_ledger" where
  "sandbox_ledger i = new_ledger
     \<lparr>lc_mandateId = i @ ''_mandate'', lc_maximumSpendMicros = 300000,
      lc_children = [(''scout'', 150000), (''reviewer'', 100000)]\<rparr>"

text \<open>The sequence number of an event is its position.\<close>

definition add_event ::
    "sandbox_branch \<Rightarrow> string \<Rightarrow> sandbox_event_type \<Rightarrow> int option \<Rightarrow> circuit_state option
       \<Rightarrow> circuit_reason option \<Rightarrow> sandbox_event list \<Rightarrow> sandbox_event list" where
  "add_event b request k amount q reason es = es @
     [\<lparr>sb_sequence = length es + 1, sb_branchId = b, sb_type = k, sb_requestId = request,
       sb_amountAtomic = map_option show_int amount, sb_circuitState = q, sb_reason = reason\<rparr>]"

text \<open>The loop over the costs of the scout; it stops when the circuit trips.\<close>

fun scout_loop ::
    "string \<Rightarrow> nat \<Rightarrow> int list \<Rightarrow> fuse_ledger \<Rightarrow> branch_circuit \<Rightarrow> sandbox_event list
       \<Rightarrow> sandbox_error + (fuse_ledger \<times> branch_circuit \<times> sandbox_event list)" where
  "scout_loop i k [] l c es = Inr (l, c, es)"
| "scout_loop i k (cost # costs) l c es =
     (let request = i @ ''_scout_'' @ show_nat (k + 1) in
      and_then (lift_err Sb_ledger (ledger_reserve ''scout'' cost request l)) (\<lambda>(l, _).
      let es = add_event Scout request Ev_reserved (Some cost) None None es in
      and_then (lift_err Sb_circuit (evaluate cost c)) (\<lambda>(c, r).
      and_then (lift_err Sb_ledger (ledger_reconcile request cost l)) (\<lambda>(l, _).
      let es = add_event Scout request Ev_usage_reconciled (Some cost) (Some (r_state r)) None es in
      if r_state r = ELEVATED
      then scout_loop i (k + 1) costs l c
             (add_event Scout request Ev_acceleration_detected None (Some ELEVATED) (Some REPEATED_COST_ACCELERATION) es)
      else if r_state r = TRIPPED
      then and_then (lift_err Sb_ledger (ledger_reclaimAvailable ''scout'' l)) (\<lambda>(l, n).
        Inr (l, c, add_event Scout request Ev_allowance_reclaimed (Some n) None None
          (add_event Scout request Ev_branch_tripped None (Some TRIPPED) (Some (r_reason r)) es)))
      else scout_loop i (k + 1) costs l c es))))"

definition reviewer_call ::
    "string \<Rightarrow> fuse_ledger \<Rightarrow> sandbox_event list \<Rightarrow> sandbox_error + (fuse_ledger \<times> sandbox_event list)" where
  "reviewer_call i l es =
     (let request = i @ ''_reviewer_1''; cost = 10000 in
      and_then (lift_err Sb_ledger (ledger_reserve ''reviewer'' cost request l)) (\<lambda>(l, _).
      let es = add_event Reviewer request Ev_reserved (Some cost) None None es in
      and_then (lift_err Sb_circuit (evaluate cost sandbox_circuit)) (\<lambda>(c, _).
      and_then (lift_err Sb_ledger (ledger_reconcile request cost l)) (\<lambda>(l, _).
      let q = Some (cs_state (circuit_snapshot_of c)) in
      Inr (l, add_event Reviewer request Ev_sibling_completed (Some cost) q None
        (add_event Reviewer request Ev_usage_reconciled (Some cost) q None es))))))"

definition settled_of :: "string \<Rightarrow> ledger_view \<Rightarrow> string" where
  "settled_of child v = (case map_of (lv_children v) child of None \<Rightarrow> ''0'' | Some (a, _) \<Rightarrow> show_int (settledMicros a))"

definition make_run :: "string \<Rightarrow> string \<Rightarrow> string \<Rightarrow> sandbox_error + sandbox_run" where
  "make_run i ws seed =
     and_then (lift_err Sb_ledger (sandbox_ledger i)) (\<lambda>l.
     and_then (scout_loop i 0 [5000, 20000, 80000] l sandbox_circuit []) (\<lambda>(l, _, es).
     and_then (reviewer_call i l es) (\<lambda>(l, es).
     let v = ledger_snapshot l in
     Inr \<lparr>sn_runId = i, sn_workspaceId = ws, sn_seed = seed,
          sn_reclaimedAtomic = (case find (\<lambda>e. sb_type e = Ev_allowance_reclaimed) es of
             None \<Rightarrow> ''0'' | Some e \<Rightarrow> (case sb_amountAtomic e of None \<Rightarrow> ''0'' | Some a \<Rightarrow> a)),
          sn_actualCostAtomic = show_int 10000, sn_events = es,
          sn_rootSettledAtomic = show_int (settledMicros (fst (lv_root v))),
          sn_scoutSettledAtomic = settled_of ''scout'' v,
          sn_reviewerSettledAtomic = settled_of ''reviewer'' v\<rparr>)))"

section \<open>The service and the stores\<close>

definition sandbox_reference :: "string \<Rightarrow> string \<Rightarrow> sandbox_error + (string \<times> string)" where
  "sandbox_reference ws seed =
     (let w = js_trim ws; s = (if js_trim seed = [] then ''default'' else js_trim seed) in
      if w = [] then Inl (Sb_thrown ''WORKSPACE_REQUIRED'')
      else if 128 < length w \<or> 128 < length s then Inl (Sb_thrown ''INVALID_SANDBOX_REFERENCE'')
      else Inr (w, s))"

type_synonym sandbox_runs = "(string \<times> sandbox_run) list"

definition sandbox_service_run ::
    "(string \<Rightarrow> string) \<Rightarrow> string \<Rightarrow> string \<Rightarrow> sandbox_runs \<Rightarrow> sandbox_error + (sandbox_runs \<times> sandbox_run)" where
  "sandbox_service_run sha ws seed runs =
     and_then (sandbox_reference ws seed) (\<lambda>(w, s).
     let i = sandboxRunId sha w s in
     case map_of runs i of
       Some r \<Rightarrow> Inr (runs, r)
     | None \<Rightarrow> and_then (make_run i w s) (\<lambda>r. Inr (AList.update i r runs, r)))"

definition sandbox_service_get :: "string \<Rightarrow> string \<Rightarrow> sandbox_runs \<Rightarrow> sandbox_error + sandbox_run" where
  "sandbox_service_get ws i runs =
     (case map_of runs i of
        None \<Rightarrow> Inl (Sb_thrown ''SANDBOX_RUN_NOT_FOUND'')
      | Some r \<Rightarrow> if sn_workspaceId r \<noteq> ws then Inl (Sb_thrown ''SANDBOX_RUN_NOT_FOUND'') else Inr r)"

text \<open>The stores: in memory the last run of an identifier, in the table the first one.\<close>

definition store_run_get :: "string \<Rightarrow> string \<Rightarrow> sandbox_runs \<Rightarrow> sandbox_run option" where
  "store_run_get ws i rows =
     (case map_of rows i of None \<Rightarrow> None | Some r \<Rightarrow> if sn_workspaceId r = ws then Some r else None)"

definition mem_run_put :: "sandbox_run \<Rightarrow> sandbox_runs \<Rightarrow> sandbox_runs" where
  "mem_run_put r rows = AList.update (sn_runId r) r rows"

definition pg_run_put :: "sandbox_run \<Rightarrow> sandbox_runs \<Rightarrow> sandbox_runs" where
  "pg_run_put r rows = (if map_of rows (sn_runId r) = None then rows @ [(sn_runId r, r)] else rows)"

text \<open>\<open>runDurable\<close>; \<open>put\<close> is the store's.\<close>

definition run_durable ::
    "(string \<Rightarrow> string) \<Rightarrow> (sandbox_run \<Rightarrow> sandbox_runs \<Rightarrow> sandbox_runs) \<Rightarrow> string \<Rightarrow> string
       \<Rightarrow> sandbox_runs \<times> sandbox_runs \<Rightarrow> sandbox_error + ((sandbox_runs \<times> sandbox_runs) \<times> sandbox_run)" where
  "run_durable sha put ws seed = (\<lambda>(runs, rows).
     and_then (sandbox_reference ws seed) (\<lambda>(w, s).
     case store_run_get w (sandboxRunId sha w s) rows of
       Some r \<Rightarrow> Inr ((runs, rows), r)
     | None \<Rightarrow> and_then (sandbox_service_run sha w s runs) (\<lambda>(runs, r). Inr ((runs, put r rows), r))))"

section \<open>Every run tells the same story\<close>

text \<open>
  The events of a run: the scout reserves and spends three times, its cost accelerates and then passes
  the ceiling, its circuit trips, its unspent allowance goes back; the reviewer finishes its call.
\<close>

definition scout_events :: "string \<Rightarrow> sandbox_event list" where
  "scout_events i =
     add_event Scout (i @ ''_scout_3'') Ev_allowance_reclaimed (Some 45000) None None
     (add_event Scout (i @ ''_scout_3'') Ev_branch_tripped None (Some TRIPPED) (Some ABSOLUTE_CALL_LIMIT)
     (add_event Scout (i @ ''_scout_3'') Ev_usage_reconciled (Some 80000) (Some TRIPPED) None
     (add_event Scout (i @ ''_scout_3'') Ev_reserved (Some 80000) None None
     (add_event Scout (i @ ''_scout_2'') Ev_acceleration_detected None (Some ELEVATED) (Some REPEATED_COST_ACCELERATION)
     (add_event Scout (i @ ''_scout_2'') Ev_usage_reconciled (Some 20000) (Some ELEVATED) None
     (add_event Scout (i @ ''_scout_2'') Ev_reserved (Some 20000) None None
     (add_event Scout (i @ ''_scout_1'') Ev_usage_reconciled (Some 5000) (Some HEALTHY) None
     (add_event Scout (i @ ''_scout_1'') Ev_reserved (Some 5000) None None []))))))))"

definition story_events :: "string \<Rightarrow> sandbox_event list" where
  "story_events i =
     add_event Reviewer (i @ ''_reviewer_1'') Ev_sibling_completed (Some 10000) (Some HEALTHY) None
     (add_event Reviewer (i @ ''_reviewer_1'') Ev_usage_reconciled (Some 10000) (Some HEALTHY) None
     (add_event Reviewer (i @ ''_reviewer_1'') Ev_reserved (Some 10000) None None (scout_events i)))"

definition sandbox_story :: "string \<Rightarrow> string \<Rightarrow> string \<Rightarrow> sandbox_run" where
  "sandbox_story i ws seed =
     \<lparr>sn_runId = i, sn_workspaceId = ws, sn_seed = seed, sn_reclaimedAtomic = show_int 45000,
      sn_actualCostAtomic = show_int 10000, sn_events = story_events i, sn_rootSettledAtomic = show_int 115000,
      sn_scoutSettledAtomic = show_int 105000, sn_reviewerSettledAtomic = show_int 10000\<rparr>"

lemma request_numbers: "show_nat 1 = ''1''" "show_nat (Suc 0) = ''1''" "show_nat 2 = ''2''" "show_nat (Suc (Suc 0)) = ''2''"
  "show_nat 3 = ''3''" "show_nat (Suc (Suc (Suc 0))) = ''3''"
  by code_simp+

lemmas core_steps = ledger_reserve_def ledger_reconcile_def ledger_reclaimAvailable_def available_def
  evaluate_def is_spike_def circuit_result_of_def sandbox_circuit_def new_circuit_def map_set_def tbl_insert_def
  tbl_update_def tbl_find_def Let_def

lemma make_run_story: "make_run i ws seed = Inr (sandbox_story i ws seed)"
  by (simp add: make_run_def sandbox_ledger_def new_ledger_def new_account_def core_steps request_numbers
      reviewer_call_def circuit_snapshot_of_def ledger_snapshot_def settled_of_def sandbox_story_def
      story_events_def scout_events_def add_event_def)

section \<open>Requests for runs\<close>

text \<open>A request is a workspace and a seed; the state is the service's map and the table.\<close>

definition durable_step ::
    "(string \<Rightarrow> string) \<Rightarrow> string \<times> string \<Rightarrow> sandbox_runs \<times> sandbox_runs
       \<Rightarrow> sandbox_error + ((sandbox_runs \<times> sandbox_runs) \<times> sandbox_run)" where
  "durable_step sha q = run_durable sha pg_run_put (fst q) (snd q)"

definition told_for ::
    "(string \<Rightarrow> string) \<Rightarrow> (string \<times> string) set \<Rightarrow> string \<times> sandbox_run \<Rightarrow> bool" where
  "told_for sha asked e \<longleftrightarrow> (\<exists>q \<in> asked. \<exists>w s. sandbox_reference (fst q) (snd q) = Inr (w, s)
     \<and> fst e = sandboxRunId sha w s \<and> snd e = sandbox_story (fst e) w s)"

definition runs_told :: "(string \<Rightarrow> string) \<Rightarrow> (string \<times> string) set \<Rightarrow> sandbox_runs \<times> sandbox_runs \<Rightarrow> bool" where
  "runs_told sha asked st \<longleftrightarrow> (\<forall>e \<in> set (fst st) \<union> set (snd st). told_for sha asked e)"

lemma last_kept: "dropWhile P xs \<noteq> [] \<Longrightarrow> last (dropWhile P xs) = last xs"
  by (induction xs) (auto split: if_splits)

lemma js_trim_trim: "js_trim (js_trim t) = js_trim t"
proof (rule trim_id, cases "js_trim t = []")
  case False
  let ?u = "dropWhile js_space t"
  from False have ne: "dropWhile js_space (rev ?u) \<noteq> []" by (simp add: js_trim_def)
  then have "last (js_trim t) = hd (dropWhile js_space (rev ?u))" by (simp add: js_trim_def last_rev)
  moreover have "hd (js_trim t) = last (rev ?u)"
    using last_kept [OF ne] by (simp only: js_trim_def hd_rev)
  moreover have "?u \<noteq> []" using ne by (metis dropWhile.simps(1) rev.simps(1))
  ultimately have "\<not> js_space (hd (js_trim t))" "\<not> js_space (last (js_trim t))"
    using hd_dropWhile [OF ne] hd_dropWhile [of js_space t] by (simp_all add: last_rev)
  then show "js_trim t = [] \<or> \<not> js_space (hd (js_trim t)) \<and> \<not> js_space (last (js_trim t))" by blast
qed simp

lemma trimmed_reference:
  assumes "sandbox_reference ws seed = Inr (w, s)"
  shows "sandbox_reference w s = Inr (w, s)"
proof -
  have "js_trim ''default'' = ''default''" by code_simp
  then show ?thesis using assms
    by (auto simp: sandbox_reference_def Let_def js_trim_trim split: if_splits)
qed

lemma durable_cases:
  assumes "sandbox_reference ws seed = Inr (w, s)" and "runs_told sha asked (runs, rows)"
  obtains (kept) r where "run_durable sha pg_run_put ws seed (runs, rows) = Inr ((runs, rows), r)"
      "(sandboxRunId sha w s, r) \<in> set rows"
  | (again) r where "run_durable sha pg_run_put ws seed (runs, rows) = Inr ((runs, pg_run_put r rows), r)"
      "(sandboxRunId sha w s, r) \<in> set runs"
  | (fresh) r where "run_durable sha pg_run_put ws seed (runs, rows)
        = Inr ((AList.update (sandboxRunId sha w s) r runs, pg_run_put r rows), r)"
      "r = sandbox_story (sandboxRunId sha w s) w s"
proof (cases "store_run_get w (sandboxRunId sha w s) rows")
  case (Some r)
  then have "(sandboxRunId sha w s, r) \<in> set rows"
    by (auto simp: store_run_get_def dest: map_of_SomeD split: option.splits if_splits)
  with Some assms(1) show thesis by (intro kept) (simp_all add: run_durable_def Let_def)
next
  case None
  show thesis
  proof (cases "map_of runs (sandboxRunId sha w s)")
    case (Some r)
    with None assms(1) show thesis
      by (intro again [of r])
        (simp_all add: run_durable_def sandbox_service_run_def trimmed_reference [OF assms(1)] map_of_SomeD)
  next
    case fresh_id: None
    with None assms(1) show thesis
      by (intro fresh)
        (simp_all add: run_durable_def sandbox_service_run_def trimmed_reference [OF assms(1)] make_run_story Let_def)
  qed
qed

lemma set_pg_run_put: "set (pg_run_put r rows) \<subseteq> insert (sn_runId r, r) (set rows)"
  by (auto simp: pg_run_put_def)

lemma set_AList_update: "set (AList.update k x xs) \<subseteq> insert (k, x) (set xs)"
  by (induction xs) auto

lemma runs_told_more:
  assumes "runs_told sha asked (runs, rows)" and "told_for sha asked e"
    and "set runs' \<subseteq> insert e (set runs)" and "set rows' \<subseteq> insert e (set rows)"
  shows "runs_told sha asked (runs', rows')"
  using assms unfolding runs_told_def fst_conv snd_conv by blast

interpretation sandbox: transactional "durable_step sha" "\<lambda>q _. q \<in> asked" "runs_told sha asked" for sha asked
proof unfold_locales
  fix st op st' r
  assume ok: "runs_told sha asked st" and op: "op \<in> asked" and step: "durable_step sha op st = Inr (st', r)"
  obtain runs rows where st: "st = (runs, rows)" by (cases st)
  from step obtain w s where ref: "sandbox_reference (fst op) (snd op) = Inr (w, s)"
    by (cases "sandbox_reference (fst op) (snd op)") (auto simp: durable_step_def run_durable_def st)
  from ref ok [unfolded st] show "runs_told sha asked st'"
  proof (cases rule: durable_cases)
    case (kept r)
    with step ok st show ?thesis by (simp add: durable_step_def)
  next
    case (again r)
    then have "told_for sha asked (sandboxRunId sha w s, r)" using ok by (auto simp: runs_told_def st)
    then have "told_for sha asked (sn_runId r, r)" unfolding told_for_def by (fastforce simp: sandbox_story_def)
    from runs_told_more [OF ok [unfolded st] this _ set_pg_run_put] again(1) step st
    show ?thesis by (auto simp: durable_step_def)
  next
    case (fresh r)
    then have "told_for sha asked (sn_runId r, r)" "sn_runId r = sandboxRunId sha w s"
      using op ref by (auto simp: told_for_def sandbox_story_def)
    then have told: "told_for sha asked (sn_runId r, r)" and i: "sandboxRunId sha w s = sn_runId r" by simp_all
    from runs_told_more [OF ok [unfolded st] told set_AList_update set_pg_run_put] fresh(1) [unfolded i] step st
    show ?thesis by (auto simp: durable_step_def)
  qed
qed

lemma run_asked: "set ops \<subseteq> asked \<Longrightarrow> run_allowed (\<lambda>q _. q \<in> asked) (durable_step sha) ops st"
  by (induction ops arbitrary: st) simp_all

text \<open>
  C0: the run of a workspace and a seed is the same whenever and however often it is asked for: three
  calls of the scout, the third of which trips its circuit, 45000 units given back, one call of the
  reviewer, and a ledger that settled what both spent. The run identifiers of earlier requests must
  differ, unless they name the same workspace and seed.
\<close>

theorem sandbox_run_fixed:
  assumes "sandbox_reference ws seed = Inr (w, s)"
    and "\<And>q w' s'. q \<in> set ops \<Longrightarrow> sandbox_reference (fst q) (snd q) = Inr (w', s')
      \<Longrightarrow> sandboxRunId sha w' s' = sandboxRunId sha w s \<Longrightarrow> w' = w \<and> s' = s"
  shows "\<exists>st. run_durable sha pg_run_put ws seed (tx_run (durable_step sha) ops ([], []))
    = Inr (st, sandbox_story (sandboxRunId sha w s) w s)"
proof -
  obtain runs rows where st: "tx_run (durable_step sha) ops ([], []) = (runs, rows)" by fastforce
  have ok: "runs_told sha (set ops) (runs, rows)"
    unfolding st [symmetric] by (rule sandbox.run_inv) (simp_all add: runs_told_def run_asked)
  have told: "r = sandbox_story (sandboxRunId sha w s) w s" if "(sandboxRunId sha w s, r) \<in> set runs \<union> set rows" for r
  proof -
    from that ok have "told_for sha (set ops) (sandboxRunId sha w s, r)"
      unfolding runs_told_def fst_conv snd_conv by blast
    then obtain q w' s' where q: "q \<in> set ops" "sandbox_reference (fst q) (snd q) = Inr (w', s')"
      "sandboxRunId sha w s = sandboxRunId sha w' s'" "r = sandbox_story (sandboxRunId sha w s) w' s'"
      by (auto simp: told_for_def)
    from assms(2) [OF q(1,2) q(3) [symmetric]] q(4) show ?thesis by simp
  qed
  from assms(1) ok show ?thesis
    by (cases rule: durable_cases) (use told in \<open>auto simp: st\<close>)
qed

text \<open>
  The identifier joins workspace and seed by a colon, and \<open>run\<close> does not look at the workspace of the run
  it finds: a workspace whose name ends in a part of another's seed is given that workspace's run.
\<close>

lemma sandbox_run_of_another_workspace:
  "run_durable sha pg_run_put ''a'' ''b:c'' (tx_run (durable_step sha) [(''a:b'', ''c'')] ([], []))
     = Inr (([(i, sandbox_story i ''a:b'' ''c'')], [(i, sandbox_story i ''a:b'' ''c'')]), sandbox_story i ''a:b'' ''c'')"
  if "i = sandboxRunId sha ''a'' ''b:c''"
proof -
  have "js_trim ''a'' = ''a''" "js_trim ''b:c'' = ''b:c''" "js_trim ''a:b'' = ''a:b''" "js_trim ''c'' = ''c''" by code_simp+
  moreover have "sandboxRunId sha ''a:b'' ''c'' = i" using that by (simp add: sandboxRunId_def)
  ultimately show ?thesis using that
    by (simp add: run_durable_def durable_step_def tx_def sandbox_reference_def sandbox_service_run_def
        store_run_get_def pg_run_put_def make_run_story sandbox_story_def Let_def)
qed

lemma sandbox_run_fixed_witness:
  "\<exists>st i. run_durable (\<lambda>s. s) pg_run_put ''w'' ''s'' (tx_run (durable_step (\<lambda>s. s)) [(''v'', ''s''), (''w'', ''s'')] ([], []))
    = Inr (st, sandbox_story i ''w'' ''s'')"
proof -
  have r: "sandbox_reference ''w'' ''s'' = Inr (''w'', ''s'')" "sandbox_reference ''v'' ''s'' = Inr (''v'', ''s'')"
    by code_simp+
  have "\<exists>st. run_durable (\<lambda>s. s) pg_run_put ''w'' ''s''
      (tx_run (durable_step (\<lambda>s. s)) [(''v'', ''s''), (''w'', ''s'')] ([], []))
    = Inr (st, sandbox_story (sandboxRunId (\<lambda>s. s) ''w'' ''s'') ''w'' ''s'')"
    by (rule sandbox_run_fixed [OF r(1)]) (auto simp: r sandboxRunId_def)
  then show ?thesis by blast
qed

end
