(* ===== verification/JournalStore.thy ===== *)
theory JournalStore
  imports Journal PolicyTables "HOL-Library.List_Lexorder" "HOL-Library.Char_ord"
begin

text \<open>
  \<open>src/src/persistence/productionFoundation.ts\<close>: the tables \<open>audit_events\<close>, \<open>journal_entries\<close> and
  \<open>journal_postings\<close>. An entry is checked by an empty \<open>FinancialLedger\<close> and stored with its postings in one
  transaction; reading joins the two tables and groups the rows by entry.
\<close>

section \<open>Tables\<close>

record audit_event =
  ae_id :: string
  ae_organizationId :: string
  ae_entityType :: string
  ae_entityId :: string
  ae_action :: string
  ae_actorId :: string
  ae_causationId :: string
  ae_occurredAt :: timestamp
  ae_payload :: json

record entry_row =
  en_id :: string
  en_organizationId :: string
  en_actorId :: string
  en_causationId :: string
  en_occurredAt :: int
  en_description :: string

record posting_row =
  po_entryId :: string
  po_lineNumber :: nat
  po_posting :: journal_posting

record foundation_db =
  fo_audit :: "audit_event list"
  fo_entries :: "entry_row list"
  fo_postings :: "posting_row list"

definition empty_foundation :: foundation_db where
  "empty_foundation = \<lparr>fo_audit = [], fo_entries = [], fo_postings = []\<rparr>"

datatype foundation_error = Fo_journal journal_error | Fo_store store_error

section \<open>Audit events\<close>

definition validateAuditEvent :: "audit_event \<Rightarrow> store_error option" where
  "validateAuditEvent e = first_error
     [(blank (ae_id e), Thrown ''AUDIT_EVENT_ID_REQUIRED''),
      (blank (ae_organizationId e), Thrown ''AUDIT_EVENT_ORGANIZATION_REQUIRED''),
      (blank (ae_entityType e), Thrown ''AUDIT_EVENT_ENTITY_TYPE_REQUIRED''),
      (blank (ae_entityId e), Thrown ''AUDIT_EVENT_ENTITY_ID_REQUIRED''),
      (blank (ae_action e), Thrown ''AUDIT_EVENT_ACTION_REQUIRED''),
      (blank (ae_actorId e), Thrown ''AUDIT_EVENT_ACTOR_REQUIRED''),
      (blank (ae_causationId e), Thrown ''AUDIT_EVENT_CAUSATION_REQUIRED''),
      (bad_time (ae_occurredAt e), Thrown ''AUDIT_EVENT_OCCURRED_AT_INVALID'')]"

definition appendAuditEvent :: "audit_event \<Rightarrow> foundation_db \<Rightarrow> foundation_error + foundation_db" where
  "appendAuditEvent e d =
     (case validateAuditEvent e of
        Some x \<Rightarrow> Inl (Fo_store x)
      | None \<Rightarrow>
          (case tbl_insert ae_id e (fo_audit d) of
             None \<Rightarrow> Inl (Fo_store (UniqueViolation ''audit_events''))
           | Some rows \<Rightarrow> Inr (d\<lparr>fo_audit := rows\<rparr>)))"

definition audit_time :: "audit_event \<Rightarrow> int" where
  "audit_time e = (case date_parse (ae_occurredAt e) of None \<Rightarrow> 0 | Some t \<Rightarrow> t)"

definition listAuditEvents :: "string \<Rightarrow> string \<Rightarrow> string \<Rightarrow> foundation_db \<Rightarrow> audit_event list" where
  "listAuditEvents org entityType entityId d =
     map (\<lambda>e. e\<lparr>ae_occurredAt := Instant (audit_time e)\<rparr>) (sort_key audit_time (sort_key ae_id
       (filter (\<lambda>e. ae_organizationId e = org \<and> ae_entityType e = entityType \<and> ae_entityId e = entityId)
         (fo_audit d))))"

section \<open>Journal entries\<close>

text \<open>The range of the column \<open>amount_atomic NUMERIC(78, 0)\<close>; its sign was checked before.\<close>

definition posting_fits :: "journal_posting \<Rightarrow> bool" where
  "posting_fits p \<longleftrightarrow> jp_amountAtomic p < 10 ^ 78"

definition posting_rows :: "journal_entry \<Rightarrow> posting_row list" where
  "posting_rows e = map (\<lambda>(i, p). \<lparr>po_entryId = je_id e, po_lineNumber = i, po_posting = p\<rparr>)
     (enumerate 0 (je_postings e))"

definition entry_of :: "string \<Rightarrow> int \<Rightarrow> journal_entry \<Rightarrow> entry_row" where
  "entry_of org t e = \<lparr>en_id = je_id e, en_organizationId = org, en_actorId = je_actorId e,
     en_causationId = je_causationId e, en_occurredAt = t, en_description = je_description e\<rparr>"

definition appendJournalEntry ::
    "string \<Rightarrow> journal_entry \<Rightarrow> foundation_db \<Rightarrow> foundation_error + (foundation_db \<times> unit)" where
  "appendJournalEntry org e d =
     (if blank org then Inl (Fo_store (Thrown ''JOURNAL_ORGANIZATION_REQUIRED''))
      else case journal_append e empty_ledger of
        Inl x \<Rightarrow> Inl (Fo_journal x)
      | Inr _ \<Rightarrow>
          (case date_parse (je_occurredAt e) of
             None \<Rightarrow> Inl (Fo_store InvalidTimestamp)
           | Some t \<Rightarrow>
               (case tbl_insert en_id (entry_of org t e) (fo_entries d) of
                  None \<Rightarrow> Inl (Fo_store (UniqueViolation ''journal_entries''))
                | Some rows \<Rightarrow>
                    if list_ex (\<lambda>p. \<not> posting_fits p) (je_postings e)
                    then Inl (Fo_store (Thrown ''numeric field overflow''))
                    else Inr (d\<lparr>fo_entries := rows, fo_postings := fo_postings d @ posting_rows e\<rparr>, ()))))"

text \<open>The rows of the join, ordered by time, entry and line.\<close>

definition joined_rows :: "string \<Rightarrow> foundation_db \<Rightarrow> (entry_row \<times> posting_row) list" where
  "joined_rows org d = concat (map (\<lambda>e. map (Pair e)
       (sort_key po_lineNumber (filter (\<lambda>p. po_entryId p = en_id e) (fo_postings d))))
     (sort_key en_occurredAt (sort_key en_id (filter (\<lambda>e. en_organizationId e = org) (fo_entries d)))))"

text \<open>One turn of the loop: the entry is created when its first row is read.\<close>

definition read_entry :: "entry_row \<Rightarrow> journal_posting list \<Rightarrow> journal_entry" where
  "read_entry e ps = \<lparr>je_id = en_id e, je_actorId = en_actorId e, je_causationId = en_causationId e,
     je_occurredAt = Instant (en_occurredAt e), je_description = en_description e, je_postings = ps\<rparr>"

definition collect_row :: "entry_row \<times> posting_row \<Rightarrow> journal_entry list \<Rightarrow> journal_entry list" where
  "collect_row r es =
     (let es = (if tbl_find je_id (en_id (fst r)) es = None then es @ [read_entry (fst r) []] else es)
      in tbl_update je_id (en_id (fst r)) (\<lambda>x. x\<lparr>je_postings := je_postings x @ [po_posting (snd r)]\<rparr>) es)"

definition listJournalEntries :: "string \<Rightarrow> foundation_db \<Rightarrow> journal_entry list" where
  "listJournalEntries org d = fold collect_row (joined_rows org d) []"

section \<open>Reading groups the rows by entry\<close>

lemma update_last:
  assumes "key r = k" and "k \<notin> key ` set es"
  shows "tbl_update key k f (es @ [r]) = es @ [f r]"
proof -
  have "\<forall>x \<in> set es. key x \<noteq> k" using assms(2) by auto
  then show ?thesis using assms(1) by (auto simp: tbl_update_def intro!: map_idI)
qed

lemma read_entry_simps [simp]:
  "je_id (read_entry e qs) = en_id e" "je_postings (read_entry e qs) = qs"
  "(read_entry e qs)\<lparr>je_postings := ps\<rparr> = read_entry e ps"
  by (simp_all add: read_entry_def)

lemma collect_rest:
  assumes "en_id e \<notin> je_id ` set es"
  shows "fold collect_row (map (Pair e) ps) (es @ [read_entry e qs]) = es @ [read_entry e (qs @ map po_posting ps)]"
proof (induction ps arbitrary: qs)
  case (Cons p ps)
  have "tbl_find je_id (en_id e) (es @ [read_entry e qs]) \<noteq> None"
    by (simp add: tbl_find_None_iff)
  then obtain y where "tbl_find je_id (en_id e) (es @ [read_entry e qs]) = Some y" by blast
  then have "collect_row (e, p) (es @ [read_entry e qs]) = es @ [read_entry e (qs @ [po_posting p])]"
    using assms by (simp add: collect_row_def update_last [of je_id])
  with Cons show ?case by simp
qed simp

lemma collect_block:
  assumes "en_id e \<notin> je_id ` set es" and "ps \<noteq> []"
  shows "fold collect_row (map (Pair e) ps) es = es @ [read_entry e (map po_posting ps)]"
proof -
  obtain p ps' where ps: "ps = p # ps'" using assms(2) by (cases ps) auto
  have "tbl_find je_id (en_id e) es = None" using assms(1) by (simp add: tbl_find_None_iff)
  then have "collect_row (e, p) es = es @ [read_entry e [po_posting p]]"
    using assms(1) by (simp add: collect_row_def update_last [of je_id])
  with collect_rest [OF assms(1), of ps' "[po_posting p]"] show ?thesis by (simp add: ps)
qed

lemma collect_blocks:
  assumes "distinct (map en_id rows)" and "\<forall>e \<in> set rows. f e \<noteq> [] \<and> en_id e \<notin> je_id ` set es"
  shows "fold collect_row (concat (map (\<lambda>e. map (Pair e) (f e)) rows)) es
    = es @ map (\<lambda>e. read_entry e (map po_posting (f e))) rows"
  using assms
proof (induction rows arbitrary: es)
  case (Cons e rows)
  have "\<forall>x \<in> set rows. f x \<noteq> [] \<and> en_id x \<notin> je_id ` set (es @ [read_entry e (map po_posting (f e))])"
    using Cons.prems by (auto simp: image_iff)
  from Cons.IH [OF _ this] Cons.prems show ?case by (simp add: collect_block)
qed simp

section \<open>What was stored is read back\<close>

text \<open>The postings of an entry are stored as its lines, and only with their entry.\<close>

definition foundation_wf :: "foundation_db \<Rightarrow> bool" where
  "foundation_wf d \<longleftrightarrow> tbl_wf en_id (fo_entries d) \<and> (\<forall>p \<in> set (fo_postings d). po_entryId p \<in> en_id ` set (fo_entries d))"

definition holds_entry :: "foundation_db \<Rightarrow> string \<times> journal_entry \<Rightarrow> bool" where
  "holds_entry d k \<longleftrightarrow> (case date_parse (je_occurredAt (snd k)) of None \<Rightarrow> False
    | Some t \<Rightarrow> foundation_wf d \<and> tbl_find en_id (je_id (snd k)) (fo_entries d) = Some (entry_of (fst k) t (snd k))
        \<and> filter (\<lambda>p. po_entryId p = je_id (snd k)) (fo_postings d) = posting_rows (snd k))"

definition foundation_step :: "string \<times> journal_entry \<Rightarrow> foundation_db \<Rightarrow> foundation_error + (foundation_db \<times> unit)" where
  "foundation_step q = appendJournalEntry (fst q) (snd q)"

lemma posting_rows_id: "filter (\<lambda>p. po_entryId p = i) (posting_rows e) = (if i = je_id e then posting_rows e else [])"
  by (auto simp: posting_rows_def filter_map comp_def case_prod_beta)

lemma append_entry_Inr:
  assumes "appendJournalEntry org e d = Inr (d', u)"
  obtains t where "date_parse (je_occurredAt e) = Some t" "entry_ok e" "\<not> blank org"
    "je_id e \<notin> en_id ` set (fo_entries d)"
    "d' = d\<lparr>fo_entries := fo_entries d @ [entry_of org t e], fo_postings := fo_postings d @ posting_rows e\<rparr>"
proof -
  from assms obtain l t where "journal_append e empty_ledger = Inr (l, ())" and t: "date_parse (je_occurredAt e) = Some t"
    and "\<not> blank org" and "tbl_insert en_id (entry_of org t e) (fo_entries d) = Some (fo_entries d')"
    and d': "fo_postings d' = fo_postings d @ posting_rows e" "d' = d\<lparr>fo_entries := fo_entries d', fo_postings := fo_postings d'\<rparr>"
    by (auto simp: appendJournalEntry_def split: if_splits sum.splits option.splits)
  moreover from this have "entry_ok e" using journal_append_Inr by blast
  moreover have "je_id e \<notin> en_id ` set (fo_entries d)" "fo_entries d' = fo_entries d @ [entry_of org t e]"
    using calculation(4) by (auto simp: tbl_insert_Some entry_of_def tbl_find_None_iff)
  ultimately show thesis by (intro that) simp_all
qed

lemma foundation_wf_step: "foundation_wf d \<Longrightarrow> appendJournalEntry org e d = Inr (d', u) \<Longrightarrow> foundation_wf d'"
  by (erule append_entry_Inr) (auto simp: foundation_wf_def tbl_wf_def posting_rows_def entry_of_def)

interpretation journal_rows: transactional foundation_step "\<lambda>_ _. True" foundation_wf
  by unfold_locales (auto simp: foundation_step_def intro: foundation_wf_step)

interpretation stored_entries: irrevocable foundation_step holds_entry
proof unfold_locales
  fix d k q d' u assume held: "holds_entry d k" and step: "foundation_step q d = Inr (d', u)"
  from held obtain t where k: "date_parse (je_occurredAt (snd k)) = Some t" "foundation_wf d"
    "tbl_find en_id (je_id (snd k)) (fo_entries d) = Some (entry_of (fst k) t (snd k))"
    "filter (\<lambda>p. po_entryId p = je_id (snd k)) (fo_postings d) = posting_rows (snd k)"
    by (auto simp: holds_entry_def split: option.splits)
  from step have "appendJournalEntry (fst q) (snd q) d = Inr (d', u)" by (simp add: foundation_step_def)
  then show "holds_entry d' k"
  proof (rule append_entry_Inr)
    fix t' assume q: "je_id (snd q) \<notin> en_id ` set (fo_entries d)"
      "d' = d\<lparr>fo_entries := fo_entries d @ [entry_of (fst q) t' (snd q)], fo_postings := fo_postings d @ posting_rows (snd q)\<rparr>"
    have "je_id (snd k) \<in> en_id ` set (fo_entries d)" using k(3) by (metis tbl_find_None_iff option.distinct(1))
    with q(1) have "je_id (snd k) \<noteq> je_id (snd q)" by auto
    then show ?thesis
      using k q(2) foundation_wf_step [OF k(2)] step
      by (auto simp: holds_entry_def foundation_step_def tbl_find_append posting_rows_id)
  qed
qed

text \<open>Every stored entry is one that the ledger accepted.\<close>

definition accepted_row :: "foundation_db \<Rightarrow> entry_row \<Rightarrow> bool" where
  "accepted_row d r \<longleftrightarrow> (\<exists>e. entry_ok e \<and> en_id r = je_id e \<and> holds_entry d (en_organizationId r, e))"

definition entries_accepted :: "foundation_db \<Rightarrow> bool" where
  "entries_accepted d \<longleftrightarrow> foundation_wf d \<and> (\<forall>r \<in> set (fo_entries d). accepted_row d r)"

lemma appended_holds:
  assumes "foundation_wf d" and "appendJournalEntry org e d = Inr (d', u)"
  shows "holds_entry d' (org, e)"
  using assms(2)
proof (rule append_entry_Inr)
  fix t assume e: "date_parse (je_occurredAt e) = Some t" "je_id e \<notin> en_id ` set (fo_entries d)"
    "d' = d\<lparr>fo_entries := fo_entries d @ [entry_of org t e], fo_postings := fo_postings d @ posting_rows e\<rparr>"
  have "filter (\<lambda>p. po_entryId p = je_id e) (fo_postings d) = []"
    using assms(1) e(2) unfolding foundation_wf_def filter_empty_conv by metis
  moreover have single: "tbl_find en_id (je_id e) [entry_of org t e] = Some (entry_of org t e)"
    by (simp add: tbl_find_def entry_of_def)
  moreover have "tbl_find en_id (je_id e) (fo_entries d) = None" using e(2) by (simp add: tbl_find_None_iff)
  ultimately show ?thesis
    using e foundation_wf_step [OF assms] single
    by (auto simp: holds_entry_def tbl_find_append posting_rows_id)
qed

interpretation accepted_entries: transactional foundation_step "\<lambda>_ _. True" entries_accepted
proof unfold_locales
  fix d q d' u assume ok: "entries_accepted d" and step: "foundation_step q d = Inr (d', u)"
  have wf: "foundation_wf d" using ok by (simp add: entries_accepted_def)
  have append: "appendJournalEntry (fst q) (snd q) d = Inr (d', u)" using step by (simp add: foundation_step_def)
  then show "entries_accepted d'"
  proof (rule append_entry_Inr)
    fix t assume q: "entry_ok (snd q)"
      "d' = d\<lparr>fo_entries := fo_entries d @ [entry_of (fst q) t (snd q)], fo_postings := fo_postings d @ posting_rows (snd q)\<rparr>"
    have "accepted_row d' (entry_of (fst q) t (snd q))"
      unfolding accepted_row_def using q(1) appended_holds [OF wf append] by (auto simp: entry_of_def)
    moreover have "accepted_row d' r" if "r \<in> set (fo_entries d)" for r
    proof -
      from that ok obtain e where "entry_ok e" "en_id r = je_id e" "holds_entry d (en_organizationId r, e)"
        by (auto simp: entries_accepted_def accepted_row_def)
      with stored_entries.step_final [OF this(3) step] show ?thesis unfolding accepted_row_def by blast
    qed
    ultimately show ?thesis
      using q(2) foundation_wf_step [OF wf append] by (auto simp: entries_accepted_def)
  qed
qed

lemma sorted_posting_rows: "sort_key po_lineNumber (posting_rows e) = posting_rows e"
proof (rule sort_key_id_if_sorted)
  have "map po_lineNumber (posting_rows e) = map fst (enumerate 0 (je_postings e))"
    by (simp add: posting_rows_def comp_def case_prod_beta)
  then show "sorted (map po_lineNumber (posting_rows e))" by simp
qed

definition listed_rows :: "string \<Rightarrow> foundation_db \<Rightarrow> entry_row list" where
  "listed_rows org d = sort_key en_occurredAt (sort_key en_id (filter (\<lambda>e. en_organizationId e = org) (fo_entries d)))"

lemma listed_entry:
  assumes "holds_entry d (org, e)" and "date_parse (je_occurredAt e) = Some t"
  shows "read_entry (entry_of org t e) (map po_posting (sort_key po_lineNumber
      (filter (\<lambda>p. po_entryId p = je_id e) (fo_postings d)))) = e\<lparr>je_occurredAt := Instant t\<rparr>"
proof -
  have "filter (\<lambda>p. po_entryId p = je_id e) (fo_postings d) = posting_rows e"
    using assms by (simp add: holds_entry_def)
  moreover have "map po_posting (posting_rows e) = je_postings e"
    by (simp add: posting_rows_def comp_def case_prod_beta)
  ultimately show ?thesis by (simp add: sorted_posting_rows) (simp add: read_entry_def entry_of_def)
qed

lemma listed_distinct: "foundation_wf d \<Longrightarrow> distinct (map en_id (listed_rows org d))"
  by (auto simp: listed_rows_def foundation_wf_def tbl_wf_def distinct_map intro: inj_on_subset)

lemma list_entries_rows:
  assumes "entries_accepted d"
  shows "listJournalEntries org d = map (\<lambda>r. read_entry r (map po_posting (sort_key po_lineNumber
      (filter (\<lambda>p. po_entryId p = en_id r) (fo_postings d))))) (listed_rows org d)"
proof -
  have "distinct (map en_id (listed_rows org d))"
    using assms by (simp add: listed_distinct entries_accepted_def)
  moreover have "filter (\<lambda>p. po_entryId p = en_id r) (fo_postings d) \<noteq> []" if "r \<in> set (listed_rows org d)" for r
  proof -
    from that assms obtain e where "entry_ok e" "en_id r = je_id e" "holds_entry d (en_organizationId r, e)"
      by (auto simp: listed_rows_def entries_accepted_def accepted_row_def)
    then have "length (filter (\<lambda>p. po_entryId p = en_id r) (fo_postings d)) \<ge> 2"
      by (auto simp: holds_entry_def entry_ok_def posting_rows_def split: option.splits)
    then show ?thesis by auto
  qed
  moreover have "sort_key po_lineNumber ps \<noteq> []" if "ps \<noteq> []" for ps
    using that by (metis length_sort length_0_conv)
  ultimately show ?thesis
    unfolding listJournalEntries_def joined_rows_def listed_rows_def [symmetric]
    by (subst collect_blocks) auto
qed

section \<open>The journal of an organization is what was accepted for it\<close>

text \<open>
  The entries of a history of calls that the store must keep, stated without its tables: those of a named
  organization that the ledger accepts, with an id not used before and amounts that fit the column.
\<close>

definition storable :: "string set \<Rightarrow> string \<times> journal_entry \<Rightarrow> bool" where
  "storable ids q \<longleftrightarrow> \<not> blank (fst q) \<and> entry_ok (snd q) \<and> je_id (snd q) \<notin> ids
     \<and> list_all (\<lambda>p. jp_amountAtomic p < 10 ^ 78) (je_postings (snd q))"

fun accepted_history :: "string set \<Rightarrow> (string \<times> journal_entry) list \<Rightarrow> (string \<times> journal_entry) list" where
  "accepted_history ids [] = []"
| "accepted_history ids (q # qs) =
     (if storable ids q then q # accepted_history (insert (je_id (snd q)) ids) qs else accepted_history ids qs)"

definition entry_time :: "journal_entry \<Rightarrow> int" where
  "entry_time e = (case date_parse (je_occurredAt e) of None \<Rightarrow> 0 | Some t \<Rightarrow> t)"

definition row_of_entry :: "string \<times> journal_entry \<Rightarrow> entry_row" where
  "row_of_entry q = entry_of (fst q) (entry_time (snd q)) (snd q)"

lemma foundation_tx:
  "tx foundation_step q d = (if storable (en_id ` set (fo_entries d)) q
     then d\<lparr>fo_entries := fo_entries d @ [row_of_entry q], fo_postings := fo_postings d @ posting_rows (snd q)\<rparr>
     else d)"
proof (cases "\<exists>d' u. foundation_step q d = Inr (d', u)")
  case True
  then obtain d' u where step: "appendJournalEntry (fst q) (snd q) d = Inr (d', u)"
    by (auto simp: foundation_step_def)
  have fits: "list_all (\<lambda>p. jp_amountAtomic p < 10 ^ 78) (je_postings (snd q))"
    using step unfolding posting_fits_def [symmetric] appendJournalEntry_def
    by (simp add: list_all_iff list_ex_iff split: if_split_asm sum.split_asm option.split_asm)
  have tx: "tx foundation_step q d = d'" using step by (simp add: tx_def foundation_step_def)
  from step show ?thesis
  proof (rule append_entry_Inr)
    fix t assume q: "date_parse (je_occurredAt (snd q)) = Some t" "entry_ok (snd q)" "\<not> blank (fst q)"
      "je_id (snd q) \<notin> en_id ` set (fo_entries d)"
      and d': "d' = d\<lparr>fo_entries := fo_entries d @ [entry_of (fst q) t (snd q)],
        fo_postings := fo_postings d @ posting_rows (snd q)\<rparr>"
    have "storable (en_id ` set (fo_entries d)) q" unfolding storable_def using q fits by blast
    moreover have "row_of_entry q = entry_of (fst q) t (snd q)" using q(1) by (simp add: row_of_entry_def entry_time_def)
    ultimately show ?thesis using tx d' by simp
  qed
next
  case False
  have "\<not> storable (en_id ` set (fo_entries d)) q"
  proof
    assume q: "storable (en_id ` set (fo_entries d)) q"
    then obtain l t where "journal_append (snd q) empty_ledger = Inr (l, ())"
      and "date_parse (je_occurredAt (snd q)) = Some t"
      using journal_append_ok [of "snd q" empty_ledger]
      by (auto simp: storable_def empty_ledger_def entry_ok_def bad_time_def)
    moreover have "tbl_insert en_id (entry_of (fst q) t (snd q)) (fo_entries d) = Some (fo_entries d @ [entry_of (fst q) t (snd q)])"
      using q by (simp add: tbl_insert_Some storable_def entry_of_def tbl_find_None_iff)
    moreover have "\<not> list_ex (\<lambda>p. \<not> posting_fits p) (je_postings (snd q))"
      using q by (simp add: storable_def posting_fits_def list_ex_iff list_all_iff)
    ultimately show False using False q
      by (simp add: foundation_step_def appendJournalEntry_def storable_def)
  qed
  with False show ?thesis by (auto simp: tx_def split: sum.split)
qed

lemma accepted_tables:
  "fo_entries (tx_run foundation_step ops d) =
     fo_entries d @ map row_of_entry (accepted_history (en_id ` set (fo_entries d)) ops)
   \<and> fo_postings (tx_run foundation_step ops d) =
     fo_postings d @ concat (map (\<lambda>q. posting_rows (snd q)) (accepted_history (en_id ` set (fo_entries d)) ops))"
proof (induction ops arbitrary: d)
  case (Cons q ops)
  have "en_id (row_of_entry q) = je_id (snd q)" by (simp add: row_of_entry_def entry_of_def)
  with Cons [of "tx foundation_step q d"] show ?case by (simp add: foundation_tx)
qed simp

lemma accepted_fresh: "q \<in> set (accepted_history ids ops) \<Longrightarrow> je_id (snd q) \<notin> ids"
  by (induction ops arbitrary: ids) (auto simp: storable_def simp del: not_None_eq split: if_split_asm)

lemma accepted_distinct: "distinct (map (\<lambda>q. je_id (snd q)) (accepted_history ids ops))"
proof (induction ops arbitrary: ids)
  case (Cons q ops)
  have "je_id (snd q) \<notin> (\<lambda>x. je_id (snd x)) ` set (accepted_history (insert (je_id (snd q)) ids) ops)"
    using accepted_fresh by fastforce
  with Cons show ?case by simp
qed simp

lemma accepted_postings:
  assumes "distinct (map (\<lambda>q. je_id (snd q)) h)" and "q \<in> set h"
  shows "filter (\<lambda>p. po_entryId p = je_id (snd q)) (concat (map (\<lambda>q. posting_rows (snd q)) h)) = posting_rows (snd q)"
  using assms
proof (induction h)
  case (Cons x h)
  have rest: "filter (\<lambda>p. po_entryId p = i) (concat (map (\<lambda>q. posting_rows (snd q)) h)) = []"
    if "i \<notin> (\<lambda>q. je_id (snd q)) ` set h" for i
    using that by (induction h) (auto simp: posting_rows_id)
  show ?case
  proof (cases "q = x")
    case True
    with Cons.prems rest show ?thesis by (simp add: posting_rows_id)
  next
    case False
    with Cons.prems have "q \<in> set h" "je_id (snd q) \<noteq> je_id (snd x)" by (auto simp: image_iff)
    with Cons show ?thesis by (simp add: posting_rows_id)
  qed
qed simp

lemma sort_key_map: "sort_key f (map g xs) = map g (sort_key (\<lambda>x. f (g x)) xs)"
proof -
  have "insort_key f (g x) (map g ys) = map g (insort_key (\<lambda>x. f (g x)) x ys)" for x ys
    by (induction ys) simp_all
  then show ?thesis by (induction xs) simp_all
qed

text \<open>
  C26: after any calls, the journal of an organization is exactly what was accepted for it and nothing of
  another one: every accepted entry once, with all its postings in their order, by time and then by id.
  Accepted are the entries that the ledger accepts, under an id not used before.
\<close>

theorem journal_entry_read_back:
  "listJournalEntries org (tx_run foundation_step ops empty_foundation) =
     map (\<lambda>e. e\<lparr>je_occurredAt := Instant (entry_time e)\<rparr>)
       (sort_key entry_time (sort_key je_id (map snd (filter (\<lambda>q. fst q = org) (accepted_history {} ops)))))"
proof -
  let ?d = "tx_run foundation_step ops empty_foundation" and ?h = "accepted_history {} ops"
  have ok: "entries_accepted ?d"
    by (rule accepted_entries.run_inv) (simp_all add: entries_accepted_def foundation_wf_def tbl_wf_def empty_foundation_def)
  have tables: "fo_entries ?d = map row_of_entry ?h" "fo_postings ?d = concat (map (\<lambda>q. posting_rows (snd q)) ?h)"
    using accepted_tables [of ops empty_foundation] by (simp_all add: empty_foundation_def)
  let ?f = "\<lambda>r. read_entry r (map po_posting (sort_key po_lineNumber (filter (\<lambda>p. po_entryId p = en_id r) (fo_postings ?d))))"
  have each: "?f (row_of_entry q) = (snd q)\<lparr>je_occurredAt := Instant (entry_time (snd q))\<rparr>" if "q \<in> set ?h" for q
  proof -
    have "filter (\<lambda>p. po_entryId p = je_id (snd q)) (fo_postings ?d) = posting_rows (snd q)"
      unfolding tables using accepted_distinct that by (rule accepted_postings)
    moreover have "map po_posting (posting_rows e) = je_postings e" for e
      by (simp add: posting_rows_def comp_def case_prod_beta)
    ultimately show ?thesis
      by (simp add: row_of_entry_def entry_of_def sorted_posting_rows) (simp add: read_entry_def)
  qed
  have keys: "en_organizationId (row_of_entry q) = fst q" "en_id (row_of_entry q) = je_id (snd q)"
    "en_occurredAt (row_of_entry q) = entry_time (snd q)" for q
    by (simp_all add: row_of_entry_def entry_of_def)
  have "listed_rows org ?d = map row_of_entry (sort_key (\<lambda>q. entry_time (snd q)) (sort_key (\<lambda>q. je_id (snd q))
      (filter (\<lambda>q. fst q = org) ?h)))"
    by (simp add: listed_rows_def tables filter_map comp_def sort_key_map keys)
  then have "listJournalEntries org ?d = map (\<lambda>q. (snd q)\<lparr>je_occurredAt := Instant (entry_time (snd q))\<rparr>)
      (sort_key (\<lambda>q. entry_time (snd q)) (sort_key (\<lambda>q. je_id (snd q)) (filter (\<lambda>q. fst q = org) ?h)))"
    by (simp add: list_entries_rows [OF ok] each)
  then show ?thesis by (simp add: sort_key_map comp_def)
qed

text \<open>Two organizations; the later entry of the first was appended first.\<close>

lemma journal_entry_read_back_witness:
  "map je_id (listJournalEntries ''o'' (tx_run foundation_step
     [(''o'', sample_entry\<lparr>je_id := ''z'', je_occurredAt := Instant 5\<rparr>), (''x'', sample_entry\<lparr>je_id := ''y''\<rparr>),
      (''o'', sample_entry), (''o'', sample_entry)] empty_foundation)) = [je_id sample_entry, ''z'']"
  unfolding journal_entry_read_back by code_simp

end
