(* ===== verification/OrdinarySettlement.thy ===== *)
theory OrdinarySettlement
  imports Receipts Reconciliation
begin

text \<open>
  \<open>src/src/reliability/ordinaryReconciliationSettlement.ts\<close>: what a terminal reconciliation plan does to the policy
  store inside the protocol's transaction, and the response rebuilt from the provider's evidence; with
  the commitments of \<open>src/src/reliability/commitments.ts\<close>. SHA-256 is the parameter \<open>sha\<close>, the collation key of
  \<open>localeCompare\<close> the parameter \<open>ck\<close>.
\<close>

section \<open>Commitments\<close>

definition commitment :: "(string \<Rightarrow> string) \<Rightarrow> (string \<Rightarrow> string) \<Rightarrow> string \<Rightarrow> json \<Rightarrow> string" where
  "commitment sha ck domain j = ''sha256:'' @ sha (canonicalJson ck
     (JObj [(''domain'', JStr domain), (''version'', JNum 2), (''value'', j)]))"

definition buildHttpBodyCommitment :: "(string \<Rightarrow> string) \<Rightarrow> (string \<Rightarrow> string) \<Rightarrow> json \<Rightarrow> string" where
  "buildHttpBodyCommitment sha ck j = commitment sha ck ''fuse-reliability-v2-http-body'' j"

record request_projection =
  rj_organizationId :: string
  rj_credentialId :: string
  rj_mandateId :: string
  rj_branchId :: "string option"
  rj_workloadClass :: "string option"
  rj_idempotencyKey :: string
  rj_body :: json

definition buildRequestCommitment :: "(string \<Rightarrow> string) \<Rightarrow> (string \<Rightarrow> string) \<Rightarrow> request_projection \<Rightarrow> string" where
  "buildRequestCommitment sha ck q = commitment sha ck ''fuse-reliability-v2-request'' (JObj
     [(''method'', JStr ''POST''), (''route'', JStr ''/v1/chat/completions''),
      (''organizationId'', JStr (rj_organizationId q)), (''credentialId'', JStr (rj_credentialId q)),
      (''mandateId'', JStr (rj_mandateId q)), (''branchId'', null_or JStr (rj_branchId q)),
      (''workloadClass'', null_or JStr (rj_workloadClass q)),
      (''idempotencyKey'', JStr (rj_idempotencyKey q)), (''body'', rj_body q)])"

fun is_json_object :: "json \<Rightarrow> bool" where
  "is_json_object (JObj ps) = True"
| "is_json_object _ = False"

definition buildSealedRequestCommitment ::
    "(string \<Rightarrow> string) \<Rightarrow> (string \<Rightarrow> string) \<Rightarrow> request_projection \<Rightarrow> store_error + string" where
  "buildSealedRequestCommitment sha ck q =
     (if \<not> is_json_object (rj_body q) then Inl (Thrown ''SEALED_REQUEST_BODY_INVALID'')
      else Inr (buildRequestCommitment sha ck q))"

section \<open>The cost and the response of the evidence\<close>

definition exactProviderCostMicros :: "jsvalue \<Rightarrow> store_error + string" where
  "exactProviderCostMicros v =
     (case number_text v of
        None \<Rightarrow> Inl (Thrown ''RECOVERED_RESPONSE_COST_INVALID'')
      | Some text \<Rightarrow>
          (case match_decimal text of
             None \<Rightarrow> Inl (Thrown ''RECOVERED_RESPONSE_COST_INVALID'')
           | Some (whole, fraction) \<Rightarrow>
               if 6 < length fraction \<and> list_ex (\<lambda>c. is_digit c \<and> c \<noteq> CHR ''0'') (drop 6 fraction)
               then Inl (Thrown ''RECOVERED_RESPONSE_COST_INVALID'')
               else Inr (show_int (digits_val whole * 1000000 + digits_val (take 6 (take 6 fraction @ zeros 6))))))"

text \<open>
  C27: the planner and the settlement read the same cost from the evidence: what \<open>decimalMicros\<close> accepts is
  exactly what the settlement's parser accepts up to the largest safe integer.
\<close>

theorem exact_cost_agrees:
  "decimalMicros v = Some n \<longleftrightarrow> exactProviderCostMicros v = Inr (show_int n) \<and> n \<le> max_safe_integer"
proof
  assume "decimalMicros v = Some n"
  then show "exactProviderCostMicros v = Inr (show_int n) \<and> n \<le> max_safe_integer"
    by (auto simp: decimalMicros_def exactProviderCostMicros_def Let_def
        split: option.splits prod.splits if_splits)
next
  assume c: "exactProviderCostMicros v = Inr (show_int n) \<and> n \<le> max_safe_integer"
  then obtain cost w f where m: "number_text v = Some cost" "match_decimal cost = Some (w, f)"
    and zs: "\<not> (6 < length f \<and> list_ex (\<lambda>c. is_digit c \<and> c \<noteq> CHR ''0'') (drop 6 f))"
    and "show_int n = show_int (digits_val w * 1000000 + digits_val (take 6 (take 6 f @ zeros 6)))"
    by (auto simp: exactProviderCostMicros_def split: option.splits prod.splits if_splits)
  then have "n = digits_val w * 1000000 + digits_val (take 6 (take 6 f @ zeros 6))"
    using show_int_inj [of n "[]" _ "[]"] by simp
  with c m zs show "decimalMicros v = Some n" by (simp add: decimalMicros_def Let_def)
qed

record response_authority =
  ra_decisionId :: string
  ra_result :: policy_decision
  ra_branchId :: "string option"
  ra_workloadClass :: "string option"
  ra_reservationAtomic :: string
  ra_actualCostAtomic :: string

definition digits_only :: "string \<Rightarrow> bool" where
  "digits_only s \<longleftrightarrow> s \<noteq> [] \<and> list_all is_digit s"

definition allowed_result :: "policy_decision \<Rightarrow> bool" where
  "allowed_result d \<longleftrightarrow> pd_outcome d = ALLOW \<and> pd_wouldOutcome d = ALLOW \<and> pd_enforced d \<and> pd_reasonCodes d = []"

definition authority_ok :: "response_authority \<Rightarrow> bool" where
  "authority_ok a \<longleftrightarrow> ra_decisionId a \<noteq> [] \<and> allowed_result (ra_result a)
     \<and> digits_only (ra_reservationAtomic a) \<and> digits_only (ra_actualCostAtomic a)
     \<and> (truthy (ra_branchId a) \<noteq> None \<longleftrightarrow> truthy (ra_workloadClass a) \<noteq> None)"

text \<open>\<open>content.body.data.output.completion\<close>; every step down must be an object.\<close>

definition completion_of :: "jsvalue \<Rightarrow> jsvalue option" where
  "completion_of body =
     Option.bind (own_prop ''data'' body) (\<lambda>d. Option.bind (own_prop ''output'' d) (own_prop ''completion''))"

text \<open>The parts of the evidence that make a response: completion, tokens in and out, cost, model.\<close>

definition response_parts :: "rec_evidence \<Rightarrow> (string \<times> int \<times> int \<times> string \<times> string) option" where
  "response_parts e =
     (case e_metadataData e of
        None \<Rightarrow> None
      | Some m \<Rightarrow>
          (case (completion_of (e_contentBody e), field_of m ''tokens_prompt'', field_of m ''tokens_completion'',
                 number_text (field_of m ''total_cost'')) of
             (Some (VStr text), VInt prompt, VInt completion, Some cost) \<Rightarrow>
               if cap_status (e_metadata e) \<noteq> 200 \<or> cap_status (e_content e) \<noteq> 200
                  \<or> field_of m ''id'' \<noteq> VStr (e_generationId e) \<or> \<not> nonempty_string (field_of m ''model'')
                  \<or> field_of m ''finish_reason'' \<noteq> VStr ''stop'' \<or> \<not> safe_nonneg prompt \<or> \<not> safe_nonneg completion
               then None
               else Some (text, prompt, completion, cost, string_of (field_of m ''model''))
           | _ \<Rightarrow> None))"

definition stable_projection :: "response_authority \<Rightarrow> provider_result \<Rightarrow> string \<Rightarrow> json" where
  "stable_projection a p model = JObj
     [(''id'', JStr (p_id p)), (''object'', JStr ''chat.completion''), (''model'', JStr model),
      (''choices'', JArr [JObj [(''index'', JNum 0), (''finish_reason'', JStr ''stop''),
        (''message'', JObj [(''role'', JStr ''assistant''), (''content'', JStr (p_content p))])]]),
      (''usage'', JObj [(''prompt_tokens'', JNum (inputTokens (p_usage p))),
        (''completion_tokens'', JNum (outputTokens (p_usage p))),
        (''total_tokens'', JNum (inputTokens (p_usage p) + outputTokens (p_usage p)))]),
      (''fuse'', JObj
        ([(''decision'', JObj [(''id'', JStr (ra_decisionId a)), (''outcome'', JStr ''ALLOW''),
            (''wouldOutcome'', JStr ''ALLOW''), (''enforced'', JBool True), (''reasonCodes'', JArr [])])]
         @ (case (truthy (ra_branchId a), truthy (ra_workloadClass a)) of
              (Some b, Some c) \<Rightarrow> [(''workloadScope'', JObj [(''branchId'', JStr b), (''workloadClass'', JStr c)])]
            | _ \<Rightarrow> [])
         @ [(''reservationAtomic'', JStr (ra_reservationAtomic a)),
            (''actualCostAtomic'', JStr (ra_actualCostAtomic a))]))]"

definition buildResponseCommitment :: "(string \<Rightarrow> string) \<Rightarrow> (string \<Rightarrow> string) \<Rightarrow> json \<Rightarrow> string" where
  "buildResponseCommitment sha ck projection = commitment sha ck ''fuse-reliability-v2-response'' projection"

definition reconstructStableResponse ::
    "(string \<Rightarrow> string) \<Rightarrow> (string \<Rightarrow> string) \<Rightarrow> rec_evidence \<Rightarrow> response_authority
       \<Rightarrow> store_error + (provider_result \<times> json \<times> string)" where
  "reconstructStableResponse sha ck e a =
     (if \<not> authority_ok a then Inl (Thrown ''RECOVERED_RESPONSE_AUTHORITY_INVALID'')
      else case response_parts e of
        None \<Rightarrow> Inl (Thrown ''RECOVERED_RESPONSE_EVIDENCE_INVALID'')
      | Some (text, prompt, completion, cost, model) \<Rightarrow>
          let p = \<lparr>p_id = e_generationId e, p_content = text,
                p_usage = \<lparr>inputTokens = prompt, outputTokens = completion\<rparr>,
                p_providerCostUsd = Some cost, p_providerModel = Some model\<rparr>;
              j = stable_projection a p model
          in Inr (p, j, buildResponseCommitment sha ck j))"

section \<open>Settling in the policy store\<close>

definition loadAuthoritative ::
    "string \<Rightarrow> string \<Rightarrow> string \<Rightarrow> policy_store \<Rightarrow> store_error + (execution_row \<times> response_authority)" where
  "loadAuthoritative org rid actual s =
     (case find_execution org rid s of
        None \<Rightarrow> Inl (Thrown ''AUTHORITATIVE_ORDINARY_EXECUTION_MISSING'')
      | Some r \<Rightarrow>
          (case find (\<lambda>d. sd_organizationId d = org \<and> sd_id d = ex_decisionId r) (st_decisions s) of
             None \<Rightarrow> Inl (Thrown ''AUTHORITATIVE_ORDINARY_EXECUTION_MISSING'')
           | Some d \<Rightarrow>
               if \<not> allowed_result (sd_result d) then Inl (Thrown ''RECOVERED_RESPONSE_AUTHORITY_INVALID'')
               else Inr (r, \<lparr>ra_decisionId = sd_id d, ra_result = sd_result d, ra_branchId = ex_branchId r,
                 ra_workloadClass = ex_workloadClass r, ra_reservationAtomic = show_int (ex_reservedCostAtomic r),
                 ra_actualCostAtomic = actual\<rparr>)))"

text \<open>The column \<open>shadow\<close> of a stored workload class: null, or an object with its parameters.\<close>

definition shadow_column :: "workload_class \<Rightarrow> json" where
  "shadow_column c = null_or (\<lambda>p. JObj
     [(''classPriorWindowSpendAtomic'', JStr (show_int (classPriorWindowSpendAtomic p))),
      (''windowSeconds'', JNum (windowSeconds p)),
      (''targetMinimumObservations'', JNum (targetMinimumObservations p)),
      (''siblingMinimumForScoring'', JNum (siblingMinimumForScoring p)),
      (''siblingMinimumForIntervention'', JNum (siblingMinimumForIntervention p)),
      (''confidenceConstant'', JNum (confidenceConstant p)),
      (''divergenceThresholdBps'', JNum (divergenceThresholdBps p))]) (wc_shadow c)"

definition queueAuthoritativeShadow ::
    "(string \<Rightarrow> string) \<Rightarrow> execution_row \<Rightarrow> int \<Rightarrow> policy_store \<Rightarrow> store_error + policy_store" where
  "queueAuthoritativeShadow sha r t s =
     (case (truthy (ex_branchId r), truthy (ex_workloadClass r)) of
        (Some branchId, Some c) \<Rightarrow>
          (case tbl_find branch_key (ex_organizationId r, ex_mandateId r, branchId) (st_branches s) of
             None \<Rightarrow> Inl (Thrown ''AUTHORITATIVE_SHADOW_BRANCH_INVALID'')
           | Some b \<Rightarrow>
               (case truthy (br_parentBranchId b) of
                  None \<Rightarrow> Inl (Thrown ''AUTHORITATIVE_SHADOW_BRANCH_INVALID'')
                | Some parent \<Rightarrow>
                    (case find_policy (ex_organizationId r) (br_policyId b) (br_policyVersion b) s of
                       None \<Rightarrow> Inl (Thrown ''AUTHORITATIVE_SHADOW_POLICY_INVALID'')
                     | Some p \<Rightarrow>
                         if \<not> list_ex (\<lambda>w. wc_id w = c \<and> shadow_column w = JBool True) (workloadClasses (pr_policy p))
                         then Inl (Thrown ''AUTHORITATIVE_SHADOW_POLICY_INVALID'')
                         else let k = sha (stringify (cohort_json r b parent c));
                                  (rows, ordinal) = next_ordinal (ex_organizationId r) k (st_counters s)
                           in Inr (enqueueShadowEvaluation (ex_organizationId r) (ex_requestId r) t
                                (update_execution (ex_organizationId r) (ex_requestId r)
                                  (\<lambda>x. x\<lparr>ex_shadowCohortKey := Some k, ex_shadowCohortOrdinal := Some ordinal,
                                         ex_shadowCompletedAt := Some t, ex_shadowOrderState := Some ''queued''\<rparr>)
                                  (s\<lparr>st_counters := rows\<rparr>))))))
      | _ \<Rightarrow> Inl (Thrown ''AUTHORITATIVE_SHADOW_SCOPE_MISSING''))"

definition releaseMandateHoldIfSettled :: "execution_row \<Rightarrow> policy_store \<Rightarrow> policy_store" where
  "releaseMandateHoldIfSettled r s =
     (let org = ex_organizationId r; mid = ex_mandateId r in
      if list_ex (\<lambda>x. in_mandate org mid x \<and> open_case s x) (st_executions s) then s
      else case tbl_find hold_key (org, mid) (st_holds s) of
        None \<Rightarrow> s
      | Some h \<Rightarrow>
          let s1 = s\<lparr>st_mandates := tbl_update mandate_key (org, mid) (\<lambda>m.
                if cm_state m = M_reconciliation_hold
                then m\<lparr>cm_state := (if hd_priorState h = M_active then M_paused else hd_priorState h)\<rparr> else m)
                (st_mandates s)\<rparr>
          in s1\<lparr>st_holds := tbl_delete hold_key (org, mid) (st_holds s1)\<rparr>)"

fun terminal_failure :: "terminal_state \<Rightarrow> string option" where
  "terminal_failure Terminal_rejected_not_billed = Some ''TERMINAL_REJECTED_NOT_BILLED''"
| "terminal_failure Reconciled_not_billed = Some ''RECONCILED_NOT_BILLED''"
| "terminal_failure Reconciled_billed_no_response = Some ''RECONCILED_BILLED_NO_RESPONSE''"
| "terminal_failure _ = None"

definition settlement_row :: "string \<Rightarrow> string \<Rightarrow> terminal_state \<Rightarrow> int \<Rightarrow> int \<Rightarrow> resolution_row" where
  "settlement_row org rid st actual t =
     \<lparr>rs_organizationId = org, rs_requestId = rid,
      rs_resolution = (if st \<in> {Terminal_rejected_not_billed, Reconciled_not_billed} then ConfirmNotBilled else Settle),
      rs_actualCostAtomic = actual, rs_note = ''Reliability state '' @ show_int (terminal_number st),
      rs_externalReference = ''reliability-v2:'' @ rid @ '':state-'' @ show_int (terminal_number st),
      rs_resolvedBy = ''reliability-v2-reconciler'', rs_resolvedAt = t\<rparr>"

definition insert_resolution :: "resolution_row \<Rightarrow> policy_store \<Rightarrow> policy_store" where
  "insert_resolution x s =
     (case tbl_find resolution_key (resolution_key x) (st_resolutions s) of
        None \<Rightarrow> s\<lparr>st_resolutions := st_resolutions s @ [x]\<rparr> | Some _ \<Rightarrow> s)"

text \<open>
  The columns \<open>actual_cost_atomic\<close> are NUMERIC(78, 0) with a check that they are not negative. The
  cost is a text the planner printed, so the model reads digits only.
\<close>

definition actual_column :: "string \<Rightarrow> store_error + int" where
  "actual_column a =
     (case decimal_literal a of
        None \<Rightarrow> Inl (Thrown ''invalid input syntax for type numeric'')
      | Some n \<Rightarrow> if 10 ^ 78 \<le> n then Inl (Thrown ''numeric field overflow'') else Inr n)"

text \<open>The recovered response is only built for the terminal state that has one.\<close>

definition recovered_response ::
    "(string \<Rightarrow> string) \<Rightarrow> (string \<Rightarrow> string) \<Rightarrow> terminal_state \<Rightarrow> rec_evidence option \<Rightarrow> response_authority
       \<Rightarrow> store_error + (provider_result \<times> string) option" where
  "recovered_response sha ck st e a =
     (if st \<noteq> Reconciled_billed_with_response then Inr None
      else case e of
        None \<Rightarrow> Inl (Thrown ''RECOVERED_RESPONSE_EVIDENCE_INVALID'')
      | Some e \<Rightarrow> and_then (reconstructStableResponse sha ck e a) (\<lambda>(p, _, c). Inr (Some (p, c))))"

definition settled_execution ::
    "terminal_state \<Rightarrow> int \<Rightarrow> provider_result option \<Rightarrow> int \<Rightarrow> execution_row \<Rightarrow> execution_row" where
  "settled_execution st actual response t x =
     x\<lparr>ex_status := (if st = Reconciled_billed_with_response then Completed else Failed),
       ex_actualCostAtomic := Some actual, ex_response := response,
       ex_failureCode := terminal_failure st, ex_updatedAt := t\<rparr>"

definition settleOrdinaryReconciliation ::
    "(string \<Rightarrow> string) \<Rightarrow> (string \<Rightarrow> string) \<Rightarrow> string \<Rightarrow> string \<Rightarrow> terminal_state \<Rightarrow> string option
       \<Rightarrow> rec_evidence option \<Rightarrow> int \<Rightarrow> policy_store
       \<Rightarrow> store_error + (policy_store \<times> (provider_result \<times> string) option)" where
  "settleOrdinaryReconciliation sha ck org rid st actual0 e t s =
     (let actual = (case actual0 of None \<Rightarrow> ''0'' | Some a \<Rightarrow> a) in
      and_then (loadAuthoritative org rid actual s) (\<lambda>(r, a).
      if st = Unresolved_provider_outcome
      then Inr (update_execution org rid (\<lambda>x. x\<lparr>ex_status := Held,
             ex_failureCode := Some ''UNRESOLVED_PROVIDER_OUTCOME'', ex_updatedAt := t\<rparr>) s, None)
      else
        and_then (recovered_response sha ck st e a) (\<lambda>recovered.
        and_then (actual_column actual) (\<lambda>n.
        let s1 = update_execution org rid (settled_execution st n (map_option fst recovered) t)
              (insert_resolution (settlement_row org rid st n t) s)
        in and_then (if st = Reconciled_billed_with_response then queueAuthoritativeShadow sha r t s1 else Inr s1)
             (\<lambda>s2. Inr (releaseMandateHoldIfSettled r s2, recovered))))))"

section \<open>The settlement keeps the policy store's invariant\<close>

text \<open>
  Class columns are null or objects, never \<open>true\<close>: the check of \<open>queueAuthoritativeShadow\<close> always fails, so
  a settlement with a recovered response never commits.
\<close>

lemma shadow_column_never_true: "shadow_column w \<noteq> JBool True"
  by (cases "wc_shadow w") (simp_all add: shadow_column_def)

lemma queueAuthoritativeShadow_fails: "queueAuthoritativeShadow sha r t s \<noteq> Inr s'"
  by (auto simp: queueAuthoritativeShadow_def shadow_column_never_true list_ex_iff split: option.splits)

theorem recovered_settlement_never_commits:
  "settleOrdinaryReconciliation sha ck org rid Reconciled_billed_with_response actual e t s \<noteq> Inr (s', q)"
  by (auto simp: settleOrdinaryReconciliation_def Let_def and_then_Inr_iff queueAuthoritativeShadow_fails)

text \<open>What a settlement that commits does: a late mark, or a resolution, the row and the release.\<close>

lemma settle_Inr:
  assumes "settleOrdinaryReconciliation sha ck org rid st actual e t s = Inr (s', q)"
  obtains r a where "loadAuthoritative org rid (case actual of None \<Rightarrow> ''0'' | Some x \<Rightarrow> x) s = Inr (r, a)"
    "st = Unresolved_provider_outcome" "q = None"
    "s' = update_execution org rid (\<lambda>x. x\<lparr>ex_status := Held,
       ex_failureCode := Some ''UNRESOLVED_PROVIDER_OUTCOME'', ex_updatedAt := t\<rparr>) s"
  | r a n where "loadAuthoritative org rid (case actual of None \<Rightarrow> ''0'' | Some x \<Rightarrow> x) s = Inr (r, a)"
    "st \<in> {Terminal_rejected_not_billed, Reconciled_not_billed, Reconciled_billed_no_response}"
    "actual_column (case actual of None \<Rightarrow> ''0'' | Some x \<Rightarrow> x) = Inr n" "q = None"
    "s' = releaseMandateHoldIfSettled r (update_execution org rid (settled_execution st n None t)
            (insert_resolution (settlement_row org rid st n t) s))"
  using assms
  by (cases st) (auto simp: settleOrdinaryReconciliation_def Let_def and_then_Inr_iff recovered_response_def
      queueAuthoritativeShadow_fails)

lemma loadAuthoritative_found: "loadAuthoritative org rid actual s = Inr (r, a) \<Longrightarrow> find_execution org rid s = Some r"
  by (auto simp: loadAuthoritative_def split: option.splits if_splits)

lemma loadAuthoritative_decision:
  "loadAuthoritative org rid actual s = Inr (r, a) \<Longrightarrow> \<exists>d \<in> set (st_decisions s). sd_id d = ex_decisionId r
     \<and> sd_organizationId d = org \<and> pd_outcome (sd_result d) = ALLOW"
  by (auto simp: loadAuthoritative_def allowed_result_def find_Some_iff split: option.splits if_splits)

lemma actual_column_nonneg: "actual_column a = Inr n \<Longrightarrow> 0 \<le> n"
  by (auto simp: actual_column_def decimal_literal_def digits_val_nonneg split: option.splits if_splits)

lemma insert_resolution_inv: "store_inv s \<Longrightarrow> store_inv (insert_resolution x s)"
  by (auto simp: insert_resolution_def store_inv_def intro: parts_new_resolution split: option.splits)

lemma insert_resolution_execution [simp]: "find_execution org rid (insert_resolution x s) = find_execution org rid s"
  by (simp add: insert_resolution_def find_execution_def split: option.split)

lemma releaseHold_inv:
  assumes inv: "store_inv s"
  shows "store_inv (releaseMandateHoldIfSettled r s)"
proof (cases "list_ex (\<lambda>x. in_mandate (ex_organizationId r) (ex_mandateId r) x \<and> open_case s x) (st_executions s)
    \<or> tbl_find hold_key (ex_organizationId r, ex_mandateId r) (st_holds s) = None
    \<or> tbl_find mandate_key (ex_organizationId r, ex_mandateId r) (st_mandates s) = None")
  case True
  have "\<forall>x \<in> set (tbl_delete hold_key k (st_holds s)). hd_priorState x \<in> set holdable" for k
    using inv by (auto simp: tbl_delete_def store_inv_def inv_parts_def)
  with True inv show ?thesis
    by (auto simp: releaseMandateHoldIfSettled_def Let_def tbl_update_absent store_inv_def
        intro: parts_holds split: option.split)
next
  case False
  let ?k = "(ex_organizationId r, ex_mandateId r)"
  let ?ms = "st_mandates s" and ?es = "st_executions s" and ?rs = "st_resolutions s" and ?hs = "st_holds s"
  from False obtain h m where none: "\<not> list_ex (\<lambda>x. in_mandate (fst ?k) (snd ?k) x \<and> open_case s x) ?es"
    and h: "tbl_find hold_key ?k ?hs = Some h" and m: "tbl_find mandate_key ?k ?ms = Some m" by auto
  have parts: "inv_parts ?ms ?es ?rs ?hs" using inv by (simp add: store_inv_def)
  have prior: "hd_priorState h \<in> set holdable" using parts tbl_find_SomeD [OF h] by (simp add: inv_parts_def)
  let ?st = "if hd_priorState h = M_active then M_paused else hd_priorState h"
  have wf: "tbl_wf mandate_key ?ms" using parts by (simp add: inv_parts_def)
  have upd: "tbl_update mandate_key ?k (\<lambda>m. if cm_state m = M_reconciliation_hold then m\<lparr>cm_state := ?st\<rparr> else m) ?ms
      = (if cm_state m = M_reconciliation_hold then tbl_update mandate_key ?k (\<lambda>m. m\<lparr>cm_state := ?st\<rparr>) ?ms else ?ms)"
  proof -
    have "x = m" if "x \<in> set ?ms" "mandate_key x = ?k" for x
      using tbl_find_in [OF wf that(1)] that(2) m by simp
    then show ?thesis by (auto simp: tbl_update_def intro!: map_idI)
  qed
  have "inv_parts (tbl_update mandate_key ?k (\<lambda>m. m\<lparr>cm_state := ?st\<rparr>) ?ms) ?es ?rs ?hs"
    by (rule parts_state_change [OF parts m])
      (use prior none in \<open>auto simp: holdable_def list_ex_iff in_mandate_def open_case_def resolved_def\<close>)
  then have "inv_parts (tbl_update mandate_key ?k (\<lambda>m. if cm_state m = M_reconciliation_hold
      then m\<lparr>cm_state := ?st\<rparr> else m) ?ms) ?es ?rs ?hs"
    unfolding upd using parts by simp
  then have "inv_parts (tbl_update mandate_key ?k (\<lambda>m. if cm_state m = M_reconciliation_hold
      then m\<lparr>cm_state := ?st\<rparr> else m) ?ms) ?es ?rs (tbl_delete hold_key ?k ?hs)"
    by (rule parts_holds) (use parts in \<open>auto simp: tbl_delete_def inv_parts_def\<close>)
  then show ?thesis using none h
    by (auto simp: releaseMandateHoldIfSettled_def Let_def store_inv_def)
qed

text \<open>
  When a settlement may come: the code has no guard on the status; the protocol settles executions it
  holds, or still running ones unless it leaves the outcome unresolved.
\<close>

definition settles_in_flight :: "terminal_state \<Rightarrow> string \<Rightarrow> string \<Rightarrow> policy_store \<Rightarrow> bool" where
  "settles_in_flight st org rid s \<longleftrightarrow>
     (case find_execution org rid s of
        None \<Rightarrow> True
      | Some r \<Rightarrow> ex_status r = Held \<or> (ex_status r = Executing \<and> st \<noteq> Unresolved_provider_outcome))"

lemma settle_inv:
  assumes inv: "store_inv s" and al: "settles_in_flight st org rid s"
    and step: "settleOrdinaryReconciliation sha ck org rid st actual e t s = Inr (s', q)"
  shows "store_inv s'"
  using step
proof (rule settle_Inr)
  fix r a
  assume l: "loadAuthoritative org rid (case actual of None \<Rightarrow> ''0'' | Some x \<Rightarrow> x) s = Inr (r, a)"
    and st: "st = Unresolved_provider_outcome"
    and s': "s' = update_execution org rid (\<lambda>x. x\<lparr>ex_status := Held,
       ex_failureCode := Some ''UNRESOLVED_PROVIDER_OUTCOME'', ex_updatedAt := t\<rparr>) s"
  from loadAuthoritative_found [OF l] have r: "find_execution org rid s = Some r" .
  with al st have held: "ex_status r = Held" by (simp add: settles_in_flight_def)
  note row = found_row [OF inv r]
  show "store_inv s'" unfolding s'
    by (rule row_update_inv [OF inv r])
      (use row held in \<open>auto simp: same_row_def row_ok_def actual_or_0_def billed_no_response_def covered_def
        class_counted_def mand_ok_def split: option.splits\<close>)
next
  fix r a n
  let ?x = "settlement_row org rid st n t" and ?f = "settled_execution st n None t"
  assume l: "loadAuthoritative org rid (case actual of None \<Rightarrow> ''0'' | Some x \<Rightarrow> x) s = Inr (r, a)"
    and n: "actual_column (case actual of None \<Rightarrow> ''0'' | Some x \<Rightarrow> x) = Inr n"
    and st: "st \<in> {Terminal_rejected_not_billed, Reconciled_not_billed, Reconciled_billed_no_response}"
    and s': "s' = releaseMandateHoldIfSettled r (update_execution org rid ?f (insert_resolution ?x s))"
  from loadAuthoritative_found [OF l] have r: "find_execution org rid (insert_resolution ?x s) = Some r" by simp
  with al have status: "ex_status r \<in> {Held, Executing}" by (auto simp: settles_in_flight_def)
  have inv0: "store_inv (insert_resolution ?x s)" using inv by (rule insert_resolution_inv)
  note row = found_row [OF inv0 r]
  have same: "same_row y (?f y)" for y by (simp add: settled_execution_def same_row_def)
  have "covered r = ex_reservedCostAtomic r"
    using status row(1) by (auto simp: covered_def class_counted_def row_ok_def)
  then have cov: "covered (?f r) \<le> covered r"
    using covered_le_reserved [of "?f r"] by (simp add: settled_execution_def)
  have ok: "row_ok (?f r)"
    using row(1) actual_column_nonneg [OF n] st by (auto simp: row_ok_def settled_execution_def actual_or_0_def)
  have mok: "mand_ok (st_mandates (insert_resolution ?x s)) (st_resolutions (insert_resolution ?x s)) (?f r)"
    by (rule mand_ok_not_held [OF row(4) _ same]) (use status in \<open>auto simp: settled_execution_def\<close>)
  show "store_inv s'" unfolding s'
    by (rule releaseHold_inv) (rule row_update_inv [OF inv0 r same ok cov mok])
qed

section \<open>The policy store with the protocol's settlements\<close>

datatype reconciled_op =
    Ordinary store_op
  | Protocol string string terminal_state "string option" "rec_evidence option" int

fun reconciled_step ::
    "(string \<Rightarrow> string) \<Rightarrow> (string \<Rightarrow> string) \<Rightarrow> reconciled_op \<Rightarrow> policy_store
       \<Rightarrow> store_error + (policy_store \<times> unit)" where
  "reconciled_step sha ck (Ordinary op) s = and_then (store_step sha op s) (\<lambda>(s', _). Inr (s', ()))"
| "reconciled_step sha ck (Protocol org rid st actual e t) s =
     and_then (settleOrdinaryReconciliation sha ck org rid st actual e t s) (\<lambda>(s', _). Inr (s', ()))"

fun reconciled_allowed :: "reconciled_op \<Rightarrow> policy_store \<Rightarrow> bool" where
  "reconciled_allowed (Ordinary op) s = hold_code_allowed op s"
| "reconciled_allowed (Protocol org rid st actual e t) s = settles_in_flight st org rid s"

interpretation reconciled: guarded_budget "reconciled_step sha ck" reconciled_allowed store_inv covered_spend spend_limit
  for sha ck
proof unfold_locales
  fix s op s' a
  assume "store_inv s" "reconciled_allowed op s" "reconciled_step sha ck op s = Inr (s', a)"
  then show "store_inv s'"
    by (cases op) (auto simp: and_then_Inr_iff intro: store_step_inv settle_inv)
next
  fix s k assume "store_inv s" then show "covered_spend s k \<le> spend_limit s k" by (rule covered_spend_le)
qed

lemma counted_sum:
  "(\<Sum>r\<leftarrow>rs. class_counted r) = (\<Sum>r\<leftarrow>rs. covered r) + (\<Sum>r\<leftarrow>rs. overrun r)"
  by (induction rs) (simp_all add: counted_split)

text \<open>
  So a budget survives any mixture of ordinary operations and settlements, as long as the settlements come
  while the execution is in flight. The caller is not modelled, so this is not shown of it.
\<close>

lemma in_flight_settlements_bounded:
  assumes "run_allowed reconciled_allowed (reconciled_step sha ck) ops (empty_store orgs agents)"
    and "find_mandate org mid (tx_run (reconciled_step sha ck) ops (empty_store orgs agents)) = Some m"
  shows "(\<Sum>r\<leftarrow>mandate_executions org mid (tx_run (reconciled_step sha ck) ops (empty_store orgs agents)).
      class_counted r) \<le> cm_maximumSpendAtomic m
    + (\<Sum>r\<leftarrow>mandate_executions org mid (tx_run (reconciled_step sha ck) ops (empty_store orgs agents)). overrun r)"
proof -
  let ?s = "tx_run (reconciled_step sha ck) ops (empty_store orgs agents)"
  have "covered_spend ?s (org, mid) \<le> spend_limit ?s (org, mid)"
    by (rule reconciled.run_within_limit [OF empty_store_inv assms(1)])
  then show ?thesis by (simp add: counted_sum covered_spend_def spend_limit_def assms(2))
qed

lemma releaseHold_rows [simp]:
  "st_executions (releaseMandateHoldIfSettled r s) = st_executions s"
  "st_resolutions (releaseMandateHoldIfSettled r s) = st_resolutions s"
  by (simp_all add: releaseMandateHoldIfSettled_def Let_def split: option.split)

lemma releaseHold_mandates:
  "tbl_find mandate_key k (st_mandates (releaseMandateHoldIfSettled r s)) =
     (if k \<noteq> (ex_organizationId r, ex_mandateId r)
       \<or> list_ex (\<lambda>x. in_mandate (ex_organizationId r) (ex_mandateId r) x \<and> open_case s x) (st_executions s)
      then tbl_find mandate_key k (st_mandates s)
      else case tbl_find hold_key k (st_holds s) of
        None \<Rightarrow> tbl_find mandate_key k (st_mandates s)
      | Some h \<Rightarrow> map_option (\<lambda>m. if cm_state m = M_reconciliation_hold
          then m\<lparr>cm_state := (if hd_priorState h = M_active then M_paused else hd_priorState h)\<rparr> else m)
          (tbl_find mandate_key k (st_mandates s)))"
proof -
  have "tbl_find mandate_key k (tbl_update mandate_key k' (\<lambda>m. if cm_state m = M_reconciliation_hold
      then m\<lparr>cm_state := p\<rparr> else m) ms) = (if k = k' then map_option (\<lambda>m. if cm_state m = M_reconciliation_hold
      then m\<lparr>cm_state := p\<rparr> else m) (tbl_find mandate_key k ms) else tbl_find mandate_key k ms)" for k' p ms
    by (rule tbl_find_update) (simp add: mandate_key_def)
  then show ?thesis by (auto simp: releaseMandateHoldIfSettled_def Let_def split: option.split)
qed

lemma releaseHold_holds:
  "tbl_find hold_key k (st_holds (releaseMandateHoldIfSettled r s)) =
     (if k = (ex_organizationId r, ex_mandateId r)
       \<and> \<not> list_ex (\<lambda>x. in_mandate (ex_organizationId r) (ex_mandateId r) x \<and> open_case s x) (st_executions s)
      then None else tbl_find hold_key k (st_holds s))"
  by (auto simp: releaseMandateHoldIfSettled_def Let_def tbl_find_delete split: option.split)

lemma insert_resolution_rows [simp]:
  "st_executions (insert_resolution x s) = st_executions s"
  "st_mandates (insert_resolution x s) = st_mandates s"
  "st_holds (insert_resolution x s) = st_holds s"
  by (auto simp: insert_resolution_def split: option.split)

lemma insert_resolution_find:
  "tbl_find resolution_key k (st_resolutions (insert_resolution x s)) =
     (if k = resolution_key x then Some (case tbl_find resolution_key k (st_resolutions s) of None \<Rightarrow> x | Some y \<Rightarrow> y)
      else tbl_find resolution_key k (st_resolutions s))"
  by (auto simp: insert_resolution_def tbl_find_append tbl_find_def [of _ _ "[_]"] split: option.split)

text \<open>The cost a settlement is given: a text, zero when there is none.\<close>

definition given_cost :: "string option \<Rightarrow> int option" where
  "given_cost actual = (case actual of None \<Rightarrow> Some 0 | Some a \<Rightarrow> decimal_literal a)"

lemma actual_column_given:
  "actual_column (case actual of None \<Rightarrow> ''0'' | Some a \<Rightarrow> a) = Inr n \<Longrightarrow> given_cost actual = Some n"
proof -
  have "decimal_literal ''0'' = Some 0" by code_simp
  then show "actual_column (case actual of None \<Rightarrow> ''0'' | Some a \<Rightarrow> a) = Inr n \<Longrightarrow> given_cost actual = Some n"
    by (auto simp: actual_column_def given_cost_def split: option.splits if_splits)
qed

fun failure_text :: "terminal_state \<Rightarrow> string" where
  "failure_text Terminal_rejected_not_billed = ''TERMINAL_REJECTED_NOT_BILLED''"
| "failure_text Reconciled_not_billed = ''RECONCILED_NOT_BILLED''"
| "failure_text Reconciled_billed_no_response = ''RECONCILED_BILLED_NO_RESPONSE''"
| "failure_text st = []"

text \<open>The resolution of a settlement, written out.\<close>

fun state_digit :: "terminal_state \<Rightarrow> string" where
  "state_digit Terminal_rejected_not_billed = ''3''"
| "state_digit Reconciled_not_billed = ''4''"
| "state_digit Reconciled_billed_no_response = ''6''"
| "state_digit st = []"

definition resolved_as :: "string \<Rightarrow> string \<Rightarrow> terminal_state \<Rightarrow> int \<Rightarrow> int \<Rightarrow> resolution_row" where
  "resolved_as org rid st n t =
     \<lparr>rs_organizationId = org, rs_requestId = rid,
      rs_resolution = (if st = Reconciled_billed_no_response then Settle else ConfirmNotBilled),
      rs_actualCostAtomic = n, rs_note = ''Reliability state '' @ state_digit st,
      rs_externalReference = ''reliability-v2:'' @ rid @ '':state-'' @ state_digit st,
      rs_resolvedBy = ''reliability-v2-reconciler'', rs_resolvedAt = t\<rparr>"

lemma settlement_row_resolved:
  assumes "st \<in> {Terminal_rejected_not_billed, Reconciled_not_billed, Reconciled_billed_no_response}"
  shows "settlement_row org rid st n t = resolved_as org rid st n t"
proof -
  have "show_int (terminal_number st) = state_digit st"
    using assms by (elim insertE emptyE) (simp_all only:, code_simp+)
  then show ?thesis using assms by (auto simp: settlement_row_def resolved_as_def)
qed

text \<open>
  C20: a committed settlement in one of the terminal states without a response (rejected, not billed,
  billed without response) rests on an ALLOW decision; it ends its execution as failed with the given
  cost, no response and the code of the state; it writes its resolution unless the request has one,
  which stays as it is; it changes no other execution or resolution. The mandate keeps its state and
  its hold while another case of it is open; then the hold goes and a held mandate returns to its
  prior state, or to paused if that was active. No other mandate or hold and no other table changes.
\<close>

theorem settlement_confined:
  assumes "settleOrdinaryReconciliation sha ck org rid st actual e t s = Inr (s', q)"
    and "st \<in> {Terminal_rejected_not_billed, Reconciled_not_billed, Reconciled_billed_no_response}"
  shows "\<exists>r d n. find_execution org rid s = Some r \<and> given_cost actual = Some n \<and> q = None
    \<and> d \<in> set (st_decisions s) \<and> sd_id d = ex_decisionId r \<and> sd_organizationId d = org \<and> pd_outcome (sd_result d) = ALLOW
    \<and> (\<forall>k. tbl_find execution_key k (st_executions s') = (if k = (org, rid)
         then Some (r\<lparr>ex_status := Failed, ex_actualCostAtomic := Some n, ex_response := None,
           ex_failureCode := Some (failure_text st), ex_updatedAt := t\<rparr>)
         else tbl_find execution_key k (st_executions s)))
    \<and> (\<forall>k. tbl_find resolution_key k (st_resolutions s') =
         (if k = (org, rid) \<and> tbl_find resolution_key k (st_resolutions s) = None
          then Some (resolved_as org rid st n t) else tbl_find resolution_key k (st_resolutions s)))
    \<and> s' = s\<lparr>st_executions := st_executions s', st_resolutions := st_resolutions s', st_holds := st_holds s',
         st_mandates := st_mandates s'\<rparr>
    \<and> (let k0 = (org, ex_mandateId r);
           open = list_ex (\<lambda>x. in_mandate org (ex_mandateId r) x \<and> open_case s' x) (st_executions s')
       in (\<forall>k. tbl_find hold_key k (st_holds s') = (if k = k0 \<and> \<not> open then None else tbl_find hold_key k (st_holds s)))
        \<and> (\<forall>k. tbl_find mandate_key k (st_mandates s') = (if k \<noteq> k0 \<or> open then tbl_find mandate_key k (st_mandates s)
            else case tbl_find hold_key k (st_holds s) of
              None \<Rightarrow> tbl_find mandate_key k (st_mandates s)
            | Some h \<Rightarrow> map_option (\<lambda>m. if cm_state m = M_reconciliation_hold
                then m\<lparr>cm_state := (if hd_priorState h = M_active then M_paused else hd_priorState h)\<rparr> else m)
                (tbl_find mandate_key k (st_mandates s)))))"
  using assms(1)
proof (rule settle_Inr)
  show ?thesis if "st = Unresolved_provider_outcome" using that assms(2) by simp
next
  fix r a n
  let ?x = "settlement_row org rid st n t" and ?f = "settled_execution st n None t"
  let ?s1 = "update_execution org rid ?f (insert_resolution ?x s)"
  assume l: "loadAuthoritative org rid (case actual of None \<Rightarrow> ''0'' | Some x \<Rightarrow> x) s = Inr (r, a)"
    and n: "actual_column (case actual of None \<Rightarrow> ''0'' | Some x \<Rightarrow> x) = Inr n"
    and q: "q = None" and s': "s' = releaseMandateHoldIfSettled r ?s1"
  from loadAuthoritative_found [OF l] have r: "find_execution org rid s = Some r" .
  then have org: "ex_organizationId r = org"
    using tbl_find_SomeD [of execution_key "(org, rid)" "st_executions s" r]
    by (simp add: find_execution_def execution_key_def)
  obtain d where d: "d \<in> set (st_decisions s)" "sd_id d = ex_decisionId r" "sd_organizationId d = org"
    "pd_outcome (sd_result d) = ALLOW"
    using loadAuthoritative_decision [OF l] by blast
  have key: "execution_key (?f x) = execution_key x" for x by (simp add: settled_execution_def execution_key_def)
  have new: "?f r = r\<lparr>ex_status := Failed, ex_actualCostAtomic := Some n, ex_response := None,
      ex_failureCode := Some (failure_text st), ex_updatedAt := t\<rparr>"
    using assms(2) by (auto simp: settled_execution_def)
  have rows: "tbl_find execution_key k (st_executions s') = (if k = (org, rid)
      then Some (?f r) else tbl_find execution_key k (st_executions s))" for k
    using tbl_find_update [of execution_key ?f, OF key] r by (simp add: s' update_execution_def find_execution_def)
  have res: "tbl_find resolution_key k (st_resolutions s') =
      (if k = (org, rid) \<and> tbl_find resolution_key k (st_resolutions s) = None
       then Some (resolved_as org rid st n t) else tbl_find resolution_key k (st_resolutions s))" for k
    using insert_resolution_find [of k ?x s] settlement_row_resolved [OF assms(2), of org rid n t]
    by (auto simp: s' update_execution_def resolved_as_def resolution_key_def split: option.splits)
  have fixed: "st_mandates ?s1 = st_mandates s" "st_holds ?s1 = st_holds s"
    by (simp_all add: update_execution_def)
  have rest: "s' = s\<lparr>st_executions := st_executions s', st_resolutions := st_resolutions s', st_holds := st_holds s',
      st_mandates := st_mandates s'\<rparr>"
    by (simp add: s' update_execution_def insert_resolution_def releaseMandateHoldIfSettled_def Let_def split: option.split)
  have "open_case s' = open_case ?s1" "st_executions s' = st_executions ?s1"
    by (simp_all add: s' fun_eq_iff open_case_def resolved_def)
  then have "list_ex (\<lambda>x. in_mandate org (ex_mandateId r) x \<and> open_case s' x) (st_executions s')
      = list_ex (\<lambda>x. in_mandate (ex_organizationId r) (ex_mandateId r) x \<and> open_case ?s1 x) (st_executions ?s1)"
    by (simp only: org)
  with releaseHold_mandates [of _ r ?s1] releaseHold_holds [of _ r ?s1] show ?thesis
    unfolding Let_def
    by (intro exI [of _ r] exI [of _ d] exI [of _ n] conjI allI r d q actual_column_given [OF n] res rest rows [unfolded new])
      (simp_all only: s' [symmetric] fixed org)
qed

section \<open>What a settlement does to the exposure\<close>

definition exposure :: "string \<Rightarrow> string \<Rightarrow> policy_store \<Rightarrow> int" where
  "exposure org mid s = (\<Sum>r\<leftarrow>mandate_executions org mid s. class_counted r)"

text \<open>The row a committed settlement writes, in all of its terminal states.\<close>

lemma settled_row:
  assumes "settleOrdinaryReconciliation sha ck org rid st actual e t s = Inr (s', q)"
    and "find_execution org rid s = Some r"
  obtains f n where "st_executions s' = tbl_update execution_key (org, rid) f (st_executions s)"
    and "\<And>x. same_row x (f x)"
    and "class_counted (f r) = (case st of
        Unresolved_provider_outcome \<Rightarrow> ex_reservedCostAtomic r
      | Reconciled_billed_no_response \<Rightarrow> n | _ \<Rightarrow> 0)"
    and "st = Reconciled_billed_no_response \<Longrightarrow> given_cost actual = Some n"
  using assms(1)
proof (rule settle_Inr)
  fix r' a
  let ?f = "\<lambda>x. x\<lparr>ex_status := Held, ex_failureCode := Some ''UNRESOLVED_PROVIDER_OUTCOME'', ex_updatedAt := t\<rparr>"
  assume "st = Unresolved_provider_outcome" "s' = update_execution org rid ?f s"
  then show thesis
    by (intro that [of ?f 0]) (simp_all add: update_execution_def same_row_def class_counted_def)
next
  fix r' a n
  let ?x = "settlement_row org rid st n t" and ?f = "settled_execution st n None t"
  assume n: "actual_column (case actual of None \<Rightarrow> ''0'' | Some x \<Rightarrow> x) = Inr n"
    and st: "st \<in> {Terminal_rejected_not_billed, Reconciled_not_billed, Reconciled_billed_no_response}"
    and s': "s' = releaseMandateHoldIfSettled r' (update_execution org rid ?f (insert_resolution ?x s))"
  have "class_counted (?f r) = (if st = Reconciled_billed_no_response then n else 0)"
    using st by (auto simp: class_counted_def settled_execution_def billed_no_response_def actual_or_0_def)
  then show thesis
    using st by (intro that [of ?f n])
      (auto simp: s' update_execution_def same_row_def settled_execution_def actual_column_given [OF n])
qed

lemma exposure_update:
  assumes wf: "tbl_wf execution_key es" and r: "tbl_find execution_key k es = Some r"
    and same: "\<And>x. same_row x (f x)"
  shows "(\<Sum>x\<leftarrow>filter (in_mandate o' m') (tbl_update execution_key k f es). g x :: int) =
    (\<Sum>x\<leftarrow>filter (in_mandate o' m') es. g x) + (if in_mandate o' m' r then g (f r) - g r else 0)"
proof -
  have "in_mandate o' m' (f r) = in_mandate o' m' r" using same [of r] by (simp add: same_row_def in_mandate_def)
  with execution_table.sum_update [OF wf r, of "\<lambda>x. if in_mandate o' m' x then g x else 0" f] show ?thesis
    by (simp add: sum_list_map_filter')
qed

text \<open>
  C19: after any history of the ordinary operations, a committed settlement changes the exposure of its
  mandate by exactly what it settles: what the execution counted goes, and the given cost (billed without
  response), the reservation (unresolved) or nothing (not billed) comes. No other mandate's exposure
  changes. For an execution that was running or held the mandate stays within its maximum and the
  recorded overruns; the code does not check the status, and for any other execution the maximum may be
  exceeded by up to its reservation.
\<close>

theorem settlement_exposure_exact:
  assumes "run_allowed hold_code_allowed (store_step sha') ops (empty_store orgs agents)"
    and "s = tx_run (store_step sha') ops (empty_store orgs agents)"
    and "settleOrdinaryReconciliation sha ck org rid st actual e t s = Inr (s', q)"
    and "find_execution org rid s = Some r" and "mid = ex_mandateId r" and "find_mandate org mid s = Some m"
  shows "exposure org mid s' = exposure org mid s - class_counted r + (case st of
        Unresolved_provider_outcome \<Rightarrow> ex_reservedCostAtomic r
      | Reconciled_billed_no_response \<Rightarrow> (case given_cost actual of Some n \<Rightarrow> n | None \<Rightarrow> 0)
      | _ \<Rightarrow> 0)
    \<and> (\<forall>o' m'. (o', m') = (org, mid) \<or> exposure o' m' s' = exposure o' m' s)
    \<and> exposure org mid s' \<le> cm_maximumSpendAtomic m + (\<Sum>x\<leftarrow>mandate_executions org mid s'. overrun x)
        + (if ex_status r \<in> {Executing, Held} then 0 else ex_reservedCostAtomic r)"
proof -
  have inv: "store_inv s" unfolding assms(2) using empty_store_inv assms(1) by (rule store_tx.run_inv)
  have wf: "tbl_wf execution_key (st_executions s)" using inv by (simp add: store_inv_def inv_parts_def)
  have find: "tbl_find execution_key (org, rid) (st_executions s) = Some r" using assms(4) by (simp add: find_execution_def)
  have org: "ex_organizationId r = org" using tbl_find_SomeD [OF find] by (simp add: execution_key_def)
  have in_r: "in_mandate o' m' r \<longleftrightarrow> (o', m') = (org, mid)" for o' m' using org assms(5) by (auto simp: in_mandate_def)
  obtain f n where rows: "st_executions s' = tbl_update execution_key (org, rid) f (st_executions s)"
    and same: "\<And>x. same_row x (f x)"
    and counted: "class_counted (f r) = (case st of Unresolved_provider_outcome \<Rightarrow> ex_reservedCostAtomic r
      | Reconciled_billed_no_response \<Rightarrow> n | _ \<Rightarrow> 0)"
    and n: "st = Reconciled_billed_no_response \<Longrightarrow> given_cost actual = Some n"
    by (rule settled_row [OF assms(3,4)]) blast
  have sums: "(\<Sum>x\<leftarrow>mandate_executions o' m' s'. g x :: int) = (\<Sum>x\<leftarrow>mandate_executions o' m' s. g x)
      + (if (o', m') = (org, mid) then g (f r) - g r else 0)" for g o' m'
    using exposure_update [OF wf find same, where o' = o' and m' = m' and g = g] by (simp add: mandate_executions_def rows in_r)
  have new: "class_counted (f r) = (case st of Unresolved_provider_outcome \<Rightarrow> ex_reservedCostAtomic r
      | Reconciled_billed_no_response \<Rightarrow> (case given_cost actual of Some n \<Rightarrow> n | None \<Rightarrow> 0) | _ \<Rightarrow> 0)"
    using counted n by (cases st) simp_all
  have split: "exposure org mid s' = (\<Sum>x\<leftarrow>mandate_executions org mid s'. covered x)
      + (\<Sum>x\<leftarrow>mandate_executions org mid s'. overrun x)"
    unfolding exposure_def by (rule counted_sum)
  have "(\<Sum>x\<leftarrow>mandate_executions org mid s. covered x) \<le> cm_maximumSpendAtomic m"
    using covered_spend_le [OF inv, of "(org, mid)"] assms(6) by (simp add: covered_spend_def spend_limit_def)
  moreover have "covered (f r) - covered r \<le> (if ex_status r \<in> {Executing, Held} then 0 else ex_reservedCostAtomic r)"
  proof -
    note row = found_row(1) [OF inv assms(4)]
    have "covered (f r) \<le> ex_reservedCostAtomic r"
      using covered_le_reserved [of "f r"] same [of r] by (simp add: same_row_def)
    moreover have "0 \<le> covered r" using row by (auto simp: covered_def class_counted_def row_ok_def)
    moreover have "covered r = ex_reservedCostAtomic r" if "ex_status r \<in> {Executing, Held}"
      using that row by (auto simp: covered_def class_counted_def)
    ultimately show ?thesis by auto
  qed
  ultimately have "exposure org mid s' \<le> cm_maximumSpendAtomic m + (\<Sum>x\<leftarrow>mandate_executions org mid s'. overrun x)
      + (if ex_status r \<in> {Executing, Held} then 0 else ex_reservedCostAtomic r)"
    unfolding split sums [where g = covered] by simp
  then show ?thesis using sums [where g = class_counted] new by (simp add: exposure_def)
qed

section \<open>The settlement at work on a history\<close>

text \<open>The case of the second request, which overran its reservation, is settled by the protocol.\<close>

abbreviation settle_second :: "terminal_state \<Rightarrow> string option \<Rightarrow> store_error + (policy_store \<times> (provider_result \<times> string) option)" where
  "settle_second st actual \<equiv> settleOrdinaryReconciliation no_hash id ''o'' ''r2'' st actual None 9 (sample_run overrun_ops)"

definition settles :: "terminal_state \<Rightarrow> string option \<Rightarrow> bool" where
  "settles st actual = is_ok (settle_second st actual)"

definition second_facts :: "execution_row option \<Rightarrow> bool" where
  "second_facts x = (case x of None \<Rightarrow> False | Some r \<Rightarrow> ex_mandateId r = ''m'' \<and> ex_status r = Held
     \<and> ex_reservedCostAtomic r = 30)"

lemma second_case: "second_facts (find_execution ''o'' ''r2'' (sample_run overrun_ops))"
  by code_simp

lemma settlement_exposure_exact_witness:
  "\<exists>s' q. settle_second Reconciled_billed_no_response (Some ''35'') = Inr (s', q)
     \<and> exposure ''o'' ''m'' s' = exposure ''o'' ''m'' (sample_run overrun_ops) - 30 + 35"
proof -
  have "settles Reconciled_billed_no_response (Some ''35'')" by code_simp
  then obtain s' q where s: "settle_second Reconciled_billed_no_response (Some ''35'') = Inr (s', q)"
    by (auto simp: settles_def is_ok_iff)
  from second_case obtain r where r: "find_execution ''o'' ''r2'' (sample_run overrun_ops) = Some r"
    "ex_mandateId r = ''m''" "ex_status r = Held" "ex_reservedCostAtomic r = 30"
    by (auto simp: second_facts_def split: option.splits)
  obtain m where m: "find_mandate ''o'' ''m'' (sample_run overrun_ops) = Some m" using overrun_state by auto
  have "given_cost (Some ''35'') = Some 35" by code_simp
  with settlement_exposure_exact [OF overrun_run refl s r(1) r(2) [symmetric] m] r s show ?thesis
    by (auto simp: class_counted_def)
qed

lemma settlement_confined_witness:
  "\<exists>s' q r. settle_second Reconciled_not_billed None = Inr (s', q)
     \<and> tbl_find execution_key (''o'', ''r2'') (st_executions s') = Some r \<and> ex_status r = Failed
     \<and> ex_failureCode r = Some ''RECONCILED_NOT_BILLED''"
proof -
  have "settles Reconciled_not_billed None" by code_simp
  then obtain s' q where s: "settle_second Reconciled_not_billed None = Inr (s', q)"
    by (auto simp: settles_def is_ok_iff)
  from settlement_confined [OF s] obtain r n where
    "\<forall>k. tbl_find execution_key k (st_executions s') = (if k = (''o'', ''r2'')
         then Some (r\<lparr>ex_status := Failed, ex_actualCostAtomic := Some n, ex_response := None,
           ex_failureCode := Some (failure_text Reconciled_not_billed), ex_updatedAt := 9\<rparr>)
         else tbl_find execution_key k (st_executions (sample_run overrun_ops)))" by auto
  then show ?thesis using s by simp
qed

end
