(* ===== verification/Spec2Isabelle.thy ===== *)
theory Spec2Isabelle
  imports ReceiptCommitment FuseService Lifecycles Journal Credentials Policy SiblingDivergence Reconciliation
    PolicyDelegation InferenceOutcome SignerProperties AdministrationProperties
    PolicyAdministrationProperties ProviderRun OnboardingProperties ReceiptProperties ProductModels SandboxRuns JournalStore OrdinarySettlement
begin

text \<open>
  \<^bold>\<open>Fuse agent control plane: verification library\<close>

  \<^bold>\<open>The program.\<close> Fuse is a TypeScript service that lets an organization give its software agents a
  bounded authority to spend. An administrator publishes policies and creates mandates (a budget, a policy,
  an operator) with agents assigned to them; an agent may hand part of its budget to a child branch. Every
  inference call is admitted against the mandate, the policy, the provider and the spend counters in one
  transaction, then sent to the provider, then settled; a call whose outcome is not known holds its mandate
  until it is resolved. Identities, credentials, browser sessions and invites say who may ask; provider
  secrets are kept encrypted per organization; a separate signer process guards the wallet. The first
  version of the product, a ledger with a circuit breaker for one mandate, is still part of the program
  (\<open>src/src/core\<close>).

  \<^bold>\<open>How the model is read.\<close> A class with state is a record and each method is a definition that returns
  \<open>error + result \<times> state\<close>; \<open>Inl\<close> is a thrown error and leaves the state as it was where the code
  runs in a transaction. SQL tables are lists of rows with a primary key; a statement is the insertion,
  the update or the search it performs, in the order the code issues it. Amounts are
  \<open>bigint\<close> and so are \<open>int\<close>; JavaScript numbers that the code tests with
  \<open>Number.isSafeInteger\<close> are \<open>int\<close> with the test written out; a PostgreSQL \<open>BIGINT\<close> or \<open>NUMERIC\<close> column's
  range is a check of the insertion where the code can reach it. Strings are \<open>string\<close>, time stamps are
  milliseconds. Each await of the code that another request can overtake is a step of its own, so
  concurrency is the interleaving of steps. SHA-256, keccak256, AES-256-GCM, random values and the clock
  are parameters; where a theorem relies on one, the law is a hypothesis of its statement (a hash that does
  not collide on the values at hand; \<open>aead_inverts\<close> and \<open>aead_binds\<close> for the cipher).

  \<^bold>\<open>Theories and sources\<close> (sources under \<open>src/src/\<close>)

  \<^item> \<open>FusePrelude\<close>, \<open>Decimal\<close>, \<open>BigIntText\<close>, \<open>Json\<close>, \<open>JsValue\<close>: the language. Errors, safe integers, time
  stamps, tables with keys, numerals as the program prints and reads them, JSON values and their text.
  \<open>FusePrelude\<close> declares the contracts: \<open>keyed_table\<close> (what a lookup returns after an insert or update),
  \<open>transactional\<close> (an error changes nothing, every step keeps an invariant), \<open>guarded_budget\<close> (which extends it by a
  committed amount that a limit bounds) and \<open>irrevocable\<close> (a fact no step takes back). They are
  interpreted on every store below and the properties rest on the interpretations.
  \<^item> \<open>Pricing\<close>, \<open>Circuit\<close>, \<open>BudgetLedger\<close>, \<open>ReceiptCommitment\<close>, \<open>FuseService\<close>: \<open>core/\<close>. The price parser and the cost of a call;
  the circuit breaker; the ledger with its reservations; the receipts; and the service that
  composes them, with a completion split at the await of the provider.
  \<^item> \<open>Lifecycles\<close>, \<open>Journal\<close>, \<open>Policy\<close>: \<open>domain/\<close>. The state machines, the double-entry journal, the evaluation of a policy.
  \<^item> \<open>SiblingDivergence\<close>: \<open>anomaly/siblingDivergence.ts\<close>. \<open>Reconciliation\<close>: \<open>reliability/reconciliationStateMachine.ts\<close>.
  \<^item> \<open>PolicyTables\<close>, \<open>PolicyMandates\<close>, \<open>PolicyBranches\<close>, \<open>PolicyAdmission\<close>, \<open>PolicyExecution\<close>, \<open>PolicySettlement\<close>, \<open>PolicyShadow\<close>, \<open>PolicyReads\<close>:
  the class \<open>PolicyStore\<close> of \<open>persistence/policyStore.ts\<close>, one definition per method. \<open>PolicyStoreRun\<close> makes every
  writing method a step of one machine; \<open>PolicyStoreSafety\<close> holds the invariant and its preservation,
  \<open>PolicyStoreFinality\<close> what is never taken back, \<open>PolicyDelegation\<close> the branches, \<open>PolicyStoreProperties\<close> and
  \<open>PolicyReadProperties\<close> the statements, \<open>PolicySample\<close> the history that the examples use.
  \<^item> \<open>PolicyAdministration\<close>, \<open>PolicyAdministrationProperties\<close>: \<open>policy/policyAdministration.ts\<close>,
  \<open>product/mandateManagement.ts\<close>, \<open>product/policyPublishing.ts\<close>.
  \<^item> \<open>Inference\<close>, \<open>InferenceCall\<close>, \<open>InferenceWorld\<close>, \<open>InferencePolicyStore\<close>, \<open>InferenceProperties\<close>, \<open>InferenceOutcome\<close>: \<open>inference/inferenceExecution.ts\<close>. A call is a
  machine whose steps are its awaits; a world is any number of calls over one store. \<open>inference_contract\<close> is
  what a call relies on, and \<open>InferencePolicyStore\<close> interprets it on the policy store.
  \<^item> \<open>Credentials\<close>: \<open>identity/apiCredentials.ts\<close>. \<open>IdentityTables\<close>, \<open>IdentityStore\<close>: \<open>persistence/identityStore.ts\<close>. \<open>HumanSessions\<close>, \<open>AccessControl\<close>:
  \<open>http/humanSessions.ts\<close>, \<open>http/auth.ts\<close> and the session routes. \<open>Administration\<close>: \<open>identity/credentialAdministration.ts\<close> and
  \<open>identity/workspaceInvites.ts\<close>. \<open>IdentityRun\<close>, \<open>IdentityInvariant\<close>, \<open>IdentityHistory\<close>: the database as one machine, its
  invariant, what it never takes back. \<open>IdentityProperties\<close>, \<open>AdministrationProperties\<close>: the statements.
  \<^item> \<open>ProviderSecrets\<close>, \<open>ProviderStore\<close>, \<open>ProviderAdministration\<close>, \<open>ProviderRun\<close>, \<open>ProviderProperties\<close>: \<open>providers/providerCredentials.ts\<close>,
  \<open>persistence/providerConfigStore.ts\<close>, \<open>providers/providerAdministration.ts\<close>, \<open>providers/tenantProviderResolver.ts\<close>.
  \<^item> \<open>SignerStore\<close>, \<open>SignerApp\<close>, \<open>SignerProperties\<close>: \<open>signer/authorizationStore.ts\<close> and \<open>signer/app.ts\<close>.
  \<^item> \<open>JsonParse\<close>, \<open>SecretDelivery\<close>, \<open>OnboardingStore\<close>, \<open>CustomerOnboarding\<close>, \<open>OnboardingRun\<close>, \<open>OnboardingProperties\<close>:
  \<open>product/secretDelivery.ts\<close>, both stores of \<open>product/workspaceOnboardingStore.ts\<close> and
  \<open>product/customerOnboarding.ts\<close>. \<open>fuse_db\<close> puts the identity, policy and provider tables and those of the
  onboarding into one database; a worker is one call of \<open>createWorkspace\<close> whose steps are its awaits.
  \<^item> \<open>Receipts\<close>, \<open>ReceiptProperties\<close>: \<open>product/paymentEvidence.ts\<close> and \<open>product/receipts.ts\<close> with the port that \<open>runtime.ts\<close>
  builds on the policy store. \<open>ProductModels\<close>: the onboarding state, the readiness reports, the projections and the
  operational audit of \<open>product/\<close>. \<open>SandboxRuns\<close>: the demonstration run and its stores.
  \<^item> \<open>JournalStore\<close>: \<open>persistence/productionFoundation.ts\<close>. \<open>OrdinarySettlement\<close>: \<open>reliability/commitments.ts\<close> and
  \<open>reliability/ordinaryReconciliationSettlement.ts\<close>, whose transaction runs on the policy store's tables.
  \<^bold>\<open>What is shown\<close>

  \<^item> Money. In every history of the policy store a mandate's settled and reserved spend stays within its
  budget, the counters agree with the executions they summarize, children stay within their parent, and an
  execution or a resolution that is final stays as it is. The core ledger conserves the maximum, and its
  completions settle exactly.
  \<^item> Calls. For any number of concurrent calls the provider is called at most once per execution,
  only for an admitted request, and never while a case is open on the mandate; a call left to run ends within
  nine of its own steps with its reservation released, settled or held. What its execution row then says
  and what the caller is told are those the provider's reply calls for, written out case by case.
  \<^item> Authority. Authentication accepts exactly the live credentials and sessions; a revoked one is locked
  out for good; an administrator changes only rows of its own organization; an invite is accepted
  once; every change of a policy or mandate is one row of the audit trail; a provider credential that resolves was accepted by the verifier for that configuration, and an
  envelope opens only where it was made for; the signer signs only allowed transfers, within its authority.
  \<^item> Onboarding. However workers interleave, die or lose their lease, a workspace is created once per
  idempotency key with a result that is not replaced, and a worker that gave up left no row behind. A
  sealed delivery opens, and only with the key and in the context it was sealed for.
  \<^item> Receipts and settlements. Receipts show what the caller may see and their pages lose nothing; the journal
  of an organization is read back as exactly what was accepted for it. A settlement of the reliability
  protocol changes the exposure of its mandate by exactly what it settles, and in the terminal states 3, 4
  and 6 writes one row and one resolution; state 5 never commits, since the code asks for a shadow flag
  that the store never writes, and no state looks at the status of the execution.
  \<^item> Routines. The breaker trips exactly when the source's comparison says so, divergence is computed exactly, the
  journal nets to zero, the reconciliation plan is total and resolves only on evidence, a reader of the
  decision pages terminates with every decision, exports and numerals are read back.

  \<^bold>\<open>Bounds.\<close> No theorem has a fuel bound. The reader of pages and the other loops are structural or
  \<open>partial_function (option)\<close> with a proof that they return. The examples evaluate concrete histories in the
  kernel; they show that the hypotheses can hold and carry no theorem.

  \<^bold>\<open>Not modelled.\<close> The routes of \<open>http/app.ts\<close> other than the session routes (request parsing and calls of
  the components above) and the pages; the creation and migration of schemas, connections and advisory locks (a
  transaction is one step, which is what the locks are for); callbacks that the caller runs inside a
  transaction; the HTTP clients of the providers, of the operators and of \<open>packages/fuse-client\<close>; the Circle
  SDK; the drivers and artifacts of the reliability experiment under \<open>evidence/\<close>, \<open>reliability/protocolStore.ts\<close> and \<open>scripts/\<close>,
  which read and write files and networks. The Solidity
  contract is another language.
\<close>

end
